(* ===== verification/Prelude.thy ===== *)
theory Prelude
  imports Main "HOL-Library.Word"
begin

text \<open>
  Shared vocabulary of the development: how a Go function that may return an error or panic
  is written as a state-passing HOL function, the two sequencing combinators the models are
  composed with, and the small logic (\<open>frame\<close>, \<open>keeps\<close>) in which facts about
  composed operations are proved once and collected for the simplifier.
\<close>

named_theorems frames \<open>what an operation leaves untouched\<close>
named_theorems keepers \<open>predicates on the state that an operation preserves\<close>

section \<open>Errors and panics\<close>

text \<open>
  A Go error is a value.  \<open>StatusError\<close> is the error of the Kubernetes API machinery, of which
  the code only asks whether its reason is NotFound or AlreadyExists; \<open>PlainError\<close> is the
  result of \<open>errors.New\<close> and of \<open>fmt.Errorf\<close> without \<open>%w\<close>; \<open>WrapError\<close> is \<open>fmt.Errorf\<close>
  with a trailing \<open>%w\<close>.  The last two constructors are the error types of the generated
  Redfish server.
\<close>

datatype status_reason = ReasonNotFound | ReasonAlreadyExists | ReasonConflict | ReasonOther

datatype go_error =
    StatusError status_reason string
  | PlainError string
  | WrapError string go_error
  | ParsingError string go_error
  | RequiredError string

fun error_string :: "go_error \<Rightarrow> string" where
  "error_string (StatusError _ m) = m"
| "error_string (PlainError m) = m"
| "error_string (WrapError m e) = m @ error_string e"
| "error_string (ParsingError p e) =
     (if p = '''' then error_string e else p @ '': '' @ error_string e)"
| "error_string (RequiredError f) = ''required field '' @ [CHR 0x27] @ f @ [CHR 0x27] @ '' is zero value.''"

text \<open>The documented meaning of \<open>apierrors.IsNotFound\<close> and \<open>apierrors.IsAlreadyExists\<close>.\<close>

fun is_not_found :: "go_error \<Rightarrow> bool" where
  "is_not_found (StatusError r _) \<longleftrightarrow> r = ReasonNotFound"
| "is_not_found (WrapError _ e) \<longleftrightarrow> is_not_found e"
| "is_not_found _ \<longleftrightarrow> False"

fun is_already_exists :: "go_error \<Rightarrow> bool" where
  "is_already_exists (StatusError r _) \<longleftrightarrow> r = ReasonAlreadyExists"
| "is_already_exists (WrapError _ e) \<longleftrightarrow> is_already_exists e"
| "is_already_exists _ \<longleftrightarrow> False"

text \<open>
  What a call produces: a value, an error, or a panic that unwinds past every \<open>err != nil\<close>
  test of the callers.
\<close>

datatype panic = NilDereference | IndexOutOfRange | ExplicitPanic string

datatype 'a outcome = Ok 'a | Err go_error | Panic panic

type_synonym ('s, 'a) op = "'s \<Rightarrow> 'a outcome \<times> 's"

section \<open>Sequencing\<close>

definition ret :: "'a \<Rightarrow> ('s, 'a) op" where
  "ret a s = (Ok a, s)"

definition fail :: "go_error \<Rightarrow> ('s, 'a) op" where
  "fail e s = (Err e, s)"

definition crash :: "panic \<Rightarrow> ('s, 'a) op" where
  "crash p s = (Panic p, s)"

text \<open>
  \<open>attempt m h k\<close> is \<open>if x, err := m(); err != nil { h(err) } else { k(x) }\<close>; \<open>andThen m k\<close>
  is the same with \<open>return err\<close> as its error branch.  A panic of \<open>m\<close> skips both branches.
\<close>

definition attempt ::
  "('s, 'a) op \<Rightarrow> (go_error \<Rightarrow> ('s, 'b) op) \<Rightarrow> ('a \<Rightarrow> ('s, 'b) op) \<Rightarrow> ('s, 'b) op" where
  "attempt m h k s =
     (case m s of
        (Ok a, s') \<Rightarrow> k a s'
      | (Err e, s') \<Rightarrow> h e s'
      | (Panic p, s') \<Rightarrow> (Panic p, s'))"

definition andThen :: "('s, 'a) op \<Rightarrow> ('a \<Rightarrow> ('s, 'b) op) \<Rightarrow> ('s, 'b) op" where
  "andThen m k = attempt m fail k"

text \<open>A result that depends on no state, and an operation on one part of the state.\<close>

definition pureR :: "'a outcome \<Rightarrow> ('s, 'a) op" where
  "pureR r s = (r, s)"

definition onPart :: "('s \<Rightarrow> 'w) \<Rightarrow> ('w \<Rightarrow> 's \<Rightarrow> 's) \<Rightarrow> ('w, 'a) op \<Rightarrow> ('s, 'a) op" where
  "onPart get put m s = (case m (get s) of (r, w) \<Rightarrow> (r, put w s))"

definition readS :: "('s \<Rightarrow> 'a) \<Rightarrow> ('s, 'a) op" where
  "readS f s = (Ok (f s), s)"

definition modifyS :: "('s \<Rightarrow> 's) \<Rightarrow> ('s, unit) op" where
  "modifyS f s = (Ok (), f s)"

lemma ret_run [simp]: "ret a s = (Ok a, s)" by (simp add: ret_def)
lemma fail_run [simp]: "fail e s = (Err e, s)" by (simp add: fail_def)
lemma crash_run [simp]: "crash p s = (Panic p, s)" by (simp add: crash_def)
lemma pureR_run [simp]: "pureR r s = (r, s)" by (simp add: pureR_def)
lemma readS_run [simp]: "readS f s = (Ok (f s), s)" by (simp add: readS_def)
lemma modifyS_run [simp]: "modifyS f s = (Ok (), f s)" by (simp add: modifyS_def)

lemma attempt_Ok: "m s = (Ok a, t) \<Longrightarrow> attempt m h k s = k a t"
  by (simp add: attempt_def)

lemma attempt_Err: "m s = (Err e, t) \<Longrightarrow> attempt m h k s = h e t"
  by (simp add: attempt_def)

lemma attempt_Panic: "m s = (Panic p, t) \<Longrightarrow> attempt m h k s = (Panic p, t)"
  by (simp add: attempt_def)

lemma andThen_Ok: "m s = (Ok a, t) \<Longrightarrow> andThen m k s = k a t"
  by (simp add: andThen_def attempt_Ok)

lemma andThen_Err: "m s = (Err e, t) \<Longrightarrow> andThen m k s = (Err e, t)"
  by (simp add: andThen_def attempt_Err)

lemma andThen_Panic: "m s = (Panic p, t) \<Longrightarrow> andThen m k s = (Panic p, t)"
  by (simp add: andThen_def attempt_Panic)

lemma run_fst: "fst (m s) = r \<Longrightarrow> m s = (r, snd (m s))"
  by (cases "m s") simp

lemma andThen_simps [simp]:
  "andThen (ret a) k = k a"
  "andThen (fail e) k = fail e"
  "andThen (crash p) k = crash p"
  "andThen (readS f) k s = k (f s) s"
  "andThen (modifyS g) h s = h () (g s)"
  "andThen (pureR (Ok a)) k = k a"
  "andThen (pureR (Err e)) k = fail e"
  "andThen (pureR (Panic p)) k = crash p"
  by (auto simp: andThen_def attempt_def fun_eq_iff)

lemma attempt_simps [simp]:
  "attempt (ret a) h k = k a"
  "attempt (fail e) h k = h e"
  "attempt (crash p) h k = crash p"
  "attempt (pureR (Ok a)) h k = k a"
  "attempt (pureR (Err e)) h k = h e"
  "attempt (pureR (Panic p)) h k = crash p"
  by (auto simp: attempt_def fun_eq_iff)

text \<open>A successful run of a sequence is a successful run of both parts.\<close>

lemma andThen_OkE:
  assumes "andThen m k s = (Ok b, u)"
  obtains a t where "m s = (Ok a, t)" and "k a t = (Ok b, u)"
  using assms by (auto simp: andThen_def attempt_def split: prod.splits outcome.splits)

lemma andThen_cases:
  assumes "andThen m k s = (r, u)"
  obtains (Ok) a t where "m s = (Ok a, t)" "k a t = (r, u)"
  | (Err) e where "m s = (Err e, u)" "r = Err e"
  | (Panic) p where "m s = (Panic p, u)" "r = Panic p"
  using assms by (auto simp: andThen_def attempt_def split: prod.splits outcome.splits)

lemma andThen_assoc: "andThen (andThen m k) h = andThen m (\<lambda>a. andThen (k a) h)"
  by (auto simp: andThen_def attempt_def fun_eq_iff split: prod.splits outcome.splits)

section \<open>Frames and preserved predicates\<close>

definition frame :: "('s \<Rightarrow> 'b) \<Rightarrow> ('s, 'a) op \<Rightarrow> bool" where
  "frame f m \<longleftrightarrow> (\<forall>s. f (snd (m s)) = f s)"

definition keeps :: "('s \<Rightarrow> bool) \<Rightarrow> ('s, 'a) op \<Rightarrow> bool" where
  "keeps P m \<longleftrightarrow> (\<forall>s. P s \<longrightarrow> P (snd (m s)))"

lemma frameI: "(\<And>s. f (snd (m s)) = f s) \<Longrightarrow> frame f m"
  by (simp add: frame_def)

lemma frameD: "frame f m \<Longrightarrow> m s = (r, t) \<Longrightarrow> f t = f s"
  unfolding frame_def by (metis snd_conv)

lemma frame_snd: "frame f m \<Longrightarrow> f (snd (m s)) = f s"
  by (simp add: frame_def)

lemma keepsI: "(\<And>s. P s \<Longrightarrow> P (snd (m s))) \<Longrightarrow> keeps P m"
  by (simp add: keeps_def)

lemma keepsD: "keeps P m \<Longrightarrow> P s \<Longrightarrow> m s = (r, t) \<Longrightarrow> P t"
  unfolding keeps_def by (metis snd_conv)

lemma frame_keeps: "frame f m \<Longrightarrow> keeps (\<lambda>s. Q (f s)) m"
  by (simp add: frame_def keeps_def)

lemma frame_basic [frames]:
  "frame f (ret a)" "frame f (fail e)" "frame f (crash p)" "frame f (pureR r)" "frame f (readS g)" "frame f (Pair r)"
  by (simp_all add: frame_def)

lemma keeps_basic [keepers]:
  "keeps P (ret a)" "keeps P (fail e)" "keeps P (crash p)" "keeps P (pureR r)" "keeps P (readS g)" "keeps P (Pair r)"
  by (simp_all add: keeps_def)

lemma keeps_attempt [keepers]:
  assumes "keeps P m" "\<And>e. keeps P (h e)" "\<And>a. keeps P (k a)"
  shows "keeps P (attempt m h k)"
proof (rule keepsI)
  fix s assume P: "P s"
  obtain r t where m: "m s = (r, t)" by force
  have "P t" by (rule keepsD [OF assms(1) P m])
  with assms(2,3) m show "P (snd (attempt m h k s))"
    by (cases r) (auto simp: attempt_def keeps_def)
qed

lemma keeps_andThen [keepers]:
  "keeps P m \<Longrightarrow> (\<And>a. keeps P (k a)) \<Longrightarrow> keeps P (andThen m k)"
  unfolding andThen_def by (intro keeps_attempt keeps_basic)

lemma frame_if: "(c \<Longrightarrow> frame f m) \<Longrightarrow> (\<not> c \<Longrightarrow> frame f n) \<Longrightarrow> frame f (if c then m else n)"
  by simp

lemma keeps_if: "(c \<Longrightarrow> keeps P m) \<Longrightarrow> (\<not> c \<Longrightarrow> keeps P n) \<Longrightarrow> keeps P (if c then m else n)"
  by simp

lemma frame_attempt [frames]:
  assumes "frame f m" "\<And>e. frame f (h e)" "\<And>a. frame f (k a)"
  shows "frame f (attempt m h k)"
proof (rule frameI)
  fix s
  obtain r t where m: "m s = (r, t)" by force
  with assms(1) have "f t = f s" by (rule frameD)
  with assms(2,3) m show "f (snd (attempt m h k s)) = f s"
    by (cases r) (auto simp: attempt_def frame_def)
qed

lemma frame_andThen [frames]:
  "frame f m \<Longrightarrow> (\<And>a. frame f (k a)) \<Longrightarrow> frame f (andThen m k)"
  unfolding andThen_def by (intro frame_attempt frame_basic)

lemma frame_onPart [frames]:
  "(\<And>w s. f (put w s) = f s) \<Longrightarrow> frame f (onPart get put m)"
  by (auto simp: frame_def onPart_def split: prod.splits)

lemma keeps_onPart [keepers]:
  "(\<And>w s. P s \<Longrightarrow> P (put w s)) \<Longrightarrow> keeps P (onPart get put m)"
  by (auto simp: keeps_def onPart_def split: prod.splits)

lemma frame_modifyS [frames]: "(\<And>s. f (g s) = f s) \<Longrightarrow> frame f (modifyS g)"
  by (simp add: frame_def)

lemma keeps_modifyS [keepers]: "(\<And>s. P s \<Longrightarrow> P (g s)) \<Longrightarrow> keeps P (modifyS g)"
  by (simp add: keeps_def)

lemma onPart_run: "m (get s) = (r, w) \<Longrightarrow> onPart get put m s = (r, put w s)"
  by (simp add: onPart_def)

section \<open>Calls of an API server\<close>

text \<open>
  A call of the API server: it never panics, an answer has the given effect on the view and
  presupposes the given condition, and a refusal leaves the view alone.
\<close>

definition api_call ::
  "('w \<Rightarrow> 'v) \<Rightarrow> ('w, 'a) op \<Rightarrow> ('v \<Rightarrow> 'a \<Rightarrow> bool) \<Rightarrow> ('v \<Rightarrow> 'v) \<Rightarrow> bool" where
  "api_call view m pre eff \<longleftrightarrow>
     (\<forall>w. case m w of
        (Ok a, w') \<Rightarrow> pre (view w) a \<and> view w' = eff (view w)
      | (Err e, w') \<Rightarrow> view w' = view w
      | (Panic p, w') \<Rightarrow> False)"

lemma api_call_Ok:
  "api_call view m pre eff \<Longrightarrow> m w = (Ok a, w') \<Longrightarrow> pre (view w) a \<and> view w' = eff (view w)"
  unfolding api_call_def by (drule spec [of _ w]) simp

lemma api_call_Err: "api_call view m pre eff \<Longrightarrow> m w = (Err e, w') \<Longrightarrow> view w' = view w"
  unfolding api_call_def by (drule spec [of _ w]) simp

lemma api_call_Panic: "api_call view m pre eff \<Longrightarrow> m w \<noteq> (Panic p, w')"
  unfolding api_call_def by (drule spec [of _ w]) auto

text \<open>A call that is answered whenever its condition holds.\<close>

definition answers :: "('w \<Rightarrow> 'v) \<Rightarrow> ('w, 'a) op \<Rightarrow> ('v \<Rightarrow> bool) \<Rightarrow> bool" where
  "answers view m pre \<longleftrightarrow> (\<forall>w. pre (view w) \<longrightarrow> (\<exists>a w'. m w = (Ok a, w')))"

text \<open>
  The three kinds of calls the controllers make.  A read returns the object of the view, a creation
  needs its place to be free, a deletion its object to be there; a NotFound or AlreadyExists error
  tells the truth, and any other refusal is allowed and has no effect.
\<close>

definition api_get :: "('w \<Rightarrow> 'v) \<Rightarrow> ('w, 'a) op \<Rightarrow> ('v \<Rightarrow> 'a option) \<Rightarrow> bool" where
  "api_get view m look \<longleftrightarrow>
     (\<forall>w. view (snd (m w)) = view w \<and>
        (case fst (m w) of Ok a \<Rightarrow> look (view w) = Some a | Err e \<Rightarrow> is_not_found e \<longrightarrow> look (view w) = None | Panic p \<Rightarrow> False))"

definition api_create :: "('w \<Rightarrow> 'v) \<Rightarrow> ('w, unit) op \<Rightarrow> ('v \<Rightarrow> bool) \<Rightarrow> ('v \<Rightarrow> 'v) \<Rightarrow> bool" where
  "api_create view m present eff \<longleftrightarrow>
     (\<forall>w. case fst (m w) of
        Ok _ \<Rightarrow> \<not> present (view w) \<and> view (snd (m w)) = eff (view w)
      | Err e \<Rightarrow> view (snd (m w)) = view w \<and> (is_already_exists e \<longrightarrow> present (view w))
      | Panic p \<Rightarrow> False)"

definition api_delete :: "('w \<Rightarrow> 'v) \<Rightarrow> ('w, unit) op \<Rightarrow> ('v \<Rightarrow> bool) \<Rightarrow> ('v \<Rightarrow> 'v) \<Rightarrow> bool" where
  "api_delete view m present eff \<longleftrightarrow>
     (\<forall>w. case fst (m w) of
        Ok _ \<Rightarrow> present (view w) \<and> view (snd (m w)) = eff (view w)
      | Err e \<Rightarrow> view (snd (m w)) = view w \<and> (is_not_found e \<longrightarrow> \<not> present (view w))
      | Panic p \<Rightarrow> False)"

lemma api_get_run:
  "api_get view m look \<Longrightarrow> m w = (r, w') \<Longrightarrow> view w' = view w \<and>
     (case r of Ok a \<Rightarrow> look (view w) = Some a | Err e \<Rightarrow> is_not_found e \<longrightarrow> look (view w) = None | Panic p \<Rightarrow> False)"
  unfolding api_get_def by (metis fst_conv snd_conv)

lemma api_create_run:
  "api_create view m present eff \<Longrightarrow> m w = (r, w') \<Longrightarrow>
     (case r of
        Ok _ \<Rightarrow> \<not> present (view w) \<and> view w' = eff (view w)
      | Err e \<Rightarrow> view w' = view w \<and> (is_already_exists e \<longrightarrow> present (view w))
      | Panic p \<Rightarrow> False)"
  unfolding api_create_def by (metis fst_conv snd_conv)

lemma api_delete_run:
  "api_delete view m present eff \<Longrightarrow> m w = (r, w') \<Longrightarrow>
     (case r of
        Ok _ \<Rightarrow> present (view w) \<and> view w' = eff (view w)
      | Err e \<Rightarrow> view w' = view w \<and> (is_not_found e \<longrightarrow> \<not> present (view w))
      | Panic p \<Rightarrow> False)"
  unfolding api_delete_def by (metis fst_conv snd_conv)

text \<open>A server that refuses nothing without the reason that names it.\<close>

definition refuses_absent :: "('w, 'a) op \<Rightarrow> bool" where
  "refuses_absent m \<longleftrightarrow> (\<forall>w e. fst (m w) = Err e \<longrightarrow> is_not_found e)"

definition refuses_present :: "('w, 'a) op \<Rightarrow> bool" where
  "refuses_present m \<longleftrightarrow> (\<forall>w e. fst (m w) = Err e \<longrightarrow> is_already_exists e)"

lemma refuses_absentD: "refuses_absent m \<Longrightarrow> m w = (Err e, w') \<Longrightarrow> is_not_found e"
  unfolding refuses_absent_def by (metis fst_conv)

lemma refuses_presentD: "refuses_present m \<Longrightarrow> m w = (Err e, w') \<Longrightarrow> is_already_exists e"
  unfolding refuses_present_def by (metis fst_conv)

section \<open>Decimal rendering and joining\<close>

text \<open>\<open>strconv.Itoa\<close> and the \<open>%d\<close> verb on non-negative values.\<close>

fun itoa :: "nat \<Rightarrow> string" where
  "itoa n = (if n < 10 then [char_of (48 + n)] else itoa (n div 10) @ [char_of (48 + n mod 10)])"

declare itoa.simps [simp del]

lemma itoa_nonempty: "itoa n \<noteq> []"
  by (subst itoa.simps) simp

text \<open>\<open>strings.Join\<close>.\<close>

fun join :: "string list \<Rightarrow> string \<Rightarrow> string" where
  "join [] sep = []"
| "join [x] sep = x"
| "join (x # y # ys) sep = x @ sep @ join (y # ys) sep"

definition hex_digit :: "nat \<Rightarrow> char" where
  "hex_digit n = ''0123456789abcdef'' ! n"

text \<open>
  The \<open>%q\<close> verb: printable characters stand for themselves, the quote, the backslash and the
  control characters are escaped.  A string is its UTF-8 bytes; non-ASCII text is taken to be
  printable.
\<close>

definition quote_char :: "char \<Rightarrow> string" where
  "quote_char c =
     (let n = of_char c :: nat in
      if n = 0x22 \<or> n = 0x5C then [CHR 0x5C, c]
      else if n = 7 then [CHR 0x5C, CHR ''a''] else if n = 8 then [CHR 0x5C, CHR ''b'']
      else if n = 12 then [CHR 0x5C, CHR ''f''] else if n = 10 then [CHR 0x5C, CHR ''n'']
      else if n = 13 then [CHR 0x5C, CHR ''r''] else if n = 9 then [CHR 0x5C, CHR ''t'']
      else if n = 11 then [CHR 0x5C, CHR ''v'']
      else if n < 32 \<or> n = 127 then [CHR 0x5C, CHR ''x'', hex_digit (n div 16), hex_digit (n mod 16)]
      else [c])"

definition quoted :: "string \<Rightarrow> string" where
  "quoted s = [CHR 0x22] @ concat (map quote_char s) @ [CHR 0x22]"

end
