(* ===== verification/Schema.thy ===== *)
theory Schema
  imports Prelude Complex_Main "HOL-Library.Multiset"
begin

text \<open>
  The generated Redfish data model (pkg/generated/redfish/server, model_*.go): how Go values of its
  field types are represented, the checks its assertion functions are put together from, and its
  enumerations.
\<close>

section \<open>Field types\<close>

text \<open>
  A pointer is an option, a slice or a map an option too, because a nil slice is not an empty one:
  \<open>IsZeroValue\<close> tells them apart.  A float32 is the rational number it stands for (the decoder never
  yields a NaN or an infinity), a time the text of its RFC 3339 form.
\<close>

datatype json = JNull | JBool bool | JNumber int | JString string | JArray "json list" | JObject "(string \<times> json) list"

type_synonym 'a slice = "'a list option"
type_synonym 'a gomap = "(string \<times> 'a) list option"
type_synonym float32 = rat
type_synonym Time = string

definition zero_Time :: Time where
  "zero_Time = ''0001-01-01T00:00:00Z''"

definition elems :: "'a slice \<Rightarrow> 'a list" where
  "elems xs = (case xs of None \<Rightarrow> [] | Some ys \<Rightarrow> ys)"

lemma elems_simps [simp]: "elems None = []" "elems (Some ys) = ys"
  by (simp_all add: elems_def)

section \<open>Assertions\<close>

text \<open>The first of a sequence of checks that fails: \<open>if err := check(...); err != nil { return err }\<close>.\<close>

fun first_error :: "go_error option list \<Rightarrow> go_error option" where
  "first_error [] = None"
| "first_error (None # checks) = first_error checks"
| "first_error (Some err # checks) = Some err"

definition each :: "('a \<Rightarrow> go_error option) \<Rightarrow> 'a slice \<Rightarrow> go_error option" where
  "each check xs = first_error (map check (elems xs))"

text \<open>
  The required fields of a struct are put into a map, with whether they are zero, and the range
  over that map visits them in an order the runtime chooses.
\<close>

type_synonym field_order = "(string \<times> bool) list \<Rightarrow> (string \<times> bool) list"

definition any_field_order :: "field_order \<Rightarrow> bool" where
  "any_field_order ord \<longleftrightarrow> (\<forall>fields. mset (ord fields) = mset fields)"

definition required :: "field_order \<Rightarrow> (string \<times> bool) list \<Rightarrow> go_error option" where
  "required ord elements =
     (case find snd (ord elements) of None \<Rightarrow> None | Some (name, _) \<Rightarrow> Some (RequiredError name))"

definition errMsgMinValueConstraint :: string where
  "errMsgMinValueConstraint = ''provided parameter is not respecting minimum value constraint''"

definition too_small :: "string \<Rightarrow> go_error" where
  "too_small name = ParsingError name (PlainError errMsgMinValueConstraint)"

definition minimum :: "string \<Rightarrow> float32 option \<Rightarrow> go_error option" where
  "minimum name v = (case v of None \<Rightarrow> None | Some n \<Rightarrow> if n < 0 then Some (too_small name) else None)"

section \<open>Enumerations\<close>

text \<open>
  An enumeration is a string type with a constant per value, the list of the allowed values and
  the map that validates them.  Nothing keeps a value outside the list from a variable of the type:
  the zero value is one, and decoding checks nothing.
\<close>

record enumeration =
  en_name :: string
  en_constants :: "string list"
  en_allowed :: "string list"
  en_valid :: "string list"

definition IsValid :: "enumeration \<Rightarrow> string \<Rightarrow> bool" where
  "IsValid e v \<longleftrightarrow> v \<in> set (en_valid e)"

fun words :: "string list \<Rightarrow> string" where
  "words [] = []"
| "words [v] = v"
| "words (v # vs) = v @ '' '' @ words vs"

definition NewFromValue :: "enumeration \<Rightarrow> string \<Rightarrow> go_error + string" where
  "NewFromValue e v =
     (if IsValid e v then Inr v
      else Inl (PlainError (''invalid value '' @ [CHR 0x27] @ v @ [CHR 0x27] @ '' for '' @ en_name e
             @ '': valid values are ['' @ words (en_allowed e) @ '']'')))"

type_synonym ComputerSystemV1220HostingRole = string

definition ComputerSystemV1220HostingRole_enum :: enumeration where
  "ComputerSystemV1220HostingRole_enum =
     \<lparr>en_name = ''ComputerSystemV1220HostingRole'',
      en_constants = [''ApplicationServer'', ''StorageServer'', ''Switch'', ''Appliance'', ''BareMetalServer'',
       ''VirtualMachineServer'', ''ContainerServer''],
      en_allowed = [''ApplicationServer'', ''StorageServer'', ''Switch'', ''Appliance'', ''BareMetalServer'',
       ''VirtualMachineServer'', ''ContainerServer''],
      en_valid = [''ApplicationServer'', ''StorageServer'', ''Switch'', ''Appliance'', ''BareMetalServer'',
       ''VirtualMachineServer'', ''ContainerServer'']\<rparr>"

type_synonym ComputerSystemV1220IndicatorLed = string

definition ComputerSystemV1220IndicatorLed_enum :: enumeration where
  "ComputerSystemV1220IndicatorLed_enum =
     \<lparr>en_name = ''ComputerSystemV1220IndicatorLed'',
      en_constants = [''Unknown'', ''Lit'', ''Blinking'', ''Off''],
      en_allowed = [''Unknown'', ''Lit'', ''Blinking'', ''Off''],
      en_valid = [''Unknown'', ''Lit'', ''Blinking'', ''Off'']\<rparr>"

type_synonym ComputerSystemV1220PowerMode = string

definition ComputerSystemV1220PowerMode_enum :: enumeration where
  "ComputerSystemV1220PowerMode_enum =
     \<lparr>en_name = ''ComputerSystemV1220PowerMode'',
      en_constants = [''MaximumPerformance'', ''BalancedPerformance'', ''PowerSaving'', ''Static'', ''OSControlled'', ''OEM'',
       ''EfficiencyFavorPower'', ''EfficiencyFavorPerformance''],
      en_allowed = [''MaximumPerformance'', ''BalancedPerformance'', ''PowerSaving'', ''Static'', ''OSControlled'', ''OEM'',
       ''EfficiencyFavorPower'', ''EfficiencyFavorPerformance''],
      en_valid = [''MaximumPerformance'', ''BalancedPerformance'', ''PowerSaving'', ''Static'', ''OSControlled'', ''OEM'',
       ''EfficiencyFavorPower'', ''EfficiencyFavorPerformance'']\<rparr>"

type_synonym ComputerSystemV1220PowerRestorePolicyTypes = string

definition ComputerSystemV1220PowerRestorePolicyTypes_enum :: enumeration where
  "ComputerSystemV1220PowerRestorePolicyTypes_enum =
     \<lparr>en_name = ''ComputerSystemV1220PowerRestorePolicyTypes'',
      en_constants = [''AlwaysOn'', ''AlwaysOff'', ''LastState''],
      en_allowed = [''AlwaysOn'', ''AlwaysOff'', ''LastState''],
      en_valid = [''AlwaysOn'', ''AlwaysOff'', ''LastState'']\<rparr>"

type_synonym ResourcePowerState = string

definition ResourcePowerState_enum :: enumeration where
  "ResourcePowerState_enum =
     \<lparr>en_name = ''ResourcePowerState'',
      en_constants = [''On'', ''Off'', ''PoweringOn'', ''PoweringOff'', ''Paused''],
      en_allowed = [''On'', ''Off'', ''PoweringOn'', ''PoweringOff'', ''Paused''],
      en_valid = [''On'', ''Off'', ''PoweringOn'', ''PoweringOff'', ''Paused'']\<rparr>"

type_synonym ComputerSystemV1220SystemType = string

definition ComputerSystemV1220SystemType_enum :: enumeration where
  "ComputerSystemV1220SystemType_enum =
     \<lparr>en_name = ''ComputerSystemV1220SystemType'',
      en_constants = [''Physical'', ''Virtual'', ''OS'', ''PhysicallyPartitioned'', ''VirtuallyPartitioned'', ''Composed'',
       ''DPU''],
      en_allowed = [''Physical'', ''Virtual'', ''OS'', ''PhysicallyPartitioned'', ''VirtuallyPartitioned'', ''Composed'',
       ''DPU''],
      en_valid = [''Physical'', ''Virtual'', ''OS'', ''PhysicallyPartitioned'', ''VirtuallyPartitioned'', ''Composed'',
       ''DPU'']\<rparr>"

type_synonym ComputerSystemBootSource = string

definition ComputerSystemBootSource_enum :: enumeration where
  "ComputerSystemBootSource_enum =
     \<lparr>en_name = ''ComputerSystemBootSource'',
      en_constants = [''None'', ''Pxe'', ''Floppy'', ''Cd'', ''Usb'', ''Hdd'', ''BiosSetup'', ''Utilities'', ''Diags'',
       ''UefiShell'', ''UefiTarget'', ''SDCard'', ''UefiHttp'', ''RemoteDrive'', ''UefiBootNext'', ''Recovery''],
      en_allowed = [''None'', ''Pxe'', ''Floppy'', ''Cd'', ''Usb'', ''Hdd'', ''BiosSetup'', ''Utilities'', ''Diags'',
       ''UefiShell'', ''UefiTarget'', ''SDCard'', ''UefiHttp'', ''RemoteDrive'', ''UefiBootNext'', ''Recovery''],
      en_valid = [''None'', ''Pxe'', ''Floppy'', ''Cd'', ''Usb'', ''Hdd'', ''BiosSetup'', ''Utilities'', ''Diags'',
       ''UefiShell'', ''UefiTarget'', ''SDCard'', ''UefiHttp'', ''RemoteDrive'', ''UefiBootNext'', ''Recovery'']\<rparr>"

type_synonym ComputerSystemV1220AutomaticRetryConfig = string

definition ComputerSystemV1220AutomaticRetryConfig_enum :: enumeration where
  "ComputerSystemV1220AutomaticRetryConfig_enum =
     \<lparr>en_name = ''ComputerSystemV1220AutomaticRetryConfig'',
      en_constants = [''Disabled'', ''RetryAttempts'', ''RetryAlways''],
      en_allowed = [''Disabled'', ''RetryAttempts'', ''RetryAlways''],
      en_valid = [''Disabled'', ''RetryAttempts'', ''RetryAlways'']\<rparr>"

type_synonym ComputerSystemV1220BootOrderTypes = string

definition ComputerSystemV1220BootOrderTypes_enum :: enumeration where
  "ComputerSystemV1220BootOrderTypes_enum =
     \<lparr>en_name = ''ComputerSystemV1220BootOrderTypes'',
      en_constants = [''BootOrder'', ''AliasBootOrder''],
      en_allowed = [''BootOrder'', ''AliasBootOrder''],
      en_valid = [''BootOrder'', ''AliasBootOrder'']\<rparr>"

type_synonym ComputerSystemV1220BootSourceOverrideEnabled = string

definition ComputerSystemV1220BootSourceOverrideEnabled_enum :: enumeration where
  "ComputerSystemV1220BootSourceOverrideEnabled_enum =
     \<lparr>en_name = ''ComputerSystemV1220BootSourceOverrideEnabled'',
      en_constants = [''Disabled'', ''Once'', ''Continuous''],
      en_allowed = [''Disabled'', ''Once'', ''Continuous''],
      en_valid = [''Disabled'', ''Once'', ''Continuous'']\<rparr>"

type_synonym ComputerSystemV1220BootSourceOverrideMode = string

definition ComputerSystemV1220BootSourceOverrideMode_enum :: enumeration where
  "ComputerSystemV1220BootSourceOverrideMode_enum =
     \<lparr>en_name = ''ComputerSystemV1220BootSourceOverrideMode'',
      en_constants = [''Legacy'', ''UEFI''],
      en_allowed = [''Legacy'', ''UEFI''],
      en_valid = [''Legacy'', ''UEFI'']\<rparr>"

type_synonym ComputerSystemV1220StopBootOnFault = string

definition ComputerSystemV1220StopBootOnFault_enum :: enumeration where
  "ComputerSystemV1220StopBootOnFault_enum =
     \<lparr>en_name = ''ComputerSystemV1220StopBootOnFault'',
      en_constants = [''Never'', ''AnyFault''],
      en_allowed = [''Never'', ''AnyFault''],
      en_valid = [''Never'', ''AnyFault'']\<rparr>"

type_synonym ComputerSystemV1220TrustedModuleRequiredToBoot = string

definition ComputerSystemV1220TrustedModuleRequiredToBoot_enum :: enumeration where
  "ComputerSystemV1220TrustedModuleRequiredToBoot_enum =
     \<lparr>en_name = ''ComputerSystemV1220TrustedModuleRequiredToBoot'',
      en_constants = [''Disabled'', ''Required''],
      en_allowed = [''Disabled'', ''Required''],
      en_valid = [''Disabled'', ''Required'']\<rparr>"

type_synonym ComputerSystemV1220BootProgressTypes = string

definition ComputerSystemV1220BootProgressTypes_enum :: enumeration where
  "ComputerSystemV1220BootProgressTypes_enum =
     \<lparr>en_name = ''ComputerSystemV1220BootProgressTypes'',
      en_constants = [''None'', ''PrimaryProcessorInitializationStarted'', ''BusInitializationStarted'',
       ''MemoryInitializationStarted'', ''SecondaryProcessorInitializationStarted'',
       ''PCIResourceConfigStarted'', ''SystemHardwareInitializationComplete'', ''SetupEntered'',
       ''OSBootStarted'', ''OSRunning'', ''OEM''],
      en_allowed = [''None'', ''PrimaryProcessorInitializationStarted'', ''BusInitializationStarted'',
       ''MemoryInitializationStarted'', ''SecondaryProcessorInitializationStarted'',
       ''PCIResourceConfigStarted'', ''SystemHardwareInitializationComplete'', ''SetupEntered'',
       ''OSBootStarted'', ''OSRunning'', ''OEM''],
      en_valid = [''None'', ''PrimaryProcessorInitializationStarted'', ''BusInitializationStarted'',
       ''MemoryInitializationStarted'', ''SecondaryProcessorInitializationStarted'',
       ''PCIResourceConfigStarted'', ''SystemHardwareInitializationComplete'', ''SetupEntered'',
       ''OSBootStarted'', ''OSRunning'', ''OEM'']\<rparr>"

type_synonym ComputerSystemV1220CompositionUseCase = string

definition ComputerSystemV1220CompositionUseCase_enum :: enumeration where
  "ComputerSystemV1220CompositionUseCase_enum =
     \<lparr>en_name = ''ComputerSystemV1220CompositionUseCase'',
      en_constants = [''ResourceBlockCapable'', ''ExpandableSystem''],
      en_allowed = [''ResourceBlockCapable'', ''ExpandableSystem''],
      en_valid = [''ResourceBlockCapable'', ''ExpandableSystem'']\<rparr>"

type_synonym ComputerSystemV1220GraphicalConnectTypesSupported = string

definition ComputerSystemV1220GraphicalConnectTypesSupported_enum :: enumeration where
  "ComputerSystemV1220GraphicalConnectTypesSupported_enum =
     \<lparr>en_name = ''ComputerSystemV1220GraphicalConnectTypesSupported'',
      en_constants = [''KVMIP'', ''OEM''],
      en_allowed = [''KVMIP'', ''OEM''],
      en_valid = [''KVMIP'', ''OEM'']\<rparr>"

type_synonym ComputerSystemV1220WatchdogTimeoutActions = string

definition ComputerSystemV1220WatchdogTimeoutActions_enum :: enumeration where
  "ComputerSystemV1220WatchdogTimeoutActions_enum =
     \<lparr>en_name = ''ComputerSystemV1220WatchdogTimeoutActions'',
      en_constants = [''None'', ''ResetSystem'', ''PowerCycle'', ''PowerDown'', ''OEM''],
      en_allowed = [''None'', ''ResetSystem'', ''PowerCycle'', ''PowerDown'', ''OEM''],
      en_valid = [''None'', ''ResetSystem'', ''PowerCycle'', ''PowerDown'', ''OEM'']\<rparr>"

type_synonym ComputerSystemV1220WatchdogWarningActions = string

definition ComputerSystemV1220WatchdogWarningActions_enum :: enumeration where
  "ComputerSystemV1220WatchdogWarningActions_enum =
     \<lparr>en_name = ''ComputerSystemV1220WatchdogWarningActions'',
      en_constants = [''None'', ''DiagnosticInterrupt'', ''SMI'', ''MessagingInterrupt'', ''SCI'', ''OEM''],
      en_allowed = [''None'', ''DiagnosticInterrupt'', ''SMI'', ''MessagingInterrupt'', ''SCI'', ''OEM''],
      en_valid = [''None'', ''DiagnosticInterrupt'', ''SMI'', ''MessagingInterrupt'', ''SCI'', ''OEM'']\<rparr>"

type_synonym ComputerSystemV1220MemoryMirroring = string

definition ComputerSystemV1220MemoryMirroring_enum :: enumeration where
  "ComputerSystemV1220MemoryMirroring_enum =
     \<lparr>en_name = ''ComputerSystemV1220MemoryMirroring'',
      en_constants = [''System'', ''DIMM'', ''Hybrid'', ''None''],
      en_allowed = [''System'', ''DIMM'', ''Hybrid'', ''None''],
      en_valid = [''System'', ''DIMM'', ''Hybrid'', ''None'']\<rparr>"

type_synonym RedundancyV142RedundancyMode = string

definition RedundancyV142RedundancyMode_enum :: enumeration where
  "RedundancyV142RedundancyMode_enum =
     \<lparr>en_name = ''RedundancyV142RedundancyMode'',
      en_constants = [''Failover'', ''N+m'', ''Sharing'', ''Sparing'', ''NotRedundant''],
      en_allowed = [''Failover'', ''N+m'', ''Sharing'', ''Sparing'', ''NotRedundant''],
      en_valid = [''Failover'', ''N+m'', ''Sharing'', ''Sparing'', ''NotRedundant'']\<rparr>"

type_synonym ResourceHealth = string

definition ResourceHealth_enum :: enumeration where
  "ResourceHealth_enum =
     \<lparr>en_name = ''ResourceHealth'',
      en_constants = [''OK'', ''Warning'', ''Critical''],
      en_allowed = [''OK'', ''Warning'', ''Critical''],
      en_valid = [''OK'', ''Warning'', ''Critical'']\<rparr>"

type_synonym ResourceState = string

definition ResourceState_enum :: enumeration where
  "ResourceState_enum =
     \<lparr>en_name = ''ResourceState'',
      en_constants = [''Enabled'', ''Disabled'', ''StandbyOffline'', ''StandbySpare'', ''InTest'', ''Starting'', ''Absent'',
       ''UnavailableOffline'', ''Deferring'', ''Quiesced'', ''Updating'', ''Qualified'', ''Degraded''],
      en_allowed = [''Enabled'', ''Disabled'', ''StandbyOffline'', ''StandbySpare'', ''InTest'', ''Starting'', ''Absent'',
       ''UnavailableOffline'', ''Deferring'', ''Quiesced'', ''Updating'', ''Qualified'', ''Degraded''],
      en_valid = [''Enabled'', ''Disabled'', ''StandbyOffline'', ''StandbySpare'', ''InTest'', ''Starting'', ''Absent'',
       ''UnavailableOffline'', ''Deferring'', ''Quiesced'', ''Updating'', ''Qualified'', ''Degraded'']\<rparr>"

type_synonym ComputerSystemV1220InterfaceType = string

definition ComputerSystemV1220InterfaceType_enum :: enumeration where
  "ComputerSystemV1220InterfaceType_enum =
     \<lparr>en_name = ''ComputerSystemV1220InterfaceType'',
      en_constants = [''TPM1_2'', ''TPM2_0'', ''TCM1_0''],
      en_allowed = [''TPM1_2'', ''TPM2_0'', ''TCM1_0''],
      en_valid = [''TPM1_2'', ''TPM2_0'', ''TCM1_0'']\<rparr>"

type_synonym ComputerSystemV1220InterfaceTypeSelection = string

definition ComputerSystemV1220InterfaceTypeSelection_enum :: enumeration where
  "ComputerSystemV1220InterfaceTypeSelection_enum =
     \<lparr>en_name = ''ComputerSystemV1220InterfaceTypeSelection'',
      en_constants = [''None'', ''FirmwareUpdate'', ''BiosSetting'', ''OemMethod''],
      en_allowed = [''None'', ''FirmwareUpdate'', ''BiosSetting'', ''OemMethod''],
      en_valid = [''None'', ''FirmwareUpdate'', ''BiosSetting'', ''OemMethod'']\<rparr>"

type_synonym ComputerSystemV1220KmipCachePolicy = string

definition ComputerSystemV1220KmipCachePolicy_enum :: enumeration where
  "ComputerSystemV1220KmipCachePolicy_enum =
     \<lparr>en_name = ''ComputerSystemV1220KmipCachePolicy'',
      en_constants = [''None'', ''AfterFirstUse''],
      en_allowed = [''None'', ''AfterFirstUse''],
      en_valid = [''None'', ''AfterFirstUse'']\<rparr>"

type_synonym ResolutionStepV101ResolutionType = string

definition ResolutionStepV101ResolutionType_enum :: enumeration where
  "ResolutionStepV101ResolutionType_enum =
     \<lparr>en_name = ''ResolutionStepV101ResolutionType'',
      en_constants = [''ContactVendor'', ''ReplaceComponent'', ''FirmwareUpdate'', ''Reset'', ''PowerCycle'',
       ''ResetToDefaults'', ''CollectDiagnosticData'', ''OEM''],
      en_allowed = [''ContactVendor'', ''ReplaceComponent'', ''FirmwareUpdate'', ''Reset'', ''PowerCycle'',
       ''ResetToDefaults'', ''CollectDiagnosticData'', ''OEM''],
      en_valid = [''ContactVendor'', ''ReplaceComponent'', ''FirmwareUpdate'', ''Reset'', ''PowerCycle'',
       ''ResetToDefaults'', ''CollectDiagnosticData'', ''OEM'']\<rparr>"

type_synonym ActionInfoV142ParameterTypes = string

definition ActionInfoV142ParameterTypes_enum :: enumeration where
  "ActionInfoV142ParameterTypes_enum =
     \<lparr>en_name = ''ActionInfoV142ParameterTypes'',
      en_constants = [''Boolean'', ''Number'', ''NumberArray'', ''String'', ''StringArray'', ''Object'', ''ObjectArray''],
      en_allowed = [''Boolean'', ''Number'', ''NumberArray'', ''String'', ''StringArray'', ''Object'', ''ObjectArray''],
      en_valid = [''Boolean'', ''Number'', ''NumberArray'', ''String'', ''StringArray'', ''Object'', ''ObjectArray'']\<rparr>"

type_synonym ManagerV1190ManagerType = string

definition ManagerV1190ManagerType_enum :: enumeration where
  "ManagerV1190ManagerType_enum =
     \<lparr>en_name = ''ManagerV1190ManagerType'',
      en_constants = [''ManagementController'', ''EnclosureManager'', ''BMC'', ''RackManager'', ''AuxiliaryController'',
       ''Service''],
      en_allowed = [''ManagementController'', ''EnclosureManager'', ''BMC'', ''RackManager'', ''AuxiliaryController'',
       ''Service''],
      en_valid = [''ManagementController'', ''EnclosureManager'', ''BMC'', ''RackManager'', ''AuxiliaryController'',
       ''Service'']\<rparr>"

type_synonym ManagerV1190CommandConnectTypesSupported = string

definition ManagerV1190CommandConnectTypesSupported_enum :: enumeration where
  "ManagerV1190CommandConnectTypesSupported_enum =
     \<lparr>en_name = ''ManagerV1190CommandConnectTypesSupported'',
      en_constants = [''SSH'', ''Telnet'', ''IPMI'', ''Oem''],
      en_allowed = [''SSH'', ''Telnet'', ''IPMI'', ''Oem''],
      en_valid = [''SSH'', ''Telnet'', ''IPMI'', ''Oem'']\<rparr>"

type_synonym ManagerV1190GraphicalConnectTypesSupported = string

definition ManagerV1190GraphicalConnectTypesSupported_enum :: enumeration where
  "ManagerV1190GraphicalConnectTypesSupported_enum =
     \<lparr>en_name = ''ManagerV1190GraphicalConnectTypesSupported'',
      en_constants = [''KVMIP'', ''Oem''],
      en_allowed = [''KVMIP'', ''Oem''],
      en_valid = [''KVMIP'', ''Oem'']\<rparr>"

type_synonym ManagerV1190SerialConnectTypesSupported = string

definition ManagerV1190SerialConnectTypesSupported_enum :: enumeration where
  "ManagerV1190SerialConnectTypesSupported_enum =
     \<lparr>en_name = ''ManagerV1190SerialConnectTypesSupported'',
      en_constants = [''SSH'', ''Telnet'', ''IPMI'', ''Oem''],
      en_allowed = [''SSH'', ''Telnet'', ''IPMI'', ''Oem''],
      en_valid = [''SSH'', ''Telnet'', ''IPMI'', ''Oem'']\<rparr>"

type_synonym ResourceV1200LocationType = string

definition ResourceV1200LocationType_enum :: enumeration where
  "ResourceV1200LocationType_enum =
     \<lparr>en_name = ''ResourceV1200LocationType'',
      en_constants = [''Slot'', ''Bay'', ''Connector'', ''Socket'', ''Backplane'', ''Embedded''],
      en_allowed = [''Slot'', ''Bay'', ''Connector'', ''Socket'', ''Backplane'', ''Embedded''],
      en_valid = [''Slot'', ''Bay'', ''Connector'', ''Socket'', ''Backplane'', ''Embedded'']\<rparr>"

type_synonym ResourceV1200Orientation = string

definition ResourceV1200Orientation_enum :: enumeration where
  "ResourceV1200Orientation_enum =
     \<lparr>en_name = ''ResourceV1200Orientation'',
      en_constants = [''FrontToBack'', ''BackToFront'', ''TopToBottom'', ''BottomToTop'', ''LeftToRight'', ''RightToLeft''],
      en_allowed = [''FrontToBack'', ''BackToFront'', ''TopToBottom'', ''BottomToTop'', ''LeftToRight'', ''RightToLeft''],
      en_valid = [''FrontToBack'', ''BackToFront'', ''TopToBottom'', ''BottomToTop'', ''LeftToRight'', ''RightToLeft'']\<rparr>"

type_synonym ResourceV1200Reference = string

definition ResourceV1200Reference_enum :: enumeration where
  "ResourceV1200Reference_enum =
     \<lparr>en_name = ''ResourceV1200Reference'',
      en_constants = [''Top'', ''Bottom'', ''Front'', ''Rear'', ''Left'', ''Right'', ''Middle''],
      en_allowed = [''Top'', ''Bottom'', ''Front'', ''Rear'', ''Left'', ''Right'', ''Middle''],
      en_valid = [''Top'', ''Bottom'', ''Front'', ''Rear'', ''Left'', ''Right'', ''Middle'']\<rparr>"

type_synonym ResourceV1200RackUnits = string

definition ResourceV1200RackUnits_enum :: enumeration where
  "ResourceV1200RackUnits_enum =
     \<lparr>en_name = ''ResourceV1200RackUnits'',
      en_constants = [''OpenU'', ''EIA_310''],
      en_allowed = [''OpenU'', ''EIA_310''],
      en_valid = [''OpenU'', ''EIA_310'']\<rparr>"

type_synonym VirtualMediaV163ConnectedVia = string

definition VirtualMediaV163ConnectedVia_enum :: enumeration where
  "VirtualMediaV163ConnectedVia_enum =
     \<lparr>en_name = ''VirtualMediaV163ConnectedVia'',
      en_constants = [''NotConnected'', ''URI'', ''Applet'', ''Oem''],
      en_allowed = [''NotConnected'', ''URI'', ''Applet'', ''Oem''],
      en_valid = [''NotConnected'', ''URI'', ''Applet'', ''Oem'']\<rparr>"

type_synonym VirtualMediaV163EjectPolicy = string

definition VirtualMediaV163EjectPolicy_enum :: enumeration where
  "VirtualMediaV163EjectPolicy_enum =
     \<lparr>en_name = ''VirtualMediaV163EjectPolicy'',
      en_constants = [''OnPowerOff'', ''Session'', ''Timed'', ''AfterUse'', ''Persistent''],
      en_allowed = [''OnPowerOff'', ''Session'', ''Timed'', ''AfterUse'', ''Persistent''],
      en_valid = [''OnPowerOff'', ''Session'', ''Timed'', ''AfterUse'', ''Persistent'']\<rparr>"

type_synonym VirtualMediaV163MediaType = string

definition VirtualMediaV163MediaType_enum :: enumeration where
  "VirtualMediaV163MediaType_enum =
     \<lparr>en_name = ''VirtualMediaV163MediaType'',
      en_constants = [''CD'', ''Floppy'', ''USBStick'', ''DVD''],
      en_allowed = [''CD'', ''Floppy'', ''USBStick'', ''DVD''],
      en_valid = [''CD'', ''Floppy'', ''USBStick'', ''DVD'']\<rparr>"

type_synonym VirtualMediaV163TransferMethod = string

definition VirtualMediaV163TransferMethod_enum :: enumeration where
  "VirtualMediaV163TransferMethod_enum =
     \<lparr>en_name = ''VirtualMediaV163TransferMethod'',
      en_constants = [''Stream'', ''Upload''],
      en_allowed = [''Stream'', ''Upload''],
      en_valid = [''Stream'', ''Upload'']\<rparr>"

type_synonym VirtualMediaV163TransferProtocolType = string

definition VirtualMediaV163TransferProtocolType_enum :: enumeration where
  "VirtualMediaV163TransferProtocolType_enum =
     \<lparr>en_name = ''VirtualMediaV163TransferProtocolType'',
      en_constants = [''CIFS'', ''FTP'', ''SFTP'', ''HTTP'', ''HTTPS'', ''NFS'', ''SCP'', ''TFTP'', ''OEM''],
      en_allowed = [''CIFS'', ''FTP'', ''SFTP'', ''HTTP'', ''HTTPS'', ''NFS'', ''SCP'', ''TFTP'', ''OEM''],
      en_valid = [''CIFS'', ''FTP'', ''SFTP'', ''HTTP'', ''HTTPS'', ''NFS'', ''SCP'', ''TFTP'', ''OEM'']\<rparr>"

type_synonym SessionV171SessionTypes = string

definition SessionV171SessionTypes_enum :: enumeration where
  "SessionV171SessionTypes_enum =
     \<lparr>en_name = ''SessionV171SessionTypes'',
      en_constants = [''HostConsole'', ''ManagerConsole'', ''IPMI'', ''KVMIP'', ''OEM'', ''Redfish'', ''VirtualMedia'',
       ''WebUI'', ''OutboundConnection''],
      en_allowed = [''HostConsole'', ''ManagerConsole'', ''IPMI'', ''KVMIP'', ''OEM'', ''Redfish'', ''VirtualMedia'',
       ''WebUI'', ''OutboundConnection''],
      en_valid = [''HostConsole'', ''ManagerConsole'', ''IPMI'', ''KVMIP'', ''OEM'', ''Redfish'', ''VirtualMedia'',
       ''WebUI'', ''OutboundConnection'']\<rparr>"

type_synonym ResourceResetType = string

definition ResourceResetType_enum :: enumeration where
  "ResourceResetType_enum =
     \<lparr>en_name = ''ResourceResetType'',
      en_constants = [''On'', ''ForceOff'', ''GracefulShutdown'', ''GracefulRestart'', ''ForceRestart'', ''Nmi'', ''ForceOn'',
       ''PushPowerButton'', ''PowerCycle'', ''Suspend'', ''Pause'', ''Resume''],
      en_allowed = [''On'', ''ForceOff'', ''GracefulShutdown'', ''GracefulRestart'', ''ForceRestart'', ''Nmi'', ''ForceOn'',
       ''PushPowerButton'', ''PowerCycle'', ''Suspend'', ''Pause'', ''Resume''],
      en_valid = [''On'', ''ForceOff'', ''GracefulShutdown'', ''GracefulRestart'', ''ForceRestart'', ''Nmi'', ''ForceOn'',
       ''PushPowerButton'', ''PowerCycle'', ''Suspend'', ''Pause'', ''Resume'']\<rparr>"

type_synonym OperatingSystemV101OperatingSystemTypes = string

definition OperatingSystemV101OperatingSystemTypes_enum :: enumeration where
  "OperatingSystemV101OperatingSystemTypes_enum =
     \<lparr>en_name = ''OperatingSystemV101OperatingSystemTypes'',
      en_constants = [''Linux'', ''Windows'', ''Solaris'', ''HPUX'', ''AIX'', ''BSD'', ''macOS'', ''IBMi'', ''Hypervisor''],
      en_allowed = [''Linux'', ''Windows'', ''Solaris'', ''HPUX'', ''AIX'', ''BSD'', ''macOS'', ''IBMi'', ''Hypervisor''],
      en_valid = [''Linux'', ''Windows'', ''Solaris'', ''HPUX'', ''AIX'', ''BSD'', ''macOS'', ''IBMi'', ''Hypervisor'']\<rparr>"

type_synonym ContainerImageImageTypes = string

definition ContainerImageImageTypes_enum :: enumeration where
  "ContainerImageImageTypes_enum =
     \<lparr>en_name = ''ContainerImageImageTypes'',
      en_constants = [''DockerV1'', ''DockerV2'', ''OCI''],
      en_allowed = [''DockerV1'', ''DockerV2'', ''OCI''],
      en_valid = [''DockerV1'', ''DockerV2'', ''OCI'']\<rparr>"

type_synonym OperatingSystemV101ContainerEngineTypes = string

definition OperatingSystemV101ContainerEngineTypes_enum :: enumeration where
  "OperatingSystemV101ContainerEngineTypes_enum =
     \<lparr>en_name = ''OperatingSystemV101ContainerEngineTypes'',
      en_constants = [''Docker'', ''containerd'', ''CRIO''],
      en_allowed = [''Docker'', ''containerd'', ''CRIO''],
      en_valid = [''Docker'', ''containerd'', ''CRIO'']\<rparr>"

type_synonym OperatingSystemV101VirtualMachineImageTypes = string

definition OperatingSystemV101VirtualMachineImageTypes_enum :: enumeration where
  "OperatingSystemV101VirtualMachineImageTypes_enum =
     \<lparr>en_name = ''OperatingSystemV101VirtualMachineImageTypes'',
      en_constants = [''Raw'', ''OVF'', ''OVA'', ''VHD'', ''VMDK'', ''VDI'', ''QCOW'', ''QCOW2''],
      en_allowed = [''Raw'', ''OVF'', ''OVA'', ''VHD'', ''VMDK'', ''VDI'', ''QCOW'', ''QCOW2''],
      en_valid = [''Raw'', ''OVF'', ''OVA'', ''VHD'', ''VMDK'', ''VDI'', ''QCOW'', ''QCOW2'']\<rparr>"

type_synonym OperatingSystemV101VirtualMachineEngineTypes = string

definition OperatingSystemV101VirtualMachineEngineTypes_enum :: enumeration where
  "OperatingSystemV101VirtualMachineEngineTypes_enum =
     \<lparr>en_name = ''OperatingSystemV101VirtualMachineEngineTypes'',
      en_constants = [''VMwareESX'', ''HyperV'', ''Xen'', ''KVM'', ''QEMU'', ''VirtualBox'', ''PowerVM''],
      en_allowed = [''VMwareESX'', ''HyperV'', ''Xen'', ''KVM'', ''QEMU'', ''VirtualBox'', ''PowerVM''],
      en_valid = [''VMwareESX'', ''HyperV'', ''Xen'', ''KVM'', ''QEMU'', ''VirtualBox'', ''PowerVM'']\<rparr>"

type_synonym ManagerV1190ResetToDefaultsType = string

definition ManagerV1190ResetToDefaultsType_enum :: enumeration where
  "ManagerV1190ResetToDefaultsType_enum =
     \<lparr>en_name = ''ManagerV1190ResetToDefaultsType'',
      en_constants = [''ResetAll'', ''PreserveNetworkAndUsers'', ''PreserveNetwork''],
      en_allowed = [''ResetAll'', ''PreserveNetworkAndUsers'', ''PreserveNetwork''],
      en_valid = [''ResetAll'', ''PreserveNetworkAndUsers'', ''PreserveNetwork'']\<rparr>"

type_synonym ComputerSystemV1220DecommissionType = string

definition ComputerSystemV1220DecommissionType_enum :: enumeration where
  "ComputerSystemV1220DecommissionType_enum =
     \<lparr>en_name = ''ComputerSystemV1220DecommissionType'',
      en_constants = [''All'', ''UserData'', ''ManagerConfig'', ''BIOSConfig'', ''NetworkConfig'', ''StorageConfig'', ''Logs''],
      en_allowed = [''All'', ''UserData'', ''ManagerConfig'', ''BIOSConfig'', ''NetworkConfig'', ''StorageConfig'', ''Logs''],
      en_valid = [''All'', ''UserData'', ''ManagerConfig'', ''BIOSConfig'', ''NetworkConfig'', ''StorageConfig'', ''Logs'']\<rparr>"

definition enumerations :: "enumeration list" where
  "enumerations =
     [ComputerSystemV1220HostingRole_enum, ComputerSystemV1220IndicatorLed_enum,
     ComputerSystemV1220PowerMode_enum, ComputerSystemV1220PowerRestorePolicyTypes_enum,
     ResourcePowerState_enum, ComputerSystemV1220SystemType_enum, ComputerSystemBootSource_enum,
     ComputerSystemV1220AutomaticRetryConfig_enum, ComputerSystemV1220BootOrderTypes_enum,
     ComputerSystemV1220BootSourceOverrideEnabled_enum, ComputerSystemV1220BootSourceOverrideMode_enum,
     ComputerSystemV1220StopBootOnFault_enum, ComputerSystemV1220TrustedModuleRequiredToBoot_enum,
     ComputerSystemV1220BootProgressTypes_enum, ComputerSystemV1220CompositionUseCase_enum,
     ComputerSystemV1220GraphicalConnectTypesSupported_enum, ComputerSystemV1220WatchdogTimeoutActions_enum,
     ComputerSystemV1220WatchdogWarningActions_enum, ComputerSystemV1220MemoryMirroring_enum,
     RedundancyV142RedundancyMode_enum, ResourceHealth_enum, ResourceState_enum,
     ComputerSystemV1220InterfaceType_enum, ComputerSystemV1220InterfaceTypeSelection_enum,
     ComputerSystemV1220KmipCachePolicy_enum, ResolutionStepV101ResolutionType_enum,
     ActionInfoV142ParameterTypes_enum, ManagerV1190ManagerType_enum,
     ManagerV1190CommandConnectTypesSupported_enum, ManagerV1190GraphicalConnectTypesSupported_enum,
     ManagerV1190SerialConnectTypesSupported_enum, ResourceV1200LocationType_enum,
     ResourceV1200Orientation_enum, ResourceV1200Reference_enum, ResourceV1200RackUnits_enum,
     VirtualMediaV163ConnectedVia_enum, VirtualMediaV163EjectPolicy_enum, VirtualMediaV163MediaType_enum,
     VirtualMediaV163TransferMethod_enum, VirtualMediaV163TransferProtocolType_enum,
     SessionV171SessionTypes_enum, ResourceResetType_enum,
     OperatingSystemV101OperatingSystemTypes_enum, ContainerImageImageTypes_enum,
     OperatingSystemV101ContainerEngineTypes_enum, OperatingSystemV101VirtualMachineImageTypes_enum,
     OperatingSystemV101VirtualMachineEngineTypes_enum, ManagerV1190ResetToDefaultsType_enum,
     ComputerSystemV1220DecommissionType_enum]"

end
