(* ===== verification/SystemSchema.thy ===== *)
theory SystemSchema
  imports Schema
begin

text \<open>
  The struct ComputerSystemV1220ComputerSystem of the generated data model with every struct in it,
  field by field, their zero values, and the functions that assert that the required fields of a
  decoded document are set and that its numbers respect their minimum.
\<close>

section \<open>ComputerSystemV1220AddResourceBlock\<close>

record ComputerSystemV1220AddResourceBlock =
  addblock_Target :: string
  addblock_Title :: string

definition zero_ComputerSystemV1220AddResourceBlock :: ComputerSystemV1220AddResourceBlock where
  "zero_ComputerSystemV1220AddResourceBlock = \<lparr>
     addblock_Target = '''', addblock_Title = ''''\<rparr>"

definition AssertComputerSystemV1220AddResourceBlockRequired :: "ComputerSystemV1220AddResourceBlock \<Rightarrow> go_error option" where
  "AssertComputerSystemV1220AddResourceBlockRequired obj = None"

definition AssertComputerSystemV1220AddResourceBlockConstraints :: "ComputerSystemV1220AddResourceBlock \<Rightarrow> go_error option" where
  "AssertComputerSystemV1220AddResourceBlockConstraints obj = None"

section \<open>ComputerSystemV1220Decommission\<close>

record ComputerSystemV1220Decommission =
  decommission_Target :: string
  decommission_Title :: string

definition zero_ComputerSystemV1220Decommission :: ComputerSystemV1220Decommission where
  "zero_ComputerSystemV1220Decommission = \<lparr>
     decommission_Target = '''', decommission_Title = ''''\<rparr>"

definition AssertComputerSystemV1220DecommissionRequired :: "ComputerSystemV1220Decommission \<Rightarrow> go_error option" where
  "AssertComputerSystemV1220DecommissionRequired obj = None"

definition AssertComputerSystemV1220DecommissionConstraints :: "ComputerSystemV1220Decommission \<Rightarrow> go_error option" where
  "AssertComputerSystemV1220DecommissionConstraints obj = None"

section \<open>ComputerSystemV1220RemoveResourceBlock\<close>

record ComputerSystemV1220RemoveResourceBlock =
  removeblock_Target :: string
  removeblock_Title :: string

definition zero_ComputerSystemV1220RemoveResourceBlock :: ComputerSystemV1220RemoveResourceBlock where
  "zero_ComputerSystemV1220RemoveResourceBlock = \<lparr>
     removeblock_Target = '''', removeblock_Title = ''''\<rparr>"

definition AssertComputerSystemV1220RemoveResourceBlockRequired :: "ComputerSystemV1220RemoveResourceBlock \<Rightarrow> go_error option" where
  "AssertComputerSystemV1220RemoveResourceBlockRequired obj = None"

definition AssertComputerSystemV1220RemoveResourceBlockConstraints :: "ComputerSystemV1220RemoveResourceBlock \<Rightarrow> go_error option" where
  "AssertComputerSystemV1220RemoveResourceBlockConstraints obj = None"

section \<open>ComputerSystemV1220Reset\<close>

record ComputerSystemV1220Reset =
  csreset_Target :: string
  csreset_Title :: string

definition zero_ComputerSystemV1220Reset :: ComputerSystemV1220Reset where
  "zero_ComputerSystemV1220Reset = \<lparr>
     csreset_Target = '''', csreset_Title = ''''\<rparr>"

definition AssertComputerSystemV1220ResetRequired :: "ComputerSystemV1220Reset \<Rightarrow> go_error option" where
  "AssertComputerSystemV1220ResetRequired obj = None"

definition AssertComputerSystemV1220ResetConstraints :: "ComputerSystemV1220Reset \<Rightarrow> go_error option" where
  "AssertComputerSystemV1220ResetConstraints obj = None"

section \<open>ComputerSystemV1220SetDefaultBootOrder\<close>

record ComputerSystemV1220SetDefaultBootOrder =
  defaultboot_Target :: string
  defaultboot_Title :: string

definition zero_ComputerSystemV1220SetDefaultBootOrder :: ComputerSystemV1220SetDefaultBootOrder where
  "zero_ComputerSystemV1220SetDefaultBootOrder = \<lparr>
     defaultboot_Target = '''', defaultboot_Title = ''''\<rparr>"

definition AssertComputerSystemV1220SetDefaultBootOrderRequired :: "ComputerSystemV1220SetDefaultBootOrder \<Rightarrow> go_error option" where
  "AssertComputerSystemV1220SetDefaultBootOrderRequired obj = None"

definition AssertComputerSystemV1220SetDefaultBootOrderConstraints :: "ComputerSystemV1220SetDefaultBootOrder \<Rightarrow> go_error option" where
  "AssertComputerSystemV1220SetDefaultBootOrderConstraints obj = None"

section \<open>ComputerSystemV1220Actions\<close>

record ComputerSystemV1220Actions =
  csactions_ComputerSystemAddResourceBlock :: ComputerSystemV1220AddResourceBlock
  csactions_ComputerSystemDecommission :: ComputerSystemV1220Decommission
  csactions_ComputerSystemRemoveResourceBlock :: ComputerSystemV1220RemoveResourceBlock
  csactions_ComputerSystemReset :: ComputerSystemV1220Reset
  csactions_ComputerSystemSetDefaultBootOrder :: ComputerSystemV1220SetDefaultBootOrder
  csactions_Oem :: "json gomap"

definition zero_ComputerSystemV1220Actions :: ComputerSystemV1220Actions where
  "zero_ComputerSystemV1220Actions = \<lparr>
     csactions_ComputerSystemAddResourceBlock = zero_ComputerSystemV1220AddResourceBlock,
     csactions_ComputerSystemDecommission = zero_ComputerSystemV1220Decommission,
     csactions_ComputerSystemRemoveResourceBlock = zero_ComputerSystemV1220RemoveResourceBlock,
     csactions_ComputerSystemReset = zero_ComputerSystemV1220Reset,
     csactions_ComputerSystemSetDefaultBootOrder = zero_ComputerSystemV1220SetDefaultBootOrder,
     csactions_Oem = None\<rparr>"

definition AssertComputerSystemV1220ActionsRequired :: "ComputerSystemV1220Actions \<Rightarrow> go_error option" where
  "AssertComputerSystemV1220ActionsRequired obj = first_error
     [AssertComputerSystemV1220AddResourceBlockRequired (csactions_ComputerSystemAddResourceBlock obj),
      AssertComputerSystemV1220DecommissionRequired (csactions_ComputerSystemDecommission obj),
      AssertComputerSystemV1220RemoveResourceBlockRequired (csactions_ComputerSystemRemoveResourceBlock obj),
      AssertComputerSystemV1220ResetRequired (csactions_ComputerSystemReset obj),
      AssertComputerSystemV1220SetDefaultBootOrderRequired (csactions_ComputerSystemSetDefaultBootOrder obj)]"

definition AssertComputerSystemV1220ActionsConstraints :: "ComputerSystemV1220Actions \<Rightarrow> go_error option" where
  "AssertComputerSystemV1220ActionsConstraints obj = first_error
     [AssertComputerSystemV1220AddResourceBlockConstraints (csactions_ComputerSystemAddResourceBlock obj),
      AssertComputerSystemV1220DecommissionConstraints (csactions_ComputerSystemDecommission obj),
      AssertComputerSystemV1220RemoveResourceBlockConstraints (csactions_ComputerSystemRemoveResourceBlock obj),
      AssertComputerSystemV1220ResetConstraints (csactions_ComputerSystemReset obj),
      AssertComputerSystemV1220SetDefaultBootOrderConstraints (csactions_ComputerSystemSetDefaultBootOrder obj)]"

section \<open>OdataV4IdRef\<close>

record OdataV4IdRef =
  ref_OdataId :: string

definition zero_OdataV4IdRef :: OdataV4IdRef where
  "zero_OdataV4IdRef = \<lparr>
     ref_OdataId = ''''\<rparr>"

definition AssertOdataV4IdRefRequired :: "OdataV4IdRef \<Rightarrow> go_error option" where
  "AssertOdataV4IdRefRequired obj = None"

definition AssertOdataV4IdRefConstraints :: "OdataV4IdRef \<Rightarrow> go_error option" where
  "AssertOdataV4IdRefConstraints obj = None"

section \<open>ComputerSystemV1220Boot\<close>

record ComputerSystemV1220Boot =
  boot_AliasBootOrder :: "ComputerSystemBootSource slice"
  boot_AutomaticRetryAttempts :: "int option"
  boot_AutomaticRetryConfig :: ComputerSystemV1220AutomaticRetryConfig
  boot_BootNext :: "string option"
  boot_BootOptions :: OdataV4IdRef
  boot_BootOrder :: "string option slice"
  boot_BootOrderPropertySelection :: ComputerSystemV1220BootOrderTypes
  boot_BootSourceOverrideEnabled :: ComputerSystemV1220BootSourceOverrideEnabled
  boot_BootSourceOverrideMode :: ComputerSystemV1220BootSourceOverrideMode
  boot_BootSourceOverrideTarget :: ComputerSystemBootSource
  boot_Certificates :: OdataV4IdRef
  boot_HttpBootUri :: "string option"
  boot_RemainingAutomaticRetryAttempts :: "int option"
  boot_StopBootOnFault :: ComputerSystemV1220StopBootOnFault
  boot_TrustedModuleRequiredToBoot :: ComputerSystemV1220TrustedModuleRequiredToBoot
  boot_UefiTargetBootSourceOverride :: "string option"

definition zero_ComputerSystemV1220Boot :: ComputerSystemV1220Boot where
  "zero_ComputerSystemV1220Boot = \<lparr>
     boot_AliasBootOrder = None, boot_AutomaticRetryAttempts = None, boot_AutomaticRetryConfig = '''',
     boot_BootNext = None, boot_BootOptions = zero_OdataV4IdRef, boot_BootOrder = None,
     boot_BootOrderPropertySelection = '''', boot_BootSourceOverrideEnabled = '''',
     boot_BootSourceOverrideMode = '''', boot_BootSourceOverrideTarget = '''',
     boot_Certificates = zero_OdataV4IdRef, boot_HttpBootUri = None,
     boot_RemainingAutomaticRetryAttempts = None, boot_StopBootOnFault = '''',
     boot_TrustedModuleRequiredToBoot = '''', boot_UefiTargetBootSourceOverride = None\<rparr>"

definition AssertComputerSystemV1220BootRequired :: "ComputerSystemV1220Boot \<Rightarrow> go_error option" where
  "AssertComputerSystemV1220BootRequired obj = first_error
     [AssertOdataV4IdRefRequired (boot_BootOptions obj),
      AssertOdataV4IdRefRequired (boot_Certificates obj)]"

definition AssertComputerSystemV1220BootConstraints :: "ComputerSystemV1220Boot \<Rightarrow> go_error option" where
  "AssertComputerSystemV1220BootConstraints obj = first_error
     [minimum ''AutomaticRetryAttempts'' (map_option of_int (boot_AutomaticRetryAttempts obj)),
      AssertOdataV4IdRefConstraints (boot_BootOptions obj),
      AssertOdataV4IdRefConstraints (boot_Certificates obj),
      minimum ''RemainingAutomaticRetryAttempts'' (map_option of_int (boot_RemainingAutomaticRetryAttempts obj))]"

section \<open>ComputerSystemV1220BootProgress\<close>

record ComputerSystemV1220BootProgress =
  bootprogress_LastBootTimeSeconds :: "float32 option"
  bootprogress_LastState :: ComputerSystemV1220BootProgressTypes
  bootprogress_LastStateTime :: "Time option"
  bootprogress_Oem :: "json gomap"
  bootprogress_OemLastState :: "string option"

definition zero_ComputerSystemV1220BootProgress :: ComputerSystemV1220BootProgress where
  "zero_ComputerSystemV1220BootProgress = \<lparr>
     bootprogress_LastBootTimeSeconds = None, bootprogress_LastState = '''', bootprogress_LastStateTime = None,
     bootprogress_Oem = None, bootprogress_OemLastState = None\<rparr>"

definition AssertComputerSystemV1220BootProgressRequired :: "ComputerSystemV1220BootProgress \<Rightarrow> go_error option" where
  "AssertComputerSystemV1220BootProgressRequired obj = None"

definition AssertComputerSystemV1220BootProgressConstraints :: "ComputerSystemV1220BootProgress \<Rightarrow> go_error option" where
  "AssertComputerSystemV1220BootProgressConstraints obj = None"

section \<open>ComputerSystemV1220Composition\<close>

record ComputerSystemV1220Composition =
  composition_UseCases :: "ComputerSystemV1220CompositionUseCase slice"

definition zero_ComputerSystemV1220Composition :: ComputerSystemV1220Composition where
  "zero_ComputerSystemV1220Composition = \<lparr>
     composition_UseCases = None\<rparr>"

definition AssertComputerSystemV1220CompositionRequired :: "ComputerSystemV1220Composition \<Rightarrow> go_error option" where
  "AssertComputerSystemV1220CompositionRequired obj = None"

definition AssertComputerSystemV1220CompositionConstraints :: "ComputerSystemV1220Composition \<Rightarrow> go_error option" where
  "AssertComputerSystemV1220CompositionConstraints obj = None"

section \<open>ComputerSystemV1220HostGraphicalConsole\<close>

record ComputerSystemV1220HostGraphicalConsole =
  gconsole_ConnectTypesSupported :: "ComputerSystemV1220GraphicalConnectTypesSupported slice"
  gconsole_MaxConcurrentSessions :: int
  gconsole_Port :: "int option"
  gconsole_ServiceEnabled :: bool

definition zero_ComputerSystemV1220HostGraphicalConsole :: ComputerSystemV1220HostGraphicalConsole where
  "zero_ComputerSystemV1220HostGraphicalConsole = \<lparr>
     gconsole_ConnectTypesSupported = None, gconsole_MaxConcurrentSessions = 0, gconsole_Port = None,
     gconsole_ServiceEnabled = False\<rparr>"

definition AssertComputerSystemV1220HostGraphicalConsoleRequired :: "ComputerSystemV1220HostGraphicalConsole \<Rightarrow> go_error option" where
  "AssertComputerSystemV1220HostGraphicalConsoleRequired obj = None"

definition AssertComputerSystemV1220HostGraphicalConsoleConstraints :: "ComputerSystemV1220HostGraphicalConsole \<Rightarrow> go_error option" where
  "AssertComputerSystemV1220HostGraphicalConsoleConstraints obj = first_error
     [minimum ''MaxConcurrentSessions'' (Some (of_int (gconsole_MaxConcurrentSessions obj))),
      minimum ''Port'' (map_option of_int (gconsole_Port obj))]"

section \<open>ResolutionStepResolutionStepActionParametersInner\<close>

record ResolutionStepResolutionStepActionParametersInner =
  rparam_AllowableNumbers :: "string option slice"
  rparam_AllowablePattern :: "string option"
  rparam_AllowableValueDescriptions :: "string option slice"
  rparam_AllowableValues :: "string option slice"
  rparam_ArraySizeMaximum :: "int option"
  rparam_ArraySizeMinimum :: "int option"
  rparam_DataType :: ActionInfoV142ParameterTypes
  rparam_MaximumValue :: "float32 option"
  rparam_MinimumValue :: "float32 option"
  rparam_Name :: string
  rparam_ObjectDataType :: "string option"
  rparam_Required :: bool

definition zero_ResolutionStepResolutionStepActionParametersInner :: ResolutionStepResolutionStepActionParametersInner where
  "zero_ResolutionStepResolutionStepActionParametersInner = \<lparr>
     rparam_AllowableNumbers = None, rparam_AllowablePattern = None, rparam_AllowableValueDescriptions = None,
     rparam_AllowableValues = None, rparam_ArraySizeMaximum = None, rparam_ArraySizeMinimum = None,
     rparam_DataType = '''', rparam_MaximumValue = None, rparam_MinimumValue = None, rparam_Name = '''',
     rparam_ObjectDataType = None, rparam_Required = False\<rparr>"

definition AssertResolutionStepResolutionStepActionParametersInnerRequired :: "field_order \<Rightarrow> ResolutionStepResolutionStepActionParametersInner \<Rightarrow> go_error option" where
  "AssertResolutionStepResolutionStepActionParametersInnerRequired ord obj = first_error
     [required ord [(''Name'', rparam_Name obj = '''')]]"

definition AssertResolutionStepResolutionStepActionParametersInnerConstraints :: "ResolutionStepResolutionStepActionParametersInner \<Rightarrow> go_error option" where
  "AssertResolutionStepResolutionStepActionParametersInnerConstraints obj = None"

section \<open>ResolutionStepResolutionStep\<close>

record ResolutionStepResolutionStep =
  rstep_ActionParameters :: "ResolutionStepResolutionStepActionParametersInner slice"
  rstep_ActionURI :: string
  rstep_Oem :: "json gomap"
  rstep_Priority :: "int option"
  rstep_ResolutionType :: "ResolutionStepV101ResolutionType option"
  rstep_RetryCount :: "int option"
  rstep_RetryIntervalSeconds :: "int option"
  rstep_TargetComponentURI :: "string option"

definition zero_ResolutionStepResolutionStep :: ResolutionStepResolutionStep where
  "zero_ResolutionStepResolutionStep = \<lparr>
     rstep_ActionParameters = None, rstep_ActionURI = '''', rstep_Oem = None, rstep_Priority = None,
     rstep_ResolutionType = None, rstep_RetryCount = None, rstep_RetryIntervalSeconds = None,
     rstep_TargetComponentURI = None\<rparr>"

definition AssertResolutionStepResolutionStepRequired :: "field_order \<Rightarrow> ResolutionStepResolutionStep \<Rightarrow> go_error option" where
  "AssertResolutionStepResolutionStepRequired ord obj = first_error
     [required ord [(''ResolutionType'', rstep_ResolutionType obj = None)],
      each (AssertResolutionStepResolutionStepActionParametersInnerRequired ord) (rstep_ActionParameters obj)]"

definition AssertResolutionStepResolutionStepConstraints :: "ResolutionStepResolutionStep \<Rightarrow> go_error option" where
  "AssertResolutionStepResolutionStepConstraints obj = first_error
     [each AssertResolutionStepResolutionStepActionParametersInnerConstraints (rstep_ActionParameters obj),
      minimum ''Priority'' (map_option of_int (rstep_Priority obj)),
      minimum ''RetryCount'' (map_option of_int (rstep_RetryCount obj)),
      minimum ''RetryIntervalSeconds'' (map_option of_int (rstep_RetryIntervalSeconds obj))]"

section \<open>ResourceStatusConditionsInner\<close>

record ResourceStatusConditionsInner =
  condition_LogEntry :: OdataV4IdRef
  condition_Message :: string
  condition_MessageArgs :: "string slice"
  condition_MessageId :: string
  condition_OriginOfCondition :: OdataV4IdRef
  condition_Resolution :: string
  condition_ResolutionSteps :: "ResolutionStepResolutionStep slice"
  condition_Severity :: ResourceHealth
  condition_Timestamp :: Time
  condition_UserAuthenticationSource :: "string option"
  condition_Username :: "string option"

definition zero_ResourceStatusConditionsInner :: ResourceStatusConditionsInner where
  "zero_ResourceStatusConditionsInner = \<lparr>
     condition_LogEntry = zero_OdataV4IdRef, condition_Message = '''', condition_MessageArgs = None,
     condition_MessageId = '''', condition_OriginOfCondition = zero_OdataV4IdRef, condition_Resolution = '''',
     condition_ResolutionSteps = None, condition_Severity = '''', condition_Timestamp = zero_Time,
     condition_UserAuthenticationSource = None, condition_Username = None\<rparr>"

definition AssertResourceStatusConditionsInnerRequired :: "field_order \<Rightarrow> ResourceStatusConditionsInner \<Rightarrow> go_error option" where
  "AssertResourceStatusConditionsInnerRequired ord obj = first_error
     [required ord [(''MessageId'', condition_MessageId obj = '''')],
      AssertOdataV4IdRefRequired (condition_LogEntry obj),
      AssertOdataV4IdRefRequired (condition_OriginOfCondition obj),
      each (AssertResolutionStepResolutionStepRequired ord) (condition_ResolutionSteps obj)]"

definition AssertResourceStatusConditionsInnerConstraints :: "ResourceStatusConditionsInner \<Rightarrow> go_error option" where
  "AssertResourceStatusConditionsInnerConstraints obj = first_error
     [AssertOdataV4IdRefConstraints (condition_LogEntry obj),
      AssertOdataV4IdRefConstraints (condition_OriginOfCondition obj),
      each AssertResolutionStepResolutionStepConstraints (condition_ResolutionSteps obj)]"

section \<open>ResourceStatus\<close>

record ResourceStatus =
  status_Conditions :: "ResourceStatusConditionsInner slice"
  status_Health :: "ResourceHealth option"
  status_HealthRollup :: "ResourceHealth option"
  status_Oem :: "json gomap"
  status_State :: "ResourceState option"

definition zero_ResourceStatus :: ResourceStatus where
  "zero_ResourceStatus = \<lparr>
     status_Conditions = None, status_Health = None, status_HealthRollup = None, status_Oem = None,
     status_State = None\<rparr>"

definition AssertResourceStatusRequired :: "field_order \<Rightarrow> ResourceStatus \<Rightarrow> go_error option" where
  "AssertResourceStatusRequired ord obj = first_error
     [each (AssertResourceStatusConditionsInnerRequired ord) (status_Conditions obj)]"

definition AssertResourceStatusConstraints :: "ResourceStatus \<Rightarrow> go_error option" where
  "AssertResourceStatusConstraints obj = first_error
     [each AssertResourceStatusConditionsInnerConstraints (status_Conditions obj)]"

section \<open>ComputerSystemV1220WatchdogTimer\<close>

record ComputerSystemV1220WatchdogTimer =
  watchdog_FunctionEnabled :: "bool option"
  watchdog_Oem :: "json gomap"
  watchdog_Status :: ResourceStatus
  watchdog_TimeoutAction :: ComputerSystemV1220WatchdogTimeoutActions
  watchdog_WarningAction :: ComputerSystemV1220WatchdogWarningActions

definition zero_ComputerSystemV1220WatchdogTimer :: ComputerSystemV1220WatchdogTimer where
  "zero_ComputerSystemV1220WatchdogTimer = \<lparr>
     watchdog_FunctionEnabled = None, watchdog_Oem = None, watchdog_Status = zero_ResourceStatus,
     watchdog_TimeoutAction = '''', watchdog_WarningAction = ''''\<rparr>"

definition AssertComputerSystemV1220WatchdogTimerRequired :: "field_order \<Rightarrow> ComputerSystemV1220WatchdogTimer \<Rightarrow> go_error option" where
  "AssertComputerSystemV1220WatchdogTimerRequired ord obj = first_error
     [required ord [(''FunctionEnabled'', watchdog_FunctionEnabled obj = None), (''TimeoutAction'', watchdog_TimeoutAction obj = '''')],
      AssertResourceStatusRequired ord (watchdog_Status obj)]"

definition AssertComputerSystemV1220WatchdogTimerConstraints :: "ComputerSystemV1220WatchdogTimer \<Rightarrow> go_error option" where
  "AssertComputerSystemV1220WatchdogTimerConstraints obj = first_error
     [AssertResourceStatusConstraints (watchdog_Status obj)]"

section \<open>ComputerSystemV1220HostedServices\<close>

record ComputerSystemV1220HostedServices =
  hosted_Oem :: "json gomap"
  hosted_StorageServices :: OdataV4IdRef

definition zero_ComputerSystemV1220HostedServices :: ComputerSystemV1220HostedServices where
  "zero_ComputerSystemV1220HostedServices = \<lparr>
     hosted_Oem = None, hosted_StorageServices = zero_OdataV4IdRef\<rparr>"

definition AssertComputerSystemV1220HostedServicesRequired :: "ComputerSystemV1220HostedServices \<Rightarrow> go_error option" where
  "AssertComputerSystemV1220HostedServicesRequired obj = first_error
     [AssertOdataV4IdRefRequired (hosted_StorageServices obj)]"

definition AssertComputerSystemV1220HostedServicesConstraints :: "ComputerSystemV1220HostedServices \<Rightarrow> go_error option" where
  "AssertComputerSystemV1220HostedServicesConstraints obj = first_error
     [AssertOdataV4IdRefConstraints (hosted_StorageServices obj)]"

section \<open>ComputerSystemV1220IdlePowerSaver\<close>

record ComputerSystemV1220IdlePowerSaver =
  idle_Enabled :: bool
  idle_EnterDwellTimeSeconds :: "int option"
  idle_EnterUtilizationPercent :: "float32 option"
  idle_ExitDwellTimeSeconds :: "int option"
  idle_ExitUtilizationPercent :: "float32 option"

definition zero_ComputerSystemV1220IdlePowerSaver :: ComputerSystemV1220IdlePowerSaver where
  "zero_ComputerSystemV1220IdlePowerSaver = \<lparr>
     idle_Enabled = False, idle_EnterDwellTimeSeconds = None, idle_EnterUtilizationPercent = None,
     idle_ExitDwellTimeSeconds = None, idle_ExitUtilizationPercent = None\<rparr>"

definition AssertComputerSystemV1220IdlePowerSaverRequired :: "ComputerSystemV1220IdlePowerSaver \<Rightarrow> go_error option" where
  "AssertComputerSystemV1220IdlePowerSaverRequired obj = None"

definition AssertComputerSystemV1220IdlePowerSaverConstraints :: "ComputerSystemV1220IdlePowerSaver \<Rightarrow> go_error option" where
  "AssertComputerSystemV1220IdlePowerSaverConstraints obj = first_error
     [minimum ''EnterDwellTimeSeconds'' (map_option of_int (idle_EnterDwellTimeSeconds obj)),
      minimum ''EnterUtilizationPercent'' (idle_EnterUtilizationPercent obj),
      minimum ''ExitDwellTimeSeconds'' (map_option of_int (idle_ExitDwellTimeSeconds obj)),
      minimum ''ExitUtilizationPercent'' (idle_ExitUtilizationPercent obj)]"

section \<open>ComputerSystemV1220KmipServer\<close>

record ComputerSystemV1220KmipServer =
  kmip_Address :: "string option"
  kmip_CacheDuration :: "string option"
  kmip_CachePolicy :: ComputerSystemV1220KmipCachePolicy
  kmip_Password :: "string option"
  kmip_Port :: "int option"
  kmip_Username :: "string option"

definition zero_ComputerSystemV1220KmipServer :: ComputerSystemV1220KmipServer where
  "zero_ComputerSystemV1220KmipServer = \<lparr>
     kmip_Address = None, kmip_CacheDuration = None, kmip_CachePolicy = '''', kmip_Password = None,
     kmip_Port = None, kmip_Username = None\<rparr>"

definition AssertComputerSystemV1220KmipServerRequired :: "ComputerSystemV1220KmipServer \<Rightarrow> go_error option" where
  "AssertComputerSystemV1220KmipServerRequired obj = None"

definition AssertComputerSystemV1220KmipServerConstraints :: "ComputerSystemV1220KmipServer \<Rightarrow> go_error option" where
  "AssertComputerSystemV1220KmipServerConstraints obj = None"

section \<open>ComputerSystemV1220KeyManagement\<close>

record ComputerSystemV1220KeyManagement =
  keymgmt_KMIPCertificates :: OdataV4IdRef
  keymgmt_KMIPServers :: "ComputerSystemV1220KmipServer slice"

definition zero_ComputerSystemV1220KeyManagement :: ComputerSystemV1220KeyManagement where
  "zero_ComputerSystemV1220KeyManagement = \<lparr>
     keymgmt_KMIPCertificates = zero_OdataV4IdRef, keymgmt_KMIPServers = None\<rparr>"

definition AssertComputerSystemV1220KeyManagementRequired :: "ComputerSystemV1220KeyManagement \<Rightarrow> go_error option" where
  "AssertComputerSystemV1220KeyManagementRequired obj = first_error
     [AssertOdataV4IdRefRequired (keymgmt_KMIPCertificates obj),
      each AssertComputerSystemV1220KmipServerRequired (keymgmt_KMIPServers obj)]"

definition AssertComputerSystemV1220KeyManagementConstraints :: "ComputerSystemV1220KeyManagement \<Rightarrow> go_error option" where
  "AssertComputerSystemV1220KeyManagementConstraints obj = first_error
     [AssertOdataV4IdRefConstraints (keymgmt_KMIPCertificates obj),
      each AssertComputerSystemV1220KmipServerConstraints (keymgmt_KMIPServers obj)]"

section \<open>ComputerSystemV1220Links\<close>

record ComputerSystemV1220Links =
  links_Chassis :: "OdataV4IdRef slice"
  links_ChassisodataCount :: int
  links_ConsumingComputerSystems :: "OdataV4IdRef slice"
  links_ConsumingComputerSystemsodataCount :: int
  links_CooledBy :: "OdataV4IdRef slice"
  links_CooledByodataCount :: int
  links_Endpoints :: "OdataV4IdRef slice"
  links_EndpointsodataCount :: int
  links_HostingComputerSystem :: OdataV4IdRef
  links_ManagedBy :: "OdataV4IdRef slice"
  links_ManagedByodataCount :: int
  links_Oem :: "json gomap"
  links_OffloadedNetworkDeviceFunctions :: "OdataV4IdRef slice"
  links_OffloadedNetworkDeviceFunctionsodataCount :: int
  links_PoweredBy :: "OdataV4IdRef slice"
  links_PoweredByodataCount :: int
  links_ResourceBlocks :: "OdataV4IdRef slice"
  links_ResourceBlocksodataCount :: int
  links_SupplyingComputerSystems :: "OdataV4IdRef slice"
  links_SupplyingComputerSystemsodataCount :: int
  links_TrustedComponents :: "OdataV4IdRef slice"
  links_TrustedComponentsodataCount :: int
  links_VirtualMachines :: "OdataV4IdRef slice"
  links_VirtualMachinesodataCount :: int

definition zero_ComputerSystemV1220Links :: ComputerSystemV1220Links where
  "zero_ComputerSystemV1220Links = \<lparr>
     links_Chassis = None, links_ChassisodataCount = 0, links_ConsumingComputerSystems = None,
     links_ConsumingComputerSystemsodataCount = 0, links_CooledBy = None, links_CooledByodataCount = 0,
     links_Endpoints = None, links_EndpointsodataCount = 0, links_HostingComputerSystem = zero_OdataV4IdRef,
     links_ManagedBy = None, links_ManagedByodataCount = 0, links_Oem = None,
     links_OffloadedNetworkDeviceFunctions = None, links_OffloadedNetworkDeviceFunctionsodataCount = 0,
     links_PoweredBy = None, links_PoweredByodataCount = 0, links_ResourceBlocks = None,
     links_ResourceBlocksodataCount = 0, links_SupplyingComputerSystems = None,
     links_SupplyingComputerSystemsodataCount = 0, links_TrustedComponents = None,
     links_TrustedComponentsodataCount = 0, links_VirtualMachines = None,
     links_VirtualMachinesodataCount = 0\<rparr>"

definition AssertComputerSystemV1220LinksRequired :: "ComputerSystemV1220Links \<Rightarrow> go_error option" where
  "AssertComputerSystemV1220LinksRequired obj = first_error
     [each AssertOdataV4IdRefRequired (links_Chassis obj),
      each AssertOdataV4IdRefRequired (links_ConsumingComputerSystems obj),
      each AssertOdataV4IdRefRequired (links_CooledBy obj),
      each AssertOdataV4IdRefRequired (links_Endpoints obj),
      AssertOdataV4IdRefRequired (links_HostingComputerSystem obj),
      each AssertOdataV4IdRefRequired (links_ManagedBy obj),
      each AssertOdataV4IdRefRequired (links_OffloadedNetworkDeviceFunctions obj),
      each AssertOdataV4IdRefRequired (links_PoweredBy obj),
      each AssertOdataV4IdRefRequired (links_ResourceBlocks obj),
      each AssertOdataV4IdRefRequired (links_SupplyingComputerSystems obj),
      each AssertOdataV4IdRefRequired (links_TrustedComponents obj),
      each AssertOdataV4IdRefRequired (links_VirtualMachines obj)]"

definition AssertComputerSystemV1220LinksConstraints :: "ComputerSystemV1220Links \<Rightarrow> go_error option" where
  "AssertComputerSystemV1220LinksConstraints obj = first_error
     [each AssertOdataV4IdRefConstraints (links_Chassis obj),
      each AssertOdataV4IdRefConstraints (links_ConsumingComputerSystems obj),
      each AssertOdataV4IdRefConstraints (links_CooledBy obj),
      each AssertOdataV4IdRefConstraints (links_Endpoints obj),
      AssertOdataV4IdRefConstraints (links_HostingComputerSystem obj),
      each AssertOdataV4IdRefConstraints (links_ManagedBy obj),
      each AssertOdataV4IdRefConstraints (links_OffloadedNetworkDeviceFunctions obj),
      each AssertOdataV4IdRefConstraints (links_PoweredBy obj),
      each AssertOdataV4IdRefConstraints (links_ResourceBlocks obj),
      each AssertOdataV4IdRefConstraints (links_SupplyingComputerSystems obj),
      each AssertOdataV4IdRefConstraints (links_TrustedComponents obj),
      each AssertOdataV4IdRefConstraints (links_VirtualMachines obj)]"

section \<open>SoftwareInventoryMeasurementBlock\<close>

record SoftwareInventoryMeasurementBlock =
  measurement_Measurement :: "string option"
  measurement_MeasurementIndex :: "int option"
  measurement_MeasurementSize :: "int option"
  measurement_MeasurementSpecification :: "int option"

definition zero_SoftwareInventoryMeasurementBlock :: SoftwareInventoryMeasurementBlock where
  "zero_SoftwareInventoryMeasurementBlock = \<lparr>
     measurement_Measurement = None, measurement_MeasurementIndex = None, measurement_MeasurementSize = None,
     measurement_MeasurementSpecification = None\<rparr>"

definition AssertSoftwareInventoryMeasurementBlockRequired :: "SoftwareInventoryMeasurementBlock \<Rightarrow> go_error option" where
  "AssertSoftwareInventoryMeasurementBlockRequired obj = None"

definition AssertSoftwareInventoryMeasurementBlockConstraints :: "SoftwareInventoryMeasurementBlock \<Rightarrow> go_error option" where
  "AssertSoftwareInventoryMeasurementBlockConstraints obj = None"

section \<open>ComputerSystemV1220MemorySummary\<close>

record ComputerSystemV1220MemorySummary =
  memsum_MemoryMirroring :: ComputerSystemV1220MemoryMirroring
  memsum_Metrics :: OdataV4IdRef
  memsum_Status :: ResourceStatus
  memsum_TotalSystemMemoryGiB :: "float32 option"
  memsum_TotalSystemPersistentMemoryGiB :: "float32 option"

definition zero_ComputerSystemV1220MemorySummary :: ComputerSystemV1220MemorySummary where
  "zero_ComputerSystemV1220MemorySummary = \<lparr>
     memsum_MemoryMirroring = '''', memsum_Metrics = zero_OdataV4IdRef, memsum_Status = zero_ResourceStatus,
     memsum_TotalSystemMemoryGiB = None, memsum_TotalSystemPersistentMemoryGiB = None\<rparr>"

definition AssertComputerSystemV1220MemorySummaryRequired :: "field_order \<Rightarrow> ComputerSystemV1220MemorySummary \<Rightarrow> go_error option" where
  "AssertComputerSystemV1220MemorySummaryRequired ord obj = first_error
     [AssertOdataV4IdRefRequired (memsum_Metrics obj),
      AssertResourceStatusRequired ord (memsum_Status obj)]"

definition AssertComputerSystemV1220MemorySummaryConstraints :: "ComputerSystemV1220MemorySummary \<Rightarrow> go_error option" where
  "AssertComputerSystemV1220MemorySummaryConstraints obj = first_error
     [AssertOdataV4IdRefConstraints (memsum_Metrics obj),
      AssertResourceStatusConstraints (memsum_Status obj),
      minimum ''TotalSystemMemoryGiB'' (memsum_TotalSystemMemoryGiB obj),
      minimum ''TotalSystemPersistentMemoryGiB'' (memsum_TotalSystemPersistentMemoryGiB obj)]"

section \<open>ComputerSystemV1220ProcessorSummary\<close>

record ComputerSystemV1220ProcessorSummary =
  procsum_CoreCount :: "int option"
  procsum_Count :: "int option"
  procsum_LogicalProcessorCount :: "int option"
  procsum_Metrics :: OdataV4IdRef
  procsum_Model :: "string option"
  procsum_Status :: ResourceStatus
  procsum_ThreadingEnabled :: bool

definition zero_ComputerSystemV1220ProcessorSummary :: ComputerSystemV1220ProcessorSummary where
  "zero_ComputerSystemV1220ProcessorSummary = \<lparr>
     procsum_CoreCount = None, procsum_Count = None, procsum_LogicalProcessorCount = None,
     procsum_Metrics = zero_OdataV4IdRef, procsum_Model = None, procsum_Status = zero_ResourceStatus,
     procsum_ThreadingEnabled = False\<rparr>"

definition AssertComputerSystemV1220ProcessorSummaryRequired :: "field_order \<Rightarrow> ComputerSystemV1220ProcessorSummary \<Rightarrow> go_error option" where
  "AssertComputerSystemV1220ProcessorSummaryRequired ord obj = first_error
     [AssertOdataV4IdRefRequired (procsum_Metrics obj),
      AssertResourceStatusRequired ord (procsum_Status obj)]"

definition AssertComputerSystemV1220ProcessorSummaryConstraints :: "ComputerSystemV1220ProcessorSummary \<Rightarrow> go_error option" where
  "AssertComputerSystemV1220ProcessorSummaryConstraints obj = first_error
     [minimum ''CoreCount'' (map_option of_int (procsum_CoreCount obj)),
      minimum ''Count'' (map_option of_int (procsum_Count obj)),
      minimum ''LogicalProcessorCount'' (map_option of_int (procsum_LogicalProcessorCount obj)),
      AssertOdataV4IdRefConstraints (procsum_Metrics obj),
      AssertResourceStatusConstraints (procsum_Status obj)]"

section \<open>RedundancyV142Actions\<close>

record RedundancyV142Actions =
  ractions_Oem :: "json gomap"

definition zero_RedundancyV142Actions :: RedundancyV142Actions where
  "zero_RedundancyV142Actions = \<lparr>
     ractions_Oem = None\<rparr>"

definition AssertRedundancyV142ActionsRequired :: "RedundancyV142Actions \<Rightarrow> go_error option" where
  "AssertRedundancyV142ActionsRequired obj = None"

definition AssertRedundancyV142ActionsConstraints :: "RedundancyV142Actions \<Rightarrow> go_error option" where
  "AssertRedundancyV142ActionsConstraints obj = None"

section \<open>RedundancyRedundancy\<close>

record RedundancyRedundancy =
  redundancy_OdataId :: string
  redundancy_Actions :: RedundancyV142Actions
  redundancy_MaxNumSupported :: "int option"
  redundancy_MemberId :: string
  redundancy_MinNumNeeded :: "int option"
  redundancy_Mode :: "RedundancyV142RedundancyMode option"
  redundancy_Name :: string
  redundancy_Oem :: "json gomap"
  redundancy_RedundancyEnabled :: "bool option"
  redundancy_RedundancySet :: "OdataV4IdRef slice"
  redundancy_RedundancySetodataCount :: int
  redundancy_Status :: ResourceStatus

definition zero_RedundancyRedundancy :: RedundancyRedundancy where
  "zero_RedundancyRedundancy = \<lparr>
     redundancy_OdataId = '''', redundancy_Actions = zero_RedundancyV142Actions,
     redundancy_MaxNumSupported = None, redundancy_MemberId = '''', redundancy_MinNumNeeded = None,
     redundancy_Mode = None, redundancy_Name = '''', redundancy_Oem = None,
     redundancy_RedundancyEnabled = None, redundancy_RedundancySet = None,
     redundancy_RedundancySetodataCount = 0, redundancy_Status = zero_ResourceStatus\<rparr>"

definition AssertRedundancyRedundancyRequired :: "field_order \<Rightarrow> RedundancyRedundancy \<Rightarrow> go_error option" where
  "AssertRedundancyRedundancyRequired ord obj = first_error
     [required ord [(''@odata.id'', redundancy_OdataId obj = ''''), (''MemberId'', redundancy_MemberId obj = ''''), (''MinNumNeeded'', redundancy_MinNumNeeded obj = None), (''Mode'', redundancy_Mode obj = None), (''Name'', redundancy_Name obj = ''''), (''RedundancySet'', redundancy_RedundancySet obj = None), (''Status'', redundancy_Status obj = zero_ResourceStatus)],
      AssertRedundancyV142ActionsRequired (redundancy_Actions obj),
      each AssertOdataV4IdRefRequired (redundancy_RedundancySet obj),
      AssertResourceStatusRequired ord (redundancy_Status obj)]"

definition AssertRedundancyRedundancyConstraints :: "RedundancyRedundancy \<Rightarrow> go_error option" where
  "AssertRedundancyRedundancyConstraints obj = first_error
     [AssertRedundancyV142ActionsConstraints (redundancy_Actions obj),
      each AssertOdataV4IdRefConstraints (redundancy_RedundancySet obj),
      AssertResourceStatusConstraints (redundancy_Status obj)]"

section \<open>ComputerSystemV1220SerialConsoleProtocol\<close>

record ComputerSystemV1220SerialConsoleProtocol =
  serial_ConsoleEntryCommand :: "string option"
  serial_HotKeySequenceDisplay :: "string option"
  serial_Port :: "int option"
  serial_ServiceEnabled :: bool
  serial_SharedWithManagerCLI :: bool

definition zero_ComputerSystemV1220SerialConsoleProtocol :: ComputerSystemV1220SerialConsoleProtocol where
  "zero_ComputerSystemV1220SerialConsoleProtocol = \<lparr>
     serial_ConsoleEntryCommand = None, serial_HotKeySequenceDisplay = None, serial_Port = None,
     serial_ServiceEnabled = False, serial_SharedWithManagerCLI = False\<rparr>"

definition AssertComputerSystemV1220SerialConsoleProtocolRequired :: "ComputerSystemV1220SerialConsoleProtocol \<Rightarrow> go_error option" where
  "AssertComputerSystemV1220SerialConsoleProtocolRequired obj = None"

definition AssertComputerSystemV1220SerialConsoleProtocolConstraints :: "ComputerSystemV1220SerialConsoleProtocol \<Rightarrow> go_error option" where
  "AssertComputerSystemV1220SerialConsoleProtocolConstraints obj = first_error
     [minimum ''Port'' (map_option of_int (serial_Port obj))]"

section \<open>ComputerSystemV1220HostSerialConsole\<close>

record ComputerSystemV1220HostSerialConsole =
  sconsole_IPMI :: ComputerSystemV1220SerialConsoleProtocol
  sconsole_MaxConcurrentSessions :: int
  sconsole_SSH :: ComputerSystemV1220SerialConsoleProtocol
  sconsole_Telnet :: ComputerSystemV1220SerialConsoleProtocol

definition zero_ComputerSystemV1220HostSerialConsole :: ComputerSystemV1220HostSerialConsole where
  "zero_ComputerSystemV1220HostSerialConsole = \<lparr>
     sconsole_IPMI = zero_ComputerSystemV1220SerialConsoleProtocol, sconsole_MaxConcurrentSessions = 0,
     sconsole_SSH = zero_ComputerSystemV1220SerialConsoleProtocol,
     sconsole_Telnet = zero_ComputerSystemV1220SerialConsoleProtocol\<rparr>"

definition AssertComputerSystemV1220HostSerialConsoleRequired :: "ComputerSystemV1220HostSerialConsole \<Rightarrow> go_error option" where
  "AssertComputerSystemV1220HostSerialConsoleRequired obj = first_error
     [AssertComputerSystemV1220SerialConsoleProtocolRequired (sconsole_IPMI obj),
      AssertComputerSystemV1220SerialConsoleProtocolRequired (sconsole_SSH obj),
      AssertComputerSystemV1220SerialConsoleProtocolRequired (sconsole_Telnet obj)]"

definition AssertComputerSystemV1220HostSerialConsoleConstraints :: "ComputerSystemV1220HostSerialConsole \<Rightarrow> go_error option" where
  "AssertComputerSystemV1220HostSerialConsoleConstraints obj = first_error
     [AssertComputerSystemV1220SerialConsoleProtocolConstraints (sconsole_IPMI obj),
      minimum ''MaxConcurrentSessions'' (Some (of_int (sconsole_MaxConcurrentSessions obj))),
      AssertComputerSystemV1220SerialConsoleProtocolConstraints (sconsole_SSH obj),
      AssertComputerSystemV1220SerialConsoleProtocolConstraints (sconsole_Telnet obj)]"

section \<open>ComputerSystemV1220TrustedModules\<close>

record ComputerSystemV1220TrustedModules =
  tpm_FirmwareVersion :: "string option"
  tpm_FirmwareVersion2 :: "string option"
  tpm_InterfaceType :: ComputerSystemV1220InterfaceType
  tpm_InterfaceTypeSelection :: ComputerSystemV1220InterfaceTypeSelection
  tpm_Oem :: "json gomap"
  tpm_Status :: ResourceStatus

definition zero_ComputerSystemV1220TrustedModules :: ComputerSystemV1220TrustedModules where
  "zero_ComputerSystemV1220TrustedModules = \<lparr>
     tpm_FirmwareVersion = None, tpm_FirmwareVersion2 = None, tpm_InterfaceType = '''',
     tpm_InterfaceTypeSelection = '''', tpm_Oem = None, tpm_Status = zero_ResourceStatus\<rparr>"

definition AssertComputerSystemV1220TrustedModulesRequired :: "field_order \<Rightarrow> ComputerSystemV1220TrustedModules \<Rightarrow> go_error option" where
  "AssertComputerSystemV1220TrustedModulesRequired ord obj = first_error
     [AssertResourceStatusRequired ord (tpm_Status obj)]"

definition AssertComputerSystemV1220TrustedModulesConstraints :: "ComputerSystemV1220TrustedModules \<Rightarrow> go_error option" where
  "AssertComputerSystemV1220TrustedModulesConstraints obj = first_error
     [AssertResourceStatusConstraints (tpm_Status obj)]"

section \<open>ComputerSystemV1220VirtualMediaConfig\<close>

record ComputerSystemV1220VirtualMediaConfig =
  vmconfig_Port :: "int option"
  vmconfig_ServiceEnabled :: bool

definition zero_ComputerSystemV1220VirtualMediaConfig :: ComputerSystemV1220VirtualMediaConfig where
  "zero_ComputerSystemV1220VirtualMediaConfig = \<lparr>
     vmconfig_Port = None, vmconfig_ServiceEnabled = False\<rparr>"

definition AssertComputerSystemV1220VirtualMediaConfigRequired :: "ComputerSystemV1220VirtualMediaConfig \<Rightarrow> go_error option" where
  "AssertComputerSystemV1220VirtualMediaConfigRequired obj = None"

definition AssertComputerSystemV1220VirtualMediaConfigConstraints :: "ComputerSystemV1220VirtualMediaConfig \<Rightarrow> go_error option" where
  "AssertComputerSystemV1220VirtualMediaConfigConstraints obj = first_error
     [minimum ''Port'' (map_option of_int (vmconfig_Port obj))]"

section \<open>ComputerSystemV1220ComputerSystem\<close>

record ComputerSystemV1220ComputerSystem =
  cs_OdataContext :: string
  cs_OdataEtag :: string
  cs_OdataId :: string
  cs_OdataType :: string
  cs_Actions :: ComputerSystemV1220Actions
  cs_AssetTag :: "string option"
  cs_Bios :: OdataV4IdRef
  cs_BiosVersion :: "string option"
  cs_Boot :: ComputerSystemV1220Boot
  cs_BootProgress :: ComputerSystemV1220BootProgress
  cs_Certificates :: OdataV4IdRef
  cs_Composition :: ComputerSystemV1220Composition
  cs_Description :: string
  cs_EthernetInterfaces :: OdataV4IdRef
  cs_FabricAdapters :: OdataV4IdRef
  cs_GraphicalConsole :: ComputerSystemV1220HostGraphicalConsole
  cs_GraphicsControllers :: OdataV4IdRef
  cs_HostName :: "string option"
  cs_HostWatchdogTimer :: ComputerSystemV1220WatchdogTimer
  cs_HostedServices :: ComputerSystemV1220HostedServices
  cs_HostingRoles :: "ComputerSystemV1220HostingRole slice"
  cs_Id :: string
  cs_IdlePowerSaver :: ComputerSystemV1220IdlePowerSaver
  cs_IndicatorLED :: ComputerSystemV1220IndicatorLed
  cs_KeyManagement :: ComputerSystemV1220KeyManagement
  cs_LastResetTime :: Time
  cs_Links :: ComputerSystemV1220Links
  cs_LocationIndicatorActive :: "bool option"
  cs_LogServices :: OdataV4IdRef
  cs_Manufacturer :: "string option"
  cs_ManufacturingMode :: "bool option"
  cs_Measurements :: "SoftwareInventoryMeasurementBlock slice"
  cs_Memory :: OdataV4IdRef
  cs_MemoryDomains :: OdataV4IdRef
  cs_MemorySummary :: ComputerSystemV1220MemorySummary
  cs_Model :: "string option"
  cs_Name :: string
  cs_NetworkInterfaces :: OdataV4IdRef
  cs_Oem :: "json gomap"
  cs_OperatingSystem :: string
  cs_PCIeDevices :: "OdataV4IdRef slice"
  cs_PCIeDevicesodataCount :: int
  cs_PCIeFunctions :: "OdataV4IdRef slice"
  cs_PCIeFunctionsodataCount :: int
  cs_PartNumber :: "string option"
  cs_PowerCycleDelaySeconds :: "float32 option"
  cs_PowerMode :: ComputerSystemV1220PowerMode
  cs_PowerOffDelaySeconds :: "float32 option"
  cs_PowerOnDelaySeconds :: "float32 option"
  cs_PowerRestorePolicy :: ComputerSystemV1220PowerRestorePolicyTypes
  cs_PowerState :: ResourcePowerState
  cs_ProcessorSummary :: ComputerSystemV1220ProcessorSummary
  cs_Processors :: OdataV4IdRef
  cs_Redundancy :: "RedundancyRedundancy slice"
  cs_RedundancyodataCount :: int
  cs_SKU :: "string option"
  cs_SecureBoot :: OdataV4IdRef
  cs_SerialConsole :: ComputerSystemV1220HostSerialConsole
  cs_SerialNumber :: "string option"
  cs_SimpleStorage :: OdataV4IdRef
  cs_Status :: ResourceStatus
  cs_Storage :: OdataV4IdRef
  cs_SubModel :: "string option"
  cs_SystemType :: ComputerSystemV1220SystemType
  cs_TrustedModules :: "ComputerSystemV1220TrustedModules slice"
  cs_USBControllers :: OdataV4IdRef
  cs_UUID :: string
  cs_VirtualMedia :: OdataV4IdRef
  cs_VirtualMediaConfig :: ComputerSystemV1220VirtualMediaConfig

definition zero_ComputerSystemV1220ComputerSystem :: ComputerSystemV1220ComputerSystem where
  "zero_ComputerSystemV1220ComputerSystem = \<lparr>
     cs_OdataContext = '''', cs_OdataEtag = '''', cs_OdataId = '''', cs_OdataType = '''',
     cs_Actions = zero_ComputerSystemV1220Actions, cs_AssetTag = None, cs_Bios = zero_OdataV4IdRef,
     cs_BiosVersion = None, cs_Boot = zero_ComputerSystemV1220Boot,
     cs_BootProgress = zero_ComputerSystemV1220BootProgress, cs_Certificates = zero_OdataV4IdRef,
     cs_Composition = zero_ComputerSystemV1220Composition, cs_Description = '''',
     cs_EthernetInterfaces = zero_OdataV4IdRef, cs_FabricAdapters = zero_OdataV4IdRef,
     cs_GraphicalConsole = zero_ComputerSystemV1220HostGraphicalConsole,
     cs_GraphicsControllers = zero_OdataV4IdRef, cs_HostName = None,
     cs_HostWatchdogTimer = zero_ComputerSystemV1220WatchdogTimer,
     cs_HostedServices = zero_ComputerSystemV1220HostedServices, cs_HostingRoles = None, cs_Id = '''',
     cs_IdlePowerSaver = zero_ComputerSystemV1220IdlePowerSaver, cs_IndicatorLED = '''',
     cs_KeyManagement = zero_ComputerSystemV1220KeyManagement, cs_LastResetTime = zero_Time,
     cs_Links = zero_ComputerSystemV1220Links, cs_LocationIndicatorActive = None,
     cs_LogServices = zero_OdataV4IdRef, cs_Manufacturer = None, cs_ManufacturingMode = None,
     cs_Measurements = None, cs_Memory = zero_OdataV4IdRef, cs_MemoryDomains = zero_OdataV4IdRef,
     cs_MemorySummary = zero_ComputerSystemV1220MemorySummary, cs_Model = None, cs_Name = '''',
     cs_NetworkInterfaces = zero_OdataV4IdRef, cs_Oem = None, cs_OperatingSystem = '''', cs_PCIeDevices = None,
     cs_PCIeDevicesodataCount = 0, cs_PCIeFunctions = None, cs_PCIeFunctionsodataCount = 0,
     cs_PartNumber = None, cs_PowerCycleDelaySeconds = None, cs_PowerMode = '''',
     cs_PowerOffDelaySeconds = None, cs_PowerOnDelaySeconds = None, cs_PowerRestorePolicy = '''',
     cs_PowerState = '''', cs_ProcessorSummary = zero_ComputerSystemV1220ProcessorSummary,
     cs_Processors = zero_OdataV4IdRef, cs_Redundancy = None, cs_RedundancyodataCount = 0, cs_SKU = None,
     cs_SecureBoot = zero_OdataV4IdRef, cs_SerialConsole = zero_ComputerSystemV1220HostSerialConsole,
     cs_SerialNumber = None, cs_SimpleStorage = zero_OdataV4IdRef, cs_Status = zero_ResourceStatus,
     cs_Storage = zero_OdataV4IdRef, cs_SubModel = None, cs_SystemType = '''', cs_TrustedModules = None,
     cs_USBControllers = zero_OdataV4IdRef, cs_UUID = '''', cs_VirtualMedia = zero_OdataV4IdRef,
     cs_VirtualMediaConfig = zero_ComputerSystemV1220VirtualMediaConfig\<rparr>"

definition AssertComputerSystemV1220ComputerSystemRequired :: "field_order \<Rightarrow> ComputerSystemV1220ComputerSystem \<Rightarrow> go_error option" where
  "AssertComputerSystemV1220ComputerSystemRequired ord obj = first_error
     [required ord [(''@odata.id'', cs_OdataId obj = ''''), (''@odata.type'', cs_OdataType obj = ''''), (''Id'', cs_Id obj = ''''), (''Name'', cs_Name obj = '''')],
      AssertComputerSystemV1220ActionsRequired (cs_Actions obj),
      AssertOdataV4IdRefRequired (cs_Bios obj),
      AssertComputerSystemV1220BootRequired (cs_Boot obj),
      AssertComputerSystemV1220BootProgressRequired (cs_BootProgress obj),
      AssertOdataV4IdRefRequired (cs_Certificates obj),
      AssertComputerSystemV1220CompositionRequired (cs_Composition obj),
      AssertOdataV4IdRefRequired (cs_EthernetInterfaces obj),
      AssertOdataV4IdRefRequired (cs_FabricAdapters obj),
      AssertComputerSystemV1220HostGraphicalConsoleRequired (cs_GraphicalConsole obj),
      AssertOdataV4IdRefRequired (cs_GraphicsControllers obj),
      AssertComputerSystemV1220WatchdogTimerRequired ord (cs_HostWatchdogTimer obj),
      AssertComputerSystemV1220HostedServicesRequired (cs_HostedServices obj),
      AssertComputerSystemV1220IdlePowerSaverRequired (cs_IdlePowerSaver obj),
      AssertComputerSystemV1220KeyManagementRequired (cs_KeyManagement obj),
      AssertComputerSystemV1220LinksRequired (cs_Links obj),
      AssertOdataV4IdRefRequired (cs_LogServices obj),
      each AssertSoftwareInventoryMeasurementBlockRequired (cs_Measurements obj),
      AssertOdataV4IdRefRequired (cs_Memory obj),
      AssertOdataV4IdRefRequired (cs_MemoryDomains obj),
      AssertComputerSystemV1220MemorySummaryRequired ord (cs_MemorySummary obj),
      AssertOdataV4IdRefRequired (cs_NetworkInterfaces obj),
      each AssertOdataV4IdRefRequired (cs_PCIeDevices obj),
      each AssertOdataV4IdRefRequired (cs_PCIeFunctions obj),
      AssertComputerSystemV1220ProcessorSummaryRequired ord (cs_ProcessorSummary obj),
      AssertOdataV4IdRefRequired (cs_Processors obj),
      each (AssertRedundancyRedundancyRequired ord) (cs_Redundancy obj),
      AssertOdataV4IdRefRequired (cs_SecureBoot obj),
      AssertComputerSystemV1220HostSerialConsoleRequired (cs_SerialConsole obj),
      AssertOdataV4IdRefRequired (cs_SimpleStorage obj),
      AssertResourceStatusRequired ord (cs_Status obj),
      AssertOdataV4IdRefRequired (cs_Storage obj),
      each (AssertComputerSystemV1220TrustedModulesRequired ord) (cs_TrustedModules obj),
      AssertOdataV4IdRefRequired (cs_USBControllers obj),
      AssertOdataV4IdRefRequired (cs_VirtualMedia obj),
      AssertComputerSystemV1220VirtualMediaConfigRequired (cs_VirtualMediaConfig obj)]"

definition AssertComputerSystemV1220ComputerSystemConstraints :: "ComputerSystemV1220ComputerSystem \<Rightarrow> go_error option" where
  "AssertComputerSystemV1220ComputerSystemConstraints obj = first_error
     [AssertComputerSystemV1220ActionsConstraints (cs_Actions obj),
      AssertOdataV4IdRefConstraints (cs_Bios obj),
      AssertComputerSystemV1220BootConstraints (cs_Boot obj),
      AssertComputerSystemV1220BootProgressConstraints (cs_BootProgress obj),
      AssertOdataV4IdRefConstraints (cs_Certificates obj),
      AssertComputerSystemV1220CompositionConstraints (cs_Composition obj),
      AssertOdataV4IdRefConstraints (cs_EthernetInterfaces obj),
      AssertOdataV4IdRefConstraints (cs_FabricAdapters obj),
      AssertComputerSystemV1220HostGraphicalConsoleConstraints (cs_GraphicalConsole obj),
      AssertOdataV4IdRefConstraints (cs_GraphicsControllers obj),
      AssertComputerSystemV1220WatchdogTimerConstraints (cs_HostWatchdogTimer obj),
      AssertComputerSystemV1220HostedServicesConstraints (cs_HostedServices obj),
      AssertComputerSystemV1220IdlePowerSaverConstraints (cs_IdlePowerSaver obj),
      AssertComputerSystemV1220KeyManagementConstraints (cs_KeyManagement obj),
      AssertComputerSystemV1220LinksConstraints (cs_Links obj),
      AssertOdataV4IdRefConstraints (cs_LogServices obj),
      each AssertSoftwareInventoryMeasurementBlockConstraints (cs_Measurements obj),
      AssertOdataV4IdRefConstraints (cs_Memory obj),
      AssertOdataV4IdRefConstraints (cs_MemoryDomains obj),
      AssertComputerSystemV1220MemorySummaryConstraints (cs_MemorySummary obj),
      AssertOdataV4IdRefConstraints (cs_NetworkInterfaces obj),
      each AssertOdataV4IdRefConstraints (cs_PCIeDevices obj),
      each AssertOdataV4IdRefConstraints (cs_PCIeFunctions obj),
      AssertComputerSystemV1220ProcessorSummaryConstraints (cs_ProcessorSummary obj),
      AssertOdataV4IdRefConstraints (cs_Processors obj),
      each AssertRedundancyRedundancyConstraints (cs_Redundancy obj),
      AssertOdataV4IdRefConstraints (cs_SecureBoot obj),
      AssertComputerSystemV1220HostSerialConsoleConstraints (cs_SerialConsole obj),
      AssertOdataV4IdRefConstraints (cs_SimpleStorage obj),
      AssertResourceStatusConstraints (cs_Status obj),
      AssertOdataV4IdRefConstraints (cs_Storage obj),
      each AssertComputerSystemV1220TrustedModulesConstraints (cs_TrustedModules obj),
      AssertOdataV4IdRefConstraints (cs_USBControllers obj),
      AssertOdataV4IdRefConstraints (cs_VirtualMedia obj),
      AssertComputerSystemV1220VirtualMediaConfigConstraints (cs_VirtualMediaConfig obj)]"

end
