(* ===== verification/DocumentSchema.thy ===== *)
theory DocumentSchema
  imports SystemSchema
begin

text \<open>
  The other documents the service reads or serves, generated like that of the computer system: the
  manager, the virtual media slot, the session, and the bodies of the insert and reset actions.
\<close>

section \<open>ManagerV1190ForceFailover\<close>

record ManagerV1190ForceFailover =
  failover_Target :: string
  failover_Title :: string

definition zero_ManagerV1190ForceFailover :: ManagerV1190ForceFailover where
  "zero_ManagerV1190ForceFailover = \<lparr>
     failover_Target = '''', failover_Title = ''''\<rparr>"

definition AssertManagerV1190ForceFailoverRequired :: "ManagerV1190ForceFailover \<Rightarrow> go_error option" where
  "AssertManagerV1190ForceFailoverRequired obj = None"

definition AssertManagerV1190ForceFailoverConstraints :: "ManagerV1190ForceFailover \<Rightarrow> go_error option" where
  "AssertManagerV1190ForceFailoverConstraints obj = None"

section \<open>ManagerV1190ModifyRedundancySet\<close>

record ManagerV1190ModifyRedundancySet =
  modred_Target :: string
  modred_Title :: string

definition zero_ManagerV1190ModifyRedundancySet :: ManagerV1190ModifyRedundancySet where
  "zero_ManagerV1190ModifyRedundancySet = \<lparr>
     modred_Target = '''', modred_Title = ''''\<rparr>"

definition AssertManagerV1190ModifyRedundancySetRequired :: "ManagerV1190ModifyRedundancySet \<Rightarrow> go_error option" where
  "AssertManagerV1190ModifyRedundancySetRequired obj = None"

definition AssertManagerV1190ModifyRedundancySetConstraints :: "ManagerV1190ModifyRedundancySet \<Rightarrow> go_error option" where
  "AssertManagerV1190ModifyRedundancySetConstraints obj = None"

section \<open>ManagerV1190Reset\<close>

record ManagerV1190Reset =
  mgrreset_Target :: string
  mgrreset_Title :: string

definition zero_ManagerV1190Reset :: ManagerV1190Reset where
  "zero_ManagerV1190Reset = \<lparr>
     mgrreset_Target = '''', mgrreset_Title = ''''\<rparr>"

definition AssertManagerV1190ResetRequired :: "ManagerV1190Reset \<Rightarrow> go_error option" where
  "AssertManagerV1190ResetRequired obj = None"

definition AssertManagerV1190ResetConstraints :: "ManagerV1190Reset \<Rightarrow> go_error option" where
  "AssertManagerV1190ResetConstraints obj = None"

section \<open>ManagerV1190ResetToDefaults\<close>

record ManagerV1190ResetToDefaults =
  resetdef_Target :: string
  resetdef_Title :: string

definition zero_ManagerV1190ResetToDefaults :: ManagerV1190ResetToDefaults where
  "zero_ManagerV1190ResetToDefaults = \<lparr>
     resetdef_Target = '''', resetdef_Title = ''''\<rparr>"

definition AssertManagerV1190ResetToDefaultsRequired :: "ManagerV1190ResetToDefaults \<Rightarrow> go_error option" where
  "AssertManagerV1190ResetToDefaultsRequired obj = None"

definition AssertManagerV1190ResetToDefaultsConstraints :: "ManagerV1190ResetToDefaults \<Rightarrow> go_error option" where
  "AssertManagerV1190ResetToDefaultsConstraints obj = None"

section \<open>ManagerV1190Actions\<close>

record ManagerV1190Actions =
  mgractions_ManagerForceFailover :: ManagerV1190ForceFailover
  mgractions_ManagerModifyRedundancySet :: ManagerV1190ModifyRedundancySet
  mgractions_ManagerReset :: ManagerV1190Reset
  mgractions_ManagerResetToDefaults :: ManagerV1190ResetToDefaults
  mgractions_Oem :: "json gomap"

definition zero_ManagerV1190Actions :: ManagerV1190Actions where
  "zero_ManagerV1190Actions = \<lparr>
     mgractions_ManagerForceFailover = zero_ManagerV1190ForceFailover,
     mgractions_ManagerModifyRedundancySet = zero_ManagerV1190ModifyRedundancySet,
     mgractions_ManagerReset = zero_ManagerV1190Reset,
     mgractions_ManagerResetToDefaults = zero_ManagerV1190ResetToDefaults, mgractions_Oem = None\<rparr>"

definition AssertManagerV1190ActionsRequired :: "ManagerV1190Actions \<Rightarrow> go_error option" where
  "AssertManagerV1190ActionsRequired obj = first_error
     [AssertManagerV1190ForceFailoverRequired (mgractions_ManagerForceFailover obj),
      AssertManagerV1190ModifyRedundancySetRequired (mgractions_ManagerModifyRedundancySet obj),
      AssertManagerV1190ResetRequired (mgractions_ManagerReset obj),
      AssertManagerV1190ResetToDefaultsRequired (mgractions_ManagerResetToDefaults obj)]"

definition AssertManagerV1190ActionsConstraints :: "ManagerV1190Actions \<Rightarrow> go_error option" where
  "AssertManagerV1190ActionsConstraints obj = first_error
     [AssertManagerV1190ForceFailoverConstraints (mgractions_ManagerForceFailover obj),
      AssertManagerV1190ModifyRedundancySetConstraints (mgractions_ManagerModifyRedundancySet obj),
      AssertManagerV1190ResetConstraints (mgractions_ManagerReset obj),
      AssertManagerV1190ResetToDefaultsConstraints (mgractions_ManagerResetToDefaults obj)]"

section \<open>SoftwareInventoryAdditionalVersions\<close>

record SoftwareInventoryAdditionalVersions =
  addver_Bootloader :: "string option"
  addver_Kernel :: "string option"
  addver_Microcode :: "string option"
  addver_OSDistribution :: "string option"
  addver_Oem :: "json gomap"

definition zero_SoftwareInventoryAdditionalVersions :: SoftwareInventoryAdditionalVersions where
  "zero_SoftwareInventoryAdditionalVersions = \<lparr>
     addver_Bootloader = None, addver_Kernel = None, addver_Microcode = None, addver_OSDistribution = None,
     addver_Oem = None\<rparr>"

definition AssertSoftwareInventoryAdditionalVersionsRequired :: "SoftwareInventoryAdditionalVersions \<Rightarrow> go_error option" where
  "AssertSoftwareInventoryAdditionalVersionsRequired obj = None"

definition AssertSoftwareInventoryAdditionalVersionsConstraints :: "SoftwareInventoryAdditionalVersions \<Rightarrow> go_error option" where
  "AssertSoftwareInventoryAdditionalVersionsConstraints obj = None"

section \<open>ManagerV1190CommandShell\<close>

record ManagerV1190CommandShell =
  shell_ConnectTypesSupported :: "ManagerV1190CommandConnectTypesSupported slice"
  shell_MaxConcurrentSessions :: int
  shell_ServiceEnabled :: bool

definition zero_ManagerV1190CommandShell :: ManagerV1190CommandShell where
  "zero_ManagerV1190CommandShell = \<lparr>
     shell_ConnectTypesSupported = None, shell_MaxConcurrentSessions = 0, shell_ServiceEnabled = False\<rparr>"

definition AssertManagerV1190CommandShellRequired :: "ManagerV1190CommandShell \<Rightarrow> go_error option" where
  "AssertManagerV1190CommandShellRequired obj = None"

definition AssertManagerV1190CommandShellConstraints :: "ManagerV1190CommandShell \<Rightarrow> go_error option" where
  "AssertManagerV1190CommandShellConstraints obj = first_error
     [minimum ''MaxConcurrentSessions'' (Some (of_int (shell_MaxConcurrentSessions obj)))]"

section \<open>ManagerV1190DaylightSavingTime\<close>

record ManagerV1190DaylightSavingTime =
  dst_EndDateTime :: Time
  dst_OffsetMinutes :: int
  dst_StartDateTime :: Time
  dst_TimeZoneName :: string

definition zero_ManagerV1190DaylightSavingTime :: ManagerV1190DaylightSavingTime where
  "zero_ManagerV1190DaylightSavingTime = \<lparr>
     dst_EndDateTime = zero_Time, dst_OffsetMinutes = 0, dst_StartDateTime = zero_Time,
     dst_TimeZoneName = ''''\<rparr>"

definition AssertManagerV1190DaylightSavingTimeRequired :: "ManagerV1190DaylightSavingTime \<Rightarrow> go_error option" where
  "AssertManagerV1190DaylightSavingTimeRequired obj = None"

definition AssertManagerV1190DaylightSavingTimeConstraints :: "ManagerV1190DaylightSavingTime \<Rightarrow> go_error option" where
  "AssertManagerV1190DaylightSavingTimeConstraints obj = None"

section \<open>ManagerV1190GraphicalConsole\<close>

record ManagerV1190GraphicalConsole =
  mgrgconsole_ConnectTypesSupported :: "ManagerV1190GraphicalConnectTypesSupported slice"
  mgrgconsole_MaxConcurrentSessions :: int
  mgrgconsole_ServiceEnabled :: bool

definition zero_ManagerV1190GraphicalConsole :: ManagerV1190GraphicalConsole where
  "zero_ManagerV1190GraphicalConsole = \<lparr>
     mgrgconsole_ConnectTypesSupported = None, mgrgconsole_MaxConcurrentSessions = 0,
     mgrgconsole_ServiceEnabled = False\<rparr>"

definition AssertManagerV1190GraphicalConsoleRequired :: "ManagerV1190GraphicalConsole \<Rightarrow> go_error option" where
  "AssertManagerV1190GraphicalConsoleRequired obj = None"

definition AssertManagerV1190GraphicalConsoleConstraints :: "ManagerV1190GraphicalConsole \<Rightarrow> go_error option" where
  "AssertManagerV1190GraphicalConsoleConstraints obj = first_error
     [minimum ''MaxConcurrentSessions'' (Some (of_int (mgrgconsole_MaxConcurrentSessions obj)))]"

section \<open>ManagerV1190Links\<close>

record ManagerV1190Links =
  mgrlinks_ActiveSoftwareImage :: OdataV4IdRef
  mgrlinks_ManagedBy :: "OdataV4IdRef slice"
  mgrlinks_ManagedByodataCount :: int
  mgrlinks_ManagerForChassis :: "OdataV4IdRef slice"
  mgrlinks_ManagerForChassisodataCount :: int
  mgrlinks_ManagerForManagers :: "OdataV4IdRef slice"
  mgrlinks_ManagerForManagersodataCount :: int
  mgrlinks_ManagerForServers :: "OdataV4IdRef slice"
  mgrlinks_ManagerForServersodataCount :: int
  mgrlinks_ManagerForSwitches :: "OdataV4IdRef slice"
  mgrlinks_ManagerForSwitchesodataCount :: int
  mgrlinks_ManagerInChassis :: OdataV4IdRef
  mgrlinks_Oem :: "json gomap"
  mgrlinks_SelectedNetworkPort :: OdataV4IdRef
  mgrlinks_SoftwareImages :: "OdataV4IdRef slice"
  mgrlinks_SoftwareImagesodataCount :: int

definition zero_ManagerV1190Links :: ManagerV1190Links where
  "zero_ManagerV1190Links = \<lparr>
     mgrlinks_ActiveSoftwareImage = zero_OdataV4IdRef, mgrlinks_ManagedBy = None,
     mgrlinks_ManagedByodataCount = 0, mgrlinks_ManagerForChassis = None,
     mgrlinks_ManagerForChassisodataCount = 0, mgrlinks_ManagerForManagers = None,
     mgrlinks_ManagerForManagersodataCount = 0, mgrlinks_ManagerForServers = None,
     mgrlinks_ManagerForServersodataCount = 0, mgrlinks_ManagerForSwitches = None,
     mgrlinks_ManagerForSwitchesodataCount = 0, mgrlinks_ManagerInChassis = zero_OdataV4IdRef,
     mgrlinks_Oem = None, mgrlinks_SelectedNetworkPort = zero_OdataV4IdRef, mgrlinks_SoftwareImages = None,
     mgrlinks_SoftwareImagesodataCount = 0\<rparr>"

definition AssertManagerV1190LinksRequired :: "ManagerV1190Links \<Rightarrow> go_error option" where
  "AssertManagerV1190LinksRequired obj = first_error
     [AssertOdataV4IdRefRequired (mgrlinks_ActiveSoftwareImage obj),
      each AssertOdataV4IdRefRequired (mgrlinks_ManagedBy obj),
      each AssertOdataV4IdRefRequired (mgrlinks_ManagerForChassis obj),
      each AssertOdataV4IdRefRequired (mgrlinks_ManagerForManagers obj),
      each AssertOdataV4IdRefRequired (mgrlinks_ManagerForServers obj),
      each AssertOdataV4IdRefRequired (mgrlinks_ManagerForSwitches obj),
      AssertOdataV4IdRefRequired (mgrlinks_ManagerInChassis obj),
      AssertOdataV4IdRefRequired (mgrlinks_SelectedNetworkPort obj),
      each AssertOdataV4IdRefRequired (mgrlinks_SoftwareImages obj)]"

definition AssertManagerV1190LinksConstraints :: "ManagerV1190Links \<Rightarrow> go_error option" where
  "AssertManagerV1190LinksConstraints obj = first_error
     [AssertOdataV4IdRefConstraints (mgrlinks_ActiveSoftwareImage obj),
      each AssertOdataV4IdRefConstraints (mgrlinks_ManagedBy obj),
      each AssertOdataV4IdRefConstraints (mgrlinks_ManagerForChassis obj),
      each AssertOdataV4IdRefConstraints (mgrlinks_ManagerForManagers obj),
      each AssertOdataV4IdRefConstraints (mgrlinks_ManagerForServers obj),
      each AssertOdataV4IdRefConstraints (mgrlinks_ManagerForSwitches obj),
      AssertOdataV4IdRefConstraints (mgrlinks_ManagerInChassis obj),
      AssertOdataV4IdRefConstraints (mgrlinks_SelectedNetworkPort obj),
      each AssertOdataV4IdRefConstraints (mgrlinks_SoftwareImages obj)]"

section \<open>ResourceLocationContactsInner\<close>

record ResourceLocationContactsInner =
  contact_ContactName :: "string option"
  contact_EmailAddress :: "string option"
  contact_PhoneNumber :: "string option"

definition zero_ResourceLocationContactsInner :: ResourceLocationContactsInner where
  "zero_ResourceLocationContactsInner = \<lparr>
     contact_ContactName = None, contact_EmailAddress = None, contact_PhoneNumber = None\<rparr>"

definition AssertResourceLocationContactsInnerRequired :: "ResourceLocationContactsInner \<Rightarrow> go_error option" where
  "AssertResourceLocationContactsInnerRequired obj = None"

definition AssertResourceLocationContactsInnerConstraints :: "ResourceLocationContactsInner \<Rightarrow> go_error option" where
  "AssertResourceLocationContactsInnerConstraints obj = None"

section \<open>ResourceV1200PartLocation\<close>

record ResourceV1200PartLocation =
  partloc_LocationOrdinalValue :: "int option"
  partloc_LocationType :: "ResourceV1200LocationType option"
  partloc_Orientation :: "ResourceV1200Orientation option"
  partloc_Reference :: "ResourceV1200Reference option"
  partloc_ServiceLabel :: "string option"

definition zero_ResourceV1200PartLocation :: ResourceV1200PartLocation where
  "zero_ResourceV1200PartLocation = \<lparr>
     partloc_LocationOrdinalValue = None, partloc_LocationType = None, partloc_Orientation = None,
     partloc_Reference = None, partloc_ServiceLabel = None\<rparr>"

definition AssertResourceV1200PartLocationRequired :: "ResourceV1200PartLocation \<Rightarrow> go_error option" where
  "AssertResourceV1200PartLocationRequired obj = None"

definition AssertResourceV1200PartLocationConstraints :: "ResourceV1200PartLocation \<Rightarrow> go_error option" where
  "AssertResourceV1200PartLocationConstraints obj = None"

section \<open>ResourceV1200PhysicalAddress\<close>

record ResourceV1200PhysicalAddress =
  physaddr_City :: "string option"
  physaddr_Country :: "string option"
  physaddr_ISOCountryCode :: "string option"
  physaddr_ISOSubdivisionCode :: "string option"
  physaddr_PostalCode :: "string option"
  physaddr_StateOrProvince :: "string option"
  physaddr_StreetAddress :: "string option"

definition zero_ResourceV1200PhysicalAddress :: ResourceV1200PhysicalAddress where
  "zero_ResourceV1200PhysicalAddress = \<lparr>
     physaddr_City = None, physaddr_Country = None, physaddr_ISOCountryCode = None,
     physaddr_ISOSubdivisionCode = None, physaddr_PostalCode = None, physaddr_StateOrProvince = None,
     physaddr_StreetAddress = None\<rparr>"

definition AssertResourceV1200PhysicalAddressRequired :: "ResourceV1200PhysicalAddress \<Rightarrow> go_error option" where
  "AssertResourceV1200PhysicalAddressRequired obj = None"

definition AssertResourceV1200PhysicalAddressConstraints :: "ResourceV1200PhysicalAddress \<Rightarrow> go_error option" where
  "AssertResourceV1200PhysicalAddressConstraints obj = None"

section \<open>ResourceV1200Placement\<close>

record ResourceV1200Placement =
  placement_AdditionalInfo :: "string option"
  placement_Rack :: "string option"
  placement_RackOffset :: "int option"
  placement_RackOffsetUnits :: "ResourceV1200RackUnits option"
  placement_Row :: "string option"

definition zero_ResourceV1200Placement :: ResourceV1200Placement where
  "zero_ResourceV1200Placement = \<lparr>
     placement_AdditionalInfo = None, placement_Rack = None, placement_RackOffset = None,
     placement_RackOffsetUnits = None, placement_Row = None\<rparr>"

definition AssertResourceV1200PlacementRequired :: "ResourceV1200Placement \<Rightarrow> go_error option" where
  "AssertResourceV1200PlacementRequired obj = None"

definition AssertResourceV1200PlacementConstraints :: "ResourceV1200Placement \<Rightarrow> go_error option" where
  "AssertResourceV1200PlacementConstraints obj = None"

section \<open>ResourceV1200PostalAddress\<close>

record ResourceV1200PostalAddress =
  postal_AdditionalCode :: "string option"
  postal_AdditionalInfo :: "string option"
  postal_Building :: "string option"
  postal_City :: "string option"
  postal_Community :: "string option"
  postal_Country :: "string option"
  postal_District :: "string option"
  postal_Division :: "string option"
  postal_Floor :: "string option"
  postal_GPSCoords :: "string option"
  postal_HouseNumber :: "int option"
  postal_HouseNumberSuffix :: "string option"
  postal_Landmark :: "string option"
  postal_LeadingStreetDirection :: "string option"
  postal_Location :: "string option"
  postal_Name :: "string option"
  postal_Neighborhood :: "string option"
  postal_POBox :: "string option"
  postal_PlaceType :: "string option"
  postal_PostalCode :: "string option"
  postal_Road :: "string option"
  postal_RoadBranch :: "string option"
  postal_RoadPostModifier :: "string option"
  postal_RoadPreModifier :: "string option"
  postal_RoadSection :: "string option"
  postal_RoadSubBranch :: "string option"
  postal_Room :: "string option"
  postal_Seat :: "string option"
  postal_Street :: "string option"
  postal_StreetSuffix :: "string option"
  postal_Territory :: "string option"
  postal_TrailingStreetSuffix :: "string option"
  postal_Unit :: "string option"

definition zero_ResourceV1200PostalAddress :: ResourceV1200PostalAddress where
  "zero_ResourceV1200PostalAddress = \<lparr>
     postal_AdditionalCode = None, postal_AdditionalInfo = None, postal_Building = None, postal_City = None,
     postal_Community = None, postal_Country = None, postal_District = None, postal_Division = None,
     postal_Floor = None, postal_GPSCoords = None, postal_HouseNumber = None, postal_HouseNumberSuffix = None,
     postal_Landmark = None, postal_LeadingStreetDirection = None, postal_Location = None, postal_Name = None,
     postal_Neighborhood = None, postal_POBox = None, postal_PlaceType = None, postal_PostalCode = None,
     postal_Road = None, postal_RoadBranch = None, postal_RoadPostModifier = None,
     postal_RoadPreModifier = None, postal_RoadSection = None, postal_RoadSubBranch = None, postal_Room = None,
     postal_Seat = None, postal_Street = None, postal_StreetSuffix = None, postal_Territory = None,
     postal_TrailingStreetSuffix = None, postal_Unit = None\<rparr>"

definition AssertResourceV1200PostalAddressRequired :: "ResourceV1200PostalAddress \<Rightarrow> go_error option" where
  "AssertResourceV1200PostalAddressRequired obj = None"

definition AssertResourceV1200PostalAddressConstraints :: "ResourceV1200PostalAddress \<Rightarrow> go_error option" where
  "AssertResourceV1200PostalAddressConstraints obj = None"

section \<open>ResourceLocation\<close>

record ResourceLocation =
  rlocation_AltitudeMeters :: "float32 option"
  rlocation_Contacts :: "ResourceLocationContactsInner slice"
  rlocation_Info :: "string option"
  rlocation_InfoFormat :: "string option"
  rlocation_Latitude :: "float32 option"
  rlocation_Longitude :: "float32 option"
  rlocation_Oem :: "json gomap"
  rlocation_PartLocation :: ResourceV1200PartLocation
  rlocation_PartLocationContext :: "string option"
  rlocation_PhysicalAddress :: ResourceV1200PhysicalAddress
  rlocation_Placement :: ResourceV1200Placement
  rlocation_PostalAddress :: ResourceV1200PostalAddress

definition zero_ResourceLocation :: ResourceLocation where
  "zero_ResourceLocation = \<lparr>
     rlocation_AltitudeMeters = None, rlocation_Contacts = None, rlocation_Info = None,
     rlocation_InfoFormat = None, rlocation_Latitude = None, rlocation_Longitude = None, rlocation_Oem = None,
     rlocation_PartLocation = zero_ResourceV1200PartLocation, rlocation_PartLocationContext = None,
     rlocation_PhysicalAddress = zero_ResourceV1200PhysicalAddress,
     rlocation_Placement = zero_ResourceV1200Placement,
     rlocation_PostalAddress = zero_ResourceV1200PostalAddress\<rparr>"

definition AssertResourceLocationRequired :: "ResourceLocation \<Rightarrow> go_error option" where
  "AssertResourceLocationRequired obj = first_error
     [each AssertResourceLocationContactsInnerRequired (rlocation_Contacts obj),
      AssertResourceV1200PartLocationRequired (rlocation_PartLocation obj),
      AssertResourceV1200PhysicalAddressRequired (rlocation_PhysicalAddress obj),
      AssertResourceV1200PlacementRequired (rlocation_Placement obj),
      AssertResourceV1200PostalAddressRequired (rlocation_PostalAddress obj)]"

definition AssertResourceLocationConstraints :: "ResourceLocation \<Rightarrow> go_error option" where
  "AssertResourceLocationConstraints obj = first_error
     [each AssertResourceLocationContactsInnerConstraints (rlocation_Contacts obj),
      AssertResourceV1200PartLocationConstraints (rlocation_PartLocation obj),
      AssertResourceV1200PhysicalAddressConstraints (rlocation_PhysicalAddress obj),
      AssertResourceV1200PlacementConstraints (rlocation_Placement obj),
      AssertResourceV1200PostalAddressConstraints (rlocation_PostalAddress obj)]"

section \<open>ManagerV1190SerialConsole\<close>

record ManagerV1190SerialConsole =
  mgrsconsole_ConnectTypesSupported :: "ManagerV1190SerialConnectTypesSupported slice"
  mgrsconsole_MaxConcurrentSessions :: int
  mgrsconsole_ServiceEnabled :: bool

definition zero_ManagerV1190SerialConsole :: ManagerV1190SerialConsole where
  "zero_ManagerV1190SerialConsole = \<lparr>
     mgrsconsole_ConnectTypesSupported = None, mgrsconsole_MaxConcurrentSessions = 0,
     mgrsconsole_ServiceEnabled = False\<rparr>"

definition AssertManagerV1190SerialConsoleRequired :: "ManagerV1190SerialConsole \<Rightarrow> go_error option" where
  "AssertManagerV1190SerialConsoleRequired obj = None"

definition AssertManagerV1190SerialConsoleConstraints :: "ManagerV1190SerialConsole \<Rightarrow> go_error option" where
  "AssertManagerV1190SerialConsoleConstraints obj = first_error
     [minimum ''MaxConcurrentSessions'' (Some (of_int (mgrsconsole_MaxConcurrentSessions obj)))]"

section \<open>ManagerV1190Manager\<close>

record ManagerV1190Manager =
  mgr_OdataContext :: string
  mgr_OdataEtag :: string
  mgr_OdataId :: string
  mgr_OdataType :: string
  mgr_Actions :: ManagerV1190Actions
  mgr_AdditionalFirmwareVersions :: SoftwareInventoryAdditionalVersions
  mgr_AutoDSTEnabled :: bool
  mgr_Certificates :: OdataV4IdRef
  mgr_CommandShell :: ManagerV1190CommandShell
  mgr_DateTime :: "Time option"
  mgr_DateTimeLocalOffset :: "string option"
  mgr_DaylightSavingTime :: ManagerV1190DaylightSavingTime
  mgr_DedicatedNetworkPorts :: OdataV4IdRef
  mgr_Description :: string
  mgr_EthernetInterfaces :: OdataV4IdRef
  mgr_FirmwareVersion :: "string option"
  mgr_GraphicalConsole :: ManagerV1190GraphicalConsole
  mgr_HostInterfaces :: OdataV4IdRef
  mgr_Id :: string
  mgr_LastResetTime :: Time
  mgr_Links :: ManagerV1190Links
  mgr_Location :: ResourceLocation
  mgr_LocationIndicatorActive :: "bool option"
  mgr_LogServices :: OdataV4IdRef
  mgr_ManagerDiagnosticData :: OdataV4IdRef
  mgr_ManagerType :: ManagerV1190ManagerType
  mgr_Manufacturer :: "string option"
  mgr_Measurements :: "SoftwareInventoryMeasurementBlock slice"
  mgr_Model :: "string option"
  mgr_Name :: string
  mgr_NetworkProtocol :: OdataV4IdRef
  mgr_Oem :: "json gomap"
  mgr_PartNumber :: "string option"
  mgr_PowerState :: ResourcePowerState
  mgr_Redundancy :: "RedundancyRedundancy slice"
  mgr_RedundancyodataCount :: int
  mgr_RemoteAccountService :: OdataV4IdRef
  mgr_RemoteRedfishServiceUri :: "string option"
  mgr_SecurityPolicy :: OdataV4IdRef
  mgr_SerialConsole :: ManagerV1190SerialConsole
  mgr_SerialInterfaces :: OdataV4IdRef
  mgr_SerialNumber :: "string option"
  mgr_ServiceEntryPointUUID :: string
  mgr_ServiceIdentification :: "string option"
  mgr_SharedNetworkPorts :: OdataV4IdRef
  mgr_SparePartNumber :: "string option"
  mgr_Status :: ResourceStatus
  mgr_TimeZoneName :: string
  mgr_USBPorts :: OdataV4IdRef
  mgr_UUID :: string
  mgr_Version :: "string option"
  mgr_VirtualMedia :: OdataV4IdRef

definition zero_ManagerV1190Manager :: ManagerV1190Manager where
  "zero_ManagerV1190Manager = \<lparr>
     mgr_OdataContext = '''', mgr_OdataEtag = '''', mgr_OdataId = '''', mgr_OdataType = '''',
     mgr_Actions = zero_ManagerV1190Actions,
     mgr_AdditionalFirmwareVersions = zero_SoftwareInventoryAdditionalVersions, mgr_AutoDSTEnabled = False,
     mgr_Certificates = zero_OdataV4IdRef, mgr_CommandShell = zero_ManagerV1190CommandShell,
     mgr_DateTime = None, mgr_DateTimeLocalOffset = None,
     mgr_DaylightSavingTime = zero_ManagerV1190DaylightSavingTime,
     mgr_DedicatedNetworkPorts = zero_OdataV4IdRef, mgr_Description = '''',
     mgr_EthernetInterfaces = zero_OdataV4IdRef, mgr_FirmwareVersion = None,
     mgr_GraphicalConsole = zero_ManagerV1190GraphicalConsole, mgr_HostInterfaces = zero_OdataV4IdRef,
     mgr_Id = '''', mgr_LastResetTime = zero_Time, mgr_Links = zero_ManagerV1190Links,
     mgr_Location = zero_ResourceLocation, mgr_LocationIndicatorActive = None,
     mgr_LogServices = zero_OdataV4IdRef, mgr_ManagerDiagnosticData = zero_OdataV4IdRef,
     mgr_ManagerType = '''', mgr_Manufacturer = None, mgr_Measurements = None, mgr_Model = None,
     mgr_Name = '''', mgr_NetworkProtocol = zero_OdataV4IdRef, mgr_Oem = None, mgr_PartNumber = None,
     mgr_PowerState = '''', mgr_Redundancy = None, mgr_RedundancyodataCount = 0,
     mgr_RemoteAccountService = zero_OdataV4IdRef, mgr_RemoteRedfishServiceUri = None,
     mgr_SecurityPolicy = zero_OdataV4IdRef, mgr_SerialConsole = zero_ManagerV1190SerialConsole,
     mgr_SerialInterfaces = zero_OdataV4IdRef, mgr_SerialNumber = None, mgr_ServiceEntryPointUUID = '''',
     mgr_ServiceIdentification = None, mgr_SharedNetworkPorts = zero_OdataV4IdRef, mgr_SparePartNumber = None,
     mgr_Status = zero_ResourceStatus, mgr_TimeZoneName = '''', mgr_USBPorts = zero_OdataV4IdRef,
     mgr_UUID = '''', mgr_Version = None, mgr_VirtualMedia = zero_OdataV4IdRef\<rparr>"

definition AssertManagerV1190ManagerRequired :: "field_order \<Rightarrow> ManagerV1190Manager \<Rightarrow> go_error option" where
  "AssertManagerV1190ManagerRequired ord obj = first_error
     [required ord [(''@odata.id'', mgr_OdataId obj = ''''), (''@odata.type'', mgr_OdataType obj = ''''), (''Id'', mgr_Id obj = ''''), (''Name'', mgr_Name obj = '''')],
      AssertManagerV1190ActionsRequired (mgr_Actions obj),
      AssertSoftwareInventoryAdditionalVersionsRequired (mgr_AdditionalFirmwareVersions obj),
      AssertOdataV4IdRefRequired (mgr_Certificates obj),
      AssertManagerV1190CommandShellRequired (mgr_CommandShell obj),
      AssertManagerV1190DaylightSavingTimeRequired (mgr_DaylightSavingTime obj),
      AssertOdataV4IdRefRequired (mgr_DedicatedNetworkPorts obj),
      AssertOdataV4IdRefRequired (mgr_EthernetInterfaces obj),
      AssertManagerV1190GraphicalConsoleRequired (mgr_GraphicalConsole obj),
      AssertOdataV4IdRefRequired (mgr_HostInterfaces obj),
      AssertManagerV1190LinksRequired (mgr_Links obj),
      AssertResourceLocationRequired (mgr_Location obj),
      AssertOdataV4IdRefRequired (mgr_LogServices obj),
      AssertOdataV4IdRefRequired (mgr_ManagerDiagnosticData obj),
      each AssertSoftwareInventoryMeasurementBlockRequired (mgr_Measurements obj),
      AssertOdataV4IdRefRequired (mgr_NetworkProtocol obj),
      each (AssertRedundancyRedundancyRequired ord) (mgr_Redundancy obj),
      AssertOdataV4IdRefRequired (mgr_RemoteAccountService obj),
      AssertOdataV4IdRefRequired (mgr_SecurityPolicy obj),
      AssertManagerV1190SerialConsoleRequired (mgr_SerialConsole obj),
      AssertOdataV4IdRefRequired (mgr_SerialInterfaces obj),
      AssertOdataV4IdRefRequired (mgr_SharedNetworkPorts obj),
      AssertResourceStatusRequired ord (mgr_Status obj),
      AssertOdataV4IdRefRequired (mgr_USBPorts obj),
      AssertOdataV4IdRefRequired (mgr_VirtualMedia obj)]"

definition AssertManagerV1190ManagerConstraints :: "ManagerV1190Manager \<Rightarrow> go_error option" where
  "AssertManagerV1190ManagerConstraints obj = first_error
     [AssertManagerV1190ActionsConstraints (mgr_Actions obj),
      AssertSoftwareInventoryAdditionalVersionsConstraints (mgr_AdditionalFirmwareVersions obj),
      AssertOdataV4IdRefConstraints (mgr_Certificates obj),
      AssertManagerV1190CommandShellConstraints (mgr_CommandShell obj),
      AssertManagerV1190DaylightSavingTimeConstraints (mgr_DaylightSavingTime obj),
      AssertOdataV4IdRefConstraints (mgr_DedicatedNetworkPorts obj),
      AssertOdataV4IdRefConstraints (mgr_EthernetInterfaces obj),
      AssertManagerV1190GraphicalConsoleConstraints (mgr_GraphicalConsole obj),
      AssertOdataV4IdRefConstraints (mgr_HostInterfaces obj),
      AssertManagerV1190LinksConstraints (mgr_Links obj),
      AssertResourceLocationConstraints (mgr_Location obj),
      AssertOdataV4IdRefConstraints (mgr_LogServices obj),
      AssertOdataV4IdRefConstraints (mgr_ManagerDiagnosticData obj),
      each AssertSoftwareInventoryMeasurementBlockConstraints (mgr_Measurements obj),
      AssertOdataV4IdRefConstraints (mgr_NetworkProtocol obj),
      each AssertRedundancyRedundancyConstraints (mgr_Redundancy obj),
      AssertOdataV4IdRefConstraints (mgr_RemoteAccountService obj),
      AssertOdataV4IdRefConstraints (mgr_SecurityPolicy obj),
      AssertManagerV1190SerialConsoleConstraints (mgr_SerialConsole obj),
      AssertOdataV4IdRefConstraints (mgr_SerialInterfaces obj),
      AssertOdataV4IdRefConstraints (mgr_SharedNetworkPorts obj),
      AssertResourceStatusConstraints (mgr_Status obj),
      AssertOdataV4IdRefConstraints (mgr_USBPorts obj),
      AssertOdataV4IdRefConstraints (mgr_VirtualMedia obj)]"

section \<open>VirtualMediaV163EjectMedia\<close>

record VirtualMediaV163EjectMedia =
  vmeject_Target :: string
  vmeject_Title :: string

definition zero_VirtualMediaV163EjectMedia :: VirtualMediaV163EjectMedia where
  "zero_VirtualMediaV163EjectMedia = \<lparr>
     vmeject_Target = '''', vmeject_Title = ''''\<rparr>"

definition AssertVirtualMediaV163EjectMediaRequired :: "VirtualMediaV163EjectMedia \<Rightarrow> go_error option" where
  "AssertVirtualMediaV163EjectMediaRequired obj = None"

definition AssertVirtualMediaV163EjectMediaConstraints :: "VirtualMediaV163EjectMedia \<Rightarrow> go_error option" where
  "AssertVirtualMediaV163EjectMediaConstraints obj = None"

section \<open>VirtualMediaV163InsertMedia\<close>

record VirtualMediaV163InsertMedia =
  vminsert_Target :: string
  vminsert_Title :: string

definition zero_VirtualMediaV163InsertMedia :: VirtualMediaV163InsertMedia where
  "zero_VirtualMediaV163InsertMedia = \<lparr>
     vminsert_Target = '''', vminsert_Title = ''''\<rparr>"

definition AssertVirtualMediaV163InsertMediaRequired :: "VirtualMediaV163InsertMedia \<Rightarrow> go_error option" where
  "AssertVirtualMediaV163InsertMediaRequired obj = None"

definition AssertVirtualMediaV163InsertMediaConstraints :: "VirtualMediaV163InsertMedia \<Rightarrow> go_error option" where
  "AssertVirtualMediaV163InsertMediaConstraints obj = None"

section \<open>VirtualMediaV163Actions\<close>

record VirtualMediaV163Actions =
  vmactions_VirtualMediaEjectMedia :: VirtualMediaV163EjectMedia
  vmactions_VirtualMediaInsertMedia :: VirtualMediaV163InsertMedia
  vmactions_Oem :: "json gomap"

definition zero_VirtualMediaV163Actions :: VirtualMediaV163Actions where
  "zero_VirtualMediaV163Actions = \<lparr>
     vmactions_VirtualMediaEjectMedia = zero_VirtualMediaV163EjectMedia,
     vmactions_VirtualMediaInsertMedia = zero_VirtualMediaV163InsertMedia, vmactions_Oem = None\<rparr>"

definition AssertVirtualMediaV163ActionsRequired :: "VirtualMediaV163Actions \<Rightarrow> go_error option" where
  "AssertVirtualMediaV163ActionsRequired obj = first_error
     [AssertVirtualMediaV163EjectMediaRequired (vmactions_VirtualMediaEjectMedia obj),
      AssertVirtualMediaV163InsertMediaRequired (vmactions_VirtualMediaInsertMedia obj)]"

definition AssertVirtualMediaV163ActionsConstraints :: "VirtualMediaV163Actions \<Rightarrow> go_error option" where
  "AssertVirtualMediaV163ActionsConstraints obj = first_error
     [AssertVirtualMediaV163EjectMediaConstraints (vmactions_VirtualMediaEjectMedia obj),
      AssertVirtualMediaV163InsertMediaConstraints (vmactions_VirtualMediaInsertMedia obj)]"

section \<open>VirtualMediaV163VirtualMedia\<close>

record VirtualMediaV163VirtualMedia =
  vmedia_OdataContext :: string
  vmedia_OdataEtag :: string
  vmedia_OdataId :: string
  vmedia_OdataType :: string
  vmedia_Actions :: VirtualMediaV163Actions
  vmedia_Certificates :: OdataV4IdRef
  vmedia_ClientCertificates :: OdataV4IdRef
  vmedia_ConnectedVia :: VirtualMediaV163ConnectedVia
  vmedia_Description :: string
  vmedia_EjectPolicy :: VirtualMediaV163EjectPolicy
  vmedia_EjectTimeout :: "string option"
  vmedia_Id :: string
  vmedia_Image :: "string option"
  vmedia_ImageName :: "string option"
  vmedia_Inserted :: "bool option"
  vmedia_MediaTypes :: "VirtualMediaV163MediaType slice"
  vmedia_Name :: string
  vmedia_Oem :: "json gomap"
  vmedia_Password :: "string option"
  vmedia_Status :: ResourceStatus
  vmedia_TransferMethod :: VirtualMediaV163TransferMethod
  vmedia_TransferProtocolType :: VirtualMediaV163TransferProtocolType
  vmedia_UserName :: "string option"
  vmedia_VerifyCertificate :: "bool option"
  vmedia_WriteProtected :: "bool option"

definition zero_VirtualMediaV163VirtualMedia :: VirtualMediaV163VirtualMedia where
  "zero_VirtualMediaV163VirtualMedia = \<lparr>
     vmedia_OdataContext = '''', vmedia_OdataEtag = '''', vmedia_OdataId = '''', vmedia_OdataType = '''',
     vmedia_Actions = zero_VirtualMediaV163Actions, vmedia_Certificates = zero_OdataV4IdRef,
     vmedia_ClientCertificates = zero_OdataV4IdRef, vmedia_ConnectedVia = '''', vmedia_Description = '''',
     vmedia_EjectPolicy = '''', vmedia_EjectTimeout = None, vmedia_Id = '''', vmedia_Image = None,
     vmedia_ImageName = None, vmedia_Inserted = None, vmedia_MediaTypes = None, vmedia_Name = '''',
     vmedia_Oem = None, vmedia_Password = None, vmedia_Status = zero_ResourceStatus,
     vmedia_TransferMethod = '''', vmedia_TransferProtocolType = '''', vmedia_UserName = None,
     vmedia_VerifyCertificate = None, vmedia_WriteProtected = None\<rparr>"

definition AssertVirtualMediaV163VirtualMediaRequired :: "field_order \<Rightarrow> VirtualMediaV163VirtualMedia \<Rightarrow> go_error option" where
  "AssertVirtualMediaV163VirtualMediaRequired ord obj = first_error
     [required ord [(''@odata.id'', vmedia_OdataId obj = ''''), (''@odata.type'', vmedia_OdataType obj = ''''), (''Id'', vmedia_Id obj = ''''), (''Name'', vmedia_Name obj = '''')],
      AssertVirtualMediaV163ActionsRequired (vmedia_Actions obj),
      AssertOdataV4IdRefRequired (vmedia_Certificates obj),
      AssertOdataV4IdRefRequired (vmedia_ClientCertificates obj),
      AssertResourceStatusRequired ord (vmedia_Status obj)]"

definition AssertVirtualMediaV163VirtualMediaConstraints :: "VirtualMediaV163VirtualMedia \<Rightarrow> go_error option" where
  "AssertVirtualMediaV163VirtualMediaConstraints obj = first_error
     [AssertVirtualMediaV163ActionsConstraints (vmedia_Actions obj),
      AssertOdataV4IdRefConstraints (vmedia_Certificates obj),
      AssertOdataV4IdRefConstraints (vmedia_ClientCertificates obj),
      AssertResourceStatusConstraints (vmedia_Status obj)]"

section \<open>SessionV171Actions\<close>

record SessionV171Actions =
  seactions_Oem :: "json gomap"

definition zero_SessionV171Actions :: SessionV171Actions where
  "zero_SessionV171Actions = \<lparr>
     seactions_Oem = None\<rparr>"

definition AssertSessionV171ActionsRequired :: "SessionV171Actions \<Rightarrow> go_error option" where
  "AssertSessionV171ActionsRequired obj = None"

definition AssertSessionV171ActionsConstraints :: "SessionV171Actions \<Rightarrow> go_error option" where
  "AssertSessionV171ActionsConstraints obj = None"

section \<open>SessionV171Links\<close>

record SessionV171Links =
  selinks_Oem :: "json gomap"
  selinks_OutboundConnection :: OdataV4IdRef

definition zero_SessionV171Links :: SessionV171Links where
  "zero_SessionV171Links = \<lparr>
     selinks_Oem = None, selinks_OutboundConnection = zero_OdataV4IdRef\<rparr>"

definition AssertSessionV171LinksRequired :: "SessionV171Links \<Rightarrow> go_error option" where
  "AssertSessionV171LinksRequired obj = first_error
     [AssertOdataV4IdRefRequired (selinks_OutboundConnection obj)]"

definition AssertSessionV171LinksConstraints :: "SessionV171Links \<Rightarrow> go_error option" where
  "AssertSessionV171LinksConstraints obj = first_error
     [AssertOdataV4IdRefConstraints (selinks_OutboundConnection obj)]"

section \<open>SessionV171Session\<close>

record SessionV171Session =
  se_OdataContext :: string
  se_OdataEtag :: string
  se_OdataId :: string
  se_OdataType :: string
  se_Actions :: SessionV171Actions
  se_ClientOriginIPAddress :: "string option"
  se_Context :: "string option"
  se_CreatedTime :: "Time option"
  se_Description :: string
  se_Id :: string
  se_Links :: SessionV171Links
  se_Name :: string
  se_Oem :: "json gomap"
  se_OemSessionType :: "string option"
  se_Password :: "string option"
  se_Roles :: "string option slice"
  se_SessionType :: SessionV171SessionTypes
  se_Token :: "string option"
  se_UserName :: "string option"

definition zero_SessionV171Session :: SessionV171Session where
  "zero_SessionV171Session = \<lparr>
     se_OdataContext = '''', se_OdataEtag = '''', se_OdataId = '''', se_OdataType = '''',
     se_Actions = zero_SessionV171Actions, se_ClientOriginIPAddress = None, se_Context = None,
     se_CreatedTime = None, se_Description = '''', se_Id = '''', se_Links = zero_SessionV171Links,
     se_Name = '''', se_Oem = None, se_OemSessionType = None, se_Password = None, se_Roles = None,
     se_SessionType = '''', se_Token = None, se_UserName = None\<rparr>"

definition AssertSessionV171SessionRequired :: "field_order \<Rightarrow> SessionV171Session \<Rightarrow> go_error option" where
  "AssertSessionV171SessionRequired ord obj = first_error
     [required ord [(''@odata.id'', se_OdataId obj = ''''), (''@odata.type'', se_OdataType obj = ''''), (''Id'', se_Id obj = ''''), (''Name'', se_Name obj = '''')],
      AssertSessionV171ActionsRequired (se_Actions obj),
      AssertSessionV171LinksRequired (se_Links obj)]"

definition AssertSessionV171SessionConstraints :: "SessionV171Session \<Rightarrow> go_error option" where
  "AssertSessionV171SessionConstraints obj = first_error
     [AssertSessionV171ActionsConstraints (se_Actions obj),
      AssertSessionV171LinksConstraints (se_Links obj)]"

section \<open>VirtualMediaV163InsertMediaRequestBody\<close>

record VirtualMediaV163InsertMediaRequestBody =
  im_Image :: string
  im_Inserted :: bool
  im_Password :: string
  im_TransferMethod :: VirtualMediaV163TransferMethod
  im_TransferProtocolType :: VirtualMediaV163TransferProtocolType
  im_UserName :: string
  im_WriteProtected :: bool

definition zero_VirtualMediaV163InsertMediaRequestBody :: VirtualMediaV163InsertMediaRequestBody where
  "zero_VirtualMediaV163InsertMediaRequestBody = \<lparr>
     im_Image = '''', im_Inserted = False, im_Password = '''', im_TransferMethod = '''',
     im_TransferProtocolType = '''', im_UserName = '''', im_WriteProtected = False\<rparr>"

definition AssertVirtualMediaV163InsertMediaRequestBodyRequired :: "field_order \<Rightarrow> VirtualMediaV163InsertMediaRequestBody \<Rightarrow> go_error option" where
  "AssertVirtualMediaV163InsertMediaRequestBodyRequired ord obj = first_error
     [required ord [(''Image'', im_Image obj = '''')]]"

definition AssertVirtualMediaV163InsertMediaRequestBodyConstraints :: "VirtualMediaV163InsertMediaRequestBody \<Rightarrow> go_error option" where
  "AssertVirtualMediaV163InsertMediaRequestBodyConstraints obj = None"

section \<open>ComputerSystemV1220ResetRequestBody\<close>

record ComputerSystemV1220ResetRequestBody =
  rb_ResetType :: ResourceResetType

definition zero_ComputerSystemV1220ResetRequestBody :: ComputerSystemV1220ResetRequestBody where
  "zero_ComputerSystemV1220ResetRequestBody = \<lparr>
     rb_ResetType = ''''\<rparr>"

definition AssertComputerSystemV1220ResetRequestBodyRequired :: "ComputerSystemV1220ResetRequestBody \<Rightarrow> go_error option" where
  "AssertComputerSystemV1220ResetRequestBodyRequired obj = None"

definition AssertComputerSystemV1220ResetRequestBodyConstraints :: "ComputerSystemV1220ResetRequestBody \<Rightarrow> go_error option" where
  "AssertComputerSystemV1220ResetRequestBodyConstraints obj = None"

end
