(* ===== verification/Resources.thy ===== *)
theory Resources
  imports DocumentSchema
begin

text \<open>
  pkg/resourcemanager/{resource,computersystem_resource,manager_resource,virtualmedia_resource}.go:
  the in-memory Redfish resources the agent serves, and the part of the generated Redfish data
  model (pkg/generated/redfish/server) they use.  The generated enumerations are string types,
  so that a value outside the enumeration (the zero value among them) exists.
\<close>

section \<open>Values of the enumerations\<close>

definition RESOURCEPOWERSTATE_ON :: ResourcePowerState where
  [simp]: "RESOURCEPOWERSTATE_ON = ''On''"

definition RESOURCEPOWERSTATE_OFF :: ResourcePowerState where
  [simp]: "RESOURCEPOWERSTATE_OFF = ''Off''"

definition COMPUTERSYSTEMBOOTSOURCE_PXE :: ComputerSystemBootSource where
  [simp]: "COMPUTERSYSTEMBOOTSOURCE_PXE = ''Pxe''"

definition COMPUTERSYSTEMBOOTSOURCE_HDD :: ComputerSystemBootSource where
  [simp]: "COMPUTERSYSTEMBOOTSOURCE_HDD = ''Hdd''"

definition BOOTSOURCEOVERRIDEENABLED_DISABLED :: string where
  [simp]: "BOOTSOURCEOVERRIDEENABLED_DISABLED = ''Disabled''"

definition BOOTSOURCEOVERRIDEENABLED_CONTINUOUS :: string where
  [simp]: "BOOTSOURCEOVERRIDEENABLED_CONTINUOUS = ''Continuous''"

definition CONNECTEDVIA_NOT_CONNECTED :: string where
  [simp]: "CONNECTEDVIA_NOT_CONNECTED = ''NotConnected''"

definition CONNECTEDVIA_URI :: string where
  [simp]: "CONNECTEDVIA_URI = ''URI''"

section \<open>The computer system\<close>

text \<open>The adapter is the pointer to the document; fields the literal leaves out hold their zero value.\<close>

type_synonym ComputerSystem = ComputerSystemV1220ComputerSystem

definition NewComputerSystem :: "string \<Rightarrow> string \<Rightarrow> ResourcePowerState \<Rightarrow> ComputerSystem" where
  "NewComputerSystem ident name powerState = zero_ComputerSystemV1220ComputerSystem
     \<lparr>cs_OdataContext := ''/redfish/v1/$metadata#ComputerSystem.ComputerSystem'',
      cs_OdataId := ''/redfish/v1/Systems/'' @ ident,
      cs_OdataType := ''#ComputerSystem.v1_22_0.ComputerSystem'',
      cs_Description := ''Computer System'',
      cs_Name := name,
      cs_Id := ident,
      cs_UUID := ''00000000-0000-0000-0000-000000000000'',
      cs_AssetTag := Some '''',
      cs_IndicatorLED := ''Unknown'',
      cs_Manufacturer := Some ''KubeVirt'',
      cs_Model := Some ''KubeVirt'',
      cs_PartNumber := Some '''',
      cs_SerialNumber := Some ''000000000000'',
      cs_SKU := Some '''',
      cs_Status := zero_ResourceStatus,
      cs_SystemType := ''Virtual'',
      cs_Links := zero_ComputerSystemV1220Links,
      cs_PowerState := powerState,
      cs_Actions := zero_ComputerSystemV1220Actions
        \<lparr>csactions_ComputerSystemReset :=
           \<lparr>csreset_Target = ''/redfish/v1/Systems/'' @ ident @ ''/Actions/ComputerSystem.Reset'', csreset_Title = ''Reset''\<rparr>\<rparr>,
      cs_Boot := zero_ComputerSystemV1220Boot
        \<lparr>boot_BootSourceOverrideEnabled := BOOTSOURCEOVERRIDEENABLED_DISABLED,
         boot_BootSourceOverrideMode := ''Legacy'',
         boot_BootSourceOverrideTarget := COMPUTERSYSTEMBOOTSOURCE_HDD\<rparr>,
      cs_OperatingSystem := ''/redfish/v1/Systems/'' @ ident @ ''/OperatingSystem'',
      cs_VirtualMedia := \<lparr>ref_OdataId = ''/redfish/v1/Systems/'' @ ident @ ''/VirtualMedia''\<rparr>,
      cs_HostWatchdogTimer := zero_ComputerSystemV1220WatchdogTimer\<lparr>watchdog_FunctionEnabled := Some False\<rparr>,
      cs_MemorySummary := zero_ComputerSystemV1220MemorySummary
        \<lparr>memsum_Status := zero_ResourceStatus, memsum_TotalSystemMemoryGiB := Some 0\<rparr>,
      cs_NetworkInterfaces := \<lparr>ref_OdataId = ''/redfish/v1/Systems/'' @ ident @ ''/NetworkInterfaces''\<rparr>,
      cs_ProcessorSummary := zero_ComputerSystemV1220ProcessorSummary
        \<lparr>procsum_Status := zero_ResourceStatus, procsum_Count := Some 0\<rparr>,
      cs_SimpleStorage := \<lparr>ref_OdataId = ''/redfish/v1/Systems/'' @ ident @ ''/SimpleStorage''\<rparr>,
      cs_Storage := \<lparr>ref_OdataId = ''/redfish/v1/Systems/'' @ ident @ ''/Storage''\<rparr>\<rparr>"

definition CS_Id :: "ComputerSystem \<Rightarrow> string" where
  "CS_Id a = cs_Id a"

definition CS_OdataId :: "ComputerSystem \<Rightarrow> string" where
  "CS_OdataId a = cs_OdataId a"

text \<open>The argument of the linking methods is used only through its \<open>OdataId\<close>.\<close>

definition CS_Manage :: "ComputerSystem \<Rightarrow> string \<Rightarrow> ComputerSystem outcome" where
  "CS_Manage a resource = Panic (ExplicitPanic ''implement me'')"

definition CS_ManagedBy :: "ComputerSystem \<Rightarrow> string \<Rightarrow> ComputerSystem outcome" where
  "CS_ManagedBy a resource =
     Ok (a\<lparr>cs_Links := (cs_Links a)
       \<lparr>links_ManagedBy := Some (elems (links_ManagedBy (cs_Links a)) @ [\<lparr>ref_OdataId = resource\<rparr>])\<rparr>\<rparr>)"

text \<open>The managers a system says it is managed by.\<close>

definition managers_of :: "ComputerSystem \<Rightarrow> string list" where
  "managers_of a = map ref_OdataId (elems (links_ManagedBy (cs_Links a)))"

definition GetPowerState :: "ComputerSystem \<Rightarrow> ResourcePowerState" where
  "GetPowerState a = cs_PowerState a"

definition SetPowerState :: "ResourcePowerState \<Rightarrow> ComputerSystem \<Rightarrow> ComputerSystem" where
  "SetPowerState powerState a = a\<lparr>cs_PowerState := powerState\<rparr>"

definition SetBootOverride :: "ComputerSystemBootSource \<Rightarrow> ComputerSystem \<Rightarrow> ComputerSystem" where
  "SetBootOverride target a =
     a\<lparr>cs_Boot := (cs_Boot a)
         \<lparr>boot_BootSourceOverrideEnabled := BOOTSOURCEOVERRIDEENABLED_CONTINUOUS,
          boot_BootSourceOverrideTarget := target\<rparr>\<rparr>"

section \<open>The manager\<close>

type_synonym Manager = ManagerV1190Manager

text \<open>\<open>now\<close> is the reading of the clock.\<close>

definition NewManager :: "Time \<Rightarrow> string \<Rightarrow> string \<Rightarrow> Manager" where
  "NewManager now ident name = zero_ManagerV1190Manager
     \<lparr>mgr_OdataContext := ''/redfish/v1/$metadata#Manager.Manager'',
      mgr_OdataId := ''/redfish/v1/Managers/'' @ ident,
      mgr_OdataType := ''#Manager.v1_19_2.Manager'',
      mgr_Description := ''Manager'',
      mgr_Name := name,
      mgr_Id := ident,
      mgr_UUID := ''00000000-0000-0000-0000-000000000000'',
      mgr_Model := Some ''KubeVirtBMC'',
      mgr_Status := zero_ResourceStatus,
      mgr_ManagerType := ''BMC'',
      mgr_Links := zero_ManagerV1190Links,
      mgr_Actions := zero_ManagerV1190Actions,
      mgr_DateTime := Some now,
      mgr_EthernetInterfaces := \<lparr>ref_OdataId = ''/redfish/v1/Managers/'' @ ident @ ''/EthernetInterfaces''\<rparr>,
      mgr_LogServices := \<lparr>ref_OdataId = ''/redfish/v1/Managers/'' @ ident @ ''/LogServices''\<rparr>,
      mgr_SerialInterfaces := \<lparr>ref_OdataId = ''/redfish/v1/Managers/'' @ ident @ ''/SerialInterfaces''\<rparr>,
      mgr_VirtualMedia := \<lparr>ref_OdataId = ''/redfish/v1/Managers/'' @ ident @ ''/VirtualMedia''\<rparr>\<rparr>"

definition Mgr_Id :: "Manager \<Rightarrow> string" where
  "Mgr_Id a = mgr_Id a"

definition Mgr_OdataId :: "Manager \<Rightarrow> string" where
  "Mgr_OdataId a = mgr_OdataId a"

definition Mgr_Manage :: "Manager \<Rightarrow> string \<Rightarrow> Manager outcome" where
  "Mgr_Manage a resource =
     Ok (a\<lparr>mgr_Links := (mgr_Links a)
       \<lparr>mgrlinks_ManagerForServers := Some (elems (mgrlinks_ManagerForServers (mgr_Links a)) @ [\<lparr>ref_OdataId = resource\<rparr>])\<rparr>\<rparr>)"

text \<open>The servers a manager says it manages.\<close>

definition servers_of :: "Manager \<Rightarrow> string list" where
  "servers_of a = map ref_OdataId (elems (mgrlinks_ManagerForServers (mgr_Links a)))"

definition Mgr_ManagedBy :: "Manager \<Rightarrow> string \<Rightarrow> Manager outcome" where
  "Mgr_ManagedBy a resource = Panic (ExplicitPanic ''implement me'')"

section \<open>The virtual media slot\<close>

type_synonym VirtualMedia = VirtualMediaV163VirtualMedia

definition NewVirtualMedia :: "string \<Rightarrow> string \<Rightarrow> VirtualMedia" where
  "NewVirtualMedia ident name = zero_VirtualMediaV163VirtualMedia
     \<lparr>vmedia_OdataContext := ''/redfish/v1/$metadata#VirtualMedia.VirtualMedia'',
      vmedia_OdataId := ''/redfish/v1/Managers/BMC/VirtualMedia/'' @ ident,
      vmedia_OdataType := ''#VirtualMedia.v1_6_3.VirtualMedia'',
      vmedia_ConnectedVia := CONNECTEDVIA_NOT_CONNECTED,
      vmedia_Description := ''Virtual Media'',
      vmedia_Name := name,
      vmedia_Id := ident,
      vmedia_Image := Some '''',
      vmedia_ImageName := Some '''',
      vmedia_Inserted := Some False,
      vmedia_MediaTypes := Some [''CD'', ''DVD''],
      vmedia_WriteProtected := Some False\<rparr>"

definition VMedia_Id :: "VirtualMedia \<Rightarrow> string" where
  "VMedia_Id a = vmedia_Id a"

definition VMedia_OdataId :: "VirtualMedia \<Rightarrow> string" where
  "VMedia_OdataId a = vmedia_OdataId a"

definition VMedia_Manage :: "VirtualMedia \<Rightarrow> string \<Rightarrow> VirtualMedia outcome" where
  "VMedia_Manage a resource = Panic (ExplicitPanic ''implement me'')"

definition VMedia_ManagedBy :: "VirtualMedia \<Rightarrow> string \<Rightarrow> VirtualMedia outcome" where
  "VMedia_ManagedBy a resource = Panic (ExplicitPanic ''implement me'')"

definition SetVirtualMedia :: "string \<Rightarrow> bool \<Rightarrow> VirtualMedia \<Rightarrow> VirtualMedia" where
  "SetVirtualMedia imageURL inserted a =
     a\<lparr>vmedia_Image := Some imageURL, vmedia_Inserted := Some inserted,
       vmedia_ConnectedVia := (if inserted then CONNECTEDVIA_URI else CONNECTEDVIA_NOT_CONNECTED)\<rparr>"

section \<open>The OData contract\<close>

text \<open>
  \<open>OdataInterface\<close>: a resource has an identity and can be linked to others.  Whatever linking
  does, it must not change the identity, and a successful link is appended to those already
  present.  \<open>link_all\<close> links a resource to a list of others, stopping at the first failure.
\<close>

fun link_all :: "('r \<Rightarrow> string \<Rightarrow> 'r outcome) \<Rightarrow> 'r \<Rightarrow> string list \<Rightarrow> 'r outcome" where
  "link_all link r [] = Ok r"
| "link_all link r (x # xs) =
     (case link r x of Ok r' \<Rightarrow> link_all link r' xs | Err e \<Rightarrow> Err e | Panic p \<Rightarrow> Panic p)"

locale odata_resource =
  fixes odataId :: "'r \<Rightarrow> string"
    and manage managedBy :: "'r \<Rightarrow> string \<Rightarrow> 'r outcome"
    and links :: "'r \<Rightarrow> string list"
  assumes manage_id: "manage r x = Ok r' \<Longrightarrow> odataId r' = odataId r"
    and managedBy_id: "managedBy r x = Ok r' \<Longrightarrow> odataId r' = odataId r"
    and manage_links: "manage r x = Ok r' \<Longrightarrow> links r' = links r @ [x]"
    and managedBy_links: "managedBy r x = Ok r' \<Longrightarrow> links r' = links r @ [x]"
begin

lemma link_all_id:
  "link \<in> {manage, managedBy} \<Longrightarrow> link_all link r xs = Ok r' \<Longrightarrow> odataId r' = odataId r"
  by (induction link r xs rule: link_all.induct)
    (auto split: outcome.splits dest: manage_id managedBy_id)

lemma link_all_links:
  "link \<in> {manage, managedBy} \<Longrightarrow> link_all link r xs = Ok r' \<Longrightarrow> links r' = links r @ xs"
  by (induction link r xs rule: link_all.induct)
    (auto split: outcome.splits dest: manage_links managedBy_links)

end

interpretation cs_odata: odata_resource CS_OdataId CS_Manage CS_ManagedBy managers_of
  by unfold_locales (auto simp: CS_OdataId_def CS_Manage_def CS_ManagedBy_def managers_of_def)

interpretation mgr_odata: odata_resource Mgr_OdataId Mgr_Manage Mgr_ManagedBy servers_of
  by unfold_locales (auto simp: Mgr_OdataId_def Mgr_Manage_def Mgr_ManagedBy_def servers_of_def)

interpretation media_odata: odata_resource VMedia_OdataId VMedia_Manage VMedia_ManagedBy "\<lambda>_. []"
  by unfold_locales (simp_all add: VMedia_OdataId_def VMedia_Manage_def VMedia_ManagedBy_def)

section \<open>Consistency of the virtual media slot\<close>

text \<open>
  The slot says how it is connected exactly according to whether something is inserted, and
  an image URL is always present in the document (possibly empty).
\<close>

definition media_consistent :: "VirtualMedia \<Rightarrow> bool" where
  "media_consistent m \<longleftrightarrow>
     (\<exists>b. vmedia_Inserted m = Some b
        \<and> vmedia_ConnectedVia m = (if b then CONNECTEDVIA_URI else CONNECTEDVIA_NOT_CONNECTED))
     \<and> vmedia_Image m \<noteq> None"

lemma media_consistent_New [simp]: "media_consistent (NewVirtualMedia i n)"
  by (auto simp: media_consistent_def NewVirtualMedia_def)

lemma media_consistent_Set [simp]: "media_consistent (SetVirtualMedia url b m)"
  by (auto simp: media_consistent_def SetVirtualMedia_def)

text \<open>The identity of a resource survives every setter.\<close>

lemma setters_identity [simp]:
  "cs_Id (SetPowerState p a) = cs_Id a" "cs_OdataId (SetPowerState p a) = cs_OdataId a"
  "cs_Id (SetBootOverride t a) = cs_Id a" "cs_OdataId (SetBootOverride t a) = cs_OdataId a"
  "cs_PowerState (SetPowerState p a) = p" "cs_PowerState (SetBootOverride t a) = cs_PowerState a"
  "managers_of (SetPowerState p a) = managers_of a" "managers_of (SetBootOverride t a) = managers_of a"
  "vmedia_Id (SetVirtualMedia u b m) = vmedia_Id m"
  "vmedia_OdataId (SetVirtualMedia u b m) = vmedia_OdataId m"
  by (simp_all add: SetPowerState_def SetBootOverride_def SetVirtualMedia_def managers_of_def)

lemma setters_commute:
  "SetPowerState p (SetBootOverride t a) = SetBootOverride t (SetPowerState p a)"
  by (simp add: SetPowerState_def SetBootOverride_def)

end
