(* ===== verification/SystemRules.thy ===== *)
theory SystemRules
  imports SystemSchema
begin

text \<open>
  What the assertion functions of SystemSchema amount to.  The forty functions call each other over a
  tree of structs; the two reference definitions here are flat lists read off a document, of its
  bounded numbers and of its groups of required fields, and the functions are shown to be scans
  of those lists.  No enumeration takes part in either, and the enumerations are self-consistent.
\<close>

section \<open>Sequences of checks\<close>

lemma find_SomeD: "find P xs = Some x \<Longrightarrow> x \<in> set xs \<and> P x"
  by (auto simp: find_Some_iff)

named_theorems checks

lemma first_error_Cons: "first_error (e # es) = (case e of None \<Rightarrow> first_error es | Some err \<Rightarrow> Some err)"
  by (simp split: option.split)

lemma first_error_append: "first_error (es @ fs) = (case first_error es of None \<Rightarrow> first_error fs | Some err \<Rightarrow> Some err)"
  by (induction es) (auto simp: first_error_Cons split: option.split)

lemma first_error_None_iff: "first_error es = None \<longleftrightarrow> set es \<subseteq> {None}"
  by (induction es rule: first_error.induct) auto

lemma first_error_skip [checks]: "first_error (None # es) = first_error es" "first_error [] = None"
  "first_error (e # None # es) = first_error (e # es)"
  by (simp_all add: first_error_Cons split: option.split)

lemma each_None [checks]: "each (\<lambda>_. None) xs = None"
  by (auto simp: each_def first_error_None_iff)

lemma constant_image: "P a \<Longrightarrow> (\<And>x. P x \<Longrightarrow> f x = c) \<Longrightarrow> {f x | x. P x} = {c}"
  by auto

lemma same_image: "(\<And>x. P x \<Longrightarrow> f x = h x) \<Longrightarrow> {f x | x. P x} = {h x | x. P x}"
  by (rule Collect_cong) metis

text \<open>One kind of check applied to the entries of a list; adjacent runs of it merge into one.\<close>

definition scan :: "('c \<Rightarrow> go_error option) \<Rightarrow> 'c list \<Rightarrow> go_error option" where
  "scan check fs = first_error (map check fs)"

lemma scan_merge [checks]:
  "first_error [scan c a] = scan c a"
  "first_error (scan c a # scan c b # es) = first_error (scan c (a @ b) # es)"
  by (simp_all add: scan_def first_error_Cons first_error_append split: option.split)

lemma scan_each [checks]: "each (\<lambda>x. scan c (f x)) xs = scan c (concat (map f (elems xs)))"
proof -
  have "first_error (map (\<lambda>x. scan c (f x)) ys) = scan c (concat (map f ys))" for ys
    by (induction ys) (simp_all add: scan_def first_error_append first_error_Cons split: option.split)
  then show ?thesis by (simp add: each_def)
qed

lemma scan_None_iff: "scan c fs = None \<longleftrightarrow> (\<forall>f \<in> set fs. c f = None)"
  by (auto simp: scan_def first_error_None_iff)

lemma scan_find: "scan c fs = (case find (\<lambda>f. c f \<noteq> None) fs of None \<Rightarrow> None | Some f \<Rightarrow> c f)"
  by (induction fs) (auto simp: scan_def first_error_Cons split: option.split)

section \<open>Bounded numbers\<close>

definition bounded :: "string \<times> float32 option \<Rightarrow> go_error option" where
  "bounded = (\<lambda>(name, v). minimum name v)"

lemma minimum_scan [checks]: "minimum name v = scan bounded [(name, v)]"
  by (simp add: scan_def bounded_def first_error_Cons split: option.split)

text \<open>The numbers of a document the schema bounds from below, in the order in which they are looked at.\<close>

abbreviation int_field :: "string \<Rightarrow> int option \<Rightarrow> string \<times> float32 option" where
  "int_field name v \<equiv> (name, map_option of_int v)"

definition step_bounds :: "ResolutionStepResolutionStep \<Rightarrow> (string \<times> float32 option) list" where
  "step_bounds st = [int_field ''Priority'' (rstep_Priority st), int_field ''RetryCount'' (rstep_RetryCount st),
     int_field ''RetryIntervalSeconds'' (rstep_RetryIntervalSeconds st)]"

definition status_bounds :: "ResourceStatus \<Rightarrow> (string \<times> float32 option) list" where
  "status_bounds s =
     concat (map (\<lambda>c. concat (map step_bounds (elems (condition_ResolutionSteps c)))) (elems (status_Conditions s)))"

definition system_bounds :: "ComputerSystemV1220ComputerSystem \<Rightarrow> (string \<times> float32 option) list" where
  "system_bounds cs =
     [int_field ''AutomaticRetryAttempts'' (boot_AutomaticRetryAttempts (cs_Boot cs)),
      int_field ''RemainingAutomaticRetryAttempts'' (boot_RemainingAutomaticRetryAttempts (cs_Boot cs)),
      int_field ''MaxConcurrentSessions'' (Some (gconsole_MaxConcurrentSessions (cs_GraphicalConsole cs))),
      int_field ''Port'' (gconsole_Port (cs_GraphicalConsole cs))]
     @ status_bounds (watchdog_Status (cs_HostWatchdogTimer cs))
     @ [int_field ''EnterDwellTimeSeconds'' (idle_EnterDwellTimeSeconds (cs_IdlePowerSaver cs)),
        (''EnterUtilizationPercent'', idle_EnterUtilizationPercent (cs_IdlePowerSaver cs)),
        int_field ''ExitDwellTimeSeconds'' (idle_ExitDwellTimeSeconds (cs_IdlePowerSaver cs)),
        (''ExitUtilizationPercent'', idle_ExitUtilizationPercent (cs_IdlePowerSaver cs))]
     @ status_bounds (memsum_Status (cs_MemorySummary cs))
     @ [(''TotalSystemMemoryGiB'', memsum_TotalSystemMemoryGiB (cs_MemorySummary cs)),
        (''TotalSystemPersistentMemoryGiB'', memsum_TotalSystemPersistentMemoryGiB (cs_MemorySummary cs)),
        int_field ''CoreCount'' (procsum_CoreCount (cs_ProcessorSummary cs)),
        int_field ''Count'' (procsum_Count (cs_ProcessorSummary cs)),
        int_field ''LogicalProcessorCount'' (procsum_LogicalProcessorCount (cs_ProcessorSummary cs))]
     @ status_bounds (procsum_Status (cs_ProcessorSummary cs))
     @ concat (map (\<lambda>r. status_bounds (redundancy_Status r)) (elems (cs_Redundancy cs)))
     @ [int_field ''Port'' (serial_Port (sconsole_IPMI (cs_SerialConsole cs))),
        int_field ''MaxConcurrentSessions'' (Some (sconsole_MaxConcurrentSessions (cs_SerialConsole cs))),
        int_field ''Port'' (serial_Port (sconsole_SSH (cs_SerialConsole cs))),
        int_field ''Port'' (serial_Port (sconsole_Telnet (cs_SerialConsole cs)))]
     @ status_bounds (cs_Status cs)
     @ concat (map (\<lambda>t. status_bounds (tpm_Status t)) (elems (cs_TrustedModules cs)))
     @ [int_field ''Port'' (vmconfig_Port (cs_VirtualMediaConfig cs))]"

lemma unbounded [checks]:
  "AssertOdataV4IdRefConstraints = (\<lambda>_. None)"
  "AssertComputerSystemV1220AddResourceBlockConstraints = (\<lambda>_. None)"
  "AssertComputerSystemV1220DecommissionConstraints = (\<lambda>_. None)"
  "AssertComputerSystemV1220RemoveResourceBlockConstraints = (\<lambda>_. None)"
  "AssertComputerSystemV1220ResetConstraints = (\<lambda>_. None)"
  "AssertComputerSystemV1220SetDefaultBootOrderConstraints = (\<lambda>_. None)"
  "AssertComputerSystemV1220ActionsConstraints = (\<lambda>_. None)"
  "AssertComputerSystemV1220BootProgressConstraints = (\<lambda>_. None)"
  "AssertComputerSystemV1220CompositionConstraints = (\<lambda>_. None)"
  "AssertComputerSystemV1220HostedServicesConstraints = (\<lambda>_. None)"
  "AssertComputerSystemV1220KmipServerConstraints = (\<lambda>_. None)"
  "AssertComputerSystemV1220KeyManagementConstraints = (\<lambda>_. None)"
  "AssertComputerSystemV1220LinksConstraints = (\<lambda>_. None)"
  "AssertSoftwareInventoryMeasurementBlockConstraints = (\<lambda>_. None)"
  "AssertRedundancyV142ActionsConstraints = (\<lambda>_. None)"
  "AssertResolutionStepResolutionStepActionParametersInnerConstraints = (\<lambda>_. None)"
  by (simp_all add: fun_eq_iff AssertOdataV4IdRefConstraints_def AssertComputerSystemV1220AddResourceBlockConstraints_def
      AssertComputerSystemV1220DecommissionConstraints_def AssertComputerSystemV1220RemoveResourceBlockConstraints_def
      AssertComputerSystemV1220ResetConstraints_def AssertComputerSystemV1220SetDefaultBootOrderConstraints_def
      AssertComputerSystemV1220ActionsConstraints_def AssertComputerSystemV1220BootProgressConstraints_def
      AssertComputerSystemV1220CompositionConstraints_def AssertComputerSystemV1220HostedServicesConstraints_def
      AssertComputerSystemV1220KmipServerConstraints_def AssertComputerSystemV1220KeyManagementConstraints_def
      AssertComputerSystemV1220LinksConstraints_def AssertSoftwareInventoryMeasurementBlockConstraints_def
      AssertRedundancyV142ActionsConstraints_def AssertResolutionStepResolutionStepActionParametersInnerConstraints_def
      each_def first_error_None_iff image_subset_iff)

lemma step_scan [checks]: "AssertResolutionStepResolutionStepConstraints = (\<lambda>st. scan bounded (step_bounds st))"
  by (simp add: fun_eq_iff AssertResolutionStepResolutionStepConstraints_def step_bounds_def checks)

lemma status_scan [checks]: "AssertResourceStatusConstraints = (\<lambda>s. scan bounded (status_bounds s))"
  "AssertResourceStatusConditionsInnerConstraints
   = (\<lambda>c. scan bounded (concat (map step_bounds (elems (condition_ResolutionSteps c)))))"
proof -
  show inner: "AssertResourceStatusConditionsInnerConstraints
   = (\<lambda>c. scan bounded (concat (map step_bounds (elems (condition_ResolutionSteps c)))))"
    by (simp add: fun_eq_iff AssertResourceStatusConditionsInnerConstraints_def checks)
  show "AssertResourceStatusConstraints = (\<lambda>s. scan bounded (status_bounds s))"
    by (simp add: fun_eq_iff AssertResourceStatusConstraints_def status_bounds_def inner checks)
qed

lemma parts_scan [checks]:
  "AssertRedundancyRedundancyConstraints = (\<lambda>r. scan bounded (status_bounds (redundancy_Status r)))"
  "AssertComputerSystemV1220TrustedModulesConstraints = (\<lambda>t. scan bounded (status_bounds (tpm_Status t)))"
  "AssertComputerSystemV1220SerialConsoleProtocolConstraints = (\<lambda>p. scan bounded [int_field ''Port'' (serial_Port p)])"
  by (simp_all add: fun_eq_iff AssertRedundancyRedundancyConstraints_def
      AssertComputerSystemV1220TrustedModulesConstraints_def AssertComputerSystemV1220SerialConsoleProtocolConstraints_def checks)

lemma constraints_scan:
  "AssertComputerSystemV1220ComputerSystemConstraints cs = scan bounded (system_bounds cs)"
  by (simp add: AssertComputerSystemV1220ComputerSystemConstraints_def AssertComputerSystemV1220BootConstraints_def
      AssertComputerSystemV1220HostGraphicalConsoleConstraints_def AssertComputerSystemV1220WatchdogTimerConstraints_def
      AssertComputerSystemV1220IdlePowerSaverConstraints_def AssertComputerSystemV1220MemorySummaryConstraints_def
      AssertComputerSystemV1220ProcessorSummaryConstraints_def AssertComputerSystemV1220HostSerialConsoleConstraints_def
      AssertComputerSystemV1220VirtualMediaConfigConstraints_def system_bounds_def checks)

text \<open>A scan of bounded numbers stops at the first negative one.\<close>

lemma bounded_scan:
  "scan bounded bs = (case find (\<lambda>(name, v). \<exists>n \<in> set_option v. n < 0) bs of
     None \<Rightarrow> None | Some (name, v) \<Rightarrow> Some (too_small name))"
proof -
  have neg: "(\<lambda>f. bounded f \<noteq> None) = (\<lambda>(name, v). \<exists>n \<in> set_option v. n < 0)"
    by (auto simp: fun_eq_iff bounded_def minimum_def split: option.split)
  show ?thesis
    unfolding scan_find neg [symmetric]
  proof (cases "find (\<lambda>f. bounded f \<noteq> None) bs")
    case (Some f)
    then have "bounded f \<noteq> None" by (auto simp: find_Some_iff)
    then have "bounded f = Some (too_small (fst f))"
      by (auto simp: bounded_def minimum_def split: prod.splits option.splits if_splits)
    then show "(case find (\<lambda>f. bounded f \<noteq> None) bs of None \<Rightarrow> None | Some f \<Rightarrow> bounded f)
        = (case find (\<lambda>f. bounded f \<noteq> None) bs of None \<Rightarrow> None | Some (name, v) \<Rightarrow> Some (too_small name))"
      unfolding Some by (cases f) simp
  qed simp
qed

text \<open>C34. The schema check of a ComputerSystem document is a scan of its bounded numbers: it passes
  exactly when none of them is negative, it reports the first negative one by its name, and nothing
  else of the document matters to it; in particular no value of an enumeration is ever checked.\<close>

theorem constraints_exactly:
  "AssertComputerSystemV1220ComputerSystemConstraints cs =
     (case find (\<lambda>(name, v). \<exists>n \<in> set_option v. n < 0) (system_bounds cs) of
        None \<Rightarrow> None | Some (name, v) \<Rightarrow> Some (too_small name))"
  unfolding constraints_scan by (rule bounded_scan)

section \<open>Required fields\<close>

text \<open>The groups of required fields of a document, each with whether it is missing.\<close>

definition step_groups :: "ResolutionStepResolutionStep \<Rightarrow> (string \<times> bool) list list" where
  "step_groups st = [(''ResolutionType'', rstep_ResolutionType st = None)]
     # concat (map (\<lambda>p. [[(''Name'', rparam_Name p = '''')]]) (elems (rstep_ActionParameters st)))"

definition condition_groups :: "ResourceStatusConditionsInner \<Rightarrow> (string \<times> bool) list list" where
  "condition_groups c = [(''MessageId'', condition_MessageId c = '''')]
     # concat (map step_groups (elems (condition_ResolutionSteps c)))"

definition status_groups :: "ResourceStatus \<Rightarrow> (string \<times> bool) list list" where
  "status_groups s = concat (map condition_groups (elems (status_Conditions s)))"

definition redundancy_groups :: "RedundancyRedundancy \<Rightarrow> (string \<times> bool) list list" where
  "redundancy_groups r =
     [(''@odata.id'', redundancy_OdataId r = ''''), (''MemberId'', redundancy_MemberId r = ''''),
      (''MinNumNeeded'', redundancy_MinNumNeeded r = None), (''Mode'', redundancy_Mode r = None),
      (''Name'', redundancy_Name r = ''''), (''RedundancySet'', redundancy_RedundancySet r = None),
      (''Status'', redundancy_Status r = zero_ResourceStatus)]
     # status_groups (redundancy_Status r)"

definition watchdog_group :: "ComputerSystemV1220WatchdogTimer \<Rightarrow> (string \<times> bool) list" where
  "watchdog_group w =
     [(''FunctionEnabled'', watchdog_FunctionEnabled w = None), (''TimeoutAction'', watchdog_TimeoutAction w = '''')]"

definition system_groups :: "ComputerSystemV1220ComputerSystem \<Rightarrow> (string \<times> bool) list list" where
  "system_groups cs =
     [[(''@odata.id'', cs_OdataId cs = ''''), (''@odata.type'', cs_OdataType cs = ''''),
       (''Id'', cs_Id cs = ''''), (''Name'', cs_Name cs = '''')],
      watchdog_group (cs_HostWatchdogTimer cs)]
     @ status_groups (watchdog_Status (cs_HostWatchdogTimer cs))
     @ status_groups (memsum_Status (cs_MemorySummary cs))
     @ status_groups (procsum_Status (cs_ProcessorSummary cs))
     @ concat (map redundancy_groups (elems (cs_Redundancy cs)))
     @ status_groups (cs_Status cs)
     @ concat (map (\<lambda>t. status_groups (tpm_Status t)) (elems (cs_TrustedModules cs)))"

lemma required_scan: "required ord g = scan (required ord) [g]"
  by (simp add: scan_def first_error_Cons split: option.split)

text \<open>Most of the structs require nothing.\<close>

lemma unrequired [checks]:
  "AssertOdataV4IdRefRequired = (\<lambda>_. None)"
  "AssertComputerSystemV1220ActionsRequired = (\<lambda>_. None)"
  "AssertComputerSystemV1220BootRequired = (\<lambda>_. None)"
  "AssertComputerSystemV1220BootProgressRequired = (\<lambda>_. None)"
  "AssertComputerSystemV1220CompositionRequired = (\<lambda>_. None)"
  "AssertComputerSystemV1220HostGraphicalConsoleRequired = (\<lambda>_. None)"
  "AssertComputerSystemV1220HostedServicesRequired = (\<lambda>_. None)"
  "AssertComputerSystemV1220IdlePowerSaverRequired = (\<lambda>_. None)"
  "AssertComputerSystemV1220KeyManagementRequired = (\<lambda>_. None)"
  "AssertComputerSystemV1220LinksRequired = (\<lambda>_. None)"
  "AssertSoftwareInventoryMeasurementBlockRequired = (\<lambda>_. None)"
  "AssertRedundancyV142ActionsRequired = (\<lambda>_. None)"
  "AssertComputerSystemV1220HostSerialConsoleRequired = (\<lambda>_. None)"
  "AssertComputerSystemV1220VirtualMediaConfigRequired = (\<lambda>_. None)"
  by (simp_all add: fun_eq_iff AssertOdataV4IdRefRequired_def AssertComputerSystemV1220AddResourceBlockRequired_def
      AssertComputerSystemV1220DecommissionRequired_def AssertComputerSystemV1220RemoveResourceBlockRequired_def
      AssertComputerSystemV1220ResetRequired_def AssertComputerSystemV1220SetDefaultBootOrderRequired_def
      AssertComputerSystemV1220ActionsRequired_def AssertComputerSystemV1220BootRequired_def
      AssertComputerSystemV1220BootProgressRequired_def AssertComputerSystemV1220CompositionRequired_def
      AssertComputerSystemV1220HostGraphicalConsoleRequired_def AssertComputerSystemV1220HostedServicesRequired_def
      AssertComputerSystemV1220IdlePowerSaverRequired_def AssertComputerSystemV1220KmipServerRequired_def
      AssertComputerSystemV1220KeyManagementRequired_def AssertComputerSystemV1220LinksRequired_def
      AssertSoftwareInventoryMeasurementBlockRequired_def AssertRedundancyV142ActionsRequired_def
      AssertComputerSystemV1220SerialConsoleProtocolRequired_def AssertComputerSystemV1220HostSerialConsoleRequired_def
      AssertComputerSystemV1220VirtualMediaConfigRequired_def each_def first_error_None_iff image_subset_iff)

lemma step_required: "AssertResolutionStepResolutionStepRequired ord = (\<lambda>st. scan (required ord) (step_groups st))"
proof -
  have inner: "AssertResolutionStepResolutionStepActionParametersInnerRequired ord
      = (\<lambda>p. scan (required ord) [[(''Name'', rparam_Name p = '''')]])"
    by (rule ext) (simp add: AssertResolutionStepResolutionStepActionParametersInnerRequired_def required_scan checks)
  show ?thesis
    by (rule ext)
      (simp add: AssertResolutionStepResolutionStepRequired_def step_groups_def inner required_scan checks del: concat_map_singleton)
qed

lemma status_required: "AssertResourceStatusRequired ord = (\<lambda>s. scan (required ord) (status_groups s))"
proof -
  have inner: "AssertResourceStatusConditionsInnerRequired ord = (\<lambda>c. scan (required ord) (condition_groups c))"
    by (rule ext) (simp add: AssertResourceStatusConditionsInnerRequired_def condition_groups_def step_required
        required_scan checks)
  show ?thesis
    by (rule ext) (simp add: AssertResourceStatusRequired_def status_groups_def inner checks)
qed

lemma redundancy_required: "AssertRedundancyRedundancyRequired ord = (\<lambda>r. scan (required ord) (redundancy_groups r))"
  by (rule ext) (simp add: AssertRedundancyRedundancyRequired_def redundancy_groups_def status_required required_scan checks)

lemma trusted_modules_required:
  "AssertComputerSystemV1220TrustedModulesRequired ord = (\<lambda>t. scan (required ord) (status_groups (tpm_Status t)))"
  by (rule ext) (simp add: AssertComputerSystemV1220TrustedModulesRequired_def status_required checks)

lemma required_fields_scan:
  "AssertComputerSystemV1220ComputerSystemRequired ord cs = scan (required ord) (system_groups cs)"
  by (simp add: AssertComputerSystemV1220ComputerSystemRequired_def AssertComputerSystemV1220WatchdogTimerRequired_def
      AssertComputerSystemV1220MemorySummaryRequired_def AssertComputerSystemV1220ProcessorSummaryRequired_def
      watchdog_group_def system_groups_def status_required redundancy_required trusted_modules_required required_scan checks)

definition incomplete :: "(string \<times> bool) list \<Rightarrow> bool" where
  "incomplete g \<longleftrightarrow> (\<exists>(name, missing) \<in> set g. missing)"

lemma required_cases:
  assumes "any_field_order ord"
  shows "required ord g = None \<longleftrightarrow> \<not> incomplete g"
    and "required ord g = Some e \<Longrightarrow> \<exists>name. (name, True) \<in> set g \<and> e = RequiredError name"
proof -
  have same: "set (ord g) = set g"
    using assms by (metis any_field_order_def mset_eq_setD)
  show "required ord g = None \<longleftrightarrow> \<not> incomplete g"
  proof (cases "find snd (ord g)")
    case None
    moreover from None have "\<not> incomplete g" by (auto simp: incomplete_def find_None_iff same)
    ultimately show ?thesis by (simp add: required_def)
  next
    case (Some f)
    then have "f \<in> set g \<and> snd f" using find_SomeD same by metis
    then have "incomplete g" unfolding incomplete_def by (cases f) auto
    with Some show ?thesis by (cases f) (simp add: required_def)
  qed
  show "\<exists>name. (name, True) \<in> set g \<and> e = RequiredError name" if "required ord g = Some e"
  proof (cases "find snd (ord g)")
    case (Some f)
    then have "f \<in> set g \<and> snd f" using find_SomeD same by metis
    with Some that show ?thesis by (cases f) (auto simp: required_def)
  qed (use that in \<open>simp add: required_def\<close>)
qed

text \<open>An order that visits a given missing field of a given group first.\<close>

lemma visit_first:
  assumes "(name, True) \<in> set g"
  obtains ord where "any_field_order ord" and "required ord g = Some (RequiredError name)"
proof
  let ?ord = "\<lambda>xs. if xs = g then (name, True) # remove1 (name, True) g else xs"
  show "any_field_order ?ord" using assms by (simp add: any_field_order_def)
  show "required ?ord g = Some (RequiredError name)" by (simp add: required_def)
qed

text \<open>C35. The check of the required fields gives the same verdict in whatever order the runtime ranges
  over the fields: a document passes exactly when no group of required fields has a missing one.
  When one has, the fields that can be reported are exactly the missing ones of the first such
  group, and which of them it is depends on that order alone.\<close>

theorem required_exactly:
  "{AssertComputerSystemV1220ComputerSystemRequired ord cs | ord. any_field_order ord} =
     (case find incomplete (system_groups cs) of
        None \<Rightarrow> {None}
      | Some g \<Rightarrow> {Some (RequiredError name) | name. (name, True) \<in> set g})"
proof -
  have scanned: "AssertComputerSystemV1220ComputerSystemRequired ord cs =
      (case find incomplete (system_groups cs) of None \<Rightarrow> None | Some g \<Rightarrow> required ord g)" if "any_field_order ord" for ord
    unfolding required_fields_scan scan_find required_cases(1) [OF that] by simp
  have some_order: "any_field_order (\<lambda>xs. xs)" by (simp add: any_field_order_def)
  show ?thesis
  proof (cases "find incomplete (system_groups cs)")
    case None
    have "{AssertComputerSystemV1220ComputerSystemRequired ord cs | ord. any_field_order ord} = {None}"
      by (rule constant_image [where P = any_field_order, OF some_order]) (simp add: scanned None)
    with None show ?thesis by simp
  next
    case (Some g)
    then have "incomplete g" by (auto simp: find_Some_iff)
    have "{required ord g | ord. any_field_order ord} = {Some (RequiredError name) | name. (name, True) \<in> set g}"
    proof (intro equalityI subsetI)
      fix x assume "x \<in> {required ord g | ord. any_field_order ord}"
      then obtain ord where ord: "any_field_order ord" "x = required ord g" by blast
      have "required ord g \<noteq> None" using required_cases(1) [OF ord(1), of g] \<open>incomplete g\<close> by simp
      then obtain e where x: "x = Some e" unfolding ord(2) by blast
      have "\<exists>name. (name, True) \<in> set g \<and> e = RequiredError name"
        using required_cases(2) [OF ord(1)] ord(2) x by simp
      with x show "x \<in> {Some (RequiredError name) | name. (name, True) \<in> set g}" by blast
    next
      fix x assume "x \<in> {Some (RequiredError name) | name. (name, True) \<in> set g}"
      then obtain name where n: "(name, True) \<in> set g" and x: "x = Some (RequiredError name)" by blast
      from visit_first [OF n] obtain ord where "any_field_order ord" "required ord g = x" unfolding x .
      then show "x \<in> {required ord g | ord. any_field_order ord}" by blast
    qed
    moreover have "{AssertComputerSystemV1220ComputerSystemRequired ord cs | ord. any_field_order ord}
        = {required ord g | ord. any_field_order ord}"
      by (rule same_image [where P = any_field_order]) (simp add: scanned Some)
    ultimately show ?thesis using Some by simp
  qed
qed

section \<open>Enumerations\<close>

text \<open>
  The three tables of every enumeration agree, and none contains the zero value; so the constructor
  from a string accepts exactly the constants.
\<close>

lemma enumerations_tables:
  "list_all (\<lambda>e. distinct (en_constants e) \<and> en_allowed e = en_constants e \<and> en_valid e = en_constants e
     \<and> '''' \<notin> set (en_constants e)) enumerations"
  by code_simp

lemma NewFromValue_accepts:
  assumes "e \<in> set enumerations"
  shows "NewFromValue e v = Inr w \<longleftrightarrow> w = v \<and> v \<in> set (en_constants e)"
proof -
  have "en_valid e = en_constants e" using enumerations_tables assms by (simp add: list_all_iff)
  then show ?thesis by (auto simp: NewFromValue_def IsValid_def)
qed

end
