(* ===== verification/Documents.thy ===== *)
theory Documents
  imports Resources SystemRules
begin

text \<open>
  The published documents against the data model: a document conforms when every value of an
  enumeration in it is in the list of that enumeration (or left out), and the assertion functions
  of the schema have nothing to say about its numbers and required fields.  New documents conform and
  the setters keep it so, but for one field: the system document lacks the timeout action that its
  watchdog timer requires, and with any timeout action in its place it would conform.
\<close>

section \<open>Enumerated values\<close>

text \<open>
  The values of enumerations in an encoded document, each with its enumeration, \<open>None\<close> where the
  encoder leaves the field out or writes null.  How a field is written is in its declaration: a string
  marked \<open>omitempty\<close> is left out when it is empty and one without the mark never, a pointer is left out or
  null when it is nil, and of a list every element is written.  There is one definition for every struct
  of the three documents that has such a field or contains one, with the fields in the order of the struct.
\<close>

type_synonym enum_values = "(enumeration \<times> string option) list"

definition allowed :: "enumeration \<times> string option \<Rightarrow> bool" where
  "allowed = (\<lambda>(e, v). case v of None \<Rightarrow> True | Some x \<Rightarrow> IsValid e x)"

definition unless_empty :: "enumeration \<Rightarrow> string \<Rightarrow> enumeration \<times> string option" where
  "unless_empty e v = (e, if v = '''' then None else Some v)"

definition always :: "enumeration \<Rightarrow> string \<Rightarrow> enumeration \<times> string option" where
  "always e v = (e, Some v)"

definition pointed :: "enumeration \<Rightarrow> string option \<Rightarrow> enumeration \<times> string option" where
  "pointed e v = (e, v)"

definition elements :: "enumeration \<Rightarrow> string slice \<Rightarrow> enum_values" where
  "elements e xs = map (always e) (elems xs)"

definition boot_values :: "ComputerSystemV1220Boot \<Rightarrow> enum_values" where
  "boot_values x =
     elements ComputerSystemBootSource_enum (boot_AliasBootOrder x)
     @ [unless_empty ComputerSystemV1220AutomaticRetryConfig_enum (boot_AutomaticRetryConfig x),
      unless_empty ComputerSystemV1220BootOrderTypes_enum (boot_BootOrderPropertySelection x),
      unless_empty ComputerSystemV1220BootSourceOverrideEnabled_enum (boot_BootSourceOverrideEnabled x),
      unless_empty ComputerSystemV1220BootSourceOverrideMode_enum (boot_BootSourceOverrideMode x),
      unless_empty ComputerSystemBootSource_enum (boot_BootSourceOverrideTarget x),
      unless_empty ComputerSystemV1220StopBootOnFault_enum (boot_StopBootOnFault x),
      unless_empty ComputerSystemV1220TrustedModuleRequiredToBoot_enum (boot_TrustedModuleRequiredToBoot x)]"

definition bootprogress_values :: "ComputerSystemV1220BootProgress \<Rightarrow> enum_values" where
  "bootprogress_values x =
     [unless_empty ComputerSystemV1220BootProgressTypes_enum (bootprogress_LastState x)]"

definition composition_values :: "ComputerSystemV1220Composition \<Rightarrow> enum_values" where
  "composition_values x =
     elements ComputerSystemV1220CompositionUseCase_enum (composition_UseCases x)"

definition gconsole_values :: "ComputerSystemV1220HostGraphicalConsole \<Rightarrow> enum_values" where
  "gconsole_values x =
     elements ComputerSystemV1220GraphicalConnectTypesSupported_enum (gconsole_ConnectTypesSupported x)"

definition rparam_values :: "ResolutionStepResolutionStepActionParametersInner \<Rightarrow> enum_values" where
  "rparam_values x =
     [unless_empty ActionInfoV142ParameterTypes_enum (rparam_DataType x)]"

definition rstep_values :: "ResolutionStepResolutionStep \<Rightarrow> enum_values" where
  "rstep_values x =
     concat (map rparam_values (elems (rstep_ActionParameters x)))
     @ [pointed ResolutionStepV101ResolutionType_enum (rstep_ResolutionType x)]"

definition condition_values :: "ResourceStatusConditionsInner \<Rightarrow> enum_values" where
  "condition_values x =
     concat (map rstep_values (elems (condition_ResolutionSteps x)))
     @ [unless_empty ResourceHealth_enum (condition_Severity x)]"

definition status_values :: "ResourceStatus \<Rightarrow> enum_values" where
  "status_values x =
     concat (map condition_values (elems (status_Conditions x)))
     @ [pointed ResourceHealth_enum (status_Health x),
      pointed ResourceHealth_enum (status_HealthRollup x),
      pointed ResourceState_enum (status_State x)]"

definition watchdog_values :: "ComputerSystemV1220WatchdogTimer \<Rightarrow> enum_values" where
  "watchdog_values x =
     status_values (watchdog_Status x)
     @ [always ComputerSystemV1220WatchdogTimeoutActions_enum (watchdog_TimeoutAction x),
      unless_empty ComputerSystemV1220WatchdogWarningActions_enum (watchdog_WarningAction x)]"

definition kmip_values :: "ComputerSystemV1220KmipServer \<Rightarrow> enum_values" where
  "kmip_values x =
     [unless_empty ComputerSystemV1220KmipCachePolicy_enum (kmip_CachePolicy x)]"

definition keymgmt_values :: "ComputerSystemV1220KeyManagement \<Rightarrow> enum_values" where
  "keymgmt_values x =
     concat (map kmip_values (elems (keymgmt_KMIPServers x)))"

definition memsum_values :: "ComputerSystemV1220MemorySummary \<Rightarrow> enum_values" where
  "memsum_values x =
     [unless_empty ComputerSystemV1220MemoryMirroring_enum (memsum_MemoryMirroring x)]
     @ status_values (memsum_Status x)"

definition procsum_values :: "ComputerSystemV1220ProcessorSummary \<Rightarrow> enum_values" where
  "procsum_values x =
     status_values (procsum_Status x)"

definition redundancy_values :: "RedundancyRedundancy \<Rightarrow> enum_values" where
  "redundancy_values x =
     [pointed RedundancyV142RedundancyMode_enum (redundancy_Mode x)]
     @ status_values (redundancy_Status x)"

definition tpm_values :: "ComputerSystemV1220TrustedModules \<Rightarrow> enum_values" where
  "tpm_values x =
     [unless_empty ComputerSystemV1220InterfaceType_enum (tpm_InterfaceType x),
      unless_empty ComputerSystemV1220InterfaceTypeSelection_enum (tpm_InterfaceTypeSelection x)]
     @ status_values (tpm_Status x)"

definition system_values :: "ComputerSystem \<Rightarrow> enum_values" where
  "system_values c =
     boot_values (cs_Boot c)
     @ bootprogress_values (cs_BootProgress c)
     @ composition_values (cs_Composition c)
     @ gconsole_values (cs_GraphicalConsole c)
     @ watchdog_values (cs_HostWatchdogTimer c)
     @ elements ComputerSystemV1220HostingRole_enum (cs_HostingRoles c)
     @ [unless_empty ComputerSystemV1220IndicatorLed_enum (cs_IndicatorLED c)]
     @ keymgmt_values (cs_KeyManagement c)
     @ memsum_values (cs_MemorySummary c)
     @ [unless_empty ComputerSystemV1220PowerMode_enum (cs_PowerMode c),
      unless_empty ComputerSystemV1220PowerRestorePolicyTypes_enum (cs_PowerRestorePolicy c),
      unless_empty ResourcePowerState_enum (cs_PowerState c)]
     @ procsum_values (cs_ProcessorSummary c)
     @ concat (map redundancy_values (elems (cs_Redundancy c)))
     @ status_values (cs_Status c)
     @ [unless_empty ComputerSystemV1220SystemType_enum (cs_SystemType c)]
     @ concat (map tpm_values (elems (cs_TrustedModules c)))"

definition shell_values :: "ManagerV1190CommandShell \<Rightarrow> enum_values" where
  "shell_values x =
     elements ManagerV1190CommandConnectTypesSupported_enum (shell_ConnectTypesSupported x)"

definition mgrgconsole_values :: "ManagerV1190GraphicalConsole \<Rightarrow> enum_values" where
  "mgrgconsole_values x =
     elements ManagerV1190GraphicalConnectTypesSupported_enum (mgrgconsole_ConnectTypesSupported x)"

definition partloc_values :: "ResourceV1200PartLocation \<Rightarrow> enum_values" where
  "partloc_values x =
     [pointed ResourceV1200LocationType_enum (partloc_LocationType x),
      pointed ResourceV1200Orientation_enum (partloc_Orientation x),
      pointed ResourceV1200Reference_enum (partloc_Reference x)]"

definition placement_values :: "ResourceV1200Placement \<Rightarrow> enum_values" where
  "placement_values x =
     [pointed ResourceV1200RackUnits_enum (placement_RackOffsetUnits x)]"

definition rlocation_values :: "ResourceLocation \<Rightarrow> enum_values" where
  "rlocation_values x =
     partloc_values (rlocation_PartLocation x)
     @ placement_values (rlocation_Placement x)"

definition mgrsconsole_values :: "ManagerV1190SerialConsole \<Rightarrow> enum_values" where
  "mgrsconsole_values x =
     elements ManagerV1190SerialConnectTypesSupported_enum (mgrsconsole_ConnectTypesSupported x)"

definition manager_values :: "Manager \<Rightarrow> enum_values" where
  "manager_values g =
     shell_values (mgr_CommandShell g)
     @ mgrgconsole_values (mgr_GraphicalConsole g)
     @ rlocation_values (mgr_Location g)
     @ [unless_empty ManagerV1190ManagerType_enum (mgr_ManagerType g),
      unless_empty ResourcePowerState_enum (mgr_PowerState g)]
     @ concat (map redundancy_values (elems (mgr_Redundancy g)))
     @ mgrsconsole_values (mgr_SerialConsole g)
     @ status_values (mgr_Status g)"

definition media_values :: "VirtualMedia \<Rightarrow> enum_values" where
  "media_values m =
     [unless_empty VirtualMediaV163ConnectedVia_enum (vmedia_ConnectedVia m),
      unless_empty VirtualMediaV163EjectPolicy_enum (vmedia_EjectPolicy m)]
     @ elements VirtualMediaV163MediaType_enum (vmedia_MediaTypes m)
     @ status_values (vmedia_Status m)
     @ [unless_empty VirtualMediaV163TransferMethod_enum (vmedia_TransferMethod m),
      unless_empty VirtualMediaV163TransferProtocolType_enum (vmedia_TransferProtocolType m)]"

section \<open>Conformance\<close>

text \<open>A system document with the timeout action of its watchdog timer in place.\<close>

definition with_timeout_action :: "string \<Rightarrow> ComputerSystem \<Rightarrow> ComputerSystem" where
  "with_timeout_action v c =
     c\<lparr>cs_HostWatchdogTimer := (cs_HostWatchdogTimer c)\<lparr>watchdog_TimeoutAction := v\<rparr>\<rparr>"

definition system_conforms :: "ComputerSystem \<Rightarrow> bool" where
  "system_conforms c \<longleftrightarrow>
     watchdog_FunctionEnabled (cs_HostWatchdogTimer c) \<noteq> None \<and> watchdog_TimeoutAction (cs_HostWatchdogTimer c) = ''''
     \<and> (\<forall>v. IsValid ComputerSystemV1220WatchdogTimeoutActions_enum v \<longrightarrow>
          list_all allowed (system_values (with_timeout_action v c))
          \<and> list_all (\<lambda>g. \<not> incomplete g) (system_groups (with_timeout_action v c)))
     \<and> AssertComputerSystemV1220ComputerSystemConstraints c = None"

definition manager_conforms :: "Manager \<Rightarrow> bool" where
  "manager_conforms g \<longleftrightarrow>
     list_all allowed (manager_values g) \<and> AssertManagerV1190ManagerConstraints g = None
     \<and> (\<forall>ord. any_field_order ord \<longrightarrow> AssertManagerV1190ManagerRequired ord g = None)"

definition media_conforms :: "VirtualMedia \<Rightarrow> bool" where
  "media_conforms m \<longleftrightarrow>
     list_all allowed (media_values m) \<and> AssertVirtualMediaV163VirtualMediaConstraints m = None
     \<and> (\<forall>ord. any_field_order ord \<longrightarrow> AssertVirtualMediaV163VirtualMediaRequired ord m = None)"

lemmas enumeration_values = IsValid_def allowed_def unless_empty_def always_def pointed_def elements_def
  ResourcePowerState_enum_def ComputerSystemV1220IndicatorLed_enum_def ComputerSystemV1220SystemType_enum_def
  ComputerSystemV1220BootSourceOverrideEnabled_enum_def ComputerSystemV1220BootSourceOverrideMode_enum_def
  ComputerSystemBootSource_enum_def ManagerV1190ManagerType_enum_def VirtualMediaV163ConnectedVia_enum_def
  VirtualMediaV163MediaType_enum_def

lemmas part_values = boot_values_def bootprogress_values_def composition_values_def gconsole_values_def
  status_values_def watchdog_values_def keymgmt_values_def memsum_values_def procsum_values_def
  shell_values_def mgrgconsole_values_def mgrsconsole_values_def partloc_values_def placement_values_def rlocation_values_def

lemma unless_empty_allowed: "allowed (unless_empty e v) \<longleftrightarrow> v = '''' \<or> IsValid e v"
  by (simp add: allowed_def unless_empty_def)

lemmas zero_parts = zero_ComputerSystemV1220Actions_def zero_ComputerSystemV1220Boot_def zero_ComputerSystemV1220BootProgress_def
  zero_ComputerSystemV1220WatchdogTimer_def zero_ComputerSystemV1220MemorySummary_def
  zero_ComputerSystemV1220ProcessorSummary_def zero_ComputerSystemV1220HostGraphicalConsole_def
  zero_ComputerSystemV1220IdlePowerSaver_def zero_ComputerSystemV1220HostSerialConsole_def
  zero_ComputerSystemV1220SerialConsoleProtocol_def zero_ComputerSystemV1220VirtualMediaConfig_def zero_ResourceStatus_def
  zero_ComputerSystemV1220Composition_def zero_ComputerSystemV1220KeyManagement_def

section \<open>The manager and the slot as scans\<close>

lemma manager_unchecked [checks]:
  "AssertManagerV1190ActionsConstraints = (\<lambda>_. None)" "AssertManagerV1190ActionsRequired = (\<lambda>_. None)"
  "AssertSoftwareInventoryAdditionalVersionsConstraints = (\<lambda>_. None)"
  "AssertSoftwareInventoryAdditionalVersionsRequired = (\<lambda>_. None)"
  "AssertManagerV1190CommandShellRequired = (\<lambda>_. None)" "AssertManagerV1190GraphicalConsoleRequired = (\<lambda>_. None)"
  "AssertManagerV1190SerialConsoleRequired = (\<lambda>_. None)"
  "AssertManagerV1190DaylightSavingTimeConstraints = (\<lambda>_. None)" "AssertManagerV1190DaylightSavingTimeRequired = (\<lambda>_. None)"
  "AssertManagerV1190LinksConstraints = (\<lambda>_. None)" "AssertManagerV1190LinksRequired = (\<lambda>_. None)"
  "AssertResourceLocationConstraints = (\<lambda>_. None)" "AssertResourceLocationRequired = (\<lambda>_. None)"
  by (simp_all add: fun_eq_iff checks
      AssertManagerV1190ActionsConstraints_def AssertManagerV1190ForceFailoverConstraints_def
      AssertManagerV1190ModifyRedundancySetConstraints_def AssertManagerV1190ResetConstraints_def
      AssertManagerV1190ResetToDefaultsConstraints_def AssertManagerV1190ActionsRequired_def
      AssertManagerV1190ForceFailoverRequired_def AssertManagerV1190ModifyRedundancySetRequired_def
      AssertManagerV1190ResetRequired_def AssertManagerV1190ResetToDefaultsRequired_def
      AssertSoftwareInventoryAdditionalVersionsConstraints_def AssertSoftwareInventoryAdditionalVersionsRequired_def
      AssertManagerV1190CommandShellRequired_def AssertManagerV1190GraphicalConsoleRequired_def
      AssertManagerV1190SerialConsoleRequired_def AssertManagerV1190DaylightSavingTimeConstraints_def
      AssertManagerV1190DaylightSavingTimeRequired_def AssertManagerV1190LinksConstraints_def
      AssertManagerV1190LinksRequired_def AssertResourceLocationConstraints_def AssertResourceLocationRequired_def
      AssertResourceLocationContactsInnerConstraints_def AssertResourceLocationContactsInnerRequired_def
      AssertResourceV1200PartLocationConstraints_def AssertResourceV1200PartLocationRequired_def
      AssertResourceV1200PhysicalAddressConstraints_def AssertResourceV1200PhysicalAddressRequired_def
      AssertResourceV1200PlacementConstraints_def AssertResourceV1200PlacementRequired_def
      AssertResourceV1200PostalAddressConstraints_def AssertResourceV1200PostalAddressRequired_def
      each_def first_error_None_iff image_subset_iff)


definition manager_bounds :: "Manager \<Rightarrow> (string \<times> float32 option) list" where
  "manager_bounds g =
     [int_field ''MaxConcurrentSessions'' (Some (shell_MaxConcurrentSessions (mgr_CommandShell g))),
      int_field ''MaxConcurrentSessions'' (Some (mgrgconsole_MaxConcurrentSessions (mgr_GraphicalConsole g)))]
     @ concat (map (\<lambda>r. status_bounds (redundancy_Status r)) (elems (mgr_Redundancy g)))
     @ [int_field ''MaxConcurrentSessions'' (Some (mgrsconsole_MaxConcurrentSessions (mgr_SerialConsole g)))]
     @ status_bounds (mgr_Status g)"

definition manager_groups :: "Manager \<Rightarrow> (string \<times> bool) list list" where
  "manager_groups g =
     [(''@odata.id'', mgr_OdataId g = ''''), (''@odata.type'', mgr_OdataType g = ''''),
      (''Id'', mgr_Id g = ''''), (''Name'', mgr_Name g = '''')]
     # concat (map redundancy_groups (elems (mgr_Redundancy g))) @ status_groups (mgr_Status g)"

lemma manager_scan:
  "AssertManagerV1190ManagerConstraints g = scan bounded (manager_bounds g)"
  "AssertManagerV1190ManagerRequired ord g = scan (required ord) (manager_groups g)"
  by (simp_all add: AssertManagerV1190ManagerConstraints_def AssertManagerV1190CommandShellConstraints_def
      AssertManagerV1190GraphicalConsoleConstraints_def AssertManagerV1190SerialConsoleConstraints_def
      AssertManagerV1190ManagerRequired_def manager_bounds_def manager_groups_def
      redundancy_required status_required required_scan checks)

definition media_groups :: "VirtualMedia \<Rightarrow> (string \<times> bool) list list" where
  "media_groups m =
     [(''@odata.id'', vmedia_OdataId m = ''''), (''@odata.type'', vmedia_OdataType m = ''''),
      (''Id'', vmedia_Id m = ''''), (''Name'', vmedia_Name m = '''')]
     # status_groups (vmedia_Status m)"

lemma media_scan:
  "AssertVirtualMediaV163VirtualMediaConstraints m = scan bounded (status_bounds (vmedia_Status m))"
  "AssertVirtualMediaV163VirtualMediaRequired ord m = scan (required ord) (media_groups m)"
  by (simp_all add: AssertVirtualMediaV163VirtualMediaConstraints_def AssertVirtualMediaV163VirtualMediaRequired_def
      AssertVirtualMediaV163ActionsConstraints_def AssertVirtualMediaV163ActionsRequired_def
      AssertVirtualMediaV163EjectMediaConstraints_def AssertVirtualMediaV163EjectMediaRequired_def
      AssertVirtualMediaV163InsertMediaConstraints_def AssertVirtualMediaV163InsertMediaRequired_def
      media_groups_def status_required required_scan checks)

text \<open>A check that passes in every order is one that finds every group complete.\<close>

lemma required_in_every_order:
  "(\<forall>ord. any_field_order ord \<longrightarrow> scan (required ord) gs = None) \<longleftrightarrow> list_all (\<lambda>g. \<not> incomplete g) gs"
proof -
  have "any_field_order (\<lambda>xs. xs)" by (simp add: any_field_order_def)
  then show ?thesis
    by (simp add: scan_None_iff list_all_iff) (metis required_cases(1))
qed

section \<open>Setters and links\<close>

text \<open>What a setter does not touch.\<close>

lemma system_setters:
  "system_bounds (SetPowerState p c) = system_bounds c" "system_bounds (SetBootOverride t c) = system_bounds c"
  "system_groups (SetPowerState p c) = system_groups c" "system_groups (SetBootOverride t c) = system_groups c"
  by (simp_all add: SetPowerState_def SetBootOverride_def system_bounds_def system_groups_def)

lemma timeout_setters:
  "system_groups (with_timeout_action v (SetPowerState p c)) = system_groups (with_timeout_action v c)"
  "system_groups (with_timeout_action v (SetBootOverride t c)) = system_groups (with_timeout_action v c)"
  by (simp_all add: with_timeout_action_def SetPowerState_def SetBootOverride_def system_groups_def)

lemma power_values:
  assumes "p \<in> {''On'', ''Off''}"
  shows "list_all allowed (system_values c) \<Longrightarrow> list_all allowed (system_values (SetPowerState p c))"
proof -
  have "allowed (unless_empty ResourcePowerState_enum p)" using assms by (auto simp: enumeration_values)
  then show "list_all allowed (system_values c) \<Longrightarrow> list_all allowed (system_values (SetPowerState p c))"
    by (simp add: system_values_def SetPowerState_def)
qed

lemma override_values:
  assumes "target \<in> {'''', ''Pxe'', ''Hdd''}"
  shows "list_all allowed (system_values c) \<Longrightarrow> list_all allowed (system_values (SetBootOverride target c))"
proof -
  have "allowed (unless_empty ComputerSystemV1220BootSourceOverrideEnabled_enum ''Continuous'')"
    "allowed (unless_empty ComputerSystemBootSource_enum target)"
    using assms by (auto simp: enumeration_values)
  then show "list_all allowed (system_values c) \<Longrightarrow> list_all allowed (system_values (SetBootOverride target c))"
    by (simp add: system_values_def boot_values_def SetBootOverride_def)
qed

lemma timeout_commutes:
  "with_timeout_action v (SetPowerState p c) = SetPowerState p (with_timeout_action v c)"
  "with_timeout_action v (SetBootOverride t c) = SetBootOverride t (with_timeout_action v c)"
  by (simp_all add: with_timeout_action_def SetPowerState_def SetBootOverride_def)

lemma system_conforms_power:
  assumes "system_conforms c"
  shows "system_conforms (SetPowerState (if on then ''On'' else ''Off'') c)"
  using assms power_values [of "if on then ''On'' else ''Off''"]
  by (simp add: system_conforms_def constraints_scan system_setters timeout_commutes del: if_split)
    (simp add: SetPowerState_def)

lemma system_conforms_boot:
  assumes "system_conforms c" and "target \<in> {'''', ''Pxe'', ''Hdd''}"
  shows "system_conforms (SetBootOverride target c)"
  using assms(1) override_values [OF assms(2)]
  by (simp add: system_conforms_def constraints_scan system_setters timeout_commutes) (simp add: SetBootOverride_def)

text \<open>
  What a conforming system lacks: its timeout action is written as an empty string, which no timeout
  action is, and is the one required field reported missing; everything else is in place.
\<close>

lemma system_one_value:
  assumes "system_conforms c"
  shows "filter (\<lambda>x. \<not> allowed x) (system_values c) = [(ComputerSystemV1220WatchdogTimeoutActions_enum, Some '''')]"
proof -
  have none: "list_all P xs \<Longrightarrow> filter (\<lambda>x. \<not> P x) xs = []" for P and xs :: enum_values
    by (simp add: list_all_iff filter_empty_conv)
  have "list_all allowed (system_values (with_timeout_action ''None'' c))"
    and "watchdog_TimeoutAction (cs_HostWatchdogTimer c) = ''''"
    using assms by (simp_all add: system_conforms_def IsValid_def ComputerSystemV1220WatchdogTimeoutActions_enum_def)
  then show ?thesis
    by (simp add: system_values_def watchdog_values_def with_timeout_action_def none)
      (simp add: allowed_def always_def IsValid_def ComputerSystemV1220WatchdogTimeoutActions_enum_def)
qed

lemma system_lacks_action:
  assumes "system_conforms c" and "any_field_order ord"
  shows "AssertComputerSystemV1220ComputerSystemRequired ord c = Some (RequiredError ''TimeoutAction'')"
proof -
  let ?g = "[(''FunctionEnabled'', False), (''TimeoutAction'', True)]"
  have "list_all (\<lambda>g. \<not> incomplete g) (system_groups (with_timeout_action ''None'' c))"
    and w: "watchdog_group (cs_HostWatchdogTimer c) = ?g"
    using assms(1)
    by (simp_all add: system_conforms_def watchdog_group_def IsValid_def ComputerSystemV1220WatchdogTimeoutActions_enum_def)
  then have g: "find incomplete (system_groups c) = Some ?g"
    by (simp add: system_groups_def with_timeout_action_def) (simp add: incomplete_def)
  have "required ord ?g \<noteq> None" using required_cases(1) [OF assms(2), of ?g] by (simp add: incomplete_def)
  then obtain e where e: "required ord ?g = Some e" by blast
  with required_cases(2) [OF assms(2) e] have "e = RequiredError ''TimeoutAction''" by auto
  with g e show ?thesis
    unfolding required_fields_scan scan_find required_cases(1) [OF assms(2)] by simp
qed

lemma system_completed:
  assumes "system_conforms c" and "IsValid ComputerSystemV1220WatchdogTimeoutActions_enum v" and "any_field_order ord"
  shows "list_all allowed (system_values (with_timeout_action v c))"
    and "AssertComputerSystemV1220ComputerSystemRequired ord (with_timeout_action v c) = None"
proof -
  show "list_all allowed (system_values (with_timeout_action v c))"
    using assms(1,2) by (simp add: system_conforms_def)
  have "list_all (\<lambda>g. \<not> incomplete g) (system_groups (with_timeout_action v c))"
    using assms(1,2) by (simp add: system_conforms_def)
  then show "AssertComputerSystemV1220ComputerSystemRequired ord (with_timeout_action v c) = None"
    unfolding required_fields_scan scan_None_iff required_cases(1) [OF assms(3)] by (simp add: list_all_iff)
qed

lemma media_conforms_setter:
  "media_conforms m \<Longrightarrow> media_conforms (SetVirtualMedia u b m)"
  by (simp add: media_conforms_def media_values_def SetVirtualMedia_def enumeration_values media_scan media_groups_def)

text \<open>Linking adds references, which no check looks at.\<close>

lemma system_conforms_link:
  "CS_ManagedBy c x = Ok c' \<Longrightarrow> system_conforms c \<Longrightarrow> system_conforms c'"
  by (auto simp: CS_ManagedBy_def system_conforms_def with_timeout_action_def system_values_def constraints_scan
      system_bounds_def system_groups_def)

lemma manager_conforms_link:
  "Mgr_Manage g x = Ok g' \<Longrightarrow> manager_conforms g \<Longrightarrow> manager_conforms g'"
  by (auto simp: Mgr_Manage_def manager_conforms_def manager_values_def manager_scan manager_bounds_def manager_groups_def)

section \<open>New documents\<close>

text \<open>The parts of a new system document that the checks look at.\<close>

lemma new_system_parts:
  "cs_OdataId (NewComputerSystem i n p) = ''/redfish/v1/Systems/'' @ i"
  "cs_OdataType (NewComputerSystem i n p) = ''#ComputerSystem.v1_22_0.ComputerSystem''"
  "cs_Id (NewComputerSystem i n p) = i" "cs_Name (NewComputerSystem i n p) = n"
  "cs_HostWatchdogTimer (NewComputerSystem i n p) = zero_ComputerSystemV1220WatchdogTimer\<lparr>watchdog_FunctionEnabled := Some False\<rparr>"
  "cs_MemorySummary (NewComputerSystem i n p)
   = zero_ComputerSystemV1220MemorySummary\<lparr>memsum_Status := zero_ResourceStatus, memsum_TotalSystemMemoryGiB := Some 0\<rparr>"
  "cs_ProcessorSummary (NewComputerSystem i n p)
   = zero_ComputerSystemV1220ProcessorSummary\<lparr>procsum_Status := zero_ResourceStatus, procsum_Count := Some 0\<rparr>"
  "cs_Status (NewComputerSystem i n p) = zero_ResourceStatus"
  "cs_Boot (NewComputerSystem i n p) = zero_ComputerSystemV1220Boot
     \<lparr>boot_BootSourceOverrideEnabled := BOOTSOURCEOVERRIDEENABLED_DISABLED, boot_BootSourceOverrideMode := ''Legacy'',
      boot_BootSourceOverrideTarget := COMPUTERSYSTEMBOOTSOURCE_HDD\<rparr>"
  "cs_IndicatorLED (NewComputerSystem i n p) = ''Unknown''" "cs_SystemType (NewComputerSystem i n p) = ''Virtual''"
  "cs_PowerState (NewComputerSystem i n p) = p"
  by (simp_all add: NewComputerSystem_def)

lemma new_system_rest:
  "cs_GraphicalConsole (NewComputerSystem i n p) = zero_ComputerSystemV1220HostGraphicalConsole"
  "cs_IdlePowerSaver (NewComputerSystem i n p) = zero_ComputerSystemV1220IdlePowerSaver"
  "cs_SerialConsole (NewComputerSystem i n p) = zero_ComputerSystemV1220HostSerialConsole"
  "cs_VirtualMediaConfig (NewComputerSystem i n p) = zero_ComputerSystemV1220VirtualMediaConfig"
  "cs_BootProgress (NewComputerSystem i n p) = zero_ComputerSystemV1220BootProgress"
  "cs_Redundancy (NewComputerSystem i n p) = None" "cs_TrustedModules (NewComputerSystem i n p) = None"
  "cs_HostingRoles (NewComputerSystem i n p) = None" "cs_PowerMode (NewComputerSystem i n p) = ''''"
  "cs_PowerRestorePolicy (NewComputerSystem i n p) = ''''"
  "cs_Composition (NewComputerSystem i n p) = zero_ComputerSystemV1220Composition"
  "cs_KeyManagement (NewComputerSystem i n p) = zero_ComputerSystemV1220KeyManagement"
  by (simp_all add: NewComputerSystem_def zero_ComputerSystemV1220ComputerSystem_def)

lemma new_system_conforms:
  assumes "ident \<noteq> ''''" and "name \<noteq> ''''" and "p \<in> {''On'', ''Off''}"
  shows "system_conforms (NewComputerSystem ident name p)"
proof -
  let ?c = "NewComputerSystem ident name p"
  have power: "allowed (unless_empty ResourcePowerState_enum p)" using assms(3) by (auto simp: enumeration_values)
  have "list_all allowed (system_values (with_timeout_action v ?c))"
    if "IsValid ComputerSystemV1220WatchdogTimeoutActions_enum v" for v
    using that power
    by (simp add: system_values_def with_timeout_action_def new_system_parts new_system_rest zero_parts part_values)
      (simp add: enumeration_values)
  moreover have "list_all (\<lambda>g. \<not> incomplete g) (system_groups (with_timeout_action v ?c))"
    if "IsValid ComputerSystemV1220WatchdogTimeoutActions_enum v" for v
    using that assms(1,2)
    by (auto simp: system_groups_def with_timeout_action_def watchdog_group_def status_groups_def incomplete_def new_system_parts
        new_system_rest zero_parts IsValid_def ComputerSystemV1220WatchdogTimeoutActions_enum_def)
  moreover have "AssertComputerSystemV1220ComputerSystemConstraints ?c = None"
    by (simp add: constraints_scan scan_None_iff system_bounds_def status_bounds_def new_system_parts new_system_rest
        zero_parts bounded_def minimum_def)
  ultimately show ?thesis
    by (simp add: system_conforms_def new_system_parts zero_ComputerSystemV1220WatchdogTimer_def)
qed

lemma new_manager_parts:
  "mgr_OdataId (NewManager now i n) = ''/redfish/v1/Managers/'' @ i"
  "mgr_OdataType (NewManager now i n) = ''#Manager.v1_19_2.Manager''"
  "mgr_Id (NewManager now i n) = i" "mgr_Name (NewManager now i n) = n" "mgr_ManagerType (NewManager now i n) = ''BMC''"
  "mgr_Status (NewManager now i n) = zero_ResourceStatus"
  "mgr_PowerState (NewManager now i n) = ''''" "mgr_Redundancy (NewManager now i n) = None"
  "mgr_CommandShell (NewManager now i n) = zero_ManagerV1190CommandShell"
  "mgr_GraphicalConsole (NewManager now i n) = zero_ManagerV1190GraphicalConsole"
  "mgr_SerialConsole (NewManager now i n) = zero_ManagerV1190SerialConsole"
  "mgr_Location (NewManager now i n) = zero_ResourceLocation"
  by (simp_all add: NewManager_def zero_ManagerV1190Manager_def)

lemma new_manager_conforms:
  assumes "ident \<noteq> ''''" and "name \<noteq> ''''"
  shows "manager_conforms (NewManager now ident name)"
proof -
  let ?g = "NewManager now ident name"
  have "list_all allowed (manager_values ?g)"
    by (simp add: manager_values_def new_manager_parts part_values zero_ManagerV1190CommandShell_def
        zero_ManagerV1190GraphicalConsole_def zero_ManagerV1190SerialConsole_def zero_ResourceLocation_def
        zero_ResourceV1200PartLocation_def zero_ResourceV1200Placement_def zero_ResourceStatus_def)
      (simp add: enumeration_values)
  moreover have "AssertManagerV1190ManagerConstraints ?g = None"
    by (simp add: manager_scan scan_None_iff manager_bounds_def status_bounds_def new_manager_parts
        zero_ManagerV1190CommandShell_def zero_ManagerV1190GraphicalConsole_def zero_ManagerV1190SerialConsole_def
        zero_ResourceStatus_def bounded_def minimum_def)
  moreover have "\<forall>ord. any_field_order ord \<longrightarrow> AssertManagerV1190ManagerRequired ord ?g = None"
    unfolding manager_scan required_in_every_order using assms
    by (simp add: manager_groups_def status_groups_def incomplete_def new_manager_parts zero_ResourceStatus_def)
  ultimately show ?thesis by (simp add: manager_conforms_def)
qed

lemma new_media_parts:
  "vmedia_OdataId (NewVirtualMedia i n) = ''/redfish/v1/Managers/BMC/VirtualMedia/'' @ i"
  "vmedia_OdataType (NewVirtualMedia i n) = ''#VirtualMedia.v1_6_3.VirtualMedia''"
  "vmedia_Id (NewVirtualMedia i n) = i" "vmedia_Name (NewVirtualMedia i n) = n"
  "vmedia_ConnectedVia (NewVirtualMedia i n) = ''NotConnected''" "vmedia_MediaTypes (NewVirtualMedia i n) = Some [''CD'', ''DVD'']"
  "vmedia_EjectPolicy (NewVirtualMedia i n) = ''''" "vmedia_TransferMethod (NewVirtualMedia i n) = ''''"
  "vmedia_TransferProtocolType (NewVirtualMedia i n) = ''''" "vmedia_Status (NewVirtualMedia i n) = zero_ResourceStatus"
  by (simp_all add: NewVirtualMedia_def zero_VirtualMediaV163VirtualMedia_def)

lemma new_media_conforms:
  assumes "ident \<noteq> ''''" and "name \<noteq> ''''"
  shows "media_conforms (NewVirtualMedia ident name)"
proof -
  let ?m = "NewVirtualMedia ident name"
  have "list_all allowed (media_values ?m)"
    by (simp add: media_values_def new_media_parts part_values zero_ResourceStatus_def) (simp add: enumeration_values)
  moreover have "AssertVirtualMediaV163VirtualMediaConstraints ?m = None"
    by (simp add: media_scan scan_None_iff status_bounds_def new_media_parts zero_ResourceStatus_def)
  moreover have "\<forall>ord. any_field_order ord \<longrightarrow> AssertVirtualMediaV163VirtualMediaRequired ord ?m = None"
    unfolding media_scan required_in_every_order using assms
    by (simp add: media_groups_def status_groups_def incomplete_def new_media_parts zero_ResourceStatus_def)
  ultimately show ?thesis by (simp add: media_conforms_def)
qed

end
