(* ===== verification/ResourceManager.thy ===== *)
theory ResourceManager
  imports Documents
begin

text \<open>
  pkg/resourcemanager/resourcemanager.go: the interface through which both protocol front ends
  act on the virtual machine.  An interface value is the record of its methods over a state
  type; an interface-typed result that may be nil is an option.  The locale states what the
  front ends may rely on; it is interpreted on the virtual machine's implementation in
  VmResourceManager.
\<close>

type_synonym BootDevice = string

definition BootDevicePxe :: BootDevice where
  [simp]: "BootDevicePxe = ''Pxe''"

definition BootDeviceHdd :: BootDevice where
  [simp]: "BootDeviceHdd = ''Hdd''"

record 's ResourceManager =
  GetComputerSystem :: "('s, ComputerSystem option) op"
  GetManager :: "('s, Manager option) op"
  GetVirtualMedia :: "('s, VirtualMedia option) op"
  EjectMedia :: "('s, unit) op"
  InsertMedia :: "string \<Rightarrow> ('s, unit) op"
  GetPowerStatus :: "('s, bool) op"
  PowerOn :: "('s, unit) op"
  PowerOff :: "('s, unit) op"
  PowerCycle :: "('s, unit) op"
  SetBootDevice :: "BootDevice \<Rightarrow> ('s, unit) op"

text \<open>
  \<open>bootSourceMap\<close>: the Redfish boot source of a boot device; a device that is not a key of the
  Go map yields the zero value.
\<close>

definition bootSourceMap :: "BootDevice \<Rightarrow> ComputerSystemBootSource" where
  "bootSourceMap d =
     (if d = BootDevicePxe then COMPUTERSYSTEMBOOTSOURCE_PXE
      else if d = BootDeviceHdd then COMPUTERSYSTEMBOOTSOURCE_HDD
      else '''')"

text \<open>
  The contract.  \<open>system\<close> and \<open>media\<close> are the two cached documents and \<open>machine\<close> the identity
  of the virtual machine: power operations leave all three alone, media operations the system
  document, boot operations the media document; a failing operation changes neither document;
  and a succeeding one changes exactly its own, as stated.
\<close>

locale resource_manager =
  fixes rm :: "'s ResourceManager"
    and inv :: "'s \<Rightarrow> bool"
    and machine :: "'s \<Rightarrow> string \<times> string"
    and system :: "'s \<Rightarrow> ComputerSystem option"
    and media :: "'s \<Rightarrow> VirtualMedia option"
  assumes keeps_ops: "keeps inv (GetComputerSystem rm)" "keeps inv (GetManager rm)"
      "keeps inv (GetVirtualMedia rm)" "keeps inv (EjectMedia rm)" "keeps inv (InsertMedia rm url)"
      "keeps inv (GetPowerStatus rm)" "keeps inv (PowerOn rm)" "keeps inv (PowerOff rm)"
      "keeps inv (PowerCycle rm)" "keeps inv (SetBootDevice rm d)"
    and frame_machine: "frame machine (GetComputerSystem rm)" "frame machine (GetManager rm)"
      "frame machine (GetVirtualMedia rm)" "frame machine (EjectMedia rm)" "frame machine (InsertMedia rm url)"
      "frame machine (GetPowerStatus rm)" "frame machine (PowerOn rm)" "frame machine (PowerOff rm)"
      "frame machine (PowerCycle rm)" "frame machine (SetBootDevice rm d)"
    and frame_system: "frame system (GetManager rm)"
      "frame system (GetVirtualMedia rm)" "frame system (EjectMedia rm)" "frame system (InsertMedia rm url)"
      "frame system (GetPowerStatus rm)" "frame system (PowerOn rm)" "frame system (PowerOff rm)"
      "frame system (PowerCycle rm)"
    and frame_media: "frame media (GetComputerSystem rm)" "frame media (GetManager rm)"
      "frame media (GetVirtualMedia rm)" "frame media (GetPowerStatus rm)" "frame media (PowerOn rm)"
      "frame media (PowerOff rm)" "frame media (PowerCycle rm)" "frame media (SetBootDevice rm d)"
    and eject_result: "EjectMedia rm s = (r, s') \<Longrightarrow>
      media s' = (if r = Ok () then map_option (SetVirtualMedia '''' False) (media s) else media s)"
    and insert_result: "InsertMedia rm url s = (r, s') \<Longrightarrow>
      media s' = (if r = Ok () then map_option (SetVirtualMedia url True) (media s) else media s)"
    and boot_result: "SetBootDevice rm d s = (r, s') \<Longrightarrow>
      system s' = (if r = Ok () then map_option (SetBootOverride (bootSourceMap d)) (system s) else system s)"
    and system_result: "GetComputerSystem rm s = (Ok c, s') \<Longrightarrow>
      c = system s' \<and> (\<exists>on. system s' = map_option (SetPowerState (if on then ''On'' else ''Off'')) (system s))"
    and system_error: "GetComputerSystem rm s = (rc, s') \<Longrightarrow> (\<And>c. rc \<noteq> Ok c) \<Longrightarrow> system s' = system s"
begin

lemmas op_frames = frame_machine frame_system frame_media

lemma eject_idempotent_document:
  assumes "EjectMedia rm s = (Ok (), t)" and "EjectMedia rm t = (Ok (), u)"
  shows "media u = media t"
  using eject_result [OF assms(1)] eject_result [OF assms(2)]
  by (cases "media s") (simp_all add: SetVirtualMedia_def)

lemma insert_then_eject_document:
  assumes "InsertMedia rm url s = (Ok (), t)" and "EjectMedia rm t = (Ok (), u)"
  shows "media u = map_option (SetVirtualMedia '''' False) (media s)"
  using insert_result [OF assms(1)] eject_result [OF assms(2)]
  by (cases "media s") (simp_all add: SetVirtualMedia_def)

end

end
