(* ===== verification/KubeVirt.thy ===== *)
theory KubeVirt
  imports Prelude
begin

text \<open>
  The KubeVirt and CDI objects the program reads and writes, restricted to the fields it
  touches (the schema is config/kubevirt-crd/kubevirt.io_virtualmachines.yaml), and the clients
  through which the BMC agent reaches the cluster and the image server.  A Go slice whose being
  nil the code tests is an optional list; a pointer field is an option.
\<close>

section \<open>Virtual machines\<close>

datatype CDRomTarget = CDRomTarget (cdrom_bus: string)
datatype DiskTarget = DiskTarget (disk_bus: string)

record Disk =
  disk_Name :: string
  disk_Disk :: "DiskTarget option"
  disk_CDRom :: "CDRomTarget option"
  disk_BootOrder :: "nat option"

record Interface =
  intf_Name :: string
  intf_BootOrder :: "nat option"

record DataVolumeSource =
  dvs_Name :: string
  dvs_Hotpluggable :: bool

record Volume =
  vol_Name :: string
  vol_DataVolume :: "DataVolumeSource option"

text \<open>\<open>Spec.Template.Spec\<close>, with \<open>Domain.Devices\<close> flattened into it.\<close>

record TemplateSpec =
  tpl_Disks :: "Disk list option"
  tpl_Interfaces :: "Interface list option"
  tpl_Volumes :: "Volume list"

record VirtualMachine =
  vm_Namespace :: string
  vm_Name :: string
  vm_Running :: "bool option"
  vm_RunStrategy :: "string option"
  vm_Template :: "TemplateSpec option"
  vm_Ready :: bool

record VirtualMachineInstance =
  vmi_Namespace :: string
  vmi_Name :: string

text \<open>The values of the run-strategy constants of the KubeVirt API.\<close>

definition RunStrategyRerunOnFailure :: string where
  [simp]: "RunStrategyRerunOnFailure = ''RerunOnFailure''"

definition RunStrategyHalted :: string where
  [simp]: "RunStrategyHalted = ''Halted''"

section \<open>Data volumes\<close>

record DataVolume =
  dv_Namespace :: string
  dv_Name :: string
  dv_HTTPSource :: "string option"
  dv_Storage :: "int option"

section \<open>Clients\<close>

text \<open>
  The outside world of the agent is a type \<open>'w\<close>; a client call reads and changes it and may
  fail in any way.  \<open>vc_url_rest\<close> is what \<open>net/url.Parse\<close> checks beyond the scheme and
  \<open>vc_url_string\<close> the reassembled URL; \<open>vc_Head\<close> is an HTTP HEAD request.
\<close>

record HeadResponse =
  head_StatusCode :: nat
  head_Status :: string
  head_ContentLength :: int

record 'w vm_client =
  vc_GetVM :: "string \<Rightarrow> string \<Rightarrow> ('w, VirtualMachine) op"
  vc_UpdateVM :: "string \<Rightarrow> VirtualMachine \<Rightarrow> ('w, VirtualMachine) op"
  vc_DeleteVMI :: "string \<Rightarrow> string \<Rightarrow> ('w, unit) op"
  vc_CreateDV :: "string \<Rightarrow> DataVolume \<Rightarrow> ('w, DataVolume) op"
  vc_DeleteDV :: "string \<Rightarrow> string \<Rightarrow> ('w, unit) op"
  vc_Head :: "string \<Rightarrow> ('w, HeadResponse) op"
  vc_url_rest :: "string \<Rightarrow> go_error option"
  vc_url_string :: "string \<Rightarrow> string"

end
