(* ===== verification/Util.thy ===== *)
theory Util
  imports KubeVirt
begin

text \<open>pkg/util/helper.go: finding the CD-ROM slot, sizing a remote image, building a DataVolume.\<close>

section \<open>The CD-ROM slot\<close>

fun GetCdromDisk :: "Disk list \<Rightarrow> Disk outcome" where
  "GetCdromDisk [] = Err (PlainError ''no cdrom disks can be found'')"
| "GetCdromDisk (d # ds) = (if disk_CDRom d \<noteq> None then Ok d else GetCdromDisk ds)"

lemma GetCdromDisk_find:
  "GetCdromDisk ds =
     (case find (\<lambda>d. disk_CDRom d \<noteq> None) ds of
        None \<Rightarrow> Err (PlainError ''no cdrom disks can be found'') | Some d \<Rightarrow> Ok d)"
  by (induction ds) auto

lemma GetCdromDisk_Ok_iff:
  "GetCdromDisk ds = Ok d \<longleftrightarrow>
     (\<exists>i < length ds. ds ! i = d \<and> disk_CDRom d \<noteq> None \<and> (\<forall>j < i. disk_CDRom (ds ! j) = None))"
proof -
  have "GetCdromDisk ds = Ok d \<longleftrightarrow> find (\<lambda>d. disk_CDRom d \<noteq> None) ds = Some d"
    by (simp add: GetCdromDisk_find split: option.split)
  also have "\<dots> \<longleftrightarrow> (\<exists>i < length ds. disk_CDRom (ds ! i) \<noteq> None \<and> d = ds ! i
      \<and> (\<forall>j < i. \<not> disk_CDRom (ds ! j) \<noteq> None))"
    by (rule find_Some_iff)
  finally show ?thesis by metis
qed

lemma GetCdromDisk_cases:
  "(\<exists>d \<in> set ds. disk_CDRom d \<noteq> None \<and> GetCdromDisk ds = Ok d)
   \<or> (\<forall>d \<in> set ds. disk_CDRom d = None) \<and> GetCdromDisk ds = Err (PlainError ''no cdrom disks can be found'')"
  by (induction ds) auto

lemma GetCdromDisk_no_panic: "GetCdromDisk ds \<noteq> Panic p"
  by (induction ds) auto

section \<open>The size of a remote image\<close>

text \<open>
  The scheme part of \<open>net/url.Parse\<close>: letters, then also digits and \<open>+-.\<close>, up to a colon;
  a colon in first position is an error, any other character means there is no scheme.
\<close>

definition is_letter :: "char \<Rightarrow> bool" where
  "is_letter c \<longleftrightarrow> (let n = of_char c :: nat in (65 \<le> n \<and> n \<le> 90) \<or> (97 \<le> n \<and> n \<le> 122))"

definition is_scheme_char :: "char \<Rightarrow> bool" where
  "is_scheme_char c \<longleftrightarrow> (let n = of_char c :: nat in 48 \<le> n \<and> n \<le> 57) \<or> c \<in> set ''+-.''"

definition to_lower :: "char \<Rightarrow> char" where
  "to_lower c = (let n = of_char c :: nat in if 65 \<le> n \<and> n \<le> 90 then char_of (n + 32) else c)"

fun getScheme :: "string \<Rightarrow> string \<Rightarrow> string outcome" where
  "getScheme seen [] = Ok ''''"
| "getScheme seen (c # cs) =
     (if is_letter c then getScheme (seen @ [c]) cs
      else if is_scheme_char c then (if seen = '''' then Ok '''' else getScheme (seen @ [c]) cs)
      else if c = CHR '':'' then
        (if seen = '''' then Err (PlainError ''missing protocol scheme'') else Ok seen)
      else Ok '''')"

definition has_ctl_byte :: "string \<Rightarrow> bool" where
  "has_ctl_byte s \<longleftrightarrow> list_ex (\<lambda>c. (of_char c :: nat) < 32 \<or> (of_char c :: nat) = 127) s"

definition url_scheme :: "'w vm_client \<Rightarrow> string \<Rightarrow> string outcome" where
  "url_scheme vc url =
     (let u = takeWhile (\<lambda>c. c \<noteq> CHR ''#'') url
      in if has_ctl_byte u then Err (PlainError ''net/url: invalid control character in URL'')
         else if u = ''*'' then Ok ''''
         else case getScheme [] u of
           Ok sch \<Rightarrow> (case vc_url_rest vc url of None \<Rightarrow> Ok (map to_lower sch) | Some e \<Rightarrow> Err e)
         | r \<Rightarrow> r)"

definition GetRemoteFileSize :: "'w vm_client \<Rightarrow> string \<Rightarrow> ('w, int) op" where
  "GetRemoteFileSize vc url =
     attempt (pureR (url_scheme vc url))
       (\<lambda>err. fail (WrapError ''invalid URL: '' err))
       (\<lambda>scheme.
          if scheme \<noteq> ''http'' \<and> scheme \<noteq> ''https''
          then fail (PlainError ''invalid scheme: only http/https allowed'')
          else andThen (vc_Head vc (vc_url_string vc url)) (\<lambda>resp.
            if head_StatusCode resp \<noteq> 200
            then fail (PlainError (''bad status: '' @ head_Status resp))
            else if head_ContentLength resp < 0
            then fail (PlainError ''content-length not available'')
            else ret (head_ContentLength resp)))"

text \<open>A size is only ever returned for an http(s) URL whose server answered 200 with a length.\<close>

lemma GetRemoteFileSize_Ok:
  assumes "GetRemoteFileSize vc url w = (Ok n, w')"
  shows "0 \<le> n"
    and "\<exists>resp. vc_Head vc (vc_url_string vc url) w = (Ok resp, w') \<and> head_StatusCode resp = 200
           \<and> head_ContentLength resp = n"
    and "url_scheme vc url = Ok ''http'' \<or> url_scheme vc url = Ok ''https''"
  using assms
  by (cases "url_scheme vc url";
      cases "fst (vc_Head vc (vc_url_string vc url) w)";
      force simp: GetRemoteFileSize_def andThen_def attempt_def split: if_splits outcome.splits prod.splits)+

section \<open>The DataVolume of an inserted image\<close>

definition ConstructDataVolume :: "string \<Rightarrow> string \<Rightarrow> string \<Rightarrow> int \<Rightarrow> DataVolume" where
  "ConstructDataVolume namespace name url nbytes =
     \<lparr>dv_Namespace = namespace, dv_Name = name, dv_HTTPSource = Some url, dv_Storage = Some nbytes\<rparr>"

end
