(* ===== verification/VmResourceManager.thy ===== *)
theory VmResourceManager
  imports ResourceManager Util
begin

text \<open>
  pkg/resourcemanager/virtualmachine_resourcemanager.go: the implementation of the resource
  manager on a KubeVirt virtual machine.  Its state is the identity of the machine, the three
  cached Redfish documents (nil until \<open>Initialize\<close>) and the outside world.  \<open>vc\<close> bundles the
  KubeVirt and CDI clients and the image server.
\<close>

section \<open>State\<close>

record 'w vmrm =
  m_namespace :: string
  m_name :: string
  m_computerSystem :: "ComputerSystem option"
  m_manager :: "Manager option"
  m_virtualMedia :: "VirtualMedia option"
  m_world :: 'w

definition NewVirtualMachineResourceManager :: "'w \<Rightarrow> 'w vmrm" where
  "NewVirtualMachineResourceManager w =
     \<lparr>m_namespace = '''', m_name = '''', m_computerSystem = None, m_manager = None,
      m_virtualMedia = None, m_world = w\<rparr>"

definition onWorld :: "('w, 'a) op \<Rightarrow> ('w vmrm, 'a) op" where
  "onWorld = onPart m_world (\<lambda>w s. s\<lparr>m_world := w\<rparr>)"

definition defaultComputerSystemId :: string where
  [simp]: "defaultComputerSystemId = ''1''"

definition defaultManagerId :: string where
  [simp]: "defaultManagerId = ''BMC''"

definition defaultManagerName :: string where
  [simp]: "defaultManagerName = ''Manager''"

definition defaultVirtualMediaId :: string where
  [simp]: "defaultVirtualMediaId = ''CD1''"

definition defaultVirtualMediaName :: string where
  [simp]: "defaultVirtualMediaName = ''Virtual Media''"

definition powerStateMap :: "bool \<Rightarrow> ResourcePowerState" where
  "powerStateMap b = (if b then RESOURCEPOWERSTATE_ON else RESOURCEPOWERSTATE_OFF)"

text \<open>The elements of a slice that may be nil.\<close>

definition slice :: "'a list option \<Rightarrow> 'a list" where
  "slice xs = (case xs of None \<Rightarrow> [] | Some ys \<Rightarrow> ys)"

section \<open>Initialisation\<close>

text \<open>\<open>m.virtClient.KubevirtV1().VirtualMachines(m.namespace).Get(m.ctx, m.name, ...)\<close>\<close>

definition getVM :: "'w vm_client \<Rightarrow> ('w vmrm, VirtualMachine) op" where
  "getVM vc s = onWorld (vc_GetVM vc (m_namespace s) (m_name s)) s"

definition updateVM :: "'w vm_client \<Rightarrow> VirtualMachine \<Rightarrow> ('w vmrm, VirtualMachine) op" where
  "updateVM vc vm s = onWorld (vc_UpdateVM vc (m_namespace s) vm) s"

definition Initialize :: "'w vm_client \<Rightarrow> string \<Rightarrow> string \<Rightarrow> string \<Rightarrow> ('w vmrm, unit) op" where
  "Initialize vc now namespace name =
     andThen (onWorld (vc_GetVM vc namespace name)) (\<lambda>vm.
     let cs = NewComputerSystem defaultComputerSystemId
                (join [vm_Namespace vm, vm_Name vm] ''/'') (powerStateMap (vm_Ready vm));
         mgr = NewManager now defaultManagerId defaultManagerName;
         media = NewVirtualMedia defaultVirtualMediaId defaultVirtualMediaName
     in andThen (modifyS (\<lambda>s. s\<lparr>m_namespace := vm_Namespace vm, m_name := vm_Name vm,
            m_computerSystem := Some cs, m_manager := Some mgr, m_virtualMedia := Some media\<rparr>)) (\<lambda>_.
        andThen (pureR (CS_ManagedBy cs (Mgr_OdataId mgr))) (\<lambda>cs'.
        andThen (modifyS (\<lambda>s. s\<lparr>m_computerSystem := Some cs'\<rparr>)) (\<lambda>_.
        andThen (pureR (Mgr_Manage mgr (CS_OdataId cs'))) (\<lambda>mgr'.
        modifyS (\<lambda>s. s\<lparr>m_manager := Some mgr'\<rparr>))))))"

section \<open>The documents\<close>

definition VM_GetComputerSystem :: "'w vm_client \<Rightarrow> ('w vmrm, ComputerSystem option) op" where
  "VM_GetComputerSystem vc s =
     (case m_computerSystem s of
        None \<Rightarrow> fail (PlainError ''computer system not initialized'') s
      | Some cs \<Rightarrow>
          andThen (getVM vc) (\<lambda>vm.
          let cs' = (if vm_Ready vm then SetPowerState RESOURCEPOWERSTATE_ON cs
                     else SetPowerState RESOURCEPOWERSTATE_OFF cs)
          in andThen (modifyS (\<lambda>s. s\<lparr>m_computerSystem := Some cs'\<rparr>)) (\<lambda>_. ret (Some cs'))) s)"

definition VM_GetManager :: "('w vmrm, Manager option) op" where
  "VM_GetManager = readS m_manager"

definition VM_GetVirtualMedia :: "('w vmrm, VirtualMedia option) op" where
  "VM_GetVirtualMedia = readS m_virtualMedia"

definition setMedia :: "string \<Rightarrow> bool \<Rightarrow> 'w vmrm \<Rightarrow> 'w vmrm" where
  "setMedia url inserted s =
     s\<lparr>m_virtualMedia := map_option (SetVirtualMedia url inserted) (m_virtualMedia s)\<rparr>"

section \<open>Virtual media\<close>

text \<open>
  \<open>slices.DeleteFunc\<close> with the closure of \<open>EjectMedia\<close>: every volume named like the CD-ROM slot
  is dropped, and \<open>dvName\<close> ends as the DataVolume of the last of them; a dropped volume that
  is not backed by a DataVolume is a nil dereference.
\<close>

fun deleteCdromVolumes :: "string \<Rightarrow> Volume list \<Rightarrow> string \<Rightarrow> (Volume list \<times> string) outcome" where
  "deleteCdromVolumes slot [] dvName = Ok ([], dvName)"
| "deleteCdromVolumes slot (v # vs) dvName =
     (if vol_Name v = slot then
        (case vol_DataVolume v of
           None \<Rightarrow> Panic NilDereference
         | Some dv \<Rightarrow> deleteCdromVolumes slot vs (dvs_Name dv))
      else
        (case deleteCdromVolumes slot vs dvName of
           Ok (kept, dvn) \<Rightarrow> Ok (v # kept, dvn)
         | r \<Rightarrow> r))"

definition VM_EjectMedia :: "'w vm_client \<Rightarrow> ('w vmrm, unit) op" where
  "VM_EjectMedia vc s =
     (if m_virtualMedia s = None then fail (PlainError ''virtual media not initialized'') s
      else andThen (getVM vc) (\<lambda>vm.
        case vm_Template vm of
          None \<Rightarrow> fail (PlainError ''no template found'')
        | Some tpl \<Rightarrow>
            andThen (pureR (GetCdromDisk (slice (tpl_Disks tpl)))) (\<lambda>cdromDisk.
            andThen (pureR (deleteCdromVolumes (disk_Name cdromDisk) (tpl_Volumes tpl) '''')) (\<lambda>(vols, dvName).
            if dvName = '''' then fail (PlainError ''no media inserted'')
            else andThen (updateVM vc (vm\<lparr>vm_Template := Some (tpl\<lparr>tpl_Volumes := vols\<rparr>)\<rparr>)) (\<lambda>_.
              andThen (onWorld (vc_DeleteDV vc (m_namespace s) dvName)) (\<lambda>_.
              modifyS (setMedia '''' False)))))) s)"

definition VM_InsertMedia :: "'w vm_client \<Rightarrow> string \<Rightarrow> ('w vmrm, unit) op" where
  "VM_InsertMedia vc imageURL s =
     (if m_virtualMedia s = None then fail (PlainError ''virtual media not initialized'') s
      else andThen (getVM vc) (\<lambda>vm.
        case vm_Template vm of
          None \<Rightarrow> fail (PlainError ''no template found'')
        | Some tpl \<Rightarrow>
            andThen (pureR (GetCdromDisk (slice (tpl_Disks tpl)))) (\<lambda>cdromDisk.
            andThen (onWorld (GetRemoteFileSize vc imageURL)) (\<lambda>imageSize.
            let dv = ConstructDataVolume (m_namespace s) (m_name s) imageURL imageSize;
                volume = \<lparr>vol_Name = disk_Name cdromDisk,
                          vol_DataVolume = Some \<lparr>dvs_Name = dv_Name dv, dvs_Hotpluggable = True\<rparr>\<rparr>
            in andThen (onWorld (vc_CreateDV vc (m_namespace s) dv)) (\<lambda>_.
               andThen (updateVM vc (vm\<lparr>vm_Template := Some (tpl\<lparr>tpl_Volumes := tpl_Volumes tpl @ [volume]\<rparr>)\<rparr>)) (\<lambda>_.
               modifyS (setMedia imageURL True)))))) s)"

section \<open>Power\<close>

definition VM_GetPowerStatus :: "'w vm_client \<Rightarrow> ('w vmrm, bool) op" where
  "VM_GetPowerStatus vc = andThen (getVM vc) (\<lambda>vm. ret (vm_Ready vm))"

definition VM_PowerOn :: "'w vm_client \<Rightarrow> ('w vmrm, unit) op" where
  "VM_PowerOn vc =
     andThen (getVM vc) (\<lambda>vm.
     andThen (updateVM vc
       (if vm_RunStrategy vm = None then vm\<lparr>vm_Running := Some True\<rparr>
        else vm\<lparr>vm_RunStrategy := Some RunStrategyRerunOnFailure\<rparr>)) (\<lambda>_. ret ()))"

definition VM_PowerOff :: "'w vm_client \<Rightarrow> ('w vmrm, unit) op" where
  "VM_PowerOff vc =
     andThen (getVM vc) (\<lambda>vm.
     andThen (updateVM vc
       (if vm_RunStrategy vm = None then vm\<lparr>vm_Running := Some False\<rparr>
        else vm\<lparr>vm_RunStrategy := Some RunStrategyHalted\<rparr>)) (\<lambda>_. ret ()))"

definition VM_PowerCycle :: "'w vm_client \<Rightarrow> ('w vmrm, unit) op" where
  "VM_PowerCycle vc s = onWorld (vc_DeleteVMI vc (m_namespace s) (m_name s)) s"

section \<open>Boot device\<close>

definition clearBootOrders :: "TemplateSpec \<Rightarrow> TemplateSpec" where
  "clearBootOrders tpl =
     tpl\<lparr>tpl_Interfaces := map_option (map (\<lambda>i. i\<lparr>intf_BootOrder := None\<rparr>)) (tpl_Interfaces tpl),
         tpl_Disks := map_option (map (\<lambda>d. d\<lparr>disk_BootOrder := None\<rparr>)) (tpl_Disks tpl)\<rparr>"

text \<open>Setting a field of element 0 of a slice: out of range when the slice is empty.\<close>

fun updateFirst :: "('a \<Rightarrow> 'a) \<Rightarrow> 'a list \<Rightarrow> 'a list outcome" where
  "updateFirst f [] = Panic IndexOutOfRange"
| "updateFirst f (x # xs) = Ok (f x # xs)"

definition firstOrder :: nat where
  [simp]: "firstOrder = 1"

definition chooseBootDevice :: "BootDevice \<Rightarrow> TemplateSpec \<Rightarrow> TemplateSpec outcome" where
  "chooseBootDevice bootDevice tpl =
     (if bootDevice = BootDevicePxe then
        (case tpl_Interfaces tpl of
           None \<Rightarrow> Err (PlainError ''no interfaces found'')
         | Some is \<Rightarrow>
             (case updateFirst (\<lambda>i. i\<lparr>intf_BootOrder := Some firstOrder\<rparr>) is of
                Ok is' \<Rightarrow> Ok (tpl\<lparr>tpl_Interfaces := Some is'\<rparr>) | Err e \<Rightarrow> Err e | Panic p \<Rightarrow> Panic p))
      else if bootDevice = BootDeviceHdd then
        (case tpl_Disks tpl of
           None \<Rightarrow> Err (PlainError ''no disks found'')
         | Some ds \<Rightarrow>
             (case updateFirst (\<lambda>d. d\<lparr>disk_BootOrder := Some firstOrder\<rparr>) ds of
                Ok ds' \<Rightarrow> Ok (tpl\<lparr>tpl_Disks := Some ds'\<rparr>) | Err e \<Rightarrow> Err e | Panic p \<Rightarrow> Panic p))
      else Ok tpl)"

definition VM_SetBootDevice :: "'w vm_client \<Rightarrow> BootDevice \<Rightarrow> ('w vmrm, unit) op" where
  "VM_SetBootDevice vc bootDevice =
     andThen (getVM vc) (\<lambda>vm.
     case vm_Template vm of
       None \<Rightarrow> fail (PlainError ''no template found'')
     | Some tpl \<Rightarrow>
         andThen (pureR (chooseBootDevice bootDevice (clearBootOrders tpl))) (\<lambda>tpl'.
         andThen (updateVM vc (vm\<lparr>vm_Template := Some tpl'\<rparr>)) (\<lambda>_.
         modifyS (\<lambda>s. s\<lparr>m_computerSystem :=
           map_option (SetBootOverride (bootSourceMap bootDevice)) (m_computerSystem s)\<rparr>))))"

section \<open>The interface value\<close>

definition vm_resource_manager :: "'w vm_client \<Rightarrow> ('w vmrm) ResourceManager" where
  "vm_resource_manager vc =
     \<lparr>GetComputerSystem = VM_GetComputerSystem vc,
      GetManager = VM_GetManager,
      GetVirtualMedia = VM_GetVirtualMedia,
      EjectMedia = VM_EjectMedia vc,
      InsertMedia = VM_InsertMedia vc,
      GetPowerStatus = VM_GetPowerStatus vc,
      PowerOn = VM_PowerOn vc,
      PowerOff = VM_PowerOff vc,
      PowerCycle = VM_PowerCycle vc,
      SetBootDevice = VM_SetBootDevice vc\<rparr>"

section \<open>Running the operations\<close>

text \<open>
  The operations are straight-line code over three client calls; \<open>vm_unfolds\<close> and \<open>vm_splits\<close>
  expose all of their branches at once.
\<close>

lemmas vm_unfolds =
  andThen_def attempt_def onWorld_def onPart_def getVM_def updateVM_def setMedia_def Let_def

lemmas vm_splits = prod.splits outcome.splits option.splits if_splits

lemma deleteCdromVolumes_not_Err: "deleteCdromVolumes slot vs dvn \<noteq> Err e"
  by (induction slot vs dvn rule: deleteCdromVolumes.induct) (auto split: vm_splits)

lemma frame_power [frames]:
  assumes "\<And>w s. f (s\<lparr>m_world := w\<rparr>) = f s"
  shows "frame f (VM_GetPowerStatus vc)" "frame f (VM_PowerOn vc)" "frame f (VM_PowerOff vc)"
    "frame f (VM_PowerCycle vc)"
  using assms
  by (auto simp: frame_def VM_GetPowerStatus_def VM_PowerOn_def VM_PowerOff_def VM_PowerCycle_def
      vm_unfolds split: vm_splits)

lemma frame_reads [frames]: "frame f VM_GetManager" "frame f VM_GetVirtualMedia"
  by (simp_all add: VM_GetManager_def VM_GetVirtualMedia_def frame_def)

lemma VM_EjectMedia_media:
  "VM_EjectMedia vc s = (r, s') \<Longrightarrow>
     m_virtualMedia s' = (if r = Ok () then map_option (SetVirtualMedia '''' False) (m_virtualMedia s)
                          else m_virtualMedia s)"
  by (auto simp: VM_EjectMedia_def vm_unfolds split: vm_splits)

lemma VM_InsertMedia_media:
  "VM_InsertMedia vc url s = (r, s') \<Longrightarrow>
     m_virtualMedia s' = (if r = Ok () then map_option (SetVirtualMedia url True) (m_virtualMedia s)
                          else m_virtualMedia s)"
  by (auto simp: VM_InsertMedia_def vm_unfolds split: vm_splits)

lemma VM_SetBootDevice_system:
  "VM_SetBootDevice vc d s = (r, s') \<Longrightarrow>
     m_computerSystem s' = (if r = Ok () then map_option (SetBootOverride (bootSourceMap d)) (m_computerSystem s)
                            else m_computerSystem s)"
  by (auto simp: VM_SetBootDevice_def vm_unfolds split: vm_splits)

lemma frame_EjectMedia [frames]:
  assumes "\<And>w s. f (s\<lparr>m_world := w\<rparr>) = f s" "\<And>v s. f (s\<lparr>m_virtualMedia := v\<rparr>) = f s"
  shows "frame f (VM_EjectMedia vc)"
  using assms by (auto simp: frame_def VM_EjectMedia_def vm_unfolds split: vm_splits)

lemma frame_InsertMedia [frames]:
  assumes "\<And>w s. f (s\<lparr>m_world := w\<rparr>) = f s" "\<And>v s. f (s\<lparr>m_virtualMedia := v\<rparr>) = f s"
  shows "frame f (VM_InsertMedia vc url)"
  using assms by (auto simp: frame_def VM_InsertMedia_def vm_unfolds split: vm_splits)

lemma frame_SetBootDevice [frames]:
  assumes "\<And>w s. f (s\<lparr>m_world := w\<rparr>) = f s" "\<And>v s. f (s\<lparr>m_computerSystem := v\<rparr>) = f s"
  shows "frame f (VM_SetBootDevice vc d)"
  using assms by (auto simp: frame_def VM_SetBootDevice_def vm_unfolds split: vm_splits)

lemma frame_GetComputerSystem [frames]:
  assumes "\<And>w s. f (s\<lparr>m_world := w\<rparr>) = f s" "\<And>v s. f (s\<lparr>m_computerSystem := v\<rparr>) = f s"
  shows "frame f (VM_GetComputerSystem vc)"
  using assms by (auto simp: frame_def VM_GetComputerSystem_def vm_unfolds split: vm_splits)

lemma VM_GetComputerSystem_Ok:
  assumes "VM_GetComputerSystem vc s = (Ok c, s')"
  shows "c = m_computerSystem s' \<and>
    (\<exists>on. m_computerSystem s' = map_option (SetPowerState (if on then ''On'' else ''Off'')) (m_computerSystem s))"
proof -
  from assms obtain cs on where "m_computerSystem s = Some cs"
    and "c = Some (SetPowerState (if on then ''On'' else ''Off'') cs)" "m_computerSystem s' = c"
    by (auto simp: VM_GetComputerSystem_def vm_unfolds split: vm_splits
        intro: that [where on = True] that [where on = False])
  then show ?thesis by auto
qed

lemma VM_GetComputerSystem_error:
  "VM_GetComputerSystem vc s = (r, s') \<Longrightarrow> (\<And>c. r \<noteq> Ok c) \<Longrightarrow> m_computerSystem s' = m_computerSystem s"
  by (auto simp: VM_GetComputerSystem_def vm_unfolds split: vm_splits)

section \<open>The invariant of the cached documents\<close>

text \<open>
  The three documents are created together and conform to the data model; the media slot is
  consistent, the power state is one of the two the code ever writes, and system and manager refer
  to each other, once.
\<close>

fun docs_inv :: "ComputerSystem option \<Rightarrow> Manager option \<Rightarrow> VirtualMedia option \<Rightarrow> bool" where
  "docs_inv None None None \<longleftrightarrow> True"
| "docs_inv (Some c) (Some g) (Some m) \<longleftrightarrow>
     cs_Id c = defaultComputerSystemId \<and> mgr_Id g = defaultManagerId
     \<and> vmedia_Id m = defaultVirtualMediaId \<and> media_consistent m
     \<and> cs_PowerState c \<in> {''On'', ''Off''}
     \<and> managers_of c = [mgr_OdataId g] \<and> servers_of g = [cs_OdataId c]
     \<and> system_conforms c \<and> manager_conforms g \<and> media_conforms m"
| "docs_inv _ _ _ \<longleftrightarrow> False"

text \<open>The documents a successful start creates and links.\<close>

lemma new_docs_inv:
  assumes "name \<noteq> []" and "p \<in> {''On'', ''Off''}"
    and "CS_ManagedBy (NewComputerSystem defaultComputerSystemId name p) (Mgr_OdataId (NewManager now defaultManagerId defaultManagerName)) = Ok c"
    and "Mgr_Manage (NewManager now defaultManagerId defaultManagerName) (CS_OdataId c) = Ok g"
  shows "docs_inv (Some c) (Some g) (Some (NewVirtualMedia defaultVirtualMediaId defaultVirtualMediaName))"
proof -
  let ?c = "NewComputerSystem defaultComputerSystemId name p" and ?g = "NewManager now defaultManagerId defaultManagerName"
  have "managers_of ?c = []" "servers_of ?g = []"
    by (simp_all add: managers_of_def servers_of_def NewComputerSystem_def NewManager_def
        zero_ComputerSystemV1220Links_def zero_ManagerV1190Links_def)
  with cs_odata.managedBy_links [OF assms(3)] mgr_odata.manage_links [OF assms(4)]
  have "managers_of c = [mgr_OdataId g]" "servers_of g = [cs_OdataId c]"
    using mgr_odata.manage_id [OF assms(4)] by (simp_all add: CS_OdataId_def Mgr_OdataId_def)
  moreover have "cs_Id c = cs_Id ?c" "cs_PowerState c = cs_PowerState ?c" "mgr_Id g = mgr_Id ?g"
    using assms(3,4) by (auto simp: CS_ManagedBy_def Mgr_Manage_def)
  moreover have "system_conforms c" "manager_conforms g"
    using system_conforms_link [OF assms(3) new_system_conforms] manager_conforms_link [OF assms(4) new_manager_conforms]
      assms(1,2) by simp_all
  ultimately show ?thesis
    using assms(2) new_media_conforms [of defaultVirtualMediaId defaultVirtualMediaName]
    by (simp add: new_system_parts new_manager_parts new_media_parts)
qed

definition rm_inv :: "'w vmrm \<Rightarrow> bool" where
  "rm_inv s \<longleftrightarrow> docs_inv (m_computerSystem s) (m_manager s) (m_virtualMedia s)"

lemma rm_inv_new: "rm_inv (NewVirtualMachineResourceManager w)"
  by (simp add: rm_inv_def NewVirtualMachineResourceManager_def)

text \<open>What the operations do to the two documents that change.\<close>

definition system_step :: "ComputerSystem option \<Rightarrow> ComputerSystem option \<Rightarrow> bool" where
  "system_step c c' \<longleftrightarrow> c' = c \<or> (\<exists>d. c' = map_option (SetBootOverride (bootSourceMap d)) c)
     \<or> (\<exists>on. c' = map_option (SetPowerState (if on then ''On'' else ''Off'')) c)"

definition media_step :: "VirtualMedia option \<Rightarrow> VirtualMedia option \<Rightarrow> bool" where
  "media_step v v' \<longleftrightarrow> v' = v \<or> (\<exists>u b. v' = map_option (SetVirtualMedia u b) v)"

lemma docs_inv_media: "docs_inv c g v \<Longrightarrow> docs_inv c g (map_option (SetVirtualMedia u b) v)"
  by (cases c; cases g; cases v) (simp_all add: media_conforms_setter)

lemma docs_inv_boot: "docs_inv c g v \<Longrightarrow> docs_inv (map_option (SetBootOverride (bootSourceMap d)) c) g v"
proof -
  have "bootSourceMap d \<in> {'''', ''Pxe'', ''Hdd''}" by (simp add: bootSourceMap_def)
  then show "docs_inv c g v \<Longrightarrow> docs_inv (map_option (SetBootOverride (bootSourceMap d)) c) g v"
    by (cases c; cases g; cases v) (simp_all add: system_conforms_boot)
qed

lemma docs_inv_power:
  "docs_inv c g v \<Longrightarrow> docs_inv (map_option (SetPowerState (if on then ''On'' else ''Off'')) c) g v"
  using system_conforms_power [of _ on] by (cases on; cases c; cases g; cases v) simp_all

lemma rm_inv_step:
  assumes "rm_inv s" and "m_manager s' = m_manager s"
    and "media_step (m_virtualMedia s) (m_virtualMedia s')" and "system_step (m_computerSystem s) (m_computerSystem s')"
  shows "rm_inv s'"
  using assms unfolding rm_inv_def media_step_def system_step_def
  by (metis docs_inv_media docs_inv_boot docs_inv_power)

lemma keeps_rm_invI:
  assumes "\<And>s r s'. m s = (r, s') \<Longrightarrow> m_manager s' = m_manager s \<and>
      media_step (m_virtualMedia s) (m_virtualMedia s') \<and> system_step (m_computerSystem s) (m_computerSystem s')"
  shows "keeps rm_inv m"
proof (rule keepsI)
  fix s :: "'a vmrm" assume "rm_inv s"
  obtain r s' where m: "m s = (r, s')" by force
  from rm_inv_step [OF \<open>rm_inv s\<close>] assms [OF m] have "rm_inv s'" by blast
  with m show "rm_inv (snd (m s))" by simp
qed

lemma frames_documents:
  "frame m_manager (VM_EjectMedia vc)" "frame m_computerSystem (VM_EjectMedia vc)"
  "frame m_manager (VM_InsertMedia vc url)" "frame m_computerSystem (VM_InsertMedia vc url)"
  "frame m_manager (VM_SetBootDevice vc d)" "frame m_virtualMedia (VM_SetBootDevice vc d)"
  "frame m_manager (VM_GetComputerSystem vc)" "frame m_virtualMedia (VM_GetComputerSystem vc)"
  by (simp_all add: frames)

lemma keeps_media_op:
  assumes "frame m_manager m" and "frame m_computerSystem m"
    and "\<And>s r s'. m s = (r, s') \<Longrightarrow>
       m_virtualMedia s' = (if r = Ok () then map_option (SetVirtualMedia u b) (m_virtualMedia s) else m_virtualMedia s)"
  shows "keeps rm_inv m"
proof (rule keeps_rm_invI)
  fix s s' :: "'a vmrm" and r
  assume m: "m s = (r, s')"
  from assms(3) [OF m] have "media_step (m_virtualMedia s) (m_virtualMedia s')"
    by (auto simp: media_step_def)
  with frameD [OF assms(1) m] frameD [OF assms(2) m]
  show "m_manager s' = m_manager s \<and>
      media_step (m_virtualMedia s) (m_virtualMedia s') \<and> system_step (m_computerSystem s) (m_computerSystem s')"
    by (simp add: system_step_def)
qed

lemma keeps_system_op:
  assumes "frame m_manager m" and "frame m_virtualMedia m"
    and "\<And>s r s'. m s = (r, s') \<Longrightarrow> system_step (m_computerSystem s) (m_computerSystem s')"
  shows "keeps rm_inv m"
  using assms(3) frameD [OF assms(1)] frameD [OF assms(2)]
  by (intro keeps_rm_invI) (simp add: media_step_def)

lemma keeps_rm_inv_media [keepers]:
  "keeps rm_inv (VM_EjectMedia vc)" "keeps rm_inv (VM_InsertMedia vc url)"
  by (rule keeps_media_op, simp_all only: frames_documents VM_EjectMedia_media VM_InsertMedia_media)+

lemma SetBootDevice_step:
  "VM_SetBootDevice vc d s = (r, s') \<Longrightarrow> system_step (m_computerSystem s) (m_computerSystem s')"
  using VM_SetBootDevice_system [of vc d s r s'] unfolding system_step_def by (metis (full_types))

lemma GetComputerSystem_step:
  assumes "VM_GetComputerSystem vc s = (r, s')"
  shows "system_step (m_computerSystem s) (m_computerSystem s')"
proof (cases r)
  case (Ok c)
  with VM_GetComputerSystem_Ok [OF assms [unfolded Ok]] show ?thesis unfolding system_step_def by blast
qed (use VM_GetComputerSystem_error [OF assms] in \<open>simp_all add: system_step_def\<close>)

lemma keeps_rm_inv_system [keepers]:
  "keeps rm_inv (VM_SetBootDevice vc d)" "keeps rm_inv (VM_GetComputerSystem vc)"
  by (rule keeps_system_op, simp_all add: frames_documents, erule SetBootDevice_step)
    (rule keeps_system_op, simp_all add: frames_documents, erule GetComputerSystem_step)

lemma keeps_rm_inv_power [keepers]:
  "keeps rm_inv (VM_GetPowerStatus vc)" "keeps rm_inv (VM_PowerOn vc)" "keeps rm_inv (VM_PowerOff vc)"
  "keeps rm_inv (VM_PowerCycle vc)" "keeps rm_inv VM_GetManager" "keeps rm_inv VM_GetVirtualMedia"
  by (rule frame_keeps [where Q = "\<lambda>b. b" and f = rm_inv], simp add: frames rm_inv_def)+

definition machine_id :: "'w vmrm \<Rightarrow> string \<times> string" where
  "machine_id s = (m_namespace s, m_name s)"

text \<open>The implementation meets the contract of the interface, whatever the cluster does.\<close>

interpretation vm_manager: resource_manager "vm_resource_manager vc" rm_inv machine_id m_computerSystem m_virtualMedia
  for vc :: "'w vm_client"
proof unfold_locales
qed (simp_all add: vm_resource_manager_def keepers frames machine_id_def VM_EjectMedia_media
    VM_InsertMedia_media VM_SetBootDevice_system VM_GetComputerSystem_Ok VM_GetComputerSystem_error)

end
