(* ===== verification/Builder.thy ===== *)
theory Builder
  imports Util
begin

text \<open>
  pkg/builder: the fluent constructors of VirtualMachine, VirtualMachineInstance and DataVolume
  objects.  A builder is the object under construction; each method returns it changed.
\<close>

section \<open>datavolume.go\<close>

definition NewDataVolumeBuilder :: "string \<Rightarrow> string \<Rightarrow> DataVolume" where
  "NewDataVolumeBuilder namespace name =
     \<lparr>dv_Namespace = namespace, dv_Name = name, dv_HTTPSource = None, dv_Storage = None\<rparr>"

definition DV_Build :: "DataVolume \<Rightarrow> DataVolume" where
  "DV_Build b = b"

definition WithHTTPSource :: "string \<Rightarrow> DataVolume \<Rightarrow> DataVolume" where
  "WithHTTPSource url b = b\<lparr>dv_HTTPSource := Some url\<rparr>"

definition WithStorage :: "int \<Rightarrow> DataVolume \<Rightarrow> DataVolume" where
  "WithStorage nbytes b = b\<lparr>dv_Storage := Some nbytes\<rparr>"

section \<open>virtualmachine.go\<close>

definition NewVirtualMachineBuilder :: "string \<Rightarrow> string \<Rightarrow> VirtualMachine" where
  "NewVirtualMachineBuilder namespace name =
     \<lparr>vm_Namespace = namespace, vm_Name = name, vm_Running = None, vm_RunStrategy = None,
      vm_Template = None, vm_Ready = False\<rparr>"

definition VM_Build :: "VirtualMachine \<Rightarrow> VirtualMachine" where
  "VM_Build b = b"

definition empty_template :: TemplateSpec where
  "empty_template = \<lparr>tpl_Disks = None, tpl_Interfaces = None, tpl_Volumes = []\<rparr>"

definition WithTemplate :: "VirtualMachine \<Rightarrow> VirtualMachine" where
  "WithTemplate b = b\<lparr>vm_Template := Some empty_template\<rparr>"

definition Running :: "bool \<Rightarrow> VirtualMachine \<Rightarrow> VirtualMachine" where
  "Running running b = b\<lparr>vm_Running := Some running\<rparr>"

definition RunStrategy :: "string \<Rightarrow> VirtualMachine \<Rightarrow> VirtualMachine" where
  "RunStrategy strategy b = b\<lparr>vm_RunStrategy := Some strategy\<rparr>"

text \<open>\<open>append\<close> on a possibly nil slice, and the template a builder method works on.\<close>

definition append_slice :: "'a list option \<Rightarrow> 'a \<Rightarrow> 'a list option" where
  "append_slice xs x = Some ((case xs of None \<Rightarrow> [] | Some ys \<Rightarrow> ys) @ [x])"

definition template_of :: "VirtualMachine \<Rightarrow> TemplateSpec" where
  "template_of b = (case vm_Template b of None \<Rightarrow> empty_template | Some t \<Rightarrow> t)"

definition add_disk :: "Disk \<Rightarrow> VirtualMachine \<Rightarrow> VirtualMachine" where
  "add_disk d b =
     b\<lparr>vm_Template := Some ((template_of b)\<lparr>tpl_Disks := append_slice (tpl_Disks (template_of b)) d\<rparr>)\<rparr>"

definition WithDisk :: "string \<Rightarrow> nat option \<Rightarrow> VirtualMachine \<Rightarrow> VirtualMachine" where
  "WithDisk name bootOrder b =
     add_disk \<lparr>disk_Name = name, disk_Disk = Some (DiskTarget ''''), disk_CDRom = None,
               disk_BootOrder = bootOrder\<rparr> b"

definition WithCDRomDisk :: "string \<Rightarrow> nat option \<Rightarrow> VirtualMachine \<Rightarrow> VirtualMachine" where
  "WithCDRomDisk name bootOrder b =
     add_disk \<lparr>disk_Name = name, disk_Disk = None, disk_CDRom = Some (CDRomTarget ''''),
               disk_BootOrder = bootOrder\<rparr> b"

definition WithInterface :: "string \<Rightarrow> nat option \<Rightarrow> VirtualMachine \<Rightarrow> VirtualMachine" where
  "WithInterface name bootOrder b =
     b\<lparr>vm_Template := Some ((template_of b)\<lparr>tpl_Interfaces :=
         append_slice (tpl_Interfaces (template_of b)) \<lparr>intf_Name = name, intf_BootOrder = bootOrder\<rparr>\<rparr>)\<rparr>"

definition WithVolumes :: "Volume list \<Rightarrow> VirtualMachine \<Rightarrow> VirtualMachine" where
  "WithVolumes volumes b =
     b\<lparr>vm_Template := Some ((template_of b)\<lparr>tpl_Volumes := tpl_Volumes (template_of b) @ volumes\<rparr>)\<rparr>"

definition Ready :: "bool \<Rightarrow> VirtualMachine \<Rightarrow> VirtualMachine" where
  "Ready ready b = b\<lparr>vm_Ready := ready\<rparr>"

definition NewVirtualMachineInstanceBuilder :: "string \<Rightarrow> string \<Rightarrow> VirtualMachineInstance" where
  "NewVirtualMachineInstanceBuilder namespace name =
     \<lparr>vmi_Namespace = namespace, vmi_Name = name\<rparr>"

definition VMI_Build :: "VirtualMachineInstance \<Rightarrow> VirtualMachineInstance" where
  "VMI_Build b = b"

section \<open>What the builders and the helpers agree on\<close>

text \<open>The DataVolume the agent creates is the one the builder chain describes.\<close>

lemma ConstructDataVolume_builder:
  "ConstructDataVolume ns nm url n = DV_Build (WithStorage n (WithHTTPSource url (NewDataVolumeBuilder ns nm)))"
  by (simp add: ConstructDataVolume_def DV_Build_def WithStorage_def WithHTTPSource_def NewDataVolumeBuilder_def)

text \<open>The disks of a machine under construction, in the order they were added.\<close>

definition built_disks :: "VirtualMachine \<Rightarrow> Disk list" where
  "built_disks b = (case tpl_Disks (template_of b) of None \<Rightarrow> [] | Some ds \<Rightarrow> ds)"

lemma built_disks_add [simp]: "built_disks (add_disk d b) = built_disks b @ [d]"
  by (simp add: built_disks_def add_disk_def template_of_def append_slice_def split: option.splits)

lemma built_disks_other [simp]:
  "built_disks (WithInterface n o' b) = built_disks b"
  "built_disks (WithVolumes vs b) = built_disks b"
  "built_disks (Running r b) = built_disks b"
  "built_disks (RunStrategy rs b) = built_disks b"
  "built_disks (Ready r b) = built_disks b"
  "built_disks (NewVirtualMachineBuilder ns n) = []"
  by (simp_all add: built_disks_def WithInterface_def WithVolumes_def Running_def RunStrategy_def
      Ready_def NewVirtualMachineBuilder_def template_of_def empty_template_def)

lemma GetCdromDisk_append:
  "GetCdromDisk (xs @ ys) = (case GetCdromDisk xs of Ok d \<Rightarrow> Ok d | _ \<Rightarrow> GetCdromDisk ys)"
  by (induction xs) (auto split: outcome.splits)

lemma GetCdromDisk_built:
  "GetCdromDisk (built_disks (WithCDRomDisk n bo b)) =
     (case GetCdromDisk (built_disks b) of
        Ok d \<Rightarrow> Ok d
      | _ \<Rightarrow> Ok \<lparr>disk_Name = n, disk_Disk = None, disk_CDRom = Some (CDRomTarget ''''), disk_BootOrder = bo\<rparr>)"
  by (simp add: WithCDRomDisk_def GetCdromDisk_append split: outcome.splits)

lemma GetCdromDisk_built_disk:
  "GetCdromDisk (built_disks (WithDisk n bo b)) = GetCdromDisk (built_disks b)"
  using GetCdromDisk_cases [of "built_disks b"]
  by (auto simp: WithDisk_def GetCdromDisk_append)

end
