(* ===== verification/VmCluster.thy ===== *)
theory VmCluster
  imports VmResourceManager Builder
begin

text \<open>
  What the resource manager does to the cluster.  The cluster is reached only through the client
  \<open>vc\<close>; \<open>vm_api\<close> states the documented effect of its calls on an observable \<open>view\<close> (an answered
  call has the effect of its verb, a refused one has none), and \<open>vm_api_live\<close> that no call
  is refused without a reason.  No other actor is assumed to be idle: the laws speak of one
  call at a time.
\<close>

section \<open>The view of the cluster and the client's documented behaviour\<close>

record vm_cluster =
  cl_vms :: "(string \<times> string) \<rightharpoonup> VirtualMachine"
  cl_vmis :: "(string \<times> string) set"
  cl_dvs :: "(string \<times> string) \<rightharpoonup> DataVolume"

definition vm_api :: "'w vm_client \<Rightarrow> ('w \<Rightarrow> vm_cluster) \<Rightarrow> bool" where
  "vm_api vc view \<longleftrightarrow>
     (\<forall>ns n. api_call view (vc_GetVM vc ns n) (\<lambda>c vm. cl_vms c (ns, n) = Some vm \<and> vm_Namespace vm = ns \<and> vm_Name vm = n) (\<lambda>c. c))
   \<and> (\<forall>ns vm. api_call view (vc_UpdateVM vc ns vm) (\<lambda>c _. cl_vms c (ns, vm_Name vm) \<noteq> None)
        (\<lambda>c. c\<lparr>cl_vms := (cl_vms c)((ns, vm_Name vm) \<mapsto> vm)\<rparr>))
   \<and> (\<forall>ns n. api_call view (vc_DeleteVMI vc ns n) (\<lambda>c _. (ns, n) \<in> cl_vmis c)
        (\<lambda>c. c\<lparr>cl_vmis := cl_vmis c - {(ns, n)}\<rparr>))
   \<and> (\<forall>ns dv. api_call view (vc_CreateDV vc ns dv) (\<lambda>c _. cl_dvs c (ns, dv_Name dv) = None)
        (\<lambda>c. c\<lparr>cl_dvs := (cl_dvs c)((ns, dv_Name dv) \<mapsto> dv)\<rparr>))
   \<and> (\<forall>ns n. api_call view (vc_DeleteDV vc ns n) (\<lambda>c _. cl_dvs c (ns, n) \<noteq> None)
        (\<lambda>c. c\<lparr>cl_dvs := (cl_dvs c)((ns, n) := None)\<rparr>))
   \<and> (\<forall>u. api_call view (vc_Head vc u) (\<lambda>_ _. True) (\<lambda>c. c))"

text \<open>The laws of the calls, each on its own.\<close>

lemma vm_api_get:
  "vm_api vc view \<Longrightarrow> api_call view (vc_GetVM vc ns n) (\<lambda>c vm. cl_vms c (ns, n) = Some vm \<and> vm_Namespace vm = ns \<and> vm_Name vm = n) (\<lambda>c. c)"
  by (simp add: vm_api_def)

lemma vm_api_update:
  "vm_api vc view \<Longrightarrow> api_call view (vc_UpdateVM vc ns vm) (\<lambda>c _. cl_vms c (ns, vm_Name vm) \<noteq> None)
     (\<lambda>c. c\<lparr>cl_vms := (cl_vms c)((ns, vm_Name vm) \<mapsto> vm)\<rparr>)"
  by (simp add: vm_api_def)

lemma vm_api_delete_vmi:
  "vm_api vc view \<Longrightarrow> api_call view (vc_DeleteVMI vc ns n) (\<lambda>c _. (ns, n) \<in> cl_vmis c)
     (\<lambda>c. c\<lparr>cl_vmis := cl_vmis c - {(ns, n)}\<rparr>)"
  by (simp add: vm_api_def)

lemma vm_api_create_dv:
  "vm_api vc view \<Longrightarrow> api_call view (vc_CreateDV vc ns dv) (\<lambda>c _. cl_dvs c (ns, dv_Name dv) = None)
     (\<lambda>c. c\<lparr>cl_dvs := (cl_dvs c)((ns, dv_Name dv) \<mapsto> dv)\<rparr>)"
  by (simp add: vm_api_def)

lemma vm_api_delete_dv:
  "vm_api vc view \<Longrightarrow> api_call view (vc_DeleteDV vc ns n) (\<lambda>c _. cl_dvs c (ns, n) \<noteq> None)
     (\<lambda>c. c\<lparr>cl_dvs := (cl_dvs c)((ns, n) := None)\<rparr>)"
  by (simp add: vm_api_def)

lemma vm_api_head: "vm_api vc view \<Longrightarrow> api_call view (vc_Head vc u) (\<lambda>_ _. True) (\<lambda>c. c)"
  by (simp add: vm_api_def)

definition vm_api_live :: "'w vm_client \<Rightarrow> ('w \<Rightarrow> vm_cluster) \<Rightarrow> bool" where
  "vm_api_live vc view \<longleftrightarrow>
     (\<forall>ns n. answers view (vc_GetVM vc ns n) (\<lambda>c. cl_vms c (ns, n) \<noteq> None))
   \<and> (\<forall>ns vm. answers view (vc_UpdateVM vc ns vm) (\<lambda>c. cl_vms c (ns, vm_Name vm) \<noteq> None \<and> vm_Namespace vm = ns))
   \<and> (\<forall>ns n. answers view (vc_DeleteVMI vc ns n) (\<lambda>c. (ns, n) \<in> cl_vmis c))
   \<and> (\<forall>ns dv. answers view (vc_CreateDV vc ns dv) (\<lambda>c. cl_dvs c (ns, dv_Name dv) = None))
   \<and> (\<forall>ns n. answers view (vc_DeleteDV vc ns n) (\<lambda>c. cl_dvs c (ns, n) \<noteq> None))"

section \<open>The choice of a boot device\<close>

text \<open>
  A machine boots from the device whose boot order is 1.  The choice touches boot orders only
  (clearing them again gives the cleared template of before) and afterwards exactly the first
  device of the chosen kind carries an order.
\<close>

definition intf_orders :: "TemplateSpec \<Rightarrow> nat option list" where
  "intf_orders t = map intf_BootOrder (slice (tpl_Interfaces t))"

definition disk_orders :: "TemplateSpec \<Rightarrow> nat option list" where
  "disk_orders t = map disk_BootOrder (slice (tpl_Disks t))"

lemma clear_clear [simp]: "clearBootOrders (clearBootOrders t) = clearBootOrders t"
  by (simp add: clearBootOrders_def option.map_comp comp_def)

lemma cleared_orders:
  "intf_orders (clearBootOrders t) = replicate (length (slice (tpl_Interfaces t))) None"
  "disk_orders (clearBootOrders t) = replicate (length (slice (tpl_Disks t))) None"
  by (auto simp: intf_orders_def disk_orders_def clearBootOrders_def slice_def map_replicate_const comp_def
      split: option.splits)

lemma updateFirst_Ok: "updateFirst f xs = Ok ys \<longleftrightarrow> (\<exists>z zs. xs = z # zs \<and> ys = f z # zs)"
  by (cases xs) auto

lemma updateFirst_not_Err: "updateFirst f xs \<noteq> Err e"
  by (cases xs) auto

lemma choose_clear:
  "chooseBootDevice d (clearBootOrders t) = Ok t' \<Longrightarrow> clearBootOrders t' = clearBootOrders t"
  by (cases t) (auto simp: chooseBootDevice_def clearBootOrders_def updateFirst_Ok option.map_comp comp_def
      split: if_splits option.splits outcome.splits)

lemma choose_orders:
  assumes "chooseBootDevice d (clearBootOrders t) = Ok t'"
  shows "intf_orders t' = (if d = BootDevicePxe then (replicate (length (slice (tpl_Interfaces t))) None)[0 := Some 1]
           else replicate (length (slice (tpl_Interfaces t))) None)"
    and "disk_orders t' = (if d = BootDeviceHdd then (replicate (length (slice (tpl_Disks t))) None)[0 := Some 1]
           else replicate (length (slice (tpl_Disks t))) None)"
  using assms
  by (auto simp: chooseBootDevice_def clearBootOrders_def updateFirst_Ok intf_orders_def disk_orders_def
      slice_def map_replicate_const comp_def split: if_splits option.splits outcome.splits)

text \<open>When the choice succeeds, fails and panics: an absent list is an error, an empty one a panic.\<close>

definition boot_list :: "BootDevice \<Rightarrow> TemplateSpec \<Rightarrow> nat option" where
  "boot_list d t =
     (if d = BootDevicePxe then map_option length (tpl_Interfaces t)
      else if d = BootDeviceHdd then map_option length (tpl_Disks t) else Some 1)"

lemma choose_Ok_iff:
  "(\<exists>t'. chooseBootDevice d (clearBootOrders t) = Ok t') \<longleftrightarrow> (\<exists>n. boot_list d t = Some (Suc n))"
  by (auto simp: chooseBootDevice_def clearBootOrders_def boot_list_def length_Suc_conv updateFirst_Ok
      updateFirst_not_Err neq_Nil_conv split: option.splits outcome.splits)

lemma choose_Panic_iff:
  "(\<exists>p. chooseBootDevice d (clearBootOrders t) = Panic p) \<longleftrightarrow> boot_list d t = Some 0"
  by (auto simp: chooseBootDevice_def clearBootOrders_def boot_list_def updateFirst_not_Err
      split: option.splits outcome.splits elim: updateFirst.elims)

section \<open>The operations on the cluster\<close>

lemmas vm_api_Ok = api_call_Ok [OF vm_api_get] api_call_Ok [OF vm_api_update] api_call_Ok [OF vm_api_delete_vmi]
  api_call_Ok [OF vm_api_create_dv] api_call_Ok [OF vm_api_delete_dv] api_call_Ok [OF vm_api_head]

lemmas vm_api_Err = api_call_Err [OF vm_api_get] api_call_Err [OF vm_api_update] api_call_Err [OF vm_api_delete_vmi]
  api_call_Err [OF vm_api_create_dv] api_call_Err [OF vm_api_delete_dv] api_call_Err [OF vm_api_head]

lemmas vm_api_no_panic = api_call_Panic [OF vm_api_get] api_call_Panic [OF vm_api_update]
  api_call_Panic [OF vm_api_delete_vmi] api_call_Panic [OF vm_api_create_dv]
  api_call_Panic [OF vm_api_delete_dv] api_call_Panic [OF vm_api_head]

text \<open>The cluster as the resource manager's state sees it, and the one machine it works on.\<close>

abbreviation cluster :: "('w \<Rightarrow> vm_cluster) \<Rightarrow> 'w vmrm \<Rightarrow> vm_cluster" where
  "cluster view s \<equiv> view (m_world s)"

definition the_vm :: "('w \<Rightarrow> vm_cluster) \<Rightarrow> 'w vmrm \<Rightarrow> VirtualMachine option" where
  "the_vm view s = cl_vms (view (m_world s)) (m_namespace s, m_name s)"

text \<open>The cluster with the machine replaced, and nothing else.\<close>

definition put_vm :: "'w vmrm \<Rightarrow> VirtualMachine \<Rightarrow> vm_cluster \<Rightarrow> vm_cluster" where
  "put_vm s vm c = c\<lparr>cl_vms := (cl_vms c)((m_namespace s, m_name s) \<mapsto> vm)\<rparr>"

lemma cluster_onWorld: "cluster view (s\<lparr>m_world := w\<rparr>) = view w"
  by simp

text \<open>
  Four of the operations read the machine, compute a new one and write it back.  Once and for
  all: what the write leaves behind, and when the whole succeeds.
\<close>

definition editVM :: "'w vm_client \<Rightarrow> (VirtualMachine \<Rightarrow> VirtualMachine outcome) \<Rightarrow> ('w vmrm, unit) op" where
  "editVM vc f = andThen (getVM vc) (\<lambda>vm. andThen (pureR (f vm)) (\<lambda>vm'. andThen (updateVM vc vm') (\<lambda>_. ret ())))"

lemma getVM_api:
  assumes "vm_api vc view" and "getVM vc s = (r, s')"
  shows "cluster view s' = cluster view s" and "machine_id s' = machine_id s"
    and "r \<noteq> Panic p"
    and "r = Ok vm \<Longrightarrow> the_vm view s = Some vm \<and> vm_Namespace vm = m_namespace s \<and> vm_Name vm = m_name s"
  using assms
  by (cases "vc_GetVM vc (m_namespace s) (m_name s) (m_world s)"; cases r;
      force simp: getVM_def onWorld_def onPart_def machine_id_def the_vm_def
        dest: vm_api_Ok vm_api_Err vm_api_no_panic)+

lemma updateVM_api:
  assumes "vm_api vc view" and "updateVM vc vm s = (r, s')" and "vm_Name vm = m_name s"
  shows "machine_id s' = machine_id s" and "r \<noteq> Panic p"
    and "r = Err e \<Longrightarrow> cluster view s' = cluster view s"
    and "r = Ok u \<Longrightarrow> cluster view s' = put_vm s vm (cluster view s) \<and> the_vm view s \<noteq> None"
  using assms
  by (cases "vc_UpdateVM vc (m_namespace s) vm (m_world s)"; cases r;
      force simp: updateVM_def onWorld_def onPart_def machine_id_def put_vm_def the_vm_def
        dest: vm_api_Ok vm_api_Err vm_api_no_panic)+

text \<open>\<open>f\<close> keeps the namespace and the name, so the write hits the object read.\<close>

definition keeps_name :: "(VirtualMachine \<Rightarrow> VirtualMachine outcome) \<Rightarrow> bool" where
  "keeps_name f \<longleftrightarrow> (\<forall>vm vm'. f vm = Ok vm' \<longrightarrow> vm_Namespace vm' = vm_Namespace vm \<and> vm_Name vm' = vm_Name vm)"

lemma editVM_cases:
  assumes api: "vm_api vc view" and f: "keeps_name f" and run: "editVM vc f s = (r, s')"
  shows "machine_id s' = machine_id s"
    and "r = Ok () \<Longrightarrow> \<exists>vm vm'. the_vm view s = Some vm \<and> f vm = Ok vm' \<and> cluster view s' = put_vm s vm' (cluster view s)"
    and "r \<noteq> Ok () \<Longrightarrow> cluster view s' = cluster view s"
    and "r = Panic p \<Longrightarrow> \<exists>vm. the_vm view s = Some vm \<and> f vm = Panic p"
proof -
  obtain rg sg where g: "getVM vc s = (rg, sg)" by force
  note G = getVM_api [OF api g]
  have "machine_id s' = machine_id s
    \<and> (r = Ok () \<longrightarrow> (\<exists>vm vm'. the_vm view s = Some vm \<and> f vm = Ok vm' \<and> cluster view s' = put_vm s vm' (cluster view s)))
    \<and> (r \<noteq> Ok () \<longrightarrow> cluster view s' = cluster view s)
    \<and> (\<forall>p. r = Panic p \<longrightarrow> (\<exists>vm. the_vm view s = Some vm \<and> f vm = Panic p))"
  proof (cases rg)
    case (Ok vm)
    note vm = G(4) [OF Ok]
    show ?thesis
    proof (cases "f vm")
      case fvm: (Ok vm')
      obtain ru su where u: "updateVM vc vm' sg = (ru, su)" by force
      have "m_name sg = m_name s" "m_namespace sg = m_namespace s" using G(2) by (simp_all add: machine_id_def)
      moreover have "vm_Name vm' = vm_Name vm" using f fvm by (simp add: keeps_name_def)
      ultimately have "vm_Name vm' = m_name sg" using vm by simp
      note U = updateVM_api [OF api u this]
      from run g Ok fvm u have "s' = su" "ru = Ok vm'' \<Longrightarrow> r = Ok ()" "ru = Err e \<Longrightarrow> r = Err e" for vm'' e
        by (auto simp: editVM_def andThen_def attempt_def split: outcome.splits)
      with U G(1,2) vm fvm show ?thesis
        by (cases ru) (simp_all add: put_vm_def \<open>m_name sg = m_name s\<close> \<open>m_namespace sg = m_namespace s\<close>, blast)
    qed (use run g Ok vm G(1,2) in \<open>auto simp: editVM_def andThen_def attempt_def\<close>)
  qed (use run g G in \<open>auto simp: editVM_def andThen_def attempt_def\<close>)
  then show "machine_id s' = machine_id s"
    and "r = Ok () \<Longrightarrow> \<exists>vm vm'. the_vm view s = Some vm \<and> f vm = Ok vm' \<and> cluster view s' = put_vm s vm' (cluster view s)"
    and "r \<noteq> Ok () \<Longrightarrow> cluster view s' = cluster view s"
    and "r = Panic p \<Longrightarrow> \<exists>vm. the_vm view s = Some vm \<and> f vm = Panic p"
    by blast+
qed

lemma live_get:
  assumes "vm_api_live vc view" and "vm_api vc view" and "the_vm view s = Some vm"
  shows "\<exists>s'. getVM vc s = (Ok vm, s')"
proof -
  from assms(1,3) obtain v w' where "vc_GetVM vc (m_namespace s) (m_name s) (m_world s) = (Ok v, w')"
    unfolding vm_api_live_def answers_def the_vm_def by (metis option.distinct(1))
  moreover from vm_api_Ok(1) [OF assms(2) this] assms(3) have "v = vm" by (simp add: the_vm_def)
  ultimately show ?thesis by (simp add: getVM_def onWorld_def onPart_def)
qed

lemma live_update:
  assumes "vm_api_live vc view" and "the_vm view s \<noteq> None" and "vm_Namespace vm = m_namespace s" "vm_Name vm = m_name s"
  shows "\<exists>v s'. updateVM vc vm s = (Ok v, s')"
proof -
  from assms obtain v w' where "vc_UpdateVM vc (m_namespace s) vm (m_world s) = (Ok v, w')"
    unfolding vm_api_live_def answers_def the_vm_def by metis
  then show ?thesis by (simp add: updateVM_def onWorld_def onPart_def)
qed

lemma the_vm_cong: "cluster view t = cluster view s \<Longrightarrow> machine_id t = machine_id s \<Longrightarrow> the_vm view t = the_vm view s"
  by (simp add: the_vm_def machine_id_def)

lemma editVM_live:
  assumes live: "vm_api_live vc view" and api: "vm_api vc view" and f: "keeps_name f"
    and vm: "the_vm view s = Some vm" "f vm = Ok vm'"
  shows "\<exists>s'. editVM vc f s = (Ok (), s')"
proof -
  obtain t where g: "getVM vc s = (Ok vm, t)" using live_get [OF live api vm(1)] by blast
  note G = getVM_api [OF api g]
  have "vm_Namespace vm' = m_namespace t" "vm_Name vm' = m_name t" and "the_vm view t \<noteq> None"
    using f vm(2) G(2) G(4) [OF refl] the_vm_cong [OF G(1,2)]
    by (simp_all add: keeps_name_def machine_id_def)
  then obtain v u where "updateVM vc vm' t = (Ok v, u)" using live_update [OF live] by blast
  with g vm(2) show ?thesis by (simp add: editVM_def andThen_def attempt_def)
qed

section \<open>Power and boot device\<close>

definition power_edit :: "bool \<Rightarrow> VirtualMachine \<Rightarrow> VirtualMachine" where
  "power_edit on vm =
     (if vm_RunStrategy vm = None then vm\<lparr>vm_Running := Some on\<rparr>
      else vm\<lparr>vm_RunStrategy := Some (if on then RunStrategyRerunOnFailure else RunStrategyHalted)\<rparr>)"

text \<open>
  The power state a machine is asked to be in, and KubeVirt's rule that \<open>running\<close> and
  \<open>runStrategy\<close> exclude each other.
\<close>

definition wanted :: "VirtualMachine \<Rightarrow> bool option" where
  "wanted vm =
     (case vm_RunStrategy vm of
        None \<Rightarrow> vm_Running vm
      | Some rs \<Rightarrow> if rs = RunStrategyHalted then Some False
                   else if rs = RunStrategyRerunOnFailure then Some True else None)"

definition run_exclusive :: "VirtualMachine \<Rightarrow> bool" where
  "run_exclusive vm \<longleftrightarrow> vm_Running vm = None \<or> vm_RunStrategy vm = None"

lemma wanted_power [simp]: "wanted (power_edit on vm) = Some on"
  by (simp add: wanted_def power_edit_def split: option.splits)

lemma run_exclusive_power [simp]: "run_exclusive (power_edit on vm) \<longleftrightarrow> run_exclusive vm"
  by (auto simp: run_exclusive_def power_edit_def)

lemma power_edit_power [simp]: "power_edit on (power_edit off vm) = power_edit on vm"
  by (auto simp: power_edit_def)

lemma power_edit_other [simp]:
  "vm_Template (power_edit on vm) = vm_Template vm" "vm_Name (power_edit on vm) = vm_Name vm"
  "vm_Namespace (power_edit on vm) = vm_Namespace vm" "vm_Ready (power_edit on vm) = vm_Ready vm"
  by (simp_all add: power_edit_def)

lemma keeps_name_power: "keeps_name (\<lambda>vm. Ok (power_edit on vm))"
  by (simp add: keeps_name_def)

lemma power_is_edit:
  "VM_PowerOn vc = editVM vc (\<lambda>vm. Ok (power_edit True vm))"
  "VM_PowerOff vc = editVM vc (\<lambda>vm. Ok (power_edit False vm))"
  by (simp_all add: VM_PowerOn_def VM_PowerOff_def editVM_def power_edit_def cong: if_cong)

definition boot_edit :: "BootDevice \<Rightarrow> VirtualMachine \<Rightarrow> VirtualMachine outcome" where
  "boot_edit d vm =
     (case vm_Template vm of
        None \<Rightarrow> Err (PlainError ''no template found'')
      | Some tpl \<Rightarrow> (case chooseBootDevice d (clearBootOrders tpl) of
            Ok tpl' \<Rightarrow> Ok (vm\<lparr>vm_Template := Some tpl'\<rparr>) | Err e \<Rightarrow> Err e | Panic p \<Rightarrow> Panic p))"

lemma keeps_name_boot: "keeps_name (boot_edit d)"
  by (auto simp: keeps_name_def boot_edit_def split: option.splits outcome.splits)

lemma boot_is_edit:
  "VM_SetBootDevice vc d = andThen (editVM vc (boot_edit d)) (\<lambda>_.
     modifyS (\<lambda>s. s\<lparr>m_computerSystem := map_option (SetBootOverride (bootSourceMap d)) (m_computerSystem s)\<rparr>))"
  unfolding VM_SetBootDevice_def editVM_def andThen_assoc
  by (intro arg_cong [where f = "andThen (getVM vc)"] ext)
    (auto simp: boot_edit_def andThen_def attempt_def fun_eq_iff split: option.splits outcome.splits prod.splits)

text \<open>Choosing twice is choosing once: the last choice decides.\<close>

lemma boot_edit_last: "boot_edit d vm = Ok vm' \<Longrightarrow> boot_edit d' vm' = boot_edit d' vm"
proof -
  assume "boot_edit d vm = Ok vm'"
  then obtain t t' where "vm_Template vm = Some t" "chooseBootDevice d (clearBootOrders t) = Ok t'"
    "vm' = vm\<lparr>vm_Template := Some t'\<rparr>"
    by (auto simp: boot_edit_def split: option.splits outcome.splits)
  with choose_clear [of d t t'] show ?thesis
    by (cases vm) (simp add: boot_edit_def split: outcome.split)
qed

lemma boot_run:
  assumes "VM_SetBootDevice vc d s = (r, s')"
  obtains t where "editVM vc (boot_edit d) s = (r, t)" "m_world s' = m_world t" "machine_id s' = machine_id t"
  using assms
  by (cases "editVM vc (boot_edit d) s"; cases "fst (editVM vc (boot_edit d) s)")
    (auto simp: boot_is_edit andThen_def attempt_def machine_id_def)

section \<open>A cluster in memory\<close>

text \<open>
  A cluster that answers every call at once: the world is the cluster itself, and an image
  server offers 42 bytes under every URL.  It shows that the laws can be met, and the properties
  are tried on it.
\<close>

definition mem_view :: "vm_cluster \<Rightarrow> vm_cluster" where
  "mem_view c = c\<lparr>cl_vms := (\<lambda>(ns, n). map_option (\<lambda>vm. vm\<lparr>vm_Namespace := ns, vm_Name := n\<rparr>) (cl_vms c (ns, n)))\<rparr>"

definition not_found :: go_error where
  "not_found = StatusError ReasonNotFound ''not found''"

definition mem_client :: "vm_cluster vm_client" where
  "mem_client =
     \<lparr>vc_GetVM = (\<lambda>ns n c. (case cl_vms (mem_view c) (ns, n) of Some vm \<Rightarrow> Ok vm | None \<Rightarrow> Err not_found, c)),
      vc_UpdateVM = (\<lambda>ns vm c.
        if cl_vms c (ns, vm_Name vm) = None then (Err not_found, c)
        else if vm_Namespace vm \<noteq> ns then (Err (StatusError ReasonOther ''namespace''), c)
        else (Ok vm, c\<lparr>cl_vms := (cl_vms c)((ns, vm_Name vm) \<mapsto> vm)\<rparr>)),
      vc_DeleteVMI = (\<lambda>ns n c.
        if (ns, n) \<in> cl_vmis c then (Ok (), c\<lparr>cl_vmis := cl_vmis c - {(ns, n)}\<rparr>) else (Err not_found, c)),
      vc_CreateDV = (\<lambda>ns dv c.
        if cl_dvs c (ns, dv_Name dv) = None then (Ok dv, c\<lparr>cl_dvs := (cl_dvs c)((ns, dv_Name dv) \<mapsto> dv)\<rparr>)
        else (Err (StatusError ReasonAlreadyExists ''exists''), c)),
      vc_DeleteDV = (\<lambda>ns n c.
        if cl_dvs c (ns, n) \<noteq> None then (Ok (), c\<lparr>cl_dvs := (cl_dvs c)((ns, n) := None)\<rparr>) else (Err not_found, c)),
      vc_Head = (\<lambda>u c. (Ok \<lparr>head_StatusCode = 200, head_Status = ''200 OK'', head_ContentLength = 42\<rparr>, c)),
      vc_url_rest = (\<lambda>_. None),
      vc_url_string = (\<lambda>u. u)\<rparr>"

lemma mem_api [simp]: "vm_api mem_client mem_view"
  by (auto simp: vm_api_def api_call_def mem_client_def mem_view_def fun_eq_iff split: option.splits)

lemma mem_live [simp]: "vm_api_live mem_client mem_view"
  by (auto simp: vm_api_live_def answers_def mem_client_def mem_view_def split: option.splits)

text \<open>A client that refuses one of the calls, to try the failure paths.\<close>

definition no_update :: "vm_cluster vm_client" where
  "no_update = mem_client\<lparr>vc_UpdateVM := (\<lambda>ns vm c. (Err (StatusError ReasonConflict ''conflict''), c))\<rparr>"

definition no_delete_dv :: "vm_cluster vm_client" where
  "no_delete_dv = mem_client\<lparr>vc_DeleteDV := (\<lambda>ns n c. (Err (StatusError ReasonOther ''timeout''), c))\<rparr>"

lemma no_update_api [simp]: "vm_api no_update mem_view"
  using mem_api by (simp add: vm_api_def no_update_def api_call_def)

lemma no_delete_dv_api [simp]: "vm_api no_delete_dv mem_view"
  using mem_api by (simp add: vm_api_def no_delete_dv_def api_call_def)

text \<open>A machine with one disk, one CD-ROM slot and one network interface.\<close>

definition demo_vm :: VirtualMachine where
  "demo_vm = Ready True (Running True (WithInterface ''net'' None (WithCDRomDisk ''cd'' None
     (WithDisk ''root'' (Some 1) (NewVirtualMachineBuilder ''ns'' ''vm'')))))"

definition demo_cluster :: vm_cluster where
  "demo_cluster = \<lparr>cl_vms = [(''ns'', ''vm'') \<mapsto> demo_vm], cl_vmis = {(''ns'', ''vm'')}, cl_dvs = Map.empty\<rparr>"

definition demo :: "vm_cluster vmrm" where
  "demo = snd (Initialize mem_client ''now'' ''ns'' ''vm'' (NewVirtualMachineResourceManager demo_cluster))"

lemma demo_runs:
  "VM_PowerOn mem_client demo = (Ok (), snd (VM_PowerOn mem_client demo))"
  "VM_PowerOff mem_client demo = (Ok (), snd (VM_PowerOff mem_client demo))"
  "VM_PowerCycle mem_client demo = (Ok (), snd (VM_PowerCycle mem_client demo))"
  "VM_SetBootDevice mem_client ''Pxe'' demo = (Ok (), snd (VM_SetBootDevice mem_client ''Pxe'' demo))"
  by (rule run_fst, code_simp)+

section \<open>Properties of power and boot device\<close>

text \<open>A successful power operation asks the cluster for exactly the requested state: the machine's
  specification then wants power on (off), the template is untouched, \<open>running\<close> and
  \<open>runStrategy\<close> stay mutually exclusive, and nothing else in the cluster changes.\<close>

lemma power_sets_demand:
  assumes "vm_api vc view" and "(if on then VM_PowerOn vc else VM_PowerOff vc) s = (Ok (), s')"
  shows "\<exists>vm vm'. the_vm view s = Some vm \<and> cluster view s' = put_vm s vm' (cluster view s)
    \<and> wanted vm' = Some on \<and> vm_Template vm' = vm_Template vm \<and> (run_exclusive vm' \<longleftrightarrow> run_exclusive vm)"
proof -
  have run: "editVM vc (\<lambda>vm. Ok (power_edit on vm)) s = (Ok (), s')"
    using assms(2) by (cases on) (simp_all add: power_is_edit)
  from editVM_cases(2) [OF assms(1) keeps_name_power run refl] show ?thesis
    by (metis outcome.inject(1) wanted_power run_exclusive_power power_edit_other(1))
qed

text \<open>On an API server that answers, a power request for an existing machine succeeds; and a
  power operation never panics, keeps the invariant of the cached documents and, when it fails,
  leaves the cluster as it was.\<close>

lemma power_operations_total:
  assumes "vm_api vc view"
  shows "\<exists>r s'. (if on then VM_PowerOn vc else VM_PowerOff vc) s = (r, s')
    \<and> (\<forall>p. r \<noteq> Panic p) \<and> (rm_inv s \<longrightarrow> rm_inv s') \<and> (r \<noteq> Ok () \<longrightarrow> cluster view s' = cluster view s)
    \<and> (vm_api_live vc view \<longrightarrow> the_vm view s \<noteq> None \<longrightarrow> r = Ok ())"
proof -
  let ?f = "\<lambda>vm. Ok (power_edit on vm)"
  have eq: "(if on then VM_PowerOn vc else VM_PowerOff vc) = editVM vc ?f"
    by (simp add: power_is_edit)
  obtain r s' where run: "editVM vc ?f s = (r, s')" by force
  note E = editVM_cases [OF assms keeps_name_power run]
  have "keeps rm_inv (editVM vc ?f)"
    using keeps_rm_inv_power(2,3) [of vc] unfolding power_is_edit by (cases on) simp_all
  then have "rm_inv s \<Longrightarrow> rm_inv s'" using run by (blast intro: keepsD)
  moreover have "vm_api_live vc view \<Longrightarrow> the_vm view s \<noteq> None \<Longrightarrow> r = Ok ()"
    using editVM_live [OF _ assms keeps_name_power, of s _ on] run by auto
  moreover have "r \<noteq> Panic p" for p
    using E(4) by auto
  ultimately show ?thesis using E(3) run eq by auto
qed

text \<open>A power cycle deletes the running instance and leaves every machine's specification, the
  data volumes and all other instances alone, so that the machine is started again.\<close>

lemma power_cycle_deletes_instance:
  assumes "vm_api vc view" and "VM_PowerCycle vc s = (r, s')"
  shows "cluster view s' = (if r = Ok () then (cluster view s)\<lparr>cl_vmis := cl_vmis (cluster view s) - {machine_id s}\<rparr>
           else cluster view s) \<and> (r = Ok () \<longrightarrow> machine_id s \<in> cl_vmis (cluster view s))"
proof -
  obtain r' w where d: "vc_DeleteVMI vc (m_namespace s) (m_name s) (m_world s) = (r', w)" by force
  with assms(2) have "r = r'" "m_world s' = w"
    by (auto simp: VM_PowerCycle_def onWorld_def onPart_def)
  then show ?thesis
    using d vm_api_Ok(3) [OF assms(1)] vm_api_Err(3) [OF assms(1)] vm_api_no_panic(3) [OF assms(1)]
    by (cases r') (force simp: machine_id_def)+
qed

text \<open>The effect of a successful choice, for any device string.\<close>

definition boot_chosen :: "('w \<Rightarrow> vm_cluster) \<Rightarrow> BootDevice \<Rightarrow> 'w vmrm \<Rightarrow> 'w vmrm \<Rightarrow> bool" where
  "boot_chosen view d s s' \<longleftrightarrow> (\<exists>vm t t'. the_vm view s = Some vm \<and> vm_Template vm = Some t
    \<and> cluster view s' = put_vm s (vm\<lparr>vm_Template := Some t'\<rparr>) (cluster view s)
    \<and> clearBootOrders t' = clearBootOrders t
    \<and> intf_orders t' = (replicate (length (intf_orders t)) None)[0 := if d = BootDevicePxe then Some 1 else None]
    \<and> disk_orders t' = (replicate (length (disk_orders t)) None)[0 := if d = BootDeviceHdd then Some 1 else None]
    \<and> m_computerSystem s' = map_option (SetBootOverride (bootSourceMap d)) (m_computerSystem s))"

lemma SetBootDevice_chosen:
  assumes "vm_api vc view" and "VM_SetBootDevice vc d s = (Ok (), s')"
  shows "boot_chosen view d s s'"
proof -
  obtain u where e: "editVM vc (boot_edit d) s = (Ok (), u)" "m_world s' = m_world u"
    using boot_run [OF assms(2)] by blast
  from editVM_cases(2) [OF assms(1) keeps_name_boot e(1) refl]
  obtain vm vm' where vm: "the_vm view s = Some vm" "boot_edit d vm = Ok vm'"
    "cluster view u = put_vm s vm' (cluster view s)" by blast
  then obtain t t' where t: "vm_Template vm = Some t" "chooseBootDevice d (clearBootOrders t) = Ok t'"
    "vm' = vm\<lparr>vm_Template := Some t'\<rparr>"
    by (auto simp: boot_edit_def split: option.splits outcome.splits)
  have nil: "(replicate n None)[0 := None] = replicate n (None :: nat option)" for n
    by (cases n) simp_all
  from vm t e(2) choose_clear [OF t(2)] choose_orders [OF t(2)] VM_SetBootDevice_system [OF assms(2)]
  show ?thesis
    by (auto simp: boot_chosen_def intf_orders_def disk_orders_def nil)
qed

text \<open>How it ends: chosen, or refused with cluster and document as before; without a machine it is refused.\<close>

lemma SetBootDevice_ends:
  assumes "vm_api vc view" and "VM_SetBootDevice vc d s = (r, s')"
  shows "(r = Ok () \<longrightarrow> boot_chosen view d s s')
    \<and> (r \<noteq> Ok () \<longrightarrow> cluster view s' = cluster view s \<and> m_computerSystem s' = m_computerSystem s)
    \<and> (the_vm view s = None \<longrightarrow> (\<exists>e. r = Err e))"
proof -
  obtain u where e: "editVM vc (boot_edit d) s = (r, u)" "m_world s' = m_world u"
    using boot_run [OF assms(2)] by blast
  note E = editVM_cases [OF assms(1) keeps_name_boot e(1)]
  have "\<exists>e. r = Err e" if "the_vm view s = None"
    using E(2,4) that by (cases r) auto
  then show ?thesis
    using E(3) e(2) VM_SetBootDevice_system [OF assms(2)] SetBootDevice_chosen [OF assms(1)] assms(2) by auto
qed

text \<open>C13. After a successful choice of a boot device exactly the first network interface (PXE) or the
  first disk (hard disk) carries boot order 1 and no other device has one; nothing but boot
  orders changes in the machine, nothing else in the cluster, and the served document names the
  device as the permanent override.\<close>

theorem boot_device_chosen:
  assumes "vm_api vc view" and "d \<in> {BootDevicePxe, BootDeviceHdd}"
    and "VM_SetBootDevice vc d s = (Ok (), s')"
  shows "\<exists>vm t t'. the_vm view s = Some vm \<and> vm_Template vm = Some t
    \<and> cluster view s' = put_vm s (vm\<lparr>vm_Template := Some t'\<rparr>) (cluster view s)
    \<and> clearBootOrders t' = clearBootOrders t
    \<and> intf_orders t' = (replicate (length (intf_orders t)) None)[0 := if d = BootDevicePxe then Some 1 else None]
    \<and> disk_orders t' = (replicate (length (disk_orders t)) None)[0 := if d = BootDeviceHdd then Some 1 else None]
    \<and> m_computerSystem s' = map_option (SetBootOverride d) (m_computerSystem s)"
  using SetBootDevice_chosen [OF assms(1,3)] assms(2)
  by (auto simp: boot_chosen_def bootSourceMap_def)

theorem boot_device_chosen_witness:
  "\<exists>vm t t'. the_vm mem_view demo = Some vm \<and> vm_Template vm = Some t
    \<and> cluster mem_view (snd (VM_SetBootDevice mem_client ''Pxe'' demo)) = put_vm demo (vm\<lparr>vm_Template := Some t'\<rparr>) (cluster mem_view demo)
    \<and> clearBootOrders t' = clearBootOrders t
    \<and> intf_orders t' = (replicate (length (intf_orders t)) None)[0 := if ''Pxe'' = BootDevicePxe then Some 1 else None]
    \<and> disk_orders t' = (replicate (length (disk_orders t)) None)[0 := if ''Pxe'' = BootDeviceHdd then Some 1 else None]
    \<and> m_computerSystem (snd (VM_SetBootDevice mem_client ''Pxe'' demo)) = map_option (SetBootOverride ''Pxe'') (m_computerSystem demo)"
  by (rule boot_device_chosen [OF mem_api _ demo_runs(4)]) simp

text \<open>Whether a boot device can be chosen depends only on the machine read: with an answering API
  the operation succeeds exactly when the device list is present and not empty; a machine without
  template or with an absent list is refused with an error; an empty list makes the handler index
  out of range.  Unless it succeeds the cluster is left as it was.\<close>

lemma boot_device_outcomes:
  assumes "vm_api vc view" and "vm_api_live vc view" and "the_vm view s = Some vm"
    and "VM_SetBootDevice vc d s = (r, s')"
  shows "(r = Ok () \<longleftrightarrow> (\<exists>t n. vm_Template vm = Some t \<and> boot_list d t = Some (Suc n)))
    \<and> ((\<exists>p. r = Panic p) \<longleftrightarrow> (\<exists>t. vm_Template vm = Some t \<and> boot_list d t = Some 0))
    \<and> (r \<noteq> Ok () \<longrightarrow> cluster view s' = cluster view s)"
proof -
  obtain u where e: "editVM vc (boot_edit d) s = (r, u)" "m_world s' = m_world u"
    using boot_run [OF assms(4)] by blast
  note E = editVM_cases [OF assms(1) keeps_name_boot e(1)]
  have ok: "(\<exists>vm'. boot_edit d vm = Ok vm') \<longleftrightarrow> (\<exists>t n. vm_Template vm = Some t \<and> boot_list d t = Some (Suc n))"
    and panic: "(\<exists>p. boot_edit d vm = Panic p) \<longleftrightarrow> (\<exists>t. vm_Template vm = Some t \<and> boot_list d t = Some 0)"
    by (cases "vm_Template vm"; simp add: boot_edit_def flip: choose_Ok_iff choose_Panic_iff split: outcome.splits)+
  have "r = Ok () \<longleftrightarrow> (\<exists>vm'. boot_edit d vm = Ok vm')"
    using E(2) assms(3) editVM_live [OF assms(2,1) keeps_name_boot assms(3)] e(1) by fastforce
  moreover have "(\<exists>p. r = Panic p) \<longleftrightarrow> (\<exists>p. boot_edit d vm = Panic p)"
  proof
    assume "\<exists>p. boot_edit d vm = Panic p"
    then obtain p where p: "boot_edit d vm = Panic p" ..
    obtain t where "getVM vc s = (Ok vm, t)" using live_get [OF assms(2,1,3)] by blast
    with p e(1) show "\<exists>p. r = Panic p" by (auto simp: editVM_def andThen_def attempt_def)
  qed (use E(4) assms(3) in auto)
  ultimately show ?thesis using ok panic E(3) e(2) by simp
qed

text \<open>A machine whose interface list is present but empty.\<close>

definition bare_vm :: VirtualMachine where
  "bare_vm = (NewVirtualMachineBuilder ''ns'' ''vm'')
     \<lparr>vm_Template := Some \<lparr>tpl_Disks = None, tpl_Interfaces = Some [], tpl_Volumes = []\<rparr>\<rparr>"

definition bare :: "vm_cluster vmrm" where
  "bare = (NewVirtualMachineResourceManager (demo_cluster\<lparr>cl_vms := [(''ns'', ''vm'') \<mapsto> bare_vm]\<rparr>))
     \<lparr>m_namespace := ''ns'', m_name := ''vm''\<rparr>"

lemma bare_vm: "the_vm mem_view bare = Some bare_vm"
  by (simp add: the_vm_def bare_def mem_view_def NewVirtualMachineResourceManager_def bare_vm_def
      NewVirtualMachineBuilder_def)

lemma bare_run: "VM_SetBootDevice mem_client ''Pxe'' bare = (Panic IndexOutOfRange, snd (VM_SetBootDevice mem_client ''Pxe'' bare))"
  by (rule run_fst) code_simp

text \<open>The last choice of a boot device decides: choosing one device and then another leaves the same
  machine in the cluster as choosing the second at once.\<close>

lemma boot_device_last_wins:
  assumes "vm_api vc view" and "VM_SetBootDevice vc d s = (Ok (), s')"
    and "VM_SetBootDevice vc d' s' = (Ok (), s'')" and "VM_SetBootDevice vc d' s = (Ok (), t)"
  shows "the_vm view s'' = the_vm view t"
proof -
  obtain u1 where e1: "editVM vc (boot_edit d) s = (Ok (), u1)" "m_world s' = m_world u1" "machine_id s' = machine_id u1"
    using boot_run [OF assms(2)] by blast
  obtain u2 where e2: "editVM vc (boot_edit d') s' = (Ok (), u2)" "m_world s'' = m_world u2" "machine_id s'' = machine_id u2"
    using boot_run [OF assms(3)] by blast
  obtain u3 where e3: "editVM vc (boot_edit d') s = (Ok (), u3)" "m_world t = m_world u3" "machine_id t = machine_id u3"
    using boot_run [OF assms(4)] by blast
  note E1 = editVM_cases(1,2) [OF assms(1) keeps_name_boot e1(1)]
  note E2 = editVM_cases(1,2) [OF assms(1) keeps_name_boot e2(1)]
  note E3 = editVM_cases(1,2) [OF assms(1) keeps_name_boot e3(1)]
  from E1(2) obtain vm vm1 where 1: "the_vm view s = Some vm" "boot_edit d vm = Ok vm1" "the_vm view s' = Some vm1"
    using E1(1) e1 by (auto simp: the_vm_def put_vm_def machine_id_def)
  from E2(2) 1(3) obtain vm2 where 2: "boot_edit d' vm1 = Ok vm2" "the_vm view s'' = Some vm2"
    using E2(1) e2 by (auto simp: the_vm_def put_vm_def machine_id_def)
  from E3(2) 1(1) obtain vm3 where 3: "boot_edit d' vm = Ok vm3" "the_vm view t = Some vm3"
    using E3(1) e3 by (auto simp: the_vm_def put_vm_def machine_id_def)
  from boot_edit_last [OF 1(2), of d'] 2 3 show ?thesis by simp
qed

end
