(* ===== verification/VmMedia.thy ===== *)
theory VmMedia
  imports VmCluster
begin

text \<open>
  Virtual media on the cluster: what \<open>InsertMedia\<close> and \<open>EjectMedia\<close> leave behind when they
  succeed, when they fail half way, and when one follows the other.
\<close>

section \<open>The volumes of the slot\<close>

text \<open>\<open>deleteCdromVolumes\<close> is a filter, and reports the data volume of the last volume it drops.\<close>

lemma deleteCdromVolumes_Ok:
  "deleteCdromVolumes slot vs d = Ok (kept, dvn) \<Longrightarrow>
     kept = filter (\<lambda>v. vol_Name v \<noteq> slot) vs
     \<and> dvn = foldl (\<lambda>_ v. dvs_Name (the (vol_DataVolume v))) d (filter (\<lambda>v. vol_Name v = slot) vs)
     \<and> (\<forall>v \<in> set vs. vol_Name v = slot \<longrightarrow> vol_DataVolume v \<noteq> None)"
  by (induction slot vs d arbitrary: kept dvn rule: deleteCdromVolumes.induct)
    (fastforce split: if_splits option.splits outcome.splits)+

lemma deleteCdromVolumes_Panic_iff:
  "(\<exists>p. deleteCdromVolumes slot vs d = Panic p)
     \<longleftrightarrow> (\<exists>v \<in> set vs. vol_Name v = slot \<and> vol_DataVolume v = None)"
  by (induction slot vs d rule: deleteCdromVolumes.induct)
    (auto split: if_splits option.splits outcome.splits)

lemma deleteCdromVolumes_none:
  "\<forall>v \<in> set vs. vol_Name v \<noteq> slot \<Longrightarrow> deleteCdromVolumes slot vs d = Ok (vs, d)"
  by (induction vs arbitrary: d) auto

lemma deleteCdromVolumes_added:
  "\<forall>v \<in> set vs. vol_Name v \<noteq> slot \<Longrightarrow>
   deleteCdromVolumes slot (vs @ [\<lparr>vol_Name = slot, vol_DataVolume = Some \<lparr>dvs_Name = n, dvs_Hotpluggable = h\<rparr>\<rparr>]) d = Ok (vs, n)"
  by (induction vs arbitrary: d) auto

section \<open>Calls at the level of the resource manager\<close>

lemma api_onWorld:
  "api_call view m pre eff \<Longrightarrow> api_call (\<lambda>s. view (m_world s)) (onWorld m) pre eff"
  by (auto simp: api_call_def onWorld_def onPart_def split: prod.splits outcome.splits)

lemma onWorld_id: "onWorld m s = (r, s') \<Longrightarrow> machine_id s' = machine_id s"
  by (auto simp: onWorld_def onPart_def machine_id_def split: prod.splits)

lemma onWorld_docs: "onWorld m s = (r, s') \<Longrightarrow> m_virtualMedia s' = m_virtualMedia s"
  by (auto simp: onWorld_def onPart_def split: prod.splits)

lemma getScheme_no_panic: "getScheme seen cs \<noteq> Panic p"
  by (induction seen cs rule: getScheme.induct) auto

lemma url_scheme_no_panic: "url_scheme vc url \<noteq> Panic p"
  using getScheme_no_panic by (auto simp: url_scheme_def Let_def split: outcome.splits option.splits)

lemma remote_size_api:
  assumes "vm_api vc view"
  shows "api_call view (GetRemoteFileSize vc url) (\<lambda>_ n. 0 \<le> n) (\<lambda>c. c)"
proof (cases "url_scheme vc url")
  case (Panic p)
  with url_scheme_no_panic show ?thesis by blast
next
  note head = vm_api_head [OF assms, of "vc_url_string vc url"]
  case (Ok sch)
  then show ?thesis
    using api_call_Ok [OF head] api_call_Err [OF head] api_call_Panic [OF head]
    unfolding api_call_def GetRemoteFileSize_def andThen_def attempt_def
    by (auto split: prod.splits outcome.splits)
qed (simp add: GetRemoteFileSize_def api_call_def)

lemma machine_id_eq: "machine_id t = machine_id s \<longleftrightarrow> m_namespace t = m_namespace s \<and> m_name t = m_name s"
  by (auto simp: machine_id_def)

text \<open>One call to the world, with its law.\<close>

lemma world_call:
  assumes "api_call view m pre eff" and "onWorld m s = (r, s')"
  shows "machine_id s' = machine_id s \<and>
    (case r of Ok a \<Rightarrow> pre (cluster view s) a \<and> cluster view s' = eff (cluster view s)
     | Err e \<Rightarrow> cluster view s' = cluster view s | Panic p \<Rightarrow> False)"
  using onWorld_id [OF assms(2)] api_onWorld [OF assms(1)] assms(2)
  by (cases r) (auto dest: api_call_Ok api_call_Err api_call_Panic)

lemma update_call:
  assumes "vm_api vc view" and "updateVM vc vm s = (r, s')" and "vm_Name vm = m_name s"
  shows "machine_id s' = machine_id s \<and>
    (case r of Ok a \<Rightarrow> cluster view s' = put_vm s vm (cluster view s)
     | Err e \<Rightarrow> cluster view s' = cluster view s | Panic p \<Rightarrow> False)"
  using updateVM_api [OF assms] by (cases r) (simp_all, blast)

lemma get_call:
  assumes "vm_api vc view" and "getVM vc s = (r, s')"
  shows "machine_id s' = machine_id s \<and> cluster view s' = cluster view s \<and>
    (case r of Ok vm \<Rightarrow> the_vm view s = Some vm \<and> vm_Name vm = m_name s | Err e \<Rightarrow> True | Panic p \<Rightarrow> False)"
  using getVM_api [OF assms] by (cases r) (simp_all, blast)

section \<open>Inserting\<close>

definition insert_edit :: "'w vmrm \<Rightarrow> string \<Rightarrow> VirtualMachine \<Rightarrow> TemplateSpec \<Rightarrow> VirtualMachine" where
  "insert_edit s slot vm t =
     vm\<lparr>vm_Template := Some (t\<lparr>tpl_Volumes := tpl_Volumes t @
       [\<lparr>vol_Name = slot, vol_DataVolume = Some \<lparr>dvs_Name = m_name s, dvs_Hotpluggable = True\<rparr>\<rparr>]\<rparr>)\<rparr>"

definition put_dv :: "'w vmrm \<Rightarrow> DataVolume \<Rightarrow> vm_cluster \<Rightarrow> vm_cluster" where
  "put_dv s dv c = c\<lparr>cl_dvs := (cl_dvs c)((m_namespace s, dv_Name dv) \<mapsto> dv)\<rparr>"

text \<open>The template and the slot an insertion or ejection works on.\<close>

definition find_slot :: "VirtualMachine \<Rightarrow> (TemplateSpec \<times> string) outcome" where
  "find_slot vm =
     (case vm_Template vm of
        None \<Rightarrow> Err (PlainError ''no template found'')
      | Some t \<Rightarrow> (case GetCdromDisk (slice (tpl_Disks t)) of
            Ok d \<Rightarrow> Ok (t, disk_Name d) | Err e \<Rightarrow> Err e | Panic p \<Rightarrow> Panic p))"

lemma find_slot_no_panic: "find_slot vm \<noteq> Panic p"
  using GetCdromDisk_no_panic by (auto simp: find_slot_def split: option.splits outcome.splits)

definition insert_tail :: "'w vm_client \<Rightarrow> string \<Rightarrow> 'w vmrm \<Rightarrow> VirtualMachine \<Rightarrow> TemplateSpec \<times> string \<Rightarrow> ('w vmrm, unit) op" where
  "insert_tail vc url s vm = (\<lambda>(t, slot).
     andThen (onWorld (GetRemoteFileSize vc url)) (\<lambda>n.
     andThen (onWorld (vc_CreateDV vc (m_namespace s) (ConstructDataVolume (m_namespace s) (m_name s) url n))) (\<lambda>_.
     andThen (updateVM vc (insert_edit s slot vm t)) (\<lambda>_.
     modifyS (setMedia url True)))))"

lemma insert_is_tail:
  "m_virtualMedia s \<noteq> None \<Longrightarrow>
   VM_InsertMedia vc url s = andThen (getVM vc) (\<lambda>vm. andThen (pureR (find_slot vm)) (insert_tail vc url s vm)) s"
  unfolding VM_InsertMedia_def
  by (auto simp: find_slot_def insert_tail_def insert_edit_def ConstructDataVolume_def fun_eq_iff
      intro!: arg_cong [where f = "\<lambda>k. andThen (getVM vc) k s"] split: option.splits outcome.splits)

text \<open>
  The three ends of an insertion: done, refused with nothing changed, or the data volume created
  and the machine not updated.
\<close>

definition dv_added :: "'w vmrm \<Rightarrow> string \<Rightarrow> int \<Rightarrow> vm_cluster \<Rightarrow> vm_cluster" where
  "dv_added s url n = put_dv s (ConstructDataVolume (m_namespace s) (m_name s) url n)"

definition insert_end :: "('w \<Rightarrow> vm_cluster) \<Rightarrow> string \<Rightarrow> 'w vmrm \<Rightarrow> (VirtualMachine \<Rightarrow> TemplateSpec \<Rightarrow> string \<Rightarrow> bool)
    \<Rightarrow> unit outcome \<Rightarrow> 'w vmrm \<Rightarrow> bool" where
  "insert_end view url s what r s' \<longleftrightarrow> machine_id s' = machine_id s \<and> (\<forall>p. r \<noteq> Panic p) \<and>
     (if r = Ok () then
        \<exists>vm t slot n. what vm t slot \<and> 0 \<le> n \<and> cl_dvs (cluster view s) (machine_id s) = None
          \<and> cluster view s' = put_vm s (insert_edit s slot vm t) (dv_added s url n (cluster view s))
      else cluster view s' = cluster view s
         \<or> (\<exists>n \<ge> 0. cl_dvs (cluster view s) (machine_id s) = None \<and> cluster view s' = dv_added s url n (cluster view s)))"

lemma insert_tail_end:
  assumes api: "vm_api vc view" and same: "machine_id s1 = machine_id s" "cluster view s1 = cluster view s"
    and nm: "vm_Name vm = m_name s" and run: "insert_tail vc url s vm (t, slot) s1 = (r, s')"
  shows "insert_end view url s (\<lambda>v u k. v = vm \<and> u = t \<and> k = slot) r s'"
  using run unfolding insert_tail_def prod.case
proof (cases rule: andThen_cases)
  case (Ok n s2)
  note S = world_call [OF remote_size_api [OF api] Ok(1)]
  from Ok(2) show ?thesis
  proof (cases rule: andThen_cases)
    case (Ok dv s3)
    note D = world_call [OF vm_api_create_dv [OF api] Ok(1)]
    have c3: "cluster view s3 = dv_added s url n (cluster view s)" "machine_id s3 = machine_id s"
      and fresh: "cl_dvs (cluster view s) (machine_id s) = None" "0 \<le> n"
      using S D same by (simp_all add: dv_added_def put_dv_def machine_id_def ConstructDataVolume_def)
    have "vm_Name (insert_edit s slot vm t) = m_name s3"
      using nm c3(2) by (simp add: insert_edit_def machine_id_eq)
    note U = update_call [OF api _ this]
    from Ok(2) show ?thesis
    proof (cases rule: andThen_cases)
      case (Ok v s4)
      from Ok(2) U [OF Ok(1)] c3 fresh show ?thesis
        by (auto simp: insert_end_def setMedia_def machine_id_eq put_vm_def)
    qed (use U c3 fresh in \<open>force simp: insert_end_def\<close>)+
  qed (use world_call [OF vm_api_create_dv [OF api]] S same in \<open>force simp: insert_end_def\<close>)+
qed (use world_call [OF remote_size_api [OF api]] same in \<open>force simp: insert_end_def\<close>)+

lemma insert_ends:
  assumes api: "vm_api vc view" and run: "VM_InsertMedia vc url s = (r, s')"
  shows "insert_end view url s (\<lambda>vm t slot. the_vm view s = Some vm \<and> find_slot vm = Ok (t, slot)) r s'"
proof (cases "m_virtualMedia s = None")
  case True
  with run show ?thesis by (auto simp: VM_InsertMedia_def insert_end_def)
next
  case False
  from run [unfolded insert_is_tail [OF False]] show ?thesis
  proof (cases rule: andThen_cases)
    case (Ok vm s1)
    note G = get_call [OF api Ok(1)]
    show ?thesis
    proof (cases "find_slot vm")
      case slot: (Ok a)
      obtain t k where a: "a = (t, k)" by force
      from Ok(2) slot a have "insert_tail vc url s vm (t, k) s1 = (r, s')" by simp
      from insert_tail_end [OF api _ _ _ this] G slot a show ?thesis
        by (auto simp: insert_end_def split: if_splits)
    qed (use Ok(2) G find_slot_no_panic in \<open>auto simp: insert_end_def\<close>)
  qed (use get_call [OF api] in \<open>force simp: insert_end_def\<close>)+
qed

section \<open>Ejecting\<close>

definition eject_edit :: "string \<Rightarrow> VirtualMachine \<Rightarrow> TemplateSpec \<Rightarrow> VirtualMachine" where
  "eject_edit slot vm t =
     vm\<lparr>vm_Template := Some (t\<lparr>tpl_Volumes := filter (\<lambda>v. vol_Name v \<noteq> slot) (tpl_Volumes t)\<rparr>)\<rparr>"

definition dv_removed :: "'w vmrm \<Rightarrow> string \<Rightarrow> vm_cluster \<Rightarrow> vm_cluster" where
  "dv_removed s n c = c\<lparr>cl_dvs := (cl_dvs c)((m_namespace s, n) := None)\<rparr>"

text \<open>The data volume \<open>EjectMedia\<close> takes to be the inserted one, if any.\<close>

definition inserted_dv :: "string \<Rightarrow> TemplateSpec \<Rightarrow> string" where
  "inserted_dv slot t =
     foldl (\<lambda>_ v. dvs_Name (the (vol_DataVolume v))) '''' (filter (\<lambda>v. vol_Name v = slot) (tpl_Volumes t))"

definition eject_plan :: "TemplateSpec \<times> string \<Rightarrow> string outcome" where
  "eject_plan = (\<lambda>(t, slot).
     case deleteCdromVolumes slot (tpl_Volumes t) '''' of
       Ok (vols, dvn) \<Rightarrow> (if dvn = '''' then Err (PlainError ''no media inserted'') else Ok dvn)
     | Err e \<Rightarrow> Err e | Panic p \<Rightarrow> Panic p)"

lemma eject_plan_Ok: "eject_plan (t, slot) = Ok dvn \<Longrightarrow> dvn = inserted_dv slot t \<and> dvn \<noteq> ''''"
  by (auto simp: eject_plan_def inserted_dv_def dest: deleteCdromVolumes_Ok split: outcome.splits if_splits)

definition eject_tail :: "'w vm_client \<Rightarrow> 'w vmrm \<Rightarrow> VirtualMachine \<Rightarrow> TemplateSpec \<times> string \<Rightarrow> string \<Rightarrow> ('w vmrm, unit) op" where
  "eject_tail vc s vm = (\<lambda>(t, slot) dvn.
     andThen (updateVM vc (eject_edit slot vm t)) (\<lambda>_.
     andThen (onWorld (vc_DeleteDV vc (m_namespace s) dvn)) (\<lambda>_. modifyS (setMedia '''' False))))"

lemma eject_is_tail:
  "m_virtualMedia s \<noteq> None \<Longrightarrow>
   VM_EjectMedia vc s = andThen (getVM vc) (\<lambda>vm. andThen (pureR (find_slot vm)) (\<lambda>ts.
     andThen (pureR (eject_plan ts)) (eject_tail vc s vm ts))) s"
  unfolding VM_EjectMedia_def
  by (auto simp: find_slot_def eject_plan_def eject_tail_def eject_edit_def fun_eq_iff
      intro!: arg_cong [where f = "\<lambda>k. andThen (getVM vc) k s"] dest!: deleteCdromVolumes_Ok
      split: option.splits outcome.splits)

text \<open>
  The three ends of an ejection: done, refused (or crashed) with nothing changed, or the volume
  taken out of the machine and the data volume still there.
\<close>

definition eject_end :: "('w \<Rightarrow> vm_cluster) \<Rightarrow> 'w vmrm \<Rightarrow> (VirtualMachine \<Rightarrow> TemplateSpec \<Rightarrow> string \<Rightarrow> bool)
    \<Rightarrow> unit outcome \<Rightarrow> 'w vmrm \<Rightarrow> bool" where
  "eject_end view s what r s' \<longleftrightarrow> machine_id s' = machine_id s \<and>
     (if r = Ok () then
        \<exists>vm t slot. what vm t slot \<and> inserted_dv slot t \<noteq> ''''
          \<and> cl_dvs (cluster view s) (m_namespace s, inserted_dv slot t) \<noteq> None
          \<and> cluster view s' = put_vm s (eject_edit slot vm t) (dv_removed s (inserted_dv slot t) (cluster view s))
      else cluster view s' = cluster view s
         \<or> (\<exists>vm t slot e. r = Err e \<and> what vm t slot \<and> inserted_dv slot t \<noteq> ''''
              \<and> cluster view s' = put_vm s (eject_edit slot vm t) (cluster view s)))"

lemma eject_tail_end:
  assumes api: "vm_api vc view" and same: "machine_id s1 = machine_id s" "cluster view s1 = cluster view s"
    and nm: "vm_Name vm = m_name s" and plan: "eject_plan (t, slot) = Ok dvn"
    and run: "eject_tail vc s vm (t, slot) dvn s1 = (r, s')"
  shows "eject_end view s (\<lambda>v u k. v = vm \<and> u = t \<and> k = slot) r s'"
proof -
  have "vm_Name (eject_edit slot vm t) = m_name s1"
    using nm same(1) by (simp add: eject_edit_def machine_id_eq)
  note U = update_call [OF api _ this] and P = eject_plan_Ok [OF plan]
  from run show ?thesis unfolding eject_tail_def prod.case
  proof (cases rule: andThen_cases)
    case (Ok v s2)
    have c2: "cluster view s2 = put_vm s (eject_edit slot vm t) (cluster view s)" "machine_id s2 = machine_id s"
      using U [OF Ok(1)] same by (simp_all add: put_vm_def machine_id_eq)
    from Ok(2) show ?thesis
    proof (cases rule: andThen_cases)
      case (Ok u s3)
      from Ok(2) world_call [OF vm_api_delete_dv [OF api] Ok(1)] c2 P show ?thesis
        by (auto simp: eject_end_def setMedia_def machine_id_eq put_vm_def dv_removed_def)
    qed (use world_call [OF vm_api_delete_dv [OF api]] c2 P in \<open>force simp: eject_end_def\<close>)+
  qed (use U same in \<open>force simp: eject_end_def\<close>)+
qed

lemma eject_ends:
  assumes api: "vm_api vc view" and run: "VM_EjectMedia vc s = (r, s')"
  shows "eject_end view s (\<lambda>vm t slot. the_vm view s = Some vm \<and> find_slot vm = Ok (t, slot)) r s'"
proof (cases "m_virtualMedia s = None")
  case True
  with run show ?thesis by (auto simp: VM_EjectMedia_def eject_end_def)
next
  case False
  from run [unfolded eject_is_tail [OF False]] show ?thesis
  proof (cases rule: andThen_cases)
    case (Ok vm s1)
    note G = get_call [OF api Ok(1)]
    show ?thesis
    proof (cases "find_slot vm")
      case slot: (Ok a)
      obtain t k where a: "a = (t, k)" by force
      show ?thesis
      proof (cases "eject_plan (t, k)")
        case plan: (Ok dvn)
        from Ok(2) slot a plan have "eject_tail vc s vm (t, k) dvn s1 = (r, s')" by simp
        from eject_tail_end [OF api _ _ _ plan this] G slot a show ?thesis
          by (auto simp: eject_end_def split: if_splits)
      qed (use Ok(2) G slot a in \<open>auto simp: eject_end_def\<close>)
    qed (use Ok(2) G in \<open>auto simp: eject_end_def\<close>)
  qed (use get_call [OF api] in \<open>force simp: eject_end_def\<close>)+
qed

section \<open>Properties of virtual media\<close>

lemma demo_media_runs:
  "VM_InsertMedia mem_client ''http://img/a.iso'' demo = (Ok (), snd (VM_InsertMedia mem_client ''http://img/a.iso'' demo))"
  "VM_EjectMedia mem_client (snd (VM_InsertMedia mem_client ''http://img/a.iso'' demo))
     = (Ok (), snd (VM_EjectMedia mem_client (snd (VM_InsertMedia mem_client ''http://img/a.iso'' demo))))"
  "VM_InsertMedia no_update ''http://img/a.iso'' demo
     = (Err (StatusError ReasonConflict ''conflict''), snd (VM_InsertMedia no_update ''http://img/a.iso'' demo))"
  "VM_EjectMedia no_delete_dv (snd (VM_InsertMedia mem_client ''http://img/a.iso'' demo))
     = (Err (StatusError ReasonOther ''timeout''),
        snd (VM_EjectMedia no_delete_dv (snd (VM_InsertMedia mem_client ''http://img/a.iso'' demo))))"
  by (rule run_fst, code_simp)+

text \<open>A successful insertion has found the first CD-ROM disk of the machine, created a data volume of
  the machine's name that imports the image at its advertised size, appended to the machine one
  hot-pluggable volume that puts it in that disk, changed nothing else in the cluster, and the
  served document shows the image as inserted.\<close>

lemma media_inserted:
  assumes "vm_api vc view" and "VM_InsertMedia vc url s = (Ok (), s')"
  shows "\<exists>vm t slot n. the_vm view s = Some vm \<and> find_slot vm = Ok (t, slot) \<and> 0 \<le> n
    \<and> cl_dvs (cluster view s) (machine_id s) = None
    \<and> cluster view s' = put_vm s (insert_edit s slot vm t)
        (put_dv s (ConstructDataVolume (m_namespace s) (m_name s) url n) (cluster view s))
    \<and> m_virtualMedia s' = map_option (SetVirtualMedia url True) (m_virtualMedia s)"
  using insert_ends [OF assms] VM_InsertMedia_media [OF assms(2)]
  by (auto simp: insert_end_def dv_added_def)

text \<open>C21. An insertion never panics, and one that fails changes no document and leaves the cluster either
  as it was or with the new data volume created and no machine using it; in the latter case every
  further insertion is refused until that data volume is gone.\<close>

theorem media_insert_failure:
  assumes "vm_api vc view" and "VM_InsertMedia vc url s = (r, s')" and "r \<noteq> Ok ()"
  shows "(\<forall>p. r \<noteq> Panic p) \<and> m_virtualMedia s' = m_virtualMedia s \<and> m_computerSystem s' = m_computerSystem s
    \<and> (cluster view s' = cluster view s
       \<or> (\<exists>n. cluster view s' = dv_added s url n (cluster view s))
         \<and> (\<forall>url' r' s''. VM_InsertMedia vc url' s' = (r', s'') \<longrightarrow> r' \<noteq> Ok ()))"
proof (cases "cluster view s' = cluster view s")
  case True
  with insert_ends [OF assms(1,2)] VM_InsertMedia_media [OF assms(2)] assms(3)
    frameD [OF frames_documents(4) assms(2)]
  show ?thesis by (auto simp: insert_end_def)
next
  case False
  with insert_ends [OF assms(1,2)] assms(3)
  obtain n where added: "cluster view s' = dv_added s url n (cluster view s)" and same: "machine_id s' = machine_id s"
    by (auto simp: insert_end_def)
  then have "cl_dvs (cluster view s') (machine_id s') \<noteq> None"
    by (simp add: dv_added_def put_dv_def machine_id_def ConstructDataVolume_def)
  then have "VM_InsertMedia vc url' s' = (r', s'') \<Longrightarrow> r' \<noteq> Ok ()" for url' r' s''
    using insert_ends [OF assms(1), of url' s' r' s''] by (auto simp: insert_end_def)
  with added insert_ends [OF assms(1,2)] VM_InsertMedia_media [OF assms(2)] assms(3)
    frameD [OF frames_documents(4) assms(2)]
  show ?thesis by (auto simp: insert_end_def)
qed

theorem media_insert_failure_witness:
  "m_virtualMedia (snd (VM_InsertMedia no_update ''http://img/a.iso'' demo)) = m_virtualMedia demo"
  using media_insert_failure [OF no_update_api demo_media_runs(3)] by simp

text \<open>A successful ejection drops exactly the volumes of the slot from the machine, deletes the data
  volume of the last of them, changes nothing else in the cluster, and the served document shows
  an empty slot.\<close>

lemma media_ejected:
  assumes "vm_api vc view" and "VM_EjectMedia vc s = (Ok (), s')"
  shows "\<exists>vm t slot. the_vm view s = Some vm \<and> find_slot vm = Ok (t, slot) \<and> inserted_dv slot t \<noteq> ''''
    \<and> cluster view s' = put_vm s (eject_edit slot vm t) (dv_removed s (inserted_dv slot t) (cluster view s))
    \<and> m_virtualMedia s' = map_option (SetVirtualMedia '''' False) (m_virtualMedia s)"
  using eject_ends [OF assms] VM_EjectMedia_media [OF assms(2)]
  by (auto simp: eject_end_def)

text \<open>C22. An ejection that fails leaves the document as it was, and the cluster too, except that the
  machine may have been updated and its data volume not deleted: then the document still says
  inserted although the slot is empty, and every further ejection is refused.\<close>

theorem media_eject_failure:
  assumes "vm_api vc view" and "VM_EjectMedia vc s = (r, s')" and "r \<noteq> Ok ()"
  shows "m_virtualMedia s' = m_virtualMedia s
    \<and> (cluster view s' = cluster view s
       \<or> (\<exists>vm t slot. the_vm view s = Some vm \<and> find_slot vm = Ok (t, slot)
            \<and> cluster view s' = put_vm s (eject_edit slot vm t) (cluster view s))
         \<and> (\<forall>r' s''. VM_EjectMedia vc s' = (r', s'') \<longrightarrow> r' \<noteq> Ok ()))"
proof (cases "cluster view s' = cluster view s")
  case True
  with VM_EjectMedia_media [OF assms(2)] assms(3) show ?thesis by simp
next
  case False
  with eject_ends [OF assms(1,2)] assms(3)
  obtain vm t slot where vm: "the_vm view s = Some vm" "find_slot vm = Ok (t, slot)"
    and c: "cluster view s' = put_vm s (eject_edit slot vm t) (cluster view s)" and same: "machine_id s' = machine_id s"
    by (auto simp: eject_end_def)
  let ?t = "t\<lparr>tpl_Volumes := filter (\<lambda>v. vol_Name v \<noteq> slot) (tpl_Volumes t)\<rparr>"
  have "the_vm view s' = Some (eject_edit slot vm t)"
    using c same by (simp add: the_vm_def put_vm_def machine_id_eq)
  moreover have "find_slot (eject_edit slot vm t) = Ok (?t, slot)"
    using vm(2) by (auto simp: find_slot_def eject_edit_def split: option.splits outcome.splits)
  moreover have "inserted_dv slot ?t = ''''"
    by (simp add: inserted_dv_def)
  ultimately have "VM_EjectMedia vc s' = (r', s'') \<Longrightarrow> r' \<noteq> Ok ()" for r' s''
    using eject_ends [OF assms(1), of s' r' s''] by (auto simp: eject_end_def)
  with vm c VM_EjectMedia_media [OF assms(2)] assms(3) show ?thesis by auto
qed

theorem media_eject_failure_witness:
  "m_virtualMedia (snd (VM_EjectMedia no_delete_dv (snd (VM_InsertMedia mem_client ''http://img/a.iso'' demo))))
   = m_virtualMedia (snd (VM_InsertMedia mem_client ''http://img/a.iso'' demo))"
  using media_eject_failure [OF no_delete_dv_api demo_media_runs(4)] by simp

lemma find_slot_insert: "find_slot vm = Ok (t, slot) \<Longrightarrow> find_slot (insert_edit s slot' vm t) =
    Ok (t\<lparr>tpl_Volumes := tpl_Volumes t @ [\<lparr>vol_Name = slot', vol_DataVolume = Some \<lparr>dvs_Name = m_name s, dvs_Hotpluggable = True\<rparr>\<rparr>]\<rparr>, slot)"
  by (auto simp: find_slot_def insert_edit_def split: option.splits outcome.splits)

lemma find_slot_template: "find_slot vm = Ok (t, slot) \<Longrightarrow> vm_Template vm = Some t"
  by (auto simp: find_slot_def split: option.splits outcome.splits)

lemma eject_insert_edit:
  assumes "find_slot vm = Ok (t, slot)" and "\<forall>v \<in> set (tpl_Volumes t). vol_Name v \<noteq> slot"
    and "find_slot (insert_edit s slot vm t) = Ok (t', slot')"
  shows "eject_edit slot' (insert_edit s slot vm t) t' = vm" and "inserted_dv slot' t' = m_name s"
proof -
  let ?v = "\<lparr>vol_Name = slot, vol_DataVolume = Some \<lparr>dvs_Name = m_name s, dvs_Hotpluggable = True\<rparr>\<rparr>"
  have t': "t' = t\<lparr>tpl_Volumes := tpl_Volumes t @ [?v]\<rparr>" "slot' = slot"
    using assms(3) find_slot_insert [OF assms(1), of s slot] by auto
  have "filter (\<lambda>v. vol_Name v \<noteq> slot) (tpl_Volumes t) = tpl_Volumes t"
    and none: "filter (\<lambda>v. vol_Name v = slot) (tpl_Volumes t) = []"
    using assms(2) by (simp_all add: filter_id_conv filter_empty_conv)
  then show "eject_edit slot' (insert_edit s slot vm t) t' = vm"
    using t' find_slot_template [OF assms(1)]
    by (cases vm; cases t) (simp add: eject_edit_def insert_edit_def)
  show "inserted_dv slot' t' = m_name s"
    using t' none by (simp add: inserted_dv_def)
qed

definition slot_free :: "VirtualMachine \<Rightarrow> bool" where
  "slot_free vm \<longleftrightarrow>
     (case find_slot vm of
        Ok (t, slot) \<Rightarrow> list_all (\<lambda>v. vol_Name v \<noteq> slot) (tpl_Volumes t)
      | _ \<Rightarrow> True)"

text \<open>C12. Inserting an image and ejecting it again is the identity on the cluster: if no volume occupied the
  machine's slot, every machine, instance and data volume is as before, and the document shows an
  empty slot.\<close>

theorem media_insert_eject_roundtrip:
  assumes api: "vm_api vc view" and insert: "VM_InsertMedia vc url s = (Ok (), s')"
    and eject: "VM_EjectMedia vc s' = (Ok (), s'')"
    and free: "map_option slot_free (the_vm view s) = Some True"
  shows "cluster view s'' = cluster view s
    \<and> m_virtualMedia s'' = map_option (SetVirtualMedia '''' False) (m_virtualMedia s)"
proof -
  from insert_ends [OF api insert]
  obtain vm t slot n where vm: "the_vm view s = Some vm" "find_slot vm = Ok (t, slot)"
    and c1: "cluster view s' = put_vm s (insert_edit s slot vm t) (dv_added s url n (cluster view s))"
    and fresh: "cl_dvs (cluster view s) (machine_id s) = None" and same: "machine_id s' = machine_id s"
    by (auto simp: insert_end_def)
  have vm': "the_vm view s' = Some (insert_edit s slot vm t)"
    using c1 same by (simp add: the_vm_def put_vm_def machine_id_eq)
  from eject_ends [OF api eject] vm'
  obtain t' slot' where slot': "find_slot (insert_edit s slot vm t) = Ok (t', slot')"
    and c2: "cluster view s'' = put_vm s' (eject_edit slot' (insert_edit s slot vm t) t')
          (dv_removed s' (inserted_dv slot' t') (cluster view s'))"
    by (auto simp: eject_end_def)
  have "(cl_dvs (cluster view s))(machine_id s := None) = cl_dvs (cluster view s)"
    and "(cl_vms (cluster view s))(machine_id s \<mapsto> vm) = cl_vms (cluster view s)"
    using fresh vm(1) by (auto simp: the_vm_def machine_id_def fun_eq_iff)
  then have "cluster view s'' = cluster view s"
    using c2 c1 same eject_insert_edit [OF vm(2) _ slot'] free vm
    by (cases "cluster view s")
      (simp add: slot_free_def list_all_iff put_vm_def dv_removed_def dv_added_def put_dv_def machine_id_def ConstructDataVolume_def)
  moreover have "m_virtualMedia s'' = map_option (SetVirtualMedia '''' False) (m_virtualMedia s)"
    using VM_InsertMedia_media [OF insert] VM_EjectMedia_media [OF eject]
    by (cases "m_virtualMedia s") (simp_all add: SetVirtualMedia_def)
  ultimately show ?thesis ..
qed

lemma demo_free: "map_option slot_free (the_vm mem_view demo) = Some True"
  by code_simp

theorem media_insert_eject_roundtrip_witness:
  "cluster mem_view (snd (VM_EjectMedia mem_client (snd (VM_InsertMedia mem_client ''http://img/a.iso'' demo))))
   = cluster mem_view demo"
  using media_insert_eject_roundtrip [OF mem_api demo_media_runs(1,2) demo_free] by blast

text \<open>A second insertion without an ejection is refused and changes nothing: the data volume of the
  first one is in the way.\<close>

lemma media_insert_twice_refused:
  assumes api: "vm_api vc view" and "VM_InsertMedia vc url s = (Ok (), s')"
    and second: "VM_InsertMedia vc url' s' = (r, s'')"
  shows "(\<exists>e. r = Err e) \<and> cluster view s'' = cluster view s' \<and> m_virtualMedia s'' = m_virtualMedia s'"
proof -
  from insert_ends [OF assms(1,2)] have "cl_dvs (cluster view s') (machine_id s') \<noteq> None"
    by (auto simp: insert_end_def put_vm_def dv_added_def put_dv_def machine_id_def ConstructDataVolume_def)
  then show ?thesis
    using insert_ends [OF api second] VM_InsertMedia_media [OF second]
    by (cases r) (auto simp: insert_end_def split: if_splits)
qed

end
