(* ===== verification/Ipmi.thy ===== *)
theory Ipmi
  imports VmMedia
begin

text \<open>
  pkg/ipmi: the IPMI front end.  The package goipmi (message decoding, constants, the UDP loop)
  is not part of the repository; what the handlers use of it is the record \<open>goipmi\<close>, a
  parameter.  A handler is an operation on the resource manager's state that answers with a
  response; \<open>m.Request(r)\<close> is a decoder that yields a response to send back or the request.
\<close>

section \<open>What is used of goipmi\<close>

type_synonym CompletionCode = "8 word"

record SetSystemBootOptionsRequest =
  sb_Param :: "8 word"
  sb_Data :: "8 word list"

datatype ipmi_response =
    ErrorResponse CompletionCode
  | ChassisControlResponse CompletionCode
  | ChassisStatusResponse CompletionCode "8 word"
  | SetSystemBootOptionsResponse CompletionCode

record 'm goipmi =
  gi_control_request :: "'m \<Rightarrow> CompletionCode + 8 word"
  gi_boot_request :: "'m \<Rightarrow> CompletionCode + SetSystemBootOptionsRequest"
  gi_ControlPowerDown :: "8 word"
  gi_ControlPowerUp :: "8 word"
  gi_ControlPowerCycle :: "8 word"
  gi_ControlPowerHardReset :: "8 word"
  gi_ControlPowerAcpiSoft :: "8 word"
  gi_BootDevicePxe :: "8 word"
  gi_BootDeviceDisk :: "8 word"
  gi_CommandCompleted :: CompletionCode
  gi_ErrInvalidState :: CompletionCode
  gi_ErrUnspecified :: CompletionCode
  gi_SystemPower :: "8 word"
  gi_PowerOverload :: "8 word"
  gi_NetworkFunctionChassis :: "8 word"
  gi_CommandChassisStatus :: "8 word"
  gi_CommandChassisControl :: "8 word"
  gi_CommandSetSystemBootOptions :: "8 word"

text \<open>The constants of one enumeration are different from each other.\<close>

definition goipmi_constants :: "'m goipmi \<Rightarrow> bool" where
  "goipmi_constants gi \<longleftrightarrow>
     distinct [gi_ControlPowerDown gi, gi_ControlPowerUp gi, gi_ControlPowerCycle gi,
               gi_ControlPowerHardReset gi, gi_ControlPowerAcpiSoft gi]
   \<and> gi_BootDevicePxe gi \<noteq> gi_BootDeviceDisk gi
   \<and> distinct [gi_CommandCompleted gi, gi_ErrInvalidState gi, gi_ErrUnspecified gi]
   \<and> gi_SystemPower gi \<noteq> gi_PowerOverload gi
   \<and> distinct [gi_CommandChassisStatus gi, gi_CommandChassisControl gi, gi_CommandSetSystemBootOptions gi]"

section \<open>The handlers\<close>

record 's ipmi_handler =
  ih_rm :: "'s ResourceManager"

definition NewIpmiHandler :: "'s ResourceManager \<Rightarrow> 's ipmi_handler" where
  "NewIpmiHandler resourceManager = \<lparr>ih_rm = resourceManager\<rparr>"

definition chassisControlHandler :: "'m goipmi \<Rightarrow> 's ipmi_handler \<Rightarrow> 'm \<Rightarrow> ('s, ipmi_response) op" where
  "chassisControlHandler gi h m =
     (case gi_control_request gi m of
        Inl err \<Rightarrow> ret (ErrorResponse err)
      | Inr control \<Rightarrow>
          attempt
            (if control = gi_ControlPowerDown gi \<or> control = gi_ControlPowerAcpiSoft gi then PowerOff (ih_rm h)
             else if control = gi_ControlPowerUp gi then PowerOn (ih_rm h)
             else if control = gi_ControlPowerCycle gi \<or> control = gi_ControlPowerHardReset gi then PowerCycle (ih_rm h)
             else ret ())
            (\<lambda>_. ret (ChassisControlResponse (gi_ErrInvalidState gi)))
            (\<lambda>_. ret (ChassisControlResponse (gi_CommandCompleted gi))))"

text \<open>In a failed status response the power state is the zero value.\<close>

definition chassisStatusHandler :: "'m goipmi \<Rightarrow> 's ipmi_handler \<Rightarrow> 'm \<Rightarrow> ('s, ipmi_response) op" where
  "chassisStatusHandler gi h m =
     attempt (GetPowerStatus (ih_rm h))
       (\<lambda>_. ret (ChassisStatusResponse (gi_ErrInvalidState gi) 0))
       (\<lambda>isUp. ret (ChassisStatusResponse (gi_CommandCompleted gi)
                     (if \<not> isUp then gi_PowerOverload gi else gi_SystemPower gi)))"

definition setSystemBootOptionsHandler :: "'m goipmi \<Rightarrow> 's ipmi_handler \<Rightarrow> 'm \<Rightarrow> ('s, ipmi_response) op" where
  "setSystemBootOptionsHandler gi h m =
     (case gi_boot_request gi m of
        Inl err \<Rightarrow> ret (ErrorResponse err)
      | Inr r \<Rightarrow>
          if sb_Param r \<noteq> 5 then ret (SetSystemBootOptionsResponse (gi_CommandCompleted gi))
          else if length (sb_Data r) \<le> 1 then crash IndexOutOfRange
          else
            let device = (if sb_Data r ! 1 = gi_BootDevicePxe gi then BootDevicePxe
                          else if sb_Data r ! 1 = gi_BootDeviceDisk gi then BootDeviceHdd
                          else '''')
            in attempt (SetBootDevice (ih_rm h) device)
                 (\<lambda>_. ret (SetSystemBootOptionsResponse (gi_ErrUnspecified gi)))
                 (\<lambda>_. ret (SetSystemBootOptionsResponse (gi_CommandCompleted gi))))"

section \<open>The simulator\<close>

text \<open>
  The simulator is its address and the handlers registered with goipmi, a map from network
  function and command; goipmi's loop, which answers unregistered commands itself, is outside.
\<close>

record ('m, 's) Simulator =
  sim_ip :: string
  sim_port :: nat
  sim_handler :: "'s ipmi_handler"
  sim_table :: "(8 word \<times> 8 word) \<rightharpoonup> ('m \<Rightarrow> ('s, ipmi_response) op)"

definition NewSimulator :: "string \<Rightarrow> nat \<Rightarrow> 's ResourceManager \<Rightarrow> ('m, 's) Simulator" where
  "NewSimulator ip port resourceManager =
     \<lparr>sim_ip = ip, sim_port = port, sim_handler = NewIpmiHandler resourceManager, sim_table = Map.empty\<rparr>"

definition SetHandler :: "8 word \<Rightarrow> 8 word \<Rightarrow> ('m \<Rightarrow> ('s, ipmi_response) op) \<Rightarrow> ('m, 's) Simulator \<Rightarrow> ('m, 's) Simulator" where
  "SetHandler netfn cmd f sim = sim\<lparr>sim_table := (sim_table sim)((netfn, cmd) \<mapsto> f)\<rparr>"

definition sim_initialize :: "'m goipmi \<Rightarrow> ('m, 's) Simulator \<Rightarrow> ('m, 's) Simulator" where
  "sim_initialize gi s =
     SetHandler (gi_NetworkFunctionChassis gi) (gi_CommandSetSystemBootOptions gi)
       (setSystemBootOptionsHandler gi (sim_handler s))
     (SetHandler (gi_NetworkFunctionChassis gi) (gi_CommandChassisControl gi)
       (chassisControlHandler gi (sim_handler s))
     (SetHandler (gi_NetworkFunctionChassis gi) (gi_CommandChassisStatus gi)
       (chassisStatusHandler gi (sim_handler s)) s))"

text \<open>What \<open>Run\<close> serves: a registered command goes to its handler.\<close>

definition sim_serve :: "'m goipmi \<Rightarrow> ('m, 's) Simulator \<Rightarrow> 8 word \<Rightarrow> 8 word \<Rightarrow> ('m \<Rightarrow> ('s, ipmi_response) op) option" where
  "sim_serve gi s netfn cmd = sim_table (sim_initialize gi s) (netfn, cmd)"

lemma sim_serves:
  assumes "goipmi_constants gi"
  shows "sim_serve gi (NewSimulator ip port rm) (gi_NetworkFunctionChassis gi) (gi_CommandChassisControl gi)
           = Some (chassisControlHandler gi (NewIpmiHandler rm))"
    and "sim_serve gi (NewSimulator ip port rm) (gi_NetworkFunctionChassis gi) (gi_CommandChassisStatus gi)
           = Some (chassisStatusHandler gi (NewIpmiHandler rm))"
    and "sim_serve gi (NewSimulator ip port rm) (gi_NetworkFunctionChassis gi) (gi_CommandSetSystemBootOptions gi)
           = Some (setSystemBootOptionsHandler gi (NewIpmiHandler rm))"
  using assms
  by (auto simp: sim_serve_def sim_initialize_def SetHandler_def NewSimulator_def goipmi_constants_def)

section \<open>What the handlers do to a resource manager\<close>

lemma control_ops:
  assumes "goipmi_constants gi" and "gi_control_request gi m = Inr c"
  shows "chassisControlHandler gi h m s =
    attempt (if c \<in> {gi_ControlPowerDown gi, gi_ControlPowerAcpiSoft gi} then PowerOff (ih_rm h)
             else if c = gi_ControlPowerUp gi then PowerOn (ih_rm h)
             else if c \<in> {gi_ControlPowerCycle gi, gi_ControlPowerHardReset gi} then PowerCycle (ih_rm h) else ret ())
      (\<lambda>_. ret (ChassisControlResponse (gi_ErrInvalidState gi)))
      (\<lambda>_. ret (ChassisControlResponse (gi_CommandCompleted gi))) s"
  using assms by (simp add: chassisControlHandler_def)

lemma boot_option_run:
  assumes "gi_boot_request gi m = Inr q" and "sb_Param q = 5" and "2 \<le> length (sb_Data q)"
    and "setSystemBootOptionsHandler gi (NewIpmiHandler (vm_resource_manager vc)) m s = (r, s')"
  obtains rb where "VM_SetBootDevice vc (if sb_Data q ! 1 = gi_BootDevicePxe gi then ''Pxe''
      else if sb_Data q ! 1 = gi_BootDeviceDisk gi then ''Hdd'' else '''') s = (rb, s')"
    and "r = (case rb of Ok _ \<Rightarrow> Ok (SetSystemBootOptionsResponse (gi_CommandCompleted gi))
      | Err _ \<Rightarrow> Ok (SetSystemBootOptionsResponse (gi_ErrUnspecified gi)) | Panic p \<Rightarrow> Panic p)"
proof -
  let ?act = "VM_SetBootDevice vc (if sb_Data q ! 1 = gi_BootDevicePxe gi then ''Pxe''
      else if sb_Data q ! 1 = gi_BootDeviceDisk gi then ''Hdd'' else '''')"
  have "attempt ?act (\<lambda>_. ret (SetSystemBootOptionsResponse (gi_ErrUnspecified gi)))
      (\<lambda>_. ret (SetSystemBootOptionsResponse (gi_CommandCompleted gi))) s = (r, s')"
    using assms by (simp add: setSystemBootOptionsHandler_def NewIpmiHandler_def vm_resource_manager_def Let_def cong: if_cong)
  then show thesis
    by (cases "?act s"; cases "fst (?act s)") (auto simp: attempt_def intro: that)
qed

context resource_manager
begin

lemma ipmi_keeps:
  "keeps inv (chassisControlHandler gi (NewIpmiHandler rm) m)"
  "keeps inv (chassisStatusHandler gi (NewIpmiHandler rm) m)"
  "keeps inv (setSystemBootOptionsHandler gi (NewIpmiHandler rm) m)"
  by (auto simp: chassisControlHandler_def chassisStatusHandler_def setSystemBootOptionsHandler_def
      NewIpmiHandler_def Let_def intro!: keepers keeps_ops split: sum.split)

lemma ipmi_machine:
  "frame machine (chassisControlHandler gi (NewIpmiHandler rm) m)"
  "frame machine (chassisStatusHandler gi (NewIpmiHandler rm) m)"
  "frame machine (setSystemBootOptionsHandler gi (NewIpmiHandler rm) m)"
  by (auto simp: chassisControlHandler_def chassisStatusHandler_def setSystemBootOptionsHandler_def
      NewIpmiHandler_def Let_def intro!: frames frame_machine split: sum.split)

text \<open>No IPMI command touches the virtual media document, and only a boot option the system document.\<close>

lemma ipmi_media:
  "frame media (chassisControlHandler gi (NewIpmiHandler rm) m)"
  "frame media (chassisStatusHandler gi (NewIpmiHandler rm) m)"
  "frame media (setSystemBootOptionsHandler gi (NewIpmiHandler rm) m)"
  by (auto simp: chassisControlHandler_def chassisStatusHandler_def setSystemBootOptionsHandler_def
      NewIpmiHandler_def Let_def intro!: frames frame_media split: sum.split)

lemma ipmi_system:
  "frame system (chassisControlHandler gi (NewIpmiHandler rm) m)"
  "frame system (chassisStatusHandler gi (NewIpmiHandler rm) m)"
  by (auto simp: chassisControlHandler_def chassisStatusHandler_def
      NewIpmiHandler_def Let_def intro!: frames frame_system split: sum.split)

end

section \<open>Properties\<close>

text \<open>A codec to try the handlers with: the message is the request, and the constants are small.\<close>

definition demo_gi :: "(8 word list) goipmi" where
  "demo_gi =
     \<lparr>gi_control_request = (\<lambda>m. case m of [] \<Rightarrow> Inl 0xC7 | c # _ \<Rightarrow> Inr c),
      gi_boot_request = (\<lambda>m. case m of [] \<Rightarrow> Inl 0xC7 | p # ds \<Rightarrow> Inr \<lparr>sb_Param = p, sb_Data = ds\<rparr>),
      gi_ControlPowerDown = 0, gi_ControlPowerUp = 1, gi_ControlPowerCycle = 2, gi_ControlPowerHardReset = 3,
      gi_ControlPowerAcpiSoft = 5, gi_BootDevicePxe = 0x04, gi_BootDeviceDisk = 0x08,
      gi_CommandCompleted = 0, gi_ErrInvalidState = 0xD5, gi_ErrUnspecified = 0xFF,
      gi_SystemPower = 1, gi_PowerOverload = 2, gi_NetworkFunctionChassis = 0,
      gi_CommandChassisStatus = 1, gi_CommandChassisControl = 2, gi_CommandSetSystemBootOptions = 8\<rparr>"

lemma demo_gi_constants [simp]: "goipmi_constants demo_gi"
  by (simp add: goipmi_constants_def demo_gi_def)


lemma demo_control_run:
  "chassisControlHandler demo_gi (NewIpmiHandler (vm_resource_manager mem_client)) [5] demo
   = (Ok (ChassisControlResponse 0), snd (chassisControlHandler demo_gi (NewIpmiHandler (vm_resource_manager mem_client)) [5] demo))"
  by (rule run_fst) code_simp


text \<open>C33. A boot option command on every branch.  A message that is no boot option request is answered with its
  decoding error, a parameter other than the boot flags is acknowledged, and boot flags of less than
  two bytes make the handler index out of range; none of these has an effect.  Otherwise the second byte
  names PXE, the disk, or neither, which clears every boot order.  Then the answer is CommandCompleted
  and the device is chosen, or the answer is ErrUnspecified or a panic and cluster and document are as
  before.  Without a machine the answer is ErrUnspecified; on an API server that answers it is
  CommandCompleted exactly when the machine has such a device, and a panic exactly when the list of
  such devices is present but empty.\<close>

theorem ipmi_boot_options:
  assumes "goipmi_constants gi" and "vm_api vc view"
    and "setSystemBootOptionsHandler gi (NewIpmiHandler (vm_resource_manager vc)) m s = (r, s')"
  shows "case gi_boot_request gi m of
      Inl err \<Rightarrow> r = Ok (ErrorResponse err) \<and> s' = s
    | Inr q \<Rightarrow>
        if sb_Param q \<noteq> 5 then r = Ok (SetSystemBootOptionsResponse (gi_CommandCompleted gi)) \<and> s' = s
        else if length (sb_Data q) < 2 then r = Panic IndexOutOfRange \<and> s' = s
        else let d = if sb_Data q ! 1 = gi_BootDevicePxe gi then ''Pxe''
                     else if sb_Data q ! 1 = gi_BootDeviceDisk gi then ''Hdd'' else '''';
                 completed = Ok (SetSystemBootOptionsResponse (gi_CommandCompleted gi));
                 unspecified = Ok (SetSystemBootOptionsResponse (gi_ErrUnspecified gi))
             in (r = completed \<and> boot_chosen view d s s'
                 \<or> (r = unspecified \<or> (\<exists>p. r = Panic p)) \<and> cluster view s' = cluster view s
                    \<and> m_computerSystem s' = m_computerSystem s)
               \<and> (the_vm view s = None \<longrightarrow> r = unspecified)
               \<and> (\<forall>vm. vm_api_live vc view \<and> the_vm view s = Some vm \<longrightarrow>
                    (r = completed \<longleftrightarrow> (\<exists>t n. vm_Template vm = Some t \<and> boot_list d t = Some (Suc n)))
                    \<and> ((\<exists>p. r = Panic p) \<longleftrightarrow> (\<exists>t. vm_Template vm = Some t \<and> boot_list d t = Some 0)))"
proof (cases "gi_boot_request gi m")
  case (Inr q)
  let ?d = "if sb_Data q ! 1 = gi_BootDevicePxe gi then ''Pxe'' else if sb_Data q ! 1 = gi_BootDeviceDisk gi then ''Hdd'' else ''''"
  let ?completed = "Ok (SetSystemBootOptionsResponse (gi_CommandCompleted gi))"
  let ?unspecified = "Ok (SetSystemBootOptionsResponse (gi_ErrUnspecified gi))"
  show ?thesis
  proof (cases "sb_Param q = 5 \<and> 2 \<le> length (sb_Data q)")
    case True
    obtain rb where b: "VM_SetBootDevice vc ?d s = (rb, s')"
      and r: "r = (case rb of Ok _ \<Rightarrow> ?completed | Err _ \<Rightarrow> ?unspecified | Panic p \<Rightarrow> Panic p)"
      using boot_option_run [OF Inr _ _ assms(3)] True by auto
    have ne: "?completed \<noteq> ?unspecified" using assms(1) by (simp add: goipmi_constants_def)
    have "r = ?completed \<longleftrightarrow> rb = Ok ()" and "(\<exists>p. r = Panic p) \<longleftrightarrow> (\<exists>p. rb = Panic p)"
      and "r = ?unspecified \<longleftrightarrow> (\<exists>e. rb = Err e)"
      using ne unfolding r by (cases rb; simp)+
    with SetBootDevice_ends [OF assms(2) b] boot_device_outcomes [OF assms(2) _ _ b] True Inr show ?thesis
      by (cases rb) (simp_all add: Let_def)
  qed (use assms(3) Inr in \<open>auto simp: setSystemBootOptionsHandler_def\<close>)
qed (use assms(3) in \<open>auto simp: setSystemBootOptionsHandler_def\<close>)

theorem ipmi_boot_options_witness:
  "fst (setSystemBootOptionsHandler demo_gi (NewIpmiHandler (vm_resource_manager mem_client)) [5, 0x80, 4] demo)
     = Ok (SetSystemBootOptionsResponse 0)
   \<and> boot_chosen mem_view ''Pxe'' demo
     (snd (setSystemBootOptionsHandler demo_gi (NewIpmiHandler (vm_resource_manager mem_client)) [5, 0x80, 4] demo))
   \<and> (\<exists>p. fst (setSystemBootOptionsHandler demo_gi (NewIpmiHandler (vm_resource_manager mem_client)) [5, 0x80, 4] bare) = Panic p)"
proof -
  let ?run = "setSystemBootOptionsHandler demo_gi (NewIpmiHandler (vm_resource_manager mem_client)) [5, 0x80, 4]"
  have q: "gi_boot_request demo_gi [5, 0x80, 4] = Inr \<lparr>sb_Param = 5, sb_Data = [0x80, 4]\<rparr>" "gi_BootDevicePxe demo_gi = 4"
    "gi_CommandCompleted demo_gi = 0" "gi_ErrUnspecified demo_gi = 0xFF"
    by (simp_all add: demo_gi_def)
  have "\<exists>vm t n. the_vm mem_view demo = Some vm \<and> vm_Template vm = Some t \<and> boot_list ''Pxe'' t = Some (Suc n)"
    using demo_runs(4) boot_device_outcomes [OF mem_api mem_live _ demo_runs(4)] SetBootDevice_chosen [OF mem_api demo_runs(4)]
    by (auto simp: boot_chosen_def)
  then obtain vm t n where vm: "the_vm mem_view demo = Some vm" "vm_Template vm = Some t" "boot_list ''Pxe'' t = Some (Suc n)"
    by blast
  have "\<exists>t. vm_Template bare_vm = Some t \<and> boot_list ''Pxe'' t = Some 0"
    by (simp add: bare_vm_def boot_list_def)
  with vm bare_vm ipmi_boot_options [OF demo_gi_constants mem_api surjective_pairing [of "?run demo"]]
    ipmi_boot_options [OF demo_gi_constants mem_api surjective_pairing [of "?run bare"]]
  show ?thesis by (auto simp: q Let_def)
qed

text \<open>Chassis status reports the readiness of the machine as the cluster has it, changes nothing, and
  never panics: a machine that is up as system power, one that is down as power overload, and an
  unreachable cluster as an invalid state.\<close>

lemma ipmi_chassis_status:
  assumes "goipmi_constants gi" and "vm_api vc view"
    and "chassisStatusHandler gi (NewIpmiHandler (vm_resource_manager vc)) m s = (r, s')"
  shows "cluster view s' = cluster view s
    \<and> (r = Ok (ChassisStatusResponse (gi_ErrInvalidState gi) 0)
       \<or> (\<exists>vm. the_vm view s = Some vm \<and> r = Ok (ChassisStatusResponse (gi_CommandCompleted gi)
             (if vm_Ready vm then gi_SystemPower gi else gi_PowerOverload gi))))"
proof -
  obtain rg t where g: "getVM vc s = (rg, t)" by force
  with get_call [OF assms(2) g] assms(3) show ?thesis
    by (cases rg) (auto simp: chassisStatusHandler_def NewIpmiHandler_def vm_resource_manager_def
        VM_GetPowerStatus_def attempt_def andThen_def)
qed

end
