(* ===== verification/Http.thy ===== *)
theory Http
  imports Prelude
begin

text \<open>
  The part of \<open>net/http\<close> the program touches, after the transport has done its work: a request
  with its method, path, credentials (\<open>r.BasicAuth()\<close> and the \<open>X-Auth-Token\<close> header, which is
  the empty string when absent) and body, and a response with its status code, headers and
  body.  The type of decoded request bodies and of JSON response values is left open.
\<close>

record 'b request =
  req_method :: string
  req_path :: string
  req_basic_auth :: "(string \<times> string) option"
  req_auth_token :: string
  req_user :: "string option"
  req_body :: 'b

datatype 'j body = NoBody | TextBody string | JsonBody 'j

record 'j response =
  resp_code :: nat
  resp_headers :: "(string \<times> string) list"
  resp_body :: "'j body"

text \<open>The status codes of \<open>net/http\<close> by name.\<close>

abbreviation "StatusOK \<equiv> (200::nat)"
abbreviation "StatusBadRequest \<equiv> (400::nat)"
abbreviation "StatusUnauthorized \<equiv> (401::nat)"
abbreviation "StatusNotFound \<equiv> (404::nat)"
abbreviation "StatusUnprocessableEntity \<equiv> (422::nat)"
abbreviation "StatusInternalServerError \<equiv> (500::nat)"
abbreviation "StatusNotImplemented \<equiv> (501::nat)"

type_synonym ('s, 'b, 'j) http_handler = "'b request \<Rightarrow> ('s, 'j response) op"

text \<open>\<open>http.Error\<close>: a plain-text body terminated by a newline.\<close>

definition http_error :: "(string \<times> string) list \<Rightarrow> string \<Rightarrow> nat \<Rightarrow> 'j response" where
  "http_error hs msg code =
     \<lparr>resp_code = code,
      resp_headers = hs @ [(''Content-Type'', ''text/plain; charset=utf-8''), (''X-Content-Type-Options'', ''nosniff'')],
      resp_body = TextBody (msg @ [CHR 0x0A])\<rparr>"

end
