(* ===== verification/Sha256.thy ===== *)
theory Sha256
  imports Prelude
begin

unbundle bit_operations_syntax

text \<open>
  The SHA-256 digest (\<open>crypto/sha256.Sum256\<close>) and the lower-case hexadecimal encoding
  (\<open>encoding/hex.EncodeToString\<close>) of the Go standard library, which \<open>generateToken\<close> of
  pkg/session/token.go uses to derive a session token.  Words are 32 bits wide and addition
  wraps; bytes are words of 8 bits.
  The only facts the development proves about the digest are about its
  shape: it always has 32 bytes and its hexadecimal form 64 digits.
\<close>

section \<open>The digest\<close>

type_synonym w32 = "32 word"
type_synonym w8 = "8 word"

definition rotr32 :: "nat \<Rightarrow> w32 \<Rightarrow> w32" where
  "rotr32 n x = drop_bit n x OR push_bit (32 - n) x"

definition sha_ch :: "w32 \<Rightarrow> w32 \<Rightarrow> w32 \<Rightarrow> w32" where
  "sha_ch x y z = (x AND y) XOR (NOT x AND z)"

definition sha_maj :: "w32 \<Rightarrow> w32 \<Rightarrow> w32 \<Rightarrow> w32" where
  "sha_maj x y z = (x AND y) XOR (x AND z) XOR (y AND z)"

definition sha_Sigma0 :: "w32 \<Rightarrow> w32" where
  "sha_Sigma0 x = rotr32 2 x XOR rotr32 13 x XOR rotr32 22 x"

definition sha_Sigma1 :: "w32 \<Rightarrow> w32" where
  "sha_Sigma1 x = rotr32 6 x XOR rotr32 11 x XOR rotr32 25 x"

definition sha_sigma0 :: "w32 \<Rightarrow> w32" where
  "sha_sigma0 x = rotr32 7 x XOR rotr32 18 x XOR drop_bit 3 x"

definition sha_sigma1 :: "w32 \<Rightarrow> w32" where
  "sha_sigma1 x = rotr32 17 x XOR rotr32 19 x XOR drop_bit 10 x"

text \<open>
  The constants are the first 32 bits of the fractional parts of roots of primes: cube roots of
  the first sixty-four for the rounds, square roots of the first eight for the initial state.
  \<open>int_root k b n r\<close> adds to \<open>r\<close> the lower \<open>b\<close> bits of the integer \<open>k\<close>-th root of \<open>n\<close>, bit by bit.
\<close>

fun int_root :: "nat \<Rightarrow> nat \<Rightarrow> nat \<Rightarrow> nat \<Rightarrow> nat" where
  "int_root k 0 n r = r"
| "int_root k (Suc b) n r = int_root k b n (if (r + 2 ^ b) ^ k \<le> n then r + 2 ^ b else r)"

definition root_fraction :: "nat \<Rightarrow> nat \<Rightarrow> w32" where
  "root_fraction k q = of_nat (int_root k 38 (q * 2 ^ (32 * k)) 0)"

definition small_primes :: "nat list" where
  "small_primes = filter (\<lambda>n. list_all (\<lambda>d. n mod d \<noteq> 0) [2..<n]) [2..<312]"

definition sha_K :: "w32 list" where
  "sha_K = map (root_fraction 3) (take 64 small_primes)"

definition sha_H0 :: "w32 list" where
  "sha_H0 = map (root_fraction 2) [2, 3, 5, 7, 11, 13, 17, 19]"

text \<open>
  The message schedule: \<open>schedule n w\<close> extends the last sixteen words (newest first) by \<open>n\<close>
  further ones.
\<close>

fun sha_schedule :: "nat \<Rightarrow> w32 list \<Rightarrow> w32 list" where
  "sha_schedule 0 w = w"
| "sha_schedule (Suc n) w =
     sha_schedule n ((sha_sigma1 (w ! 1) + w ! 6 + sha_sigma0 (w ! 14) + w ! 15) # w)"

fun sha_round :: "w32 list \<Rightarrow> w32 \<times> w32 \<Rightarrow> w32 list" where
  "sha_round [a, b, c, d, e, f, g, h] (k, w) =
     (let t1 = h + sha_Sigma1 e + sha_ch e f g + k + w;
          t2 = sha_Sigma0 a + sha_maj a b c
      in [t1 + t2, a, b, c, d + t1, e, f, g])"
| "sha_round st _ = st"

fun word_of_bytes :: "w8 list \<Rightarrow> w32 list" where
  "word_of_bytes (a # b # c # d # bs) =
     (push_bit 24 (ucast a) OR push_bit 16 (ucast b) OR push_bit 8 (ucast c) OR ucast d) # word_of_bytes bs"
| "word_of_bytes _ = []"

definition sha_block :: "w32 list \<Rightarrow> w8 list \<Rightarrow> w32 list" where
  "sha_block st block =
     (let ws = rev (sha_schedule 48 (rev (word_of_bytes block)))
      in map (\<lambda>(x, y). x + y) (zip st (foldl sha_round st (zip sha_K ws))))"

fun sha_blocks :: "nat \<Rightarrow> w32 list \<Rightarrow> w8 list \<Rightarrow> w32 list" where
  "sha_blocks 0 st bs = st"
| "sha_blocks (Suc n) st bs = sha_blocks n (sha_block st (take 64 bs)) (drop 64 bs)"

text \<open>The four big-endian bytes of a word, and the length field of the padding.\<close>

definition bytes_of_word :: "w32 \<Rightarrow> w8 list" where
  "bytes_of_word w = [ucast (drop_bit 24 w), ucast (drop_bit 16 w), ucast (drop_bit 8 w), ucast w]"

definition length_field :: "nat \<Rightarrow> w8 list" where
  "length_field n = bytes_of_word (of_nat (8 * n div 4294967296)) @ bytes_of_word (of_nat (8 * n))"

definition sha_pad :: "w8 list \<Rightarrow> w8 list" where
  "sha_pad bs =
     bs @ [128] @ replicate ((119 - length bs mod 64) mod 64) 0 @ length_field (length bs)"

definition sha256 :: "w8 list \<Rightarrow> w8 list" where
  "sha256 bs =
     (let p = sha_pad bs
      in concat (map bytes_of_word (sha_blocks (length p div 64) sha_H0 p)))"

section \<open>Hexadecimal\<close>

fun hex_encode :: "w8 list \<Rightarrow> string" where
  "hex_encode [] = []"
| "hex_encode (b # bs) =
     hex_digit (unat (drop_bit 4 b)) # hex_digit (unat (b AND 15)) # hex_encode bs"

section \<open>Shape of the digest\<close>

lemma length_sha_round: "length (sha_round st kw) = length st"
  by (cases "(st, kw)" rule: sha_round.cases) (simp_all add: Let_def)

lemma length_foldl_sha_round: "length (foldl sha_round st ks) = length st"
  by (induction ks arbitrary: st) (simp_all add: length_sha_round)

lemma length_sha_block: "length (sha_block st b) = length st"
  by (simp add: sha_block_def Let_def length_foldl_sha_round)

lemma length_sha_blocks: "length (sha_blocks n st bs) = length st"
  by (induction n arbitrary: st bs) (simp_all add: length_sha_block)

lemma length_concat_bytes: "length (concat (map bytes_of_word ws)) = 4 * length ws"
  by (induction ws) (simp_all add: bytes_of_word_def)

lemma length_sha256: "length (sha256 bs) = 32"
  by (simp add: sha256_def Let_def length_concat_bytes length_sha_blocks sha_H0_def)

text \<open>The padding fills the last block exactly, so \<open>sha_blocks\<close> consumes the whole message.\<close>

lemma pad_arith: "((n::nat) + 9 + (119 - n mod 64) mod 64) mod 64 = 0"
proof -
  have r: "n mod 64 < 64" by simp
  have "(n + 9 + (119 - n mod 64) mod 64) mod 64 = (n mod 64 + 9 + (119 - n mod 64)) mod 64"
    by (metis (no_types) add.assoc mod_add_left_eq mod_add_right_eq)
  also have "n mod 64 + 9 + (119 - n mod 64) = 128" using r by linarith
  finally show ?thesis by simp
qed

lemma sha_pad_blocks: "length (sha_pad bs) mod 64 = 0"
proof -
  have "(length bs + 9 + (119 - length bs mod 64) mod 64) mod 64 = 0"
    by (rule pad_arith)
  then show ?thesis
    by (simp add: sha_pad_def length_field_def bytes_of_word_def add_ac)
qed

lemma length_hex_encode: "length (hex_encode bs) = 2 * length bs"
  by (induction bs) simp_all

abbreviation hex_digits :: "char set" where
  "hex_digits \<equiv> set ''0123456789abcdef''"

lemma hex_digit_in: "n < 16 \<Longrightarrow> hex_digit n \<in> hex_digits"
  unfolding hex_digit_def by (rule nth_mem) simp

lemma unat_high_nibble: "unat (drop_bit 4 (b :: w8)) < 16"
proof -
  have "unat b < 256" using unsigned_less [of b, where 'a = nat] by simp
  then have "unat b div 16 < 16" by linarith
  then show ?thesis by (simp only: unat_drop_bit_eq) (simp add: drop_bit_eq_div)
qed

lemma unat_low_nibble: "unat (b AND 15 :: w8) < 16"
proof -
  have "unat (b AND 15) \<le> unat (15 :: w8)"
    by (rule word_and_le1 [THEN word_le_nat_alt [THEN iffD1]])
  then show ?thesis by simp
qed

lemma set_hex_encode: "set (hex_encode bs) \<subseteq> hex_digits"
proof (induction bs)
  case (Cons b bs)
  then show ?case
    using hex_digit_in [OF unat_high_nibble [of b]] hex_digit_in [OF unat_low_nibble [of b]]
    by (simp only: hex_encode.simps set_simps insert_subset simp_thms)
qed simp

end
