(* ===== verification/Session.thy ===== *)
theory Session
  imports Http Sha256
begin

text \<open>
  pkg/session/token.go: the process-wide token store \<open>ts\<close>, its operations, and the
  authentication middleware of the Redfish server.  The Go map from tokens to session
  information is a map; where the code ranges over it, the order in which it visits the tokens
  is an argument, since Go leaves it open.  Each operation holds the store's lock for its whole
  duration, so operations are atomic steps.
\<close>

section \<open>Tokens\<close>

record TokenInfo =
  ti_ID :: string
  ti_Username :: string

definition NewTokenInfo :: "string \<Rightarrow> string \<Rightarrow> TokenInfo" where
  "NewTokenInfo ident username = \<lparr>ti_ID = ident, ti_Username = username\<rparr>"

text \<open>
  \<open>encoding/json\<close> on a string: HTML-unsafe and control bytes are escaped, invalid UTF-8 is
  replaced, and the two Unicode line separators are written as escapes.  \<open>utf8_size\<close> is the
  length of the encoded rune at the head, or 0 when the bytes are not valid UTF-8.
\<close>

definition cont_byte :: "nat \<Rightarrow> bool" where
  "cont_byte b \<longleftrightarrow> 0x80 \<le> b \<and> b \<le> 0xBF"

fun utf8_size :: "nat list \<Rightarrow> nat" where
  "utf8_size (a # b # c # d # bs) =
     (if 0xC2 \<le> a \<and> a \<le> 0xDF \<and> cont_byte b then 2
      else if 0xE0 \<le> a \<and> a \<le> 0xEF \<and> cont_byte b \<and> cont_byte c
        \<and> (a = 0xE0 \<longrightarrow> 0xA0 \<le> b) \<and> (a = 0xED \<longrightarrow> b \<le> 0x9F) then 3
      else if 0xF0 \<le> a \<and> a \<le> 0xF4 \<and> cont_byte b \<and> cont_byte c \<and> cont_byte d
        \<and> (a = 0xF0 \<longrightarrow> 0x90 \<le> b) \<and> (a = 0xF4 \<longrightarrow> b \<le> 0x8F) then 4
      else 0)"
| "utf8_size [a, b, c] =
     (if 0xC2 \<le> a \<and> a \<le> 0xDF \<and> cont_byte b then 2
      else if 0xE0 \<le> a \<and> a \<le> 0xEF \<and> cont_byte b \<and> cont_byte c
        \<and> (a = 0xE0 \<longrightarrow> 0xA0 \<le> b) \<and> (a = 0xED \<longrightarrow> b \<le> 0x9F) then 3
      else 0)"
| "utf8_size [a, b] = (if 0xC2 \<le> a \<and> a \<le> 0xDF \<and> cont_byte b then 2 else 0)"
| "utf8_size _ = 0"

definition bytes_of :: "string \<Rightarrow> nat list" where
  "bytes_of s = map of_char s"

definition escape_byte :: "nat \<Rightarrow> nat list" where
  "escape_byte b =
     (if b = 0x22 \<or> b = 0x5C then [0x5C, b]
      else if b = 8 then bytes_of [CHR 0x5C, CHR ''b'']
      else if b = 12 then bytes_of [CHR 0x5C, CHR ''f'']
      else if b = 10 then bytes_of [CHR 0x5C, CHR ''n'']
      else if b = 13 then bytes_of [CHR 0x5C, CHR ''r'']
      else if b = 9 then bytes_of [CHR 0x5C, CHR ''t'']
      else if b < 0x20 \<or> b = 0x26 \<or> b = 0x3C \<or> b = 0x3E
        then bytes_of ([CHR 0x5C] @ ''u00'' @ [hex_digit (b div 16), hex_digit (b mod 16)])
      else [b])"

function json_chars :: "nat list \<Rightarrow> nat list" where
  "json_chars [] = []"
| "json_chars (b # bs) =
     (if b < 0x80 then escape_byte b @ json_chars bs
      else if utf8_size (b # bs) = 0 then bytes_of ([CHR 0x5C] @ ''ufffd'') @ json_chars bs
      else if take 2 (b # bs) = [0xE2, 0x80] \<and> (hd (drop 2 (b # bs)) = 0xA8 \<or> hd (drop 2 (b # bs)) = 0xA9)
        then bytes_of ([CHR 0x5C] @ ''u202'' @ [hex_digit (hd (drop 2 (b # bs)) mod 16)])
          @ json_chars (drop 2 bs)
      else take (utf8_size (b # bs)) (b # bs) @ json_chars (drop (utf8_size (b # bs) - 1) bs))"
  by pat_completeness auto
termination
  by (relation "measure length") auto

definition json_string :: "string \<Rightarrow> nat list" where
  "json_string s = [0x22] @ json_chars (bytes_of s) @ [0x22]"

definition quote_key :: "string \<Rightarrow> nat list" where
  "quote_key k = [0x22] @ bytes_of k @ [0x22, 0x3A]"

text \<open>\<open>json.Marshal(tokenInfo)\<close>: the two exported fields in declaration order.\<close>

definition token_json :: "TokenInfo \<Rightarrow> nat list" where
  "token_json ti =
     [0x7B] @ quote_key ''ID'' @ json_string (ti_ID ti)
     @ [0x2C] @ quote_key ''Username'' @ json_string (ti_Username ti) @ [0x7D]"

definition generateToken :: "TokenInfo \<Rightarrow> string" where
  "generateToken ti = hex_encode (sha256 (map of_nat (token_json ti)))"

section \<open>The token store\<close>

record TokenStore =
  ts_store :: "string \<rightharpoonup> TokenInfo"

definition init_ts :: TokenStore where
  "init_ts = \<lparr>ts_store = Map.empty\<rparr>"

definition AddToken :: "TokenInfo \<Rightarrow> TokenStore \<Rightarrow> string \<times> TokenStore" where
  "AddToken ti ts =
     (let token = generateToken ti
      in (token, ts\<lparr>ts_store := (ts_store ts)(token \<mapsto> ti)\<rparr>))"

definition GetToken :: "string \<Rightarrow> TokenStore \<Rightarrow> TokenInfo option" where
  "GetToken token ts = ts_store ts token"

definition RemoveToken :: "string \<Rightarrow> TokenStore \<Rightarrow> TokenStore" where
  "RemoveToken token ts = ts\<lparr>ts_store := (ts_store ts)(token := None)\<rparr>"

text \<open>
  A \<open>range\<close> visits every token once: \<open>visited\<close> are the tokens in the order of this particular
  loop, which returns at the first one of the session.
\<close>

type_synonym range_order = "string list"

definition some_order :: "range_order \<Rightarrow> TokenStore \<Rightarrow> bool" where
  "some_order visited ts \<longleftrightarrow> distinct visited \<and> set visited = dom (ts_store ts)"

definition GetTokenFromSessionID :: "range_order \<Rightarrow> string \<Rightarrow> TokenStore \<Rightarrow> TokenInfo option" where
  "GetTokenFromSessionID visited sessionID ts =
     find (\<lambda>tokenInfo. ti_ID tokenInfo = sessionID) (List.map_filter (ts_store ts) visited)"

section \<open>The authentication middleware\<close>

definition unauthorized :: "'j response" where
  "unauthorized =
     http_error [(''WWW-Authenticate'', ''Basic realm='' @ quoted ''Redfish'')] ''Unauthorized'' StatusUnauthorized"

definition AuthMiddleware ::
  "('s \<Rightarrow> TokenStore) \<Rightarrow> string \<Rightarrow> string \<Rightarrow> ('s, 'b, 'j) http_handler \<Rightarrow> ('s, 'b, 'j) http_handler" where
  "AuthMiddleware ts bmcUser bmcPassword next r s =
     (case req_basic_auth r of
        Some (user, pass) \<Rightarrow>
          if user \<noteq> bmcUser \<or> pass \<noteq> bmcPassword then (Ok unauthorized, s)
          else next (r\<lparr>req_user := Some user\<rparr>) s
      | None \<Rightarrow>
          (let token = req_auth_token r
           in if token = '''' then (Ok unauthorized, s)
              else if GetToken token (ts s) = None then (Ok unauthorized, s)
              else next r s))"

section \<open>The contract of a token store\<close>

text \<open>
  What the Redfish server relies on: a store over which tokens are issued for session
  information, looked up and revoked.  \<open>store_run\<close> replays a history of issues and
  revocations.  Whatever else happens to the store, an issued token stays valid until it is
  revoked itself, and the invariant holds throughout.
\<close>

datatype ('tok, 'info) store_event = Issued 'info | Revoked 'tok

fun store_run :: "('info \<Rightarrow> 'ts \<Rightarrow> 'tok \<times> 'ts) \<Rightarrow> ('tok \<Rightarrow> 'ts \<Rightarrow> 'ts) \<Rightarrow>
    ('tok, 'info) store_event list \<Rightarrow> 'ts \<Rightarrow> 'ts" where
  "store_run add remove [] ts = ts"
| "store_run add remove (Issued i # es) ts = store_run add remove es (snd (add i ts))"
| "store_run add remove (Revoked t # es) ts = store_run add remove es (remove t ts)"

lemma store_run_append:
  "store_run add remove (xs @ ys) ts = store_run add remove ys (store_run add remove xs ts)"
  by (induction add remove xs ts rule: store_run.induct) simp_all

locale token_store =
  fixes add :: "'info \<Rightarrow> 'ts \<Rightarrow> 'tok \<times> 'ts"
    and lookup :: "'tok \<Rightarrow> 'ts \<Rightarrow> 'info option"
    and remove :: "'tok \<Rightarrow> 'ts \<Rightarrow> 'ts"
    and tokenOf :: "'info \<Rightarrow> 'tok"
    and inv :: "'ts \<Rightarrow> bool"
  assumes fst_add: "fst (add i ts) = tokenOf i"
    and lookup_add: "inv ts \<Longrightarrow> lookup t (snd (add i ts)) = (if t = tokenOf i then Some i else lookup t ts)"
    and lookup_remove: "inv ts \<Longrightarrow> lookup t (remove t' ts) = (if t = t' then None else lookup t ts)"
    and lookup_token: "inv ts \<Longrightarrow> lookup t ts = Some i \<Longrightarrow> t = tokenOf i"
    and inv_add: "inv ts \<Longrightarrow> inv (snd (add i ts))"
    and inv_remove: "inv ts \<Longrightarrow> inv (remove t ts)"
begin

lemma run_inv: "inv ts \<Longrightarrow> inv (store_run add remove es ts)"
proof (induction es arbitrary: ts)
  case (Cons e es)
  then show ?case by (cases e) (simp_all add: inv_add inv_remove)
qed simp

lemma issued_then_valid:
  "inv ts \<Longrightarrow> Revoked (tokenOf i) \<notin> set es \<Longrightarrow>
   \<exists>j. lookup (tokenOf i) (store_run add remove (Issued i # es) ts) = Some j \<and> tokenOf j = tokenOf i"
proof (induction es rule: rev_induct)
  case Nil
  then show ?case by (simp add: lookup_add)
next
  case (snoc e es)
  have "inv (store_run add remove (Issued i # es) ts)" using snoc.prems(1) by (rule run_inv)
  with snoc store_run_append [of add remove "Issued i # es" "[e]" ts] show ?case
    by (cases e) (auto simp: lookup_add lookup_remove)
qed

end

section \<open>The store of the code meets the contract\<close>

definition token_wf :: "TokenStore \<Rightarrow> bool" where
  "token_wf ts \<longleftrightarrow> finite (dom (ts_store ts)) \<and> (\<forall>t i. ts_store ts t = Some i \<longrightarrow> t = generateToken i)"

lemma token_wf_init [simp]: "token_wf init_ts"
  by (simp add: token_wf_def init_ts_def)

lemma token_wf_lookup: "token_wf ts \<Longrightarrow> GetToken t ts = Some i \<Longrightarrow> t = generateToken i"
  by (simp add: token_wf_def GetToken_def)

lemma token_wf_AddToken: "token_wf ts \<Longrightarrow> token_wf (snd (AddToken i ts))"
  by (auto simp: token_wf_def AddToken_def Let_def)

lemma token_wf_RemoveToken: "token_wf ts \<Longrightarrow> token_wf (RemoveToken t ts)"
  by (auto simp: token_wf_def RemoveToken_def)

interpretation session_store: token_store AddToken GetToken RemoveToken generateToken token_wf
proof unfold_locales
  show "fst (AddToken i ts) = generateToken i" for i ts
    by (simp add: AddToken_def Let_def)
  show "GetToken t (snd (AddToken i ts)) = (if t = generateToken i then Some i else GetToken t ts)"
    for t i ts by (simp add: GetToken_def AddToken_def Let_def)
  show "GetToken t (RemoveToken t' ts) = (if t = t' then None else GetToken t ts)" for t t' ts
    by (simp add: GetToken_def RemoveToken_def)
qed (simp_all add: token_wf_AddToken token_wf_RemoveToken token_wf_lookup)

section \<open>Tokens and session ids\<close>

lemma length_generateToken: "length (generateToken ti) = 64"
  by (simp add: generateToken_def length_hex_encode length_sha256)

lemma generateToken_not_empty: "generateToken ti \<noteq> ''''"
  using length_generateToken [of ti] by force

lemma generateToken_hex: "set (generateToken ti) \<subseteq> hex_digits"
  by (simp only: generateToken_def set_hex_encode)

text \<open>
  A string that is not as long as a token is the key of no entry, so removing it changes
  nothing: this is what happens to the 36-character session ids that \<open>DeleteSession\<close> passes.
\<close>

lemma RemoveToken_no_token:
  assumes "token_wf ts" and "length sid \<noteq> 64"
  shows "RemoveToken sid ts = ts"
proof -
  have "ts_store ts sid = None"
    using assms length_generateToken by (cases "ts_store ts sid") (auto simp: token_wf_def)
  then show ?thesis by (simp add: RemoveToken_def fun_upd_idem)
qed

text \<open>A range looks at exactly the sessions of the store, and finds one when there is one.\<close>

lemma visited_infos: "some_order visited ts \<Longrightarrow> set (List.map_filter (ts_store ts) visited) = ran (ts_store ts)"
  by (force simp: some_order_def List.map_filter_def ran_def)

lemma GetTokenFromSessionID_None_iff:
  "some_order visited ts \<Longrightarrow> GetTokenFromSessionID visited sid ts = None \<longleftrightarrow> (\<forall>i \<in> ran (ts_store ts). ti_ID i \<noteq> sid)"
  by (auto simp: GetTokenFromSessionID_def find_None_iff visited_infos)

lemma GetTokenFromSessionID_SomeD:
  assumes "some_order visited ts" and "GetTokenFromSessionID visited sid ts = Some i"
  shows "ti_ID i = sid \<and> i \<in> ran (ts_store ts)"
  using assms(2) visited_infos [OF assms(1)]
  by (auto simp: GetTokenFromSessionID_def find_Some_iff dest: nth_mem)

text \<open>An issued token is 64 lower-case hexadecimal digits, whatever the session and the user are called, and
it is at once valid for the session it was issued for.\<close>

lemma issued_token_shape:
  "length (fst (AddToken ti ts)) = 64 \<and> set (fst (AddToken ti ts)) \<subseteq> hex_digits
     \<and> GetToken (fst (AddToken ti ts)) (snd (AddToken ti ts)) = Some ti"
  by (intro conjI; simp only: AddToken_def Let_def fst_conv length_generateToken generateToken_hex)
    (simp add: GetToken_def)

end
