(* ===== verification/ServiceSchema.thy ===== *)
theory ServiceSchema
  imports DocumentSchema
begin

text \<open>
  The rest of the generated data model that the implemented services touch, field by field: the
  service root, the collections, the operating system and the error message they answer with, and
  the documents and action bodies of a system, a manager, the session service, the BIOS and the boot
  options, which are decoded and checked before a stub answers.
\<close>

section \<open>Limits other than zero\<close>

definition errMsgMaxValueConstraint :: string where
  "errMsgMaxValueConstraint = ''provided parameter is not respecting maximum value constraint''"

definition at_least :: "int \<Rightarrow> string \<Rightarrow> int \<Rightarrow> go_error option" where
  "at_least least name v = (if v < least then Some (ParsingError name (PlainError errMsgMinValueConstraint)) else None)"

definition at_most :: "int \<Rightarrow> string \<Rightarrow> int \<Rightarrow> go_error option" where
  "at_most most name v = (if most < v then Some (ParsingError name (PlainError errMsgMaxValueConstraint)) else None)"

section \<open>ServiceRootV1161Links\<close>

record ServiceRootV1161Links =
  srlinks_ManagerProvidingService :: OdataV4IdRef
  srlinks_Oem :: "json gomap"
  srlinks_Sessions :: OdataV4IdRef

definition zero_ServiceRootV1161Links :: ServiceRootV1161Links where
  "zero_ServiceRootV1161Links = \<lparr>
     srlinks_ManagerProvidingService = zero_OdataV4IdRef, srlinks_Oem = None,
     srlinks_Sessions = zero_OdataV4IdRef\<rparr>"

definition AssertServiceRootV1161LinksRequired :: "field_order \<Rightarrow> ServiceRootV1161Links \<Rightarrow> go_error option" where
  "AssertServiceRootV1161LinksRequired ord obj = first_error
     [required ord [(''Sessions'', srlinks_Sessions obj = zero_OdataV4IdRef)],
      AssertOdataV4IdRefRequired (srlinks_ManagerProvidingService obj),
      AssertOdataV4IdRefRequired (srlinks_Sessions obj)]"

definition AssertServiceRootV1161LinksConstraints :: "ServiceRootV1161Links \<Rightarrow> go_error option" where
  "AssertServiceRootV1161LinksConstraints obj = first_error
     [AssertOdataV4IdRefConstraints (srlinks_ManagerProvidingService obj),
      AssertOdataV4IdRefConstraints (srlinks_Sessions obj)]"

section \<open>ServiceRootV1161DeepOperations\<close>

record ServiceRootV1161DeepOperations =
  srdeep_DeepPATCH :: bool
  srdeep_DeepPOST :: bool
  srdeep_MaxLevels :: int

definition zero_ServiceRootV1161DeepOperations :: ServiceRootV1161DeepOperations where
  "zero_ServiceRootV1161DeepOperations = \<lparr>
     srdeep_DeepPATCH = False, srdeep_DeepPOST = False, srdeep_MaxLevels = 0\<rparr>"

definition AssertServiceRootV1161DeepOperationsRequired :: "ServiceRootV1161DeepOperations \<Rightarrow> go_error option" where
  "AssertServiceRootV1161DeepOperationsRequired obj = None"

definition AssertServiceRootV1161DeepOperationsConstraints :: "ServiceRootV1161DeepOperations \<Rightarrow> go_error option" where
  "AssertServiceRootV1161DeepOperationsConstraints obj = first_error
     [at_least 1 ''MaxLevels'' (srdeep_MaxLevels obj)]"

section \<open>ServiceRootV1161Expand\<close>

record ServiceRootV1161Expand =
  srexpand_ExpandAll :: bool
  srexpand_Levels :: bool
  srexpand_Links :: bool
  srexpand_MaxLevels :: int
  srexpand_NoLinks :: bool

definition zero_ServiceRootV1161Expand :: ServiceRootV1161Expand where
  "zero_ServiceRootV1161Expand = \<lparr>
     srexpand_ExpandAll = False, srexpand_Levels = False, srexpand_Links = False, srexpand_MaxLevels = 0,
     srexpand_NoLinks = False\<rparr>"

definition AssertServiceRootV1161ExpandRequired :: "ServiceRootV1161Expand \<Rightarrow> go_error option" where
  "AssertServiceRootV1161ExpandRequired obj = None"

definition AssertServiceRootV1161ExpandConstraints :: "ServiceRootV1161Expand \<Rightarrow> go_error option" where
  "AssertServiceRootV1161ExpandConstraints obj = first_error
     [at_least 1 ''MaxLevels'' (srexpand_MaxLevels obj)]"

section \<open>ServiceRootV1161ProtocolFeaturesSupported\<close>

record ServiceRootV1161ProtocolFeaturesSupported =
  srfeatures_DeepOperations :: ServiceRootV1161DeepOperations
  srfeatures_ExcerptQuery :: bool
  srfeatures_ExpandQuery :: ServiceRootV1161Expand
  srfeatures_FilterQuery :: bool
  srfeatures_MultipleHTTPRequests :: bool
  srfeatures_OnlyMemberQuery :: bool
  srfeatures_SelectQuery :: bool

definition zero_ServiceRootV1161ProtocolFeaturesSupported :: ServiceRootV1161ProtocolFeaturesSupported where
  "zero_ServiceRootV1161ProtocolFeaturesSupported = \<lparr>
     srfeatures_DeepOperations = zero_ServiceRootV1161DeepOperations, srfeatures_ExcerptQuery = False,
     srfeatures_ExpandQuery = zero_ServiceRootV1161Expand, srfeatures_FilterQuery = False,
     srfeatures_MultipleHTTPRequests = False, srfeatures_OnlyMemberQuery = False,
     srfeatures_SelectQuery = False\<rparr>"

definition AssertServiceRootV1161ProtocolFeaturesSupportedRequired :: "ServiceRootV1161ProtocolFeaturesSupported \<Rightarrow> go_error option" where
  "AssertServiceRootV1161ProtocolFeaturesSupportedRequired obj = first_error
     [AssertServiceRootV1161DeepOperationsRequired (srfeatures_DeepOperations obj),
      AssertServiceRootV1161ExpandRequired (srfeatures_ExpandQuery obj)]"

definition AssertServiceRootV1161ProtocolFeaturesSupportedConstraints :: "ServiceRootV1161ProtocolFeaturesSupported \<Rightarrow> go_error option" where
  "AssertServiceRootV1161ProtocolFeaturesSupportedConstraints obj = first_error
     [AssertServiceRootV1161DeepOperationsConstraints (srfeatures_DeepOperations obj),
      AssertServiceRootV1161ExpandConstraints (srfeatures_ExpandQuery obj)]"

section \<open>ServiceRootV1161ServiceRoot\<close>

record ServiceRootV1161ServiceRoot =
  sr_OdataContext :: string
  sr_OdataEtag :: string
  sr_OdataId :: string
  sr_OdataType :: string
  sr_AccountService :: OdataV4IdRef
  sr_AggregationService :: OdataV4IdRef
  sr_Cables :: OdataV4IdRef
  sr_CertificateService :: OdataV4IdRef
  sr_Chassis :: OdataV4IdRef
  sr_ComponentIntegrity :: OdataV4IdRef
  sr_CompositionService :: OdataV4IdRef
  sr_Description :: string
  sr_EventService :: OdataV4IdRef
  sr_Fabrics :: OdataV4IdRef
  sr_Facilities :: OdataV4IdRef
  sr_Id :: string
  sr_JobService :: OdataV4IdRef
  sr_JsonSchemas :: OdataV4IdRef
  sr_KeyService :: OdataV4IdRef
  sr_LicenseService :: OdataV4IdRef
  sr_Links :: ServiceRootV1161Links
  sr_Managers :: OdataV4IdRef
  sr_NVMeDomains :: OdataV4IdRef
  sr_Name :: string
  sr_Oem :: "json gomap"
  sr_PowerEquipment :: OdataV4IdRef
  sr_Product :: "string option"
  sr_ProtocolFeaturesSupported :: ServiceRootV1161ProtocolFeaturesSupported
  sr_RedfishVersion :: string
  sr_RegisteredClients :: OdataV4IdRef
  sr_Registries :: OdataV4IdRef
  sr_ResourceBlocks :: OdataV4IdRef
  sr_ServiceConditions :: OdataV4IdRef
  sr_ServiceIdentification :: string
  sr_SessionService :: OdataV4IdRef
  sr_Storage :: OdataV4IdRef
  sr_StorageServices :: OdataV4IdRef
  sr_StorageSystems :: OdataV4IdRef
  sr_Systems :: OdataV4IdRef
  sr_Tasks :: OdataV4IdRef
  sr_TelemetryService :: OdataV4IdRef
  sr_ThermalEquipment :: OdataV4IdRef
  sr_UUID :: "string option"
  sr_UpdateService :: OdataV4IdRef
  sr_Vendor :: "string option"

definition zero_ServiceRootV1161ServiceRoot :: ServiceRootV1161ServiceRoot where
  "zero_ServiceRootV1161ServiceRoot = \<lparr>
     sr_OdataContext = '''', sr_OdataEtag = '''', sr_OdataId = '''', sr_OdataType = '''',
     sr_AccountService = zero_OdataV4IdRef, sr_AggregationService = zero_OdataV4IdRef,
     sr_Cables = zero_OdataV4IdRef, sr_CertificateService = zero_OdataV4IdRef, sr_Chassis = zero_OdataV4IdRef,
     sr_ComponentIntegrity = zero_OdataV4IdRef, sr_CompositionService = zero_OdataV4IdRef,
     sr_Description = '''', sr_EventService = zero_OdataV4IdRef, sr_Fabrics = zero_OdataV4IdRef,
     sr_Facilities = zero_OdataV4IdRef, sr_Id = '''', sr_JobService = zero_OdataV4IdRef,
     sr_JsonSchemas = zero_OdataV4IdRef, sr_KeyService = zero_OdataV4IdRef,
     sr_LicenseService = zero_OdataV4IdRef, sr_Links = zero_ServiceRootV1161Links,
     sr_Managers = zero_OdataV4IdRef, sr_NVMeDomains = zero_OdataV4IdRef, sr_Name = '''', sr_Oem = None,
     sr_PowerEquipment = zero_OdataV4IdRef, sr_Product = None,
     sr_ProtocolFeaturesSupported = zero_ServiceRootV1161ProtocolFeaturesSupported, sr_RedfishVersion = '''',
     sr_RegisteredClients = zero_OdataV4IdRef, sr_Registries = zero_OdataV4IdRef,
     sr_ResourceBlocks = zero_OdataV4IdRef, sr_ServiceConditions = zero_OdataV4IdRef,
     sr_ServiceIdentification = '''', sr_SessionService = zero_OdataV4IdRef, sr_Storage = zero_OdataV4IdRef,
     sr_StorageServices = zero_OdataV4IdRef, sr_StorageSystems = zero_OdataV4IdRef,
     sr_Systems = zero_OdataV4IdRef, sr_Tasks = zero_OdataV4IdRef, sr_TelemetryService = zero_OdataV4IdRef,
     sr_ThermalEquipment = zero_OdataV4IdRef, sr_UUID = None, sr_UpdateService = zero_OdataV4IdRef,
     sr_Vendor = None\<rparr>"

definition AssertServiceRootV1161ServiceRootRequired :: "field_order \<Rightarrow> ServiceRootV1161ServiceRoot \<Rightarrow> go_error option" where
  "AssertServiceRootV1161ServiceRootRequired ord obj = first_error
     [required ord [(''@odata.id'', sr_OdataId obj = ''''), (''@odata.type'', sr_OdataType obj = ''''), (''Id'', sr_Id obj = ''''), (''Links'', sr_Links obj = zero_ServiceRootV1161Links), (''Name'', sr_Name obj = '''')],
      AssertOdataV4IdRefRequired (sr_AccountService obj),
      AssertOdataV4IdRefRequired (sr_AggregationService obj),
      AssertOdataV4IdRefRequired (sr_Cables obj),
      AssertOdataV4IdRefRequired (sr_CertificateService obj),
      AssertOdataV4IdRefRequired (sr_Chassis obj),
      AssertOdataV4IdRefRequired (sr_ComponentIntegrity obj),
      AssertOdataV4IdRefRequired (sr_CompositionService obj),
      AssertOdataV4IdRefRequired (sr_EventService obj),
      AssertOdataV4IdRefRequired (sr_Fabrics obj),
      AssertOdataV4IdRefRequired (sr_Facilities obj),
      AssertOdataV4IdRefRequired (sr_JobService obj),
      AssertOdataV4IdRefRequired (sr_JsonSchemas obj),
      AssertOdataV4IdRefRequired (sr_KeyService obj),
      AssertOdataV4IdRefRequired (sr_LicenseService obj),
      AssertServiceRootV1161LinksRequired ord (sr_Links obj),
      AssertOdataV4IdRefRequired (sr_Managers obj),
      AssertOdataV4IdRefRequired (sr_NVMeDomains obj),
      AssertOdataV4IdRefRequired (sr_PowerEquipment obj),
      AssertServiceRootV1161ProtocolFeaturesSupportedRequired (sr_ProtocolFeaturesSupported obj),
      AssertOdataV4IdRefRequired (sr_RegisteredClients obj),
      AssertOdataV4IdRefRequired (sr_Registries obj),
      AssertOdataV4IdRefRequired (sr_ResourceBlocks obj),
      AssertOdataV4IdRefRequired (sr_ServiceConditions obj),
      AssertOdataV4IdRefRequired (sr_SessionService obj),
      AssertOdataV4IdRefRequired (sr_Storage obj),
      AssertOdataV4IdRefRequired (sr_StorageServices obj),
      AssertOdataV4IdRefRequired (sr_StorageSystems obj),
      AssertOdataV4IdRefRequired (sr_Systems obj),
      AssertOdataV4IdRefRequired (sr_Tasks obj),
      AssertOdataV4IdRefRequired (sr_TelemetryService obj),
      AssertOdataV4IdRefRequired (sr_ThermalEquipment obj),
      AssertOdataV4IdRefRequired (sr_UpdateService obj)]"

definition AssertServiceRootV1161ServiceRootConstraints :: "ServiceRootV1161ServiceRoot \<Rightarrow> go_error option" where
  "AssertServiceRootV1161ServiceRootConstraints obj = first_error
     [AssertOdataV4IdRefConstraints (sr_AccountService obj),
      AssertOdataV4IdRefConstraints (sr_AggregationService obj),
      AssertOdataV4IdRefConstraints (sr_Cables obj),
      AssertOdataV4IdRefConstraints (sr_CertificateService obj),
      AssertOdataV4IdRefConstraints (sr_Chassis obj),
      AssertOdataV4IdRefConstraints (sr_ComponentIntegrity obj),
      AssertOdataV4IdRefConstraints (sr_CompositionService obj),
      AssertOdataV4IdRefConstraints (sr_EventService obj),
      AssertOdataV4IdRefConstraints (sr_Fabrics obj),
      AssertOdataV4IdRefConstraints (sr_Facilities obj),
      AssertOdataV4IdRefConstraints (sr_JobService obj),
      AssertOdataV4IdRefConstraints (sr_JsonSchemas obj),
      AssertOdataV4IdRefConstraints (sr_KeyService obj),
      AssertOdataV4IdRefConstraints (sr_LicenseService obj),
      AssertServiceRootV1161LinksConstraints (sr_Links obj),
      AssertOdataV4IdRefConstraints (sr_Managers obj),
      AssertOdataV4IdRefConstraints (sr_NVMeDomains obj),
      AssertOdataV4IdRefConstraints (sr_PowerEquipment obj),
      AssertServiceRootV1161ProtocolFeaturesSupportedConstraints (sr_ProtocolFeaturesSupported obj),
      AssertOdataV4IdRefConstraints (sr_RegisteredClients obj),
      AssertOdataV4IdRefConstraints (sr_Registries obj),
      AssertOdataV4IdRefConstraints (sr_ResourceBlocks obj),
      AssertOdataV4IdRefConstraints (sr_ServiceConditions obj),
      AssertOdataV4IdRefConstraints (sr_SessionService obj),
      AssertOdataV4IdRefConstraints (sr_Storage obj),
      AssertOdataV4IdRefConstraints (sr_StorageServices obj),
      AssertOdataV4IdRefConstraints (sr_StorageSystems obj),
      AssertOdataV4IdRefConstraints (sr_Systems obj),
      AssertOdataV4IdRefConstraints (sr_Tasks obj),
      AssertOdataV4IdRefConstraints (sr_TelemetryService obj),
      AssertOdataV4IdRefConstraints (sr_ThermalEquipment obj),
      AssertOdataV4IdRefConstraints (sr_UpdateService obj)]"

section \<open>ManagerCollectionManagerCollection\<close>

record ManagerCollectionManagerCollection =
  mgrcol_OdataContext :: string
  mgrcol_OdataEtag :: string
  mgrcol_OdataId :: string
  mgrcol_OdataType :: string
  mgrcol_Description :: string
  mgrcol_Members :: "OdataV4IdRef slice"
  mgrcol_MembersodataCount :: int
  mgrcol_MembersodataNextLink :: string
  mgrcol_Name :: string
  mgrcol_Oem :: "json gomap"

definition zero_ManagerCollectionManagerCollection :: ManagerCollectionManagerCollection where
  "zero_ManagerCollectionManagerCollection = \<lparr>
     mgrcol_OdataContext = '''', mgrcol_OdataEtag = '''', mgrcol_OdataId = '''', mgrcol_OdataType = '''',
     mgrcol_Description = '''', mgrcol_Members = None, mgrcol_MembersodataCount = 0,
     mgrcol_MembersodataNextLink = '''', mgrcol_Name = '''', mgrcol_Oem = None\<rparr>"

definition AssertManagerCollectionManagerCollectionRequired :: "field_order \<Rightarrow> ManagerCollectionManagerCollection \<Rightarrow> go_error option" where
  "AssertManagerCollectionManagerCollectionRequired ord obj = first_error
     [required ord [(''@odata.id'', mgrcol_OdataId obj = ''''), (''@odata.type'', mgrcol_OdataType obj = ''''), (''Members'', mgrcol_Members obj = None), (''Members@odata.count'', mgrcol_MembersodataCount obj = 0), (''Name'', mgrcol_Name obj = '''')],
      each AssertOdataV4IdRefRequired (mgrcol_Members obj)]"

definition AssertManagerCollectionManagerCollectionConstraints :: "ManagerCollectionManagerCollection \<Rightarrow> go_error option" where
  "AssertManagerCollectionManagerCollectionConstraints obj = first_error
     [each AssertOdataV4IdRefConstraints (mgrcol_Members obj)]"

section \<open>VirtualMediaCollectionVirtualMediaCollection\<close>

record VirtualMediaCollectionVirtualMediaCollection =
  vmcol_OdataContext :: string
  vmcol_OdataEtag :: string
  vmcol_OdataId :: string
  vmcol_OdataType :: string
  vmcol_Description :: string
  vmcol_Members :: "OdataV4IdRef slice"
  vmcol_MembersodataCount :: int
  vmcol_MembersodataNextLink :: string
  vmcol_Name :: string
  vmcol_Oem :: "json gomap"

definition zero_VirtualMediaCollectionVirtualMediaCollection :: VirtualMediaCollectionVirtualMediaCollection where
  "zero_VirtualMediaCollectionVirtualMediaCollection = \<lparr>
     vmcol_OdataContext = '''', vmcol_OdataEtag = '''', vmcol_OdataId = '''', vmcol_OdataType = '''',
     vmcol_Description = '''', vmcol_Members = None, vmcol_MembersodataCount = 0,
     vmcol_MembersodataNextLink = '''', vmcol_Name = '''', vmcol_Oem = None\<rparr>"

definition AssertVirtualMediaCollectionVirtualMediaCollectionRequired :: "field_order \<Rightarrow> VirtualMediaCollectionVirtualMediaCollection \<Rightarrow> go_error option" where
  "AssertVirtualMediaCollectionVirtualMediaCollectionRequired ord obj = first_error
     [required ord [(''@odata.id'', vmcol_OdataId obj = ''''), (''@odata.type'', vmcol_OdataType obj = ''''), (''Members'', vmcol_Members obj = None), (''Members@odata.count'', vmcol_MembersodataCount obj = 0), (''Name'', vmcol_Name obj = '''')],
      each AssertOdataV4IdRefRequired (vmcol_Members obj)]"

definition AssertVirtualMediaCollectionVirtualMediaCollectionConstraints :: "VirtualMediaCollectionVirtualMediaCollection \<Rightarrow> go_error option" where
  "AssertVirtualMediaCollectionVirtualMediaCollectionConstraints obj = first_error
     [each AssertOdataV4IdRefConstraints (vmcol_Members obj)]"

section \<open>ComputerSystemCollectionComputerSystemCollection\<close>

record ComputerSystemCollectionComputerSystemCollection =
  cscol_OdataContext :: string
  cscol_OdataEtag :: string
  cscol_OdataId :: string
  cscol_OdataType :: string
  cscol_Description :: string
  cscol_Members :: "OdataV4IdRef slice"
  cscol_MembersodataCount :: int
  cscol_MembersodataNextLink :: string
  cscol_Name :: string
  cscol_Oem :: "json gomap"

definition zero_ComputerSystemCollectionComputerSystemCollection :: ComputerSystemCollectionComputerSystemCollection where
  "zero_ComputerSystemCollectionComputerSystemCollection = \<lparr>
     cscol_OdataContext = '''', cscol_OdataEtag = '''', cscol_OdataId = '''', cscol_OdataType = '''',
     cscol_Description = '''', cscol_Members = None, cscol_MembersodataCount = 0,
     cscol_MembersodataNextLink = '''', cscol_Name = '''', cscol_Oem = None\<rparr>"

definition AssertComputerSystemCollectionComputerSystemCollectionRequired :: "field_order \<Rightarrow> ComputerSystemCollectionComputerSystemCollection \<Rightarrow> go_error option" where
  "AssertComputerSystemCollectionComputerSystemCollectionRequired ord obj = first_error
     [required ord [(''@odata.id'', cscol_OdataId obj = ''''), (''@odata.type'', cscol_OdataType obj = ''''), (''Members'', cscol_Members obj = None), (''Members@odata.count'', cscol_MembersodataCount obj = 0), (''Name'', cscol_Name obj = '''')],
      each AssertOdataV4IdRefRequired (cscol_Members obj)]"

definition AssertComputerSystemCollectionComputerSystemCollectionConstraints :: "ComputerSystemCollectionComputerSystemCollection \<Rightarrow> go_error option" where
  "AssertComputerSystemCollectionComputerSystemCollectionConstraints obj = first_error
     [each AssertOdataV4IdRefConstraints (cscol_Members obj)]"

section \<open>OperatingSystemV101Actions\<close>

record OperatingSystemV101Actions =
  osactions_Oem :: "json gomap"

definition zero_OperatingSystemV101Actions :: OperatingSystemV101Actions where
  "zero_OperatingSystemV101Actions = \<lparr>
     osactions_Oem = None\<rparr>"

definition AssertOperatingSystemV101ActionsRequired :: "OperatingSystemV101Actions \<Rightarrow> go_error option" where
  "AssertOperatingSystemV101ActionsRequired obj = None"

definition AssertOperatingSystemV101ActionsConstraints :: "OperatingSystemV101Actions \<Rightarrow> go_error option" where
  "AssertOperatingSystemV101ActionsConstraints obj = None"

section \<open>OperatingSystemV101ContainerEngine\<close>

record OperatingSystemV101ContainerEngine =
  oscengine_ManagementURIs :: "string option slice"
  oscengine_SupportedImageTypes :: "ContainerImageImageTypes slice"
  oscengine_Type :: OperatingSystemV101ContainerEngineTypes
  oscengine_Version :: "string option"

definition zero_OperatingSystemV101ContainerEngine :: OperatingSystemV101ContainerEngine where
  "zero_OperatingSystemV101ContainerEngine = \<lparr>
     oscengine_ManagementURIs = None, oscengine_SupportedImageTypes = None, oscengine_Type = '''',
     oscengine_Version = None\<rparr>"

definition AssertOperatingSystemV101ContainerEngineRequired :: "OperatingSystemV101ContainerEngine \<Rightarrow> go_error option" where
  "AssertOperatingSystemV101ContainerEngineRequired obj = None"

definition AssertOperatingSystemV101ContainerEngineConstraints :: "OperatingSystemV101ContainerEngine \<Rightarrow> go_error option" where
  "AssertOperatingSystemV101ContainerEngineConstraints obj = None"

section \<open>OperatingSystemV101Kernel\<close>

record OperatingSystemV101Kernel =
  oskernel_Machine :: "string option"
  oskernel_Name :: "string option"
  oskernel_Release :: "string option"
  oskernel_Version :: "string option"

definition zero_OperatingSystemV101Kernel :: OperatingSystemV101Kernel where
  "zero_OperatingSystemV101Kernel = \<lparr>
     oskernel_Machine = None, oskernel_Name = None, oskernel_Release = None, oskernel_Version = None\<rparr>"

definition AssertOperatingSystemV101KernelRequired :: "OperatingSystemV101Kernel \<Rightarrow> go_error option" where
  "AssertOperatingSystemV101KernelRequired obj = None"

definition AssertOperatingSystemV101KernelConstraints :: "OperatingSystemV101Kernel \<Rightarrow> go_error option" where
  "AssertOperatingSystemV101KernelConstraints obj = None"

section \<open>OperatingSystemV101Links\<close>

record OperatingSystemV101Links =
  oslinks_Oem :: "json gomap"
  oslinks_SoftwareImage :: OdataV4IdRef

definition zero_OperatingSystemV101Links :: OperatingSystemV101Links where
  "zero_OperatingSystemV101Links = \<lparr>
     oslinks_Oem = None, oslinks_SoftwareImage = zero_OdataV4IdRef\<rparr>"

definition AssertOperatingSystemV101LinksRequired :: "OperatingSystemV101Links \<Rightarrow> go_error option" where
  "AssertOperatingSystemV101LinksRequired obj = first_error
     [AssertOdataV4IdRefRequired (oslinks_SoftwareImage obj)]"

definition AssertOperatingSystemV101LinksConstraints :: "OperatingSystemV101Links \<Rightarrow> go_error option" where
  "AssertOperatingSystemV101LinksConstraints obj = first_error
     [AssertOdataV4IdRefConstraints (oslinks_SoftwareImage obj)]"

section \<open>OperatingSystemV101VirtualMachineEngine\<close>

record OperatingSystemV101VirtualMachineEngine =
  osvengine_ManagementURIs :: "string option slice"
  osvengine_SupportedImageTypes :: "OperatingSystemV101VirtualMachineImageTypes slice"
  osvengine_Type :: OperatingSystemV101VirtualMachineEngineTypes
  osvengine_Version :: "string option"

definition zero_OperatingSystemV101VirtualMachineEngine :: OperatingSystemV101VirtualMachineEngine where
  "zero_OperatingSystemV101VirtualMachineEngine = \<lparr>
     osvengine_ManagementURIs = None, osvengine_SupportedImageTypes = None, osvengine_Type = '''',
     osvengine_Version = None\<rparr>"

definition AssertOperatingSystemV101VirtualMachineEngineRequired :: "OperatingSystemV101VirtualMachineEngine \<Rightarrow> go_error option" where
  "AssertOperatingSystemV101VirtualMachineEngineRequired obj = None"

definition AssertOperatingSystemV101VirtualMachineEngineConstraints :: "OperatingSystemV101VirtualMachineEngine \<Rightarrow> go_error option" where
  "AssertOperatingSystemV101VirtualMachineEngineConstraints obj = None"

section \<open>OperatingSystemV101OperatingSystem\<close>

record OperatingSystemV101OperatingSystem =
  os_OdataContext :: string
  os_OdataEtag :: string
  os_OdataId :: string
  os_OdataType :: string
  os_Actions :: OperatingSystemV101Actions
  os_Applications :: OdataV4IdRef
  os_ContainerEngines :: "OperatingSystemV101ContainerEngine slice"
  os_ContainerImages :: OdataV4IdRef
  os_Containers :: OdataV4IdRef
  os_Description :: string
  os_Id :: string
  os_Kernel :: OperatingSystemV101Kernel
  os_Links :: OperatingSystemV101Links
  os_Name :: string
  os_Oem :: "json gomap"
  os_Status :: ResourceStatus
  os_Type :: OperatingSystemV101OperatingSystemTypes
  os_UptimeSeconds :: "int option"
  os_VirtualMachineEngines :: "OperatingSystemV101VirtualMachineEngine slice"

definition zero_OperatingSystemV101OperatingSystem :: OperatingSystemV101OperatingSystem where
  "zero_OperatingSystemV101OperatingSystem = \<lparr>
     os_OdataContext = '''', os_OdataEtag = '''', os_OdataId = '''', os_OdataType = '''',
     os_Actions = zero_OperatingSystemV101Actions, os_Applications = zero_OdataV4IdRef,
     os_ContainerEngines = None, os_ContainerImages = zero_OdataV4IdRef, os_Containers = zero_OdataV4IdRef,
     os_Description = '''', os_Id = '''', os_Kernel = zero_OperatingSystemV101Kernel,
     os_Links = zero_OperatingSystemV101Links, os_Name = '''', os_Oem = None, os_Status = zero_ResourceStatus,
     os_Type = '''', os_UptimeSeconds = None, os_VirtualMachineEngines = None\<rparr>"

definition AssertOperatingSystemV101OperatingSystemRequired :: "field_order \<Rightarrow> OperatingSystemV101OperatingSystem \<Rightarrow> go_error option" where
  "AssertOperatingSystemV101OperatingSystemRequired ord obj = first_error
     [required ord [(''@odata.id'', os_OdataId obj = ''''), (''@odata.type'', os_OdataType obj = ''''), (''Id'', os_Id obj = ''''), (''Name'', os_Name obj = '''')],
      AssertOperatingSystemV101ActionsRequired (os_Actions obj),
      AssertOdataV4IdRefRequired (os_Applications obj),
      each AssertOperatingSystemV101ContainerEngineRequired (os_ContainerEngines obj),
      AssertOdataV4IdRefRequired (os_ContainerImages obj),
      AssertOdataV4IdRefRequired (os_Containers obj),
      AssertOperatingSystemV101KernelRequired (os_Kernel obj),
      AssertOperatingSystemV101LinksRequired (os_Links obj),
      AssertResourceStatusRequired ord (os_Status obj),
      each AssertOperatingSystemV101VirtualMachineEngineRequired (os_VirtualMachineEngines obj)]"

definition AssertOperatingSystemV101OperatingSystemConstraints :: "OperatingSystemV101OperatingSystem \<Rightarrow> go_error option" where
  "AssertOperatingSystemV101OperatingSystemConstraints obj = first_error
     [AssertOperatingSystemV101ActionsConstraints (os_Actions obj),
      AssertOdataV4IdRefConstraints (os_Applications obj),
      each AssertOperatingSystemV101ContainerEngineConstraints (os_ContainerEngines obj),
      AssertOdataV4IdRefConstraints (os_ContainerImages obj),
      AssertOdataV4IdRefConstraints (os_Containers obj),
      AssertOperatingSystemV101KernelConstraints (os_Kernel obj),
      AssertOperatingSystemV101LinksConstraints (os_Links obj),
      AssertResourceStatusConstraints (os_Status obj),
      each AssertOperatingSystemV101VirtualMachineEngineConstraints (os_VirtualMachineEngines obj)]"

section \<open>MessageV120Message\<close>

record MessageV120Message =
  ms_Message :: string
  ms_MessageArgs :: "string slice"
  ms_MessageId :: string
  ms_MessageSeverity :: ResourceHealth
  ms_Oem :: "json gomap"
  ms_RelatedProperties :: "string slice"
  ms_Resolution :: string
  ms_ResolutionSteps :: "ResolutionStepResolutionStep slice"
  ms_Severity :: string

definition zero_MessageV120Message :: MessageV120Message where
  "zero_MessageV120Message = \<lparr>
     ms_Message = '''', ms_MessageArgs = None, ms_MessageId = '''', ms_MessageSeverity = '''', ms_Oem = None,
     ms_RelatedProperties = None, ms_Resolution = '''', ms_ResolutionSteps = None, ms_Severity = ''''\<rparr>"

definition AssertMessageV120MessageRequired :: "field_order \<Rightarrow> MessageV120Message \<Rightarrow> go_error option" where
  "AssertMessageV120MessageRequired ord obj = first_error
     [required ord [(''MessageId'', ms_MessageId obj = '''')],
      each (AssertResolutionStepResolutionStepRequired ord) (ms_ResolutionSteps obj)]"

definition AssertMessageV120MessageConstraints :: "MessageV120Message \<Rightarrow> go_error option" where
  "AssertMessageV120MessageConstraints obj = first_error
     [each AssertResolutionStepResolutionStepConstraints (ms_ResolutionSteps obj)]"

section \<open>RedfishErrorError\<close>

record RedfishErrorError =
  er_MessageExtendedInfo :: "MessageV120Message slice"
  er_Code :: string
  er_Message :: string

definition zero_RedfishErrorError :: RedfishErrorError where
  "zero_RedfishErrorError = \<lparr>
     er_MessageExtendedInfo = None, er_Code = '''', er_Message = ''''\<rparr>"

definition AssertRedfishErrorErrorRequired :: "field_order \<Rightarrow> RedfishErrorError \<Rightarrow> go_error option" where
  "AssertRedfishErrorErrorRequired ord obj = first_error
     [required ord [(''code'', er_Code obj = ''''), (''message'', er_Message obj = '''')],
      each (AssertMessageV120MessageRequired ord) (er_MessageExtendedInfo obj)]"

definition AssertRedfishErrorErrorConstraints :: "RedfishErrorError \<Rightarrow> go_error option" where
  "AssertRedfishErrorErrorConstraints obj = first_error
     [each AssertMessageV120MessageConstraints (er_MessageExtendedInfo obj)]"

section \<open>RedfishError\<close>

record RedfishError =
  re_Error :: RedfishErrorError

definition zero_RedfishError :: RedfishError where
  "zero_RedfishError = \<lparr>
     re_Error = zero_RedfishErrorError\<rparr>"

definition AssertRedfishErrorRequired :: "field_order \<Rightarrow> RedfishError \<Rightarrow> go_error option" where
  "AssertRedfishErrorRequired ord obj = first_error
     [required ord [(''error'', re_Error obj = zero_RedfishErrorError)],
      AssertRedfishErrorErrorRequired ord (re_Error obj)]"

definition AssertRedfishErrorConstraints :: "RedfishError \<Rightarrow> go_error option" where
  "AssertRedfishErrorConstraints obj = first_error
     [AssertRedfishErrorErrorConstraints (re_Error obj)]"

section \<open>SessionServiceV118Actions\<close>

record SessionServiceV118Actions =
  ssactions_Oem :: "json gomap"

definition zero_SessionServiceV118Actions :: SessionServiceV118Actions where
  "zero_SessionServiceV118Actions = \<lparr>
     ssactions_Oem = None\<rparr>"

definition AssertSessionServiceV118ActionsRequired :: "SessionServiceV118Actions \<Rightarrow> go_error option" where
  "AssertSessionServiceV118ActionsRequired obj = None"

definition AssertSessionServiceV118ActionsConstraints :: "SessionServiceV118Actions \<Rightarrow> go_error option" where
  "AssertSessionServiceV118ActionsConstraints obj = None"

section \<open>SessionServiceV118SessionService\<close>

record SessionServiceV118SessionService =
  ss_OdataContext :: string
  ss_OdataEtag :: string
  ss_OdataId :: string
  ss_OdataType :: string
  ss_Actions :: SessionServiceV118Actions
  ss_Description :: string
  ss_Id :: string
  ss_Name :: string
  ss_Oem :: "json gomap"
  ss_ServiceEnabled :: "bool option"
  ss_SessionTimeout :: int
  ss_Sessions :: OdataV4IdRef
  ss_Status :: ResourceStatus

definition zero_SessionServiceV118SessionService :: SessionServiceV118SessionService where
  "zero_SessionServiceV118SessionService = \<lparr>
     ss_OdataContext = '''', ss_OdataEtag = '''', ss_OdataId = '''', ss_OdataType = '''',
     ss_Actions = zero_SessionServiceV118Actions, ss_Description = '''', ss_Id = '''', ss_Name = '''',
     ss_Oem = None, ss_ServiceEnabled = None, ss_SessionTimeout = 0, ss_Sessions = zero_OdataV4IdRef,
     ss_Status = zero_ResourceStatus\<rparr>"

definition AssertSessionServiceV118SessionServiceRequired :: "field_order \<Rightarrow> SessionServiceV118SessionService \<Rightarrow> go_error option" where
  "AssertSessionServiceV118SessionServiceRequired ord obj = first_error
     [required ord [(''@odata.id'', ss_OdataId obj = ''''), (''@odata.type'', ss_OdataType obj = ''''), (''Id'', ss_Id obj = ''''), (''Name'', ss_Name obj = '''')],
      AssertSessionServiceV118ActionsRequired (ss_Actions obj),
      AssertOdataV4IdRefRequired (ss_Sessions obj),
      AssertResourceStatusRequired ord (ss_Status obj)]"

definition AssertSessionServiceV118SessionServiceConstraints :: "SessionServiceV118SessionService \<Rightarrow> go_error option" where
  "AssertSessionServiceV118SessionServiceConstraints obj = first_error
     [AssertSessionServiceV118ActionsConstraints (ss_Actions obj),
      at_least 30 ''SessionTimeout'' (ss_SessionTimeout obj),
      at_most 86400 ''SessionTimeout'' (ss_SessionTimeout obj),
      AssertOdataV4IdRefConstraints (ss_Sessions obj),
      AssertResourceStatusConstraints (ss_Status obj)]"

section \<open>ManagerV1190ForceFailoverRequestBody\<close>

record ManagerV1190ForceFailoverRequestBody =
  failoverb_NewManager :: OdataV4IdRef

definition zero_ManagerV1190ForceFailoverRequestBody :: ManagerV1190ForceFailoverRequestBody where
  "zero_ManagerV1190ForceFailoverRequestBody = \<lparr>
     failoverb_NewManager = zero_OdataV4IdRef\<rparr>"

definition AssertManagerV1190ForceFailoverRequestBodyRequired :: "field_order \<Rightarrow> ManagerV1190ForceFailoverRequestBody \<Rightarrow> go_error option" where
  "AssertManagerV1190ForceFailoverRequestBodyRequired ord obj = first_error
     [required ord [(''NewManager'', failoverb_NewManager obj = zero_OdataV4IdRef)],
      AssertOdataV4IdRefRequired (failoverb_NewManager obj)]"

definition AssertManagerV1190ForceFailoverRequestBodyConstraints :: "ManagerV1190ForceFailoverRequestBody \<Rightarrow> go_error option" where
  "AssertManagerV1190ForceFailoverRequestBodyConstraints obj = first_error
     [AssertOdataV4IdRefConstraints (failoverb_NewManager obj)]"

section \<open>ManagerV1190ModifyRedundancySetRequestBody\<close>

record ManagerV1190ModifyRedundancySetRequestBody =
  modredb_Add :: "OdataV4IdRef slice"
  modredb_Remove :: "OdataV4IdRef slice"

definition zero_ManagerV1190ModifyRedundancySetRequestBody :: ManagerV1190ModifyRedundancySetRequestBody where
  "zero_ManagerV1190ModifyRedundancySetRequestBody = \<lparr>
     modredb_Add = None, modredb_Remove = None\<rparr>"

definition AssertManagerV1190ModifyRedundancySetRequestBodyRequired :: "ManagerV1190ModifyRedundancySetRequestBody \<Rightarrow> go_error option" where
  "AssertManagerV1190ModifyRedundancySetRequestBodyRequired obj = first_error
     [each AssertOdataV4IdRefRequired (modredb_Add obj),
      each AssertOdataV4IdRefRequired (modredb_Remove obj)]"

definition AssertManagerV1190ModifyRedundancySetRequestBodyConstraints :: "ManagerV1190ModifyRedundancySetRequestBody \<Rightarrow> go_error option" where
  "AssertManagerV1190ModifyRedundancySetRequestBodyConstraints obj = first_error
     [each AssertOdataV4IdRefConstraints (modredb_Add obj),
      each AssertOdataV4IdRefConstraints (modredb_Remove obj)]"

section \<open>ManagerV1190ResetRequestBody\<close>

record ManagerV1190ResetRequestBody =
  mgrresetb_ResetType :: ResourceResetType

definition zero_ManagerV1190ResetRequestBody :: ManagerV1190ResetRequestBody where
  "zero_ManagerV1190ResetRequestBody = \<lparr>
     mgrresetb_ResetType = ''''\<rparr>"

definition AssertManagerV1190ResetRequestBodyRequired :: "ManagerV1190ResetRequestBody \<Rightarrow> go_error option" where
  "AssertManagerV1190ResetRequestBodyRequired obj = None"

definition AssertManagerV1190ResetRequestBodyConstraints :: "ManagerV1190ResetRequestBody \<Rightarrow> go_error option" where
  "AssertManagerV1190ResetRequestBodyConstraints obj = None"

section \<open>ManagerV1190ResetToDefaultsRequestBody\<close>

record ManagerV1190ResetToDefaultsRequestBody =
  resetdefb_ResetType :: ManagerV1190ResetToDefaultsType

definition zero_ManagerV1190ResetToDefaultsRequestBody :: ManagerV1190ResetToDefaultsRequestBody where
  "zero_ManagerV1190ResetToDefaultsRequestBody = \<lparr>
     resetdefb_ResetType = ''''\<rparr>"

definition AssertManagerV1190ResetToDefaultsRequestBodyRequired :: "field_order \<Rightarrow> ManagerV1190ResetToDefaultsRequestBody \<Rightarrow> go_error option" where
  "AssertManagerV1190ResetToDefaultsRequestBodyRequired ord obj = first_error
     [required ord [(''ResetType'', resetdefb_ResetType obj = '''')]]"

definition AssertManagerV1190ResetToDefaultsRequestBodyConstraints :: "ManagerV1190ResetToDefaultsRequestBody \<Rightarrow> go_error option" where
  "AssertManagerV1190ResetToDefaultsRequestBodyConstraints obj = None"

section \<open>ComputerSystemV1220AddResourceBlockRequestBody\<close>

record ComputerSystemV1220AddResourceBlockRequestBody =
  addblockb_ComputerSystemETag :: string
  addblockb_ResourceBlock :: OdataV4IdRef
  addblockb_ResourceBlockETag :: string

definition zero_ComputerSystemV1220AddResourceBlockRequestBody :: ComputerSystemV1220AddResourceBlockRequestBody where
  "zero_ComputerSystemV1220AddResourceBlockRequestBody = \<lparr>
     addblockb_ComputerSystemETag = '''', addblockb_ResourceBlock = zero_OdataV4IdRef,
     addblockb_ResourceBlockETag = ''''\<rparr>"

definition AssertComputerSystemV1220AddResourceBlockRequestBodyRequired :: "field_order \<Rightarrow> ComputerSystemV1220AddResourceBlockRequestBody \<Rightarrow> go_error option" where
  "AssertComputerSystemV1220AddResourceBlockRequestBodyRequired ord obj = first_error
     [required ord [(''ResourceBlock'', addblockb_ResourceBlock obj = zero_OdataV4IdRef)],
      AssertOdataV4IdRefRequired (addblockb_ResourceBlock obj)]"

definition AssertComputerSystemV1220AddResourceBlockRequestBodyConstraints :: "ComputerSystemV1220AddResourceBlockRequestBody \<Rightarrow> go_error option" where
  "AssertComputerSystemV1220AddResourceBlockRequestBodyConstraints obj = first_error
     [AssertOdataV4IdRefConstraints (addblockb_ResourceBlock obj)]"

section \<open>ComputerSystemV1220DecommissionRequestBody\<close>

record ComputerSystemV1220DecommissionRequestBody =
  decommissionb_ComputerSystemETag :: string
  decommissionb_DecommissionTypes :: "ComputerSystemV1220DecommissionType slice"
  decommissionb_OEMDecommissionTypes :: "string slice"
  decommissionb_RequireSecureErase :: bool

definition zero_ComputerSystemV1220DecommissionRequestBody :: ComputerSystemV1220DecommissionRequestBody where
  "zero_ComputerSystemV1220DecommissionRequestBody = \<lparr>
     decommissionb_ComputerSystemETag = '''', decommissionb_DecommissionTypes = None,
     decommissionb_OEMDecommissionTypes = None, decommissionb_RequireSecureErase = False\<rparr>"

definition AssertComputerSystemV1220DecommissionRequestBodyRequired :: "field_order \<Rightarrow> ComputerSystemV1220DecommissionRequestBody \<Rightarrow> go_error option" where
  "AssertComputerSystemV1220DecommissionRequestBodyRequired ord obj = first_error
     [required ord [(''DecommissionTypes'', decommissionb_DecommissionTypes obj = None)]]"

definition AssertComputerSystemV1220DecommissionRequestBodyConstraints :: "ComputerSystemV1220DecommissionRequestBody \<Rightarrow> go_error option" where
  "AssertComputerSystemV1220DecommissionRequestBodyConstraints obj = None"

section \<open>ComputerSystemV1220RemoveResourceBlockRequestBody\<close>

record ComputerSystemV1220RemoveResourceBlockRequestBody =
  removeblockb_ComputerSystemETag :: string
  removeblockb_ResourceBlock :: OdataV4IdRef
  removeblockb_ResourceBlockETag :: string

definition zero_ComputerSystemV1220RemoveResourceBlockRequestBody :: ComputerSystemV1220RemoveResourceBlockRequestBody where
  "zero_ComputerSystemV1220RemoveResourceBlockRequestBody = \<lparr>
     removeblockb_ComputerSystemETag = '''', removeblockb_ResourceBlock = zero_OdataV4IdRef,
     removeblockb_ResourceBlockETag = ''''\<rparr>"

definition AssertComputerSystemV1220RemoveResourceBlockRequestBodyRequired :: "field_order \<Rightarrow> ComputerSystemV1220RemoveResourceBlockRequestBody \<Rightarrow> go_error option" where
  "AssertComputerSystemV1220RemoveResourceBlockRequestBodyRequired ord obj = first_error
     [required ord [(''ResourceBlock'', removeblockb_ResourceBlock obj = zero_OdataV4IdRef)],
      AssertOdataV4IdRefRequired (removeblockb_ResourceBlock obj)]"

definition AssertComputerSystemV1220RemoveResourceBlockRequestBodyConstraints :: "ComputerSystemV1220RemoveResourceBlockRequestBody \<Rightarrow> go_error option" where
  "AssertComputerSystemV1220RemoveResourceBlockRequestBodyConstraints obj = first_error
     [AssertOdataV4IdRefConstraints (removeblockb_ResourceBlock obj)]"

section \<open>BiosV122ChangePassword\<close>

record BiosV122ChangePassword =
  biospassword_Target :: string
  biospassword_Title :: string

definition zero_BiosV122ChangePassword :: BiosV122ChangePassword where
  "zero_BiosV122ChangePassword = \<lparr>
     biospassword_Target = '''', biospassword_Title = ''''\<rparr>"

definition AssertBiosV122ChangePasswordRequired :: "BiosV122ChangePassword \<Rightarrow> go_error option" where
  "AssertBiosV122ChangePasswordRequired obj = None"

definition AssertBiosV122ChangePasswordConstraints :: "BiosV122ChangePassword \<Rightarrow> go_error option" where
  "AssertBiosV122ChangePasswordConstraints obj = None"

section \<open>BiosV122ResetBios\<close>

record BiosV122ResetBios =
  biosreset_Target :: string
  biosreset_Title :: string

definition zero_BiosV122ResetBios :: BiosV122ResetBios where
  "zero_BiosV122ResetBios = \<lparr>
     biosreset_Target = '''', biosreset_Title = ''''\<rparr>"

definition AssertBiosV122ResetBiosRequired :: "BiosV122ResetBios \<Rightarrow> go_error option" where
  "AssertBiosV122ResetBiosRequired obj = None"

definition AssertBiosV122ResetBiosConstraints :: "BiosV122ResetBios \<Rightarrow> go_error option" where
  "AssertBiosV122ResetBiosConstraints obj = None"

section \<open>BiosV122Actions\<close>

record BiosV122Actions =
  biosactions_BiosChangePassword :: BiosV122ChangePassword
  biosactions_BiosResetBios :: BiosV122ResetBios
  biosactions_Oem :: "json gomap"

definition zero_BiosV122Actions :: BiosV122Actions where
  "zero_BiosV122Actions = \<lparr>
     biosactions_BiosChangePassword = zero_BiosV122ChangePassword,
     biosactions_BiosResetBios = zero_BiosV122ResetBios, biosactions_Oem = None\<rparr>"

definition AssertBiosV122ActionsRequired :: "BiosV122Actions \<Rightarrow> go_error option" where
  "AssertBiosV122ActionsRequired obj = first_error
     [AssertBiosV122ChangePasswordRequired (biosactions_BiosChangePassword obj),
      AssertBiosV122ResetBiosRequired (biosactions_BiosResetBios obj)]"

definition AssertBiosV122ActionsConstraints :: "BiosV122Actions \<Rightarrow> go_error option" where
  "AssertBiosV122ActionsConstraints obj = first_error
     [AssertBiosV122ChangePasswordConstraints (biosactions_BiosChangePassword obj),
      AssertBiosV122ResetBiosConstraints (biosactions_BiosResetBios obj)]"

section \<open>BiosV122Links\<close>

record BiosV122Links =
  bioslinks_ActiveSoftwareImage :: OdataV4IdRef
  bioslinks_Oem :: "json gomap"
  bioslinks_SoftwareImages :: "OdataV4IdRef slice"
  bioslinks_SoftwareImagesodataCount :: int

definition zero_BiosV122Links :: BiosV122Links where
  "zero_BiosV122Links = \<lparr>
     bioslinks_ActiveSoftwareImage = zero_OdataV4IdRef, bioslinks_Oem = None, bioslinks_SoftwareImages = None,
     bioslinks_SoftwareImagesodataCount = 0\<rparr>"

definition AssertBiosV122LinksRequired :: "BiosV122Links \<Rightarrow> go_error option" where
  "AssertBiosV122LinksRequired obj = first_error
     [AssertOdataV4IdRefRequired (bioslinks_ActiveSoftwareImage obj),
      each AssertOdataV4IdRefRequired (bioslinks_SoftwareImages obj)]"

definition AssertBiosV122LinksConstraints :: "BiosV122Links \<Rightarrow> go_error option" where
  "AssertBiosV122LinksConstraints obj = first_error
     [AssertOdataV4IdRefConstraints (bioslinks_ActiveSoftwareImage obj),
      each AssertOdataV4IdRefConstraints (bioslinks_SoftwareImages obj)]"

section \<open>BiosV122Bios\<close>

record BiosV122Bios =
  bios_OdataContext :: string
  bios_OdataEtag :: string
  bios_OdataId :: string
  bios_OdataType :: string
  bios_Actions :: BiosV122Actions
  bios_AttributeRegistry :: "string option"
  bios_Attributes :: "json gomap"
  bios_Description :: string
  bios_Id :: string
  bios_Links :: BiosV122Links
  bios_Name :: string
  bios_Oem :: "json gomap"
  bios_ResetBiosToDefaultsPending :: "bool option"

definition zero_BiosV122Bios :: BiosV122Bios where
  "zero_BiosV122Bios = \<lparr>
     bios_OdataContext = '''', bios_OdataEtag = '''', bios_OdataId = '''', bios_OdataType = '''',
     bios_Actions = zero_BiosV122Actions, bios_AttributeRegistry = None, bios_Attributes = None,
     bios_Description = '''', bios_Id = '''', bios_Links = zero_BiosV122Links, bios_Name = '''',
     bios_Oem = None, bios_ResetBiosToDefaultsPending = None\<rparr>"

definition AssertBiosV122BiosRequired :: "field_order \<Rightarrow> BiosV122Bios \<Rightarrow> go_error option" where
  "AssertBiosV122BiosRequired ord obj = first_error
     [required ord [(''@odata.id'', bios_OdataId obj = ''''), (''@odata.type'', bios_OdataType obj = ''''), (''Id'', bios_Id obj = ''''), (''Name'', bios_Name obj = '''')],
      AssertBiosV122ActionsRequired (bios_Actions obj),
      AssertBiosV122LinksRequired (bios_Links obj)]"

definition AssertBiosV122BiosConstraints :: "BiosV122Bios \<Rightarrow> go_error option" where
  "AssertBiosV122BiosConstraints obj = first_error
     [AssertBiosV122ActionsConstraints (bios_Actions obj),
      AssertBiosV122LinksConstraints (bios_Links obj)]"

section \<open>BiosV122ChangePasswordRequestBody\<close>

record BiosV122ChangePasswordRequestBody =
  biospasswordb_NewPassword :: string
  biospasswordb_OldPassword :: string
  biospasswordb_PasswordName :: string

definition zero_BiosV122ChangePasswordRequestBody :: BiosV122ChangePasswordRequestBody where
  "zero_BiosV122ChangePasswordRequestBody = \<lparr>
     biospasswordb_NewPassword = '''', biospasswordb_OldPassword = '''',
     biospasswordb_PasswordName = ''''\<rparr>"

definition AssertBiosV122ChangePasswordRequestBodyRequired :: "field_order \<Rightarrow> BiosV122ChangePasswordRequestBody \<Rightarrow> go_error option" where
  "AssertBiosV122ChangePasswordRequestBodyRequired ord obj = first_error
     [required ord [(''NewPassword'', biospasswordb_NewPassword obj = ''''), (''OldPassword'', biospasswordb_OldPassword obj = ''''), (''PasswordName'', biospasswordb_PasswordName obj = '''')]]"

definition AssertBiosV122ChangePasswordRequestBodyConstraints :: "BiosV122ChangePasswordRequestBody \<Rightarrow> go_error option" where
  "AssertBiosV122ChangePasswordRequestBodyConstraints obj = None"

section \<open>BootOptionV105Actions\<close>

record BootOptionV105Actions =
  boactions_Oem :: "json gomap"

definition zero_BootOptionV105Actions :: BootOptionV105Actions where
  "zero_BootOptionV105Actions = \<lparr>
     boactions_Oem = None\<rparr>"

definition AssertBootOptionV105ActionsRequired :: "BootOptionV105Actions \<Rightarrow> go_error option" where
  "AssertBootOptionV105ActionsRequired obj = None"

definition AssertBootOptionV105ActionsConstraints :: "BootOptionV105Actions \<Rightarrow> go_error option" where
  "AssertBootOptionV105ActionsConstraints obj = None"

section \<open>BootOptionV105BootOption\<close>

record BootOptionV105BootOption =
  bo_OdataContext :: string
  bo_OdataEtag :: string
  bo_OdataId :: string
  bo_OdataType :: string
  bo_Actions :: BootOptionV105Actions
  bo_Alias :: ComputerSystemBootSource
  bo_BootOptionEnabled :: "bool option"
  bo_BootOptionReference :: "string option"
  bo_Description :: string
  bo_DisplayName :: "string option"
  bo_Id :: string
  bo_Name :: string
  bo_Oem :: "json gomap"
  bo_RelatedItem :: "OdataV4IdRef slice"
  bo_RelatedItemodataCount :: int
  bo_UefiDevicePath :: "string option"

definition zero_BootOptionV105BootOption :: BootOptionV105BootOption where
  "zero_BootOptionV105BootOption = \<lparr>
     bo_OdataContext = '''', bo_OdataEtag = '''', bo_OdataId = '''', bo_OdataType = '''',
     bo_Actions = zero_BootOptionV105Actions, bo_Alias = '''', bo_BootOptionEnabled = None,
     bo_BootOptionReference = None, bo_Description = '''', bo_DisplayName = None, bo_Id = '''', bo_Name = '''',
     bo_Oem = None, bo_RelatedItem = None, bo_RelatedItemodataCount = 0, bo_UefiDevicePath = None\<rparr>"

definition AssertBootOptionV105BootOptionRequired :: "field_order \<Rightarrow> BootOptionV105BootOption \<Rightarrow> go_error option" where
  "AssertBootOptionV105BootOptionRequired ord obj = first_error
     [required ord [(''@odata.id'', bo_OdataId obj = ''''), (''@odata.type'', bo_OdataType obj = ''''), (''BootOptionReference'', bo_BootOptionReference obj = None), (''Id'', bo_Id obj = ''''), (''Name'', bo_Name obj = '''')],
      AssertBootOptionV105ActionsRequired (bo_Actions obj),
      each AssertOdataV4IdRefRequired (bo_RelatedItem obj)]"

definition AssertBootOptionV105BootOptionConstraints :: "BootOptionV105BootOption \<Rightarrow> go_error option" where
  "AssertBootOptionV105BootOptionConstraints obj = first_error
     [AssertBootOptionV105ActionsConstraints (bo_Actions obj),
      each AssertOdataV4IdRefConstraints (bo_RelatedItem obj)]"

end
