(* ===== verification/RedfishHandler.thy ===== *)
theory RedfishHandler
  imports Session VmResourceManager ServiceSchema
begin

text \<open>
  pkg/redfish/handler.go: what the Redfish service does, apart from HTTP.  The handler holds the
  resource manager and the BMC credentials; its operations act on the token store of
  pkg/session and on the resource manager's state.  The identifier \<open>uuid.New()\<close> draws and the
  order in which the token map is ranged over are arguments.
\<close>

section \<open>State\<close>

record 'm redfish =
  rf_tokens :: TokenStore
  rf_rm :: 'm

definition onRM :: "('m, 'a) op \<Rightarrow> ('m redfish, 'a) op" where
  "onRM = onPart rf_rm (\<lambda>m s. s\<lparr>rf_rm := m\<rparr>)"

record 'm handler =
  h_rm :: "'m ResourceManager"
  h_bmcUser :: string
  h_bmcPassword :: string

definition NewHandler :: "string \<Rightarrow> string \<Rightarrow> 'm ResourceManager \<Rightarrow> 'm handler" where
  "NewHandler bmcUser bmcPassword resourceManager =
     \<lparr>h_rm = resourceManager, h_bmcUser = bmcUser, h_bmcPassword = bmcPassword\<rparr>"

section \<open>Sessions\<close>

definition Authenticate ::
  "'m handler \<Rightarrow> string \<Rightarrow> string option \<Rightarrow> string option \<Rightarrow> ('m redfish, string \<times> string) op" where
  "Authenticate h uuid username password s =
     (case (username, password) of
        (Some u, Some p) \<Rightarrow>
          if u \<noteq> h_bmcUser h \<or> p \<noteq> h_bmcPassword h
          then fail (PlainError ''invalid username or password'') s
          else (case AddToken (NewTokenInfo uuid u) (rf_tokens s) of
                  (token, ts) \<Rightarrow> (Ok (uuid, token), s\<lparr>rf_tokens := ts\<rparr>))
      | _ \<Rightarrow> fail (PlainError ''username and password must be provided'') s)"

definition GetSession :: "range_order \<Rightarrow> string \<Rightarrow> ('m redfish, string \<times> string) op" where
  "GetSession ord sessionID s =
     (case GetTokenFromSessionID ord sessionID (rf_tokens s) of
        None \<Rightarrow> fail (PlainError ''session not found'') s
      | Some tokenInfo \<Rightarrow> ret (ti_ID tokenInfo, ti_Username tokenInfo) s)"

definition DeleteSession :: "string \<Rightarrow> ('m redfish, unit) op" where
  "DeleteSession sessionID = modifyS (\<lambda>s. s\<lparr>rf_tokens := RemoveToken sessionID (rf_tokens s)\<rparr>)"

section \<open>Static documents\<close>

definition ref :: "string \<Rightarrow> OdataV4IdRef" where
  "ref uri = \<lparr>ref_OdataId = uri\<rparr>"

definition GetServiceRoot :: ServiceRootV1161ServiceRoot where
  "GetServiceRoot =
     zero_ServiceRootV1161ServiceRoot
     \<lparr>sr_OdataContext := ''/redfish/v1/$metadata#ServiceRoot.ServiceRoot'',
      sr_OdataId := ''/redfish/v1'',
      sr_OdataType := ''#ServiceRoot.v1_16_1.ServiceRoot'',
      sr_Description := ''ServiceRoot'',
      sr_Name := ''ServiceRoot'',
      sr_RedfishVersion := ''1.16.1'',
      sr_UUID := Some ''00000000-0000-0000-0000-000000000000'',
      sr_Chassis := ref ''/redfish/v1/Chassis'',
      sr_Managers := ref ''/redfish/v1/Managers'',
      sr_Registries := ref ''/redfish/v1/Registries'',
      sr_SessionService := ref ''/redfish/v1/SessionService'',
      sr_Systems := ref ''/redfish/v1/Systems'',
      sr_Tasks := ref ''/redfish/v1/Tasks'',
      sr_AccountService := ref ''/redfish/v1/AccountService'',
      sr_EventService := ref ''/redfish/v1/EventService'',
      sr_TelemetryService := ref ''/redfish/v1/TelemetryService'',
      sr_UpdateService := ref ''/redfish/v1/UpdateService'',
      sr_CompositionService := ref ''/redfish/v1/CompositionService'',
      sr_ProtocolFeaturesSupported := zero_ServiceRootV1161ProtocolFeaturesSupported,
      sr_Links := zero_ServiceRootV1161Links
        \<lparr>srlinks_ManagerProvidingService := ref ''/redfish/v1/Managers/BMC'',
         srlinks_Oem := Some [],
         srlinks_Sessions := ref ''/redfish/v1/SessionService/Sessions''\<rparr>\<rparr>"

definition GetManagerCollection :: ManagerCollectionManagerCollection where
  "GetManagerCollection =
     zero_ManagerCollectionManagerCollection
     \<lparr>mgrcol_OdataContext := ''/redfish/v1/$metadata#ManagerCollection.ManagerCollection'',
      mgrcol_OdataId := ''/redfish/v1/Managers'',
      mgrcol_OdataType := ''#ManagerCollection.ManagerCollection'',
      mgrcol_Description := ''Manager Collection'',
      mgrcol_Name := ''Manager Collection'',
      mgrcol_Members := Some [ref ''/redfish/v1/Managers/BMC'']\<rparr>"

definition GetVirtualMediaCollection :: VirtualMediaCollectionVirtualMediaCollection where
  "GetVirtualMediaCollection =
     zero_VirtualMediaCollectionVirtualMediaCollection
     \<lparr>vmcol_OdataContext := ''/redfish/v1/$metadata#VirtualMediaCollection.VirtualMediaCollection'',
      vmcol_OdataId := ''/redfish/v1/Managers/BMC/VirtualMedia'',
      vmcol_OdataType := ''#VirtualMediaCollection.VirtualMediaCollection'',
      vmcol_Description := ''Virtual Media Collection'',
      vmcol_Name := ''Virtual Media Collection'',
      vmcol_Members := Some [ref ''/redfish/v1/Managers/BMC/VirtualMedia/CD1''],
      vmcol_MembersodataCount := 1\<rparr>"

definition GetComputerSystemCollection :: ComputerSystemCollectionComputerSystemCollection where
  "GetComputerSystemCollection =
     zero_ComputerSystemCollectionComputerSystemCollection
     \<lparr>cscol_OdataContext := ''/redfish/v1/$metadata#ComputerSystemCollection.ComputerSystemCollection'',
      cscol_OdataId := ''/redfish/v1/Systems'',
      cscol_OdataType := ''#ComputerSystemCollection.ComputerSystemCollection'',
      cscol_Description := ''Computer System Collection'',
      cscol_Name := ''Computer System Collection'',
      cscol_Members := Some [ref ''/redfish/v1/Systems/1'']\<rparr>"

section \<open>Documents and actions of the resource manager\<close>

text \<open>The type assertion on the interface value the resource manager returns: a nil value fails it.\<close>

definition H_GetManager :: "'m handler \<Rightarrow> ('m redfish, Manager) op" where
  "H_GetManager h =
     andThen (onRM (GetManager (h_rm h))) (\<lambda>manager.
     case manager of
       None \<Rightarrow> fail (PlainError ''manager is not a *resourcemanager.ManagerAdapter (got <nil>)'')
     | Some adapter \<Rightarrow> ret adapter)"

definition H_GetVirtualMedia :: "'m handler \<Rightarrow> ('m redfish, VirtualMedia) op" where
  "H_GetVirtualMedia h =
     andThen (onRM (GetVirtualMedia (h_rm h))) (\<lambda>virtualMedia.
     case virtualMedia of
       None \<Rightarrow> fail (PlainError ''virtualMedia is not a *resourcemanager.VirtualMediaAdapter (got <nil>)'')
     | Some adapter \<Rightarrow> ret adapter)"

definition VirtualMediaEject :: "'m handler \<Rightarrow> ('m redfish, unit) op" where
  "VirtualMediaEject h = onRM (EjectMedia (h_rm h))"

definition VirtualMediaInsert :: "'m handler \<Rightarrow> string \<Rightarrow> ('m redfish, unit) op" where
  "VirtualMediaInsert h img = onRM (InsertMedia (h_rm h) img)"

definition H_GetComputerSystem :: "'m handler \<Rightarrow> ('m redfish, ComputerSystem) op" where
  "H_GetComputerSystem h =
     andThen (onRM (GetComputerSystem (h_rm h))) (\<lambda>computerSystem.
     case computerSystem of
       None \<Rightarrow> fail (PlainError ''computerSystem is not a *resourcemanager.ComputerSystemAdapter (got <nil>)'')
     | Some adapter \<Rightarrow> ret adapter)"

text \<open>Of the patch document only \<open>Boot\<close> is read.\<close>

definition PatchComputerSystem :: "'m handler \<Rightarrow> ComputerSystem \<Rightarrow> ('m redfish, unit) op" where
  "PatchComputerSystem h computerSystemPatch =
     (let boot = cs_Boot computerSystemPatch in
      if boot_BootSourceOverrideEnabled boot \<noteq> BOOTSOURCEOVERRIDEENABLED_DISABLED then
        (if boot_BootSourceOverrideTarget boot = COMPUTERSYSTEMBOOTSOURCE_PXE then
           andThen (onRM (SetBootDevice (h_rm h) BootDevicePxe)) (\<lambda>_. ret ())
         else if boot_BootSourceOverrideTarget boot = COMPUTERSYSTEMBOOTSOURCE_HDD then
           andThen (onRM (SetBootDevice (h_rm h) BootDeviceHdd)) (\<lambda>_. ret ())
         else ret ())
      else ret ())"

definition powerActionMap :: "'m handler \<Rightarrow> ResourceResetType \<rightharpoonup> ('m, unit) op" where
  "powerActionMap h =
     [''On'' \<mapsto> PowerOn (h_rm h),
      ''GracefulShutdown'' \<mapsto> PowerOff (h_rm h),
      ''ForceOff'' \<mapsto> PowerOff (h_rm h),
      ''GracefulRestart'' \<mapsto> PowerCycle (h_rm h),
      ''ForceRestart'' \<mapsto> PowerCycle (h_rm h)]"

definition ComputerSystemReset :: "'m handler \<Rightarrow> ResourceResetType \<Rightarrow> ('m redfish, unit) op" where
  "ComputerSystemReset h resetType =
     (case powerActionMap h resetType of
        None \<Rightarrow> fail (PlainError (''unsupported reset type: '' @ resetType))
      | Some powerAction \<Rightarrow> onRM powerAction)"

definition ComputerSystemSetDefaultBootOrder :: "'m handler \<Rightarrow> string list \<Rightarrow> ('m redfish, unit) op" where
  "ComputerSystemSetDefaultBootOrder h bootDevices =
     onRM (SetBootDevice (h_rm h) (case bootDevices of [] \<Rightarrow> '''' | d # _ \<Rightarrow> d))"

section \<open>Lifting facts of the resource manager\<close>

lemma onRM_run: "onRM m s = (r, t) \<longleftrightarrow> (\<exists>u. m (rf_rm s) = (r, u) \<and> t = s\<lparr>rf_rm := u\<rparr>)"
  by (auto simp: onRM_def onPart_def split: prod.splits)

lemma frame_onRM: "frame f m \<Longrightarrow> frame (\<lambda>s. f (rf_rm s)) (onRM m)"
  by (rule frameI) (auto simp: onRM_def onPart_def dest: frameD split: prod.split)

lemma keeps_onRM: "keeps P m \<Longrightarrow> keeps (\<lambda>s. P (rf_rm s)) (onRM m)"
  by (rule keepsI) (auto simp: onRM_def onPart_def dest: keepsD split: prod.split)

lemma frame_tokens_onRM [frames]: "frame rf_tokens (onRM m)"
  by (auto simp: frame_def onRM_def onPart_def split: prod.splits)

text \<open>Sessions do not touch the machine, and the machine operations do not touch the sessions.\<close>

lemma frame_rm_sessions [frames]:
  "frame rf_rm (Authenticate h uuid u p)" "frame rf_rm (GetSession ord sid)" "frame rf_rm (DeleteSession sid)"
  by (auto simp: frame_def Authenticate_def GetSession_def DeleteSession_def split: prod.splits option.splits)

lemma frame_tokens_machine [frames]:
  "frame rf_tokens (H_GetManager h)" "frame rf_tokens (H_GetVirtualMedia h)" "frame rf_tokens (H_GetComputerSystem h)"
  "frame rf_tokens (VirtualMediaEject h)" "frame rf_tokens (VirtualMediaInsert h img)"
  "frame rf_tokens (PatchComputerSystem h boot)" "frame rf_tokens (ComputerSystemReset h t)"
  "frame rf_tokens (ComputerSystemSetDefaultBootOrder h ds)" "frame rf_tokens (GetSession ord sid)"
  unfolding H_GetManager_def H_GetVirtualMedia_def H_GetComputerSystem_def VirtualMediaEject_def
    VirtualMediaInsert_def PatchComputerSystem_def Let_def ComputerSystemReset_def ComputerSystemSetDefaultBootOrder_def
  by (auto intro!: frames split: option.split) (auto simp: frame_def GetSession_def split: option.splits)

lemma keeps_token_wf [keepers]:
  "keeps (\<lambda>s. token_wf (rf_tokens s)) (Authenticate h uuid u p)"
  "keeps (\<lambda>s. token_wf (rf_tokens s)) (DeleteSession sid)"
  by (auto simp: keeps_def Authenticate_def DeleteSession_def session_store.inv_remove
      split: prod.splits option.splits) (metis session_store.inv_add snd_conv)

text \<open>
  The contract of the resource manager, seen through the handler: whatever an action does, the
  machine's identity stays, and each action changes only its own document.
\<close>

context resource_manager
begin

lemma handler_machine:
  "frame (\<lambda>s. machine (rf_rm s)) (H_GetManager (NewHandler u p rm))"
  "frame (\<lambda>s. machine (rf_rm s)) (H_GetVirtualMedia (NewHandler u p rm))"
  "frame (\<lambda>s. machine (rf_rm s)) (H_GetComputerSystem (NewHandler u p rm))"
  "frame (\<lambda>s. machine (rf_rm s)) (VirtualMediaEject (NewHandler u p rm))"
  "frame (\<lambda>s. machine (rf_rm s)) (VirtualMediaInsert (NewHandler u p rm) url)"
  "frame (\<lambda>s. machine (rf_rm s)) (PatchComputerSystem (NewHandler u p rm) boot)"
  "frame (\<lambda>s. machine (rf_rm s)) (ComputerSystemReset (NewHandler u p rm) t)"
  "frame (\<lambda>s. machine (rf_rm s)) (ComputerSystemSetDefaultBootOrder (NewHandler u p rm) ds)"
  unfolding H_GetManager_def H_GetVirtualMedia_def H_GetComputerSystem_def VirtualMediaEject_def
    VirtualMediaInsert_def PatchComputerSystem_def Let_def ComputerSystemReset_def ComputerSystemSetDefaultBootOrder_def
    NewHandler_def powerActionMap_def
  by (auto intro!: frames frame_onRM frame_machine split: option.split if_splits)

lemma handler_inv:
  "keeps (\<lambda>s. inv (rf_rm s)) (H_GetManager (NewHandler u p rm))"
  "keeps (\<lambda>s. inv (rf_rm s)) (H_GetVirtualMedia (NewHandler u p rm))"
  "keeps (\<lambda>s. inv (rf_rm s)) (H_GetComputerSystem (NewHandler u p rm))"
  "keeps (\<lambda>s. inv (rf_rm s)) (VirtualMediaEject (NewHandler u p rm))"
  "keeps (\<lambda>s. inv (rf_rm s)) (VirtualMediaInsert (NewHandler u p rm) url)"
  "keeps (\<lambda>s. inv (rf_rm s)) (PatchComputerSystem (NewHandler u p rm) boot)"
  "keeps (\<lambda>s. inv (rf_rm s)) (ComputerSystemReset (NewHandler u p rm) t)"
  "keeps (\<lambda>s. inv (rf_rm s)) (ComputerSystemSetDefaultBootOrder (NewHandler u p rm) ds)"
  unfolding H_GetManager_def H_GetVirtualMedia_def H_GetComputerSystem_def VirtualMediaEject_def
    VirtualMediaInsert_def PatchComputerSystem_def Let_def ComputerSystemReset_def ComputerSystemSetDefaultBootOrder_def
    NewHandler_def powerActionMap_def
  by (auto intro!: keepers keeps_onRM keeps_ops split: option.split if_splits)

lemma reset_keeps_documents:
  "frame (\<lambda>s. system (rf_rm s)) (ComputerSystemReset (NewHandler u p rm) t)"
  "frame (\<lambda>s. media (rf_rm s)) (ComputerSystemReset (NewHandler u p rm) t)"
  unfolding ComputerSystemReset_def NewHandler_def powerActionMap_def
  by (auto intro!: frames frame_onRM frame_system frame_media split: option.split if_splits)

end

end
