(* ===== verification/RedfishApi.thy ===== *)
theory RedfishApi
  imports RedfishHandler
begin

text \<open>
  pkg/redfish/api_service.go: the service methods behind the generated Redfish controllers.  A
  method answers with an \<open>ImplResponse\<close> and, independently, an error or nil; the pair is the
  result of the operation, so that only a panic leaves it.  Sixteen methods are implemented;
  the other four thousand are stubs, modelled by \<open>stub\<close>; the stubs next to the implemented
  methods are listed by name.
\<close>

section \<open>Requests and responses\<close>

type_synonym InsertMediaRequestBody = VirtualMediaV163InsertMediaRequestBody

datatype payload =
    NilBody
  | ServiceRootBody ServiceRootV1161ServiceRoot
  | ManagerCollectionBody ManagerCollectionManagerCollection
  | VirtualMediaCollectionBody VirtualMediaCollectionVirtualMediaCollection
  | ComputerSystemCollectionBody ComputerSystemCollectionComputerSystemCollection
  | ManagerBody Manager
  | VirtualMediaBody VirtualMedia
  | ComputerSystemBody ComputerSystem
  | OperatingSystemBody OperatingSystemV101OperatingSystem
  | SessionBody SessionV171Session
  | ErrorBody RedfishError
  | MessageBody string

record ImplResponse =
  ir_Code :: nat
  ir_Body :: payload

definition Response :: "nat \<Rightarrow> payload \<Rightarrow> ImplResponse" where
  "Response code body = \<lparr>ir_Code = code, ir_Body = body\<rparr>"

type_synonym 'm api_result = "('m redfish, ImplResponse \<times> go_error option) op"

definition one_message :: "string \<Rightarrow> string \<Rightarrow> payload" where
  "one_message messageId message =
     ErrorBody (zero_RedfishError\<lparr>re_Error := zero_RedfishErrorError
       \<lparr>er_MessageExtendedInfo := Some [zero_MessageV120Message\<lparr>ms_MessageId := messageId, ms_Message := message\<rparr>]\<rparr>\<rparr>)"

text \<open>\<open>IsValid\<close> of the generated enumerations.\<close>

definition ResourceResetType_IsValid :: "ResourceResetType \<Rightarrow> bool" where
  "ResourceResetType_IsValid = IsValid ResourceResetType_enum"

definition TransferMethod_IsValid :: "VirtualMediaV163TransferMethod \<Rightarrow> bool" where
  "TransferMethod_IsValid = IsValid VirtualMediaV163TransferMethod_enum"

definition TransferProtocolType_IsValid :: "VirtualMediaV163TransferProtocolType \<Rightarrow> bool" where
  "TransferProtocolType_IsValid = IsValid VirtualMediaV163TransferProtocolType_enum"

lemmas IsValid_defs = ResourceResetType_IsValid_def TransferMethod_IsValid_def TransferProtocolType_IsValid_def
  IsValid_def ResourceResetType_enum_def VirtualMediaV163TransferMethod_enum_def VirtualMediaV163TransferProtocolType_enum_def

definition not_in_list :: "string \<Rightarrow> string \<Rightarrow> payload" where
  "not_in_list v property = one_message ''Base.1.2.PropertyValueNotInList''
     (''The value '' @ v @ '' for the property '' @ property @ '' is not in the list of acceptable values.'')"

section \<open>The service\<close>

record 'm APIService =
  as_handler :: "'m handler"

definition NewAPIService :: "string \<Rightarrow> string \<Rightarrow> 'm ResourceManager \<Rightarrow> 'm APIService" where
  "NewAPIService bmcUser bmcPassword resourceManager = \<lparr>as_handler = NewHandler bmcUser bmcPassword resourceManager\<rparr>"

definition RedfishV1Get :: "'m APIService \<Rightarrow> 'm api_result" where
  "RedfishV1Get s = ret (Response 200 (ServiceRootBody GetServiceRoot), None)"

section \<open>Managers and virtual media\<close>

definition RedfishV1ManagersGet :: "'m APIService \<Rightarrow> 'm api_result" where
  "RedfishV1ManagersGet s = ret (Response 200 (ManagerCollectionBody GetManagerCollection), None)"

definition RedfishV1ManagersManagerIdGet :: "'m APIService \<Rightarrow> string \<Rightarrow> 'm api_result" where
  "RedfishV1ManagersManagerIdGet s managerId =
     attempt (H_GetManager (as_handler s))
       (\<lambda>err. ret (Response StatusInternalServerError NilBody, Some err))
       (\<lambda>manager. ret (Response 200 (ManagerBody manager), None))"

definition RedfishV1ManagersManagerIdVirtualMediaGet :: "'m APIService \<Rightarrow> string \<Rightarrow> 'm api_result" where
  "RedfishV1ManagersManagerIdVirtualMediaGet s managerId =
     ret (Response 200 (VirtualMediaCollectionBody GetVirtualMediaCollection), None)"

definition RedfishV1ManagersManagerIdVirtualMediaVirtualMediaIdGet ::
  "'m APIService \<Rightarrow> string \<Rightarrow> string \<Rightarrow> 'm api_result" where
  "RedfishV1ManagersManagerIdVirtualMediaVirtualMediaIdGet s managerId virtualMediaId =
     attempt (H_GetVirtualMedia (as_handler s))
       (\<lambda>err. ret (Response StatusInternalServerError NilBody, Some err))
       (\<lambda>virtualMedia. ret (Response 200 (VirtualMediaBody virtualMedia), None))"

text \<open>\<open>if err := action(); err != nil { 500 with a message } else { 204 }\<close>\<close>

definition act_or_report :: "string \<Rightarrow> ('m redfish, unit) op \<Rightarrow> 'm api_result" where
  "act_or_report messageId action =
     attempt action
       (\<lambda>err. ret (Response StatusInternalServerError (one_message messageId (error_string err)), None))
       (\<lambda>_. ret (Response 204 NilBody, None))"

definition VirtualMediaEjectMediaPost ::
  "'m APIService \<Rightarrow> string \<Rightarrow> string \<Rightarrow> (string \<times> json) list \<Rightarrow> 'm api_result" where
  "VirtualMediaEjectMediaPost s managerId virtualMediaId body =
     act_or_report ''Base.1.2.GeneralError'' (VirtualMediaEject (as_handler s))"

definition VirtualMediaInsertMediaPost ::
  "'m APIService \<Rightarrow> string \<Rightarrow> string \<Rightarrow> InsertMediaRequestBody \<Rightarrow> 'm api_result" where
  "VirtualMediaInsertMediaPost s managerId virtualMediaId body =
     (if im_TransferMethod body \<noteq> '''' \<and> \<not> TransferMethod_IsValid (im_TransferMethod body) then
        ret (Response StatusBadRequest (not_in_list (im_TransferMethod body) ''TransferMethod''), None)
      else if im_TransferProtocolType body \<noteq> '''' \<and> \<not> TransferProtocolType_IsValid (im_TransferProtocolType body) then
        ret (Response StatusBadRequest (not_in_list (im_TransferProtocolType body) ''TransferProtocolType''), None)
      else act_or_report ''Base.1.2.GeneralError'' (VirtualMediaInsert (as_handler s) (im_Image body)))"

section \<open>Sessions\<close>

text \<open>The response of a successful log-in carries the token for the controller to move into a header.\<close>

definition RedfishV1SessionServiceSessionsPost ::
  "string \<Rightarrow> 'm APIService \<Rightarrow> SessionV171Session \<Rightarrow> 'm api_result" where
  "RedfishV1SessionServiceSessionsPost uuid s session =
     attempt (Authenticate (as_handler s) uuid (se_UserName session) (se_Password session))
       (\<lambda>err. ret (Response StatusUnauthorized (one_message ''Base.1.0.GeneralError'' (error_string err)), Some err))
       (\<lambda>(ident, token). ret (Response 201 (SessionBody
          (zero_SessionV171Session
            \<lparr>se_OdataType := ''Session.v1_7_1.Session'',
             se_OdataId := ''/redfish/v1/SessionService/Sessions/1'',
             se_Id := ident,
             se_Name := ''User Session'',
             se_Token := Some token,
             se_UserName := se_UserName session\<rparr>)), None))"

definition RedfishV1SessionServiceSessionsSessionIdGet ::
  "range_order \<Rightarrow> 'm APIService \<Rightarrow> string \<Rightarrow> 'm api_result" where
  "RedfishV1SessionServiceSessionsSessionIdGet ord s sessionId =
     attempt (GetSession ord sessionId)
       (\<lambda>err. ret (Response StatusNotFound (one_message ''Base.1.0.GeneralError'' (error_string err)), Some err))
       (\<lambda>(ident, username). ret (Response 200 (SessionBody
          (zero_SessionV171Session
            \<lparr>se_OdataType := ''Session.v1_7_1.Session'',
             se_OdataId := ''/redfish/v1/SessionService/Sessions/'' @ ident,
             se_Id := ident,
             se_Name := ''User Session'',
             se_UserName := Some username\<rparr>)), None))"

definition RedfishV1SessionServiceSessionsSessionIdDelete :: "'m APIService \<Rightarrow> string \<Rightarrow> 'm api_result" where
  "RedfishV1SessionServiceSessionsSessionIdDelete s sessionId =
     andThen (DeleteSession sessionId) (\<lambda>_. ret (Response 204 NilBody, None))"

section \<open>Systems\<close>

definition RedfishV1SystemsGet :: "'m APIService \<Rightarrow> 'm api_result" where
  "RedfishV1SystemsGet s = ret (Response 200 (ComputerSystemCollectionBody GetComputerSystemCollection), None)"

definition RedfishV1SystemsComputerSystemIdGet :: "'m APIService \<Rightarrow> string \<Rightarrow> 'm api_result" where
  "RedfishV1SystemsComputerSystemIdGet s computerSystemId =
     attempt (H_GetComputerSystem (as_handler s))
       (\<lambda>err. ret (Response StatusInternalServerError NilBody, Some err))
       (\<lambda>computerSystem. ret (Response 200 (ComputerSystemBody computerSystem), None))"

definition RedfishV1SystemsComputerSystemIdPatch ::
  "'m APIService \<Rightarrow> string \<Rightarrow> ComputerSystem \<Rightarrow> 'm api_result" where
  "RedfishV1SystemsComputerSystemIdPatch s computerSystemId computerSystem =
     act_or_report ''Base.1.0.GeneralError'' (PatchComputerSystem (as_handler s) computerSystem)"

definition ComputerSystemResetPost :: "'m APIService \<Rightarrow> string \<Rightarrow> ResourceResetType \<Rightarrow> 'm api_result" where
  "ComputerSystemResetPost s computerSystemId resetType =
     (if \<not> ResourceResetType_IsValid resetType then
        ret (Response StatusBadRequest (not_in_list resetType ''ResetType''), None)
      else act_or_report ''Base.1.2.GeneralError'' (ComputerSystemReset (as_handler s) resetType))"

text \<open>\<open>v.(string)\<close> for every element; the first that is not a string ends the method.\<close>

fun all_strings :: "json list \<Rightarrow> string list option" where
  "all_strings [] = Some []"
| "all_strings (JString str # vs) = map_option ((#) str) (all_strings vs)"
| "all_strings (_ # vs) = None"

definition ComputerSystemSetDefaultBootOrderPost ::
  "'m APIService \<Rightarrow> string \<Rightarrow> (string \<times> json) list \<Rightarrow> 'm api_result" where
  "ComputerSystemSetDefaultBootOrderPost s computerSystemId body =
     (case map_of body ''BootOrder'' of
        Some (JArray rawBootOrder) \<Rightarrow>
          (case all_strings rawBootOrder of
             None \<Rightarrow> ret (Response StatusBadRequest (one_message ''Base.1.2.PropertyValueTypeError''
                            ''The property BootOrder must only contain strings.''), None)
           | Some bootOrder \<Rightarrow>
               act_or_report ''Base.1.2.GeneralError'' (ComputerSystemSetDefaultBootOrder (as_handler s) bootOrder))
      | _ \<Rightarrow> ret (Response StatusBadRequest (one_message ''Base.1.2.PropertyValueTypeError''
                    ''The property BootOrder must be an array of strings.''), None))"

definition RedfishV1SystemsComputerSystemIdOperatingSystemGet :: "'m APIService \<Rightarrow> string \<Rightarrow> 'm api_result" where
  "RedfishV1SystemsComputerSystemIdOperatingSystemGet s computerSystemId =
     ret (Response 200 (OperatingSystemBody (zero_OperatingSystemV101OperatingSystem
       \<lparr>os_OdataContext := ''/redfish/v1/$metadata#OperatingSystem.OperatingSystem'',
        os_OdataId := ''/redfish/v1/Systems/1/OperatingSystem'',
        os_OdataType := ''#OperatingSystem.v1_0_1.OperatingSystem'',
        os_Name := ''Operating System'',
        os_Id := ''1''\<rparr>)), None)"

section \<open>Stubs\<close>

definition stub :: "string \<Rightarrow> 'm api_result" where
  "stub name = ret (Response StatusNotImplemented NilBody, Some (PlainError (name @ '' method not implemented'')))"

text \<open>The stubs of the services the agent implements in part, in the order of the file.\<close>

definition account_stubs :: "string list" where
  "account_stubs =
     [''RedfishV1MetadataGet'',
      ''RedfishV1AccountServiceGet'',
      ''RedfishV1AccountServicePut'',
      ''RedfishV1AccountServicePatch'',
      ''RedfishV1AccountServiceAccountsGet'',
      ''RedfishV1AccountServiceAccountsPost'',
      ''RedfishV1AccountServiceAccountsManagerAccountIdGet'']"

definition account_member_stubs :: "string list" where
  "account_member_stubs =
     [''RedfishV1AccountServiceAccountsManagerAccountIdPut'',
      ''RedfishV1AccountServiceAccountsManagerAccountIdDelete'',
      ''RedfishV1AccountServiceAccountsManagerAccountIdPatch'',
      ''RedfishV1AccountServiceAccountsManagerAccountIdActionsManagerAccountChangePasswordPost'']"

definition managers_stubs :: "string list" where
  "managers_stubs =
     [''RedfishV1ManagersManagerIdPut'',
      ''RedfishV1ManagersManagerIdPatch'',
      ''RedfishV1ManagersManagerIdActionsManagerForceFailoverPost'',
      ''RedfishV1ManagersManagerIdActionsManagerModifyRedundancySetPost'',
      ''RedfishV1ManagersManagerIdActionsManagerResetPost'',
      ''RedfishV1ManagersManagerIdActionsManagerResetToDefaultsPost'']"

definition virtual_media_stubs :: "string list" where
  "virtual_media_stubs =
     [''RedfishV1ManagersManagerIdVirtualMediaVirtualMediaIdPut'',
      ''RedfishV1ManagersManagerIdVirtualMediaVirtualMediaIdPatch'']"

definition session_stubs :: "string list" where
  "session_stubs =
     [''RedfishV1SessionServiceGet'',
      ''RedfishV1SessionServicePut'',
      ''RedfishV1SessionServicePatch'',
      ''RedfishV1SessionServiceSessionsGet'']"

definition systems_collection_stubs :: "string list" where
  "systems_collection_stubs =
     [''RedfishV1SystemsPost'']"

definition systems_member_stubs :: "string list" where
  "systems_member_stubs =
     [''RedfishV1SystemsComputerSystemIdPut'',
      ''RedfishV1SystemsComputerSystemIdDelete'']"

definition resource_block_stubs :: "string list" where
  "resource_block_stubs =
     [''RedfishV1SystemsComputerSystemIdActionsComputerSystemAddResourceBlockPost'',
      ''RedfishV1SystemsComputerSystemIdActionsComputerSystemDecommissionPost'',
      ''RedfishV1SystemsComputerSystemIdActionsComputerSystemRemoveResourceBlockPost'']"

definition bios_stubs :: "string list" where
  "bios_stubs =
     [''RedfishV1SystemsComputerSystemIdBiosGet'',
      ''RedfishV1SystemsComputerSystemIdBiosPut'',
      ''RedfishV1SystemsComputerSystemIdBiosPatch'',
      ''RedfishV1SystemsComputerSystemIdBiosActionsBiosChangePasswordPost'',
      ''RedfishV1SystemsComputerSystemIdBiosActionsBiosResetBiosPost'']"

definition boot_options_stubs :: "string list" where
  "boot_options_stubs =
     [''RedfishV1SystemsComputerSystemIdBootOptionsGet'',
      ''RedfishV1SystemsComputerSystemIdBootOptionsPost'',
      ''RedfishV1SystemsComputerSystemIdBootOptionsBootOptionIdGet'',
      ''RedfishV1SystemsComputerSystemIdBootOptionsBootOptionIdPut'',
      ''RedfishV1SystemsComputerSystemIdBootOptionsBootOptionIdDelete'',
      ''RedfishV1SystemsComputerSystemIdBootOptionsBootOptionIdPatch'']"

definition service_stubs :: "string list" where
  "service_stubs = managers_stubs @ virtual_media_stubs @ session_stubs @ systems_collection_stubs
     @ systems_member_stubs @ resource_block_stubs @ bios_stubs @ boot_options_stubs"

definition stub_names :: "string list" where
  "stub_names = account_stubs @ account_member_stubs @ service_stubs"

lemmas stub_lists = stub_names_def service_stubs_def account_stubs_def account_member_stubs_def managers_stubs_def virtual_media_stubs_def
  session_stubs_def systems_collection_stubs_def systems_member_stubs_def resource_block_stubs_def bios_stubs_def
  boot_options_stubs_def

end
