(* ===== verification/ControllerSteps.thy ===== *)
theory ControllerSteps
  imports RedfishApi
begin

text \<open>
  What the generated controllers of pkg/generated/redfish/server/api_default.go are made of: the
  decoding of path and body, the checks, the call, and the encoding of the answer (routers.go,
  error.go).  Parameters of the model (\<open>wire\<close>) are the mux, which tells the route a request matches
  and the path variables, and the JSON decoders of \<open>encoding/json\<close>, which refuse unknown fields.
\<close>

section \<open>Wire format\<close>

record 'b wire =
  wi_mux :: "'b request \<Rightarrow> (string \<times> (string \<times> string) list) option"
  wi_session :: "'b \<Rightarrow> go_error + SessionV171Session"
  wi_insert :: "'b \<Rightarrow> go_error + InsertMediaRequestBody"
  wi_reset :: "'b \<Rightarrow> go_error + ComputerSystemV1220ResetRequestBody"
  wi_map :: "'b \<Rightarrow> go_error + (string \<times> json) list"
  wi_system :: "'b \<Rightarrow> go_error + ComputerSystem"
  wi_manager :: "'b \<Rightarrow> go_error + Manager"
  wi_media :: "'b \<Rightarrow> go_error + VirtualMedia"
  wi_session_service :: "'b \<Rightarrow> go_error + SessionServiceV118SessionService"
  wi_failover :: "'b \<Rightarrow> go_error + ManagerV1190ForceFailoverRequestBody"
  wi_redundancy_set :: "'b \<Rightarrow> go_error + ManagerV1190ModifyRedundancySetRequestBody"
  wi_manager_reset :: "'b \<Rightarrow> go_error + ManagerV1190ResetRequestBody"
  wi_reset_defaults :: "'b \<Rightarrow> go_error + ManagerV1190ResetToDefaultsRequestBody"
  wi_add_block :: "'b \<Rightarrow> go_error + ComputerSystemV1220AddResourceBlockRequestBody"
  wi_decommission :: "'b \<Rightarrow> go_error + ComputerSystemV1220DecommissionRequestBody"
  wi_remove_block :: "'b \<Rightarrow> go_error + ComputerSystemV1220RemoveResourceBlockRequestBody"
  wi_bios :: "'b \<Rightarrow> go_error + BiosV122Bios"
  wi_bios_password :: "'b \<Rightarrow> go_error + BiosV122ChangePasswordRequestBody"
  wi_boot_option :: "'b \<Rightarrow> go_error + BootOptionV105BootOption"
  wi_stub_checks :: "string \<Rightarrow> 'b request \<Rightarrow> (string \<times> string) list \<Rightarrow> go_error option"

text \<open>The orders in which one request ranges over maps: the token store, and the required fields of a struct.\<close>

record orders =
  or_tokens :: range_order
  or_fields :: field_order

definition EncodeJSONResponse :: "(string \<times> string) list \<Rightarrow> payload \<Rightarrow> nat \<Rightarrow> payload response" where
  "EncodeJSONResponse hs body code =
     \<lparr>resp_code = code, resp_headers = hs @ [(''Content-Type'', ''application/json; charset=UTF-8'')],
      resp_body = (if body = NilBody then NoBody else JsonBody body)\<rparr>"

fun as_parsing_error :: "go_error \<Rightarrow> bool" where
  "as_parsing_error (ParsingError _ _) \<longleftrightarrow> True"
| "as_parsing_error (WrapError _ e) \<longleftrightarrow> as_parsing_error e"
| "as_parsing_error _ \<longleftrightarrow> False"

fun as_required_error :: "go_error \<Rightarrow> bool" where
  "as_required_error (RequiredError _) \<longleftrightarrow> True"
| "as_required_error (WrapError _ e) \<longleftrightarrow> as_required_error e"
| "as_required_error (ParsingError _ e) \<longleftrightarrow> as_required_error e"
| "as_required_error _ \<longleftrightarrow> False"

definition DefaultErrorHandler :: "go_error \<Rightarrow> ImplResponse option \<Rightarrow> ('s, payload response) op" where
  "DefaultErrorHandler err result =
     (if as_parsing_error err then ret (EncodeJSONResponse [] (MessageBody (error_string err)) StatusBadRequest)
      else if as_required_error err then ret (EncodeJSONResponse [] (MessageBody (error_string err)) StatusUnprocessableEntity)
      else case result of
        None \<Rightarrow> crash NilDereference
      | Some r \<Rightarrow> ret (EncodeJSONResponse [] (MessageBody (error_string err)) (ir_Code r)))"

section \<open>Steps of a controller\<close>

text \<open>The end of every controller: an error goes to the error handler, a result is encoded.\<close>

definition answer :: "'m api_result \<Rightarrow> ('m redfish, payload response) op" where
  "answer call = andThen call (\<lambda>(result, err).
     case err of
       Some e \<Rightarrow> DefaultErrorHandler e (Some result)
     | None \<Rightarrow> ret (EncodeJSONResponse [] (ir_Body result) (ir_Code result)))"

text \<open>A path variable that is missing or empty is refused; \<open>mux.Vars\<close> of a missing key is empty.\<close>

definition with_param ::
  "(string \<times> string) list \<Rightarrow> string \<Rightarrow> (string \<Rightarrow> ('m redfish, payload response) op) \<Rightarrow> ('m redfish, payload response) op" where
  "with_param vars name k =
     (case map_of vars name of
        None \<Rightarrow> DefaultErrorHandler (RequiredError name) None
      | Some v \<Rightarrow> if v = '''' then DefaultErrorHandler (RequiredError name) None else k v)"

definition with_body ::
  "go_error + 'x \<Rightarrow> ('x \<Rightarrow> ('m redfish, payload response) op) \<Rightarrow> ('m redfish, payload response) op" where
  "with_body decoded k =
     (case decoded of Inl err \<Rightarrow> DefaultErrorHandler (ParsingError '''' err) None | Inr x \<Rightarrow> k x)"

definition checked ::
  "go_error option \<Rightarrow> ('m redfish, payload response) op \<Rightarrow> ('m redfish, payload response) op" where
  "checked err k = (case err of None \<Rightarrow> k | Some e \<Rightarrow> DefaultErrorHandler e None)"

end
