(* ===== verification/StubControllers.thy ===== *)
theory StubControllers
  imports ControllerSteps
begin

text \<open>
  The generated controllers of the routes beside the implemented ones: those of the systems, the BIOS
  and boot options of a system, the managers, the virtual media and the session service that no
  service method implements.  They decode and check a request in full before the stub answers 501.
\<close>

section \<open>Systems\<close>

definition C_SystemsPost ::
  "'b wire \<Rightarrow> orders \<Rightarrow> 'b request \<Rightarrow> ('m redfish, payload response) op" where
  "C_SystemsPost wi ord r =
     with_body (wi_system wi (req_body r)) (\<lambda>body.
     checked (AssertComputerSystemV1220ComputerSystemRequired (or_fields ord) body)
     (checked (AssertComputerSystemV1220ComputerSystemConstraints body)
       (answer (stub ''RedfishV1SystemsPost''))))"

definition C_SystemPut ::
  "'b wire \<Rightarrow> orders \<Rightarrow> (string \<times> string) list \<Rightarrow> 'b request \<Rightarrow> ('m redfish, payload response) op" where
  "C_SystemPut wi ord vars r =
     with_param vars ''ComputerSystemId'' (\<lambda>_.
     with_body (wi_system wi (req_body r)) (\<lambda>body.
     checked (AssertComputerSystemV1220ComputerSystemRequired (or_fields ord) body)
     (checked (AssertComputerSystemV1220ComputerSystemConstraints body)
       (answer (stub ''RedfishV1SystemsComputerSystemIdPut'')))))"

definition C_SystemDelete ::
  "(string \<times> string) list \<Rightarrow> ('m redfish, payload response) op" where
  "C_SystemDelete vars =
     with_param vars ''ComputerSystemId'' (\<lambda>_.
       answer (stub ''RedfishV1SystemsComputerSystemIdDelete''))"

definition C_AddResourceBlockPost ::
  "'b wire \<Rightarrow> orders \<Rightarrow> (string \<times> string) list \<Rightarrow> 'b request \<Rightarrow> ('m redfish, payload response) op" where
  "C_AddResourceBlockPost wi ord vars r =
     with_param vars ''ComputerSystemId'' (\<lambda>_.
     with_body (wi_add_block wi (req_body r)) (\<lambda>body.
     checked (AssertComputerSystemV1220AddResourceBlockRequestBodyRequired (or_fields ord) body)
     (checked (AssertComputerSystemV1220AddResourceBlockRequestBodyConstraints body)
       (answer (stub ''RedfishV1SystemsComputerSystemIdActionsComputerSystemAddResourceBlockPost'')))))"

definition C_DecommissionPost ::
  "'b wire \<Rightarrow> orders \<Rightarrow> (string \<times> string) list \<Rightarrow> 'b request \<Rightarrow> ('m redfish, payload response) op" where
  "C_DecommissionPost wi ord vars r =
     with_param vars ''ComputerSystemId'' (\<lambda>_.
     with_body (wi_decommission wi (req_body r)) (\<lambda>body.
     checked (AssertComputerSystemV1220DecommissionRequestBodyRequired (or_fields ord) body)
     (checked (AssertComputerSystemV1220DecommissionRequestBodyConstraints body)
       (answer (stub ''RedfishV1SystemsComputerSystemIdActionsComputerSystemDecommissionPost'')))))"

definition C_RemoveResourceBlockPost ::
  "'b wire \<Rightarrow> orders \<Rightarrow> (string \<times> string) list \<Rightarrow> 'b request \<Rightarrow> ('m redfish, payload response) op" where
  "C_RemoveResourceBlockPost wi ord vars r =
     with_param vars ''ComputerSystemId'' (\<lambda>_.
     with_body (wi_remove_block wi (req_body r)) (\<lambda>body.
     checked (AssertComputerSystemV1220RemoveResourceBlockRequestBodyRequired (or_fields ord) body)
     (checked (AssertComputerSystemV1220RemoveResourceBlockRequestBodyConstraints body)
       (answer (stub ''RedfishV1SystemsComputerSystemIdActionsComputerSystemRemoveResourceBlockPost'')))))"

section \<open>BIOS and boot options\<close>

definition C_BiosGet ::
  "(string \<times> string) list \<Rightarrow> ('m redfish, payload response) op" where
  "C_BiosGet vars =
     with_param vars ''ComputerSystemId'' (\<lambda>_.
       answer (stub ''RedfishV1SystemsComputerSystemIdBiosGet''))"

definition C_BiosPut ::
  "'b wire \<Rightarrow> orders \<Rightarrow> (string \<times> string) list \<Rightarrow> 'b request \<Rightarrow> ('m redfish, payload response) op" where
  "C_BiosPut wi ord vars r =
     with_param vars ''ComputerSystemId'' (\<lambda>_.
     with_body (wi_bios wi (req_body r)) (\<lambda>body.
     checked (AssertBiosV122BiosRequired (or_fields ord) body)
     (checked (AssertBiosV122BiosConstraints body)
       (answer (stub ''RedfishV1SystemsComputerSystemIdBiosPut'')))))"

definition C_BiosPatch ::
  "'b wire \<Rightarrow> orders \<Rightarrow> (string \<times> string) list \<Rightarrow> 'b request \<Rightarrow> ('m redfish, payload response) op" where
  "C_BiosPatch wi ord vars r =
     with_param vars ''ComputerSystemId'' (\<lambda>_.
     with_body (wi_bios wi (req_body r)) (\<lambda>body.
     checked (AssertBiosV122BiosRequired (or_fields ord) body)
     (checked (AssertBiosV122BiosConstraints body)
       (answer (stub ''RedfishV1SystemsComputerSystemIdBiosPatch'')))))"

definition C_BiosChangePasswordPost ::
  "'b wire \<Rightarrow> orders \<Rightarrow> (string \<times> string) list \<Rightarrow> 'b request \<Rightarrow> ('m redfish, payload response) op" where
  "C_BiosChangePasswordPost wi ord vars r =
     with_param vars ''ComputerSystemId'' (\<lambda>_.
     with_body (wi_bios_password wi (req_body r)) (\<lambda>body.
     checked (AssertBiosV122ChangePasswordRequestBodyRequired (or_fields ord) body)
     (checked (AssertBiosV122ChangePasswordRequestBodyConstraints body)
       (answer (stub ''RedfishV1SystemsComputerSystemIdBiosActionsBiosChangePasswordPost'')))))"

definition C_BiosResetPost ::
  "'b wire \<Rightarrow> (string \<times> string) list \<Rightarrow> 'b request \<Rightarrow> ('m redfish, payload response) op" where
  "C_BiosResetPost wi vars r =
     with_param vars ''ComputerSystemId'' (\<lambda>_.
     with_body (wi_map wi (req_body r)) (\<lambda>_.
       answer (stub ''RedfishV1SystemsComputerSystemIdBiosActionsBiosResetBiosPost'')))"

definition C_BootOptionsGet ::
  "(string \<times> string) list \<Rightarrow> ('m redfish, payload response) op" where
  "C_BootOptionsGet vars =
     with_param vars ''ComputerSystemId'' (\<lambda>_.
       answer (stub ''RedfishV1SystemsComputerSystemIdBootOptionsGet''))"

definition C_BootOptionsPost ::
  "'b wire \<Rightarrow> orders \<Rightarrow> (string \<times> string) list \<Rightarrow> 'b request \<Rightarrow> ('m redfish, payload response) op" where
  "C_BootOptionsPost wi ord vars r =
     with_param vars ''ComputerSystemId'' (\<lambda>_.
     with_body (wi_boot_option wi (req_body r)) (\<lambda>body.
     checked (AssertBootOptionV105BootOptionRequired (or_fields ord) body)
     (checked (AssertBootOptionV105BootOptionConstraints body)
       (answer (stub ''RedfishV1SystemsComputerSystemIdBootOptionsPost'')))))"

definition C_BootOptionGet ::
  "(string \<times> string) list \<Rightarrow> ('m redfish, payload response) op" where
  "C_BootOptionGet vars =
     with_param vars ''ComputerSystemId'' (\<lambda>_.
     with_param vars ''BootOptionId'' (\<lambda>_.
       answer (stub ''RedfishV1SystemsComputerSystemIdBootOptionsBootOptionIdGet'')))"

definition C_BootOptionPut ::
  "'b wire \<Rightarrow> orders \<Rightarrow> (string \<times> string) list \<Rightarrow> 'b request \<Rightarrow> ('m redfish, payload response) op" where
  "C_BootOptionPut wi ord vars r =
     with_param vars ''ComputerSystemId'' (\<lambda>_.
     with_param vars ''BootOptionId'' (\<lambda>_.
     with_body (wi_boot_option wi (req_body r)) (\<lambda>body.
     checked (AssertBootOptionV105BootOptionRequired (or_fields ord) body)
     (checked (AssertBootOptionV105BootOptionConstraints body)
       (answer (stub ''RedfishV1SystemsComputerSystemIdBootOptionsBootOptionIdPut''))))))"

definition C_BootOptionDelete ::
  "(string \<times> string) list \<Rightarrow> ('m redfish, payload response) op" where
  "C_BootOptionDelete vars =
     with_param vars ''ComputerSystemId'' (\<lambda>_.
     with_param vars ''BootOptionId'' (\<lambda>_.
       answer (stub ''RedfishV1SystemsComputerSystemIdBootOptionsBootOptionIdDelete'')))"

definition C_BootOptionPatch ::
  "'b wire \<Rightarrow> orders \<Rightarrow> (string \<times> string) list \<Rightarrow> 'b request \<Rightarrow> ('m redfish, payload response) op" where
  "C_BootOptionPatch wi ord vars r =
     with_param vars ''ComputerSystemId'' (\<lambda>_.
     with_param vars ''BootOptionId'' (\<lambda>_.
     with_body (wi_boot_option wi (req_body r)) (\<lambda>body.
     checked (AssertBootOptionV105BootOptionRequired (or_fields ord) body)
     (checked (AssertBootOptionV105BootOptionConstraints body)
       (answer (stub ''RedfishV1SystemsComputerSystemIdBootOptionsBootOptionIdPatch''))))))"

section \<open>Managers and virtual media\<close>

definition C_ManagerPut ::
  "'b wire \<Rightarrow> orders \<Rightarrow> (string \<times> string) list \<Rightarrow> 'b request \<Rightarrow> ('m redfish, payload response) op" where
  "C_ManagerPut wi ord vars r =
     with_param vars ''ManagerId'' (\<lambda>_.
     with_body (wi_manager wi (req_body r)) (\<lambda>body.
     checked (AssertManagerV1190ManagerRequired (or_fields ord) body)
     (checked (AssertManagerV1190ManagerConstraints body)
       (answer (stub ''RedfishV1ManagersManagerIdPut'')))))"

definition C_ManagerPatch ::
  "'b wire \<Rightarrow> orders \<Rightarrow> (string \<times> string) list \<Rightarrow> 'b request \<Rightarrow> ('m redfish, payload response) op" where
  "C_ManagerPatch wi ord vars r =
     with_param vars ''ManagerId'' (\<lambda>_.
     with_body (wi_manager wi (req_body r)) (\<lambda>body.
     checked (AssertManagerV1190ManagerRequired (or_fields ord) body)
     (checked (AssertManagerV1190ManagerConstraints body)
       (answer (stub ''RedfishV1ManagersManagerIdPatch'')))))"

definition C_ForceFailoverPost ::
  "'b wire \<Rightarrow> orders \<Rightarrow> (string \<times> string) list \<Rightarrow> 'b request \<Rightarrow> ('m redfish, payload response) op" where
  "C_ForceFailoverPost wi ord vars r =
     with_param vars ''ManagerId'' (\<lambda>_.
     with_body (wi_failover wi (req_body r)) (\<lambda>body.
     checked (AssertManagerV1190ForceFailoverRequestBodyRequired (or_fields ord) body)
     (checked (AssertManagerV1190ForceFailoverRequestBodyConstraints body)
       (answer (stub ''RedfishV1ManagersManagerIdActionsManagerForceFailoverPost'')))))"

definition C_ModifyRedundancySetPost ::
  "'b wire \<Rightarrow> (string \<times> string) list \<Rightarrow> 'b request \<Rightarrow> ('m redfish, payload response) op" where
  "C_ModifyRedundancySetPost wi vars r =
     with_param vars ''ManagerId'' (\<lambda>_.
     with_body (wi_redundancy_set wi (req_body r)) (\<lambda>body.
     checked (AssertManagerV1190ModifyRedundancySetRequestBodyRequired body)
     (checked (AssertManagerV1190ModifyRedundancySetRequestBodyConstraints body)
       (answer (stub ''RedfishV1ManagersManagerIdActionsManagerModifyRedundancySetPost'')))))"

definition C_ManagerResetPost ::
  "'b wire \<Rightarrow> (string \<times> string) list \<Rightarrow> 'b request \<Rightarrow> ('m redfish, payload response) op" where
  "C_ManagerResetPost wi vars r =
     with_param vars ''ManagerId'' (\<lambda>_.
     with_body (wi_manager_reset wi (req_body r)) (\<lambda>body.
     checked (AssertManagerV1190ResetRequestBodyRequired body)
     (checked (AssertManagerV1190ResetRequestBodyConstraints body)
       (answer (stub ''RedfishV1ManagersManagerIdActionsManagerResetPost'')))))"

definition C_ResetToDefaultsPost ::
  "'b wire \<Rightarrow> orders \<Rightarrow> (string \<times> string) list \<Rightarrow> 'b request \<Rightarrow> ('m redfish, payload response) op" where
  "C_ResetToDefaultsPost wi ord vars r =
     with_param vars ''ManagerId'' (\<lambda>_.
     with_body (wi_reset_defaults wi (req_body r)) (\<lambda>body.
     checked (AssertManagerV1190ResetToDefaultsRequestBodyRequired (or_fields ord) body)
     (checked (AssertManagerV1190ResetToDefaultsRequestBodyConstraints body)
       (answer (stub ''RedfishV1ManagersManagerIdActionsManagerResetToDefaultsPost'')))))"

definition C_VirtualMediaPut ::
  "'b wire \<Rightarrow> orders \<Rightarrow> (string \<times> string) list \<Rightarrow> 'b request \<Rightarrow> ('m redfish, payload response) op" where
  "C_VirtualMediaPut wi ord vars r =
     with_param vars ''ManagerId'' (\<lambda>_.
     with_param vars ''VirtualMediaId'' (\<lambda>_.
     with_body (wi_media wi (req_body r)) (\<lambda>body.
     checked (AssertVirtualMediaV163VirtualMediaRequired (or_fields ord) body)
     (checked (AssertVirtualMediaV163VirtualMediaConstraints body)
       (answer (stub ''RedfishV1ManagersManagerIdVirtualMediaVirtualMediaIdPut''))))))"

definition C_VirtualMediaPatch ::
  "'b wire \<Rightarrow> orders \<Rightarrow> (string \<times> string) list \<Rightarrow> 'b request \<Rightarrow> ('m redfish, payload response) op" where
  "C_VirtualMediaPatch wi ord vars r =
     with_param vars ''ManagerId'' (\<lambda>_.
     with_param vars ''VirtualMediaId'' (\<lambda>_.
     with_body (wi_media wi (req_body r)) (\<lambda>body.
     checked (AssertVirtualMediaV163VirtualMediaRequired (or_fields ord) body)
     (checked (AssertVirtualMediaV163VirtualMediaConstraints body)
       (answer (stub ''RedfishV1ManagersManagerIdVirtualMediaVirtualMediaIdPatch''))))))"

section \<open>Session service\<close>

definition C_SessionServiceGet ::
  "('m redfish, payload response) op" where
  "C_SessionServiceGet =
     answer (stub ''RedfishV1SessionServiceGet'')"

definition C_SessionServicePut ::
  "'b wire \<Rightarrow> orders \<Rightarrow> 'b request \<Rightarrow> ('m redfish, payload response) op" where
  "C_SessionServicePut wi ord r =
     with_body (wi_session_service wi (req_body r)) (\<lambda>body.
     checked (AssertSessionServiceV118SessionServiceRequired (or_fields ord) body)
     (checked (AssertSessionServiceV118SessionServiceConstraints body)
       (answer (stub ''RedfishV1SessionServicePut''))))"

definition C_SessionServicePatch ::
  "'b wire \<Rightarrow> orders \<Rightarrow> 'b request \<Rightarrow> ('m redfish, payload response) op" where
  "C_SessionServicePatch wi ord r =
     with_body (wi_session_service wi (req_body r)) (\<lambda>body.
     checked (AssertSessionServiceV118SessionServiceRequired (or_fields ord) body)
     (checked (AssertSessionServiceV118SessionServiceConstraints body)
       (answer (stub ''RedfishV1SessionServicePatch''))))"

definition C_SessionsGet ::
  "('m redfish, payload response) op" where
  "C_SessionsGet =
     answer (stub ''RedfishV1SessionServiceSessionsGet'')"

section \<open>Dispatch\<close>

text \<open>
  A route outside the table belongs to a service the agent does not serve at all; its controller may
  refuse the request (\<open>wi_stub_checks\<close>) before its stub answers.
\<close>

definition stub_controller ::
  "'b wire \<Rightarrow> orders \<Rightarrow> string \<Rightarrow> (string \<times> string) list \<Rightarrow> 'b request \<Rightarrow> ('m redfish, payload response) op" where
  "stub_controller wi ord name vars r =
     (if name = ''RedfishV1SystemsPost'' then
        C_SystemsPost wi ord r
      else if name = ''RedfishV1SystemsComputerSystemIdPut'' then
        C_SystemPut wi ord vars r
      else if name = ''RedfishV1SystemsComputerSystemIdDelete'' then
        C_SystemDelete vars
      else if name = ''RedfishV1SystemsComputerSystemIdActionsComputerSystemAddResourceBlockPost'' then
        C_AddResourceBlockPost wi ord vars r
      else if name = ''RedfishV1SystemsComputerSystemIdActionsComputerSystemDecommissionPost'' then
        C_DecommissionPost wi ord vars r
      else if name = ''RedfishV1SystemsComputerSystemIdActionsComputerSystemRemoveResourceBlockPost'' then
        C_RemoveResourceBlockPost wi ord vars r
      else if name = ''RedfishV1SystemsComputerSystemIdBiosGet'' then
        C_BiosGet vars
      else if name = ''RedfishV1SystemsComputerSystemIdBiosPut'' then
        C_BiosPut wi ord vars r
      else if name = ''RedfishV1SystemsComputerSystemIdBiosPatch'' then
        C_BiosPatch wi ord vars r
      else if name = ''RedfishV1SystemsComputerSystemIdBiosActionsBiosChangePasswordPost'' then
        C_BiosChangePasswordPost wi ord vars r
      else if name = ''RedfishV1SystemsComputerSystemIdBiosActionsBiosResetBiosPost'' then
        C_BiosResetPost wi vars r
      else if name = ''RedfishV1SystemsComputerSystemIdBootOptionsGet'' then
        C_BootOptionsGet vars
      else if name = ''RedfishV1SystemsComputerSystemIdBootOptionsPost'' then
        C_BootOptionsPost wi ord vars r
      else if name = ''RedfishV1SystemsComputerSystemIdBootOptionsBootOptionIdGet'' then
        C_BootOptionGet vars
      else if name = ''RedfishV1SystemsComputerSystemIdBootOptionsBootOptionIdPut'' then
        C_BootOptionPut wi ord vars r
      else if name = ''RedfishV1SystemsComputerSystemIdBootOptionsBootOptionIdDelete'' then
        C_BootOptionDelete vars
      else if name = ''RedfishV1SystemsComputerSystemIdBootOptionsBootOptionIdPatch'' then
        C_BootOptionPatch wi ord vars r
      else if name = ''RedfishV1ManagersManagerIdPut'' then
        C_ManagerPut wi ord vars r
      else if name = ''RedfishV1ManagersManagerIdPatch'' then
        C_ManagerPatch wi ord vars r
      else if name = ''RedfishV1ManagersManagerIdActionsManagerForceFailoverPost'' then
        C_ForceFailoverPost wi ord vars r
      else if name = ''RedfishV1ManagersManagerIdActionsManagerModifyRedundancySetPost'' then
        C_ModifyRedundancySetPost wi vars r
      else if name = ''RedfishV1ManagersManagerIdActionsManagerResetPost'' then
        C_ManagerResetPost wi vars r
      else if name = ''RedfishV1ManagersManagerIdActionsManagerResetToDefaultsPost'' then
        C_ResetToDefaultsPost wi ord vars r
      else if name = ''RedfishV1ManagersManagerIdVirtualMediaVirtualMediaIdPut'' then
        C_VirtualMediaPut wi ord vars r
      else if name = ''RedfishV1ManagersManagerIdVirtualMediaVirtualMediaIdPatch'' then
        C_VirtualMediaPatch wi ord vars r
      else if name = ''RedfishV1SessionServiceGet'' then
        C_SessionServiceGet
      else if name = ''RedfishV1SessionServicePut'' then
        C_SessionServicePut wi ord r
      else if name = ''RedfishV1SessionServicePatch'' then
        C_SessionServicePatch wi ord r
      else if name = ''RedfishV1SessionServiceSessionsGet'' then
        C_SessionsGet
      else checked (wi_stub_checks wi name r vars) (answer (stub name)))"

lemmas stub_controller_defs =
  C_SystemsPost_def C_SystemPut_def C_SystemDelete_def C_AddResourceBlockPost_def
  C_DecommissionPost_def C_RemoveResourceBlockPost_def C_BiosGet_def C_BiosPut_def
  C_BiosPatch_def C_BiosChangePasswordPost_def C_BiosResetPost_def C_BootOptionsGet_def
  C_BootOptionsPost_def C_BootOptionGet_def C_BootOptionPut_def C_BootOptionDelete_def
  C_BootOptionPatch_def C_ManagerPut_def C_ManagerPatch_def C_ForceFailoverPost_def
  C_ModifyRedundancySetPost_def C_ManagerResetPost_def C_ResetToDefaultsPost_def C_VirtualMediaPut_def
  C_VirtualMediaPatch_def C_SessionServiceGet_def C_SessionServicePut_def C_SessionServicePatch_def
  C_SessionsGet_def

end
