(* ===== verification/Controllers.thy ===== *)
theory Controllers
  imports StubControllers
begin

text \<open>
  The generated controllers of pkg/generated/redfish/server/api_default.go for the implemented routes,
  and the dispatch over all routes.
\<close>

section \<open>Service root and managers\<close>

definition C_Get :: "'m APIService \<Rightarrow> ('m redfish, payload response) op" where
  "C_Get svc = answer (RedfishV1Get svc)"

definition C_MetadataGet :: "'m APIService \<Rightarrow> ('m redfish, payload response) op" where
  "C_MetadataGet svc = answer (stub ''RedfishV1MetadataGet'')"

definition C_ManagersGet :: "'m APIService \<Rightarrow> ('m redfish, payload response) op" where
  "C_ManagersGet svc = answer (RedfishV1ManagersGet svc)"

definition C_ManagerGet :: "'m APIService \<Rightarrow> (string \<times> string) list \<Rightarrow> ('m redfish, payload response) op" where
  "C_ManagerGet svc vars =
     with_param vars ''ManagerId'' (\<lambda>mid. answer (RedfishV1ManagersManagerIdGet svc mid))"

section \<open>Virtual media\<close>

definition C_VirtualMediaCollectionGet :: "'m APIService \<Rightarrow> (string \<times> string) list \<Rightarrow> ('m redfish, payload response) op" where
  "C_VirtualMediaCollectionGet svc vars =
     with_param vars ''ManagerId'' (\<lambda>mid. answer (RedfishV1ManagersManagerIdVirtualMediaGet svc mid))"

definition C_VirtualMediaGet :: "'m APIService \<Rightarrow> (string \<times> string) list \<Rightarrow> ('m redfish, payload response) op" where
  "C_VirtualMediaGet svc vars =
     with_param vars ''ManagerId'' (\<lambda>mid. with_param vars ''VirtualMediaId'' (\<lambda>vid.
       answer (RedfishV1ManagersManagerIdVirtualMediaVirtualMediaIdGet svc mid vid)))"

definition C_EjectMediaPost :: "'b wire \<Rightarrow> 'm APIService \<Rightarrow> (string \<times> string) list \<Rightarrow> 'b request \<Rightarrow> ('m redfish, payload response) op" where
  "C_EjectMediaPost wi svc vars r =
     with_param vars ''ManagerId'' (\<lambda>mid. with_param vars ''VirtualMediaId'' (\<lambda>vid.
     with_body (wi_map wi (req_body r)) (\<lambda>body. answer (VirtualMediaEjectMediaPost svc mid vid body))))"

definition C_InsertMediaPost ::
  "'b wire \<Rightarrow> orders \<Rightarrow> 'm APIService \<Rightarrow> (string \<times> string) list \<Rightarrow> 'b request \<Rightarrow> ('m redfish, payload response) op" where
  "C_InsertMediaPost wi ord svc vars r =
     with_param vars ''ManagerId'' (\<lambda>mid. with_param vars ''VirtualMediaId'' (\<lambda>vid.
     with_body (wi_insert wi (req_body r)) (\<lambda>body.
     checked (AssertVirtualMediaV163InsertMediaRequestBodyRequired (or_fields ord) body)
     (checked (AssertVirtualMediaV163InsertMediaRequestBodyConstraints body)
       (answer (VirtualMediaInsertMediaPost svc mid vid body))))))"

section \<open>Sessions\<close>

text \<open>The check of the required fields is commented out in the code of the log-in.\<close>

definition C_SessionsPost :: "'b wire \<Rightarrow> string \<Rightarrow> 'm APIService \<Rightarrow> 'b request \<Rightarrow> ('m redfish, payload response) op" where
  "C_SessionsPost wi uuid svc r =
     with_body (wi_session wi (req_body r)) (\<lambda>session.
     checked (AssertSessionV171SessionConstraints session)
     (andThen (RedfishV1SessionServiceSessionsPost uuid svc session) (\<lambda>(result, err).
     case err of
       Some e \<Rightarrow> DefaultErrorHandler e (Some result)
     | None \<Rightarrow>
        (case ir_Body result of
           SessionBody session' \<Rightarrow>
             (case se_Token session' of
                None \<Rightarrow> crash NilDereference
              | Some token \<Rightarrow>
                  ret (EncodeJSONResponse
                    [(''X-Auth-Token'', token), (''Location'', ''/redfish/v1/SessionService/Sessions/'' @ se_Id session')]
                    (SessionBody (session'\<lparr>se_Token := None\<rparr>)) (ir_Code result)))
         | _ \<Rightarrow> crash NilDereference))))"

definition C_SessionGet :: "orders \<Rightarrow> 'm APIService \<Rightarrow> (string \<times> string) list \<Rightarrow> ('m redfish, payload response) op" where
  "C_SessionGet ord svc vars =
     with_param vars ''SessionId'' (\<lambda>sid. answer (RedfishV1SessionServiceSessionsSessionIdGet (or_tokens ord) svc sid))"

definition C_SessionDelete :: "'m APIService \<Rightarrow> (string \<times> string) list \<Rightarrow> ('m redfish, payload response) op" where
  "C_SessionDelete svc vars =
     with_param vars ''SessionId'' (\<lambda>sid. answer (RedfishV1SessionServiceSessionsSessionIdDelete svc sid))"

section \<open>Systems\<close>

definition C_SystemsGet :: "'m APIService \<Rightarrow> ('m redfish, payload response) op" where
  "C_SystemsGet svc = answer (RedfishV1SystemsGet svc)"

definition C_SystemGet :: "'m APIService \<Rightarrow> (string \<times> string) list \<Rightarrow> ('m redfish, payload response) op" where
  "C_SystemGet svc vars =
     with_param vars ''ComputerSystemId'' (\<lambda>sid. answer (RedfishV1SystemsComputerSystemIdGet svc sid))"

text \<open>The patch checks no required fields.\<close>

definition C_SystemPatch :: "'b wire \<Rightarrow> 'm APIService \<Rightarrow> (string \<times> string) list \<Rightarrow> 'b request \<Rightarrow> ('m redfish, payload response) op" where
  "C_SystemPatch wi svc vars r =
     with_param vars ''ComputerSystemId'' (\<lambda>sid.
     with_body (wi_system wi (req_body r)) (\<lambda>system.
     checked (AssertComputerSystemV1220ComputerSystemConstraints system)
       (answer (RedfishV1SystemsComputerSystemIdPatch svc sid system))))"

definition C_ResetPost :: "'b wire \<Rightarrow> 'm APIService \<Rightarrow> (string \<times> string) list \<Rightarrow> 'b request \<Rightarrow> ('m redfish, payload response) op" where
  "C_ResetPost wi svc vars r =
     with_param vars ''ComputerSystemId'' (\<lambda>sid.
     with_body (wi_reset wi (req_body r)) (\<lambda>body.
     checked (AssertComputerSystemV1220ResetRequestBodyRequired body)
     (checked (AssertComputerSystemV1220ResetRequestBodyConstraints body)
       (answer (ComputerSystemResetPost svc sid (rb_ResetType body))))))"

definition C_SetDefaultBootOrderPost :: "'b wire \<Rightarrow> 'm APIService \<Rightarrow> (string \<times> string) list \<Rightarrow> 'b request \<Rightarrow> ('m redfish, payload response) op" where
  "C_SetDefaultBootOrderPost wi svc vars r =
     with_param vars ''ComputerSystemId'' (\<lambda>sid.
     with_body (wi_map wi (req_body r)) (\<lambda>body. answer (ComputerSystemSetDefaultBootOrderPost svc sid body)))"

definition C_OperatingSystemGet :: "'m APIService \<Rightarrow> (string \<times> string) list \<Rightarrow> ('m redfish, payload response) op" where
  "C_OperatingSystemGet svc vars =
     with_param vars ''ComputerSystemId'' (\<lambda>sid. answer (RedfishV1SystemsComputerSystemIdOperatingSystemGet svc sid))"

section \<open>Dispatch\<close>

text \<open>
  The handler of a route, by the route's name.  A route outside the table is served by a stub.
\<close>

definition controller ::
  "'b wire \<Rightarrow> string \<Rightarrow> orders \<Rightarrow> 'm APIService \<Rightarrow> string \<Rightarrow> (string \<times> string) list \<Rightarrow> 'b request \<Rightarrow> ('m redfish, payload response) op" where
  "controller wi uuid ord svc name vars r =
     (if name = ''RedfishV1Get'' \<or> name = ''RedfishV1Get_0'' then C_Get svc
      else if name = ''RedfishV1MetadataGet'' then C_MetadataGet svc
      else if name = ''RedfishV1ManagersGet'' then C_ManagersGet svc
      else if name = ''RedfishV1ManagersManagerIdGet'' then C_ManagerGet svc vars
      else if name = ''RedfishV1ManagersManagerIdVirtualMediaGet'' then C_VirtualMediaCollectionGet svc vars
      else if name = ''RedfishV1ManagersManagerIdVirtualMediaVirtualMediaIdGet'' then C_VirtualMediaGet svc vars
      else if name = ''RedfishV1ManagersManagerIdVirtualMediaVirtualMediaIdActionsVirtualMediaEjectMediaPost'' then
        C_EjectMediaPost wi svc vars r
      else if name = ''RedfishV1ManagersManagerIdVirtualMediaVirtualMediaIdActionsVirtualMediaInsertMediaPost'' then
        C_InsertMediaPost wi ord svc vars r
      else if name = ''RedfishV1SessionServiceSessionsPost'' then C_SessionsPost wi uuid svc r
      else if name = ''RedfishV1SessionServiceSessionsSessionIdGet'' then C_SessionGet ord svc vars
      else if name = ''RedfishV1SessionServiceSessionsSessionIdDelete'' then C_SessionDelete svc vars
      else if name = ''RedfishV1SystemsGet'' then C_SystemsGet svc
      else if name = ''RedfishV1SystemsComputerSystemIdGet'' then C_SystemGet svc vars
      else if name = ''RedfishV1SystemsComputerSystemIdPatch'' then C_SystemPatch wi svc vars r
      else if name = ''RedfishV1SystemsComputerSystemIdActionsComputerSystemResetPost'' then C_ResetPost wi svc vars r
      else if name = ''RedfishV1SystemsComputerSystemIdActionsComputerSystemSetDefaultBootOrderPost'' then
        C_SetDefaultBootOrderPost wi svc vars r
      else if name = ''RedfishV1SystemsComputerSystemIdOperatingSystemGet'' then C_OperatingSystemGet svc vars
      else stub_controller wi ord name vars r)"

lemmas controller_defs = C_Get_def C_MetadataGet_def C_ManagersGet_def C_ManagerGet_def 
  C_VirtualMediaCollectionGet_def C_VirtualMediaGet_def 
  C_EjectMediaPost_def C_InsertMediaPost_def C_SessionGet_def C_SessionDelete_def C_SystemsGet_def C_SystemGet_def
  C_SystemPatch_def C_ResetPost_def C_SetDefaultBootOrderPost_def C_OperatingSystemGet_def

end
