(* ===== verification/RedfishServer.thy ===== *)
theory RedfishServer
  imports Controllers
begin

text \<open>
  The router of pkg/generated/redfish/server and the emulator of pkg/redfish/emulator.go that puts
  the controllers behind the authentication middleware: what a request can do, log-in, sessions
  and histories of requests.
\<close>

section \<open>Router and emulator\<close>

definition public_routes :: "string list" where
  "public_routes = [''RedfishV1Get'', ''RedfishV1Get_0'', ''RedfishV1MetadataGet'', ''RedfishV1SessionServiceSessionsPost'']"

definition mux_not_found :: "payload response" where
  "mux_not_found = http_error [] ''404 page not found'' StatusNotFound"

record 'm Emulator =
  em_port :: nat
  em_bmcUser :: string
  em_bmcPassword :: string
  em_service :: "'m APIService"

definition NewEmulator :: "nat \<Rightarrow> string \<Rightarrow> string \<Rightarrow> 'm ResourceManager \<Rightarrow> 'm Emulator" where
  "NewEmulator port bmcUser bmcPassword resourceManager =
     \<lparr>em_port = port, em_bmcUser = bmcUser, em_bmcPassword = bmcPassword,
      em_service = NewAPIService bmcUser bmcPassword resourceManager\<rparr>"

text \<open>
  One request through \<open>NewRouter\<close>: a matched route outside the public ones passes the
  authentication middleware first.
\<close>

definition redfish_serve ::
  "'b wire \<Rightarrow> string \<Rightarrow> orders \<Rightarrow> 'm Emulator \<Rightarrow> ('m redfish, 'b, payload) http_handler" where
  "redfish_serve wi uuid ord em r =
     (case wi_mux wi r of
        None \<Rightarrow> ret mux_not_found
      | Some (name, vars) \<Rightarrow>
          if name \<in> set public_routes
          then controller wi uuid ord (em_service em) name vars r
          else AuthMiddleware rf_tokens (em_bmcUser em) (em_bmcPassword em)
                 (\<lambda>r'. controller wi uuid ord (em_service em) name vars r') r)"

section \<open>What requests leave untouched\<close>

lemma frame_error_handler [frames]: "frame f (DefaultErrorHandler e r)"
  by (auto simp: DefaultErrorHandler_def frame_def split: option.split)

lemma frame_controls [frames]:
  "frame f call \<Longrightarrow> frame f (answer call)"
  "(\<And>v. frame f (k v)) \<Longrightarrow> frame f (with_param vars name k)"
  "(\<And>x. frame f (k' x)) \<Longrightarrow> frame f (with_body d k')"
  "frame f m \<Longrightarrow> frame f (checked e m)"
  "frame f a \<Longrightarrow> frame f (act_or_report msg a)"
  by (auto simp: answer_def with_param_def with_body_def checked_def act_or_report_def
      intro!: frames split: option.split sum.split prod.split)

lemma keeps_controls [keepers]:
  "keeps P call \<Longrightarrow> keeps P (answer call)"
  "(\<And>v. keeps P (k v)) \<Longrightarrow> keeps P (with_param vars name k)"
  "(\<And>x. keeps P (k' x)) \<Longrightarrow> keeps P (with_body d k')"
  "keeps P m \<Longrightarrow> keeps P (checked e m)"
  "keeps P a \<Longrightarrow> keeps P (act_or_report msg a)"
  by (auto simp: answer_def with_param_def with_body_def checked_def act_or_report_def DefaultErrorHandler_def
      intro!: keepers split: option.split sum.split prod.split)

lemmas api_defs =
  RedfishV1Get_def RedfishV1ManagersGet_def RedfishV1ManagersManagerIdGet_def
  RedfishV1ManagersManagerIdVirtualMediaGet_def RedfishV1ManagersManagerIdVirtualMediaVirtualMediaIdGet_def
  VirtualMediaEjectMediaPost_def VirtualMediaInsertMediaPost_def RedfishV1SessionServiceSessionsSessionIdGet_def
  RedfishV1SystemsGet_def RedfishV1SystemsComputerSystemIdGet_def RedfishV1SystemsComputerSystemIdPatch_def
  ComputerSystemResetPost_def ComputerSystemSetDefaultBootOrderPost_def
  RedfishV1SystemsComputerSystemIdOperatingSystemGet_def stub_def

text \<open>The service methods: all but log-in and log-out leave the sessions alone, and those two the machine.\<close>

lemma api_tokens [frames]:
  "frame rf_tokens (RedfishV1Get svc)" "frame rf_tokens (RedfishV1ManagersGet svc)"
  "frame rf_tokens (RedfishV1ManagersManagerIdGet svc i)" "frame rf_tokens (RedfishV1ManagersManagerIdVirtualMediaGet svc i)"
  "frame rf_tokens (RedfishV1ManagersManagerIdVirtualMediaVirtualMediaIdGet svc i j)"
  "frame rf_tokens (VirtualMediaEjectMediaPost svc i j b)" "frame rf_tokens (VirtualMediaInsertMediaPost svc i j mb)"
  "frame rf_tokens (RedfishV1SessionServiceSessionsSessionIdGet ord svc i)" "frame rf_tokens (RedfishV1SystemsGet svc)"
  "frame rf_tokens (RedfishV1SystemsComputerSystemIdGet svc i)" "frame rf_tokens (RedfishV1SystemsComputerSystemIdPatch svc i boot)"
  "frame rf_tokens (ComputerSystemResetPost svc i t)" "frame rf_tokens (ComputerSystemSetDefaultBootOrderPost svc i b)"
  "frame rf_tokens (RedfishV1SystemsComputerSystemIdOperatingSystemGet svc i)" "frame rf_tokens (stub name)"
  by (auto simp: api_defs intro!: frames split: option.split json.split prod.split)

lemma api_machine_static [frames]:
  "frame rf_rm (RedfishV1Get svc)" "frame rf_rm (RedfishV1ManagersGet svc)"
  "frame rf_rm (RedfishV1ManagersManagerIdVirtualMediaGet svc i)" "frame rf_rm (RedfishV1SystemsGet svc)"
  "frame rf_rm (RedfishV1SessionServiceSessionsPost uuid svc sd)"
  "frame rf_rm (RedfishV1SessionServiceSessionsSessionIdGet ord svc i)"
  "frame rf_rm (RedfishV1SessionServiceSessionsSessionIdDelete svc i)"
  "frame rf_rm (RedfishV1SystemsComputerSystemIdOperatingSystemGet svc i)" "frame rf_rm (stub name)"
  by (auto simp: api_defs RedfishV1SessionServiceSessionsPost_def RedfishV1SessionServiceSessionsSessionIdDelete_def
      intro!: frames split: prod.split)

definition session_routes :: "string list" where
  "session_routes = [''RedfishV1SessionServiceSessionsPost'', ''RedfishV1SessionServiceSessionsSessionIdDelete'']"

lemma controller_tokens:
  assumes "name \<notin> set session_routes"
  shows "frame rf_tokens (controller wi uuid ord svc name vars r)"
proof -
  have "name \<noteq> ''RedfishV1SessionServiceSessionsPost''" "name \<noteq> ''RedfishV1SessionServiceSessionsSessionIdDelete''"
    using assms by (auto simp: session_routes_def)
  then show ?thesis
    unfolding controller_def controller_defs stub_controller_def stub_controller_defs by (simp only: if_False) (intro frames frame_if)
qed

lemma frame_SessionsPost [frames]: "frame rf_rm (C_SessionsPost wi uuid svc r)"
  unfolding C_SessionsPost_def
  by (auto intro!: frames split: option.split payload.split prod.split)

lemma public_machine:
  assumes "name \<in> set public_routes"
  shows "frame rf_rm (controller wi uuid ord svc name vars r)"
proof -
  from assms consider "name = ''RedfishV1Get''" | "name = ''RedfishV1Get_0''" | "name = ''RedfishV1MetadataGet''"
    | "name = ''RedfishV1SessionServiceSessionsPost''"
    by (auto simp: public_routes_def)
  then show ?thesis
    by cases (simp_all add: controller_def C_Get_def C_MetadataGet_def, (intro frames)+)
qed

section \<open>Log-in\<close>

definition logged_in :: "string \<Rightarrow> SessionV171Session \<Rightarrow> string \<Rightarrow> payload response" where
  "logged_in uuid session token =
     EncodeJSONResponse [(''X-Auth-Token'', token), (''Location'', ''/redfish/v1/SessionService/Sessions/'' @ uuid)]
       (SessionBody (zero_SessionV171Session
         \<lparr>se_OdataType := ''Session.v1_7_1.Session'', se_OdataId := ''/redfish/v1/SessionService/Sessions/1'',
          se_Id := uuid, se_Name := ''User Session'', se_Token := None, se_UserName := se_UserName session\<rparr>)) 201"

lemma session_unchecked: "AssertSessionV171SessionConstraints session = None"
  by (simp add: AssertSessionV171SessionConstraints_def AssertSessionV171ActionsConstraints_def
      AssertSessionV171LinksConstraints_def checks)

lemma session_body [simp]:
  "se_Token zero_SessionV171Session = None" "se_Password zero_SessionV171Session = None"
  "zero_SessionV171Session\<lparr>se_Token := None\<rparr> = zero_SessionV171Session"
  by (simp_all add: zero_SessionV171Session_def)

lemma C_SessionsPost_run:
  "C_SessionsPost wi uuid svc r s =
     (case wi_session wi (req_body r) of
        Inl err \<Rightarrow> (Ok (EncodeJSONResponse [] (MessageBody (error_string err)) 400), s)
      | Inr session \<Rightarrow>
          if se_UserName session = Some (h_bmcUser (as_handler svc)) \<and> se_Password session = Some (h_bmcPassword (as_handler svc))
          then (Ok (logged_in uuid session (generateToken (NewTokenInfo uuid (h_bmcUser (as_handler svc))))),
                s\<lparr>rf_tokens := snd (AddToken (NewTokenInfo uuid (h_bmcUser (as_handler svc))) (rf_tokens s))\<rparr>)
          else (Ok (EncodeJSONResponse [] (MessageBody
                 (if se_UserName session = None \<or> se_Password session = None
                  then ''username and password must be provided'' else ''invalid username or password'')) 401), s))"
  by (cases "se_UserName (projr (wi_session wi (req_body r)))"; cases "se_Password (projr (wi_session wi (req_body r)))")
    (auto simp: C_SessionsPost_def zero_SessionV171Session_def with_body_def checked_def session_unchecked DefaultErrorHandler_def RedfishV1SessionServiceSessionsPost_def
      Authenticate_def attempt_def andThen_def Response_def logged_in_def AddToken_def Let_def split: sum.split prod.split)

text \<open>The credentials of a log-in request.\<close>

definition login_with :: "'b wire \<Rightarrow> string \<Rightarrow> string \<Rightarrow> 'b request \<Rightarrow> bool" where
  "login_with wi user pass r \<longleftrightarrow>
     map_option fst (wi_mux wi r) = Some ''RedfishV1SessionServiceSessionsPost'' \<and>
     (case wi_session wi (req_body r) of
        Inl _ \<Rightarrow> False | Inr d \<Rightarrow> se_UserName d = Some user \<and> se_Password d = Some pass)"

lemma emulator_credentials [simp]:
  "em_bmcUser (NewEmulator port u p rm) = u" "em_bmcPassword (NewEmulator port u p rm) = p"
  "as_handler (em_service (NewEmulator port u p rm)) = NewHandler u p rm"
  "h_bmcUser (NewHandler u p rm) = u" "h_bmcPassword (NewHandler u p rm) = p" "h_rm (NewHandler u p rm) = rm"
  by (simp_all add: NewEmulator_def NewAPIService_def NewHandler_def)

lemma login_run:
  assumes "C_SessionsPost wi uuid (em_service (NewEmulator port u p rm)) r s = (x, s')" and "login_with wi u p r"
  obtains d where "x = Ok (logged_in uuid d (generateToken (NewTokenInfo uuid u)))"
    "rf_tokens s' = snd (AddToken (NewTokenInfo uuid u) (rf_tokens s))"
  using assms by (auto simp: C_SessionsPost_run login_with_def split: sum.splits)

section \<open>Authentication\<close>

text \<open>The two ways to be let in: the BMC credentials, or the token of a live session.\<close>

definition authorised :: "'m Emulator \<Rightarrow> 'b request \<Rightarrow> 'm redfish \<Rightarrow> bool" where
  "authorised em r s \<longleftrightarrow>
     (case req_basic_auth r of
        Some (u, p) \<Rightarrow> u = em_bmcUser em \<and> p = em_bmcPassword em
      | None \<Rightarrow> req_auth_token r \<noteq> '''' \<and> GetToken (req_auth_token r) (rf_tokens s) \<noteq> None)"

lemma AuthMiddleware_cases:
  "AuthMiddleware rf_tokens (em_bmcUser em) (em_bmcPassword em) next r s =
     (if authorised em r s
      then next (case req_basic_auth r of Some (u, p) \<Rightarrow> r\<lparr>req_user := Some u\<rparr> | None \<Rightarrow> r) s
      else (Ok unauthorized, s))"
  by (auto simp: AuthMiddleware_def authorised_def Let_def split: option.splits prod.splits)

lemma public_tokens:
  assumes "name \<in> set public_routes" and "name \<noteq> ''RedfishV1SessionServiceSessionsPost''"
  shows "frame rf_tokens (controller wi uuid ord svc name vars r)"
  using assms by (intro controller_tokens) (auto simp: public_routes_def session_routes_def)

lemma controller_login:
  "controller wi uuid ord svc ''RedfishV1SessionServiceSessionsPost'' vars r = C_SessionsPost wi uuid svc r"
  by (simp add: controller_def)

lemma controller_delete:
  "controller wi uuid ord svc ''RedfishV1SessionServiceSessionsSessionIdDelete'' vars r =
     with_param vars ''SessionId'' (\<lambda>sid. answer (RedfishV1SessionServiceSessionsSessionIdDelete svc sid))"
  by (simp add: controller_def C_SessionDelete_def)

text \<open>Authentication comes before everything else: a request without valid credentials and without a live
  token that matches any but the four public routes is answered 401 and changes nothing, whatever
  the route, the body or the path.\<close>

lemma protected_routes_need_authorisation:
  assumes "wi_mux wi r = Some (name, vars)" and "name \<notin> set public_routes" and "\<not> authorised em r s"
  shows "redfish_serve wi uuid ord em r s = (Ok unauthorized, s) \<and> resp_code (unauthorized :: payload response) = 401"
  using assms by (simp add: redfish_serve_def AuthMiddleware_cases unauthorized_def http_error_def)

text \<open>C8. A request that is not authorised never reaches the machine, on any route; and it changes the
  sessions only by logging in with the BMC's own user name and password.\<close>

theorem unauthorised_requests_harmless:
  assumes "\<not> authorised (NewEmulator port u p rm) r s"
    and "redfish_serve wi uuid ord (NewEmulator port u p rm) r s = (x, s')"
  shows "rf_rm s' = rf_rm s \<and> (rf_tokens s' = rf_tokens s \<or> login_with wi u p r)"
proof (cases "wi_mux wi r")
  case None
  with assms(2) show ?thesis by (simp add: redfish_serve_def)
next
  case (Some nv)
  obtain name vars where nv: "nv = (name, vars)" by force
  show ?thesis
  proof (cases "name \<in> set public_routes")
    case False
    with assms Some nv show ?thesis
      by (simp add: redfish_serve_def AuthMiddleware_cases del: emulator_credentials)
  next
    case True
    then have run: "controller wi uuid ord (em_service (NewEmulator port u p rm)) name vars r s = (x, s')"
      using assms(2) Some nv by (simp add: redfish_serve_def)
    have "rf_tokens s' = rf_tokens s \<or> login_with wi u p r"
    proof (cases "name = ''RedfishV1SessionServiceSessionsPost''")
      case True
      with run Some nv show ?thesis
        by (auto simp: controller_login C_SessionsPost_run login_with_def split: sum.splits if_splits)
    next
      case False
      with frameD [OF public_tokens [OF True False] run] show ?thesis by simp
    qed
    with frameD [OF public_machine [OF True] run] show ?thesis by simp
  qed
qed

section \<open>Sessions\<close>

text \<open>C30. Logging in with the BMC's credentials answers 201 with a token that is nowhere in the body (though it
  is the hash of the session id and the user name, both of which are in the response), and from then on every request with that token and no basic authentication is authorised until the token
  itself is removed from the store; any other credentials are answered 401 and issue nothing.\<close>

theorem login_issues_token:
  assumes "wi_mux wi r = Some (''RedfishV1SessionServiceSessionsPost'', vars)" and "token_wf (rf_tokens s)"
    and "redfish_serve wi uuid ord (NewEmulator port u p rm) r s = (x, s')"
  shows "if login_with wi u p r
    then \<exists>token resp. x = Ok resp \<and> resp_code resp = 201 \<and> map_of (resp_headers resp) ''X-Auth-Token'' = Some token
      \<and> (\<exists>d. resp_body resp = JsonBody (SessionBody d) \<and> se_Token d = None \<and> se_Password d = None)
      \<and> map_of (resp_headers resp) ''Location'' = Some (''/redfish/v1/SessionService/Sessions/'' @ uuid)
      \<and> token = generateToken \<lparr>ti_ID = uuid, ti_Username = u\<rparr>
      \<and> GetToken token (rf_tokens s') = Some \<lparr>ti_ID = uuid, ti_Username = u\<rparr>
      \<and> (\<forall>r'. req_basic_auth r' = None \<longrightarrow> req_auth_token r' = token \<longrightarrow> authorised (NewEmulator port u p rm) r' s')
    else s' = s \<and> (\<exists>resp. x = Ok resp \<and> resp_code resp \<in> {400, 401})"
proof -
  have run: "C_SessionsPost wi uuid (em_service (NewEmulator port u p rm)) r s = (x, s')"
    using assms(1,3) by (simp add: redfish_serve_def public_routes_def controller_login)
  show ?thesis
  proof (cases "login_with wi u p r")
    case True
    let ?ti = "NewTokenInfo uuid u"
    obtain d where x: "x = Ok (logged_in uuid d (generateToken ?ti))" "rf_tokens s' = snd (AddToken ?ti (rf_tokens s))"
      using login_run [OF run True] .
    then have "GetToken (generateToken ?ti) (rf_tokens s') = Some ?ti"
      using session_store.lookup_add [OF assms(2)] by simp
    with x generateToken_not_empty True show ?thesis
      by (auto simp: logged_in_def EncodeJSONResponse_def authorised_def NewTokenInfo_def)
  next
    case False
    with run assms(1) show ?thesis
      by (auto simp: C_SessionsPost_run login_with_def EncodeJSONResponse_def split: sum.splits if_splits)
  qed
qed

text \<open>C31. Deleting a session by its id does not end it: the request is answered 204, but the store is keyed
  by tokens, so a session id (36 characters where a token has 64) removes nothing and the
  session's token is accepted as before; only a delete of the token itself would revoke it.\<close>

theorem delete_session_keeps_token:
  assumes "wi_mux wi r = Some (''RedfishV1SessionServiceSessionsSessionIdDelete'', vars)"
    and "map_of vars ''SessionId'' = Some sid" and "sid \<noteq> ''''" and "token_wf (rf_tokens s)"
    and "authorised em r s" and "redfish_serve wi uuid ord em r s = (x, s')"
  shows "x = Ok (EncodeJSONResponse [] NilBody 204)
    \<and> (\<forall>t. GetToken t (rf_tokens s') = (if t = sid then None else GetToken t (rf_tokens s)))
    \<and> (length sid \<noteq> 64 \<longrightarrow> s' = s)"
proof -
  have not_public: "''RedfishV1SessionServiceSessionsSessionIdDelete'' \<notin> set public_routes"
    by (simp add: public_routes_def)
  have "x = Ok (EncodeJSONResponse [] NilBody 204)" and s': "s' = s\<lparr>rf_tokens := RemoveToken sid (rf_tokens s)\<rparr>"
    using assms not_public
    by (auto simp: redfish_serve_def AuthMiddleware_cases controller_delete with_param_def answer_def
        RedfishV1SessionServiceSessionsSessionIdDelete_def DeleteSession_def andThen_def attempt_def Response_def)
  with RemoveToken_no_token [OF assms(4)] session_store.lookup_remove [OF assms(4)] show ?thesis by simp
qed

section \<open>Histories\<close>

text \<open>
  Requests served one after the other, with the randomness and the map order of each; between two
  requests the machine's side may change arbitrarily, the sessions not (the store is private to
  the process).
\<close>

inductive redfish_history ::
  "'b wire \<Rightarrow> 'm Emulator \<Rightarrow> 'm redfish \<Rightarrow> ('b request \<times> payload response outcome) list \<Rightarrow> 'm redfish \<Rightarrow> bool"
  for wi :: "'b wire" and em :: "'m Emulator" and s0 :: "'m redfish"
where
  start: "redfish_history wi em s0 [] s0"
| serve: "redfish_history wi em s0 h s \<Longrightarrow> redfish_serve wi uuid ord em r s = (x, s') \<Longrightarrow>
    redfish_history wi em s0 (h @ [(r, x)]) s'"
| environment: "redfish_history wi em s0 h s \<Longrightarrow> redfish_history wi em s0 h (s\<lparr>rf_rm := m\<rparr>)"

inductive_cases history_NilE: "redfish_history wi em s0 [] s"

text \<open>What one request can do to the sessions.\<close>

definition issued_by :: "'b wire \<Rightarrow> string \<Rightarrow> string \<Rightarrow> string \<Rightarrow> 'b request \<times> payload response outcome \<Rightarrow> bool" where
  "issued_by wi u p t rx \<longleftrightarrow> login_with wi u p (fst rx) \<and>
     (\<exists>resp. snd rx = Ok resp \<and> resp_code resp = 201 \<and> map_of (resp_headers resp) ''X-Auth-Token'' = Some t)"

lemma serve_login:
  assumes "redfish_serve wi uuid ord (NewEmulator port u p rm) r s = (x, s')" and "token_wf (rf_tokens s)"
    and "wi_mux wi r = Some (''RedfishV1SessionServiceSessionsPost'', vars)"
  shows "token_wf (rf_tokens s') \<and> (GetToken t (rf_tokens s') = Some i \<longrightarrow>
    GetToken t (rf_tokens s) = Some i \<or> issued_by wi u p t (r, x) \<and> ti_Username i = u)"
proof -
  have run: "C_SessionsPost wi uuid (em_service (NewEmulator port u p rm)) r s = (x, s')"
    using assms(1,3) by (simp add: redfish_serve_def public_routes_def controller_login)
  show ?thesis
  proof (cases "login_with wi u p r")
    case True
    let ?ti = "NewTokenInfo uuid u"
    obtain d where x: "x = Ok (logged_in uuid d (generateToken ?ti))" "rf_tokens s' = snd (AddToken ?ti (rf_tokens s))"
      using login_run [OF run True] .
    with True session_store.lookup_add [OF assms(2), of t ?ti] session_store.inv_add [OF assms(2)] show ?thesis
      by (auto simp: issued_by_def logged_in_def EncodeJSONResponse_def NewTokenInfo_def)
  next
    case False
    with run assms(3) have "s' = s" by (auto simp: C_SessionsPost_run login_with_def split: sum.splits if_splits)
    with assms(2) show ?thesis by simp
  qed
qed

lemma serve_logout:
  assumes "redfish_serve wi uuid ord em r s = (x, s')"
    and "wi_mux wi r = Some (''RedfishV1SessionServiceSessionsSessionIdDelete'', vars)"
  shows "s' = s \<or> (\<exists>sid. rf_tokens s' = RemoveToken sid (rf_tokens s))"
  using assms
  by (auto simp: redfish_serve_def public_routes_def AuthMiddleware_cases controller_delete with_param_def answer_def
      RedfishV1SessionServiceSessionsSessionIdDelete_def DeleteSession_def andThen_def attempt_def Response_def
      DefaultErrorHandler_def simp del: emulator_credentials split: if_splits option.splits)

lemma serve_sessions:
  assumes "redfish_serve wi uuid ord (NewEmulator port u p rm) r s = (x, s')" and "token_wf (rf_tokens s)"
  shows "token_wf (rf_tokens s')"
    and "GetToken t (rf_tokens s') = Some i \<Longrightarrow> GetToken t (rf_tokens s) = Some i \<or> issued_by wi u p t (r, x) \<and> ti_Username i = u"
proof -
  let ?post = "''RedfishV1SessionServiceSessionsPost''" and ?del = "''RedfishV1SessionServiceSessionsSessionIdDelete''"
  consider (post) vars where "wi_mux wi r = Some (?post, vars)" | (del) vars where "wi_mux wi r = Some (?del, vars)"
    | (other) "rf_tokens s' = rf_tokens s"
  proof (cases "wi_mux wi r")
    case (Some nv)
    obtain name vars where nv: "nv = (name, vars)" by force
    have "name \<notin> set session_routes \<Longrightarrow> rf_tokens s' = rf_tokens s"
      using frameD [OF controller_tokens] assms(1) Some nv
      by (force simp: redfish_serve_def AuthMiddleware_cases simp del: emulator_credentials split: if_splits)
    with Some nv that show ?thesis by (auto simp: session_routes_def)
  qed (use assms(1) that in \<open>auto simp: redfish_serve_def\<close>)
  then have "token_wf (rf_tokens s') \<and> (GetToken t (rf_tokens s') = Some i \<longrightarrow>
      GetToken t (rf_tokens s) = Some i \<or> issued_by wi u p t (r, x) \<and> ti_Username i = u)"
  proof cases
    case post
    from serve_login [OF assms post] show ?thesis .
  next
    case del
    with serve_logout [OF assms(1) del] session_store.lookup_remove [OF assms(2)] session_store.inv_remove [OF assms(2)]
      assms(2) show ?thesis by (auto split: if_splits)
  qed (use assms(2) in auto)
  then show "token_wf (rf_tokens s')"
    and "GetToken t (rf_tokens s') = Some i \<Longrightarrow> GetToken t (rf_tokens s) = Some i \<or> issued_by wi u p t (r, x) \<and> ti_Username i = u"
    by blast+
qed

text \<open>C4. Tokens are earned: in every history of the server that starts with no sessions, a token that opens
  the door was handed out by an earlier log-in in that history, answered 201 in its X-Auth-Token
  header, whose request carried the BMC's own user name and password.\<close>

theorem live_tokens_were_issued:
  assumes "redfish_history wi (NewEmulator port u p rm) s0 h s" and "rf_tokens s0 = init_ts"
    and "GetToken t (rf_tokens s) = Some i"
  shows "ti_Username i = u \<and> (\<exists>rx \<in> set h. issued_by wi u p t rx)"
proof -
  have "token_wf (rf_tokens s) \<and> (\<forall>i. GetToken t (rf_tokens s) = Some i \<longrightarrow> ti_Username i = u \<and> (\<exists>rx \<in> set h. issued_by wi u p t rx))"
    using assms(1)
  proof induction
    case start
    show ?case by (simp add: assms(2)) (simp add: GetToken_def init_ts_def)
  next
    case (serve h s uuid ord r x s')
    note S = serve_sessions [OF serve.hyps(2)]
    from serve.IH S(1) S(2) [of t] show ?case by fastforce
  qed simp
  with assms(3) show ?thesis by blast
qed

section \<open>Requests and the machine\<close>

text \<open>The invariant and the identity of the machine behind any resource manager survive every request.\<close>

context resource_manager
begin

lemmas handler_unfold = RedfishV1ManagersManagerIdGet_def RedfishV1ManagersManagerIdVirtualMediaVirtualMediaIdGet_def
  VirtualMediaEjectMediaPost_def VirtualMediaInsertMediaPost_def RedfishV1SystemsComputerSystemIdGet_def
  RedfishV1SystemsComputerSystemIdPatch_def ComputerSystemResetPost_def ComputerSystemSetDefaultBootOrderPost_def

lemma static_inv:
  "frame rf_rm m \<Longrightarrow> keeps (\<lambda>s. inv (rf_rm s)) m" "frame rf_rm m \<Longrightarrow> frame (\<lambda>s. machine (rf_rm s)) m"
  by (auto simp: frame_def keeps_def)

lemma api_inv:
  "keeps (\<lambda>s. inv (rf_rm s)) (RedfishV1ManagersManagerIdGet (em_service (NewEmulator port u p rm)) i)"
  "keeps (\<lambda>s. inv (rf_rm s)) (RedfishV1ManagersManagerIdVirtualMediaVirtualMediaIdGet (em_service (NewEmulator port u p rm)) i j)"
  "keeps (\<lambda>s. inv (rf_rm s)) (VirtualMediaEjectMediaPost (em_service (NewEmulator port u p rm)) i j b)"
  "keeps (\<lambda>s. inv (rf_rm s)) (VirtualMediaInsertMediaPost (em_service (NewEmulator port u p rm)) i j mb)"
  "keeps (\<lambda>s. inv (rf_rm s)) (RedfishV1SystemsComputerSystemIdGet (em_service (NewEmulator port u p rm)) i)"
  "keeps (\<lambda>s. inv (rf_rm s)) (RedfishV1SystemsComputerSystemIdPatch (em_service (NewEmulator port u p rm)) i boot)"
  "keeps (\<lambda>s. inv (rf_rm s)) (ComputerSystemResetPost (em_service (NewEmulator port u p rm)) i t)"
  "keeps (\<lambda>s. inv (rf_rm s)) (ComputerSystemSetDefaultBootOrderPost (em_service (NewEmulator port u p rm)) i b)"
  unfolding handler_unfold emulator_credentials
  by (auto intro!: keepers handler_inv split: option.split json.split)

lemma api_machine:
  "frame (\<lambda>s. machine (rf_rm s)) (RedfishV1ManagersManagerIdGet (em_service (NewEmulator port u p rm)) i)"
  "frame (\<lambda>s. machine (rf_rm s)) (RedfishV1ManagersManagerIdVirtualMediaVirtualMediaIdGet (em_service (NewEmulator port u p rm)) i j)"
  "frame (\<lambda>s. machine (rf_rm s)) (VirtualMediaEjectMediaPost (em_service (NewEmulator port u p rm)) i j b)"
  "frame (\<lambda>s. machine (rf_rm s)) (VirtualMediaInsertMediaPost (em_service (NewEmulator port u p rm)) i j mb)"
  "frame (\<lambda>s. machine (rf_rm s)) (RedfishV1SystemsComputerSystemIdGet (em_service (NewEmulator port u p rm)) i)"
  "frame (\<lambda>s. machine (rf_rm s)) (RedfishV1SystemsComputerSystemIdPatch (em_service (NewEmulator port u p rm)) i boot)"
  "frame (\<lambda>s. machine (rf_rm s)) (ComputerSystemResetPost (em_service (NewEmulator port u p rm)) i t)"
  "frame (\<lambda>s. machine (rf_rm s)) (ComputerSystemSetDefaultBootOrderPost (em_service (NewEmulator port u p rm)) i b)"
  unfolding handler_unfold emulator_credentials
  by (auto intro!: frames handler_machine split: option.split json.split)

lemma controller_inv:
  "keeps (\<lambda>s. inv (rf_rm s)) (controller wi uuid ord (em_service (NewEmulator port u p rm)) name vars r)"
  unfolding controller_def controller_defs stub_controller_def stub_controller_defs
  by (intro keeps_if keepers api_inv static_inv frames)

lemma controller_machine:
  "frame (\<lambda>s. machine (rf_rm s)) (controller wi uuid ord (em_service (NewEmulator port u p rm)) name vars r)"
  unfolding controller_def controller_defs stub_controller_def stub_controller_defs
  by (intro frame_if frame_controls api_machine static_inv frames)

lemma serve_inv: "keeps (\<lambda>s. inv (rf_rm s)) (redfish_serve wi uuid ord (NewEmulator port u p rm) r)"
  by (rule keepsI)
    (auto simp: redfish_serve_def AuthMiddleware_cases simp del: emulator_credentials
      intro: controller_inv [unfolded keeps_def, rule_format] split: option.split)

lemma serve_machine: "frame (\<lambda>s. machine (rf_rm s)) (redfish_serve wi uuid ord (NewEmulator port u p rm) r)"
  by (rule frameI)
    (auto simp: redfish_serve_def AuthMiddleware_cases frame_snd [OF controller_machine] simp del: emulator_credentials
      split: option.split)

end

end
