(* ===== verification/Agent.thy ===== *)
theory Agent
  imports Ipmi RedfishServer
begin

text \<open>
  pkg/virtbmc and cmd/virtbmc: the BMC agent, which puts one resource manager behind both front
  ends.  The state of the running agent is that of the Redfish server (the token store and the
  resource manager's state); IPMI commands act on the resource manager's part of it.  Building
  the clients from the kubeconfig, listening on the ports and the signal handling are outside.
\<close>

section \<open>Clients\<close>

text \<open>
  pkg/virtbmc/k8s.go.  The constructors of the client libraries are parameters; a \<open>vm_client\<close> holds the
  calls of both clients the agent has, of which each constructor provides its own.
\<close>

record ('c, 'w) client_lib =
  kl_BuildConfigFromFlags :: "string \<Rightarrow> go_error + 'c"
  kl_InClusterConfig :: "go_error + 'c"
  kl_NewVirtForConfig :: "'c \<Rightarrow> go_error + 'w vm_client"
  kl_NewCdiForConfig :: "'c \<Rightarrow> go_error + 'w vm_client"

definition or_panic :: "go_error + 'a \<Rightarrow> 'a outcome" where
  "or_panic result = (case result of Inl err \<Rightarrow> Panic (ExplicitPanic (error_string err)) | Inr x \<Rightarrow> Ok x)"

definition build_config :: "('c, 'w) client_lib \<Rightarrow> string \<Rightarrow> 'c outcome" where
  "build_config kl kubeconfig =
     (case kl_BuildConfigFromFlags kl kubeconfig of
        Inl _ \<Rightarrow> or_panic (kl_InClusterConfig kl)
      | Inr config \<Rightarrow> Ok config)"

definition NewVirtClient :: "('c, 'w) client_lib \<Rightarrow> string \<Rightarrow> ('s, 'w vm_client) op" where
  "NewVirtClient kl kubeconfig =
     andThen (pureR (build_config kl kubeconfig)) (\<lambda>config. pureR (or_panic (kl_NewVirtForConfig kl config)))"

definition NewCdiClient :: "('c, 'w) client_lib \<Rightarrow> string \<Rightarrow> ('s, 'w vm_client) op" where
  "NewCdiClient kl kubeconfig =
     andThen (pureR (build_config kl kubeconfig)) (\<lambda>config. pureR (or_panic (kl_NewCdiForConfig kl config)))"

definition both_clients :: "'w vm_client \<Rightarrow> 'w vm_client \<Rightarrow> 'w vm_client" where
  "both_clients virtClient cdiClient =
     virtClient\<lparr>vc_CreateDV := vc_CreateDV cdiClient, vc_DeleteDV := vc_DeleteDV cdiClient\<rparr>"

section \<open>Start-up\<close>

record Options =
  opt_KubeconfigPath :: string
  opt_Address :: string
  opt_IPMIPort :: nat
  opt_RedfishPort :: nat
  opt_BMCUser :: string
  opt_BMCPassword :: string

record ('m, 'w) VirtBMC =
  vb_address :: string
  vb_ipmiPort :: nat
  vb_redfishPort :: nat
  vb_vmNamespace :: string
  vb_vmName :: string
  vb_client :: "'w vm_client"
  vb_ipmiSimulator :: "('m, 'w vmrm) Simulator"
  vb_redfishEmulator :: "('w vmrm) Emulator"

definition assemble :: "'w vm_client \<Rightarrow> string \<Rightarrow> string \<Rightarrow> Options \<Rightarrow> ('m, 'w) VirtBMC" where
  "assemble client vmNamespace vmName options =
     (let resourceManager = vm_resource_manager client
      in \<lparr>vb_address = opt_Address options,
          vb_ipmiPort = opt_IPMIPort options,
          vb_redfishPort = opt_RedfishPort options,
          vb_vmNamespace = vmNamespace,
          vb_vmName = vmName,
          vb_client = client,
          vb_ipmiSimulator = NewSimulator (opt_Address options) (opt_IPMIPort options) resourceManager,
          vb_redfishEmulator = NewEmulator (opt_RedfishPort options) (opt_BMCUser options) (opt_BMCPassword options) resourceManager\<rparr>)"

definition NewVirtBMC :: "('c, 'w) client_lib \<Rightarrow> string \<Rightarrow> string \<Rightarrow> Options \<Rightarrow> ('s, ('m, 'w) VirtBMC) op" where
  "NewVirtBMC kl vmNamespace vmName options =
     andThen (NewVirtClient kl (opt_KubeconfigPath options)) (\<lambda>virtClient.
     andThen (NewCdiClient kl (opt_KubeconfigPath options)) (\<lambda>cdiClient.
     ret (assemble (both_clients virtClient cdiClient) vmNamespace vmName options)))"

text \<open>
  \<open>Run\<close> up to the moment both services listen; \<open>listen\<close> is the answer of goipmi's \<open>Run\<close>.
  (The Redfish emulator's \<open>Run\<close> starts a goroutine and cannot fail.)
\<close>

definition VirtBMC_Run :: "string \<Rightarrow> go_error option \<Rightarrow> ('m, 'w) VirtBMC \<Rightarrow> ('w vmrm, unit) op" where
  "VirtBMC_Run now listen b =
     attempt (Initialize (vb_client b) now (vb_vmNamespace b) (vb_vmName b))
       (\<lambda>err. fail (PlainError (''unable to initialize the resource manager: '' @ error_string err)))
       (\<lambda>_. case listen of
          Some err \<Rightarrow> fail (PlainError (''unable to run the ipmi simulator: '' @ error_string err))
        | None \<Rightarrow> ret ())"

text \<open>\<open>run\<close> of the command, which returns once the agent is stopped; the agent it runs is the result here.\<close>

definition run_agent ::
  "('c, 'w) client_lib \<Rightarrow> string \<Rightarrow> go_error option \<Rightarrow> string \<Rightarrow> string \<Rightarrow> Options \<Rightarrow> ('w vmrm, ('m, 'w) VirtBMC) op" where
  "run_agent kl now listen vmNamespace vmName options =
     attempt (NewVirtBMC kl vmNamespace vmName options)
       (\<lambda>err. fail (PlainError (''failed to create virtbmc server: '' @ error_string err)))
       (\<lambda>b. andThen (VirtBMC_Run now listen b) (\<lambda>_. ret b))"

text \<open>\<open>cCtx.Args().Get(i)\<close> is the empty string beyond the end.\<close>

definition arg :: "string list \<Rightarrow> nat \<Rightarrow> string" where
  "arg args i = (if i < length args then args ! i else '''')"

definition main_action ::
  "('c, 'w) client_lib \<Rightarrow> string \<Rightarrow> go_error option \<Rightarrow> (string \<Rightarrow> string) \<Rightarrow> string list \<Rightarrow> Options
     \<Rightarrow> ('w vmrm, ('m, 'w) VirtBMC) op" where
  "main_action kl now listen env args options =
     (let options' = options\<lparr>opt_BMCUser := env ''BMC_USERNAME'', opt_BMCPassword := env ''BMC_PASSWORD''\<rparr>
      in if opt_BMCUser options' = '''' \<or> opt_BMCPassword options' = ''''
         then crash (ExplicitPanic ''BMC credentials missing: both BMC_USERNAME and BMC_PASSWORD must be provided'')
         else run_agent kl now listen (arg args 0) (arg args 1) options')"

section \<open>The running agent\<close>

text \<open>
  A history of the agent: Redfish requests, IPMI commands, and changes of the cluster by anybody
  else, in any order.  Handlers run one at a time (concurrent handlers on the shared documents,
  which the code does not lock, are not modelled).
\<close>

inductive agent_run ::
  "'w vm_client \<Rightarrow> 'b wire \<Rightarrow> 'm goipmi \<Rightarrow> string \<Rightarrow> string \<Rightarrow> 'w vmrm redfish \<Rightarrow> 'w vmrm redfish \<Rightarrow> bool"
  for vc :: "'w vm_client" and wi :: "'b wire" and gi :: "'m goipmi" and u p :: string and a0 :: "'w vmrm redfish"
where
  boot: "agent_run vc wi gi u p a0 a0"
| redfish: "agent_run vc wi gi u p a0 a \<Longrightarrow>
    redfish_serve wi uuid ord (NewEmulator port u p (vm_resource_manager vc)) r a = (x, a') \<Longrightarrow>
    agent_run vc wi gi u p a0 a'"
| ipmi: "agent_run vc wi gi u p a0 a \<Longrightarrow>
    sim_serve gi (NewSimulator ip port (vm_resource_manager vc)) netfn cmd = Some h \<Longrightarrow>
    h m (rf_rm a) = (y, s') \<Longrightarrow> agent_run vc wi gi u p a0 (a\<lparr>rf_rm := s'\<rparr>)"
| others: "agent_run vc wi gi u p a0 a \<Longrightarrow> agent_run vc wi gi u p a0 (a\<lparr>rf_rm := (rf_rm a)\<lparr>m_world := w\<rparr>\<rparr>)"

definition agent_inv :: "'w vmrm redfish \<Rightarrow> bool" where
  "agent_inv a \<longleftrightarrow> rm_inv (rf_rm a) \<and> token_wf (rf_tokens a)"

lemma sim_serve_cases:
  assumes "sim_serve gi (NewSimulator ip port rm) netfn cmd = Some h"
  shows "h = chassisControlHandler gi (NewIpmiHandler rm) \<or> h = chassisStatusHandler gi (NewIpmiHandler rm)
    \<or> h = setSystemBootOptionsHandler gi (NewIpmiHandler rm)"
  using assms
  by (auto simp: sim_serve_def sim_initialize_def SetHandler_def NewSimulator_def split: if_splits)

lemma ipmi_step:
  assumes "sim_serve gi (NewSimulator ip port (vm_resource_manager vc)) netfn cmd = Some h" and "h m s = (y, s')"
  shows "rm_inv s \<Longrightarrow> rm_inv s'" and "machine_id s' = machine_id s" and "m_virtualMedia s' = m_virtualMedia s"
proof -
  from sim_serve_cases [OF assms(1)] have "keeps rm_inv (h m)" "frame machine_id (h m)" "frame m_virtualMedia (h m)"
    by (auto intro: vm_manager.ipmi_keeps vm_manager.ipmi_machine vm_manager.ipmi_media)
  with assms(2) show "rm_inv s \<Longrightarrow> rm_inv s'" and "machine_id s' = machine_id s" and "m_virtualMedia s' = m_virtualMedia s"
    by (blast intro: keepsD frameD)+
qed

lemma rm_inv_world [simp]: "rm_inv (s\<lparr>m_world := w\<rparr>) = rm_inv s"
  by (simp add: rm_inv_def)

lemma machine_id_world [simp]: "machine_id (s\<lparr>m_world := w\<rparr>) = machine_id s"
  by (simp add: machine_id_def)

lemma redfish_step:
  assumes "redfish_serve wi uuid ord (NewEmulator port u p (vm_resource_manager vc)) r a = (x, a')" and "agent_inv a"
  shows "agent_inv a'" and "machine_id (rf_rm a') = machine_id (rf_rm a)"
proof -
  have "rm_inv (rf_rm a')"
    using keepsD [OF vm_manager.serve_inv _ assms(1)] assms(2) by (simp add: agent_inv_def)
  moreover have "token_wf (rf_tokens a')"
    using serve_sessions(1) [OF assms(1)] assms(2) by (simp add: agent_inv_def)
  ultimately show "agent_inv a'" by (simp add: agent_inv_def)
  show "machine_id (rf_rm a') = machine_id (rf_rm a)"
    using frameD [OF vm_manager.serve_machine assms(1)] .
qed

text \<open>A freshly initialised resource manager satisfies the invariant.\<close>

lemma Initialize_inv:
  assumes "Initialize vc now ns n s = (Ok (), s')"
  shows "rm_inv s'"
proof -
  note run = assms [unfolded Initialize_def andThen_def attempt_def Let_def]
  let ?g = "NewManager now defaultManagerId defaultManagerName"
  obtain vm t where vm: "onWorld (vc_GetVM vc ns n) s = (Ok vm, t)"
    using run by (auto split: prod.splits outcome.splits)
  let ?c = "NewComputerSystem defaultComputerSystemId (join [vm_Namespace vm, vm_Name vm] ''/'') (powerStateMap (vm_Ready vm))"
  obtain c where c: "CS_ManagedBy ?c (Mgr_OdataId ?g) = Ok c"
    using run vm by (auto split: prod.splits outcome.splits)
  obtain g where g: "Mgr_Manage ?g (CS_OdataId c) = Ok g"
    using run vm c by (auto split: prod.splits outcome.splits)
  have "m_computerSystem s' = Some c" "m_manager s' = Some g"
    "m_virtualMedia s' = Some (NewVirtualMedia defaultVirtualMediaId defaultVirtualMediaName)"
    using run vm c g by (auto split: prod.splits outcome.splits)
  moreover have "docs_inv (Some c) (Some g) (Some (NewVirtualMedia defaultVirtualMediaId defaultVirtualMediaName))"
    by (rule new_docs_inv [OF _ _ c g]) (simp_all add: powerStateMap_def)
  ultimately show ?thesis by (simp add: rm_inv_def)
qed

lemma Initialize_id:
  assumes "vm_api vc view" and "Initialize vc now ns n s = (Ok (), s')"
  shows "machine_id s' = (ns, n)"
  using assms(2) vm_api_Ok(1) [OF assms(1)]
  by (auto simp: Initialize_def andThen_def attempt_def Let_def CS_ManagedBy_def Mgr_Manage_def onWorld_def onPart_def
      machine_id_def split: prod.splits outcome.splits)

text \<open>On an API server that answers, a machine that is there is all it needs.\<close>

lemma Initialize_live:
  assumes "vm_api_live vc view" and "cl_vms (view (m_world s)) (ns, n) \<noteq> None"
  shows "\<exists>s'. Initialize vc now ns n s = (Ok (), s')"
proof -
  obtain vm w where "vc_GetVM vc ns n (m_world s) = (Ok vm, w)"
    using assms unfolding vm_api_live_def answers_def by blast
  then show ?thesis
    by (simp add: Initialize_def andThen_def attempt_def Let_def CS_ManagedBy_def Mgr_Manage_def onWorld_def onPart_def
        NewComputerSystem_def NewManager_def)
qed

section \<open>A wire format to try the agent with\<close>

datatype demo_body = EmptyB | LoginB "string option" "string option" | ResetB string | InsertB string
  | SystemB ComputerSystem | ManagerB Manager | MediaB VirtualMedia | MapB "(string \<times> json) list"

definition demo_routes :: "((string \<times> string) \<times> (string \<times> (string \<times> string) list)) list" where
  "demo_routes =
     [((''GET'', ''/redfish/v1''), (''RedfishV1Get'', [])),
      ((''POST'', ''/redfish/v1/SessionService/Sessions''), (''RedfishV1SessionServiceSessionsPost'', [])),
      ((''DELETE'', ''/redfish/v1/SessionService/Sessions/s''),
        (''RedfishV1SessionServiceSessionsSessionIdDelete'', [(''SessionId'', ''s'')])),
      ((''GET'', ''/redfish/v1/Systems/1''), (''RedfishV1SystemsComputerSystemIdGet'', [(''ComputerSystemId'', ''1'')])),
      ((''POST'', ''/redfish/v1/Systems/1/Actions/ComputerSystem.Reset''),
        (''RedfishV1SystemsComputerSystemIdActionsComputerSystemResetPost'', [(''ComputerSystemId'', ''1'')])),
      ((''PUT'', ''/redfish/v1/Systems/1''), (''RedfishV1SystemsComputerSystemIdPut'', [(''ComputerSystemId'', ''1'')]))]"

definition wrong_body :: go_error where
  "wrong_body = PlainError ''json''"

definition demo_wire :: "demo_body wire" where
  "demo_wire =
     \<lparr>wi_mux = (\<lambda>r. map_of demo_routes (req_method r, req_path r)),
      wi_session = (\<lambda>b. case b of LoginB u p \<Rightarrow> Inr (zero_SessionV171Session\<lparr>se_UserName := u, se_Password := p\<rparr>)
          | _ \<Rightarrow> Inl wrong_body),
      wi_insert = (\<lambda>b. case b of InsertB i \<Rightarrow> Inr (zero_VirtualMediaV163InsertMediaRequestBody\<lparr>im_Image := i\<rparr>)
          | _ \<Rightarrow> Inl wrong_body),
      wi_reset = (\<lambda>b. case b of ResetB t \<Rightarrow> Inr \<lparr>rb_ResetType = t\<rparr> | _ \<Rightarrow> Inl wrong_body),
      wi_map = (\<lambda>b. case b of MapB m \<Rightarrow> Inr m | _ \<Rightarrow> Inl wrong_body),
      wi_system = (\<lambda>b. case b of SystemB c \<Rightarrow> Inr c | _ \<Rightarrow> Inl wrong_body),
      wi_manager = (\<lambda>b. case b of ManagerB g \<Rightarrow> Inr g | _ \<Rightarrow> Inl wrong_body),
      wi_media = (\<lambda>b. case b of MediaB m \<Rightarrow> Inr m | _ \<Rightarrow> Inl wrong_body),
      wi_session_service = (\<lambda>_. Inl wrong_body),
      wi_failover = (\<lambda>_. Inl wrong_body),
      wi_redundancy_set = (\<lambda>_. Inl wrong_body),
      wi_manager_reset = (\<lambda>_. Inl wrong_body),
      wi_reset_defaults = (\<lambda>_. Inl wrong_body),
      wi_add_block = (\<lambda>_. Inl wrong_body),
      wi_decommission = (\<lambda>_. Inl wrong_body),
      wi_remove_block = (\<lambda>_. Inl wrong_body),
      wi_bios = (\<lambda>_. Inl wrong_body),
      wi_bios_password = (\<lambda>_. Inl wrong_body),
      wi_boot_option = (\<lambda>_. Inl wrong_body),
      wi_stub_checks = (\<lambda>_ _ _. None)\<rparr>"

definition demo_orders :: orders where
  "demo_orders = \<lparr>or_tokens = [], or_fields = (\<lambda>xs. xs)\<rparr>"

definition demo_request :: "string \<Rightarrow> string \<Rightarrow> (string \<times> string) option \<Rightarrow> string \<Rightarrow> demo_body \<Rightarrow> demo_body request" where
  "demo_request mth path basic token body =
     \<lparr>req_method = mth, req_path = path, req_basic_auth = basic, req_auth_token = token, req_user = None, req_body = body\<rparr>"

definition demo_emulator :: "(vm_cluster vmrm) Emulator" where
  "demo_emulator = NewEmulator 10080 ''admin'' ''secret'' (vm_resource_manager mem_client)"

definition demo_agent :: "vm_cluster vmrm redfish" where
  "demo_agent = \<lparr>rf_tokens = init_ts, rf_rm = demo\<rparr>"

definition login_request :: "demo_body request" where
  "login_request = demo_request ''POST'' ''/redfish/v1/SessionService/Sessions'' None '''' (LoginB (Some ''admin'') (Some ''secret''))"

definition bad_request :: "demo_body request" where
  "bad_request = demo_request ''POST'' ''/redfish/v1/Systems/1/Actions/ComputerSystem.Reset'' (Some (''admin'', ''guess'')) '''' (ResetB ''ForceOff'')"

lemma demo_init: "Initialize mem_client ''now'' ''ns'' ''vm'' (NewVirtualMachineResourceManager demo_cluster) = (Ok (), demo)"
  unfolding demo_def by (rule run_fst) code_simp

lemma demo_agent_inv [simp]: "agent_inv demo_agent"
  using Initialize_inv [OF demo_init] by (simp add: agent_inv_def demo_agent_def)

lemma demo_routes_mux:
  "wi_mux demo_wire login_request = Some (''RedfishV1SessionServiceSessionsPost'', [])"
  "wi_mux demo_wire bad_request = Some (''RedfishV1SystemsComputerSystemIdActionsComputerSystemResetPost'', [(''ComputerSystemId'', ''1'')])"
  by code_simp+

lemma bad_not_authorised [simp]: "\<not> authorised demo_emulator bad_request demo_agent"
  by (simp add: authorised_def bad_request_def demo_request_def demo_emulator_def)

lemma login_is_login: "login_with demo_wire ''admin'' ''secret'' login_request"
  by code_simp

theorem unauthorised_requests_harmless_witness:
  "rf_rm (snd (redfish_serve demo_wire ''id'' demo_orders demo_emulator bad_request demo_agent)) = rf_rm demo_agent"
proof -
  obtain x s' where "redfish_serve demo_wire ''id'' demo_orders demo_emulator bad_request demo_agent = (x, s')" by force
  with unauthorised_requests_harmless [OF bad_not_authorised [unfolded demo_emulator_def]] show ?thesis
    by (simp add: demo_emulator_def)
qed

text \<open>The state after the log-in of the demonstration, and its token.\<close>

definition after_login :: "vm_cluster vmrm redfish" where
  "after_login = snd (redfish_serve demo_wire ''id'' demo_orders demo_emulator login_request demo_agent)"

definition demo_token :: string where
  "demo_token = generateToken \<lparr>ti_ID = ''id'', ti_Username = ''admin''\<rparr>"

theorem login_issues_token_witness:
  "GetToken demo_token (rf_tokens after_login) = Some \<lparr>ti_ID = ''id'', ti_Username = ''admin''\<rparr>"
proof -
  obtain x s' where run: "redfish_serve demo_wire ''id'' demo_orders demo_emulator login_request demo_agent = (x, s')" by force
  have wf: "token_wf (rf_tokens demo_agent)" by (simp add: demo_agent_def)
  from login_issues_token [OF demo_routes_mux(1) wf run [unfolded demo_emulator_def]] login_is_login run show ?thesis
    by (auto simp: after_login_def demo_token_def)
qed

lemma demo_token_live: "GetToken demo_token (rf_tokens after_login) = Some \<lparr>ti_ID = ''id'', ti_Username = ''admin''\<rparr>"
  and token_wf_after_login: "token_wf (rf_tokens after_login)"
  and after_login_run: "redfish_serve demo_wire ''id'' demo_orders demo_emulator login_request demo_agent
     = (fst (redfish_serve demo_wire ''id'' demo_orders demo_emulator login_request demo_agent), after_login)"
proof -
  show run: "redfish_serve demo_wire ''id'' demo_orders demo_emulator login_request demo_agent
     = (fst (redfish_serve demo_wire ''id'' demo_orders demo_emulator login_request demo_agent), after_login)"
    by (simp add: after_login_def)
  have wf: "token_wf (rf_tokens demo_agent)" by (simp add: demo_agent_def)
  then show "token_wf (rf_tokens after_login)"
    using serve_sessions(1) [OF run [unfolded demo_emulator_def]] by (simp add: after_login_def demo_emulator_def)
  have "C_SessionsPost demo_wire ''id'' (em_service (NewEmulator 10080 ''admin'' ''secret'' (vm_resource_manager mem_client)))
      login_request demo_agent = (fst (redfish_serve demo_wire ''id'' demo_orders demo_emulator login_request demo_agent), after_login)"
    using run demo_routes_mux(1) by (simp add: redfish_serve_def public_routes_def controller_login demo_emulator_def)
  from login_run [OF this login_is_login] obtain d where
    "rf_tokens after_login = snd (AddToken (NewTokenInfo ''id'' ''admin'') (rf_tokens demo_agent))" .
  then show "GetToken demo_token (rf_tokens after_login) = Some \<lparr>ti_ID = ''id'', ti_Username = ''admin''\<rparr>"
    using session_store.lookup_add [OF wf] by (simp add: demo_token_def NewTokenInfo_def)
qed

definition logout_request :: "demo_body request" where
  "logout_request = demo_request ''DELETE'' ''/redfish/v1/SessionService/Sessions/s'' None demo_token EmptyB"

theorem delete_session_keeps_token_witness:
  "snd (redfish_serve demo_wire ''id'' demo_orders demo_emulator logout_request after_login) = after_login"
proof -
  obtain x s' where run: "redfish_serve demo_wire ''id'' demo_orders demo_emulator logout_request after_login = (x, s')" by force
  have mux: "wi_mux demo_wire logout_request = Some (''RedfishV1SessionServiceSessionsSessionIdDelete'', [(''SessionId'', ''s'')])"
    by (simp add: demo_wire_def logout_request_def demo_request_def demo_routes_def)
  have auth: "authorised demo_emulator logout_request after_login"
    using demo_token_live generateToken_not_empty
    by (simp add: authorised_def logout_request_def demo_request_def demo_token_def)
  from delete_session_keeps_token [OF mux _ _ token_wf_after_login auth run] run show ?thesis by simp
qed

theorem live_tokens_were_issued_witness:
  "\<exists>rx \<in> set [(login_request, fst (redfish_serve demo_wire ''id'' demo_orders demo_emulator login_request demo_agent))].
     issued_by demo_wire ''admin'' ''secret'' demo_token rx"
proof -
  have "redfish_history demo_wire demo_emulator demo_agent
     ([] @ [(login_request, fst (redfish_serve demo_wire ''id'' demo_orders demo_emulator login_request demo_agent))]) after_login"
    by (rule redfish_history.serve [OF redfish_history.start after_login_run])
  from live_tokens_were_issued [OF this [unfolded demo_emulator_def] _ demo_token_live] show ?thesis
    by (simp add: demo_agent_def demo_emulator_def)
qed

section \<open>Properties of the agent\<close>

text \<open>C9. In every history of the agent, whatever Redfish requests, IPMI commands and foreign changes of the
  cluster it consists of, the three documents stay consistent (the media slot says how it is
  connected exactly when something is inserted, the power state is On or Off, system and manager
  link each other once) and the agent keeps acting on the machine it was started for.\<close>

theorem agent_invariant:
  assumes "agent_run vc wi gi u p a0 a" and "rf_tokens a0 = init_ts"
    and "Initialize vc now ns n (NewVirtualMachineResourceManager w) = (Ok (), rf_rm a0)" and "vm_api vc view"
  shows "agent_inv a \<and> machine_id (rf_rm a) = (ns, n)"
proof -
  have "machine_id (rf_rm a0) = (ns, n)"
    by (rule Initialize_id [OF assms(4,3)])
  moreover have "agent_inv a0"
    using Initialize_inv [OF assms(3)] assms(2) by (simp add: agent_inv_def)
  ultimately have base: "agent_inv a0 \<and> machine_id (rf_rm a0) = (ns, n)" by simp
  from assms(1) show ?thesis
  proof induction
    case boot
    show ?case by (rule base)
  next
    case (redfish a uuid ord port r x a')
    with redfish_step [OF redfish.hyps(2)] show ?case by auto
  next
    case (ipmi a ip port netfn cmd h m y s')
    with ipmi_step [OF ipmi.hyps(2,3)] show ?case by (auto simp: agent_inv_def)
  qed (auto simp: agent_inv_def)
qed

lemma demo_agent_runs: "agent_run mem_client demo_wire demo_gi ''admin'' ''secret'' demo_agent after_login"
  by (rule agent_run.redfish [OF agent_run.boot after_login_run [unfolded demo_emulator_def]])

theorem agent_invariant_witness: "agent_inv after_login \<and> machine_id (rf_rm after_login) = (''ns'', ''vm'')"
  by (rule agent_invariant [OF demo_agent_runs _ _ mem_api, where w = demo_cluster and now = "''now''"])
    (simp_all add: demo_agent_def demo_init)

text \<open>The two front ends, command by command: IPMI chassis control and the Redfish reset types.\<close>

definition same_power :: "'m goipmi \<Rightarrow> (8 word \<times> ResourceResetType) list" where
  "same_power gi =
     [(gi_ControlPowerUp gi, ''On''), (gi_ControlPowerDown gi, ''ForceOff''), (gi_ControlPowerAcpiSoft gi, ''GracefulShutdown''),
      (gi_ControlPowerCycle gi, ''GracefulRestart''), (gi_ControlPowerHardReset gi, ''ForceRestart'')]"

text \<open>C27. The two protocols agree on power: an IPMI chassis control command and the Redfish reset of the same
  meaning leave the machine and the cluster in the same state, and IPMI reports completion exactly
  when Redfish answers 204.\<close>

theorem power_front_ends_agree:
  assumes "goipmi_constants gi" and "gi_control_request gi m = Inr c" and "(c, t) \<in> set (same_power gi)"
    and "chassisControlHandler gi (NewIpmiHandler rm) m (rf_rm a) = (y, s')"
    and "ComputerSystemResetPost (NewAPIService u p rm) i t a = (x, a')"
  shows "s' = rf_rm a' \<and> rf_tokens a' = rf_tokens a
    \<and> (y = Ok (ChassisControlResponse (gi_CommandCompleted gi)) \<longleftrightarrow> x = Ok (Response 204 NilBody, None))
    \<and> ((\<exists>q. y = Panic q) \<longleftrightarrow> (\<exists>q. x = Panic q))"
proof -
  have c: "distinct [gi_ControlPowerDown gi, gi_ControlPowerUp gi, gi_ControlPowerCycle gi,
      gi_ControlPowerHardReset gi, gi_ControlPowerAcpiSoft gi]" "gi_CommandCompleted gi \<noteq> gi_ErrInvalidState gi"
    using assms(1) by (auto simp: goipmi_constants_def)
  define act where "act = the (powerActionMap (NewHandler u p rm) t)"
  have v: "ResourceResetType_IsValid t" "powerActionMap (NewHandler u p rm) t = Some act"
    using assms(3) unfolding same_power_def list.set insert_iff prod.inject empty_iff
    by (elim disjE conjE; simp add: IsValid_defs powerActionMap_def act_def)+
  from assms(3) have act: "act = (if c \<in> {gi_ControlPowerDown gi, gi_ControlPowerAcpiSoft gi} then PowerOff rm
      else if c = gi_ControlPowerUp gi then PowerOn rm
      else if c \<in> {gi_ControlPowerCycle gi, gi_ControlPowerHardReset gi} then PowerCycle rm else ret ())"
    using c(1) unfolding same_power_def list.set insert_iff prod.inject empty_iff
    by (elim disjE conjE) (simp_all add: act_def powerActionMap_def, auto)
  have I: "attempt act (\<lambda>_. ret (ChassisControlResponse (gi_ErrInvalidState gi)))
      (\<lambda>_. ret (ChassisControlResponse (gi_CommandCompleted gi))) (rf_rm a) = (y, s')"
    using assms(4) unfolding control_ops [OF assms(1,2)] act NewIpmiHandler_def ipmi_handler.select_convs .
  have R: "act_or_report ''Base.1.2.GeneralError'' (onRM act) a = (x, a')"
    using assms(5) v by (simp add: ComputerSystemResetPost_def NewAPIService_def ComputerSystemReset_def)
  obtain r w where "act (rf_rm a) = (r, w)" by force
  then have "onRM act a = (r, a\<lparr>rf_rm := w\<rparr>)" by (simp add: onRM_run)
  with \<open>act (rf_rm a) = (r, w)\<close> I R c(2) show ?thesis
    by (cases r) (auto simp: act_or_report_def attempt_def Response_def)
qed

theorem power_front_ends_agree_witness:
  "snd (chassisControlHandler demo_gi (NewIpmiHandler (vm_resource_manager mem_client)) [0] demo)
   = rf_rm (snd (ComputerSystemResetPost (NewAPIService ''admin'' ''secret'' (vm_resource_manager mem_client)) ''1'' ''ForceOff'' demo_agent))"
proof -
  obtain y s' where 1: "chassisControlHandler demo_gi (NewIpmiHandler (vm_resource_manager mem_client)) [0] (rf_rm demo_agent) = (y, s')" by force
  obtain x a' where 2: "ComputerSystemResetPost (NewAPIService ''admin'' ''secret'' (vm_resource_manager mem_client)) ''1'' ''ForceOff'' demo_agent = (x, a')" by force
  have "gi_control_request demo_gi [0] = Inr 0" "(0, ''ForceOff'') \<in> set (same_power demo_gi)"
    by (simp_all add: demo_gi_def same_power_def)
  from power_front_ends_agree [OF demo_gi_constants this 1 2] 1 2 show ?thesis by (simp add: demo_agent_def)
qed

lemma act_or_report_run:
  assumes "act_or_report msg a s = (x, s')"
  obtains (Done) "a s = (Ok (), s')" "x = Ok (Response 204 NilBody, None)"
  | (Failed) e where "a s = (Err e, s')" "x = Ok (Response 500 (one_message msg (error_string e)), None)"
  | (Crashed) q where "a s = (Panic q, s')" "x = Panic q"
  using assms by (auto simp: act_or_report_def attempt_def split: prod.splits outcome.splits)

text \<open>C28. The three ways to choose a boot device agree: IPMI boot flags, a PATCH of the system's boot override
  that is not Disabled, and the SetDefaultBootOrder action with that device first all leave the
  machine, the cluster and the documents in the same state, and they report success together.\<close>

theorem boot_front_ends_agree:
  assumes "gi_boot_request gi m = Inr q" and "sb_Param q = 5" and "2 \<le> length (sb_Data q)" and "goipmi_constants gi"
    and "(sb_Data q ! 1, d) \<in> {(gi_BootDevicePxe gi, ''Pxe''), (gi_BootDeviceDisk gi, ''Hdd'')}"
    and "boot_BootSourceOverrideTarget (cs_Boot doc) = d" and "boot_BootSourceOverrideEnabled (cs_Boot doc) \<noteq> ''Disabled''"
    and "map_of body ''BootOrder'' = Some (JArray (JString d # map JString ds))"
    and 1: "setSystemBootOptionsHandler gi (NewIpmiHandler rm) m (rf_rm a) = (x1, s1)"
    and 2: "RedfishV1SystemsComputerSystemIdPatch (NewAPIService u p rm) i doc a = (x2, a2)"
    and 3: "ComputerSystemSetDefaultBootOrderPost (NewAPIService u p rm) i body a = (x3, a3)"
  shows "a2 = a\<lparr>rf_rm := s1\<rparr> \<and> a3 = a2
    \<and> (x1 = Ok (SetSystemBootOptionsResponse (gi_CommandCompleted gi)) \<longleftrightarrow> x2 = Ok (Response 204 NilBody, None))
    \<and> (x2 = Ok (Response 204 NilBody, None) \<longleftrightarrow> x3 = Ok (Response 204 NilBody, None))"
proof -
  have strings: "all_strings (map JString ds) = Some ds" for ds
    by (induction ds) simp_all
  obtain r t where run: "SetBootDevice rm d (rf_rm a) = (r, t)" by force
  have ne: "gi_CommandCompleted gi \<noteq> gi_ErrUnspecified gi" "gi_BootDevicePxe gi \<noteq> gi_BootDeviceDisk gi"
    using assms(4) by (auto simp: goipmi_constants_def)
  have "(if sb_Data q ! 1 = gi_BootDevicePxe gi then BootDevicePxe
      else if sb_Data q ! 1 = gi_BootDeviceDisk gi then BootDeviceHdd else '''') = d"
    using assms(5) ne(2) by auto
  then have I: "attempt (SetBootDevice rm d) (\<lambda>_. ret (SetSystemBootOptionsResponse (gi_ErrUnspecified gi)))
      (\<lambda>_. ret (SetSystemBootOptionsResponse (gi_CommandCompleted gi))) (rf_rm a) = (x1, s1)"
    using 1 assms(1-3) by (simp add: setSystemBootOptionsHandler_def NewIpmiHandler_def Let_def)
  have P: "act_or_report ''Base.1.0.GeneralError'' (andThen (onRM (SetBootDevice rm d)) (\<lambda>_. ret ())) a = (x2, a2)"
    using 2 assms(5,6,7) by (auto simp: RedfishV1SystemsComputerSystemIdPatch_def PatchComputerSystem_def Let_def NewAPIService_def)
  have D: "act_or_report ''Base.1.2.GeneralError'' (onRM (SetBootDevice rm d)) a = (x3, a3)"
    using 3 assms(8) strings by (simp add: ComputerSystemSetDefaultBootOrderPost_def ComputerSystemSetDefaultBootOrder_def NewAPIService_def)
  from run have "onRM (SetBootDevice rm d) a = (r, a\<lparr>rf_rm := t\<rparr>)" by (simp add: onRM_run)
  with run I P D ne(1) show ?thesis
    by (cases r) (auto simp: act_or_report_def attempt_def andThen_def Response_def)
qed

definition pxe_patch :: ComputerSystem where
  "pxe_patch = zero_ComputerSystemV1220ComputerSystem\<lparr>cs_Boot := zero_ComputerSystemV1220Boot
     \<lparr>boot_BootSourceOverrideEnabled := ''Continuous'', boot_BootSourceOverrideTarget := ''Pxe''\<rparr>\<rparr>"

theorem boot_front_ends_agree_witness:
  "snd (RedfishV1SystemsComputerSystemIdPatch (NewAPIService ''admin'' ''secret'' (vm_resource_manager mem_client)) ''1'' pxe_patch demo_agent)
   = demo_agent\<lparr>rf_rm := snd (setSystemBootOptionsHandler demo_gi (NewIpmiHandler (vm_resource_manager mem_client)) [5, 0x80, 4] demo)\<rparr>"
proof -
  let ?rm = "vm_resource_manager mem_client" and ?body = "[(''BootOrder'', JArray (JString ''Pxe'' # map JString []))]"
  obtain x1 s1 where 1: "setSystemBootOptionsHandler demo_gi (NewIpmiHandler ?rm) [5, 0x80, 4] (rf_rm demo_agent) = (x1, s1)" by force
  obtain x2 a2 where 2: "RedfishV1SystemsComputerSystemIdPatch (NewAPIService ''admin'' ''secret'' ?rm) ''1'' pxe_patch demo_agent = (x2, a2)" by force
  obtain x3 a3 where 3: "ComputerSystemSetDefaultBootOrderPost (NewAPIService ''admin'' ''secret'' ?rm) ''1'' ?body demo_agent = (x3, a3)" by force
  have q: "gi_boot_request demo_gi [5, 0x80, 4] = Inr \<lparr>sb_Param = 5, sb_Data = [0x80, 4]\<rparr>" by (simp add: demo_gi_def)
  have "a2 = demo_agent\<lparr>rf_rm := s1\<rparr>"
    using boot_front_ends_agree [OF q _ _ demo_gi_constants _ _ _ _ 1 2 3]
    by (simp add: demo_gi_def pxe_patch_def)
  with 1 2 show ?thesis by (simp add: demo_agent_def)
qed

text \<open>Reading the system answers 200 with the power state the cluster reports at that moment and the
  boot override as last chosen, or 500 when the cluster cannot be asked; it changes nothing in the
  cluster.\<close>

lemma get_system_reports_power:
  assumes "vm_api vc view" and "m_computerSystem (rf_rm a) = Some c0"
    and "RedfishV1SystemsComputerSystemIdGet (NewAPIService u p (vm_resource_manager vc)) i a = (x, a')"
  shows "cluster view (rf_rm a') = cluster view (rf_rm a) \<and>
    ((\<exists>vm. the_vm view (rf_rm a) = Some vm
        \<and> x = Ok (Response 200 (ComputerSystemBody (SetPowerState (if vm_Ready vm then ''On'' else ''Off'') c0)), None))
     \<or> (\<exists>e. x = Ok (Response 500 NilBody, Some e) \<and> rf_rm a' = (rf_rm a)\<lparr>m_world := m_world (rf_rm a')\<rparr>))"
proof -
  obtain r t where g: "getVM vc (rf_rm a) = (r, t)" by force
  then have w: "t = (rf_rm a)\<lparr>m_world := m_world t\<rparr>"
    by (auto simp: getVM_def onWorld_def onPart_def split: prod.splits)
  from get_call [OF assms(1) g] g assms(2,3) w show ?thesis
    by (cases r) (auto simp: RedfishV1SystemsComputerSystemIdGet_def H_GetComputerSystem_def NewAPIService_def NewHandler_def
        vm_resource_manager_def VM_GetComputerSystem_def onRM_def onPart_def andThen_def attempt_def Let_def)
qed

text \<open>A reset in terms of the action its type stands for, for any resource manager.\<close>

lemma reset_outcomes:
  assumes "ComputerSystemResetPost (NewAPIService u p rm) i t a = (x, a')"
  shows "case powerActionMap (NewHandler u p rm) t of
      None \<Rightarrow> a' = a \<and> (\<exists>b err. x = Ok (Response (if ResourceResetType_IsValid t then 500 else 400) b, err) \<and> b \<noteq> NilBody)
    | Some act \<Rightarrow> ResourceResetType_IsValid t \<and> a' = a\<lparr>rf_rm := snd (act (rf_rm a))\<rparr>
        \<and> x = (case fst (act (rf_rm a)) of
            Ok _ \<Rightarrow> Ok (Response 204 NilBody, None)
          | Err e \<Rightarrow> Ok (Response 500 (one_message ''Base.1.2.GeneralError'' (error_string e)), None)
          | Panic q \<Rightarrow> Panic q)"
proof (cases "powerActionMap (NewHandler u p rm) t")
  case None
  with assms show ?thesis
    by (auto simp: ComputerSystemResetPost_def NewAPIService_def ComputerSystemReset_def act_or_report_def
        not_in_list_def one_message_def Response_def split: if_splits)
next
  case (Some act)
  then have v: "ResourceResetType_IsValid t"
    by (auto simp: powerActionMap_def IsValid_defs split: if_splits)
  obtain r w where "act (rf_rm a) = (r, w)" by force
  moreover from this have "onRM act a = (r, a\<lparr>rf_rm := w\<rparr>)" by (simp add: onRM_run)
  ultimately show ?thesis using assms Some v
    by (cases r) (auto simp: ComputerSystemResetPost_def NewAPIService_def ComputerSystemReset_def act_or_report_def attempt_def)
qed

lemma power_action_ends:
  assumes api: "vm_api vc view"
    and run: "(if restart then VM_PowerCycle vc else if on then VM_PowerOn vc else VM_PowerOff vc) s = (r, s')"
  shows "(\<exists>w. s' = s\<lparr>m_world := w\<rparr>) \<and> (\<forall>p. r \<noteq> Panic p)
    \<and> (vm_api_live vc view \<longrightarrow> (r = Ok () \<longleftrightarrow> (if restart then machine_id s \<in> cl_vmis (cluster view s) else the_vm view s \<noteq> None)))
    \<and> (r \<noteq> Ok () \<longrightarrow> cluster view s' = cluster view s)
    \<and> (r = Ok () \<longrightarrow>
        (if restart then machine_id s \<in> cl_vmis (cluster view s)
            \<and> cluster view s' = (cluster view s)\<lparr>cl_vmis := cl_vmis (cluster view s) - {machine_id s}\<rparr>
         else \<exists>vm. the_vm view s = Some vm \<and> cluster view s' = put_vm s (power_edit on vm) (cluster view s)))"
proof -
  have "frame (\<lambda>u. u\<lparr>m_world := m_world s'\<rparr>) (if restart then VM_PowerCycle vc else if on then VM_PowerOn vc else VM_PowerOff vc)"
    by (simp add: frame_power)
  from this [unfolded frame_def, rule_format, of s] have "s'\<lparr>m_world := m_world s'\<rparr> = s\<lparr>m_world := m_world s'\<rparr>"
    unfolding run snd_conv .
  then have frame: "\<exists>w. s' = s\<lparr>m_world := w\<rparr>" by (intro exI [of _ "m_world s'"]) simp
  show ?thesis
  proof (cases restart)
    case True
    then have cycle: "VM_PowerCycle vc s = (r, s')" using run by simp
    then have "onWorld (vc_DeleteVMI vc (m_namespace s) (m_name s)) s = (r, s')" by (simp add: VM_PowerCycle_def)
    from world_call [OF vm_api_delete_vmi [OF api] this] have "r \<noteq> Panic p" for p by (cases r) auto
    moreover have "r = Ok ()" if "vm_api_live vc view" "machine_id s \<in> cl_vmis (cluster view s)"
      using that(1) [unfolded vm_api_live_def answers_def] that(2) cycle
      by (fastforce simp: VM_PowerCycle_def onWorld_def onPart_def machine_id_def)
    ultimately show ?thesis using power_cycle_deletes_instance [OF api cycle] frame True by auto
  next
    case False
    have edit: "editVM vc (\<lambda>vm. Ok (power_edit on vm)) s = (r, s')"
      using run False by (simp add: power_is_edit split: if_splits)
    have "r = Ok ()" if "vm_api_live vc view" "the_vm view s \<noteq> None"
      using editVM_live [OF that(1) api keeps_name_power, of s _ on] that(2) edit by auto
    with editVM_cases [OF api keeps_name_power edit] frame False show ?thesis by auto
  qed
qed

text \<open>C29. A Redfish reset on every branch.  A type that is not of the schema is refused with 400 and one of the
  schema that the agent does not support with 500, both without effect.  A supported type is answered
  204 when it has been carried out and 500 otherwise, never with a panic: On and the two ways to switch
  off change what the machine is asked to be and nothing else in the cluster, the two restarts delete
  its running instance and nothing else, and a refused one leaves the cluster as it was.  On an API
  server that answers, it is carried out exactly when there is a machine, or an instance to restart.
  Sessions and documents are never touched.\<close>

theorem redfish_reset_outcomes:
  assumes "vm_api vc view"
    and "ComputerSystemResetPost (NewAPIService u p (vm_resource_manager vc)) i t a = (x, a')"
  shows "if t \<in> {''On'', ''GracefulShutdown'', ''ForceOff'', ''GracefulRestart'', ''ForceRestart''}
    then (\<exists>w. a' = a\<lparr>rf_rm := (rf_rm a)\<lparr>m_world := w\<rparr>\<rparr>)
      \<and> (x = Ok (Response 204 NilBody, None)
           \<and> (if t \<in> {''GracefulRestart'', ''ForceRestart''}
              then machine_id (rf_rm a) \<in> cl_vmis (cluster view (rf_rm a))
                \<and> cluster view (rf_rm a') = (cluster view (rf_rm a))
                    \<lparr>cl_vmis := cl_vmis (cluster view (rf_rm a)) - {machine_id (rf_rm a)}\<rparr>
              else \<exists>vm. the_vm view (rf_rm a) = Some vm
                \<and> cluster view (rf_rm a') = put_vm (rf_rm a) (power_edit (t = ''On'') vm) (cluster view (rf_rm a)))
         \<or> (\<exists>msg. x = Ok (Response 500 (one_message ''Base.1.2.GeneralError'' msg), None))
           \<and> cluster view (rf_rm a') = cluster view (rf_rm a))
      \<and> (vm_api_live vc view \<longrightarrow>
          (x = Ok (Response 204 NilBody, None) \<longleftrightarrow>
            (if t \<in> {''GracefulRestart'', ''ForceRestart''} then machine_id (rf_rm a) \<in> cl_vmis (cluster view (rf_rm a))
             else the_vm view (rf_rm a) \<noteq> None)))
    else a' = a
      \<and> (if t \<in> {''Nmi'', ''ForceOn'', ''PushPowerButton'', ''PowerCycle'', ''Suspend'', ''Pause'', ''Resume''}
         then x = Ok (Response 500 (one_message ''Base.1.2.GeneralError'' (''unsupported reset type: '' @ t)), None)
         else x = Ok (Response 400 (not_in_list t ''ResetType''), None))"
proof (cases "t \<in> {''On'', ''GracefulShutdown'', ''ForceOff'', ''GracefulRestart'', ''ForceRestart''}")
  case True
  define restart where "restart = (t \<in> {''GracefulRestart'', ''ForceRestart''})"
  define on where "on = (t = ''On'')"
  let ?act = "if restart then VM_PowerCycle vc else if on then VM_PowerOn vc else VM_PowerOff vc"
  have act: "powerActionMap (NewHandler u p (vm_resource_manager vc)) t = Some ?act"
    using True by (auto simp: powerActionMap_def NewHandler_def vm_resource_manager_def restart_def on_def)
  obtain r s' where run: "?act (rf_rm a) = (r, s')" by force
  have a': "a' = a\<lparr>rf_rm := s'\<rparr>" and x: "x = (case r of Ok _ \<Rightarrow> Ok (Response 204 NilBody, None)
      | Err e \<Rightarrow> Ok (Response 500 (one_message ''Base.1.2.GeneralError'' (error_string e)), None) | Panic q \<Rightarrow> Panic q)"
    using reset_outcomes [OF assms(2)] unfolding act option.case run by simp_all
  note ends = power_action_ends [OF assms(1) run]
  have "(\<exists>w. a' = a\<lparr>rf_rm := (rf_rm a)\<lparr>m_world := w\<rparr>\<rparr>)
      \<and> (x = Ok (Response 204 NilBody, None)
           \<and> (if restart
              then machine_id (rf_rm a) \<in> cl_vmis (cluster view (rf_rm a))
                \<and> cluster view (rf_rm a') = (cluster view (rf_rm a))
                    \<lparr>cl_vmis := cl_vmis (cluster view (rf_rm a)) - {machine_id (rf_rm a)}\<rparr>
              else \<exists>vm. the_vm view (rf_rm a) = Some vm
                \<and> cluster view (rf_rm a') = put_vm (rf_rm a) (power_edit on vm) (cluster view (rf_rm a)))
         \<or> (\<exists>msg. x = Ok (Response 500 (one_message ''Base.1.2.GeneralError'' msg), None))
           \<and> cluster view (rf_rm a') = cluster view (rf_rm a))
      \<and> (vm_api_live vc view \<longrightarrow>
          (x = Ok (Response 204 NilBody, None) \<longleftrightarrow>
            (if restart then machine_id (rf_rm a) \<in> cl_vmis (cluster view (rf_rm a)) else the_vm view (rf_rm a) \<noteq> None)))"
    using ends unfolding a' x by (cases r) (auto simp: Response_def)
  then show ?thesis unfolding restart_def on_def by (subst if_P [OF True])
next
  case False
  then have "powerActionMap (NewHandler u p (vm_resource_manager vc)) t = None" by (auto simp: powerActionMap_def)
  then have none: "powerActionMap (as_handler (NewAPIService u p (vm_resource_manager vc))) t = None"
    by (simp add: NewAPIService_def)
  define other where "other = (t \<in> {''Nmi'', ''ForceOn'', ''PushPowerButton'', ''PowerCycle'', ''Suspend'', ''Pause'', ''Resume''})"
  have "ResourceResetType_IsValid t \<longleftrightarrow> other" using False by (simp add: IsValid_defs other_def)
  with assms(2) none have "a' = a \<and> (if other
      then x = Ok (Response 500 (one_message ''Base.1.2.GeneralError'' (''unsupported reset type: '' @ t)), None)
      else x = Ok (Response 400 (not_in_list t ''ResetType''), None))"
    by (simp add: ComputerSystemResetPost_def ComputerSystemReset_def act_or_report_def attempt_def split: if_splits)
  then show ?thesis unfolding other_def by (subst if_not_P [OF False])
qed

theorem redfish_reset_outcomes_witness:
  "\<exists>a'. ComputerSystemResetPost (NewAPIService ''admin'' ''secret'' (vm_resource_manager mem_client)) ''1'' ''ForceRestart'' demo_agent
      = (Ok (Response 204 NilBody, None), a')
    \<and> cluster mem_view (rf_rm a') = (cluster mem_view demo)\<lparr>cl_vmis := cl_vmis (cluster mem_view demo) - {machine_id demo}\<rparr>"
proof -
  obtain x a' where run: "ComputerSystemResetPost (NewAPIService ''admin'' ''secret'' (vm_resource_manager mem_client)) ''1''
      ''ForceRestart'' demo_agent = (x, a')" by force
  have "rf_rm demo_agent = demo" by (simp add: demo_agent_def)
  moreover have "machine_id demo \<in> cl_vmis (cluster mem_view demo)"
    using power_cycle_deletes_instance [OF mem_api demo_runs(3)] by simp
  ultimately show ?thesis using redfish_reset_outcomes [OF mem_api run] run by (auto simp: Response_def)
qed

text \<open>The SetDefaultBootOrder action sets the first device of the list: answered 204 it has chosen that
  device and no other, so that any name but Pxe and Hdd, and an empty list, clears every boot order
  and serves an empty override target; a body without an array of strings is refused with 400
  and changes nothing.\<close>

lemma set_default_boot_order:
  assumes "vm_api vc view"
    and "ComputerSystemSetDefaultBootOrderPost (NewAPIService u p (vm_resource_manager vc)) i body a = (x, a')"
  shows "case map_of body ''BootOrder'' of
      Some (JArray vs) \<Rightarrow>
        (case all_strings vs of
           Some ds \<Rightarrow> x = Ok (Response 204 NilBody, None) \<longrightarrow>
             boot_chosen view (case ds of [] \<Rightarrow> '''' | d # _ \<Rightarrow> d) (rf_rm a) (rf_rm a')
         | None \<Rightarrow> a' = a \<and> (\<exists>b. x = Ok (Response 400 b, None)))
    | _ \<Rightarrow> a' = a \<and> (\<exists>b. x = Ok (Response 400 b, None))"
proof (cases "\<exists>vs ds. map_of body ''BootOrder'' = Some (JArray vs) \<and> all_strings vs = Some ds")
  case False
  with assms(2) show ?thesis
    by (auto simp: ComputerSystemSetDefaultBootOrderPost_def split: option.splits json.splits)
next
  case True
  then obtain vs ds where b: "map_of body ''BootOrder'' = Some (JArray vs)" "all_strings vs = Some ds" by blast
  let ?d = "case ds of [] \<Rightarrow> '''' | d # _ \<Rightarrow> d"
  from assms(2) b have "act_or_report ''Base.1.2.GeneralError'' (onRM (VM_SetBootDevice vc ?d)) a = (x, a')"
    by (simp add: ComputerSystemSetDefaultBootOrderPost_def ComputerSystemSetDefaultBootOrder_def NewAPIService_def
        vm_resource_manager_def NewHandler_def)
  then have "x = Ok (Response 204 NilBody, None) \<Longrightarrow> boot_chosen view ?d (rf_rm a) (rf_rm a')"
    by (cases rule: act_or_report_run) (auto simp: onRM_run Response_def dest: SetBootDevice_chosen [OF assms(1)])
  with b show ?thesis by simp
qed

lemma demo_cd_run:
  "ComputerSystemSetDefaultBootOrderPost (NewAPIService ''admin'' ''secret'' (vm_resource_manager mem_client)) ''1''
     [(''BootOrder'', JArray [JString ''Cd''])] demo_agent
   = (Ok (Response 204 NilBody, None), snd (ComputerSystemSetDefaultBootOrderPost
       (NewAPIService ''admin'' ''secret'' (vm_resource_manager mem_client)) ''1'' [(''BootOrder'', JArray [JString ''Cd''])] demo_agent))"
  by (rule run_fst) code_simp

text \<open>C40. An InsertMedia action with a transfer method or protocol outside the schema is refused with 400
  and changes nothing; otherwise 204 means the image is inserted (data volume, volume and document
  as specified), and anything else that the document and the machine are as before.\<close>

theorem insert_action_outcomes:
  assumes "vm_api vc view"
    and "VirtualMediaInsertMediaPost (NewAPIService u p (vm_resource_manager vc)) i j body a = (x, a')"
  shows "if im_TransferMethod body \<notin> {'''', ''Stream'', ''Upload''}
        \<or> im_TransferProtocolType body \<noteq> '''' \<and> \<not> TransferProtocolType_IsValid (im_TransferProtocolType body)
    then a' = a \<and> (\<exists>b. x = Ok (Response 400 b, None))
    else (x = Ok (Response 204 NilBody, None) \<longrightarrow>
            (\<exists>vm t slot n. the_vm view (rf_rm a) = Some vm \<and> find_slot vm = Ok (t, slot)
              \<and> the_vm view (rf_rm a') = Some (insert_edit (rf_rm a) slot vm t)
              \<and> cl_dvs (cluster view (rf_rm a')) (machine_id (rf_rm a)) =
                  Some (ConstructDataVolume (m_namespace (rf_rm a)) (m_name (rf_rm a)) (im_Image body) n))
            \<and> m_virtualMedia (rf_rm a') = map_option (SetVirtualMedia (im_Image body) True) (m_virtualMedia (rf_rm a)))
       \<and> (x \<noteq> Ok (Response 204 NilBody, None) \<longrightarrow>
            (\<exists>b. x = Ok (Response 500 b, None)) \<and> the_vm view (rf_rm a') = the_vm view (rf_rm a)
            \<and> m_virtualMedia (rf_rm a') = m_virtualMedia (rf_rm a))"
proof (cases "im_TransferMethod body \<notin> {'''', ''Stream'', ''Upload''}
        \<or> im_TransferProtocolType body \<noteq> '''' \<and> \<not> TransferProtocolType_IsValid (im_TransferProtocolType body)")
  case True
  with assms(2) show ?thesis
    by (auto simp: VirtualMediaInsertMediaPost_def IsValid_defs split: if_splits)
next
  case False
  with assms(2) have "act_or_report ''Base.1.2.GeneralError'' (onRM (VM_InsertMedia vc (im_Image body))) a = (x, a')"
    by (auto simp: VirtualMediaInsertMediaPost_def IsValid_defs NewAPIService_def VirtualMediaInsert_def
        vm_resource_manager_def NewHandler_def split: if_splits)
  then obtain r t where run: "VM_InsertMedia vc (im_Image body) (rf_rm a) = (r, t)" and t: "rf_rm a' = t"
    and x: "x = Ok (Response 204 NilBody, None) \<longleftrightarrow> r = Ok ()" "\<And>e. r = Err e \<Longrightarrow> \<exists>b. x = Ok (Response 500 b, None)"
    by (cases rule: act_or_report_run) (auto simp: onRM_run Response_def)
  note E = insert_ends [OF assms(1) run] VM_InsertMedia_media [OF run]
  show ?thesis
  proof (cases "r = Ok ()")
    case True
    with E x t False show ?thesis
      by (auto simp: insert_end_def the_vm_def put_vm_def dv_added_def put_dv_def machine_id_eq ConstructDataVolume_def machine_id_def)
  next
    case False
    then obtain e where e: "r = Err e" using E(1) by (cases r) (auto simp: insert_end_def)
    have "the_vm view t = the_vm view (rf_rm a)"
      using E(1) False by (auto simp: insert_end_def the_vm_def machine_id_eq dv_added_def put_dv_def)
    with E(2) x t False e \<open>\<not> (im_TransferMethod body \<notin> _ \<or> _)\<close> show ?thesis by auto
  qed
qed

definition demo_insert :: InsertMediaRequestBody where
  "demo_insert = zero_VirtualMediaV163InsertMediaRequestBody
     \<lparr>im_Image := ''http://img/a.iso'', im_TransferProtocolType := ''HTTP''\<rparr>"

lemma demo_insert_fields:
  "im_Image demo_insert = ''http://img/a.iso''" "im_TransferMethod demo_insert = []" "im_TransferProtocolType demo_insert = ''HTTP''"
  by (simp_all add: demo_insert_def zero_VirtualMediaV163InsertMediaRequestBody_def)

lemma demo_insert_run:
  "VirtualMediaInsertMediaPost (NewAPIService ''admin'' ''secret'' (vm_resource_manager mem_client)) ''BMC'' ''CD1''
     demo_insert demo_agent
   = (Ok (Response 204 NilBody, None), snd (VirtualMediaInsertMediaPost (NewAPIService ''admin'' ''secret'' (vm_resource_manager mem_client)) ''BMC'' ''CD1''
     demo_insert demo_agent))"
  by (rule run_fst) code_simp

theorem insert_action_outcomes_witness:
  "m_virtualMedia (rf_rm (snd (VirtualMediaInsertMediaPost (NewAPIService ''admin'' ''secret'' (vm_resource_manager mem_client)) ''BMC'' ''CD1''
     demo_insert demo_agent)))
   = map_option (SetVirtualMedia ''http://img/a.iso'' True) (m_virtualMedia (rf_rm demo_agent))"
  using insert_action_outcomes [OF mem_api demo_insert_run] by (simp add: IsValid_defs demo_insert_fields)

end
