(* ===== verification/Runs.thy ===== *)
theory Runs
  imports Prelude
begin

text \<open>
  A Hoare logic for operations on an API server.  \<open>runs view live m c Q E\<close>: started where the
  server shows \<open>c\<close>, the operation \<open>m\<close> does not panic; when it answers, the answer and the view
  satisfy \<open>Q\<close>; when it fails, the view satisfies \<open>E\<close>; and with \<open>live\<close> it does not fail.  So one proof
  about an operation gives its effect, what a failure can leave behind, and its success on a
  server that refuses nothing without a reason.
\<close>

definition meets :: "bool \<Rightarrow> ('a \<Rightarrow> 'v \<Rightarrow> bool) \<Rightarrow> ('v \<Rightarrow> bool) \<Rightarrow> 'a outcome \<Rightarrow> 'v \<Rightarrow> bool" where
  "meets live Q E r c = (case r of Ok a \<Rightarrow> Q a c | Err e \<Rightarrow> \<not> live \<and> E c | Panic p \<Rightarrow> False)"

lemma meets_simps [simp]:
  "meets live Q E (Ok a) c \<longleftrightarrow> Q a c" "meets live Q E (Err e) c \<longleftrightarrow> \<not> live \<and> E c" "\<not> meets live Q E (Panic p) c"
  by (simp_all add: meets_def)

definition runs ::
  "('w \<Rightarrow> 'v) \<Rightarrow> bool \<Rightarrow> ('w, 'a) op \<Rightarrow> 'v \<Rightarrow> ('a \<Rightarrow> 'v \<Rightarrow> bool) \<Rightarrow> ('v \<Rightarrow> bool) \<Rightarrow> bool" where
  "runs view live m c Q E \<longleftrightarrow> (\<forall>w. view w = c \<longrightarrow> meets live Q E (fst (m w)) (view (snd (m w))))"

lemma runsI:
  "(\<And>w r w'. view w = c \<Longrightarrow> m w = (r, w') \<Longrightarrow> meets live Q E r (view w')) \<Longrightarrow> runs view live m c Q E"
  by (simp add: runs_def)

lemma runsD: "runs view live m c Q E \<Longrightarrow> view w = c \<Longrightarrow> m w = (r, w') \<Longrightarrow> meets live Q E r (view w')"
  unfolding runs_def by (metis fst_conv snd_conv)

lemma runs_ret: "Q a c \<Longrightarrow> runs view live (ret a) c Q E"
  by (simp add: runs_def)

lemma runs_fail: "\<not> live \<Longrightarrow> E c \<Longrightarrow> runs view live (fail e) c Q E"
  by (simp add: runs_def)

lemma runs_pureR: "Q a c \<Longrightarrow> runs view live (pureR (Ok a)) c Q E"
  by (simp add: runs_def)

lemma meets_mono:
  "meets live Q E r c \<Longrightarrow> (\<And>a. Q a c \<Longrightarrow> Q' a c) \<Longrightarrow> (E c \<Longrightarrow> E' c) \<Longrightarrow> meets live Q' E' r c"
  by (cases r) auto

lemma runs_conseq:
  "runs view live m c Q E \<Longrightarrow> (\<And>a c'. Q a c' \<Longrightarrow> Q' a c') \<Longrightarrow> (\<And>c'. E c' \<Longrightarrow> E' c') \<Longrightarrow> runs view live m c Q' E'"
  unfolding runs_def by (blast intro: meets_mono)

text \<open>An operation with an error handler: what its two continuations do, by its result.\<close>

lemma runs_attemptI:
  assumes "\<And>w a w'. view w = c \<Longrightarrow> m w = (Ok a, w') \<Longrightarrow> runs view live (k a) (view w') Q E"
    and "\<And>w e w'. view w = c \<Longrightarrow> m w = (Err e, w') \<Longrightarrow> runs view live (h e) (view w') Q E"
    and "\<And>w p w'. view w = c \<Longrightarrow> m w \<noteq> (Panic p, w')"
  shows "runs view live (attempt m h k) c Q E"
proof (rule runsI)
  fix w r w' assume w: "view w = c" and run: "attempt m h k w = (r, w')"
  obtain r0 w0 where m: "m w = (r0, w0)" by force
  show "meets live Q E r (view w')"
  proof (cases r0)
    case (Ok a)
    then show ?thesis using runsD [OF assms(1) [OF w] refl, of a w0 r w'] m run by (simp add: attempt_Ok)
  next
    case (Err e)
    then show ?thesis using runsD [OF assms(2) [OF w] refl, of e w0 r w'] m run by (simp add: attempt_Err)
  next
    case (Panic p)
    then show ?thesis using assms(3) [OF w] m by blast
  qed
qed

lemma runs_attempt:
  assumes "runs view live m c (\<lambda>a c'. runs view live (k a) c' Q E) E'"
    and "\<And>e c'. \<not> live \<Longrightarrow> E' c' \<Longrightarrow> runs view live (h e) c' Q E"
  shows "runs view live (attempt m h k) c Q E"
  by (rule runs_attemptI) (use runsD [OF assms(1)] assms(2) in fastforce)+

lemma runs_andThen:
  "runs view live m c (\<lambda>a c'. runs view live (k a) c' Q E) E \<Longrightarrow> runs view live (andThen m k) c Q E"
  unfolding andThen_def by (erule runs_attempt) (rule runs_fail)

lemma runs_call:
  assumes call: "api_call view m pre eff" and ans: "live \<Longrightarrow> answers view m ready" "live \<Longrightarrow> ready c"
    and "\<And>a. pre c a \<Longrightarrow> Q a (eff c)" and "E c"
  shows "runs view live m c Q E"
proof (rule runsI)
  fix w r w' assume w: "view w = c" and m: "m w = (r, w')"
  show "meets live Q E r (view w')"
  proof (cases r)
    case (Ok a)
    then show ?thesis using api_call_Ok [OF call, of w a w'] m w assms(4) by simp
  next
    case (Err e)
    have "\<not> live" using ans m w Err unfolding answers_def by (metis outcome.distinct(1) prod.inject)
    then show ?thesis using api_call_Err [OF call, of w e w'] m w Err assms(5) by simp
  next
    case (Panic p)
    then show ?thesis using api_call_Panic [OF call, of w p w'] m by simp
  qed
qed

text \<open>The three kinds of calls, with the error the callers ignore handled.\<close>

lemma runs_get:
  assumes get: "api_get view m look" and ref: "live \<Longrightarrow> refuses_absent m"
    and "\<And>a. look c = Some a \<Longrightarrow> runs view live (k a) c Q E"
    and "look c = None \<Longrightarrow> runs view live n c Q E" and "E c"
  shows "runs view live (attempt m (\<lambda>e. if is_not_found e then n else fail e) k) c Q E"
proof (rule runs_attemptI)
  fix w e w' assume w: "view w = c" and m: "m w = (Err e, w')"
  from api_get_run [OF get m] w have "view w' = c" "is_not_found e \<longrightarrow> look c = None" by auto
  with refuses_absentD [OF ref m] assms(4,5)
  show "runs view live (if is_not_found e then n else fail e) (view w') Q E" by (auto intro: runs_fail)
qed (use api_get_run [OF get] assms(3) in fastforce)+

lemma runs_create:
  assumes cr: "api_create view m present eff" and ref: "live \<Longrightarrow> refuses_present m"
    and "\<not> present c \<Longrightarrow> runs view live (k ()) (eff c) Q E" and "present c \<Longrightarrow> runs view live n c Q E" and "E c"
  shows "runs view live (attempt m (\<lambda>e. if is_already_exists e then n else fail e) k) c Q E"
proof (rule runs_attemptI)
  fix w e w' assume w: "view w = c" and m: "m w = (Err e, w')"
  from api_create_run [OF cr m] w have "view w' = c" "is_already_exists e \<longrightarrow> present c" by auto
  with refuses_presentD [OF ref m] assms(4,5)
  show "runs view live (if is_already_exists e then n else fail e) (view w') Q E" by (auto intro: runs_fail)
qed (use api_create_run [OF cr] assms(3) in fastforce)+

lemma runs_delete:
  assumes del: "api_delete view m present eff" and ref: "live \<Longrightarrow> refuses_absent m"
    and "present c \<Longrightarrow> runs view live (k ()) (eff c) Q E" and "\<not> present c \<Longrightarrow> runs view live n c Q E" and "E c"
  shows "runs view live (attempt m (\<lambda>e. if is_not_found e then n else fail e) k) c Q E"
proof (rule runs_attemptI)
  fix w e w' assume w: "view w = c" and m: "m w = (Err e, w')"
  from api_delete_run [OF del m] w have "view w' = c" "is_not_found e \<longrightarrow> \<not> present c" by auto
  with refuses_absentD [OF ref m] assms(4,5)
  show "runs view live (if is_not_found e then n else fail e) (view w') Q E" by (auto intro: runs_fail)
qed (use api_delete_run [OF del] assms(3) in fastforce)+

text \<open>Reading the triple off at a run.\<close>

lemma runs_Ok: "runs view live m (view w) Q E \<Longrightarrow> m w = (Ok a, w') \<Longrightarrow> Q a (view w')"
  by (drule runsD [OF _ refl]) auto

lemma runs_Err: "runs view live m (view w) Q E \<Longrightarrow> m w = (Err e, w') \<Longrightarrow> E (view w')"
  by (drule runsD [OF _ refl]) auto

lemma runs_Panic: "runs view live m (view w) Q E \<Longrightarrow> m w \<noteq> (Panic p, w')"
  by (auto dest: runsD [OF _ refl])

lemma runs_live: "runs view True m (view w) Q E \<Longrightarrow> \<exists>a w'. m w = (Ok a, w') \<and> Q a (view w')"
  by (cases "m w", cases "fst (m w)") (auto dest: runsD [OF _ refl])

end
