(* ===== verification/BmcTypes.thy ===== *)
theory BmcTypes
  imports Runs
begin

text \<open>
  api/bmc/v1beta1: the VirtualMachineBMC resource, and the Kubernetes objects the controllers read
  and create (internal/controller/virtualmachinebmc/constant.go holds their names).  Only the
  fields the code sets or reads are modelled; a reference to an object of the same namespace is
  its name, a nil reference is None, and a label map is a list of pairs with distinct keys.
\<close>

section \<open>The VirtualMachineBMC resource\<close>

definition ConditionReady :: string where
  [simp]: "ConditionReady = ''Ready''"

definition ConditionVirtualMachineAvailable :: string where
  [simp]: "ConditionVirtualMachineAvailable = ''VirtualMachineAvailable''"

definition ConditionSecretAvailable :: string where
  [simp]: "ConditionSecretAvailable = ''SecretAvailable''"

text \<open>\<open>metav1.Condition\<close> without its time stamp.\<close>

record Condition =
  cond_Type :: string
  cond_Status :: string
  cond_Reason :: string
  cond_Message :: string

record VirtualMachineBMCSpec =
  spec_VirtualMachineRef :: "string option"
  spec_AuthSecretRef :: "string option"

record VirtualMachineBMCStatus =
  status_ClusterIP :: string
  status_Conditions :: "Condition list"

record VirtualMachineBMC =
  bmc_Namespace :: string
  bmc_Name :: string
  bmc_Spec :: VirtualMachineBMCSpec
  bmc_Status :: VirtualMachineBMCStatus

definition GroupVersion :: "string \<times> string" where
  "GroupVersion = (''bmc.kubevirt.io'', ''v1beta1'')"

text \<open>\<open>GroupVersion.String()\<close>\<close>

definition apiGVStr :: string where
  "apiGVStr = fst GroupVersion @ ''/'' @ snd GroupVersion"

text \<open>The generated copies, field by field.\<close>

definition DeepCopy_Spec :: "VirtualMachineBMCSpec \<Rightarrow> VirtualMachineBMCSpec" where
  "DeepCopy_Spec in' =
     \<lparr>spec_VirtualMachineRef = (case spec_VirtualMachineRef in' of None \<Rightarrow> None | Some r \<Rightarrow> Some r),
      spec_AuthSecretRef = (case spec_AuthSecretRef in' of None \<Rightarrow> None | Some r \<Rightarrow> Some r)\<rparr>"

definition DeepCopy_Status :: "VirtualMachineBMCStatus \<Rightarrow> VirtualMachineBMCStatus" where
  "DeepCopy_Status in' =
     \<lparr>status_ClusterIP = status_ClusterIP in', status_Conditions = map (\<lambda>c. c) (status_Conditions in')\<rparr>"

definition DeepCopy :: "VirtualMachineBMC \<Rightarrow> VirtualMachineBMC" where
  "DeepCopy in' =
     \<lparr>bmc_Namespace = bmc_Namespace in', bmc_Name = bmc_Name in',
      bmc_Spec = DeepCopy_Spec (bmc_Spec in'), bmc_Status = DeepCopy_Status (bmc_Status in')\<rparr>"

lemma DeepCopy_id [simp]: "DeepCopy b = b"
  by (simp add: DeepCopy_def DeepCopy_Spec_def DeepCopy_Status_def split: option.split)

section \<open>Names\<close>

definition virtBMCContainerName :: string where "virtBMCContainerName = ''virtbmc''"
definition VirtBMCImageName :: string where "VirtBMCImageName = ''starbops/virtbmc''"
definition ipmiPort :: nat where "ipmiPort = 10623"
definition redfishPort :: nat where "redfishPort = 10080"
definition IPMISvcPort :: nat where "IPMISvcPort = 623"
definition RedfishSvcPort :: nat where "RedfishSvcPort = 80"
definition ipmiPortName :: string where "ipmiPortName = ''ipmi''"
definition redfishPortName :: string where "redfishPortName = ''redfish''"
definition VirtualMachineBMCNameLabel :: string where "VirtualMachineBMCNameLabel = ''kubevirt.io/virtualmachinebmc-name''"
definition VMNameLabel :: string where "VMNameLabel = ''kubevirt.io/vm-name''"
definition clusterRoleName :: string where "clusterRoleName = ''kubevirtbmc-virtbmc-role''"
definition bmcUserKey :: string where "bmcUserKey = ''username''"
definition bmcPasswordKey :: string where "bmcPasswordKey = ''password''"

lemmas bmc_names = virtBMCContainerName_def VirtBMCImageName_def ipmiPort_def redfishPort_def IPMISvcPort_def
  RedfishSvcPort_def ipmiPortName_def redfishPortName_def VirtualMachineBMCNameLabel_def VMNameLabel_def
  clusterRoleName_def bmcUserKey_def bmcPasswordKey_def

section \<open>Kubernetes objects\<close>

record OwnerReference =
  or_APIVersion :: string
  or_Kind :: string
  or_Name :: string

record ObjectMeta =
  om_Name :: string
  om_Namespace :: string
  om_Labels :: "(string \<times> string) list"
  om_Controller :: "OwnerReference option"

record ServiceAccount =
  sa_Meta :: ObjectMeta

record Subject =
  sub_Kind :: string
  sub_Name :: string
  sub_Namespace :: string

record RoleBinding =
  rb_Meta :: ObjectMeta
  rb_RoleRef_APIGroup :: string
  rb_RoleRef_Kind :: string
  rb_RoleRef_Name :: string
  rb_Subjects :: "Subject list"

datatype protocol = ProtocolTCP | ProtocolUDP

record ContainerPort =
  cp_Name :: string
  cp_ContainerPort :: nat
  cp_Protocol :: protocol

text \<open>An environment variable taken from a key of a secret.\<close>

record EnvVar =
  env_Name :: string
  env_SecretName :: string
  env_SecretKey :: string

record Container =
  ct_Name :: string
  ct_Image :: string
  ct_Args :: "string list"
  ct_Ports :: "ContainerPort list"
  ct_Env :: "EnvVar list"

record Pod =
  pod_Meta :: ObjectMeta
  pod_ServiceAccountName :: string
  pod_Containers :: "Container list"

record ServicePort =
  sp_Name :: string
  sp_Protocol :: protocol
  sp_TargetPort :: string
  sp_Port :: nat

record Service =
  svc_Meta :: ObjectMeta
  svc_Selector :: "(string \<times> string) list"
  svc_Ports :: "ServicePort list"
  svc_ClusterIP :: string

section \<open>Conditions\<close>

definition condition :: "string \<Rightarrow> Condition list \<Rightarrow> Condition option" where
  "condition t cs = find (\<lambda>c. cond_Type c = t) cs"

text \<open>
  The documented behaviour of \<open>meta.SetStatusCondition\<close>: afterwards the condition of that type is
  the one given, the others are as before, and the result says whether anything changed.
\<close>

definition sets_condition :: "(Condition list \<Rightarrow> Condition \<Rightarrow> Condition list \<times> bool) \<Rightarrow> bool" where
  "sets_condition ssc \<longleftrightarrow>
     (\<forall>cs c. condition (cond_Type c) (fst (ssc cs c)) = Some c
        \<and> (\<forall>t. t \<noteq> cond_Type c \<longrightarrow> condition t (fst (ssc cs c)) = condition t cs)
        \<and> (snd (ssc cs c) \<longleftrightarrow> condition (cond_Type c) cs \<noteq> Some c)
        \<and> (\<not> snd (ssc cs c) \<longrightarrow> fst (ssc cs c) = cs))"

text \<open>
  The documented behaviour of \<open>ctrl.SetControllerReference\<close> for an owner of a registered kind and a
  fresh object of the same namespace.
\<close>

definition owner_of :: "VirtualMachineBMC \<Rightarrow> OwnerReference" where
  "owner_of b = \<lparr>or_APIVersion = apiGVStr, or_Kind = ''VirtualMachineBMC'', or_Name = bmc_Name b\<rparr>"

definition sets_owner :: "(VirtualMachineBMC \<Rightarrow> ObjectMeta \<Rightarrow> ObjectMeta outcome) \<Rightarrow> bool" where
  "sets_owner sco \<longleftrightarrow>
     (\<forall>b m. om_Controller m = None \<longrightarrow> om_Namespace m = bmc_Namespace b \<longrightarrow>
        sco b m = Ok (m\<lparr>om_Controller := Some (owner_of b)\<rparr>))"

section \<open>The client\<close>

text \<open>
  The controller-runtime client, one call per kind.  Of a virtual machine and a secret only the
  existence matters.  \<open>k_UpdateStatus\<close> writes the status subresource and returns the object as
  stored.
\<close>

record 'w k8s_client =
  k_GetBMC :: "string \<times> string \<Rightarrow> ('w, VirtualMachineBMC) op"
  k_GetVM :: "string \<times> string \<Rightarrow> ('w, unit) op"
  k_GetSecret :: "string \<times> string \<Rightarrow> ('w, unit) op"
  k_GetService :: "string \<times> string \<Rightarrow> ('w, Service) op"
  k_ListBMC :: "string \<Rightarrow> ('w, VirtualMachineBMC list) op"
  k_UpdateStatus :: "VirtualMachineBMC \<Rightarrow> ('w, VirtualMachineBMC) op"
  k_CreateServiceAccount :: "ServiceAccount \<Rightarrow> ('w, unit) op"
  k_CreateRoleBinding :: "RoleBinding \<Rightarrow> ('w, unit) op"
  k_CreatePod :: "Pod \<Rightarrow> ('w, unit) op"
  k_CreateService :: "Service \<Rightarrow> ('w, unit) op"
  k_DeletePod :: "string \<times> string \<Rightarrow> ('w, unit) op"

record bmc_cluster =
  kc_bmcs :: "(string \<times> string) \<rightharpoonup> VirtualMachineBMC"
  kc_vms :: "(string \<times> string) set"
  kc_secrets :: "(string \<times> string) set"
  kc_serviceAccounts :: "(string \<times> string) \<rightharpoonup> ServiceAccount"
  kc_roleBindings :: "(string \<times> string) \<rightharpoonup> RoleBinding"
  kc_pods :: "(string \<times> string) \<rightharpoonup> Pod"
  kc_services :: "(string \<times> string) \<rightharpoonup> Service"

definition key_of :: "ObjectMeta \<Rightarrow> string \<times> string" where
  "key_of m = (om_Namespace m, om_Name m)"

definition bmc_key :: "VirtualMachineBMC \<Rightarrow> string \<times> string" where
  "bmc_key b = (bmc_Namespace b, bmc_Name b)"

definition put_status :: "VirtualMachineBMC \<Rightarrow> bmc_cluster \<Rightarrow> bmc_cluster" where
  "put_status b c = c\<lparr>kc_bmcs := (kc_bmcs c)(bmc_key b \<mapsto> b)\<rparr>"

text \<open>
  The documented behaviour of the client.  An object is stored under its own key, and a status update is
  accepted only when the stored object has the same specification (the object was read before, and
  any change of it since is a conflict).  A created service is stored with the address \<open>ip\<close> the
  cluster assigns to it, which is empty when it has none yet.
\<close>

definition k8s_api :: "'w k8s_client \<Rightarrow> ('w \<Rightarrow> bmc_cluster) \<Rightarrow> (bmc_cluster \<Rightarrow> Service \<Rightarrow> string) \<Rightarrow> bool" where
  "k8s_api k view ip \<longleftrightarrow>
     (\<forall>key. api_get view (k_GetBMC k key) (\<lambda>c. kc_bmcs c key))
   \<and> (\<forall>w key b. kc_bmcs (view w) key = Some b \<longrightarrow> bmc_key b = key)
   \<and> (\<forall>key. api_get view (k_GetVM k key) (\<lambda>c. if key \<in> kc_vms c then Some () else None))
   \<and> (\<forall>key. api_get view (k_GetSecret k key) (\<lambda>c. if key \<in> kc_secrets c then Some () else None))
   \<and> (\<forall>key. api_get view (k_GetService k key) (\<lambda>c. kc_services c key))
   \<and> (\<forall>ns. api_call view (k_ListBMC k ns) (\<lambda>c bs. set bs = {b. \<exists>key. kc_bmcs c key = Some b \<and> fst key = ns}) (\<lambda>c. c))
   \<and> (\<forall>b. api_call view (k_UpdateStatus k b) (\<lambda>c b'. b' = b \<and> map_option bmc_Spec (kc_bmcs c (bmc_key b)) = Some (bmc_Spec b))
        (put_status b))
   \<and> (\<forall>sa. api_create view (k_CreateServiceAccount k sa) (\<lambda>c. kc_serviceAccounts c (key_of (sa_Meta sa)) \<noteq> None)
        (\<lambda>c. c\<lparr>kc_serviceAccounts := (kc_serviceAccounts c)(key_of (sa_Meta sa) \<mapsto> sa)\<rparr>))
   \<and> (\<forall>rb. api_create view (k_CreateRoleBinding k rb) (\<lambda>c. kc_roleBindings c (key_of (rb_Meta rb)) \<noteq> None)
        (\<lambda>c. c\<lparr>kc_roleBindings := (kc_roleBindings c)(key_of (rb_Meta rb) \<mapsto> rb)\<rparr>))
   \<and> (\<forall>p. api_create view (k_CreatePod k p) (\<lambda>c. kc_pods c (key_of (pod_Meta p)) \<noteq> None)
        (\<lambda>c. c\<lparr>kc_pods := (kc_pods c)(key_of (pod_Meta p) \<mapsto> p)\<rparr>))
   \<and> (\<forall>s. api_create view (k_CreateService k s) (\<lambda>c. kc_services c (key_of (svc_Meta s)) \<noteq> None)
        (\<lambda>c. c\<lparr>kc_services := (kc_services c)(key_of (svc_Meta s) \<mapsto> s\<lparr>svc_ClusterIP := ip c s\<rparr>)\<rparr>))
   \<and> (\<forall>key. api_delete view (k_DeletePod k key) (\<lambda>c. kc_pods c key \<noteq> None) (\<lambda>c. c\<lparr>kc_pods := (kc_pods c)(key := None)\<rparr>))"

definition k8s_live :: "'w k8s_client \<Rightarrow> ('w \<Rightarrow> bmc_cluster) \<Rightarrow> bool" where
  "k8s_live k view \<longleftrightarrow>
     (\<forall>key. refuses_absent (k_GetBMC k key)) \<and> (\<forall>key. refuses_absent (k_GetVM k key))
   \<and> (\<forall>key. refuses_absent (k_GetSecret k key)) \<and> (\<forall>key. refuses_absent (k_GetService k key))
   \<and> (\<forall>ns. answers view (k_ListBMC k ns) (\<lambda>_. True))
   \<and> (\<forall>b. answers view (k_UpdateStatus k b) (\<lambda>c. map_option bmc_Spec (kc_bmcs c (bmc_key b)) = Some (bmc_Spec b)))
   \<and> (\<forall>sa. refuses_present (k_CreateServiceAccount k sa)) \<and> (\<forall>rb. refuses_present (k_CreateRoleBinding k rb))
   \<and> (\<forall>p. refuses_present (k_CreatePod k p)) \<and> (\<forall>s. refuses_present (k_CreateService k s))
   \<and> (\<forall>key. refuses_absent (k_DeletePod k key))"

text \<open>The laws of the calls, each on its own.\<close>

lemma k8s_api_calls:
  assumes "k8s_api k view ip"
  shows k8s_GetBMC: "api_get view (k_GetBMC k key) (\<lambda>c. kc_bmcs c key)"
    and k8s_GetVM: "api_get view (k_GetVM k key) (\<lambda>c. if key \<in> kc_vms c then Some () else None)"
    and k8s_GetSecret: "api_get view (k_GetSecret k key) (\<lambda>c. if key \<in> kc_secrets c then Some () else None)"
    and k8s_GetService: "api_get view (k_GetService k key) (\<lambda>c. kc_services c key)"
    and k8s_ListBMC: "api_call view (k_ListBMC k ns) (\<lambda>c bs. set bs = {b. \<exists>key. kc_bmcs c key = Some b \<and> fst key = ns}) (\<lambda>c. c)"
    and k8s_UpdateStatus: "api_call view (k_UpdateStatus k b) (\<lambda>c b'. b' = b \<and> map_option bmc_Spec (kc_bmcs c (bmc_key b)) = Some (bmc_Spec b)) (put_status b)"
    and k8s_CreateServiceAccount: "api_create view (k_CreateServiceAccount k sa) (\<lambda>c. kc_serviceAccounts c (key_of (sa_Meta sa)) \<noteq> None)
        (\<lambda>c. c\<lparr>kc_serviceAccounts := (kc_serviceAccounts c)(key_of (sa_Meta sa) \<mapsto> sa)\<rparr>)"
    and k8s_CreateRoleBinding: "api_create view (k_CreateRoleBinding k rb) (\<lambda>c. kc_roleBindings c (key_of (rb_Meta rb)) \<noteq> None)
        (\<lambda>c. c\<lparr>kc_roleBindings := (kc_roleBindings c)(key_of (rb_Meta rb) \<mapsto> rb)\<rparr>)"
    and k8s_CreatePod: "api_create view (k_CreatePod k p) (\<lambda>c. kc_pods c (key_of (pod_Meta p)) \<noteq> None)
        (\<lambda>c. c\<lparr>kc_pods := (kc_pods c)(key_of (pod_Meta p) \<mapsto> p)\<rparr>)"
    and k8s_CreateService: "api_create view (k_CreateService k s) (\<lambda>c. kc_services c (key_of (svc_Meta s)) \<noteq> None)
        (\<lambda>c. c\<lparr>kc_services := (kc_services c)(key_of (svc_Meta s) \<mapsto> s\<lparr>svc_ClusterIP := ip c s\<rparr>)\<rparr>)"
    and k8s_DeletePod: "api_delete view (k_DeletePod k key) (\<lambda>c. kc_pods c key \<noteq> None) (\<lambda>c. c\<lparr>kc_pods := (kc_pods c)(key := None)\<rparr>)"
    and k8s_bmc_key: "kc_bmcs (view w) key = Some b' \<Longrightarrow> bmc_key b' = key"
  using assms unfolding k8s_api_def by blast+

lemma k8s_live_calls:
  assumes "k8s_live k view"
  shows live_GetBMC: "refuses_absent (k_GetBMC k key)" and live_GetVM: "refuses_absent (k_GetVM k key)"
    and live_GetSecret: "refuses_absent (k_GetSecret k key)" and live_GetService: "refuses_absent (k_GetService k key)"
    and live_ListBMC: "answers view (k_ListBMC k ns) (\<lambda>_. True)"
    and live_UpdateStatus: "answers view (k_UpdateStatus k b) (\<lambda>c. map_option bmc_Spec (kc_bmcs c (bmc_key b)) = Some (bmc_Spec b))"
    and live_CreateServiceAccount: "refuses_present (k_CreateServiceAccount k sa)"
    and live_CreateRoleBinding: "refuses_present (k_CreateRoleBinding k rb)"
    and live_CreatePod: "refuses_present (k_CreatePod k p)"
    and live_CreateService: "refuses_present (k_CreateService k s)"
    and live_DeletePod: "refuses_absent (k_DeletePod k key)"
  using assms unfolding k8s_live_def by blast+

end
