(* ===== verification/BmcController.thy ===== *)
theory BmcController
  imports BmcTypes
begin

text \<open>
  internal/controller/virtualmachinebmc/controller.go: the controller that turns a VirtualMachineBMC
  into a virtBMC pod with its service, service account and role binding, and takes the pod away
  when the machine or the secret is gone.  The definitions follow the functions of the file.
\<close>

section \<open>The reconciler\<close>

text \<open>
  \<open>rec_SetStatusCondition\<close> and \<open>rec_SetControllerReference\<close> stand for the helpers of
  apimachinery and controller-runtime the code calls.
\<close>

record 'w reconciler =
  rec_Client :: "'w k8s_client"
  rec_SetStatusCondition :: "Condition list \<Rightarrow> Condition \<Rightarrow> Condition list \<times> bool"
  rec_SetControllerReference :: "VirtualMachineBMC \<Rightarrow> ObjectMeta \<Rightarrow> ObjectMeta outcome"
  AgentImageName :: string
  AgentImageTag :: string

text \<open>\<open>virtualMachineBMC.Spec.VirtualMachineRef.Name\<close>, which dereferences a pointer.\<close>

definition vmRefName :: "VirtualMachineBMC \<Rightarrow> string outcome" where
  "vmRefName b = (case spec_VirtualMachineRef (bmc_Spec b) of None \<Rightarrow> Panic NilDereference | Some n \<Rightarrow> Ok n)"

lemma vmRefName_simps [simp]:
  "spec_VirtualMachineRef (bmc_Spec b) = Some n \<Longrightarrow> vmRefName b = Ok n"
  "spec_VirtualMachineRef (bmc_Spec b) = None \<Longrightarrow> vmRefName b = Panic NilDereference"
  by (simp_all add: vmRefName_def)

section \<open>Construction of the objects\<close>

definition constructServiceAccount :: "VirtualMachineBMC \<Rightarrow> ServiceAccount outcome" where
  "constructServiceAccount b =
     map_outcome (\<lambda>vm.
       \<lparr>sa_Meta = \<lparr>om_Name = vm @ ''-virtbmc'', om_Namespace = bmc_Namespace b, om_Labels = [], om_Controller = None\<rparr>\<rparr>)
       (vmRefName b)"

definition constructRoleBinding :: "VirtualMachineBMC \<Rightarrow> RoleBinding outcome" where
  "constructRoleBinding b =
     map_outcome (\<lambda>vm.
       \<lparr>rb_Meta = \<lparr>om_Name = vm @ ''-virtbmc-rolebinding'', om_Namespace = bmc_Namespace b, om_Labels = [], om_Controller = None\<rparr>,
        rb_RoleRef_APIGroup = ''rbac.authorization.k8s.io'',
        rb_RoleRef_Kind = ''ClusterRole'',
        rb_RoleRef_Name = clusterRoleName,
        rb_Subjects = [\<lparr>sub_Kind = ''ServiceAccount'', sub_Name = vm @ ''-virtbmc'', sub_Namespace = bmc_Namespace b\<rparr>]\<rparr>)
       (vmRefName b)"

definition constructPodFromVirtualMachineBMC :: "'w reconciler \<Rightarrow> VirtualMachineBMC \<Rightarrow> Pod outcome" where
  "constructPodFromVirtualMachineBMC r b =
     map_outcome (\<lambda>vm.
       let secretName = (case spec_AuthSecretRef (bmc_Spec b) of None \<Rightarrow> '''' | Some n \<Rightarrow> n) in
       \<lparr>pod_Meta = \<lparr>om_Name = vm @ ''-virtbmc'', om_Namespace = bmc_Namespace b,
                    om_Labels = [(VirtualMachineBMCNameLabel, bmc_Name b), (VMNameLabel, vm)],
                    om_Controller = None\<rparr>,
        pod_ServiceAccountName = vm @ ''-virtbmc'',
        pod_Containers =
          [\<lparr>ct_Name = virtBMCContainerName,
            ct_Image = AgentImageName r @ '':'' @ AgentImageTag r,
            ct_Args = [''--address'', ''0.0.0.0'', ''--ipmi-port'', itoa ipmiPort, ''--redfish-port'', itoa redfishPort,
                       bmc_Namespace b, vm],
            ct_Ports = [\<lparr>cp_Name = ipmiPortName, cp_ContainerPort = ipmiPort, cp_Protocol = ProtocolUDP\<rparr>,
                        \<lparr>cp_Name = redfishPortName, cp_ContainerPort = redfishPort, cp_Protocol = ProtocolTCP\<rparr>],
            ct_Env = [\<lparr>env_Name = ''BMC_USERNAME'', env_SecretName = secretName, env_SecretKey = bmcUserKey\<rparr>,
                      \<lparr>env_Name = ''BMC_PASSWORD'', env_SecretName = secretName, env_SecretKey = bmcPasswordKey\<rparr>]\<rparr>]\<rparr>)
       (vmRefName b)"

definition constructServiceFromVirtualMachineBMC :: "VirtualMachineBMC \<Rightarrow> Service outcome" where
  "constructServiceFromVirtualMachineBMC b =
     map_outcome (\<lambda>vm.
       \<lparr>svc_Meta = \<lparr>om_Name = vm @ ''-virtbmc'', om_Namespace = bmc_Namespace b,
                    om_Labels = [(VirtualMachineBMCNameLabel, bmc_Name b), (VMNameLabel, vm)],
                    om_Controller = None\<rparr>,
        svc_Selector = [(VirtualMachineBMCNameLabel, bmc_Name b)],
        svc_Ports = [\<lparr>sp_Name = ipmiPortName, sp_Protocol = ProtocolUDP, sp_TargetPort = ipmiPortName, sp_Port = IPMISvcPort\<rparr>,
                     \<lparr>sp_Name = redfishPortName, sp_Protocol = ProtocolTCP, sp_TargetPort = redfishPortName, sp_Port = RedfishSvcPort\<rparr>],
        svc_ClusterIP = ''''\<rparr>)
       (vmRefName b)"

section \<open>Creation\<close>

text \<open>\<open>r.Create\<close> with an AlreadyExists error ignored.\<close>

definition create_if_absent :: "('w, unit) op \<Rightarrow> ('w, unit) op" where
  "create_if_absent m = attempt m (\<lambda>e. if is_already_exists e then ret () else fail e) (\<lambda>_. ret ())"

definition ensureRBACResources :: "'w reconciler \<Rightarrow> VirtualMachineBMC \<Rightarrow> ('w, unit) op" where
  "ensureRBACResources r b =
     andThen (pureR (constructServiceAccount b)) (\<lambda>sa.
     andThen (pureR (rec_SetControllerReference r b (sa_Meta sa))) (\<lambda>sam.
     andThen (create_if_absent (k_CreateServiceAccount (rec_Client r) (sa\<lparr>sa_Meta := sam\<rparr>))) (\<lambda>_.
     andThen (pureR (constructRoleBinding b)) (\<lambda>rb.
     andThen (pureR (rec_SetControllerReference r b (rb_Meta rb))) (\<lambda>rbm.
     create_if_absent (k_CreateRoleBinding (rec_Client r) (rb\<lparr>rb_Meta := rbm\<rparr>)))))))"

section \<open>Validation\<close>

text \<open>
  Both validations record the condition they found.  When that changes the status, it is written
  and the result is false, whatever was found; the object the caller holds is the updated one.
\<close>

definition recordCondition ::
  "'w reconciler \<Rightarrow> VirtualMachineBMC \<Rightarrow> Condition \<Rightarrow> bool \<Rightarrow> ('w, bool \<times> VirtualMachineBMC) op" where
  "recordCondition r b c found =
     (case rec_SetStatusCondition r (status_Conditions (bmc_Status b)) c of
        (cs, changed) \<Rightarrow>
          (let b' = b\<lparr>bmc_Status := (bmc_Status b)\<lparr>status_Conditions := cs\<rparr>\<rparr> in
           if changed then andThen (k_UpdateStatus (rec_Client r) b') (\<lambda>b''. ret (False, b''))
           else ret (found, b')))"

definition vmNotFound :: "string \<Rightarrow> string \<Rightarrow> Condition" where
  "vmNotFound ns vm =
     \<lparr>cond_Type = ConditionVirtualMachineAvailable, cond_Status = ''False'', cond_Reason = ''VirtualMachineNotFound'',
      cond_Message = ''VirtualMachine '' @ quoted vm @ '' not found in namespace '' @ quoted ns\<rparr>"

definition vmFound :: "string \<Rightarrow> Condition" where
  "vmFound vm =
     \<lparr>cond_Type = ConditionVirtualMachineAvailable, cond_Status = ''True'', cond_Reason = ''VirtualMachineFound'',
      cond_Message = ''VirtualMachine '' @ quoted vm @ '' is available''\<rparr>"

definition validateVirtualMachineExists ::
  "'w reconciler \<Rightarrow> VirtualMachineBMC \<Rightarrow> ('w, bool \<times> VirtualMachineBMC) op" where
  "validateVirtualMachineExists r b =
     andThen (pureR (vmRefName b)) (\<lambda>vm.
     attempt (k_GetVM (rec_Client r) (bmc_Namespace b, vm))
       (\<lambda>e. if is_not_found e then recordCondition r b (vmNotFound (bmc_Namespace b) vm) False else fail e)
       (\<lambda>_. recordCondition r b (vmFound vm) True))"

definition secretNotFound :: "string \<Rightarrow> string \<Rightarrow> Condition" where
  "secretNotFound ns n =
     \<lparr>cond_Type = ConditionSecretAvailable, cond_Status = ''False'', cond_Reason = ''SecretNotFound'',
      cond_Message = ''Secret '' @ quoted n @ '' not found in namespace '' @ quoted ns\<rparr>"

definition secretFound :: "string \<Rightarrow> Condition" where
  "secretFound n =
     \<lparr>cond_Type = ConditionSecretAvailable, cond_Status = ''True'', cond_Reason = ''SecretFound'',
      cond_Message = ''Secret '' @ quoted n @ '' is available''\<rparr>"

definition validateSecretExists ::
  "'w reconciler \<Rightarrow> VirtualMachineBMC \<Rightarrow> ('w, bool \<times> VirtualMachineBMC) op" where
  "validateSecretExists r b =
     (case spec_AuthSecretRef (bmc_Spec b) of
        None \<Rightarrow> ret (False, b)
      | Some n \<Rightarrow>
          attempt (k_GetSecret (rec_Client r) (bmc_Namespace b, n))
            (\<lambda>e. if is_not_found e then recordCondition r b (secretNotFound (bmc_Namespace b) n) False else fail e)
            (\<lambda>_. recordCondition r b (secretFound n) True))"

section \<open>Deletion and reconciliation\<close>

definition deleteVirtBMCPod :: "'w reconciler \<Rightarrow> VirtualMachineBMC \<Rightarrow> ('w, unit) op" where
  "deleteVirtBMCPod r b =
     andThen (pureR (vmRefName b)) (\<lambda>vm.
     attempt (k_DeletePod (rec_Client r) (bmc_Namespace b, vm @ ''-virtbmc''))
       (\<lambda>e. if is_not_found e then ret () else fail e)
       ret)"

text \<open>The end of \<open>Reconcile\<close>, behind its prerequisites.\<close>

definition ensurePodAndService :: "'w reconciler \<Rightarrow> VirtualMachineBMC \<Rightarrow> ('w, unit) op" where
  "ensurePodAndService r b =
     andThen (pureR (constructPodFromVirtualMachineBMC r b)) (\<lambda>pod.
     andThen (pureR (rec_SetControllerReference r b (pod_Meta pod))) (\<lambda>pm.
     andThen (create_if_absent (k_CreatePod (rec_Client r) (pod\<lparr>pod_Meta := pm\<rparr>))) (\<lambda>_.
     andThen (pureR (constructServiceFromVirtualMachineBMC b)) (\<lambda>svc.
     andThen (pureR (rec_SetControllerReference r b (svc_Meta svc))) (\<lambda>sm.
     create_if_absent (k_CreateService (rec_Client r) (svc\<lparr>svc_Meta := sm\<rparr>)))))))"

text \<open>\<open>Reconcile\<close> after the two validations, and the whole of it.\<close>

definition reconcileValidated :: "'w reconciler \<Rightarrow> bool \<Rightarrow> bool \<Rightarrow> VirtualMachineBMC \<Rightarrow> ('w, unit) op" where
  "reconcileValidated r vmExists secretExists b =
     andThen (if \<not> vmExists \<or> \<not> secretExists then deleteVirtBMCPod r b else ret ()) (\<lambda>_.
     if spec_VirtualMachineRef (bmc_Spec b) = None \<or> \<not> vmExists
        \<or> spec_AuthSecretRef (bmc_Spec b) = None \<or> \<not> secretExists
     then ret ()
     else andThen (ensureRBACResources r b) (\<lambda>_. ensurePodAndService r b))"

definition Reconcile :: "'w reconciler \<Rightarrow> string \<times> string \<Rightarrow> ('w, unit) op" where
  "Reconcile r key =
     attempt (k_GetBMC (rec_Client r) key)
       (\<lambda>e. if is_not_found e then ret () else fail e)
       (\<lambda>b0. andThen (validateVirtualMachineExists r b0) (\<lambda>(vmExists, b1).
             andThen (validateSecretExists r b1) (\<lambda>(secretExists, b).
             reconcileValidated r vmExists secretExists b)))"

section \<open>Watches\<close>

text \<open>The index function \<open>SetupWithManager\<close> registers for pods and for services.\<close>

definition controllerIndex :: "ObjectMeta \<Rightarrow> string list" where
  "controllerIndex m =
     (case om_Controller m of
        None \<Rightarrow> []
      | Some owner \<Rightarrow>
          if or_APIVersion owner \<noteq> apiGVStr \<or> or_Kind owner \<noteq> ''VirtualMachineBMC'' then [] else [or_Name owner])"

datatype watched = WatchedVM string string | WatchedSecret string string

fun watched_Namespace :: "watched \<Rightarrow> string" where
  "watched_Namespace (WatchedVM ns _) = ns"
| "watched_Namespace (WatchedSecret ns _) = ns"

text \<open>
  One turn of the loop: whether the object matches, with the pod deleted after a change of its
  secret.  An error of the deletion is logged.
\<close>

definition matchWatched :: "'w reconciler \<Rightarrow> watched \<Rightarrow> VirtualMachineBMC \<Rightarrow> ('w, bool) op" where
  "matchWatched r ob b =
     (case ob of
        WatchedVM _ n \<Rightarrow> ret (spec_VirtualMachineRef (bmc_Spec b) = Some n)
      | WatchedSecret _ n \<Rightarrow>
          if spec_AuthSecretRef (bmc_Spec b) = Some n
          then attempt (deleteVirtBMCPod r (DeepCopy b)) (\<lambda>_. ret True) (\<lambda>_. ret True)
          else ret False)"

fun matchItems :: "'w reconciler \<Rightarrow> watched \<Rightarrow> VirtualMachineBMC list \<Rightarrow> ('w, (string \<times> string) list) op" where
  "matchItems r ob [] = ret []"
| "matchItems r ob (b # bs) =
     andThen (matchWatched r ob b) (\<lambda>m.
     andThen (matchItems r ob bs) (\<lambda>reqs.
     ret (if m then bmc_key b # reqs else reqs)))"

definition findVirtualMachineBMCsForSecretAndVM ::
  "'w reconciler \<Rightarrow> watched \<Rightarrow> ('w, (string \<times> string) list) op" where
  "findVirtualMachineBMCsForSecretAndVM r ob =
     attempt (k_ListBMC (rec_Client r) (watched_Namespace ob)) (\<lambda>_. ret []) (matchItems r ob)"

end
