(* ===== verification/Controller.thy ===== *)
theory Controller
  imports Runs
begin

text \<open>
  The contract of a level-triggered controller, which both controllers of the program meet: on a server
  that behaves as documented (\<open>served\<close>), a reconciliation of a key ends in one of its specified
  stages whatever the server answers, and in the last one when it succeeds.  What holds of the
  stages then holds of every history of reconciliations.
\<close>

locale level_controller =
  fixes served :: "'r \<Rightarrow> ('w \<Rightarrow> 'v) \<Rightarrow> bool"
    and step :: "'r \<Rightarrow> 'key \<Rightarrow> ('w, unit) op"
    and stages :: "'r \<Rightarrow> 'key \<Rightarrow> 'v \<Rightarrow> 'v list"
  assumes step_stage: "served r view \<Longrightarrow> step r key w = (res, w') \<Longrightarrow> view w' \<in> set (stages r key (view w))"
    and step_last: "served r view \<Longrightarrow> step r key w = (Ok (), w') \<Longrightarrow> view w' = last (stages r key (view w))"
begin

text \<open>A relation that holds between a view and each stage from it holds across a step, failed or not.\<close>

lemma step_rel:
  assumes "served r view" and "\<And>c'. c' \<in> set (stages r key (view w)) \<Longrightarrow> R (view w) c'"
  shows "R (view w) (view (snd (step r key w)))"
  by (rule assms(2), cases "step r key w") (simp add: step_stage [OF assms(1)])

lemma step_frame:
  "served r view \<Longrightarrow> (\<And>c'. c' \<in> set (stages r key (view w)) \<Longrightarrow> f c' = f (view w)) \<Longrightarrow>
   f (view (snd (step r key w))) = f (view w)"
  by (rule step_rel [where R = "\<lambda>c c'. f c' = f c"])

text \<open>Across a history of reconciliations, for a reflexive and transitive relation.\<close>

lemma history_rel:
  assumes "served r view" and refl: "\<And>c. R c c" and trans: "\<And>a b c. R a b \<Longrightarrow> R b c \<Longrightarrow> R a c"
    and stage: "\<And>key w c'. c' \<in> set (stages r key (view w)) \<Longrightarrow> R (view w) c'"
  shows "R (view w) (view (fold (\<lambda>key w. snd (step r key w)) keys w))"
proof (induction keys arbitrary: w)
  case (Cons key keys)
  have "R (view w) (view (snd (step r key w)))" by (rule step_rel [where R = R, OF assms(1)]) (rule stage)
  from trans [OF this Cons.IH] show ?case by simp
qed (simp add: refl)

text \<open>A reconciliation that succeeds twice in a row from a stable view is idempotent.\<close>

lemma step_stable:
  assumes "served r view" "step r key w = (Ok (), w1)" "step r key w1 = (Ok (), w2)"
    and "last (stages r key (last (stages r key (view w)))) = last (stages r key (view w))"
  shows "view w2 = view w1"
  using step_last [OF assms(1,2)] step_last [OF assms(1,3)] assms(4) by simp

end

end
