(* ===== verification/BmcReconcile.thy ===== *)
theory BmcReconcile
  imports BmcController Controller
begin

text \<open>
  What one reconciliation of a VirtualMachineBMC is to do, as a function on the cluster:
  \<open>reconcile_stages\<close> lists the states it passes through and \<open>reconcile_spec\<close> is the last one.  The
  refinement says that \<open>Reconcile\<close> ends there, and that after an error of the API server the cluster
  is in one of the stages.  The properties of the controller are drawn from it.
\<close>

section \<open>The specification\<close>

definition put_absent :: "'k \<Rightarrow> 'v \<Rightarrow> ('k \<rightharpoonup> 'v) \<Rightarrow> 'k \<rightharpoonup> 'v" where
  "put_absent k v m = (case m k of None \<Rightarrow> m(k \<mapsto> v) | Some _ \<Rightarrow> m)"

definition own :: "VirtualMachineBMC \<Rightarrow> ObjectMeta \<Rightarrow> ObjectMeta" where
  "own b m = m\<lparr>om_Controller := Some (owner_of b)\<rparr>"

definition vmPresent :: "bmc_cluster \<Rightarrow> VirtualMachineBMC \<Rightarrow> bool" where
  "vmPresent c b = (case spec_VirtualMachineRef (bmc_Spec b) of None \<Rightarrow> False | Some vm \<Rightarrow> (bmc_Namespace b, vm) \<in> kc_vms c)"

definition secretPresent :: "bmc_cluster \<Rightarrow> VirtualMachineBMC \<Rightarrow> bool" where
  "secretPresent c b = (case spec_AuthSecretRef (bmc_Spec b) of None \<Rightarrow> False | Some n \<Rightarrow> (bmc_Namespace b, n) \<in> kc_secrets c)"

definition withCondition :: "'w reconciler \<Rightarrow> Condition \<Rightarrow> VirtualMachineBMC \<Rightarrow> VirtualMachineBMC" where
  "withCondition r cd b =
     b\<lparr>bmc_Status := (bmc_Status b)\<lparr>status_Conditions := fst (rec_SetStatusCondition r (status_Conditions (bmc_Status b)) cd)\<rparr>\<rparr>"

definition observeVM :: "'w reconciler \<Rightarrow> bmc_cluster \<Rightarrow> VirtualMachineBMC \<Rightarrow> VirtualMachineBMC" where
  "observeVM r c b =
     (case spec_VirtualMachineRef (bmc_Spec b) of
        None \<Rightarrow> b
      | Some vm \<Rightarrow> withCondition r (if vmPresent c b then vmFound vm else vmNotFound (bmc_Namespace b) vm) b)"

definition observeSecret :: "'w reconciler \<Rightarrow> bmc_cluster \<Rightarrow> VirtualMachineBMC \<Rightarrow> VirtualMachineBMC" where
  "observeSecret r c b =
     (case spec_AuthSecretRef (bmc_Spec b) of
        None \<Rightarrow> b
      | Some n \<Rightarrow> withCondition r (if secretPresent c b then secretFound n else secretNotFound (bmc_Namespace b) n) b)"

text \<open>Each object with its owner, added when its name is free.\<close>

definition addServiceAccount :: "VirtualMachineBMC \<Rightarrow> bmc_cluster \<Rightarrow> bmc_cluster" where
  "addServiceAccount b c =
     (case constructServiceAccount b of
        Ok sa \<Rightarrow> c\<lparr>kc_serviceAccounts := put_absent (key_of (sa_Meta sa)) (sa\<lparr>sa_Meta := own b (sa_Meta sa)\<rparr>) (kc_serviceAccounts c)\<rparr>
      | _ \<Rightarrow> c)"

definition addRoleBinding :: "VirtualMachineBMC \<Rightarrow> bmc_cluster \<Rightarrow> bmc_cluster" where
  "addRoleBinding b c =
     (case constructRoleBinding b of
        Ok rb \<Rightarrow> c\<lparr>kc_roleBindings := put_absent (key_of (rb_Meta rb)) (rb\<lparr>rb_Meta := own b (rb_Meta rb)\<rparr>) (kc_roleBindings c)\<rparr>
      | _ \<Rightarrow> c)"

definition addPod :: "'w reconciler \<Rightarrow> VirtualMachineBMC \<Rightarrow> bmc_cluster \<Rightarrow> bmc_cluster" where
  "addPod r b c =
     (case constructPodFromVirtualMachineBMC r b of
        Ok p \<Rightarrow> c\<lparr>kc_pods := put_absent (key_of (pod_Meta p)) (p\<lparr>pod_Meta := own b (pod_Meta p)\<rparr>) (kc_pods c)\<rparr>
      | _ \<Rightarrow> c)"

definition addService :: "(bmc_cluster \<Rightarrow> Service \<Rightarrow> string) \<Rightarrow> VirtualMachineBMC \<Rightarrow> bmc_cluster \<Rightarrow> bmc_cluster" where
  "addService ip b c =
     (case constructServiceFromVirtualMachineBMC b of
        Ok s \<Rightarrow>
          (let s' = s\<lparr>svc_Meta := own b (svc_Meta s)\<rparr> in
           c\<lparr>kc_services := put_absent (key_of (svc_Meta s)) (s'\<lparr>svc_ClusterIP := ip c s'\<rparr>) (kc_services c)\<rparr>)
      | _ \<Rightarrow> c)"

definition removePod :: "VirtualMachineBMC \<Rightarrow> bmc_cluster \<Rightarrow> bmc_cluster" where
  "removePod b c =
     (case spec_VirtualMachineRef (bmc_Spec b) of
        None \<Rightarrow> c
      | Some vm \<Rightarrow> c\<lparr>kc_pods := (kc_pods c)((bmc_Namespace b, vm @ ''-virtbmc'') := None)\<rparr>)"

text \<open>
  The objects are provided only for a BMC whose machine and secret exist and whose status says so
  already; otherwise the status is brought up to date and the pod removed.
\<close>

definition provisionable :: "'w reconciler \<Rightarrow> bmc_cluster \<Rightarrow> VirtualMachineBMC \<Rightarrow> bool" where
  "provisionable r c b \<longleftrightarrow> vmPresent c b \<and> secretPresent c b \<and> observeVM r c b = b \<and> observeSecret r c b = b"

definition reconcile_stages ::
  "'w reconciler \<Rightarrow> (bmc_cluster \<Rightarrow> Service \<Rightarrow> string) \<Rightarrow> string \<times> string \<Rightarrow> bmc_cluster \<Rightarrow> bmc_cluster list" where
  "reconcile_stages r ip key c =
     (case kc_bmcs c key of
        None \<Rightarrow> [c]
      | Some b \<Rightarrow>
          if provisionable r c b then
            [c, addServiceAccount b c, addRoleBinding b (addServiceAccount b c),
             addPod r b (addRoleBinding b (addServiceAccount b c)),
             addService ip b (addPod r b (addRoleBinding b (addServiceAccount b c)))]
          else
            let b1 = observeVM r c b; b2 = observeSecret r c b1 in
            [c, put_status b1 c, put_status b2 (put_status b1 c), removePod b2 (put_status b2 (put_status b1 c))])"

definition reconcile_spec ::
  "'w reconciler \<Rightarrow> (bmc_cluster \<Rightarrow> Service \<Rightarrow> string) \<Rightarrow> string \<times> string \<Rightarrow> bmc_cluster \<Rightarrow> bmc_cluster" where
  "reconcile_spec r ip key c = last (reconcile_stages r ip key c)"

section \<open>The operations refine it\<close>

definition reconciler_laws :: "'w reconciler \<Rightarrow> bool" where
  "reconciler_laws r \<longleftrightarrow> sets_condition (rec_SetStatusCondition r) \<and> sets_owner (rec_SetControllerReference r)"

text \<open>What the proofs of this section share: a server, answering or not, and the helpers' laws.\<close>

definition serves :: "'w reconciler \<Rightarrow> ('w \<Rightarrow> bmc_cluster) \<Rightarrow> (bmc_cluster \<Rightarrow> Service \<Rightarrow> string) \<Rightarrow> bool \<Rightarrow> bool" where
  "serves r view ip live \<longleftrightarrow> reconciler_laws r \<and> k8s_api (rec_Client r) view ip \<and> (live \<longrightarrow> k8s_live (rec_Client r) view)"

lemma servesD:
  assumes "serves r view ip live"
  shows serves_api: "k8s_api (rec_Client r) view ip" and serves_live: "live \<Longrightarrow> k8s_live (rec_Client r) view"
    and serves_conditions: "sets_condition (rec_SetStatusCondition r)"
    and serves_owner: "sets_owner (rec_SetControllerReference r)"
  using assms by (simp_all add: serves_def reconciler_laws_def)

lemma put_status_same [simp]: "kc_bmcs c (bmc_key b) = Some b \<Longrightarrow> put_status b c = c"
  by (simp add: put_status_def fun_upd_idem)

lemma put_status_simps [simp]:
  "bmc_key b = key \<Longrightarrow> kc_bmcs (put_status b c) key = Some b"
  "kc_vms (put_status b c) = kc_vms c" "kc_secrets (put_status b c) = kc_secrets c"
  "kc_pods (put_status b c) = kc_pods c" "kc_services (put_status b c) = kc_services c"
  "kc_serviceAccounts (put_status b c) = kc_serviceAccounts c" "kc_roleBindings (put_status b c) = kc_roleBindings c"
  by (auto simp: put_status_def)

lemma put_status_put [simp]: "bmc_key b' = bmc_key b \<Longrightarrow> put_status b' (put_status b c) = put_status b' c"
  by (simp add: put_status_def)

lemma withCondition_simps [simp]:
  "bmc_Spec (withCondition r cd b) = bmc_Spec b" "bmc_key (withCondition r cd b) = bmc_key b"
  "bmc_Namespace (withCondition r cd b) = bmc_Namespace b" "bmc_Name (withCondition r cd b) = bmc_Name b"
  by (simp_all add: withCondition_def bmc_key_def)

lemma observe_simps [simp]:
  "bmc_Spec (observeVM r c b) = bmc_Spec b" "bmc_key (observeVM r c b) = bmc_key b"
  "bmc_Namespace (observeVM r c b) = bmc_Namespace b" "bmc_Name (observeVM r c b) = bmc_Name b"
  "bmc_Spec (observeSecret r c b) = bmc_Spec b" "bmc_key (observeSecret r c b) = bmc_key b"
  "bmc_Namespace (observeSecret r c b) = bmc_Namespace b" "bmc_Name (observeSecret r c b) = bmc_Name b"
  by (simp_all add: observeVM_def observeSecret_def split: option.split)

lemma present_cong:
  "kc_vms c' = kc_vms c \<Longrightarrow> bmc_Spec b' = bmc_Spec b \<Longrightarrow> bmc_Namespace b' = bmc_Namespace b \<Longrightarrow> vmPresent c' b' = vmPresent c b"
  "kc_secrets c' = kc_secrets c \<Longrightarrow> bmc_Spec b' = bmc_Spec b \<Longrightarrow> bmc_Namespace b' = bmc_Namespace b \<Longrightarrow> secretPresent c' b' = secretPresent c b"
  by (simp_all add: vmPresent_def secretPresent_def split: option.split)

lemma present_ref:
  "vmPresent c b \<Longrightarrow> spec_VirtualMachineRef (bmc_Spec b) \<noteq> None"
  "secretPresent c b \<Longrightarrow> spec_AuthSecretRef (bmc_Spec b) \<noteq> None"
  by (auto simp: vmPresent_def secretPresent_def split: option.splits)

lemma withCondition_changed:
  assumes "sets_condition (rec_SetStatusCondition r)"
    and "rec_SetStatusCondition r (status_Conditions (bmc_Status b)) cd = (cs, changed)"
  shows "changed \<longleftrightarrow> withCondition r cd b \<noteq> b"
proof -
  note L = assms(1) [unfolded sets_condition_def, rule_format, of cd "status_Conditions (bmc_Status b)", unfolded assms(2), simplified]
  have "withCondition r cd b = b\<lparr>bmc_Status := (bmc_Status b)\<lparr>status_Conditions := cs\<rparr>\<rparr>"
    by (simp add: withCondition_def assms(2))
  then have "withCondition r cd b = b \<longleftrightarrow> cs = status_Conditions (bmc_Status b)"
    by (cases b, cases "bmc_Status b") auto
  with L show ?thesis by metis
qed

lemma runs_recordCondition:
  assumes S: "serves r view ip live" and stored: "kc_bmcs c (bmc_key b) = Some b"
    and Q: "Q (found \<and> withCondition r cd b = b, withCondition r cd b) (put_status (withCondition r cd b) c)" and E: "E c"
  shows "runs view live (recordCondition r b cd found) c Q E"
proof -
  obtain cs changed where set: "rec_SetStatusCondition r (status_Conditions (bmc_Status b)) cd = (cs, changed)" by force
  then have b': "b\<lparr>bmc_Status := (bmc_Status b)\<lparr>status_Conditions := cs\<rparr>\<rparr> = withCondition r cd b"
    by (simp add: withCondition_def)
  note ch = withCondition_changed [OF serves_conditions [OF S] set]
  show ?thesis
  proof (cases changed)
    case True
    have "runs view live (andThen (k_UpdateStatus (rec_Client r) (withCondition r cd b)) (\<lambda>b''. ret (False, b''))) c Q E"
      by (rule runs_andThen, rule runs_call [OF k8s_UpdateStatus [OF serves_api [OF S]] live_UpdateStatus [OF serves_live [OF S]]])
        (use Q E stored True ch in \<open>auto intro: runs_ret\<close>)
    with True set b' show ?thesis by (simp add: recordCondition_def Let_def)
  next
    case False
    with set b' ch Q stored show ?thesis by (simp add: recordCondition_def Let_def runs_ret)
  qed
qed

lemma runs_validateVM:
  assumes S: "serves r view ip live" and stored: "kc_bmcs c (bmc_key b) = Some b"
    and vm: "spec_VirtualMachineRef (bmc_Spec b) = Some vm"
    and Q: "Q (vmPresent c b \<and> observeVM r c b = b, observeVM r c b) (put_status (observeVM r c b) c)" and E: "E c"
  shows "runs view live (validateVirtualMachineExists r b) c Q E"
proof -
  have ob: "observeVM r c b = withCondition r (if (bmc_Namespace b, vm) \<in> kc_vms c then vmFound vm else vmNotFound (bmc_Namespace b) vm) b"
    "vmPresent c b \<longleftrightarrow> (bmc_Namespace b, vm) \<in> kc_vms c"
    by (simp_all add: observeVM_def vmPresent_def vm)
  show ?thesis
    unfolding validateVirtualMachineExists_def vmRefName_simps(1) [OF vm] andThen_simps
    by (rule runs_get [OF k8s_GetVM [OF serves_api [OF S]] live_GetVM [OF serves_live [OF S]]])
      (use Q E in \<open>auto simp: ob split: if_splits intro!: runs_recordCondition [OF S stored]\<close>)
qed

lemma runs_validateSecret:
  assumes S: "serves r view ip live" and stored: "kc_bmcs c (bmc_key b) = Some b"
    and Q: "Q (secretPresent c b \<and> observeSecret r c b = b, observeSecret r c b) (put_status (observeSecret r c b) c)" and E: "E c"
  shows "runs view live (validateSecretExists r b) c Q E"
proof (cases "spec_AuthSecretRef (bmc_Spec b)")
  case None
  with Q stored show ?thesis by (simp add: validateSecretExists_def secretPresent_def observeSecret_def runs_ret)
next
  case (Some n)
  have ob: "observeSecret r c b = withCondition r (if (bmc_Namespace b, n) \<in> kc_secrets c then secretFound n else secretNotFound (bmc_Namespace b) n) b"
    "secretPresent c b \<longleftrightarrow> (bmc_Namespace b, n) \<in> kc_secrets c"
    by (simp_all add: observeSecret_def secretPresent_def Some)
  show ?thesis
    unfolding validateSecretExists_def Some option.case
    by (rule runs_get [OF k8s_GetSecret [OF serves_api [OF S]] live_GetSecret [OF serves_live [OF S]]])
      (use Q E in \<open>auto simp: ob split: if_splits intro!: runs_recordCondition [OF S stored]\<close>)
qed

lemma runs_deletePod:
  assumes S: "serves r view ip live" and vm: "spec_VirtualMachineRef (bmc_Spec b) = Some vm"
    and Q: "Q () (removePod b c)" and E: "E c"
  shows "runs view live (deleteVirtBMCPod r b) c Q E"
  unfolding deleteVirtBMCPod_def vmRefName_simps(1) [OF vm] andThen_simps
  by (rule runs_delete [OF k8s_DeletePod [OF serves_api [OF S]] live_DeletePod [OF serves_live [OF S]]])
    (use Q E vm in \<open>auto simp: removePod_def fun_upd_idem intro!: runs_ret\<close>)

text \<open>Creation of one object, whatever its kind.\<close>

lemma runs_create_if_absent:
  assumes "api_create view m present eff" "live \<Longrightarrow> refuses_present m"
    and "\<not> present c \<Longrightarrow> Q () (eff c)" "present c \<Longrightarrow> Q () c" "E c"
  shows "runs view live (create_if_absent m) c Q E"
  unfolding create_if_absent_def by (rule runs_create [OF assms(1,2)]) (use assms(3-5) in \<open>auto intro: runs_ret\<close>)

lemma set_owner_run:
  "serves r view ip live \<Longrightarrow> om_Controller m = None \<Longrightarrow> om_Namespace m = bmc_Namespace b \<Longrightarrow>
   rec_SetControllerReference r b m = Ok (own b m)"
  using serves_owner unfolding sets_owner_def own_def by blast

lemma key_of_own [simp]: "key_of (own b m) = key_of m"
  by (simp add: key_of_def own_def)

lemma put_absent_simps:
  "m k = None \<Longrightarrow> put_absent k v m = m(k \<mapsto> v)" "m k \<noteq> None \<Longrightarrow> put_absent k v m = m"
  by (auto simp: put_absent_def)

lemma runs_ensureRBAC:
  assumes S: "serves r view ip live" and vm: "spec_VirtualMachineRef (bmc_Spec b) = Some vm"
    and Q: "Q () (addRoleBinding b (addServiceAccount b c))" and E: "E c" "E (addServiceAccount b c)"
  shows "runs view live (ensureRBACResources r b) c Q E"
proof -
  obtain sa rb where ok: "constructServiceAccount b = Ok sa" "constructRoleBinding b = Ok rb"
    and m: "om_Controller (sa_Meta sa) = None" "om_Namespace (sa_Meta sa) = bmc_Namespace b"
           "om_Controller (rb_Meta rb) = None" "om_Namespace (rb_Meta rb) = bmc_Namespace b"
    by (simp add: constructServiceAccount_def constructRoleBinding_def vm)
  note own = set_owner_run [OF S m(1,2)] set_owner_run [OF S m(3,4)]
  show ?thesis
    unfolding ensureRBACResources_def ok own andThen_simps
    by (rule runs_andThen, rule runs_create_if_absent [OF k8s_CreateServiceAccount [OF serves_api [OF S]] live_CreateServiceAccount [OF serves_live [OF S]]];
        (rule runs_create_if_absent [OF k8s_CreateRoleBinding [OF serves_api [OF S]] live_CreateRoleBinding [OF serves_live [OF S]]])?)
      (use Q E in \<open>auto simp: addServiceAccount_def addRoleBinding_def ok put_absent_simps\<close>)
qed


lemma runs_ensurePodAndService:
  assumes S: "serves r view ip live" and vm: "spec_VirtualMachineRef (bmc_Spec b) = Some vm"
    and Q: "Q () (addService ip b (addPod r b c))" and E: "E c" "E (addPod r b c)"
  shows "runs view live (ensurePodAndService r b) c Q E"
proof -
  obtain p s where ok: "constructPodFromVirtualMachineBMC r b = Ok p" "constructServiceFromVirtualMachineBMC b = Ok s"
    and m: "om_Controller (pod_Meta p) = None" "om_Namespace (pod_Meta p) = bmc_Namespace b"
           "om_Controller (svc_Meta s) = None" "om_Namespace (svc_Meta s) = bmc_Namespace b"
    by (simp add: constructPodFromVirtualMachineBMC_def constructServiceFromVirtualMachineBMC_def vm Let_def)
  note own = set_owner_run [OF S m(1,2)] set_owner_run [OF S m(3,4)]
  show ?thesis
    unfolding ensurePodAndService_def ok own andThen_simps
    by (rule runs_andThen, rule runs_create_if_absent [OF k8s_CreatePod [OF serves_api [OF S]] live_CreatePod [OF serves_live [OF S]]];
        (rule runs_create_if_absent [OF k8s_CreateService [OF serves_api [OF S]] live_CreateService [OF serves_live [OF S]]])?)
      (use Q E in \<open>auto simp: addPod_def addService_def ok put_absent_simps Let_def\<close>)
qed

lemma runs_reconcileValidated:
  assumes S: "serves r view ip live" and vm: "spec_VirtualMachineRef (bmc_Spec b) = Some vm"
    and yes: "f1 \<and> f2 \<Longrightarrow> spec_AuthSecretRef (bmc_Spec b) \<noteq> None
       \<and> Q () (addService ip b (addPod r b (addRoleBinding b (addServiceAccount b c))))
       \<and> E c \<and> E (addServiceAccount b c) \<and> E (addRoleBinding b (addServiceAccount b c))
       \<and> E (addPod r b (addRoleBinding b (addServiceAccount b c)))"
    and no: "\<not> (f1 \<and> f2) \<Longrightarrow> Q () (removePod b c) \<and> E c"
  shows "runs view live (reconcileValidated r f1 f2 b) c Q E"
proof (cases "f1 \<and> f2")
  case True
  have "runs view live (andThen (ensureRBACResources r b) (\<lambda>_. ensurePodAndService r b)) c Q E"
    by (rule runs_andThen, rule runs_ensureRBAC [OF S vm], rule runs_ensurePodAndService [OF S vm])
      (simp_all add: yes True)
  with True yes vm show ?thesis by (auto simp: reconcileValidated_def)
next
  case False
  have "runs view live (andThen (deleteVirtBMCPod r b) (\<lambda>_. ret ())) c Q E"
    by (rule runs_andThen, rule runs_deletePod [OF S vm], rule runs_ret) (simp_all add: no False)
  moreover have "reconcileValidated r f1 f2 b = andThen (deleteVirtBMCPod r b) (\<lambda>_. ret ())"
    using False by (auto simp: reconcileValidated_def)
  ultimately show ?thesis by simp
qed

lemma observe_put_status [simp]:
  "observeVM r (put_status b' c) b = observeVM r c b" "observeSecret r (put_status b' c) b = observeSecret r c b"
  "vmPresent (put_status b' c) b = vmPresent c b" "secretPresent (put_status b' c) b = secretPresent c b"
  by (simp_all add: observeVM_def observeSecret_def vmPresent_def secretPresent_def split: option.split)

lemma secretPresent_observeVM [simp]: "secretPresent c (observeVM r c' b) = secretPresent c b"
  by (simp add: secretPresent_def split: option.split)

lemma start_is_stage: "c \<in> set (reconcile_stages r ip key c)"
  by (auto simp: reconcile_stages_def Let_def split: option.split)

text \<open>
  The whole reconciliation, for a BMC with a machine reference.  With \<open>live\<close> it is total and ends in
  the specified state; without, an error leaves one of the stages.
\<close>

lemma runs_Reconcile:
  assumes S: "serves r view ip live" and keyed: "\<And>b. kc_bmcs c key = Some b \<Longrightarrow> bmc_key b = key"
    and ref: "\<And>b. kc_bmcs c key = Some b \<Longrightarrow> spec_VirtualMachineRef (bmc_Spec b) \<noteq> None"
  shows "runs view live (Reconcile r key) c (\<lambda>_ c'. c' = reconcile_spec r ip key c) (\<lambda>c'. c' \<in> set (reconcile_stages r ip key c))"
    (is "runs _ _ _ _ ?Q ?E")
  unfolding Reconcile_def
proof (rule runs_get [OF k8s_GetBMC [OF serves_api [OF S]] live_GetBMC [OF serves_live [OF S]]])
  assume "kc_bmcs c key = None"
  then show "runs view live (ret ()) c ?Q ?E" by (simp add: runs_ret reconcile_spec_def reconcile_stages_def)
next
  fix b assume b: "kc_bmcs c key = Some b"
  obtain vm where vm: "spec_VirtualMachineRef (bmc_Spec b) = Some vm" using ref [OF b] by blast
  have stored: "kc_bmcs c (bmc_key b) = Some b" using keyed [OF b] b by simp
  let ?b1 = "observeVM r c b" let ?c1 = "put_status ?b1 c"
  let ?b2 = "observeSecret r c ?b1" let ?c2 = "put_status ?b2 ?c1"
  have found: "(vmPresent c b \<and> ?b1 = b) \<and> secretPresent c b \<and> ?b2 = ?b1 \<longleftrightarrow> provisionable r c b"
    by (auto simp: provisionable_def)
  have provisioned: "?c1 = c" "?c2 = c" "?b2 = b" "spec_AuthSecretRef (bmc_Spec b) \<noteq> None" if "provisionable r c b"
    using that stored present_ref(2) by (auto simp: provisionable_def)
  have E1: "?E ?c1"
    by (cases "provisionable r c b") (simp_all add: provisioned start_is_stage, simp add: reconcile_stages_def b Let_def)
  show "runs view live
      (andThen (validateVirtualMachineExists r b) (\<lambda>(vmExists, b1).
       andThen (validateSecretExists r b1) (\<lambda>(secretExists, b). reconcileValidated r vmExists secretExists b))) c ?Q ?E"
  proof (rule runs_andThen, rule runs_validateVM [where E = ?E, OF S stored vm _ start_is_stage], unfold prod.case,
      rule runs_andThen, rule runs_validateSecret [where E = ?E, OF S _ _ E1], simp, unfold prod.case)
    show "runs view live (reconcileValidated r (vmPresent c b \<and> ?b1 = b)
        (secretPresent ?c1 ?b1 \<and> observeSecret r ?c1 ?b1 = ?b1) (observeSecret r ?c1 ?b1)) (put_status (observeSecret r ?c1 ?b1) ?c1) ?Q ?E"
      unfolding observe_put_status secretPresent_observeVM
    proof (rule runs_reconcileValidated [OF S], simp add: vm, unfold found)
      assume P: "provisionable r c b"
      show "spec_AuthSecretRef (bmc_Spec ?b2) \<noteq> None
         \<and> ?Q () (addService ip ?b2 (addPod r ?b2 (addRoleBinding ?b2 (addServiceAccount ?b2 ?c2))))
         \<and> ?E ?c2 \<and> ?E (addServiceAccount ?b2 ?c2) \<and> ?E (addRoleBinding ?b2 (addServiceAccount ?b2 ?c2))
         \<and> ?E (addPod r ?b2 (addRoleBinding ?b2 (addServiceAccount ?b2 ?c2)))"
        unfolding provisioned(2,3) [OF P] using provisioned(4) [OF P]
        by (simp add: reconcile_stages_def reconcile_spec_def b P stored)
    next
      assume "\<not> provisionable r c b"
      then show "?Q () (removePod ?b2 ?c2) \<and> ?E ?c2"
        by (simp add: reconcile_stages_def reconcile_spec_def b Let_def)
    qed
  qed
qed (use start_is_stage in simp_all)

end
