(* ===== verification/K8sMemory.thy ===== *)
theory K8sMemory
  imports BmcTypes
begin

text \<open>
  A Kubernetes API server in memory, with its VirtualMachineBMC objects in a list so that they can be
  listed.  It has the documented behaviour \<open>k8s_api\<close> and refuses nothing without a reason
  (\<open>k8s_live\<close>), so the hypotheses of the controllers' theorems hold together; their concrete
  instances run on it.
\<close>

type_synonym k8s_memory = "bmc_cluster \<times> VirtualMachineBMC list"

definition bmc_table :: "VirtualMachineBMC list \<Rightarrow> (string \<times> string) \<rightharpoonup> VirtualMachineBMC" where
  "bmc_table bs = map_of (map (\<lambda>b. (bmc_key b, b)) bs)"

definition k8s_view :: "k8s_memory \<Rightarrow> bmc_cluster" where
  "k8s_view w = (fst w)\<lparr>kc_bmcs := bmc_table (snd w)\<rparr>"

definition mem_ip :: "bmc_cluster \<Rightarrow> Service \<Rightarrow> string" where
  "mem_ip c s = ''10.96.0.10''"

definition k8s_not_found :: go_error where "k8s_not_found = StatusError ReasonNotFound ''not found''"
definition already_exists :: go_error where "already_exists = StatusError ReasonAlreadyExists ''already exists''"
definition conflict :: go_error where "conflict = StatusError ReasonConflict ''conflict''"

definition mem_get :: "(bmc_cluster \<Rightarrow> 'a option) \<Rightarrow> (k8s_memory, 'a) op" where
  "mem_get look w = (case look (k8s_view w) of Some a \<Rightarrow> (Ok a, w) | None \<Rightarrow> (Err k8s_not_found, w))"

definition mem_change :: "go_error \<Rightarrow> (bmc_cluster \<Rightarrow> bool) \<Rightarrow> (bmc_cluster \<Rightarrow> bmc_cluster) \<Rightarrow> (k8s_memory, unit) op" where
  "mem_change e ok eff w = (if ok (k8s_view w) then (Ok (), (eff (fst w), snd w)) else (Err e, w))"

definition mem_update :: "VirtualMachineBMC \<Rightarrow> (k8s_memory, VirtualMachineBMC) op" where
  "mem_update b w =
     (case bmc_table (snd w) (bmc_key b) of
        Some old \<Rightarrow>
          if bmc_Spec old = bmc_Spec b
          then (Ok b, (fst w, map (\<lambda>x. if bmc_key x = bmc_key b then b else x) (snd w)))
          else (Err conflict, w)
      | None \<Rightarrow> (Err k8s_not_found, w))"

definition mem_list :: "string \<Rightarrow> (k8s_memory, VirtualMachineBMC list) op" where
  "mem_list ns w = (Ok (filter (\<lambda>b. bmc_table (snd w) (bmc_key b) = Some b \<and> bmc_Namespace b = ns) (snd w)), w)"

definition mem_k8s :: "k8s_memory k8s_client" where
  "mem_k8s =
     \<lparr>k_GetBMC = (\<lambda>key. mem_get (\<lambda>c. kc_bmcs c key)),
      k_GetVM = (\<lambda>key. mem_get (\<lambda>c. if key \<in> kc_vms c then Some () else None)),
      k_GetSecret = (\<lambda>key. mem_get (\<lambda>c. if key \<in> kc_secrets c then Some () else None)),
      k_GetService = (\<lambda>key. mem_get (\<lambda>c. kc_services c key)),
      k_ListBMC = mem_list,
      k_UpdateStatus = mem_update,
      k_CreateServiceAccount = (\<lambda>sa. mem_change already_exists (\<lambda>c. kc_serviceAccounts c (key_of (sa_Meta sa)) = None)
         (\<lambda>c. c\<lparr>kc_serviceAccounts := (kc_serviceAccounts c)(key_of (sa_Meta sa) \<mapsto> sa)\<rparr>)),
      k_CreateRoleBinding = (\<lambda>rb. mem_change already_exists (\<lambda>c. kc_roleBindings c (key_of (rb_Meta rb)) = None)
         (\<lambda>c. c\<lparr>kc_roleBindings := (kc_roleBindings c)(key_of (rb_Meta rb) \<mapsto> rb)\<rparr>)),
      k_CreatePod = (\<lambda>p. mem_change already_exists (\<lambda>c. kc_pods c (key_of (pod_Meta p)) = None)
         (\<lambda>c. c\<lparr>kc_pods := (kc_pods c)(key_of (pod_Meta p) \<mapsto> p)\<rparr>)),
      k_CreateService = (\<lambda>s. mem_change already_exists (\<lambda>c. kc_services c (key_of (svc_Meta s)) = None)
         (\<lambda>c. c\<lparr>kc_services := (kc_services c)(key_of (svc_Meta s) \<mapsto> s\<lparr>svc_ClusterIP := mem_ip c s\<rparr>)\<rparr>)),
      k_DeletePod = (\<lambda>key. mem_change k8s_not_found (\<lambda>c. kc_pods c key \<noteq> None) (\<lambda>c. c\<lparr>kc_pods := (kc_pods c)(key := None)\<rparr>))\<rparr>"

lemma bmc_table_key: "bmc_table bs key = Some b \<Longrightarrow> bmc_key b = key \<and> b \<in> set bs"
  by (auto simp: bmc_table_def dest!: map_of_SomeD)

lemma bmc_table_simps [simp]:
  "bmc_table [] = (\<lambda>_. None)" "bmc_table (b # bs) = (bmc_table bs)(bmc_key b \<mapsto> b)"
  by (simp_all add: bmc_table_def)

lemma bmc_table_map:
  "bmc_table (map (\<lambda>x. if bmc_key x = bmc_key b then b else x) bs) key =
     (if key = bmc_key b \<and> bmc_table bs key \<noteq> None then Some b else bmc_table bs key)"
  by (induction bs) auto

lemma bmc_table_update:
  "bmc_table bs (bmc_key b) \<noteq> None \<Longrightarrow>
   bmc_table (map (\<lambda>x. if bmc_key x = bmc_key b then b else x) bs) = (bmc_table bs)(bmc_key b \<mapsto> b)"
  by (simp add: fun_eq_iff bmc_table_map)

lemma mem_get_api: "api_get k8s_view (mem_get look) look"
  by (simp add: api_get_def mem_get_def k8s_not_found_def split: option.split)

lemma mem_create_api:
  "(\<And>c. present c = (\<not> ok c)) \<Longrightarrow> (\<And>w. k8s_view (eff (fst w), snd w) = eff (k8s_view w)) \<Longrightarrow>
   api_create k8s_view (mem_change already_exists ok eff) present eff"
  by (auto simp: api_create_def mem_change_def already_exists_def)

lemma mem_delete_api:
  "(\<And>w. k8s_view (eff (fst w), snd w) = eff (k8s_view w)) \<Longrightarrow>
   api_delete k8s_view (mem_change k8s_not_found present eff) present eff"
  by (auto simp: api_delete_def mem_change_def k8s_not_found_def)

lemma mem_update_api:
  "api_call k8s_view (mem_update b)
     (\<lambda>c b'. b' = b \<and> map_option bmc_Spec (kc_bmcs c (bmc_key b)) = Some (bmc_Spec b)) (put_status b)"
  by (auto simp: api_call_def mem_update_def k8s_view_def put_status_def bmc_table_update split: option.splits)

lemma mem_list_api:
  "api_call k8s_view (mem_list ns) (\<lambda>c bs. set bs = {b. \<exists>key. kc_bmcs c key = Some b \<and> fst key = ns}) (\<lambda>c. c)"
  by (auto simp: api_call_def mem_list_def k8s_view_def dest: bmc_table_key)
    (auto simp: bmc_key_def dest: bmc_table_key, frule bmc_table_key, simp add: bmc_key_def)

lemma mem_k8s_api: "k8s_api mem_k8s k8s_view mem_ip"
  unfolding k8s_api_def mem_k8s_def k8s_client.simps
  by (intro conjI allI impI mem_get_api mem_update_api mem_list_api mem_create_api mem_delete_api)
    (auto simp: k8s_view_def mem_ip_def dest: bmc_table_key)

lemma mem_k8s_live: "k8s_live mem_k8s k8s_view"
  unfolding k8s_live_def mem_k8s_def k8s_client.simps
  by (auto simp: refuses_absent_def refuses_present_def answers_def mem_get_def mem_change_def mem_update_def mem_list_def
      k8s_view_def k8s_not_found_def already_exists_def split: option.splits if_splits)

section \<open>A cluster with one BMC\<close>

definition demo_bmc :: VirtualMachineBMC where
  "demo_bmc =
     \<lparr>bmc_Namespace = ''default'', bmc_Name = ''bmc0'',
      bmc_Spec = \<lparr>spec_VirtualMachineRef = Some ''vm0'', spec_AuthSecretRef = Some ''secret0''\<rparr>,
      bmc_Status = \<lparr>status_ClusterIP = '''', status_Conditions = []\<rparr>\<rparr>"

definition demo_k8s :: "(string \<times> string) set \<Rightarrow> (string \<times> string) set \<Rightarrow> VirtualMachineBMC list \<Rightarrow> k8s_memory" where
  "demo_k8s vms secrets bs =
     (\<lparr>kc_bmcs = (\<lambda>_. None), kc_vms = vms, kc_secrets = secrets, kc_serviceAccounts = (\<lambda>_. None),
       kc_roleBindings = (\<lambda>_. None), kc_pods = (\<lambda>_. None), kc_services = (\<lambda>_. None)\<rparr>, bs)"

text \<open>One way to have the documented behaviour of the two helpers.\<close>

fun mem_SetStatusCondition :: "Condition list \<Rightarrow> Condition \<Rightarrow> Condition list \<times> bool" where
  "mem_SetStatusCondition [] c = ([c], True)"
| "mem_SetStatusCondition (x # xs) c =
     (if cond_Type x = cond_Type c then (c # xs, x \<noteq> c)
      else (case mem_SetStatusCondition xs c of (ys, changed) \<Rightarrow> (x # ys, changed)))"

lemma mem_sets_condition: "sets_condition mem_SetStatusCondition"
proof -
  have "condition (cond_Type c) (fst (mem_SetStatusCondition cs c)) = Some c
      \<and> (\<forall>t. t \<noteq> cond_Type c \<longrightarrow> condition t (fst (mem_SetStatusCondition cs c)) = condition t cs)
      \<and> (snd (mem_SetStatusCondition cs c) \<longleftrightarrow> condition (cond_Type c) cs \<noteq> Some c)
      \<and> (\<not> snd (mem_SetStatusCondition cs c) \<longrightarrow> fst (mem_SetStatusCondition cs c) = cs)" for cs c
    by (induction cs c rule: mem_SetStatusCondition.induct) (auto simp: condition_def split: prod.splits)
  then show ?thesis unfolding sets_condition_def by blast
qed

definition mem_SetControllerReference :: "VirtualMachineBMC \<Rightarrow> ObjectMeta \<Rightarrow> ObjectMeta outcome" where
  "mem_SetControllerReference b m = Ok (m\<lparr>om_Controller := Some (owner_of b)\<rparr>)"

lemma mem_sets_owner: "sets_owner mem_SetControllerReference"
  by (simp add: sets_owner_def mem_SetControllerReference_def)

end
