(* ===== verification/BmcLifecycle.thy ===== *)
theory BmcLifecycle
  imports BmcReconcile K8sMemory
begin

text \<open>
  The properties of the VirtualMachineBMC controller: refinement, what a reconciliation may create and
  must remove, convergence, the wiring of the objects, the crash on a missing machine reference, the
  collision of two BMCs of one machine, and the requests a change of a machine or a secret raises.
\<close>

section \<open>Conditions\<close>

lemma withCondition_same:
  assumes "sets_condition (rec_SetStatusCondition r)"
  shows "withCondition r cd b = b \<longleftrightarrow> condition (cond_Type cd) (status_Conditions (bmc_Status b)) = Some cd"
proof -
  obtain cs ch where s: "rec_SetStatusCondition r (status_Conditions (bmc_Status b)) cd = (cs, ch)" by force
  have "ch \<longleftrightarrow> condition (cond_Type cd) (status_Conditions (bmc_Status b)) \<noteq> Some cd"
    using assms s unfolding sets_condition_def by (metis snd_conv)
  with withCondition_changed [OF assms s] show ?thesis by blast
qed

lemma condition_withCondition:
  assumes "sets_condition (rec_SetStatusCondition r)"
  shows "condition t (status_Conditions (bmc_Status (withCondition r cd b))) =
    (if t = cond_Type cd then Some cd else condition t (status_Conditions (bmc_Status b)))"
  using assms by (simp add: withCondition_def sets_condition_def)

text \<open>The condition a BMC should show, and whether it does.\<close>

definition vmCondition :: "bmc_cluster \<Rightarrow> VirtualMachineBMC \<Rightarrow> string \<Rightarrow> Condition" where
  "vmCondition c b vm = (if vmPresent c b then vmFound vm else vmNotFound (bmc_Namespace b) vm)"

definition secretCondition :: "bmc_cluster \<Rightarrow> VirtualMachineBMC \<Rightarrow> string \<Rightarrow> Condition" where
  "secretCondition c b n = (if secretPresent c b then secretFound n else secretNotFound (bmc_Namespace b) n)"

definition shows_condition :: "VirtualMachineBMC \<Rightarrow> Condition \<Rightarrow> bool" where
  "shows_condition b cd \<longleftrightarrow> condition (cond_Type cd) (status_Conditions (bmc_Status b)) = Some cd"

lemma condition_types [simp]:
  "cond_Type (vmCondition c b vm) = ConditionVirtualMachineAvailable"
  "cond_Type (secretCondition c b n) = ConditionSecretAvailable"
  by (simp_all add: vmCondition_def secretCondition_def vmFound_def vmNotFound_def secretFound_def secretNotFound_def)

lemma observe_eqs:
  "spec_VirtualMachineRef (bmc_Spec b) = Some vm \<Longrightarrow> observeVM r c b = withCondition r (vmCondition c b vm) b"
  "spec_AuthSecretRef (bmc_Spec b) = Some n \<Longrightarrow> observeSecret r c b = withCondition r (secretCondition c b n) b"
  "spec_AuthSecretRef (bmc_Spec b) = None \<Longrightarrow> observeSecret r c b = b"
  by (simp_all add: observeVM_def observeSecret_def vmCondition_def secretCondition_def)

text \<open>The BMC after both observations: it shows both conditions, and observing again changes nothing.\<close>

definition observed :: "'w reconciler \<Rightarrow> bmc_cluster \<Rightarrow> VirtualMachineBMC \<Rightarrow> VirtualMachineBMC" where
  "observed r c b = observeSecret r c (observeVM r c b)"

lemma observed_simps [simp]:
  "bmc_Spec (observed r c b) = bmc_Spec b" "bmc_key (observed r c b) = bmc_key b"
  "bmc_Namespace (observed r c b) = bmc_Namespace b" "bmc_Name (observed r c b) = bmc_Name b"
  by (simp_all add: observed_def)

lemma present_observed [simp]:
  "vmPresent c (observed r c' b) = vmPresent c b" "secretPresent c (observed r c' b) = secretPresent c b"
  by (simp_all add: vmPresent_def secretPresent_def split: option.split)

lemma conditions_cong:
  "bmc_Namespace b' = bmc_Namespace b \<Longrightarrow> bmc_Spec b' = bmc_Spec b \<Longrightarrow>
     vmCondition c b' vm = vmCondition c b vm \<and> secretCondition c b' n = secretCondition c b n"
  by (simp add: vmCondition_def secretCondition_def present_cong [of c c b' b])

lemma conditions_simps [simp]:
  "secretCondition c (withCondition r cd b) n = secretCondition c b n"
  "vmCondition c (observed r c' b) vm = vmCondition c b vm" "secretCondition c (observed r c' b) n = secretCondition c b n"
  using conditions_cong [of "withCondition r cd b" b] conditions_cong [of "observed r c' b" b] by simp_all

lemma observed_shows:
  assumes "sets_condition (rec_SetStatusCondition r)"
  shows "spec_VirtualMachineRef (bmc_Spec b) = Some vm \<Longrightarrow> shows_condition (observed r c b) (vmCondition c b vm)"
    and "spec_AuthSecretRef (bmc_Spec b) = Some n \<Longrightarrow> shows_condition (observed r c b) (secretCondition c b n)"
  by (cases "spec_AuthSecretRef (bmc_Spec b)";
      simp add: shows_condition_def observed_def observe_eqs condition_withCondition [OF assms])
    (cases "spec_VirtualMachineRef (bmc_Spec b)";
      simp add: shows_condition_def observed_def observe_eqs condition_withCondition [OF assms]
        observeVM_def)

lemma observe_observed:
  assumes "sets_condition (rec_SetStatusCondition r)"
  shows "observeVM r c (observed r c b) = observed r c b" and "observeSecret r c (observed r c b) = observed r c b"
proof -
  show "observeVM r c (observed r c b) = observed r c b"
  proof (cases "spec_VirtualMachineRef (bmc_Spec b)")
    case (Some vm)
    with observed_shows(1) [OF assms Some] show ?thesis
      by (simp add: observe_eqs(1) [of "observed r c b"] withCondition_same [OF assms] shows_condition_def)
  qed (simp add: observeVM_def)
  show "observeSecret r c (observed r c b) = observed r c b"
  proof (cases "spec_AuthSecretRef (bmc_Spec b)")
    case (Some n)
    with observed_shows(2) [OF assms Some] show ?thesis
      by (simp add: observe_eqs(2) [of "observed r c b"] withCondition_same [OF assms] shows_condition_def)
  qed (simp add: observeSecret_def)
qed

section \<open>Objects by kind and key\<close>

datatype k8s_kind = KServiceAccount | KRoleBinding | KPod | KService

definition exists_in :: "bmc_cluster \<Rightarrow> k8s_kind \<Rightarrow> string \<times> string \<Rightarrow> bool" where
  "exists_in c k key =
     (case k of
        KServiceAccount \<Rightarrow> kc_serviceAccounts c key \<noteq> None
      | KRoleBinding \<Rightarrow> kc_roleBindings c key \<noteq> None
      | KPod \<Rightarrow> kc_pods c key \<noteq> None
      | KService \<Rightarrow> kc_services c key \<noteq> None)"

definition created :: "bmc_cluster \<Rightarrow> bmc_cluster \<Rightarrow> (k8s_kind \<times> string \<times> string) set" where
  "created c c' = {(k, key). \<not> exists_in c k key \<and> exists_in c' k key}"

text \<open>The four objects of an agent.\<close>

definition agent_objects :: "string \<Rightarrow> string \<Rightarrow> (k8s_kind \<times> string \<times> string) set" where
  "agent_objects ns vm =
     {(KServiceAccount, ns, vm @ ''-virtbmc''), (KRoleBinding, ns, vm @ ''-virtbmc-rolebinding''),
      (KPod, ns, vm @ ''-virtbmc''), (KService, ns, vm @ ''-virtbmc'')}"

definition agent_provided :: "string \<Rightarrow> string \<Rightarrow> bmc_cluster \<Rightarrow> bool" where
  "agent_provided ns vm c \<longleftrightarrow> (\<forall>(k, key) \<in> agent_objects ns vm. exists_in c k key)"

lemma put_absent_None [simp]: "put_absent k v m k' = None \<longleftrightarrow> k' \<noteq> k \<and> m k' = None"
  by (auto simp: put_absent_def split: option.split)

lemma put_absent_present: "m k \<noteq> None \<Longrightarrow> put_absent k v m = m"
  by (auto simp: put_absent_def)

text \<open>Each addition is one \<open>put_absent\<close>.\<close>

lemma add_shape:
  assumes "spec_VirtualMachineRef (bmc_Spec b) = Some vm"
  shows "\<exists>x. addServiceAccount b c = c\<lparr>kc_serviceAccounts := put_absent (bmc_Namespace b, vm @ ''-virtbmc'') x (kc_serviceAccounts c)\<rparr>"
    and "\<exists>x. addRoleBinding b c = c\<lparr>kc_roleBindings := put_absent (bmc_Namespace b, vm @ ''-virtbmc-rolebinding'') x (kc_roleBindings c)\<rparr>"
    and "\<exists>x. addPod r b c = c\<lparr>kc_pods := put_absent (bmc_Namespace b, vm @ ''-virtbmc'') x (kc_pods c)\<rparr>"
    and "\<exists>x. addService ip b c = c\<lparr>kc_services := put_absent (bmc_Namespace b, vm @ ''-virtbmc'') x (kc_services c)\<rparr>"
  unfolding addServiceAccount_def addRoleBinding_def addPod_def addService_def constructServiceAccount_def
    constructRoleBinding_def constructPodFromVirtualMachineBMC_def constructServiceFromVirtualMachineBMC_def
    vmRefName_simps(1) [OF assms] outcome.map outcome.case key_of_def Let_def
  by (rule exI, simp)+

lemma exists_upd:
  "exists_in (c\<lparr>kc_serviceAccounts := put_absent key' sa (kc_serviceAccounts c)\<rparr>) k key \<longleftrightarrow> exists_in c k key \<or> (k, key) = (KServiceAccount, key')"
  "exists_in (c\<lparr>kc_roleBindings := put_absent key' rb (kc_roleBindings c)\<rparr>) k key \<longleftrightarrow> exists_in c k key \<or> (k, key) = (KRoleBinding, key')"
  "exists_in (c\<lparr>kc_pods := put_absent key' p (kc_pods c)\<rparr>) k key \<longleftrightarrow> exists_in c k key \<or> (k, key) = (KPod, key')"
  "exists_in (c\<lparr>kc_services := put_absent key' s (kc_services c)\<rparr>) k key \<longleftrightarrow> exists_in c k key \<or> (k, key) = (KService, key')"
  by (cases k; simp add: exists_in_def del: not_None_eq; blast)+

lemma exists_add:
  assumes ref: "spec_VirtualMachineRef (bmc_Spec b) = Some vm"
  shows "exists_in (addServiceAccount b c) k key \<longleftrightarrow> exists_in c k key \<or> (k, key) = (KServiceAccount, bmc_Namespace b, vm @ ''-virtbmc'')"
    and "exists_in (addRoleBinding b c) k key \<longleftrightarrow> exists_in c k key \<or> (k, key) = (KRoleBinding, bmc_Namespace b, vm @ ''-virtbmc-rolebinding'')"
    and "exists_in (addPod r b c) k key \<longleftrightarrow> exists_in c k key \<or> (k, key) = (KPod, bmc_Namespace b, vm @ ''-virtbmc'')"
    and "exists_in (addService ip b c) k key \<longleftrightarrow> exists_in c k key \<or> (k, key) = (KService, bmc_Namespace b, vm @ ''-virtbmc'')"
  by (rule exE [OF add_shape(1) [OF ref, of c]], simp only: exists_upd)
    (rule exE [OF add_shape(2) [OF ref, of c]], simp only: exists_upd,
     rule exE [OF add_shape(3) [OF ref, of r c]], simp only: exists_upd,
     rule exE [OF add_shape(4) [OF ref, of ip c]], simp only: exists_upd)

lemma exists_put_status [simp]: "exists_in (put_status b c) = exists_in c"
  by (simp add: exists_in_def fun_eq_iff split: k8s_kind.split)

lemma exists_removePod:
  "spec_VirtualMachineRef (bmc_Spec b) = Some vm \<Longrightarrow>
   exists_in (removePod b c) k key \<longleftrightarrow> exists_in c k key \<and> (k, key) \<noteq> (KPod, bmc_Namespace b, vm @ ''-virtbmc'')"
  by (cases k) (auto simp: exists_in_def removePod_def)

section \<open>The last stage\<close>

lemma reconcile_spec_provisionable:
  "kc_bmcs c key = Some b \<Longrightarrow> provisionable r c b \<Longrightarrow>
   reconcile_spec r ip key c = addService ip b (addPod r b (addRoleBinding b (addServiceAccount b c)))"
  by (simp add: reconcile_spec_def reconcile_stages_def)

lemma reconcile_spec_other:
  "kc_bmcs c key = Some b \<Longrightarrow> \<not> provisionable r c b \<Longrightarrow>
   reconcile_spec r ip key c = removePod (observed r c b) (put_status (observed r c b) c)"
  by (simp add: reconcile_spec_def reconcile_stages_def observed_def Let_def)

lemma removePod_simps [simp]:
  "kc_bmcs (removePod b c) = kc_bmcs c" "kc_vms (removePod b c) = kc_vms c" "kc_secrets (removePod b c) = kc_secrets c"
  by (simp_all add: removePod_def split: option.split)

lemma add_frame [simp]:
  "kc_bmcs (addServiceAccount b c) = kc_bmcs c" "kc_vms (addServiceAccount b c) = kc_vms c" "kc_secrets (addServiceAccount b c) = kc_secrets c"
  "kc_bmcs (addRoleBinding b c) = kc_bmcs c" "kc_vms (addRoleBinding b c) = kc_vms c" "kc_secrets (addRoleBinding b c) = kc_secrets c"
  "kc_bmcs (addPod r b c) = kc_bmcs c" "kc_vms (addPod r b c) = kc_vms c" "kc_secrets (addPod r b c) = kc_secrets c"
  "kc_bmcs (addService ip b c) = kc_bmcs c" "kc_vms (addService ip b c) = kc_vms c" "kc_secrets (addService ip b c) = kc_secrets c"
  by (simp_all add: addServiceAccount_def addRoleBinding_def addPod_def addService_def Let_def split: outcome.split)

text \<open>Present objects are left as they are.\<close>

lemma add_present:
  assumes ref: "spec_VirtualMachineRef (bmc_Spec b) = Some vm" and prov: "agent_provided (bmc_Namespace b) vm c"
  shows "addServiceAccount b c = c" "addRoleBinding b c = c" "addPod r b c = c" "addService ip b c = c"
  using prov add_shape(1) [OF ref, of c] add_shape(2) [OF ref, of c] add_shape(3) [OF ref, of r c] add_shape(4) [OF ref, of ip c]
  by (auto simp: agent_provided_def agent_objects_def exists_in_def put_absent_present)

lemma spec_provides:
  assumes "kc_bmcs c key = Some b" "provisionable r c b" "spec_VirtualMachineRef (bmc_Spec b) = Some vm"
  shows "agent_provided (bmc_Namespace b) vm (reconcile_spec r ip key c)" and "kc_bmcs (reconcile_spec r ip key c) = kc_bmcs c"
  by (simp_all add: reconcile_spec_provisionable [OF assms(1,2)] agent_provided_def agent_objects_def exists_add [OF assms(3)])

lemma provisionable_cong:
  "kc_vms c' = kc_vms c \<Longrightarrow> kc_secrets c' = kc_secrets c \<Longrightarrow> provisionable r c' b = provisionable r c b"
  by (auto simp: provisionable_def observeVM_def observeSecret_def vmPresent_def secretPresent_def split: option.split)

lemma spec_stable:
  assumes "kc_bmcs c key = Some b" "provisionable r c b" "spec_VirtualMachineRef (bmc_Spec b) = Some vm"
    "agent_provided (bmc_Namespace b) vm c"
  shows "reconcile_spec r ip key c = c"
  by (simp add: reconcile_spec_provisionable [OF assms(1,2)] add_present [OF assms(3,4)])

text \<open>Two reconciliations reach a cluster that a third leaves alone.\<close>

lemma spec_twice:
  fixes ip :: "bmc_cluster \<Rightarrow> Service \<Rightarrow> string"
  assumes S: "sets_condition (rec_SetStatusCondition r)" and b: "kc_bmcs c key = Some b" "bmc_key b = key"
    and ref: "spec_VirtualMachineRef (bmc_Spec b) = Some vm" and p: "vmPresent c b" "secretPresent c b"
  defines "c2 \<equiv> reconcile_spec r ip key (reconcile_spec r ip key c)"
  shows "kc_bmcs c2 key = Some (observed r c b)" and "agent_provided (bmc_Namespace b) vm c2"
    and "reconcile_spec r ip key c2 = c2"
proof -
  let ?b = "observed r c b" let ?c1 = "reconcile_spec r ip key c"
  have P: "provisionable r c ?b" using p observe_observed [OF S] by (simp add: provisionable_def)
  have b1: "kc_bmcs ?c1 key = Some ?b" and cong: "kc_vms ?c1 = kc_vms c" "kc_secrets ?c1 = kc_secrets c"
  proof -
    have "?b = b" if "provisionable r c b" using that by (simp add: provisionable_def observed_def)
    then show "kc_bmcs ?c1 key = Some ?b" "kc_vms ?c1 = kc_vms c" "kc_secrets ?c1 = kc_secrets c"
      by (cases "provisionable r c b"; simp add: b reconcile_spec_provisionable [OF b(1)] reconcile_spec_other [OF b(1)])+
  qed
  have P1: "provisionable r ?c1 ?b" using P provisionable_cong [OF cong] by blast
  have vm: "spec_VirtualMachineRef (bmc_Spec ?b) = Some vm" by (simp add: ref)
  note two = spec_provides [OF b1 P1 vm]
  show b2: "kc_bmcs c2 key = Some ?b" using two(2) b1 by (simp add: c2_def)
  show prov: "agent_provided (bmc_Namespace b) vm c2" using two(1) by (simp add: c2_def)
  have "kc_vms c2 = kc_vms ?c1" "kc_secrets c2 = kc_secrets ?c1"
    by (simp_all add: c2_def reconcile_spec_provisionable [OF b1 P1])
  with P1 have "provisionable r c2 ?b" using provisionable_cong by metis
  from spec_stable [OF b2 this vm] prov show "reconcile_spec r ip key c2 = c2" by simp
qed

section \<open>Runs of the reconciler\<close>

text \<open>
  A missing machine reference crashes the reconciler, whose first validation dereferences it; nothing
  has been changed by then.
\<close>

lemma Reconcile_nil:
  assumes api: "k8s_api (rec_Client r) view ip" and b: "kc_bmcs (view w) key = Some b"
    and ref: "spec_VirtualMachineRef (bmc_Spec b) = None" and run: "Reconcile r key w = (res, w')"
  shows "view w' = view w" and "res \<noteq> Ok ()" and "k8s_live (rec_Client r) view \<Longrightarrow> res = Panic NilDereference"
proof -
  obtain rg wg where g: "k_GetBMC (rec_Client r) key w = (rg, wg)" by force
  note G = api_get_run [OF k8s_GetBMC [OF api] g]
  have "rg = Ok b' \<Longrightarrow> (res, w') = (Panic NilDereference, wg)" for b'
    using run g G b ref by (simp add: Reconcile_def attempt_Ok validateVirtualMachineExists_def)
  moreover have "rg = Err e \<Longrightarrow> res = Err e \<and> w' = wg" for e
    using run g G b by (simp add: Reconcile_def attempt_Err)
  moreover have live: "k8s_live (rec_Client r) view \<Longrightarrow> rg = Err e \<Longrightarrow> is_not_found e" for e
    using refuses_absentD [OF live_GetBMC [of "rec_Client r" view key], of w e wg] g by simp
  ultimately have *: "view w' = view w \<and> res \<noteq> Ok () \<and> (k8s_live (rec_Client r) view \<longrightarrow> res = Panic NilDereference)"
    using G b live by (cases rg) auto
  from * show "view w' = view w" by blast
  from * show "res \<noteq> Ok ()" by blast
  from * show "k8s_live (rec_Client r) view \<Longrightarrow> res = Panic NilDereference" by blast
qed

text \<open>Whatever happens, the cluster is left in one of the stages.\<close>

lemma Reconcile_stage:
  assumes S: "serves r view ip live" and run: "Reconcile r key w = (res, w')"
  shows "view w' \<in> set (reconcile_stages r ip key (view w))"
proof (cases "\<exists>b. kc_bmcs (view w) key = Some b \<and> spec_VirtualMachineRef (bmc_Spec b) = None")
  case True
  with Reconcile_nil(1) [OF serves_api [OF S] _ _ run] start_is_stage show ?thesis by fastforce
next
  case False
  then have "runs view live (Reconcile r key) (view w) (\<lambda>_ c'. c' = reconcile_spec r ip key (view w))
      (\<lambda>c'. c' \<in> set (reconcile_stages r ip key (view w)))"
    by (intro runs_Reconcile [OF S]) (auto dest: k8s_bmc_key [OF serves_api [OF S]])
  from runsD [OF this refl run] show ?thesis
    by (cases res) (auto simp: reconcile_spec_def reconcile_stages_def Let_def split: option.split)
qed

lemma Reconcile_Ok:
  assumes S: "serves r view ip live" and run: "Reconcile r key w = (Ok u, w')"
  shows "view w' = reconcile_spec r ip key (view w)"
proof -
  have "spec_VirtualMachineRef (bmc_Spec b) \<noteq> None" if "kc_bmcs (view w) key = Some b" for b
    using Reconcile_nil(2) [OF serves_api [OF S] that _ run] by auto
  then have "runs view live (Reconcile r key) (view w) (\<lambda>_ c'. c' = reconcile_spec r ip key (view w))
      (\<lambda>c'. c' \<in> set (reconcile_stages r ip key (view w)))"
    by (intro runs_Reconcile [OF S]) (auto dest: k8s_bmc_key [OF serves_api [OF S]])
  from runs_Ok [OF this run] show ?thesis .
qed

lemma Reconcile_live:
  assumes S: "serves r view ip True" and ref: "\<And>b. kc_bmcs (view w) key = Some b \<Longrightarrow> spec_VirtualMachineRef (bmc_Spec b) \<noteq> None"
  obtains w' where "Reconcile r key w = (Ok (), w')" "view w' = reconcile_spec r ip key (view w)"
proof -
  have "runs view True (Reconcile r key) (view w) (\<lambda>_ c'. c' = reconcile_spec r ip key (view w))
      (\<lambda>c'. c' \<in> set (reconcile_stages r ip key (view w)))"
    using ref by (intro runs_Reconcile [OF S]) (auto dest: k8s_bmc_key [OF serves_api [OF S]])
  from runs_live [OF this] that show ?thesis by (metis unit.exhaust)
qed

text \<open>Two runs in a row on an answering server.\<close>

lemma Reconcile_twice:
  assumes S: "serves r view ip True" and b: "kc_bmcs (view w) key = Some b" and ref: "spec_VirtualMachineRef (bmc_Spec b) \<noteq> None"
  obtains w1 w2 b1 where "Reconcile r key w = (Ok (), w1)" "view w1 = reconcile_spec r ip key (view w)"
    and "Reconcile r key w1 = (Ok (), w2)" "view w2 = reconcile_spec r ip key (view w1)"
    and "kc_bmcs (view w1) key = Some b1" "bmc_Spec b1 = bmc_Spec b" "bmc_key b1 = key"
proof -
  have key: "bmc_key b = key" by (rule k8s_bmc_key [OF serves_api [OF S] b])
  obtain w1 where w1: "Reconcile r key w = (Ok (), w1)" "view w1 = reconcile_spec r ip key (view w)"
    using Reconcile_live [OF S] b ref by (metis option.inject)
  obtain b1 where b1: "kc_bmcs (view w1) key = Some b1" "bmc_Spec b1 = bmc_Spec b" "bmc_key b1 = key"
    using w1(2) b key by (cases "provisionable r (view w) b") (auto simp: reconcile_spec_provisionable reconcile_spec_other)
  obtain w2 where "Reconcile r key w1 = (Ok (), w2)" "view w2 = reconcile_spec r ip key (view w1)"
    using Reconcile_live [OF S, of w1 key] b1 ref by (metis option.inject)
  with w1 b1 that show ?thesis by blast
qed

text \<open>The controller meets the contract of a level-triggered controller.\<close>

interpretation bmc_ctl: level_controller
  "\<lambda>(r, ip) view. \<exists>live. serves r view ip live" "\<lambda>(r, ip). Reconcile r" "\<lambda>(r, ip). reconcile_stages r ip"
  by unfold_locales (auto simp: reconcile_spec_def [symmetric] dest: Reconcile_stage Reconcile_Ok)

text \<open>What a stage can have created.\<close>

lemma created_stage:
  assumes "c' \<in> set (reconcile_stages r ip key c)" and "created c c' \<noteq> {}"
  shows "\<exists>b vm. kc_bmcs c key = Some b \<and> spec_VirtualMachineRef (bmc_Spec b) = Some vm \<and> provisionable r c b
    \<and> created c c' \<subseteq> agent_objects (bmc_Namespace b) vm"
proof -
  obtain b where b: "kc_bmcs c key = Some b" using assms by (auto simp: reconcile_stages_def created_def split: option.splits)
  show ?thesis
  proof (cases "provisionable r c b")
    case True
    then obtain vm where vm: "spec_VirtualMachineRef (bmc_Spec b) = Some vm"
      using present_ref(1) by (fastforce simp: provisionable_def)
    have "created c c' \<subseteq> agent_objects (bmc_Namespace b) vm"
      using assms(1) by (auto simp: reconcile_stages_def b True created_def agent_objects_def exists_add [OF vm])
    with b vm True show ?thesis by blast
  next
    case False
    have "exists_in (removePod b' c'') k k' \<Longrightarrow> exists_in c'' k k'" for b' c'' k k'
      by (cases "spec_VirtualMachineRef (bmc_Spec b')") (auto simp: exists_removePod, simp add: removePod_def)
    then have "created c c' = {}"
      using assms(1) False by (auto simp: reconcile_stages_def b created_def Let_def) (metis exists_put_status)+
    with assms(2) show ?thesis by simp
  qed
qed

section \<open>A reconciler to run\<close>

definition demo_rec :: "k8s_memory reconciler" where
  "demo_rec =
     \<lparr>rec_Client = mem_k8s, rec_SetStatusCondition = mem_SetStatusCondition,
      rec_SetControllerReference = mem_SetControllerReference,
      AgentImageName = VirtBMCImageName, AgentImageTag = ''v0.4.0''\<rparr>"

lemma demo_serves: "serves demo_rec k8s_view mem_ip live"
  by (simp add: serves_def reconciler_laws_def demo_rec_def mem_sets_condition mem_sets_owner mem_k8s_api mem_k8s_live)

definition demo_key :: "string \<times> string" where
  "demo_key = (''default'', ''bmc0'')"

text \<open>The cluster with the BMC, with or without its machine and its secret.\<close>

definition demo_ready :: k8s_memory where
  "demo_ready = demo_k8s {(''default'', ''vm0'')} {(''default'', ''secret0'')} [demo_bmc]"

definition demo_bare :: k8s_memory where
  "demo_bare = demo_k8s {} {(''default'', ''secret0'')} [demo_bmc]"

definition demo_noref_bmc :: VirtualMachineBMC where
  "demo_noref_bmc = demo_bmc\<lparr>bmc_Spec := \<lparr>spec_VirtualMachineRef = None, spec_AuthSecretRef = Some ''secret0''\<rparr>\<rparr>"

definition demo_noref :: k8s_memory where
  "demo_noref = demo_k8s {} {} [demo_noref_bmc]"

lemmas demo_k8s_defs = demo_ready_def demo_bare_def demo_noref_def demo_noref_bmc_def demo_k8s_def demo_bmc_def demo_key_def k8s_view_def bmc_key_def

definition demo_after1 :: k8s_memory where "demo_after1 = snd (Reconcile demo_rec demo_key demo_ready)"

lemma demo_run1: "Reconcile demo_rec demo_key demo_ready = (Ok (), demo_after1)"
  unfolding demo_after1_def by (rule run_fst) code_simp

lemma demo_run_bare: "Reconcile demo_rec demo_key demo_bare = (Ok (), snd (Reconcile demo_rec demo_key demo_bare))"
  by (rule run_fst) code_simp

section \<open>Properties\<close>

text \<open>C1. Refinement. Whatever the API server answers, a reconciliation that returns without an error has
done to the cluster exactly what the specification says; one that returns an error (which needs a
server that refuses a call without a reason) or crashes has stopped at one of its stages.\<close>

theorem reconcile_refines:
  assumes "serves r view ip live" and "Reconcile r key w = (res, w')"
  shows "if res = Ok () then view w' = reconcile_spec r ip key (view w)
         else view w' \<in> set (reconcile_stages r ip key (view w))
           \<and> (live \<longrightarrow> (\<exists>b. kc_bmcs (view w) key = Some b \<and> spec_VirtualMachineRef (bmc_Spec b) = None))"
proof (cases "res = Ok ()")
  case True
  with Reconcile_Ok [OF assms(1)] assms(2) show ?thesis by simp
next
  case False
  have "\<exists>b. kc_bmcs (view w) key = Some b \<and> spec_VirtualMachineRef (bmc_Spec b) = None" if live
  proof (rule ccontr)
    assume "\<nexists>b. kc_bmcs (view w) key = Some b \<and> spec_VirtualMachineRef (bmc_Spec b) = None"
    with Reconcile_live [of r view ip w key] assms \<open>live\<close> False show False by fastforce
  qed
  with False Reconcile_stage [OF assms] show ?thesis by simp
qed

theorem reconcile_refines_witness:
  "k8s_view demo_after1 = reconcile_spec demo_rec mem_ip demo_key (k8s_view demo_ready)"
  using reconcile_refines [OF demo_serves demo_run1] by simp

text \<open>C6. Liveness. On an answering API server, when the machine and the secret a BMC names exist, two
reconciliations provide the agent with all its objects and record both conditions as true, and
further reconciliations leave the cluster as it is.\<close>

theorem reconcile_converges:
  assumes S: "serves r view ip True" and b: "kc_bmcs (view w) key = Some b"
    and ref: "spec_VirtualMachineRef (bmc_Spec b) = Some vm" "spec_AuthSecretRef (bmc_Spec b) = Some n"
    and present: "(fst key, vm) \<in> kc_vms (view w)" "(fst key, n) \<in> kc_secrets (view w)"
  shows "\<exists>w1 w2 b2. Reconcile r key w = (Ok (), w1) \<and> Reconcile r key w1 = (Ok (), w2)
    \<and> agent_provided (fst key) vm (view w2) \<and> kc_bmcs (view w2) key = Some b2
    \<and> shows_condition b2 (vmFound vm) \<and> shows_condition b2 (secretFound n)
    \<and> (\<exists>w3. Reconcile r key w2 = (Ok (), w3) \<and> view w3 = view w2)"
proof -
  let ?c = "view w"
  have key: "bmc_key b = key" by (rule k8s_bmc_key [OF serves_api [OF S] b])
  then have ns: "bmc_Namespace b = fst key" by (auto simp: bmc_key_def)
  have p: "vmPresent ?c b" "secretPresent ?c b" using present ref by (simp_all add: vmPresent_def secretPresent_def ns)
  note two = spec_twice [OF serves_conditions [OF S] b key ref(1) p, of ip]
  obtain w1 w2 where w1: "Reconcile r key w = (Ok (), w1)" "view w1 = reconcile_spec r ip key ?c"
    and w2: "Reconcile r key w1 = (Ok (), w2)" "view w2 = reconcile_spec r ip key (view w1)"
    by (rule Reconcile_twice [OF S b]) (use ref(1) in auto)
  have b2: "kc_bmcs (view w2) key = Some (observed r ?c b)" using two(1) w1 w2 by simp
  obtain w3 where w3: "Reconcile r key w2 = (Ok (), w3)" "view w3 = reconcile_spec r ip key (view w2)"
    using Reconcile_live [OF S, of w2 key] b2 ref(1) by (metis observed_simps(1) option.inject option.distinct(1))
  have "shows_condition (observed r ?c b) (vmFound vm)" "shows_condition (observed r ?c b) (secretFound n)"
    using observed_shows [OF serves_conditions [OF S], of b _ ?c] ref p by (simp_all add: vmCondition_def secretCondition_def)
  with w1 w2 w3 b2 two(2,3) ns show ?thesis by metis
qed

theorem reconcile_converges_witness:
  "\<exists>w1 w2 b2. Reconcile demo_rec demo_key demo_ready = (Ok (), w1) \<and> Reconcile demo_rec demo_key w1 = (Ok (), w2)
    \<and> agent_provided ''default'' ''vm0'' (k8s_view w2) \<and> kc_bmcs (k8s_view w2) demo_key = Some b2
    \<and> shows_condition b2 (vmFound ''vm0'') \<and> shows_condition b2 (secretFound ''secret0'')
    \<and> (\<exists>w3. Reconcile demo_rec demo_key w2 = (Ok (), w3) \<and> k8s_view w3 = k8s_view w2)"
  using reconcile_converges [OF demo_serves, of demo_ready demo_key demo_bmc "''vm0''" "''secret0''"]
  by (simp add: demo_k8s_defs)


text \<open>C5. Safety. A reconciliation creates objects only for a BMC whose machine and secret exist and
whose status already says so, and then only the four objects of that machine's agent; this holds
for every outcome, errors and crashes included.\<close>

theorem reconcile_creates_only_when_ready:
  assumes S: "serves r view ip live" and run: "Reconcile r key w = (res, w')" and new: "created (view w) (view w') \<noteq> {}"
  shows "\<exists>b vm n. kc_bmcs (view w) key = Some b
    \<and> spec_VirtualMachineRef (bmc_Spec b) = Some vm \<and> (fst key, vm) \<in> kc_vms (view w) \<and> shows_condition b (vmFound vm)
    \<and> spec_AuthSecretRef (bmc_Spec b) = Some n \<and> (fst key, n) \<in> kc_secrets (view w) \<and> shows_condition b (secretFound n)
    \<and> created (view w) (view w') \<subseteq> agent_objects (fst key) vm"
proof -
  obtain b vm where b: "kc_bmcs (view w) key = Some b" and vm: "spec_VirtualMachineRef (bmc_Spec b) = Some vm"
    and P: "provisionable r (view w) b" and sub: "created (view w) (view w') \<subseteq> agent_objects (bmc_Namespace b) vm"
    using created_stage [OF Reconcile_stage [OF S run] new] by blast
  have ns: "bmc_Namespace b = fst key" using k8s_bmc_key [OF serves_api [OF S] b] by (auto simp: bmc_key_def)
  obtain n where n: "spec_AuthSecretRef (bmc_Spec b) = Some n" using present_ref(2) P by (fastforce simp: provisionable_def)
  have ob: "observed r (view w) b = b" using P by (simp add: provisionable_def observed_def)
  have p: "vmPresent (view w) b" "secretPresent (view w) b" using P by (simp_all add: provisionable_def)
  have "shows_condition b (vmFound vm)" "shows_condition b (secretFound n)"
    using observed_shows [OF serves_conditions [OF S], of b _ "view w"] vm n p by (simp_all add: ob vmCondition_def secretCondition_def)
  with b vm n sub p show ?thesis by (auto simp: ns vmPresent_def secretPresent_def)
qed

definition demo_settled_bmc :: VirtualMachineBMC where
  "demo_settled_bmc = demo_bmc\<lparr>bmc_Status :=
     \<lparr>status_ClusterIP = '''', status_Conditions = [vmFound ''vm0'', secretFound ''secret0'']\<rparr>\<rparr>"

definition demo_settled :: k8s_memory where
  "demo_settled = demo_k8s {(''default'', ''vm0'')} {(''default'', ''secret0'')} [demo_settled_bmc]"

lemma demo_settled_view:
  "kc_bmcs (k8s_view demo_settled) demo_key = Some demo_settled_bmc"
  "spec_VirtualMachineRef (bmc_Spec demo_settled_bmc) = Some ''vm0''" "spec_AuthSecretRef (bmc_Spec demo_settled_bmc) = Some ''secret0''"
  "bmc_Namespace demo_settled_bmc = ''default''" "fst demo_key = ''default''"
  "kc_vms (k8s_view demo_settled) = {(''default'', ''vm0'')}" "kc_secrets (k8s_view demo_settled) = {(''default'', ''secret0'')}"
  "kc_pods (k8s_view demo_settled) = (\<lambda>_. None)"
  by (simp_all add: demo_settled_def demo_settled_bmc_def demo_k8s_defs)

lemma demo_settled_provisionable: "provisionable demo_rec (k8s_view demo_settled) demo_settled_bmc"
proof -
  have p: "vmPresent (k8s_view demo_settled) demo_settled_bmc" "secretPresent (k8s_view demo_settled) demo_settled_bmc"
    by (simp_all add: vmPresent_def secretPresent_def demo_settled_view)
  then show ?thesis
    by (simp add: provisionable_def observe_eqs demo_settled_view withCondition_same demo_rec_def mem_sets_condition)
      (simp add: vmCondition_def secretCondition_def vmFound_def secretFound_def condition_def demo_settled_bmc_def)
qed

lemma demo_settled_run:
  obtains w' where "Reconcile demo_rec demo_key demo_settled = (Ok (), w')"
    and "(KPod, ''default'', ''vm0-virtbmc'') \<in> created (k8s_view demo_settled) (k8s_view w')"
proof -
  obtain w' where w': "Reconcile demo_rec demo_key demo_settled = (Ok (), w')"
    "k8s_view w' = reconcile_spec demo_rec mem_ip demo_key (k8s_view demo_settled)"
    by (rule Reconcile_live [OF demo_serves, of demo_settled demo_key]) (simp_all add: demo_settled_view)
  have "agent_provided ''default'' ''vm0'' (k8s_view w')"
    using spec_provides(1) [OF demo_settled_view(1) demo_settled_provisionable demo_settled_view(2)] w'(2)
    by (simp add: demo_settled_view)
  then have "(KPod, ''default'', ''vm0-virtbmc'') \<in> created (k8s_view demo_settled) (k8s_view w')"
    by (simp add: created_def agent_provided_def agent_objects_def exists_in_def demo_settled_view)
  with w'(1) that show ?thesis by blast
qed

theorem reconcile_creates_only_when_ready_witness:
  "\<exists>w'. Reconcile demo_rec demo_key demo_settled = (Ok (), w')
     \<and> (KPod, ''default'', ''vm0-virtbmc'') \<in> created (k8s_view demo_settled) (k8s_view w')
     \<and> created (k8s_view demo_settled) (k8s_view w') \<subseteq> agent_objects ''default'' ''vm0''"
proof -
  obtain w' where w': "Reconcile demo_rec demo_key demo_settled = (Ok (), w')"
    "(KPod, ''default'', ''vm0-virtbmc'') \<in> created (k8s_view demo_settled) (k8s_view w')"
    by (rule demo_settled_run)
  from reconcile_creates_only_when_ready [OF demo_serves w'(1)] w'(2)
  have "created (k8s_view demo_settled) (k8s_view w') \<subseteq> agent_objects ''default'' ''vm0''"
    by (auto simp: demo_settled_view)
  with w' show ?thesis by blast
qed

text \<open>C14. Tear-down. When the machine or the secret of a BMC is missing, a reconciliation that succeeds
removes the agent's pod, records in the status what it found, and touches nothing else: in
particular the service, the service account and the role binding stay.\<close>

theorem reconcile_withdraws:
  assumes S: "serves r view ip live" and run: "Reconcile r key w = (Ok (), w')" and b: "kc_bmcs (view w) key = Some b"
    and ref: "spec_VirtualMachineRef (bmc_Spec b) = Some vm"
    and missing: "(fst key, vm) \<notin> kc_vms (view w) \<or> (\<forall>n. spec_AuthSecretRef (bmc_Spec b) = Some n \<longrightarrow> (fst key, n) \<notin> kc_secrets (view w))"
  shows "\<exists>b'. bmc_Spec b' = bmc_Spec b \<and> shows_condition b' (vmCondition (view w) b vm)
    \<and> (\<forall>n. spec_AuthSecretRef (bmc_Spec b) = Some n \<longrightarrow> shows_condition b' (secretCondition (view w) b n))
    \<and> view w' = (view w)\<lparr>kc_bmcs := (kc_bmcs (view w))(key \<mapsto> b'), kc_pods := (kc_pods (view w))((fst key, vm @ ''-virtbmc'') := None)\<rparr>"
proof -
  have key: "bmc_key b = key" by (rule k8s_bmc_key [OF serves_api [OF S] b])
  then have ns: "bmc_Namespace b = fst key" by (auto simp: bmc_key_def)
  have "\<not> provisionable r (view w) b"
    using missing ref by (auto simp: provisionable_def vmPresent_def secretPresent_def ns split: option.splits)
  then have "view w' = removePod (observed r (view w) b) (put_status (observed r (view w) b) (view w))"
    using Reconcile_Ok [OF S run] reconcile_spec_other [OF b] by simp
  then have "view w' = (view w)\<lparr>kc_bmcs := (kc_bmcs (view w))(key \<mapsto> observed r (view w) b), kc_pods := (kc_pods (view w))((fst key, vm @ ''-virtbmc'') := None)\<rparr>"
    by (simp add: removePod_def put_status_def ref ns key)
  with observed_shows [OF serves_conditions [OF S], of b _ "view w"] ref show ?thesis
    by (intro exI [of _ "observed r (view w) b"]) simp
qed

theorem reconcile_withdraws_witness:
  "\<exists>b'. bmc_Spec b' = bmc_Spec demo_bmc \<and> shows_condition b' (vmNotFound ''default'' ''vm0'')
    \<and> k8s_view (snd (Reconcile demo_rec demo_key demo_bare)) =
      (k8s_view demo_bare)\<lparr>kc_bmcs := (kc_bmcs (k8s_view demo_bare))(demo_key \<mapsto> b'),
         kc_pods := (kc_pods (k8s_view demo_bare))((''default'', ''vm0-virtbmc'') := None)\<rparr>"
  using reconcile_withdraws [OF demo_serves demo_run_bare, of demo_bmc "''vm0''"]
  by (simp add: demo_k8s_defs vmCondition_def vmPresent_def) blast

text \<open>C25. Error. A BMC without a machine reference, which the resource's schema allows, crashes the
reconciler on an answering API server: the reference is dereferenced before the code tests it.\<close>

theorem reconcile_crashes_without_reference:
  assumes S: "serves r view ip True" and b: "kc_bmcs (view w) key = Some b" and ref: "spec_VirtualMachineRef (bmc_Spec b) = None"
  shows "\<exists>w'. Reconcile r key w = (Panic NilDereference, w') \<and> view w' = view w"
proof -
  obtain res w' where run: "Reconcile r key w = (res, w')" by force
  note N = Reconcile_nil [OF serves_api [OF S] b ref run]
  from N(1) N(3) [OF serves_live [OF S]] run show ?thesis by simp
qed

theorem reconcile_crashes_without_reference_witness:
  "\<exists>w'. Reconcile demo_rec demo_key demo_noref = (Panic NilDereference, w') \<and> k8s_view w' = k8s_view demo_noref"
  by (rule reconcile_crashes_without_reference [OF demo_serves, of _ _ demo_noref_bmc]) (simp_all add: demo_k8s_defs)


definition selects :: "(string \<times> string) list \<Rightarrow> ObjectMeta \<Rightarrow> bool" where
  "selects sel m \<longleftrightarrow> (\<forall>(k, v) \<in> set sel. map_of (om_Labels m) k = Some v)"

definition port_served :: "Pod \<Rightarrow> ServicePort \<Rightarrow> bool" where
  "port_served p sp \<longleftrightarrow>
     (\<exists>ct \<in> set (pod_Containers p). \<exists>cp \<in> set (ct_Ports ct). cp_Name cp = sp_TargetPort sp \<and> cp_Protocol cp = sp_Protocol sp)"

text \<open>C26. Wiring. The objects of an agent fit together: the service selects the pod, each of its ports
goes to a named port of the container with the same protocol, the pod runs under the service
account, which the role binding gives the agent's role, everything is in the BMC's namespace, and
the pod and the service are indexed under the BMC and carry the label by which the service
controller finds it.\<close>

theorem agent_objects_wired:
  assumes "constructServiceAccount b = Ok sa" "constructRoleBinding b = Ok rb"
    and "constructPodFromVirtualMachineBMC r b = Ok p" "constructServiceFromVirtualMachineBMC b = Ok s"
  shows "selects (svc_Selector s) (pod_Meta p) \<and> (\<forall>sp \<in> set (svc_Ports s). port_served p sp)
    \<and> pod_ServiceAccountName p = om_Name (sa_Meta sa)
    \<and> \<lparr>sub_Kind = ''ServiceAccount'', sub_Name = om_Name (sa_Meta sa), sub_Namespace = om_Namespace (sa_Meta sa)\<rparr> \<in> set (rb_Subjects rb)
    \<and> (rb_RoleRef_Kind rb, rb_RoleRef_Name rb) = (''ClusterRole'', clusterRoleName)
    \<and> {om_Namespace (sa_Meta sa), om_Namespace (rb_Meta rb), om_Namespace (pod_Meta p), om_Namespace (svc_Meta s)} = {bmc_Namespace b}
    \<and> controllerIndex (own b (pod_Meta p)) = [bmc_Name b] \<and> controllerIndex (own b (svc_Meta s)) = [bmc_Name b]
    \<and> map_of (om_Labels (svc_Meta s)) VirtualMachineBMCNameLabel = Some (bmc_Name b)"
proof -
  obtain vm where vm: "spec_VirtualMachineRef (bmc_Spec b) = Some vm"
    using assms(1) by (cases "spec_VirtualMachineRef (bmc_Spec b)") (auto simp: constructServiceAccount_def)
  note defs = constructServiceAccount_def constructRoleBinding_def constructPodFromVirtualMachineBMC_def
    constructServiceFromVirtualMachineBMC_def
  from assms show ?thesis
    by (clarsimp simp: defs vm Let_def selects_def port_served_def controllerIndex_def own_def owner_of_def)
qed

theorem agent_objects_wired_witness:
  "\<exists>p s. constructPodFromVirtualMachineBMC demo_rec demo_bmc = Ok p \<and> constructServiceFromVirtualMachineBMC demo_bmc = Ok s
    \<and> selects (svc_Selector s) (pod_Meta p) \<and> (\<forall>sp \<in> set (svc_Ports s). port_served p sp)"
proof -
  have vm: "spec_VirtualMachineRef (bmc_Spec demo_bmc) = Some ''vm0''" by (simp add: demo_bmc_def)
  obtain sa rb p s where "constructServiceAccount demo_bmc = Ok sa" "constructRoleBinding demo_bmc = Ok rb"
    "constructPodFromVirtualMachineBMC demo_rec demo_bmc = Ok p" "constructServiceFromVirtualMachineBMC demo_bmc = Ok s"
    by (simp add: constructServiceAccount_def constructRoleBinding_def constructPodFromVirtualMachineBMC_def
        constructServiceFromVirtualMachineBMC_def vm)
  with agent_objects_wired [OF this] show ?thesis by blast
qed

text \<open>C23. The agent's objects are named after the machine, not the BMC. So of two BMCs of one machine, one
whose secret is missing takes down the pod of the other, for which everything is in place.\<close>

theorem bmcs_of_one_machine_collide:
  assumes S: "serves r view ip live" and run: "Reconcile r k2 w = (Ok (), w')"
    and b1: "kc_bmcs (view w) k1 = Some b1" "provisionable r (view w) b1" "spec_VirtualMachineRef (bmc_Spec b1) = Some vm"
    and b2: "kc_bmcs (view w) k2 = Some b2" "spec_VirtualMachineRef (bmc_Spec b2) = Some vm" "spec_AuthSecretRef (bmc_Spec b2) = Some n"
    and other: "k1 \<noteq> k2" "fst k1 = fst k2" and missing: "(fst k2, n) \<notin> kc_secrets (view w)"
  shows "\<not> exists_in (view w') KPod (fst k1, vm @ ''-virtbmc'')
    \<and> kc_bmcs (view w') k1 = Some b1 \<and> provisionable r (view w') b1"
proof -
  have key: "bmc_key b2 = k2" by (rule k8s_bmc_key [OF serves_api [OF S] b2(1)])
  then have ns: "bmc_Namespace b2 = fst k2" by (auto simp: bmc_key_def)
  have "\<not> provisionable r (view w) b2" using missing b2 by (simp add: provisionable_def secretPresent_def ns)
  then have w': "view w' = removePod (observed r (view w) b2) (put_status (observed r (view w) b2) (view w))"
    using Reconcile_Ok [OF S run] reconcile_spec_other [OF b2(1)] by simp
  then have "\<not> exists_in (view w') KPod (fst k1, vm @ ''-virtbmc'')"
    using exists_removePod [of "observed r (view w) b2" vm] b2(2) ns other(2) by simp
  moreover have "kc_bmcs (view w') k1 = Some b1" using w' b1(1) other(1) key by (simp add: put_status_def)
  moreover have "provisionable r (view w') b1" using b1(2) w' provisionable_cong [of "view w'" "view w" r b1] by simp
  ultimately show ?thesis by blast
qed

definition demo_bmc2 :: VirtualMachineBMC where
  "demo_bmc2 = demo_bmc\<lparr>bmc_Name := ''bmc1'', bmc_Spec := \<lparr>spec_VirtualMachineRef = Some ''vm0'', spec_AuthSecretRef = Some ''gone''\<rparr>\<rparr>"

definition demo_two :: k8s_memory where
  "demo_two = demo_k8s {(''default'', ''vm0'')} {(''default'', ''secret0'')} [demo_settled_bmc, demo_bmc2]"

lemma demo_two_view:
  "kc_bmcs (k8s_view demo_two) demo_key = Some demo_settled_bmc" "kc_bmcs (k8s_view demo_two) (''default'', ''bmc1'') = Some demo_bmc2"
  "kc_vms (k8s_view demo_two) = kc_vms (k8s_view demo_settled)" "kc_secrets (k8s_view demo_two) = kc_secrets (k8s_view demo_settled)"
  "spec_VirtualMachineRef (bmc_Spec demo_bmc2) = Some ''vm0''" "spec_AuthSecretRef (bmc_Spec demo_bmc2) = Some ''gone''"
  by (simp_all add: demo_two_def demo_settled_def demo_settled_bmc_def demo_bmc2_def demo_k8s_defs)

theorem bmcs_of_one_machine_collide_witness:
  "\<exists>w'. Reconcile demo_rec (''default'', ''bmc1'') demo_two = (Ok (), w')
     \<and> \<not> exists_in (k8s_view w') KPod (''default'', ''vm0-virtbmc'') \<and> provisionable demo_rec (k8s_view w') demo_settled_bmc"
proof -
  obtain w' where w': "Reconcile demo_rec (''default'', ''bmc1'') demo_two = (Ok (), w')"
    by (rule Reconcile_live [OF demo_serves, of demo_two "(''default'', ''bmc1'')"]) (simp_all add: demo_two_view)
  have "provisionable demo_rec (k8s_view demo_two) demo_settled_bmc"
    using demo_settled_provisionable provisionable_cong demo_two_view(3,4) by blast
  from bmcs_of_one_machine_collide [OF demo_serves w' demo_two_view(1) this demo_settled_view(2) demo_two_view(2,5,6)] w'
  show ?thesis by (simp add: demo_key_def demo_two_view demo_settled_view)
qed


section \<open>Changes of machines and secrets\<close>

text \<open>Which BMCs a changed object concerns, and what a change of a secret does to their pods.\<close>

definition concerns :: "watched \<Rightarrow> VirtualMachineBMC \<Rightarrow> bool" where
  "concerns ob b = (case ob of
     WatchedVM _ n \<Rightarrow> spec_VirtualMachineRef (bmc_Spec b) = Some n
   | WatchedSecret _ n \<Rightarrow> spec_AuthSecretRef (bmc_Spec b) = Some n)"

definition secret_change :: "watched \<Rightarrow> VirtualMachineBMC \<Rightarrow> bmc_cluster \<Rightarrow> bmc_cluster" where
  "secret_change ob b c = (case ob of WatchedVM _ _ \<Rightarrow> c | WatchedSecret _ _ \<Rightarrow> if concerns ob b then removePod b c else c)"

lemma runs_matchWatched:
  assumes S: "serves r view ip True" and ref: "concerns ob b \<Longrightarrow> spec_VirtualMachineRef (bmc_Spec b) \<noteq> None"
    and Q: "Q (concerns ob b) (secret_change ob b c)" and E: "E c"
  shows "runs view True (matchWatched r ob b) c Q E"
proof (cases "concerns ob b \<and> (\<exists>ns n. ob = WatchedSecret ns n)")
  case True
  then obtain vm where vm: "spec_VirtualMachineRef (bmc_Spec b) = Some vm" using ref by blast
  have "runs view True (attempt (deleteVirtBMCPod r b) (\<lambda>_. ret True) (\<lambda>_. ret True)) c Q E"
    by (rule runs_attempt, rule runs_deletePod [OF S vm], rule runs_ret)
      (use True Q E in \<open>auto simp: secret_change_def\<close>)
  with True show ?thesis by (auto simp: matchWatched_def concerns_def)
qed (use Q in \<open>auto simp: matchWatched_def concerns_def secret_change_def intro: runs_ret split: watched.splits\<close>)

lemma runs_matchItems:
  assumes S: "serves r view ip True" and ref: "\<And>b. b \<in> set bs \<Longrightarrow> concerns ob b \<Longrightarrow> spec_VirtualMachineRef (bmc_Spec b) \<noteq> None"
  shows "runs view True (matchItems r ob bs) c
    (\<lambda>reqs c'. reqs = map bmc_key (filter (concerns ob) bs) \<and> c' = fold (secret_change ob) bs c) (\<lambda>_. True)"
  using ref
proof (induction bs arbitrary: c)
  case (Cons b bs)
  have IH: "runs view True (matchItems r ob bs) c
    (\<lambda>reqs c'. reqs = map bmc_key (filter (concerns ob) bs) \<and> c' = fold (secret_change ob) bs c) (\<lambda>_. True)" for c
    by (rule Cons.IH) (use Cons.prems in auto)
  have ref: "concerns ob b \<Longrightarrow> spec_VirtualMachineRef (bmc_Spec b) \<noteq> None" using Cons.prems by auto
  show ?case unfolding matchItems.simps
    by (rule runs_andThen, rule runs_matchWatched [OF S ref], assumption,
        rule runs_andThen, rule runs_conseq [OF IH], rule runs_ret) simp_all
qed (simp add: runs_ret)

lemma fold_secret_change:
  assumes "\<And>b. b \<in> set bs \<Longrightarrow> concerns ob b \<Longrightarrow> spec_VirtualMachineRef (bmc_Spec b) \<noteq> None"
  shows "exists_in (fold (secret_change ob) bs c) k key \<longleftrightarrow> exists_in c k key
    \<and> \<not> (k = KPod \<and> (\<exists>ns n. ob = WatchedSecret ns n) \<and> (\<exists>b \<in> set bs. \<exists>vm. concerns ob b
          \<and> spec_VirtualMachineRef (bmc_Spec b) = Some vm \<and> key = (bmc_Namespace b, vm @ ''-virtbmc'')))"
  using assms
proof (induction bs arbitrary: c)
  case (Cons b bs)
  have "exists_in (secret_change ob b c) k key \<longleftrightarrow> exists_in c k key
    \<and> \<not> (k = KPod \<and> (\<exists>ns n. ob = WatchedSecret ns n) \<and> (\<exists>vm. concerns ob b
          \<and> spec_VirtualMachineRef (bmc_Spec b) = Some vm \<and> key = (bmc_Namespace b, vm @ ''-virtbmc'')))"
    using Cons.prems [of b] by (cases ob) (auto simp: secret_change_def exists_removePod)
  with Cons.IH [of "secret_change ob b c"] Cons.prems show ?case by auto
qed simp

text \<open>C24. A change of a machine or a secret raises a request for exactly the BMCs of its namespace that name
it; a change of a secret also removes the pods of those BMCs, so that they start again with the new
credentials, and nothing else changes.\<close>

theorem watched_change_requests:
  assumes S: "serves r view ip True"
    and ref: "\<And>b. kc_bmcs (view w) (bmc_key b) = Some b \<Longrightarrow> concerns ob b \<Longrightarrow> spec_VirtualMachineRef (bmc_Spec b) \<noteq> None"
  shows "\<exists>reqs w'. findVirtualMachineBMCsForSecretAndVM r ob w = (Ok reqs, w')
    \<and> set reqs = {key. \<exists>b. kc_bmcs (view w) key = Some b \<and> fst key = watched_Namespace ob \<and> concerns ob b}
    \<and> (\<forall>k key. exists_in (view w') k key \<longleftrightarrow> exists_in (view w) k key
        \<and> \<not> (k = KPod \<and> (\<exists>ns n. ob = WatchedSecret ns n) \<and> (\<exists>b vm. kc_bmcs (view w) (bmc_key b) = Some b
              \<and> bmc_Namespace b = watched_Namespace ob \<and> concerns ob b
              \<and> spec_VirtualMachineRef (bmc_Spec b) = Some vm \<and> key = (bmc_Namespace b, vm @ ''-virtbmc''))))"
proof -
  let ?ns = "watched_Namespace ob"
  obtain bs w1 where l: "k_ListBMC (rec_Client r) ?ns w = (Ok bs, w1)"
    using live_ListBMC [OF serves_live [OF S], of ?ns] unfolding answers_def by blast
  from api_call_Ok [OF k8s_ListBMC [OF serves_api [OF S]] l]
  have bs: "set bs = {b. \<exists>key. kc_bmcs (view w) key = Some b \<and> fst key = ?ns}" and v: "view w1 = view w" by simp_all
  note keyed = k8s_bmc_key [OF serves_api [OF S], of w]
  have bs': "b \<in> set bs \<longleftrightarrow> kc_bmcs (view w) (bmc_key b) = Some b \<and> bmc_Namespace b = ?ns" for b
    using bs keyed by (auto simp: bmc_key_def)
  have ref': "b \<in> set bs \<Longrightarrow> concerns ob b \<Longrightarrow> spec_VirtualMachineRef (bmc_Spec b) \<noteq> None" for b
    using ref bs' by blast
  have "runs view True (matchItems r ob bs) (view w1)
    (\<lambda>reqs c'. reqs = map bmc_key (filter (concerns ob) bs) \<and> c' = fold (secret_change ob) bs (view w1)) (\<lambda>_. True)"
    by (rule runs_matchItems [OF S ref'])
  from runs_live [OF this] obtain reqs w' where
    m: "matchItems r ob bs w1 = (Ok reqs, w')" "reqs = map bmc_key (filter (concerns ob) bs)" "view w' = fold (secret_change ob) bs (view w)"
    unfolding v by auto
  have reqs: "set reqs = {key. \<exists>b. kc_bmcs (view w) key = Some b \<and> fst key = ?ns \<and> concerns ob b}"
    using m(2) bs keyed by (force simp: image_iff)
  have "exists_in (view w') k key \<longleftrightarrow> exists_in (view w) k key
    \<and> \<not> (k = KPod \<and> (\<exists>ns n. ob = WatchedSecret ns n) \<and> (\<exists>b \<in> set bs. \<exists>vm. concerns ob b
          \<and> spec_VirtualMachineRef (bmc_Spec b) = Some vm \<and> key = (bmc_Namespace b, vm @ ''-virtbmc'')))" for k key
    unfolding m(3) by (rule fold_secret_change [OF ref'])
  then have "\<forall>k key. exists_in (view w') k key \<longleftrightarrow> exists_in (view w) k key
    \<and> \<not> (k = KPod \<and> (\<exists>ns n. ob = WatchedSecret ns n) \<and> (\<exists>b vm. kc_bmcs (view w) (bmc_key b) = Some b
          \<and> bmc_Namespace b = ?ns \<and> concerns ob b
          \<and> spec_VirtualMachineRef (bmc_Spec b) = Some vm \<and> key = (bmc_Namespace b, vm @ ''-virtbmc'')))"
    unfolding Bex_def bs' by blast
  moreover have "findVirtualMachineBMCsForSecretAndVM r ob w = (Ok reqs, w')"
    using l m(1) by (simp add: findVirtualMachineBMCsForSecretAndVM_def attempt_Ok)
  ultimately show ?thesis using reqs by (intro exI conjI)
qed


theorem watched_change_requests_witness:
  "\<exists>reqs w'. findVirtualMachineBMCsForSecretAndVM demo_rec (WatchedSecret ''default'' ''secret0'') demo_ready = (Ok reqs, w')
    \<and> set reqs = {demo_key}"
proof -
  have view: "kc_bmcs (k8s_view demo_ready) = [demo_key \<mapsto> demo_bmc]"
    by (simp add: demo_k8s_defs)
  have "\<exists>reqs w'. findVirtualMachineBMCsForSecretAndVM demo_rec (WatchedSecret ''default'' ''secret0'') demo_ready = (Ok reqs, w')
    \<and> set reqs = {key. \<exists>b. kc_bmcs (k8s_view demo_ready) key = Some b \<and> fst key = ''default'' \<and> concerns (WatchedSecret ''default'' ''secret0'') b}"
    using watched_change_requests [OF demo_serves, of demo_ready "WatchedSecret ''default'' ''secret0''"]
    by (fastforce simp: view demo_bmc_def split: if_splits)
  then show ?thesis by (simp add: view concerns_def demo_bmc_def demo_key_def if_distrib cong: if_cong) (fastforce simp: set_eq_iff)
qed

end
