(* ===== verification/ServiceController.thy ===== *)
theory ServiceController
  imports BmcLifecycle
begin

text \<open>
  internal/controller/service/controller.go: the controller that publishes the cluster address of an
  agent's service in the status of its VirtualMachineBMC.  \<open>sr_SetStatusCondition\<close> stands for the
  helper of apimachinery.  A returned \<open>ctrl.Result\<close> is not modelled: the code sets it only together with
  an error, where controller-runtime ignores it.
\<close>

section \<open>The reconciler\<close>

record 'w service_reconciler =
  sr_Client :: "'w k8s_client"
  sr_SetStatusCondition :: "Condition list \<Rightarrow> Condition \<Rightarrow> Condition list \<times> bool"

definition serviceReady :: Condition where
  "serviceReady =
     \<lparr>cond_Type = ConditionReady, cond_Status = ''True'', cond_Reason = ''ServiceReady'',
      cond_Message = ''ClusterIP assigned to the Service''\<rparr>"

definition updateBMCStatus :: "'w service_reconciler \<Rightarrow> string \<Rightarrow> VirtualMachineBMC \<Rightarrow> ('w, unit) op" where
  "updateBMCStatus s ip b =
     (if ip = '''' then fail (PlainError ''clusterIP is not ready yet'')
      else (case sr_SetStatusCondition s (status_Conditions (bmc_Status b)) serviceReady of
         (cs, changed) \<Rightarrow>
           (let b1 = b\<lparr>bmc_Status := (bmc_Status b)\<lparr>status_Conditions := cs\<rparr>\<rparr> in
            andThen (if changed then k_UpdateStatus (sr_Client s) b1 else ret b1) (\<lambda>b2.
            andThen (k_UpdateStatus (sr_Client s) (b2\<lparr>bmc_Status := (bmc_Status b2)\<lparr>status_ClusterIP := ip\<rparr>\<rparr>)) (\<lambda>_.
            ret ())))))"

definition ServiceReconcile :: "'w service_reconciler \<Rightarrow> string \<times> string \<Rightarrow> ('w, unit) op" where
  "ServiceReconcile s key =
     attempt (k_GetService (sr_Client s) key)
       (\<lambda>e. if is_not_found e then ret () else fail e)
       (\<lambda>svc.
          if om_Labels (svc_Meta svc) = [] then ret ()
          else (case map_of (om_Labels (svc_Meta svc)) VirtualMachineBMCNameLabel of
             None \<Rightarrow> ret ()
           | Some name \<Rightarrow>
               attempt (k_GetBMC (sr_Client s) (fst key, name))
                 (\<lambda>e. if is_not_found e then ret () else fail e)
                 (updateBMCStatus s (svc_ClusterIP svc))))"

section \<open>What it is to do\<close>

text \<open>The BMC a service belongs to, and its status with the address published.\<close>

definition service_bmc :: "bmc_cluster \<Rightarrow> string \<times> string \<Rightarrow> (Service \<times> VirtualMachineBMC) option" where
  "service_bmc c key =
     (case kc_services c key of
        None \<Rightarrow> None
      | Some svc \<Rightarrow>
          (case map_of (om_Labels (svc_Meta svc)) VirtualMachineBMCNameLabel of
             None \<Rightarrow> None
           | Some name \<Rightarrow> map_option (Pair svc) (kc_bmcs c (fst key, name))))"

definition markReady :: "'w service_reconciler \<Rightarrow> VirtualMachineBMC \<Rightarrow> VirtualMachineBMC" where
  "markReady s b = b\<lparr>bmc_Status := (bmc_Status b)\<lparr>status_Conditions := fst (sr_SetStatusCondition s (status_Conditions (bmc_Status b)) serviceReady)\<rparr>\<rparr>"

definition publish :: "'w service_reconciler \<Rightarrow> string \<Rightarrow> VirtualMachineBMC \<Rightarrow> VirtualMachineBMC" where
  "publish s ip b = (markReady s b)\<lparr>bmc_Status := (bmc_Status (markReady s b))\<lparr>status_ClusterIP := ip\<rparr>\<rparr>"

definition awaits_ip :: "bmc_cluster \<Rightarrow> string \<times> string \<Rightarrow> bool" where
  "awaits_ip c key \<longleftrightarrow> (\<exists>svc b. service_bmc c key = Some (svc, b) \<and> svc_ClusterIP svc = '''')"

definition service_stages :: "'w service_reconciler \<Rightarrow> string \<times> string \<Rightarrow> bmc_cluster \<Rightarrow> bmc_cluster list" where
  "service_stages s key c =
     (case service_bmc c key of
        None \<Rightarrow> [c]
      | Some (svc, b) \<Rightarrow>
          if svc_ClusterIP svc = '''' then [c]
          else [c, put_status (markReady s b) c, put_status (publish s (svc_ClusterIP svc) b) c])"

definition service_spec :: "'w service_reconciler \<Rightarrow> string \<times> string \<Rightarrow> bmc_cluster \<Rightarrow> bmc_cluster" where
  "service_spec s key c = last (service_stages s key c)"

definition serves_service :: "'w service_reconciler \<Rightarrow> ('w \<Rightarrow> bmc_cluster) \<Rightarrow> (bmc_cluster \<Rightarrow> Service \<Rightarrow> string) \<Rightarrow> bool \<Rightarrow> bool" where
  "serves_service s view ip live \<longleftrightarrow>
     sets_condition (sr_SetStatusCondition s) \<and> k8s_api (sr_Client s) view ip \<and> (live \<longrightarrow> k8s_live (sr_Client s) view)"

lemma markReady_simps [simp]:
  "bmc_Spec (markReady s b) = bmc_Spec b" "bmc_key (markReady s b) = bmc_key b"
  "bmc_Spec (publish s i b) = bmc_Spec b" "bmc_key (publish s i b) = bmc_key b" "bmc_Name (publish s i b) = bmc_Name b"
  "bmc_Namespace (publish s i b) = bmc_Namespace b" "status_ClusterIP (bmc_Status (publish s i b)) = i"
  "status_Conditions (bmc_Status (publish s i b)) = status_Conditions (bmc_Status (markReady s b))"
  by (simp_all add: markReady_def publish_def bmc_key_def)

section \<open>The operations refine it\<close>

lemma runs_updateBMCStatus:
  assumes S: "serves_service s view ip live" and stored: "kc_bmcs c (bmc_key b) = Some b"
    and i: "i = '''' \<Longrightarrow> \<not> live \<and> E c" and Q: "i \<noteq> '''' \<Longrightarrow> Q () (put_status (publish s i b) c)"
    and E: "i \<noteq> '''' \<Longrightarrow> E c \<and> E (put_status (markReady s b) c)"
  shows "runs view live (updateBMCStatus s i b) c Q E"
proof (cases "i = ''''")
  case True
  with i show ?thesis by (simp add: updateBMCStatus_def runs_fail)
next
  case False
  have api: "k8s_api (sr_Client s) view ip" "live \<Longrightarrow> k8s_live (sr_Client s) view" using S by (simp_all add: serves_service_def)
  note update = runs_call [OF k8s_UpdateStatus [OF api(1)] live_UpdateStatus [OF api(2)]]
  obtain cs ch where set: "sr_SetStatusCondition s (status_Conditions (bmc_Status b)) serviceReady = (cs, ch)" by force
  have b1: "b\<lparr>bmc_Status := (bmc_Status b)\<lparr>status_Conditions := cs\<rparr>\<rparr> = markReady s b" by (simp add: markReady_def set)
  have same: "markReady s b = b" if "\<not> ch"
  proof -
    have "cs = status_Conditions (bmc_Status b)" using S set that unfolding serves_service_def sets_condition_def by (metis fst_conv snd_conv)
    with b1 show ?thesis by (cases b, cases "bmc_Status b") simp
  qed
  have last: "runs view live (andThen (k_UpdateStatus (sr_Client s) (publish s i b)) (\<lambda>_. ret ())) (put_status (markReady s b) c) Q E"
    by (rule runs_andThen, rule update) (use Q E False stored in \<open>auto intro: runs_ret\<close>)
  have "runs view live (andThen (if ch then k_UpdateStatus (sr_Client s) (markReady s b) else ret (markReady s b))
      (\<lambda>b2. andThen (k_UpdateStatus (sr_Client s) (b2\<lparr>bmc_Status := (bmc_Status b2)\<lparr>status_ClusterIP := i\<rparr>\<rparr>)) (\<lambda>_. ret ()))) c Q E"
  proof (cases ch)
    case True
    then show ?thesis by simp (rule runs_andThen, rule update, use last stored E False in \<open>auto simp: publish_def\<close>)
  next
    case False
    with last same stored show ?thesis by (simp add: publish_def)
  qed
  with False set b1 show ?thesis by (cases ch) (simp_all add: updateBMCStatus_def Let_def)
qed

text \<open>With \<open>live\<close> the reconciliation succeeds unless the address is still awaited.\<close>

lemma runs_ServiceReconcile:
  assumes S: "serves_service s view ip live" and keyed: "\<And>key b. kc_bmcs c key = Some b \<Longrightarrow> bmc_key b = key"
  shows "runs view (live \<and> \<not> awaits_ip c key) (ServiceReconcile s key) c
    (\<lambda>_ c'. c' = service_spec s key c \<and> \<not> awaits_ip c key) (\<lambda>c'. c' \<in> set (service_stages s key c))"
    (is "runs _ ?live _ _ ?Q ?E")
proof -
  have S': "serves_service s view ip ?live" using S by (simp add: serves_service_def)
  have api: "k8s_api (sr_Client s) view ip" "?live \<Longrightarrow> k8s_live (sr_Client s) view" using S by (simp_all add: serves_service_def)
  have start: "?E c" by (auto simp: service_stages_def split: option.split)
  have skip: "runs view ?live (ret ()) c ?Q ?E" if "service_bmc c key = None"
    using that by (simp add: runs_ret service_spec_def service_stages_def awaits_ip_def)
  show ?thesis
    unfolding ServiceReconcile_def
  proof (rule runs_get [OF k8s_GetService [OF api(1)] live_GetService [OF api(2)]])
    fix svc assume svc: "kc_services c key = Some svc"
    show "runs view ?live (if om_Labels (svc_Meta svc) = [] then ret ()
        else case map_of (om_Labels (svc_Meta svc)) VirtualMachineBMCNameLabel of None \<Rightarrow> ret ()
          | Some name \<Rightarrow> attempt (k_GetBMC (sr_Client s) (fst key, name))
              (\<lambda>e. if is_not_found e then ret () else fail e) (updateBMCStatus s (svc_ClusterIP svc))) c ?Q ?E"
    proof (cases "map_of (om_Labels (svc_Meta svc)) VirtualMachineBMCNameLabel")
      case None
      with skip svc show ?thesis by (simp add: service_bmc_def)
    next
      case (Some name)
      have "runs view ?live (attempt (k_GetBMC (sr_Client s) (fst key, name))
          (\<lambda>e. if is_not_found e then ret () else fail e) (updateBMCStatus s (svc_ClusterIP svc))) c ?Q ?E"
      proof (rule runs_get [OF k8s_GetBMC [OF api(1)] live_GetBMC [OF api(2)]])
        fix b assume b: "kc_bmcs c (fst key, name) = Some b"
        then have sb: "service_bmc c key = Some (svc, b)" by (simp add: service_bmc_def svc Some)
        have "bmc_key b = (fst key, name)" by (rule keyed [OF b])
        then show "runs view ?live (updateBMCStatus s (svc_ClusterIP svc) b) c ?Q ?E"
          by (intro runs_updateBMCStatus [OF S']) (auto simp: b sb service_spec_def service_stages_def awaits_ip_def)
      qed (use skip start svc Some in \<open>simp_all add: service_bmc_def\<close>)
      with Some show ?thesis by auto
    qed
  qed (use skip start in \<open>simp_all add: service_bmc_def\<close>)
qed


section \<open>Properties\<close>

lemma ServiceReconcile_wait:
  assumes S: "serves_service s view ip True" and wait: "awaits_ip (view w) key"
  shows "\<exists>w'. ServiceReconcile s key w = (Err (PlainError ''clusterIP is not ready yet''), w') \<and> view w' = view w"
proof -
  have api: "k8s_api (sr_Client s) view ip" "k8s_live (sr_Client s) view" using S by (simp_all add: serves_service_def)
  obtain svc b name where svc: "kc_services (view w) key = Some svc" "svc_ClusterIP svc = ''''"
    and name: "map_of (om_Labels (svc_Meta svc)) VirtualMachineBMCNameLabel = Some name"
    and b: "kc_bmcs (view w) (fst key, name) = Some b"
    using wait by (auto simp: awaits_ip_def service_bmc_def split: option.splits)
  obtain rg wg where g: "k_GetService (sr_Client s) key w = (rg, wg)" by force
  note G = api_get_run [OF k8s_GetService [OF api(1)] g]
  have rg: "rg = Ok svc" using G svc refuses_absentD [OF live_GetService [OF api(2)], of key w _ wg] g by (cases rg) auto
  obtain rb wb where gb: "k_GetBMC (sr_Client s) (fst key, name) wg = (rb, wb)" by force
  note B = api_get_run [OF k8s_GetBMC [OF api(1)] gb]
  have rb: "rb = Ok b" using B G b refuses_absentD [OF live_GetBMC [OF api(2)], of "(fst key, name)" wg _ wb] gb by (cases rb) auto
  have "ServiceReconcile s key w = (Err (PlainError ''clusterIP is not ready yet''), wb)"
    using g rg gb rb name svc(2) by (auto simp: ServiceReconcile_def attempt_Ok updateBMCStatus_def)
  with B G show ?thesis by simp
qed

text \<open>C15. The service controller on every branch: for a service whose BMC exists it waits, with an error and
without effect, until the cluster has assigned an address, and then publishes the address and
the Ready condition in the BMC's status, leaving its other conditions; any other service is
ignored.  An error of the API server stops it at one of its stages.\<close>

theorem service_controller_publishes:
  assumes S: "serves_service s view ip live" and run: "ServiceReconcile s key w = (res, w')"
  shows "if res = Ok () then \<not> awaits_ip (view w) key \<and> view w' = service_spec s key (view w)
         else (\<exists>e. res = Err e) \<and> view w' \<in> set (service_stages s key (view w))
           \<and> (live \<longrightarrow> awaits_ip (view w) key \<and> res = Err (PlainError ''clusterIP is not ready yet'') \<and> view w' = view w)"
proof -
  have api: "k8s_api (sr_Client s) view ip" using S by (simp add: serves_service_def)
  from runsD [OF runs_ServiceReconcile [OF S k8s_bmc_key [OF api]] refl run]
  have m: "meets (live \<and> \<not> awaits_ip (view w) key) (\<lambda>_ c'. c' = service_spec s key (view w) \<and> \<not> awaits_ip (view w) key)
      (\<lambda>c'. c' \<in> set (service_stages s key (view w))) res (view w')" .
  show ?thesis
  proof (cases res)
    case (Ok u)
    with m show ?thesis by simp
  next
    case (Err e)
    have "awaits_ip (view w) key \<and> res = Err (PlainError ''clusterIP is not ready yet'') \<and> view w' = view w" if live
    proof -
      have wait: "awaits_ip (view w) key" using m Err that by simp
      from S that have "serves_service s view ip True" by simp
      from ServiceReconcile_wait [OF this wait] run wait show ?thesis by auto
    qed
    with m Err show ?thesis by simp
  qed (use m in simp)
qed

text \<open>This controller meets the contract as well.\<close>

lemma ServiceReconcile_stage:
  assumes S: "serves_service s view ip live" and run: "ServiceReconcile s key w = (res, w')"
  shows "view w' \<in> set (service_stages s key (view w))" and "res = Ok () \<Longrightarrow> view w' = service_spec s key (view w)"
proof -
  have api: "k8s_api (sr_Client s) view ip" using S by (simp add: serves_service_def)
  have last: "service_spec s key (view w) \<in> set (service_stages s key (view w))"
    by (auto simp: service_spec_def service_stages_def split: option.split)
  note m = runsD [OF runs_ServiceReconcile [OF S k8s_bmc_key [OF api, of w]] refl run]
  show "view w' \<in> set (service_stages s key (view w))" using m last by (cases res) auto
  show "res = Ok () \<Longrightarrow> view w' = service_spec s key (view w)" using m by simp
qed

interpretation svc_ctl: level_controller
  "\<lambda>(s, ip) view. \<exists>live. serves_service s view ip live" "\<lambda>(s, ip). ServiceReconcile s" "\<lambda>(s, ip). service_stages s"
  by unfold_locales (auto simp: service_spec_def [symmetric] dest: ServiceReconcile_stage)

text \<open>What publishing means for the BMC.\<close>

lemma publish_conditions:
  assumes "sets_condition (sr_SetStatusCondition s)"
  shows "shows_condition (publish s i b) serviceReady"
    and "cond_Type cd \<noteq> ConditionReady \<Longrightarrow> shows_condition (publish s i b) cd = shows_condition b cd"
proof -
  have L: "condition (cond_Type serviceReady) (fst (sr_SetStatusCondition s cs serviceReady)) = Some serviceReady"
    "t \<noteq> cond_Type serviceReady \<Longrightarrow> condition t (fst (sr_SetStatusCondition s cs serviceReady)) = condition t cs" for cs t
    using assms unfolding sets_condition_def by blast+
  show "shows_condition (publish s i b) serviceReady" by (simp add: shows_condition_def markReady_def L)
  show "shows_condition (publish s i b) cd = shows_condition b cd" if "cond_Type cd \<noteq> ConditionReady"
    using that L(2) [of "cond_Type cd"] by (simp add: shows_condition_def markReady_def serviceReady_def)
qed

definition demo_service :: Service where
  "demo_service = \<lparr>svc_Meta = \<lparr>om_Name = ''vm0-virtbmc'', om_Namespace = ''default'', om_Labels = [(VirtualMachineBMCNameLabel, ''bmc0'')],
     om_Controller = None\<rparr>, svc_Selector = [], svc_Ports = [], svc_ClusterIP = ''10.96.0.10''\<rparr>"

definition demo_sr :: "k8s_memory service_reconciler" where
  "demo_sr = \<lparr>sr_Client = mem_k8s, sr_SetStatusCondition = mem_SetStatusCondition\<rparr>"

lemma demo_serves_service: "serves_service demo_sr k8s_view mem_ip live"
  by (simp add: serves_service_def demo_sr_def mem_sets_condition mem_k8s_api mem_k8s_live)

definition demo_with_service :: k8s_memory where
  "demo_with_service = (fst demo_ready\<lparr>kc_services := [(''default'', ''vm0-virtbmc'') \<mapsto> demo_service]\<rparr>, snd demo_ready)"

lemma demo_service_run:
  "ServiceReconcile demo_sr (''default'', ''vm0-virtbmc'') demo_with_service =
     (Ok (), snd (ServiceReconcile demo_sr (''default'', ''vm0-virtbmc'') demo_with_service))"
  by (rule run_fst) code_simp

theorem service_controller_publishes_witness:
  "\<exists>b'. kc_bmcs (k8s_view (snd (ServiceReconcile demo_sr (''default'', ''vm0-virtbmc'') demo_with_service))) demo_key = Some b'
     \<and> status_ClusterIP (bmc_Status b') = ''10.96.0.10'' \<and> shows_condition b' serviceReady"
proof -
  have "service_bmc (k8s_view demo_with_service) (''default'', ''vm0-virtbmc'') = Some (demo_service, demo_bmc)"
    by (simp add: service_bmc_def demo_with_service_def demo_service_def demo_k8s_defs)
  then have "service_spec demo_sr (''default'', ''vm0-virtbmc'') (k8s_view demo_with_service) =
      put_status (publish demo_sr ''10.96.0.10'' demo_bmc) (k8s_view demo_with_service)"
    by (simp add: service_spec_def service_stages_def demo_service_def)
  with service_controller_publishes [OF demo_serves_service demo_service_run]
  have "k8s_view (snd (ServiceReconcile demo_sr (''default'', ''vm0-virtbmc'') demo_with_service)) =
      put_status (publish demo_sr ''10.96.0.10'' demo_bmc) (k8s_view demo_with_service)" by simp
  moreover have "bmc_key (publish demo_sr ''10.96.0.10'' demo_bmc) = demo_key"
    by (simp add: bmc_key_def demo_bmc_def demo_key_def)
  moreover have "shows_condition (publish demo_sr ''10.96.0.10'' demo_bmc) serviceReady"
    by (rule publish_conditions) (simp add: demo_sr_def mem_sets_condition)
  ultimately show ?thesis by (metis put_status_simps(1) markReady_simps(7))
qed

end
