(* ===== verification/Webhook.thy ===== *)
theory Webhook
  imports ServiceController
begin

text \<open>
  internal/webhook/bmc/v1beta1/virtualmachinebmc_webhook.go: the admission webhook of
  VirtualMachineBMC objects, and its verdict on every branch.  A
  \<open>runtime.Object\<close> is a VirtualMachineBMC or an object of another type, known by its type name; the
  warnings, which are always nil, are left out.
\<close>

section \<open>The handlers\<close>

datatype runtime_object = ObjBMC VirtualMachineBMC | ObjOther string

record 'w validator =
  val_Client :: "'w k8s_client"

definition validateVirtualMachineRef :: "'w validator \<Rightarrow> VirtualMachineBMC \<Rightarrow> ('w, unit) op" where
  "validateVirtualMachineRef v b =
     (case spec_VirtualMachineRef (bmc_Spec b) of
        None \<Rightarrow> fail (PlainError ''spec.virtualMachineRef is required'')
      | Some n \<Rightarrow>
          if n = '''' then fail (PlainError ''spec.virtualMachineRef.name cannot be empty'')
          else attempt (k_GetVM (val_Client v) (bmc_Namespace b, n))
            (\<lambda>e. if is_not_found e
                 then fail (PlainError (''referenced VirtualMachine '' @ quoted n @ '' not found in namespace '' @ quoted (bmc_Namespace b)))
                 else fail (WrapError ''error checking VirtualMachine existence: '' e))
            (\<lambda>_. ret ()))"

definition validateAuthSecretRef :: "'w validator \<Rightarrow> VirtualMachineBMC \<Rightarrow> ('w, unit) op" where
  "validateAuthSecretRef v b =
     (case spec_AuthSecretRef (bmc_Spec b) of
        None \<Rightarrow> fail (PlainError ''spec.authSecretRef is required'')
      | Some n \<Rightarrow>
          if n = '''' then fail (PlainError ''spec.authSecretRef.name cannot be empty'')
          else attempt (k_GetSecret (val_Client v) (bmc_Namespace b, n))
            (\<lambda>e. if is_not_found e
                 then fail (PlainError (''referenced Secret '' @ quoted n @ '' not found in namespace '' @ quoted (bmc_Namespace b)))
                 else fail (WrapError ''error checking Secret existence: '' e))
            (\<lambda>_. ret ()))"

definition ValidateCreate :: "'w validator \<Rightarrow> runtime_object \<Rightarrow> ('w, unit) op" where
  "ValidateCreate v obj =
     (case obj of
        ObjOther t \<Rightarrow> fail (PlainError (''expected a VirtualMachineBMC object but got '' @ t))
      | ObjBMC b \<Rightarrow> andThen (validateVirtualMachineRef v b) (\<lambda>_. andThen (validateAuthSecretRef v b) (\<lambda>_. ret ())))"

definition ValidateUpdate :: "'w validator \<Rightarrow> runtime_object \<Rightarrow> runtime_object \<Rightarrow> ('w, unit) op" where
  "ValidateUpdate v oldObj newObj =
     (case newObj of
        ObjOther t \<Rightarrow> fail (PlainError (''expected a VirtualMachineBMC object for the newObj but got '' @ t))
      | ObjBMC b \<Rightarrow> andThen (validateVirtualMachineRef v b) (\<lambda>_. andThen (validateAuthSecretRef v b) (\<lambda>_. ret ())))"

definition ValidateDelete :: "'w validator \<Rightarrow> runtime_object \<Rightarrow> ('w, unit) op" where
  "ValidateDelete v obj =
     (case obj of
        ObjOther t \<Rightarrow> fail (PlainError (''expected a VirtualMachineBMC object but got '' @ t))
      | ObjBMC b \<Rightarrow> ret ())"

text \<open>\<open>Default\<close> returns the object it may have changed; it changes nothing.\<close>

definition Default :: "runtime_object \<Rightarrow> runtime_object outcome" where
  "Default obj =
     (case obj of
        ObjOther t \<Rightarrow> Err (PlainError (''expected an VirtualMachineBMC object but got '' @ t))
      | ObjBMC b \<Rightarrow> Ok (ObjBMC b))"

section \<open>The verdict\<close>

text \<open>What is wrong with a BMC on a given cluster, the machine reference first.\<close>

definition vm_ref_error :: "bmc_cluster \<Rightarrow> VirtualMachineBMC \<Rightarrow> go_error option" where
  "vm_ref_error c b =
     (case spec_VirtualMachineRef (bmc_Spec b) of
        None \<Rightarrow> Some (PlainError ''spec.virtualMachineRef is required'')
      | Some n \<Rightarrow>
          if n = '''' then Some (PlainError ''spec.virtualMachineRef.name cannot be empty'')
          else if (bmc_Namespace b, n) \<in> kc_vms c then None
          else Some (PlainError (''referenced VirtualMachine '' @ quoted n @ '' not found in namespace '' @ quoted (bmc_Namespace b))))"

definition secret_ref_error :: "bmc_cluster \<Rightarrow> VirtualMachineBMC \<Rightarrow> go_error option" where
  "secret_ref_error c b =
     (case spec_AuthSecretRef (bmc_Spec b) of
        None \<Rightarrow> Some (PlainError ''spec.authSecretRef is required'')
      | Some n \<Rightarrow>
          if n = '''' then Some (PlainError ''spec.authSecretRef.name cannot be empty'')
          else if (bmc_Namespace b, n) \<in> kc_secrets c then None
          else Some (PlainError (''referenced Secret '' @ quoted n @ '' not found in namespace '' @ quoted (bmc_Namespace b))))"

definition verdict :: "bmc_cluster \<Rightarrow> VirtualMachineBMC \<Rightarrow> go_error option" where
  "verdict c b = (case vm_ref_error c b of Some e \<Rightarrow> Some e | None \<Rightarrow> secret_ref_error c b)"

definition answer_of :: "go_error option \<Rightarrow> unit outcome" where
  "answer_of v = (case v of None \<Rightarrow> Ok () | Some e \<Rightarrow> Err e)"

text \<open>
  A check of one reference: it changes nothing and gives the verdict, or, when the server refuses to
  say, an error that wraps the refusal.
\<close>

definition checks :: "('w \<Rightarrow> bmc_cluster) \<Rightarrow> bool \<Rightarrow> ('w, unit) op \<Rightarrow> (bmc_cluster \<Rightarrow> go_error option) \<Rightarrow> bool" where
  "checks view live m err \<longleftrightarrow>
     (\<forall>w r w'. m w = (r, w') \<longrightarrow> view w' = view w
        \<and> (r = answer_of (err (view w)) \<or> \<not> live \<and> (\<exists>msg e. r = Err (WrapError msg e) \<and> \<not> is_not_found e)))"

lemma checks_get:
  assumes "api_get view m look" "live \<Longrightarrow> refuses_absent m"
    and "\<And>c. err c = (if look c = None then Some e0 else None)"
  shows "checks view live (attempt m (\<lambda>e. if is_not_found e then fail e0 else fail (WrapError msg e)) ret) err"
  unfolding checks_def
proof (intro allI impI)
  fix w r w' assume run: "attempt m (\<lambda>e. if is_not_found e then fail e0 else fail (WrapError msg e)) ret w = (r, w')"
  obtain rm wm where m: "m w = (rm, wm)" by force
  note G = api_get_run [OF assms(1) m]
  show "view w' = view w \<and> (r = answer_of (err (view w)) \<or> \<not> live \<and> (\<exists>msg e. r = Err (WrapError msg e) \<and> \<not> is_not_found e))"
  proof (cases rm)
    case (Err e)
    then have "live \<Longrightarrow> is_not_found e" using refuses_absentD [OF assms(2)] m by blast
    with run m Err G show ?thesis by (auto simp: attempt_Err assms(3) answer_of_def split: if_splits)
  qed (use run m G in \<open>auto simp: attempt_Ok assms(3) answer_of_def\<close>)
qed

lemma checks_fail: "checks view live (fail e) (\<lambda>_. Some e)"
  by (simp add: checks_def answer_of_def)

lemma checks_andThen:
  assumes "checks view live m e1" "checks view live n e2"
  shows "checks view live (andThen m (\<lambda>_. andThen n (\<lambda>_. ret ()))) (\<lambda>c. case e1 c of Some e \<Rightarrow> Some e | None \<Rightarrow> e2 c)"
  unfolding checks_def
proof (intro allI impI)
  fix w r w' assume run: "andThen m (\<lambda>_. andThen n (\<lambda>_. ret ())) w = (r, w')"
  obtain r1 w1 where m: "m w = (r1, w1)" by force
  obtain r2 w2 where n: "n w1 = (r2, w2)" by force
  note M = assms(1) [unfolded checks_def, rule_format, OF m] and N = assms(2) [unfolded checks_def, rule_format, OF n]
  have "r1 = Ok () \<Longrightarrow> r = r2 \<and> w' = w2"
    using run m n by (cases r2) (simp_all add: andThen_Ok andThen_Err andThen_Panic)
  moreover have "r1 = Err e \<Longrightarrow> r = Err e \<and> w' = w1" for e using run m by (simp add: andThen_Err)
  ultimately show "view w' = view w \<and> (r = answer_of (case e1 (view w) of Some e \<Rightarrow> Some e | None \<Rightarrow> e2 (view w))
      \<or> \<not> live \<and> (\<exists>msg e. r = Err (WrapError msg e) \<and> \<not> is_not_found e))"
    using M N by (cases "e1 (view w)") (auto simp: answer_of_def)
qed

lemma checks_VirtualMachineRef:
  assumes "k8s_api (val_Client v) view ip" "live \<Longrightarrow> k8s_live (val_Client v) view"
  shows "checks view live (validateVirtualMachineRef v b) (\<lambda>c. vm_ref_error c b)"
  unfolding validateVirtualMachineRef_def vm_ref_error_def
  by (auto split: option.split intro!: checks_fail checks_get [OF k8s_GetVM [OF assms(1)] live_GetVM [OF assms(2)]])

lemma checks_AuthSecretRef:
  assumes "k8s_api (val_Client v) view ip" "live \<Longrightarrow> k8s_live (val_Client v) view"
  shows "checks view live (validateAuthSecretRef v b) (\<lambda>c. secret_ref_error c b)"
  unfolding validateAuthSecretRef_def secret_ref_error_def
  by (auto split: option.split intro!: checks_fail checks_get [OF k8s_GetSecret [OF assms(1)] live_GetSecret [OF assms(2)]])

lemma ValidateCreate_checks:
  assumes "k8s_api (val_Client v) view ip" "live \<Longrightarrow> k8s_live (val_Client v) view"
  shows "checks view live (ValidateCreate v (ObjBMC b)) (\<lambda>c. verdict c b)"
  unfolding ValidateCreate_def verdict_def runtime_object.case
  by (rule checks_andThen [OF checks_VirtualMachineRef [OF assms] checks_AuthSecretRef [OF assms]])


section \<open>Properties\<close>

text \<open>C17. The admission of a new BMC on every branch: the webhook changes nothing and never crashes; it admits
exactly the objects whose two references are present, not empty and point to an existing machine
and secret, and its error names the first thing that is wrong.  Only a server that refuses a read
without a reason gives another answer, an error that wraps the refusal.\<close>

theorem webhook_verdict:
  assumes "k8s_api (val_Client v) view ip" and "live \<longrightarrow> k8s_live (val_Client v) view"
    and "ValidateCreate v (ObjBMC b) w = (res, w')"
  shows "view w' = view w
    \<and> (res = answer_of (verdict (view w) b) \<or> \<not> live \<and> (\<exists>msg e. res = Err (WrapError msg e) \<and> \<not> is_not_found e))
    \<and> (verdict (view w) b = None \<longleftrightarrow>
        (\<exists>vm n. spec_VirtualMachineRef (bmc_Spec b) = Some vm \<and> vm \<noteq> '''' \<and> (bmc_Namespace b, vm) \<in> kc_vms (view w)
          \<and> spec_AuthSecretRef (bmc_Spec b) = Some n \<and> n \<noteq> '''' \<and> (bmc_Namespace b, n) \<in> kc_secrets (view w)))"
proof -
  have "checks view live (ValidateCreate v (ObjBMC b)) (\<lambda>c. verdict c b)"
    using assms(1,2) by (auto intro: ValidateCreate_checks)
  from this [unfolded checks_def, rule_format, OF assms(3)]
  show ?thesis by (auto simp: verdict_def vm_ref_error_def secret_ref_error_def split: option.splits if_splits)
qed

definition demo_validator :: "k8s_memory validator" where
  "demo_validator = \<lparr>val_Client = mem_k8s\<rparr>"

lemma demo_validator_client: "val_Client demo_validator = mem_k8s"
  by (simp add: demo_validator_def)

lemma demo_validate: "ValidateCreate demo_validator (ObjBMC demo_bmc) demo_ready = (Ok (), demo_ready)"
  by (simp add: ValidateCreate_def validateVirtualMachineRef_def validateAuthSecretRef_def demo_validator_def mem_k8s_def
      mem_get_def andThen_def attempt_def demo_k8s_defs)

theorem webhook_verdict_witness:
  "ValidateCreate demo_validator (ObjBMC demo_bmc) demo_ready = (Ok (), demo_ready) \<and> verdict (k8s_view demo_ready) demo_bmc = None"
  using webhook_verdict [OF _ _ demo_validate, of k8s_view mem_ip True] demo_validate mem_k8s_api mem_k8s_live
  by (auto simp: demo_validator_client answer_of_def split: option.splits)

text \<open>An update is judged by its new object alone, exactly as a creation of it would be, and a deletion is
always admitted; so a BMC can be deleted, but not updated, once its machine or secret is gone.\<close>

lemma webhook_update_and_delete:
  assumes "k8s_api (val_Client v) view ip" "k8s_live (val_Client v) view"
    and gone: "spec_VirtualMachineRef (bmc_Spec b) = Some vm" "(bmc_Namespace b, vm) \<notin> kc_vms (view w)"
  shows "ValidateUpdate v old (ObjBMC b) = ValidateCreate v (ObjBMC b)
    \<and> (\<exists>e w'. ValidateUpdate v old (ObjBMC b) w = (Err e, w') \<and> view w' = view w)
    \<and> ValidateDelete v (ObjBMC b) w = (Ok (), w)"
proof -
  have same: "ValidateUpdate v old (ObjBMC b) = ValidateCreate v (ObjBMC b)"
    by (simp add: ValidateUpdate_def ValidateCreate_def)
  obtain res w' where run: "ValidateCreate v (ObjBMC b) w = (res, w')" by force
  from ValidateCreate_checks [OF assms(1), of True b] assms(2) run
  have "view w' = view w" "res = answer_of (verdict (view w) b)" by (auto simp: checks_def)
  moreover have "vm_ref_error (view w) b \<noteq> None" using gone by (simp add: vm_ref_error_def)
  then obtain e where "verdict (view w) b = Some e" by (auto simp: verdict_def)
  ultimately show ?thesis using same run by (simp add: ValidateDelete_def answer_of_def)
qed

end
