(* ===== verification/ControlPlane.thy ===== *)
theory ControlPlane
  imports Webhook
begin

text \<open>
  The three parts of the control plane together: a BMC the webhook admits is brought up by the
  VirtualMachineBMC controller and the service controller.
\<close>

section \<open>The service of an agent\<close>

definition agent_service :: "(bmc_cluster \<Rightarrow> Service \<Rightarrow> string) \<Rightarrow> VirtualMachineBMC \<Rightarrow> Service \<Rightarrow> bool" where
  "agent_service ip b svc \<longleftrightarrow>
     map_of (om_Labels (svc_Meta svc)) VirtualMachineBMCNameLabel = Some (bmc_Name b) \<and> (\<exists>c s. svc_ClusterIP svc = ip c s)"

lemma addService_service:
  assumes "spec_VirtualMachineRef (bmc_Spec b) = Some vm" and "kc_services c (bmc_Namespace b, vm @ ''-virtbmc'') = None"
  shows "\<exists>svc. kc_services (addService ip b c) (bmc_Namespace b, vm @ ''-virtbmc'') = Some svc \<and> agent_service ip b svc"
  using assms
  by (auto simp: addService_def constructServiceFromVirtualMachineBMC_def Let_def key_of_def put_absent_def agent_service_def own_def)

lemma services_frame [simp]:
  "kc_services (addServiceAccount b c) = kc_services c" "kc_services (addRoleBinding b c) = kc_services c"
  "kc_services (addPod r b c) = kc_services c" "kc_services (removePod b c) = kc_services c"
  by (simp_all add: addServiceAccount_def addRoleBinding_def addPod_def removePod_def Let_def split: outcome.split option.split)

lemma addService_present: "spec_VirtualMachineRef (bmc_Spec b) = Some vm \<Longrightarrow> kc_services c (bmc_Namespace b, vm @ ''-virtbmc'') = Some s \<Longrightarrow>
    kc_services (addService ip b c) (bmc_Namespace b, vm @ ''-virtbmc'') = Some s"
  by (auto simp: addService_def constructServiceFromVirtualMachineBMC_def Let_def key_of_def put_absent_def)

text \<open>A reconciliation keeps the place of the service empty or fills it with the agent's service.\<close>

definition service_place :: "(bmc_cluster \<Rightarrow> Service \<Rightarrow> string) \<Rightarrow> VirtualMachineBMC \<Rightarrow> string \<Rightarrow> bmc_cluster \<Rightarrow> bool" where
  "service_place ip b vm c \<longleftrightarrow>
     (case kc_services c (bmc_Namespace b, vm @ ''-virtbmc'') of None \<Rightarrow> True | Some svc \<Rightarrow> agent_service ip b svc)"

lemma service_place_cong:
  "bmc_Namespace b' = bmc_Namespace b \<Longrightarrow> bmc_Name b' = bmc_Name b \<Longrightarrow> service_place ip b' vm c = service_place ip b vm c"
  by (simp add: service_place_def agent_service_def split: option.split)

lemma service_place_spec:
  assumes b: "kc_bmcs c key = Some b" and vm: "spec_VirtualMachineRef (bmc_Spec b) = Some vm" and place: "service_place ip b vm c"
  shows "service_place ip b vm (reconcile_spec r ip key c)"
proof (cases "provisionable r c b")
  case True
  let ?c = "addPod r b (addRoleBinding b (addServiceAccount b c))"
  have "service_place ip b vm (addService ip b ?c)"
  proof (cases "kc_services c (bmc_Namespace b, vm @ ''-virtbmc'')")
    case None
    then show ?thesis using addService_service [OF vm, of ?c ip] by (auto simp: service_place_def)
  next
    case (Some s)
    then show ?thesis using addService_present [OF vm, of ?c s ip] place by (simp add: service_place_def)
  qed
  with reconcile_spec_provisionable [OF b True] show ?thesis by simp
next
  case False
  with reconcile_spec_other [OF b False] place show ?thesis by (simp add: service_place_def)
qed

section \<open>From admission to readiness\<close>

lemma admitted_references:
  assumes "k8s_api (val_Client v) view ip" and "ValidateCreate v (ObjBMC b) w0 = (Ok (), w0')"
  obtains vm n where "spec_VirtualMachineRef (bmc_Spec b) = Some vm" "spec_AuthSecretRef (bmc_Spec b) = Some n"
    "(bmc_Namespace b, vm) \<in> kc_vms (view w0)" "(bmc_Namespace b, n) \<in> kc_secrets (view w0)"
proof -
  note ValidateCreate_checks [of v view ip False b, OF assms(1), simplified, unfolded checks_def, rule_format, OF assms(2)]
  then have "verdict (view w0) b = None" by (auto simp: answer_of_def split: option.splits)
  then show ?thesis
    using that by (auto simp: verdict_def vm_ref_error_def secret_ref_error_def split: option.splits if_splits)
qed

lemma service_published:
  assumes "serves r view ip True" and "serves_service s view ip True"
    and "service_bmc (view w) key = Some (svc, b)" and "svc_ClusterIP svc \<noteq> ''''"
  obtains w' where "ServiceReconcile s key w = (Ok (), w')"
    and "view w' = put_status (publish s (svc_ClusterIP svc) b) (view w)"
proof -
  have "\<not> awaits_ip (view w) key" using assms(3,4) by (simp add: awaits_ip_def)
  moreover have "runs view (True \<and> \<not> awaits_ip (view w) key) (ServiceReconcile s key) (view w)
      (\<lambda>_ c'. c' = service_spec s key (view w) \<and> \<not> awaits_ip (view w) key) (\<lambda>c'. c' \<in> set (service_stages s key (view w)))"
    by (rule runs_ServiceReconcile [OF assms(2)]) (rule k8s_bmc_key [OF serves_api [OF assms(1)]])
  ultimately have "runs view True (ServiceReconcile s key) (view w)
      (\<lambda>_ c'. c' = service_spec s key (view w) \<and> \<not> awaits_ip (view w) key) (\<lambda>c'. c' \<in> set (service_stages s key (view w)))"
    by simp
  from runs_live [OF this] that show ?thesis
    using assms(3,4) by (auto simp: service_spec_def service_stages_def)
qed

text \<open>C3. End to end. A BMC the webhook admitted comes up: once it is stored in a cluster that still has its
machine and its secret and no other service of the agent's name, two runs of the BMC controller
and one of the service controller, on a server that answers, end with all the agent's objects in place and a status that
shows the service's address and all three conditions.\<close>

theorem admitted_bmc_comes_up:
  assumes V: "k8s_api (val_Client v) view ip" "ValidateCreate v (ObjBMC b) w0 = (Ok (), w0')"
    and S: "serves r view ip True" and SS: "serves_service s view ip True" and ips: "\<And>c svc. ip c svc \<noteq> ''''"
    and stored: "kc_bmcs (view w) (bmc_key b) = Some b"
    and kept: "kc_vms (view w0) \<subseteq> kc_vms (view w)" "kc_secrets (view w0) \<subseteq> kc_secrets (view w)"
    and free: "\<And>vm. spec_VirtualMachineRef (bmc_Spec b) = Some vm \<Longrightarrow> kc_services (view w) (bmc_Namespace b, vm @ ''-virtbmc'') = None"
  shows "\<exists>vm n w1 w2 w3 b3 svc. spec_VirtualMachineRef (bmc_Spec b) = Some vm \<and> spec_AuthSecretRef (bmc_Spec b) = Some n
    \<and> Reconcile r (bmc_key b) w = (Ok (), w1) \<and> Reconcile r (bmc_key b) w1 = (Ok (), w2)
    \<and> ServiceReconcile s (bmc_Namespace b, vm @ ''-virtbmc'') w2 = (Ok (), w3)
    \<and> agent_provided (bmc_Namespace b) vm (view w3)
    \<and> kc_services (view w3) (bmc_Namespace b, vm @ ''-virtbmc'') = Some svc
    \<and> kc_bmcs (view w3) (bmc_key b) = Some b3 \<and> status_ClusterIP (bmc_Status b3) = svc_ClusterIP svc \<and> svc_ClusterIP svc \<noteq> ''''
    \<and> shows_condition b3 (vmFound vm) \<and> shows_condition b3 (secretFound n) \<and> shows_condition b3 serviceReady"
proof -
  let ?key = "bmc_key b"
  obtain vm n where ref: "spec_VirtualMachineRef (bmc_Spec b) = Some vm" "spec_AuthSecretRef (bmc_Spec b) = Some n"
    and "(bmc_Namespace b, vm) \<in> kc_vms (view w0)" "(bmc_Namespace b, n) \<in> kc_secrets (view w0)"
    using admitted_references [OF V] .
  with kept have p: "vmPresent (view w) b" "secretPresent (view w) b" by (auto simp: vmPresent_def secretPresent_def)
  let ?b = "observed r (view w) b" and ?sk = "(bmc_Namespace b, vm @ ''-virtbmc'')"
  obtain w1 w2 b1 where w1: "Reconcile r ?key w = (Ok (), w1)" "view w1 = reconcile_spec r ip ?key (view w)"
    and w2: "Reconcile r ?key w1 = (Ok (), w2)" "view w2 = reconcile_spec r ip ?key (view w1)"
    and b1: "kc_bmcs (view w1) ?key = Some b1" "bmc_Spec b1 = bmc_Spec b" "bmc_key b1 = ?key"
    by (rule Reconcile_twice [OF S stored]) (use ref(1) in auto)
  note two = spec_twice [OF serves_conditions [OF S] stored refl ref(1) p, of ip, folded w1(2), folded w2(2)]
  have same: "bmc_Namespace b1 = bmc_Namespace b" "bmc_Name b1 = bmc_Name b" using b1(3) by (simp_all add: bmc_key_def)
  have "service_place ip b vm (view w)" using free [OF ref(1)] by (simp add: service_place_def)
  then have "service_place ip b vm (view w1)" unfolding w1(2) by (rule service_place_spec [OF stored ref(1)])
  then have "service_place ip b1 vm (view w2)" unfolding w2(2)
    using service_place_spec [OF b1(1), of vm ip r] ref(1) b1(2) service_place_cong [OF same] by simp
  moreover obtain svc where svc: "kc_services (view w2) ?sk = Some svc"
    using two(2) by (auto simp: agent_provided_def agent_objects_def exists_in_def)
  ultimately have as: "agent_service ip b svc" by (simp add: service_place_def same agent_service_def)
  then have sb: "service_bmc (view w2) ?sk = Some (svc, ?b)"
    using svc two(1) by (auto simp: service_bmc_def agent_service_def bmc_key_def)
  have ipn: "svc_ClusterIP svc \<noteq> ''''" using as ips by (metis agent_service_def)
  obtain w3 where w3: "ServiceReconcile s ?sk w2 = (Ok (), w3)"
    and v3: "view w3 = put_status (publish s (svc_ClusterIP svc) ?b) (view w2)"
    using service_published [OF S SS sb ipn] .
  have conds: "shows_condition ?b (vmFound vm)" "shows_condition ?b (secretFound n)"
    using observed_shows [OF serves_conditions [OF S], of b _ "view w"] ref p by (simp_all add: vmCondition_def secretCondition_def)
  have "sets_condition (sr_SetStatusCondition s)" using SS by (simp add: serves_service_def)
  note P = publish_conditions(1) [OF this, of "svc_ClusterIP svc" ?b] publish_conditions(2) [OF this, of _ "svc_ClusterIP svc" ?b]
  have b3: "kc_bmcs (view w3) ?key = Some (publish s (svc_ClusterIP svc) ?b)" by (simp add: v3)
  have "shows_condition (publish s (svc_ClusterIP svc) ?b) (vmFound vm)" "shows_condition (publish s (svc_ClusterIP svc) ?b) (secretFound n)"
    using conds P(2) by (simp_all add: vmFound_def secretFound_def)
  moreover have "agent_provided (bmc_Namespace b) vm (view w3)" "kc_services (view w3) ?sk = Some svc"
    using two(2) svc by (simp_all add: v3 agent_provided_def)
  ultimately show ?thesis using ref w1(1) w2(1) w3 b3 P(1) ipn by (intro exI conjI) simp_all
qed


theorem admitted_bmc_comes_up_witness:
  "\<exists>w1 w2 w3 b3. Reconcile demo_rec demo_key demo_ready = (Ok (), w1) \<and> Reconcile demo_rec demo_key w1 = (Ok (), w2)
    \<and> ServiceReconcile demo_sr (''default'', ''vm0-virtbmc'') w2 = (Ok (), w3)
    \<and> kc_bmcs (k8s_view w3) demo_key = Some b3 \<and> status_ClusterIP (bmc_Status b3) \<noteq> '''' \<and> shows_condition b3 serviceReady"
proof -
  have V: "k8s_api (val_Client demo_validator) k8s_view mem_ip" by (simp add: demo_validator_client mem_k8s_api)
  have key: "bmc_key demo_bmc = demo_key" "bmc_Namespace demo_bmc = ''default''" "spec_VirtualMachineRef (bmc_Spec demo_bmc) = Some ''vm0''"
    by (simp_all add: demo_k8s_defs)
  have c: "kc_bmcs (k8s_view demo_ready) (bmc_key demo_bmc) = Some demo_bmc" "kc_services (k8s_view demo_ready) k = None" for k
    by (simp_all add: demo_k8s_defs)
  show ?thesis
    using admitted_bmc_comes_up [OF V demo_validate demo_serves demo_serves_service _ c(1)] c(2) key
    by (auto simp: mem_ip_def)
qed


section \<open>Histories of the control plane\<close>

text \<open>
  Both controllers run side by side; a history is any sequence of their reconciliations, failed ones
  included.  \<open>grown c c'\<close> says what they may do to the cluster in the long run.
\<close>

datatype control_event = ReconcileBMC "string \<times> string" | ReconcileService "string \<times> string"

fun control_run :: "'w reconciler \<Rightarrow> 'w service_reconciler \<Rightarrow> control_event list \<Rightarrow> 'w \<Rightarrow> 'w" where
  "control_run r s [] w = w"
| "control_run r s (ReconcileBMC key # es) w = control_run r s es (snd (Reconcile r key w))"
| "control_run r s (ReconcileService key # es) w = control_run r s es (snd (ServiceReconcile s key w))"

definition controlled_pod :: "bmc_cluster \<Rightarrow> string \<times> string \<Rightarrow> Pod \<Rightarrow> bool" where
  "controlled_pod c key p \<longleftrightarrow> (\<exists>n b. kc_bmcs c (fst key, n) = Some b \<and> controllerIndex (pod_Meta p) = [n])"

definition grown :: "bmc_cluster \<Rightarrow> bmc_cluster \<Rightarrow> bool" where
  "grown c c' \<longleftrightarrow>
     kc_vms c' = kc_vms c \<and> kc_secrets c' = kc_secrets c
   \<and> (\<forall>key. map_option bmc_Spec (kc_bmcs c' key) = map_option bmc_Spec (kc_bmcs c key))
   \<and> (\<forall>key x. kc_serviceAccounts c key = Some x \<longrightarrow> kc_serviceAccounts c' key = Some x)
   \<and> (\<forall>key x. kc_roleBindings c key = Some x \<longrightarrow> kc_roleBindings c' key = Some x)
   \<and> (\<forall>key x. kc_services c key = Some x \<longrightarrow> kc_services c' key = Some x)
   \<and> (\<forall>key p. kc_pods c' key = Some p \<longrightarrow> kc_pods c key = Some p \<or> controlled_pod c key p)"

lemma grown_refl: "grown c c"
  by (simp add: grown_def)

lemma grownD:
  assumes "grown c c'"
  shows grown_pods: "kc_pods c' key = Some p \<Longrightarrow> kc_pods c key = Some p \<or> controlled_pod c key p"
    and grown_specs: "map_option bmc_Spec (kc_bmcs c' key) = map_option bmc_Spec (kc_bmcs c key)"
  using assms unfolding grown_def by blast+

lemma grown_controlled: "grown c c' \<Longrightarrow> controlled_pod c' key p \<Longrightarrow> controlled_pod c key p"
  using grown_specs [of c c'] unfolding controlled_pod_def by (metis option.map_disc_iff not_None_eq)

lemma grown_trans:
  assumes "grown a b" "grown b c"
  shows "grown a c"
proof -
  have "kc_pods c key = Some p \<Longrightarrow> kc_pods a key = Some p \<or> controlled_pod a key p" for key p
    using grown_pods [OF assms(2)] grown_pods [OF assms(1)] grown_controlled [OF assms(1)] by blast
  with assms show ?thesis by (simp add: grown_def)
qed

lemma put_absent_mono: "m key = Some x \<Longrightarrow> put_absent k v m key = Some x"
  by (auto simp: put_absent_def split: option.split)

lemma grown_add:
  assumes stored: "kc_bmcs c (bmc_key b) = Some b"
  shows "grown c (addServiceAccount b c)" "grown c (addRoleBinding b c)" "grown c (addPod r b c)" "grown c (addService ip b c)"
proof -
  show "grown c (addServiceAccount b c)" "grown c (addRoleBinding b c)" "grown c (addService ip b c)"
    by (auto simp: grown_def addServiceAccount_def addRoleBinding_def addService_def Let_def put_absent_mono split: outcome.split)
  show "grown c (addPod r b c)"
  proof (cases "spec_VirtualMachineRef (bmc_Spec b)")
    case (Some vm)
    then show ?thesis using stored
      by (auto simp: grown_def addPod_def constructPodFromVirtualMachineBMC_def Let_def put_absent_def key_of_def own_def
          bmc_key_def controllerIndex_def owner_of_def controlled_pod_def split: option.splits if_splits)
  qed (simp add: addPod_def constructPodFromVirtualMachineBMC_def grown_refl)
qed

lemma grown_put_status:
  "kc_bmcs c (bmc_key b) = Some b0 \<Longrightarrow> bmc_Spec b0 = bmc_Spec b \<Longrightarrow> grown c (put_status b c)"
  by (auto simp: grown_def put_status_def)

lemma grown_removePod: "grown c (removePod b c)"
  by (auto simp: grown_def removePod_def split: option.split if_splits)

lemma grown_reconcile_stages:
  assumes keyed: "\<And>b. kc_bmcs c key = Some b \<Longrightarrow> bmc_key b = key" and "c' \<in> set (reconcile_stages r ip key c)"
  shows "grown c c'"
proof (cases "kc_bmcs c key")
  case None
  with assms(2) show ?thesis by (simp add: reconcile_stages_def grown_refl)
next
  case (Some b)
  have stored: "kc_bmcs c (bmc_key b) = Some b" using Some keyed by simp
  let ?c1 = "addServiceAccount b c" let ?c2 = "addRoleBinding b ?c1" let ?c3 = "addPod r b ?c2"
  have p1: "grown c ?c1" by (rule grown_add(1) [OF stored])
  have p2: "grown c ?c2" by (rule grown_trans [OF p1 grown_add(2)]) (simp add: stored)
  have p3: "grown c ?c3" by (rule grown_trans [OF p2 grown_add(3)]) (simp add: stored)
  have p4: "grown c (addService ip b ?c3)" by (rule grown_trans [OF p3 grown_add(4)]) (simp add: stored)
  let ?b1 = "observeVM r c b" let ?b2 = "observeSecret r c ?b1"
  have s1: "grown c (put_status ?b1 c)" and s2: "grown c (put_status ?b2 c)"
    by (rule grown_put_status; simp add: stored)+
  have s3: "grown c (removePod ?b2 (put_status ?b2 c))" by (rule grown_trans [OF s2 grown_removePod])
  show ?thesis using assms(2) p1 p2 p3 p4 s1 s2 s3 grown_refl
    by (auto simp: reconcile_stages_def Some Let_def split: if_splits)
qed

lemma grown_service_stages:
  assumes keyed: "\<And>key b. kc_bmcs c key = Some b \<Longrightarrow> bmc_key b = key" and "c' \<in> set (service_stages s key c)"
  shows "grown c c'"
proof (cases "service_bmc c key")
  case (Some sb)
  obtain svc b where sb: "service_bmc c key = Some (svc, b)" using Some by (cases sb) auto
  then have "kc_bmcs c (bmc_key b) = Some b" using keyed by (auto simp: service_bmc_def split: option.splits)
  then have "grown c (put_status (markReady s b) c)" "grown c (put_status (publish s i b) c)" for i
    by (rule_tac grown_put_status; simp)+
  with assms(2) sb grown_refl show ?thesis by (auto simp: service_stages_def split: if_splits)
qed (use assms(2) in \<open>simp add: service_stages_def grown_refl\<close>)

text \<open>C11. Long-run safety. In every history of reconciliations by both controllers, whatever the API server
refuses in between: no machine, secret or BMC specification is touched, no service, service account or role
binding is ever changed or removed, and every pod that was not there before is controlled by a
BMC of its namespace that existed.\<close>

theorem control_plane_history:
  assumes "serves r view ip False" and "serves_service s view ip False"
  shows "grown (view w) (view (control_run r s es w))"
proof -
  note keyed = k8s_bmc_key [OF serves_api [OF assms(1)]]
  have bmc: "grown (view w) (view (snd (Reconcile r key w)))" for key w
    by (rule bmc_ctl.step_rel [of "(r, ip)" view key w grown, simplified])
      (use assms(1) in blast, rule grown_reconcile_stages [OF keyed], auto)
  have svc: "grown (view w) (view (snd (ServiceReconcile s key w)))" for key w
    by (rule svc_ctl.step_rel [of "(s, ip)" view key w grown, simplified])
      (use assms(2) in blast, rule grown_service_stages [OF keyed], auto)
  show ?thesis
  proof (induction es arbitrary: w)
    case (Cons e es)
    show ?case
    proof (cases e)
      case (ReconcileBMC key)
      with grown_trans [OF bmc Cons.IH] show ?thesis by simp
    next
      case (ReconcileService key)
      with grown_trans [OF svc Cons.IH] show ?thesis by simp
    qed
  qed (simp add: grown_refl)
qed

theorem control_plane_history_witness:
  "grown (k8s_view demo_two) (k8s_view (control_run demo_rec demo_sr
     [ReconcileBMC demo_key, ReconcileService (''default'', ''vm0-virtbmc''), ReconcileBMC (''default'', ''bmc1'')] demo_two))"
  by (rule control_plane_history [OF demo_serves demo_serves_service])

end
