(* ===== verification/Deployment.thy ===== *)
theory Deployment
  imports Agent ControlPlane
begin

text \<open>
  Where the control plane meets the agent: the pod the controller builds starts
  cmd/virtbmc/main.go with its arguments, with credentials from the secret and with the cluster's clients.  The command-line
  parser (urfave/cli) and the kubelet are outside: the parser is a parameter with its documented
  behaviour on the arguments at hand, and \<open>kubelet_env\<close> is the documented meaning of an environment
  variable with a secret key reference.
\<close>

section \<open>Starting a container\<close>

definition flag_defaults :: Options where
  "flag_defaults =
     \<lparr>opt_KubeconfigPath = ''/root/.kube/config'', opt_Address = ''127.0.0.1'', opt_IPMIPort = 10623,
      opt_RedfishPort = 10080, opt_BMCUser = '''', opt_BMCPassword = ''''\<rparr>"

definition is_flag :: "string \<Rightarrow> bool" where
  "is_flag x \<longleftrightarrow> x \<noteq> '''' \<and> hd x = CHR ''-''"

text \<open>Flags of the form \<open>--name value\<close> up to the first argument that is not a flag; the rest is positional.\<close>

definition parses_flags :: "(string list \<Rightarrow> Options \<Rightarrow> Options \<times> string list) \<Rightarrow> bool" where
  "parses_flags parse \<longleftrightarrow>
     (\<forall>a i p x y opts. \<not> is_flag x \<longrightarrow> \<not> is_flag y \<longrightarrow>
        parse [''--address'', a, ''--ipmi-port'', itoa i, ''--redfish-port'', itoa p, x, y] opts =
          (opts\<lparr>opt_Address := a, opt_IPMIPort := i, opt_RedfishPort := p\<rparr>, [x, y]))"

definition kubelet_env :: "(string \<times> string \<Rightarrow> string option) \<Rightarrow> Container \<Rightarrow> string \<Rightarrow> string" where
  "kubelet_env secret_data ct name =
     (case find (\<lambda>e. env_Name e = name) (ct_Env ct) of
        None \<Rightarrow> ''''
      | Some e \<Rightarrow> (case secret_data (env_SecretName e, env_SecretKey e) of None \<Rightarrow> '''' | Some v \<Rightarrow> v))"

definition start_container ::
  "('c, 'w) client_lib \<Rightarrow> string \<Rightarrow> go_error option \<Rightarrow> (string list \<Rightarrow> Options \<Rightarrow> Options \<times> string list)
     \<Rightarrow> (string \<times> string \<Rightarrow> string option) \<Rightarrow> Container \<Rightarrow> ('w vmrm, ('m, 'w) VirtBMC) op" where
  "start_container kl now listen parse secret_data ct =
     (case parse (ct_Args ct) flag_defaults of
        (options, args) \<Rightarrow> main_action kl now listen (kubelet_env secret_data ct) args options)"

section \<open>The agent of a pod\<close>

text \<open>C7. The pod of a BMC runs the agent of its machine: the container's arguments and environment make the
agent manage the machine the BMC names, in the BMC's namespace, with one resource manager behind an IPMI
simulator and a Redfish server that listen on the two declared ports of the container, the simulator
on all addresses, the server with the credentials of the BMC's secret; on an API server that answers
it does start when the machine is there and the port is free; and with an empty credential the agent
crashes at its start instead of serving without protection.\<close>

theorem pod_runs_agent_of_bmc:
  fixes res :: "('m, 'w) VirtBMC outcome"
  assumes pod: "constructPodFromVirtualMachineBMC r b = Ok p" and ct: "ct \<in> set (pod_Containers p)"
    and ref: "spec_VirtualMachineRef (bmc_Spec b) = Some vm" "spec_AuthSecretRef (bmc_Spec b) = Some n"
    and secret: "secret_data (n, bmcUserKey) = Some u" "secret_data (n, bmcPasswordKey) = Some pw"
    and parse: "parses_flags parse" and names: "\<not> is_flag (bmc_Namespace b)" "\<not> is_flag vm"
    and client: "build_config kl (opt_KubeconfigPath flag_defaults) = Ok config"
      "kl_NewVirtForConfig kl config = Inr virtClient" "kl_NewCdiForConfig kl config = Inr cdiClient"
    and api: "vm_api (both_clients virtClient cdiClient) view" and run: "start_container kl now listen parse secret_data ct s = (res, s')"
  shows "if u = '''' \<or> pw = ''''
         then res = Panic (ExplicitPanic ''BMC credentials missing: both BMC_USERNAME and BMC_PASSWORD must be provided'')
         else (\<forall>a. res = Ok a \<longrightarrow> machine_id s' = (bmc_Namespace b, vm) \<and> rm_inv s'
           \<and> {(sim_port (vb_ipmiSimulator a), ProtocolUDP), (em_port (vb_redfishEmulator a), ProtocolTCP)}
               = (\<lambda>cp. (cp_ContainerPort cp, cp_Protocol cp)) ` set (ct_Ports ct)
           \<and> (let rm = vm_resource_manager (both_clients virtClient cdiClient)
              in vb_ipmiSimulator a = NewSimulator ''0.0.0.0'' (sim_port (vb_ipmiSimulator a)) rm
                 \<and> vb_redfishEmulator a = NewEmulator (em_port (vb_redfishEmulator a)) u pw rm)
           \<and> (vb_address a, vb_ipmiPort a, vb_redfishPort a)
               = (''0.0.0.0'', sim_port (vb_ipmiSimulator a), em_port (vb_redfishEmulator a)))
         \<and> (listen = None \<and> vm_api_live (both_clients virtClient cdiClient) view
              \<and> cl_vms (view (m_world s)) (bmc_Namespace b, vm) \<noteq> None \<longrightarrow> (\<exists>a. res = Ok a))"
proof -
  have args: "ct_Args ct = [''--address'', ''0.0.0.0'', ''--ipmi-port'', itoa ipmiPort, ''--redfish-port'', itoa redfishPort, bmc_Namespace b, vm]"
    and ports: "(\<lambda>cp. (cp_ContainerPort cp, cp_Protocol cp)) ` set (ct_Ports ct) = {(ipmiPort, ProtocolUDP), (redfishPort, ProtocolTCP)}"
    and env: "kubelet_env secret_data ct ''BMC_USERNAME'' = u" "kubelet_env secret_data ct ''BMC_PASSWORD'' = pw"
    using pod ct secret by (auto simp: constructPodFromVirtualMachineBMC_def ref Let_def kubelet_env_def)
  let ?o = "flag_defaults\<lparr>opt_Address := ''0.0.0.0'', opt_IPMIPort := ipmiPort, opt_RedfishPort := redfishPort,
              opt_BMCUser := u, opt_BMCPassword := pw\<rparr>"
  let ?v = "assemble (both_clients virtClient cdiClient) (bmc_Namespace b) vm ?o :: ('m, 'w) VirtBMC"
  have new: "NewVirtBMC kl (bmc_Namespace b) vm ?o t = (Ok ?v, t)" for t :: "'w vmrm"
    using client by (simp add: NewVirtBMC_def NewVirtClient_def NewCdiClient_def or_panic_def pureR_def flag_defaults_def
        andThen_def attempt_def)
  have start: "start_container kl now listen parse secret_data ct s =
      (if u = '''' \<or> pw = '''' then crash (ExplicitPanic ''BMC credentials missing: both BMC_USERNAME and BMC_PASSWORD must be provided'')
       else andThen (VirtBMC_Run now listen ?v) (\<lambda>_. ret ?v)) s"
    using parse names new
    by (simp add: start_container_def args parses_flags_def main_action_def run_agent_def env arg_def Let_def) (simp add: attempt_def)
  show ?thesis
  proof (cases "u = '''' \<or> pw = ''''")
    case True
    with run start show ?thesis by auto
  next
    case False
    have "machine_id s' = (bmc_Namespace b, vm) \<and> rm_inv s' \<and> a = ?v" if "res = Ok a" for a
    proof -
      from run start False that have "andThen (VirtBMC_Run now listen ?v) (\<lambda>_. ret ?v) s = (Ok a, s')" by simp
      then have run': "VirtBMC_Run now listen ?v s = (Ok (), s')"
        and a: "a = ?v" by (auto elim!: andThen_OkE)
      have "Initialize (both_clients virtClient cdiClient) now (bmc_Namespace b) vm s = (Ok (), s')"
        using run' by (auto simp: VirtBMC_Run_def attempt_def assemble_def Let_def split: prod.splits outcome.splits option.splits)
      from Initialize_id [OF api this] Initialize_inv [OF this] a show ?thesis by blast
    qed
    moreover have "\<exists>a. res = Ok a"
      if live: "listen = None" "vm_api_live (both_clients virtClient cdiClient) view"
        "cl_vms (view (m_world s)) (bmc_Namespace b, vm) \<noteq> None"
    proof -
      obtain t where "Initialize (both_clients virtClient cdiClient) now (bmc_Namespace b) vm s = (Ok (), t)"
        using Initialize_live [OF live(2,3)] by blast
      with live(1) have "VirtBMC_Run now listen ?v s = (Ok (), t)"
        by (simp add: VirtBMC_Run_def attempt_def assemble_def Let_def)
      with run start False show ?thesis by (auto simp: andThen_def attempt_def)
    qed
    ultimately show ?thesis
      using False ports by (auto simp: assemble_def flag_defaults_def Let_def NewSimulator_def NewEmulator_def)
  qed
qed

text \<open>In a cluster: no kubeconfig, and the configuration of the pod's service account.\<close>

definition demo_lib :: "(unit, vm_cluster) client_lib" where
  "demo_lib =
     \<lparr>kl_BuildConfigFromFlags = (\<lambda>_. Inl (PlainError ''no such file'')), kl_InClusterConfig = Inr (),
      kl_NewVirtForConfig = (\<lambda>_. Inr mem_client), kl_NewCdiForConfig = (\<lambda>_. Inr mem_client)\<rparr>"

lemma demo_clients:
  "build_config demo_lib kubeconfig = Ok ()" "kl_NewVirtForConfig demo_lib () = Inr mem_client"
  "kl_NewCdiForConfig demo_lib () = Inr mem_client" "both_clients mem_client mem_client = mem_client"
  by (simp_all add: demo_lib_def build_config_def or_panic_def both_clients_def)

definition demo_agent_bmc :: VirtualMachineBMC where
  "demo_agent_bmc = demo_bmc\<lparr>bmc_Namespace := ''ns'', bmc_Spec := \<lparr>spec_VirtualMachineRef = Some ''vm'', spec_AuthSecretRef = Some ''secret0''\<rparr>\<rparr>"

definition demo_secret :: "string \<times> string \<Rightarrow> string option" where
  "demo_secret = [(''secret0'', ''username'') \<mapsto> ''admin'', (''secret0'', ''password'') \<mapsto> ''secret'']"

text \<open>A parser that reads the three flags in this order, the inverse of \<open>itoa\<close> included.\<close>

definition atoi :: "string \<Rightarrow> nat" where
  "atoi s = foldl (\<lambda>n c. 10 * n + (of_char c - 48)) 0 s"

lemma atoi_itoa [simp]: "atoi (itoa n) = n"
proof (induction n rule: itoa.induct)
  case (1 n)
  have digit: "of_char (char_of (48 + d) :: char) - 48 = d" if "d < 10" for d :: nat
    using that by (simp add: of_char_of)
  show ?case
  proof (cases "n < 10")
    case True
    with digit show ?thesis by (simp add: itoa.simps [of n] atoi_def)
  next
    case False
    with 1 digit [of "n mod 10"] show ?thesis by (simp add: itoa.simps [of n] atoi_def)
  qed
qed

definition demo_parse :: "string list \<Rightarrow> Options \<Rightarrow> Options \<times> string list" where
  "demo_parse args opts =
     (opts\<lparr>opt_Address := args ! 1, opt_IPMIPort := atoi (args ! 3), opt_RedfishPort := atoi (args ! 5)\<rparr>, drop 6 args)"

lemma demo_parses: "parses_flags demo_parse"
  by (simp add: parses_flags_def demo_parse_def)

theorem pod_runs_agent_of_bmc_witness:
  "\<exists>p ct a s'. constructPodFromVirtualMachineBMC demo_rec demo_agent_bmc = Ok p \<and> ct \<in> set (pod_Containers p)
     \<and> start_container demo_lib ''now'' None demo_parse demo_secret ct (NewVirtualMachineResourceManager demo_cluster)
         = (Ok (a :: (unit, vm_cluster) VirtBMC), s')
     \<and> machine_id s' = (''ns'', ''vm'')
     \<and> (ProtocolUDP, sim_port (vb_ipmiSimulator a)) \<in> (\<lambda>cp. (cp_Protocol cp, cp_ContainerPort cp)) ` set (ct_Ports ct)"
proof -
  have ref: "spec_VirtualMachineRef (bmc_Spec demo_agent_bmc) = Some ''vm''" "spec_AuthSecretRef (bmc_Spec demo_agent_bmc) = Some ''secret0''"
    and names: "\<not> is_flag (bmc_Namespace demo_agent_bmc)" "\<not> is_flag ''vm''" and ns: "bmc_Namespace demo_agent_bmc = ''ns''"
    by (simp_all add: demo_agent_bmc_def is_flag_def)
  have sec: "demo_secret (''secret0'', bmcUserKey) = Some ''admin''" "demo_secret (''secret0'', bmcPasswordKey) = Some ''secret''"
    by (simp_all add: demo_secret_def bmc_names)
  obtain p ct where p: "constructPodFromVirtualMachineBMC demo_rec demo_agent_bmc = Ok p" "ct \<in> set (pod_Containers p)"
    by (simp add: constructPodFromVirtualMachineBMC_def ref Let_def)
  have api: "vm_api (both_clients mem_client mem_client) mem_view" "vm_api_live (both_clients mem_client mem_client) mem_view"
    by (simp_all add: demo_clients)
  have there: "cl_vms (mem_view (m_world (NewVirtualMachineResourceManager demo_cluster))) (''ns'', ''vm'') \<noteq> None"
    by (simp add: NewVirtualMachineResourceManager_def mem_view_def demo_cluster_def)
  obtain res :: "(unit, vm_cluster) VirtBMC outcome" and s' where run: "start_container demo_lib ''now'' None demo_parse demo_secret ct
      (NewVirtualMachineResourceManager demo_cluster) = (res, s')" by force
  note R = pod_runs_agent_of_bmc [OF p ref sec demo_parses names demo_clients(1-3) api(1) run]
  from R there api(2) ns obtain a where "res = Ok a" by auto
  with R ns have "machine_id s' = (''ns'', ''vm'')"
    and "{(sim_port (vb_ipmiSimulator a), ProtocolUDP), (em_port (vb_redfishEmulator a), ProtocolTCP)}
      = (\<lambda>cp. (cp_ContainerPort cp, cp_Protocol cp)) ` set (ct_Ports ct)" by auto
  moreover from this(2) have "(sim_port (vb_ipmiSimulator a), ProtocolUDP)
      \<in> (\<lambda>cp. (cp_ContainerPort cp, cp_Protocol cp)) ` set (ct_Ports ct)" by blast
  ultimately show ?thesis using p run \<open>res = Ok a\<close> by (intro exI [of _ p] exI [of _ ct] exI [of _ a] exI [of _ s']) force
qed

end
