(* ===== verification/Routing.thy ===== *)
theory Routing
  imports RedfishServer "HOL-Library.Sublist"
begin

text \<open>
  Routing: the routes of pkg/generated/redfish/server/api_default.go, their registration by
  \<open>NewRouter\<close> of routers.go, and what the program relies on of gorilla/mux, which is not part of it:
  the routes are tried in the order of their registration, a variable of a pattern stands for one
  non-empty segment of the path, and a path that differs from the pattern of its route in the
  trailing slash alone is redirected (\<open>StrictSlash\<close>).
\<close>

section \<open>Routes\<close>

text \<open>
  A pattern is held as the mux reads it: its segments, and whether a slash ends it.  A handler is
  known by the name of its controller method.
\<close>

datatype segment = Lit string | Var string

record Route =
  rt_Method :: string
  rt_Pattern :: "segment list"
  rt_Slash :: bool
  rt_HandlerFunc :: string

type_synonym Routes = "(string \<times> Route) list"

text \<open>The methods as the table spells them, and as \<open>strings.ToUpper\<close> makes them.\<close>

datatype verb = Get | Put | Post | Patch | Delete

fun verb_name :: "verb \<Rightarrow> string" where
  "verb_name Get = ''Get''"
| "verb_name Put = ''Put''"
| "verb_name Post = ''Post''"
| "verb_name Patch = ''Patch''"
| "verb_name Delete = ''Delete''"

fun verb_upper :: "verb \<Rightarrow> string" where
  "verb_upper Get = ''GET''"
| "verb_upper Put = ''PUT''"
| "verb_upper Post = ''POST''"
| "verb_upper Patch = ''PATCH''"
| "verb_upper Delete = ''DELETE''"

lemma verb_upper_inj: "verb_upper v = verb_upper v' \<Longrightarrow> v = v'"
  by (cases v; cases v'; simp)

text \<open>
  The key of an entry is the name of its handler: a stem, which the entries of a path share, and the
  method.  Stems and patterns are given from a base, \<open>under base stem pre rows\<close> are the entries of
  the paths below \<open>pre\<close>.
\<close>

definition entry :: "string \<Rightarrow> segment list \<Rightarrow> verb \<Rightarrow> string \<times> Route" where
  "entry stem pat v =
     (stem @ verb_name v,
      \<lparr>rt_Method = verb_upper v, rt_Pattern = pat, rt_Slash = False, rt_HandlerFunc = stem @ verb_name v\<rparr>)"

definition path_entries :: "string \<Rightarrow> segment list \<Rightarrow> verb list \<Rightarrow> Routes" where
  "path_entries stem pat vs = map (entry stem pat) vs"

definition under ::
  "string \<times> segment list \<Rightarrow> string \<Rightarrow> segment list \<Rightarrow> (string \<times> segment list \<times> verb list) list \<Rightarrow> Routes" where
  "under base stem pre rows =
     concat (map (\<lambda>(st, sg, vs). path_entries (fst base @ stem @ st) (snd base @ pre @ sg) vs) rows)"

definition service_root :: "segment list" where
  "service_root = [Lit ''redfish'', Lit ''v1'']"

definition system_path :: "segment list" where
  "system_path = service_root @ [Lit ''Systems'', Var ''ComputerSystemId'']"

definition manager_path :: "segment list" where
  "manager_path = service_root @ [Lit ''Managers'', Var ''ManagerId'']"

definition at_root :: "string \<times> segment list" where
  "at_root = (''RedfishV1'', service_root)"

definition at_system :: "string \<times> segment list" where
  "at_system = (''RedfishV1SystemsComputerSystemId'', system_path)"

definition at_manager :: "string \<times> segment list" where
  "at_manager = (''RedfishV1ManagersManagerId'', manager_path)"

section \<open>Paths\<close>

fun split_slash :: "string \<Rightarrow> string list" where
  "split_slash [] = [[]]"
| "split_slash (c # cs) =
     (if c = CHR ''/'' then [] # split_slash cs
      else case split_slash cs of [] \<Rightarrow> [[c]] | w # ws \<Rightarrow> (c # w) # ws)"

definition path_slash :: "string \<Rightarrow> bool" where
  "path_slash p \<longleftrightarrow> last (split_slash p) = ''''"

definition path_segments :: "string \<Rightarrow> string list" where
  "path_segments p = (let ws = tl (split_slash p) in if path_slash p then butlast ws else ws)"

text \<open>A path the mux takes as it is; any other it redirects to its clean form before routing.\<close>

definition clean_path :: "string \<Rightarrow> bool" where
  "clean_path p \<longleftrightarrow> p \<noteq> '''' \<and> hd p = CHR ''/'' \<and>
     list_all (\<lambda>w. w \<noteq> '''' \<and> w \<noteq> ''.'' \<and> w \<noteq> ''..'') (path_segments p)"

fun fits :: "segment list \<Rightarrow> string list \<Rightarrow> bool" where
  "fits [] [] \<longleftrightarrow> True"
| "fits (Lit l # ps) (w # ws) \<longleftrightarrow> l = w \<and> fits ps ws"
| "fits (Var x # ps) (w # ws) \<longleftrightarrow> w \<noteq> '''' \<and> fits ps ws"
| "fits _ _ \<longleftrightarrow> False"

fun bindings :: "segment list \<Rightarrow> string list \<Rightarrow> (string \<times> string) list" where
  "bindings (Lit l # ps) (w # ws) = bindings ps ws"
| "bindings (Var x # ps) (w # ws) = (x, w) # bindings ps ws"
| "bindings _ _ = []"

definition matches :: "Route \<Rightarrow> 'b request \<Rightarrow> bool" where
  "matches rt r \<longleftrightarrow> rt_Method rt = req_method r \<and> fits (rt_Pattern rt) (path_segments (req_path r))"

section \<open>The mux\<close>

text \<open>
  What the mux makes of a request: no route, a route of another method only, a redirection (to the
  clean path, or for a route to the path with its slash), or a route with the values of its variables.
\<close>

datatype mux_outcome =
    MuxNotFound
  | MuxMethodNotAllowed
  | MuxMoved "string option" "payload response"
  | MuxFound string "(string \<times> string) list"

type_synonym 'b mux = "Routes \<Rightarrow> 'b request \<Rightarrow> mux_outcome"

text \<open>The documented behaviour of gorilla/mux with \<open>StrictSlash(true)\<close>.\<close>

definition documented_mux :: "'b mux \<Rightarrow> bool" where
  "documented_mux mx \<longleftrightarrow>
     (\<forall>routes r.
        if clean_path (req_path r)
        then (case find (\<lambda>(k, rt). matches rt r) routes of
                None \<Rightarrow> mx routes r = MuxNotFound \<or> mx routes r = MuxMethodNotAllowed
              | Some (k, rt) \<Rightarrow>
                  if rt_Slash rt = path_slash (req_path r)
                  then mx routes r = MuxFound k (bindings (rt_Pattern rt) (path_segments (req_path r)))
                  else \<exists>resp. mx routes r = MuxMoved (Some k) resp \<and> resp_code resp = 301)
        else \<exists>resp. mx routes r = MuxMoved None resp \<and> resp_code resp = 301)"

lemma mux_find:
  assumes "documented_mux mx" and "clean_path (req_path r)" and "find (\<lambda>(k, rt). matches rt r) routes = Some (k, rt)"
  shows "if rt_Slash rt = path_slash (req_path r)
    then mx routes r = MuxFound k (bindings (rt_Pattern rt) (path_segments (req_path r)))
    else \<exists>resp. mx routes r = MuxMoved (Some k) resp \<and> resp_code resp = 301"
  using assms(1)[unfolded documented_mux_def, rule_format, of r routes] assms(2,3) by simp

lemma mux_outcomes:
  assumes "documented_mux mx"
  obtains
    (unclean) resp where "\<not> clean_path (req_path r)" "mx routes r = MuxMoved None resp" "resp_code resp = 301"
  | (missed) "mx routes r = MuxNotFound"
  | (wrong_method) "mx routes r = MuxMethodNotAllowed"
  | (moved) k rt resp where "clean_path (req_path r)" "find (\<lambda>(k, rt). matches rt r) routes = Some (k, rt)"
      "rt_Slash rt \<noteq> path_slash (req_path r)" "mx routes r = MuxMoved (Some k) resp" "resp_code resp = 301"
  | (found) k rt where "clean_path (req_path r)" "find (\<lambda>(k, rt). matches rt r) routes = Some (k, rt)"
      "mx routes r = MuxFound k (bindings (rt_Pattern rt) (path_segments (req_path r)))"
  using assms[unfolded documented_mux_def, rule_format, of r routes]
  by (auto split: if_splits option.splits)

section \<open>Registration\<close>

text \<open>
  \<open>NewRouter\<close> ranges over a Go map, so in any order.  The subrouter that holds the protected
  routes is made first: the mux tries it before the public routes.
\<close>

type_synonym registration_order = "Routes \<Rightarrow> Routes"

definition any_registration :: "registration_order \<Rightarrow> bool" where
  "any_registration ord \<longleftrightarrow> (\<forall>routes. mset (ord routes) = mset routes)"

definition NewRouter :: "registration_order \<Rightarrow> Routes \<Rightarrow> Routes" where
  "NewRouter ord routes =
     filter (\<lambda>(name, _). name \<notin> set public_routes) (ord routes) @
     filter (\<lambda>(name, _). name \<in> set public_routes) (ord routes)"

definition method_not_allowed :: "payload response" where
  "method_not_allowed = \<lparr>resp_code = 405, resp_headers = [], resp_body = NoBody\<rparr>"

text \<open>
  One request through the router: the redirection of a protected route is behind the middleware as
  its handler is.
\<close>

definition router_serve ::
  "'b mux \<Rightarrow> Routes \<Rightarrow> 'b wire \<Rightarrow> string \<Rightarrow> orders \<Rightarrow> 'm Emulator \<Rightarrow> ('m redfish, 'b, payload) http_handler" where
  "router_serve mx routes wi uuid ord em r =
     (case mx routes r of
        MuxNotFound \<Rightarrow> ret mux_not_found
      | MuxMethodNotAllowed \<Rightarrow> ret method_not_allowed
      | MuxMoved None resp \<Rightarrow> ret resp
      | MuxMoved (Some name) resp \<Rightarrow>
          if name \<in> set public_routes then ret resp
          else AuthMiddleware rf_tokens (em_bmcUser em) (em_bmcPassword em) (\<lambda>_. ret resp) r
      | MuxFound name vars \<Rightarrow> redfish_serve (wi\<lparr>wi_mux := (\<lambda>_. Some (name, vars))\<rparr>) uuid ord em r)"

section \<open>Patterns that no path fits both of\<close>

fun overlap :: "segment list \<Rightarrow> segment list \<Rightarrow> bool" where
  "overlap [] [] \<longleftrightarrow> True"
| "overlap (Lit x # ps) (Lit y # qs) \<longleftrightarrow> x = y \<and> overlap ps qs"
| "overlap (p # ps) (q # qs) \<longleftrightarrow> overlap ps qs"
| "overlap _ _ \<longleftrightarrow> False"

lemma fits_overlap: "fits ps ws \<Longrightarrow> fits qs ws \<Longrightarrow> overlap ps qs"
proof (induction ps ws arbitrary: qs rule: fits.induct)
  case (2 l ps w ws)
  then show ?case by (cases "(qs, w # ws)" rule: fits.cases) auto
next
  case (3 x ps w ws)
  then show ?case by (cases "(qs, w # ws)" rule: fits.cases) auto
qed (auto elim: fits.elims)

text \<open>Two patterns that part within the common prefix of a group of paths part on every path of it.\<close>

fun diverge :: "segment list \<Rightarrow> segment list \<Rightarrow> bool" where
  "diverge (Lit x # ps) (Lit y # qs) \<longleftrightarrow> x \<noteq> y \<or> diverge ps qs"
| "diverge (p # ps) (q # qs) \<longleftrightarrow> diverge ps qs"
| "diverge (p # ps) [] \<longleftrightarrow> True"
| "diverge [] qs \<longleftrightarrow> False"

lemma diverge_overlap: "diverge pre p \<Longrightarrow> \<not> overlap (pre @ sg) p"
  by (induction pre p rule: diverge.induct) auto

section \<open>The routes the agent serves\<close>

text \<open>
  The entries whose service methods do something; all others end in a stub.  The entry of the path
  with the slash is the only one whose key is not the name of its handler.
\<close>

definition root_slash :: "string \<times> Route" where
  "root_slash =
     (''RedfishV1Get_0'',
      \<lparr>rt_Method = ''GET'', rt_Pattern = service_root, rt_Slash = True, rt_HandlerFunc = ''RedfishV1Get''\<rparr>)"

definition media_path :: "segment list" where
  "media_path = manager_path @ [Lit ''VirtualMedia'', Var ''VirtualMediaId'']"

definition sessions_path :: "segment list" where
  "sessions_path = service_root @ [Lit ''SessionService'', Lit ''Sessions'']"

definition served_list :: "(string \<times> segment list \<times> verb) list" where
  "served_list =
     [(''RedfishV1'', service_root, Get),
      (''RedfishV1Metadata'', service_root @ [Lit ''$metadata''], Get),
      (''RedfishV1Managers'', service_root @ [Lit ''Managers''], Get),
      (''RedfishV1ManagersManagerId'', manager_path, Get),
      (''RedfishV1ManagersManagerIdVirtualMedia'', manager_path @ [Lit ''VirtualMedia''], Get),
      (''RedfishV1ManagersManagerIdVirtualMediaVirtualMediaId'', media_path, Get),
      (''RedfishV1ManagersManagerIdVirtualMediaVirtualMediaIdActionsVirtualMediaEjectMedia'',
        media_path @ [Lit ''Actions'', Lit ''VirtualMedia.EjectMedia''], Post),
      (''RedfishV1ManagersManagerIdVirtualMediaVirtualMediaIdActionsVirtualMediaInsertMedia'',
        media_path @ [Lit ''Actions'', Lit ''VirtualMedia.InsertMedia''], Post),
      (''RedfishV1SessionServiceSessions'', sessions_path, Post),
      (''RedfishV1SessionServiceSessionsSessionId'', sessions_path @ [Var ''SessionId''], Get),
      (''RedfishV1SessionServiceSessionsSessionId'', sessions_path @ [Var ''SessionId''], Delete),
      (''RedfishV1Systems'', service_root @ [Lit ''Systems''], Get),
      (''RedfishV1SystemsComputerSystemId'', system_path, Get),
      (''RedfishV1SystemsComputerSystemId'', system_path, Patch),
      (''RedfishV1SystemsComputerSystemIdActionsComputerSystemReset'',
        system_path @ [Lit ''Actions'', Lit ''ComputerSystem.Reset''], Post),
      (''RedfishV1SystemsComputerSystemIdActionsComputerSystemSetDefaultBootOrder'',
        system_path @ [Lit ''Actions'', Lit ''ComputerSystem.SetDefaultBootOrder''], Post),
      (''RedfishV1SystemsComputerSystemIdOperatingSystem'', system_path @ [Lit ''OperatingSystem''], Get)]"

definition served_routes :: Routes where
  "served_routes = root_slash # map (\<lambda>(stem, pat, v). entry stem pat v) served_list"

definition served_names :: "string list" where
  "served_names = map fst served_routes"

text \<open>An entry that neither shares its name with a served one nor can take a request from it.\<close>

definition apart :: "Route \<Rightarrow> Route \<Rightarrow> bool" where
  "apart a b \<longleftrightarrow> rt_Method a \<noteq> rt_Method b \<or> \<not> overlap (rt_Pattern a) (rt_Pattern b)"

definition clear_entry :: "string \<times> Route \<Rightarrow> bool" where
  "clear_entry e \<longleftrightarrow> list_all (\<lambda>(k, rt). fst e \<noteq> k \<and> apart (snd e) rt) served_routes"

definition settled :: "string \<times> Route \<Rightarrow> bool" where
  "settled e \<longleftrightarrow> e \<in> set served_routes \<or> clear_entry e"

text \<open>
  A whole group is clear when its stem starts no served name and its prefix parts from every served
  pattern; a path is when its own stem and pattern do.
\<close>

definition foreign :: "string \<Rightarrow> segment list \<Rightarrow> bool" where
  "foreign stem pre \<longleftrightarrow> list_all (\<lambda>(k, rt). \<not> prefix stem k \<and> diverge pre (rt_Pattern rt)) served_routes"

lemma foreign_clear:
  assumes "foreign stem pre"
  shows "clear_entry (entry (stem @ st) (pre @ sg) v)"
proof -
  have "stem @ st @ verb_name v \<noteq> k" if "\<not> prefix stem k" for k
    using that by (metis prefixI append.assoc)
  then show ?thesis
    using assms by (fastforce simp: foreign_def clear_entry_def apart_def entry_def list_all_iff dest: diverge_overlap)
qed

definition settled_path :: "string \<Rightarrow> segment list \<Rightarrow> verb list \<Rightarrow> bool" where
  "settled_path stem pat vs \<longleftrightarrow> list_all settled (path_entries stem pat vs)"

lemma settled_path_foreign:
  "foreign (fst base @ stem) (snd base @ pat) \<Longrightarrow> settled_path (fst base @ stem) (snd base @ pat) vs"
  using foreign_clear [of "fst base @ stem" "snd base @ pat" "[]" "[]"]
  by (auto simp: settled_path_def path_entries_def list_all_iff settled_def)

lemma settled_foreign: "foreign (fst base @ stem) (snd base @ pre) \<Longrightarrow> list_all settled (under base stem pre rows)"
  using foreign_clear [of "fst base @ stem" "snd base @ pre"]
  by (auto simp: under_def path_entries_def list_all_iff settled_def)

lemma settled_rows:
  "list_all (\<lambda>(st, sg, vs). settled_path (fst base @ stem @ st) (snd base @ pre @ sg) vs) rows
    \<Longrightarrow> list_all settled (under base stem pre rows)"
  by (fastforce simp: under_def list_all_iff settled_path_def)

lemma settled_concat:
  "list_all settled (concat [])"
  "list_all settled es \<Longrightarrow> list_all settled (concat ess) \<Longrightarrow> list_all settled (concat (es # ess))"
  by auto

lemmas served_eval = served_routes_def [unfolded served_list_def entry_def root_slash_def media_path_def manager_path_def
  sessions_path_def system_path_def service_root_def, simplified]

text \<open>What parts a group from the served entries, by its base.\<close>

definition parted :: "string \<Rightarrow> string \<Rightarrow> bool" where
  "parted a b \<longleftrightarrow> \<not> prefix a b \<and> \<not> prefix b a"

lemma parted_prefix: "parted a b \<Longrightarrow> prefix (p @ b) k \<Longrightarrow> \<not> prefix (p @ a) k"
  by (auto simp: parted_def prefix_def append_eq_append_conv2)

definition served_heads :: "(string \<times> string) list" where
  "served_heads = [(''Metadata'', ''$metadata''), (''Managers'', ''Managers''), (''SessionService'', ''SessionService''),
     (''Systems'', ''Systems'')]"

lemma served_by_heads:
  "list_all (\<lambda>(k, rt). k \<in> {''RedfishV1Get'', ''RedfishV1Get_0''} \<and> rt_Pattern rt = service_root \<or>
     list_ex (\<lambda>(h, x). prefix (''RedfishV1'' @ h) k \<and> take 3 (rt_Pattern rt) = service_root @ [Lit x]) served_heads)
     served_routes"
  by (simp add: served_eval served_heads_def service_root_def)

lemma foreign_root:
  assumes "parted stem ''Get''" and "list_all (\<lambda>(h, x). parted stem h \<and> x \<noteq> y) served_heads"
  shows "foreign (fst at_root @ stem) (snd at_root @ Lit y # pre)"
proof -
  have "\<not> prefix (''RedfishV1'' @ stem) k \<and> diverge (service_root @ Lit y # pre) (rt_Pattern rt)"
    if "(k, rt) \<in> set served_routes" for k rt
  proof -
    from that served_by_heads consider
      (root) t where "k = ''RedfishV1'' @ ''Get'' @ t" "rt_Pattern rt = service_root"
    | (head) h x where "(h, x) \<in> set served_heads" "prefix (''RedfishV1'' @ h) k" "take 3 (rt_Pattern rt) = service_root @ [Lit x]"
      by (fastforce simp: list_all_iff list_ex_iff)
    then show ?thesis
    proof cases
      case root
      then have "prefix (''RedfishV1'' @ ''Get'') k" by simp
      from parted_prefix [OF assms(1) this] root(2) show ?thesis by (simp add: service_root_def)
    next
      case head
      then have "parted stem h" "x \<noteq> y" using assms(2) by (auto simp: list_all_iff)
      moreover obtain qs where "rt_Pattern rt = service_root @ [Lit x] @ qs"
        using head(3) by (metis append_take_drop_id append.assoc)
      ultimately show ?thesis using parted_prefix [OF _ head(2)] by (simp add: service_root_def)
    qed
  qed
  then show ?thesis by (auto simp: foreign_def at_root_def list_all_iff)
qed

lemma foreign_system:
  assumes "list_all (\<lambda>k. \<not> prefix stem k)
      [''Get'', ''Patch'', ''ActionsComputerSystemResetPost'', ''ActionsComputerSystemSetDefaultBootOrderPost'', ''OperatingSystemGet'']"
    and "list_all (diverge pre)
      [[], [Lit ''Actions'', Lit ''ComputerSystem.Reset''], [Lit ''Actions'', Lit ''ComputerSystem.SetDefaultBootOrder''],
       [Lit ''OperatingSystem'']]"
  shows "foreign (fst at_system @ stem) (snd at_system @ pre)"
  using assms
  by (simp add: foreign_def served_eval at_system_def system_path_def service_root_def)

lemma foreign_manager:
  assumes "list_all (\<lambda>k. \<not> prefix stem k)
      [''Get'', ''VirtualMediaGet'', ''VirtualMediaVirtualMediaIdGet'',
       ''VirtualMediaVirtualMediaIdActionsVirtualMediaEjectMediaPost'',
       ''VirtualMediaVirtualMediaIdActionsVirtualMediaInsertMediaPost'']"
    and "list_all (diverge pre)
      [[], [Lit ''VirtualMedia''], [Lit ''VirtualMedia'', Var ''VirtualMediaId''],
       [Lit ''VirtualMedia'', Var ''VirtualMediaId'', Lit ''Actions'', Lit ''VirtualMedia.EjectMedia''],
       [Lit ''VirtualMedia'', Var ''VirtualMediaId'', Lit ''Actions'', Lit ''VirtualMedia.InsertMedia'']]"
  shows "foreign (fst at_manager @ stem) (snd at_manager @ pre)"
  using assms
  by (simp add: foreign_def served_eval at_manager_def manager_path_def service_root_def)

text \<open>
  The same as rules, which take stems and paths apart letter by letter and segment by segment: a
  group is shown to be foreign by resolution alone.
\<close>

lemma far_root:
  "parted stem ''Get'' \<Longrightarrow> parted stem ''Metadata'' \<Longrightarrow> parted stem ''Managers'' \<Longrightarrow> parted stem ''SessionService''
    \<Longrightarrow> parted stem ''Systems'' \<Longrightarrow> ''$metadata'' \<noteq> y \<Longrightarrow> ''Managers'' \<noteq> y \<Longrightarrow> ''SessionService'' \<noteq> y \<Longrightarrow> ''Systems'' \<noteq> y
    \<Longrightarrow> foreign (fst at_root @ stem) (snd at_root @ Lit y # pre)"
  by (rule foreign_root) (simp_all add: served_heads_def)

lemma far_system:
  "\<not> prefix stem ''Get'' \<Longrightarrow> \<not> prefix stem ''Patch'' \<Longrightarrow> \<not> prefix stem ''ActionsComputerSystemResetPost''
    \<Longrightarrow> \<not> prefix stem ''ActionsComputerSystemSetDefaultBootOrderPost'' \<Longrightarrow> \<not> prefix stem ''OperatingSystemGet''
    \<Longrightarrow> diverge pre [] \<Longrightarrow> diverge pre [Lit ''Actions'', Lit ''ComputerSystem.Reset'']
    \<Longrightarrow> diverge pre [Lit ''Actions'', Lit ''ComputerSystem.SetDefaultBootOrder''] \<Longrightarrow> diverge pre [Lit ''OperatingSystem'']
    \<Longrightarrow> foreign (fst at_system @ stem) (snd at_system @ pre)"
  by (rule foreign_system) simp_all

lemma far_manager:
  "\<not> prefix stem ''Get'' \<Longrightarrow> \<not> prefix stem ''VirtualMediaGet'' \<Longrightarrow> \<not> prefix stem ''VirtualMediaVirtualMediaIdGet''
    \<Longrightarrow> \<not> prefix stem ''VirtualMediaVirtualMediaIdActionsVirtualMediaEjectMediaPost''
    \<Longrightarrow> \<not> prefix stem ''VirtualMediaVirtualMediaIdActionsVirtualMediaInsertMediaPost''
    \<Longrightarrow> diverge pre [] \<Longrightarrow> diverge pre [Lit ''VirtualMedia''] \<Longrightarrow> diverge pre [Lit ''VirtualMedia'', Var ''VirtualMediaId'']
    \<Longrightarrow> diverge pre [Lit ''VirtualMedia'', Var ''VirtualMediaId'', Lit ''Actions'', Lit ''VirtualMedia.EjectMedia'']
    \<Longrightarrow> diverge pre [Lit ''VirtualMedia'', Var ''VirtualMediaId'', Lit ''Actions'', Lit ''VirtualMedia.InsertMedia'']
    \<Longrightarrow> foreign (fst at_manager @ stem) (snd at_manager @ pre)"
  by (rule foreign_manager) simp_all

definition foreign_rows ::
  "string \<times> segment list \<Rightarrow> string \<Rightarrow> segment list \<Rightarrow> (string \<times> segment list \<times> verb list) list \<Rightarrow> bool" where
  "foreign_rows base stem pre rows \<longleftrightarrow>
     list_all (\<lambda>(st, sg, vs). foreign (fst base @ stem @ st) (snd base @ pre @ sg)) rows"

lemma settled_foreign_rows: "foreign_rows base stem pre rows \<Longrightarrow> list_all settled (under base stem pre rows)"
  using settled_path_foreign by (intro settled_rows) (fastforce simp: foreign_rows_def list_all_iff)

lemma foreign_rows_rules:
  "foreign_rows base stem pre []"
  "foreign (fst base @ stem @ st) (snd base @ pre @ sg) \<Longrightarrow> foreign_rows base stem pre rows
    \<Longrightarrow> foreign_rows base stem pre ((st, sg, vs) # rows)"
  by (simp_all add: foreign_rows_def)

lemma append_rules:
  "\<not> prefix t ds \<Longrightarrow> \<not> prefix ([] @ t) ds" "\<not> prefix (cs @ t) ds \<Longrightarrow> \<not> prefix ((c # cs) @ t) (c # ds)"
  "c \<noteq> d \<Longrightarrow> \<not> prefix ((c # cs) @ t) (d # ds)"
  "diverge qs q \<Longrightarrow> diverge ([] @ qs) q" "diverge ((x # xs) @ qs) q \<longleftrightarrow> diverge (x # (xs @ qs)) q"
  by auto

lemma parting_rules:
  "parted cs ds \<Longrightarrow> parted (c # cs) (c # ds)" "c \<noteq> d \<Longrightarrow> parted (c # cs) (d # ds)"
  "\<not> prefix cs ds \<Longrightarrow> \<not> prefix (c # cs) (c # ds)" "c \<noteq> d \<Longrightarrow> \<not> prefix (c # cs) (d # ds)" "\<not> prefix (c # cs) []"
  "cs \<noteq> ds \<Longrightarrow> c # cs \<noteq> c # ds" "c \<noteq> d \<Longrightarrow> c # cs \<noteq> d # ds" "[] \<noteq> d # ds" "c # cs \<noteq> []"
  "diverge (p # ps) []" "diverge ps qs \<Longrightarrow> diverge (Lit x # ps) (Lit x # qs)"
  "x \<noteq> y \<Longrightarrow> diverge (Lit x # ps) (Lit y # qs)" "diverge ps qs \<Longrightarrow> diverge (Var v # ps) (q # qs)"
  "diverge ps qs \<Longrightarrow> diverge (p # ps) (Var v # qs)"
  by (simp_all add: parted_def)

lemmas parting = parting_rules append_rules(1-4) append_rules(5) [THEN iffD2] far_root far_system far_manager foreign_rows_rules

text \<open>Next to the served entries single entries are compared, and only with those of the same method.\<close>

lemma verb_suffix: "stem @ verb_name v = stem' @ verb_name v' \<Longrightarrow> v = v' \<and> stem = stem'"
  by (drule arg_cong [where f = rev]; cases v; cases v'; simp)

definition decided :: "string \<Rightarrow> segment list \<Rightarrow> verb \<Rightarrow> bool" where
  "decided stem pat v \<longleftrightarrow>
     list_all (\<lambda>(stem', pat', v').
       if v = v' then (if pat = pat' then stem = stem' else stem \<noteq> stem' \<and> \<not> overlap pat pat') else True) served_list
     \<and> (if v = Get then pat = service_root \<or> \<not> overlap pat service_root else True)"

lemma decided_settled:
  assumes "decided stem pat v"
  shows "settled (entry stem pat v)"
proof (cases "(stem, pat, v) \<in> set served_list")
  case True
  then show ?thesis by (force simp: settled_def served_routes_def)
next
  case False
  have root: "(''RedfishV1'', service_root, Get) \<in> set served_list" by (simp add: served_list_def)
  have clear: "stem @ verb_name v \<noteq> stem' @ verb_name v' \<and> (verb_upper v \<noteq> verb_upper v' \<or> \<not> overlap pat pat')"
    if "(stem', pat', v') \<in> set served_list" for stem' pat' v'
  proof (cases "v = v'")
    case True
    then have "if pat = pat' then stem = stem' else stem \<noteq> stem' \<and> \<not> overlap pat pat'"
      using assms that by (auto simp: decided_def list_all_iff)
    with True that False show ?thesis by (auto split: if_splits dest: verb_suffix)
  qed (use verb_suffix verb_upper_inj in blast)
  moreover have "stem @ verb_name v \<noteq> ''RedfishV1Get_0''"
    by (cases v) (auto dest: arg_cong [where f = "last"])
  moreover have "verb_upper v \<noteq> ''GET'' \<or> \<not> overlap pat service_root"
    using assms False root by (cases v) (auto simp: decided_def list_all_iff split: if_splits)
  ultimately have "clear_entry (entry stem pat v)"
    by (auto simp: clear_entry_def served_routes_def list_all_iff apart_def entry_def root_slash_def)
  then show ?thesis by (simp add: settled_def)
qed

lemma settled_decided:
  "list_all (\<lambda>(st, sg, vs). list_all (decided (fst base @ stem @ st) (snd base @ pre @ sg)) vs) rows
    \<Longrightarrow> list_all settled (under base stem pre rows)"
  using decided_settled by (fastforce simp: under_def path_entries_def list_all_iff)

lemmas settled_near = decided_def served_list_def media_path_def sessions_path_def
  at_root_def at_system_def at_manager_def manager_path_def system_path_def service_root_def

end
