(* ===== verification/RoutesComposition.thy ===== *)
theory RoutesComposition
  imports Routing
begin

text \<open>
  The entries of \<open>Routes\<close> (api_default.go) for the composition service.  None shares its name with a served entry or
  takes a request from one, unless it is a served entry itself.
\<close>

definition Routes_CompositionService_1 :: Routes where
  "Routes_CompositionService_1 =
     under at_root ''CompositionService''
       [Lit ''CompositionService'']
       [('''', [], [Get, Put, Patch]),
        (''ActionsCompositionServiceCompose'', [Lit ''Actions'', Lit ''CompositionService.Compose''], [Post]),
        (''ActivePool'', [Lit ''ActivePool''], [Get, Post]),
        (''CompositionReservations'', [Lit ''CompositionReservations''], [Get]),
        (''CompositionReservationsCompositionReservationId'', [Lit ''CompositionReservations'', Var ''CompositionReservationId''], [Get, Delete]),
        (''FreePool'', [Lit ''FreePool''], [Get, Post]),
        (''ResourceBlocks'', [Lit ''ResourceBlocks''], [Get, Post]),
        (''ResourceBlocksResourceBlockId'', [Lit ''ResourceBlocks'', Var ''ResourceBlockId''], [Get, Put, Delete, Patch])]"

definition Routes_CompositionService_2 :: Routes where
  "Routes_CompositionService_2 =
     under at_root ''CompositionServiceResourceBlocksResourceBlockIdDrivesDriveId''
       [Lit ''CompositionService'', Lit ''ResourceBlocks'', Var ''ResourceBlockId'', Lit ''Drives'', Var ''DriveId'']
       [('''', [], [Get, Put, Patch]),
        (''ActionsDriveReset'', [Lit ''Actions'', Lit ''Drive.Reset''], [Post]),
        (''ActionsDriveRevertToOriginalFactoryState'', [Lit ''Actions'', Lit ''Drive.RevertToOriginalFactoryState''], [Post]),
        (''ActionsDriveSecureErase'', [Lit ''Actions'', Lit ''Drive.SecureErase''], [Post]),
        (''Assembly'', [Lit ''Assembly''], [Get, Put, Patch]),
        (''Certificates'', [Lit ''Certificates''], [Get, Post]),
        (''CertificatesCertificateId'', [Lit ''Certificates'', Var ''CertificateId''], [Get, Put, Delete, Patch]),
        (''CertificatesCertificateIdActionsCertificateRekey'', [Lit ''Certificates'', Var ''CertificateId'', Lit ''Actions'', Lit ''Certificate.Rekey''], [Post]),
        (''CertificatesCertificateIdActionsCertificateRenew'', [Lit ''Certificates'', Var ''CertificateId'', Lit ''Actions'', Lit ''Certificate.Renew''], [Post]),
        (''EnvironmentMetrics'', [Lit ''EnvironmentMetrics''], [Get, Put, Patch]),
        (''EnvironmentMetricsActionsEnvironmentMetricsResetMetrics'', [Lit ''EnvironmentMetrics'', Lit ''Actions'', Lit ''EnvironmentMetrics.ResetMetrics''], [Post]),
        (''EnvironmentMetricsActionsEnvironmentMetricsResetToDefaults'', [Lit ''EnvironmentMetrics'', Lit ''Actions'', Lit ''EnvironmentMetrics.ResetToDefaults''], [Post]),
        (''Metrics'', [Lit ''Metrics''], [Get])]"

definition Routes_CompositionService_3 :: Routes where
  "Routes_CompositionService_3 =
     under at_root ''CompositionServiceResourceBlocksResourceBlockId''
       [Lit ''CompositionService'', Lit ''ResourceBlocks'', Var ''ResourceBlockId'']
       [(''EthernetInterfacesEthernetInterfaceId'', [Lit ''EthernetInterfaces'', Var ''EthernetInterfaceId''], [Get, Put, Delete, Patch]),
        (''EthernetInterfacesEthernetInterfaceIdVLANs'', [Lit ''EthernetInterfaces'', Var ''EthernetInterfaceId'', Lit ''VLANs''], [Get, Post]),
        (''EthernetInterfacesEthernetInterfaceIdVLANsVLanNetworkInterfaceId'', [Lit ''EthernetInterfaces'', Var ''EthernetInterfaceId'', Lit ''VLANs'', Var ''VLanNetworkInterfaceId''], [Get, Put, Delete, Patch]),
        (''MemoryMemoryId'', [Lit ''Memory'', Var ''MemoryId''], [Get, Put, Patch])]"

definition Routes_CompositionService_4 :: Routes where
  "Routes_CompositionService_4 =
     under at_root ''CompositionServiceResourceBlocksResourceBlockIdMemoryMemoryId''
       [Lit ''CompositionService'', Lit ''ResourceBlocks'', Var ''ResourceBlockId'', Lit ''Memory'', Var ''MemoryId'']
       [(''ActionsMemoryDisableMasterPassphrase'', [Lit ''Actions'', Lit ''Memory.DisableMasterPassphrase''], [Post]),
        (''ActionsMemoryDisablePassphrase'', [Lit ''Actions'', Lit ''Memory.DisablePassphrase''], [Post]),
        (''ActionsMemoryFreezeSecurityState'', [Lit ''Actions'', Lit ''Memory.FreezeSecurityState''], [Post]),
        (''ActionsMemoryInjectPersistentPoison'', [Lit ''Actions'', Lit ''Memory.InjectPersistentPoison''], [Post]),
        (''ActionsMemoryOverwriteUnit'', [Lit ''Actions'', Lit ''Memory.OverwriteUnit''], [Post]),
        (''ActionsMemoryReset'', [Lit ''Actions'', Lit ''Memory.Reset''], [Post]),
        (''ActionsMemoryResetToDefaults'', [Lit ''Actions'', Lit ''Memory.ResetToDefaults''], [Post]),
        (''ActionsMemoryScanMedia'', [Lit ''Actions'', Lit ''Memory.ScanMedia''], [Post]),
        (''ActionsMemorySecureEraseUnit'', [Lit ''Actions'', Lit ''Memory.SecureEraseUnit''], [Post]),
        (''ActionsMemorySetMasterPassphrase'', [Lit ''Actions'', Lit ''Memory.SetMasterPassphrase''], [Post]),
        (''ActionsMemorySetPassphrase'', [Lit ''Actions'', Lit ''Memory.SetPassphrase''], [Post]),
        (''ActionsMemoryUnlockUnit'', [Lit ''Actions'', Lit ''Memory.UnlockUnit''], [Post]),
        (''Assembly'', [Lit ''Assembly''], [Get, Put, Patch]),
        (''Certificates'', [Lit ''Certificates''], [Get, Post]),
        (''CertificatesCertificateId'', [Lit ''Certificates'', Var ''CertificateId''], [Get, Put, Delete, Patch]),
        (''CertificatesCertificateIdActionsCertificateRekey'', [Lit ''Certificates'', Var ''CertificateId'', Lit ''Actions'', Lit ''Certificate.Rekey''], [Post]),
        (''CertificatesCertificateIdActionsCertificateRenew'', [Lit ''Certificates'', Var ''CertificateId'', Lit ''Actions'', Lit ''Certificate.Renew''], [Post]),
        (''EnvironmentMetrics'', [Lit ''EnvironmentMetrics''], [Get, Put, Patch]),
        (''EnvironmentMetricsActionsEnvironmentMetricsResetMetrics'', [Lit ''EnvironmentMetrics'', Lit ''Actions'', Lit ''EnvironmentMetrics.ResetMetrics''], [Post]),
        (''EnvironmentMetricsActionsEnvironmentMetricsResetToDefaults'', [Lit ''EnvironmentMetrics'', Lit ''Actions'', Lit ''EnvironmentMetrics.ResetToDefaults''], [Post]),
        (''MemoryMetrics'', [Lit ''MemoryMetrics''], [Get]),
        (''MemoryMetricsActionsMemoryMetricsClearCurrentPeriod'', [Lit ''MemoryMetrics'', Lit ''Actions'', Lit ''MemoryMetrics.ClearCurrentPeriod''], [Post])]"

definition Routes_CompositionService_5 :: Routes where
  "Routes_CompositionService_5 =
     under at_root ''CompositionServiceResourceBlocksResourceBlockIdNetworkInterfacesNetworkInterfaceId''
       [Lit ''CompositionService'', Lit ''ResourceBlocks'', Var ''ResourceBlockId'', Lit ''NetworkInterfaces'', Var ''NetworkInterfaceId'']
       [('''', [], [Get]),
        (''NetworkDeviceFunctions'', [Lit ''NetworkDeviceFunctions''], [Get]),
        (''NetworkDeviceFunctionsNetworkDeviceFunctionIdAllowDeny'', [Lit ''NetworkDeviceFunctions'', Var ''NetworkDeviceFunctionId'', Lit ''AllowDeny''], [Get, Post]),
        (''NetworkDeviceFunctionsNetworkDeviceFunctionIdAllowDenyAllowDenyId'', [Lit ''NetworkDeviceFunctions'', Var ''NetworkDeviceFunctionId'', Lit ''AllowDeny'', Var ''AllowDenyId''], [Get, Put, Delete, Patch]),
        (''NetworkPorts'', [Lit ''NetworkPorts''], [Get]),
        (''Ports'', [Lit ''Ports''], [Get])]"

definition Routes_CompositionService_6 :: Routes where
  "Routes_CompositionService_6 =
     under at_root ''CompositionServiceResourceBlocksResourceBlockIdProcessorsProcessorId''
       [Lit ''CompositionService'', Lit ''ResourceBlocks'', Var ''ResourceBlockId'', Lit ''Processors'', Var ''ProcessorId'']
       [('''', [], [Get, Put, Patch]),
        (''AccelerationFunctions'', [Lit ''AccelerationFunctions''], [Get]),
        (''AccelerationFunctionsAccelerationFunctionId'', [Lit ''AccelerationFunctions'', Var ''AccelerationFunctionId''], [Get]),
        (''ActionsProcessorReset'', [Lit ''Actions'', Lit ''Processor.Reset''], [Post]),
        (''ActionsProcessorResetToDefaults'', [Lit ''Actions'', Lit ''Processor.ResetToDefaults''], [Post]),
        (''Assembly'', [Lit ''Assembly''], [Get, Put, Patch]),
        (''Certificates'', [Lit ''Certificates''], [Get, Post]),
        (''CertificatesCertificateId'', [Lit ''Certificates'', Var ''CertificateId''], [Get, Put, Delete, Patch]),
        (''CertificatesCertificateIdActionsCertificateRekey'', [Lit ''Certificates'', Var ''CertificateId'', Lit ''Actions'', Lit ''Certificate.Rekey''], [Post]),
        (''CertificatesCertificateIdActionsCertificateRenew'', [Lit ''Certificates'', Var ''CertificateId'', Lit ''Actions'', Lit ''Certificate.Renew''], [Post]),
        (''EnvironmentMetrics'', [Lit ''EnvironmentMetrics''], [Get, Put, Patch]),
        (''EnvironmentMetricsActionsEnvironmentMetricsResetMetrics'', [Lit ''EnvironmentMetrics'', Lit ''Actions'', Lit ''EnvironmentMetrics.ResetMetrics''], [Post]),
        (''EnvironmentMetricsActionsEnvironmentMetricsResetToDefaults'', [Lit ''EnvironmentMetrics'', Lit ''Actions'', Lit ''EnvironmentMetrics.ResetToDefaults''], [Post]),
        (''MemorySummaryMemoryMetrics'', [Lit ''MemorySummary'', Lit ''MemoryMetrics''], [Get]),
        (''MemorySummaryMemoryMetricsActionsMemoryMetricsClearCurrentPeriod'', [Lit ''MemorySummary'', Lit ''MemoryMetrics'', Lit ''Actions'', Lit ''MemoryMetrics.ClearCurrentPeriod''], [Post]),
        (''Ports'', [Lit ''Ports''], [Get]),
        (''PortsPortId'', [Lit ''Ports'', Var ''PortId''], [Get, Put, Patch]),
        (''PortsPortIdActionsPortReset'', [Lit ''Ports'', Var ''PortId'', Lit ''Actions'', Lit ''Port.Reset''], [Post])]"

definition Routes_CompositionService_7 :: Routes where
  "Routes_CompositionService_7 =
     under at_root ''CompositionServiceResourceBlocksResourceBlockIdProcessorsProcessorId''
       [Lit ''CompositionService'', Lit ''ResourceBlocks'', Var ''ResourceBlockId'', Lit ''Processors'', Var ''ProcessorId'']
       [(''PortsPortIdActionsPortResetPPB'', [Lit ''Ports'', Var ''PortId'', Lit ''Actions'', Lit ''Port.ResetPPB''], [Post]),
        (''PortsPortIdEnvironmentMetrics'', [Lit ''Ports'', Var ''PortId'', Lit ''EnvironmentMetrics''], [Get, Put, Patch]),
        (''PortsPortIdEnvironmentMetricsActionsEnvironmentMetricsResetMetrics'', [Lit ''Ports'', Var ''PortId'', Lit ''EnvironmentMetrics'', Lit ''Actions'', Lit ''EnvironmentMetrics.ResetMetrics''], [Post]),
        (''PortsPortIdEnvironmentMetricsActionsEnvironmentMetricsResetToDefaults'', [Lit ''Ports'', Var ''PortId'', Lit ''EnvironmentMetrics'', Lit ''Actions'', Lit ''EnvironmentMetrics.ResetToDefaults''], [Post]),
        (''PortsPortIdMetrics'', [Lit ''Ports'', Var ''PortId'', Lit ''Metrics''], [Get]),
        (''ProcessorMetrics'', [Lit ''ProcessorMetrics''], [Get]),
        (''ProcessorMetricsActionsProcessorMetricsClearCurrentPeriod'', [Lit ''ProcessorMetrics'', Lit ''Actions'', Lit ''ProcessorMetrics.ClearCurrentPeriod''], [Post]),
        (''SubProcessors'', [Lit ''SubProcessors''], [Get])]"

definition Routes_CompositionService_8 :: Routes where
  "Routes_CompositionService_8 =
     under at_root ''CompositionServiceResourceBlocksResourceBlockIdProcessorsProcessorIdSubProcessorsProcessorId2''
       [Lit ''CompositionService'', Lit ''ResourceBlocks'', Var ''ResourceBlockId'', Lit ''Processors'', Var ''ProcessorId'', Lit ''SubProcessors'', Var ''ProcessorId2'']
       [('''', [], [Get, Put, Patch]),
        (''ActionsProcessorReset'', [Lit ''Actions'', Lit ''Processor.Reset''], [Post]),
        (''ActionsProcessorResetToDefaults'', [Lit ''Actions'', Lit ''Processor.ResetToDefaults''], [Post]),
        (''Assembly'', [Lit ''Assembly''], [Get, Put, Patch]),
        (''ProcessorMetrics'', [Lit ''ProcessorMetrics''], [Get]),
        (''ProcessorMetricsActionsProcessorMetricsClearCurrentPeriod'', [Lit ''ProcessorMetrics'', Lit ''Actions'', Lit ''ProcessorMetrics.ClearCurrentPeriod''], [Post]),
        (''SubProcessors'', [Lit ''SubProcessors''], [Get]),
        (''SubProcessorsProcessorId3'', [Lit ''SubProcessors'', Var ''ProcessorId3''], [Get, Put, Patch]),
        (''SubProcessorsProcessorId3ActionsProcessorReset'', [Lit ''SubProcessors'', Var ''ProcessorId3'', Lit ''Actions'', Lit ''Processor.Reset''], [Post]),
        (''SubProcessorsProcessorId3ActionsProcessorResetToDefaults'', [Lit ''SubProcessors'', Var ''ProcessorId3'', Lit ''Actions'', Lit ''Processor.ResetToDefaults''], [Post]),
        (''SubProcessorsProcessorId3Assembly'', [Lit ''SubProcessors'', Var ''ProcessorId3'', Lit ''Assembly''], [Get, Put, Patch]),
        (''SubProcessorsProcessorId3ProcessorMetrics'', [Lit ''SubProcessors'', Var ''ProcessorId3'', Lit ''ProcessorMetrics''], [Get]),
        (''SubProcessorsProcessorId3ProcessorMetricsActionsProcessorMetricsClearCurrentPeriod'', [Lit ''SubProcessors'', Var ''ProcessorId3'', Lit ''ProcessorMetrics'', Lit ''Actions'', Lit ''ProcessorMetrics.ClearCurrentPeriod''], [Post])]"

definition Routes_CompositionService_9 :: Routes where
  "Routes_CompositionService_9 =
     under at_root ''CompositionServiceResourceBlocksResourceBlockId''
       [Lit ''CompositionService'', Lit ''ResourceBlocks'', Var ''ResourceBlockId'']
       [(''SimpleStorageSimpleStorageId'', [Lit ''SimpleStorage'', Var ''SimpleStorageId''], [Get]),
        (''Storage'', [Lit ''Storage''], [Get]),
        (''StorageStorageId'', [Lit ''Storage'', Var ''StorageId''], [Get, Put, Patch]),
        (''StorageStorageIdActionsStorageResetToDefaults'', [Lit ''Storage'', Var ''StorageId'', Lit ''Actions'', Lit ''Storage.ResetToDefaults''], [Post]),
        (''StorageStorageIdActionsStorageSetEncryptionKey'', [Lit ''Storage'', Var ''StorageId'', Lit ''Actions'', Lit ''Storage.SetEncryptionKey''], [Post]),
        (''StorageStorageIdControllers'', [Lit ''Storage'', Var ''StorageId'', Lit ''Controllers''], [Get])]"

definition Routes_CompositionService_10 :: Routes where
  "Routes_CompositionService_10 =
     under at_root ''CompositionServiceResourceBlocksResourceBlockIdStorageStorageIdControllersControllerId''
       [Lit ''CompositionService'', Lit ''ResourceBlocks'', Var ''ResourceBlockId'', Lit ''Storage'', Var ''StorageId'', Lit ''Controllers'', Var ''ControllerId'']
       [('''', [], [Get, Put, Patch]),
        (''ActionsStorageControllerAttachNamespaces'', [Lit ''Actions'', Lit ''StorageController.AttachNamespaces''], [Post]),
        (''ActionsStorageControllerDetachNamespaces'', [Lit ''Actions'', Lit ''StorageController.DetachNamespaces''], [Post]),
        (''ActionsStorageControllerSecurityReceive'', [Lit ''Actions'', Lit ''StorageController.SecurityReceive''], [Post]),
        (''ActionsStorageControllerSecuritySend'', [Lit ''Actions'', Lit ''StorageController.SecuritySend''], [Post]),
        (''EnvironmentMetrics'', [Lit ''EnvironmentMetrics''], [Get, Put, Patch]),
        (''EnvironmentMetricsActionsEnvironmentMetricsResetMetrics'', [Lit ''EnvironmentMetrics'', Lit ''Actions'', Lit ''EnvironmentMetrics.ResetMetrics''], [Post]),
        (''EnvironmentMetricsActionsEnvironmentMetricsResetToDefaults'', [Lit ''EnvironmentMetrics'', Lit ''Actions'', Lit ''EnvironmentMetrics.ResetToDefaults''], [Post]),
        (''Metrics'', [Lit ''Metrics''], [Get])]"

definition Routes_CompositionService_11 :: Routes where
  "Routes_CompositionService_11 =
     under at_root ''CompositionServiceResourceBlocksResourceBlockIdStorageStorageIdControllersStorageControllerId''
       [Lit ''CompositionService'', Lit ''ResourceBlocks'', Var ''ResourceBlockId'', Lit ''Storage'', Var ''StorageId'', Lit ''Controllers'', Var ''StorageControllerId'']
       [(''Assembly'', [Lit ''Assembly''], [Get, Put, Patch]),
        (''Certificates'', [Lit ''Certificates''], [Get, Post]),
        (''CertificatesCertificateId'', [Lit ''Certificates'', Var ''CertificateId''], [Get, Put, Delete, Patch]),
        (''CertificatesCertificateIdActionsCertificateRekey'', [Lit ''Certificates'', Var ''CertificateId'', Lit ''Actions'', Lit ''Certificate.Rekey''], [Post]),
        (''CertificatesCertificateIdActionsCertificateRenew'', [Lit ''Certificates'', Var ''CertificateId'', Lit ''Actions'', Lit ''Certificate.Renew''], [Post]),
        (''Ports'', [Lit ''Ports''], [Get]),
        (''PortsPortId'', [Lit ''Ports'', Var ''PortId''], [Get, Put, Patch]),
        (''PortsPortIdActionsPortReset'', [Lit ''Ports'', Var ''PortId'', Lit ''Actions'', Lit ''Port.Reset''], [Post]),
        (''PortsPortIdActionsPortResetPPB'', [Lit ''Ports'', Var ''PortId'', Lit ''Actions'', Lit ''Port.ResetPPB''], [Post]),
        (''PortsPortIdEnvironmentMetrics'', [Lit ''Ports'', Var ''PortId'', Lit ''EnvironmentMetrics''], [Get, Put, Patch]),
        (''PortsPortIdEnvironmentMetricsActionsEnvironmentMetricsResetMetrics'', [Lit ''Ports'', Var ''PortId'', Lit ''EnvironmentMetrics'', Lit ''Actions'', Lit ''EnvironmentMetrics.ResetMetrics''], [Post]),
        (''PortsPortIdEnvironmentMetricsActionsEnvironmentMetricsResetToDefaults'', [Lit ''Ports'', Var ''PortId'', Lit ''EnvironmentMetrics'', Lit ''Actions'', Lit ''EnvironmentMetrics.ResetToDefaults''], [Post]),
        (''PortsPortIdMetrics'', [Lit ''Ports'', Var ''PortId'', Lit ''Metrics''], [Get])]"

definition Routes_CompositionService_12 :: Routes where
  "Routes_CompositionService_12 =
     under at_root ''CompositionServiceResourceBlocksResourceBlockIdStorageStorageIdDrivesDriveId''
       [Lit ''CompositionService'', Lit ''ResourceBlocks'', Var ''ResourceBlockId'', Lit ''Storage'', Var ''StorageId'', Lit ''Drives'', Var ''DriveId'']
       [('''', [], [Get, Put, Patch]),
        (''ActionsDriveReset'', [Lit ''Actions'', Lit ''Drive.Reset''], [Post]),
        (''ActionsDriveRevertToOriginalFactoryState'', [Lit ''Actions'', Lit ''Drive.RevertToOriginalFactoryState''], [Post]),
        (''ActionsDriveSecureErase'', [Lit ''Actions'', Lit ''Drive.SecureErase''], [Post]),
        (''Assembly'', [Lit ''Assembly''], [Get, Put, Patch]),
        (''Certificates'', [Lit ''Certificates''], [Get, Post]),
        (''CertificatesCertificateId'', [Lit ''Certificates'', Var ''CertificateId''], [Get, Put, Delete, Patch]),
        (''CertificatesCertificateIdActionsCertificateRekey'', [Lit ''Certificates'', Var ''CertificateId'', Lit ''Actions'', Lit ''Certificate.Rekey''], [Post]),
        (''CertificatesCertificateIdActionsCertificateRenew'', [Lit ''Certificates'', Var ''CertificateId'', Lit ''Actions'', Lit ''Certificate.Renew''], [Post]),
        (''EnvironmentMetrics'', [Lit ''EnvironmentMetrics''], [Get, Put, Patch]),
        (''EnvironmentMetricsActionsEnvironmentMetricsResetMetrics'', [Lit ''EnvironmentMetrics'', Lit ''Actions'', Lit ''EnvironmentMetrics.ResetMetrics''], [Post]),
        (''EnvironmentMetricsActionsEnvironmentMetricsResetToDefaults'', [Lit ''EnvironmentMetrics'', Lit ''Actions'', Lit ''EnvironmentMetrics.ResetToDefaults''], [Post]),
        (''Metrics'', [Lit ''Metrics''], [Get])]"

definition Routes_CompositionService_13 :: Routes where
  "Routes_CompositionService_13 =
     under at_root ''CompositionServiceResourceBlocksResourceBlockIdStorageStorageIdStorageControllersStorageControllerId''
       [Lit ''CompositionService'', Lit ''ResourceBlocks'', Var ''ResourceBlockId'', Lit ''Storage'', Var ''StorageId'', Lit ''StorageControllers'', Var ''StorageControllerId'']
       [(''Assembly'', [Lit ''Assembly''], [Get, Put, Patch]),
        (''Certificates'', [Lit ''Certificates''], [Get, Post]),
        (''CertificatesCertificateId'', [Lit ''Certificates'', Var ''CertificateId''], [Get, Put, Delete, Patch]),
        (''CertificatesCertificateIdActionsCertificateRekey'', [Lit ''Certificates'', Var ''CertificateId'', Lit ''Actions'', Lit ''Certificate.Rekey''], [Post]),
        (''CertificatesCertificateIdActionsCertificateRenew'', [Lit ''Certificates'', Var ''CertificateId'', Lit ''Actions'', Lit ''Certificate.Renew''], [Post]),
        (''Ports'', [Lit ''Ports''], [Get]),
        (''PortsPortId'', [Lit ''Ports'', Var ''PortId''], [Get, Put, Patch]),
        (''PortsPortIdActionsPortReset'', [Lit ''Ports'', Var ''PortId'', Lit ''Actions'', Lit ''Port.Reset''], [Post]),
        (''PortsPortIdActionsPortResetPPB'', [Lit ''Ports'', Var ''PortId'', Lit ''Actions'', Lit ''Port.ResetPPB''], [Post]),
        (''PortsPortIdEnvironmentMetrics'', [Lit ''Ports'', Var ''PortId'', Lit ''EnvironmentMetrics''], [Get, Put, Patch]),
        (''PortsPortIdEnvironmentMetricsActionsEnvironmentMetricsResetMetrics'', [Lit ''Ports'', Var ''PortId'', Lit ''EnvironmentMetrics'', Lit ''Actions'', Lit ''EnvironmentMetrics.ResetMetrics''], [Post]),
        (''PortsPortIdEnvironmentMetricsActionsEnvironmentMetricsResetToDefaults'', [Lit ''Ports'', Var ''PortId'', Lit ''EnvironmentMetrics'', Lit ''Actions'', Lit ''EnvironmentMetrics.ResetToDefaults''], [Post]),
        (''PortsPortIdMetrics'', [Lit ''Ports'', Var ''PortId'', Lit ''Metrics''], [Get])]"

definition Routes_CompositionService_14 :: Routes where
  "Routes_CompositionService_14 =
     under at_root ''CompositionServiceResourceBlocksResourceBlockIdStorageStorageIdVolumes''
       [Lit ''CompositionService'', Lit ''ResourceBlocks'', Var ''ResourceBlockId'', Lit ''Storage'', Var ''StorageId'', Lit ''Volumes'']
       [('''', [], [Get, Post]),
        (''VolumeId'', [Var ''VolumeId''], [Get, Put, Delete, Patch]),
        (''VolumeIdActionsVolumeAssignReplicaTarget'', [Var ''VolumeId'', Lit ''Actions'', Lit ''Volume.AssignReplicaTarget''], [Post]),
        (''VolumeIdActionsVolumeChangeRAIDLayout'', [Var ''VolumeId'', Lit ''Actions'', Lit ''Volume.ChangeRAIDLayout''], [Post]),
        (''VolumeIdActionsVolumeCheckConsistency'', [Var ''VolumeId'', Lit ''Actions'', Lit ''Volume.CheckConsistency''], [Post]),
        (''VolumeIdActionsVolumeCreateReplicaTarget'', [Var ''VolumeId'', Lit ''Actions'', Lit ''Volume.CreateReplicaTarget''], [Post]),
        (''VolumeIdActionsVolumeForceEnable'', [Var ''VolumeId'', Lit ''Actions'', Lit ''Volume.ForceEnable''], [Post]),
        (''VolumeIdActionsVolumeInitialize'', [Var ''VolumeId'', Lit ''Actions'', Lit ''Volume.Initialize''], [Post]),
        (''VolumeIdActionsVolumeRemoveReplicaRelationship'', [Var ''VolumeId'', Lit ''Actions'', Lit ''Volume.RemoveReplicaRelationship''], [Post]),
        (''VolumeIdActionsVolumeResumeReplication'', [Var ''VolumeId'', Lit ''Actions'', Lit ''Volume.ResumeReplication''], [Post]),
        (''VolumeIdActionsVolumeReverseReplicationRelationship'', [Var ''VolumeId'', Lit ''Actions'', Lit ''Volume.ReverseReplicationRelationship''], [Post]),
        (''VolumeIdActionsVolumeSplitReplication'', [Var ''VolumeId'', Lit ''Actions'', Lit ''Volume.SplitReplication''], [Post]),
        (''VolumeIdActionsVolumeSuspendReplication'', [Var ''VolumeId'', Lit ''Actions'', Lit ''Volume.SuspendReplication''], [Post])]"

definition Routes_CompositionService_15 :: Routes where
  "Routes_CompositionService_15 =
     under at_root ''CompositionServiceResourceBlocksResourceBlockIdSystemsComputerSystemId''
       [Lit ''CompositionService'', Lit ''ResourceBlocks'', Var ''ResourceBlockId'', Lit ''Systems'', Var ''ComputerSystemId'']
       [('''', [], [Get, Put, Delete, Patch]),
        (''ActionsComputerSystemAddResourceBlock'', [Lit ''Actions'', Lit ''ComputerSystem.AddResourceBlock''], [Post]),
        (''ActionsComputerSystemDecommission'', [Lit ''Actions'', Lit ''ComputerSystem.Decommission''], [Post]),
        (''ActionsComputerSystemRemoveResourceBlock'', [Lit ''Actions'', Lit ''ComputerSystem.RemoveResourceBlock''], [Post]),
        (''ActionsComputerSystemReset'', [Lit ''Actions'', Lit ''ComputerSystem.Reset''], [Post]),
        (''ActionsComputerSystemSetDefaultBootOrder'', [Lit ''Actions'', Lit ''ComputerSystem.SetDefaultBootOrder''], [Post]),
        (''Bios'', [Lit ''Bios''], [Get, Put, Patch]),
        (''BiosActionsBiosChangePassword'', [Lit ''Bios'', Lit ''Actions'', Lit ''Bios.ChangePassword''], [Post]),
        (''BiosActionsBiosResetBios'', [Lit ''Bios'', Lit ''Actions'', Lit ''Bios.ResetBios''], [Post]),
        (''BootCertificates'', [Lit ''Boot'', Lit ''Certificates''], [Get, Post]),
        (''BootCertificatesCertificateId'', [Lit ''Boot'', Lit ''Certificates'', Var ''CertificateId''], [Get, Put, Delete, Patch]),
        (''BootCertificatesCertificateIdActionsCertificateRekey'', [Lit ''Boot'', Lit ''Certificates'', Var ''CertificateId'', Lit ''Actions'', Lit ''Certificate.Rekey''], [Post]),
        (''BootCertificatesCertificateIdActionsCertificateRenew'', [Lit ''Boot'', Lit ''Certificates'', Var ''CertificateId'', Lit ''Actions'', Lit ''Certificate.Renew''], [Post]),
        (''BootOptions'', [Lit ''BootOptions''], [Get, Post]),
        (''BootOptionsBootOptionId'', [Lit ''BootOptions'', Var ''BootOptionId''], [Get, Put, Delete, Patch]),
        (''Certificates'', [Lit ''Certificates''], [Get, Post])]"

definition Routes_CompositionService_16 :: Routes where
  "Routes_CompositionService_16 =
     under at_root ''CompositionServiceResourceBlocksResourceBlockIdSystemsComputerSystemId''
       [Lit ''CompositionService'', Lit ''ResourceBlocks'', Var ''ResourceBlockId'', Lit ''Systems'', Var ''ComputerSystemId'']
       [(''CertificatesCertificateId'', [Lit ''Certificates'', Var ''CertificateId''], [Get, Put, Delete, Patch]),
        (''CertificatesCertificateIdActionsCertificateRekey'', [Lit ''Certificates'', Var ''CertificateId'', Lit ''Actions'', Lit ''Certificate.Rekey''], [Post]),
        (''CertificatesCertificateIdActionsCertificateRenew'', [Lit ''Certificates'', Var ''CertificateId'', Lit ''Actions'', Lit ''Certificate.Renew''], [Post]),
        (''EthernetInterfaces'', [Lit ''EthernetInterfaces''], [Get, Post]),
        (''EthernetInterfacesEthernetInterfaceId'', [Lit ''EthernetInterfaces'', Var ''EthernetInterfaceId''], [Get, Put, Delete, Patch]),
        (''EthernetInterfacesEthernetInterfaceIdVLANs'', [Lit ''EthernetInterfaces'', Var ''EthernetInterfaceId'', Lit ''VLANs''], [Get, Post]),
        (''EthernetInterfacesEthernetInterfaceIdVLANsVLanNetworkInterfaceId'', [Lit ''EthernetInterfaces'', Var ''EthernetInterfaceId'', Lit ''VLANs'', Var ''VLanNetworkInterfaceId''], [Get, Put, Delete, Patch]),
        (''FabricAdapters'', [Lit ''FabricAdapters''], [Get]),
        (''FabricAdaptersFabricAdapterId'', [Lit ''FabricAdapters'', Var ''FabricAdapterId''], [Get, Put, Patch]),
        (''FabricAdaptersFabricAdapterIdGenZMSDT'', [Lit ''FabricAdapters'', Var ''FabricAdapterId'', Lit ''GenZ'', Lit ''MSDT''], [Get, Post])]"

definition Routes_CompositionService_17 :: Routes where
  "Routes_CompositionService_17 =
     under at_root ''CompositionServiceResourceBlocksResourceBlockIdSystemsComputerSystemIdFabricAdaptersFabricAdapterId''
       [Lit ''CompositionService'', Lit ''ResourceBlocks'', Var ''ResourceBlockId'', Lit ''Systems'', Var ''ComputerSystemId'', Lit ''FabricAdapters'', Var ''FabricAdapterId'']
       [(''GenZMSDTMSDTId'', [Lit ''GenZ'', Lit ''MSDT'', Var ''MSDTId''], [Get, Put, Delete, Patch]),
        (''GenZSSDT'', [Lit ''GenZ'', Lit ''SSDT''], [Get, Post]),
        (''GenZSSDTSSDTId'', [Lit ''GenZ'', Lit ''SSDT'', Var ''SSDTId''], [Get, Put, Delete, Patch]),
        (''MSDT'', [Lit ''MSDT''], [Get, Post]),
        (''MSDTMSDTId'', [Lit ''MSDT'', Var ''MSDTId''], [Get, Put, Delete, Patch]),
        (''Ports'', [Lit ''Ports''], [Get]),
        (''PortsPortId'', [Lit ''Ports'', Var ''PortId''], [Get, Put, Patch]),
        (''PortsPortIdActionsPortReset'', [Lit ''Ports'', Var ''PortId'', Lit ''Actions'', Lit ''Port.Reset''], [Post]),
        (''PortsPortIdActionsPortResetPPB'', [Lit ''Ports'', Var ''PortId'', Lit ''Actions'', Lit ''Port.ResetPPB''], [Post]),
        (''PortsPortIdEnvironmentMetrics'', [Lit ''Ports'', Var ''PortId'', Lit ''EnvironmentMetrics''], [Get, Put, Patch]),
        (''PortsPortIdEnvironmentMetricsActionsEnvironmentMetricsResetMetrics'', [Lit ''Ports'', Var ''PortId'', Lit ''EnvironmentMetrics'', Lit ''Actions'', Lit ''EnvironmentMetrics.ResetMetrics''], [Post]),
        (''PortsPortIdEnvironmentMetricsActionsEnvironmentMetricsResetToDefaults'', [Lit ''Ports'', Var ''PortId'', Lit ''EnvironmentMetrics'', Lit ''Actions'', Lit ''EnvironmentMetrics.ResetToDefaults''], [Post]),
        (''PortsPortIdGenZLPRT'', [Lit ''Ports'', Var ''PortId'', Lit ''GenZ'', Lit ''LPRT''], [Get, Post])]"

definition Routes_CompositionService_18 :: Routes where
  "Routes_CompositionService_18 =
     under at_root ''CompositionServiceResourceBlocksResourceBlockIdSystemsComputerSystemIdFabricAdaptersFabricAdapterId''
       [Lit ''CompositionService'', Lit ''ResourceBlocks'', Var ''ResourceBlockId'', Lit ''Systems'', Var ''ComputerSystemId'', Lit ''FabricAdapters'', Var ''FabricAdapterId'']
       [(''PortsPortIdGenZLPRTLPRTId'', [Lit ''Ports'', Var ''PortId'', Lit ''GenZ'', Lit ''LPRT'', Var ''LPRTId''], [Get, Put, Delete, Patch]),
        (''PortsPortIdGenZMPRT'', [Lit ''Ports'', Var ''PortId'', Lit ''GenZ'', Lit ''MPRT''], [Get, Post]),
        (''PortsPortIdGenZMPRTMPRTId'', [Lit ''Ports'', Var ''PortId'', Lit ''GenZ'', Lit ''MPRT'', Var ''MPRTId''], [Get, Put, Delete, Patch]),
        (''PortsPortIdLPRT'', [Lit ''Ports'', Var ''PortId'', Lit ''LPRT''], [Get, Post]),
        (''PortsPortIdLPRTLPRTId'', [Lit ''Ports'', Var ''PortId'', Lit ''LPRT'', Var ''LPRTId''], [Get, Put, Delete, Patch]),
        (''PortsPortIdMPRT'', [Lit ''Ports'', Var ''PortId'', Lit ''MPRT''], [Get, Post]),
        (''PortsPortIdMPRTMPRTId'', [Lit ''Ports'', Var ''PortId'', Lit ''MPRT'', Var ''MPRTId''], [Get, Put, Delete, Patch]),
        (''PortsPortIdMetrics'', [Lit ''Ports'', Var ''PortId'', Lit ''Metrics''], [Get]),
        (''SSDT'', [Lit ''SSDT''], [Get, Post]),
        (''SSDTSSDTId'', [Lit ''SSDT'', Var ''SSDTId''], [Get, Put, Delete, Patch])]"

definition Routes_CompositionService_19 :: Routes where
  "Routes_CompositionService_19 =
     under at_root ''CompositionServiceResourceBlocksResourceBlockIdSystemsComputerSystemIdGraphicsControllersControllerIdPorts''
       [Lit ''CompositionService'', Lit ''ResourceBlocks'', Var ''ResourceBlockId'', Lit ''Systems'', Var ''ComputerSystemId'', Lit ''GraphicsControllers'', Var ''ControllerId'', Lit ''Ports'']
       [('''', [], [Get]),
        (''PortId'', [Var ''PortId''], [Get, Put, Patch]),
        (''PortIdActionsPortReset'', [Var ''PortId'', Lit ''Actions'', Lit ''Port.Reset''], [Post]),
        (''PortIdActionsPortResetPPB'', [Var ''PortId'', Lit ''Actions'', Lit ''Port.ResetPPB''], [Post]),
        (''PortIdEnvironmentMetrics'', [Var ''PortId'', Lit ''EnvironmentMetrics''], [Get, Put, Patch]),
        (''PortIdEnvironmentMetricsActionsEnvironmentMetricsResetMetrics'', [Var ''PortId'', Lit ''EnvironmentMetrics'', Lit ''Actions'', Lit ''EnvironmentMetrics.ResetMetrics''], [Post]),
        (''PortIdEnvironmentMetricsActionsEnvironmentMetricsResetToDefaults'', [Var ''PortId'', Lit ''EnvironmentMetrics'', Lit ''Actions'', Lit ''EnvironmentMetrics.ResetToDefaults''], [Post]),
        (''PortIdMetrics'', [Var ''PortId'', Lit ''Metrics''], [Get])]"

definition Routes_CompositionService_20 :: Routes where
  "Routes_CompositionService_20 =
     under at_root ''CompositionServiceResourceBlocksResourceBlockIdSystemsComputerSystemId''
       [Lit ''CompositionService'', Lit ''ResourceBlocks'', Var ''ResourceBlockId'', Lit ''Systems'', Var ''ComputerSystemId'']
       [(''KeyManagementKMIPCertificates'', [Lit ''KeyManagement'', Lit ''KMIPCertificates''], [Get, Post]),
        (''KeyManagementKMIPCertificatesCertificateId'', [Lit ''KeyManagement'', Lit ''KMIPCertificates'', Var ''CertificateId''], [Get, Put, Delete, Patch]),
        (''KeyManagementKMIPCertificatesCertificateIdActionsCertificateRekey'', [Lit ''KeyManagement'', Lit ''KMIPCertificates'', Var ''CertificateId'', Lit ''Actions'', Lit ''Certificate.Rekey''], [Post]),
        (''KeyManagementKMIPCertificatesCertificateIdActionsCertificateRenew'', [Lit ''KeyManagement'', Lit ''KMIPCertificates'', Var ''CertificateId'', Lit ''Actions'', Lit ''Certificate.Renew''], [Post]),
        (''LogServices'', [Lit ''LogServices''], [Get]),
        (''LogServicesLogServiceId'', [Lit ''LogServices'', Var ''LogServiceId''], [Get, Put, Patch]),
        (''LogServicesLogServiceIdActionsLogServiceClearLog'', [Lit ''LogServices'', Var ''LogServiceId'', Lit ''Actions'', Lit ''LogService.ClearLog''], [Post]),
        (''LogServicesLogServiceIdActionsLogServiceCollectDiagnosticData'', [Lit ''LogServices'', Var ''LogServiceId'', Lit ''Actions'', Lit ''LogService.CollectDiagnosticData''], [Post]),
        (''LogServicesLogServiceIdActionsLogServicePushDiagnosticData'', [Lit ''LogServices'', Var ''LogServiceId'', Lit ''Actions'', Lit ''LogService.PushDiagnosticData''], [Post]),
        (''LogServicesLogServiceIdEntries'', [Lit ''LogServices'', Var ''LogServiceId'', Lit ''Entries''], [Get, Post]),
        (''LogServicesLogServiceIdEntriesLogEntryId'', [Lit ''LogServices'', Var ''LogServiceId'', Lit ''Entries'', Var ''LogEntryId''], [Get, Put, Delete, Patch]),
        (''Memory'', [Lit ''Memory''], [Get]),
        (''MemoryMemoryId'', [Lit ''Memory'', Var ''MemoryId''], [Get, Put, Patch])]"

definition Routes_CompositionService_21 :: Routes where
  "Routes_CompositionService_21 =
     under at_root ''CompositionServiceResourceBlocksResourceBlockIdSystemsComputerSystemIdMemoryMemoryId''
       [Lit ''CompositionService'', Lit ''ResourceBlocks'', Var ''ResourceBlockId'', Lit ''Systems'', Var ''ComputerSystemId'', Lit ''Memory'', Var ''MemoryId'']
       [(''ActionsMemoryDisableMasterPassphrase'', [Lit ''Actions'', Lit ''Memory.DisableMasterPassphrase''], [Post]),
        (''ActionsMemoryDisablePassphrase'', [Lit ''Actions'', Lit ''Memory.DisablePassphrase''], [Post]),
        (''ActionsMemoryFreezeSecurityState'', [Lit ''Actions'', Lit ''Memory.FreezeSecurityState''], [Post]),
        (''ActionsMemoryInjectPersistentPoison'', [Lit ''Actions'', Lit ''Memory.InjectPersistentPoison''], [Post]),
        (''ActionsMemoryOverwriteUnit'', [Lit ''Actions'', Lit ''Memory.OverwriteUnit''], [Post]),
        (''ActionsMemoryReset'', [Lit ''Actions'', Lit ''Memory.Reset''], [Post]),
        (''ActionsMemoryResetToDefaults'', [Lit ''Actions'', Lit ''Memory.ResetToDefaults''], [Post]),
        (''ActionsMemoryScanMedia'', [Lit ''Actions'', Lit ''Memory.ScanMedia''], [Post]),
        (''ActionsMemorySecureEraseUnit'', [Lit ''Actions'', Lit ''Memory.SecureEraseUnit''], [Post]),
        (''ActionsMemorySetMasterPassphrase'', [Lit ''Actions'', Lit ''Memory.SetMasterPassphrase''], [Post]),
        (''ActionsMemorySetPassphrase'', [Lit ''Actions'', Lit ''Memory.SetPassphrase''], [Post]),
        (''ActionsMemoryUnlockUnit'', [Lit ''Actions'', Lit ''Memory.UnlockUnit''], [Post]),
        (''Assembly'', [Lit ''Assembly''], [Get, Put, Patch]),
        (''Certificates'', [Lit ''Certificates''], [Get, Post]),
        (''CertificatesCertificateId'', [Lit ''Certificates'', Var ''CertificateId''], [Get, Put, Delete, Patch]),
        (''CertificatesCertificateIdActionsCertificateRekey'', [Lit ''Certificates'', Var ''CertificateId'', Lit ''Actions'', Lit ''Certificate.Rekey''], [Post]),
        (''CertificatesCertificateIdActionsCertificateRenew'', [Lit ''Certificates'', Var ''CertificateId'', Lit ''Actions'', Lit ''Certificate.Renew''], [Post]),
        (''EnvironmentMetrics'', [Lit ''EnvironmentMetrics''], [Get, Put, Patch]),
        (''EnvironmentMetricsActionsEnvironmentMetricsResetMetrics'', [Lit ''EnvironmentMetrics'', Lit ''Actions'', Lit ''EnvironmentMetrics.ResetMetrics''], [Post]),
        (''EnvironmentMetricsActionsEnvironmentMetricsResetToDefaults'', [Lit ''EnvironmentMetrics'', Lit ''Actions'', Lit ''EnvironmentMetrics.ResetToDefaults''], [Post]),
        (''MemoryMetrics'', [Lit ''MemoryMetrics''], [Get]),
        (''MemoryMetricsActionsMemoryMetricsClearCurrentPeriod'', [Lit ''MemoryMetrics'', Lit ''Actions'', Lit ''MemoryMetrics.ClearCurrentPeriod''], [Post])]"

definition Routes_CompositionService_22 :: Routes where
  "Routes_CompositionService_22 =
     under at_root ''CompositionServiceResourceBlocksResourceBlockIdSystemsComputerSystemId''
       [Lit ''CompositionService'', Lit ''ResourceBlocks'', Var ''ResourceBlockId'', Lit ''Systems'', Var ''ComputerSystemId'']
       [(''MemoryDomains'', [Lit ''MemoryDomains''], [Get]),
        (''MemoryDomainsMemoryDomainId'', [Lit ''MemoryDomains'', Var ''MemoryDomainId''], [Get]),
        (''MemoryDomainsMemoryDomainIdMemoryChunks'', [Lit ''MemoryDomains'', Var ''MemoryDomainId'', Lit ''MemoryChunks''], [Get, Post]),
        (''MemoryDomainsMemoryDomainIdMemoryChunksMemoryChunksId'', [Lit ''MemoryDomains'', Var ''MemoryDomainId'', Lit ''MemoryChunks'', Var ''MemoryChunksId''], [Get, Put, Delete, Patch]),
        (''MemorySummaryMemoryMetrics'', [Lit ''MemorySummary'', Lit ''MemoryMetrics''], [Get]),
        (''MemorySummaryMemoryMetricsActionsMemoryMetricsClearCurrentPeriod'', [Lit ''MemorySummary'', Lit ''MemoryMetrics'', Lit ''Actions'', Lit ''MemoryMetrics.ClearCurrentPeriod''], [Post]),
        (''NetworkInterfaces'', [Lit ''NetworkInterfaces''], [Get]),
        (''NetworkInterfacesNetworkInterfaceId'', [Lit ''NetworkInterfaces'', Var ''NetworkInterfaceId''], [Get]),
        (''NetworkInterfacesNetworkInterfaceIdNetworkDeviceFunctions'', [Lit ''NetworkInterfaces'', Var ''NetworkInterfaceId'', Lit ''NetworkDeviceFunctions''], [Get]),
        (''NetworkInterfacesNetworkInterfaceIdNetworkDeviceFunctionsNetworkDeviceFunctionIdAllowDeny'', [Lit ''NetworkInterfaces'', Var ''NetworkInterfaceId'', Lit ''NetworkDeviceFunctions'', Var ''NetworkDeviceFunctionId'', Lit ''AllowDeny''], [Get, Post]),
        (''NetworkInterfacesNetworkInterfaceIdNetworkDeviceFunctionsNetworkDeviceFunctionIdAllowDenyAllowDenyId'', [Lit ''NetworkInterfaces'', Var ''NetworkInterfaceId'', Lit ''NetworkDeviceFunctions'', Var ''NetworkDeviceFunctionId'', Lit ''AllowDeny'', Var ''AllowDenyId''], [Get, Put, Delete, Patch]),
        (''NetworkInterfacesNetworkInterfaceIdNetworkPorts'', [Lit ''NetworkInterfaces'', Var ''NetworkInterfaceId'', Lit ''NetworkPorts''], [Get]),
        (''NetworkInterfacesNetworkInterfaceIdPorts'', [Lit ''NetworkInterfaces'', Var ''NetworkInterfaceId'', Lit ''Ports''], [Get])]"

definition Routes_CompositionService_23 :: Routes where
  "Routes_CompositionService_23 =
     under at_root ''CompositionServiceResourceBlocksResourceBlockIdSystemsComputerSystemIdOperatingSystem''
       [Lit ''CompositionService'', Lit ''ResourceBlocks'', Var ''ResourceBlockId'', Lit ''Systems'', Var ''ComputerSystemId'', Lit ''OperatingSystem'']
       [('''', [], [Get]),
        (''Applications'', [Lit ''Applications''], [Get]),
        (''ApplicationsApplicationId'', [Lit ''Applications'', Var ''ApplicationId''], [Get]),
        (''ApplicationsApplicationIdActionsApplicationReset'', [Lit ''Applications'', Var ''ApplicationId'', Lit ''Actions'', Lit ''Application.Reset''], [Post]),
        (''ContainerImages'', [Lit ''ContainerImages''], [Get]),
        (''ContainerImagesContainerImageId'', [Lit ''ContainerImages'', Var ''ContainerImageId''], [Get]),
        (''Containers'', [Lit ''Containers''], [Get]),
        (''ContainersEthernetInterfaces'', [Lit ''Containers'', Lit ''EthernetInterfaces''], [Get, Post]),
        (''ContainersEthernetInterfacesEthernetInterfaceId'', [Lit ''Containers'', Lit ''EthernetInterfaces'', Var ''EthernetInterfaceId''], [Get, Put, Delete, Patch]),
        (''ContainersContainerId'', [Lit ''Containers'', Var ''ContainerId''], [Get]),
        (''ContainersContainerIdActionsContainerReset'', [Lit ''Containers'', Var ''ContainerId'', Lit ''Actions'', Lit ''Container.Reset''], [Post])]"

definition Routes_CompositionService_24 :: Routes where
  "Routes_CompositionService_24 =
     under at_root ''CompositionServiceResourceBlocksResourceBlockIdSystemsComputerSystemId''
       [Lit ''CompositionService'', Lit ''ResourceBlocks'', Var ''ResourceBlockId'', Lit ''Systems'', Var ''ComputerSystemId'']
       [(''PCIeDevices'', [Lit ''PCIeDevices''], [Get]),
        (''PCIeDevicesPCIeDeviceId'', [Lit ''PCIeDevices'', Var ''PCIeDeviceId''], [Get, Put, Patch]),
        (''PCIeDevicesPCIeDeviceIdEnvironmentMetrics'', [Lit ''PCIeDevices'', Var ''PCIeDeviceId'', Lit ''EnvironmentMetrics''], [Get, Put, Patch]),
        (''PCIeDevicesPCIeDeviceIdEnvironmentMetricsActionsEnvironmentMetricsResetMetrics'', [Lit ''PCIeDevices'', Var ''PCIeDeviceId'', Lit ''EnvironmentMetrics'', Lit ''Actions'', Lit ''EnvironmentMetrics.ResetMetrics''], [Post]),
        (''PCIeDevicesPCIeDeviceIdEnvironmentMetricsActionsEnvironmentMetricsResetToDefaults'', [Lit ''PCIeDevices'', Var ''PCIeDeviceId'', Lit ''EnvironmentMetrics'', Lit ''Actions'', Lit ''EnvironmentMetrics.ResetToDefaults''], [Post]),
        (''PCIeDevicesPCIeDeviceIdPCIeFunctions'', [Lit ''PCIeDevices'', Var ''PCIeDeviceId'', Lit ''PCIeFunctions''], [Get]),
        (''PCIeDevicesPCIeDeviceIdPCIeFunctionsPCIeFunctionId'', [Lit ''PCIeDevices'', Var ''PCIeDeviceId'', Lit ''PCIeFunctions'', Var ''PCIeFunctionId''], [Get, Put, Patch]),
        (''ProcessorSummaryProcessorMetrics'', [Lit ''ProcessorSummary'', Lit ''ProcessorMetrics''], [Get]),
        (''ProcessorSummaryProcessorMetricsActionsProcessorMetricsClearCurrentPeriod'', [Lit ''ProcessorSummary'', Lit ''ProcessorMetrics'', Lit ''Actions'', Lit ''ProcessorMetrics.ClearCurrentPeriod''], [Post]),
        (''Processors'', [Lit ''Processors''], [Get]),
        (''ProcessorsProcessorId'', [Lit ''Processors'', Var ''ProcessorId''], [Get, Put, Patch]),
        (''ProcessorsProcessorIdAccelerationFunctions'', [Lit ''Processors'', Var ''ProcessorId'', Lit ''AccelerationFunctions''], [Get]),
        (''ProcessorsProcessorIdAccelerationFunctionsAccelerationFunctionId'', [Lit ''Processors'', Var ''ProcessorId'', Lit ''AccelerationFunctions'', Var ''AccelerationFunctionId''], [Get]),
        (''ProcessorsProcessorIdActionsProcessorReset'', [Lit ''Processors'', Var ''ProcessorId'', Lit ''Actions'', Lit ''Processor.Reset''], [Post]),
        (''ProcessorsProcessorIdActionsProcessorResetToDefaults'', [Lit ''Processors'', Var ''ProcessorId'', Lit ''Actions'', Lit ''Processor.ResetToDefaults''], [Post]),
        (''ProcessorsProcessorIdAssembly'', [Lit ''Processors'', Var ''ProcessorId'', Lit ''Assembly''], [Get, Put, Patch])]"

definition Routes_CompositionService_25 :: Routes where
  "Routes_CompositionService_25 =
     under at_root ''CompositionServiceResourceBlocksResourceBlockIdSystemsComputerSystemIdProcessorsProcessorId''
       [Lit ''CompositionService'', Lit ''ResourceBlocks'', Var ''ResourceBlockId'', Lit ''Systems'', Var ''ComputerSystemId'', Lit ''Processors'', Var ''ProcessorId'']
       [(''Certificates'', [Lit ''Certificates''], [Get, Post]),
        (''CertificatesCertificateId'', [Lit ''Certificates'', Var ''CertificateId''], [Get, Put, Delete, Patch]),
        (''CertificatesCertificateIdActionsCertificateRekey'', [Lit ''Certificates'', Var ''CertificateId'', Lit ''Actions'', Lit ''Certificate.Rekey''], [Post]),
        (''CertificatesCertificateIdActionsCertificateRenew'', [Lit ''Certificates'', Var ''CertificateId'', Lit ''Actions'', Lit ''Certificate.Renew''], [Post]),
        (''EnvironmentMetrics'', [Lit ''EnvironmentMetrics''], [Get, Put, Patch]),
        (''EnvironmentMetricsActionsEnvironmentMetricsResetMetrics'', [Lit ''EnvironmentMetrics'', Lit ''Actions'', Lit ''EnvironmentMetrics.ResetMetrics''], [Post]),
        (''EnvironmentMetricsActionsEnvironmentMetricsResetToDefaults'', [Lit ''EnvironmentMetrics'', Lit ''Actions'', Lit ''EnvironmentMetrics.ResetToDefaults''], [Post]),
        (''MemorySummaryMemoryMetrics'', [Lit ''MemorySummary'', Lit ''MemoryMetrics''], [Get]),
        (''MemorySummaryMemoryMetricsActionsMemoryMetricsClearCurrentPeriod'', [Lit ''MemorySummary'', Lit ''MemoryMetrics'', Lit ''Actions'', Lit ''MemoryMetrics.ClearCurrentPeriod''], [Post]),
        (''Ports'', [Lit ''Ports''], [Get]),
        (''PortsPortId'', [Lit ''Ports'', Var ''PortId''], [Get, Put, Patch]),
        (''PortsPortIdActionsPortReset'', [Lit ''Ports'', Var ''PortId'', Lit ''Actions'', Lit ''Port.Reset''], [Post]),
        (''PortsPortIdActionsPortResetPPB'', [Lit ''Ports'', Var ''PortId'', Lit ''Actions'', Lit ''Port.ResetPPB''], [Post]),
        (''PortsPortIdEnvironmentMetrics'', [Lit ''Ports'', Var ''PortId'', Lit ''EnvironmentMetrics''], [Get, Put, Patch]),
        (''PortsPortIdEnvironmentMetricsActionsEnvironmentMetricsResetMetrics'', [Lit ''Ports'', Var ''PortId'', Lit ''EnvironmentMetrics'', Lit ''Actions'', Lit ''EnvironmentMetrics.ResetMetrics''], [Post]),
        (''PortsPortIdEnvironmentMetricsActionsEnvironmentMetricsResetToDefaults'', [Lit ''Ports'', Var ''PortId'', Lit ''EnvironmentMetrics'', Lit ''Actions'', Lit ''EnvironmentMetrics.ResetToDefaults''], [Post]),
        (''PortsPortIdMetrics'', [Lit ''Ports'', Var ''PortId'', Lit ''Metrics''], [Get]),
        (''ProcessorMetrics'', [Lit ''ProcessorMetrics''], [Get]),
        (''ProcessorMetricsActionsProcessorMetricsClearCurrentPeriod'', [Lit ''ProcessorMetrics'', Lit ''Actions'', Lit ''ProcessorMetrics.ClearCurrentPeriod''], [Post]),
        (''SubProcessors'', [Lit ''SubProcessors''], [Get])]"

definition Routes_CompositionService_26 :: Routes where
  "Routes_CompositionService_26 =
     under at_root ''CompositionServiceResourceBlocksResourceBlockIdSystemsComputerSystemIdProcessorsProcessorIdSubProcessorsProcessorId2''
       [Lit ''CompositionService'', Lit ''ResourceBlocks'', Var ''ResourceBlockId'', Lit ''Systems'', Var ''ComputerSystemId'', Lit ''Processors'', Var ''ProcessorId'', Lit ''SubProcessors'', Var ''ProcessorId2'']
       [('''', [], [Get, Put, Patch]),
        (''ActionsProcessorReset'', [Lit ''Actions'', Lit ''Processor.Reset''], [Post]),
        (''ActionsProcessorResetToDefaults'', [Lit ''Actions'', Lit ''Processor.ResetToDefaults''], [Post]),
        (''Assembly'', [Lit ''Assembly''], [Get, Put, Patch]),
        (''ProcessorMetrics'', [Lit ''ProcessorMetrics''], [Get]),
        (''ProcessorMetricsActionsProcessorMetricsClearCurrentPeriod'', [Lit ''ProcessorMetrics'', Lit ''Actions'', Lit ''ProcessorMetrics.ClearCurrentPeriod''], [Post]),
        (''SubProcessors'', [Lit ''SubProcessors''], [Get]),
        (''SubProcessorsProcessorId3'', [Lit ''SubProcessors'', Var ''ProcessorId3''], [Get, Put, Patch]),
        (''SubProcessorsProcessorId3ActionsProcessorReset'', [Lit ''SubProcessors'', Var ''ProcessorId3'', Lit ''Actions'', Lit ''Processor.Reset''], [Post]),
        (''SubProcessorsProcessorId3ActionsProcessorResetToDefaults'', [Lit ''SubProcessors'', Var ''ProcessorId3'', Lit ''Actions'', Lit ''Processor.ResetToDefaults''], [Post]),
        (''SubProcessorsProcessorId3Assembly'', [Lit ''SubProcessors'', Var ''ProcessorId3'', Lit ''Assembly''], [Get, Put, Patch]),
        (''SubProcessorsProcessorId3ProcessorMetrics'', [Lit ''SubProcessors'', Var ''ProcessorId3'', Lit ''ProcessorMetrics''], [Get]),
        (''SubProcessorsProcessorId3ProcessorMetricsActionsProcessorMetricsClearCurrentPeriod'', [Lit ''SubProcessors'', Var ''ProcessorId3'', Lit ''ProcessorMetrics'', Lit ''Actions'', Lit ''ProcessorMetrics.ClearCurrentPeriod''], [Post])]"

definition Routes_CompositionService_27 :: Routes where
  "Routes_CompositionService_27 =
     under at_root ''CompositionServiceResourceBlocksResourceBlockIdSystemsComputerSystemId''
       [Lit ''CompositionService'', Lit ''ResourceBlocks'', Var ''ResourceBlockId'', Lit ''Systems'', Var ''ComputerSystemId'']
       [(''SecureBoot'', [Lit ''SecureBoot''], [Get, Put, Patch]),
        (''SecureBootActionsSecureBootResetKeys'', [Lit ''SecureBoot'', Lit ''Actions'', Lit ''SecureBoot.ResetKeys''], [Post]),
        (''SecureBootSecureBootDatabases'', [Lit ''SecureBoot'', Lit ''SecureBootDatabases''], [Get]),
        (''SecureBootSecureBootDatabasesDatabaseId'', [Lit ''SecureBoot'', Lit ''SecureBootDatabases'', Var ''DatabaseId''], [Get]),
        (''SecureBootSecureBootDatabasesDatabaseIdActionsSecureBootDatabaseResetKeys'', [Lit ''SecureBoot'', Lit ''SecureBootDatabases'', Var ''DatabaseId'', Lit ''Actions'', Lit ''SecureBootDatabase.ResetKeys''], [Post]),
        (''SecureBootSecureBootDatabasesDatabaseIdCertificates'', [Lit ''SecureBoot'', Lit ''SecureBootDatabases'', Var ''DatabaseId'', Lit ''Certificates''], [Get, Post]),
        (''SecureBootSecureBootDatabasesDatabaseIdCertificatesCertificateId'', [Lit ''SecureBoot'', Lit ''SecureBootDatabases'', Var ''DatabaseId'', Lit ''Certificates'', Var ''CertificateId''], [Get, Put, Delete, Patch]),
        (''SecureBootSecureBootDatabasesDatabaseIdCertificatesCertificateIdActionsCertificateRekey'', [Lit ''SecureBoot'', Lit ''SecureBootDatabases'', Var ''DatabaseId'', Lit ''Certificates'', Var ''CertificateId'', Lit ''Actions'', Lit ''Certificate.Rekey''], [Post]),
        (''SecureBootSecureBootDatabasesDatabaseIdCertificatesCertificateIdActionsCertificateRenew'', [Lit ''SecureBoot'', Lit ''SecureBootDatabases'', Var ''DatabaseId'', Lit ''Certificates'', Var ''CertificateId'', Lit ''Actions'', Lit ''Certificate.Renew''], [Post]),
        (''SecureBootSecureBootDatabasesDatabaseIdSignatures'', [Lit ''SecureBoot'', Lit ''SecureBootDatabases'', Var ''DatabaseId'', Lit ''Signatures''], [Get, Post]),
        (''SecureBootSecureBootDatabasesDatabaseIdSignaturesSignatureId'', [Lit ''SecureBoot'', Lit ''SecureBootDatabases'', Var ''DatabaseId'', Lit ''Signatures'', Var ''SignatureId''], [Get, Delete]),
        (''SimpleStorage'', [Lit ''SimpleStorage''], [Get]),
        (''SimpleStorageSimpleStorageId'', [Lit ''SimpleStorage'', Var ''SimpleStorageId''], [Get]),
        (''Storage'', [Lit ''Storage''], [Get]),
        (''StorageStorageId'', [Lit ''Storage'', Var ''StorageId''], [Get, Put, Patch]),
        (''StorageStorageIdActionsStorageResetToDefaults'', [Lit ''Storage'', Var ''StorageId'', Lit ''Actions'', Lit ''Storage.ResetToDefaults''], [Post]),
        (''StorageStorageIdActionsStorageSetEncryptionKey'', [Lit ''Storage'', Var ''StorageId'', Lit ''Actions'', Lit ''Storage.SetEncryptionKey''], [Post]),
        (''StorageStorageIdControllers'', [Lit ''Storage'', Var ''StorageId'', Lit ''Controllers''], [Get])]"

definition Routes_CompositionService_28 :: Routes where
  "Routes_CompositionService_28 =
     under at_root ''CompositionServiceResourceBlocksResourceBlockIdSystemsComputerSystemIdStorageStorageIdControllersControllerId''
       [Lit ''CompositionService'', Lit ''ResourceBlocks'', Var ''ResourceBlockId'', Lit ''Systems'', Var ''ComputerSystemId'', Lit ''Storage'', Var ''StorageId'', Lit ''Controllers'', Var ''ControllerId'']
       [('''', [], [Get, Put, Patch]),
        (''ActionsStorageControllerAttachNamespaces'', [Lit ''Actions'', Lit ''StorageController.AttachNamespaces''], [Post]),
        (''ActionsStorageControllerDetachNamespaces'', [Lit ''Actions'', Lit ''StorageController.DetachNamespaces''], [Post]),
        (''ActionsStorageControllerSecurityReceive'', [Lit ''Actions'', Lit ''StorageController.SecurityReceive''], [Post]),
        (''ActionsStorageControllerSecuritySend'', [Lit ''Actions'', Lit ''StorageController.SecuritySend''], [Post]),
        (''EnvironmentMetrics'', [Lit ''EnvironmentMetrics''], [Get, Put, Patch]),
        (''EnvironmentMetricsActionsEnvironmentMetricsResetMetrics'', [Lit ''EnvironmentMetrics'', Lit ''Actions'', Lit ''EnvironmentMetrics.ResetMetrics''], [Post]),
        (''EnvironmentMetricsActionsEnvironmentMetricsResetToDefaults'', [Lit ''EnvironmentMetrics'', Lit ''Actions'', Lit ''EnvironmentMetrics.ResetToDefaults''], [Post]),
        (''Metrics'', [Lit ''Metrics''], [Get])]"

definition Routes_CompositionService_29 :: Routes where
  "Routes_CompositionService_29 =
     under at_root ''CompositionServiceResourceBlocksResourceBlockIdSystemsComputerSystemIdStorageStorageIdControllersStorageControllerId''
       [Lit ''CompositionService'', Lit ''ResourceBlocks'', Var ''ResourceBlockId'', Lit ''Systems'', Var ''ComputerSystemId'', Lit ''Storage'', Var ''StorageId'', Lit ''Controllers'', Var ''StorageControllerId'']
       [(''Assembly'', [Lit ''Assembly''], [Get, Put, Patch]),
        (''Certificates'', [Lit ''Certificates''], [Get, Post]),
        (''CertificatesCertificateId'', [Lit ''Certificates'', Var ''CertificateId''], [Get, Put, Delete, Patch]),
        (''CertificatesCertificateIdActionsCertificateRekey'', [Lit ''Certificates'', Var ''CertificateId'', Lit ''Actions'', Lit ''Certificate.Rekey''], [Post]),
        (''CertificatesCertificateIdActionsCertificateRenew'', [Lit ''Certificates'', Var ''CertificateId'', Lit ''Actions'', Lit ''Certificate.Renew''], [Post]),
        (''Ports'', [Lit ''Ports''], [Get]),
        (''PortsPortId'', [Lit ''Ports'', Var ''PortId''], [Get, Put, Patch]),
        (''PortsPortIdActionsPortReset'', [Lit ''Ports'', Var ''PortId'', Lit ''Actions'', Lit ''Port.Reset''], [Post]),
        (''PortsPortIdActionsPortResetPPB'', [Lit ''Ports'', Var ''PortId'', Lit ''Actions'', Lit ''Port.ResetPPB''], [Post]),
        (''PortsPortIdEnvironmentMetrics'', [Lit ''Ports'', Var ''PortId'', Lit ''EnvironmentMetrics''], [Get, Put, Patch]),
        (''PortsPortIdEnvironmentMetricsActionsEnvironmentMetricsResetMetrics'', [Lit ''Ports'', Var ''PortId'', Lit ''EnvironmentMetrics'', Lit ''Actions'', Lit ''EnvironmentMetrics.ResetMetrics''], [Post]),
        (''PortsPortIdEnvironmentMetricsActionsEnvironmentMetricsResetToDefaults'', [Lit ''Ports'', Var ''PortId'', Lit ''EnvironmentMetrics'', Lit ''Actions'', Lit ''EnvironmentMetrics.ResetToDefaults''], [Post]),
        (''PortsPortIdMetrics'', [Lit ''Ports'', Var ''PortId'', Lit ''Metrics''], [Get])]"

definition Routes_CompositionService_30 :: Routes where
  "Routes_CompositionService_30 =
     under at_root ''CompositionServiceResourceBlocksResourceBlockIdSystemsComputerSystemIdStorageStorageIdDrivesDriveId''
       [Lit ''CompositionService'', Lit ''ResourceBlocks'', Var ''ResourceBlockId'', Lit ''Systems'', Var ''ComputerSystemId'', Lit ''Storage'', Var ''StorageId'', Lit ''Drives'', Var ''DriveId'']
       [('''', [], [Get, Put, Patch]),
        (''ActionsDriveReset'', [Lit ''Actions'', Lit ''Drive.Reset''], [Post]),
        (''ActionsDriveRevertToOriginalFactoryState'', [Lit ''Actions'', Lit ''Drive.RevertToOriginalFactoryState''], [Post]),
        (''ActionsDriveSecureErase'', [Lit ''Actions'', Lit ''Drive.SecureErase''], [Post]),
        (''Assembly'', [Lit ''Assembly''], [Get, Put, Patch]),
        (''Certificates'', [Lit ''Certificates''], [Get, Post]),
        (''CertificatesCertificateId'', [Lit ''Certificates'', Var ''CertificateId''], [Get, Put, Delete, Patch]),
        (''CertificatesCertificateIdActionsCertificateRekey'', [Lit ''Certificates'', Var ''CertificateId'', Lit ''Actions'', Lit ''Certificate.Rekey''], [Post]),
        (''CertificatesCertificateIdActionsCertificateRenew'', [Lit ''Certificates'', Var ''CertificateId'', Lit ''Actions'', Lit ''Certificate.Renew''], [Post]),
        (''EnvironmentMetrics'', [Lit ''EnvironmentMetrics''], [Get, Put, Patch]),
        (''EnvironmentMetricsActionsEnvironmentMetricsResetMetrics'', [Lit ''EnvironmentMetrics'', Lit ''Actions'', Lit ''EnvironmentMetrics.ResetMetrics''], [Post]),
        (''EnvironmentMetricsActionsEnvironmentMetricsResetToDefaults'', [Lit ''EnvironmentMetrics'', Lit ''Actions'', Lit ''EnvironmentMetrics.ResetToDefaults''], [Post]),
        (''Metrics'', [Lit ''Metrics''], [Get])]"

definition Routes_CompositionService_31 :: Routes where
  "Routes_CompositionService_31 =
     under at_root ''CompositionServiceResourceBlocksResourceBlockIdSystemsComputerSystemIdStorageStorageIdStorageControllersStorageControllerId''
       [Lit ''CompositionService'', Lit ''ResourceBlocks'', Var ''ResourceBlockId'', Lit ''Systems'', Var ''ComputerSystemId'', Lit ''Storage'', Var ''StorageId'', Lit ''StorageControllers'', Var ''StorageControllerId'']
       [(''Assembly'', [Lit ''Assembly''], [Get, Put, Patch]),
        (''Certificates'', [Lit ''Certificates''], [Get, Post]),
        (''CertificatesCertificateId'', [Lit ''Certificates'', Var ''CertificateId''], [Get, Put, Delete, Patch]),
        (''CertificatesCertificateIdActionsCertificateRekey'', [Lit ''Certificates'', Var ''CertificateId'', Lit ''Actions'', Lit ''Certificate.Rekey''], [Post]),
        (''CertificatesCertificateIdActionsCertificateRenew'', [Lit ''Certificates'', Var ''CertificateId'', Lit ''Actions'', Lit ''Certificate.Renew''], [Post]),
        (''Ports'', [Lit ''Ports''], [Get]),
        (''PortsPortId'', [Lit ''Ports'', Var ''PortId''], [Get, Put, Patch]),
        (''PortsPortIdActionsPortReset'', [Lit ''Ports'', Var ''PortId'', Lit ''Actions'', Lit ''Port.Reset''], [Post]),
        (''PortsPortIdActionsPortResetPPB'', [Lit ''Ports'', Var ''PortId'', Lit ''Actions'', Lit ''Port.ResetPPB''], [Post]),
        (''PortsPortIdEnvironmentMetrics'', [Lit ''Ports'', Var ''PortId'', Lit ''EnvironmentMetrics''], [Get, Put, Patch]),
        (''PortsPortIdEnvironmentMetricsActionsEnvironmentMetricsResetMetrics'', [Lit ''Ports'', Var ''PortId'', Lit ''EnvironmentMetrics'', Lit ''Actions'', Lit ''EnvironmentMetrics.ResetMetrics''], [Post]),
        (''PortsPortIdEnvironmentMetricsActionsEnvironmentMetricsResetToDefaults'', [Lit ''Ports'', Var ''PortId'', Lit ''EnvironmentMetrics'', Lit ''Actions'', Lit ''EnvironmentMetrics.ResetToDefaults''], [Post]),
        (''PortsPortIdMetrics'', [Lit ''Ports'', Var ''PortId'', Lit ''Metrics''], [Get])]"

definition Routes_CompositionService_32 :: Routes where
  "Routes_CompositionService_32 =
     under at_root ''CompositionServiceResourceBlocksResourceBlockIdSystemsComputerSystemIdStorageStorageIdVolumes''
       [Lit ''CompositionService'', Lit ''ResourceBlocks'', Var ''ResourceBlockId'', Lit ''Systems'', Var ''ComputerSystemId'', Lit ''Storage'', Var ''StorageId'', Lit ''Volumes'']
       [('''', [], [Get, Post]),
        (''VolumeId'', [Var ''VolumeId''], [Get, Put, Delete, Patch]),
        (''VolumeIdActionsVolumeAssignReplicaTarget'', [Var ''VolumeId'', Lit ''Actions'', Lit ''Volume.AssignReplicaTarget''], [Post]),
        (''VolumeIdActionsVolumeChangeRAIDLayout'', [Var ''VolumeId'', Lit ''Actions'', Lit ''Volume.ChangeRAIDLayout''], [Post]),
        (''VolumeIdActionsVolumeCheckConsistency'', [Var ''VolumeId'', Lit ''Actions'', Lit ''Volume.CheckConsistency''], [Post]),
        (''VolumeIdActionsVolumeCreateReplicaTarget'', [Var ''VolumeId'', Lit ''Actions'', Lit ''Volume.CreateReplicaTarget''], [Post]),
        (''VolumeIdActionsVolumeForceEnable'', [Var ''VolumeId'', Lit ''Actions'', Lit ''Volume.ForceEnable''], [Post]),
        (''VolumeIdActionsVolumeInitialize'', [Var ''VolumeId'', Lit ''Actions'', Lit ''Volume.Initialize''], [Post]),
        (''VolumeIdActionsVolumeRemoveReplicaRelationship'', [Var ''VolumeId'', Lit ''Actions'', Lit ''Volume.RemoveReplicaRelationship''], [Post]),
        (''VolumeIdActionsVolumeResumeReplication'', [Var ''VolumeId'', Lit ''Actions'', Lit ''Volume.ResumeReplication''], [Post]),
        (''VolumeIdActionsVolumeReverseReplicationRelationship'', [Var ''VolumeId'', Lit ''Actions'', Lit ''Volume.ReverseReplicationRelationship''], [Post]),
        (''VolumeIdActionsVolumeSplitReplication'', [Var ''VolumeId'', Lit ''Actions'', Lit ''Volume.SplitReplication''], [Post]),
        (''VolumeIdActionsVolumeSuspendReplication'', [Var ''VolumeId'', Lit ''Actions'', Lit ''Volume.SuspendReplication''], [Post])]"

definition Routes_CompositionService_33 :: Routes where
  "Routes_CompositionService_33 =
     under at_root ''CompositionServiceResourceBlocksResourceBlockIdSystemsComputerSystemIdUSBControllersControllerIdPorts''
       [Lit ''CompositionService'', Lit ''ResourceBlocks'', Var ''ResourceBlockId'', Lit ''Systems'', Var ''ComputerSystemId'', Lit ''USBControllers'', Var ''ControllerId'', Lit ''Ports'']
       [('''', [], [Get]),
        (''PortId'', [Var ''PortId''], [Get, Put, Patch]),
        (''PortIdActionsPortReset'', [Var ''PortId'', Lit ''Actions'', Lit ''Port.Reset''], [Post]),
        (''PortIdActionsPortResetPPB'', [Var ''PortId'', Lit ''Actions'', Lit ''Port.ResetPPB''], [Post]),
        (''PortIdEnvironmentMetrics'', [Var ''PortId'', Lit ''EnvironmentMetrics''], [Get, Put, Patch]),
        (''PortIdEnvironmentMetricsActionsEnvironmentMetricsResetMetrics'', [Var ''PortId'', Lit ''EnvironmentMetrics'', Lit ''Actions'', Lit ''EnvironmentMetrics.ResetMetrics''], [Post]),
        (''PortIdEnvironmentMetricsActionsEnvironmentMetricsResetToDefaults'', [Var ''PortId'', Lit ''EnvironmentMetrics'', Lit ''Actions'', Lit ''EnvironmentMetrics.ResetToDefaults''], [Post]),
        (''PortIdMetrics'', [Var ''PortId'', Lit ''Metrics''], [Get])]"

definition Routes_CompositionService_34 :: Routes where
  "Routes_CompositionService_34 =
     under at_root ''CompositionServiceResourceBlocksResourceBlockIdSystemsComputerSystemIdVirtualMedia''
       [Lit ''CompositionService'', Lit ''ResourceBlocks'', Var ''ResourceBlockId'', Lit ''Systems'', Var ''ComputerSystemId'', Lit ''VirtualMedia'']
       [('''', [], [Get]),
        (''VirtualMediaId'', [Var ''VirtualMediaId''], [Get, Put, Patch]),
        (''VirtualMediaIdActionsVirtualMediaEjectMedia'', [Var ''VirtualMediaId'', Lit ''Actions'', Lit ''VirtualMedia.EjectMedia''], [Post]),
        (''VirtualMediaIdActionsVirtualMediaInsertMedia'', [Var ''VirtualMediaId'', Lit ''Actions'', Lit ''VirtualMedia.InsertMedia''], [Post]),
        (''VirtualMediaIdCertificates'', [Var ''VirtualMediaId'', Lit ''Certificates''], [Get, Post]),
        (''VirtualMediaIdCertificatesCertificateId'', [Var ''VirtualMediaId'', Lit ''Certificates'', Var ''CertificateId''], [Get, Put, Delete, Patch]),
        (''VirtualMediaIdCertificatesCertificateIdActionsCertificateRekey'', [Var ''VirtualMediaId'', Lit ''Certificates'', Var ''CertificateId'', Lit ''Actions'', Lit ''Certificate.Rekey''], [Post]),
        (''VirtualMediaIdCertificatesCertificateIdActionsCertificateRenew'', [Var ''VirtualMediaId'', Lit ''Certificates'', Var ''CertificateId'', Lit ''Actions'', Lit ''Certificate.Renew''], [Post]),
        (''VirtualMediaIdClientCertificates'', [Var ''VirtualMediaId'', Lit ''ClientCertificates''], [Get, Post]),
        (''VirtualMediaIdClientCertificatesCertificateId'', [Var ''VirtualMediaId'', Lit ''ClientCertificates'', Var ''CertificateId''], [Get, Put, Delete, Patch]),
        (''VirtualMediaIdClientCertificatesCertificateIdActionsCertificateRekey'', [Var ''VirtualMediaId'', Lit ''ClientCertificates'', Var ''CertificateId'', Lit ''Actions'', Lit ''Certificate.Rekey''], [Post]),
        (''VirtualMediaIdClientCertificatesCertificateIdActionsCertificateRenew'', [Var ''VirtualMediaId'', Lit ''ClientCertificates'', Var ''CertificateId'', Lit ''Actions'', Lit ''Certificate.Renew''], [Post])]"

definition Routes_CompositionService_35 :: Routes where
  "Routes_CompositionService_35 =
     under at_root ''CompositionServiceResourceBlocksResourceBlockIdSystemsSystemIdFabricAdaptersFabricAdapterId''
       [Lit ''CompositionService'', Lit ''ResourceBlocks'', Var ''ResourceBlockId'', Lit ''Systems'', Var ''SystemId'', Lit ''FabricAdapters'', Var ''FabricAdapterId'']
       [(''GenZREQVCAT'', [Lit ''GenZ'', Lit ''REQ-VCAT''], [Get, Post]),
        (''GenZREQVCATVCATEntryId'', [Lit ''GenZ'', Lit ''REQ-VCAT'', Var ''VCATEntryId''], [Get, Put, Delete, Patch]),
        (''GenZRSPVCAT'', [Lit ''GenZ'', Lit ''RSP-VCAT''], [Get, Post]),
        (''GenZRSPVCATVCATEntryId'', [Lit ''GenZ'', Lit ''RSP-VCAT'', Var ''VCATEntryId''], [Get, Put, Delete, Patch]),
        (''PortsPortIdGenZVCAT'', [Lit ''Ports'', Var ''PortId'', Lit ''GenZ'', Lit ''VCAT''], [Get, Post]),
        (''PortsPortIdGenZVCATVCATEntryId'', [Lit ''Ports'', Var ''PortId'', Lit ''GenZ'', Lit ''VCAT'', Var ''VCATEntryId''], [Get, Put, Delete, Patch]),
        (''PortsPortIdVCAT'', [Lit ''Ports'', Var ''PortId'', Lit ''VCAT''], [Get, Post]),
        (''PortsPortIdVCATVCATEntryId'', [Lit ''Ports'', Var ''PortId'', Lit ''VCAT'', Var ''VCATEntryId''], [Get, Put, Delete, Patch]),
        (''REQVCAT'', [Lit ''REQ-VCAT''], [Get, Post]),
        (''REQVCATVCATEntryId'', [Lit ''REQ-VCAT'', Var ''VCATEntryId''], [Get, Put, Delete, Patch])]"

definition Routes_CompositionService_36 :: Routes where
  "Routes_CompositionService_36 =
     under at_root ''CompositionService''
       [Lit ''CompositionService'']
       [(''ResourceBlocksResourceBlockIdSystemsSystemIdFabricAdaptersFabricAdapterIdRSPVCAT'', [Lit ''ResourceBlocks'', Var ''ResourceBlockId'', Lit ''Systems'', Var ''SystemId'', Lit ''FabricAdapters'', Var ''FabricAdapterId'', Lit ''RSP-VCAT''], [Get, Post]),
        (''ResourceBlocksResourceBlockIdSystemsSystemIdFabricAdaptersFabricAdapterIdRSPVCATVCATEntryId'', [Lit ''ResourceBlocks'', Var ''ResourceBlockId'', Lit ''Systems'', Var ''SystemId'', Lit ''FabricAdapters'', Var ''FabricAdapterId'', Lit ''RSP-VCAT'', Var ''VCATEntryId''], [Get, Put, Delete, Patch]),
        (''ResourceZones'', [Lit ''ResourceZones''], [Get, Post]),
        (''ResourceZonesZoneId'', [Lit ''ResourceZones'', Var ''ZoneId''], [Get, Put, Delete, Patch]),
        (''ResourceZonesZoneIdActionsZoneAddEndpoint'', [Lit ''ResourceZones'', Var ''ZoneId'', Lit ''Actions'', Lit ''Zone.AddEndpoint''], [Post]),
        (''ResourceZonesZoneIdActionsZoneRemoveEndpoint'', [Lit ''ResourceZones'', Var ''ZoneId'', Lit ''Actions'', Lit ''Zone.RemoveEndpoint''], [Post])]"

definition composition_routes :: Routes where
  "composition_routes = concat
     [Routes_CompositionService_1, Routes_CompositionService_2, Routes_CompositionService_3,
      Routes_CompositionService_4, Routes_CompositionService_5, Routes_CompositionService_6,
      Routes_CompositionService_7, Routes_CompositionService_8, Routes_CompositionService_9,
      Routes_CompositionService_10, Routes_CompositionService_11, Routes_CompositionService_12,
      Routes_CompositionService_13, Routes_CompositionService_14, Routes_CompositionService_15,
      Routes_CompositionService_16, Routes_CompositionService_17, Routes_CompositionService_18,
      Routes_CompositionService_19, Routes_CompositionService_20, Routes_CompositionService_21,
      Routes_CompositionService_22, Routes_CompositionService_23, Routes_CompositionService_24,
      Routes_CompositionService_25, Routes_CompositionService_26, Routes_CompositionService_27,
      Routes_CompositionService_28, Routes_CompositionService_29, Routes_CompositionService_30,
      Routes_CompositionService_31, Routes_CompositionService_32, Routes_CompositionService_33,
      Routes_CompositionService_34, Routes_CompositionService_35, Routes_CompositionService_36]"

lemma CompositionService_1_settled: "list_all settled Routes_CompositionService_1"
  unfolding Routes_CompositionService_1_def
  by (rule settled_foreign, (rule parting | (simp; fail))+)

lemma CompositionService_2_settled: "list_all settled Routes_CompositionService_2"
  unfolding Routes_CompositionService_2_def
  by (rule settled_foreign, (rule parting | (simp; fail))+)

lemma CompositionService_3_settled: "list_all settled Routes_CompositionService_3"
  unfolding Routes_CompositionService_3_def
  by (rule settled_foreign, (rule parting | (simp; fail))+)

lemma CompositionService_4_settled: "list_all settled Routes_CompositionService_4"
  unfolding Routes_CompositionService_4_def
  by (rule settled_foreign, (rule parting | (simp; fail))+)

lemma CompositionService_5_settled: "list_all settled Routes_CompositionService_5"
  unfolding Routes_CompositionService_5_def
  by (rule settled_foreign, (rule parting | (simp; fail))+)

lemma CompositionService_6_settled: "list_all settled Routes_CompositionService_6"
  unfolding Routes_CompositionService_6_def
  by (rule settled_foreign, (rule parting | (simp; fail))+)

lemma CompositionService_7_settled: "list_all settled Routes_CompositionService_7"
  unfolding Routes_CompositionService_7_def
  by (rule settled_foreign, (rule parting | (simp; fail))+)

lemma CompositionService_8_settled: "list_all settled Routes_CompositionService_8"
  unfolding Routes_CompositionService_8_def
  by (rule settled_foreign, (rule parting | (simp; fail))+)

lemma CompositionService_9_settled: "list_all settled Routes_CompositionService_9"
  unfolding Routes_CompositionService_9_def
  by (rule settled_foreign, (rule parting | (simp; fail))+)

lemma CompositionService_10_settled: "list_all settled Routes_CompositionService_10"
  unfolding Routes_CompositionService_10_def
  by (rule settled_foreign, (rule parting | (simp; fail))+)

lemma CompositionService_11_settled: "list_all settled Routes_CompositionService_11"
  unfolding Routes_CompositionService_11_def
  by (rule settled_foreign, (rule parting | (simp; fail))+)

lemma CompositionService_12_settled: "list_all settled Routes_CompositionService_12"
  unfolding Routes_CompositionService_12_def
  by (rule settled_foreign, (rule parting | (simp; fail))+)

lemma CompositionService_13_settled: "list_all settled Routes_CompositionService_13"
  unfolding Routes_CompositionService_13_def
  by (rule settled_foreign, (rule parting | (simp; fail))+)

lemma CompositionService_14_settled: "list_all settled Routes_CompositionService_14"
  unfolding Routes_CompositionService_14_def
  by (rule settled_foreign, (rule parting | (simp; fail))+)

lemma CompositionService_15_settled: "list_all settled Routes_CompositionService_15"
  unfolding Routes_CompositionService_15_def
  by (rule settled_foreign, (rule parting | (simp; fail))+)

lemma CompositionService_16_settled: "list_all settled Routes_CompositionService_16"
  unfolding Routes_CompositionService_16_def
  by (rule settled_foreign, (rule parting | (simp; fail))+)

lemma CompositionService_17_settled: "list_all settled Routes_CompositionService_17"
  unfolding Routes_CompositionService_17_def
  by (rule settled_foreign, (rule parting | (simp; fail))+)

lemma CompositionService_18_settled: "list_all settled Routes_CompositionService_18"
  unfolding Routes_CompositionService_18_def
  by (rule settled_foreign, (rule parting | (simp; fail))+)

lemma CompositionService_19_settled: "list_all settled Routes_CompositionService_19"
  unfolding Routes_CompositionService_19_def
  by (rule settled_foreign, (rule parting | (simp; fail))+)

lemma CompositionService_20_settled: "list_all settled Routes_CompositionService_20"
  unfolding Routes_CompositionService_20_def
  by (rule settled_foreign, (rule parting | (simp; fail))+)

lemma CompositionService_21_settled: "list_all settled Routes_CompositionService_21"
  unfolding Routes_CompositionService_21_def
  by (rule settled_foreign, (rule parting | (simp; fail))+)

lemma CompositionService_22_settled: "list_all settled Routes_CompositionService_22"
  unfolding Routes_CompositionService_22_def
  by (rule settled_foreign, (rule parting | (simp; fail))+)

lemma CompositionService_23_settled: "list_all settled Routes_CompositionService_23"
  unfolding Routes_CompositionService_23_def
  by (rule settled_foreign, (rule parting | (simp; fail))+)

lemma CompositionService_24_settled: "list_all settled Routes_CompositionService_24"
  unfolding Routes_CompositionService_24_def
  by (rule settled_foreign, (rule parting | (simp; fail))+)

lemma CompositionService_25_settled: "list_all settled Routes_CompositionService_25"
  unfolding Routes_CompositionService_25_def
  by (rule settled_foreign, (rule parting | (simp; fail))+)

lemma CompositionService_26_settled: "list_all settled Routes_CompositionService_26"
  unfolding Routes_CompositionService_26_def
  by (rule settled_foreign, (rule parting | (simp; fail))+)

lemma CompositionService_27_settled: "list_all settled Routes_CompositionService_27"
  unfolding Routes_CompositionService_27_def
  by (rule settled_foreign, (rule parting | (simp; fail))+)

lemma CompositionService_28_settled: "list_all settled Routes_CompositionService_28"
  unfolding Routes_CompositionService_28_def
  by (rule settled_foreign, (rule parting | (simp; fail))+)

lemma CompositionService_29_settled: "list_all settled Routes_CompositionService_29"
  unfolding Routes_CompositionService_29_def
  by (rule settled_foreign, (rule parting | (simp; fail))+)

lemma CompositionService_30_settled: "list_all settled Routes_CompositionService_30"
  unfolding Routes_CompositionService_30_def
  by (rule settled_foreign, (rule parting | (simp; fail))+)

lemma CompositionService_31_settled: "list_all settled Routes_CompositionService_31"
  unfolding Routes_CompositionService_31_def
  by (rule settled_foreign, (rule parting | (simp; fail))+)

lemma CompositionService_32_settled: "list_all settled Routes_CompositionService_32"
  unfolding Routes_CompositionService_32_def
  by (rule settled_foreign, (rule parting | (simp; fail))+)

lemma CompositionService_33_settled: "list_all settled Routes_CompositionService_33"
  unfolding Routes_CompositionService_33_def
  by (rule settled_foreign, (rule parting | (simp; fail))+)

lemma CompositionService_34_settled: "list_all settled Routes_CompositionService_34"
  unfolding Routes_CompositionService_34_def
  by (rule settled_foreign, (rule parting | (simp; fail))+)

lemma CompositionService_35_settled: "list_all settled Routes_CompositionService_35"
  unfolding Routes_CompositionService_35_def
  by (rule settled_foreign, (rule parting | (simp; fail))+)

lemma CompositionService_36_settled: "list_all settled Routes_CompositionService_36"
  unfolding Routes_CompositionService_36_def
  by (rule settled_foreign, (rule parting | (simp; fail))+)

lemma composition_routes_settled: "list_all settled composition_routes"
  unfolding composition_routes_def
  by (intro settled_concat
    CompositionService_1_settled CompositionService_2_settled CompositionService_3_settled
    CompositionService_4_settled CompositionService_5_settled CompositionService_6_settled
    CompositionService_7_settled CompositionService_8_settled CompositionService_9_settled
    CompositionService_10_settled CompositionService_11_settled CompositionService_12_settled
    CompositionService_13_settled CompositionService_14_settled CompositionService_15_settled
    CompositionService_16_settled CompositionService_17_settled CompositionService_18_settled
    CompositionService_19_settled CompositionService_20_settled CompositionService_21_settled
    CompositionService_22_settled CompositionService_23_settled CompositionService_24_settled
    CompositionService_25_settled CompositionService_26_settled CompositionService_27_settled
    CompositionService_28_settled CompositionService_29_settled CompositionService_30_settled
    CompositionService_31_settled CompositionService_32_settled CompositionService_33_settled
    CompositionService_34_settled CompositionService_35_settled CompositionService_36_settled)

end
