(* ===== verification/Operations.thy ===== *)
theory Operations
  imports Routing
begin

text \<open>
  What the generated controllers of api_default.go have in common: each requires its path variables,
  decodes and checks a body where its method has one, calls the service method of its own name and
  encodes the answer.  An entry \<open>(name, params, body)\<close> says what the controller \<open>name\<close> asks of a
  request before it calls the service; what the controllers of the implemented methods do with the answer,
  such as the headers of a log-in, is in Controllers.
\<close>

section \<open>Operations\<close>

text \<open>
  No body; a body decoded into a map; one decoded into a struct and checked for required fields and
  constraints; one checked for constraints alone.
\<close>

datatype body_demand = Bodiless | Untyped | Checked string | Unrequired string

type_synonym operations = "(string \<times> string list \<times> body_demand) list"

text \<open>
  The controllers of one path share its variables and, as far as they have a body at all, its type.
  \<open>ops base stem params rows\<close> are the controllers of the paths of a group, as \<open>under\<close> are its routes.
\<close>

fun body_of :: "body_demand \<Rightarrow> verb \<Rightarrow> body_demand" where
  "body_of t Get = Bodiless"
| "body_of t Delete = Bodiless"
| "body_of t _ = t"

definition op_root :: "string \<times> string list" where
  "op_root = (fst at_root, [])"

definition op_system :: "string \<times> string list" where
  "op_system = (fst at_system, [''ComputerSystemId''])"

definition op_manager :: "string \<times> string list" where
  "op_manager = (fst at_manager, [''ManagerId''])"

definition ops ::
  "string \<times> string list \<Rightarrow> string \<Rightarrow> string list \<Rightarrow> (string \<times> string list \<times> body_demand \<times> verb list) list \<Rightarrow> operations" where
  "ops base stem params rows =
     concat (map (\<lambda>(st, ps, t, vs).
       map (\<lambda>v. ((fst base @ stem @ st) @ verb_name v, snd base @ params @ ps, body_of t v)) vs) rows)"

section \<open>Controllers of stubs\<close>

text \<open>
  Decoding a body into a type, known by its name in the source, and the two checks of the type are
  parameters here: the errors they report.
\<close>

record 'b body_checks =
  bc_decode :: "string \<Rightarrow> 'b \<Rightarrow> go_error option"
  bc_required :: "string \<Rightarrow> 'b \<Rightarrow> go_error option"
  bc_constraints :: "string \<Rightarrow> 'b \<Rightarrow> go_error option"

definition decoded :: "'b body_checks \<Rightarrow> string \<Rightarrow> 'b \<Rightarrow> go_error + unit" where
  "decoded bc t b = (case bc_decode bc t b of None \<Rightarrow> Inr () | Some err \<Rightarrow> Inl err)"

fun with_params ::
  "(string \<times> string) list \<Rightarrow> string list \<Rightarrow> ('m redfish, payload response) op \<Rightarrow> ('m redfish, payload response) op" where
  "with_params vars [] k = k"
| "with_params vars (p # ps) k = with_param vars p (\<lambda>_. with_params vars ps k)"

fun with_demand ::
  "'b body_checks \<Rightarrow> body_demand \<Rightarrow> 'b \<Rightarrow> ('m redfish, payload response) op \<Rightarrow> ('m redfish, payload response) op" where
  "with_demand bc Bodiless b k = k"
| "with_demand bc Untyped b k = with_body (decoded bc ''map[string]interface{}'' b) (\<lambda>_. k)"
| "with_demand bc (Checked t) b k =
     with_body (decoded bc t b) (\<lambda>_. checked (bc_required bc t b) (checked (bc_constraints bc t b) k))"
| "with_demand bc (Unrequired t) b k = with_body (decoded bc t b) (\<lambda>_. checked (bc_constraints bc t b) k)"

fun stub_operation ::
  "'b body_checks \<Rightarrow> string \<times> string list \<times> body_demand \<Rightarrow> (string \<times> string) list \<Rightarrow> 'b request
    \<Rightarrow> ('m redfish, payload response) op" where
  "stub_operation bc (name, params, body) vars r =
     with_params vars params (with_demand bc body (req_body r) (answer (stub name)))"

text \<open>The same as one check, the form in which the dispatch of the controllers takes it (\<open>wi_stub_checks\<close>).\<close>

definition missing :: "(string \<times> string) list \<Rightarrow> string \<Rightarrow> bool" where
  "missing vars p \<longleftrightarrow> map_of vars p = None \<or> map_of vars p = Some ''''"

fun demand_error :: "'b body_checks \<Rightarrow> body_demand \<Rightarrow> 'b \<Rightarrow> go_error option" where
  "demand_error bc Bodiless b = None"
| "demand_error bc Untyped b = map_option (ParsingError '''') (bc_decode bc ''map[string]interface{}'' b)"
| "demand_error bc (Checked t) b =
     first_error [map_option (ParsingError '''') (bc_decode bc t b), bc_required bc t b, bc_constraints bc t b]"
| "demand_error bc (Unrequired t) b =
     first_error [map_option (ParsingError '''') (bc_decode bc t b), bc_constraints bc t b]"

definition operation_error ::
  "'b body_checks \<Rightarrow> operations \<Rightarrow> string \<Rightarrow> 'b request \<Rightarrow> (string \<times> string) list \<Rightarrow> go_error option" where
  "operation_error bc os name r vars =
     (case map_of os name of
        None \<Rightarrow> None
      | Some (params, body) \<Rightarrow>
         (case find (missing vars) params of
            Some p \<Rightarrow> Some (RequiredError p)
          | None \<Rightarrow> demand_error bc body (req_body r)))"

lemma with_params_find:
  "with_params vars params k =
     (case find (missing vars) params of Some p \<Rightarrow> DefaultErrorHandler (RequiredError p) None | None \<Rightarrow> k)"
  by (induction params) (auto simp: with_param_def missing_def split: option.splits)

lemma with_demand_error: "with_demand bc body b k = checked (demand_error bc body b) k"
  by (cases body) (auto simp: decoded_def with_body_def checked_def split: option.splits)

lemma stub_operation_checked:
  assumes "map_of os name = Some (params, body)"
  shows "stub_operation bc (name, params, body) vars r = checked (operation_error bc os name r vars) (answer (stub name))"
  using assms by (auto simp: with_params_find with_demand_error operation_error_def checked_def split: option.split)

definition api_wire :: "'b body_checks \<Rightarrow> operations \<Rightarrow> 'b wire \<Rightarrow> 'b wire" where
  "api_wire bc os wi = wi\<lparr>wi_stub_checks := operation_error bc os\<rparr>"

section \<open>Routes and controllers agree\<close>

fun pattern_vars :: "segment list \<Rightarrow> string list" where
  "pattern_vars [] = []"
| "pattern_vars (Lit l # ps) = pattern_vars ps"
| "pattern_vars (Var x # ps) = x # pattern_vars ps"

text \<open>The routes of a group name the controllers of the group, in order, and have their variables.\<close>

definition aligned :: "Routes \<Rightarrow> operations \<Rightarrow> bool" where
  "aligned routes os \<longleftrightarrow>
     map (\<lambda>(_, rt). (rt_HandlerFunc rt, pattern_vars (rt_Pattern rt))) routes = map (\<lambda>(name, ps, _). (name, ps)) os"

lemma aligned_concat:
  "aligned (concat []) (concat [])"
  "aligned rs os \<Longrightarrow> aligned (concat rss) (concat oss) \<Longrightarrow> aligned (concat (rs # rss)) (concat (os # oss))"
  by (auto simp: aligned_def)

lemma pattern_vars_append: "pattern_vars (ps @ qs) = pattern_vars ps @ pattern_vars qs"
  by (induction ps rule: pattern_vars.induct) auto

text \<open>Of a group only what its rows add is compared, row by row.\<close>

definition spread :: "(string \<times> segment list \<times> verb list) list \<Rightarrow> (string \<times> string list \<times> verb) list" where
  "spread rows = concat (map (\<lambda>(st, sg, vs). map (\<lambda>v. (st, pattern_vars sg, v)) vs) rows)"

definition op_spread :: "(string \<times> string list \<times> body_demand \<times> verb list) list list \<Rightarrow> (string \<times> string list \<times> verb) list" where
  "op_spread rowss = concat (map (\<lambda>(st, ps, t, vs). map (\<lambda>v. (st, ps, v)) vs) (concat rowss))"

lemma ops_concat: "ops base stem ps (concat rowss) = concat (map (ops base stem ps) rowss)"
  by (induction rowss) (simp_all add: ops_def)

lemma aligned_group:
  assumes "fst base = fst base'" and "pattern_vars (snd base) = snd base'"
    and "os = map (ops base' stem ps) rowss" and "pattern_vars pre = ps" and "spread rows = op_spread rowss"
  shows "aligned (under base stem pre rows) (concat os)"
proof -
  let ?f = "\<lambda>(st, ps', v). ((fst base @ stem @ st) @ verb_name v, snd base' @ ps @ ps')"
  have "map (\<lambda>(_, rt). (rt_HandlerFunc rt, pattern_vars (rt_Pattern rt))) (under base stem pre rows) = map ?f (spread rows)"
    using assms(2,4)
    by (simp add: under_def spread_def path_entries_def entry_def map_concat pattern_vars_append split_def comp_def)
  also have "\<dots> = map (\<lambda>(name, ps, _). (name, ps)) (ops base' stem ps (concat rowss))"
    using assms(1,5) by (simp add: ops_def op_spread_def map_concat split_def comp_def)
  also have "ops base' stem ps (concat rowss) = concat os"
    using assms(3) ops_concat by simp
  finally show ?thesis unfolding aligned_def .
qed

lemma aligned_bases:
  "fst at_root = fst op_root" "pattern_vars (snd at_root) = snd op_root"
  "fst at_system = fst op_system" "pattern_vars (snd at_system) = snd op_system"
  "fst at_manager = fst op_manager" "pattern_vars (snd at_manager) = snd op_manager"
  by (simp_all add: at_root_def at_system_def at_manager_def op_root_def op_system_def op_manager_def
      service_root_def system_path_def manager_path_def)

lemmas aligned_at = aligned_group [OF aligned_bases(1,2)] aligned_group [OF aligned_bases(3,4)]
  aligned_group [OF aligned_bases(5,6)]

lemma pattern_vars_rules:
  "pattern_vars [] = []"
  "pattern_vars ps = xs \<Longrightarrow> pattern_vars (Lit l # ps) = xs"
  "pattern_vars ps = xs \<Longrightarrow> pattern_vars (Var x # ps) = x # xs"
  by simp_all

lemma ops_rules:
  "[] = map (ops base stem ps) []"
  "os = map (ops base stem ps) rowss \<Longrightarrow> ops base stem ps rows # os = map (ops base stem ps) (rows # rowss)"
  by simp_all

text \<open>Rows agree whole, or verb by verb where the controllers of a path are in two definitions.\<close>

lemma spread_rules:
  "spread [] = op_spread []"
  "spread rows = op_spread rowss \<Longrightarrow> spread rows = op_spread ([] # rowss)"
  "pattern_vars sg = ps \<Longrightarrow> spread rows = op_spread (rows' # rowss)
    \<Longrightarrow> spread ((st, sg, vs) # rows) = op_spread (((st, ps, t, vs) # rows') # rowss)"
  "spread rows = op_spread rowss \<Longrightarrow> spread ((st, sg, []) # rows) = op_spread rowss"
  "spread rows = op_spread (rows' # rowss) \<Longrightarrow> spread rows = op_spread (((st, ps, t, []) # rows') # rowss)"
  "pattern_vars sg = ps \<Longrightarrow> spread ((st, sg, vs) # rows) = op_spread (((st, ps, t, ws) # rows') # rowss)
    \<Longrightarrow> spread ((st, sg, v # vs) # rows) = op_spread (((st, ps, t, v # ws) # rows') # rowss)"
  by (auto simp: spread_def op_spread_def)

lemmas aligning = aligned_at ops_rules pattern_vars_rules spread_rules

end
