(* ===== verification/ControllersComposition.thy ===== *)
theory ControllersComposition
  imports RoutesComposition Operations
begin

text \<open>
  The controllers of the composition service (api_default.go), group by group of their routes: the
  path variables each requires and the body it decodes and checks.  The variables are those of the
  pattern of its route.
\<close>

definition Controllers_CompositionService_1a :: operations where
  "Controllers_CompositionService_1a = ops op_root ''CompositionService'' []
     [('''', [], Checked ''CompositionServiceV122CompositionService'', [Get, Put, Patch]),
      (''ActionsCompositionServiceCompose'', [], Checked ''CompositionServiceV122ComposeRequestBody'', [Post]),
      (''ActivePool'', [], Checked ''ResourceBlockV142ResourceBlock'', [Get, Post]),
      (''CompositionReservations'', [], Bodiless, [Get])]"

definition Controllers_CompositionService_1b :: operations where
  "Controllers_CompositionService_1b = ops op_root ''CompositionService'' []
     [(''CompositionReservationsCompositionReservationId'', [''CompositionReservationId''], Bodiless, [Get, Delete]),
      (''FreePool'', [], Checked ''ResourceBlockV142ResourceBlock'', [Get, Post]),
      (''ResourceBlocks'', [], Checked ''ResourceBlockV142ResourceBlock'', [Get, Post]),
      (''ResourceBlocksResourceBlockId'', [''ResourceBlockId''], Bodiless, [Get])]"

definition Controllers_CompositionService_1c :: operations where
  "Controllers_CompositionService_1c = ops op_root ''CompositionService'' []
     [(''ResourceBlocksResourceBlockId'', [''ResourceBlockId''], Checked ''ResourceBlockV142ResourceBlock'', [Put, Delete, Patch])]"

definition Controllers_CompositionService_2a :: operations where
  "Controllers_CompositionService_2a = ops op_root ''CompositionServiceResourceBlocksResourceBlockIdDrivesDriveId'' [''ResourceBlockId'', ''DriveId'']
     [('''', [], Checked ''DriveV1180Drive'', [Get, Put, Patch]),
      (''ActionsDriveReset'', [], Checked ''DriveV1180ResetRequestBody'', [Post])]"

definition Controllers_CompositionService_2b :: operations where
  "Controllers_CompositionService_2b = ops op_root ''CompositionServiceResourceBlocksResourceBlockIdDrivesDriveId'' [''ResourceBlockId'', ''DriveId'']
     [(''ActionsDriveRevertToOriginalFactoryState'', [], Checked ''DriveV1180RevertToOriginalFactoryStateRequestBody'', [Post]),
      (''ActionsDriveSecureErase'', [], Checked ''DriveV1180SecureEraseRequestBody'', [Post]),
      (''Assembly'', [], Checked ''AssemblyV150Assembly'', [Get, Put])]"

definition Controllers_CompositionService_2c :: operations where
  "Controllers_CompositionService_2c = ops op_root ''CompositionServiceResourceBlocksResourceBlockIdDrivesDriveId'' [''ResourceBlockId'', ''DriveId'']
     [(''Assembly'', [], Checked ''AssemblyV150Assembly'', [Patch]),
      (''Certificates'', [], Checked ''CertificateV181Certificate'', [Get, Post]),
      (''CertificatesCertificateId'', [''CertificateId''], Bodiless, [Get])]"

definition Controllers_CompositionService_2d :: operations where
  "Controllers_CompositionService_2d = ops op_root ''CompositionServiceResourceBlocksResourceBlockIdDrivesDriveId'' [''ResourceBlockId'', ''DriveId'']
     [(''CertificatesCertificateId'', [''CertificateId''], Checked ''CertificateV181Certificate'', [Put, Delete, Patch])]"

definition Controllers_CompositionService_2e :: operations where
  "Controllers_CompositionService_2e = ops op_root ''CompositionServiceResourceBlocksResourceBlockIdDrivesDriveId'' [''ResourceBlockId'', ''DriveId'']
     [(''CertificatesCertificateIdActionsCertificateRekey'', [''CertificateId''], Checked ''CertificateV181RekeyRequestBody'', [Post]),
      (''CertificatesCertificateIdActionsCertificateRenew'', [''CertificateId''], Checked ''CertificateV181RenewRequestBody'', [Post]),
      (''EnvironmentMetrics'', [], Checked ''EnvironmentMetricsV131EnvironmentMetrics'', [Get, Put])]"

definition Controllers_CompositionService_2f :: operations where
  "Controllers_CompositionService_2f = ops op_root ''CompositionServiceResourceBlocksResourceBlockIdDrivesDriveId'' [''ResourceBlockId'', ''DriveId'']
     [(''EnvironmentMetrics'', [], Checked ''EnvironmentMetricsV131EnvironmentMetrics'', [Patch]),
      (''EnvironmentMetricsActionsEnvironmentMetricsResetMetrics'', [], Untyped, [Post]),
      (''EnvironmentMetricsActionsEnvironmentMetricsResetToDefaults'', [], Untyped, [Post]),
      (''Metrics'', [], Bodiless, [Get])]"

definition Controllers_CompositionService_3a :: operations where
  "Controllers_CompositionService_3a = ops op_root ''CompositionServiceResourceBlocksResourceBlockId'' [''ResourceBlockId'']
     [(''EthernetInterfacesEthernetInterfaceId'', [''EthernetInterfaceId''], Checked ''EthernetInterfaceV1120EthernetInterface'', [Get, Put, Delete, Patch]),
      (''EthernetInterfacesEthernetInterfaceIdVLANs'', [''EthernetInterfaceId''], Bodiless, [Get])]"

definition Controllers_CompositionService_3b :: operations where
  "Controllers_CompositionService_3b = ops op_root ''CompositionServiceResourceBlocksResourceBlockId'' [''ResourceBlockId'']
     [(''EthernetInterfacesEthernetInterfaceIdVLANs'', [''EthernetInterfaceId''], Checked ''VLanNetworkInterfaceV130VLanNetworkInterface'', [Post]),
      (''EthernetInterfacesEthernetInterfaceIdVLANsVLanNetworkInterfaceId'', [''EthernetInterfaceId'', ''VLanNetworkInterfaceId''], Checked ''VLanNetworkInterfaceV130VLanNetworkInterface'', [Get, Put, Delete])]"

definition Controllers_CompositionService_3c :: operations where
  "Controllers_CompositionService_3c = ops op_root ''CompositionServiceResourceBlocksResourceBlockId'' [''ResourceBlockId'']
     [(''EthernetInterfacesEthernetInterfaceIdVLANsVLanNetworkInterfaceId'', [''EthernetInterfaceId'', ''VLanNetworkInterfaceId''], Checked ''VLanNetworkInterfaceV130VLanNetworkInterface'', [Patch]),
      (''MemoryMemoryId'', [''MemoryId''], Checked ''MemoryV1190Memory'', [Get, Put, Patch])]"

definition Controllers_CompositionService_4a :: operations where
  "Controllers_CompositionService_4a = ops op_root ''CompositionServiceResourceBlocksResourceBlockIdMemoryMemoryId'' [''ResourceBlockId'', ''MemoryId'']
     [(''ActionsMemoryDisableMasterPassphrase'', [], Checked ''MemoryV1190DisableMasterPassphraseRequestBody'', [Post]),
      (''ActionsMemoryDisablePassphrase'', [], Checked ''MemoryV1190DisablePassphraseRequestBody'', [Post]),
      (''ActionsMemoryFreezeSecurityState'', [], Untyped, [Post]),
      (''ActionsMemoryInjectPersistentPoison'', [], Checked ''MemoryV1190InjectPersistentPoisonRequestBody'', [Post])]"

definition Controllers_CompositionService_4b :: operations where
  "Controllers_CompositionService_4b = ops op_root ''CompositionServiceResourceBlocksResourceBlockIdMemoryMemoryId'' [''ResourceBlockId'', ''MemoryId'']
     [(''ActionsMemoryOverwriteUnit'', [], Checked ''MemoryV1190OverwriteUnitRequestBody'', [Post]),
      (''ActionsMemoryReset'', [], Checked ''MemoryV1190ResetRequestBody'', [Post]),
      (''ActionsMemoryResetToDefaults'', [], Untyped, [Post]),
      (''ActionsMemoryScanMedia'', [], Checked ''MemoryV1190ScanMediaRequestBody'', [Post])]"

definition Controllers_CompositionService_4c :: operations where
  "Controllers_CompositionService_4c = ops op_root ''CompositionServiceResourceBlocksResourceBlockIdMemoryMemoryId'' [''ResourceBlockId'', ''MemoryId'']
     [(''ActionsMemorySecureEraseUnit'', [], Checked ''MemoryV1190SecureEraseUnitRequestBody'', [Post]),
      (''ActionsMemorySetMasterPassphrase'', [], Checked ''MemoryV1190SetMasterPassphraseRequestBody'', [Post]),
      (''ActionsMemorySetPassphrase'', [], Checked ''MemoryV1190SetPassphraseRequestBody'', [Post])]"

definition Controllers_CompositionService_4d :: operations where
  "Controllers_CompositionService_4d = ops op_root ''CompositionServiceResourceBlocksResourceBlockIdMemoryMemoryId'' [''ResourceBlockId'', ''MemoryId'']
     [(''ActionsMemoryUnlockUnit'', [], Checked ''MemoryV1190UnlockUnitRequestBody'', [Post]),
      (''Assembly'', [], Checked ''AssemblyV150Assembly'', [Get, Put, Patch])]"

definition Controllers_CompositionService_4e :: operations where
  "Controllers_CompositionService_4e = ops op_root ''CompositionServiceResourceBlocksResourceBlockIdMemoryMemoryId'' [''ResourceBlockId'', ''MemoryId'']
     [(''Certificates'', [], Checked ''CertificateV181Certificate'', [Get, Post]),
      (''CertificatesCertificateId'', [''CertificateId''], Checked ''CertificateV181Certificate'', [Get, Put])]"

definition Controllers_CompositionService_4f :: operations where
  "Controllers_CompositionService_4f = ops op_root ''CompositionServiceResourceBlocksResourceBlockIdMemoryMemoryId'' [''ResourceBlockId'', ''MemoryId'']
     [(''CertificatesCertificateId'', [''CertificateId''], Checked ''CertificateV181Certificate'', [Delete, Patch]),
      (''CertificatesCertificateIdActionsCertificateRekey'', [''CertificateId''], Checked ''CertificateV181RekeyRequestBody'', [Post])]"

definition Controllers_CompositionService_4g :: operations where
  "Controllers_CompositionService_4g = ops op_root ''CompositionServiceResourceBlocksResourceBlockIdMemoryMemoryId'' [''ResourceBlockId'', ''MemoryId'']
     [(''CertificatesCertificateIdActionsCertificateRenew'', [''CertificateId''], Checked ''CertificateV181RenewRequestBody'', [Post]),
      (''EnvironmentMetrics'', [], Checked ''EnvironmentMetricsV131EnvironmentMetrics'', [Get, Put, Patch])]"

definition Controllers_CompositionService_4h :: operations where
  "Controllers_CompositionService_4h = ops op_root ''CompositionServiceResourceBlocksResourceBlockIdMemoryMemoryId'' [''ResourceBlockId'', ''MemoryId'']
     [(''EnvironmentMetricsActionsEnvironmentMetricsResetMetrics'', [], Untyped, [Post]),
      (''EnvironmentMetricsActionsEnvironmentMetricsResetToDefaults'', [], Untyped, [Post]),
      (''MemoryMetrics'', [], Bodiless, [Get]),
      (''MemoryMetricsActionsMemoryMetricsClearCurrentPeriod'', [], Untyped, [Post])]"

definition Controllers_CompositionService_5a :: operations where
  "Controllers_CompositionService_5a = ops op_root ''CompositionServiceResourceBlocksResourceBlockIdNetworkInterfacesNetworkInterfaceId'' [''ResourceBlockId'', ''NetworkInterfaceId'']
     [('''', [], Bodiless, [Get]),
      (''NetworkDeviceFunctions'', [], Bodiless, [Get]),
      (''NetworkDeviceFunctionsNetworkDeviceFunctionIdAllowDeny'', [''NetworkDeviceFunctionId''], Checked ''AllowDenyV102AllowDeny'', [Get, Post]),
      (''NetworkDeviceFunctionsNetworkDeviceFunctionIdAllowDenyAllowDenyId'', [''NetworkDeviceFunctionId'', ''AllowDenyId''], Bodiless, [Get])]"

definition Controllers_CompositionService_5b :: operations where
  "Controllers_CompositionService_5b = ops op_root ''CompositionServiceResourceBlocksResourceBlockIdNetworkInterfacesNetworkInterfaceId'' [''ResourceBlockId'', ''NetworkInterfaceId'']
     [(''NetworkDeviceFunctionsNetworkDeviceFunctionIdAllowDenyAllowDenyId'', [''NetworkDeviceFunctionId'', ''AllowDenyId''], Checked ''AllowDenyV102AllowDeny'', [Put, Delete, Patch])]"

definition Controllers_CompositionService_5c :: operations where
  "Controllers_CompositionService_5c = ops op_root ''CompositionServiceResourceBlocksResourceBlockIdNetworkInterfacesNetworkInterfaceId'' [''ResourceBlockId'', ''NetworkInterfaceId'']
     [(''NetworkPorts'', [], Bodiless, [Get]),
      (''Ports'', [], Bodiless, [Get])]"

definition Controllers_CompositionService_6a :: operations where
  "Controllers_CompositionService_6a = ops op_root ''CompositionServiceResourceBlocksResourceBlockIdProcessorsProcessorId'' [''ResourceBlockId'', ''ProcessorId'']
     [('''', [], Checked ''ProcessorV1190Processor'', [Get, Put, Patch]),
      (''AccelerationFunctions'', [], Bodiless, [Get]),
      (''AccelerationFunctionsAccelerationFunctionId'', [''AccelerationFunctionId''], Bodiless, [Get])]"

definition Controllers_CompositionService_6b :: operations where
  "Controllers_CompositionService_6b = ops op_root ''CompositionServiceResourceBlocksResourceBlockIdProcessorsProcessorId'' [''ResourceBlockId'', ''ProcessorId'']
     [(''ActionsProcessorReset'', [], Checked ''ProcessorV1190ResetRequestBody'', [Post]),
      (''ActionsProcessorResetToDefaults'', [], Untyped, [Post]),
      (''Assembly'', [], Checked ''AssemblyV150Assembly'', [Get, Put])]"

definition Controllers_CompositionService_6c :: operations where
  "Controllers_CompositionService_6c = ops op_root ''CompositionServiceResourceBlocksResourceBlockIdProcessorsProcessorId'' [''ResourceBlockId'', ''ProcessorId'']
     [(''Assembly'', [], Checked ''AssemblyV150Assembly'', [Patch]),
      (''Certificates'', [], Checked ''CertificateV181Certificate'', [Get, Post]),
      (''CertificatesCertificateId'', [''CertificateId''], Bodiless, [Get])]"

definition Controllers_CompositionService_6d :: operations where
  "Controllers_CompositionService_6d = ops op_root ''CompositionServiceResourceBlocksResourceBlockIdProcessorsProcessorId'' [''ResourceBlockId'', ''ProcessorId'']
     [(''CertificatesCertificateId'', [''CertificateId''], Checked ''CertificateV181Certificate'', [Put, Delete, Patch])]"

definition Controllers_CompositionService_6e :: operations where
  "Controllers_CompositionService_6e = ops op_root ''CompositionServiceResourceBlocksResourceBlockIdProcessorsProcessorId'' [''ResourceBlockId'', ''ProcessorId'']
     [(''CertificatesCertificateIdActionsCertificateRekey'', [''CertificateId''], Checked ''CertificateV181RekeyRequestBody'', [Post]),
      (''CertificatesCertificateIdActionsCertificateRenew'', [''CertificateId''], Checked ''CertificateV181RenewRequestBody'', [Post]),
      (''EnvironmentMetrics'', [], Checked ''EnvironmentMetricsV131EnvironmentMetrics'', [Get, Put])]"

definition Controllers_CompositionService_6f :: operations where
  "Controllers_CompositionService_6f = ops op_root ''CompositionServiceResourceBlocksResourceBlockIdProcessorsProcessorId'' [''ResourceBlockId'', ''ProcessorId'']
     [(''EnvironmentMetrics'', [], Checked ''EnvironmentMetricsV131EnvironmentMetrics'', [Patch]),
      (''EnvironmentMetricsActionsEnvironmentMetricsResetMetrics'', [], Untyped, [Post]),
      (''EnvironmentMetricsActionsEnvironmentMetricsResetToDefaults'', [], Untyped, [Post]),
      (''MemorySummaryMemoryMetrics'', [], Bodiless, [Get]),
      (''MemorySummaryMemoryMetricsActionsMemoryMetricsClearCurrentPeriod'', [], Untyped, [Post])]"

definition Controllers_CompositionService_6g :: operations where
  "Controllers_CompositionService_6g = ops op_root ''CompositionServiceResourceBlocksResourceBlockIdProcessorsProcessorId'' [''ResourceBlockId'', ''ProcessorId'']
     [(''Ports'', [], Bodiless, [Get]),
      (''PortsPortId'', [''PortId''], Checked ''PortV1110Port'', [Get, Put, Patch])]"

definition Controllers_CompositionService_6h :: operations where
  "Controllers_CompositionService_6h = ops op_root ''CompositionServiceResourceBlocksResourceBlockIdProcessorsProcessorId'' [''ResourceBlockId'', ''ProcessorId'']
     [(''PortsPortIdActionsPortReset'', [''PortId''], Checked ''PortV1110ResetRequestBody'', [Post])]"

definition Controllers_CompositionService_7a :: operations where
  "Controllers_CompositionService_7a = ops op_root ''CompositionServiceResourceBlocksResourceBlockIdProcessorsProcessorId'' [''ResourceBlockId'', ''ProcessorId'']
     [(''PortsPortIdActionsPortResetPPB'', [''PortId''], Untyped, [Post]),
      (''PortsPortIdEnvironmentMetrics'', [''PortId''], Checked ''EnvironmentMetricsV131EnvironmentMetrics'', [Get, Put, Patch])]"

definition Controllers_CompositionService_7b :: operations where
  "Controllers_CompositionService_7b = ops op_root ''CompositionServiceResourceBlocksResourceBlockIdProcessorsProcessorId'' [''ResourceBlockId'', ''ProcessorId'']
     [(''PortsPortIdEnvironmentMetricsActionsEnvironmentMetricsResetMetrics'', [''PortId''], Untyped, [Post]),
      (''PortsPortIdEnvironmentMetricsActionsEnvironmentMetricsResetToDefaults'', [''PortId''], Untyped, [Post]),
      (''PortsPortIdMetrics'', [''PortId''], Bodiless, [Get]),
      (''ProcessorMetrics'', [], Bodiless, [Get]),
      (''ProcessorMetricsActionsProcessorMetricsClearCurrentPeriod'', [], Untyped, [Post])]"

definition Controllers_CompositionService_7c :: operations where
  "Controllers_CompositionService_7c = ops op_root ''CompositionServiceResourceBlocksResourceBlockIdProcessorsProcessorId'' [''ResourceBlockId'', ''ProcessorId'']
     [(''SubProcessors'', [], Bodiless, [Get])]"

definition Controllers_CompositionService_8a :: operations where
  "Controllers_CompositionService_8a = ops op_root ''CompositionServiceResourceBlocksResourceBlockIdProcessorsProcessorIdSubProcessorsProcessorId2'' [''ResourceBlockId'', ''ProcessorId'', ''ProcessorId2'']
     [('''', [], Checked ''ProcessorV1190Processor'', [Get, Put, Patch])]"

definition Controllers_CompositionService_8b :: operations where
  "Controllers_CompositionService_8b = ops op_root ''CompositionServiceResourceBlocksResourceBlockIdProcessorsProcessorIdSubProcessorsProcessorId2'' [''ResourceBlockId'', ''ProcessorId'', ''ProcessorId2'']
     [(''ActionsProcessorReset'', [], Checked ''ProcessorV1190ResetRequestBody'', [Post]),
      (''ActionsProcessorResetToDefaults'', [], Untyped, [Post]),
      (''Assembly'', [], Checked ''AssemblyV150Assembly'', [Get, Put])]"

definition Controllers_CompositionService_8c :: operations where
  "Controllers_CompositionService_8c = ops op_root ''CompositionServiceResourceBlocksResourceBlockIdProcessorsProcessorIdSubProcessorsProcessorId2'' [''ResourceBlockId'', ''ProcessorId'', ''ProcessorId2'']
     [(''Assembly'', [], Checked ''AssemblyV150Assembly'', [Patch]),
      (''ProcessorMetrics'', [], Bodiless, [Get]),
      (''ProcessorMetricsActionsProcessorMetricsClearCurrentPeriod'', [], Untyped, [Post]),
      (''SubProcessors'', [], Bodiless, [Get])]"

definition Controllers_CompositionService_8d :: operations where
  "Controllers_CompositionService_8d = ops op_root ''CompositionServiceResourceBlocksResourceBlockIdProcessorsProcessorIdSubProcessorsProcessorId2'' [''ResourceBlockId'', ''ProcessorId'', ''ProcessorId2'']
     [(''SubProcessorsProcessorId3'', [''ProcessorId3''], Checked ''ProcessorV1190Processor'', [Get, Put, Patch])]"

definition Controllers_CompositionService_8e :: operations where
  "Controllers_CompositionService_8e = ops op_root ''CompositionServiceResourceBlocksResourceBlockIdProcessorsProcessorIdSubProcessorsProcessorId2'' [''ResourceBlockId'', ''ProcessorId'', ''ProcessorId2'']
     [(''SubProcessorsProcessorId3ActionsProcessorReset'', [''ProcessorId3''], Checked ''ProcessorV1190ResetRequestBody'', [Post]),
      (''SubProcessorsProcessorId3ActionsProcessorResetToDefaults'', [''ProcessorId3''], Untyped, [Post]),
      (''SubProcessorsProcessorId3Assembly'', [''ProcessorId3''], Bodiless, [Get])]"

definition Controllers_CompositionService_8f :: operations where
  "Controllers_CompositionService_8f = ops op_root ''CompositionServiceResourceBlocksResourceBlockIdProcessorsProcessorIdSubProcessorsProcessorId2'' [''ResourceBlockId'', ''ProcessorId'', ''ProcessorId2'']
     [(''SubProcessorsProcessorId3Assembly'', [''ProcessorId3''], Checked ''AssemblyV150Assembly'', [Put, Patch]),
      (''SubProcessorsProcessorId3ProcessorMetrics'', [''ProcessorId3''], Bodiless, [Get])]"

definition Controllers_CompositionService_8g :: operations where
  "Controllers_CompositionService_8g = ops op_root ''CompositionServiceResourceBlocksResourceBlockIdProcessorsProcessorIdSubProcessorsProcessorId2'' [''ResourceBlockId'', ''ProcessorId'', ''ProcessorId2'']
     [(''SubProcessorsProcessorId3ProcessorMetricsActionsProcessorMetricsClearCurrentPeriod'', [''ProcessorId3''], Untyped, [Post])]"

definition Controllers_CompositionService_9a :: operations where
  "Controllers_CompositionService_9a = ops op_root ''CompositionServiceResourceBlocksResourceBlockId'' [''ResourceBlockId'']
     [(''SimpleStorageSimpleStorageId'', [''SimpleStorageId''], Bodiless, [Get]),
      (''Storage'', [], Bodiless, [Get]),
      (''StorageStorageId'', [''StorageId''], Checked ''StorageV1151Storage'', [Get, Put, Patch])]"

definition Controllers_CompositionService_9b :: operations where
  "Controllers_CompositionService_9b = ops op_root ''CompositionServiceResourceBlocksResourceBlockId'' [''ResourceBlockId'']
     [(''StorageStorageIdActionsStorageResetToDefaults'', [''StorageId''], Checked ''StorageV1151ResetToDefaultsRequestBody'', [Post]),
      (''StorageStorageIdActionsStorageSetEncryptionKey'', [''StorageId''], Checked ''StorageV1151SetEncryptionKeyRequestBody'', [Post]),
      (''StorageStorageIdControllers'', [''StorageId''], Bodiless, [Get])]"

definition Controllers_CompositionService_10a :: operations where
  "Controllers_CompositionService_10a = ops op_root ''CompositionServiceResourceBlocksResourceBlockIdStorageStorageIdControllersControllerId'' [''ResourceBlockId'', ''StorageId'', ''ControllerId'']
     [('''', [], Checked ''StorageControllerV172StorageController'', [Get, Put, Patch])]"

definition Controllers_CompositionService_10b :: operations where
  "Controllers_CompositionService_10b = ops op_root ''CompositionServiceResourceBlocksResourceBlockIdStorageStorageIdControllersControllerId'' [''ResourceBlockId'', ''StorageId'', ''ControllerId'']
     [(''ActionsStorageControllerAttachNamespaces'', [], Checked ''StorageControllerV172AttachNamespacesRequestBody'', [Post]),
      (''ActionsStorageControllerDetachNamespaces'', [], Checked ''StorageControllerV172DetachNamespacesRequestBody'', [Post]),
      (''ActionsStorageControllerSecurityReceive'', [], Checked ''StorageControllerV172SecurityReceiveRequestBody'', [Post])]"

definition Controllers_CompositionService_10c :: operations where
  "Controllers_CompositionService_10c = ops op_root ''CompositionServiceResourceBlocksResourceBlockIdStorageStorageIdControllersControllerId'' [''ResourceBlockId'', ''StorageId'', ''ControllerId'']
     [(''ActionsStorageControllerSecuritySend'', [], Checked ''StorageControllerV172SecuritySendRequestBody'', [Post]),
      (''EnvironmentMetrics'', [], Checked ''EnvironmentMetricsV131EnvironmentMetrics'', [Get, Put])]"

definition Controllers_CompositionService_10d :: operations where
  "Controllers_CompositionService_10d = ops op_root ''CompositionServiceResourceBlocksResourceBlockIdStorageStorageIdControllersControllerId'' [''ResourceBlockId'', ''StorageId'', ''ControllerId'']
     [(''EnvironmentMetrics'', [], Checked ''EnvironmentMetricsV131EnvironmentMetrics'', [Patch]),
      (''EnvironmentMetricsActionsEnvironmentMetricsResetMetrics'', [], Untyped, [Post]),
      (''EnvironmentMetricsActionsEnvironmentMetricsResetToDefaults'', [], Untyped, [Post]),
      (''Metrics'', [], Bodiless, [Get])]"

definition Controllers_CompositionService_11a :: operations where
  "Controllers_CompositionService_11a = ops op_root ''CompositionServiceResourceBlocksResourceBlockIdStorageStorageIdControllersStorageControllerId'' [''ResourceBlockId'', ''StorageId'', ''StorageControllerId'']
     [(''Assembly'', [], Checked ''AssemblyV150Assembly'', [Get, Put, Patch]),
      (''Certificates'', [], Bodiless, [Get])]"

definition Controllers_CompositionService_11b :: operations where
  "Controllers_CompositionService_11b = ops op_root ''CompositionServiceResourceBlocksResourceBlockIdStorageStorageIdControllersStorageControllerId'' [''ResourceBlockId'', ''StorageId'', ''StorageControllerId'']
     [(''Certificates'', [], Checked ''CertificateV181Certificate'', [Post]),
      (''CertificatesCertificateId'', [''CertificateId''], Checked ''CertificateV181Certificate'', [Get, Put])]"

definition Controllers_CompositionService_11c :: operations where
  "Controllers_CompositionService_11c = ops op_root ''CompositionServiceResourceBlocksResourceBlockIdStorageStorageIdControllersStorageControllerId'' [''ResourceBlockId'', ''StorageId'', ''StorageControllerId'']
     [(''CertificatesCertificateId'', [''CertificateId''], Checked ''CertificateV181Certificate'', [Delete, Patch]),
      (''CertificatesCertificateIdActionsCertificateRekey'', [''CertificateId''], Checked ''CertificateV181RekeyRequestBody'', [Post])]"

definition Controllers_CompositionService_11d :: operations where
  "Controllers_CompositionService_11d = ops op_root ''CompositionServiceResourceBlocksResourceBlockIdStorageStorageIdControllersStorageControllerId'' [''ResourceBlockId'', ''StorageId'', ''StorageControllerId'']
     [(''CertificatesCertificateIdActionsCertificateRenew'', [''CertificateId''], Checked ''CertificateV181RenewRequestBody'', [Post]),
      (''Ports'', [], Bodiless, [Get]),
      (''PortsPortId'', [''PortId''], Bodiless, [Get])]"

definition Controllers_CompositionService_11e :: operations where
  "Controllers_CompositionService_11e = ops op_root ''CompositionServiceResourceBlocksResourceBlockIdStorageStorageIdControllersStorageControllerId'' [''ResourceBlockId'', ''StorageId'', ''StorageControllerId'']
     [(''PortsPortId'', [''PortId''], Checked ''PortV1110Port'', [Put, Patch]),
      (''PortsPortIdActionsPortReset'', [''PortId''], Checked ''PortV1110ResetRequestBody'', [Post])]"

definition Controllers_CompositionService_11f :: operations where
  "Controllers_CompositionService_11f = ops op_root ''CompositionServiceResourceBlocksResourceBlockIdStorageStorageIdControllersStorageControllerId'' [''ResourceBlockId'', ''StorageId'', ''StorageControllerId'']
     [(''PortsPortIdActionsPortResetPPB'', [''PortId''], Untyped, [Post]),
      (''PortsPortIdEnvironmentMetrics'', [''PortId''], Checked ''EnvironmentMetricsV131EnvironmentMetrics'', [Get, Put])]"

definition Controllers_CompositionService_11g :: operations where
  "Controllers_CompositionService_11g = ops op_root ''CompositionServiceResourceBlocksResourceBlockIdStorageStorageIdControllersStorageControllerId'' [''ResourceBlockId'', ''StorageId'', ''StorageControllerId'']
     [(''PortsPortIdEnvironmentMetrics'', [''PortId''], Checked ''EnvironmentMetricsV131EnvironmentMetrics'', [Patch]),
      (''PortsPortIdEnvironmentMetricsActionsEnvironmentMetricsResetMetrics'', [''PortId''], Untyped, [Post]),
      (''PortsPortIdEnvironmentMetricsActionsEnvironmentMetricsResetToDefaults'', [''PortId''], Untyped, [Post])]"

definition Controllers_CompositionService_11h :: operations where
  "Controllers_CompositionService_11h = ops op_root ''CompositionServiceResourceBlocksResourceBlockIdStorageStorageIdControllersStorageControllerId'' [''ResourceBlockId'', ''StorageId'', ''StorageControllerId'']
     [(''PortsPortIdMetrics'', [''PortId''], Bodiless, [Get])]"

definition Controllers_CompositionService_12a :: operations where
  "Controllers_CompositionService_12a = ops op_root ''CompositionServiceResourceBlocksResourceBlockIdStorageStorageIdDrivesDriveId'' [''ResourceBlockId'', ''StorageId'', ''DriveId'']
     [('''', [], Checked ''DriveV1180Drive'', [Get, Put, Patch])]"

definition Controllers_CompositionService_12b :: operations where
  "Controllers_CompositionService_12b = ops op_root ''CompositionServiceResourceBlocksResourceBlockIdStorageStorageIdDrivesDriveId'' [''ResourceBlockId'', ''StorageId'', ''DriveId'']
     [(''ActionsDriveReset'', [], Checked ''DriveV1180ResetRequestBody'', [Post]),
      (''ActionsDriveRevertToOriginalFactoryState'', [], Checked ''DriveV1180RevertToOriginalFactoryStateRequestBody'', [Post]),
      (''ActionsDriveSecureErase'', [], Checked ''DriveV1180SecureEraseRequestBody'', [Post])]"

definition Controllers_CompositionService_12c :: operations where
  "Controllers_CompositionService_12c = ops op_root ''CompositionServiceResourceBlocksResourceBlockIdStorageStorageIdDrivesDriveId'' [''ResourceBlockId'', ''StorageId'', ''DriveId'']
     [(''Assembly'', [], Checked ''AssemblyV150Assembly'', [Get, Put, Patch]),
      (''Certificates'', [], Bodiless, [Get])]"

definition Controllers_CompositionService_12d :: operations where
  "Controllers_CompositionService_12d = ops op_root ''CompositionServiceResourceBlocksResourceBlockIdStorageStorageIdDrivesDriveId'' [''ResourceBlockId'', ''StorageId'', ''DriveId'']
     [(''Certificates'', [], Checked ''CertificateV181Certificate'', [Post]),
      (''CertificatesCertificateId'', [''CertificateId''], Checked ''CertificateV181Certificate'', [Get, Put])]"

definition Controllers_CompositionService_12e :: operations where
  "Controllers_CompositionService_12e = ops op_root ''CompositionServiceResourceBlocksResourceBlockIdStorageStorageIdDrivesDriveId'' [''ResourceBlockId'', ''StorageId'', ''DriveId'']
     [(''CertificatesCertificateId'', [''CertificateId''], Checked ''CertificateV181Certificate'', [Delete, Patch]),
      (''CertificatesCertificateIdActionsCertificateRekey'', [''CertificateId''], Checked ''CertificateV181RekeyRequestBody'', [Post])]"

definition Controllers_CompositionService_12f :: operations where
  "Controllers_CompositionService_12f = ops op_root ''CompositionServiceResourceBlocksResourceBlockIdStorageStorageIdDrivesDriveId'' [''ResourceBlockId'', ''StorageId'', ''DriveId'']
     [(''CertificatesCertificateIdActionsCertificateRenew'', [''CertificateId''], Checked ''CertificateV181RenewRequestBody'', [Post]),
      (''EnvironmentMetrics'', [], Checked ''EnvironmentMetricsV131EnvironmentMetrics'', [Get, Put])]"

definition Controllers_CompositionService_12g :: operations where
  "Controllers_CompositionService_12g = ops op_root ''CompositionServiceResourceBlocksResourceBlockIdStorageStorageIdDrivesDriveId'' [''ResourceBlockId'', ''StorageId'', ''DriveId'']
     [(''EnvironmentMetrics'', [], Checked ''EnvironmentMetricsV131EnvironmentMetrics'', [Patch]),
      (''EnvironmentMetricsActionsEnvironmentMetricsResetMetrics'', [], Untyped, [Post]),
      (''EnvironmentMetricsActionsEnvironmentMetricsResetToDefaults'', [], Untyped, [Post]),
      (''Metrics'', [], Bodiless, [Get])]"

definition Controllers_CompositionService_13a :: operations where
  "Controllers_CompositionService_13a = ops op_root ''CompositionServiceResourceBlocksResourceBlockIdStorageStorageIdStorageControllersStorageControllerId'' [''ResourceBlockId'', ''StorageId'', ''StorageControllerId'']
     [(''Assembly'', [], Checked ''AssemblyV150Assembly'', [Get, Put, Patch]),
      (''Certificates'', [], Bodiless, [Get])]"

definition Controllers_CompositionService_13b :: operations where
  "Controllers_CompositionService_13b = ops op_root ''CompositionServiceResourceBlocksResourceBlockIdStorageStorageIdStorageControllersStorageControllerId'' [''ResourceBlockId'', ''StorageId'', ''StorageControllerId'']
     [(''Certificates'', [], Checked ''CertificateV181Certificate'', [Post]),
      (''CertificatesCertificateId'', [''CertificateId''], Checked ''CertificateV181Certificate'', [Get, Put])]"

definition Controllers_CompositionService_13c :: operations where
  "Controllers_CompositionService_13c = ops op_root ''CompositionServiceResourceBlocksResourceBlockIdStorageStorageIdStorageControllersStorageControllerId'' [''ResourceBlockId'', ''StorageId'', ''StorageControllerId'']
     [(''CertificatesCertificateId'', [''CertificateId''], Checked ''CertificateV181Certificate'', [Delete, Patch]),
      (''CertificatesCertificateIdActionsCertificateRekey'', [''CertificateId''], Checked ''CertificateV181RekeyRequestBody'', [Post])]"

definition Controllers_CompositionService_13d :: operations where
  "Controllers_CompositionService_13d = ops op_root ''CompositionServiceResourceBlocksResourceBlockIdStorageStorageIdStorageControllersStorageControllerId'' [''ResourceBlockId'', ''StorageId'', ''StorageControllerId'']
     [(''CertificatesCertificateIdActionsCertificateRenew'', [''CertificateId''], Checked ''CertificateV181RenewRequestBody'', [Post]),
      (''Ports'', [], Bodiless, [Get]),
      (''PortsPortId'', [''PortId''], Bodiless, [Get])]"

definition Controllers_CompositionService_13e :: operations where
  "Controllers_CompositionService_13e = ops op_root ''CompositionServiceResourceBlocksResourceBlockIdStorageStorageIdStorageControllersStorageControllerId'' [''ResourceBlockId'', ''StorageId'', ''StorageControllerId'']
     [(''PortsPortId'', [''PortId''], Checked ''PortV1110Port'', [Put, Patch]),
      (''PortsPortIdActionsPortReset'', [''PortId''], Checked ''PortV1110ResetRequestBody'', [Post])]"

definition Controllers_CompositionService_13f :: operations where
  "Controllers_CompositionService_13f = ops op_root ''CompositionServiceResourceBlocksResourceBlockIdStorageStorageIdStorageControllersStorageControllerId'' [''ResourceBlockId'', ''StorageId'', ''StorageControllerId'']
     [(''PortsPortIdActionsPortResetPPB'', [''PortId''], Untyped, [Post]),
      (''PortsPortIdEnvironmentMetrics'', [''PortId''], Checked ''EnvironmentMetricsV131EnvironmentMetrics'', [Get, Put])]"

definition Controllers_CompositionService_13g :: operations where
  "Controllers_CompositionService_13g = ops op_root ''CompositionServiceResourceBlocksResourceBlockIdStorageStorageIdStorageControllersStorageControllerId'' [''ResourceBlockId'', ''StorageId'', ''StorageControllerId'']
     [(''PortsPortIdEnvironmentMetrics'', [''PortId''], Checked ''EnvironmentMetricsV131EnvironmentMetrics'', [Patch]),
      (''PortsPortIdEnvironmentMetricsActionsEnvironmentMetricsResetMetrics'', [''PortId''], Untyped, [Post]),
      (''PortsPortIdEnvironmentMetricsActionsEnvironmentMetricsResetToDefaults'', [''PortId''], Untyped, [Post])]"

definition Controllers_CompositionService_13h :: operations where
  "Controllers_CompositionService_13h = ops op_root ''CompositionServiceResourceBlocksResourceBlockIdStorageStorageIdStorageControllersStorageControllerId'' [''ResourceBlockId'', ''StorageId'', ''StorageControllerId'']
     [(''PortsPortIdMetrics'', [''PortId''], Bodiless, [Get])]"

definition Controllers_CompositionService_14a :: operations where
  "Controllers_CompositionService_14a = ops op_root ''CompositionServiceResourceBlocksResourceBlockIdStorageStorageIdVolumes'' [''ResourceBlockId'', ''StorageId'']
     [('''', [], Checked ''VolumeV1100Volume'', [Get, Post]),
      (''VolumeId'', [''VolumeId''], Checked ''VolumeV1100Volume'', [Get, Put])]"

definition Controllers_CompositionService_14b :: operations where
  "Controllers_CompositionService_14b = ops op_root ''CompositionServiceResourceBlocksResourceBlockIdStorageStorageIdVolumes'' [''ResourceBlockId'', ''StorageId'']
     [(''VolumeId'', [''VolumeId''], Checked ''VolumeV1100Volume'', [Delete, Patch]),
      (''VolumeIdActionsVolumeAssignReplicaTarget'', [''VolumeId''], Checked ''VolumeV1100AssignReplicaTargetRequestBody'', [Post])]"

definition Controllers_CompositionService_14c :: operations where
  "Controllers_CompositionService_14c = ops op_root ''CompositionServiceResourceBlocksResourceBlockIdStorageStorageIdVolumes'' [''ResourceBlockId'', ''StorageId'']
     [(''VolumeIdActionsVolumeChangeRAIDLayout'', [''VolumeId''], Checked ''VolumeV1100ChangeRaidLayoutRequestBody'', [Post]),
      (''VolumeIdActionsVolumeCheckConsistency'', [''VolumeId''], Untyped, [Post]),
      (''VolumeIdActionsVolumeCreateReplicaTarget'', [''VolumeId''], Checked ''VolumeV1100CreateReplicaTargetRequestBody'', [Post])]"

definition Controllers_CompositionService_14d :: operations where
  "Controllers_CompositionService_14d = ops op_root ''CompositionServiceResourceBlocksResourceBlockIdStorageStorageIdVolumes'' [''ResourceBlockId'', ''StorageId'']
     [(''VolumeIdActionsVolumeForceEnable'', [''VolumeId''], Untyped, [Post]),
      (''VolumeIdActionsVolumeInitialize'', [''VolumeId''], Checked ''VolumeV1100InitializeRequestBody'', [Post]),
      (''VolumeIdActionsVolumeRemoveReplicaRelationship'', [''VolumeId''], Checked ''VolumeV1100RemoveReplicaRelationshipRequestBody'', [Post])]"

definition Controllers_CompositionService_14e :: operations where
  "Controllers_CompositionService_14e = ops op_root ''CompositionServiceResourceBlocksResourceBlockIdStorageStorageIdVolumes'' [''ResourceBlockId'', ''StorageId'']
     [(''VolumeIdActionsVolumeResumeReplication'', [''VolumeId''], Checked ''VolumeV1100ResumeReplicationRequestBody'', [Post]),
      (''VolumeIdActionsVolumeReverseReplicationRelationship'', [''VolumeId''], Checked ''VolumeV1100ReverseReplicationRelationshipRequestBody'', [Post]),
      (''VolumeIdActionsVolumeSplitReplication'', [''VolumeId''], Checked ''VolumeV1100SplitReplicationRequestBody'', [Post])]"

definition Controllers_CompositionService_14f :: operations where
  "Controllers_CompositionService_14f = ops op_root ''CompositionServiceResourceBlocksResourceBlockIdStorageStorageIdVolumes'' [''ResourceBlockId'', ''StorageId'']
     [(''VolumeIdActionsVolumeSuspendReplication'', [''VolumeId''], Checked ''VolumeV1100SuspendReplicationRequestBody'', [Post])]"

definition Controllers_CompositionService_15a :: operations where
  "Controllers_CompositionService_15a = ops op_root ''CompositionServiceResourceBlocksResourceBlockIdSystemsComputerSystemId'' [''ResourceBlockId'', ''ComputerSystemId'']
     [('''', [], Checked ''ComputerSystemV1220ComputerSystem'', [Get, Put, Delete, Patch])]"

definition Controllers_CompositionService_15b :: operations where
  "Controllers_CompositionService_15b = ops op_root ''CompositionServiceResourceBlocksResourceBlockIdSystemsComputerSystemId'' [''ResourceBlockId'', ''ComputerSystemId'']
     [(''ActionsComputerSystemAddResourceBlock'', [], Checked ''ComputerSystemV1220AddResourceBlockRequestBody'', [Post]),
      (''ActionsComputerSystemDecommission'', [], Checked ''ComputerSystemV1220DecommissionRequestBody'', [Post]),
      (''ActionsComputerSystemRemoveResourceBlock'', [], Checked ''ComputerSystemV1220RemoveResourceBlockRequestBody'', [Post])]"

definition Controllers_CompositionService_15c :: operations where
  "Controllers_CompositionService_15c = ops op_root ''CompositionServiceResourceBlocksResourceBlockIdSystemsComputerSystemId'' [''ResourceBlockId'', ''ComputerSystemId'']
     [(''ActionsComputerSystemReset'', [], Checked ''ComputerSystemV1220ResetRequestBody'', [Post]),
      (''ActionsComputerSystemSetDefaultBootOrder'', [], Untyped, [Post]),
      (''Bios'', [], Checked ''BiosV122Bios'', [Get, Put])]"

definition Controllers_CompositionService_15d :: operations where
  "Controllers_CompositionService_15d = ops op_root ''CompositionServiceResourceBlocksResourceBlockIdSystemsComputerSystemId'' [''ResourceBlockId'', ''ComputerSystemId'']
     [(''Bios'', [], Checked ''BiosV122Bios'', [Patch]),
      (''BiosActionsBiosChangePassword'', [], Checked ''BiosV122ChangePasswordRequestBody'', [Post]),
      (''BiosActionsBiosResetBios'', [], Untyped, [Post]),
      (''BootCertificates'', [], Bodiless, [Get])]"

definition Controllers_CompositionService_15e :: operations where
  "Controllers_CompositionService_15e = ops op_root ''CompositionServiceResourceBlocksResourceBlockIdSystemsComputerSystemId'' [''ResourceBlockId'', ''ComputerSystemId'']
     [(''BootCertificates'', [], Checked ''CertificateV181Certificate'', [Post]),
      (''BootCertificatesCertificateId'', [''CertificateId''], Checked ''CertificateV181Certificate'', [Get, Put, Delete])]"

definition Controllers_CompositionService_15f :: operations where
  "Controllers_CompositionService_15f = ops op_root ''CompositionServiceResourceBlocksResourceBlockIdSystemsComputerSystemId'' [''ResourceBlockId'', ''ComputerSystemId'']
     [(''BootCertificatesCertificateId'', [''CertificateId''], Checked ''CertificateV181Certificate'', [Patch]),
      (''BootCertificatesCertificateIdActionsCertificateRekey'', [''CertificateId''], Checked ''CertificateV181RekeyRequestBody'', [Post]),
      (''BootCertificatesCertificateIdActionsCertificateRenew'', [''CertificateId''], Checked ''CertificateV181RenewRequestBody'', [Post])]"

definition Controllers_CompositionService_15g :: operations where
  "Controllers_CompositionService_15g = ops op_root ''CompositionServiceResourceBlocksResourceBlockIdSystemsComputerSystemId'' [''ResourceBlockId'', ''ComputerSystemId'']
     [(''BootOptions'', [], Checked ''BootOptionV105BootOption'', [Get, Post]),
      (''BootOptionsBootOptionId'', [''BootOptionId''], Checked ''BootOptionV105BootOption'', [Get, Put])]"

definition Controllers_CompositionService_15h :: operations where
  "Controllers_CompositionService_15h = ops op_root ''CompositionServiceResourceBlocksResourceBlockIdSystemsComputerSystemId'' [''ResourceBlockId'', ''ComputerSystemId'']
     [(''BootOptionsBootOptionId'', [''BootOptionId''], Checked ''BootOptionV105BootOption'', [Delete, Patch]),
      (''Certificates'', [], Checked ''CertificateV181Certificate'', [Get, Post])]"

definition Controllers_CompositionService_16a :: operations where
  "Controllers_CompositionService_16a = ops op_root ''CompositionServiceResourceBlocksResourceBlockIdSystemsComputerSystemId'' [''ResourceBlockId'', ''ComputerSystemId'']
     [(''CertificatesCertificateId'', [''CertificateId''], Checked ''CertificateV181Certificate'', [Get, Put, Delete, Patch])]"

definition Controllers_CompositionService_16b :: operations where
  "Controllers_CompositionService_16b = ops op_root ''CompositionServiceResourceBlocksResourceBlockIdSystemsComputerSystemId'' [''ResourceBlockId'', ''ComputerSystemId'']
     [(''CertificatesCertificateIdActionsCertificateRekey'', [''CertificateId''], Checked ''CertificateV181RekeyRequestBody'', [Post]),
      (''CertificatesCertificateIdActionsCertificateRenew'', [''CertificateId''], Checked ''CertificateV181RenewRequestBody'', [Post]),
      (''EthernetInterfaces'', [], Checked ''EthernetInterfaceV1120EthernetInterface'', [Get, Post])]"

definition Controllers_CompositionService_16c :: operations where
  "Controllers_CompositionService_16c = ops op_root ''CompositionServiceResourceBlocksResourceBlockIdSystemsComputerSystemId'' [''ResourceBlockId'', ''ComputerSystemId'']
     [(''EthernetInterfacesEthernetInterfaceId'', [''EthernetInterfaceId''], Checked ''EthernetInterfaceV1120EthernetInterface'', [Get, Put, Delete, Patch])]"

definition Controllers_CompositionService_16d :: operations where
  "Controllers_CompositionService_16d = ops op_root ''CompositionServiceResourceBlocksResourceBlockIdSystemsComputerSystemId'' [''ResourceBlockId'', ''ComputerSystemId'']
     [(''EthernetInterfacesEthernetInterfaceIdVLANs'', [''EthernetInterfaceId''], Checked ''VLanNetworkInterfaceV130VLanNetworkInterface'', [Get, Post]),
      (''EthernetInterfacesEthernetInterfaceIdVLANsVLanNetworkInterfaceId'', [''EthernetInterfaceId'', ''VLanNetworkInterfaceId''], Bodiless, [Get])]"

definition Controllers_CompositionService_16e :: operations where
  "Controllers_CompositionService_16e = ops op_root ''CompositionServiceResourceBlocksResourceBlockIdSystemsComputerSystemId'' [''ResourceBlockId'', ''ComputerSystemId'']
     [(''EthernetInterfacesEthernetInterfaceIdVLANsVLanNetworkInterfaceId'', [''EthernetInterfaceId'', ''VLanNetworkInterfaceId''], Checked ''VLanNetworkInterfaceV130VLanNetworkInterface'', [Put, Delete, Patch])]"

definition Controllers_CompositionService_16f :: operations where
  "Controllers_CompositionService_16f = ops op_root ''CompositionServiceResourceBlocksResourceBlockIdSystemsComputerSystemId'' [''ResourceBlockId'', ''ComputerSystemId'']
     [(''FabricAdapters'', [], Bodiless, [Get]),
      (''FabricAdaptersFabricAdapterId'', [''FabricAdapterId''], Checked ''FabricAdapterV152FabricAdapter'', [Get, Put, Patch])]"

definition Controllers_CompositionService_16g :: operations where
  "Controllers_CompositionService_16g = ops op_root ''CompositionServiceResourceBlocksResourceBlockIdSystemsComputerSystemId'' [''ResourceBlockId'', ''ComputerSystemId'']
     [(''FabricAdaptersFabricAdapterIdGenZMSDT'', [''FabricAdapterId''], Checked ''RouteEntryV101RouteEntry'', [Get, Post])]"

definition Controllers_CompositionService_17a :: operations where
  "Controllers_CompositionService_17a = ops op_root ''CompositionServiceResourceBlocksResourceBlockIdSystemsComputerSystemIdFabricAdaptersFabricAdapterId'' [''ResourceBlockId'', ''ComputerSystemId'', ''FabricAdapterId'']
     [(''GenZMSDTMSDTId'', [''MSDTId''], Checked ''RouteEntryV101RouteEntry'', [Get, Put, Delete])]"

definition Controllers_CompositionService_17b :: operations where
  "Controllers_CompositionService_17b = ops op_root ''CompositionServiceResourceBlocksResourceBlockIdSystemsComputerSystemIdFabricAdaptersFabricAdapterId'' [''ResourceBlockId'', ''ComputerSystemId'', ''FabricAdapterId'']
     [(''GenZMSDTMSDTId'', [''MSDTId''], Checked ''RouteEntryV101RouteEntry'', [Patch]),
      (''GenZSSDT'', [], Checked ''RouteEntryV101RouteEntry'', [Get, Post])]"

definition Controllers_CompositionService_17c :: operations where
  "Controllers_CompositionService_17c = ops op_root ''CompositionServiceResourceBlocksResourceBlockIdSystemsComputerSystemIdFabricAdaptersFabricAdapterId'' [''ResourceBlockId'', ''ComputerSystemId'', ''FabricAdapterId'']
     [(''GenZSSDTSSDTId'', [''SSDTId''], Checked ''RouteEntryV101RouteEntry'', [Get, Put, Delete])]"

definition Controllers_CompositionService_17d :: operations where
  "Controllers_CompositionService_17d = ops op_root ''CompositionServiceResourceBlocksResourceBlockIdSystemsComputerSystemIdFabricAdaptersFabricAdapterId'' [''ResourceBlockId'', ''ComputerSystemId'', ''FabricAdapterId'']
     [(''GenZSSDTSSDTId'', [''SSDTId''], Checked ''RouteEntryV101RouteEntry'', [Patch]),
      (''MSDT'', [], Checked ''RouteEntryV101RouteEntry'', [Get, Post])]"

definition Controllers_CompositionService_17e :: operations where
  "Controllers_CompositionService_17e = ops op_root ''CompositionServiceResourceBlocksResourceBlockIdSystemsComputerSystemIdFabricAdaptersFabricAdapterId'' [''ResourceBlockId'', ''ComputerSystemId'', ''FabricAdapterId'']
     [(''MSDTMSDTId'', [''MSDTId''], Checked ''RouteEntryV101RouteEntry'', [Get, Put, Delete])]"

definition Controllers_CompositionService_17f :: operations where
  "Controllers_CompositionService_17f = ops op_root ''CompositionServiceResourceBlocksResourceBlockIdSystemsComputerSystemIdFabricAdaptersFabricAdapterId'' [''ResourceBlockId'', ''ComputerSystemId'', ''FabricAdapterId'']
     [(''MSDTMSDTId'', [''MSDTId''], Checked ''RouteEntryV101RouteEntry'', [Patch]),
      (''Ports'', [], Bodiless, [Get]),
      (''PortsPortId'', [''PortId''], Bodiless, [Get])]"

definition Controllers_CompositionService_17g :: operations where
  "Controllers_CompositionService_17g = ops op_root ''CompositionServiceResourceBlocksResourceBlockIdSystemsComputerSystemIdFabricAdaptersFabricAdapterId'' [''ResourceBlockId'', ''ComputerSystemId'', ''FabricAdapterId'']
     [(''PortsPortId'', [''PortId''], Checked ''PortV1110Port'', [Put, Patch]),
      (''PortsPortIdActionsPortReset'', [''PortId''], Checked ''PortV1110ResetRequestBody'', [Post])]"

definition Controllers_CompositionService_17h :: operations where
  "Controllers_CompositionService_17h = ops op_root ''CompositionServiceResourceBlocksResourceBlockIdSystemsComputerSystemIdFabricAdaptersFabricAdapterId'' [''ResourceBlockId'', ''ComputerSystemId'', ''FabricAdapterId'']
     [(''PortsPortIdActionsPortResetPPB'', [''PortId''], Untyped, [Post]),
      (''PortsPortIdEnvironmentMetrics'', [''PortId''], Checked ''EnvironmentMetricsV131EnvironmentMetrics'', [Get, Put])]"

definition Controllers_CompositionService_17i :: operations where
  "Controllers_CompositionService_17i = ops op_root ''CompositionServiceResourceBlocksResourceBlockIdSystemsComputerSystemIdFabricAdaptersFabricAdapterId'' [''ResourceBlockId'', ''ComputerSystemId'', ''FabricAdapterId'']
     [(''PortsPortIdEnvironmentMetrics'', [''PortId''], Checked ''EnvironmentMetricsV131EnvironmentMetrics'', [Patch]),
      (''PortsPortIdEnvironmentMetricsActionsEnvironmentMetricsResetMetrics'', [''PortId''], Untyped, [Post]),
      (''PortsPortIdEnvironmentMetricsActionsEnvironmentMetricsResetToDefaults'', [''PortId''], Untyped, [Post])]"

definition Controllers_CompositionService_17j :: operations where
  "Controllers_CompositionService_17j = ops op_root ''CompositionServiceResourceBlocksResourceBlockIdSystemsComputerSystemIdFabricAdaptersFabricAdapterId'' [''ResourceBlockId'', ''ComputerSystemId'', ''FabricAdapterId'']
     [(''PortsPortIdGenZLPRT'', [''PortId''], Checked ''RouteEntryV101RouteEntry'', [Get, Post])]"

definition Controllers_CompositionService_18a :: operations where
  "Controllers_CompositionService_18a = ops op_root ''CompositionServiceResourceBlocksResourceBlockIdSystemsComputerSystemIdFabricAdaptersFabricAdapterId'' [''ResourceBlockId'', ''ComputerSystemId'', ''FabricAdapterId'']
     [(''PortsPortIdGenZLPRTLPRTId'', [''PortId'', ''LPRTId''], Checked ''RouteEntryV101RouteEntry'', [Get, Put, Delete])]"

definition Controllers_CompositionService_18b :: operations where
  "Controllers_CompositionService_18b = ops op_root ''CompositionServiceResourceBlocksResourceBlockIdSystemsComputerSystemIdFabricAdaptersFabricAdapterId'' [''ResourceBlockId'', ''ComputerSystemId'', ''FabricAdapterId'']
     [(''PortsPortIdGenZLPRTLPRTId'', [''PortId'', ''LPRTId''], Checked ''RouteEntryV101RouteEntry'', [Patch]),
      (''PortsPortIdGenZMPRT'', [''PortId''], Checked ''RouteEntryV101RouteEntry'', [Get, Post])]"

definition Controllers_CompositionService_18c :: operations where
  "Controllers_CompositionService_18c = ops op_root ''CompositionServiceResourceBlocksResourceBlockIdSystemsComputerSystemIdFabricAdaptersFabricAdapterId'' [''ResourceBlockId'', ''ComputerSystemId'', ''FabricAdapterId'']
     [(''PortsPortIdGenZMPRTMPRTId'', [''PortId'', ''MPRTId''], Checked ''RouteEntryV101RouteEntry'', [Get, Put, Delete])]"

definition Controllers_CompositionService_18d :: operations where
  "Controllers_CompositionService_18d = ops op_root ''CompositionServiceResourceBlocksResourceBlockIdSystemsComputerSystemIdFabricAdaptersFabricAdapterId'' [''ResourceBlockId'', ''ComputerSystemId'', ''FabricAdapterId'']
     [(''PortsPortIdGenZMPRTMPRTId'', [''PortId'', ''MPRTId''], Checked ''RouteEntryV101RouteEntry'', [Patch]),
      (''PortsPortIdLPRT'', [''PortId''], Checked ''RouteEntryV101RouteEntry'', [Get, Post])]"

definition Controllers_CompositionService_18e :: operations where
  "Controllers_CompositionService_18e = ops op_root ''CompositionServiceResourceBlocksResourceBlockIdSystemsComputerSystemIdFabricAdaptersFabricAdapterId'' [''ResourceBlockId'', ''ComputerSystemId'', ''FabricAdapterId'']
     [(''PortsPortIdLPRTLPRTId'', [''PortId'', ''LPRTId''], Checked ''RouteEntryV101RouteEntry'', [Get, Put, Delete])]"

definition Controllers_CompositionService_18f :: operations where
  "Controllers_CompositionService_18f = ops op_root ''CompositionServiceResourceBlocksResourceBlockIdSystemsComputerSystemIdFabricAdaptersFabricAdapterId'' [''ResourceBlockId'', ''ComputerSystemId'', ''FabricAdapterId'']
     [(''PortsPortIdLPRTLPRTId'', [''PortId'', ''LPRTId''], Checked ''RouteEntryV101RouteEntry'', [Patch]),
      (''PortsPortIdMPRT'', [''PortId''], Checked ''RouteEntryV101RouteEntry'', [Get, Post])]"

definition Controllers_CompositionService_18g :: operations where
  "Controllers_CompositionService_18g = ops op_root ''CompositionServiceResourceBlocksResourceBlockIdSystemsComputerSystemIdFabricAdaptersFabricAdapterId'' [''ResourceBlockId'', ''ComputerSystemId'', ''FabricAdapterId'']
     [(''PortsPortIdMPRTMPRTId'', [''PortId'', ''MPRTId''], Checked ''RouteEntryV101RouteEntry'', [Get, Put, Delete])]"

definition Controllers_CompositionService_18h :: operations where
  "Controllers_CompositionService_18h = ops op_root ''CompositionServiceResourceBlocksResourceBlockIdSystemsComputerSystemIdFabricAdaptersFabricAdapterId'' [''ResourceBlockId'', ''ComputerSystemId'', ''FabricAdapterId'']
     [(''PortsPortIdMPRTMPRTId'', [''PortId'', ''MPRTId''], Checked ''RouteEntryV101RouteEntry'', [Patch]),
      (''PortsPortIdMetrics'', [''PortId''], Bodiless, [Get]),
      (''SSDT'', [], Bodiless, [Get])]"

definition Controllers_CompositionService_18i :: operations where
  "Controllers_CompositionService_18i = ops op_root ''CompositionServiceResourceBlocksResourceBlockIdSystemsComputerSystemIdFabricAdaptersFabricAdapterId'' [''ResourceBlockId'', ''ComputerSystemId'', ''FabricAdapterId'']
     [(''SSDT'', [], Checked ''RouteEntryV101RouteEntry'', [Post]),
      (''SSDTSSDTId'', [''SSDTId''], Checked ''RouteEntryV101RouteEntry'', [Get, Put])]"

definition Controllers_CompositionService_18j :: operations where
  "Controllers_CompositionService_18j = ops op_root ''CompositionServiceResourceBlocksResourceBlockIdSystemsComputerSystemIdFabricAdaptersFabricAdapterId'' [''ResourceBlockId'', ''ComputerSystemId'', ''FabricAdapterId'']
     [(''SSDTSSDTId'', [''SSDTId''], Checked ''RouteEntryV101RouteEntry'', [Delete, Patch])]"

definition Controllers_CompositionService_19a :: operations where
  "Controllers_CompositionService_19a = ops op_root ''CompositionServiceResourceBlocksResourceBlockIdSystemsComputerSystemIdGraphicsControllersControllerIdPorts'' [''ResourceBlockId'', ''ComputerSystemId'', ''ControllerId'']
     [('''', [], Bodiless, [Get]),
      (''PortId'', [''PortId''], Checked ''PortV1110Port'', [Get, Put])]"

definition Controllers_CompositionService_19b :: operations where
  "Controllers_CompositionService_19b = ops op_root ''CompositionServiceResourceBlocksResourceBlockIdSystemsComputerSystemIdGraphicsControllersControllerIdPorts'' [''ResourceBlockId'', ''ComputerSystemId'', ''ControllerId'']
     [(''PortId'', [''PortId''], Checked ''PortV1110Port'', [Patch]),
      (''PortIdActionsPortReset'', [''PortId''], Checked ''PortV1110ResetRequestBody'', [Post]),
      (''PortIdActionsPortResetPPB'', [''PortId''], Untyped, [Post])]"

definition Controllers_CompositionService_19c :: operations where
  "Controllers_CompositionService_19c = ops op_root ''CompositionServiceResourceBlocksResourceBlockIdSystemsComputerSystemIdGraphicsControllersControllerIdPorts'' [''ResourceBlockId'', ''ComputerSystemId'', ''ControllerId'']
     [(''PortIdEnvironmentMetrics'', [''PortId''], Checked ''EnvironmentMetricsV131EnvironmentMetrics'', [Get, Put, Patch])]"

definition Controllers_CompositionService_19d :: operations where
  "Controllers_CompositionService_19d = ops op_root ''CompositionServiceResourceBlocksResourceBlockIdSystemsComputerSystemIdGraphicsControllersControllerIdPorts'' [''ResourceBlockId'', ''ComputerSystemId'', ''ControllerId'']
     [(''PortIdEnvironmentMetricsActionsEnvironmentMetricsResetMetrics'', [''PortId''], Untyped, [Post]),
      (''PortIdEnvironmentMetricsActionsEnvironmentMetricsResetToDefaults'', [''PortId''], Untyped, [Post]),
      (''PortIdMetrics'', [''PortId''], Bodiless, [Get])]"

definition Controllers_CompositionService_20a :: operations where
  "Controllers_CompositionService_20a = ops op_root ''CompositionServiceResourceBlocksResourceBlockIdSystemsComputerSystemId'' [''ResourceBlockId'', ''ComputerSystemId'']
     [(''KeyManagementKMIPCertificates'', [], Checked ''CertificateV181Certificate'', [Get, Post]),
      (''KeyManagementKMIPCertificatesCertificateId'', [''CertificateId''], Checked ''CertificateV181Certificate'', [Get, Put])]"

definition Controllers_CompositionService_20b :: operations where
  "Controllers_CompositionService_20b = ops op_root ''CompositionServiceResourceBlocksResourceBlockIdSystemsComputerSystemId'' [''ResourceBlockId'', ''ComputerSystemId'']
     [(''KeyManagementKMIPCertificatesCertificateId'', [''CertificateId''], Checked ''CertificateV181Certificate'', [Delete, Patch]),
      (''KeyManagementKMIPCertificatesCertificateIdActionsCertificateRekey'', [''CertificateId''], Checked ''CertificateV181RekeyRequestBody'', [Post])]"

definition Controllers_CompositionService_20c :: operations where
  "Controllers_CompositionService_20c = ops op_root ''CompositionServiceResourceBlocksResourceBlockIdSystemsComputerSystemId'' [''ResourceBlockId'', ''ComputerSystemId'']
     [(''KeyManagementKMIPCertificatesCertificateIdActionsCertificateRenew'', [''CertificateId''], Checked ''CertificateV181RenewRequestBody'', [Post]),
      (''LogServices'', [], Bodiless, [Get]),
      (''LogServicesLogServiceId'', [''LogServiceId''], Checked ''LogServiceV160LogService'', [Get, Put])]"

definition Controllers_CompositionService_20d :: operations where
  "Controllers_CompositionService_20d = ops op_root ''CompositionServiceResourceBlocksResourceBlockIdSystemsComputerSystemId'' [''ResourceBlockId'', ''ComputerSystemId'']
     [(''LogServicesLogServiceId'', [''LogServiceId''], Checked ''LogServiceV160LogService'', [Patch]),
      (''LogServicesLogServiceIdActionsLogServiceClearLog'', [''LogServiceId''], Checked ''LogServiceV160ClearLogRequestBody'', [Post]),
      (''LogServicesLogServiceIdActionsLogServiceCollectDiagnosticData'', [''LogServiceId''], Checked ''LogServiceV160CollectDiagnosticDataRequestBody'', [Post])]"

definition Controllers_CompositionService_20e :: operations where
  "Controllers_CompositionService_20e = ops op_root ''CompositionServiceResourceBlocksResourceBlockIdSystemsComputerSystemId'' [''ResourceBlockId'', ''ComputerSystemId'']
     [(''LogServicesLogServiceIdActionsLogServicePushDiagnosticData'', [''LogServiceId''], Checked ''LogServiceV160PushDiagnosticDataRequestBody'', [Post]),
      (''LogServicesLogServiceIdEntries'', [''LogServiceId''], Checked ''LogEntryV1160LogEntry'', [Get, Post]),
      (''LogServicesLogServiceIdEntriesLogEntryId'', [''LogServiceId'', ''LogEntryId''], Bodiless, [Get])]"

definition Controllers_CompositionService_20f :: operations where
  "Controllers_CompositionService_20f = ops op_root ''CompositionServiceResourceBlocksResourceBlockIdSystemsComputerSystemId'' [''ResourceBlockId'', ''ComputerSystemId'']
     [(''LogServicesLogServiceIdEntriesLogEntryId'', [''LogServiceId'', ''LogEntryId''], Checked ''LogEntryV1160LogEntry'', [Put, Delete, Patch])]"

definition Controllers_CompositionService_20g :: operations where
  "Controllers_CompositionService_20g = ops op_root ''CompositionServiceResourceBlocksResourceBlockIdSystemsComputerSystemId'' [''ResourceBlockId'', ''ComputerSystemId'']
     [(''Memory'', [], Bodiless, [Get]),
      (''MemoryMemoryId'', [''MemoryId''], Checked ''MemoryV1190Memory'', [Get, Put, Patch])]"

definition Controllers_CompositionService_21a :: operations where
  "Controllers_CompositionService_21a = ops op_root ''CompositionServiceResourceBlocksResourceBlockIdSystemsComputerSystemIdMemoryMemoryId'' [''ResourceBlockId'', ''ComputerSystemId'', ''MemoryId'']
     [(''ActionsMemoryDisableMasterPassphrase'', [], Checked ''MemoryV1190DisableMasterPassphraseRequestBody'', [Post]),
      (''ActionsMemoryDisablePassphrase'', [], Checked ''MemoryV1190DisablePassphraseRequestBody'', [Post]),
      (''ActionsMemoryFreezeSecurityState'', [], Untyped, [Post])]"

definition Controllers_CompositionService_21b :: operations where
  "Controllers_CompositionService_21b = ops op_root ''CompositionServiceResourceBlocksResourceBlockIdSystemsComputerSystemIdMemoryMemoryId'' [''ResourceBlockId'', ''ComputerSystemId'', ''MemoryId'']
     [(''ActionsMemoryInjectPersistentPoison'', [], Checked ''MemoryV1190InjectPersistentPoisonRequestBody'', [Post]),
      (''ActionsMemoryOverwriteUnit'', [], Checked ''MemoryV1190OverwriteUnitRequestBody'', [Post]),
      (''ActionsMemoryReset'', [], Checked ''MemoryV1190ResetRequestBody'', [Post])]"

definition Controllers_CompositionService_21c :: operations where
  "Controllers_CompositionService_21c = ops op_root ''CompositionServiceResourceBlocksResourceBlockIdSystemsComputerSystemIdMemoryMemoryId'' [''ResourceBlockId'', ''ComputerSystemId'', ''MemoryId'']
     [(''ActionsMemoryResetToDefaults'', [], Untyped, [Post]),
      (''ActionsMemoryScanMedia'', [], Checked ''MemoryV1190ScanMediaRequestBody'', [Post]),
      (''ActionsMemorySecureEraseUnit'', [], Checked ''MemoryV1190SecureEraseUnitRequestBody'', [Post])]"

definition Controllers_CompositionService_21d :: operations where
  "Controllers_CompositionService_21d = ops op_root ''CompositionServiceResourceBlocksResourceBlockIdSystemsComputerSystemIdMemoryMemoryId'' [''ResourceBlockId'', ''ComputerSystemId'', ''MemoryId'']
     [(''ActionsMemorySetMasterPassphrase'', [], Checked ''MemoryV1190SetMasterPassphraseRequestBody'', [Post]),
      (''ActionsMemorySetPassphrase'', [], Checked ''MemoryV1190SetPassphraseRequestBody'', [Post]),
      (''ActionsMemoryUnlockUnit'', [], Checked ''MemoryV1190UnlockUnitRequestBody'', [Post])]"

definition Controllers_CompositionService_21e :: operations where
  "Controllers_CompositionService_21e = ops op_root ''CompositionServiceResourceBlocksResourceBlockIdSystemsComputerSystemIdMemoryMemoryId'' [''ResourceBlockId'', ''ComputerSystemId'', ''MemoryId'']
     [(''Assembly'', [], Checked ''AssemblyV150Assembly'', [Get, Put, Patch]),
      (''Certificates'', [], Bodiless, [Get])]"

definition Controllers_CompositionService_21f :: operations where
  "Controllers_CompositionService_21f = ops op_root ''CompositionServiceResourceBlocksResourceBlockIdSystemsComputerSystemIdMemoryMemoryId'' [''ResourceBlockId'', ''ComputerSystemId'', ''MemoryId'']
     [(''Certificates'', [], Checked ''CertificateV181Certificate'', [Post]),
      (''CertificatesCertificateId'', [''CertificateId''], Checked ''CertificateV181Certificate'', [Get, Put])]"

definition Controllers_CompositionService_21g :: operations where
  "Controllers_CompositionService_21g = ops op_root ''CompositionServiceResourceBlocksResourceBlockIdSystemsComputerSystemIdMemoryMemoryId'' [''ResourceBlockId'', ''ComputerSystemId'', ''MemoryId'']
     [(''CertificatesCertificateId'', [''CertificateId''], Checked ''CertificateV181Certificate'', [Delete, Patch]),
      (''CertificatesCertificateIdActionsCertificateRekey'', [''CertificateId''], Checked ''CertificateV181RekeyRequestBody'', [Post])]"

definition Controllers_CompositionService_21h :: operations where
  "Controllers_CompositionService_21h = ops op_root ''CompositionServiceResourceBlocksResourceBlockIdSystemsComputerSystemIdMemoryMemoryId'' [''ResourceBlockId'', ''ComputerSystemId'', ''MemoryId'']
     [(''CertificatesCertificateIdActionsCertificateRenew'', [''CertificateId''], Checked ''CertificateV181RenewRequestBody'', [Post]),
      (''EnvironmentMetrics'', [], Checked ''EnvironmentMetricsV131EnvironmentMetrics'', [Get, Put])]"

definition Controllers_CompositionService_21i :: operations where
  "Controllers_CompositionService_21i = ops op_root ''CompositionServiceResourceBlocksResourceBlockIdSystemsComputerSystemIdMemoryMemoryId'' [''ResourceBlockId'', ''ComputerSystemId'', ''MemoryId'']
     [(''EnvironmentMetrics'', [], Checked ''EnvironmentMetricsV131EnvironmentMetrics'', [Patch]),
      (''EnvironmentMetricsActionsEnvironmentMetricsResetMetrics'', [], Untyped, [Post]),
      (''EnvironmentMetricsActionsEnvironmentMetricsResetToDefaults'', [], Untyped, [Post]),
      (''MemoryMetrics'', [], Bodiless, [Get])]"

definition Controllers_CompositionService_21j :: operations where
  "Controllers_CompositionService_21j = ops op_root ''CompositionServiceResourceBlocksResourceBlockIdSystemsComputerSystemIdMemoryMemoryId'' [''ResourceBlockId'', ''ComputerSystemId'', ''MemoryId'']
     [(''MemoryMetricsActionsMemoryMetricsClearCurrentPeriod'', [], Untyped, [Post])]"

definition Controllers_CompositionService_22a :: operations where
  "Controllers_CompositionService_22a = ops op_root ''CompositionServiceResourceBlocksResourceBlockIdSystemsComputerSystemId'' [''ResourceBlockId'', ''ComputerSystemId'']
     [(''MemoryDomains'', [], Bodiless, [Get]),
      (''MemoryDomainsMemoryDomainId'', [''MemoryDomainId''], Bodiless, [Get]),
      (''MemoryDomainsMemoryDomainIdMemoryChunks'', [''MemoryDomainId''], Checked ''MemoryChunksV161MemoryChunks'', [Get, Post])]"

definition Controllers_CompositionService_22b :: operations where
  "Controllers_CompositionService_22b = ops op_root ''CompositionServiceResourceBlocksResourceBlockIdSystemsComputerSystemId'' [''ResourceBlockId'', ''ComputerSystemId'']
     [(''MemoryDomainsMemoryDomainIdMemoryChunksMemoryChunksId'', [''MemoryDomainId'', ''MemoryChunksId''], Checked ''MemoryChunksV161MemoryChunks'', [Get, Put, Delete])]"

definition Controllers_CompositionService_22c :: operations where
  "Controllers_CompositionService_22c = ops op_root ''CompositionServiceResourceBlocksResourceBlockIdSystemsComputerSystemId'' [''ResourceBlockId'', ''ComputerSystemId'']
     [(''MemoryDomainsMemoryDomainIdMemoryChunksMemoryChunksId'', [''MemoryDomainId'', ''MemoryChunksId''], Checked ''MemoryChunksV161MemoryChunks'', [Patch]),
      (''MemorySummaryMemoryMetrics'', [], Bodiless, [Get]),
      (''MemorySummaryMemoryMetricsActionsMemoryMetricsClearCurrentPeriod'', [], Untyped, [Post]),
      (''NetworkInterfaces'', [], Bodiless, [Get])]"

definition Controllers_CompositionService_22d :: operations where
  "Controllers_CompositionService_22d = ops op_root ''CompositionServiceResourceBlocksResourceBlockIdSystemsComputerSystemId'' [''ResourceBlockId'', ''ComputerSystemId'']
     [(''NetworkInterfacesNetworkInterfaceId'', [''NetworkInterfaceId''], Bodiless, [Get]),
      (''NetworkInterfacesNetworkInterfaceIdNetworkDeviceFunctions'', [''NetworkInterfaceId''], Bodiless, [Get]),
      (''NetworkInterfacesNetworkInterfaceIdNetworkDeviceFunctionsNetworkDeviceFunctionIdAllowDeny'', [''NetworkInterfaceId'', ''NetworkDeviceFunctionId''], Checked ''AllowDenyV102AllowDeny'', [Get, Post])]"

definition Controllers_CompositionService_22e :: operations where
  "Controllers_CompositionService_22e = ops op_root ''CompositionServiceResourceBlocksResourceBlockIdSystemsComputerSystemId'' [''ResourceBlockId'', ''ComputerSystemId'']
     [(''NetworkInterfacesNetworkInterfaceIdNetworkDeviceFunctionsNetworkDeviceFunctionIdAllowDenyAllowDenyId'', [''NetworkInterfaceId'', ''NetworkDeviceFunctionId'', ''AllowDenyId''], Checked ''AllowDenyV102AllowDeny'', [Get, Put, Delete])]"

definition Controllers_CompositionService_22f :: operations where
  "Controllers_CompositionService_22f = ops op_root ''CompositionServiceResourceBlocksResourceBlockIdSystemsComputerSystemId'' [''ResourceBlockId'', ''ComputerSystemId'']
     [(''NetworkInterfacesNetworkInterfaceIdNetworkDeviceFunctionsNetworkDeviceFunctionIdAllowDenyAllowDenyId'', [''NetworkInterfaceId'', ''NetworkDeviceFunctionId'', ''AllowDenyId''], Checked ''AllowDenyV102AllowDeny'', [Patch]),
      (''NetworkInterfacesNetworkInterfaceIdNetworkPorts'', [''NetworkInterfaceId''], Bodiless, [Get]),
      (''NetworkInterfacesNetworkInterfaceIdPorts'', [''NetworkInterfaceId''], Bodiless, [Get])]"

definition Controllers_CompositionService_23a :: operations where
  "Controllers_CompositionService_23a = ops op_root ''CompositionServiceResourceBlocksResourceBlockIdSystemsComputerSystemIdOperatingSystem'' [''ResourceBlockId'', ''ComputerSystemId'']
     [('''', [], Bodiless, [Get]),
      (''Applications'', [], Bodiless, [Get]),
      (''ApplicationsApplicationId'', [''ApplicationId''], Bodiless, [Get]),
      (''ApplicationsApplicationIdActionsApplicationReset'', [''ApplicationId''], Checked ''ApplicationV100ResetRequestBody'', [Post]),
      (''ContainerImages'', [], Bodiless, [Get])]"

definition Controllers_CompositionService_23b :: operations where
  "Controllers_CompositionService_23b = ops op_root ''CompositionServiceResourceBlocksResourceBlockIdSystemsComputerSystemIdOperatingSystem'' [''ResourceBlockId'', ''ComputerSystemId'']
     [(''ContainerImagesContainerImageId'', [''ContainerImageId''], Bodiless, [Get]),
      (''Containers'', [], Bodiless, [Get]),
      (''ContainersEthernetInterfaces'', [], Checked ''EthernetInterfaceV1120EthernetInterface'', [Get, Post]),
      (''ContainersEthernetInterfacesEthernetInterfaceId'', [''EthernetInterfaceId''], Bodiless, [Get])]"

definition Controllers_CompositionService_23c :: operations where
  "Controllers_CompositionService_23c = ops op_root ''CompositionServiceResourceBlocksResourceBlockIdSystemsComputerSystemIdOperatingSystem'' [''ResourceBlockId'', ''ComputerSystemId'']
     [(''ContainersEthernetInterfacesEthernetInterfaceId'', [''EthernetInterfaceId''], Checked ''EthernetInterfaceV1120EthernetInterface'', [Put, Delete, Patch]),
      (''ContainersContainerId'', [''ContainerId''], Bodiless, [Get])]"

definition Controllers_CompositionService_23d :: operations where
  "Controllers_CompositionService_23d = ops op_root ''CompositionServiceResourceBlocksResourceBlockIdSystemsComputerSystemIdOperatingSystem'' [''ResourceBlockId'', ''ComputerSystemId'']
     [(''ContainersContainerIdActionsContainerReset'', [''ContainerId''], Checked ''ContainerV100ResetRequestBody'', [Post])]"

definition Controllers_CompositionService_24a :: operations where
  "Controllers_CompositionService_24a = ops op_root ''CompositionServiceResourceBlocksResourceBlockIdSystemsComputerSystemId'' [''ResourceBlockId'', ''ComputerSystemId'']
     [(''PCIeDevices'', [], Bodiless, [Get]),
      (''PCIeDevicesPCIeDeviceId'', [''PCIeDeviceId''], Checked ''PcieDeviceV1130PcieDevice'', [Get, Put, Patch])]"

definition Controllers_CompositionService_24b :: operations where
  "Controllers_CompositionService_24b = ops op_root ''CompositionServiceResourceBlocksResourceBlockIdSystemsComputerSystemId'' [''ResourceBlockId'', ''ComputerSystemId'']
     [(''PCIeDevicesPCIeDeviceIdEnvironmentMetrics'', [''PCIeDeviceId''], Checked ''EnvironmentMetricsV131EnvironmentMetrics'', [Get, Put, Patch]),
      (''PCIeDevicesPCIeDeviceIdEnvironmentMetricsActionsEnvironmentMetricsResetMetrics'', [''PCIeDeviceId''], Untyped, [Post])]"

definition Controllers_CompositionService_24c :: operations where
  "Controllers_CompositionService_24c = ops op_root ''CompositionServiceResourceBlocksResourceBlockIdSystemsComputerSystemId'' [''ResourceBlockId'', ''ComputerSystemId'']
     [(''PCIeDevicesPCIeDeviceIdEnvironmentMetricsActionsEnvironmentMetricsResetToDefaults'', [''PCIeDeviceId''], Untyped, [Post]),
      (''PCIeDevicesPCIeDeviceIdPCIeFunctions'', [''PCIeDeviceId''], Bodiless, [Get]),
      (''PCIeDevicesPCIeDeviceIdPCIeFunctionsPCIeFunctionId'', [''PCIeDeviceId'', ''PCIeFunctionId''], Checked ''PcieFunctionV151PcieFunction'', [Get, Put])]"

definition Controllers_CompositionService_24d :: operations where
  "Controllers_CompositionService_24d = ops op_root ''CompositionServiceResourceBlocksResourceBlockIdSystemsComputerSystemId'' [''ResourceBlockId'', ''ComputerSystemId'']
     [(''PCIeDevicesPCIeDeviceIdPCIeFunctionsPCIeFunctionId'', [''PCIeDeviceId'', ''PCIeFunctionId''], Checked ''PcieFunctionV151PcieFunction'', [Patch]),
      (''ProcessorSummaryProcessorMetrics'', [], Bodiless, [Get]),
      (''ProcessorSummaryProcessorMetricsActionsProcessorMetricsClearCurrentPeriod'', [], Untyped, [Post]),
      (''Processors'', [], Bodiless, [Get])]"

definition Controllers_CompositionService_24e :: operations where
  "Controllers_CompositionService_24e = ops op_root ''CompositionServiceResourceBlocksResourceBlockIdSystemsComputerSystemId'' [''ResourceBlockId'', ''ComputerSystemId'']
     [(''ProcessorsProcessorId'', [''ProcessorId''], Checked ''ProcessorV1190Processor'', [Get, Put, Patch]),
      (''ProcessorsProcessorIdAccelerationFunctions'', [''ProcessorId''], Bodiless, [Get])]"

definition Controllers_CompositionService_24f :: operations where
  "Controllers_CompositionService_24f = ops op_root ''CompositionServiceResourceBlocksResourceBlockIdSystemsComputerSystemId'' [''ResourceBlockId'', ''ComputerSystemId'']
     [(''ProcessorsProcessorIdAccelerationFunctionsAccelerationFunctionId'', [''ProcessorId'', ''AccelerationFunctionId''], Bodiless, [Get]),
      (''ProcessorsProcessorIdActionsProcessorReset'', [''ProcessorId''], Checked ''ProcessorV1190ResetRequestBody'', [Post]),
      (''ProcessorsProcessorIdActionsProcessorResetToDefaults'', [''ProcessorId''], Untyped, [Post]),
      (''ProcessorsProcessorIdAssembly'', [''ProcessorId''], Bodiless, [Get])]"

definition Controllers_CompositionService_24g :: operations where
  "Controllers_CompositionService_24g = ops op_root ''CompositionServiceResourceBlocksResourceBlockIdSystemsComputerSystemId'' [''ResourceBlockId'', ''ComputerSystemId'']
     [(''ProcessorsProcessorIdAssembly'', [''ProcessorId''], Checked ''AssemblyV150Assembly'', [Put, Patch])]"

definition Controllers_CompositionService_25a :: operations where
  "Controllers_CompositionService_25a = ops op_root ''CompositionServiceResourceBlocksResourceBlockIdSystemsComputerSystemIdProcessorsProcessorId'' [''ResourceBlockId'', ''ComputerSystemId'', ''ProcessorId'']
     [(''Certificates'', [], Checked ''CertificateV181Certificate'', [Get, Post]),
      (''CertificatesCertificateId'', [''CertificateId''], Bodiless, [Get])]"

definition Controllers_CompositionService_25b :: operations where
  "Controllers_CompositionService_25b = ops op_root ''CompositionServiceResourceBlocksResourceBlockIdSystemsComputerSystemIdProcessorsProcessorId'' [''ResourceBlockId'', ''ComputerSystemId'', ''ProcessorId'']
     [(''CertificatesCertificateId'', [''CertificateId''], Checked ''CertificateV181Certificate'', [Put, Delete, Patch])]"

definition Controllers_CompositionService_25c :: operations where
  "Controllers_CompositionService_25c = ops op_root ''CompositionServiceResourceBlocksResourceBlockIdSystemsComputerSystemIdProcessorsProcessorId'' [''ResourceBlockId'', ''ComputerSystemId'', ''ProcessorId'']
     [(''CertificatesCertificateIdActionsCertificateRekey'', [''CertificateId''], Checked ''CertificateV181RekeyRequestBody'', [Post]),
      (''CertificatesCertificateIdActionsCertificateRenew'', [''CertificateId''], Checked ''CertificateV181RenewRequestBody'', [Post]),
      (''EnvironmentMetrics'', [], Bodiless, [Get])]"

definition Controllers_CompositionService_25d :: operations where
  "Controllers_CompositionService_25d = ops op_root ''CompositionServiceResourceBlocksResourceBlockIdSystemsComputerSystemIdProcessorsProcessorId'' [''ResourceBlockId'', ''ComputerSystemId'', ''ProcessorId'']
     [(''EnvironmentMetrics'', [], Checked ''EnvironmentMetricsV131EnvironmentMetrics'', [Put, Patch]),
      (''EnvironmentMetricsActionsEnvironmentMetricsResetMetrics'', [], Untyped, [Post])]"

definition Controllers_CompositionService_25e :: operations where
  "Controllers_CompositionService_25e = ops op_root ''CompositionServiceResourceBlocksResourceBlockIdSystemsComputerSystemIdProcessorsProcessorId'' [''ResourceBlockId'', ''ComputerSystemId'', ''ProcessorId'']
     [(''EnvironmentMetricsActionsEnvironmentMetricsResetToDefaults'', [], Untyped, [Post]),
      (''MemorySummaryMemoryMetrics'', [], Bodiless, [Get]),
      (''MemorySummaryMemoryMetricsActionsMemoryMetricsClearCurrentPeriod'', [], Untyped, [Post]),
      (''Ports'', [], Bodiless, [Get])]"

definition Controllers_CompositionService_25f :: operations where
  "Controllers_CompositionService_25f = ops op_root ''CompositionServiceResourceBlocksResourceBlockIdSystemsComputerSystemIdProcessorsProcessorId'' [''ResourceBlockId'', ''ComputerSystemId'', ''ProcessorId'']
     [(''PortsPortId'', [''PortId''], Checked ''PortV1110Port'', [Get, Put, Patch])]"

definition Controllers_CompositionService_25g :: operations where
  "Controllers_CompositionService_25g = ops op_root ''CompositionServiceResourceBlocksResourceBlockIdSystemsComputerSystemIdProcessorsProcessorId'' [''ResourceBlockId'', ''ComputerSystemId'', ''ProcessorId'']
     [(''PortsPortIdActionsPortReset'', [''PortId''], Checked ''PortV1110ResetRequestBody'', [Post]),
      (''PortsPortIdActionsPortResetPPB'', [''PortId''], Untyped, [Post]),
      (''PortsPortIdEnvironmentMetrics'', [''PortId''], Bodiless, [Get])]"

definition Controllers_CompositionService_25h :: operations where
  "Controllers_CompositionService_25h = ops op_root ''CompositionServiceResourceBlocksResourceBlockIdSystemsComputerSystemIdProcessorsProcessorId'' [''ResourceBlockId'', ''ComputerSystemId'', ''ProcessorId'']
     [(''PortsPortIdEnvironmentMetrics'', [''PortId''], Checked ''EnvironmentMetricsV131EnvironmentMetrics'', [Put, Patch]),
      (''PortsPortIdEnvironmentMetricsActionsEnvironmentMetricsResetMetrics'', [''PortId''], Untyped, [Post])]"

definition Controllers_CompositionService_25i :: operations where
  "Controllers_CompositionService_25i = ops op_root ''CompositionServiceResourceBlocksResourceBlockIdSystemsComputerSystemIdProcessorsProcessorId'' [''ResourceBlockId'', ''ComputerSystemId'', ''ProcessorId'']
     [(''PortsPortIdEnvironmentMetricsActionsEnvironmentMetricsResetToDefaults'', [''PortId''], Untyped, [Post]),
      (''PortsPortIdMetrics'', [''PortId''], Bodiless, [Get]),
      (''ProcessorMetrics'', [], Bodiless, [Get]),
      (''ProcessorMetricsActionsProcessorMetricsClearCurrentPeriod'', [], Untyped, [Post])]"

definition Controllers_CompositionService_25j :: operations where
  "Controllers_CompositionService_25j = ops op_root ''CompositionServiceResourceBlocksResourceBlockIdSystemsComputerSystemIdProcessorsProcessorId'' [''ResourceBlockId'', ''ComputerSystemId'', ''ProcessorId'']
     [(''SubProcessors'', [], Bodiless, [Get])]"

definition Controllers_CompositionService_26a :: operations where
  "Controllers_CompositionService_26a = ops op_root ''CompositionServiceResourceBlocksResourceBlockIdSystemsComputerSystemIdProcessorsProcessorIdSubProcessorsProcessorId2'' [''ResourceBlockId'', ''ComputerSystemId'', ''ProcessorId'', ''ProcessorId2'']
     [('''', [], Checked ''ProcessorV1190Processor'', [Get, Put, Patch])]"

definition Controllers_CompositionService_26b :: operations where
  "Controllers_CompositionService_26b = ops op_root ''CompositionServiceResourceBlocksResourceBlockIdSystemsComputerSystemIdProcessorsProcessorIdSubProcessorsProcessorId2'' [''ResourceBlockId'', ''ComputerSystemId'', ''ProcessorId'', ''ProcessorId2'']
     [(''ActionsProcessorReset'', [], Checked ''ProcessorV1190ResetRequestBody'', [Post]),
      (''ActionsProcessorResetToDefaults'', [], Untyped, [Post]),
      (''Assembly'', [], Bodiless, [Get])]"

definition Controllers_CompositionService_26c :: operations where
  "Controllers_CompositionService_26c = ops op_root ''CompositionServiceResourceBlocksResourceBlockIdSystemsComputerSystemIdProcessorsProcessorIdSubProcessorsProcessorId2'' [''ResourceBlockId'', ''ComputerSystemId'', ''ProcessorId'', ''ProcessorId2'']
     [(''Assembly'', [], Checked ''AssemblyV150Assembly'', [Put, Patch]),
      (''ProcessorMetrics'', [], Bodiless, [Get])]"

definition Controllers_CompositionService_26d :: operations where
  "Controllers_CompositionService_26d = ops op_root ''CompositionServiceResourceBlocksResourceBlockIdSystemsComputerSystemIdProcessorsProcessorIdSubProcessorsProcessorId2'' [''ResourceBlockId'', ''ComputerSystemId'', ''ProcessorId'', ''ProcessorId2'']
     [(''ProcessorMetricsActionsProcessorMetricsClearCurrentPeriod'', [], Untyped, [Post]),
      (''SubProcessors'', [], Bodiless, [Get]),
      (''SubProcessorsProcessorId3'', [''ProcessorId3''], Bodiless, [Get])]"

definition Controllers_CompositionService_26e :: operations where
  "Controllers_CompositionService_26e = ops op_root ''CompositionServiceResourceBlocksResourceBlockIdSystemsComputerSystemIdProcessorsProcessorIdSubProcessorsProcessorId2'' [''ResourceBlockId'', ''ComputerSystemId'', ''ProcessorId'', ''ProcessorId2'']
     [(''SubProcessorsProcessorId3'', [''ProcessorId3''], Checked ''ProcessorV1190Processor'', [Put, Patch])]"

definition Controllers_CompositionService_26f :: operations where
  "Controllers_CompositionService_26f = ops op_root ''CompositionServiceResourceBlocksResourceBlockIdSystemsComputerSystemIdProcessorsProcessorIdSubProcessorsProcessorId2'' [''ResourceBlockId'', ''ComputerSystemId'', ''ProcessorId'', ''ProcessorId2'']
     [(''SubProcessorsProcessorId3ActionsProcessorReset'', [''ProcessorId3''], Checked ''ProcessorV1190ResetRequestBody'', [Post]),
      (''SubProcessorsProcessorId3ActionsProcessorResetToDefaults'', [''ProcessorId3''], Untyped, [Post]),
      (''SubProcessorsProcessorId3Assembly'', [''ProcessorId3''], Bodiless, [Get])]"

definition Controllers_CompositionService_26g :: operations where
  "Controllers_CompositionService_26g = ops op_root ''CompositionServiceResourceBlocksResourceBlockIdSystemsComputerSystemIdProcessorsProcessorIdSubProcessorsProcessorId2'' [''ResourceBlockId'', ''ComputerSystemId'', ''ProcessorId'', ''ProcessorId2'']
     [(''SubProcessorsProcessorId3Assembly'', [''ProcessorId3''], Checked ''AssemblyV150Assembly'', [Put, Patch]),
      (''SubProcessorsProcessorId3ProcessorMetrics'', [''ProcessorId3''], Bodiless, [Get])]"

definition Controllers_CompositionService_26h :: operations where
  "Controllers_CompositionService_26h = ops op_root ''CompositionServiceResourceBlocksResourceBlockIdSystemsComputerSystemIdProcessorsProcessorIdSubProcessorsProcessorId2'' [''ResourceBlockId'', ''ComputerSystemId'', ''ProcessorId'', ''ProcessorId2'']
     [(''SubProcessorsProcessorId3ProcessorMetricsActionsProcessorMetricsClearCurrentPeriod'', [''ProcessorId3''], Untyped, [Post])]"

definition Controllers_CompositionService_27a :: operations where
  "Controllers_CompositionService_27a = ops op_root ''CompositionServiceResourceBlocksResourceBlockIdSystemsComputerSystemId'' [''ResourceBlockId'', ''ComputerSystemId'']
     [(''SecureBoot'', [], Checked ''SecureBootV111SecureBoot'', [Get, Put, Patch]),
      (''SecureBootActionsSecureBootResetKeys'', [], Checked ''SecureBootV111ResetKeysRequestBody'', [Post])]"

definition Controllers_CompositionService_27b :: operations where
  "Controllers_CompositionService_27b = ops op_root ''CompositionServiceResourceBlocksResourceBlockIdSystemsComputerSystemId'' [''ResourceBlockId'', ''ComputerSystemId'']
     [(''SecureBootSecureBootDatabases'', [], Bodiless, [Get]),
      (''SecureBootSecureBootDatabasesDatabaseId'', [''DatabaseId''], Bodiless, [Get]),
      (''SecureBootSecureBootDatabasesDatabaseIdActionsSecureBootDatabaseResetKeys'', [''DatabaseId''], Checked ''SecureBootDatabaseV102ResetKeysRequestBody'', [Post]),
      (''SecureBootSecureBootDatabasesDatabaseIdCertificates'', [''DatabaseId''], Bodiless, [Get])]"

definition Controllers_CompositionService_27c :: operations where
  "Controllers_CompositionService_27c = ops op_root ''CompositionServiceResourceBlocksResourceBlockIdSystemsComputerSystemId'' [''ResourceBlockId'', ''ComputerSystemId'']
     [(''SecureBootSecureBootDatabasesDatabaseIdCertificates'', [''DatabaseId''], Checked ''CertificateV181Certificate'', [Post]),
      (''SecureBootSecureBootDatabasesDatabaseIdCertificatesCertificateId'', [''DatabaseId'', ''CertificateId''], Checked ''CertificateV181Certificate'', [Get, Put])]"

definition Controllers_CompositionService_27d :: operations where
  "Controllers_CompositionService_27d = ops op_root ''CompositionServiceResourceBlocksResourceBlockIdSystemsComputerSystemId'' [''ResourceBlockId'', ''ComputerSystemId'']
     [(''SecureBootSecureBootDatabasesDatabaseIdCertificatesCertificateId'', [''DatabaseId'', ''CertificateId''], Checked ''CertificateV181Certificate'', [Delete, Patch]),
      (''SecureBootSecureBootDatabasesDatabaseIdCertificatesCertificateIdActionsCertificateRekey'', [''DatabaseId'', ''CertificateId''], Checked ''CertificateV181RekeyRequestBody'', [Post])]"

definition Controllers_CompositionService_27e :: operations where
  "Controllers_CompositionService_27e = ops op_root ''CompositionServiceResourceBlocksResourceBlockIdSystemsComputerSystemId'' [''ResourceBlockId'', ''ComputerSystemId'']
     [(''SecureBootSecureBootDatabasesDatabaseIdCertificatesCertificateIdActionsCertificateRenew'', [''DatabaseId'', ''CertificateId''], Checked ''CertificateV181RenewRequestBody'', [Post]),
      (''SecureBootSecureBootDatabasesDatabaseIdSignatures'', [''DatabaseId''], Checked ''SignatureV102Signature'', [Get, Post])]"

definition Controllers_CompositionService_27f :: operations where
  "Controllers_CompositionService_27f = ops op_root ''CompositionServiceResourceBlocksResourceBlockIdSystemsComputerSystemId'' [''ResourceBlockId'', ''ComputerSystemId'']
     [(''SecureBootSecureBootDatabasesDatabaseIdSignaturesSignatureId'', [''DatabaseId'', ''SignatureId''], Bodiless, [Get, Delete]),
      (''SimpleStorage'', [], Bodiless, [Get]),
      (''SimpleStorageSimpleStorageId'', [''SimpleStorageId''], Bodiless, [Get]),
      (''Storage'', [], Bodiless, [Get])]"

definition Controllers_CompositionService_27g :: operations where
  "Controllers_CompositionService_27g = ops op_root ''CompositionServiceResourceBlocksResourceBlockIdSystemsComputerSystemId'' [''ResourceBlockId'', ''ComputerSystemId'']
     [(''StorageStorageId'', [''StorageId''], Checked ''StorageV1151Storage'', [Get, Put, Patch])]"

definition Controllers_CompositionService_27h :: operations where
  "Controllers_CompositionService_27h = ops op_root ''CompositionServiceResourceBlocksResourceBlockIdSystemsComputerSystemId'' [''ResourceBlockId'', ''ComputerSystemId'']
     [(''StorageStorageIdActionsStorageResetToDefaults'', [''StorageId''], Checked ''StorageV1151ResetToDefaultsRequestBody'', [Post]),
      (''StorageStorageIdActionsStorageSetEncryptionKey'', [''StorageId''], Checked ''StorageV1151SetEncryptionKeyRequestBody'', [Post]),
      (''StorageStorageIdControllers'', [''StorageId''], Bodiless, [Get])]"

definition Controllers_CompositionService_28a :: operations where
  "Controllers_CompositionService_28a = ops op_root ''CompositionServiceResourceBlocksResourceBlockIdSystemsComputerSystemIdStorageStorageIdControllersControllerId'' [''ResourceBlockId'', ''ComputerSystemId'', ''StorageId'', ''ControllerId'']
     [('''', [], Checked ''StorageControllerV172StorageController'', [Get, Put, Patch])]"

definition Controllers_CompositionService_28b :: operations where
  "Controllers_CompositionService_28b = ops op_root ''CompositionServiceResourceBlocksResourceBlockIdSystemsComputerSystemIdStorageStorageIdControllersControllerId'' [''ResourceBlockId'', ''ComputerSystemId'', ''StorageId'', ''ControllerId'']
     [(''ActionsStorageControllerAttachNamespaces'', [], Checked ''StorageControllerV172AttachNamespacesRequestBody'', [Post]),
      (''ActionsStorageControllerDetachNamespaces'', [], Checked ''StorageControllerV172DetachNamespacesRequestBody'', [Post]),
      (''ActionsStorageControllerSecurityReceive'', [], Checked ''StorageControllerV172SecurityReceiveRequestBody'', [Post])]"

definition Controllers_CompositionService_28c :: operations where
  "Controllers_CompositionService_28c = ops op_root ''CompositionServiceResourceBlocksResourceBlockIdSystemsComputerSystemIdStorageStorageIdControllersControllerId'' [''ResourceBlockId'', ''ComputerSystemId'', ''StorageId'', ''ControllerId'']
     [(''ActionsStorageControllerSecuritySend'', [], Checked ''StorageControllerV172SecuritySendRequestBody'', [Post]),
      (''EnvironmentMetrics'', [], Checked ''EnvironmentMetricsV131EnvironmentMetrics'', [Get, Put])]"

definition Controllers_CompositionService_28d :: operations where
  "Controllers_CompositionService_28d = ops op_root ''CompositionServiceResourceBlocksResourceBlockIdSystemsComputerSystemIdStorageStorageIdControllersControllerId'' [''ResourceBlockId'', ''ComputerSystemId'', ''StorageId'', ''ControllerId'']
     [(''EnvironmentMetrics'', [], Checked ''EnvironmentMetricsV131EnvironmentMetrics'', [Patch]),
      (''EnvironmentMetricsActionsEnvironmentMetricsResetMetrics'', [], Untyped, [Post]),
      (''EnvironmentMetricsActionsEnvironmentMetricsResetToDefaults'', [], Untyped, [Post])]"

definition Controllers_CompositionService_28e :: operations where
  "Controllers_CompositionService_28e = ops op_root ''CompositionServiceResourceBlocksResourceBlockIdSystemsComputerSystemIdStorageStorageIdControllersControllerId'' [''ResourceBlockId'', ''ComputerSystemId'', ''StorageId'', ''ControllerId'']
     [(''Metrics'', [], Bodiless, [Get])]"

definition Controllers_CompositionService_29a :: operations where
  "Controllers_CompositionService_29a = ops op_root ''CompositionServiceResourceBlocksResourceBlockIdSystemsComputerSystemIdStorageStorageIdControllersStorageControllerId'' [''ResourceBlockId'', ''ComputerSystemId'', ''StorageId'', ''StorageControllerId'']
     [(''Assembly'', [], Checked ''AssemblyV150Assembly'', [Get, Put, Patch])]"

definition Controllers_CompositionService_29b :: operations where
  "Controllers_CompositionService_29b = ops op_root ''CompositionServiceResourceBlocksResourceBlockIdSystemsComputerSystemIdStorageStorageIdControllersStorageControllerId'' [''ResourceBlockId'', ''ComputerSystemId'', ''StorageId'', ''StorageControllerId'']
     [(''Certificates'', [], Checked ''CertificateV181Certificate'', [Get, Post]),
      (''CertificatesCertificateId'', [''CertificateId''], Bodiless, [Get])]"

definition Controllers_CompositionService_29c :: operations where
  "Controllers_CompositionService_29c = ops op_root ''CompositionServiceResourceBlocksResourceBlockIdSystemsComputerSystemIdStorageStorageIdControllersStorageControllerId'' [''ResourceBlockId'', ''ComputerSystemId'', ''StorageId'', ''StorageControllerId'']
     [(''CertificatesCertificateId'', [''CertificateId''], Checked ''CertificateV181Certificate'', [Put, Delete, Patch])]"

definition Controllers_CompositionService_29d :: operations where
  "Controllers_CompositionService_29d = ops op_root ''CompositionServiceResourceBlocksResourceBlockIdSystemsComputerSystemIdStorageStorageIdControllersStorageControllerId'' [''ResourceBlockId'', ''ComputerSystemId'', ''StorageId'', ''StorageControllerId'']
     [(''CertificatesCertificateIdActionsCertificateRekey'', [''CertificateId''], Checked ''CertificateV181RekeyRequestBody'', [Post]),
      (''CertificatesCertificateIdActionsCertificateRenew'', [''CertificateId''], Checked ''CertificateV181RenewRequestBody'', [Post]),
      (''Ports'', [], Bodiless, [Get])]"

definition Controllers_CompositionService_29e :: operations where
  "Controllers_CompositionService_29e = ops op_root ''CompositionServiceResourceBlocksResourceBlockIdSystemsComputerSystemIdStorageStorageIdControllersStorageControllerId'' [''ResourceBlockId'', ''ComputerSystemId'', ''StorageId'', ''StorageControllerId'']
     [(''PortsPortId'', [''PortId''], Checked ''PortV1110Port'', [Get, Put, Patch])]"

definition Controllers_CompositionService_29f :: operations where
  "Controllers_CompositionService_29f = ops op_root ''CompositionServiceResourceBlocksResourceBlockIdSystemsComputerSystemIdStorageStorageIdControllersStorageControllerId'' [''ResourceBlockId'', ''ComputerSystemId'', ''StorageId'', ''StorageControllerId'']
     [(''PortsPortIdActionsPortReset'', [''PortId''], Checked ''PortV1110ResetRequestBody'', [Post]),
      (''PortsPortIdActionsPortResetPPB'', [''PortId''], Untyped, [Post]),
      (''PortsPortIdEnvironmentMetrics'', [''PortId''], Bodiless, [Get])]"

definition Controllers_CompositionService_29g :: operations where
  "Controllers_CompositionService_29g = ops op_root ''CompositionServiceResourceBlocksResourceBlockIdSystemsComputerSystemIdStorageStorageIdControllersStorageControllerId'' [''ResourceBlockId'', ''ComputerSystemId'', ''StorageId'', ''StorageControllerId'']
     [(''PortsPortIdEnvironmentMetrics'', [''PortId''], Checked ''EnvironmentMetricsV131EnvironmentMetrics'', [Put, Patch]),
      (''PortsPortIdEnvironmentMetricsActionsEnvironmentMetricsResetMetrics'', [''PortId''], Untyped, [Post])]"

definition Controllers_CompositionService_29h :: operations where
  "Controllers_CompositionService_29h = ops op_root ''CompositionServiceResourceBlocksResourceBlockIdSystemsComputerSystemIdStorageStorageIdControllersStorageControllerId'' [''ResourceBlockId'', ''ComputerSystemId'', ''StorageId'', ''StorageControllerId'']
     [(''PortsPortIdEnvironmentMetricsActionsEnvironmentMetricsResetToDefaults'', [''PortId''], Untyped, [Post]),
      (''PortsPortIdMetrics'', [''PortId''], Bodiless, [Get])]"

definition Controllers_CompositionService_30a :: operations where
  "Controllers_CompositionService_30a = ops op_root ''CompositionServiceResourceBlocksResourceBlockIdSystemsComputerSystemIdStorageStorageIdDrivesDriveId'' [''ResourceBlockId'', ''ComputerSystemId'', ''StorageId'', ''DriveId'']
     [('''', [], Checked ''DriveV1180Drive'', [Get, Put, Patch])]"

definition Controllers_CompositionService_30b :: operations where
  "Controllers_CompositionService_30b = ops op_root ''CompositionServiceResourceBlocksResourceBlockIdSystemsComputerSystemIdStorageStorageIdDrivesDriveId'' [''ResourceBlockId'', ''ComputerSystemId'', ''StorageId'', ''DriveId'']
     [(''ActionsDriveReset'', [], Checked ''DriveV1180ResetRequestBody'', [Post]),
      (''ActionsDriveRevertToOriginalFactoryState'', [], Checked ''DriveV1180RevertToOriginalFactoryStateRequestBody'', [Post]),
      (''ActionsDriveSecureErase'', [], Checked ''DriveV1180SecureEraseRequestBody'', [Post])]"

definition Controllers_CompositionService_30c :: operations where
  "Controllers_CompositionService_30c = ops op_root ''CompositionServiceResourceBlocksResourceBlockIdSystemsComputerSystemIdStorageStorageIdDrivesDriveId'' [''ResourceBlockId'', ''ComputerSystemId'', ''StorageId'', ''DriveId'']
     [(''Assembly'', [], Checked ''AssemblyV150Assembly'', [Get, Put, Patch])]"

definition Controllers_CompositionService_30d :: operations where
  "Controllers_CompositionService_30d = ops op_root ''CompositionServiceResourceBlocksResourceBlockIdSystemsComputerSystemIdStorageStorageIdDrivesDriveId'' [''ResourceBlockId'', ''ComputerSystemId'', ''StorageId'', ''DriveId'']
     [(''Certificates'', [], Checked ''CertificateV181Certificate'', [Get, Post]),
      (''CertificatesCertificateId'', [''CertificateId''], Bodiless, [Get])]"

definition Controllers_CompositionService_30e :: operations where
  "Controllers_CompositionService_30e = ops op_root ''CompositionServiceResourceBlocksResourceBlockIdSystemsComputerSystemIdStorageStorageIdDrivesDriveId'' [''ResourceBlockId'', ''ComputerSystemId'', ''StorageId'', ''DriveId'']
     [(''CertificatesCertificateId'', [''CertificateId''], Checked ''CertificateV181Certificate'', [Put, Delete, Patch])]"

definition Controllers_CompositionService_30f :: operations where
  "Controllers_CompositionService_30f = ops op_root ''CompositionServiceResourceBlocksResourceBlockIdSystemsComputerSystemIdStorageStorageIdDrivesDriveId'' [''ResourceBlockId'', ''ComputerSystemId'', ''StorageId'', ''DriveId'']
     [(''CertificatesCertificateIdActionsCertificateRekey'', [''CertificateId''], Checked ''CertificateV181RekeyRequestBody'', [Post]),
      (''CertificatesCertificateIdActionsCertificateRenew'', [''CertificateId''], Checked ''CertificateV181RenewRequestBody'', [Post]),
      (''EnvironmentMetrics'', [], Bodiless, [Get])]"

definition Controllers_CompositionService_30g :: operations where
  "Controllers_CompositionService_30g = ops op_root ''CompositionServiceResourceBlocksResourceBlockIdSystemsComputerSystemIdStorageStorageIdDrivesDriveId'' [''ResourceBlockId'', ''ComputerSystemId'', ''StorageId'', ''DriveId'']
     [(''EnvironmentMetrics'', [], Checked ''EnvironmentMetricsV131EnvironmentMetrics'', [Put, Patch]),
      (''EnvironmentMetricsActionsEnvironmentMetricsResetMetrics'', [], Untyped, [Post])]"

definition Controllers_CompositionService_30h :: operations where
  "Controllers_CompositionService_30h = ops op_root ''CompositionServiceResourceBlocksResourceBlockIdSystemsComputerSystemIdStorageStorageIdDrivesDriveId'' [''ResourceBlockId'', ''ComputerSystemId'', ''StorageId'', ''DriveId'']
     [(''EnvironmentMetricsActionsEnvironmentMetricsResetToDefaults'', [], Untyped, [Post]),
      (''Metrics'', [], Bodiless, [Get])]"

definition Controllers_CompositionService_31a :: operations where
  "Controllers_CompositionService_31a = ops op_root ''CompositionServiceResourceBlocksResourceBlockIdSystemsComputerSystemIdStorageStorageIdStorageControllersStorageControllerId'' [''ResourceBlockId'', ''ComputerSystemId'', ''StorageId'', ''StorageControllerId'']
     [(''Assembly'', [], Checked ''AssemblyV150Assembly'', [Get, Put, Patch])]"

definition Controllers_CompositionService_31b :: operations where
  "Controllers_CompositionService_31b = ops op_root ''CompositionServiceResourceBlocksResourceBlockIdSystemsComputerSystemIdStorageStorageIdStorageControllersStorageControllerId'' [''ResourceBlockId'', ''ComputerSystemId'', ''StorageId'', ''StorageControllerId'']
     [(''Certificates'', [], Checked ''CertificateV181Certificate'', [Get, Post]),
      (''CertificatesCertificateId'', [''CertificateId''], Bodiless, [Get])]"

definition Controllers_CompositionService_31c :: operations where
  "Controllers_CompositionService_31c = ops op_root ''CompositionServiceResourceBlocksResourceBlockIdSystemsComputerSystemIdStorageStorageIdStorageControllersStorageControllerId'' [''ResourceBlockId'', ''ComputerSystemId'', ''StorageId'', ''StorageControllerId'']
     [(''CertificatesCertificateId'', [''CertificateId''], Checked ''CertificateV181Certificate'', [Put, Delete, Patch])]"

definition Controllers_CompositionService_31d :: operations where
  "Controllers_CompositionService_31d = ops op_root ''CompositionServiceResourceBlocksResourceBlockIdSystemsComputerSystemIdStorageStorageIdStorageControllersStorageControllerId'' [''ResourceBlockId'', ''ComputerSystemId'', ''StorageId'', ''StorageControllerId'']
     [(''CertificatesCertificateIdActionsCertificateRekey'', [''CertificateId''], Checked ''CertificateV181RekeyRequestBody'', [Post]),
      (''CertificatesCertificateIdActionsCertificateRenew'', [''CertificateId''], Checked ''CertificateV181RenewRequestBody'', [Post]),
      (''Ports'', [], Bodiless, [Get])]"

definition Controllers_CompositionService_31e :: operations where
  "Controllers_CompositionService_31e = ops op_root ''CompositionServiceResourceBlocksResourceBlockIdSystemsComputerSystemIdStorageStorageIdStorageControllersStorageControllerId'' [''ResourceBlockId'', ''ComputerSystemId'', ''StorageId'', ''StorageControllerId'']
     [(''PortsPortId'', [''PortId''], Checked ''PortV1110Port'', [Get, Put, Patch])]"

definition Controllers_CompositionService_31f :: operations where
  "Controllers_CompositionService_31f = ops op_root ''CompositionServiceResourceBlocksResourceBlockIdSystemsComputerSystemIdStorageStorageIdStorageControllersStorageControllerId'' [''ResourceBlockId'', ''ComputerSystemId'', ''StorageId'', ''StorageControllerId'']
     [(''PortsPortIdActionsPortReset'', [''PortId''], Checked ''PortV1110ResetRequestBody'', [Post]),
      (''PortsPortIdActionsPortResetPPB'', [''PortId''], Untyped, [Post]),
      (''PortsPortIdEnvironmentMetrics'', [''PortId''], Bodiless, [Get])]"

definition Controllers_CompositionService_31g :: operations where
  "Controllers_CompositionService_31g = ops op_root ''CompositionServiceResourceBlocksResourceBlockIdSystemsComputerSystemIdStorageStorageIdStorageControllersStorageControllerId'' [''ResourceBlockId'', ''ComputerSystemId'', ''StorageId'', ''StorageControllerId'']
     [(''PortsPortIdEnvironmentMetrics'', [''PortId''], Checked ''EnvironmentMetricsV131EnvironmentMetrics'', [Put, Patch]),
      (''PortsPortIdEnvironmentMetricsActionsEnvironmentMetricsResetMetrics'', [''PortId''], Untyped, [Post])]"

definition Controllers_CompositionService_31h :: operations where
  "Controllers_CompositionService_31h = ops op_root ''CompositionServiceResourceBlocksResourceBlockIdSystemsComputerSystemIdStorageStorageIdStorageControllersStorageControllerId'' [''ResourceBlockId'', ''ComputerSystemId'', ''StorageId'', ''StorageControllerId'']
     [(''PortsPortIdEnvironmentMetricsActionsEnvironmentMetricsResetToDefaults'', [''PortId''], Untyped, [Post]),
      (''PortsPortIdMetrics'', [''PortId''], Bodiless, [Get])]"

definition Controllers_CompositionService_32a :: operations where
  "Controllers_CompositionService_32a = ops op_root ''CompositionServiceResourceBlocksResourceBlockIdSystemsComputerSystemIdStorageStorageIdVolumes'' [''ResourceBlockId'', ''ComputerSystemId'', ''StorageId'']
     [('''', [], Checked ''VolumeV1100Volume'', [Get, Post]),
      (''VolumeId'', [''VolumeId''], Bodiless, [Get])]"

definition Controllers_CompositionService_32b :: operations where
  "Controllers_CompositionService_32b = ops op_root ''CompositionServiceResourceBlocksResourceBlockIdSystemsComputerSystemIdStorageStorageIdVolumes'' [''ResourceBlockId'', ''ComputerSystemId'', ''StorageId'']
     [(''VolumeId'', [''VolumeId''], Checked ''VolumeV1100Volume'', [Put, Delete, Patch])]"

definition Controllers_CompositionService_32c :: operations where
  "Controllers_CompositionService_32c = ops op_root ''CompositionServiceResourceBlocksResourceBlockIdSystemsComputerSystemIdStorageStorageIdVolumes'' [''ResourceBlockId'', ''ComputerSystemId'', ''StorageId'']
     [(''VolumeIdActionsVolumeAssignReplicaTarget'', [''VolumeId''], Checked ''VolumeV1100AssignReplicaTargetRequestBody'', [Post]),
      (''VolumeIdActionsVolumeChangeRAIDLayout'', [''VolumeId''], Checked ''VolumeV1100ChangeRaidLayoutRequestBody'', [Post]),
      (''VolumeIdActionsVolumeCheckConsistency'', [''VolumeId''], Untyped, [Post])]"

definition Controllers_CompositionService_32d :: operations where
  "Controllers_CompositionService_32d = ops op_root ''CompositionServiceResourceBlocksResourceBlockIdSystemsComputerSystemIdStorageStorageIdVolumes'' [''ResourceBlockId'', ''ComputerSystemId'', ''StorageId'']
     [(''VolumeIdActionsVolumeCreateReplicaTarget'', [''VolumeId''], Checked ''VolumeV1100CreateReplicaTargetRequestBody'', [Post]),
      (''VolumeIdActionsVolumeForceEnable'', [''VolumeId''], Untyped, [Post]),
      (''VolumeIdActionsVolumeInitialize'', [''VolumeId''], Checked ''VolumeV1100InitializeRequestBody'', [Post])]"

definition Controllers_CompositionService_32e :: operations where
  "Controllers_CompositionService_32e = ops op_root ''CompositionServiceResourceBlocksResourceBlockIdSystemsComputerSystemIdStorageStorageIdVolumes'' [''ResourceBlockId'', ''ComputerSystemId'', ''StorageId'']
     [(''VolumeIdActionsVolumeRemoveReplicaRelationship'', [''VolumeId''], Checked ''VolumeV1100RemoveReplicaRelationshipRequestBody'', [Post]),
      (''VolumeIdActionsVolumeResumeReplication'', [''VolumeId''], Checked ''VolumeV1100ResumeReplicationRequestBody'', [Post]),
      (''VolumeIdActionsVolumeReverseReplicationRelationship'', [''VolumeId''], Checked ''VolumeV1100ReverseReplicationRelationshipRequestBody'', [Post])]"

definition Controllers_CompositionService_32f :: operations where
  "Controllers_CompositionService_32f = ops op_root ''CompositionServiceResourceBlocksResourceBlockIdSystemsComputerSystemIdStorageStorageIdVolumes'' [''ResourceBlockId'', ''ComputerSystemId'', ''StorageId'']
     [(''VolumeIdActionsVolumeSplitReplication'', [''VolumeId''], Checked ''VolumeV1100SplitReplicationRequestBody'', [Post]),
      (''VolumeIdActionsVolumeSuspendReplication'', [''VolumeId''], Checked ''VolumeV1100SuspendReplicationRequestBody'', [Post])]"

definition Controllers_CompositionService_33a :: operations where
  "Controllers_CompositionService_33a = ops op_root ''CompositionServiceResourceBlocksResourceBlockIdSystemsComputerSystemIdUSBControllersControllerIdPorts'' [''ResourceBlockId'', ''ComputerSystemId'', ''ControllerId'']
     [('''', [], Bodiless, [Get]),
      (''PortId'', [''PortId''], Checked ''PortV1110Port'', [Get, Put])]"

definition Controllers_CompositionService_33b :: operations where
  "Controllers_CompositionService_33b = ops op_root ''CompositionServiceResourceBlocksResourceBlockIdSystemsComputerSystemIdUSBControllersControllerIdPorts'' [''ResourceBlockId'', ''ComputerSystemId'', ''ControllerId'']
     [(''PortId'', [''PortId''], Checked ''PortV1110Port'', [Patch]),
      (''PortIdActionsPortReset'', [''PortId''], Checked ''PortV1110ResetRequestBody'', [Post]),
      (''PortIdActionsPortResetPPB'', [''PortId''], Untyped, [Post])]"

definition Controllers_CompositionService_33c :: operations where
  "Controllers_CompositionService_33c = ops op_root ''CompositionServiceResourceBlocksResourceBlockIdSystemsComputerSystemIdUSBControllersControllerIdPorts'' [''ResourceBlockId'', ''ComputerSystemId'', ''ControllerId'']
     [(''PortIdEnvironmentMetrics'', [''PortId''], Checked ''EnvironmentMetricsV131EnvironmentMetrics'', [Get, Put, Patch])]"

definition Controllers_CompositionService_33d :: operations where
  "Controllers_CompositionService_33d = ops op_root ''CompositionServiceResourceBlocksResourceBlockIdSystemsComputerSystemIdUSBControllersControllerIdPorts'' [''ResourceBlockId'', ''ComputerSystemId'', ''ControllerId'']
     [(''PortIdEnvironmentMetricsActionsEnvironmentMetricsResetMetrics'', [''PortId''], Untyped, [Post]),
      (''PortIdEnvironmentMetricsActionsEnvironmentMetricsResetToDefaults'', [''PortId''], Untyped, [Post]),
      (''PortIdMetrics'', [''PortId''], Bodiless, [Get])]"

definition Controllers_CompositionService_34a :: operations where
  "Controllers_CompositionService_34a = ops op_root ''CompositionServiceResourceBlocksResourceBlockIdSystemsComputerSystemIdVirtualMedia'' [''ResourceBlockId'', ''ComputerSystemId'']
     [('''', [], Bodiless, [Get]),
      (''VirtualMediaId'', [''VirtualMediaId''], Checked ''VirtualMediaV163VirtualMedia'', [Get, Put, Patch])]"

definition Controllers_CompositionService_34b :: operations where
  "Controllers_CompositionService_34b = ops op_root ''CompositionServiceResourceBlocksResourceBlockIdSystemsComputerSystemIdVirtualMedia'' [''ResourceBlockId'', ''ComputerSystemId'']
     [(''VirtualMediaIdActionsVirtualMediaEjectMedia'', [''VirtualMediaId''], Untyped, [Post]),
      (''VirtualMediaIdActionsVirtualMediaInsertMedia'', [''VirtualMediaId''], Checked ''VirtualMediaV163InsertMediaRequestBody'', [Post]),
      (''VirtualMediaIdCertificates'', [''VirtualMediaId''], Checked ''CertificateV181Certificate'', [Get, Post])]"

definition Controllers_CompositionService_34c :: operations where
  "Controllers_CompositionService_34c = ops op_root ''CompositionServiceResourceBlocksResourceBlockIdSystemsComputerSystemIdVirtualMedia'' [''ResourceBlockId'', ''ComputerSystemId'']
     [(''VirtualMediaIdCertificatesCertificateId'', [''VirtualMediaId'', ''CertificateId''], Checked ''CertificateV181Certificate'', [Get, Put, Delete])]"

definition Controllers_CompositionService_34d :: operations where
  "Controllers_CompositionService_34d = ops op_root ''CompositionServiceResourceBlocksResourceBlockIdSystemsComputerSystemIdVirtualMedia'' [''ResourceBlockId'', ''ComputerSystemId'']
     [(''VirtualMediaIdCertificatesCertificateId'', [''VirtualMediaId'', ''CertificateId''], Checked ''CertificateV181Certificate'', [Patch]),
      (''VirtualMediaIdCertificatesCertificateIdActionsCertificateRekey'', [''VirtualMediaId'', ''CertificateId''], Checked ''CertificateV181RekeyRequestBody'', [Post]),
      (''VirtualMediaIdCertificatesCertificateIdActionsCertificateRenew'', [''VirtualMediaId'', ''CertificateId''], Checked ''CertificateV181RenewRequestBody'', [Post])]"

definition Controllers_CompositionService_34e :: operations where
  "Controllers_CompositionService_34e = ops op_root ''CompositionServiceResourceBlocksResourceBlockIdSystemsComputerSystemIdVirtualMedia'' [''ResourceBlockId'', ''ComputerSystemId'']
     [(''VirtualMediaIdClientCertificates'', [''VirtualMediaId''], Checked ''CertificateV181Certificate'', [Get, Post]),
      (''VirtualMediaIdClientCertificatesCertificateId'', [''VirtualMediaId'', ''CertificateId''], Bodiless, [Get])]"

definition Controllers_CompositionService_34f :: operations where
  "Controllers_CompositionService_34f = ops op_root ''CompositionServiceResourceBlocksResourceBlockIdSystemsComputerSystemIdVirtualMedia'' [''ResourceBlockId'', ''ComputerSystemId'']
     [(''VirtualMediaIdClientCertificatesCertificateId'', [''VirtualMediaId'', ''CertificateId''], Checked ''CertificateV181Certificate'', [Put, Delete, Patch])]"

definition Controllers_CompositionService_34g :: operations where
  "Controllers_CompositionService_34g = ops op_root ''CompositionServiceResourceBlocksResourceBlockIdSystemsComputerSystemIdVirtualMedia'' [''ResourceBlockId'', ''ComputerSystemId'']
     [(''VirtualMediaIdClientCertificatesCertificateIdActionsCertificateRekey'', [''VirtualMediaId'', ''CertificateId''], Checked ''CertificateV181RekeyRequestBody'', [Post]),
      (''VirtualMediaIdClientCertificatesCertificateIdActionsCertificateRenew'', [''VirtualMediaId'', ''CertificateId''], Checked ''CertificateV181RenewRequestBody'', [Post])]"

definition Controllers_CompositionService_35a :: operations where
  "Controllers_CompositionService_35a = ops op_root ''CompositionServiceResourceBlocksResourceBlockIdSystemsSystemIdFabricAdaptersFabricAdapterId'' [''ResourceBlockId'', ''SystemId'', ''FabricAdapterId'']
     [(''GenZREQVCAT'', [], Checked ''VcatEntryV102VcatEntry'', [Get, Post]),
      (''GenZREQVCATVCATEntryId'', [''VCATEntryId''], Bodiless, [Get])]"

definition Controllers_CompositionService_35b :: operations where
  "Controllers_CompositionService_35b = ops op_root ''CompositionServiceResourceBlocksResourceBlockIdSystemsSystemIdFabricAdaptersFabricAdapterId'' [''ResourceBlockId'', ''SystemId'', ''FabricAdapterId'']
     [(''GenZREQVCATVCATEntryId'', [''VCATEntryId''], Checked ''VcatEntryV102VcatEntry'', [Put, Delete, Patch])]"

definition Controllers_CompositionService_35c :: operations where
  "Controllers_CompositionService_35c = ops op_root ''CompositionServiceResourceBlocksResourceBlockIdSystemsSystemIdFabricAdaptersFabricAdapterId'' [''ResourceBlockId'', ''SystemId'', ''FabricAdapterId'']
     [(''GenZRSPVCAT'', [], Checked ''VcatEntryV102VcatEntry'', [Get, Post]),
      (''GenZRSPVCATVCATEntryId'', [''VCATEntryId''], Bodiless, [Get])]"

definition Controllers_CompositionService_35d :: operations where
  "Controllers_CompositionService_35d = ops op_root ''CompositionServiceResourceBlocksResourceBlockIdSystemsSystemIdFabricAdaptersFabricAdapterId'' [''ResourceBlockId'', ''SystemId'', ''FabricAdapterId'']
     [(''GenZRSPVCATVCATEntryId'', [''VCATEntryId''], Checked ''VcatEntryV102VcatEntry'', [Put, Delete, Patch])]"

definition Controllers_CompositionService_35e :: operations where
  "Controllers_CompositionService_35e = ops op_root ''CompositionServiceResourceBlocksResourceBlockIdSystemsSystemIdFabricAdaptersFabricAdapterId'' [''ResourceBlockId'', ''SystemId'', ''FabricAdapterId'']
     [(''PortsPortIdGenZVCAT'', [''PortId''], Checked ''VcatEntryV102VcatEntry'', [Get, Post]),
      (''PortsPortIdGenZVCATVCATEntryId'', [''PortId'', ''VCATEntryId''], Bodiless, [Get])]"

definition Controllers_CompositionService_35f :: operations where
  "Controllers_CompositionService_35f = ops op_root ''CompositionServiceResourceBlocksResourceBlockIdSystemsSystemIdFabricAdaptersFabricAdapterId'' [''ResourceBlockId'', ''SystemId'', ''FabricAdapterId'']
     [(''PortsPortIdGenZVCATVCATEntryId'', [''PortId'', ''VCATEntryId''], Checked ''VcatEntryV102VcatEntry'', [Put, Delete, Patch])]"

definition Controllers_CompositionService_35g :: operations where
  "Controllers_CompositionService_35g = ops op_root ''CompositionServiceResourceBlocksResourceBlockIdSystemsSystemIdFabricAdaptersFabricAdapterId'' [''ResourceBlockId'', ''SystemId'', ''FabricAdapterId'']
     [(''PortsPortIdVCAT'', [''PortId''], Checked ''VcatEntryV102VcatEntry'', [Get, Post]),
      (''PortsPortIdVCATVCATEntryId'', [''PortId'', ''VCATEntryId''], Bodiless, [Get])]"

definition Controllers_CompositionService_35h :: operations where
  "Controllers_CompositionService_35h = ops op_root ''CompositionServiceResourceBlocksResourceBlockIdSystemsSystemIdFabricAdaptersFabricAdapterId'' [''ResourceBlockId'', ''SystemId'', ''FabricAdapterId'']
     [(''PortsPortIdVCATVCATEntryId'', [''PortId'', ''VCATEntryId''], Checked ''VcatEntryV102VcatEntry'', [Put, Delete, Patch])]"

definition Controllers_CompositionService_35i :: operations where
  "Controllers_CompositionService_35i = ops op_root ''CompositionServiceResourceBlocksResourceBlockIdSystemsSystemIdFabricAdaptersFabricAdapterId'' [''ResourceBlockId'', ''SystemId'', ''FabricAdapterId'']
     [(''REQVCAT'', [], Checked ''VcatEntryV102VcatEntry'', [Get, Post]),
      (''REQVCATVCATEntryId'', [''VCATEntryId''], Bodiless, [Get])]"

definition Controllers_CompositionService_35j :: operations where
  "Controllers_CompositionService_35j = ops op_root ''CompositionServiceResourceBlocksResourceBlockIdSystemsSystemIdFabricAdaptersFabricAdapterId'' [''ResourceBlockId'', ''SystemId'', ''FabricAdapterId'']
     [(''REQVCATVCATEntryId'', [''VCATEntryId''], Checked ''VcatEntryV102VcatEntry'', [Put, Delete, Patch])]"

definition Controllers_CompositionService_36a :: operations where
  "Controllers_CompositionService_36a = ops op_root ''CompositionService'' []
     [(''ResourceBlocksResourceBlockIdSystemsSystemIdFabricAdaptersFabricAdapterIdRSPVCAT'', [''ResourceBlockId'', ''SystemId'', ''FabricAdapterId''], Checked ''VcatEntryV102VcatEntry'', [Get, Post]),
      (''ResourceBlocksResourceBlockIdSystemsSystemIdFabricAdaptersFabricAdapterIdRSPVCATVCATEntryId'', [''ResourceBlockId'', ''SystemId'', ''FabricAdapterId'', ''VCATEntryId''], Bodiless, [Get])]"

definition Controllers_CompositionService_36b :: operations where
  "Controllers_CompositionService_36b = ops op_root ''CompositionService'' []
     [(''ResourceBlocksResourceBlockIdSystemsSystemIdFabricAdaptersFabricAdapterIdRSPVCATVCATEntryId'', [''ResourceBlockId'', ''SystemId'', ''FabricAdapterId'', ''VCATEntryId''], Checked ''VcatEntryV102VcatEntry'', [Put, Delete, Patch]),
      (''ResourceZones'', [], Bodiless, [Get])]"

definition Controllers_CompositionService_36c :: operations where
  "Controllers_CompositionService_36c = ops op_root ''CompositionService'' []
     [(''ResourceZones'', [], Checked ''ZoneV162Zone'', [Post]),
      (''ResourceZonesZoneId'', [''ZoneId''], Checked ''ZoneV162Zone'', [Get, Put, Delete, Patch])]"

definition Controllers_CompositionService_36d :: operations where
  "Controllers_CompositionService_36d = ops op_root ''CompositionService'' []
     [(''ResourceZonesZoneIdActionsZoneAddEndpoint'', [''ZoneId''], Checked ''ZoneV162AddEndpointRequestBody'', [Post]),
      (''ResourceZonesZoneIdActionsZoneRemoveEndpoint'', [''ZoneId''], Checked ''ZoneV162RemoveEndpointRequestBody'', [Post])]"

definition composition_operations :: operations where
  "composition_operations = concat
     [concat [Controllers_CompositionService_1a, Controllers_CompositionService_1b,
        Controllers_CompositionService_1c],
      concat [Controllers_CompositionService_2a, Controllers_CompositionService_2b,
        Controllers_CompositionService_2c, Controllers_CompositionService_2d,
        Controllers_CompositionService_2e, Controllers_CompositionService_2f],
      concat [Controllers_CompositionService_3a, Controllers_CompositionService_3b,
        Controllers_CompositionService_3c],
      concat [Controllers_CompositionService_4a, Controllers_CompositionService_4b,
        Controllers_CompositionService_4c, Controllers_CompositionService_4d,
        Controllers_CompositionService_4e, Controllers_CompositionService_4f,
        Controllers_CompositionService_4g, Controllers_CompositionService_4h],
      concat [Controllers_CompositionService_5a, Controllers_CompositionService_5b,
        Controllers_CompositionService_5c],
      concat [Controllers_CompositionService_6a, Controllers_CompositionService_6b,
        Controllers_CompositionService_6c, Controllers_CompositionService_6d,
        Controllers_CompositionService_6e, Controllers_CompositionService_6f,
        Controllers_CompositionService_6g, Controllers_CompositionService_6h],
      concat [Controllers_CompositionService_7a, Controllers_CompositionService_7b,
        Controllers_CompositionService_7c],
      concat [Controllers_CompositionService_8a, Controllers_CompositionService_8b,
        Controllers_CompositionService_8c, Controllers_CompositionService_8d,
        Controllers_CompositionService_8e, Controllers_CompositionService_8f,
        Controllers_CompositionService_8g],
      concat [Controllers_CompositionService_9a, Controllers_CompositionService_9b],
      concat [Controllers_CompositionService_10a, Controllers_CompositionService_10b,
        Controllers_CompositionService_10c, Controllers_CompositionService_10d],
      concat [Controllers_CompositionService_11a, Controllers_CompositionService_11b,
        Controllers_CompositionService_11c, Controllers_CompositionService_11d,
        Controllers_CompositionService_11e, Controllers_CompositionService_11f,
        Controllers_CompositionService_11g, Controllers_CompositionService_11h],
      concat [Controllers_CompositionService_12a, Controllers_CompositionService_12b,
        Controllers_CompositionService_12c, Controllers_CompositionService_12d,
        Controllers_CompositionService_12e, Controllers_CompositionService_12f,
        Controllers_CompositionService_12g],
      concat [Controllers_CompositionService_13a, Controllers_CompositionService_13b,
        Controllers_CompositionService_13c, Controllers_CompositionService_13d,
        Controllers_CompositionService_13e, Controllers_CompositionService_13f,
        Controllers_CompositionService_13g, Controllers_CompositionService_13h],
      concat [Controllers_CompositionService_14a, Controllers_CompositionService_14b,
        Controllers_CompositionService_14c, Controllers_CompositionService_14d,
        Controllers_CompositionService_14e, Controllers_CompositionService_14f],
      concat [Controllers_CompositionService_15a, Controllers_CompositionService_15b,
        Controllers_CompositionService_15c, Controllers_CompositionService_15d,
        Controllers_CompositionService_15e, Controllers_CompositionService_15f,
        Controllers_CompositionService_15g, Controllers_CompositionService_15h],
      concat [Controllers_CompositionService_16a, Controllers_CompositionService_16b,
        Controllers_CompositionService_16c, Controllers_CompositionService_16d,
        Controllers_CompositionService_16e, Controllers_CompositionService_16f,
        Controllers_CompositionService_16g],
      concat [Controllers_CompositionService_17a, Controllers_CompositionService_17b,
        Controllers_CompositionService_17c, Controllers_CompositionService_17d,
        Controllers_CompositionService_17e, Controllers_CompositionService_17f,
        Controllers_CompositionService_17g, Controllers_CompositionService_17h,
        Controllers_CompositionService_17i, Controllers_CompositionService_17j],
      concat [Controllers_CompositionService_18a, Controllers_CompositionService_18b,
        Controllers_CompositionService_18c, Controllers_CompositionService_18d,
        Controllers_CompositionService_18e, Controllers_CompositionService_18f,
        Controllers_CompositionService_18g, Controllers_CompositionService_18h,
        Controllers_CompositionService_18i, Controllers_CompositionService_18j],
      concat [Controllers_CompositionService_19a, Controllers_CompositionService_19b,
        Controllers_CompositionService_19c, Controllers_CompositionService_19d],
      concat [Controllers_CompositionService_20a, Controllers_CompositionService_20b,
        Controllers_CompositionService_20c, Controllers_CompositionService_20d,
        Controllers_CompositionService_20e, Controllers_CompositionService_20f,
        Controllers_CompositionService_20g],
      concat [Controllers_CompositionService_21a, Controllers_CompositionService_21b,
        Controllers_CompositionService_21c, Controllers_CompositionService_21d,
        Controllers_CompositionService_21e, Controllers_CompositionService_21f,
        Controllers_CompositionService_21g, Controllers_CompositionService_21h,
        Controllers_CompositionService_21i, Controllers_CompositionService_21j],
      concat [Controllers_CompositionService_22a, Controllers_CompositionService_22b,
        Controllers_CompositionService_22c, Controllers_CompositionService_22d,
        Controllers_CompositionService_22e, Controllers_CompositionService_22f],
      concat [Controllers_CompositionService_23a, Controllers_CompositionService_23b,
        Controllers_CompositionService_23c, Controllers_CompositionService_23d],
      concat [Controllers_CompositionService_24a, Controllers_CompositionService_24b,
        Controllers_CompositionService_24c, Controllers_CompositionService_24d,
        Controllers_CompositionService_24e, Controllers_CompositionService_24f,
        Controllers_CompositionService_24g],
      concat [Controllers_CompositionService_25a, Controllers_CompositionService_25b,
        Controllers_CompositionService_25c, Controllers_CompositionService_25d,
        Controllers_CompositionService_25e, Controllers_CompositionService_25f,
        Controllers_CompositionService_25g, Controllers_CompositionService_25h,
        Controllers_CompositionService_25i, Controllers_CompositionService_25j],
      concat [Controllers_CompositionService_26a, Controllers_CompositionService_26b,
        Controllers_CompositionService_26c, Controllers_CompositionService_26d,
        Controllers_CompositionService_26e, Controllers_CompositionService_26f,
        Controllers_CompositionService_26g, Controllers_CompositionService_26h],
      concat [Controllers_CompositionService_27a, Controllers_CompositionService_27b,
        Controllers_CompositionService_27c, Controllers_CompositionService_27d,
        Controllers_CompositionService_27e, Controllers_CompositionService_27f,
        Controllers_CompositionService_27g, Controllers_CompositionService_27h],
      concat [Controllers_CompositionService_28a, Controllers_CompositionService_28b,
        Controllers_CompositionService_28c, Controllers_CompositionService_28d,
        Controllers_CompositionService_28e],
      concat [Controllers_CompositionService_29a, Controllers_CompositionService_29b,
        Controllers_CompositionService_29c, Controllers_CompositionService_29d,
        Controllers_CompositionService_29e, Controllers_CompositionService_29f,
        Controllers_CompositionService_29g, Controllers_CompositionService_29h],
      concat [Controllers_CompositionService_30a, Controllers_CompositionService_30b,
        Controllers_CompositionService_30c, Controllers_CompositionService_30d,
        Controllers_CompositionService_30e, Controllers_CompositionService_30f,
        Controllers_CompositionService_30g, Controllers_CompositionService_30h],
      concat [Controllers_CompositionService_31a, Controllers_CompositionService_31b,
        Controllers_CompositionService_31c, Controllers_CompositionService_31d,
        Controllers_CompositionService_31e, Controllers_CompositionService_31f,
        Controllers_CompositionService_31g, Controllers_CompositionService_31h],
      concat [Controllers_CompositionService_32a, Controllers_CompositionService_32b,
        Controllers_CompositionService_32c, Controllers_CompositionService_32d,
        Controllers_CompositionService_32e, Controllers_CompositionService_32f],
      concat [Controllers_CompositionService_33a, Controllers_CompositionService_33b,
        Controllers_CompositionService_33c, Controllers_CompositionService_33d],
      concat [Controllers_CompositionService_34a, Controllers_CompositionService_34b,
        Controllers_CompositionService_34c, Controllers_CompositionService_34d,
        Controllers_CompositionService_34e, Controllers_CompositionService_34f,
        Controllers_CompositionService_34g],
      concat [Controllers_CompositionService_35a, Controllers_CompositionService_35b,
        Controllers_CompositionService_35c, Controllers_CompositionService_35d,
        Controllers_CompositionService_35e, Controllers_CompositionService_35f,
        Controllers_CompositionService_35g, Controllers_CompositionService_35h,
        Controllers_CompositionService_35i, Controllers_CompositionService_35j],
      concat [Controllers_CompositionService_36a, Controllers_CompositionService_36b,
        Controllers_CompositionService_36c, Controllers_CompositionService_36d]]"

lemma CompositionService_1_aligned:
  "aligned Routes_CompositionService_1
     (concat [Controllers_CompositionService_1a, Controllers_CompositionService_1b,
        Controllers_CompositionService_1c])"
  unfolding Routes_CompositionService_1_def Controllers_CompositionService_1a_def
    Controllers_CompositionService_1b_def Controllers_CompositionService_1c_def
  by (rule aligning)+

lemma CompositionService_2_aligned:
  "aligned Routes_CompositionService_2
     (concat [Controllers_CompositionService_2a, Controllers_CompositionService_2b,
        Controllers_CompositionService_2c, Controllers_CompositionService_2d,
        Controllers_CompositionService_2e, Controllers_CompositionService_2f])"
  unfolding Routes_CompositionService_2_def Controllers_CompositionService_2a_def
    Controllers_CompositionService_2b_def Controllers_CompositionService_2c_def
    Controllers_CompositionService_2d_def Controllers_CompositionService_2e_def
    Controllers_CompositionService_2f_def
  by (rule aligning)+

lemma CompositionService_3_aligned:
  "aligned Routes_CompositionService_3
     (concat [Controllers_CompositionService_3a, Controllers_CompositionService_3b,
        Controllers_CompositionService_3c])"
  unfolding Routes_CompositionService_3_def Controllers_CompositionService_3a_def
    Controllers_CompositionService_3b_def Controllers_CompositionService_3c_def
  by (rule aligning)+

lemma CompositionService_4_aligned:
  "aligned Routes_CompositionService_4
     (concat [Controllers_CompositionService_4a, Controllers_CompositionService_4b,
        Controllers_CompositionService_4c, Controllers_CompositionService_4d,
        Controllers_CompositionService_4e, Controllers_CompositionService_4f,
        Controllers_CompositionService_4g, Controllers_CompositionService_4h])"
  unfolding Routes_CompositionService_4_def Controllers_CompositionService_4a_def
    Controllers_CompositionService_4b_def Controllers_CompositionService_4c_def
    Controllers_CompositionService_4d_def Controllers_CompositionService_4e_def
    Controllers_CompositionService_4f_def Controllers_CompositionService_4g_def
    Controllers_CompositionService_4h_def
  by (rule aligning)+

lemma CompositionService_5_aligned:
  "aligned Routes_CompositionService_5
     (concat [Controllers_CompositionService_5a, Controllers_CompositionService_5b,
        Controllers_CompositionService_5c])"
  unfolding Routes_CompositionService_5_def Controllers_CompositionService_5a_def
    Controllers_CompositionService_5b_def Controllers_CompositionService_5c_def
  by (rule aligning)+

lemma CompositionService_6_aligned:
  "aligned Routes_CompositionService_6
     (concat [Controllers_CompositionService_6a, Controllers_CompositionService_6b,
        Controllers_CompositionService_6c, Controllers_CompositionService_6d,
        Controllers_CompositionService_6e, Controllers_CompositionService_6f,
        Controllers_CompositionService_6g, Controllers_CompositionService_6h])"
  unfolding Routes_CompositionService_6_def Controllers_CompositionService_6a_def
    Controllers_CompositionService_6b_def Controllers_CompositionService_6c_def
    Controllers_CompositionService_6d_def Controllers_CompositionService_6e_def
    Controllers_CompositionService_6f_def Controllers_CompositionService_6g_def
    Controllers_CompositionService_6h_def
  by (rule aligning)+

lemma CompositionService_7_aligned:
  "aligned Routes_CompositionService_7
     (concat [Controllers_CompositionService_7a, Controllers_CompositionService_7b,
        Controllers_CompositionService_7c])"
  unfolding Routes_CompositionService_7_def Controllers_CompositionService_7a_def
    Controllers_CompositionService_7b_def Controllers_CompositionService_7c_def
  by (rule aligning)+

lemma CompositionService_8_aligned:
  "aligned Routes_CompositionService_8
     (concat [Controllers_CompositionService_8a, Controllers_CompositionService_8b,
        Controllers_CompositionService_8c, Controllers_CompositionService_8d,
        Controllers_CompositionService_8e, Controllers_CompositionService_8f,
        Controllers_CompositionService_8g])"
  unfolding Routes_CompositionService_8_def Controllers_CompositionService_8a_def
    Controllers_CompositionService_8b_def Controllers_CompositionService_8c_def
    Controllers_CompositionService_8d_def Controllers_CompositionService_8e_def
    Controllers_CompositionService_8f_def Controllers_CompositionService_8g_def
  by (rule aligning)+

lemma CompositionService_9_aligned:
  "aligned Routes_CompositionService_9
     (concat [Controllers_CompositionService_9a, Controllers_CompositionService_9b])"
  unfolding Routes_CompositionService_9_def Controllers_CompositionService_9a_def
    Controllers_CompositionService_9b_def
  by (rule aligning)+

lemma CompositionService_10_aligned:
  "aligned Routes_CompositionService_10
     (concat [Controllers_CompositionService_10a, Controllers_CompositionService_10b,
        Controllers_CompositionService_10c, Controllers_CompositionService_10d])"
  unfolding Routes_CompositionService_10_def Controllers_CompositionService_10a_def
    Controllers_CompositionService_10b_def Controllers_CompositionService_10c_def
    Controllers_CompositionService_10d_def
  by (rule aligning)+

lemma CompositionService_11_aligned:
  "aligned Routes_CompositionService_11
     (concat [Controllers_CompositionService_11a, Controllers_CompositionService_11b,
        Controllers_CompositionService_11c, Controllers_CompositionService_11d,
        Controllers_CompositionService_11e, Controllers_CompositionService_11f,
        Controllers_CompositionService_11g, Controllers_CompositionService_11h])"
  unfolding Routes_CompositionService_11_def Controllers_CompositionService_11a_def
    Controllers_CompositionService_11b_def Controllers_CompositionService_11c_def
    Controllers_CompositionService_11d_def Controllers_CompositionService_11e_def
    Controllers_CompositionService_11f_def Controllers_CompositionService_11g_def
    Controllers_CompositionService_11h_def
  by (rule aligning)+

lemma CompositionService_12_aligned:
  "aligned Routes_CompositionService_12
     (concat [Controllers_CompositionService_12a, Controllers_CompositionService_12b,
        Controllers_CompositionService_12c, Controllers_CompositionService_12d,
        Controllers_CompositionService_12e, Controllers_CompositionService_12f,
        Controllers_CompositionService_12g])"
  unfolding Routes_CompositionService_12_def Controllers_CompositionService_12a_def
    Controllers_CompositionService_12b_def Controllers_CompositionService_12c_def
    Controllers_CompositionService_12d_def Controllers_CompositionService_12e_def
    Controllers_CompositionService_12f_def Controllers_CompositionService_12g_def
  by (rule aligning)+

lemma CompositionService_13_aligned:
  "aligned Routes_CompositionService_13
     (concat [Controllers_CompositionService_13a, Controllers_CompositionService_13b,
        Controllers_CompositionService_13c, Controllers_CompositionService_13d,
        Controllers_CompositionService_13e, Controllers_CompositionService_13f,
        Controllers_CompositionService_13g, Controllers_CompositionService_13h])"
  unfolding Routes_CompositionService_13_def Controllers_CompositionService_13a_def
    Controllers_CompositionService_13b_def Controllers_CompositionService_13c_def
    Controllers_CompositionService_13d_def Controllers_CompositionService_13e_def
    Controllers_CompositionService_13f_def Controllers_CompositionService_13g_def
    Controllers_CompositionService_13h_def
  by (rule aligning)+

lemma CompositionService_14_aligned:
  "aligned Routes_CompositionService_14
     (concat [Controllers_CompositionService_14a, Controllers_CompositionService_14b,
        Controllers_CompositionService_14c, Controllers_CompositionService_14d,
        Controllers_CompositionService_14e, Controllers_CompositionService_14f])"
  unfolding Routes_CompositionService_14_def Controllers_CompositionService_14a_def
    Controllers_CompositionService_14b_def Controllers_CompositionService_14c_def
    Controllers_CompositionService_14d_def Controllers_CompositionService_14e_def
    Controllers_CompositionService_14f_def
  by (rule aligning)+

lemma CompositionService_15_aligned:
  "aligned Routes_CompositionService_15
     (concat [Controllers_CompositionService_15a, Controllers_CompositionService_15b,
        Controllers_CompositionService_15c, Controllers_CompositionService_15d,
        Controllers_CompositionService_15e, Controllers_CompositionService_15f,
        Controllers_CompositionService_15g, Controllers_CompositionService_15h])"
  unfolding Routes_CompositionService_15_def Controllers_CompositionService_15a_def
    Controllers_CompositionService_15b_def Controllers_CompositionService_15c_def
    Controllers_CompositionService_15d_def Controllers_CompositionService_15e_def
    Controllers_CompositionService_15f_def Controllers_CompositionService_15g_def
    Controllers_CompositionService_15h_def
  by (rule aligning)+

lemma CompositionService_16_aligned:
  "aligned Routes_CompositionService_16
     (concat [Controllers_CompositionService_16a, Controllers_CompositionService_16b,
        Controllers_CompositionService_16c, Controllers_CompositionService_16d,
        Controllers_CompositionService_16e, Controllers_CompositionService_16f,
        Controllers_CompositionService_16g])"
  unfolding Routes_CompositionService_16_def Controllers_CompositionService_16a_def
    Controllers_CompositionService_16b_def Controllers_CompositionService_16c_def
    Controllers_CompositionService_16d_def Controllers_CompositionService_16e_def
    Controllers_CompositionService_16f_def Controllers_CompositionService_16g_def
  by (rule aligning)+

lemma CompositionService_17_aligned:
  "aligned Routes_CompositionService_17
     (concat [Controllers_CompositionService_17a, Controllers_CompositionService_17b,
        Controllers_CompositionService_17c, Controllers_CompositionService_17d,
        Controllers_CompositionService_17e, Controllers_CompositionService_17f,
        Controllers_CompositionService_17g, Controllers_CompositionService_17h,
        Controllers_CompositionService_17i, Controllers_CompositionService_17j])"
  unfolding Routes_CompositionService_17_def Controllers_CompositionService_17a_def
    Controllers_CompositionService_17b_def Controllers_CompositionService_17c_def
    Controllers_CompositionService_17d_def Controllers_CompositionService_17e_def
    Controllers_CompositionService_17f_def Controllers_CompositionService_17g_def
    Controllers_CompositionService_17h_def Controllers_CompositionService_17i_def
    Controllers_CompositionService_17j_def
  by (rule aligning)+

lemma CompositionService_18_aligned:
  "aligned Routes_CompositionService_18
     (concat [Controllers_CompositionService_18a, Controllers_CompositionService_18b,
        Controllers_CompositionService_18c, Controllers_CompositionService_18d,
        Controllers_CompositionService_18e, Controllers_CompositionService_18f,
        Controllers_CompositionService_18g, Controllers_CompositionService_18h,
        Controllers_CompositionService_18i, Controllers_CompositionService_18j])"
  unfolding Routes_CompositionService_18_def Controllers_CompositionService_18a_def
    Controllers_CompositionService_18b_def Controllers_CompositionService_18c_def
    Controllers_CompositionService_18d_def Controllers_CompositionService_18e_def
    Controllers_CompositionService_18f_def Controllers_CompositionService_18g_def
    Controllers_CompositionService_18h_def Controllers_CompositionService_18i_def
    Controllers_CompositionService_18j_def
  by (rule aligning)+

lemma CompositionService_19_aligned:
  "aligned Routes_CompositionService_19
     (concat [Controllers_CompositionService_19a, Controllers_CompositionService_19b,
        Controllers_CompositionService_19c, Controllers_CompositionService_19d])"
  unfolding Routes_CompositionService_19_def Controllers_CompositionService_19a_def
    Controllers_CompositionService_19b_def Controllers_CompositionService_19c_def
    Controllers_CompositionService_19d_def
  by (rule aligning)+

lemma CompositionService_20_aligned:
  "aligned Routes_CompositionService_20
     (concat [Controllers_CompositionService_20a, Controllers_CompositionService_20b,
        Controllers_CompositionService_20c, Controllers_CompositionService_20d,
        Controllers_CompositionService_20e, Controllers_CompositionService_20f,
        Controllers_CompositionService_20g])"
  unfolding Routes_CompositionService_20_def Controllers_CompositionService_20a_def
    Controllers_CompositionService_20b_def Controllers_CompositionService_20c_def
    Controllers_CompositionService_20d_def Controllers_CompositionService_20e_def
    Controllers_CompositionService_20f_def Controllers_CompositionService_20g_def
  by (rule aligning)+

lemma CompositionService_21_aligned:
  "aligned Routes_CompositionService_21
     (concat [Controllers_CompositionService_21a, Controllers_CompositionService_21b,
        Controllers_CompositionService_21c, Controllers_CompositionService_21d,
        Controllers_CompositionService_21e, Controllers_CompositionService_21f,
        Controllers_CompositionService_21g, Controllers_CompositionService_21h,
        Controllers_CompositionService_21i, Controllers_CompositionService_21j])"
  unfolding Routes_CompositionService_21_def Controllers_CompositionService_21a_def
    Controllers_CompositionService_21b_def Controllers_CompositionService_21c_def
    Controllers_CompositionService_21d_def Controllers_CompositionService_21e_def
    Controllers_CompositionService_21f_def Controllers_CompositionService_21g_def
    Controllers_CompositionService_21h_def Controllers_CompositionService_21i_def
    Controllers_CompositionService_21j_def
  by (rule aligning)+

lemma CompositionService_22_aligned:
  "aligned Routes_CompositionService_22
     (concat [Controllers_CompositionService_22a, Controllers_CompositionService_22b,
        Controllers_CompositionService_22c, Controllers_CompositionService_22d,
        Controllers_CompositionService_22e, Controllers_CompositionService_22f])"
  unfolding Routes_CompositionService_22_def Controllers_CompositionService_22a_def
    Controllers_CompositionService_22b_def Controllers_CompositionService_22c_def
    Controllers_CompositionService_22d_def Controllers_CompositionService_22e_def
    Controllers_CompositionService_22f_def
  by (rule aligning)+

lemma CompositionService_23_aligned:
  "aligned Routes_CompositionService_23
     (concat [Controllers_CompositionService_23a, Controllers_CompositionService_23b,
        Controllers_CompositionService_23c, Controllers_CompositionService_23d])"
  unfolding Routes_CompositionService_23_def Controllers_CompositionService_23a_def
    Controllers_CompositionService_23b_def Controllers_CompositionService_23c_def
    Controllers_CompositionService_23d_def
  by (rule aligning)+

lemma CompositionService_24_aligned:
  "aligned Routes_CompositionService_24
     (concat [Controllers_CompositionService_24a, Controllers_CompositionService_24b,
        Controllers_CompositionService_24c, Controllers_CompositionService_24d,
        Controllers_CompositionService_24e, Controllers_CompositionService_24f,
        Controllers_CompositionService_24g])"
  unfolding Routes_CompositionService_24_def Controllers_CompositionService_24a_def
    Controllers_CompositionService_24b_def Controllers_CompositionService_24c_def
    Controllers_CompositionService_24d_def Controllers_CompositionService_24e_def
    Controllers_CompositionService_24f_def Controllers_CompositionService_24g_def
  by (rule aligning)+

lemma CompositionService_25_aligned:
  "aligned Routes_CompositionService_25
     (concat [Controllers_CompositionService_25a, Controllers_CompositionService_25b,
        Controllers_CompositionService_25c, Controllers_CompositionService_25d,
        Controllers_CompositionService_25e, Controllers_CompositionService_25f,
        Controllers_CompositionService_25g, Controllers_CompositionService_25h,
        Controllers_CompositionService_25i, Controllers_CompositionService_25j])"
  unfolding Routes_CompositionService_25_def Controllers_CompositionService_25a_def
    Controllers_CompositionService_25b_def Controllers_CompositionService_25c_def
    Controllers_CompositionService_25d_def Controllers_CompositionService_25e_def
    Controllers_CompositionService_25f_def Controllers_CompositionService_25g_def
    Controllers_CompositionService_25h_def Controllers_CompositionService_25i_def
    Controllers_CompositionService_25j_def
  by (rule aligning)+

lemma CompositionService_26_aligned:
  "aligned Routes_CompositionService_26
     (concat [Controllers_CompositionService_26a, Controllers_CompositionService_26b,
        Controllers_CompositionService_26c, Controllers_CompositionService_26d,
        Controllers_CompositionService_26e, Controllers_CompositionService_26f,
        Controllers_CompositionService_26g, Controllers_CompositionService_26h])"
  unfolding Routes_CompositionService_26_def Controllers_CompositionService_26a_def
    Controllers_CompositionService_26b_def Controllers_CompositionService_26c_def
    Controllers_CompositionService_26d_def Controllers_CompositionService_26e_def
    Controllers_CompositionService_26f_def Controllers_CompositionService_26g_def
    Controllers_CompositionService_26h_def
  by (rule aligning)+

lemma CompositionService_27_aligned:
  "aligned Routes_CompositionService_27
     (concat [Controllers_CompositionService_27a, Controllers_CompositionService_27b,
        Controllers_CompositionService_27c, Controllers_CompositionService_27d,
        Controllers_CompositionService_27e, Controllers_CompositionService_27f,
        Controllers_CompositionService_27g, Controllers_CompositionService_27h])"
  unfolding Routes_CompositionService_27_def Controllers_CompositionService_27a_def
    Controllers_CompositionService_27b_def Controllers_CompositionService_27c_def
    Controllers_CompositionService_27d_def Controllers_CompositionService_27e_def
    Controllers_CompositionService_27f_def Controllers_CompositionService_27g_def
    Controllers_CompositionService_27h_def
  by (rule aligning)+

lemma CompositionService_28_aligned:
  "aligned Routes_CompositionService_28
     (concat [Controllers_CompositionService_28a, Controllers_CompositionService_28b,
        Controllers_CompositionService_28c, Controllers_CompositionService_28d,
        Controllers_CompositionService_28e])"
  unfolding Routes_CompositionService_28_def Controllers_CompositionService_28a_def
    Controllers_CompositionService_28b_def Controllers_CompositionService_28c_def
    Controllers_CompositionService_28d_def Controllers_CompositionService_28e_def
  by (rule aligning)+

lemma CompositionService_29_aligned:
  "aligned Routes_CompositionService_29
     (concat [Controllers_CompositionService_29a, Controllers_CompositionService_29b,
        Controllers_CompositionService_29c, Controllers_CompositionService_29d,
        Controllers_CompositionService_29e, Controllers_CompositionService_29f,
        Controllers_CompositionService_29g, Controllers_CompositionService_29h])"
  unfolding Routes_CompositionService_29_def Controllers_CompositionService_29a_def
    Controllers_CompositionService_29b_def Controllers_CompositionService_29c_def
    Controllers_CompositionService_29d_def Controllers_CompositionService_29e_def
    Controllers_CompositionService_29f_def Controllers_CompositionService_29g_def
    Controllers_CompositionService_29h_def
  by (rule aligning)+

lemma CompositionService_30_aligned:
  "aligned Routes_CompositionService_30
     (concat [Controllers_CompositionService_30a, Controllers_CompositionService_30b,
        Controllers_CompositionService_30c, Controllers_CompositionService_30d,
        Controllers_CompositionService_30e, Controllers_CompositionService_30f,
        Controllers_CompositionService_30g, Controllers_CompositionService_30h])"
  unfolding Routes_CompositionService_30_def Controllers_CompositionService_30a_def
    Controllers_CompositionService_30b_def Controllers_CompositionService_30c_def
    Controllers_CompositionService_30d_def Controllers_CompositionService_30e_def
    Controllers_CompositionService_30f_def Controllers_CompositionService_30g_def
    Controllers_CompositionService_30h_def
  by (rule aligning)+

lemma CompositionService_31_aligned:
  "aligned Routes_CompositionService_31
     (concat [Controllers_CompositionService_31a, Controllers_CompositionService_31b,
        Controllers_CompositionService_31c, Controllers_CompositionService_31d,
        Controllers_CompositionService_31e, Controllers_CompositionService_31f,
        Controllers_CompositionService_31g, Controllers_CompositionService_31h])"
  unfolding Routes_CompositionService_31_def Controllers_CompositionService_31a_def
    Controllers_CompositionService_31b_def Controllers_CompositionService_31c_def
    Controllers_CompositionService_31d_def Controllers_CompositionService_31e_def
    Controllers_CompositionService_31f_def Controllers_CompositionService_31g_def
    Controllers_CompositionService_31h_def
  by (rule aligning)+

lemma CompositionService_32_aligned:
  "aligned Routes_CompositionService_32
     (concat [Controllers_CompositionService_32a, Controllers_CompositionService_32b,
        Controllers_CompositionService_32c, Controllers_CompositionService_32d,
        Controllers_CompositionService_32e, Controllers_CompositionService_32f])"
  unfolding Routes_CompositionService_32_def Controllers_CompositionService_32a_def
    Controllers_CompositionService_32b_def Controllers_CompositionService_32c_def
    Controllers_CompositionService_32d_def Controllers_CompositionService_32e_def
    Controllers_CompositionService_32f_def
  by (rule aligning)+

lemma CompositionService_33_aligned:
  "aligned Routes_CompositionService_33
     (concat [Controllers_CompositionService_33a, Controllers_CompositionService_33b,
        Controllers_CompositionService_33c, Controllers_CompositionService_33d])"
  unfolding Routes_CompositionService_33_def Controllers_CompositionService_33a_def
    Controllers_CompositionService_33b_def Controllers_CompositionService_33c_def
    Controllers_CompositionService_33d_def
  by (rule aligning)+

lemma CompositionService_34_aligned:
  "aligned Routes_CompositionService_34
     (concat [Controllers_CompositionService_34a, Controllers_CompositionService_34b,
        Controllers_CompositionService_34c, Controllers_CompositionService_34d,
        Controllers_CompositionService_34e, Controllers_CompositionService_34f,
        Controllers_CompositionService_34g])"
  unfolding Routes_CompositionService_34_def Controllers_CompositionService_34a_def
    Controllers_CompositionService_34b_def Controllers_CompositionService_34c_def
    Controllers_CompositionService_34d_def Controllers_CompositionService_34e_def
    Controllers_CompositionService_34f_def Controllers_CompositionService_34g_def
  by (rule aligning)+

lemma CompositionService_35_aligned:
  "aligned Routes_CompositionService_35
     (concat [Controllers_CompositionService_35a, Controllers_CompositionService_35b,
        Controllers_CompositionService_35c, Controllers_CompositionService_35d,
        Controllers_CompositionService_35e, Controllers_CompositionService_35f,
        Controllers_CompositionService_35g, Controllers_CompositionService_35h,
        Controllers_CompositionService_35i, Controllers_CompositionService_35j])"
  unfolding Routes_CompositionService_35_def Controllers_CompositionService_35a_def
    Controllers_CompositionService_35b_def Controllers_CompositionService_35c_def
    Controllers_CompositionService_35d_def Controllers_CompositionService_35e_def
    Controllers_CompositionService_35f_def Controllers_CompositionService_35g_def
    Controllers_CompositionService_35h_def Controllers_CompositionService_35i_def
    Controllers_CompositionService_35j_def
  by (rule aligning)+

lemma CompositionService_36_aligned:
  "aligned Routes_CompositionService_36
     (concat [Controllers_CompositionService_36a, Controllers_CompositionService_36b,
        Controllers_CompositionService_36c, Controllers_CompositionService_36d])"
  unfolding Routes_CompositionService_36_def Controllers_CompositionService_36a_def
    Controllers_CompositionService_36b_def Controllers_CompositionService_36c_def
    Controllers_CompositionService_36d_def
  by (rule aligning)+

lemma composition_aligned: "aligned composition_routes composition_operations"
  unfolding composition_routes_def composition_operations_def
  by (intro aligned_concat
    CompositionService_1_aligned CompositionService_2_aligned CompositionService_3_aligned
    CompositionService_4_aligned CompositionService_5_aligned CompositionService_6_aligned
    CompositionService_7_aligned CompositionService_8_aligned CompositionService_9_aligned
    CompositionService_10_aligned CompositionService_11_aligned CompositionService_12_aligned
    CompositionService_13_aligned CompositionService_14_aligned CompositionService_15_aligned
    CompositionService_16_aligned CompositionService_17_aligned CompositionService_18_aligned
    CompositionService_19_aligned CompositionService_20_aligned CompositionService_21_aligned
    CompositionService_22_aligned CompositionService_23_aligned CompositionService_24_aligned
    CompositionService_25_aligned CompositionService_26_aligned CompositionService_27_aligned
    CompositionService_28_aligned CompositionService_29_aligned CompositionService_30_aligned
    CompositionService_31_aligned CompositionService_32_aligned CompositionService_33_aligned
    CompositionService_34_aligned CompositionService_35_aligned CompositionService_36_aligned)

end
