(* ===== verification/ControllersBlocks.thy ===== *)
theory ControllersBlocks
  imports RoutesBlocks Operations
begin

text \<open>
  The controllers of the resource blocks (api_default.go), group by group of their routes: the
  path variables each requires and the body it decodes and checks.  The variables are those of the
  pattern of its route.
\<close>

definition Controllers_ResourceBlocks_1a :: operations where
  "Controllers_ResourceBlocks_1a = ops op_root ''ResourceBlocks'' []
     [('''', [], Checked ''ResourceBlockV142ResourceBlock'', [Get, Post]),
      (''ResourceBlockId'', [''ResourceBlockId''], Checked ''ResourceBlockV142ResourceBlock'', [Get, Put, Delete, Patch])]"

definition Controllers_ResourceBlocks_2a :: operations where
  "Controllers_ResourceBlocks_2a = ops op_root ''ResourceBlocksResourceBlockIdDrivesDriveId'' [''ResourceBlockId'', ''DriveId'']
     [('''', [], Checked ''DriveV1180Drive'', [Get, Put, Patch]),
      (''ActionsDriveReset'', [], Checked ''DriveV1180ResetRequestBody'', [Post])]"

definition Controllers_ResourceBlocks_2b :: operations where
  "Controllers_ResourceBlocks_2b = ops op_root ''ResourceBlocksResourceBlockIdDrivesDriveId'' [''ResourceBlockId'', ''DriveId'']
     [(''ActionsDriveRevertToOriginalFactoryState'', [], Checked ''DriveV1180RevertToOriginalFactoryStateRequestBody'', [Post]),
      (''ActionsDriveSecureErase'', [], Checked ''DriveV1180SecureEraseRequestBody'', [Post]),
      (''Assembly'', [], Checked ''AssemblyV150Assembly'', [Get, Put])]"

definition Controllers_ResourceBlocks_2c :: operations where
  "Controllers_ResourceBlocks_2c = ops op_root ''ResourceBlocksResourceBlockIdDrivesDriveId'' [''ResourceBlockId'', ''DriveId'']
     [(''Assembly'', [], Checked ''AssemblyV150Assembly'', [Patch]),
      (''Certificates'', [], Checked ''CertificateV181Certificate'', [Get, Post]),
      (''CertificatesCertificateId'', [''CertificateId''], Bodiless, [Get])]"

definition Controllers_ResourceBlocks_2d :: operations where
  "Controllers_ResourceBlocks_2d = ops op_root ''ResourceBlocksResourceBlockIdDrivesDriveId'' [''ResourceBlockId'', ''DriveId'']
     [(''CertificatesCertificateId'', [''CertificateId''], Checked ''CertificateV181Certificate'', [Put, Delete, Patch])]"

definition Controllers_ResourceBlocks_2e :: operations where
  "Controllers_ResourceBlocks_2e = ops op_root ''ResourceBlocksResourceBlockIdDrivesDriveId'' [''ResourceBlockId'', ''DriveId'']
     [(''CertificatesCertificateIdActionsCertificateRekey'', [''CertificateId''], Checked ''CertificateV181RekeyRequestBody'', [Post]),
      (''CertificatesCertificateIdActionsCertificateRenew'', [''CertificateId''], Checked ''CertificateV181RenewRequestBody'', [Post]),
      (''EnvironmentMetrics'', [], Checked ''EnvironmentMetricsV131EnvironmentMetrics'', [Get, Put])]"

definition Controllers_ResourceBlocks_2f :: operations where
  "Controllers_ResourceBlocks_2f = ops op_root ''ResourceBlocksResourceBlockIdDrivesDriveId'' [''ResourceBlockId'', ''DriveId'']
     [(''EnvironmentMetrics'', [], Checked ''EnvironmentMetricsV131EnvironmentMetrics'', [Patch]),
      (''EnvironmentMetricsActionsEnvironmentMetricsResetMetrics'', [], Untyped, [Post]),
      (''EnvironmentMetricsActionsEnvironmentMetricsResetToDefaults'', [], Untyped, [Post]),
      (''Metrics'', [], Bodiless, [Get])]"

definition Controllers_ResourceBlocks_3a :: operations where
  "Controllers_ResourceBlocks_3a = ops op_root ''ResourceBlocksResourceBlockId'' [''ResourceBlockId'']
     [(''EthernetInterfacesEthernetInterfaceId'', [''EthernetInterfaceId''], Checked ''EthernetInterfaceV1120EthernetInterface'', [Get, Put, Delete, Patch]),
      (''EthernetInterfacesEthernetInterfaceIdVLANs'', [''EthernetInterfaceId''], Bodiless, [Get])]"

definition Controllers_ResourceBlocks_3b :: operations where
  "Controllers_ResourceBlocks_3b = ops op_root ''ResourceBlocksResourceBlockId'' [''ResourceBlockId'']
     [(''EthernetInterfacesEthernetInterfaceIdVLANs'', [''EthernetInterfaceId''], Checked ''VLanNetworkInterfaceV130VLanNetworkInterface'', [Post]),
      (''EthernetInterfacesEthernetInterfaceIdVLANsVLanNetworkInterfaceId'', [''EthernetInterfaceId'', ''VLanNetworkInterfaceId''], Checked ''VLanNetworkInterfaceV130VLanNetworkInterface'', [Get, Put, Delete])]"

definition Controllers_ResourceBlocks_3c :: operations where
  "Controllers_ResourceBlocks_3c = ops op_root ''ResourceBlocksResourceBlockId'' [''ResourceBlockId'']
     [(''EthernetInterfacesEthernetInterfaceIdVLANsVLanNetworkInterfaceId'', [''EthernetInterfaceId'', ''VLanNetworkInterfaceId''], Checked ''VLanNetworkInterfaceV130VLanNetworkInterface'', [Patch]),
      (''MemoryMemoryId'', [''MemoryId''], Checked ''MemoryV1190Memory'', [Get, Put, Patch])]"

definition Controllers_ResourceBlocks_4a :: operations where
  "Controllers_ResourceBlocks_4a = ops op_root ''ResourceBlocksResourceBlockIdMemoryMemoryId'' [''ResourceBlockId'', ''MemoryId'']
     [(''ActionsMemoryDisableMasterPassphrase'', [], Checked ''MemoryV1190DisableMasterPassphraseRequestBody'', [Post]),
      (''ActionsMemoryDisablePassphrase'', [], Checked ''MemoryV1190DisablePassphraseRequestBody'', [Post]),
      (''ActionsMemoryFreezeSecurityState'', [], Untyped, [Post]),
      (''ActionsMemoryInjectPersistentPoison'', [], Checked ''MemoryV1190InjectPersistentPoisonRequestBody'', [Post])]"

definition Controllers_ResourceBlocks_4b :: operations where
  "Controllers_ResourceBlocks_4b = ops op_root ''ResourceBlocksResourceBlockIdMemoryMemoryId'' [''ResourceBlockId'', ''MemoryId'']
     [(''ActionsMemoryOverwriteUnit'', [], Checked ''MemoryV1190OverwriteUnitRequestBody'', [Post]),
      (''ActionsMemoryReset'', [], Checked ''MemoryV1190ResetRequestBody'', [Post]),
      (''ActionsMemoryResetToDefaults'', [], Untyped, [Post]),
      (''ActionsMemoryScanMedia'', [], Checked ''MemoryV1190ScanMediaRequestBody'', [Post])]"

definition Controllers_ResourceBlocks_4c :: operations where
  "Controllers_ResourceBlocks_4c = ops op_root ''ResourceBlocksResourceBlockIdMemoryMemoryId'' [''ResourceBlockId'', ''MemoryId'']
     [(''ActionsMemorySecureEraseUnit'', [], Checked ''MemoryV1190SecureEraseUnitRequestBody'', [Post]),
      (''ActionsMemorySetMasterPassphrase'', [], Checked ''MemoryV1190SetMasterPassphraseRequestBody'', [Post]),
      (''ActionsMemorySetPassphrase'', [], Checked ''MemoryV1190SetPassphraseRequestBody'', [Post])]"

definition Controllers_ResourceBlocks_4d :: operations where
  "Controllers_ResourceBlocks_4d = ops op_root ''ResourceBlocksResourceBlockIdMemoryMemoryId'' [''ResourceBlockId'', ''MemoryId'']
     [(''ActionsMemoryUnlockUnit'', [], Checked ''MemoryV1190UnlockUnitRequestBody'', [Post]),
      (''Assembly'', [], Checked ''AssemblyV150Assembly'', [Get, Put, Patch])]"

definition Controllers_ResourceBlocks_4e :: operations where
  "Controllers_ResourceBlocks_4e = ops op_root ''ResourceBlocksResourceBlockIdMemoryMemoryId'' [''ResourceBlockId'', ''MemoryId'']
     [(''Certificates'', [], Checked ''CertificateV181Certificate'', [Get, Post]),
      (''CertificatesCertificateId'', [''CertificateId''], Checked ''CertificateV181Certificate'', [Get, Put])]"

definition Controllers_ResourceBlocks_4f :: operations where
  "Controllers_ResourceBlocks_4f = ops op_root ''ResourceBlocksResourceBlockIdMemoryMemoryId'' [''ResourceBlockId'', ''MemoryId'']
     [(''CertificatesCertificateId'', [''CertificateId''], Checked ''CertificateV181Certificate'', [Delete, Patch]),
      (''CertificatesCertificateIdActionsCertificateRekey'', [''CertificateId''], Checked ''CertificateV181RekeyRequestBody'', [Post])]"

definition Controllers_ResourceBlocks_4g :: operations where
  "Controllers_ResourceBlocks_4g = ops op_root ''ResourceBlocksResourceBlockIdMemoryMemoryId'' [''ResourceBlockId'', ''MemoryId'']
     [(''CertificatesCertificateIdActionsCertificateRenew'', [''CertificateId''], Checked ''CertificateV181RenewRequestBody'', [Post]),
      (''EnvironmentMetrics'', [], Checked ''EnvironmentMetricsV131EnvironmentMetrics'', [Get, Put, Patch])]"

definition Controllers_ResourceBlocks_4h :: operations where
  "Controllers_ResourceBlocks_4h = ops op_root ''ResourceBlocksResourceBlockIdMemoryMemoryId'' [''ResourceBlockId'', ''MemoryId'']
     [(''EnvironmentMetricsActionsEnvironmentMetricsResetMetrics'', [], Untyped, [Post]),
      (''EnvironmentMetricsActionsEnvironmentMetricsResetToDefaults'', [], Untyped, [Post]),
      (''MemoryMetrics'', [], Bodiless, [Get]),
      (''MemoryMetricsActionsMemoryMetricsClearCurrentPeriod'', [], Untyped, [Post])]"

definition Controllers_ResourceBlocks_5a :: operations where
  "Controllers_ResourceBlocks_5a = ops op_root ''ResourceBlocksResourceBlockIdNetworkInterfacesNetworkInterfaceId'' [''ResourceBlockId'', ''NetworkInterfaceId'']
     [('''', [], Bodiless, [Get]),
      (''NetworkDeviceFunctions'', [], Bodiless, [Get]),
      (''NetworkDeviceFunctionsNetworkDeviceFunctionIdAllowDeny'', [''NetworkDeviceFunctionId''], Checked ''AllowDenyV102AllowDeny'', [Get, Post]),
      (''NetworkDeviceFunctionsNetworkDeviceFunctionIdAllowDenyAllowDenyId'', [''NetworkDeviceFunctionId'', ''AllowDenyId''], Bodiless, [Get])]"

definition Controllers_ResourceBlocks_5b :: operations where
  "Controllers_ResourceBlocks_5b = ops op_root ''ResourceBlocksResourceBlockIdNetworkInterfacesNetworkInterfaceId'' [''ResourceBlockId'', ''NetworkInterfaceId'']
     [(''NetworkDeviceFunctionsNetworkDeviceFunctionIdAllowDenyAllowDenyId'', [''NetworkDeviceFunctionId'', ''AllowDenyId''], Checked ''AllowDenyV102AllowDeny'', [Put, Delete, Patch])]"

definition Controllers_ResourceBlocks_5c :: operations where
  "Controllers_ResourceBlocks_5c = ops op_root ''ResourceBlocksResourceBlockIdNetworkInterfacesNetworkInterfaceId'' [''ResourceBlockId'', ''NetworkInterfaceId'']
     [(''NetworkPorts'', [], Bodiless, [Get]),
      (''Ports'', [], Bodiless, [Get])]"

definition Controllers_ResourceBlocks_6a :: operations where
  "Controllers_ResourceBlocks_6a = ops op_root ''ResourceBlocksResourceBlockIdProcessorsProcessorId'' [''ResourceBlockId'', ''ProcessorId'']
     [('''', [], Checked ''ProcessorV1190Processor'', [Get, Put, Patch]),
      (''AccelerationFunctions'', [], Bodiless, [Get]),
      (''AccelerationFunctionsAccelerationFunctionId'', [''AccelerationFunctionId''], Bodiless, [Get])]"

definition Controllers_ResourceBlocks_6b :: operations where
  "Controllers_ResourceBlocks_6b = ops op_root ''ResourceBlocksResourceBlockIdProcessorsProcessorId'' [''ResourceBlockId'', ''ProcessorId'']
     [(''ActionsProcessorReset'', [], Checked ''ProcessorV1190ResetRequestBody'', [Post]),
      (''ActionsProcessorResetToDefaults'', [], Untyped, [Post]),
      (''Assembly'', [], Checked ''AssemblyV150Assembly'', [Get, Put])]"

definition Controllers_ResourceBlocks_6c :: operations where
  "Controllers_ResourceBlocks_6c = ops op_root ''ResourceBlocksResourceBlockIdProcessorsProcessorId'' [''ResourceBlockId'', ''ProcessorId'']
     [(''Assembly'', [], Checked ''AssemblyV150Assembly'', [Patch]),
      (''Certificates'', [], Checked ''CertificateV181Certificate'', [Get, Post]),
      (''CertificatesCertificateId'', [''CertificateId''], Bodiless, [Get])]"

definition Controllers_ResourceBlocks_6d :: operations where
  "Controllers_ResourceBlocks_6d = ops op_root ''ResourceBlocksResourceBlockIdProcessorsProcessorId'' [''ResourceBlockId'', ''ProcessorId'']
     [(''CertificatesCertificateId'', [''CertificateId''], Checked ''CertificateV181Certificate'', [Put, Delete, Patch])]"

definition Controllers_ResourceBlocks_6e :: operations where
  "Controllers_ResourceBlocks_6e = ops op_root ''ResourceBlocksResourceBlockIdProcessorsProcessorId'' [''ResourceBlockId'', ''ProcessorId'']
     [(''CertificatesCertificateIdActionsCertificateRekey'', [''CertificateId''], Checked ''CertificateV181RekeyRequestBody'', [Post]),
      (''CertificatesCertificateIdActionsCertificateRenew'', [''CertificateId''], Checked ''CertificateV181RenewRequestBody'', [Post]),
      (''EnvironmentMetrics'', [], Checked ''EnvironmentMetricsV131EnvironmentMetrics'', [Get, Put])]"

definition Controllers_ResourceBlocks_6f :: operations where
  "Controllers_ResourceBlocks_6f = ops op_root ''ResourceBlocksResourceBlockIdProcessorsProcessorId'' [''ResourceBlockId'', ''ProcessorId'']
     [(''EnvironmentMetrics'', [], Checked ''EnvironmentMetricsV131EnvironmentMetrics'', [Patch]),
      (''EnvironmentMetricsActionsEnvironmentMetricsResetMetrics'', [], Untyped, [Post]),
      (''EnvironmentMetricsActionsEnvironmentMetricsResetToDefaults'', [], Untyped, [Post]),
      (''MemorySummaryMemoryMetrics'', [], Bodiless, [Get]),
      (''MemorySummaryMemoryMetricsActionsMemoryMetricsClearCurrentPeriod'', [], Untyped, [Post])]"

definition Controllers_ResourceBlocks_6g :: operations where
  "Controllers_ResourceBlocks_6g = ops op_root ''ResourceBlocksResourceBlockIdProcessorsProcessorId'' [''ResourceBlockId'', ''ProcessorId'']
     [(''Ports'', [], Bodiless, [Get]),
      (''PortsPortId'', [''PortId''], Checked ''PortV1110Port'', [Get, Put, Patch])]"

definition Controllers_ResourceBlocks_6h :: operations where
  "Controllers_ResourceBlocks_6h = ops op_root ''ResourceBlocksResourceBlockIdProcessorsProcessorId'' [''ResourceBlockId'', ''ProcessorId'']
     [(''PortsPortIdActionsPortReset'', [''PortId''], Checked ''PortV1110ResetRequestBody'', [Post])]"

definition Controllers_ResourceBlocks_7a :: operations where
  "Controllers_ResourceBlocks_7a = ops op_root ''ResourceBlocksResourceBlockIdProcessorsProcessorId'' [''ResourceBlockId'', ''ProcessorId'']
     [(''PortsPortIdActionsPortResetPPB'', [''PortId''], Untyped, [Post]),
      (''PortsPortIdEnvironmentMetrics'', [''PortId''], Checked ''EnvironmentMetricsV131EnvironmentMetrics'', [Get, Put, Patch])]"

definition Controllers_ResourceBlocks_7b :: operations where
  "Controllers_ResourceBlocks_7b = ops op_root ''ResourceBlocksResourceBlockIdProcessorsProcessorId'' [''ResourceBlockId'', ''ProcessorId'']
     [(''PortsPortIdEnvironmentMetricsActionsEnvironmentMetricsResetMetrics'', [''PortId''], Untyped, [Post]),
      (''PortsPortIdEnvironmentMetricsActionsEnvironmentMetricsResetToDefaults'', [''PortId''], Untyped, [Post]),
      (''PortsPortIdMetrics'', [''PortId''], Bodiless, [Get]),
      (''ProcessorMetrics'', [], Bodiless, [Get]),
      (''ProcessorMetricsActionsProcessorMetricsClearCurrentPeriod'', [], Untyped, [Post])]"

definition Controllers_ResourceBlocks_7c :: operations where
  "Controllers_ResourceBlocks_7c = ops op_root ''ResourceBlocksResourceBlockIdProcessorsProcessorId'' [''ResourceBlockId'', ''ProcessorId'']
     [(''SubProcessors'', [], Bodiless, [Get])]"

definition Controllers_ResourceBlocks_8a :: operations where
  "Controllers_ResourceBlocks_8a = ops op_root ''ResourceBlocksResourceBlockIdProcessorsProcessorIdSubProcessorsProcessorId2'' [''ResourceBlockId'', ''ProcessorId'', ''ProcessorId2'']
     [('''', [], Checked ''ProcessorV1190Processor'', [Get, Put, Patch])]"

definition Controllers_ResourceBlocks_8b :: operations where
  "Controllers_ResourceBlocks_8b = ops op_root ''ResourceBlocksResourceBlockIdProcessorsProcessorIdSubProcessorsProcessorId2'' [''ResourceBlockId'', ''ProcessorId'', ''ProcessorId2'']
     [(''ActionsProcessorReset'', [], Checked ''ProcessorV1190ResetRequestBody'', [Post]),
      (''ActionsProcessorResetToDefaults'', [], Untyped, [Post]),
      (''Assembly'', [], Checked ''AssemblyV150Assembly'', [Get, Put])]"

definition Controllers_ResourceBlocks_8c :: operations where
  "Controllers_ResourceBlocks_8c = ops op_root ''ResourceBlocksResourceBlockIdProcessorsProcessorIdSubProcessorsProcessorId2'' [''ResourceBlockId'', ''ProcessorId'', ''ProcessorId2'']
     [(''Assembly'', [], Checked ''AssemblyV150Assembly'', [Patch]),
      (''ProcessorMetrics'', [], Bodiless, [Get]),
      (''ProcessorMetricsActionsProcessorMetricsClearCurrentPeriod'', [], Untyped, [Post]),
      (''SubProcessors'', [], Bodiless, [Get])]"

definition Controllers_ResourceBlocks_8d :: operations where
  "Controllers_ResourceBlocks_8d = ops op_root ''ResourceBlocksResourceBlockIdProcessorsProcessorIdSubProcessorsProcessorId2'' [''ResourceBlockId'', ''ProcessorId'', ''ProcessorId2'']
     [(''SubProcessorsProcessorId3'', [''ProcessorId3''], Checked ''ProcessorV1190Processor'', [Get, Put, Patch])]"

definition Controllers_ResourceBlocks_8e :: operations where
  "Controllers_ResourceBlocks_8e = ops op_root ''ResourceBlocksResourceBlockIdProcessorsProcessorIdSubProcessorsProcessorId2'' [''ResourceBlockId'', ''ProcessorId'', ''ProcessorId2'']
     [(''SubProcessorsProcessorId3ActionsProcessorReset'', [''ProcessorId3''], Checked ''ProcessorV1190ResetRequestBody'', [Post]),
      (''SubProcessorsProcessorId3ActionsProcessorResetToDefaults'', [''ProcessorId3''], Untyped, [Post]),
      (''SubProcessorsProcessorId3Assembly'', [''ProcessorId3''], Bodiless, [Get])]"

definition Controllers_ResourceBlocks_8f :: operations where
  "Controllers_ResourceBlocks_8f = ops op_root ''ResourceBlocksResourceBlockIdProcessorsProcessorIdSubProcessorsProcessorId2'' [''ResourceBlockId'', ''ProcessorId'', ''ProcessorId2'']
     [(''SubProcessorsProcessorId3Assembly'', [''ProcessorId3''], Checked ''AssemblyV150Assembly'', [Put, Patch]),
      (''SubProcessorsProcessorId3ProcessorMetrics'', [''ProcessorId3''], Bodiless, [Get])]"

definition Controllers_ResourceBlocks_8g :: operations where
  "Controllers_ResourceBlocks_8g = ops op_root ''ResourceBlocksResourceBlockIdProcessorsProcessorIdSubProcessorsProcessorId2'' [''ResourceBlockId'', ''ProcessorId'', ''ProcessorId2'']
     [(''SubProcessorsProcessorId3ProcessorMetricsActionsProcessorMetricsClearCurrentPeriod'', [''ProcessorId3''], Untyped, [Post])]"

definition Controllers_ResourceBlocks_9a :: operations where
  "Controllers_ResourceBlocks_9a = ops op_root ''ResourceBlocksResourceBlockId'' [''ResourceBlockId'']
     [(''SimpleStorageSimpleStorageId'', [''SimpleStorageId''], Bodiless, [Get]),
      (''Storage'', [], Bodiless, [Get]),
      (''StorageStorageId'', [''StorageId''], Checked ''StorageV1151Storage'', [Get, Put, Patch])]"

definition Controllers_ResourceBlocks_9b :: operations where
  "Controllers_ResourceBlocks_9b = ops op_root ''ResourceBlocksResourceBlockId'' [''ResourceBlockId'']
     [(''StorageStorageIdActionsStorageResetToDefaults'', [''StorageId''], Checked ''StorageV1151ResetToDefaultsRequestBody'', [Post]),
      (''StorageStorageIdActionsStorageSetEncryptionKey'', [''StorageId''], Checked ''StorageV1151SetEncryptionKeyRequestBody'', [Post]),
      (''StorageStorageIdControllers'', [''StorageId''], Bodiless, [Get])]"

definition Controllers_ResourceBlocks_10a :: operations where
  "Controllers_ResourceBlocks_10a = ops op_root ''ResourceBlocksResourceBlockIdStorageStorageIdControllersControllerId'' [''ResourceBlockId'', ''StorageId'', ''ControllerId'']
     [('''', [], Checked ''StorageControllerV172StorageController'', [Get, Put, Patch])]"

definition Controllers_ResourceBlocks_10b :: operations where
  "Controllers_ResourceBlocks_10b = ops op_root ''ResourceBlocksResourceBlockIdStorageStorageIdControllersControllerId'' [''ResourceBlockId'', ''StorageId'', ''ControllerId'']
     [(''ActionsStorageControllerAttachNamespaces'', [], Checked ''StorageControllerV172AttachNamespacesRequestBody'', [Post]),
      (''ActionsStorageControllerDetachNamespaces'', [], Checked ''StorageControllerV172DetachNamespacesRequestBody'', [Post]),
      (''ActionsStorageControllerSecurityReceive'', [], Checked ''StorageControllerV172SecurityReceiveRequestBody'', [Post])]"

definition Controllers_ResourceBlocks_10c :: operations where
  "Controllers_ResourceBlocks_10c = ops op_root ''ResourceBlocksResourceBlockIdStorageStorageIdControllersControllerId'' [''ResourceBlockId'', ''StorageId'', ''ControllerId'']
     [(''ActionsStorageControllerSecuritySend'', [], Checked ''StorageControllerV172SecuritySendRequestBody'', [Post]),
      (''EnvironmentMetrics'', [], Checked ''EnvironmentMetricsV131EnvironmentMetrics'', [Get, Put])]"

definition Controllers_ResourceBlocks_10d :: operations where
  "Controllers_ResourceBlocks_10d = ops op_root ''ResourceBlocksResourceBlockIdStorageStorageIdControllersControllerId'' [''ResourceBlockId'', ''StorageId'', ''ControllerId'']
     [(''EnvironmentMetrics'', [], Checked ''EnvironmentMetricsV131EnvironmentMetrics'', [Patch]),
      (''EnvironmentMetricsActionsEnvironmentMetricsResetMetrics'', [], Untyped, [Post]),
      (''EnvironmentMetricsActionsEnvironmentMetricsResetToDefaults'', [], Untyped, [Post]),
      (''Metrics'', [], Bodiless, [Get])]"

definition Controllers_ResourceBlocks_11a :: operations where
  "Controllers_ResourceBlocks_11a = ops op_root ''ResourceBlocksResourceBlockIdStorageStorageIdControllersStorageControllerId'' [''ResourceBlockId'', ''StorageId'', ''StorageControllerId'']
     [(''Assembly'', [], Checked ''AssemblyV150Assembly'', [Get, Put, Patch]),
      (''Certificates'', [], Bodiless, [Get])]"

definition Controllers_ResourceBlocks_11b :: operations where
  "Controllers_ResourceBlocks_11b = ops op_root ''ResourceBlocksResourceBlockIdStorageStorageIdControllersStorageControllerId'' [''ResourceBlockId'', ''StorageId'', ''StorageControllerId'']
     [(''Certificates'', [], Checked ''CertificateV181Certificate'', [Post]),
      (''CertificatesCertificateId'', [''CertificateId''], Checked ''CertificateV181Certificate'', [Get, Put])]"

definition Controllers_ResourceBlocks_11c :: operations where
  "Controllers_ResourceBlocks_11c = ops op_root ''ResourceBlocksResourceBlockIdStorageStorageIdControllersStorageControllerId'' [''ResourceBlockId'', ''StorageId'', ''StorageControllerId'']
     [(''CertificatesCertificateId'', [''CertificateId''], Checked ''CertificateV181Certificate'', [Delete, Patch]),
      (''CertificatesCertificateIdActionsCertificateRekey'', [''CertificateId''], Checked ''CertificateV181RekeyRequestBody'', [Post])]"

definition Controllers_ResourceBlocks_11d :: operations where
  "Controllers_ResourceBlocks_11d = ops op_root ''ResourceBlocksResourceBlockIdStorageStorageIdControllersStorageControllerId'' [''ResourceBlockId'', ''StorageId'', ''StorageControllerId'']
     [(''CertificatesCertificateIdActionsCertificateRenew'', [''CertificateId''], Checked ''CertificateV181RenewRequestBody'', [Post]),
      (''Ports'', [], Bodiless, [Get]),
      (''PortsPortId'', [''PortId''], Bodiless, [Get])]"

definition Controllers_ResourceBlocks_11e :: operations where
  "Controllers_ResourceBlocks_11e = ops op_root ''ResourceBlocksResourceBlockIdStorageStorageIdControllersStorageControllerId'' [''ResourceBlockId'', ''StorageId'', ''StorageControllerId'']
     [(''PortsPortId'', [''PortId''], Checked ''PortV1110Port'', [Put, Patch]),
      (''PortsPortIdActionsPortReset'', [''PortId''], Checked ''PortV1110ResetRequestBody'', [Post])]"

definition Controllers_ResourceBlocks_11f :: operations where
  "Controllers_ResourceBlocks_11f = ops op_root ''ResourceBlocksResourceBlockIdStorageStorageIdControllersStorageControllerId'' [''ResourceBlockId'', ''StorageId'', ''StorageControllerId'']
     [(''PortsPortIdActionsPortResetPPB'', [''PortId''], Untyped, [Post]),
      (''PortsPortIdEnvironmentMetrics'', [''PortId''], Checked ''EnvironmentMetricsV131EnvironmentMetrics'', [Get, Put])]"

definition Controllers_ResourceBlocks_11g :: operations where
  "Controllers_ResourceBlocks_11g = ops op_root ''ResourceBlocksResourceBlockIdStorageStorageIdControllersStorageControllerId'' [''ResourceBlockId'', ''StorageId'', ''StorageControllerId'']
     [(''PortsPortIdEnvironmentMetrics'', [''PortId''], Checked ''EnvironmentMetricsV131EnvironmentMetrics'', [Patch]),
      (''PortsPortIdEnvironmentMetricsActionsEnvironmentMetricsResetMetrics'', [''PortId''], Untyped, [Post]),
      (''PortsPortIdEnvironmentMetricsActionsEnvironmentMetricsResetToDefaults'', [''PortId''], Untyped, [Post])]"

definition Controllers_ResourceBlocks_11h :: operations where
  "Controllers_ResourceBlocks_11h = ops op_root ''ResourceBlocksResourceBlockIdStorageStorageIdControllersStorageControllerId'' [''ResourceBlockId'', ''StorageId'', ''StorageControllerId'']
     [(''PortsPortIdMetrics'', [''PortId''], Bodiless, [Get])]"

definition Controllers_ResourceBlocks_12a :: operations where
  "Controllers_ResourceBlocks_12a = ops op_root ''ResourceBlocksResourceBlockIdStorageStorageIdDrivesDriveId'' [''ResourceBlockId'', ''StorageId'', ''DriveId'']
     [('''', [], Checked ''DriveV1180Drive'', [Get, Put, Patch])]"

definition Controllers_ResourceBlocks_12b :: operations where
  "Controllers_ResourceBlocks_12b = ops op_root ''ResourceBlocksResourceBlockIdStorageStorageIdDrivesDriveId'' [''ResourceBlockId'', ''StorageId'', ''DriveId'']
     [(''ActionsDriveReset'', [], Checked ''DriveV1180ResetRequestBody'', [Post]),
      (''ActionsDriveRevertToOriginalFactoryState'', [], Checked ''DriveV1180RevertToOriginalFactoryStateRequestBody'', [Post]),
      (''ActionsDriveSecureErase'', [], Checked ''DriveV1180SecureEraseRequestBody'', [Post])]"

definition Controllers_ResourceBlocks_12c :: operations where
  "Controllers_ResourceBlocks_12c = ops op_root ''ResourceBlocksResourceBlockIdStorageStorageIdDrivesDriveId'' [''ResourceBlockId'', ''StorageId'', ''DriveId'']
     [(''Assembly'', [], Checked ''AssemblyV150Assembly'', [Get, Put, Patch]),
      (''Certificates'', [], Bodiless, [Get])]"

definition Controllers_ResourceBlocks_12d :: operations where
  "Controllers_ResourceBlocks_12d = ops op_root ''ResourceBlocksResourceBlockIdStorageStorageIdDrivesDriveId'' [''ResourceBlockId'', ''StorageId'', ''DriveId'']
     [(''Certificates'', [], Checked ''CertificateV181Certificate'', [Post]),
      (''CertificatesCertificateId'', [''CertificateId''], Checked ''CertificateV181Certificate'', [Get, Put])]"

definition Controllers_ResourceBlocks_12e :: operations where
  "Controllers_ResourceBlocks_12e = ops op_root ''ResourceBlocksResourceBlockIdStorageStorageIdDrivesDriveId'' [''ResourceBlockId'', ''StorageId'', ''DriveId'']
     [(''CertificatesCertificateId'', [''CertificateId''], Checked ''CertificateV181Certificate'', [Delete, Patch]),
      (''CertificatesCertificateIdActionsCertificateRekey'', [''CertificateId''], Checked ''CertificateV181RekeyRequestBody'', [Post])]"

definition Controllers_ResourceBlocks_12f :: operations where
  "Controllers_ResourceBlocks_12f = ops op_root ''ResourceBlocksResourceBlockIdStorageStorageIdDrivesDriveId'' [''ResourceBlockId'', ''StorageId'', ''DriveId'']
     [(''CertificatesCertificateIdActionsCertificateRenew'', [''CertificateId''], Checked ''CertificateV181RenewRequestBody'', [Post]),
      (''EnvironmentMetrics'', [], Checked ''EnvironmentMetricsV131EnvironmentMetrics'', [Get, Put])]"

definition Controllers_ResourceBlocks_12g :: operations where
  "Controllers_ResourceBlocks_12g = ops op_root ''ResourceBlocksResourceBlockIdStorageStorageIdDrivesDriveId'' [''ResourceBlockId'', ''StorageId'', ''DriveId'']
     [(''EnvironmentMetrics'', [], Checked ''EnvironmentMetricsV131EnvironmentMetrics'', [Patch]),
      (''EnvironmentMetricsActionsEnvironmentMetricsResetMetrics'', [], Untyped, [Post]),
      (''EnvironmentMetricsActionsEnvironmentMetricsResetToDefaults'', [], Untyped, [Post]),
      (''Metrics'', [], Bodiless, [Get])]"

definition Controllers_ResourceBlocks_13a :: operations where
  "Controllers_ResourceBlocks_13a = ops op_root ''ResourceBlocksResourceBlockIdStorageStorageIdStorageControllersStorageControllerId'' [''ResourceBlockId'', ''StorageId'', ''StorageControllerId'']
     [(''Assembly'', [], Checked ''AssemblyV150Assembly'', [Get, Put, Patch]),
      (''Certificates'', [], Bodiless, [Get])]"

definition Controllers_ResourceBlocks_13b :: operations where
  "Controllers_ResourceBlocks_13b = ops op_root ''ResourceBlocksResourceBlockIdStorageStorageIdStorageControllersStorageControllerId'' [''ResourceBlockId'', ''StorageId'', ''StorageControllerId'']
     [(''Certificates'', [], Checked ''CertificateV181Certificate'', [Post]),
      (''CertificatesCertificateId'', [''CertificateId''], Checked ''CertificateV181Certificate'', [Get, Put])]"

definition Controllers_ResourceBlocks_13c :: operations where
  "Controllers_ResourceBlocks_13c = ops op_root ''ResourceBlocksResourceBlockIdStorageStorageIdStorageControllersStorageControllerId'' [''ResourceBlockId'', ''StorageId'', ''StorageControllerId'']
     [(''CertificatesCertificateId'', [''CertificateId''], Checked ''CertificateV181Certificate'', [Delete, Patch]),
      (''CertificatesCertificateIdActionsCertificateRekey'', [''CertificateId''], Checked ''CertificateV181RekeyRequestBody'', [Post])]"

definition Controllers_ResourceBlocks_13d :: operations where
  "Controllers_ResourceBlocks_13d = ops op_root ''ResourceBlocksResourceBlockIdStorageStorageIdStorageControllersStorageControllerId'' [''ResourceBlockId'', ''StorageId'', ''StorageControllerId'']
     [(''CertificatesCertificateIdActionsCertificateRenew'', [''CertificateId''], Checked ''CertificateV181RenewRequestBody'', [Post]),
      (''Ports'', [], Bodiless, [Get]),
      (''PortsPortId'', [''PortId''], Bodiless, [Get])]"

definition Controllers_ResourceBlocks_13e :: operations where
  "Controllers_ResourceBlocks_13e = ops op_root ''ResourceBlocksResourceBlockIdStorageStorageIdStorageControllersStorageControllerId'' [''ResourceBlockId'', ''StorageId'', ''StorageControllerId'']
     [(''PortsPortId'', [''PortId''], Checked ''PortV1110Port'', [Put, Patch]),
      (''PortsPortIdActionsPortReset'', [''PortId''], Checked ''PortV1110ResetRequestBody'', [Post])]"

definition Controllers_ResourceBlocks_13f :: operations where
  "Controllers_ResourceBlocks_13f = ops op_root ''ResourceBlocksResourceBlockIdStorageStorageIdStorageControllersStorageControllerId'' [''ResourceBlockId'', ''StorageId'', ''StorageControllerId'']
     [(''PortsPortIdActionsPortResetPPB'', [''PortId''], Untyped, [Post]),
      (''PortsPortIdEnvironmentMetrics'', [''PortId''], Checked ''EnvironmentMetricsV131EnvironmentMetrics'', [Get, Put])]"

definition Controllers_ResourceBlocks_13g :: operations where
  "Controllers_ResourceBlocks_13g = ops op_root ''ResourceBlocksResourceBlockIdStorageStorageIdStorageControllersStorageControllerId'' [''ResourceBlockId'', ''StorageId'', ''StorageControllerId'']
     [(''PortsPortIdEnvironmentMetrics'', [''PortId''], Checked ''EnvironmentMetricsV131EnvironmentMetrics'', [Patch]),
      (''PortsPortIdEnvironmentMetricsActionsEnvironmentMetricsResetMetrics'', [''PortId''], Untyped, [Post]),
      (''PortsPortIdEnvironmentMetricsActionsEnvironmentMetricsResetToDefaults'', [''PortId''], Untyped, [Post])]"

definition Controllers_ResourceBlocks_13h :: operations where
  "Controllers_ResourceBlocks_13h = ops op_root ''ResourceBlocksResourceBlockIdStorageStorageIdStorageControllersStorageControllerId'' [''ResourceBlockId'', ''StorageId'', ''StorageControllerId'']
     [(''PortsPortIdMetrics'', [''PortId''], Bodiless, [Get])]"

definition Controllers_ResourceBlocks_14a :: operations where
  "Controllers_ResourceBlocks_14a = ops op_root ''ResourceBlocksResourceBlockIdStorageStorageIdVolumes'' [''ResourceBlockId'', ''StorageId'']
     [('''', [], Checked ''VolumeV1100Volume'', [Get, Post]),
      (''VolumeId'', [''VolumeId''], Checked ''VolumeV1100Volume'', [Get, Put])]"

definition Controllers_ResourceBlocks_14b :: operations where
  "Controllers_ResourceBlocks_14b = ops op_root ''ResourceBlocksResourceBlockIdStorageStorageIdVolumes'' [''ResourceBlockId'', ''StorageId'']
     [(''VolumeId'', [''VolumeId''], Checked ''VolumeV1100Volume'', [Delete, Patch]),
      (''VolumeIdActionsVolumeAssignReplicaTarget'', [''VolumeId''], Checked ''VolumeV1100AssignReplicaTargetRequestBody'', [Post])]"

definition Controllers_ResourceBlocks_14c :: operations where
  "Controllers_ResourceBlocks_14c = ops op_root ''ResourceBlocksResourceBlockIdStorageStorageIdVolumes'' [''ResourceBlockId'', ''StorageId'']
     [(''VolumeIdActionsVolumeChangeRAIDLayout'', [''VolumeId''], Checked ''VolumeV1100ChangeRaidLayoutRequestBody'', [Post]),
      (''VolumeIdActionsVolumeCheckConsistency'', [''VolumeId''], Untyped, [Post]),
      (''VolumeIdActionsVolumeCreateReplicaTarget'', [''VolumeId''], Checked ''VolumeV1100CreateReplicaTargetRequestBody'', [Post])]"

definition Controllers_ResourceBlocks_14d :: operations where
  "Controllers_ResourceBlocks_14d = ops op_root ''ResourceBlocksResourceBlockIdStorageStorageIdVolumes'' [''ResourceBlockId'', ''StorageId'']
     [(''VolumeIdActionsVolumeForceEnable'', [''VolumeId''], Untyped, [Post]),
      (''VolumeIdActionsVolumeInitialize'', [''VolumeId''], Checked ''VolumeV1100InitializeRequestBody'', [Post]),
      (''VolumeIdActionsVolumeRemoveReplicaRelationship'', [''VolumeId''], Checked ''VolumeV1100RemoveReplicaRelationshipRequestBody'', [Post])]"

definition Controllers_ResourceBlocks_14e :: operations where
  "Controllers_ResourceBlocks_14e = ops op_root ''ResourceBlocksResourceBlockIdStorageStorageIdVolumes'' [''ResourceBlockId'', ''StorageId'']
     [(''VolumeIdActionsVolumeResumeReplication'', [''VolumeId''], Checked ''VolumeV1100ResumeReplicationRequestBody'', [Post]),
      (''VolumeIdActionsVolumeReverseReplicationRelationship'', [''VolumeId''], Checked ''VolumeV1100ReverseReplicationRelationshipRequestBody'', [Post]),
      (''VolumeIdActionsVolumeSplitReplication'', [''VolumeId''], Checked ''VolumeV1100SplitReplicationRequestBody'', [Post])]"

definition Controllers_ResourceBlocks_14f :: operations where
  "Controllers_ResourceBlocks_14f = ops op_root ''ResourceBlocksResourceBlockIdStorageStorageIdVolumes'' [''ResourceBlockId'', ''StorageId'']
     [(''VolumeIdActionsVolumeSuspendReplication'', [''VolumeId''], Checked ''VolumeV1100SuspendReplicationRequestBody'', [Post])]"

definition Controllers_ResourceBlocks_15a :: operations where
  "Controllers_ResourceBlocks_15a = ops op_root ''ResourceBlocksResourceBlockIdSystemsComputerSystemId'' [''ResourceBlockId'', ''ComputerSystemId'']
     [('''', [], Checked ''ComputerSystemV1220ComputerSystem'', [Get, Put, Delete, Patch])]"

definition Controllers_ResourceBlocks_15b :: operations where
  "Controllers_ResourceBlocks_15b = ops op_root ''ResourceBlocksResourceBlockIdSystemsComputerSystemId'' [''ResourceBlockId'', ''ComputerSystemId'']
     [(''ActionsComputerSystemAddResourceBlock'', [], Checked ''ComputerSystemV1220AddResourceBlockRequestBody'', [Post]),
      (''ActionsComputerSystemDecommission'', [], Checked ''ComputerSystemV1220DecommissionRequestBody'', [Post]),
      (''ActionsComputerSystemRemoveResourceBlock'', [], Checked ''ComputerSystemV1220RemoveResourceBlockRequestBody'', [Post])]"

definition Controllers_ResourceBlocks_15c :: operations where
  "Controllers_ResourceBlocks_15c = ops op_root ''ResourceBlocksResourceBlockIdSystemsComputerSystemId'' [''ResourceBlockId'', ''ComputerSystemId'']
     [(''ActionsComputerSystemReset'', [], Checked ''ComputerSystemV1220ResetRequestBody'', [Post]),
      (''ActionsComputerSystemSetDefaultBootOrder'', [], Untyped, [Post]),
      (''Bios'', [], Checked ''BiosV122Bios'', [Get, Put])]"

definition Controllers_ResourceBlocks_15d :: operations where
  "Controllers_ResourceBlocks_15d = ops op_root ''ResourceBlocksResourceBlockIdSystemsComputerSystemId'' [''ResourceBlockId'', ''ComputerSystemId'']
     [(''Bios'', [], Checked ''BiosV122Bios'', [Patch]),
      (''BiosActionsBiosChangePassword'', [], Checked ''BiosV122ChangePasswordRequestBody'', [Post]),
      (''BiosActionsBiosResetBios'', [], Untyped, [Post]),
      (''BootCertificates'', [], Bodiless, [Get])]"

definition Controllers_ResourceBlocks_15e :: operations where
  "Controllers_ResourceBlocks_15e = ops op_root ''ResourceBlocksResourceBlockIdSystemsComputerSystemId'' [''ResourceBlockId'', ''ComputerSystemId'']
     [(''BootCertificates'', [], Checked ''CertificateV181Certificate'', [Post]),
      (''BootCertificatesCertificateId'', [''CertificateId''], Checked ''CertificateV181Certificate'', [Get, Put, Delete])]"

definition Controllers_ResourceBlocks_15f :: operations where
  "Controllers_ResourceBlocks_15f = ops op_root ''ResourceBlocksResourceBlockIdSystemsComputerSystemId'' [''ResourceBlockId'', ''ComputerSystemId'']
     [(''BootCertificatesCertificateId'', [''CertificateId''], Checked ''CertificateV181Certificate'', [Patch]),
      (''BootCertificatesCertificateIdActionsCertificateRekey'', [''CertificateId''], Checked ''CertificateV181RekeyRequestBody'', [Post]),
      (''BootCertificatesCertificateIdActionsCertificateRenew'', [''CertificateId''], Checked ''CertificateV181RenewRequestBody'', [Post])]"

definition Controllers_ResourceBlocks_15g :: operations where
  "Controllers_ResourceBlocks_15g = ops op_root ''ResourceBlocksResourceBlockIdSystemsComputerSystemId'' [''ResourceBlockId'', ''ComputerSystemId'']
     [(''BootOptions'', [], Checked ''BootOptionV105BootOption'', [Get, Post]),
      (''BootOptionsBootOptionId'', [''BootOptionId''], Checked ''BootOptionV105BootOption'', [Get, Put])]"

definition Controllers_ResourceBlocks_15h :: operations where
  "Controllers_ResourceBlocks_15h = ops op_root ''ResourceBlocksResourceBlockIdSystemsComputerSystemId'' [''ResourceBlockId'', ''ComputerSystemId'']
     [(''BootOptionsBootOptionId'', [''BootOptionId''], Checked ''BootOptionV105BootOption'', [Delete, Patch]),
      (''Certificates'', [], Checked ''CertificateV181Certificate'', [Get, Post])]"

definition Controllers_ResourceBlocks_16a :: operations where
  "Controllers_ResourceBlocks_16a = ops op_root ''ResourceBlocksResourceBlockIdSystemsComputerSystemId'' [''ResourceBlockId'', ''ComputerSystemId'']
     [(''CertificatesCertificateId'', [''CertificateId''], Checked ''CertificateV181Certificate'', [Get, Put, Delete, Patch])]"

definition Controllers_ResourceBlocks_16b :: operations where
  "Controllers_ResourceBlocks_16b = ops op_root ''ResourceBlocksResourceBlockIdSystemsComputerSystemId'' [''ResourceBlockId'', ''ComputerSystemId'']
     [(''CertificatesCertificateIdActionsCertificateRekey'', [''CertificateId''], Checked ''CertificateV181RekeyRequestBody'', [Post]),
      (''CertificatesCertificateIdActionsCertificateRenew'', [''CertificateId''], Checked ''CertificateV181RenewRequestBody'', [Post]),
      (''EthernetInterfaces'', [], Checked ''EthernetInterfaceV1120EthernetInterface'', [Get, Post])]"

definition Controllers_ResourceBlocks_16c :: operations where
  "Controllers_ResourceBlocks_16c = ops op_root ''ResourceBlocksResourceBlockIdSystemsComputerSystemId'' [''ResourceBlockId'', ''ComputerSystemId'']
     [(''EthernetInterfacesEthernetInterfaceId'', [''EthernetInterfaceId''], Checked ''EthernetInterfaceV1120EthernetInterface'', [Get, Put, Delete, Patch])]"

definition Controllers_ResourceBlocks_16d :: operations where
  "Controllers_ResourceBlocks_16d = ops op_root ''ResourceBlocksResourceBlockIdSystemsComputerSystemId'' [''ResourceBlockId'', ''ComputerSystemId'']
     [(''EthernetInterfacesEthernetInterfaceIdVLANs'', [''EthernetInterfaceId''], Checked ''VLanNetworkInterfaceV130VLanNetworkInterface'', [Get, Post]),
      (''EthernetInterfacesEthernetInterfaceIdVLANsVLanNetworkInterfaceId'', [''EthernetInterfaceId'', ''VLanNetworkInterfaceId''], Bodiless, [Get])]"

definition Controllers_ResourceBlocks_16e :: operations where
  "Controllers_ResourceBlocks_16e = ops op_root ''ResourceBlocksResourceBlockIdSystemsComputerSystemId'' [''ResourceBlockId'', ''ComputerSystemId'']
     [(''EthernetInterfacesEthernetInterfaceIdVLANsVLanNetworkInterfaceId'', [''EthernetInterfaceId'', ''VLanNetworkInterfaceId''], Checked ''VLanNetworkInterfaceV130VLanNetworkInterface'', [Put, Delete, Patch])]"

definition Controllers_ResourceBlocks_16f :: operations where
  "Controllers_ResourceBlocks_16f = ops op_root ''ResourceBlocksResourceBlockIdSystemsComputerSystemId'' [''ResourceBlockId'', ''ComputerSystemId'']
     [(''FabricAdapters'', [], Bodiless, [Get])]"

definition Controllers_ResourceBlocks_17a :: operations where
  "Controllers_ResourceBlocks_17a = ops op_root ''ResourceBlocksResourceBlockIdSystemsComputerSystemIdFabricAdaptersFabricAdapterId'' [''ResourceBlockId'', ''ComputerSystemId'', ''FabricAdapterId'']
     [('''', [], Checked ''FabricAdapterV152FabricAdapter'', [Get, Put, Patch]),
      (''GenZMSDT'', [], Bodiless, [Get])]"

definition Controllers_ResourceBlocks_17b :: operations where
  "Controllers_ResourceBlocks_17b = ops op_root ''ResourceBlocksResourceBlockIdSystemsComputerSystemIdFabricAdaptersFabricAdapterId'' [''ResourceBlockId'', ''ComputerSystemId'', ''FabricAdapterId'']
     [(''GenZMSDT'', [], Checked ''RouteEntryV101RouteEntry'', [Post]),
      (''GenZMSDTMSDTId'', [''MSDTId''], Checked ''RouteEntryV101RouteEntry'', [Get, Put])]"

definition Controllers_ResourceBlocks_17c :: operations where
  "Controllers_ResourceBlocks_17c = ops op_root ''ResourceBlocksResourceBlockIdSystemsComputerSystemIdFabricAdaptersFabricAdapterId'' [''ResourceBlockId'', ''ComputerSystemId'', ''FabricAdapterId'']
     [(''GenZMSDTMSDTId'', [''MSDTId''], Checked ''RouteEntryV101RouteEntry'', [Delete, Patch]),
      (''GenZSSDT'', [], Bodiless, [Get])]"

definition Controllers_ResourceBlocks_17d :: operations where
  "Controllers_ResourceBlocks_17d = ops op_root ''ResourceBlocksResourceBlockIdSystemsComputerSystemIdFabricAdaptersFabricAdapterId'' [''ResourceBlockId'', ''ComputerSystemId'', ''FabricAdapterId'']
     [(''GenZSSDT'', [], Checked ''RouteEntryV101RouteEntry'', [Post]),
      (''GenZSSDTSSDTId'', [''SSDTId''], Checked ''RouteEntryV101RouteEntry'', [Get, Put])]"

definition Controllers_ResourceBlocks_17e :: operations where
  "Controllers_ResourceBlocks_17e = ops op_root ''ResourceBlocksResourceBlockIdSystemsComputerSystemIdFabricAdaptersFabricAdapterId'' [''ResourceBlockId'', ''ComputerSystemId'', ''FabricAdapterId'']
     [(''GenZSSDTSSDTId'', [''SSDTId''], Checked ''RouteEntryV101RouteEntry'', [Delete, Patch]),
      (''MSDT'', [], Bodiless, [Get])]"

definition Controllers_ResourceBlocks_17f :: operations where
  "Controllers_ResourceBlocks_17f = ops op_root ''ResourceBlocksResourceBlockIdSystemsComputerSystemIdFabricAdaptersFabricAdapterId'' [''ResourceBlockId'', ''ComputerSystemId'', ''FabricAdapterId'']
     [(''MSDT'', [], Checked ''RouteEntryV101RouteEntry'', [Post]),
      (''MSDTMSDTId'', [''MSDTId''], Checked ''RouteEntryV101RouteEntry'', [Get, Put])]"

definition Controllers_ResourceBlocks_17g :: operations where
  "Controllers_ResourceBlocks_17g = ops op_root ''ResourceBlocksResourceBlockIdSystemsComputerSystemIdFabricAdaptersFabricAdapterId'' [''ResourceBlockId'', ''ComputerSystemId'', ''FabricAdapterId'']
     [(''MSDTMSDTId'', [''MSDTId''], Checked ''RouteEntryV101RouteEntry'', [Delete, Patch]),
      (''Ports'', [], Bodiless, [Get])]"

definition Controllers_ResourceBlocks_18a :: operations where
  "Controllers_ResourceBlocks_18a = ops op_root ''ResourceBlocksResourceBlockIdSystemsComputerSystemIdFabricAdaptersFabricAdapterIdPortsPortId'' [''ResourceBlockId'', ''ComputerSystemId'', ''FabricAdapterId'', ''PortId'']
     [('''', [], Checked ''PortV1110Port'', [Get, Put, Patch])]"

definition Controllers_ResourceBlocks_18b :: operations where
  "Controllers_ResourceBlocks_18b = ops op_root ''ResourceBlocksResourceBlockIdSystemsComputerSystemIdFabricAdaptersFabricAdapterIdPortsPortId'' [''ResourceBlockId'', ''ComputerSystemId'', ''FabricAdapterId'', ''PortId'']
     [(''ActionsPortReset'', [], Checked ''PortV1110ResetRequestBody'', [Post]),
      (''ActionsPortResetPPB'', [], Untyped, [Post]),
      (''EnvironmentMetrics'', [], Bodiless, [Get])]"

definition Controllers_ResourceBlocks_18c :: operations where
  "Controllers_ResourceBlocks_18c = ops op_root ''ResourceBlocksResourceBlockIdSystemsComputerSystemIdFabricAdaptersFabricAdapterIdPortsPortId'' [''ResourceBlockId'', ''ComputerSystemId'', ''FabricAdapterId'', ''PortId'']
     [(''EnvironmentMetrics'', [], Checked ''EnvironmentMetricsV131EnvironmentMetrics'', [Put, Patch]),
      (''EnvironmentMetricsActionsEnvironmentMetricsResetMetrics'', [], Untyped, [Post])]"

definition Controllers_ResourceBlocks_18d :: operations where
  "Controllers_ResourceBlocks_18d = ops op_root ''ResourceBlocksResourceBlockIdSystemsComputerSystemIdFabricAdaptersFabricAdapterIdPortsPortId'' [''ResourceBlockId'', ''ComputerSystemId'', ''FabricAdapterId'', ''PortId'']
     [(''EnvironmentMetricsActionsEnvironmentMetricsResetToDefaults'', [], Untyped, [Post]),
      (''GenZLPRT'', [], Checked ''RouteEntryV101RouteEntry'', [Get, Post])]"

definition Controllers_ResourceBlocks_18e :: operations where
  "Controllers_ResourceBlocks_18e = ops op_root ''ResourceBlocksResourceBlockIdSystemsComputerSystemIdFabricAdaptersFabricAdapterIdPortsPortId'' [''ResourceBlockId'', ''ComputerSystemId'', ''FabricAdapterId'', ''PortId'']
     [(''GenZLPRTLPRTId'', [''LPRTId''], Checked ''RouteEntryV101RouteEntry'', [Get, Put, Delete])]"

definition Controllers_ResourceBlocks_18f :: operations where
  "Controllers_ResourceBlocks_18f = ops op_root ''ResourceBlocksResourceBlockIdSystemsComputerSystemIdFabricAdaptersFabricAdapterIdPortsPortId'' [''ResourceBlockId'', ''ComputerSystemId'', ''FabricAdapterId'', ''PortId'']
     [(''GenZLPRTLPRTId'', [''LPRTId''], Checked ''RouteEntryV101RouteEntry'', [Patch]),
      (''GenZMPRT'', [], Checked ''RouteEntryV101RouteEntry'', [Get, Post])]"

definition Controllers_ResourceBlocks_18g :: operations where
  "Controllers_ResourceBlocks_18g = ops op_root ''ResourceBlocksResourceBlockIdSystemsComputerSystemIdFabricAdaptersFabricAdapterIdPortsPortId'' [''ResourceBlockId'', ''ComputerSystemId'', ''FabricAdapterId'', ''PortId'']
     [(''GenZMPRTMPRTId'', [''MPRTId''], Checked ''RouteEntryV101RouteEntry'', [Get, Put, Delete])]"

definition Controllers_ResourceBlocks_18h :: operations where
  "Controllers_ResourceBlocks_18h = ops op_root ''ResourceBlocksResourceBlockIdSystemsComputerSystemIdFabricAdaptersFabricAdapterIdPortsPortId'' [''ResourceBlockId'', ''ComputerSystemId'', ''FabricAdapterId'', ''PortId'']
     [(''GenZMPRTMPRTId'', [''MPRTId''], Checked ''RouteEntryV101RouteEntry'', [Patch]),
      (''LPRT'', [], Checked ''RouteEntryV101RouteEntry'', [Get, Post])]"

definition Controllers_ResourceBlocks_18i :: operations where
  "Controllers_ResourceBlocks_18i = ops op_root ''ResourceBlocksResourceBlockIdSystemsComputerSystemIdFabricAdaptersFabricAdapterIdPortsPortId'' [''ResourceBlockId'', ''ComputerSystemId'', ''FabricAdapterId'', ''PortId'']
     [(''LPRTLPRTId'', [''LPRTId''], Checked ''RouteEntryV101RouteEntry'', [Get, Put, Delete])]"

definition Controllers_ResourceBlocks_18j :: operations where
  "Controllers_ResourceBlocks_18j = ops op_root ''ResourceBlocksResourceBlockIdSystemsComputerSystemIdFabricAdaptersFabricAdapterIdPortsPortId'' [''ResourceBlockId'', ''ComputerSystemId'', ''FabricAdapterId'', ''PortId'']
     [(''LPRTLPRTId'', [''LPRTId''], Checked ''RouteEntryV101RouteEntry'', [Patch]),
      (''MPRT'', [], Checked ''RouteEntryV101RouteEntry'', [Get, Post])]"

definition Controllers_ResourceBlocks_19a :: operations where
  "Controllers_ResourceBlocks_19a = ops op_root ''ResourceBlocksResourceBlockIdSystemsComputerSystemIdFabricAdaptersFabricAdapterId'' [''ResourceBlockId'', ''ComputerSystemId'', ''FabricAdapterId'']
     [(''PortsPortIdMPRTMPRTId'', [''PortId'', ''MPRTId''], Checked ''RouteEntryV101RouteEntry'', [Get, Put, Delete])]"

definition Controllers_ResourceBlocks_19b :: operations where
  "Controllers_ResourceBlocks_19b = ops op_root ''ResourceBlocksResourceBlockIdSystemsComputerSystemIdFabricAdaptersFabricAdapterId'' [''ResourceBlockId'', ''ComputerSystemId'', ''FabricAdapterId'']
     [(''PortsPortIdMPRTMPRTId'', [''PortId'', ''MPRTId''], Checked ''RouteEntryV101RouteEntry'', [Patch]),
      (''PortsPortIdMetrics'', [''PortId''], Bodiless, [Get]),
      (''SSDT'', [], Bodiless, [Get])]"

definition Controllers_ResourceBlocks_19c :: operations where
  "Controllers_ResourceBlocks_19c = ops op_root ''ResourceBlocksResourceBlockIdSystemsComputerSystemIdFabricAdaptersFabricAdapterId'' [''ResourceBlockId'', ''ComputerSystemId'', ''FabricAdapterId'']
     [(''SSDT'', [], Checked ''RouteEntryV101RouteEntry'', [Post]),
      (''SSDTSSDTId'', [''SSDTId''], Checked ''RouteEntryV101RouteEntry'', [Get, Put])]"

definition Controllers_ResourceBlocks_19d :: operations where
  "Controllers_ResourceBlocks_19d = ops op_root ''ResourceBlocksResourceBlockIdSystemsComputerSystemIdFabricAdaptersFabricAdapterId'' [''ResourceBlockId'', ''ComputerSystemId'', ''FabricAdapterId'']
     [(''SSDTSSDTId'', [''SSDTId''], Checked ''RouteEntryV101RouteEntry'', [Delete, Patch])]"

definition Controllers_ResourceBlocks_20a :: operations where
  "Controllers_ResourceBlocks_20a = ops op_root ''ResourceBlocksResourceBlockIdSystemsComputerSystemIdGraphicsControllersControllerIdPorts'' [''ResourceBlockId'', ''ComputerSystemId'', ''ControllerId'']
     [('''', [], Bodiless, [Get]),
      (''PortId'', [''PortId''], Checked ''PortV1110Port'', [Get, Put])]"

definition Controllers_ResourceBlocks_20b :: operations where
  "Controllers_ResourceBlocks_20b = ops op_root ''ResourceBlocksResourceBlockIdSystemsComputerSystemIdGraphicsControllersControllerIdPorts'' [''ResourceBlockId'', ''ComputerSystemId'', ''ControllerId'']
     [(''PortId'', [''PortId''], Checked ''PortV1110Port'', [Patch]),
      (''PortIdActionsPortReset'', [''PortId''], Checked ''PortV1110ResetRequestBody'', [Post]),
      (''PortIdActionsPortResetPPB'', [''PortId''], Untyped, [Post])]"

definition Controllers_ResourceBlocks_20c :: operations where
  "Controllers_ResourceBlocks_20c = ops op_root ''ResourceBlocksResourceBlockIdSystemsComputerSystemIdGraphicsControllersControllerIdPorts'' [''ResourceBlockId'', ''ComputerSystemId'', ''ControllerId'']
     [(''PortIdEnvironmentMetrics'', [''PortId''], Checked ''EnvironmentMetricsV131EnvironmentMetrics'', [Get, Put, Patch])]"

definition Controllers_ResourceBlocks_20d :: operations where
  "Controllers_ResourceBlocks_20d = ops op_root ''ResourceBlocksResourceBlockIdSystemsComputerSystemIdGraphicsControllersControllerIdPorts'' [''ResourceBlockId'', ''ComputerSystemId'', ''ControllerId'']
     [(''PortIdEnvironmentMetricsActionsEnvironmentMetricsResetMetrics'', [''PortId''], Untyped, [Post]),
      (''PortIdEnvironmentMetricsActionsEnvironmentMetricsResetToDefaults'', [''PortId''], Untyped, [Post]),
      (''PortIdMetrics'', [''PortId''], Bodiless, [Get])]"

definition Controllers_ResourceBlocks_21a :: operations where
  "Controllers_ResourceBlocks_21a = ops op_root ''ResourceBlocksResourceBlockIdSystemsComputerSystemId'' [''ResourceBlockId'', ''ComputerSystemId'']
     [(''KeyManagementKMIPCertificates'', [], Checked ''CertificateV181Certificate'', [Get, Post]),
      (''KeyManagementKMIPCertificatesCertificateId'', [''CertificateId''], Checked ''CertificateV181Certificate'', [Get, Put])]"

definition Controllers_ResourceBlocks_21b :: operations where
  "Controllers_ResourceBlocks_21b = ops op_root ''ResourceBlocksResourceBlockIdSystemsComputerSystemId'' [''ResourceBlockId'', ''ComputerSystemId'']
     [(''KeyManagementKMIPCertificatesCertificateId'', [''CertificateId''], Checked ''CertificateV181Certificate'', [Delete, Patch]),
      (''KeyManagementKMIPCertificatesCertificateIdActionsCertificateRekey'', [''CertificateId''], Checked ''CertificateV181RekeyRequestBody'', [Post])]"

definition Controllers_ResourceBlocks_21c :: operations where
  "Controllers_ResourceBlocks_21c = ops op_root ''ResourceBlocksResourceBlockIdSystemsComputerSystemId'' [''ResourceBlockId'', ''ComputerSystemId'']
     [(''KeyManagementKMIPCertificatesCertificateIdActionsCertificateRenew'', [''CertificateId''], Checked ''CertificateV181RenewRequestBody'', [Post]),
      (''LogServices'', [], Bodiless, [Get]),
      (''LogServicesLogServiceId'', [''LogServiceId''], Checked ''LogServiceV160LogService'', [Get, Put])]"

definition Controllers_ResourceBlocks_21d :: operations where
  "Controllers_ResourceBlocks_21d = ops op_root ''ResourceBlocksResourceBlockIdSystemsComputerSystemId'' [''ResourceBlockId'', ''ComputerSystemId'']
     [(''LogServicesLogServiceId'', [''LogServiceId''], Checked ''LogServiceV160LogService'', [Patch]),
      (''LogServicesLogServiceIdActionsLogServiceClearLog'', [''LogServiceId''], Checked ''LogServiceV160ClearLogRequestBody'', [Post]),
      (''LogServicesLogServiceIdActionsLogServiceCollectDiagnosticData'', [''LogServiceId''], Checked ''LogServiceV160CollectDiagnosticDataRequestBody'', [Post])]"

definition Controllers_ResourceBlocks_21e :: operations where
  "Controllers_ResourceBlocks_21e = ops op_root ''ResourceBlocksResourceBlockIdSystemsComputerSystemId'' [''ResourceBlockId'', ''ComputerSystemId'']
     [(''LogServicesLogServiceIdActionsLogServicePushDiagnosticData'', [''LogServiceId''], Checked ''LogServiceV160PushDiagnosticDataRequestBody'', [Post]),
      (''LogServicesLogServiceIdEntries'', [''LogServiceId''], Checked ''LogEntryV1160LogEntry'', [Get, Post]),
      (''LogServicesLogServiceIdEntriesLogEntryId'', [''LogServiceId'', ''LogEntryId''], Bodiless, [Get])]"

definition Controllers_ResourceBlocks_21f :: operations where
  "Controllers_ResourceBlocks_21f = ops op_root ''ResourceBlocksResourceBlockIdSystemsComputerSystemId'' [''ResourceBlockId'', ''ComputerSystemId'']
     [(''LogServicesLogServiceIdEntriesLogEntryId'', [''LogServiceId'', ''LogEntryId''], Checked ''LogEntryV1160LogEntry'', [Put, Delete, Patch])]"

definition Controllers_ResourceBlocks_21g :: operations where
  "Controllers_ResourceBlocks_21g = ops op_root ''ResourceBlocksResourceBlockIdSystemsComputerSystemId'' [''ResourceBlockId'', ''ComputerSystemId'']
     [(''Memory'', [], Bodiless, [Get]),
      (''MemoryMemoryId'', [''MemoryId''], Checked ''MemoryV1190Memory'', [Get, Put, Patch])]"

definition Controllers_ResourceBlocks_22a :: operations where
  "Controllers_ResourceBlocks_22a = ops op_root ''ResourceBlocksResourceBlockIdSystemsComputerSystemIdMemoryMemoryId'' [''ResourceBlockId'', ''ComputerSystemId'', ''MemoryId'']
     [(''ActionsMemoryDisableMasterPassphrase'', [], Checked ''MemoryV1190DisableMasterPassphraseRequestBody'', [Post]),
      (''ActionsMemoryDisablePassphrase'', [], Checked ''MemoryV1190DisablePassphraseRequestBody'', [Post]),
      (''ActionsMemoryFreezeSecurityState'', [], Untyped, [Post])]"

definition Controllers_ResourceBlocks_22b :: operations where
  "Controllers_ResourceBlocks_22b = ops op_root ''ResourceBlocksResourceBlockIdSystemsComputerSystemIdMemoryMemoryId'' [''ResourceBlockId'', ''ComputerSystemId'', ''MemoryId'']
     [(''ActionsMemoryInjectPersistentPoison'', [], Checked ''MemoryV1190InjectPersistentPoisonRequestBody'', [Post]),
      (''ActionsMemoryOverwriteUnit'', [], Checked ''MemoryV1190OverwriteUnitRequestBody'', [Post]),
      (''ActionsMemoryReset'', [], Checked ''MemoryV1190ResetRequestBody'', [Post])]"

definition Controllers_ResourceBlocks_22c :: operations where
  "Controllers_ResourceBlocks_22c = ops op_root ''ResourceBlocksResourceBlockIdSystemsComputerSystemIdMemoryMemoryId'' [''ResourceBlockId'', ''ComputerSystemId'', ''MemoryId'']
     [(''ActionsMemoryResetToDefaults'', [], Untyped, [Post]),
      (''ActionsMemoryScanMedia'', [], Checked ''MemoryV1190ScanMediaRequestBody'', [Post]),
      (''ActionsMemorySecureEraseUnit'', [], Checked ''MemoryV1190SecureEraseUnitRequestBody'', [Post])]"

definition Controllers_ResourceBlocks_22d :: operations where
  "Controllers_ResourceBlocks_22d = ops op_root ''ResourceBlocksResourceBlockIdSystemsComputerSystemIdMemoryMemoryId'' [''ResourceBlockId'', ''ComputerSystemId'', ''MemoryId'']
     [(''ActionsMemorySetMasterPassphrase'', [], Checked ''MemoryV1190SetMasterPassphraseRequestBody'', [Post]),
      (''ActionsMemorySetPassphrase'', [], Checked ''MemoryV1190SetPassphraseRequestBody'', [Post]),
      (''ActionsMemoryUnlockUnit'', [], Checked ''MemoryV1190UnlockUnitRequestBody'', [Post])]"

definition Controllers_ResourceBlocks_22e :: operations where
  "Controllers_ResourceBlocks_22e = ops op_root ''ResourceBlocksResourceBlockIdSystemsComputerSystemIdMemoryMemoryId'' [''ResourceBlockId'', ''ComputerSystemId'', ''MemoryId'']
     [(''Assembly'', [], Checked ''AssemblyV150Assembly'', [Get, Put, Patch]),
      (''Certificates'', [], Bodiless, [Get])]"

definition Controllers_ResourceBlocks_22f :: operations where
  "Controllers_ResourceBlocks_22f = ops op_root ''ResourceBlocksResourceBlockIdSystemsComputerSystemIdMemoryMemoryId'' [''ResourceBlockId'', ''ComputerSystemId'', ''MemoryId'']
     [(''Certificates'', [], Checked ''CertificateV181Certificate'', [Post]),
      (''CertificatesCertificateId'', [''CertificateId''], Checked ''CertificateV181Certificate'', [Get, Put])]"

definition Controllers_ResourceBlocks_22g :: operations where
  "Controllers_ResourceBlocks_22g = ops op_root ''ResourceBlocksResourceBlockIdSystemsComputerSystemIdMemoryMemoryId'' [''ResourceBlockId'', ''ComputerSystemId'', ''MemoryId'']
     [(''CertificatesCertificateId'', [''CertificateId''], Checked ''CertificateV181Certificate'', [Delete, Patch]),
      (''CertificatesCertificateIdActionsCertificateRekey'', [''CertificateId''], Checked ''CertificateV181RekeyRequestBody'', [Post])]"

definition Controllers_ResourceBlocks_22h :: operations where
  "Controllers_ResourceBlocks_22h = ops op_root ''ResourceBlocksResourceBlockIdSystemsComputerSystemIdMemoryMemoryId'' [''ResourceBlockId'', ''ComputerSystemId'', ''MemoryId'']
     [(''CertificatesCertificateIdActionsCertificateRenew'', [''CertificateId''], Checked ''CertificateV181RenewRequestBody'', [Post]),
      (''EnvironmentMetrics'', [], Checked ''EnvironmentMetricsV131EnvironmentMetrics'', [Get, Put])]"

definition Controllers_ResourceBlocks_22i :: operations where
  "Controllers_ResourceBlocks_22i = ops op_root ''ResourceBlocksResourceBlockIdSystemsComputerSystemIdMemoryMemoryId'' [''ResourceBlockId'', ''ComputerSystemId'', ''MemoryId'']
     [(''EnvironmentMetrics'', [], Checked ''EnvironmentMetricsV131EnvironmentMetrics'', [Patch]),
      (''EnvironmentMetricsActionsEnvironmentMetricsResetMetrics'', [], Untyped, [Post]),
      (''EnvironmentMetricsActionsEnvironmentMetricsResetToDefaults'', [], Untyped, [Post]),
      (''MemoryMetrics'', [], Bodiless, [Get])]"

definition Controllers_ResourceBlocks_22j :: operations where
  "Controllers_ResourceBlocks_22j = ops op_root ''ResourceBlocksResourceBlockIdSystemsComputerSystemIdMemoryMemoryId'' [''ResourceBlockId'', ''ComputerSystemId'', ''MemoryId'']
     [(''MemoryMetricsActionsMemoryMetricsClearCurrentPeriod'', [], Untyped, [Post])]"

definition Controllers_ResourceBlocks_23a :: operations where
  "Controllers_ResourceBlocks_23a = ops op_root ''ResourceBlocksResourceBlockIdSystemsComputerSystemId'' [''ResourceBlockId'', ''ComputerSystemId'']
     [(''MemoryDomains'', [], Bodiless, [Get]),
      (''MemoryDomainsMemoryDomainId'', [''MemoryDomainId''], Bodiless, [Get]),
      (''MemoryDomainsMemoryDomainIdMemoryChunks'', [''MemoryDomainId''], Checked ''MemoryChunksV161MemoryChunks'', [Get, Post])]"

definition Controllers_ResourceBlocks_23b :: operations where
  "Controllers_ResourceBlocks_23b = ops op_root ''ResourceBlocksResourceBlockIdSystemsComputerSystemId'' [''ResourceBlockId'', ''ComputerSystemId'']
     [(''MemoryDomainsMemoryDomainIdMemoryChunksMemoryChunksId'', [''MemoryDomainId'', ''MemoryChunksId''], Checked ''MemoryChunksV161MemoryChunks'', [Get, Put, Delete])]"

definition Controllers_ResourceBlocks_23c :: operations where
  "Controllers_ResourceBlocks_23c = ops op_root ''ResourceBlocksResourceBlockIdSystemsComputerSystemId'' [''ResourceBlockId'', ''ComputerSystemId'']
     [(''MemoryDomainsMemoryDomainIdMemoryChunksMemoryChunksId'', [''MemoryDomainId'', ''MemoryChunksId''], Checked ''MemoryChunksV161MemoryChunks'', [Patch]),
      (''MemorySummaryMemoryMetrics'', [], Bodiless, [Get]),
      (''MemorySummaryMemoryMetricsActionsMemoryMetricsClearCurrentPeriod'', [], Untyped, [Post]),
      (''NetworkInterfaces'', [], Bodiless, [Get])]"

definition Controllers_ResourceBlocks_23d :: operations where
  "Controllers_ResourceBlocks_23d = ops op_root ''ResourceBlocksResourceBlockIdSystemsComputerSystemId'' [''ResourceBlockId'', ''ComputerSystemId'']
     [(''NetworkInterfacesNetworkInterfaceId'', [''NetworkInterfaceId''], Bodiless, [Get]),
      (''NetworkInterfacesNetworkInterfaceIdNetworkDeviceFunctions'', [''NetworkInterfaceId''], Bodiless, [Get]),
      (''NetworkInterfacesNetworkInterfaceIdNetworkDeviceFunctionsNetworkDeviceFunctionIdAllowDeny'', [''NetworkInterfaceId'', ''NetworkDeviceFunctionId''], Checked ''AllowDenyV102AllowDeny'', [Get, Post])]"

definition Controllers_ResourceBlocks_23e :: operations where
  "Controllers_ResourceBlocks_23e = ops op_root ''ResourceBlocksResourceBlockIdSystemsComputerSystemId'' [''ResourceBlockId'', ''ComputerSystemId'']
     [(''NetworkInterfacesNetworkInterfaceIdNetworkDeviceFunctionsNetworkDeviceFunctionIdAllowDenyAllowDenyId'', [''NetworkInterfaceId'', ''NetworkDeviceFunctionId'', ''AllowDenyId''], Checked ''AllowDenyV102AllowDeny'', [Get, Put, Delete])]"

definition Controllers_ResourceBlocks_23f :: operations where
  "Controllers_ResourceBlocks_23f = ops op_root ''ResourceBlocksResourceBlockIdSystemsComputerSystemId'' [''ResourceBlockId'', ''ComputerSystemId'']
     [(''NetworkInterfacesNetworkInterfaceIdNetworkDeviceFunctionsNetworkDeviceFunctionIdAllowDenyAllowDenyId'', [''NetworkInterfaceId'', ''NetworkDeviceFunctionId'', ''AllowDenyId''], Checked ''AllowDenyV102AllowDeny'', [Patch]),
      (''NetworkInterfacesNetworkInterfaceIdNetworkPorts'', [''NetworkInterfaceId''], Bodiless, [Get]),
      (''NetworkInterfacesNetworkInterfaceIdPorts'', [''NetworkInterfaceId''], Bodiless, [Get])]"

definition Controllers_ResourceBlocks_24a :: operations where
  "Controllers_ResourceBlocks_24a = ops op_root ''ResourceBlocksResourceBlockIdSystemsComputerSystemIdOperatingSystem'' [''ResourceBlockId'', ''ComputerSystemId'']
     [('''', [], Bodiless, [Get]),
      (''Applications'', [], Bodiless, [Get]),
      (''ApplicationsApplicationId'', [''ApplicationId''], Bodiless, [Get]),
      (''ApplicationsApplicationIdActionsApplicationReset'', [''ApplicationId''], Checked ''ApplicationV100ResetRequestBody'', [Post]),
      (''ContainerImages'', [], Bodiless, [Get])]"

definition Controllers_ResourceBlocks_24b :: operations where
  "Controllers_ResourceBlocks_24b = ops op_root ''ResourceBlocksResourceBlockIdSystemsComputerSystemIdOperatingSystem'' [''ResourceBlockId'', ''ComputerSystemId'']
     [(''ContainerImagesContainerImageId'', [''ContainerImageId''], Bodiless, [Get]),
      (''Containers'', [], Bodiless, [Get]),
      (''ContainersEthernetInterfaces'', [], Checked ''EthernetInterfaceV1120EthernetInterface'', [Get, Post]),
      (''ContainersEthernetInterfacesEthernetInterfaceId'', [''EthernetInterfaceId''], Bodiless, [Get])]"

definition Controllers_ResourceBlocks_24c :: operations where
  "Controllers_ResourceBlocks_24c = ops op_root ''ResourceBlocksResourceBlockIdSystemsComputerSystemIdOperatingSystem'' [''ResourceBlockId'', ''ComputerSystemId'']
     [(''ContainersEthernetInterfacesEthernetInterfaceId'', [''EthernetInterfaceId''], Checked ''EthernetInterfaceV1120EthernetInterface'', [Put, Delete, Patch]),
      (''ContainersContainerId'', [''ContainerId''], Bodiless, [Get])]"

definition Controllers_ResourceBlocks_24d :: operations where
  "Controllers_ResourceBlocks_24d = ops op_root ''ResourceBlocksResourceBlockIdSystemsComputerSystemIdOperatingSystem'' [''ResourceBlockId'', ''ComputerSystemId'']
     [(''ContainersContainerIdActionsContainerReset'', [''ContainerId''], Checked ''ContainerV100ResetRequestBody'', [Post])]"

definition Controllers_ResourceBlocks_25a :: operations where
  "Controllers_ResourceBlocks_25a = ops op_root ''ResourceBlocksResourceBlockIdSystemsComputerSystemId'' [''ResourceBlockId'', ''ComputerSystemId'']
     [(''PCIeDevices'', [], Bodiless, [Get]),
      (''PCIeDevicesPCIeDeviceId'', [''PCIeDeviceId''], Checked ''PcieDeviceV1130PcieDevice'', [Get, Put, Patch])]"

definition Controllers_ResourceBlocks_25b :: operations where
  "Controllers_ResourceBlocks_25b = ops op_root ''ResourceBlocksResourceBlockIdSystemsComputerSystemId'' [''ResourceBlockId'', ''ComputerSystemId'']
     [(''PCIeDevicesPCIeDeviceIdEnvironmentMetrics'', [''PCIeDeviceId''], Checked ''EnvironmentMetricsV131EnvironmentMetrics'', [Get, Put, Patch]),
      (''PCIeDevicesPCIeDeviceIdEnvironmentMetricsActionsEnvironmentMetricsResetMetrics'', [''PCIeDeviceId''], Untyped, [Post])]"

definition Controllers_ResourceBlocks_25c :: operations where
  "Controllers_ResourceBlocks_25c = ops op_root ''ResourceBlocksResourceBlockIdSystemsComputerSystemId'' [''ResourceBlockId'', ''ComputerSystemId'']
     [(''PCIeDevicesPCIeDeviceIdEnvironmentMetricsActionsEnvironmentMetricsResetToDefaults'', [''PCIeDeviceId''], Untyped, [Post]),
      (''PCIeDevicesPCIeDeviceIdPCIeFunctions'', [''PCIeDeviceId''], Bodiless, [Get]),
      (''PCIeDevicesPCIeDeviceIdPCIeFunctionsPCIeFunctionId'', [''PCIeDeviceId'', ''PCIeFunctionId''], Checked ''PcieFunctionV151PcieFunction'', [Get, Put])]"

definition Controllers_ResourceBlocks_25d :: operations where
  "Controllers_ResourceBlocks_25d = ops op_root ''ResourceBlocksResourceBlockIdSystemsComputerSystemId'' [''ResourceBlockId'', ''ComputerSystemId'']
     [(''PCIeDevicesPCIeDeviceIdPCIeFunctionsPCIeFunctionId'', [''PCIeDeviceId'', ''PCIeFunctionId''], Checked ''PcieFunctionV151PcieFunction'', [Patch]),
      (''ProcessorSummaryProcessorMetrics'', [], Bodiless, [Get]),
      (''ProcessorSummaryProcessorMetricsActionsProcessorMetricsClearCurrentPeriod'', [], Untyped, [Post]),
      (''Processors'', [], Bodiless, [Get])]"

definition Controllers_ResourceBlocks_25e :: operations where
  "Controllers_ResourceBlocks_25e = ops op_root ''ResourceBlocksResourceBlockIdSystemsComputerSystemId'' [''ResourceBlockId'', ''ComputerSystemId'']
     [(''ProcessorsProcessorId'', [''ProcessorId''], Checked ''ProcessorV1190Processor'', [Get, Put, Patch]),
      (''ProcessorsProcessorIdAccelerationFunctions'', [''ProcessorId''], Bodiless, [Get])]"

definition Controllers_ResourceBlocks_25f :: operations where
  "Controllers_ResourceBlocks_25f = ops op_root ''ResourceBlocksResourceBlockIdSystemsComputerSystemId'' [''ResourceBlockId'', ''ComputerSystemId'']
     [(''ProcessorsProcessorIdAccelerationFunctionsAccelerationFunctionId'', [''ProcessorId'', ''AccelerationFunctionId''], Bodiless, [Get]),
      (''ProcessorsProcessorIdActionsProcessorReset'', [''ProcessorId''], Checked ''ProcessorV1190ResetRequestBody'', [Post]),
      (''ProcessorsProcessorIdActionsProcessorResetToDefaults'', [''ProcessorId''], Untyped, [Post]),
      (''ProcessorsProcessorIdAssembly'', [''ProcessorId''], Bodiless, [Get])]"

definition Controllers_ResourceBlocks_25g :: operations where
  "Controllers_ResourceBlocks_25g = ops op_root ''ResourceBlocksResourceBlockIdSystemsComputerSystemId'' [''ResourceBlockId'', ''ComputerSystemId'']
     [(''ProcessorsProcessorIdAssembly'', [''ProcessorId''], Checked ''AssemblyV150Assembly'', [Put, Patch])]"

definition Controllers_ResourceBlocks_26a :: operations where
  "Controllers_ResourceBlocks_26a = ops op_root ''ResourceBlocksResourceBlockIdSystemsComputerSystemIdProcessorsProcessorId'' [''ResourceBlockId'', ''ComputerSystemId'', ''ProcessorId'']
     [(''Certificates'', [], Checked ''CertificateV181Certificate'', [Get, Post]),
      (''CertificatesCertificateId'', [''CertificateId''], Bodiless, [Get])]"

definition Controllers_ResourceBlocks_26b :: operations where
  "Controllers_ResourceBlocks_26b = ops op_root ''ResourceBlocksResourceBlockIdSystemsComputerSystemIdProcessorsProcessorId'' [''ResourceBlockId'', ''ComputerSystemId'', ''ProcessorId'']
     [(''CertificatesCertificateId'', [''CertificateId''], Checked ''CertificateV181Certificate'', [Put, Delete, Patch])]"

definition Controllers_ResourceBlocks_26c :: operations where
  "Controllers_ResourceBlocks_26c = ops op_root ''ResourceBlocksResourceBlockIdSystemsComputerSystemIdProcessorsProcessorId'' [''ResourceBlockId'', ''ComputerSystemId'', ''ProcessorId'']
     [(''CertificatesCertificateIdActionsCertificateRekey'', [''CertificateId''], Checked ''CertificateV181RekeyRequestBody'', [Post]),
      (''CertificatesCertificateIdActionsCertificateRenew'', [''CertificateId''], Checked ''CertificateV181RenewRequestBody'', [Post]),
      (''EnvironmentMetrics'', [], Bodiless, [Get])]"

definition Controllers_ResourceBlocks_26d :: operations where
  "Controllers_ResourceBlocks_26d = ops op_root ''ResourceBlocksResourceBlockIdSystemsComputerSystemIdProcessorsProcessorId'' [''ResourceBlockId'', ''ComputerSystemId'', ''ProcessorId'']
     [(''EnvironmentMetrics'', [], Checked ''EnvironmentMetricsV131EnvironmentMetrics'', [Put, Patch]),
      (''EnvironmentMetricsActionsEnvironmentMetricsResetMetrics'', [], Untyped, [Post])]"

definition Controllers_ResourceBlocks_26e :: operations where
  "Controllers_ResourceBlocks_26e = ops op_root ''ResourceBlocksResourceBlockIdSystemsComputerSystemIdProcessorsProcessorId'' [''ResourceBlockId'', ''ComputerSystemId'', ''ProcessorId'']
     [(''EnvironmentMetricsActionsEnvironmentMetricsResetToDefaults'', [], Untyped, [Post]),
      (''MemorySummaryMemoryMetrics'', [], Bodiless, [Get]),
      (''MemorySummaryMemoryMetricsActionsMemoryMetricsClearCurrentPeriod'', [], Untyped, [Post]),
      (''Ports'', [], Bodiless, [Get])]"

definition Controllers_ResourceBlocks_26f :: operations where
  "Controllers_ResourceBlocks_26f = ops op_root ''ResourceBlocksResourceBlockIdSystemsComputerSystemIdProcessorsProcessorId'' [''ResourceBlockId'', ''ComputerSystemId'', ''ProcessorId'']
     [(''PortsPortId'', [''PortId''], Checked ''PortV1110Port'', [Get, Put, Patch])]"

definition Controllers_ResourceBlocks_26g :: operations where
  "Controllers_ResourceBlocks_26g = ops op_root ''ResourceBlocksResourceBlockIdSystemsComputerSystemIdProcessorsProcessorId'' [''ResourceBlockId'', ''ComputerSystemId'', ''ProcessorId'']
     [(''PortsPortIdActionsPortReset'', [''PortId''], Checked ''PortV1110ResetRequestBody'', [Post]),
      (''PortsPortIdActionsPortResetPPB'', [''PortId''], Untyped, [Post]),
      (''PortsPortIdEnvironmentMetrics'', [''PortId''], Bodiless, [Get])]"

definition Controllers_ResourceBlocks_26h :: operations where
  "Controllers_ResourceBlocks_26h = ops op_root ''ResourceBlocksResourceBlockIdSystemsComputerSystemIdProcessorsProcessorId'' [''ResourceBlockId'', ''ComputerSystemId'', ''ProcessorId'']
     [(''PortsPortIdEnvironmentMetrics'', [''PortId''], Checked ''EnvironmentMetricsV131EnvironmentMetrics'', [Put, Patch]),
      (''PortsPortIdEnvironmentMetricsActionsEnvironmentMetricsResetMetrics'', [''PortId''], Untyped, [Post])]"

definition Controllers_ResourceBlocks_26i :: operations where
  "Controllers_ResourceBlocks_26i = ops op_root ''ResourceBlocksResourceBlockIdSystemsComputerSystemIdProcessorsProcessorId'' [''ResourceBlockId'', ''ComputerSystemId'', ''ProcessorId'']
     [(''PortsPortIdEnvironmentMetricsActionsEnvironmentMetricsResetToDefaults'', [''PortId''], Untyped, [Post]),
      (''PortsPortIdMetrics'', [''PortId''], Bodiless, [Get]),
      (''ProcessorMetrics'', [], Bodiless, [Get]),
      (''ProcessorMetricsActionsProcessorMetricsClearCurrentPeriod'', [], Untyped, [Post])]"

definition Controllers_ResourceBlocks_26j :: operations where
  "Controllers_ResourceBlocks_26j = ops op_root ''ResourceBlocksResourceBlockIdSystemsComputerSystemIdProcessorsProcessorId'' [''ResourceBlockId'', ''ComputerSystemId'', ''ProcessorId'']
     [(''SubProcessors'', [], Bodiless, [Get])]"

definition Controllers_ResourceBlocks_27a :: operations where
  "Controllers_ResourceBlocks_27a = ops op_root ''ResourceBlocksResourceBlockIdSystemsComputerSystemIdProcessorsProcessorIdSubProcessorsProcessorId2'' [''ResourceBlockId'', ''ComputerSystemId'', ''ProcessorId'', ''ProcessorId2'']
     [('''', [], Checked ''ProcessorV1190Processor'', [Get, Put, Patch])]"

definition Controllers_ResourceBlocks_27b :: operations where
  "Controllers_ResourceBlocks_27b = ops op_root ''ResourceBlocksResourceBlockIdSystemsComputerSystemIdProcessorsProcessorIdSubProcessorsProcessorId2'' [''ResourceBlockId'', ''ComputerSystemId'', ''ProcessorId'', ''ProcessorId2'']
     [(''ActionsProcessorReset'', [], Checked ''ProcessorV1190ResetRequestBody'', [Post]),
      (''ActionsProcessorResetToDefaults'', [], Untyped, [Post]),
      (''Assembly'', [], Bodiless, [Get])]"

definition Controllers_ResourceBlocks_27c :: operations where
  "Controllers_ResourceBlocks_27c = ops op_root ''ResourceBlocksResourceBlockIdSystemsComputerSystemIdProcessorsProcessorIdSubProcessorsProcessorId2'' [''ResourceBlockId'', ''ComputerSystemId'', ''ProcessorId'', ''ProcessorId2'']
     [(''Assembly'', [], Checked ''AssemblyV150Assembly'', [Put, Patch]),
      (''ProcessorMetrics'', [], Bodiless, [Get])]"

definition Controllers_ResourceBlocks_27d :: operations where
  "Controllers_ResourceBlocks_27d = ops op_root ''ResourceBlocksResourceBlockIdSystemsComputerSystemIdProcessorsProcessorIdSubProcessorsProcessorId2'' [''ResourceBlockId'', ''ComputerSystemId'', ''ProcessorId'', ''ProcessorId2'']
     [(''ProcessorMetricsActionsProcessorMetricsClearCurrentPeriod'', [], Untyped, [Post]),
      (''SubProcessors'', [], Bodiless, [Get]),
      (''SubProcessorsProcessorId3'', [''ProcessorId3''], Bodiless, [Get])]"

definition Controllers_ResourceBlocks_27e :: operations where
  "Controllers_ResourceBlocks_27e = ops op_root ''ResourceBlocksResourceBlockIdSystemsComputerSystemIdProcessorsProcessorIdSubProcessorsProcessorId2'' [''ResourceBlockId'', ''ComputerSystemId'', ''ProcessorId'', ''ProcessorId2'']
     [(''SubProcessorsProcessorId3'', [''ProcessorId3''], Checked ''ProcessorV1190Processor'', [Put, Patch])]"

definition Controllers_ResourceBlocks_27f :: operations where
  "Controllers_ResourceBlocks_27f = ops op_root ''ResourceBlocksResourceBlockIdSystemsComputerSystemIdProcessorsProcessorIdSubProcessorsProcessorId2'' [''ResourceBlockId'', ''ComputerSystemId'', ''ProcessorId'', ''ProcessorId2'']
     [(''SubProcessorsProcessorId3ActionsProcessorReset'', [''ProcessorId3''], Checked ''ProcessorV1190ResetRequestBody'', [Post]),
      (''SubProcessorsProcessorId3ActionsProcessorResetToDefaults'', [''ProcessorId3''], Untyped, [Post]),
      (''SubProcessorsProcessorId3Assembly'', [''ProcessorId3''], Bodiless, [Get])]"

definition Controllers_ResourceBlocks_27g :: operations where
  "Controllers_ResourceBlocks_27g = ops op_root ''ResourceBlocksResourceBlockIdSystemsComputerSystemIdProcessorsProcessorIdSubProcessorsProcessorId2'' [''ResourceBlockId'', ''ComputerSystemId'', ''ProcessorId'', ''ProcessorId2'']
     [(''SubProcessorsProcessorId3Assembly'', [''ProcessorId3''], Checked ''AssemblyV150Assembly'', [Put, Patch]),
      (''SubProcessorsProcessorId3ProcessorMetrics'', [''ProcessorId3''], Bodiless, [Get])]"

definition Controllers_ResourceBlocks_27h :: operations where
  "Controllers_ResourceBlocks_27h = ops op_root ''ResourceBlocksResourceBlockIdSystemsComputerSystemIdProcessorsProcessorIdSubProcessorsProcessorId2'' [''ResourceBlockId'', ''ComputerSystemId'', ''ProcessorId'', ''ProcessorId2'']
     [(''SubProcessorsProcessorId3ProcessorMetricsActionsProcessorMetricsClearCurrentPeriod'', [''ProcessorId3''], Untyped, [Post])]"

definition Controllers_ResourceBlocks_28a :: operations where
  "Controllers_ResourceBlocks_28a = ops op_root ''ResourceBlocksResourceBlockIdSystemsComputerSystemId'' [''ResourceBlockId'', ''ComputerSystemId'']
     [(''SecureBoot'', [], Checked ''SecureBootV111SecureBoot'', [Get, Put, Patch]),
      (''SecureBootActionsSecureBootResetKeys'', [], Checked ''SecureBootV111ResetKeysRequestBody'', [Post])]"

definition Controllers_ResourceBlocks_28b :: operations where
  "Controllers_ResourceBlocks_28b = ops op_root ''ResourceBlocksResourceBlockIdSystemsComputerSystemId'' [''ResourceBlockId'', ''ComputerSystemId'']
     [(''SecureBootSecureBootDatabases'', [], Bodiless, [Get]),
      (''SecureBootSecureBootDatabasesDatabaseId'', [''DatabaseId''], Bodiless, [Get]),
      (''SecureBootSecureBootDatabasesDatabaseIdActionsSecureBootDatabaseResetKeys'', [''DatabaseId''], Checked ''SecureBootDatabaseV102ResetKeysRequestBody'', [Post]),
      (''SecureBootSecureBootDatabasesDatabaseIdCertificates'', [''DatabaseId''], Bodiless, [Get])]"

definition Controllers_ResourceBlocks_28c :: operations where
  "Controllers_ResourceBlocks_28c = ops op_root ''ResourceBlocksResourceBlockIdSystemsComputerSystemId'' [''ResourceBlockId'', ''ComputerSystemId'']
     [(''SecureBootSecureBootDatabasesDatabaseIdCertificates'', [''DatabaseId''], Checked ''CertificateV181Certificate'', [Post]),
      (''SecureBootSecureBootDatabasesDatabaseIdCertificatesCertificateId'', [''DatabaseId'', ''CertificateId''], Checked ''CertificateV181Certificate'', [Get, Put])]"

definition Controllers_ResourceBlocks_28d :: operations where
  "Controllers_ResourceBlocks_28d = ops op_root ''ResourceBlocksResourceBlockIdSystemsComputerSystemId'' [''ResourceBlockId'', ''ComputerSystemId'']
     [(''SecureBootSecureBootDatabasesDatabaseIdCertificatesCertificateId'', [''DatabaseId'', ''CertificateId''], Checked ''CertificateV181Certificate'', [Delete, Patch]),
      (''SecureBootSecureBootDatabasesDatabaseIdCertificatesCertificateIdActionsCertificateRekey'', [''DatabaseId'', ''CertificateId''], Checked ''CertificateV181RekeyRequestBody'', [Post])]"

definition Controllers_ResourceBlocks_28e :: operations where
  "Controllers_ResourceBlocks_28e = ops op_root ''ResourceBlocksResourceBlockIdSystemsComputerSystemId'' [''ResourceBlockId'', ''ComputerSystemId'']
     [(''SecureBootSecureBootDatabasesDatabaseIdCertificatesCertificateIdActionsCertificateRenew'', [''DatabaseId'', ''CertificateId''], Checked ''CertificateV181RenewRequestBody'', [Post]),
      (''SecureBootSecureBootDatabasesDatabaseIdSignatures'', [''DatabaseId''], Checked ''SignatureV102Signature'', [Get, Post])]"

definition Controllers_ResourceBlocks_28f :: operations where
  "Controllers_ResourceBlocks_28f = ops op_root ''ResourceBlocksResourceBlockIdSystemsComputerSystemId'' [''ResourceBlockId'', ''ComputerSystemId'']
     [(''SecureBootSecureBootDatabasesDatabaseIdSignaturesSignatureId'', [''DatabaseId'', ''SignatureId''], Bodiless, [Get, Delete]),
      (''SimpleStorage'', [], Bodiless, [Get]),
      (''SimpleStorageSimpleStorageId'', [''SimpleStorageId''], Bodiless, [Get]),
      (''Storage'', [], Bodiless, [Get])]"

definition Controllers_ResourceBlocks_28g :: operations where
  "Controllers_ResourceBlocks_28g = ops op_root ''ResourceBlocksResourceBlockIdSystemsComputerSystemId'' [''ResourceBlockId'', ''ComputerSystemId'']
     [(''StorageStorageId'', [''StorageId''], Checked ''StorageV1151Storage'', [Get, Put, Patch])]"

definition Controllers_ResourceBlocks_28h :: operations where
  "Controllers_ResourceBlocks_28h = ops op_root ''ResourceBlocksResourceBlockIdSystemsComputerSystemId'' [''ResourceBlockId'', ''ComputerSystemId'']
     [(''StorageStorageIdActionsStorageResetToDefaults'', [''StorageId''], Checked ''StorageV1151ResetToDefaultsRequestBody'', [Post]),
      (''StorageStorageIdActionsStorageSetEncryptionKey'', [''StorageId''], Checked ''StorageV1151SetEncryptionKeyRequestBody'', [Post]),
      (''StorageStorageIdControllers'', [''StorageId''], Bodiless, [Get])]"

definition Controllers_ResourceBlocks_29a :: operations where
  "Controllers_ResourceBlocks_29a = ops op_root ''ResourceBlocksResourceBlockIdSystemsComputerSystemIdStorageStorageIdControllersControllerId'' [''ResourceBlockId'', ''ComputerSystemId'', ''StorageId'', ''ControllerId'']
     [('''', [], Checked ''StorageControllerV172StorageController'', [Get, Put, Patch])]"

definition Controllers_ResourceBlocks_29b :: operations where
  "Controllers_ResourceBlocks_29b = ops op_root ''ResourceBlocksResourceBlockIdSystemsComputerSystemIdStorageStorageIdControllersControllerId'' [''ResourceBlockId'', ''ComputerSystemId'', ''StorageId'', ''ControllerId'']
     [(''ActionsStorageControllerAttachNamespaces'', [], Checked ''StorageControllerV172AttachNamespacesRequestBody'', [Post]),
      (''ActionsStorageControllerDetachNamespaces'', [], Checked ''StorageControllerV172DetachNamespacesRequestBody'', [Post]),
      (''ActionsStorageControllerSecurityReceive'', [], Checked ''StorageControllerV172SecurityReceiveRequestBody'', [Post])]"

definition Controllers_ResourceBlocks_29c :: operations where
  "Controllers_ResourceBlocks_29c = ops op_root ''ResourceBlocksResourceBlockIdSystemsComputerSystemIdStorageStorageIdControllersControllerId'' [''ResourceBlockId'', ''ComputerSystemId'', ''StorageId'', ''ControllerId'']
     [(''ActionsStorageControllerSecuritySend'', [], Checked ''StorageControllerV172SecuritySendRequestBody'', [Post]),
      (''EnvironmentMetrics'', [], Checked ''EnvironmentMetricsV131EnvironmentMetrics'', [Get, Put])]"

definition Controllers_ResourceBlocks_29d :: operations where
  "Controllers_ResourceBlocks_29d = ops op_root ''ResourceBlocksResourceBlockIdSystemsComputerSystemIdStorageStorageIdControllersControllerId'' [''ResourceBlockId'', ''ComputerSystemId'', ''StorageId'', ''ControllerId'']
     [(''EnvironmentMetrics'', [], Checked ''EnvironmentMetricsV131EnvironmentMetrics'', [Patch]),
      (''EnvironmentMetricsActionsEnvironmentMetricsResetMetrics'', [], Untyped, [Post]),
      (''EnvironmentMetricsActionsEnvironmentMetricsResetToDefaults'', [], Untyped, [Post])]"

definition Controllers_ResourceBlocks_29e :: operations where
  "Controllers_ResourceBlocks_29e = ops op_root ''ResourceBlocksResourceBlockIdSystemsComputerSystemIdStorageStorageIdControllersControllerId'' [''ResourceBlockId'', ''ComputerSystemId'', ''StorageId'', ''ControllerId'']
     [(''Metrics'', [], Bodiless, [Get])]"

definition Controllers_ResourceBlocks_30a :: operations where
  "Controllers_ResourceBlocks_30a = ops op_root ''ResourceBlocksResourceBlockIdSystemsComputerSystemIdStorageStorageIdControllersStorageControllerId'' [''ResourceBlockId'', ''ComputerSystemId'', ''StorageId'', ''StorageControllerId'']
     [(''Assembly'', [], Checked ''AssemblyV150Assembly'', [Get, Put, Patch])]"

definition Controllers_ResourceBlocks_30b :: operations where
  "Controllers_ResourceBlocks_30b = ops op_root ''ResourceBlocksResourceBlockIdSystemsComputerSystemIdStorageStorageIdControllersStorageControllerId'' [''ResourceBlockId'', ''ComputerSystemId'', ''StorageId'', ''StorageControllerId'']
     [(''Certificates'', [], Checked ''CertificateV181Certificate'', [Get, Post]),
      (''CertificatesCertificateId'', [''CertificateId''], Bodiless, [Get])]"

definition Controllers_ResourceBlocks_30c :: operations where
  "Controllers_ResourceBlocks_30c = ops op_root ''ResourceBlocksResourceBlockIdSystemsComputerSystemIdStorageStorageIdControllersStorageControllerId'' [''ResourceBlockId'', ''ComputerSystemId'', ''StorageId'', ''StorageControllerId'']
     [(''CertificatesCertificateId'', [''CertificateId''], Checked ''CertificateV181Certificate'', [Put, Delete, Patch])]"

definition Controllers_ResourceBlocks_30d :: operations where
  "Controllers_ResourceBlocks_30d = ops op_root ''ResourceBlocksResourceBlockIdSystemsComputerSystemIdStorageStorageIdControllersStorageControllerId'' [''ResourceBlockId'', ''ComputerSystemId'', ''StorageId'', ''StorageControllerId'']
     [(''CertificatesCertificateIdActionsCertificateRekey'', [''CertificateId''], Checked ''CertificateV181RekeyRequestBody'', [Post]),
      (''CertificatesCertificateIdActionsCertificateRenew'', [''CertificateId''], Checked ''CertificateV181RenewRequestBody'', [Post]),
      (''Ports'', [], Bodiless, [Get])]"

definition Controllers_ResourceBlocks_30e :: operations where
  "Controllers_ResourceBlocks_30e = ops op_root ''ResourceBlocksResourceBlockIdSystemsComputerSystemIdStorageStorageIdControllersStorageControllerId'' [''ResourceBlockId'', ''ComputerSystemId'', ''StorageId'', ''StorageControllerId'']
     [(''PortsPortId'', [''PortId''], Checked ''PortV1110Port'', [Get, Put, Patch])]"

definition Controllers_ResourceBlocks_30f :: operations where
  "Controllers_ResourceBlocks_30f = ops op_root ''ResourceBlocksResourceBlockIdSystemsComputerSystemIdStorageStorageIdControllersStorageControllerId'' [''ResourceBlockId'', ''ComputerSystemId'', ''StorageId'', ''StorageControllerId'']
     [(''PortsPortIdActionsPortReset'', [''PortId''], Checked ''PortV1110ResetRequestBody'', [Post]),
      (''PortsPortIdActionsPortResetPPB'', [''PortId''], Untyped, [Post]),
      (''PortsPortIdEnvironmentMetrics'', [''PortId''], Bodiless, [Get])]"

definition Controllers_ResourceBlocks_30g :: operations where
  "Controllers_ResourceBlocks_30g = ops op_root ''ResourceBlocksResourceBlockIdSystemsComputerSystemIdStorageStorageIdControllersStorageControllerId'' [''ResourceBlockId'', ''ComputerSystemId'', ''StorageId'', ''StorageControllerId'']
     [(''PortsPortIdEnvironmentMetrics'', [''PortId''], Checked ''EnvironmentMetricsV131EnvironmentMetrics'', [Put, Patch]),
      (''PortsPortIdEnvironmentMetricsActionsEnvironmentMetricsResetMetrics'', [''PortId''], Untyped, [Post])]"

definition Controllers_ResourceBlocks_30h :: operations where
  "Controllers_ResourceBlocks_30h = ops op_root ''ResourceBlocksResourceBlockIdSystemsComputerSystemIdStorageStorageIdControllersStorageControllerId'' [''ResourceBlockId'', ''ComputerSystemId'', ''StorageId'', ''StorageControllerId'']
     [(''PortsPortIdEnvironmentMetricsActionsEnvironmentMetricsResetToDefaults'', [''PortId''], Untyped, [Post]),
      (''PortsPortIdMetrics'', [''PortId''], Bodiless, [Get])]"

definition Controllers_ResourceBlocks_31a :: operations where
  "Controllers_ResourceBlocks_31a = ops op_root ''ResourceBlocksResourceBlockIdSystemsComputerSystemIdStorageStorageIdDrivesDriveId'' [''ResourceBlockId'', ''ComputerSystemId'', ''StorageId'', ''DriveId'']
     [('''', [], Checked ''DriveV1180Drive'', [Get, Put, Patch])]"

definition Controllers_ResourceBlocks_31b :: operations where
  "Controllers_ResourceBlocks_31b = ops op_root ''ResourceBlocksResourceBlockIdSystemsComputerSystemIdStorageStorageIdDrivesDriveId'' [''ResourceBlockId'', ''ComputerSystemId'', ''StorageId'', ''DriveId'']
     [(''ActionsDriveReset'', [], Checked ''DriveV1180ResetRequestBody'', [Post]),
      (''ActionsDriveRevertToOriginalFactoryState'', [], Checked ''DriveV1180RevertToOriginalFactoryStateRequestBody'', [Post]),
      (''ActionsDriveSecureErase'', [], Checked ''DriveV1180SecureEraseRequestBody'', [Post])]"

definition Controllers_ResourceBlocks_31c :: operations where
  "Controllers_ResourceBlocks_31c = ops op_root ''ResourceBlocksResourceBlockIdSystemsComputerSystemIdStorageStorageIdDrivesDriveId'' [''ResourceBlockId'', ''ComputerSystemId'', ''StorageId'', ''DriveId'']
     [(''Assembly'', [], Checked ''AssemblyV150Assembly'', [Get, Put, Patch])]"

definition Controllers_ResourceBlocks_31d :: operations where
  "Controllers_ResourceBlocks_31d = ops op_root ''ResourceBlocksResourceBlockIdSystemsComputerSystemIdStorageStorageIdDrivesDriveId'' [''ResourceBlockId'', ''ComputerSystemId'', ''StorageId'', ''DriveId'']
     [(''Certificates'', [], Checked ''CertificateV181Certificate'', [Get, Post]),
      (''CertificatesCertificateId'', [''CertificateId''], Bodiless, [Get])]"

definition Controllers_ResourceBlocks_31e :: operations where
  "Controllers_ResourceBlocks_31e = ops op_root ''ResourceBlocksResourceBlockIdSystemsComputerSystemIdStorageStorageIdDrivesDriveId'' [''ResourceBlockId'', ''ComputerSystemId'', ''StorageId'', ''DriveId'']
     [(''CertificatesCertificateId'', [''CertificateId''], Checked ''CertificateV181Certificate'', [Put, Delete, Patch])]"

definition Controllers_ResourceBlocks_31f :: operations where
  "Controllers_ResourceBlocks_31f = ops op_root ''ResourceBlocksResourceBlockIdSystemsComputerSystemIdStorageStorageIdDrivesDriveId'' [''ResourceBlockId'', ''ComputerSystemId'', ''StorageId'', ''DriveId'']
     [(''CertificatesCertificateIdActionsCertificateRekey'', [''CertificateId''], Checked ''CertificateV181RekeyRequestBody'', [Post]),
      (''CertificatesCertificateIdActionsCertificateRenew'', [''CertificateId''], Checked ''CertificateV181RenewRequestBody'', [Post]),
      (''EnvironmentMetrics'', [], Bodiless, [Get])]"

definition Controllers_ResourceBlocks_31g :: operations where
  "Controllers_ResourceBlocks_31g = ops op_root ''ResourceBlocksResourceBlockIdSystemsComputerSystemIdStorageStorageIdDrivesDriveId'' [''ResourceBlockId'', ''ComputerSystemId'', ''StorageId'', ''DriveId'']
     [(''EnvironmentMetrics'', [], Checked ''EnvironmentMetricsV131EnvironmentMetrics'', [Put, Patch]),
      (''EnvironmentMetricsActionsEnvironmentMetricsResetMetrics'', [], Untyped, [Post])]"

definition Controllers_ResourceBlocks_31h :: operations where
  "Controllers_ResourceBlocks_31h = ops op_root ''ResourceBlocksResourceBlockIdSystemsComputerSystemIdStorageStorageIdDrivesDriveId'' [''ResourceBlockId'', ''ComputerSystemId'', ''StorageId'', ''DriveId'']
     [(''EnvironmentMetricsActionsEnvironmentMetricsResetToDefaults'', [], Untyped, [Post]),
      (''Metrics'', [], Bodiless, [Get])]"

definition Controllers_ResourceBlocks_32a :: operations where
  "Controllers_ResourceBlocks_32a = ops op_root ''ResourceBlocksResourceBlockIdSystemsComputerSystemIdStorageStorageIdStorageControllersStorageControllerId'' [''ResourceBlockId'', ''ComputerSystemId'', ''StorageId'', ''StorageControllerId'']
     [(''Assembly'', [], Checked ''AssemblyV150Assembly'', [Get, Put, Patch])]"

definition Controllers_ResourceBlocks_32b :: operations where
  "Controllers_ResourceBlocks_32b = ops op_root ''ResourceBlocksResourceBlockIdSystemsComputerSystemIdStorageStorageIdStorageControllersStorageControllerId'' [''ResourceBlockId'', ''ComputerSystemId'', ''StorageId'', ''StorageControllerId'']
     [(''Certificates'', [], Checked ''CertificateV181Certificate'', [Get, Post]),
      (''CertificatesCertificateId'', [''CertificateId''], Bodiless, [Get])]"

definition Controllers_ResourceBlocks_32c :: operations where
  "Controllers_ResourceBlocks_32c = ops op_root ''ResourceBlocksResourceBlockIdSystemsComputerSystemIdStorageStorageIdStorageControllersStorageControllerId'' [''ResourceBlockId'', ''ComputerSystemId'', ''StorageId'', ''StorageControllerId'']
     [(''CertificatesCertificateId'', [''CertificateId''], Checked ''CertificateV181Certificate'', [Put, Delete, Patch])]"

definition Controllers_ResourceBlocks_32d :: operations where
  "Controllers_ResourceBlocks_32d = ops op_root ''ResourceBlocksResourceBlockIdSystemsComputerSystemIdStorageStorageIdStorageControllersStorageControllerId'' [''ResourceBlockId'', ''ComputerSystemId'', ''StorageId'', ''StorageControllerId'']
     [(''CertificatesCertificateIdActionsCertificateRekey'', [''CertificateId''], Checked ''CertificateV181RekeyRequestBody'', [Post]),
      (''CertificatesCertificateIdActionsCertificateRenew'', [''CertificateId''], Checked ''CertificateV181RenewRequestBody'', [Post]),
      (''Ports'', [], Bodiless, [Get])]"

definition Controllers_ResourceBlocks_32e :: operations where
  "Controllers_ResourceBlocks_32e = ops op_root ''ResourceBlocksResourceBlockIdSystemsComputerSystemIdStorageStorageIdStorageControllersStorageControllerId'' [''ResourceBlockId'', ''ComputerSystemId'', ''StorageId'', ''StorageControllerId'']
     [(''PortsPortId'', [''PortId''], Checked ''PortV1110Port'', [Get, Put, Patch])]"

definition Controllers_ResourceBlocks_32f :: operations where
  "Controllers_ResourceBlocks_32f = ops op_root ''ResourceBlocksResourceBlockIdSystemsComputerSystemIdStorageStorageIdStorageControllersStorageControllerId'' [''ResourceBlockId'', ''ComputerSystemId'', ''StorageId'', ''StorageControllerId'']
     [(''PortsPortIdActionsPortReset'', [''PortId''], Checked ''PortV1110ResetRequestBody'', [Post]),
      (''PortsPortIdActionsPortResetPPB'', [''PortId''], Untyped, [Post]),
      (''PortsPortIdEnvironmentMetrics'', [''PortId''], Bodiless, [Get])]"

definition Controllers_ResourceBlocks_32g :: operations where
  "Controllers_ResourceBlocks_32g = ops op_root ''ResourceBlocksResourceBlockIdSystemsComputerSystemIdStorageStorageIdStorageControllersStorageControllerId'' [''ResourceBlockId'', ''ComputerSystemId'', ''StorageId'', ''StorageControllerId'']
     [(''PortsPortIdEnvironmentMetrics'', [''PortId''], Checked ''EnvironmentMetricsV131EnvironmentMetrics'', [Put, Patch]),
      (''PortsPortIdEnvironmentMetricsActionsEnvironmentMetricsResetMetrics'', [''PortId''], Untyped, [Post])]"

definition Controllers_ResourceBlocks_32h :: operations where
  "Controllers_ResourceBlocks_32h = ops op_root ''ResourceBlocksResourceBlockIdSystemsComputerSystemIdStorageStorageIdStorageControllersStorageControllerId'' [''ResourceBlockId'', ''ComputerSystemId'', ''StorageId'', ''StorageControllerId'']
     [(''PortsPortIdEnvironmentMetricsActionsEnvironmentMetricsResetToDefaults'', [''PortId''], Untyped, [Post]),
      (''PortsPortIdMetrics'', [''PortId''], Bodiless, [Get])]"

definition Controllers_ResourceBlocks_33a :: operations where
  "Controllers_ResourceBlocks_33a = ops op_root ''ResourceBlocksResourceBlockIdSystemsComputerSystemIdStorageStorageIdVolumes'' [''ResourceBlockId'', ''ComputerSystemId'', ''StorageId'']
     [('''', [], Checked ''VolumeV1100Volume'', [Get, Post]),
      (''VolumeId'', [''VolumeId''], Bodiless, [Get])]"

definition Controllers_ResourceBlocks_33b :: operations where
  "Controllers_ResourceBlocks_33b = ops op_root ''ResourceBlocksResourceBlockIdSystemsComputerSystemIdStorageStorageIdVolumes'' [''ResourceBlockId'', ''ComputerSystemId'', ''StorageId'']
     [(''VolumeId'', [''VolumeId''], Checked ''VolumeV1100Volume'', [Put, Delete, Patch])]"

definition Controllers_ResourceBlocks_33c :: operations where
  "Controllers_ResourceBlocks_33c = ops op_root ''ResourceBlocksResourceBlockIdSystemsComputerSystemIdStorageStorageIdVolumes'' [''ResourceBlockId'', ''ComputerSystemId'', ''StorageId'']
     [(''VolumeIdActionsVolumeAssignReplicaTarget'', [''VolumeId''], Checked ''VolumeV1100AssignReplicaTargetRequestBody'', [Post]),
      (''VolumeIdActionsVolumeChangeRAIDLayout'', [''VolumeId''], Checked ''VolumeV1100ChangeRaidLayoutRequestBody'', [Post]),
      (''VolumeIdActionsVolumeCheckConsistency'', [''VolumeId''], Untyped, [Post])]"

definition Controllers_ResourceBlocks_33d :: operations where
  "Controllers_ResourceBlocks_33d = ops op_root ''ResourceBlocksResourceBlockIdSystemsComputerSystemIdStorageStorageIdVolumes'' [''ResourceBlockId'', ''ComputerSystemId'', ''StorageId'']
     [(''VolumeIdActionsVolumeCreateReplicaTarget'', [''VolumeId''], Checked ''VolumeV1100CreateReplicaTargetRequestBody'', [Post]),
      (''VolumeIdActionsVolumeForceEnable'', [''VolumeId''], Untyped, [Post]),
      (''VolumeIdActionsVolumeInitialize'', [''VolumeId''], Checked ''VolumeV1100InitializeRequestBody'', [Post])]"

definition Controllers_ResourceBlocks_33e :: operations where
  "Controllers_ResourceBlocks_33e = ops op_root ''ResourceBlocksResourceBlockIdSystemsComputerSystemIdStorageStorageIdVolumes'' [''ResourceBlockId'', ''ComputerSystemId'', ''StorageId'']
     [(''VolumeIdActionsVolumeRemoveReplicaRelationship'', [''VolumeId''], Checked ''VolumeV1100RemoveReplicaRelationshipRequestBody'', [Post]),
      (''VolumeIdActionsVolumeResumeReplication'', [''VolumeId''], Checked ''VolumeV1100ResumeReplicationRequestBody'', [Post]),
      (''VolumeIdActionsVolumeReverseReplicationRelationship'', [''VolumeId''], Checked ''VolumeV1100ReverseReplicationRelationshipRequestBody'', [Post])]"

definition Controllers_ResourceBlocks_33f :: operations where
  "Controllers_ResourceBlocks_33f = ops op_root ''ResourceBlocksResourceBlockIdSystemsComputerSystemIdStorageStorageIdVolumes'' [''ResourceBlockId'', ''ComputerSystemId'', ''StorageId'']
     [(''VolumeIdActionsVolumeSplitReplication'', [''VolumeId''], Checked ''VolumeV1100SplitReplicationRequestBody'', [Post]),
      (''VolumeIdActionsVolumeSuspendReplication'', [''VolumeId''], Checked ''VolumeV1100SuspendReplicationRequestBody'', [Post])]"

definition Controllers_ResourceBlocks_34a :: operations where
  "Controllers_ResourceBlocks_34a = ops op_root ''ResourceBlocksResourceBlockIdSystemsComputerSystemIdUSBControllersControllerIdPorts'' [''ResourceBlockId'', ''ComputerSystemId'', ''ControllerId'']
     [('''', [], Bodiless, [Get]),
      (''PortId'', [''PortId''], Checked ''PortV1110Port'', [Get, Put])]"

definition Controllers_ResourceBlocks_34b :: operations where
  "Controllers_ResourceBlocks_34b = ops op_root ''ResourceBlocksResourceBlockIdSystemsComputerSystemIdUSBControllersControllerIdPorts'' [''ResourceBlockId'', ''ComputerSystemId'', ''ControllerId'']
     [(''PortId'', [''PortId''], Checked ''PortV1110Port'', [Patch]),
      (''PortIdActionsPortReset'', [''PortId''], Checked ''PortV1110ResetRequestBody'', [Post]),
      (''PortIdActionsPortResetPPB'', [''PortId''], Untyped, [Post])]"

definition Controllers_ResourceBlocks_34c :: operations where
  "Controllers_ResourceBlocks_34c = ops op_root ''ResourceBlocksResourceBlockIdSystemsComputerSystemIdUSBControllersControllerIdPorts'' [''ResourceBlockId'', ''ComputerSystemId'', ''ControllerId'']
     [(''PortIdEnvironmentMetrics'', [''PortId''], Checked ''EnvironmentMetricsV131EnvironmentMetrics'', [Get, Put, Patch])]"

definition Controllers_ResourceBlocks_34d :: operations where
  "Controllers_ResourceBlocks_34d = ops op_root ''ResourceBlocksResourceBlockIdSystemsComputerSystemIdUSBControllersControllerIdPorts'' [''ResourceBlockId'', ''ComputerSystemId'', ''ControllerId'']
     [(''PortIdEnvironmentMetricsActionsEnvironmentMetricsResetMetrics'', [''PortId''], Untyped, [Post]),
      (''PortIdEnvironmentMetricsActionsEnvironmentMetricsResetToDefaults'', [''PortId''], Untyped, [Post]),
      (''PortIdMetrics'', [''PortId''], Bodiless, [Get])]"

definition Controllers_ResourceBlocks_35a :: operations where
  "Controllers_ResourceBlocks_35a = ops op_root ''ResourceBlocksResourceBlockIdSystemsComputerSystemIdVirtualMedia'' [''ResourceBlockId'', ''ComputerSystemId'']
     [('''', [], Bodiless, [Get]),
      (''VirtualMediaId'', [''VirtualMediaId''], Checked ''VirtualMediaV163VirtualMedia'', [Get, Put, Patch])]"

definition Controllers_ResourceBlocks_35b :: operations where
  "Controllers_ResourceBlocks_35b = ops op_root ''ResourceBlocksResourceBlockIdSystemsComputerSystemIdVirtualMedia'' [''ResourceBlockId'', ''ComputerSystemId'']
     [(''VirtualMediaIdActionsVirtualMediaEjectMedia'', [''VirtualMediaId''], Untyped, [Post]),
      (''VirtualMediaIdActionsVirtualMediaInsertMedia'', [''VirtualMediaId''], Checked ''VirtualMediaV163InsertMediaRequestBody'', [Post]),
      (''VirtualMediaIdCertificates'', [''VirtualMediaId''], Checked ''CertificateV181Certificate'', [Get, Post])]"

definition Controllers_ResourceBlocks_35c :: operations where
  "Controllers_ResourceBlocks_35c = ops op_root ''ResourceBlocksResourceBlockIdSystemsComputerSystemIdVirtualMedia'' [''ResourceBlockId'', ''ComputerSystemId'']
     [(''VirtualMediaIdCertificatesCertificateId'', [''VirtualMediaId'', ''CertificateId''], Checked ''CertificateV181Certificate'', [Get, Put, Delete])]"

definition Controllers_ResourceBlocks_35d :: operations where
  "Controllers_ResourceBlocks_35d = ops op_root ''ResourceBlocksResourceBlockIdSystemsComputerSystemIdVirtualMedia'' [''ResourceBlockId'', ''ComputerSystemId'']
     [(''VirtualMediaIdCertificatesCertificateId'', [''VirtualMediaId'', ''CertificateId''], Checked ''CertificateV181Certificate'', [Patch]),
      (''VirtualMediaIdCertificatesCertificateIdActionsCertificateRekey'', [''VirtualMediaId'', ''CertificateId''], Checked ''CertificateV181RekeyRequestBody'', [Post]),
      (''VirtualMediaIdCertificatesCertificateIdActionsCertificateRenew'', [''VirtualMediaId'', ''CertificateId''], Checked ''CertificateV181RenewRequestBody'', [Post])]"

definition Controllers_ResourceBlocks_35e :: operations where
  "Controllers_ResourceBlocks_35e = ops op_root ''ResourceBlocksResourceBlockIdSystemsComputerSystemIdVirtualMedia'' [''ResourceBlockId'', ''ComputerSystemId'']
     [(''VirtualMediaIdClientCertificates'', [''VirtualMediaId''], Checked ''CertificateV181Certificate'', [Get, Post]),
      (''VirtualMediaIdClientCertificatesCertificateId'', [''VirtualMediaId'', ''CertificateId''], Bodiless, [Get])]"

definition Controllers_ResourceBlocks_35f :: operations where
  "Controllers_ResourceBlocks_35f = ops op_root ''ResourceBlocksResourceBlockIdSystemsComputerSystemIdVirtualMedia'' [''ResourceBlockId'', ''ComputerSystemId'']
     [(''VirtualMediaIdClientCertificatesCertificateId'', [''VirtualMediaId'', ''CertificateId''], Checked ''CertificateV181Certificate'', [Put, Delete, Patch])]"

definition Controllers_ResourceBlocks_35g :: operations where
  "Controllers_ResourceBlocks_35g = ops op_root ''ResourceBlocksResourceBlockIdSystemsComputerSystemIdVirtualMedia'' [''ResourceBlockId'', ''ComputerSystemId'']
     [(''VirtualMediaIdClientCertificatesCertificateIdActionsCertificateRekey'', [''VirtualMediaId'', ''CertificateId''], Checked ''CertificateV181RekeyRequestBody'', [Post]),
      (''VirtualMediaIdClientCertificatesCertificateIdActionsCertificateRenew'', [''VirtualMediaId'', ''CertificateId''], Checked ''CertificateV181RenewRequestBody'', [Post])]"

definition Controllers_ResourceBlocks_36a :: operations where
  "Controllers_ResourceBlocks_36a = ops op_root ''ResourceBlocksResourceBlockIdSystemsSystemIdFabricAdaptersFabricAdapterIdGenZ'' [''ResourceBlockId'', ''SystemId'', ''FabricAdapterId'']
     [(''REQVCAT'', [], Checked ''VcatEntryV102VcatEntry'', [Get, Post]),
      (''REQVCATVCATEntryId'', [''VCATEntryId''], Bodiless, [Get])]"

definition Controllers_ResourceBlocks_36b :: operations where
  "Controllers_ResourceBlocks_36b = ops op_root ''ResourceBlocksResourceBlockIdSystemsSystemIdFabricAdaptersFabricAdapterIdGenZ'' [''ResourceBlockId'', ''SystemId'', ''FabricAdapterId'']
     [(''REQVCATVCATEntryId'', [''VCATEntryId''], Checked ''VcatEntryV102VcatEntry'', [Put, Delete, Patch])]"

definition Controllers_ResourceBlocks_36c :: operations where
  "Controllers_ResourceBlocks_36c = ops op_root ''ResourceBlocksResourceBlockIdSystemsSystemIdFabricAdaptersFabricAdapterIdGenZ'' [''ResourceBlockId'', ''SystemId'', ''FabricAdapterId'']
     [(''RSPVCAT'', [], Checked ''VcatEntryV102VcatEntry'', [Get, Post]),
      (''RSPVCATVCATEntryId'', [''VCATEntryId''], Bodiless, [Get])]"

definition Controllers_ResourceBlocks_36d :: operations where
  "Controllers_ResourceBlocks_36d = ops op_root ''ResourceBlocksResourceBlockIdSystemsSystemIdFabricAdaptersFabricAdapterIdGenZ'' [''ResourceBlockId'', ''SystemId'', ''FabricAdapterId'']
     [(''RSPVCATVCATEntryId'', [''VCATEntryId''], Checked ''VcatEntryV102VcatEntry'', [Put, Delete, Patch])]"

definition Controllers_ResourceBlocks_37a :: operations where
  "Controllers_ResourceBlocks_37a = ops op_root ''ResourceBlocksResourceBlockIdSystemsSystemIdFabricAdaptersFabricAdapterId'' [''ResourceBlockId'', ''SystemId'', ''FabricAdapterId'']
     [(''PortsPortIdGenZVCAT'', [''PortId''], Checked ''VcatEntryV102VcatEntry'', [Get, Post]),
      (''PortsPortIdGenZVCATVCATEntryId'', [''PortId'', ''VCATEntryId''], Bodiless, [Get])]"

definition Controllers_ResourceBlocks_37b :: operations where
  "Controllers_ResourceBlocks_37b = ops op_root ''ResourceBlocksResourceBlockIdSystemsSystemIdFabricAdaptersFabricAdapterId'' [''ResourceBlockId'', ''SystemId'', ''FabricAdapterId'']
     [(''PortsPortIdGenZVCATVCATEntryId'', [''PortId'', ''VCATEntryId''], Checked ''VcatEntryV102VcatEntry'', [Put, Delete, Patch])]"

definition Controllers_ResourceBlocks_37c :: operations where
  "Controllers_ResourceBlocks_37c = ops op_root ''ResourceBlocksResourceBlockIdSystemsSystemIdFabricAdaptersFabricAdapterId'' [''ResourceBlockId'', ''SystemId'', ''FabricAdapterId'']
     [(''PortsPortIdVCAT'', [''PortId''], Checked ''VcatEntryV102VcatEntry'', [Get, Post]),
      (''PortsPortIdVCATVCATEntryId'', [''PortId'', ''VCATEntryId''], Bodiless, [Get])]"

definition Controllers_ResourceBlocks_37d :: operations where
  "Controllers_ResourceBlocks_37d = ops op_root ''ResourceBlocksResourceBlockIdSystemsSystemIdFabricAdaptersFabricAdapterId'' [''ResourceBlockId'', ''SystemId'', ''FabricAdapterId'']
     [(''PortsPortIdVCATVCATEntryId'', [''PortId'', ''VCATEntryId''], Checked ''VcatEntryV102VcatEntry'', [Put, Delete, Patch])]"

definition Controllers_ResourceBlocks_37e :: operations where
  "Controllers_ResourceBlocks_37e = ops op_root ''ResourceBlocksResourceBlockIdSystemsSystemIdFabricAdaptersFabricAdapterId'' [''ResourceBlockId'', ''SystemId'', ''FabricAdapterId'']
     [(''REQVCAT'', [], Checked ''VcatEntryV102VcatEntry'', [Get, Post]),
      (''REQVCATVCATEntryId'', [''VCATEntryId''], Bodiless, [Get])]"

definition Controllers_ResourceBlocks_37f :: operations where
  "Controllers_ResourceBlocks_37f = ops op_root ''ResourceBlocksResourceBlockIdSystemsSystemIdFabricAdaptersFabricAdapterId'' [''ResourceBlockId'', ''SystemId'', ''FabricAdapterId'']
     [(''REQVCATVCATEntryId'', [''VCATEntryId''], Checked ''VcatEntryV102VcatEntry'', [Put, Delete, Patch])]"

definition Controllers_ResourceBlocks_37g :: operations where
  "Controllers_ResourceBlocks_37g = ops op_root ''ResourceBlocksResourceBlockIdSystemsSystemIdFabricAdaptersFabricAdapterId'' [''ResourceBlockId'', ''SystemId'', ''FabricAdapterId'']
     [(''RSPVCAT'', [], Checked ''VcatEntryV102VcatEntry'', [Get, Post]),
      (''RSPVCATVCATEntryId'', [''VCATEntryId''], Bodiless, [Get])]"

definition Controllers_ResourceBlocks_37h :: operations where
  "Controllers_ResourceBlocks_37h = ops op_root ''ResourceBlocksResourceBlockIdSystemsSystemIdFabricAdaptersFabricAdapterId'' [''ResourceBlockId'', ''SystemId'', ''FabricAdapterId'']
     [(''RSPVCATVCATEntryId'', [''VCATEntryId''], Checked ''VcatEntryV102VcatEntry'', [Put, Delete, Patch])]"

definition block_operations :: operations where
  "block_operations = concat
     [concat [Controllers_ResourceBlocks_1a],
      concat [Controllers_ResourceBlocks_2a, Controllers_ResourceBlocks_2b, Controllers_ResourceBlocks_2c,
        Controllers_ResourceBlocks_2d, Controllers_ResourceBlocks_2e, Controllers_ResourceBlocks_2f],
      concat [Controllers_ResourceBlocks_3a, Controllers_ResourceBlocks_3b, Controllers_ResourceBlocks_3c],
      concat [Controllers_ResourceBlocks_4a, Controllers_ResourceBlocks_4b, Controllers_ResourceBlocks_4c,
        Controllers_ResourceBlocks_4d, Controllers_ResourceBlocks_4e, Controllers_ResourceBlocks_4f,
        Controllers_ResourceBlocks_4g, Controllers_ResourceBlocks_4h],
      concat [Controllers_ResourceBlocks_5a, Controllers_ResourceBlocks_5b, Controllers_ResourceBlocks_5c],
      concat [Controllers_ResourceBlocks_6a, Controllers_ResourceBlocks_6b, Controllers_ResourceBlocks_6c,
        Controllers_ResourceBlocks_6d, Controllers_ResourceBlocks_6e, Controllers_ResourceBlocks_6f,
        Controllers_ResourceBlocks_6g, Controllers_ResourceBlocks_6h],
      concat [Controllers_ResourceBlocks_7a, Controllers_ResourceBlocks_7b, Controllers_ResourceBlocks_7c],
      concat [Controllers_ResourceBlocks_8a, Controllers_ResourceBlocks_8b, Controllers_ResourceBlocks_8c,
        Controllers_ResourceBlocks_8d, Controllers_ResourceBlocks_8e, Controllers_ResourceBlocks_8f,
        Controllers_ResourceBlocks_8g],
      concat [Controllers_ResourceBlocks_9a, Controllers_ResourceBlocks_9b],
      concat [Controllers_ResourceBlocks_10a, Controllers_ResourceBlocks_10b, Controllers_ResourceBlocks_10c,
        Controllers_ResourceBlocks_10d],
      concat [Controllers_ResourceBlocks_11a, Controllers_ResourceBlocks_11b, Controllers_ResourceBlocks_11c,
        Controllers_ResourceBlocks_11d, Controllers_ResourceBlocks_11e, Controllers_ResourceBlocks_11f,
        Controllers_ResourceBlocks_11g, Controllers_ResourceBlocks_11h],
      concat [Controllers_ResourceBlocks_12a, Controllers_ResourceBlocks_12b, Controllers_ResourceBlocks_12c,
        Controllers_ResourceBlocks_12d, Controllers_ResourceBlocks_12e, Controllers_ResourceBlocks_12f,
        Controllers_ResourceBlocks_12g],
      concat [Controllers_ResourceBlocks_13a, Controllers_ResourceBlocks_13b, Controllers_ResourceBlocks_13c,
        Controllers_ResourceBlocks_13d, Controllers_ResourceBlocks_13e, Controllers_ResourceBlocks_13f,
        Controllers_ResourceBlocks_13g, Controllers_ResourceBlocks_13h],
      concat [Controllers_ResourceBlocks_14a, Controllers_ResourceBlocks_14b, Controllers_ResourceBlocks_14c,
        Controllers_ResourceBlocks_14d, Controllers_ResourceBlocks_14e, Controllers_ResourceBlocks_14f],
      concat [Controllers_ResourceBlocks_15a, Controllers_ResourceBlocks_15b, Controllers_ResourceBlocks_15c,
        Controllers_ResourceBlocks_15d, Controllers_ResourceBlocks_15e, Controllers_ResourceBlocks_15f,
        Controllers_ResourceBlocks_15g, Controllers_ResourceBlocks_15h],
      concat [Controllers_ResourceBlocks_16a, Controllers_ResourceBlocks_16b, Controllers_ResourceBlocks_16c,
        Controllers_ResourceBlocks_16d, Controllers_ResourceBlocks_16e, Controllers_ResourceBlocks_16f],
      concat [Controllers_ResourceBlocks_17a, Controllers_ResourceBlocks_17b, Controllers_ResourceBlocks_17c,
        Controllers_ResourceBlocks_17d, Controllers_ResourceBlocks_17e, Controllers_ResourceBlocks_17f,
        Controllers_ResourceBlocks_17g],
      concat [Controllers_ResourceBlocks_18a, Controllers_ResourceBlocks_18b, Controllers_ResourceBlocks_18c,
        Controllers_ResourceBlocks_18d, Controllers_ResourceBlocks_18e, Controllers_ResourceBlocks_18f,
        Controllers_ResourceBlocks_18g, Controllers_ResourceBlocks_18h, Controllers_ResourceBlocks_18i,
        Controllers_ResourceBlocks_18j],
      concat [Controllers_ResourceBlocks_19a, Controllers_ResourceBlocks_19b, Controllers_ResourceBlocks_19c,
        Controllers_ResourceBlocks_19d],
      concat [Controllers_ResourceBlocks_20a, Controllers_ResourceBlocks_20b, Controllers_ResourceBlocks_20c,
        Controllers_ResourceBlocks_20d],
      concat [Controllers_ResourceBlocks_21a, Controllers_ResourceBlocks_21b, Controllers_ResourceBlocks_21c,
        Controllers_ResourceBlocks_21d, Controllers_ResourceBlocks_21e, Controllers_ResourceBlocks_21f,
        Controllers_ResourceBlocks_21g],
      concat [Controllers_ResourceBlocks_22a, Controllers_ResourceBlocks_22b, Controllers_ResourceBlocks_22c,
        Controllers_ResourceBlocks_22d, Controllers_ResourceBlocks_22e, Controllers_ResourceBlocks_22f,
        Controllers_ResourceBlocks_22g, Controllers_ResourceBlocks_22h, Controllers_ResourceBlocks_22i,
        Controllers_ResourceBlocks_22j],
      concat [Controllers_ResourceBlocks_23a, Controllers_ResourceBlocks_23b, Controllers_ResourceBlocks_23c,
        Controllers_ResourceBlocks_23d, Controllers_ResourceBlocks_23e, Controllers_ResourceBlocks_23f],
      concat [Controllers_ResourceBlocks_24a, Controllers_ResourceBlocks_24b, Controllers_ResourceBlocks_24c,
        Controllers_ResourceBlocks_24d],
      concat [Controllers_ResourceBlocks_25a, Controllers_ResourceBlocks_25b, Controllers_ResourceBlocks_25c,
        Controllers_ResourceBlocks_25d, Controllers_ResourceBlocks_25e, Controllers_ResourceBlocks_25f,
        Controllers_ResourceBlocks_25g],
      concat [Controllers_ResourceBlocks_26a, Controllers_ResourceBlocks_26b, Controllers_ResourceBlocks_26c,
        Controllers_ResourceBlocks_26d, Controllers_ResourceBlocks_26e, Controllers_ResourceBlocks_26f,
        Controllers_ResourceBlocks_26g, Controllers_ResourceBlocks_26h, Controllers_ResourceBlocks_26i,
        Controllers_ResourceBlocks_26j],
      concat [Controllers_ResourceBlocks_27a, Controllers_ResourceBlocks_27b, Controllers_ResourceBlocks_27c,
        Controllers_ResourceBlocks_27d, Controllers_ResourceBlocks_27e, Controllers_ResourceBlocks_27f,
        Controllers_ResourceBlocks_27g, Controllers_ResourceBlocks_27h],
      concat [Controllers_ResourceBlocks_28a, Controllers_ResourceBlocks_28b, Controllers_ResourceBlocks_28c,
        Controllers_ResourceBlocks_28d, Controllers_ResourceBlocks_28e, Controllers_ResourceBlocks_28f,
        Controllers_ResourceBlocks_28g, Controllers_ResourceBlocks_28h],
      concat [Controllers_ResourceBlocks_29a, Controllers_ResourceBlocks_29b, Controllers_ResourceBlocks_29c,
        Controllers_ResourceBlocks_29d, Controllers_ResourceBlocks_29e],
      concat [Controllers_ResourceBlocks_30a, Controllers_ResourceBlocks_30b, Controllers_ResourceBlocks_30c,
        Controllers_ResourceBlocks_30d, Controllers_ResourceBlocks_30e, Controllers_ResourceBlocks_30f,
        Controllers_ResourceBlocks_30g, Controllers_ResourceBlocks_30h],
      concat [Controllers_ResourceBlocks_31a, Controllers_ResourceBlocks_31b, Controllers_ResourceBlocks_31c,
        Controllers_ResourceBlocks_31d, Controllers_ResourceBlocks_31e, Controllers_ResourceBlocks_31f,
        Controllers_ResourceBlocks_31g, Controllers_ResourceBlocks_31h],
      concat [Controllers_ResourceBlocks_32a, Controllers_ResourceBlocks_32b, Controllers_ResourceBlocks_32c,
        Controllers_ResourceBlocks_32d, Controllers_ResourceBlocks_32e, Controllers_ResourceBlocks_32f,
        Controllers_ResourceBlocks_32g, Controllers_ResourceBlocks_32h],
      concat [Controllers_ResourceBlocks_33a, Controllers_ResourceBlocks_33b, Controllers_ResourceBlocks_33c,
        Controllers_ResourceBlocks_33d, Controllers_ResourceBlocks_33e, Controllers_ResourceBlocks_33f],
      concat [Controllers_ResourceBlocks_34a, Controllers_ResourceBlocks_34b, Controllers_ResourceBlocks_34c,
        Controllers_ResourceBlocks_34d],
      concat [Controllers_ResourceBlocks_35a, Controllers_ResourceBlocks_35b, Controllers_ResourceBlocks_35c,
        Controllers_ResourceBlocks_35d, Controllers_ResourceBlocks_35e, Controllers_ResourceBlocks_35f,
        Controllers_ResourceBlocks_35g],
      concat [Controllers_ResourceBlocks_36a, Controllers_ResourceBlocks_36b, Controllers_ResourceBlocks_36c,
        Controllers_ResourceBlocks_36d],
      concat [Controllers_ResourceBlocks_37a, Controllers_ResourceBlocks_37b, Controllers_ResourceBlocks_37c,
        Controllers_ResourceBlocks_37d, Controllers_ResourceBlocks_37e, Controllers_ResourceBlocks_37f,
        Controllers_ResourceBlocks_37g, Controllers_ResourceBlocks_37h]]"

lemma ResourceBlocks_1_aligned:
  "aligned Routes_ResourceBlocks_1
     (concat [Controllers_ResourceBlocks_1a])"
  unfolding Routes_ResourceBlocks_1_def Controllers_ResourceBlocks_1a_def
  by (rule aligning)+

lemma ResourceBlocks_2_aligned:
  "aligned Routes_ResourceBlocks_2
     (concat [Controllers_ResourceBlocks_2a, Controllers_ResourceBlocks_2b, Controllers_ResourceBlocks_2c,
        Controllers_ResourceBlocks_2d, Controllers_ResourceBlocks_2e, Controllers_ResourceBlocks_2f])"
  unfolding Routes_ResourceBlocks_2_def Controllers_ResourceBlocks_2a_def Controllers_ResourceBlocks_2b_def
    Controllers_ResourceBlocks_2c_def Controllers_ResourceBlocks_2d_def
    Controllers_ResourceBlocks_2e_def Controllers_ResourceBlocks_2f_def
  by (rule aligning)+

lemma ResourceBlocks_3_aligned:
  "aligned Routes_ResourceBlocks_3
     (concat [Controllers_ResourceBlocks_3a, Controllers_ResourceBlocks_3b, Controllers_ResourceBlocks_3c])"
  unfolding Routes_ResourceBlocks_3_def Controllers_ResourceBlocks_3a_def Controllers_ResourceBlocks_3b_def
    Controllers_ResourceBlocks_3c_def
  by (rule aligning)+

lemma ResourceBlocks_4_aligned:
  "aligned Routes_ResourceBlocks_4
     (concat [Controllers_ResourceBlocks_4a, Controllers_ResourceBlocks_4b, Controllers_ResourceBlocks_4c,
        Controllers_ResourceBlocks_4d, Controllers_ResourceBlocks_4e, Controllers_ResourceBlocks_4f,
        Controllers_ResourceBlocks_4g, Controllers_ResourceBlocks_4h])"
  unfolding Routes_ResourceBlocks_4_def Controllers_ResourceBlocks_4a_def Controllers_ResourceBlocks_4b_def
    Controllers_ResourceBlocks_4c_def Controllers_ResourceBlocks_4d_def
    Controllers_ResourceBlocks_4e_def Controllers_ResourceBlocks_4f_def
    Controllers_ResourceBlocks_4g_def Controllers_ResourceBlocks_4h_def
  by (rule aligning)+

lemma ResourceBlocks_5_aligned:
  "aligned Routes_ResourceBlocks_5
     (concat [Controllers_ResourceBlocks_5a, Controllers_ResourceBlocks_5b, Controllers_ResourceBlocks_5c])"
  unfolding Routes_ResourceBlocks_5_def Controllers_ResourceBlocks_5a_def Controllers_ResourceBlocks_5b_def
    Controllers_ResourceBlocks_5c_def
  by (rule aligning)+

lemma ResourceBlocks_6_aligned:
  "aligned Routes_ResourceBlocks_6
     (concat [Controllers_ResourceBlocks_6a, Controllers_ResourceBlocks_6b, Controllers_ResourceBlocks_6c,
        Controllers_ResourceBlocks_6d, Controllers_ResourceBlocks_6e, Controllers_ResourceBlocks_6f,
        Controllers_ResourceBlocks_6g, Controllers_ResourceBlocks_6h])"
  unfolding Routes_ResourceBlocks_6_def Controllers_ResourceBlocks_6a_def Controllers_ResourceBlocks_6b_def
    Controllers_ResourceBlocks_6c_def Controllers_ResourceBlocks_6d_def
    Controllers_ResourceBlocks_6e_def Controllers_ResourceBlocks_6f_def
    Controllers_ResourceBlocks_6g_def Controllers_ResourceBlocks_6h_def
  by (rule aligning)+

lemma ResourceBlocks_7_aligned:
  "aligned Routes_ResourceBlocks_7
     (concat [Controllers_ResourceBlocks_7a, Controllers_ResourceBlocks_7b, Controllers_ResourceBlocks_7c])"
  unfolding Routes_ResourceBlocks_7_def Controllers_ResourceBlocks_7a_def Controllers_ResourceBlocks_7b_def
    Controllers_ResourceBlocks_7c_def
  by (rule aligning)+

lemma ResourceBlocks_8_aligned:
  "aligned Routes_ResourceBlocks_8
     (concat [Controllers_ResourceBlocks_8a, Controllers_ResourceBlocks_8b, Controllers_ResourceBlocks_8c,
        Controllers_ResourceBlocks_8d, Controllers_ResourceBlocks_8e, Controllers_ResourceBlocks_8f,
        Controllers_ResourceBlocks_8g])"
  unfolding Routes_ResourceBlocks_8_def Controllers_ResourceBlocks_8a_def Controllers_ResourceBlocks_8b_def
    Controllers_ResourceBlocks_8c_def Controllers_ResourceBlocks_8d_def
    Controllers_ResourceBlocks_8e_def Controllers_ResourceBlocks_8f_def
    Controllers_ResourceBlocks_8g_def
  by (rule aligning)+

lemma ResourceBlocks_9_aligned:
  "aligned Routes_ResourceBlocks_9
     (concat [Controllers_ResourceBlocks_9a, Controllers_ResourceBlocks_9b])"
  unfolding Routes_ResourceBlocks_9_def Controllers_ResourceBlocks_9a_def Controllers_ResourceBlocks_9b_def
  by (rule aligning)+

lemma ResourceBlocks_10_aligned:
  "aligned Routes_ResourceBlocks_10
     (concat [Controllers_ResourceBlocks_10a, Controllers_ResourceBlocks_10b, Controllers_ResourceBlocks_10c,
        Controllers_ResourceBlocks_10d])"
  unfolding Routes_ResourceBlocks_10_def Controllers_ResourceBlocks_10a_def Controllers_ResourceBlocks_10b_def
    Controllers_ResourceBlocks_10c_def Controllers_ResourceBlocks_10d_def
  by (rule aligning)+

lemma ResourceBlocks_11_aligned:
  "aligned Routes_ResourceBlocks_11
     (concat [Controllers_ResourceBlocks_11a, Controllers_ResourceBlocks_11b, Controllers_ResourceBlocks_11c,
        Controllers_ResourceBlocks_11d, Controllers_ResourceBlocks_11e, Controllers_ResourceBlocks_11f,
        Controllers_ResourceBlocks_11g, Controllers_ResourceBlocks_11h])"
  unfolding Routes_ResourceBlocks_11_def Controllers_ResourceBlocks_11a_def Controllers_ResourceBlocks_11b_def
    Controllers_ResourceBlocks_11c_def Controllers_ResourceBlocks_11d_def
    Controllers_ResourceBlocks_11e_def Controllers_ResourceBlocks_11f_def
    Controllers_ResourceBlocks_11g_def Controllers_ResourceBlocks_11h_def
  by (rule aligning)+

lemma ResourceBlocks_12_aligned:
  "aligned Routes_ResourceBlocks_12
     (concat [Controllers_ResourceBlocks_12a, Controllers_ResourceBlocks_12b, Controllers_ResourceBlocks_12c,
        Controllers_ResourceBlocks_12d, Controllers_ResourceBlocks_12e, Controllers_ResourceBlocks_12f,
        Controllers_ResourceBlocks_12g])"
  unfolding Routes_ResourceBlocks_12_def Controllers_ResourceBlocks_12a_def Controllers_ResourceBlocks_12b_def
    Controllers_ResourceBlocks_12c_def Controllers_ResourceBlocks_12d_def
    Controllers_ResourceBlocks_12e_def Controllers_ResourceBlocks_12f_def
    Controllers_ResourceBlocks_12g_def
  by (rule aligning)+

lemma ResourceBlocks_13_aligned:
  "aligned Routes_ResourceBlocks_13
     (concat [Controllers_ResourceBlocks_13a, Controllers_ResourceBlocks_13b, Controllers_ResourceBlocks_13c,
        Controllers_ResourceBlocks_13d, Controllers_ResourceBlocks_13e, Controllers_ResourceBlocks_13f,
        Controllers_ResourceBlocks_13g, Controllers_ResourceBlocks_13h])"
  unfolding Routes_ResourceBlocks_13_def Controllers_ResourceBlocks_13a_def Controllers_ResourceBlocks_13b_def
    Controllers_ResourceBlocks_13c_def Controllers_ResourceBlocks_13d_def
    Controllers_ResourceBlocks_13e_def Controllers_ResourceBlocks_13f_def
    Controllers_ResourceBlocks_13g_def Controllers_ResourceBlocks_13h_def
  by (rule aligning)+

lemma ResourceBlocks_14_aligned:
  "aligned Routes_ResourceBlocks_14
     (concat [Controllers_ResourceBlocks_14a, Controllers_ResourceBlocks_14b, Controllers_ResourceBlocks_14c,
        Controllers_ResourceBlocks_14d, Controllers_ResourceBlocks_14e, Controllers_ResourceBlocks_14f])"
  unfolding Routes_ResourceBlocks_14_def Controllers_ResourceBlocks_14a_def Controllers_ResourceBlocks_14b_def
    Controllers_ResourceBlocks_14c_def Controllers_ResourceBlocks_14d_def
    Controllers_ResourceBlocks_14e_def Controllers_ResourceBlocks_14f_def
  by (rule aligning)+

lemma ResourceBlocks_15_aligned:
  "aligned Routes_ResourceBlocks_15
     (concat [Controllers_ResourceBlocks_15a, Controllers_ResourceBlocks_15b, Controllers_ResourceBlocks_15c,
        Controllers_ResourceBlocks_15d, Controllers_ResourceBlocks_15e, Controllers_ResourceBlocks_15f,
        Controllers_ResourceBlocks_15g, Controllers_ResourceBlocks_15h])"
  unfolding Routes_ResourceBlocks_15_def Controllers_ResourceBlocks_15a_def Controllers_ResourceBlocks_15b_def
    Controllers_ResourceBlocks_15c_def Controllers_ResourceBlocks_15d_def
    Controllers_ResourceBlocks_15e_def Controllers_ResourceBlocks_15f_def
    Controllers_ResourceBlocks_15g_def Controllers_ResourceBlocks_15h_def
  by (rule aligning)+

lemma ResourceBlocks_16_aligned:
  "aligned Routes_ResourceBlocks_16
     (concat [Controllers_ResourceBlocks_16a, Controllers_ResourceBlocks_16b, Controllers_ResourceBlocks_16c,
        Controllers_ResourceBlocks_16d, Controllers_ResourceBlocks_16e, Controllers_ResourceBlocks_16f])"
  unfolding Routes_ResourceBlocks_16_def Controllers_ResourceBlocks_16a_def Controllers_ResourceBlocks_16b_def
    Controllers_ResourceBlocks_16c_def Controllers_ResourceBlocks_16d_def
    Controllers_ResourceBlocks_16e_def Controllers_ResourceBlocks_16f_def
  by (rule aligning)+

lemma ResourceBlocks_17_aligned:
  "aligned Routes_ResourceBlocks_17
     (concat [Controllers_ResourceBlocks_17a, Controllers_ResourceBlocks_17b, Controllers_ResourceBlocks_17c,
        Controllers_ResourceBlocks_17d, Controllers_ResourceBlocks_17e, Controllers_ResourceBlocks_17f,
        Controllers_ResourceBlocks_17g])"
  unfolding Routes_ResourceBlocks_17_def Controllers_ResourceBlocks_17a_def Controllers_ResourceBlocks_17b_def
    Controllers_ResourceBlocks_17c_def Controllers_ResourceBlocks_17d_def
    Controllers_ResourceBlocks_17e_def Controllers_ResourceBlocks_17f_def
    Controllers_ResourceBlocks_17g_def
  by (rule aligning)+

lemma ResourceBlocks_18_aligned:
  "aligned Routes_ResourceBlocks_18
     (concat [Controllers_ResourceBlocks_18a, Controllers_ResourceBlocks_18b, Controllers_ResourceBlocks_18c,
        Controllers_ResourceBlocks_18d, Controllers_ResourceBlocks_18e, Controllers_ResourceBlocks_18f,
        Controllers_ResourceBlocks_18g, Controllers_ResourceBlocks_18h, Controllers_ResourceBlocks_18i,
        Controllers_ResourceBlocks_18j])"
  unfolding Routes_ResourceBlocks_18_def Controllers_ResourceBlocks_18a_def Controllers_ResourceBlocks_18b_def
    Controllers_ResourceBlocks_18c_def Controllers_ResourceBlocks_18d_def
    Controllers_ResourceBlocks_18e_def Controllers_ResourceBlocks_18f_def
    Controllers_ResourceBlocks_18g_def Controllers_ResourceBlocks_18h_def
    Controllers_ResourceBlocks_18i_def Controllers_ResourceBlocks_18j_def
  by (rule aligning)+

lemma ResourceBlocks_19_aligned:
  "aligned Routes_ResourceBlocks_19
     (concat [Controllers_ResourceBlocks_19a, Controllers_ResourceBlocks_19b, Controllers_ResourceBlocks_19c,
        Controllers_ResourceBlocks_19d])"
  unfolding Routes_ResourceBlocks_19_def Controllers_ResourceBlocks_19a_def Controllers_ResourceBlocks_19b_def
    Controllers_ResourceBlocks_19c_def Controllers_ResourceBlocks_19d_def
  by (rule aligning)+

lemma ResourceBlocks_20_aligned:
  "aligned Routes_ResourceBlocks_20
     (concat [Controllers_ResourceBlocks_20a, Controllers_ResourceBlocks_20b, Controllers_ResourceBlocks_20c,
        Controllers_ResourceBlocks_20d])"
  unfolding Routes_ResourceBlocks_20_def Controllers_ResourceBlocks_20a_def Controllers_ResourceBlocks_20b_def
    Controllers_ResourceBlocks_20c_def Controllers_ResourceBlocks_20d_def
  by (rule aligning)+

lemma ResourceBlocks_21_aligned:
  "aligned Routes_ResourceBlocks_21
     (concat [Controllers_ResourceBlocks_21a, Controllers_ResourceBlocks_21b, Controllers_ResourceBlocks_21c,
        Controllers_ResourceBlocks_21d, Controllers_ResourceBlocks_21e, Controllers_ResourceBlocks_21f,
        Controllers_ResourceBlocks_21g])"
  unfolding Routes_ResourceBlocks_21_def Controllers_ResourceBlocks_21a_def Controllers_ResourceBlocks_21b_def
    Controllers_ResourceBlocks_21c_def Controllers_ResourceBlocks_21d_def
    Controllers_ResourceBlocks_21e_def Controllers_ResourceBlocks_21f_def
    Controllers_ResourceBlocks_21g_def
  by (rule aligning)+

lemma ResourceBlocks_22_aligned:
  "aligned Routes_ResourceBlocks_22
     (concat [Controllers_ResourceBlocks_22a, Controllers_ResourceBlocks_22b, Controllers_ResourceBlocks_22c,
        Controllers_ResourceBlocks_22d, Controllers_ResourceBlocks_22e, Controllers_ResourceBlocks_22f,
        Controllers_ResourceBlocks_22g, Controllers_ResourceBlocks_22h, Controllers_ResourceBlocks_22i,
        Controllers_ResourceBlocks_22j])"
  unfolding Routes_ResourceBlocks_22_def Controllers_ResourceBlocks_22a_def Controllers_ResourceBlocks_22b_def
    Controllers_ResourceBlocks_22c_def Controllers_ResourceBlocks_22d_def
    Controllers_ResourceBlocks_22e_def Controllers_ResourceBlocks_22f_def
    Controllers_ResourceBlocks_22g_def Controllers_ResourceBlocks_22h_def
    Controllers_ResourceBlocks_22i_def Controllers_ResourceBlocks_22j_def
  by (rule aligning)+

lemma ResourceBlocks_23_aligned:
  "aligned Routes_ResourceBlocks_23
     (concat [Controllers_ResourceBlocks_23a, Controllers_ResourceBlocks_23b, Controllers_ResourceBlocks_23c,
        Controllers_ResourceBlocks_23d, Controllers_ResourceBlocks_23e, Controllers_ResourceBlocks_23f])"
  unfolding Routes_ResourceBlocks_23_def Controllers_ResourceBlocks_23a_def Controllers_ResourceBlocks_23b_def
    Controllers_ResourceBlocks_23c_def Controllers_ResourceBlocks_23d_def
    Controllers_ResourceBlocks_23e_def Controllers_ResourceBlocks_23f_def
  by (rule aligning)+

lemma ResourceBlocks_24_aligned:
  "aligned Routes_ResourceBlocks_24
     (concat [Controllers_ResourceBlocks_24a, Controllers_ResourceBlocks_24b, Controllers_ResourceBlocks_24c,
        Controllers_ResourceBlocks_24d])"
  unfolding Routes_ResourceBlocks_24_def Controllers_ResourceBlocks_24a_def Controllers_ResourceBlocks_24b_def
    Controllers_ResourceBlocks_24c_def Controllers_ResourceBlocks_24d_def
  by (rule aligning)+

lemma ResourceBlocks_25_aligned:
  "aligned Routes_ResourceBlocks_25
     (concat [Controllers_ResourceBlocks_25a, Controllers_ResourceBlocks_25b, Controllers_ResourceBlocks_25c,
        Controllers_ResourceBlocks_25d, Controllers_ResourceBlocks_25e, Controllers_ResourceBlocks_25f,
        Controllers_ResourceBlocks_25g])"
  unfolding Routes_ResourceBlocks_25_def Controllers_ResourceBlocks_25a_def Controllers_ResourceBlocks_25b_def
    Controllers_ResourceBlocks_25c_def Controllers_ResourceBlocks_25d_def
    Controllers_ResourceBlocks_25e_def Controllers_ResourceBlocks_25f_def
    Controllers_ResourceBlocks_25g_def
  by (rule aligning)+

lemma ResourceBlocks_26_aligned:
  "aligned Routes_ResourceBlocks_26
     (concat [Controllers_ResourceBlocks_26a, Controllers_ResourceBlocks_26b, Controllers_ResourceBlocks_26c,
        Controllers_ResourceBlocks_26d, Controllers_ResourceBlocks_26e, Controllers_ResourceBlocks_26f,
        Controllers_ResourceBlocks_26g, Controllers_ResourceBlocks_26h, Controllers_ResourceBlocks_26i,
        Controllers_ResourceBlocks_26j])"
  unfolding Routes_ResourceBlocks_26_def Controllers_ResourceBlocks_26a_def Controllers_ResourceBlocks_26b_def
    Controllers_ResourceBlocks_26c_def Controllers_ResourceBlocks_26d_def
    Controllers_ResourceBlocks_26e_def Controllers_ResourceBlocks_26f_def
    Controllers_ResourceBlocks_26g_def Controllers_ResourceBlocks_26h_def
    Controllers_ResourceBlocks_26i_def Controllers_ResourceBlocks_26j_def
  by (rule aligning)+

lemma ResourceBlocks_27_aligned:
  "aligned Routes_ResourceBlocks_27
     (concat [Controllers_ResourceBlocks_27a, Controllers_ResourceBlocks_27b, Controllers_ResourceBlocks_27c,
        Controllers_ResourceBlocks_27d, Controllers_ResourceBlocks_27e, Controllers_ResourceBlocks_27f,
        Controllers_ResourceBlocks_27g, Controllers_ResourceBlocks_27h])"
  unfolding Routes_ResourceBlocks_27_def Controllers_ResourceBlocks_27a_def Controllers_ResourceBlocks_27b_def
    Controllers_ResourceBlocks_27c_def Controllers_ResourceBlocks_27d_def
    Controllers_ResourceBlocks_27e_def Controllers_ResourceBlocks_27f_def
    Controllers_ResourceBlocks_27g_def Controllers_ResourceBlocks_27h_def
  by (rule aligning)+

lemma ResourceBlocks_28_aligned:
  "aligned Routes_ResourceBlocks_28
     (concat [Controllers_ResourceBlocks_28a, Controllers_ResourceBlocks_28b, Controllers_ResourceBlocks_28c,
        Controllers_ResourceBlocks_28d, Controllers_ResourceBlocks_28e, Controllers_ResourceBlocks_28f,
        Controllers_ResourceBlocks_28g, Controllers_ResourceBlocks_28h])"
  unfolding Routes_ResourceBlocks_28_def Controllers_ResourceBlocks_28a_def Controllers_ResourceBlocks_28b_def
    Controllers_ResourceBlocks_28c_def Controllers_ResourceBlocks_28d_def
    Controllers_ResourceBlocks_28e_def Controllers_ResourceBlocks_28f_def
    Controllers_ResourceBlocks_28g_def Controllers_ResourceBlocks_28h_def
  by (rule aligning)+

lemma ResourceBlocks_29_aligned:
  "aligned Routes_ResourceBlocks_29
     (concat [Controllers_ResourceBlocks_29a, Controllers_ResourceBlocks_29b, Controllers_ResourceBlocks_29c,
        Controllers_ResourceBlocks_29d, Controllers_ResourceBlocks_29e])"
  unfolding Routes_ResourceBlocks_29_def Controllers_ResourceBlocks_29a_def Controllers_ResourceBlocks_29b_def
    Controllers_ResourceBlocks_29c_def Controllers_ResourceBlocks_29d_def
    Controllers_ResourceBlocks_29e_def
  by (rule aligning)+

lemma ResourceBlocks_30_aligned:
  "aligned Routes_ResourceBlocks_30
     (concat [Controllers_ResourceBlocks_30a, Controllers_ResourceBlocks_30b, Controllers_ResourceBlocks_30c,
        Controllers_ResourceBlocks_30d, Controllers_ResourceBlocks_30e, Controllers_ResourceBlocks_30f,
        Controllers_ResourceBlocks_30g, Controllers_ResourceBlocks_30h])"
  unfolding Routes_ResourceBlocks_30_def Controllers_ResourceBlocks_30a_def Controllers_ResourceBlocks_30b_def
    Controllers_ResourceBlocks_30c_def Controllers_ResourceBlocks_30d_def
    Controllers_ResourceBlocks_30e_def Controllers_ResourceBlocks_30f_def
    Controllers_ResourceBlocks_30g_def Controllers_ResourceBlocks_30h_def
  by (rule aligning)+

lemma ResourceBlocks_31_aligned:
  "aligned Routes_ResourceBlocks_31
     (concat [Controllers_ResourceBlocks_31a, Controllers_ResourceBlocks_31b, Controllers_ResourceBlocks_31c,
        Controllers_ResourceBlocks_31d, Controllers_ResourceBlocks_31e, Controllers_ResourceBlocks_31f,
        Controllers_ResourceBlocks_31g, Controllers_ResourceBlocks_31h])"
  unfolding Routes_ResourceBlocks_31_def Controllers_ResourceBlocks_31a_def Controllers_ResourceBlocks_31b_def
    Controllers_ResourceBlocks_31c_def Controllers_ResourceBlocks_31d_def
    Controllers_ResourceBlocks_31e_def Controllers_ResourceBlocks_31f_def
    Controllers_ResourceBlocks_31g_def Controllers_ResourceBlocks_31h_def
  by (rule aligning)+

lemma ResourceBlocks_32_aligned:
  "aligned Routes_ResourceBlocks_32
     (concat [Controllers_ResourceBlocks_32a, Controllers_ResourceBlocks_32b, Controllers_ResourceBlocks_32c,
        Controllers_ResourceBlocks_32d, Controllers_ResourceBlocks_32e, Controllers_ResourceBlocks_32f,
        Controllers_ResourceBlocks_32g, Controllers_ResourceBlocks_32h])"
  unfolding Routes_ResourceBlocks_32_def Controllers_ResourceBlocks_32a_def Controllers_ResourceBlocks_32b_def
    Controllers_ResourceBlocks_32c_def Controllers_ResourceBlocks_32d_def
    Controllers_ResourceBlocks_32e_def Controllers_ResourceBlocks_32f_def
    Controllers_ResourceBlocks_32g_def Controllers_ResourceBlocks_32h_def
  by (rule aligning)+

lemma ResourceBlocks_33_aligned:
  "aligned Routes_ResourceBlocks_33
     (concat [Controllers_ResourceBlocks_33a, Controllers_ResourceBlocks_33b, Controllers_ResourceBlocks_33c,
        Controllers_ResourceBlocks_33d, Controllers_ResourceBlocks_33e, Controllers_ResourceBlocks_33f])"
  unfolding Routes_ResourceBlocks_33_def Controllers_ResourceBlocks_33a_def Controllers_ResourceBlocks_33b_def
    Controllers_ResourceBlocks_33c_def Controllers_ResourceBlocks_33d_def
    Controllers_ResourceBlocks_33e_def Controllers_ResourceBlocks_33f_def
  by (rule aligning)+

lemma ResourceBlocks_34_aligned:
  "aligned Routes_ResourceBlocks_34
     (concat [Controllers_ResourceBlocks_34a, Controllers_ResourceBlocks_34b, Controllers_ResourceBlocks_34c,
        Controllers_ResourceBlocks_34d])"
  unfolding Routes_ResourceBlocks_34_def Controllers_ResourceBlocks_34a_def Controllers_ResourceBlocks_34b_def
    Controllers_ResourceBlocks_34c_def Controllers_ResourceBlocks_34d_def
  by (rule aligning)+

lemma ResourceBlocks_35_aligned:
  "aligned Routes_ResourceBlocks_35
     (concat [Controllers_ResourceBlocks_35a, Controllers_ResourceBlocks_35b, Controllers_ResourceBlocks_35c,
        Controllers_ResourceBlocks_35d, Controllers_ResourceBlocks_35e, Controllers_ResourceBlocks_35f,
        Controllers_ResourceBlocks_35g])"
  unfolding Routes_ResourceBlocks_35_def Controllers_ResourceBlocks_35a_def Controllers_ResourceBlocks_35b_def
    Controllers_ResourceBlocks_35c_def Controllers_ResourceBlocks_35d_def
    Controllers_ResourceBlocks_35e_def Controllers_ResourceBlocks_35f_def
    Controllers_ResourceBlocks_35g_def
  by (rule aligning)+

lemma ResourceBlocks_36_aligned:
  "aligned Routes_ResourceBlocks_36
     (concat [Controllers_ResourceBlocks_36a, Controllers_ResourceBlocks_36b, Controllers_ResourceBlocks_36c,
        Controllers_ResourceBlocks_36d])"
  unfolding Routes_ResourceBlocks_36_def Controllers_ResourceBlocks_36a_def Controllers_ResourceBlocks_36b_def
    Controllers_ResourceBlocks_36c_def Controllers_ResourceBlocks_36d_def
  by (rule aligning)+

lemma ResourceBlocks_37_aligned:
  "aligned Routes_ResourceBlocks_37
     (concat [Controllers_ResourceBlocks_37a, Controllers_ResourceBlocks_37b, Controllers_ResourceBlocks_37c,
        Controllers_ResourceBlocks_37d, Controllers_ResourceBlocks_37e, Controllers_ResourceBlocks_37f,
        Controllers_ResourceBlocks_37g, Controllers_ResourceBlocks_37h])"
  unfolding Routes_ResourceBlocks_37_def Controllers_ResourceBlocks_37a_def Controllers_ResourceBlocks_37b_def
    Controllers_ResourceBlocks_37c_def Controllers_ResourceBlocks_37d_def
    Controllers_ResourceBlocks_37e_def Controllers_ResourceBlocks_37f_def
    Controllers_ResourceBlocks_37g_def Controllers_ResourceBlocks_37h_def
  by (rule aligning)+

lemma block_aligned: "aligned block_routes block_operations"
  unfolding block_routes_def block_operations_def
  by (intro aligned_concat
    ResourceBlocks_1_aligned ResourceBlocks_2_aligned ResourceBlocks_3_aligned ResourceBlocks_4_aligned
    ResourceBlocks_5_aligned ResourceBlocks_6_aligned ResourceBlocks_7_aligned ResourceBlocks_8_aligned
    ResourceBlocks_9_aligned ResourceBlocks_10_aligned ResourceBlocks_11_aligned
    ResourceBlocks_12_aligned ResourceBlocks_13_aligned ResourceBlocks_14_aligned
    ResourceBlocks_15_aligned ResourceBlocks_16_aligned ResourceBlocks_17_aligned
    ResourceBlocks_18_aligned ResourceBlocks_19_aligned ResourceBlocks_20_aligned
    ResourceBlocks_21_aligned ResourceBlocks_22_aligned ResourceBlocks_23_aligned
    ResourceBlocks_24_aligned ResourceBlocks_25_aligned ResourceBlocks_26_aligned
    ResourceBlocks_27_aligned ResourceBlocks_28_aligned ResourceBlocks_29_aligned
    ResourceBlocks_30_aligned ResourceBlocks_31_aligned ResourceBlocks_32_aligned
    ResourceBlocks_33_aligned ResourceBlocks_34_aligned ResourceBlocks_35_aligned
    ResourceBlocks_36_aligned ResourceBlocks_37_aligned)

end
