(* ===== verification/RoutesSystems.thy ===== *)
theory RoutesSystems
  imports Routing
begin

text \<open>
  The entries of \<open>Routes\<close> (api_default.go) for the systems.  None shares its name with a served entry or
  takes a request from one, unless it is a served entry itself.
\<close>

definition Routes_Systems_1 :: Routes where
  "Routes_Systems_1 =
     under at_root ''Systems''
       [Lit ''Systems'']
       [('''', [], [Get, Post])]"

definition Routes_Systems_2 :: Routes where
  "Routes_Systems_2 =
     under at_system ''''
       []
       [('''', [], [Get, Put, Delete, Patch])]"

definition Routes_Systems_3 :: Routes where
  "Routes_Systems_3 =
     under at_system ''Actions''
       [Lit ''Actions'']
       [(''ComputerSystemAddResourceBlock'', [Lit ''ComputerSystem.AddResourceBlock''], [Post]),
        (''ComputerSystemDecommission'', [Lit ''ComputerSystem.Decommission''], [Post]),
        (''ComputerSystemRemoveResourceBlock'', [Lit ''ComputerSystem.RemoveResourceBlock''], [Post])]"

definition Routes_Systems_4 :: Routes where
  "Routes_Systems_4 =
     under at_system ''ActionsComputerSystemReset''
       [Lit ''Actions'', Lit ''ComputerSystem.Reset'']
       [('''', [], [Post])]"

definition Routes_Systems_5 :: Routes where
  "Routes_Systems_5 =
     under at_system ''ActionsComputerSystemSetDefaultBootOrder''
       [Lit ''Actions'', Lit ''ComputerSystem.SetDefaultBootOrder'']
       [('''', [], [Post])]"

definition Routes_Systems_6 :: Routes where
  "Routes_Systems_6 =
     under at_system ''''
       []
       [(''Bios'', [Lit ''Bios''], [Get, Put, Patch]),
        (''BiosActionsBiosChangePassword'', [Lit ''Bios'', Lit ''Actions'', Lit ''Bios.ChangePassword''], [Post]),
        (''BiosActionsBiosResetBios'', [Lit ''Bios'', Lit ''Actions'', Lit ''Bios.ResetBios''], [Post]),
        (''BootCertificates'', [Lit ''Boot'', Lit ''Certificates''], [Get, Post]),
        (''BootCertificatesCertificateId'', [Lit ''Boot'', Lit ''Certificates'', Var ''CertificateId''], [Get, Put, Delete, Patch]),
        (''BootCertificatesCertificateIdActionsCertificateRekey'', [Lit ''Boot'', Lit ''Certificates'', Var ''CertificateId'', Lit ''Actions'', Lit ''Certificate.Rekey''], [Post]),
        (''BootCertificatesCertificateIdActionsCertificateRenew'', [Lit ''Boot'', Lit ''Certificates'', Var ''CertificateId'', Lit ''Actions'', Lit ''Certificate.Renew''], [Post]),
        (''BootOptions'', [Lit ''BootOptions''], [Get, Post]),
        (''BootOptionsBootOptionId'', [Lit ''BootOptions'', Var ''BootOptionId''], [Get, Put, Delete, Patch])]"

definition Routes_Systems_7 :: Routes where
  "Routes_Systems_7 =
     under at_system ''''
       []
       [(''Certificates'', [Lit ''Certificates''], [Get, Post]),
        (''CertificatesCertificateId'', [Lit ''Certificates'', Var ''CertificateId''], [Get, Put, Delete, Patch]),
        (''CertificatesCertificateIdActionsCertificateRekey'', [Lit ''Certificates'', Var ''CertificateId'', Lit ''Actions'', Lit ''Certificate.Rekey''], [Post]),
        (''CertificatesCertificateIdActionsCertificateRenew'', [Lit ''Certificates'', Var ''CertificateId'', Lit ''Actions'', Lit ''Certificate.Renew''], [Post]),
        (''EthernetInterfaces'', [Lit ''EthernetInterfaces''], [Get, Post]),
        (''EthernetInterfacesEthernetInterfaceId'', [Lit ''EthernetInterfaces'', Var ''EthernetInterfaceId''], [Get, Put, Delete, Patch]),
        (''EthernetInterfacesEthernetInterfaceIdVLANs'', [Lit ''EthernetInterfaces'', Var ''EthernetInterfaceId'', Lit ''VLANs''], [Get, Post]),
        (''EthernetInterfacesEthernetInterfaceIdVLANsVLanNetworkInterfaceId'', [Lit ''EthernetInterfaces'', Var ''EthernetInterfaceId'', Lit ''VLANs'', Var ''VLanNetworkInterfaceId''], [Get, Put, Delete, Patch]),
        (''FabricAdapters'', [Lit ''FabricAdapters''], [Get])]"

definition Routes_Systems_8 :: Routes where
  "Routes_Systems_8 =
     under at_system ''FabricAdaptersFabricAdapterId''
       [Lit ''FabricAdapters'', Var ''FabricAdapterId'']
       [('''', [], [Get, Put, Patch]),
        (''GenZMSDT'', [Lit ''GenZ'', Lit ''MSDT''], [Get, Post]),
        (''GenZMSDTMSDTId'', [Lit ''GenZ'', Lit ''MSDT'', Var ''MSDTId''], [Get, Put, Delete, Patch]),
        (''GenZSSDT'', [Lit ''GenZ'', Lit ''SSDT''], [Get, Post]),
        (''GenZSSDTSSDTId'', [Lit ''GenZ'', Lit ''SSDT'', Var ''SSDTId''], [Get, Put, Delete, Patch]),
        (''MSDT'', [Lit ''MSDT''], [Get, Post]),
        (''MSDTMSDTId'', [Lit ''MSDT'', Var ''MSDTId''], [Get, Put, Delete, Patch]),
        (''MSDTMSDTIdRouteSet'', [Lit ''MSDT'', Var ''MSDTId'', Lit ''RouteSet''], [Get, Post]),
        (''MSDTMSDTIdRouteSetRouteId'', [Lit ''MSDT'', Var ''MSDTId'', Lit ''RouteSet'', Var ''RouteId''], [Get, Put, Delete, Patch]),
        (''Ports'', [Lit ''Ports''], [Get])]"

definition Routes_Systems_9 :: Routes where
  "Routes_Systems_9 =
     under at_system ''FabricAdaptersFabricAdapterIdPortsPortId''
       [Lit ''FabricAdapters'', Var ''FabricAdapterId'', Lit ''Ports'', Var ''PortId'']
       [('''', [], [Get, Put, Patch]),
        (''ActionsPortReset'', [Lit ''Actions'', Lit ''Port.Reset''], [Post]),
        (''ActionsPortResetPPB'', [Lit ''Actions'', Lit ''Port.ResetPPB''], [Post]),
        (''EnvironmentMetrics'', [Lit ''EnvironmentMetrics''], [Get, Put, Patch]),
        (''EnvironmentMetricsActionsEnvironmentMetricsResetMetrics'', [Lit ''EnvironmentMetrics'', Lit ''Actions'', Lit ''EnvironmentMetrics.ResetMetrics''], [Post]),
        (''EnvironmentMetricsActionsEnvironmentMetricsResetToDefaults'', [Lit ''EnvironmentMetrics'', Lit ''Actions'', Lit ''EnvironmentMetrics.ResetToDefaults''], [Post]),
        (''GenZLPRT'', [Lit ''GenZ'', Lit ''LPRT''], [Get, Post]),
        (''GenZLPRTLPRTId'', [Lit ''GenZ'', Lit ''LPRT'', Var ''LPRTId''], [Get, Put, Delete, Patch]),
        (''GenZMPRT'', [Lit ''GenZ'', Lit ''MPRT''], [Get, Post]),
        (''GenZMPRTMPRTId'', [Lit ''GenZ'', Lit ''MPRT'', Var ''MPRTId''], [Get, Put, Delete, Patch]),
        (''LPRT'', [Lit ''LPRT''], [Get, Post]),
        (''LPRTLPRTId'', [Lit ''LPRT'', Var ''LPRTId''], [Get, Put, Delete, Patch]),
        (''LPRTLPRTIdRouteSet'', [Lit ''LPRT'', Var ''LPRTId'', Lit ''RouteSet''], [Get, Post])]"

definition Routes_Systems_10 :: Routes where
  "Routes_Systems_10 =
     under at_system ''FabricAdaptersFabricAdapterId''
       [Lit ''FabricAdapters'', Var ''FabricAdapterId'']
       [(''PortsPortIdLPRTLPRTIdRouteSetRouteId'', [Lit ''Ports'', Var ''PortId'', Lit ''LPRT'', Var ''LPRTId'', Lit ''RouteSet'', Var ''RouteId''], [Get, Put, Delete, Patch]),
        (''PortsPortIdMPRT'', [Lit ''Ports'', Var ''PortId'', Lit ''MPRT''], [Get, Post]),
        (''PortsPortIdMPRTMPRTId'', [Lit ''Ports'', Var ''PortId'', Lit ''MPRT'', Var ''MPRTId''], [Get, Put, Delete, Patch]),
        (''PortsPortIdMPRTMPRTIdRouteSet'', [Lit ''Ports'', Var ''PortId'', Lit ''MPRT'', Var ''MPRTId'', Lit ''RouteSet''], [Get, Post]),
        (''PortsPortIdMPRTMPRTIdRouteSetRouteId'', [Lit ''Ports'', Var ''PortId'', Lit ''MPRT'', Var ''MPRTId'', Lit ''RouteSet'', Var ''RouteId''], [Get, Put, Delete, Patch]),
        (''PortsPortIdMetrics'', [Lit ''Ports'', Var ''PortId'', Lit ''Metrics''], [Get]),
        (''SSDT'', [Lit ''SSDT''], [Get, Post]),
        (''SSDTSSDTId'', [Lit ''SSDT'', Var ''SSDTId''], [Get, Put, Delete, Patch]),
        (''SSDTSSDTIdRouteSet'', [Lit ''SSDT'', Var ''SSDTId'', Lit ''RouteSet''], [Get, Post]),
        (''SSDTSSDTIdRouteSetRouteId'', [Lit ''SSDT'', Var ''SSDTId'', Lit ''RouteSet'', Var ''RouteId''], [Get, Put, Delete, Patch])]"

definition Routes_Systems_11 :: Routes where
  "Routes_Systems_11 =
     under at_system ''GraphicsControllers''
       [Lit ''GraphicsControllers'']
       [('''', [], [Get]),
        (''ControllerId'', [Var ''ControllerId''], [Get, Put, Delete, Patch]),
        (''ControllerIdPorts'', [Var ''ControllerId'', Lit ''Ports''], [Get]),
        (''ControllerIdPortsPortId'', [Var ''ControllerId'', Lit ''Ports'', Var ''PortId''], [Get, Put, Patch]),
        (''ControllerIdPortsPortIdActionsPortReset'', [Var ''ControllerId'', Lit ''Ports'', Var ''PortId'', Lit ''Actions'', Lit ''Port.Reset''], [Post]),
        (''ControllerIdPortsPortIdActionsPortResetPPB'', [Var ''ControllerId'', Lit ''Ports'', Var ''PortId'', Lit ''Actions'', Lit ''Port.ResetPPB''], [Post]),
        (''ControllerIdPortsPortIdEnvironmentMetrics'', [Var ''ControllerId'', Lit ''Ports'', Var ''PortId'', Lit ''EnvironmentMetrics''], [Get, Put, Patch]),
        (''ControllerIdPortsPortIdEnvironmentMetricsActionsEnvironmentMetricsResetMetrics'', [Var ''ControllerId'', Lit ''Ports'', Var ''PortId'', Lit ''EnvironmentMetrics'', Lit ''Actions'', Lit ''EnvironmentMetrics.ResetMetrics''], [Post]),
        (''ControllerIdPortsPortIdEnvironmentMetricsActionsEnvironmentMetricsResetToDefaults'', [Var ''ControllerId'', Lit ''Ports'', Var ''PortId'', Lit ''EnvironmentMetrics'', Lit ''Actions'', Lit ''EnvironmentMetrics.ResetToDefaults''], [Post]),
        (''ControllerIdPortsPortIdMetrics'', [Var ''ControllerId'', Lit ''Ports'', Var ''PortId'', Lit ''Metrics''], [Get])]"

definition Routes_Systems_12 :: Routes where
  "Routes_Systems_12 =
     under at_system ''''
       []
       [(''KeyManagementKMIPCertificates'', [Lit ''KeyManagement'', Lit ''KMIPCertificates''], [Get, Post]),
        (''KeyManagementKMIPCertificatesCertificateId'', [Lit ''KeyManagement'', Lit ''KMIPCertificates'', Var ''CertificateId''], [Get, Put, Delete, Patch]),
        (''KeyManagementKMIPCertificatesCertificateIdActionsCertificateRekey'', [Lit ''KeyManagement'', Lit ''KMIPCertificates'', Var ''CertificateId'', Lit ''Actions'', Lit ''Certificate.Rekey''], [Post]),
        (''KeyManagementKMIPCertificatesCertificateIdActionsCertificateRenew'', [Lit ''KeyManagement'', Lit ''KMIPCertificates'', Var ''CertificateId'', Lit ''Actions'', Lit ''Certificate.Renew''], [Post]),
        (''LogServices'', [Lit ''LogServices''], [Get]),
        (''LogServicesLogServiceId'', [Lit ''LogServices'', Var ''LogServiceId''], [Get, Put, Patch]),
        (''LogServicesLogServiceIdActionsLogServiceClearLog'', [Lit ''LogServices'', Var ''LogServiceId'', Lit ''Actions'', Lit ''LogService.ClearLog''], [Post]),
        (''LogServicesLogServiceIdActionsLogServiceCollectDiagnosticData'', [Lit ''LogServices'', Var ''LogServiceId'', Lit ''Actions'', Lit ''LogService.CollectDiagnosticData''], [Post]),
        (''LogServicesLogServiceIdActionsLogServicePushDiagnosticData'', [Lit ''LogServices'', Var ''LogServiceId'', Lit ''Actions'', Lit ''LogService.PushDiagnosticData''], [Post]),
        (''LogServicesLogServiceIdEntries'', [Lit ''LogServices'', Var ''LogServiceId'', Lit ''Entries''], [Get, Post]),
        (''LogServicesLogServiceIdEntriesLogEntryId'', [Lit ''LogServices'', Var ''LogServiceId'', Lit ''Entries'', Var ''LogEntryId''], [Get, Put, Delete, Patch]),
        (''Memory'', [Lit ''Memory''], [Get]),
        (''MemoryMemoryId'', [Lit ''Memory'', Var ''MemoryId''], [Get, Put, Patch])]"

definition Routes_Systems_13 :: Routes where
  "Routes_Systems_13 =
     under at_system ''MemoryMemoryIdActions''
       [Lit ''Memory'', Var ''MemoryId'', Lit ''Actions'']
       [(''MemoryDisableMasterPassphrase'', [Lit ''Memory.DisableMasterPassphrase''], [Post]),
        (''MemoryDisablePassphrase'', [Lit ''Memory.DisablePassphrase''], [Post]),
        (''MemoryFreezeSecurityState'', [Lit ''Memory.FreezeSecurityState''], [Post]),
        (''MemoryInjectPersistentPoison'', [Lit ''Memory.InjectPersistentPoison''], [Post]),
        (''MemoryOverwriteUnit'', [Lit ''Memory.OverwriteUnit''], [Post]),
        (''MemoryReset'', [Lit ''Memory.Reset''], [Post]),
        (''MemoryResetToDefaults'', [Lit ''Memory.ResetToDefaults''], [Post]),
        (''MemoryScanMedia'', [Lit ''Memory.ScanMedia''], [Post]),
        (''MemorySecureEraseUnit'', [Lit ''Memory.SecureEraseUnit''], [Post]),
        (''MemorySetMasterPassphrase'', [Lit ''Memory.SetMasterPassphrase''], [Post]),
        (''MemorySetPassphrase'', [Lit ''Memory.SetPassphrase''], [Post]),
        (''MemoryUnlockUnit'', [Lit ''Memory.UnlockUnit''], [Post])]"

definition Routes_Systems_14 :: Routes where
  "Routes_Systems_14 =
     under at_system ''MemoryMemoryId''
       [Lit ''Memory'', Var ''MemoryId'']
       [(''Assembly'', [Lit ''Assembly''], [Get, Put, Patch]),
        (''Certificates'', [Lit ''Certificates''], [Get, Post]),
        (''CertificatesCertificateId'', [Lit ''Certificates'', Var ''CertificateId''], [Get, Put, Delete, Patch]),
        (''CertificatesCertificateIdActionsCertificateRekey'', [Lit ''Certificates'', Var ''CertificateId'', Lit ''Actions'', Lit ''Certificate.Rekey''], [Post]),
        (''CertificatesCertificateIdActionsCertificateRenew'', [Lit ''Certificates'', Var ''CertificateId'', Lit ''Actions'', Lit ''Certificate.Renew''], [Post]),
        (''DeviceLog'', [Lit ''DeviceLog''], [Get, Put, Patch]),
        (''DeviceLogActionsLogServiceClearLog'', [Lit ''DeviceLog'', Lit ''Actions'', Lit ''LogService.ClearLog''], [Post]),
        (''DeviceLogActionsLogServiceCollectDiagnosticData'', [Lit ''DeviceLog'', Lit ''Actions'', Lit ''LogService.CollectDiagnosticData''], [Post]),
        (''DeviceLogActionsLogServicePushDiagnosticData'', [Lit ''DeviceLog'', Lit ''Actions'', Lit ''LogService.PushDiagnosticData''], [Post]),
        (''DeviceLogEntries'', [Lit ''DeviceLog'', Lit ''Entries''], [Get, Post]),
        (''DeviceLogEntriesLogEntryId'', [Lit ''DeviceLog'', Lit ''Entries'', Var ''LogEntryId''], [Get, Put, Delete, Patch]),
        (''EnvironmentMetrics'', [Lit ''EnvironmentMetrics''], [Get, Put, Patch]),
        (''EnvironmentMetricsActionsEnvironmentMetricsResetMetrics'', [Lit ''EnvironmentMetrics'', Lit ''Actions'', Lit ''EnvironmentMetrics.ResetMetrics''], [Post]),
        (''EnvironmentMetricsActionsEnvironmentMetricsResetToDefaults'', [Lit ''EnvironmentMetrics'', Lit ''Actions'', Lit ''EnvironmentMetrics.ResetToDefaults''], [Post]),
        (''MemoryMetrics'', [Lit ''MemoryMetrics''], [Get]),
        (''MemoryMetricsActionsMemoryMetricsClearCurrentPeriod'', [Lit ''MemoryMetrics'', Lit ''Actions'', Lit ''MemoryMetrics.ClearCurrentPeriod''], [Post])]"

definition Routes_Systems_15 :: Routes where
  "Routes_Systems_15 =
     under at_system ''''
       []
       [(''MemoryDomains'', [Lit ''MemoryDomains''], [Get]),
        (''MemoryDomainsMemoryDomainId'', [Lit ''MemoryDomains'', Var ''MemoryDomainId''], [Get]),
        (''MemoryDomainsMemoryDomainIdMemoryChunks'', [Lit ''MemoryDomains'', Var ''MemoryDomainId'', Lit ''MemoryChunks''], [Get, Post]),
        (''MemoryDomainsMemoryDomainIdMemoryChunksMemoryChunksId'', [Lit ''MemoryDomains'', Var ''MemoryDomainId'', Lit ''MemoryChunks'', Var ''MemoryChunksId''], [Get, Put, Delete, Patch]),
        (''MemorySummaryMemoryMetrics'', [Lit ''MemorySummary'', Lit ''MemoryMetrics''], [Get]),
        (''MemorySummaryMemoryMetricsActionsMemoryMetricsClearCurrentPeriod'', [Lit ''MemorySummary'', Lit ''MemoryMetrics'', Lit ''Actions'', Lit ''MemoryMetrics.ClearCurrentPeriod''], [Post]),
        (''NetworkInterfaces'', [Lit ''NetworkInterfaces''], [Get]),
        (''NetworkInterfacesNetworkInterfaceId'', [Lit ''NetworkInterfaces'', Var ''NetworkInterfaceId''], [Get]),
        (''NetworkInterfacesNetworkInterfaceIdNetworkDeviceFunctions'', [Lit ''NetworkInterfaces'', Var ''NetworkInterfaceId'', Lit ''NetworkDeviceFunctions''], [Get]),
        (''NetworkInterfacesNetworkInterfaceIdNetworkDeviceFunctionsNetworkDeviceFunctionIdAllowDeny'', [Lit ''NetworkInterfaces'', Var ''NetworkInterfaceId'', Lit ''NetworkDeviceFunctions'', Var ''NetworkDeviceFunctionId'', Lit ''AllowDeny''], [Get, Post]),
        (''NetworkInterfacesNetworkInterfaceIdNetworkDeviceFunctionsNetworkDeviceFunctionIdAllowDenyAllowDenyId'', [Lit ''NetworkInterfaces'', Var ''NetworkInterfaceId'', Lit ''NetworkDeviceFunctions'', Var ''NetworkDeviceFunctionId'', Lit ''AllowDeny'', Var ''AllowDenyId''], [Get, Put, Delete, Patch]),
        (''NetworkInterfacesNetworkInterfaceIdNetworkPorts'', [Lit ''NetworkInterfaces'', Var ''NetworkInterfaceId'', Lit ''NetworkPorts''], [Get]),
        (''NetworkInterfacesNetworkInterfaceIdPorts'', [Lit ''NetworkInterfaces'', Var ''NetworkInterfaceId'', Lit ''Ports''], [Get])]"

definition Routes_Systems_16 :: Routes where
  "Routes_Systems_16 =
     under at_system ''OperatingSystem''
       [Lit ''OperatingSystem'']
       [('''', [], [Get])]"

definition Routes_Systems_17 :: Routes where
  "Routes_Systems_17 =
     under at_system ''OperatingSystem''
       [Lit ''OperatingSystem'']
       [(''Applications'', [Lit ''Applications''], [Get]),
        (''ApplicationsApplicationId'', [Lit ''Applications'', Var ''ApplicationId''], [Get]),
        (''ApplicationsApplicationIdActionsApplicationReset'', [Lit ''Applications'', Var ''ApplicationId'', Lit ''Actions'', Lit ''Application.Reset''], [Post]),
        (''ContainerImages'', [Lit ''ContainerImages''], [Get]),
        (''ContainerImagesContainerImageId'', [Lit ''ContainerImages'', Var ''ContainerImageId''], [Get]),
        (''Containers'', [Lit ''Containers''], [Get]),
        (''ContainersEthernetInterfaces'', [Lit ''Containers'', Lit ''EthernetInterfaces''], [Get, Post]),
        (''ContainersEthernetInterfacesEthernetInterfaceId'', [Lit ''Containers'', Lit ''EthernetInterfaces'', Var ''EthernetInterfaceId''], [Get, Put, Delete, Patch]),
        (''ContainersContainerId'', [Lit ''Containers'', Var ''ContainerId''], [Get]),
        (''ContainersContainerIdActionsContainerReset'', [Lit ''Containers'', Var ''ContainerId'', Lit ''Actions'', Lit ''Container.Reset''], [Post])]"

definition Routes_Systems_18 :: Routes where
  "Routes_Systems_18 =
     under at_system ''''
       []
       [(''PCIeDevices'', [Lit ''PCIeDevices''], [Get]),
        (''PCIeDevicesPCIeDeviceId'', [Lit ''PCIeDevices'', Var ''PCIeDeviceId''], [Get, Put, Patch]),
        (''PCIeDevicesPCIeDeviceIdAssembly'', [Lit ''PCIeDevices'', Var ''PCIeDeviceId'', Lit ''Assembly''], [Get, Put, Patch]),
        (''PCIeDevicesPCIeDeviceIdEnvironmentMetrics'', [Lit ''PCIeDevices'', Var ''PCIeDeviceId'', Lit ''EnvironmentMetrics''], [Get, Put, Patch]),
        (''PCIeDevicesPCIeDeviceIdEnvironmentMetricsActionsEnvironmentMetricsResetMetrics'', [Lit ''PCIeDevices'', Var ''PCIeDeviceId'', Lit ''EnvironmentMetrics'', Lit ''Actions'', Lit ''EnvironmentMetrics.ResetMetrics''], [Post]),
        (''PCIeDevicesPCIeDeviceIdEnvironmentMetricsActionsEnvironmentMetricsResetToDefaults'', [Lit ''PCIeDevices'', Var ''PCIeDeviceId'', Lit ''EnvironmentMetrics'', Lit ''Actions'', Lit ''EnvironmentMetrics.ResetToDefaults''], [Post]),
        (''PCIeDevicesPCIeDeviceIdPCIeFunctions'', [Lit ''PCIeDevices'', Var ''PCIeDeviceId'', Lit ''PCIeFunctions''], [Get]),
        (''PCIeDevicesPCIeDeviceIdPCIeFunctionsPCIeFunctionId'', [Lit ''PCIeDevices'', Var ''PCIeDeviceId'', Lit ''PCIeFunctions'', Var ''PCIeFunctionId''], [Get, Put, Patch]),
        (''ProcessorSummaryProcessorMetrics'', [Lit ''ProcessorSummary'', Lit ''ProcessorMetrics''], [Get]),
        (''ProcessorSummaryProcessorMetricsActionsProcessorMetricsClearCurrentPeriod'', [Lit ''ProcessorSummary'', Lit ''ProcessorMetrics'', Lit ''Actions'', Lit ''ProcessorMetrics.ClearCurrentPeriod''], [Post]),
        (''Processors'', [Lit ''Processors''], [Get])]"

definition Routes_Systems_19 :: Routes where
  "Routes_Systems_19 =
     under at_system ''ProcessorsProcessorId''
       [Lit ''Processors'', Var ''ProcessorId'']
       [('''', [], [Get, Put, Patch]),
        (''AccelerationFunctions'', [Lit ''AccelerationFunctions''], [Get]),
        (''AccelerationFunctionsAccelerationFunctionId'', [Lit ''AccelerationFunctions'', Var ''AccelerationFunctionId''], [Get]),
        (''ActionsProcessorReset'', [Lit ''Actions'', Lit ''Processor.Reset''], [Post]),
        (''ActionsProcessorResetToDefaults'', [Lit ''Actions'', Lit ''Processor.ResetToDefaults''], [Post]),
        (''Assembly'', [Lit ''Assembly''], [Get, Put, Patch]),
        (''Certificates'', [Lit ''Certificates''], [Get, Post]),
        (''CertificatesCertificateId'', [Lit ''Certificates'', Var ''CertificateId''], [Get, Put, Delete, Patch]),
        (''CertificatesCertificateIdActionsCertificateRekey'', [Lit ''Certificates'', Var ''CertificateId'', Lit ''Actions'', Lit ''Certificate.Rekey''], [Post]),
        (''CertificatesCertificateIdActionsCertificateRenew'', [Lit ''Certificates'', Var ''CertificateId'', Lit ''Actions'', Lit ''Certificate.Renew''], [Post]),
        (''EnvironmentMetrics'', [Lit ''EnvironmentMetrics''], [Get, Put, Patch]),
        (''EnvironmentMetricsActionsEnvironmentMetricsResetMetrics'', [Lit ''EnvironmentMetrics'', Lit ''Actions'', Lit ''EnvironmentMetrics.ResetMetrics''], [Post]),
        (''EnvironmentMetricsActionsEnvironmentMetricsResetToDefaults'', [Lit ''EnvironmentMetrics'', Lit ''Actions'', Lit ''EnvironmentMetrics.ResetToDefaults''], [Post]),
        (''MemorySummaryMemoryMetrics'', [Lit ''MemorySummary'', Lit ''MemoryMetrics''], [Get]),
        (''MemorySummaryMemoryMetricsActionsMemoryMetricsClearCurrentPeriod'', [Lit ''MemorySummary'', Lit ''MemoryMetrics'', Lit ''Actions'', Lit ''MemoryMetrics.ClearCurrentPeriod''], [Post]),
        (''OperatingConfigs'', [Lit ''OperatingConfigs''], [Get]),
        (''OperatingConfigsOperatingConfigId'', [Lit ''OperatingConfigs'', Var ''OperatingConfigId''], [Get]),
        (''Ports'', [Lit ''Ports''], [Get])]"

definition Routes_Systems_20 :: Routes where
  "Routes_Systems_20 =
     under at_system ''ProcessorsProcessorId''
       [Lit ''Processors'', Var ''ProcessorId'']
       [(''PortsPortId'', [Lit ''Ports'', Var ''PortId''], [Get, Put, Patch]),
        (''PortsPortIdActionsPortReset'', [Lit ''Ports'', Var ''PortId'', Lit ''Actions'', Lit ''Port.Reset''], [Post]),
        (''PortsPortIdActionsPortResetPPB'', [Lit ''Ports'', Var ''PortId'', Lit ''Actions'', Lit ''Port.ResetPPB''], [Post]),
        (''PortsPortIdEnvironmentMetrics'', [Lit ''Ports'', Var ''PortId'', Lit ''EnvironmentMetrics''], [Get, Put, Patch]),
        (''PortsPortIdEnvironmentMetricsActionsEnvironmentMetricsResetMetrics'', [Lit ''Ports'', Var ''PortId'', Lit ''EnvironmentMetrics'', Lit ''Actions'', Lit ''EnvironmentMetrics.ResetMetrics''], [Post]),
        (''PortsPortIdEnvironmentMetricsActionsEnvironmentMetricsResetToDefaults'', [Lit ''Ports'', Var ''PortId'', Lit ''EnvironmentMetrics'', Lit ''Actions'', Lit ''EnvironmentMetrics.ResetToDefaults''], [Post]),
        (''PortsPortIdMetrics'', [Lit ''Ports'', Var ''PortId'', Lit ''Metrics''], [Get]),
        (''ProcessorMetrics'', [Lit ''ProcessorMetrics''], [Get]),
        (''ProcessorMetricsActionsProcessorMetricsClearCurrentPeriod'', [Lit ''ProcessorMetrics'', Lit ''Actions'', Lit ''ProcessorMetrics.ClearCurrentPeriod''], [Post]),
        (''SubProcessors'', [Lit ''SubProcessors''], [Get])]"

definition Routes_Systems_21 :: Routes where
  "Routes_Systems_21 =
     under at_system ''ProcessorsProcessorIdSubProcessorsProcessorId2''
       [Lit ''Processors'', Var ''ProcessorId'', Lit ''SubProcessors'', Var ''ProcessorId2'']
       [('''', [], [Get, Put, Patch]),
        (''ActionsProcessorReset'', [Lit ''Actions'', Lit ''Processor.Reset''], [Post]),
        (''ActionsProcessorResetToDefaults'', [Lit ''Actions'', Lit ''Processor.ResetToDefaults''], [Post]),
        (''Assembly'', [Lit ''Assembly''], [Get, Put, Patch]),
        (''ProcessorMetrics'', [Lit ''ProcessorMetrics''], [Get]),
        (''ProcessorMetricsActionsProcessorMetricsClearCurrentPeriod'', [Lit ''ProcessorMetrics'', Lit ''Actions'', Lit ''ProcessorMetrics.ClearCurrentPeriod''], [Post]),
        (''SubProcessors'', [Lit ''SubProcessors''], [Get]),
        (''SubProcessorsProcessorId3'', [Lit ''SubProcessors'', Var ''ProcessorId3''], [Get, Put, Patch]),
        (''SubProcessorsProcessorId3ActionsProcessorReset'', [Lit ''SubProcessors'', Var ''ProcessorId3'', Lit ''Actions'', Lit ''Processor.Reset''], [Post]),
        (''SubProcessorsProcessorId3ActionsProcessorResetToDefaults'', [Lit ''SubProcessors'', Var ''ProcessorId3'', Lit ''Actions'', Lit ''Processor.ResetToDefaults''], [Post]),
        (''SubProcessorsProcessorId3Assembly'', [Lit ''SubProcessors'', Var ''ProcessorId3'', Lit ''Assembly''], [Get, Put, Patch]),
        (''SubProcessorsProcessorId3ProcessorMetrics'', [Lit ''SubProcessors'', Var ''ProcessorId3'', Lit ''ProcessorMetrics''], [Get]),
        (''SubProcessorsProcessorId3ProcessorMetricsActionsProcessorMetricsClearCurrentPeriod'', [Lit ''SubProcessors'', Var ''ProcessorId3'', Lit ''ProcessorMetrics'', Lit ''Actions'', Lit ''ProcessorMetrics.ClearCurrentPeriod''], [Post])]"

definition Routes_Systems_22 :: Routes where
  "Routes_Systems_22 =
     under at_system ''''
       []
       [(''SecureBoot'', [Lit ''SecureBoot''], [Get, Put, Patch]),
        (''SecureBootActionsSecureBootResetKeys'', [Lit ''SecureBoot'', Lit ''Actions'', Lit ''SecureBoot.ResetKeys''], [Post]),
        (''SecureBootSecureBootDatabases'', [Lit ''SecureBoot'', Lit ''SecureBootDatabases''], [Get]),
        (''SecureBootSecureBootDatabasesDatabaseId'', [Lit ''SecureBoot'', Lit ''SecureBootDatabases'', Var ''DatabaseId''], [Get]),
        (''SecureBootSecureBootDatabasesDatabaseIdActionsSecureBootDatabaseResetKeys'', [Lit ''SecureBoot'', Lit ''SecureBootDatabases'', Var ''DatabaseId'', Lit ''Actions'', Lit ''SecureBootDatabase.ResetKeys''], [Post]),
        (''SecureBootSecureBootDatabasesDatabaseIdCertificates'', [Lit ''SecureBoot'', Lit ''SecureBootDatabases'', Var ''DatabaseId'', Lit ''Certificates''], [Get, Post]),
        (''SecureBootSecureBootDatabasesDatabaseIdCertificatesCertificateId'', [Lit ''SecureBoot'', Lit ''SecureBootDatabases'', Var ''DatabaseId'', Lit ''Certificates'', Var ''CertificateId''], [Get, Put, Delete, Patch]),
        (''SecureBootSecureBootDatabasesDatabaseIdCertificatesCertificateIdActionsCertificateRekey'', [Lit ''SecureBoot'', Lit ''SecureBootDatabases'', Var ''DatabaseId'', Lit ''Certificates'', Var ''CertificateId'', Lit ''Actions'', Lit ''Certificate.Rekey''], [Post]),
        (''SecureBootSecureBootDatabasesDatabaseIdCertificatesCertificateIdActionsCertificateRenew'', [Lit ''SecureBoot'', Lit ''SecureBootDatabases'', Var ''DatabaseId'', Lit ''Certificates'', Var ''CertificateId'', Lit ''Actions'', Lit ''Certificate.Renew''], [Post]),
        (''SecureBootSecureBootDatabasesDatabaseIdSignatures'', [Lit ''SecureBoot'', Lit ''SecureBootDatabases'', Var ''DatabaseId'', Lit ''Signatures''], [Get, Post]),
        (''SecureBootSecureBootDatabasesDatabaseIdSignaturesSignatureId'', [Lit ''SecureBoot'', Lit ''SecureBootDatabases'', Var ''DatabaseId'', Lit ''Signatures'', Var ''SignatureId''], [Get, Delete]),
        (''SimpleStorage'', [Lit ''SimpleStorage''], [Get]),
        (''SimpleStorageSimpleStorageId'', [Lit ''SimpleStorage'', Var ''SimpleStorageId''], [Get]),
        (''Storage'', [Lit ''Storage''], [Get]),
        (''StorageStorageId'', [Lit ''Storage'', Var ''StorageId''], [Get, Put, Patch]),
        (''StorageStorageIdActionsStorageResetToDefaults'', [Lit ''Storage'', Var ''StorageId'', Lit ''Actions'', Lit ''Storage.ResetToDefaults''], [Post]),
        (''StorageStorageIdActionsStorageSetEncryptionKey'', [Lit ''Storage'', Var ''StorageId'', Lit ''Actions'', Lit ''Storage.SetEncryptionKey''], [Post]),
        (''StorageStorageIdConsistencyGroupsConsistencyGroupIdVolumes'', [Lit ''Storage'', Var ''StorageId'', Lit ''ConsistencyGroups'', Var ''ConsistencyGroupId'', Lit ''Volumes''], [Get, Post])]"

definition Routes_Systems_23 :: Routes where
  "Routes_Systems_23 =
     under at_system ''StorageStorageIdConsistencyGroupsConsistencyGroupIdVolumesVolumeId''
       [Lit ''Storage'', Var ''StorageId'', Lit ''ConsistencyGroups'', Var ''ConsistencyGroupId'', Lit ''Volumes'', Var ''VolumeId'']
       [('''', [], [Get, Put, Delete, Patch]),
        (''ActionsVolumeAssignReplicaTarget'', [Lit ''Actions'', Lit ''Volume.AssignReplicaTarget''], [Post]),
        (''ActionsVolumeChangeRAIDLayout'', [Lit ''Actions'', Lit ''Volume.ChangeRAIDLayout''], [Post]),
        (''ActionsVolumeCheckConsistency'', [Lit ''Actions'', Lit ''Volume.CheckConsistency''], [Post]),
        (''ActionsVolumeCreateReplicaTarget'', [Lit ''Actions'', Lit ''Volume.CreateReplicaTarget''], [Post]),
        (''ActionsVolumeForceEnable'', [Lit ''Actions'', Lit ''Volume.ForceEnable''], [Post]),
        (''ActionsVolumeInitialize'', [Lit ''Actions'', Lit ''Volume.Initialize''], [Post]),
        (''ActionsVolumeRemoveReplicaRelationship'', [Lit ''Actions'', Lit ''Volume.RemoveReplicaRelationship''], [Post]),
        (''ActionsVolumeResumeReplication'', [Lit ''Actions'', Lit ''Volume.ResumeReplication''], [Post]),
        (''ActionsVolumeReverseReplicationRelationship'', [Lit ''Actions'', Lit ''Volume.ReverseReplicationRelationship''], [Post]),
        (''ActionsVolumeSplitReplication'', [Lit ''Actions'', Lit ''Volume.SplitReplication''], [Post]),
        (''ActionsVolumeSuspendReplication'', [Lit ''Actions'', Lit ''Volume.SuspendReplication''], [Post])]"

definition Routes_Systems_24 :: Routes where
  "Routes_Systems_24 =
     under at_system ''StorageStorageIdControllers''
       [Lit ''Storage'', Var ''StorageId'', Lit ''Controllers'']
       [('''', [], [Get]),
        (''ControllerId'', [Var ''ControllerId''], [Get, Put, Patch]),
        (''ControllerIdActionsStorageControllerAttachNamespaces'', [Var ''ControllerId'', Lit ''Actions'', Lit ''StorageController.AttachNamespaces''], [Post]),
        (''ControllerIdActionsStorageControllerDetachNamespaces'', [Var ''ControllerId'', Lit ''Actions'', Lit ''StorageController.DetachNamespaces''], [Post]),
        (''ControllerIdActionsStorageControllerSecurityReceive'', [Var ''ControllerId'', Lit ''Actions'', Lit ''StorageController.SecurityReceive''], [Post]),
        (''ControllerIdActionsStorageControllerSecuritySend'', [Var ''ControllerId'', Lit ''Actions'', Lit ''StorageController.SecuritySend''], [Post]),
        (''ControllerIdEnvironmentMetrics'', [Var ''ControllerId'', Lit ''EnvironmentMetrics''], [Get, Put, Patch]),
        (''ControllerIdEnvironmentMetricsActionsEnvironmentMetricsResetMetrics'', [Var ''ControllerId'', Lit ''EnvironmentMetrics'', Lit ''Actions'', Lit ''EnvironmentMetrics.ResetMetrics''], [Post]),
        (''ControllerIdEnvironmentMetricsActionsEnvironmentMetricsResetToDefaults'', [Var ''ControllerId'', Lit ''EnvironmentMetrics'', Lit ''Actions'', Lit ''EnvironmentMetrics.ResetToDefaults''], [Post]),
        (''ControllerIdMetrics'', [Var ''ControllerId'', Lit ''Metrics''], [Get])]"

definition Routes_Systems_25 :: Routes where
  "Routes_Systems_25 =
     under at_system ''StorageStorageIdControllersStorageControllerId''
       [Lit ''Storage'', Var ''StorageId'', Lit ''Controllers'', Var ''StorageControllerId'']
       [(''Assembly'', [Lit ''Assembly''], [Get, Put, Patch]),
        (''Certificates'', [Lit ''Certificates''], [Get, Post]),
        (''CertificatesCertificateId'', [Lit ''Certificates'', Var ''CertificateId''], [Get, Put, Delete, Patch]),
        (''CertificatesCertificateIdActionsCertificateRekey'', [Lit ''Certificates'', Var ''CertificateId'', Lit ''Actions'', Lit ''Certificate.Rekey''], [Post]),
        (''CertificatesCertificateIdActionsCertificateRenew'', [Lit ''Certificates'', Var ''CertificateId'', Lit ''Actions'', Lit ''Certificate.Renew''], [Post]),
        (''Ports'', [Lit ''Ports''], [Get]),
        (''PortsPortId'', [Lit ''Ports'', Var ''PortId''], [Get, Put, Patch]),
        (''PortsPortIdActionsPortReset'', [Lit ''Ports'', Var ''PortId'', Lit ''Actions'', Lit ''Port.Reset''], [Post]),
        (''PortsPortIdActionsPortResetPPB'', [Lit ''Ports'', Var ''PortId'', Lit ''Actions'', Lit ''Port.ResetPPB''], [Post]),
        (''PortsPortIdEnvironmentMetrics'', [Lit ''Ports'', Var ''PortId'', Lit ''EnvironmentMetrics''], [Get, Put, Patch]),
        (''PortsPortIdEnvironmentMetricsActionsEnvironmentMetricsResetMetrics'', [Lit ''Ports'', Var ''PortId'', Lit ''EnvironmentMetrics'', Lit ''Actions'', Lit ''EnvironmentMetrics.ResetMetrics''], [Post]),
        (''PortsPortIdEnvironmentMetricsActionsEnvironmentMetricsResetToDefaults'', [Lit ''Ports'', Var ''PortId'', Lit ''EnvironmentMetrics'', Lit ''Actions'', Lit ''EnvironmentMetrics.ResetToDefaults''], [Post]),
        (''PortsPortIdMetrics'', [Lit ''Ports'', Var ''PortId'', Lit ''Metrics''], [Get])]"

definition Routes_Systems_26 :: Routes where
  "Routes_Systems_26 =
     under at_system ''StorageStorageIdDrivesDriveId''
       [Lit ''Storage'', Var ''StorageId'', Lit ''Drives'', Var ''DriveId'']
       [('''', [], [Get, Put, Patch]),
        (''ActionsDriveReset'', [Lit ''Actions'', Lit ''Drive.Reset''], [Post]),
        (''ActionsDriveRevertToOriginalFactoryState'', [Lit ''Actions'', Lit ''Drive.RevertToOriginalFactoryState''], [Post]),
        (''ActionsDriveSecureErase'', [Lit ''Actions'', Lit ''Drive.SecureErase''], [Post]),
        (''Assembly'', [Lit ''Assembly''], [Get, Put, Patch]),
        (''Certificates'', [Lit ''Certificates''], [Get, Post]),
        (''CertificatesCertificateId'', [Lit ''Certificates'', Var ''CertificateId''], [Get, Put, Delete, Patch]),
        (''CertificatesCertificateIdActionsCertificateRekey'', [Lit ''Certificates'', Var ''CertificateId'', Lit ''Actions'', Lit ''Certificate.Rekey''], [Post]),
        (''CertificatesCertificateIdActionsCertificateRenew'', [Lit ''Certificates'', Var ''CertificateId'', Lit ''Actions'', Lit ''Certificate.Renew''], [Post]),
        (''EnvironmentMetrics'', [Lit ''EnvironmentMetrics''], [Get, Put, Patch]),
        (''EnvironmentMetricsActionsEnvironmentMetricsResetMetrics'', [Lit ''EnvironmentMetrics'', Lit ''Actions'', Lit ''EnvironmentMetrics.ResetMetrics''], [Post]),
        (''EnvironmentMetricsActionsEnvironmentMetricsResetToDefaults'', [Lit ''EnvironmentMetrics'', Lit ''Actions'', Lit ''EnvironmentMetrics.ResetToDefaults''], [Post]),
        (''Metrics'', [Lit ''Metrics''], [Get])]"

definition Routes_Systems_27 :: Routes where
  "Routes_Systems_27 =
     under at_system ''StorageStorageId''
       [Lit ''Storage'', Var ''StorageId'']
       [(''EndpointGroups'', [Lit ''EndpointGroups''], [Get, Post]),
        (''EndpointGroupsEndpointGroupId'', [Lit ''EndpointGroups'', Var ''EndpointGroupId''], [Get, Put, Delete, Patch]),
        (''FileSystemsFileSystemIdCapacitySourcesCapacitySourceIdProvidingDrives'', [Lit ''FileSystems'', Var ''FileSystemId'', Lit ''CapacitySources'', Var ''CapacitySourceId'', Lit ''ProvidingDrives''], [Get]),
        (''FileSystemsFileSystemIdCapacitySourcesCapacitySourceIdProvidingVolumes'', [Lit ''FileSystems'', Var ''FileSystemId'', Lit ''CapacitySources'', Var ''CapacitySourceId'', Lit ''ProvidingVolumes''], [Get, Post]),
        (''FileSystemsFileSystemIdCapacitySourcesCapacitySourceIdProvidingVolumesVolumeId'', [Lit ''FileSystems'', Var ''FileSystemId'', Lit ''CapacitySources'', Var ''CapacitySourceId'', Lit ''ProvidingVolumes'', Var ''VolumeId''], [Get, Put, Delete, Patch])]"

definition Routes_Systems_28 :: Routes where
  "Routes_Systems_28 =
     under at_system ''StorageStorageIdFileSystemsFileSystemIdCapacitySourcesCapacitySourceIdProvidingVolumesVolumeIdActions''
       [Lit ''Storage'', Var ''StorageId'', Lit ''FileSystems'', Var ''FileSystemId'', Lit ''CapacitySources'', Var ''CapacitySourceId'', Lit ''ProvidingVolumes'', Var ''VolumeId'', Lit ''Actions'']
       [(''VolumeAssignReplicaTarget'', [Lit ''Volume.AssignReplicaTarget''], [Post]),
        (''VolumeChangeRAIDLayout'', [Lit ''Volume.ChangeRAIDLayout''], [Post]),
        (''VolumeCheckConsistency'', [Lit ''Volume.CheckConsistency''], [Post]),
        (''VolumeCreateReplicaTarget'', [Lit ''Volume.CreateReplicaTarget''], [Post]),
        (''VolumeForceEnable'', [Lit ''Volume.ForceEnable''], [Post]),
        (''VolumeInitialize'', [Lit ''Volume.Initialize''], [Post]),
        (''VolumeRemoveReplicaRelationship'', [Lit ''Volume.RemoveReplicaRelationship''], [Post]),
        (''VolumeResumeReplication'', [Lit ''Volume.ResumeReplication''], [Post]),
        (''VolumeReverseReplicationRelationship'', [Lit ''Volume.ReverseReplicationRelationship''], [Post]),
        (''VolumeSplitReplication'', [Lit ''Volume.SplitReplication''], [Post]),
        (''VolumeSuspendReplication'', [Lit ''Volume.SuspendReplication''], [Post])]"

definition Routes_Systems_29 :: Routes where
  "Routes_Systems_29 =
     under at_system ''StorageStorageIdStorageControllersStorageControllerId''
       [Lit ''Storage'', Var ''StorageId'', Lit ''StorageControllers'', Var ''StorageControllerId'']
       [(''Assembly'', [Lit ''Assembly''], [Get, Put, Patch]),
        (''Certificates'', [Lit ''Certificates''], [Get, Post]),
        (''CertificatesCertificateId'', [Lit ''Certificates'', Var ''CertificateId''], [Get, Put, Delete, Patch]),
        (''CertificatesCertificateIdActionsCertificateRekey'', [Lit ''Certificates'', Var ''CertificateId'', Lit ''Actions'', Lit ''Certificate.Rekey''], [Post]),
        (''CertificatesCertificateIdActionsCertificateRenew'', [Lit ''Certificates'', Var ''CertificateId'', Lit ''Actions'', Lit ''Certificate.Renew''], [Post]),
        (''Ports'', [Lit ''Ports''], [Get]),
        (''PortsPortId'', [Lit ''Ports'', Var ''PortId''], [Get, Put, Patch]),
        (''PortsPortIdActionsPortReset'', [Lit ''Ports'', Var ''PortId'', Lit ''Actions'', Lit ''Port.Reset''], [Post]),
        (''PortsPortIdActionsPortResetPPB'', [Lit ''Ports'', Var ''PortId'', Lit ''Actions'', Lit ''Port.ResetPPB''], [Post]),
        (''PortsPortIdEnvironmentMetrics'', [Lit ''Ports'', Var ''PortId'', Lit ''EnvironmentMetrics''], [Get, Put, Patch]),
        (''PortsPortIdEnvironmentMetricsActionsEnvironmentMetricsResetMetrics'', [Lit ''Ports'', Var ''PortId'', Lit ''EnvironmentMetrics'', Lit ''Actions'', Lit ''EnvironmentMetrics.ResetMetrics''], [Post]),
        (''PortsPortIdEnvironmentMetricsActionsEnvironmentMetricsResetToDefaults'', [Lit ''Ports'', Var ''PortId'', Lit ''EnvironmentMetrics'', Lit ''Actions'', Lit ''EnvironmentMetrics.ResetToDefaults''], [Post]),
        (''PortsPortIdMetrics'', [Lit ''Ports'', Var ''PortId'', Lit ''Metrics''], [Get])]"

definition Routes_Systems_30 :: Routes where
  "Routes_Systems_30 =
     under at_system ''StorageStorageIdStoragePoolsStoragePoolIdAllocatedVolumes''
       [Lit ''Storage'', Var ''StorageId'', Lit ''StoragePools'', Var ''StoragePoolId'', Lit ''AllocatedVolumes'']
       [('''', [], [Get, Post]),
        (''VolumeId'', [Var ''VolumeId''], [Get, Put, Delete, Patch]),
        (''VolumeIdActionsVolumeAssignReplicaTarget'', [Var ''VolumeId'', Lit ''Actions'', Lit ''Volume.AssignReplicaTarget''], [Post]),
        (''VolumeIdActionsVolumeChangeRAIDLayout'', [Var ''VolumeId'', Lit ''Actions'', Lit ''Volume.ChangeRAIDLayout''], [Post]),
        (''VolumeIdActionsVolumeCheckConsistency'', [Var ''VolumeId'', Lit ''Actions'', Lit ''Volume.CheckConsistency''], [Post]),
        (''VolumeIdActionsVolumeCreateReplicaTarget'', [Var ''VolumeId'', Lit ''Actions'', Lit ''Volume.CreateReplicaTarget''], [Post]),
        (''VolumeIdActionsVolumeForceEnable'', [Var ''VolumeId'', Lit ''Actions'', Lit ''Volume.ForceEnable''], [Post]),
        (''VolumeIdActionsVolumeInitialize'', [Var ''VolumeId'', Lit ''Actions'', Lit ''Volume.Initialize''], [Post]),
        (''VolumeIdActionsVolumeRemoveReplicaRelationship'', [Var ''VolumeId'', Lit ''Actions'', Lit ''Volume.RemoveReplicaRelationship''], [Post]),
        (''VolumeIdActionsVolumeResumeReplication'', [Var ''VolumeId'', Lit ''Actions'', Lit ''Volume.ResumeReplication''], [Post]),
        (''VolumeIdActionsVolumeReverseReplicationRelationship'', [Var ''VolumeId'', Lit ''Actions'', Lit ''Volume.ReverseReplicationRelationship''], [Post]),
        (''VolumeIdActionsVolumeSplitReplication'', [Var ''VolumeId'', Lit ''Actions'', Lit ''Volume.SplitReplication''], [Post]),
        (''VolumeIdActionsVolumeSuspendReplication'', [Var ''VolumeId'', Lit ''Actions'', Lit ''Volume.SuspendReplication''], [Post])]"

definition Routes_Systems_31 :: Routes where
  "Routes_Systems_31 =
     under at_system ''StorageStorageIdStoragePoolsStoragePoolIdCapacitySourcesCapacitySourceId''
       [Lit ''Storage'', Var ''StorageId'', Lit ''StoragePools'', Var ''StoragePoolId'', Lit ''CapacitySources'', Var ''CapacitySourceId'']
       [(''ProvidingDrives'', [Lit ''ProvidingDrives''], [Get]),
        (''ProvidingVolumes'', [Lit ''ProvidingVolumes''], [Get, Post]),
        (''ProvidingVolumesVolumeId'', [Lit ''ProvidingVolumes'', Var ''VolumeId''], [Get, Put, Delete, Patch])]"

definition Routes_Systems_32 :: Routes where
  "Routes_Systems_32 =
     under at_system ''StorageStorageIdStoragePoolsStoragePoolIdCapacitySourcesCapacitySourceIdProvidingVolumesVolumeIdActions''
       [Lit ''Storage'', Var ''StorageId'', Lit ''StoragePools'', Var ''StoragePoolId'', Lit ''CapacitySources'', Var ''CapacitySourceId'', Lit ''ProvidingVolumes'', Var ''VolumeId'', Lit ''Actions'']
       [(''VolumeAssignReplicaTarget'', [Lit ''Volume.AssignReplicaTarget''], [Post]),
        (''VolumeChangeRAIDLayout'', [Lit ''Volume.ChangeRAIDLayout''], [Post]),
        (''VolumeCheckConsistency'', [Lit ''Volume.CheckConsistency''], [Post]),
        (''VolumeCreateReplicaTarget'', [Lit ''Volume.CreateReplicaTarget''], [Post]),
        (''VolumeForceEnable'', [Lit ''Volume.ForceEnable''], [Post]),
        (''VolumeInitialize'', [Lit ''Volume.Initialize''], [Post]),
        (''VolumeRemoveReplicaRelationship'', [Lit ''Volume.RemoveReplicaRelationship''], [Post]),
        (''VolumeResumeReplication'', [Lit ''Volume.ResumeReplication''], [Post]),
        (''VolumeReverseReplicationRelationship'', [Lit ''Volume.ReverseReplicationRelationship''], [Post]),
        (''VolumeSplitReplication'', [Lit ''Volume.SplitReplication''], [Post]),
        (''VolumeSuspendReplication'', [Lit ''Volume.SuspendReplication''], [Post])]"

definition Routes_Systems_33 :: Routes where
  "Routes_Systems_33 =
     under at_system ''StorageStorageIdVolumes''
       [Lit ''Storage'', Var ''StorageId'', Lit ''Volumes'']
       [('''', [], [Get, Post]),
        (''VolumeId'', [Var ''VolumeId''], [Get, Put, Delete, Patch]),
        (''VolumeIdActionsVolumeAssignReplicaTarget'', [Var ''VolumeId'', Lit ''Actions'', Lit ''Volume.AssignReplicaTarget''], [Post]),
        (''VolumeIdActionsVolumeChangeRAIDLayout'', [Var ''VolumeId'', Lit ''Actions'', Lit ''Volume.ChangeRAIDLayout''], [Post]),
        (''VolumeIdActionsVolumeCheckConsistency'', [Var ''VolumeId'', Lit ''Actions'', Lit ''Volume.CheckConsistency''], [Post]),
        (''VolumeIdActionsVolumeCreateReplicaTarget'', [Var ''VolumeId'', Lit ''Actions'', Lit ''Volume.CreateReplicaTarget''], [Post]),
        (''VolumeIdActionsVolumeForceEnable'', [Var ''VolumeId'', Lit ''Actions'', Lit ''Volume.ForceEnable''], [Post]),
        (''VolumeIdActionsVolumeInitialize'', [Var ''VolumeId'', Lit ''Actions'', Lit ''Volume.Initialize''], [Post]),
        (''VolumeIdActionsVolumeRemoveReplicaRelationship'', [Var ''VolumeId'', Lit ''Actions'', Lit ''Volume.RemoveReplicaRelationship''], [Post]),
        (''VolumeIdActionsVolumeResumeReplication'', [Var ''VolumeId'', Lit ''Actions'', Lit ''Volume.ResumeReplication''], [Post]),
        (''VolumeIdActionsVolumeReverseReplicationRelationship'', [Var ''VolumeId'', Lit ''Actions'', Lit ''Volume.ReverseReplicationRelationship''], [Post]),
        (''VolumeIdActionsVolumeSplitReplication'', [Var ''VolumeId'', Lit ''Actions'', Lit ''Volume.SplitReplication''], [Post]),
        (''VolumeIdActionsVolumeSuspendReplication'', [Var ''VolumeId'', Lit ''Actions'', Lit ''Volume.SuspendReplication''], [Post]),
        (''VolumeIdCapacitySourcesCapacitySourceIdProvidingDrives'', [Var ''VolumeId'', Lit ''CapacitySources'', Var ''CapacitySourceId'', Lit ''ProvidingDrives''], [Get])]"

definition Routes_Systems_34 :: Routes where
  "Routes_Systems_34 =
     under at_system ''''
       []
       [(''USBControllers'', [Lit ''USBControllers''], [Get]),
        (''USBControllersControllerId'', [Lit ''USBControllers'', Var ''ControllerId''], [Get]),
        (''USBControllersControllerIdPorts'', [Lit ''USBControllers'', Var ''ControllerId'', Lit ''Ports''], [Get]),
        (''USBControllersControllerIdPortsPortId'', [Lit ''USBControllers'', Var ''ControllerId'', Lit ''Ports'', Var ''PortId''], [Get, Put, Patch]),
        (''USBControllersControllerIdPortsPortIdActionsPortReset'', [Lit ''USBControllers'', Var ''ControllerId'', Lit ''Ports'', Var ''PortId'', Lit ''Actions'', Lit ''Port.Reset''], [Post]),
        (''USBControllersControllerIdPortsPortIdActionsPortResetPPB'', [Lit ''USBControllers'', Var ''ControllerId'', Lit ''Ports'', Var ''PortId'', Lit ''Actions'', Lit ''Port.ResetPPB''], [Post]),
        (''USBControllersControllerIdPortsPortIdEnvironmentMetrics'', [Lit ''USBControllers'', Var ''ControllerId'', Lit ''Ports'', Var ''PortId'', Lit ''EnvironmentMetrics''], [Get, Put, Patch]),
        (''USBControllersControllerIdPortsPortIdEnvironmentMetricsActionsEnvironmentMetricsResetMetrics'', [Lit ''USBControllers'', Var ''ControllerId'', Lit ''Ports'', Var ''PortId'', Lit ''EnvironmentMetrics'', Lit ''Actions'', Lit ''EnvironmentMetrics.ResetMetrics''], [Post]),
        (''USBControllersControllerIdPortsPortIdEnvironmentMetricsActionsEnvironmentMetricsResetToDefaults'', [Lit ''USBControllers'', Var ''ControllerId'', Lit ''Ports'', Var ''PortId'', Lit ''EnvironmentMetrics'', Lit ''Actions'', Lit ''EnvironmentMetrics.ResetToDefaults''], [Post]),
        (''USBControllersControllerIdPortsPortIdMetrics'', [Lit ''USBControllers'', Var ''ControllerId'', Lit ''Ports'', Var ''PortId'', Lit ''Metrics''], [Get]),
        (''VirtualMedia'', [Lit ''VirtualMedia''], [Get])]"

definition Routes_Systems_35 :: Routes where
  "Routes_Systems_35 =
     under at_system ''VirtualMediaVirtualMediaId''
       [Lit ''VirtualMedia'', Var ''VirtualMediaId'']
       [('''', [], [Get, Put, Patch]),
        (''ActionsVirtualMediaEjectMedia'', [Lit ''Actions'', Lit ''VirtualMedia.EjectMedia''], [Post]),
        (''ActionsVirtualMediaInsertMedia'', [Lit ''Actions'', Lit ''VirtualMedia.InsertMedia''], [Post]),
        (''Certificates'', [Lit ''Certificates''], [Get, Post]),
        (''CertificatesCertificateId'', [Lit ''Certificates'', Var ''CertificateId''], [Get, Put, Delete, Patch]),
        (''CertificatesCertificateIdActionsCertificateRekey'', [Lit ''Certificates'', Var ''CertificateId'', Lit ''Actions'', Lit ''Certificate.Rekey''], [Post]),
        (''CertificatesCertificateIdActionsCertificateRenew'', [Lit ''Certificates'', Var ''CertificateId'', Lit ''Actions'', Lit ''Certificate.Renew''], [Post]),
        (''ClientCertificates'', [Lit ''ClientCertificates''], [Get, Post]),
        (''ClientCertificatesCertificateId'', [Lit ''ClientCertificates'', Var ''CertificateId''], [Get, Put, Delete, Patch]),
        (''ClientCertificatesCertificateIdActionsCertificateRekey'', [Lit ''ClientCertificates'', Var ''CertificateId'', Lit ''Actions'', Lit ''Certificate.Rekey''], [Post]),
        (''ClientCertificatesCertificateIdActionsCertificateRenew'', [Lit ''ClientCertificates'', Var ''CertificateId'', Lit ''Actions'', Lit ''Certificate.Renew''], [Post])]"

definition Routes_Systems_36 :: Routes where
  "Routes_Systems_36 =
     under at_root ''SystemsSystemIdFabricAdaptersFabricAdapterIdGenZ''
       [Lit ''Systems'', Var ''SystemId'', Lit ''FabricAdapters'', Var ''FabricAdapterId'', Lit ''GenZ'']
       [(''REQVCAT'', [Lit ''REQ-VCAT''], [Get, Post]),
        (''REQVCATVCATEntryId'', [Lit ''REQ-VCAT'', Var ''VCATEntryId''], [Get, Put, Delete, Patch]),
        (''RSPVCAT'', [Lit ''RSP-VCAT''], [Get, Post]),
        (''RSPVCATVCATEntryId'', [Lit ''RSP-VCAT'', Var ''VCATEntryId''], [Get, Put, Delete, Patch])]"

definition Routes_Systems_37 :: Routes where
  "Routes_Systems_37 =
     under at_root ''SystemsSystemIdFabricAdaptersFabricAdapterId''
       [Lit ''Systems'', Var ''SystemId'', Lit ''FabricAdapters'', Var ''FabricAdapterId'']
       [(''PortsPortIdGenZVCAT'', [Lit ''Ports'', Var ''PortId'', Lit ''GenZ'', Lit ''VCAT''], [Get, Post]),
        (''PortsPortIdGenZVCATVCATEntryId'', [Lit ''Ports'', Var ''PortId'', Lit ''GenZ'', Lit ''VCAT'', Var ''VCATEntryId''], [Get, Put, Delete, Patch]),
        (''PortsPortIdVCAT'', [Lit ''Ports'', Var ''PortId'', Lit ''VCAT''], [Get, Post]),
        (''PortsPortIdVCATVCATEntryId'', [Lit ''Ports'', Var ''PortId'', Lit ''VCAT'', Var ''VCATEntryId''], [Get, Put, Delete, Patch]),
        (''REQVCAT'', [Lit ''REQ-VCAT''], [Get, Post]),
        (''REQVCATVCATEntryId'', [Lit ''REQ-VCAT'', Var ''VCATEntryId''], [Get, Put, Delete, Patch]),
        (''RSPVCAT'', [Lit ''RSP-VCAT''], [Get, Post]),
        (''RSPVCATVCATEntryId'', [Lit ''RSP-VCAT'', Var ''VCATEntryId''], [Get, Put, Delete, Patch])]"

definition system_routes :: Routes where
  "system_routes = concat
     [Routes_Systems_1, Routes_Systems_2, Routes_Systems_3, Routes_Systems_4, Routes_Systems_5,
      Routes_Systems_6, Routes_Systems_7, Routes_Systems_8, Routes_Systems_9, Routes_Systems_10,
      Routes_Systems_11, Routes_Systems_12, Routes_Systems_13, Routes_Systems_14, Routes_Systems_15,
      Routes_Systems_16, Routes_Systems_17, Routes_Systems_18, Routes_Systems_19, Routes_Systems_20,
      Routes_Systems_21, Routes_Systems_22, Routes_Systems_23, Routes_Systems_24, Routes_Systems_25,
      Routes_Systems_26, Routes_Systems_27, Routes_Systems_28, Routes_Systems_29, Routes_Systems_30,
      Routes_Systems_31, Routes_Systems_32, Routes_Systems_33, Routes_Systems_34, Routes_Systems_35,
      Routes_Systems_36, Routes_Systems_37]"

lemma Systems_1_settled: "list_all settled Routes_Systems_1"
  unfolding Routes_Systems_1_def
  by (rule settled_decided, simp add: settled_near)

lemma Systems_2_settled: "list_all settled Routes_Systems_2"
  unfolding Routes_Systems_2_def
  by (rule settled_decided, simp add: settled_near)

lemma Systems_3_settled: "list_all settled Routes_Systems_3"
  unfolding Routes_Systems_3_def
  by (rule settled_foreign_rows, (rule parting | (simp; fail))+)

lemma Systems_4_settled: "list_all settled Routes_Systems_4"
  unfolding Routes_Systems_4_def
  by (rule settled_decided, simp add: settled_near)

lemma Systems_5_settled: "list_all settled Routes_Systems_5"
  unfolding Routes_Systems_5_def
  by (rule settled_decided, simp add: settled_near)

lemma Systems_6_settled: "list_all settled Routes_Systems_6"
  unfolding Routes_Systems_6_def
  by (rule settled_foreign_rows, (rule parting | (simp; fail))+)

lemma Systems_7_settled: "list_all settled Routes_Systems_7"
  unfolding Routes_Systems_7_def
  by (rule settled_foreign_rows, (rule parting | (simp; fail))+)

lemma Systems_8_settled: "list_all settled Routes_Systems_8"
  unfolding Routes_Systems_8_def
  by (rule settled_foreign, (rule parting | (simp; fail))+)

lemma Systems_9_settled: "list_all settled Routes_Systems_9"
  unfolding Routes_Systems_9_def
  by (rule settled_foreign, (rule parting | (simp; fail))+)

lemma Systems_10_settled: "list_all settled Routes_Systems_10"
  unfolding Routes_Systems_10_def
  by (rule settled_foreign, (rule parting | (simp; fail))+)

lemma Systems_11_settled: "list_all settled Routes_Systems_11"
  unfolding Routes_Systems_11_def
  by (rule settled_foreign, (rule parting | (simp; fail))+)

lemma Systems_12_settled: "list_all settled Routes_Systems_12"
  unfolding Routes_Systems_12_def
  by (rule settled_foreign_rows, (rule parting | (simp; fail))+)

lemma Systems_13_settled: "list_all settled Routes_Systems_13"
  unfolding Routes_Systems_13_def
  by (rule settled_foreign, (rule parting | (simp; fail))+)

lemma Systems_14_settled: "list_all settled Routes_Systems_14"
  unfolding Routes_Systems_14_def
  by (rule settled_foreign, (rule parting | (simp; fail))+)

lemma Systems_15_settled: "list_all settled Routes_Systems_15"
  unfolding Routes_Systems_15_def
  by (rule settled_foreign_rows, (rule parting | (simp; fail))+)

lemma Systems_16_settled: "list_all settled Routes_Systems_16"
  unfolding Routes_Systems_16_def
  by (rule settled_decided, simp add: settled_near)

lemma Systems_17_settled: "list_all settled Routes_Systems_17"
  unfolding Routes_Systems_17_def
  by (rule settled_foreign_rows, (rule parting | (simp; fail))+)

lemma Systems_18_settled: "list_all settled Routes_Systems_18"
  unfolding Routes_Systems_18_def
  by (rule settled_foreign_rows, (rule parting | (simp; fail))+)

lemma Systems_19_settled: "list_all settled Routes_Systems_19"
  unfolding Routes_Systems_19_def
  by (rule settled_foreign, (rule parting | (simp; fail))+)

lemma Systems_20_settled: "list_all settled Routes_Systems_20"
  unfolding Routes_Systems_20_def
  by (rule settled_foreign, (rule parting | (simp; fail))+)

lemma Systems_21_settled: "list_all settled Routes_Systems_21"
  unfolding Routes_Systems_21_def
  by (rule settled_foreign, (rule parting | (simp; fail))+)

lemma Systems_22_settled: "list_all settled Routes_Systems_22"
  unfolding Routes_Systems_22_def
  by (rule settled_foreign_rows, (rule parting | (simp; fail))+)

lemma Systems_23_settled: "list_all settled Routes_Systems_23"
  unfolding Routes_Systems_23_def
  by (rule settled_foreign, (rule parting | (simp; fail))+)

lemma Systems_24_settled: "list_all settled Routes_Systems_24"
  unfolding Routes_Systems_24_def
  by (rule settled_foreign, (rule parting | (simp; fail))+)

lemma Systems_25_settled: "list_all settled Routes_Systems_25"
  unfolding Routes_Systems_25_def
  by (rule settled_foreign, (rule parting | (simp; fail))+)

lemma Systems_26_settled: "list_all settled Routes_Systems_26"
  unfolding Routes_Systems_26_def
  by (rule settled_foreign, (rule parting | (simp; fail))+)

lemma Systems_27_settled: "list_all settled Routes_Systems_27"
  unfolding Routes_Systems_27_def
  by (rule settled_foreign, (rule parting | (simp; fail))+)

lemma Systems_28_settled: "list_all settled Routes_Systems_28"
  unfolding Routes_Systems_28_def
  by (rule settled_foreign, (rule parting | (simp; fail))+)

lemma Systems_29_settled: "list_all settled Routes_Systems_29"
  unfolding Routes_Systems_29_def
  by (rule settled_foreign, (rule parting | (simp; fail))+)

lemma Systems_30_settled: "list_all settled Routes_Systems_30"
  unfolding Routes_Systems_30_def
  by (rule settled_foreign, (rule parting | (simp; fail))+)

lemma Systems_31_settled: "list_all settled Routes_Systems_31"
  unfolding Routes_Systems_31_def
  by (rule settled_foreign, (rule parting | (simp; fail))+)

lemma Systems_32_settled: "list_all settled Routes_Systems_32"
  unfolding Routes_Systems_32_def
  by (rule settled_foreign, (rule parting | (simp; fail))+)

lemma Systems_33_settled: "list_all settled Routes_Systems_33"
  unfolding Routes_Systems_33_def
  by (rule settled_foreign, (rule parting | (simp; fail))+)

lemma Systems_34_settled: "list_all settled Routes_Systems_34"
  unfolding Routes_Systems_34_def
  by (rule settled_foreign_rows, (rule parting | (simp; fail))+)

lemma Systems_35_settled: "list_all settled Routes_Systems_35"
  unfolding Routes_Systems_35_def
  by (rule settled_foreign, (rule parting | (simp; fail))+)

lemma Systems_36_settled: "list_all settled Routes_Systems_36"
  unfolding Routes_Systems_36_def
  by (rule settled_foreign, simp add: foreign_def served_eval at_root_def service_root_def)

lemma Systems_37_settled: "list_all settled Routes_Systems_37"
  unfolding Routes_Systems_37_def
  by (rule settled_foreign, simp add: foreign_def served_eval at_root_def service_root_def)

lemma system_routes_settled: "list_all settled system_routes"
  unfolding system_routes_def
  by (intro settled_concat
    Systems_1_settled Systems_2_settled Systems_3_settled Systems_4_settled Systems_5_settled
    Systems_6_settled Systems_7_settled Systems_8_settled Systems_9_settled Systems_10_settled
    Systems_11_settled Systems_12_settled Systems_13_settled Systems_14_settled Systems_15_settled
    Systems_16_settled Systems_17_settled Systems_18_settled Systems_19_settled Systems_20_settled
    Systems_21_settled Systems_22_settled Systems_23_settled Systems_24_settled Systems_25_settled
    Systems_26_settled Systems_27_settled Systems_28_settled Systems_29_settled Systems_30_settled
    Systems_31_settled Systems_32_settled Systems_33_settled Systems_34_settled Systems_35_settled
    Systems_36_settled Systems_37_settled)

end
