(* ===== verification/ControllersSystems.thy ===== *)
theory ControllersSystems
  imports RoutesSystems Operations
begin

text \<open>
  The controllers of the systems (api_default.go), group by group of their routes: the
  path variables each requires and the body it decodes and checks.  The variables are those of the
  pattern of its route.
\<close>

definition Controllers_Systems_1a :: operations where
  "Controllers_Systems_1a = ops op_root ''Systems'' []
     [('''', [], Checked ''ComputerSystemV1220ComputerSystem'', [Get, Post])]"

definition Controllers_Systems_2a :: operations where
  "Controllers_Systems_2a = ops op_system '''' []
     [('''', [], Checked ''ComputerSystemV1220ComputerSystem'', [Get, Put, Delete]),
      ('''', [], Unrequired ''ComputerSystemV1220ComputerSystem'', [Patch])]"

definition Controllers_Systems_3a :: operations where
  "Controllers_Systems_3a = ops op_system ''Actions'' []
     [(''ComputerSystemAddResourceBlock'', [], Checked ''ComputerSystemV1220AddResourceBlockRequestBody'', [Post]),
      (''ComputerSystemDecommission'', [], Checked ''ComputerSystemV1220DecommissionRequestBody'', [Post]),
      (''ComputerSystemRemoveResourceBlock'', [], Checked ''ComputerSystemV1220RemoveResourceBlockRequestBody'', [Post])]"

definition Controllers_Systems_4a :: operations where
  "Controllers_Systems_4a = ops op_system ''ActionsComputerSystemReset'' []
     [('''', [], Checked ''ComputerSystemV1220ResetRequestBody'', [Post])]"

definition Controllers_Systems_5a :: operations where
  "Controllers_Systems_5a = ops op_system ''ActionsComputerSystemSetDefaultBootOrder'' []
     [('''', [], Untyped, [Post])]"

definition Controllers_Systems_6a :: operations where
  "Controllers_Systems_6a = ops op_system '''' []
     [(''Bios'', [], Checked ''BiosV122Bios'', [Get, Put, Patch]),
      (''BiosActionsBiosChangePassword'', [], Checked ''BiosV122ChangePasswordRequestBody'', [Post]),
      (''BiosActionsBiosResetBios'', [], Untyped, [Post])]"

definition Controllers_Systems_6b :: operations where
  "Controllers_Systems_6b = ops op_system '''' []
     [(''BootCertificates'', [], Checked ''CertificateV181Certificate'', [Get, Post]),
      (''BootCertificatesCertificateId'', [''CertificateId''], Checked ''CertificateV181Certificate'', [Get, Put, Delete])]"

definition Controllers_Systems_6c :: operations where
  "Controllers_Systems_6c = ops op_system '''' []
     [(''BootCertificatesCertificateId'', [''CertificateId''], Checked ''CertificateV181Certificate'', [Patch]),
      (''BootCertificatesCertificateIdActionsCertificateRekey'', [''CertificateId''], Checked ''CertificateV181RekeyRequestBody'', [Post]),
      (''BootCertificatesCertificateIdActionsCertificateRenew'', [''CertificateId''], Checked ''CertificateV181RenewRequestBody'', [Post]),
      (''BootOptions'', [], Bodiless, [Get])]"

definition Controllers_Systems_6d :: operations where
  "Controllers_Systems_6d = ops op_system '''' []
     [(''BootOptions'', [], Checked ''BootOptionV105BootOption'', [Post]),
      (''BootOptionsBootOptionId'', [''BootOptionId''], Checked ''BootOptionV105BootOption'', [Get, Put, Delete])]"

definition Controllers_Systems_6e :: operations where
  "Controllers_Systems_6e = ops op_system '''' []
     [(''BootOptionsBootOptionId'', [''BootOptionId''], Checked ''BootOptionV105BootOption'', [Patch])]"

definition Controllers_Systems_7a :: operations where
  "Controllers_Systems_7a = ops op_system '''' []
     [(''Certificates'', [], Checked ''CertificateV181Certificate'', [Get, Post]),
      (''CertificatesCertificateId'', [''CertificateId''], Checked ''CertificateV181Certificate'', [Get, Put, Delete])]"

definition Controllers_Systems_7b :: operations where
  "Controllers_Systems_7b = ops op_system '''' []
     [(''CertificatesCertificateId'', [''CertificateId''], Checked ''CertificateV181Certificate'', [Patch]),
      (''CertificatesCertificateIdActionsCertificateRekey'', [''CertificateId''], Checked ''CertificateV181RekeyRequestBody'', [Post]),
      (''CertificatesCertificateIdActionsCertificateRenew'', [''CertificateId''], Checked ''CertificateV181RenewRequestBody'', [Post]),
      (''EthernetInterfaces'', [], Bodiless, [Get])]"

definition Controllers_Systems_7c :: operations where
  "Controllers_Systems_7c = ops op_system '''' []
     [(''EthernetInterfaces'', [], Checked ''EthernetInterfaceV1120EthernetInterface'', [Post]),
      (''EthernetInterfacesEthernetInterfaceId'', [''EthernetInterfaceId''], Checked ''EthernetInterfaceV1120EthernetInterface'', [Get, Put, Delete])]"

definition Controllers_Systems_7d :: operations where
  "Controllers_Systems_7d = ops op_system '''' []
     [(''EthernetInterfacesEthernetInterfaceId'', [''EthernetInterfaceId''], Checked ''EthernetInterfaceV1120EthernetInterface'', [Patch]),
      (''EthernetInterfacesEthernetInterfaceIdVLANs'', [''EthernetInterfaceId''], Checked ''VLanNetworkInterfaceV130VLanNetworkInterface'', [Get, Post]),
      (''EthernetInterfacesEthernetInterfaceIdVLANsVLanNetworkInterfaceId'', [''EthernetInterfaceId'', ''VLanNetworkInterfaceId''], Bodiless, [Get])]"

definition Controllers_Systems_7e :: operations where
  "Controllers_Systems_7e = ops op_system '''' []
     [(''EthernetInterfacesEthernetInterfaceIdVLANsVLanNetworkInterfaceId'', [''EthernetInterfaceId'', ''VLanNetworkInterfaceId''], Checked ''VLanNetworkInterfaceV130VLanNetworkInterface'', [Put, Delete, Patch]),
      (''FabricAdapters'', [], Bodiless, [Get])]"

definition Controllers_Systems_8a :: operations where
  "Controllers_Systems_8a = ops op_system ''FabricAdaptersFabricAdapterId'' [''FabricAdapterId'']
     [('''', [], Checked ''FabricAdapterV152FabricAdapter'', [Get, Put, Patch]),
      (''GenZMSDT'', [], Bodiless, [Get])]"

definition Controllers_Systems_8b :: operations where
  "Controllers_Systems_8b = ops op_system ''FabricAdaptersFabricAdapterId'' [''FabricAdapterId'']
     [(''GenZMSDT'', [], Checked ''RouteEntryV101RouteEntry'', [Post]),
      (''GenZMSDTMSDTId'', [''MSDTId''], Checked ''RouteEntryV101RouteEntry'', [Get, Put, Delete])]"

definition Controllers_Systems_8c :: operations where
  "Controllers_Systems_8c = ops op_system ''FabricAdaptersFabricAdapterId'' [''FabricAdapterId'']
     [(''GenZMSDTMSDTId'', [''MSDTId''], Checked ''RouteEntryV101RouteEntry'', [Patch]),
      (''GenZSSDT'', [], Checked ''RouteEntryV101RouteEntry'', [Get, Post]),
      (''GenZSSDTSSDTId'', [''SSDTId''], Bodiless, [Get])]"

definition Controllers_Systems_8d :: operations where
  "Controllers_Systems_8d = ops op_system ''FabricAdaptersFabricAdapterId'' [''FabricAdapterId'']
     [(''GenZSSDTSSDTId'', [''SSDTId''], Checked ''RouteEntryV101RouteEntry'', [Put, Delete, Patch]),
      (''MSDT'', [], Bodiless, [Get])]"

definition Controllers_Systems_8e :: operations where
  "Controllers_Systems_8e = ops op_system ''FabricAdaptersFabricAdapterId'' [''FabricAdapterId'']
     [(''MSDT'', [], Checked ''RouteEntryV101RouteEntry'', [Post]),
      (''MSDTMSDTId'', [''MSDTId''], Checked ''RouteEntryV101RouteEntry'', [Get, Put, Delete])]"

definition Controllers_Systems_8f :: operations where
  "Controllers_Systems_8f = ops op_system ''FabricAdaptersFabricAdapterId'' [''FabricAdapterId'']
     [(''MSDTMSDTId'', [''MSDTId''], Checked ''RouteEntryV101RouteEntry'', [Patch]),
      (''MSDTMSDTIdRouteSet'', [''MSDTId''], Checked ''RouteSetEntryV101RouteSetEntry'', [Get, Post]),
      (''MSDTMSDTIdRouteSetRouteId'', [''MSDTId'', ''RouteId''], Bodiless, [Get])]"

definition Controllers_Systems_8g :: operations where
  "Controllers_Systems_8g = ops op_system ''FabricAdaptersFabricAdapterId'' [''FabricAdapterId'']
     [(''MSDTMSDTIdRouteSetRouteId'', [''MSDTId'', ''RouteId''], Checked ''RouteSetEntryV101RouteSetEntry'', [Put, Delete, Patch])]"

definition Controllers_Systems_8h :: operations where
  "Controllers_Systems_8h = ops op_system ''FabricAdaptersFabricAdapterId'' [''FabricAdapterId'']
     [(''Ports'', [], Bodiless, [Get])]"

definition Controllers_Systems_9a :: operations where
  "Controllers_Systems_9a = ops op_system ''FabricAdaptersFabricAdapterIdPortsPortId'' [''FabricAdapterId'', ''PortId'']
     [('''', [], Checked ''PortV1110Port'', [Get, Put, Patch])]"

definition Controllers_Systems_9b :: operations where
  "Controllers_Systems_9b = ops op_system ''FabricAdaptersFabricAdapterIdPortsPortId'' [''FabricAdapterId'', ''PortId'']
     [(''ActionsPortReset'', [], Checked ''PortV1110ResetRequestBody'', [Post]),
      (''ActionsPortResetPPB'', [], Untyped, [Post]),
      (''EnvironmentMetrics'', [], Checked ''EnvironmentMetricsV131EnvironmentMetrics'', [Get, Put])]"

definition Controllers_Systems_9c :: operations where
  "Controllers_Systems_9c = ops op_system ''FabricAdaptersFabricAdapterIdPortsPortId'' [''FabricAdapterId'', ''PortId'']
     [(''EnvironmentMetrics'', [], Checked ''EnvironmentMetricsV131EnvironmentMetrics'', [Patch]),
      (''EnvironmentMetricsActionsEnvironmentMetricsResetMetrics'', [], Untyped, [Post]),
      (''EnvironmentMetricsActionsEnvironmentMetricsResetToDefaults'', [], Untyped, [Post]),
      (''GenZLPRT'', [], Bodiless, [Get])]"

definition Controllers_Systems_9d :: operations where
  "Controllers_Systems_9d = ops op_system ''FabricAdaptersFabricAdapterIdPortsPortId'' [''FabricAdapterId'', ''PortId'']
     [(''GenZLPRT'', [], Checked ''RouteEntryV101RouteEntry'', [Post]),
      (''GenZLPRTLPRTId'', [''LPRTId''], Checked ''RouteEntryV101RouteEntry'', [Get, Put])]"

definition Controllers_Systems_9e :: operations where
  "Controllers_Systems_9e = ops op_system ''FabricAdaptersFabricAdapterIdPortsPortId'' [''FabricAdapterId'', ''PortId'']
     [(''GenZLPRTLPRTId'', [''LPRTId''], Checked ''RouteEntryV101RouteEntry'', [Delete, Patch]),
      (''GenZMPRT'', [], Bodiless, [Get])]"

definition Controllers_Systems_9f :: operations where
  "Controllers_Systems_9f = ops op_system ''FabricAdaptersFabricAdapterIdPortsPortId'' [''FabricAdapterId'', ''PortId'']
     [(''GenZMPRT'', [], Checked ''RouteEntryV101RouteEntry'', [Post]),
      (''GenZMPRTMPRTId'', [''MPRTId''], Checked ''RouteEntryV101RouteEntry'', [Get, Put])]"

definition Controllers_Systems_9g :: operations where
  "Controllers_Systems_9g = ops op_system ''FabricAdaptersFabricAdapterIdPortsPortId'' [''FabricAdapterId'', ''PortId'']
     [(''GenZMPRTMPRTId'', [''MPRTId''], Checked ''RouteEntryV101RouteEntry'', [Delete, Patch]),
      (''LPRT'', [], Bodiless, [Get])]"

definition Controllers_Systems_9h :: operations where
  "Controllers_Systems_9h = ops op_system ''FabricAdaptersFabricAdapterIdPortsPortId'' [''FabricAdapterId'', ''PortId'']
     [(''LPRT'', [], Checked ''RouteEntryV101RouteEntry'', [Post]),
      (''LPRTLPRTId'', [''LPRTId''], Checked ''RouteEntryV101RouteEntry'', [Get, Put])]"

definition Controllers_Systems_9i :: operations where
  "Controllers_Systems_9i = ops op_system ''FabricAdaptersFabricAdapterIdPortsPortId'' [''FabricAdapterId'', ''PortId'']
     [(''LPRTLPRTId'', [''LPRTId''], Checked ''RouteEntryV101RouteEntry'', [Delete, Patch]),
      (''LPRTLPRTIdRouteSet'', [''LPRTId''], Bodiless, [Get])]"

definition Controllers_Systems_9j :: operations where
  "Controllers_Systems_9j = ops op_system ''FabricAdaptersFabricAdapterIdPortsPortId'' [''FabricAdapterId'', ''PortId'']
     [(''LPRTLPRTIdRouteSet'', [''LPRTId''], Checked ''RouteSetEntryV101RouteSetEntry'', [Post])]"

definition Controllers_Systems_10a :: operations where
  "Controllers_Systems_10a = ops op_system ''FabricAdaptersFabricAdapterId'' [''FabricAdapterId'']
     [(''PortsPortIdLPRTLPRTIdRouteSetRouteId'', [''PortId'', ''LPRTId'', ''RouteId''], Checked ''RouteSetEntryV101RouteSetEntry'', [Get, Put, Delete])]"

definition Controllers_Systems_10b :: operations where
  "Controllers_Systems_10b = ops op_system ''FabricAdaptersFabricAdapterId'' [''FabricAdapterId'']
     [(''PortsPortIdLPRTLPRTIdRouteSetRouteId'', [''PortId'', ''LPRTId'', ''RouteId''], Checked ''RouteSetEntryV101RouteSetEntry'', [Patch]),
      (''PortsPortIdMPRT'', [''PortId''], Checked ''RouteEntryV101RouteEntry'', [Get, Post])]"

definition Controllers_Systems_10c :: operations where
  "Controllers_Systems_10c = ops op_system ''FabricAdaptersFabricAdapterId'' [''FabricAdapterId'']
     [(''PortsPortIdMPRTMPRTId'', [''PortId'', ''MPRTId''], Checked ''RouteEntryV101RouteEntry'', [Get, Put, Delete])]"

definition Controllers_Systems_10d :: operations where
  "Controllers_Systems_10d = ops op_system ''FabricAdaptersFabricAdapterId'' [''FabricAdapterId'']
     [(''PortsPortIdMPRTMPRTId'', [''PortId'', ''MPRTId''], Checked ''RouteEntryV101RouteEntry'', [Patch]),
      (''PortsPortIdMPRTMPRTIdRouteSet'', [''PortId'', ''MPRTId''], Checked ''RouteSetEntryV101RouteSetEntry'', [Get, Post])]"

definition Controllers_Systems_10e :: operations where
  "Controllers_Systems_10e = ops op_system ''FabricAdaptersFabricAdapterId'' [''FabricAdapterId'']
     [(''PortsPortIdMPRTMPRTIdRouteSetRouteId'', [''PortId'', ''MPRTId'', ''RouteId''], Checked ''RouteSetEntryV101RouteSetEntry'', [Get, Put, Delete])]"

definition Controllers_Systems_10f :: operations where
  "Controllers_Systems_10f = ops op_system ''FabricAdaptersFabricAdapterId'' [''FabricAdapterId'']
     [(''PortsPortIdMPRTMPRTIdRouteSetRouteId'', [''PortId'', ''MPRTId'', ''RouteId''], Checked ''RouteSetEntryV101RouteSetEntry'', [Patch]),
      (''PortsPortIdMetrics'', [''PortId''], Bodiless, [Get]),
      (''SSDT'', [], Checked ''RouteEntryV101RouteEntry'', [Get, Post])]"

definition Controllers_Systems_10g :: operations where
  "Controllers_Systems_10g = ops op_system ''FabricAdaptersFabricAdapterId'' [''FabricAdapterId'']
     [(''SSDTSSDTId'', [''SSDTId''], Checked ''RouteEntryV101RouteEntry'', [Get, Put, Delete, Patch])]"

definition Controllers_Systems_10h :: operations where
  "Controllers_Systems_10h = ops op_system ''FabricAdaptersFabricAdapterId'' [''FabricAdapterId'']
     [(''SSDTSSDTIdRouteSet'', [''SSDTId''], Checked ''RouteSetEntryV101RouteSetEntry'', [Get, Post]),
      (''SSDTSSDTIdRouteSetRouteId'', [''SSDTId'', ''RouteId''], Bodiless, [Get])]"

definition Controllers_Systems_10i :: operations where
  "Controllers_Systems_10i = ops op_system ''FabricAdaptersFabricAdapterId'' [''FabricAdapterId'']
     [(''SSDTSSDTIdRouteSetRouteId'', [''SSDTId'', ''RouteId''], Checked ''RouteSetEntryV101RouteSetEntry'', [Put, Delete, Patch])]"

definition Controllers_Systems_11a :: operations where
  "Controllers_Systems_11a = ops op_system ''GraphicsControllers'' []
     [('''', [], Bodiless, [Get]),
      (''ControllerId'', [''ControllerId''], Checked ''GraphicsControllerV101GraphicsController'', [Get, Put, Delete, Patch])]"

definition Controllers_Systems_11b :: operations where
  "Controllers_Systems_11b = ops op_system ''GraphicsControllers'' []
     [(''ControllerIdPorts'', [''ControllerId''], Bodiless, [Get]),
      (''ControllerIdPortsPortId'', [''ControllerId'', ''PortId''], Checked ''PortV1110Port'', [Get, Put, Patch])]"

definition Controllers_Systems_11c :: operations where
  "Controllers_Systems_11c = ops op_system ''GraphicsControllers'' []
     [(''ControllerIdPortsPortIdActionsPortReset'', [''ControllerId'', ''PortId''], Checked ''PortV1110ResetRequestBody'', [Post]),
      (''ControllerIdPortsPortIdActionsPortResetPPB'', [''ControllerId'', ''PortId''], Untyped, [Post]),
      (''ControllerIdPortsPortIdEnvironmentMetrics'', [''ControllerId'', ''PortId''], Checked ''EnvironmentMetricsV131EnvironmentMetrics'', [Get, Put])]"

definition Controllers_Systems_11d :: operations where
  "Controllers_Systems_11d = ops op_system ''GraphicsControllers'' []
     [(''ControllerIdPortsPortIdEnvironmentMetrics'', [''ControllerId'', ''PortId''], Checked ''EnvironmentMetricsV131EnvironmentMetrics'', [Patch]),
      (''ControllerIdPortsPortIdEnvironmentMetricsActionsEnvironmentMetricsResetMetrics'', [''ControllerId'', ''PortId''], Untyped, [Post]),
      (''ControllerIdPortsPortIdEnvironmentMetricsActionsEnvironmentMetricsResetToDefaults'', [''ControllerId'', ''PortId''], Untyped, [Post]),
      (''ControllerIdPortsPortIdMetrics'', [''ControllerId'', ''PortId''], Bodiless, [Get])]"

definition Controllers_Systems_12a :: operations where
  "Controllers_Systems_12a = ops op_system '''' []
     [(''KeyManagementKMIPCertificates'', [], Checked ''CertificateV181Certificate'', [Get, Post]),
      (''KeyManagementKMIPCertificatesCertificateId'', [''CertificateId''], Checked ''CertificateV181Certificate'', [Get, Put, Delete])]"

definition Controllers_Systems_12b :: operations where
  "Controllers_Systems_12b = ops op_system '''' []
     [(''KeyManagementKMIPCertificatesCertificateId'', [''CertificateId''], Checked ''CertificateV181Certificate'', [Patch]),
      (''KeyManagementKMIPCertificatesCertificateIdActionsCertificateRekey'', [''CertificateId''], Checked ''CertificateV181RekeyRequestBody'', [Post]),
      (''KeyManagementKMIPCertificatesCertificateIdActionsCertificateRenew'', [''CertificateId''], Checked ''CertificateV181RenewRequestBody'', [Post]),
      (''LogServices'', [], Bodiless, [Get])]"

definition Controllers_Systems_12c :: operations where
  "Controllers_Systems_12c = ops op_system '''' []
     [(''LogServicesLogServiceId'', [''LogServiceId''], Checked ''LogServiceV160LogService'', [Get, Put, Patch]),
      (''LogServicesLogServiceIdActionsLogServiceClearLog'', [''LogServiceId''], Checked ''LogServiceV160ClearLogRequestBody'', [Post])]"

definition Controllers_Systems_12d :: operations where
  "Controllers_Systems_12d = ops op_system '''' []
     [(''LogServicesLogServiceIdActionsLogServiceCollectDiagnosticData'', [''LogServiceId''], Checked ''LogServiceV160CollectDiagnosticDataRequestBody'', [Post]),
      (''LogServicesLogServiceIdActionsLogServicePushDiagnosticData'', [''LogServiceId''], Checked ''LogServiceV160PushDiagnosticDataRequestBody'', [Post]),
      (''LogServicesLogServiceIdEntries'', [''LogServiceId''], Checked ''LogEntryV1160LogEntry'', [Get, Post])]"

definition Controllers_Systems_12e :: operations where
  "Controllers_Systems_12e = ops op_system '''' []
     [(''LogServicesLogServiceIdEntriesLogEntryId'', [''LogServiceId'', ''LogEntryId''], Checked ''LogEntryV1160LogEntry'', [Get, Put, Delete, Patch])]"

definition Controllers_Systems_12f :: operations where
  "Controllers_Systems_12f = ops op_system '''' []
     [(''Memory'', [], Bodiless, [Get]),
      (''MemoryMemoryId'', [''MemoryId''], Checked ''MemoryV1190Memory'', [Get, Put, Patch])]"

definition Controllers_Systems_13a :: operations where
  "Controllers_Systems_13a = ops op_system ''MemoryMemoryIdActions'' [''MemoryId'']
     [(''MemoryDisableMasterPassphrase'', [], Checked ''MemoryV1190DisableMasterPassphraseRequestBody'', [Post]),
      (''MemoryDisablePassphrase'', [], Checked ''MemoryV1190DisablePassphraseRequestBody'', [Post]),
      (''MemoryFreezeSecurityState'', [], Untyped, [Post]),
      (''MemoryInjectPersistentPoison'', [], Checked ''MemoryV1190InjectPersistentPoisonRequestBody'', [Post])]"

definition Controllers_Systems_13b :: operations where
  "Controllers_Systems_13b = ops op_system ''MemoryMemoryIdActions'' [''MemoryId'']
     [(''MemoryOverwriteUnit'', [], Checked ''MemoryV1190OverwriteUnitRequestBody'', [Post]),
      (''MemoryReset'', [], Checked ''MemoryV1190ResetRequestBody'', [Post]),
      (''MemoryResetToDefaults'', [], Untyped, [Post]),
      (''MemoryScanMedia'', [], Checked ''MemoryV1190ScanMediaRequestBody'', [Post])]"

definition Controllers_Systems_13c :: operations where
  "Controllers_Systems_13c = ops op_system ''MemoryMemoryIdActions'' [''MemoryId'']
     [(''MemorySecureEraseUnit'', [], Checked ''MemoryV1190SecureEraseUnitRequestBody'', [Post]),
      (''MemorySetMasterPassphrase'', [], Checked ''MemoryV1190SetMasterPassphraseRequestBody'', [Post]),
      (''MemorySetPassphrase'', [], Checked ''MemoryV1190SetPassphraseRequestBody'', [Post])]"

definition Controllers_Systems_13d :: operations where
  "Controllers_Systems_13d = ops op_system ''MemoryMemoryIdActions'' [''MemoryId'']
     [(''MemoryUnlockUnit'', [], Checked ''MemoryV1190UnlockUnitRequestBody'', [Post])]"

definition Controllers_Systems_14a :: operations where
  "Controllers_Systems_14a = ops op_system ''MemoryMemoryId'' [''MemoryId'']
     [(''Assembly'', [], Checked ''AssemblyV150Assembly'', [Get, Put, Patch]),
      (''Certificates'', [], Bodiless, [Get])]"

definition Controllers_Systems_14b :: operations where
  "Controllers_Systems_14b = ops op_system ''MemoryMemoryId'' [''MemoryId'']
     [(''Certificates'', [], Checked ''CertificateV181Certificate'', [Post]),
      (''CertificatesCertificateId'', [''CertificateId''], Checked ''CertificateV181Certificate'', [Get, Put, Delete])]"

definition Controllers_Systems_14c :: operations where
  "Controllers_Systems_14c = ops op_system ''MemoryMemoryId'' [''MemoryId'']
     [(''CertificatesCertificateId'', [''CertificateId''], Checked ''CertificateV181Certificate'', [Patch]),
      (''CertificatesCertificateIdActionsCertificateRekey'', [''CertificateId''], Checked ''CertificateV181RekeyRequestBody'', [Post]),
      (''CertificatesCertificateIdActionsCertificateRenew'', [''CertificateId''], Checked ''CertificateV181RenewRequestBody'', [Post])]"

definition Controllers_Systems_14d :: operations where
  "Controllers_Systems_14d = ops op_system ''MemoryMemoryId'' [''MemoryId'']
     [(''DeviceLog'', [], Checked ''LogServiceV160LogService'', [Get, Put, Patch]),
      (''DeviceLogActionsLogServiceClearLog'', [], Checked ''LogServiceV160ClearLogRequestBody'', [Post])]"

definition Controllers_Systems_14e :: operations where
  "Controllers_Systems_14e = ops op_system ''MemoryMemoryId'' [''MemoryId'']
     [(''DeviceLogActionsLogServiceCollectDiagnosticData'', [], Checked ''LogServiceV160CollectDiagnosticDataRequestBody'', [Post]),
      (''DeviceLogActionsLogServicePushDiagnosticData'', [], Checked ''LogServiceV160PushDiagnosticDataRequestBody'', [Post]),
      (''DeviceLogEntries'', [], Checked ''LogEntryV1160LogEntry'', [Get, Post])]"

definition Controllers_Systems_14f :: operations where
  "Controllers_Systems_14f = ops op_system ''MemoryMemoryId'' [''MemoryId'']
     [(''DeviceLogEntriesLogEntryId'', [''LogEntryId''], Checked ''LogEntryV1160LogEntry'', [Get, Put, Delete, Patch])]"

definition Controllers_Systems_14g :: operations where
  "Controllers_Systems_14g = ops op_system ''MemoryMemoryId'' [''MemoryId'']
     [(''EnvironmentMetrics'', [], Checked ''EnvironmentMetricsV131EnvironmentMetrics'', [Get, Put, Patch]),
      (''EnvironmentMetricsActionsEnvironmentMetricsResetMetrics'', [], Untyped, [Post])]"

definition Controllers_Systems_14h :: operations where
  "Controllers_Systems_14h = ops op_system ''MemoryMemoryId'' [''MemoryId'']
     [(''EnvironmentMetricsActionsEnvironmentMetricsResetToDefaults'', [], Untyped, [Post]),
      (''MemoryMetrics'', [], Bodiless, [Get]),
      (''MemoryMetricsActionsMemoryMetricsClearCurrentPeriod'', [], Untyped, [Post])]"

definition Controllers_Systems_15a :: operations where
  "Controllers_Systems_15a = ops op_system '''' []
     [(''MemoryDomains'', [], Bodiless, [Get]),
      (''MemoryDomainsMemoryDomainId'', [''MemoryDomainId''], Bodiless, [Get]),
      (''MemoryDomainsMemoryDomainIdMemoryChunks'', [''MemoryDomainId''], Checked ''MemoryChunksV161MemoryChunks'', [Get, Post]),
      (''MemoryDomainsMemoryDomainIdMemoryChunksMemoryChunksId'', [''MemoryDomainId'', ''MemoryChunksId''], Bodiless, [Get])]"

definition Controllers_Systems_15b :: operations where
  "Controllers_Systems_15b = ops op_system '''' []
     [(''MemoryDomainsMemoryDomainIdMemoryChunksMemoryChunksId'', [''MemoryDomainId'', ''MemoryChunksId''], Checked ''MemoryChunksV161MemoryChunks'', [Put, Delete, Patch]),
      (''MemorySummaryMemoryMetrics'', [], Bodiless, [Get])]"

definition Controllers_Systems_15c :: operations where
  "Controllers_Systems_15c = ops op_system '''' []
     [(''MemorySummaryMemoryMetricsActionsMemoryMetricsClearCurrentPeriod'', [], Untyped, [Post]),
      (''NetworkInterfaces'', [], Bodiless, [Get]),
      (''NetworkInterfacesNetworkInterfaceId'', [''NetworkInterfaceId''], Bodiless, [Get]),
      (''NetworkInterfacesNetworkInterfaceIdNetworkDeviceFunctions'', [''NetworkInterfaceId''], Bodiless, [Get]),
      (''NetworkInterfacesNetworkInterfaceIdNetworkDeviceFunctionsNetworkDeviceFunctionIdAllowDeny'', [''NetworkInterfaceId'', ''NetworkDeviceFunctionId''], Bodiless, [Get])]"

definition Controllers_Systems_15d :: operations where
  "Controllers_Systems_15d = ops op_system '''' []
     [(''NetworkInterfacesNetworkInterfaceIdNetworkDeviceFunctionsNetworkDeviceFunctionIdAllowDeny'', [''NetworkInterfaceId'', ''NetworkDeviceFunctionId''], Checked ''AllowDenyV102AllowDeny'', [Post]),
      (''NetworkInterfacesNetworkInterfaceIdNetworkDeviceFunctionsNetworkDeviceFunctionIdAllowDenyAllowDenyId'', [''NetworkInterfaceId'', ''NetworkDeviceFunctionId'', ''AllowDenyId''], Checked ''AllowDenyV102AllowDeny'', [Get, Put])]"

definition Controllers_Systems_15e :: operations where
  "Controllers_Systems_15e = ops op_system '''' []
     [(''NetworkInterfacesNetworkInterfaceIdNetworkDeviceFunctionsNetworkDeviceFunctionIdAllowDenyAllowDenyId'', [''NetworkInterfaceId'', ''NetworkDeviceFunctionId'', ''AllowDenyId''], Checked ''AllowDenyV102AllowDeny'', [Delete, Patch]),
      (''NetworkInterfacesNetworkInterfaceIdNetworkPorts'', [''NetworkInterfaceId''], Bodiless, [Get]),
      (''NetworkInterfacesNetworkInterfaceIdPorts'', [''NetworkInterfaceId''], Bodiless, [Get])]"

definition Controllers_Systems_16a :: operations where
  "Controllers_Systems_16a = ops op_system ''OperatingSystem'' []
     [('''', [], Bodiless, [Get])]"

definition Controllers_Systems_17a :: operations where
  "Controllers_Systems_17a = ops op_system ''OperatingSystem'' []
     [(''Applications'', [], Bodiless, [Get]),
      (''ApplicationsApplicationId'', [''ApplicationId''], Bodiless, [Get]),
      (''ApplicationsApplicationIdActionsApplicationReset'', [''ApplicationId''], Checked ''ApplicationV100ResetRequestBody'', [Post]),
      (''ContainerImages'', [], Bodiless, [Get]),
      (''ContainerImagesContainerImageId'', [''ContainerImageId''], Bodiless, [Get]),
      (''Containers'', [], Bodiless, [Get])]"

definition Controllers_Systems_17b :: operations where
  "Controllers_Systems_17b = ops op_system ''OperatingSystem'' []
     [(''ContainersEthernetInterfaces'', [], Checked ''EthernetInterfaceV1120EthernetInterface'', [Get, Post]),
      (''ContainersEthernetInterfacesEthernetInterfaceId'', [''EthernetInterfaceId''], Checked ''EthernetInterfaceV1120EthernetInterface'', [Get, Put, Delete])]"

definition Controllers_Systems_17c :: operations where
  "Controllers_Systems_17c = ops op_system ''OperatingSystem'' []
     [(''ContainersEthernetInterfacesEthernetInterfaceId'', [''EthernetInterfaceId''], Checked ''EthernetInterfaceV1120EthernetInterface'', [Patch]),
      (''ContainersContainerId'', [''ContainerId''], Bodiless, [Get]),
      (''ContainersContainerIdActionsContainerReset'', [''ContainerId''], Checked ''ContainerV100ResetRequestBody'', [Post])]"

definition Controllers_Systems_18a :: operations where
  "Controllers_Systems_18a = ops op_system '''' []
     [(''PCIeDevices'', [], Bodiless, [Get]),
      (''PCIeDevicesPCIeDeviceId'', [''PCIeDeviceId''], Checked ''PcieDeviceV1130PcieDevice'', [Get, Put, Patch]),
      (''PCIeDevicesPCIeDeviceIdAssembly'', [''PCIeDeviceId''], Bodiless, [Get])]"

definition Controllers_Systems_18b :: operations where
  "Controllers_Systems_18b = ops op_system '''' []
     [(''PCIeDevicesPCIeDeviceIdAssembly'', [''PCIeDeviceId''], Checked ''AssemblyV150Assembly'', [Put, Patch]),
      (''PCIeDevicesPCIeDeviceIdEnvironmentMetrics'', [''PCIeDeviceId''], Checked ''EnvironmentMetricsV131EnvironmentMetrics'', [Get, Put])]"

definition Controllers_Systems_18c :: operations where
  "Controllers_Systems_18c = ops op_system '''' []
     [(''PCIeDevicesPCIeDeviceIdEnvironmentMetrics'', [''PCIeDeviceId''], Checked ''EnvironmentMetricsV131EnvironmentMetrics'', [Patch]),
      (''PCIeDevicesPCIeDeviceIdEnvironmentMetricsActionsEnvironmentMetricsResetMetrics'', [''PCIeDeviceId''], Untyped, [Post]),
      (''PCIeDevicesPCIeDeviceIdEnvironmentMetricsActionsEnvironmentMetricsResetToDefaults'', [''PCIeDeviceId''], Untyped, [Post]),
      (''PCIeDevicesPCIeDeviceIdPCIeFunctions'', [''PCIeDeviceId''], Bodiless, [Get]),
      (''PCIeDevicesPCIeDeviceIdPCIeFunctionsPCIeFunctionId'', [''PCIeDeviceId'', ''PCIeFunctionId''], Bodiless, [Get])]"

definition Controllers_Systems_18d :: operations where
  "Controllers_Systems_18d = ops op_system '''' []
     [(''PCIeDevicesPCIeDeviceIdPCIeFunctionsPCIeFunctionId'', [''PCIeDeviceId'', ''PCIeFunctionId''], Checked ''PcieFunctionV151PcieFunction'', [Put, Patch]),
      (''ProcessorSummaryProcessorMetrics'', [], Bodiless, [Get]),
      (''ProcessorSummaryProcessorMetricsActionsProcessorMetricsClearCurrentPeriod'', [], Untyped, [Post]),
      (''Processors'', [], Bodiless, [Get])]"

definition Controllers_Systems_19a :: operations where
  "Controllers_Systems_19a = ops op_system ''ProcessorsProcessorId'' [''ProcessorId'']
     [('''', [], Checked ''ProcessorV1190Processor'', [Get, Put, Patch]),
      (''AccelerationFunctions'', [], Bodiless, [Get]),
      (''AccelerationFunctionsAccelerationFunctionId'', [''AccelerationFunctionId''], Bodiless, [Get])]"

definition Controllers_Systems_19b :: operations where
  "Controllers_Systems_19b = ops op_system ''ProcessorsProcessorId'' [''ProcessorId'']
     [(''ActionsProcessorReset'', [], Checked ''ProcessorV1190ResetRequestBody'', [Post]),
      (''ActionsProcessorResetToDefaults'', [], Untyped, [Post]),
      (''Assembly'', [], Checked ''AssemblyV150Assembly'', [Get, Put])]"

definition Controllers_Systems_19c :: operations where
  "Controllers_Systems_19c = ops op_system ''ProcessorsProcessorId'' [''ProcessorId'']
     [(''Assembly'', [], Checked ''AssemblyV150Assembly'', [Patch]),
      (''Certificates'', [], Checked ''CertificateV181Certificate'', [Get, Post]),
      (''CertificatesCertificateId'', [''CertificateId''], Bodiless, [Get])]"

definition Controllers_Systems_19d :: operations where
  "Controllers_Systems_19d = ops op_system ''ProcessorsProcessorId'' [''ProcessorId'']
     [(''CertificatesCertificateId'', [''CertificateId''], Checked ''CertificateV181Certificate'', [Put, Delete, Patch])]"

definition Controllers_Systems_19e :: operations where
  "Controllers_Systems_19e = ops op_system ''ProcessorsProcessorId'' [''ProcessorId'']
     [(''CertificatesCertificateIdActionsCertificateRekey'', [''CertificateId''], Checked ''CertificateV181RekeyRequestBody'', [Post]),
      (''CertificatesCertificateIdActionsCertificateRenew'', [''CertificateId''], Checked ''CertificateV181RenewRequestBody'', [Post]),
      (''EnvironmentMetrics'', [], Checked ''EnvironmentMetricsV131EnvironmentMetrics'', [Get, Put])]"

definition Controllers_Systems_19f :: operations where
  "Controllers_Systems_19f = ops op_system ''ProcessorsProcessorId'' [''ProcessorId'']
     [(''EnvironmentMetrics'', [], Checked ''EnvironmentMetricsV131EnvironmentMetrics'', [Patch]),
      (''EnvironmentMetricsActionsEnvironmentMetricsResetMetrics'', [], Untyped, [Post]),
      (''EnvironmentMetricsActionsEnvironmentMetricsResetToDefaults'', [], Untyped, [Post]),
      (''MemorySummaryMemoryMetrics'', [], Bodiless, [Get]),
      (''MemorySummaryMemoryMetricsActionsMemoryMetricsClearCurrentPeriod'', [], Untyped, [Post])]"

definition Controllers_Systems_19g :: operations where
  "Controllers_Systems_19g = ops op_system ''ProcessorsProcessorId'' [''ProcessorId'']
     [(''OperatingConfigs'', [], Bodiless, [Get]),
      (''OperatingConfigsOperatingConfigId'', [''OperatingConfigId''], Bodiless, [Get]),
      (''Ports'', [], Bodiless, [Get])]"

definition Controllers_Systems_20a :: operations where
  "Controllers_Systems_20a = ops op_system ''ProcessorsProcessorId'' [''ProcessorId'']
     [(''PortsPortId'', [''PortId''], Checked ''PortV1110Port'', [Get, Put, Patch])]"

definition Controllers_Systems_20b :: operations where
  "Controllers_Systems_20b = ops op_system ''ProcessorsProcessorId'' [''ProcessorId'']
     [(''PortsPortIdActionsPortReset'', [''PortId''], Checked ''PortV1110ResetRequestBody'', [Post]),
      (''PortsPortIdActionsPortResetPPB'', [''PortId''], Untyped, [Post]),
      (''PortsPortIdEnvironmentMetrics'', [''PortId''], Checked ''EnvironmentMetricsV131EnvironmentMetrics'', [Get, Put])]"

definition Controllers_Systems_20c :: operations where
  "Controllers_Systems_20c = ops op_system ''ProcessorsProcessorId'' [''ProcessorId'']
     [(''PortsPortIdEnvironmentMetrics'', [''PortId''], Checked ''EnvironmentMetricsV131EnvironmentMetrics'', [Patch]),
      (''PortsPortIdEnvironmentMetricsActionsEnvironmentMetricsResetMetrics'', [''PortId''], Untyped, [Post]),
      (''PortsPortIdEnvironmentMetricsActionsEnvironmentMetricsResetToDefaults'', [''PortId''], Untyped, [Post]),
      (''PortsPortIdMetrics'', [''PortId''], Bodiless, [Get])]"

definition Controllers_Systems_20d :: operations where
  "Controllers_Systems_20d = ops op_system ''ProcessorsProcessorId'' [''ProcessorId'']
     [(''ProcessorMetrics'', [], Bodiless, [Get]),
      (''ProcessorMetricsActionsProcessorMetricsClearCurrentPeriod'', [], Untyped, [Post]),
      (''SubProcessors'', [], Bodiless, [Get])]"

definition Controllers_Systems_21a :: operations where
  "Controllers_Systems_21a = ops op_system ''ProcessorsProcessorIdSubProcessorsProcessorId2'' [''ProcessorId'', ''ProcessorId2'']
     [('''', [], Checked ''ProcessorV1190Processor'', [Get, Put, Patch])]"

definition Controllers_Systems_21b :: operations where
  "Controllers_Systems_21b = ops op_system ''ProcessorsProcessorIdSubProcessorsProcessorId2'' [''ProcessorId'', ''ProcessorId2'']
     [(''ActionsProcessorReset'', [], Checked ''ProcessorV1190ResetRequestBody'', [Post]),
      (''ActionsProcessorResetToDefaults'', [], Untyped, [Post]),
      (''Assembly'', [], Checked ''AssemblyV150Assembly'', [Get, Put])]"

definition Controllers_Systems_21c :: operations where
  "Controllers_Systems_21c = ops op_system ''ProcessorsProcessorIdSubProcessorsProcessorId2'' [''ProcessorId'', ''ProcessorId2'']
     [(''Assembly'', [], Checked ''AssemblyV150Assembly'', [Patch]),
      (''ProcessorMetrics'', [], Bodiless, [Get]),
      (''ProcessorMetricsActionsProcessorMetricsClearCurrentPeriod'', [], Untyped, [Post]),
      (''SubProcessors'', [], Bodiless, [Get])]"

definition Controllers_Systems_21d :: operations where
  "Controllers_Systems_21d = ops op_system ''ProcessorsProcessorIdSubProcessorsProcessorId2'' [''ProcessorId'', ''ProcessorId2'']
     [(''SubProcessorsProcessorId3'', [''ProcessorId3''], Checked ''ProcessorV1190Processor'', [Get, Put, Patch])]"

definition Controllers_Systems_21e :: operations where
  "Controllers_Systems_21e = ops op_system ''ProcessorsProcessorIdSubProcessorsProcessorId2'' [''ProcessorId'', ''ProcessorId2'']
     [(''SubProcessorsProcessorId3ActionsProcessorReset'', [''ProcessorId3''], Checked ''ProcessorV1190ResetRequestBody'', [Post]),
      (''SubProcessorsProcessorId3ActionsProcessorResetToDefaults'', [''ProcessorId3''], Untyped, [Post]),
      (''SubProcessorsProcessorId3Assembly'', [''ProcessorId3''], Bodiless, [Get])]"

definition Controllers_Systems_21f :: operations where
  "Controllers_Systems_21f = ops op_system ''ProcessorsProcessorIdSubProcessorsProcessorId2'' [''ProcessorId'', ''ProcessorId2'']
     [(''SubProcessorsProcessorId3Assembly'', [''ProcessorId3''], Checked ''AssemblyV150Assembly'', [Put, Patch]),
      (''SubProcessorsProcessorId3ProcessorMetrics'', [''ProcessorId3''], Bodiless, [Get])]"

definition Controllers_Systems_21g :: operations where
  "Controllers_Systems_21g = ops op_system ''ProcessorsProcessorIdSubProcessorsProcessorId2'' [''ProcessorId'', ''ProcessorId2'']
     [(''SubProcessorsProcessorId3ProcessorMetricsActionsProcessorMetricsClearCurrentPeriod'', [''ProcessorId3''], Untyped, [Post])]"

definition Controllers_Systems_22a :: operations where
  "Controllers_Systems_22a = ops op_system '''' []
     [(''SecureBoot'', [], Checked ''SecureBootV111SecureBoot'', [Get, Put, Patch]),
      (''SecureBootActionsSecureBootResetKeys'', [], Checked ''SecureBootV111ResetKeysRequestBody'', [Post]),
      (''SecureBootSecureBootDatabases'', [], Bodiless, [Get])]"

definition Controllers_Systems_22b :: operations where
  "Controllers_Systems_22b = ops op_system '''' []
     [(''SecureBootSecureBootDatabasesDatabaseId'', [''DatabaseId''], Bodiless, [Get]),
      (''SecureBootSecureBootDatabasesDatabaseIdActionsSecureBootDatabaseResetKeys'', [''DatabaseId''], Checked ''SecureBootDatabaseV102ResetKeysRequestBody'', [Post]),
      (''SecureBootSecureBootDatabasesDatabaseIdCertificates'', [''DatabaseId''], Checked ''CertificateV181Certificate'', [Get, Post]),
      (''SecureBootSecureBootDatabasesDatabaseIdCertificatesCertificateId'', [''DatabaseId'', ''CertificateId''], Bodiless, [Get])]"

definition Controllers_Systems_22c :: operations where
  "Controllers_Systems_22c = ops op_system '''' []
     [(''SecureBootSecureBootDatabasesDatabaseIdCertificatesCertificateId'', [''DatabaseId'', ''CertificateId''], Checked ''CertificateV181Certificate'', [Put, Delete, Patch])]"

definition Controllers_Systems_22d :: operations where
  "Controllers_Systems_22d = ops op_system '''' []
     [(''SecureBootSecureBootDatabasesDatabaseIdCertificatesCertificateIdActionsCertificateRekey'', [''DatabaseId'', ''CertificateId''], Checked ''CertificateV181RekeyRequestBody'', [Post]),
      (''SecureBootSecureBootDatabasesDatabaseIdCertificatesCertificateIdActionsCertificateRenew'', [''DatabaseId'', ''CertificateId''], Checked ''CertificateV181RenewRequestBody'', [Post]),
      (''SecureBootSecureBootDatabasesDatabaseIdSignatures'', [''DatabaseId''], Checked ''SignatureV102Signature'', [Get, Post])]"

definition Controllers_Systems_22e :: operations where
  "Controllers_Systems_22e = ops op_system '''' []
     [(''SecureBootSecureBootDatabasesDatabaseIdSignaturesSignatureId'', [''DatabaseId'', ''SignatureId''], Bodiless, [Get, Delete]),
      (''SimpleStorage'', [], Bodiless, [Get]),
      (''SimpleStorageSimpleStorageId'', [''SimpleStorageId''], Bodiless, [Get]),
      (''Storage'', [], Bodiless, [Get]),
      (''StorageStorageId'', [''StorageId''], Bodiless, [Get])]"

definition Controllers_Systems_22f :: operations where
  "Controllers_Systems_22f = ops op_system '''' []
     [(''StorageStorageId'', [''StorageId''], Checked ''StorageV1151Storage'', [Put, Patch]),
      (''StorageStorageIdActionsStorageResetToDefaults'', [''StorageId''], Checked ''StorageV1151ResetToDefaultsRequestBody'', [Post])]"

definition Controllers_Systems_22g :: operations where
  "Controllers_Systems_22g = ops op_system '''' []
     [(''StorageStorageIdActionsStorageSetEncryptionKey'', [''StorageId''], Checked ''StorageV1151SetEncryptionKeyRequestBody'', [Post]),
      (''StorageStorageIdConsistencyGroupsConsistencyGroupIdVolumes'', [''StorageId'', ''ConsistencyGroupId''], Checked ''VolumeV1100Volume'', [Get, Post])]"

definition Controllers_Systems_23a :: operations where
  "Controllers_Systems_23a = ops op_system ''StorageStorageIdConsistencyGroupsConsistencyGroupIdVolumesVolumeId'' [''StorageId'', ''ConsistencyGroupId'', ''VolumeId'']
     [('''', [], Checked ''VolumeV1100Volume'', [Get, Put, Delete])]"

definition Controllers_Systems_23b :: operations where
  "Controllers_Systems_23b = ops op_system ''StorageStorageIdConsistencyGroupsConsistencyGroupIdVolumesVolumeId'' [''StorageId'', ''ConsistencyGroupId'', ''VolumeId'']
     [('''', [], Checked ''VolumeV1100Volume'', [Patch]),
      (''ActionsVolumeAssignReplicaTarget'', [], Checked ''VolumeV1100AssignReplicaTargetRequestBody'', [Post]),
      (''ActionsVolumeChangeRAIDLayout'', [], Checked ''VolumeV1100ChangeRaidLayoutRequestBody'', [Post])]"

definition Controllers_Systems_23c :: operations where
  "Controllers_Systems_23c = ops op_system ''StorageStorageIdConsistencyGroupsConsistencyGroupIdVolumesVolumeId'' [''StorageId'', ''ConsistencyGroupId'', ''VolumeId'']
     [(''ActionsVolumeCheckConsistency'', [], Untyped, [Post]),
      (''ActionsVolumeCreateReplicaTarget'', [], Checked ''VolumeV1100CreateReplicaTargetRequestBody'', [Post]),
      (''ActionsVolumeForceEnable'', [], Untyped, [Post])]"

definition Controllers_Systems_23d :: operations where
  "Controllers_Systems_23d = ops op_system ''StorageStorageIdConsistencyGroupsConsistencyGroupIdVolumesVolumeId'' [''StorageId'', ''ConsistencyGroupId'', ''VolumeId'']
     [(''ActionsVolumeInitialize'', [], Checked ''VolumeV1100InitializeRequestBody'', [Post]),
      (''ActionsVolumeRemoveReplicaRelationship'', [], Checked ''VolumeV1100RemoveReplicaRelationshipRequestBody'', [Post]),
      (''ActionsVolumeResumeReplication'', [], Checked ''VolumeV1100ResumeReplicationRequestBody'', [Post])]"

definition Controllers_Systems_23e :: operations where
  "Controllers_Systems_23e = ops op_system ''StorageStorageIdConsistencyGroupsConsistencyGroupIdVolumesVolumeId'' [''StorageId'', ''ConsistencyGroupId'', ''VolumeId'']
     [(''ActionsVolumeReverseReplicationRelationship'', [], Checked ''VolumeV1100ReverseReplicationRelationshipRequestBody'', [Post]),
      (''ActionsVolumeSplitReplication'', [], Checked ''VolumeV1100SplitReplicationRequestBody'', [Post]),
      (''ActionsVolumeSuspendReplication'', [], Checked ''VolumeV1100SuspendReplicationRequestBody'', [Post])]"

definition Controllers_Systems_24a :: operations where
  "Controllers_Systems_24a = ops op_system ''StorageStorageIdControllers'' [''StorageId'']
     [('''', [], Bodiless, [Get]),
      (''ControllerId'', [''ControllerId''], Checked ''StorageControllerV172StorageController'', [Get, Put, Patch])]"

definition Controllers_Systems_24b :: operations where
  "Controllers_Systems_24b = ops op_system ''StorageStorageIdControllers'' [''StorageId'']
     [(''ControllerIdActionsStorageControllerAttachNamespaces'', [''ControllerId''], Checked ''StorageControllerV172AttachNamespacesRequestBody'', [Post]),
      (''ControllerIdActionsStorageControllerDetachNamespaces'', [''ControllerId''], Checked ''StorageControllerV172DetachNamespacesRequestBody'', [Post]),
      (''ControllerIdActionsStorageControllerSecurityReceive'', [''ControllerId''], Checked ''StorageControllerV172SecurityReceiveRequestBody'', [Post])]"

definition Controllers_Systems_24c :: operations where
  "Controllers_Systems_24c = ops op_system ''StorageStorageIdControllers'' [''StorageId'']
     [(''ControllerIdActionsStorageControllerSecuritySend'', [''ControllerId''], Checked ''StorageControllerV172SecuritySendRequestBody'', [Post]),
      (''ControllerIdEnvironmentMetrics'', [''ControllerId''], Checked ''EnvironmentMetricsV131EnvironmentMetrics'', [Get, Put])]"

definition Controllers_Systems_24d :: operations where
  "Controllers_Systems_24d = ops op_system ''StorageStorageIdControllers'' [''StorageId'']
     [(''ControllerIdEnvironmentMetrics'', [''ControllerId''], Checked ''EnvironmentMetricsV131EnvironmentMetrics'', [Patch]),
      (''ControllerIdEnvironmentMetricsActionsEnvironmentMetricsResetMetrics'', [''ControllerId''], Untyped, [Post]),
      (''ControllerIdEnvironmentMetricsActionsEnvironmentMetricsResetToDefaults'', [''ControllerId''], Untyped, [Post]),
      (''ControllerIdMetrics'', [''ControllerId''], Bodiless, [Get])]"

definition Controllers_Systems_25a :: operations where
  "Controllers_Systems_25a = ops op_system ''StorageStorageIdControllersStorageControllerId'' [''StorageId'', ''StorageControllerId'']
     [(''Assembly'', [], Checked ''AssemblyV150Assembly'', [Get, Put, Patch]),
      (''Certificates'', [], Bodiless, [Get])]"

definition Controllers_Systems_25b :: operations where
  "Controllers_Systems_25b = ops op_system ''StorageStorageIdControllersStorageControllerId'' [''StorageId'', ''StorageControllerId'']
     [(''Certificates'', [], Checked ''CertificateV181Certificate'', [Post]),
      (''CertificatesCertificateId'', [''CertificateId''], Checked ''CertificateV181Certificate'', [Get, Put])]"

definition Controllers_Systems_25c :: operations where
  "Controllers_Systems_25c = ops op_system ''StorageStorageIdControllersStorageControllerId'' [''StorageId'', ''StorageControllerId'']
     [(''CertificatesCertificateId'', [''CertificateId''], Checked ''CertificateV181Certificate'', [Delete, Patch]),
      (''CertificatesCertificateIdActionsCertificateRekey'', [''CertificateId''], Checked ''CertificateV181RekeyRequestBody'', [Post])]"

definition Controllers_Systems_25d :: operations where
  "Controllers_Systems_25d = ops op_system ''StorageStorageIdControllersStorageControllerId'' [''StorageId'', ''StorageControllerId'']
     [(''CertificatesCertificateIdActionsCertificateRenew'', [''CertificateId''], Checked ''CertificateV181RenewRequestBody'', [Post]),
      (''Ports'', [], Bodiless, [Get]),
      (''PortsPortId'', [''PortId''], Bodiless, [Get])]"

definition Controllers_Systems_25e :: operations where
  "Controllers_Systems_25e = ops op_system ''StorageStorageIdControllersStorageControllerId'' [''StorageId'', ''StorageControllerId'']
     [(''PortsPortId'', [''PortId''], Checked ''PortV1110Port'', [Put, Patch]),
      (''PortsPortIdActionsPortReset'', [''PortId''], Checked ''PortV1110ResetRequestBody'', [Post])]"

definition Controllers_Systems_25f :: operations where
  "Controllers_Systems_25f = ops op_system ''StorageStorageIdControllersStorageControllerId'' [''StorageId'', ''StorageControllerId'']
     [(''PortsPortIdActionsPortResetPPB'', [''PortId''], Untyped, [Post]),
      (''PortsPortIdEnvironmentMetrics'', [''PortId''], Checked ''EnvironmentMetricsV131EnvironmentMetrics'', [Get, Put])]"

definition Controllers_Systems_25g :: operations where
  "Controllers_Systems_25g = ops op_system ''StorageStorageIdControllersStorageControllerId'' [''StorageId'', ''StorageControllerId'']
     [(''PortsPortIdEnvironmentMetrics'', [''PortId''], Checked ''EnvironmentMetricsV131EnvironmentMetrics'', [Patch]),
      (''PortsPortIdEnvironmentMetricsActionsEnvironmentMetricsResetMetrics'', [''PortId''], Untyped, [Post]),
      (''PortsPortIdEnvironmentMetricsActionsEnvironmentMetricsResetToDefaults'', [''PortId''], Untyped, [Post])]"

definition Controllers_Systems_25h :: operations where
  "Controllers_Systems_25h = ops op_system ''StorageStorageIdControllersStorageControllerId'' [''StorageId'', ''StorageControllerId'']
     [(''PortsPortIdMetrics'', [''PortId''], Bodiless, [Get])]"

definition Controllers_Systems_26a :: operations where
  "Controllers_Systems_26a = ops op_system ''StorageStorageIdDrivesDriveId'' [''StorageId'', ''DriveId'']
     [('''', [], Checked ''DriveV1180Drive'', [Get, Put, Patch])]"

definition Controllers_Systems_26b :: operations where
  "Controllers_Systems_26b = ops op_system ''StorageStorageIdDrivesDriveId'' [''StorageId'', ''DriveId'']
     [(''ActionsDriveReset'', [], Checked ''DriveV1180ResetRequestBody'', [Post]),
      (''ActionsDriveRevertToOriginalFactoryState'', [], Checked ''DriveV1180RevertToOriginalFactoryStateRequestBody'', [Post]),
      (''ActionsDriveSecureErase'', [], Checked ''DriveV1180SecureEraseRequestBody'', [Post])]"

definition Controllers_Systems_26c :: operations where
  "Controllers_Systems_26c = ops op_system ''StorageStorageIdDrivesDriveId'' [''StorageId'', ''DriveId'']
     [(''Assembly'', [], Checked ''AssemblyV150Assembly'', [Get, Put, Patch]),
      (''Certificates'', [], Bodiless, [Get])]"

definition Controllers_Systems_26d :: operations where
  "Controllers_Systems_26d = ops op_system ''StorageStorageIdDrivesDriveId'' [''StorageId'', ''DriveId'']
     [(''Certificates'', [], Checked ''CertificateV181Certificate'', [Post]),
      (''CertificatesCertificateId'', [''CertificateId''], Checked ''CertificateV181Certificate'', [Get, Put])]"

definition Controllers_Systems_26e :: operations where
  "Controllers_Systems_26e = ops op_system ''StorageStorageIdDrivesDriveId'' [''StorageId'', ''DriveId'']
     [(''CertificatesCertificateId'', [''CertificateId''], Checked ''CertificateV181Certificate'', [Delete, Patch]),
      (''CertificatesCertificateIdActionsCertificateRekey'', [''CertificateId''], Checked ''CertificateV181RekeyRequestBody'', [Post])]"

definition Controllers_Systems_26f :: operations where
  "Controllers_Systems_26f = ops op_system ''StorageStorageIdDrivesDriveId'' [''StorageId'', ''DriveId'']
     [(''CertificatesCertificateIdActionsCertificateRenew'', [''CertificateId''], Checked ''CertificateV181RenewRequestBody'', [Post]),
      (''EnvironmentMetrics'', [], Checked ''EnvironmentMetricsV131EnvironmentMetrics'', [Get, Put])]"

definition Controllers_Systems_26g :: operations where
  "Controllers_Systems_26g = ops op_system ''StorageStorageIdDrivesDriveId'' [''StorageId'', ''DriveId'']
     [(''EnvironmentMetrics'', [], Checked ''EnvironmentMetricsV131EnvironmentMetrics'', [Patch]),
      (''EnvironmentMetricsActionsEnvironmentMetricsResetMetrics'', [], Untyped, [Post]),
      (''EnvironmentMetricsActionsEnvironmentMetricsResetToDefaults'', [], Untyped, [Post]),
      (''Metrics'', [], Bodiless, [Get])]"

definition Controllers_Systems_27a :: operations where
  "Controllers_Systems_27a = ops op_system ''StorageStorageId'' [''StorageId'']
     [(''EndpointGroups'', [], Checked ''EndpointGroupV133EndpointGroup'', [Get, Post]),
      (''EndpointGroupsEndpointGroupId'', [''EndpointGroupId''], Checked ''EndpointGroupV133EndpointGroup'', [Get, Put])]"

definition Controllers_Systems_27b :: operations where
  "Controllers_Systems_27b = ops op_system ''StorageStorageId'' [''StorageId'']
     [(''EndpointGroupsEndpointGroupId'', [''EndpointGroupId''], Checked ''EndpointGroupV133EndpointGroup'', [Delete, Patch]),
      (''FileSystemsFileSystemIdCapacitySourcesCapacitySourceIdProvidingDrives'', [''FileSystemId'', ''CapacitySourceId''], Bodiless, [Get]),
      (''FileSystemsFileSystemIdCapacitySourcesCapacitySourceIdProvidingVolumes'', [''FileSystemId'', ''CapacitySourceId''], Bodiless, [Get])]"

definition Controllers_Systems_27c :: operations where
  "Controllers_Systems_27c = ops op_system ''StorageStorageId'' [''StorageId'']
     [(''FileSystemsFileSystemIdCapacitySourcesCapacitySourceIdProvidingVolumes'', [''FileSystemId'', ''CapacitySourceId''], Checked ''VolumeV1100Volume'', [Post]),
      (''FileSystemsFileSystemIdCapacitySourcesCapacitySourceIdProvidingVolumesVolumeId'', [''FileSystemId'', ''CapacitySourceId'', ''VolumeId''], Checked ''VolumeV1100Volume'', [Get, Put])]"

definition Controllers_Systems_27d :: operations where
  "Controllers_Systems_27d = ops op_system ''StorageStorageId'' [''StorageId'']
     [(''FileSystemsFileSystemIdCapacitySourcesCapacitySourceIdProvidingVolumesVolumeId'', [''FileSystemId'', ''CapacitySourceId'', ''VolumeId''], Checked ''VolumeV1100Volume'', [Delete, Patch])]"

definition Controllers_Systems_28a :: operations where
  "Controllers_Systems_28a = ops op_system ''StorageStorageIdFileSystemsFileSystemIdCapacitySourcesCapacitySourceIdProvidingVolumesVolumeIdActions'' [''StorageId'', ''FileSystemId'', ''CapacitySourceId'', ''VolumeId'']
     [(''VolumeAssignReplicaTarget'', [], Checked ''VolumeV1100AssignReplicaTargetRequestBody'', [Post]),
      (''VolumeChangeRAIDLayout'', [], Checked ''VolumeV1100ChangeRaidLayoutRequestBody'', [Post]),
      (''VolumeCheckConsistency'', [], Untyped, [Post])]"

definition Controllers_Systems_28b :: operations where
  "Controllers_Systems_28b = ops op_system ''StorageStorageIdFileSystemsFileSystemIdCapacitySourcesCapacitySourceIdProvidingVolumesVolumeIdActions'' [''StorageId'', ''FileSystemId'', ''CapacitySourceId'', ''VolumeId'']
     [(''VolumeCreateReplicaTarget'', [], Checked ''VolumeV1100CreateReplicaTargetRequestBody'', [Post]),
      (''VolumeForceEnable'', [], Untyped, [Post]),
      (''VolumeInitialize'', [], Checked ''VolumeV1100InitializeRequestBody'', [Post])]"

definition Controllers_Systems_28c :: operations where
  "Controllers_Systems_28c = ops op_system ''StorageStorageIdFileSystemsFileSystemIdCapacitySourcesCapacitySourceIdProvidingVolumesVolumeIdActions'' [''StorageId'', ''FileSystemId'', ''CapacitySourceId'', ''VolumeId'']
     [(''VolumeRemoveReplicaRelationship'', [], Checked ''VolumeV1100RemoveReplicaRelationshipRequestBody'', [Post]),
      (''VolumeResumeReplication'', [], Checked ''VolumeV1100ResumeReplicationRequestBody'', [Post])]"

definition Controllers_Systems_28d :: operations where
  "Controllers_Systems_28d = ops op_system ''StorageStorageIdFileSystemsFileSystemIdCapacitySourcesCapacitySourceIdProvidingVolumesVolumeIdActions'' [''StorageId'', ''FileSystemId'', ''CapacitySourceId'', ''VolumeId'']
     [(''VolumeReverseReplicationRelationship'', [], Checked ''VolumeV1100ReverseReplicationRelationshipRequestBody'', [Post]),
      (''VolumeSplitReplication'', [], Checked ''VolumeV1100SplitReplicationRequestBody'', [Post])]"

definition Controllers_Systems_28e :: operations where
  "Controllers_Systems_28e = ops op_system ''StorageStorageIdFileSystemsFileSystemIdCapacitySourcesCapacitySourceIdProvidingVolumesVolumeIdActions'' [''StorageId'', ''FileSystemId'', ''CapacitySourceId'', ''VolumeId'']
     [(''VolumeSuspendReplication'', [], Checked ''VolumeV1100SuspendReplicationRequestBody'', [Post])]"

definition Controllers_Systems_29a :: operations where
  "Controllers_Systems_29a = ops op_system ''StorageStorageIdStorageControllersStorageControllerId'' [''StorageId'', ''StorageControllerId'']
     [(''Assembly'', [], Checked ''AssemblyV150Assembly'', [Get, Put, Patch]),
      (''Certificates'', [], Bodiless, [Get])]"

definition Controllers_Systems_29b :: operations where
  "Controllers_Systems_29b = ops op_system ''StorageStorageIdStorageControllersStorageControllerId'' [''StorageId'', ''StorageControllerId'']
     [(''Certificates'', [], Checked ''CertificateV181Certificate'', [Post]),
      (''CertificatesCertificateId'', [''CertificateId''], Checked ''CertificateV181Certificate'', [Get, Put])]"

definition Controllers_Systems_29c :: operations where
  "Controllers_Systems_29c = ops op_system ''StorageStorageIdStorageControllersStorageControllerId'' [''StorageId'', ''StorageControllerId'']
     [(''CertificatesCertificateId'', [''CertificateId''], Checked ''CertificateV181Certificate'', [Delete, Patch]),
      (''CertificatesCertificateIdActionsCertificateRekey'', [''CertificateId''], Checked ''CertificateV181RekeyRequestBody'', [Post])]"

definition Controllers_Systems_29d :: operations where
  "Controllers_Systems_29d = ops op_system ''StorageStorageIdStorageControllersStorageControllerId'' [''StorageId'', ''StorageControllerId'']
     [(''CertificatesCertificateIdActionsCertificateRenew'', [''CertificateId''], Checked ''CertificateV181RenewRequestBody'', [Post]),
      (''Ports'', [], Bodiless, [Get]),
      (''PortsPortId'', [''PortId''], Bodiless, [Get])]"

definition Controllers_Systems_29e :: operations where
  "Controllers_Systems_29e = ops op_system ''StorageStorageIdStorageControllersStorageControllerId'' [''StorageId'', ''StorageControllerId'']
     [(''PortsPortId'', [''PortId''], Checked ''PortV1110Port'', [Put, Patch]),
      (''PortsPortIdActionsPortReset'', [''PortId''], Checked ''PortV1110ResetRequestBody'', [Post])]"

definition Controllers_Systems_29f :: operations where
  "Controllers_Systems_29f = ops op_system ''StorageStorageIdStorageControllersStorageControllerId'' [''StorageId'', ''StorageControllerId'']
     [(''PortsPortIdActionsPortResetPPB'', [''PortId''], Untyped, [Post]),
      (''PortsPortIdEnvironmentMetrics'', [''PortId''], Checked ''EnvironmentMetricsV131EnvironmentMetrics'', [Get, Put])]"

definition Controllers_Systems_29g :: operations where
  "Controllers_Systems_29g = ops op_system ''StorageStorageIdStorageControllersStorageControllerId'' [''StorageId'', ''StorageControllerId'']
     [(''PortsPortIdEnvironmentMetrics'', [''PortId''], Checked ''EnvironmentMetricsV131EnvironmentMetrics'', [Patch]),
      (''PortsPortIdEnvironmentMetricsActionsEnvironmentMetricsResetMetrics'', [''PortId''], Untyped, [Post]),
      (''PortsPortIdEnvironmentMetricsActionsEnvironmentMetricsResetToDefaults'', [''PortId''], Untyped, [Post])]"

definition Controllers_Systems_29h :: operations where
  "Controllers_Systems_29h = ops op_system ''StorageStorageIdStorageControllersStorageControllerId'' [''StorageId'', ''StorageControllerId'']
     [(''PortsPortIdMetrics'', [''PortId''], Bodiless, [Get])]"

definition Controllers_Systems_30a :: operations where
  "Controllers_Systems_30a = ops op_system ''StorageStorageIdStoragePoolsStoragePoolIdAllocatedVolumes'' [''StorageId'', ''StoragePoolId'']
     [('''', [], Checked ''VolumeV1100Volume'', [Get, Post]),
      (''VolumeId'', [''VolumeId''], Bodiless, [Get])]"

definition Controllers_Systems_30b :: operations where
  "Controllers_Systems_30b = ops op_system ''StorageStorageIdStoragePoolsStoragePoolIdAllocatedVolumes'' [''StorageId'', ''StoragePoolId'']
     [(''VolumeId'', [''VolumeId''], Checked ''VolumeV1100Volume'', [Put, Delete, Patch])]"

definition Controllers_Systems_30c :: operations where
  "Controllers_Systems_30c = ops op_system ''StorageStorageIdStoragePoolsStoragePoolIdAllocatedVolumes'' [''StorageId'', ''StoragePoolId'']
     [(''VolumeIdActionsVolumeAssignReplicaTarget'', [''VolumeId''], Checked ''VolumeV1100AssignReplicaTargetRequestBody'', [Post]),
      (''VolumeIdActionsVolumeChangeRAIDLayout'', [''VolumeId''], Checked ''VolumeV1100ChangeRaidLayoutRequestBody'', [Post]),
      (''VolumeIdActionsVolumeCheckConsistency'', [''VolumeId''], Untyped, [Post])]"

definition Controllers_Systems_30d :: operations where
  "Controllers_Systems_30d = ops op_system ''StorageStorageIdStoragePoolsStoragePoolIdAllocatedVolumes'' [''StorageId'', ''StoragePoolId'']
     [(''VolumeIdActionsVolumeCreateReplicaTarget'', [''VolumeId''], Checked ''VolumeV1100CreateReplicaTargetRequestBody'', [Post]),
      (''VolumeIdActionsVolumeForceEnable'', [''VolumeId''], Untyped, [Post]),
      (''VolumeIdActionsVolumeInitialize'', [''VolumeId''], Checked ''VolumeV1100InitializeRequestBody'', [Post])]"

definition Controllers_Systems_30e :: operations where
  "Controllers_Systems_30e = ops op_system ''StorageStorageIdStoragePoolsStoragePoolIdAllocatedVolumes'' [''StorageId'', ''StoragePoolId'']
     [(''VolumeIdActionsVolumeRemoveReplicaRelationship'', [''VolumeId''], Checked ''VolumeV1100RemoveReplicaRelationshipRequestBody'', [Post]),
      (''VolumeIdActionsVolumeResumeReplication'', [''VolumeId''], Checked ''VolumeV1100ResumeReplicationRequestBody'', [Post]),
      (''VolumeIdActionsVolumeReverseReplicationRelationship'', [''VolumeId''], Checked ''VolumeV1100ReverseReplicationRelationshipRequestBody'', [Post])]"

definition Controllers_Systems_30f :: operations where
  "Controllers_Systems_30f = ops op_system ''StorageStorageIdStoragePoolsStoragePoolIdAllocatedVolumes'' [''StorageId'', ''StoragePoolId'']
     [(''VolumeIdActionsVolumeSplitReplication'', [''VolumeId''], Checked ''VolumeV1100SplitReplicationRequestBody'', [Post]),
      (''VolumeIdActionsVolumeSuspendReplication'', [''VolumeId''], Checked ''VolumeV1100SuspendReplicationRequestBody'', [Post])]"

definition Controllers_Systems_31a :: operations where
  "Controllers_Systems_31a = ops op_system ''StorageStorageIdStoragePoolsStoragePoolIdCapacitySourcesCapacitySourceId'' [''StorageId'', ''StoragePoolId'', ''CapacitySourceId'']
     [(''ProvidingDrives'', [], Bodiless, [Get]),
      (''ProvidingVolumes'', [], Checked ''VolumeV1100Volume'', [Get, Post])]"

definition Controllers_Systems_31b :: operations where
  "Controllers_Systems_31b = ops op_system ''StorageStorageIdStoragePoolsStoragePoolIdCapacitySourcesCapacitySourceId'' [''StorageId'', ''StoragePoolId'', ''CapacitySourceId'']
     [(''ProvidingVolumesVolumeId'', [''VolumeId''], Checked ''VolumeV1100Volume'', [Get, Put, Delete])]"

definition Controllers_Systems_31c :: operations where
  "Controllers_Systems_31c = ops op_system ''StorageStorageIdStoragePoolsStoragePoolIdCapacitySourcesCapacitySourceId'' [''StorageId'', ''StoragePoolId'', ''CapacitySourceId'']
     [(''ProvidingVolumesVolumeId'', [''VolumeId''], Checked ''VolumeV1100Volume'', [Patch])]"

definition Controllers_Systems_32a :: operations where
  "Controllers_Systems_32a = ops op_system ''StorageStorageIdStoragePoolsStoragePoolIdCapacitySourcesCapacitySourceIdProvidingVolumesVolumeIdActions'' [''StorageId'', ''StoragePoolId'', ''CapacitySourceId'', ''VolumeId'']
     [(''VolumeAssignReplicaTarget'', [], Checked ''VolumeV1100AssignReplicaTargetRequestBody'', [Post]),
      (''VolumeChangeRAIDLayout'', [], Checked ''VolumeV1100ChangeRaidLayoutRequestBody'', [Post]),
      (''VolumeCheckConsistency'', [], Untyped, [Post])]"

definition Controllers_Systems_32b :: operations where
  "Controllers_Systems_32b = ops op_system ''StorageStorageIdStoragePoolsStoragePoolIdCapacitySourcesCapacitySourceIdProvidingVolumesVolumeIdActions'' [''StorageId'', ''StoragePoolId'', ''CapacitySourceId'', ''VolumeId'']
     [(''VolumeCreateReplicaTarget'', [], Checked ''VolumeV1100CreateReplicaTargetRequestBody'', [Post]),
      (''VolumeForceEnable'', [], Untyped, [Post]),
      (''VolumeInitialize'', [], Checked ''VolumeV1100InitializeRequestBody'', [Post])]"

definition Controllers_Systems_32c :: operations where
  "Controllers_Systems_32c = ops op_system ''StorageStorageIdStoragePoolsStoragePoolIdCapacitySourcesCapacitySourceIdProvidingVolumesVolumeIdActions'' [''StorageId'', ''StoragePoolId'', ''CapacitySourceId'', ''VolumeId'']
     [(''VolumeRemoveReplicaRelationship'', [], Checked ''VolumeV1100RemoveReplicaRelationshipRequestBody'', [Post]),
      (''VolumeResumeReplication'', [], Checked ''VolumeV1100ResumeReplicationRequestBody'', [Post])]"

definition Controllers_Systems_32d :: operations where
  "Controllers_Systems_32d = ops op_system ''StorageStorageIdStoragePoolsStoragePoolIdCapacitySourcesCapacitySourceIdProvidingVolumesVolumeIdActions'' [''StorageId'', ''StoragePoolId'', ''CapacitySourceId'', ''VolumeId'']
     [(''VolumeReverseReplicationRelationship'', [], Checked ''VolumeV1100ReverseReplicationRelationshipRequestBody'', [Post]),
      (''VolumeSplitReplication'', [], Checked ''VolumeV1100SplitReplicationRequestBody'', [Post])]"

definition Controllers_Systems_32e :: operations where
  "Controllers_Systems_32e = ops op_system ''StorageStorageIdStoragePoolsStoragePoolIdCapacitySourcesCapacitySourceIdProvidingVolumesVolumeIdActions'' [''StorageId'', ''StoragePoolId'', ''CapacitySourceId'', ''VolumeId'']
     [(''VolumeSuspendReplication'', [], Checked ''VolumeV1100SuspendReplicationRequestBody'', [Post])]"

definition Controllers_Systems_33a :: operations where
  "Controllers_Systems_33a = ops op_system ''StorageStorageIdVolumes'' [''StorageId'']
     [('''', [], Checked ''VolumeV1100Volume'', [Get, Post]),
      (''VolumeId'', [''VolumeId''], Checked ''VolumeV1100Volume'', [Get, Put])]"

definition Controllers_Systems_33b :: operations where
  "Controllers_Systems_33b = ops op_system ''StorageStorageIdVolumes'' [''StorageId'']
     [(''VolumeId'', [''VolumeId''], Checked ''VolumeV1100Volume'', [Delete, Patch]),
      (''VolumeIdActionsVolumeAssignReplicaTarget'', [''VolumeId''], Checked ''VolumeV1100AssignReplicaTargetRequestBody'', [Post])]"

definition Controllers_Systems_33c :: operations where
  "Controllers_Systems_33c = ops op_system ''StorageStorageIdVolumes'' [''StorageId'']
     [(''VolumeIdActionsVolumeChangeRAIDLayout'', [''VolumeId''], Checked ''VolumeV1100ChangeRaidLayoutRequestBody'', [Post]),
      (''VolumeIdActionsVolumeCheckConsistency'', [''VolumeId''], Untyped, [Post]),
      (''VolumeIdActionsVolumeCreateReplicaTarget'', [''VolumeId''], Checked ''VolumeV1100CreateReplicaTargetRequestBody'', [Post])]"

definition Controllers_Systems_33d :: operations where
  "Controllers_Systems_33d = ops op_system ''StorageStorageIdVolumes'' [''StorageId'']
     [(''VolumeIdActionsVolumeForceEnable'', [''VolumeId''], Untyped, [Post]),
      (''VolumeIdActionsVolumeInitialize'', [''VolumeId''], Checked ''VolumeV1100InitializeRequestBody'', [Post]),
      (''VolumeIdActionsVolumeRemoveReplicaRelationship'', [''VolumeId''], Checked ''VolumeV1100RemoveReplicaRelationshipRequestBody'', [Post])]"

definition Controllers_Systems_33e :: operations where
  "Controllers_Systems_33e = ops op_system ''StorageStorageIdVolumes'' [''StorageId'']
     [(''VolumeIdActionsVolumeResumeReplication'', [''VolumeId''], Checked ''VolumeV1100ResumeReplicationRequestBody'', [Post]),
      (''VolumeIdActionsVolumeReverseReplicationRelationship'', [''VolumeId''], Checked ''VolumeV1100ReverseReplicationRelationshipRequestBody'', [Post]),
      (''VolumeIdActionsVolumeSplitReplication'', [''VolumeId''], Checked ''VolumeV1100SplitReplicationRequestBody'', [Post])]"

definition Controllers_Systems_33f :: operations where
  "Controllers_Systems_33f = ops op_system ''StorageStorageIdVolumes'' [''StorageId'']
     [(''VolumeIdActionsVolumeSuspendReplication'', [''VolumeId''], Checked ''VolumeV1100SuspendReplicationRequestBody'', [Post]),
      (''VolumeIdCapacitySourcesCapacitySourceIdProvidingDrives'', [''VolumeId'', ''CapacitySourceId''], Bodiless, [Get])]"

definition Controllers_Systems_34a :: operations where
  "Controllers_Systems_34a = ops op_system '''' []
     [(''USBControllers'', [], Bodiless, [Get]),
      (''USBControllersControllerId'', [''ControllerId''], Bodiless, [Get]),
      (''USBControllersControllerIdPorts'', [''ControllerId''], Bodiless, [Get]),
      (''USBControllersControllerIdPortsPortId'', [''ControllerId'', ''PortId''], Checked ''PortV1110Port'', [Get, Put])]"

definition Controllers_Systems_34b :: operations where
  "Controllers_Systems_34b = ops op_system '''' []
     [(''USBControllersControllerIdPortsPortId'', [''ControllerId'', ''PortId''], Checked ''PortV1110Port'', [Patch]),
      (''USBControllersControllerIdPortsPortIdActionsPortReset'', [''ControllerId'', ''PortId''], Checked ''PortV1110ResetRequestBody'', [Post]),
      (''USBControllersControllerIdPortsPortIdActionsPortResetPPB'', [''ControllerId'', ''PortId''], Untyped, [Post]),
      (''USBControllersControllerIdPortsPortIdEnvironmentMetrics'', [''ControllerId'', ''PortId''], Bodiless, [Get])]"

definition Controllers_Systems_34c :: operations where
  "Controllers_Systems_34c = ops op_system '''' []
     [(''USBControllersControllerIdPortsPortIdEnvironmentMetrics'', [''ControllerId'', ''PortId''], Checked ''EnvironmentMetricsV131EnvironmentMetrics'', [Put, Patch]),
      (''USBControllersControllerIdPortsPortIdEnvironmentMetricsActionsEnvironmentMetricsResetMetrics'', [''ControllerId'', ''PortId''], Untyped, [Post])]"

definition Controllers_Systems_34d :: operations where
  "Controllers_Systems_34d = ops op_system '''' []
     [(''USBControllersControllerIdPortsPortIdEnvironmentMetricsActionsEnvironmentMetricsResetToDefaults'', [''ControllerId'', ''PortId''], Untyped, [Post]),
      (''USBControllersControllerIdPortsPortIdMetrics'', [''ControllerId'', ''PortId''], Bodiless, [Get]),
      (''VirtualMedia'', [], Bodiless, [Get])]"

definition Controllers_Systems_35a :: operations where
  "Controllers_Systems_35a = ops op_system ''VirtualMediaVirtualMediaId'' [''VirtualMediaId'']
     [('''', [], Checked ''VirtualMediaV163VirtualMedia'', [Get, Put, Patch]),
      (''ActionsVirtualMediaEjectMedia'', [], Untyped, [Post])]"

definition Controllers_Systems_35b :: operations where
  "Controllers_Systems_35b = ops op_system ''VirtualMediaVirtualMediaId'' [''VirtualMediaId'']
     [(''ActionsVirtualMediaInsertMedia'', [], Checked ''VirtualMediaV163InsertMediaRequestBody'', [Post]),
      (''Certificates'', [], Checked ''CertificateV181Certificate'', [Get, Post]),
      (''CertificatesCertificateId'', [''CertificateId''], Bodiless, [Get])]"

definition Controllers_Systems_35c :: operations where
  "Controllers_Systems_35c = ops op_system ''VirtualMediaVirtualMediaId'' [''VirtualMediaId'']
     [(''CertificatesCertificateId'', [''CertificateId''], Checked ''CertificateV181Certificate'', [Put, Delete, Patch])]"

definition Controllers_Systems_35d :: operations where
  "Controllers_Systems_35d = ops op_system ''VirtualMediaVirtualMediaId'' [''VirtualMediaId'']
     [(''CertificatesCertificateIdActionsCertificateRekey'', [''CertificateId''], Checked ''CertificateV181RekeyRequestBody'', [Post]),
      (''CertificatesCertificateIdActionsCertificateRenew'', [''CertificateId''], Checked ''CertificateV181RenewRequestBody'', [Post]),
      (''ClientCertificates'', [], Checked ''CertificateV181Certificate'', [Get, Post])]"

definition Controllers_Systems_35e :: operations where
  "Controllers_Systems_35e = ops op_system ''VirtualMediaVirtualMediaId'' [''VirtualMediaId'']
     [(''ClientCertificatesCertificateId'', [''CertificateId''], Checked ''CertificateV181Certificate'', [Get, Put, Delete, Patch])]"

definition Controllers_Systems_35f :: operations where
  "Controllers_Systems_35f = ops op_system ''VirtualMediaVirtualMediaId'' [''VirtualMediaId'']
     [(''ClientCertificatesCertificateIdActionsCertificateRekey'', [''CertificateId''], Checked ''CertificateV181RekeyRequestBody'', [Post]),
      (''ClientCertificatesCertificateIdActionsCertificateRenew'', [''CertificateId''], Checked ''CertificateV181RenewRequestBody'', [Post])]"

definition Controllers_Systems_36a :: operations where
  "Controllers_Systems_36a = ops op_root ''SystemsSystemIdFabricAdaptersFabricAdapterIdGenZ'' [''SystemId'', ''FabricAdapterId'']
     [(''REQVCAT'', [], Checked ''VcatEntryV102VcatEntry'', [Get, Post]),
      (''REQVCATVCATEntryId'', [''VCATEntryId''], Checked ''VcatEntryV102VcatEntry'', [Get, Put])]"

definition Controllers_Systems_36b :: operations where
  "Controllers_Systems_36b = ops op_root ''SystemsSystemIdFabricAdaptersFabricAdapterIdGenZ'' [''SystemId'', ''FabricAdapterId'']
     [(''REQVCATVCATEntryId'', [''VCATEntryId''], Checked ''VcatEntryV102VcatEntry'', [Delete, Patch]),
      (''RSPVCAT'', [], Checked ''VcatEntryV102VcatEntry'', [Get, Post])]"

definition Controllers_Systems_36c :: operations where
  "Controllers_Systems_36c = ops op_root ''SystemsSystemIdFabricAdaptersFabricAdapterIdGenZ'' [''SystemId'', ''FabricAdapterId'']
     [(''RSPVCATVCATEntryId'', [''VCATEntryId''], Checked ''VcatEntryV102VcatEntry'', [Get, Put, Delete, Patch])]"

definition Controllers_Systems_37a :: operations where
  "Controllers_Systems_37a = ops op_root ''SystemsSystemIdFabricAdaptersFabricAdapterId'' [''SystemId'', ''FabricAdapterId'']
     [(''PortsPortIdGenZVCAT'', [''PortId''], Checked ''VcatEntryV102VcatEntry'', [Get, Post]),
      (''PortsPortIdGenZVCATVCATEntryId'', [''PortId'', ''VCATEntryId''], Bodiless, [Get])]"

definition Controllers_Systems_37b :: operations where
  "Controllers_Systems_37b = ops op_root ''SystemsSystemIdFabricAdaptersFabricAdapterId'' [''SystemId'', ''FabricAdapterId'']
     [(''PortsPortIdGenZVCATVCATEntryId'', [''PortId'', ''VCATEntryId''], Checked ''VcatEntryV102VcatEntry'', [Put, Delete, Patch])]"

definition Controllers_Systems_37c :: operations where
  "Controllers_Systems_37c = ops op_root ''SystemsSystemIdFabricAdaptersFabricAdapterId'' [''SystemId'', ''FabricAdapterId'']
     [(''PortsPortIdVCAT'', [''PortId''], Checked ''VcatEntryV102VcatEntry'', [Get, Post]),
      (''PortsPortIdVCATVCATEntryId'', [''PortId'', ''VCATEntryId''], Bodiless, [Get])]"

definition Controllers_Systems_37d :: operations where
  "Controllers_Systems_37d = ops op_root ''SystemsSystemIdFabricAdaptersFabricAdapterId'' [''SystemId'', ''FabricAdapterId'']
     [(''PortsPortIdVCATVCATEntryId'', [''PortId'', ''VCATEntryId''], Checked ''VcatEntryV102VcatEntry'', [Put, Delete, Patch])]"

definition Controllers_Systems_37e :: operations where
  "Controllers_Systems_37e = ops op_root ''SystemsSystemIdFabricAdaptersFabricAdapterId'' [''SystemId'', ''FabricAdapterId'']
     [(''REQVCAT'', [], Checked ''VcatEntryV102VcatEntry'', [Get, Post]),
      (''REQVCATVCATEntryId'', [''VCATEntryId''], Checked ''VcatEntryV102VcatEntry'', [Get, Put])]"

definition Controllers_Systems_37f :: operations where
  "Controllers_Systems_37f = ops op_root ''SystemsSystemIdFabricAdaptersFabricAdapterId'' [''SystemId'', ''FabricAdapterId'']
     [(''REQVCATVCATEntryId'', [''VCATEntryId''], Checked ''VcatEntryV102VcatEntry'', [Delete, Patch]),
      (''RSPVCAT'', [], Checked ''VcatEntryV102VcatEntry'', [Get, Post])]"

definition Controllers_Systems_37g :: operations where
  "Controllers_Systems_37g = ops op_root ''SystemsSystemIdFabricAdaptersFabricAdapterId'' [''SystemId'', ''FabricAdapterId'']
     [(''RSPVCATVCATEntryId'', [''VCATEntryId''], Checked ''VcatEntryV102VcatEntry'', [Get, Put, Delete, Patch])]"

definition system_operations :: operations where
  "system_operations = concat
     [concat [Controllers_Systems_1a],
      concat [Controllers_Systems_2a],
      concat [Controllers_Systems_3a],
      concat [Controllers_Systems_4a],
      concat [Controllers_Systems_5a],
      concat [Controllers_Systems_6a, Controllers_Systems_6b, Controllers_Systems_6c, Controllers_Systems_6d,
        Controllers_Systems_6e],
      concat [Controllers_Systems_7a, Controllers_Systems_7b, Controllers_Systems_7c, Controllers_Systems_7d,
        Controllers_Systems_7e],
      concat [Controllers_Systems_8a, Controllers_Systems_8b, Controllers_Systems_8c, Controllers_Systems_8d,
        Controllers_Systems_8e, Controllers_Systems_8f, Controllers_Systems_8g, Controllers_Systems_8h],
      concat [Controllers_Systems_9a, Controllers_Systems_9b, Controllers_Systems_9c, Controllers_Systems_9d,
        Controllers_Systems_9e, Controllers_Systems_9f, Controllers_Systems_9g, Controllers_Systems_9h,
        Controllers_Systems_9i, Controllers_Systems_9j],
      concat [Controllers_Systems_10a, Controllers_Systems_10b, Controllers_Systems_10c, Controllers_Systems_10d,
        Controllers_Systems_10e, Controllers_Systems_10f, Controllers_Systems_10g, Controllers_Systems_10h,
        Controllers_Systems_10i],
      concat [Controllers_Systems_11a, Controllers_Systems_11b, Controllers_Systems_11c, Controllers_Systems_11d],
      concat [Controllers_Systems_12a, Controllers_Systems_12b, Controllers_Systems_12c, Controllers_Systems_12d,
        Controllers_Systems_12e, Controllers_Systems_12f],
      concat [Controllers_Systems_13a, Controllers_Systems_13b, Controllers_Systems_13c, Controllers_Systems_13d],
      concat [Controllers_Systems_14a, Controllers_Systems_14b, Controllers_Systems_14c, Controllers_Systems_14d,
        Controllers_Systems_14e, Controllers_Systems_14f, Controllers_Systems_14g, Controllers_Systems_14h],
      concat [Controllers_Systems_15a, Controllers_Systems_15b, Controllers_Systems_15c, Controllers_Systems_15d,
        Controllers_Systems_15e],
      concat [Controllers_Systems_16a],
      concat [Controllers_Systems_17a, Controllers_Systems_17b, Controllers_Systems_17c],
      concat [Controllers_Systems_18a, Controllers_Systems_18b, Controllers_Systems_18c, Controllers_Systems_18d],
      concat [Controllers_Systems_19a, Controllers_Systems_19b, Controllers_Systems_19c, Controllers_Systems_19d,
        Controllers_Systems_19e, Controllers_Systems_19f, Controllers_Systems_19g],
      concat [Controllers_Systems_20a, Controllers_Systems_20b, Controllers_Systems_20c, Controllers_Systems_20d],
      concat [Controllers_Systems_21a, Controllers_Systems_21b, Controllers_Systems_21c, Controllers_Systems_21d,
        Controllers_Systems_21e, Controllers_Systems_21f, Controllers_Systems_21g],
      concat [Controllers_Systems_22a, Controllers_Systems_22b, Controllers_Systems_22c, Controllers_Systems_22d,
        Controllers_Systems_22e, Controllers_Systems_22f, Controllers_Systems_22g],
      concat [Controllers_Systems_23a, Controllers_Systems_23b, Controllers_Systems_23c, Controllers_Systems_23d,
        Controllers_Systems_23e],
      concat [Controllers_Systems_24a, Controllers_Systems_24b, Controllers_Systems_24c, Controllers_Systems_24d],
      concat [Controllers_Systems_25a, Controllers_Systems_25b, Controllers_Systems_25c, Controllers_Systems_25d,
        Controllers_Systems_25e, Controllers_Systems_25f, Controllers_Systems_25g, Controllers_Systems_25h],
      concat [Controllers_Systems_26a, Controllers_Systems_26b, Controllers_Systems_26c, Controllers_Systems_26d,
        Controllers_Systems_26e, Controllers_Systems_26f, Controllers_Systems_26g],
      concat [Controllers_Systems_27a, Controllers_Systems_27b, Controllers_Systems_27c, Controllers_Systems_27d],
      concat [Controllers_Systems_28a, Controllers_Systems_28b, Controllers_Systems_28c, Controllers_Systems_28d,
        Controllers_Systems_28e],
      concat [Controllers_Systems_29a, Controllers_Systems_29b, Controllers_Systems_29c, Controllers_Systems_29d,
        Controllers_Systems_29e, Controllers_Systems_29f, Controllers_Systems_29g, Controllers_Systems_29h],
      concat [Controllers_Systems_30a, Controllers_Systems_30b, Controllers_Systems_30c, Controllers_Systems_30d,
        Controllers_Systems_30e, Controllers_Systems_30f],
      concat [Controllers_Systems_31a, Controllers_Systems_31b, Controllers_Systems_31c],
      concat [Controllers_Systems_32a, Controllers_Systems_32b, Controllers_Systems_32c, Controllers_Systems_32d,
        Controllers_Systems_32e],
      concat [Controllers_Systems_33a, Controllers_Systems_33b, Controllers_Systems_33c, Controllers_Systems_33d,
        Controllers_Systems_33e, Controllers_Systems_33f],
      concat [Controllers_Systems_34a, Controllers_Systems_34b, Controllers_Systems_34c, Controllers_Systems_34d],
      concat [Controllers_Systems_35a, Controllers_Systems_35b, Controllers_Systems_35c, Controllers_Systems_35d,
        Controllers_Systems_35e, Controllers_Systems_35f],
      concat [Controllers_Systems_36a, Controllers_Systems_36b, Controllers_Systems_36c],
      concat [Controllers_Systems_37a, Controllers_Systems_37b, Controllers_Systems_37c, Controllers_Systems_37d,
        Controllers_Systems_37e, Controllers_Systems_37f, Controllers_Systems_37g]]"

lemma Systems_1_aligned:
  "aligned Routes_Systems_1
     (concat [Controllers_Systems_1a])"
  unfolding Routes_Systems_1_def Controllers_Systems_1a_def
  by (rule aligning)+

lemma Systems_2_aligned:
  "aligned Routes_Systems_2
     (concat [Controllers_Systems_2a])"
  unfolding Routes_Systems_2_def Controllers_Systems_2a_def
  by (rule aligning)+

lemma Systems_3_aligned:
  "aligned Routes_Systems_3
     (concat [Controllers_Systems_3a])"
  unfolding Routes_Systems_3_def Controllers_Systems_3a_def
  by (rule aligning)+

lemma Systems_4_aligned:
  "aligned Routes_Systems_4
     (concat [Controllers_Systems_4a])"
  unfolding Routes_Systems_4_def Controllers_Systems_4a_def
  by (rule aligning)+

lemma Systems_5_aligned:
  "aligned Routes_Systems_5
     (concat [Controllers_Systems_5a])"
  unfolding Routes_Systems_5_def Controllers_Systems_5a_def
  by (rule aligning)+

lemma Systems_6_aligned:
  "aligned Routes_Systems_6
     (concat [Controllers_Systems_6a, Controllers_Systems_6b, Controllers_Systems_6c, Controllers_Systems_6d,
        Controllers_Systems_6e])"
  unfolding Routes_Systems_6_def Controllers_Systems_6a_def Controllers_Systems_6b_def
    Controllers_Systems_6c_def Controllers_Systems_6d_def Controllers_Systems_6e_def
  by (rule aligning)+

lemma Systems_7_aligned:
  "aligned Routes_Systems_7
     (concat [Controllers_Systems_7a, Controllers_Systems_7b, Controllers_Systems_7c, Controllers_Systems_7d,
        Controllers_Systems_7e])"
  unfolding Routes_Systems_7_def Controllers_Systems_7a_def Controllers_Systems_7b_def
    Controllers_Systems_7c_def Controllers_Systems_7d_def Controllers_Systems_7e_def
  by (rule aligning)+

lemma Systems_8_aligned:
  "aligned Routes_Systems_8
     (concat [Controllers_Systems_8a, Controllers_Systems_8b, Controllers_Systems_8c, Controllers_Systems_8d,
        Controllers_Systems_8e, Controllers_Systems_8f, Controllers_Systems_8g, Controllers_Systems_8h])"
  unfolding Routes_Systems_8_def Controllers_Systems_8a_def Controllers_Systems_8b_def
    Controllers_Systems_8c_def Controllers_Systems_8d_def Controllers_Systems_8e_def
    Controllers_Systems_8f_def Controllers_Systems_8g_def Controllers_Systems_8h_def
  by (rule aligning)+

lemma Systems_9_aligned:
  "aligned Routes_Systems_9
     (concat [Controllers_Systems_9a, Controllers_Systems_9b, Controllers_Systems_9c, Controllers_Systems_9d,
        Controllers_Systems_9e, Controllers_Systems_9f, Controllers_Systems_9g, Controllers_Systems_9h,
        Controllers_Systems_9i, Controllers_Systems_9j])"
  unfolding Routes_Systems_9_def Controllers_Systems_9a_def Controllers_Systems_9b_def
    Controllers_Systems_9c_def Controllers_Systems_9d_def Controllers_Systems_9e_def
    Controllers_Systems_9f_def Controllers_Systems_9g_def Controllers_Systems_9h_def
    Controllers_Systems_9i_def Controllers_Systems_9j_def
  by (rule aligning)+

lemma Systems_10_aligned:
  "aligned Routes_Systems_10
     (concat [Controllers_Systems_10a, Controllers_Systems_10b, Controllers_Systems_10c, Controllers_Systems_10d,
        Controllers_Systems_10e, Controllers_Systems_10f, Controllers_Systems_10g, Controllers_Systems_10h,
        Controllers_Systems_10i])"
  unfolding Routes_Systems_10_def Controllers_Systems_10a_def Controllers_Systems_10b_def
    Controllers_Systems_10c_def Controllers_Systems_10d_def Controllers_Systems_10e_def
    Controllers_Systems_10f_def Controllers_Systems_10g_def Controllers_Systems_10h_def
    Controllers_Systems_10i_def
  by (rule aligning)+

lemma Systems_11_aligned:
  "aligned Routes_Systems_11
     (concat [Controllers_Systems_11a, Controllers_Systems_11b, Controllers_Systems_11c, Controllers_Systems_11d])"
  unfolding Routes_Systems_11_def Controllers_Systems_11a_def Controllers_Systems_11b_def
    Controllers_Systems_11c_def Controllers_Systems_11d_def
  by (rule aligning)+

lemma Systems_12_aligned:
  "aligned Routes_Systems_12
     (concat [Controllers_Systems_12a, Controllers_Systems_12b, Controllers_Systems_12c, Controllers_Systems_12d,
        Controllers_Systems_12e, Controllers_Systems_12f])"
  unfolding Routes_Systems_12_def Controllers_Systems_12a_def Controllers_Systems_12b_def
    Controllers_Systems_12c_def Controllers_Systems_12d_def Controllers_Systems_12e_def
    Controllers_Systems_12f_def
  by (rule aligning)+

lemma Systems_13_aligned:
  "aligned Routes_Systems_13
     (concat [Controllers_Systems_13a, Controllers_Systems_13b, Controllers_Systems_13c, Controllers_Systems_13d])"
  unfolding Routes_Systems_13_def Controllers_Systems_13a_def Controllers_Systems_13b_def
    Controllers_Systems_13c_def Controllers_Systems_13d_def
  by (rule aligning)+

lemma Systems_14_aligned:
  "aligned Routes_Systems_14
     (concat [Controllers_Systems_14a, Controllers_Systems_14b, Controllers_Systems_14c, Controllers_Systems_14d,
        Controllers_Systems_14e, Controllers_Systems_14f, Controllers_Systems_14g, Controllers_Systems_14h])"
  unfolding Routes_Systems_14_def Controllers_Systems_14a_def Controllers_Systems_14b_def
    Controllers_Systems_14c_def Controllers_Systems_14d_def Controllers_Systems_14e_def
    Controllers_Systems_14f_def Controllers_Systems_14g_def Controllers_Systems_14h_def
  by (rule aligning)+

lemma Systems_15_aligned:
  "aligned Routes_Systems_15
     (concat [Controllers_Systems_15a, Controllers_Systems_15b, Controllers_Systems_15c, Controllers_Systems_15d,
        Controllers_Systems_15e])"
  unfolding Routes_Systems_15_def Controllers_Systems_15a_def Controllers_Systems_15b_def
    Controllers_Systems_15c_def Controllers_Systems_15d_def Controllers_Systems_15e_def
  by (rule aligning)+

lemma Systems_16_aligned:
  "aligned Routes_Systems_16
     (concat [Controllers_Systems_16a])"
  unfolding Routes_Systems_16_def Controllers_Systems_16a_def
  by (rule aligning)+

lemma Systems_17_aligned:
  "aligned Routes_Systems_17
     (concat [Controllers_Systems_17a, Controllers_Systems_17b, Controllers_Systems_17c])"
  unfolding Routes_Systems_17_def Controllers_Systems_17a_def Controllers_Systems_17b_def
    Controllers_Systems_17c_def
  by (rule aligning)+

lemma Systems_18_aligned:
  "aligned Routes_Systems_18
     (concat [Controllers_Systems_18a, Controllers_Systems_18b, Controllers_Systems_18c, Controllers_Systems_18d])"
  unfolding Routes_Systems_18_def Controllers_Systems_18a_def Controllers_Systems_18b_def
    Controllers_Systems_18c_def Controllers_Systems_18d_def
  by (rule aligning)+

lemma Systems_19_aligned:
  "aligned Routes_Systems_19
     (concat [Controllers_Systems_19a, Controllers_Systems_19b, Controllers_Systems_19c, Controllers_Systems_19d,
        Controllers_Systems_19e, Controllers_Systems_19f, Controllers_Systems_19g])"
  unfolding Routes_Systems_19_def Controllers_Systems_19a_def Controllers_Systems_19b_def
    Controllers_Systems_19c_def Controllers_Systems_19d_def Controllers_Systems_19e_def
    Controllers_Systems_19f_def Controllers_Systems_19g_def
  by (rule aligning)+

lemma Systems_20_aligned:
  "aligned Routes_Systems_20
     (concat [Controllers_Systems_20a, Controllers_Systems_20b, Controllers_Systems_20c, Controllers_Systems_20d])"
  unfolding Routes_Systems_20_def Controllers_Systems_20a_def Controllers_Systems_20b_def
    Controllers_Systems_20c_def Controllers_Systems_20d_def
  by (rule aligning)+

lemma Systems_21_aligned:
  "aligned Routes_Systems_21
     (concat [Controllers_Systems_21a, Controllers_Systems_21b, Controllers_Systems_21c, Controllers_Systems_21d,
        Controllers_Systems_21e, Controllers_Systems_21f, Controllers_Systems_21g])"
  unfolding Routes_Systems_21_def Controllers_Systems_21a_def Controllers_Systems_21b_def
    Controllers_Systems_21c_def Controllers_Systems_21d_def Controllers_Systems_21e_def
    Controllers_Systems_21f_def Controllers_Systems_21g_def
  by (rule aligning)+

lemma Systems_22_aligned:
  "aligned Routes_Systems_22
     (concat [Controllers_Systems_22a, Controllers_Systems_22b, Controllers_Systems_22c, Controllers_Systems_22d,
        Controllers_Systems_22e, Controllers_Systems_22f, Controllers_Systems_22g])"
  unfolding Routes_Systems_22_def Controllers_Systems_22a_def Controllers_Systems_22b_def
    Controllers_Systems_22c_def Controllers_Systems_22d_def Controllers_Systems_22e_def
    Controllers_Systems_22f_def Controllers_Systems_22g_def
  by (rule aligning)+

lemma Systems_23_aligned:
  "aligned Routes_Systems_23
     (concat [Controllers_Systems_23a, Controllers_Systems_23b, Controllers_Systems_23c, Controllers_Systems_23d,
        Controllers_Systems_23e])"
  unfolding Routes_Systems_23_def Controllers_Systems_23a_def Controllers_Systems_23b_def
    Controllers_Systems_23c_def Controllers_Systems_23d_def Controllers_Systems_23e_def
  by (rule aligning)+

lemma Systems_24_aligned:
  "aligned Routes_Systems_24
     (concat [Controllers_Systems_24a, Controllers_Systems_24b, Controllers_Systems_24c, Controllers_Systems_24d])"
  unfolding Routes_Systems_24_def Controllers_Systems_24a_def Controllers_Systems_24b_def
    Controllers_Systems_24c_def Controllers_Systems_24d_def
  by (rule aligning)+

lemma Systems_25_aligned:
  "aligned Routes_Systems_25
     (concat [Controllers_Systems_25a, Controllers_Systems_25b, Controllers_Systems_25c, Controllers_Systems_25d,
        Controllers_Systems_25e, Controllers_Systems_25f, Controllers_Systems_25g, Controllers_Systems_25h])"
  unfolding Routes_Systems_25_def Controllers_Systems_25a_def Controllers_Systems_25b_def
    Controllers_Systems_25c_def Controllers_Systems_25d_def Controllers_Systems_25e_def
    Controllers_Systems_25f_def Controllers_Systems_25g_def Controllers_Systems_25h_def
  by (rule aligning)+

lemma Systems_26_aligned:
  "aligned Routes_Systems_26
     (concat [Controllers_Systems_26a, Controllers_Systems_26b, Controllers_Systems_26c, Controllers_Systems_26d,
        Controllers_Systems_26e, Controllers_Systems_26f, Controllers_Systems_26g])"
  unfolding Routes_Systems_26_def Controllers_Systems_26a_def Controllers_Systems_26b_def
    Controllers_Systems_26c_def Controllers_Systems_26d_def Controllers_Systems_26e_def
    Controllers_Systems_26f_def Controllers_Systems_26g_def
  by (rule aligning)+

lemma Systems_27_aligned:
  "aligned Routes_Systems_27
     (concat [Controllers_Systems_27a, Controllers_Systems_27b, Controllers_Systems_27c, Controllers_Systems_27d])"
  unfolding Routes_Systems_27_def Controllers_Systems_27a_def Controllers_Systems_27b_def
    Controllers_Systems_27c_def Controllers_Systems_27d_def
  by (rule aligning)+

lemma Systems_28_aligned:
  "aligned Routes_Systems_28
     (concat [Controllers_Systems_28a, Controllers_Systems_28b, Controllers_Systems_28c, Controllers_Systems_28d,
        Controllers_Systems_28e])"
  unfolding Routes_Systems_28_def Controllers_Systems_28a_def Controllers_Systems_28b_def
    Controllers_Systems_28c_def Controllers_Systems_28d_def Controllers_Systems_28e_def
  by (rule aligning)+

lemma Systems_29_aligned:
  "aligned Routes_Systems_29
     (concat [Controllers_Systems_29a, Controllers_Systems_29b, Controllers_Systems_29c, Controllers_Systems_29d,
        Controllers_Systems_29e, Controllers_Systems_29f, Controllers_Systems_29g, Controllers_Systems_29h])"
  unfolding Routes_Systems_29_def Controllers_Systems_29a_def Controllers_Systems_29b_def
    Controllers_Systems_29c_def Controllers_Systems_29d_def Controllers_Systems_29e_def
    Controllers_Systems_29f_def Controllers_Systems_29g_def Controllers_Systems_29h_def
  by (rule aligning)+

lemma Systems_30_aligned:
  "aligned Routes_Systems_30
     (concat [Controllers_Systems_30a, Controllers_Systems_30b, Controllers_Systems_30c, Controllers_Systems_30d,
        Controllers_Systems_30e, Controllers_Systems_30f])"
  unfolding Routes_Systems_30_def Controllers_Systems_30a_def Controllers_Systems_30b_def
    Controllers_Systems_30c_def Controllers_Systems_30d_def Controllers_Systems_30e_def
    Controllers_Systems_30f_def
  by (rule aligning)+

lemma Systems_31_aligned:
  "aligned Routes_Systems_31
     (concat [Controllers_Systems_31a, Controllers_Systems_31b, Controllers_Systems_31c])"
  unfolding Routes_Systems_31_def Controllers_Systems_31a_def Controllers_Systems_31b_def
    Controllers_Systems_31c_def
  by (rule aligning)+

lemma Systems_32_aligned:
  "aligned Routes_Systems_32
     (concat [Controllers_Systems_32a, Controllers_Systems_32b, Controllers_Systems_32c, Controllers_Systems_32d,
        Controllers_Systems_32e])"
  unfolding Routes_Systems_32_def Controllers_Systems_32a_def Controllers_Systems_32b_def
    Controllers_Systems_32c_def Controllers_Systems_32d_def Controllers_Systems_32e_def
  by (rule aligning)+

lemma Systems_33_aligned:
  "aligned Routes_Systems_33
     (concat [Controllers_Systems_33a, Controllers_Systems_33b, Controllers_Systems_33c, Controllers_Systems_33d,
        Controllers_Systems_33e, Controllers_Systems_33f])"
  unfolding Routes_Systems_33_def Controllers_Systems_33a_def Controllers_Systems_33b_def
    Controllers_Systems_33c_def Controllers_Systems_33d_def Controllers_Systems_33e_def
    Controllers_Systems_33f_def
  by (rule aligning)+

lemma Systems_34_aligned:
  "aligned Routes_Systems_34
     (concat [Controllers_Systems_34a, Controllers_Systems_34b, Controllers_Systems_34c, Controllers_Systems_34d])"
  unfolding Routes_Systems_34_def Controllers_Systems_34a_def Controllers_Systems_34b_def
    Controllers_Systems_34c_def Controllers_Systems_34d_def
  by (rule aligning)+

lemma Systems_35_aligned:
  "aligned Routes_Systems_35
     (concat [Controllers_Systems_35a, Controllers_Systems_35b, Controllers_Systems_35c, Controllers_Systems_35d,
        Controllers_Systems_35e, Controllers_Systems_35f])"
  unfolding Routes_Systems_35_def Controllers_Systems_35a_def Controllers_Systems_35b_def
    Controllers_Systems_35c_def Controllers_Systems_35d_def Controllers_Systems_35e_def
    Controllers_Systems_35f_def
  by (rule aligning)+

lemma Systems_36_aligned:
  "aligned Routes_Systems_36
     (concat [Controllers_Systems_36a, Controllers_Systems_36b, Controllers_Systems_36c])"
  unfolding Routes_Systems_36_def Controllers_Systems_36a_def Controllers_Systems_36b_def
    Controllers_Systems_36c_def
  by (rule aligning)+

lemma Systems_37_aligned:
  "aligned Routes_Systems_37
     (concat [Controllers_Systems_37a, Controllers_Systems_37b, Controllers_Systems_37c, Controllers_Systems_37d,
        Controllers_Systems_37e, Controllers_Systems_37f, Controllers_Systems_37g])"
  unfolding Routes_Systems_37_def Controllers_Systems_37a_def Controllers_Systems_37b_def
    Controllers_Systems_37c_def Controllers_Systems_37d_def Controllers_Systems_37e_def
    Controllers_Systems_37f_def Controllers_Systems_37g_def
  by (rule aligning)+

lemma system_aligned: "aligned system_routes system_operations"
  unfolding system_routes_def system_operations_def
  by (intro aligned_concat
    Systems_1_aligned Systems_2_aligned Systems_3_aligned Systems_4_aligned Systems_5_aligned
    Systems_6_aligned Systems_7_aligned Systems_8_aligned Systems_9_aligned Systems_10_aligned
    Systems_11_aligned Systems_12_aligned Systems_13_aligned Systems_14_aligned Systems_15_aligned
    Systems_16_aligned Systems_17_aligned Systems_18_aligned Systems_19_aligned Systems_20_aligned
    Systems_21_aligned Systems_22_aligned Systems_23_aligned Systems_24_aligned Systems_25_aligned
    Systems_26_aligned Systems_27_aligned Systems_28_aligned Systems_29_aligned Systems_30_aligned
    Systems_31_aligned Systems_32_aligned Systems_33_aligned Systems_34_aligned Systems_35_aligned
    Systems_36_aligned Systems_37_aligned)

end
