(* ===== verification/RoutesChassis.thy ===== *)
theory RoutesChassis
  imports Routing
begin

text \<open>
  The entries of \<open>Routes\<close> (api_default.go) for the chassis.  None shares its name with a served entry or
  takes a request from one, unless it is a served entry itself.
\<close>

definition Routes_Chassis_1 :: Routes where
  "Routes_Chassis_1 =
     under at_root ''Chassis''
       [Lit ''Chassis'']
       [('''', [], [Get, Post]),
        (''ChassisId'', [Var ''ChassisId''], [Get, Put, Delete, Patch]),
        (''ChassisIdActionsChassisReset'', [Var ''ChassisId'', Lit ''Actions'', Lit ''Chassis.Reset''], [Post]),
        (''ChassisIdAssembly'', [Var ''ChassisId'', Lit ''Assembly''], [Get, Put, Patch]),
        (''ChassisIdCertificates'', [Var ''ChassisId'', Lit ''Certificates''], [Get, Post]),
        (''ChassisIdCertificatesCertificateId'', [Var ''ChassisId'', Lit ''Certificates'', Var ''CertificateId''], [Get, Put, Delete, Patch]),
        (''ChassisIdCertificatesCertificateIdActionsCertificateRekey'', [Var ''ChassisId'', Lit ''Certificates'', Var ''CertificateId'', Lit ''Actions'', Lit ''Certificate.Rekey''], [Post]),
        (''ChassisIdCertificatesCertificateIdActionsCertificateRenew'', [Var ''ChassisId'', Lit ''Certificates'', Var ''CertificateId'', Lit ''Actions'', Lit ''Certificate.Renew''], [Post]),
        (''ChassisIdControls'', [Var ''ChassisId'', Lit ''Controls''], [Get]),
        (''ChassisIdControlsControlId'', [Var ''ChassisId'', Lit ''Controls'', Var ''ControlId''], [Get, Put, Patch]),
        (''ChassisIdControlsControlIdActionsControlResetToDefaults'', [Var ''ChassisId'', Lit ''Controls'', Var ''ControlId'', Lit ''Actions'', Lit ''Control.ResetToDefaults''], [Post]),
        (''ChassisIdDrives'', [Var ''ChassisId'', Lit ''Drives''], [Get])]"

definition Routes_Chassis_2 :: Routes where
  "Routes_Chassis_2 =
     under at_root ''ChassisChassisIdDrivesDriveId''
       [Lit ''Chassis'', Var ''ChassisId'', Lit ''Drives'', Var ''DriveId'']
       [('''', [], [Get, Put, Patch]),
        (''ActionsDriveReset'', [Lit ''Actions'', Lit ''Drive.Reset''], [Post]),
        (''ActionsDriveRevertToOriginalFactoryState'', [Lit ''Actions'', Lit ''Drive.RevertToOriginalFactoryState''], [Post]),
        (''ActionsDriveSecureErase'', [Lit ''Actions'', Lit ''Drive.SecureErase''], [Post]),
        (''Assembly'', [Lit ''Assembly''], [Get, Put, Patch]),
        (''Certificates'', [Lit ''Certificates''], [Get, Post]),
        (''CertificatesCertificateId'', [Lit ''Certificates'', Var ''CertificateId''], [Get, Put, Delete, Patch]),
        (''CertificatesCertificateIdActionsCertificateRekey'', [Lit ''Certificates'', Var ''CertificateId'', Lit ''Actions'', Lit ''Certificate.Rekey''], [Post]),
        (''CertificatesCertificateIdActionsCertificateRenew'', [Lit ''Certificates'', Var ''CertificateId'', Lit ''Actions'', Lit ''Certificate.Renew''], [Post]),
        (''EnvironmentMetrics'', [Lit ''EnvironmentMetrics''], [Get, Put, Patch]),
        (''EnvironmentMetricsActionsEnvironmentMetricsResetMetrics'', [Lit ''EnvironmentMetrics'', Lit ''Actions'', Lit ''EnvironmentMetrics.ResetMetrics''], [Post]),
        (''EnvironmentMetricsActionsEnvironmentMetricsResetToDefaults'', [Lit ''EnvironmentMetrics'', Lit ''Actions'', Lit ''EnvironmentMetrics.ResetToDefaults''], [Post]),
        (''Metrics'', [Lit ''Metrics''], [Get])]"

definition Routes_Chassis_3 :: Routes where
  "Routes_Chassis_3 =
     under at_root ''ChassisChassisId''
       [Lit ''Chassis'', Var ''ChassisId'']
       [(''EnvironmentMetrics'', [Lit ''EnvironmentMetrics''], [Get, Put, Patch]),
        (''EnvironmentMetricsActionsEnvironmentMetricsResetMetrics'', [Lit ''EnvironmentMetrics'', Lit ''Actions'', Lit ''EnvironmentMetrics.ResetMetrics''], [Post]),
        (''EnvironmentMetricsActionsEnvironmentMetricsResetToDefaults'', [Lit ''EnvironmentMetrics'', Lit ''Actions'', Lit ''EnvironmentMetrics.ResetToDefaults''], [Post]),
        (''FabricAdapters'', [Lit ''FabricAdapters''], [Get]),
        (''FabricAdaptersFabricAdapterId'', [Lit ''FabricAdapters'', Var ''FabricAdapterId''], [Get, Put, Patch]),
        (''FabricAdaptersFabricAdapterIdGenZMSDT'', [Lit ''FabricAdapters'', Var ''FabricAdapterId'', Lit ''GenZ'', Lit ''MSDT''], [Get, Post]),
        (''FabricAdaptersFabricAdapterIdGenZMSDTMSDTId'', [Lit ''FabricAdapters'', Var ''FabricAdapterId'', Lit ''GenZ'', Lit ''MSDT'', Var ''MSDTId''], [Get, Put, Delete, Patch]),
        (''FabricAdaptersFabricAdapterIdGenZREQVCAT'', [Lit ''FabricAdapters'', Var ''FabricAdapterId'', Lit ''GenZ'', Lit ''REQ-VCAT''], [Get, Post])]"

definition Routes_Chassis_4 :: Routes where
  "Routes_Chassis_4 =
     under at_root ''ChassisChassisIdFabricAdaptersFabricAdapterId''
       [Lit ''Chassis'', Var ''ChassisId'', Lit ''FabricAdapters'', Var ''FabricAdapterId'']
       [(''GenZREQVCATVCATEntryId'', [Lit ''GenZ'', Lit ''REQ-VCAT'', Var ''VCATEntryId''], [Get, Put, Delete, Patch]),
        (''GenZRSPVCAT'', [Lit ''GenZ'', Lit ''RSP-VCAT''], [Get, Post]),
        (''GenZRSPVCATVCATEntryId'', [Lit ''GenZ'', Lit ''RSP-VCAT'', Var ''VCATEntryId''], [Get, Put, Delete, Patch]),
        (''GenZSSDT'', [Lit ''GenZ'', Lit ''SSDT''], [Get, Post]),
        (''GenZSSDTSSDTId'', [Lit ''GenZ'', Lit ''SSDT'', Var ''SSDTId''], [Get, Put, Delete, Patch]),
        (''MSDT'', [Lit ''MSDT''], [Get, Post]),
        (''MSDTMSDTId'', [Lit ''MSDT'', Var ''MSDTId''], [Get, Put, Delete, Patch]),
        (''MSDTMSDTIdRouteSet'', [Lit ''MSDT'', Var ''MSDTId'', Lit ''RouteSet''], [Get, Post]),
        (''MSDTMSDTIdRouteSetRouteId'', [Lit ''MSDT'', Var ''MSDTId'', Lit ''RouteSet'', Var ''RouteId''], [Get, Put, Delete, Patch]),
        (''Ports'', [Lit ''Ports''], [Get])]"

definition Routes_Chassis_5 :: Routes where
  "Routes_Chassis_5 =
     under at_root ''ChassisChassisIdFabricAdaptersFabricAdapterIdPortsPortId''
       [Lit ''Chassis'', Var ''ChassisId'', Lit ''FabricAdapters'', Var ''FabricAdapterId'', Lit ''Ports'', Var ''PortId'']
       [('''', [], [Get, Put, Patch]),
        (''ActionsPortReset'', [Lit ''Actions'', Lit ''Port.Reset''], [Post]),
        (''ActionsPortResetPPB'', [Lit ''Actions'', Lit ''Port.ResetPPB''], [Post]),
        (''EnvironmentMetrics'', [Lit ''EnvironmentMetrics''], [Get, Put, Patch]),
        (''EnvironmentMetricsActionsEnvironmentMetricsResetMetrics'', [Lit ''EnvironmentMetrics'', Lit ''Actions'', Lit ''EnvironmentMetrics.ResetMetrics''], [Post]),
        (''EnvironmentMetricsActionsEnvironmentMetricsResetToDefaults'', [Lit ''EnvironmentMetrics'', Lit ''Actions'', Lit ''EnvironmentMetrics.ResetToDefaults''], [Post]),
        (''GenZLPRT'', [Lit ''GenZ'', Lit ''LPRT''], [Get, Post]),
        (''GenZLPRTLPRTId'', [Lit ''GenZ'', Lit ''LPRT'', Var ''LPRTId''], [Get, Put, Delete, Patch]),
        (''GenZMPRT'', [Lit ''GenZ'', Lit ''MPRT''], [Get, Post]),
        (''GenZMPRTMPRTId'', [Lit ''GenZ'', Lit ''MPRT'', Var ''MPRTId''], [Get, Put, Delete, Patch]),
        (''GenZVCAT'', [Lit ''GenZ'', Lit ''VCAT''], [Get, Post]),
        (''GenZVCATVCATEntryId'', [Lit ''GenZ'', Lit ''VCAT'', Var ''VCATEntryId''], [Get, Put, Delete, Patch]),
        (''LPRT'', [Lit ''LPRT''], [Get, Post])]"

definition Routes_Chassis_6 :: Routes where
  "Routes_Chassis_6 =
     under at_root ''ChassisChassisIdFabricAdaptersFabricAdapterIdPortsPortId''
       [Lit ''Chassis'', Var ''ChassisId'', Lit ''FabricAdapters'', Var ''FabricAdapterId'', Lit ''Ports'', Var ''PortId'']
       [(''LPRTLPRTId'', [Lit ''LPRT'', Var ''LPRTId''], [Get, Put, Delete, Patch]),
        (''LPRTLPRTIdRouteSet'', [Lit ''LPRT'', Var ''LPRTId'', Lit ''RouteSet''], [Get, Post]),
        (''LPRTLPRTIdRouteSetRouteId'', [Lit ''LPRT'', Var ''LPRTId'', Lit ''RouteSet'', Var ''RouteId''], [Get, Put, Delete, Patch]),
        (''MPRT'', [Lit ''MPRT''], [Get, Post]),
        (''MPRTMPRTId'', [Lit ''MPRT'', Var ''MPRTId''], [Get, Put, Delete, Patch]),
        (''MPRTMPRTIdRouteSet'', [Lit ''MPRT'', Var ''MPRTId'', Lit ''RouteSet''], [Get, Post]),
        (''MPRTMPRTIdRouteSetRouteId'', [Lit ''MPRT'', Var ''MPRTId'', Lit ''RouteSet'', Var ''RouteId''], [Get, Put, Delete, Patch]),
        (''Metrics'', [Lit ''Metrics''], [Get]),
        (''VCAT'', [Lit ''VCAT''], [Get, Post]),
        (''VCATVCATEntryId'', [Lit ''VCAT'', Var ''VCATEntryId''], [Get, Put, Delete, Patch])]"

definition Routes_Chassis_7 :: Routes where
  "Routes_Chassis_7 =
     under at_root ''ChassisChassisIdFabricAdaptersFabricAdapterId''
       [Lit ''Chassis'', Var ''ChassisId'', Lit ''FabricAdapters'', Var ''FabricAdapterId'']
       [(''REQVCAT'', [Lit ''REQ-VCAT''], [Get, Post]),
        (''REQVCATVCATEntryId'', [Lit ''REQ-VCAT'', Var ''VCATEntryId''], [Get, Put, Delete, Patch]),
        (''RSPVCAT'', [Lit ''RSP-VCAT''], [Get, Post]),
        (''RSPVCATVCATEntryId'', [Lit ''RSP-VCAT'', Var ''VCATEntryId''], [Get, Put, Delete, Patch]),
        (''SSDT'', [Lit ''SSDT''], [Get, Post]),
        (''SSDTSSDTId'', [Lit ''SSDT'', Var ''SSDTId''], [Get, Put, Delete, Patch]),
        (''SSDTSSDTIdRouteSet'', [Lit ''SSDT'', Var ''SSDTId'', Lit ''RouteSet''], [Get, Post]),
        (''SSDTSSDTIdRouteSetRouteId'', [Lit ''SSDT'', Var ''SSDTId'', Lit ''RouteSet'', Var ''RouteId''], [Get, Put, Delete, Patch])]"

definition Routes_Chassis_8 :: Routes where
  "Routes_Chassis_8 =
     under at_root ''ChassisChassisId''
       [Lit ''Chassis'', Var ''ChassisId'']
       [(''LogServices'', [Lit ''LogServices''], [Get]),
        (''LogServicesLogServiceId'', [Lit ''LogServices'', Var ''LogServiceId''], [Get, Put, Patch]),
        (''LogServicesLogServiceIdActionsLogServiceClearLog'', [Lit ''LogServices'', Var ''LogServiceId'', Lit ''Actions'', Lit ''LogService.ClearLog''], [Post]),
        (''LogServicesLogServiceIdActionsLogServiceCollectDiagnosticData'', [Lit ''LogServices'', Var ''LogServiceId'', Lit ''Actions'', Lit ''LogService.CollectDiagnosticData''], [Post]),
        (''LogServicesLogServiceIdActionsLogServicePushDiagnosticData'', [Lit ''LogServices'', Var ''LogServiceId'', Lit ''Actions'', Lit ''LogService.PushDiagnosticData''], [Post]),
        (''LogServicesLogServiceIdEntries'', [Lit ''LogServices'', Var ''LogServiceId'', Lit ''Entries''], [Get, Post]),
        (''LogServicesLogServiceIdEntriesLogEntryId'', [Lit ''LogServices'', Var ''LogServiceId'', Lit ''Entries'', Var ''LogEntryId''], [Get, Put, Delete, Patch]),
        (''MediaControllers'', [Lit ''MediaControllers''], [Get])]"

definition Routes_Chassis_9 :: Routes where
  "Routes_Chassis_9 =
     under at_root ''ChassisChassisIdMediaControllersMediaControllerId''
       [Lit ''Chassis'', Var ''ChassisId'', Lit ''MediaControllers'', Var ''MediaControllerId'']
       [('''', [], [Get]),
        (''ActionsMediaControllerReset'', [Lit ''Actions'', Lit ''MediaController.Reset''], [Post]),
        (''EnvironmentMetrics'', [Lit ''EnvironmentMetrics''], [Get, Put, Patch]),
        (''EnvironmentMetricsActionsEnvironmentMetricsResetMetrics'', [Lit ''EnvironmentMetrics'', Lit ''Actions'', Lit ''EnvironmentMetrics.ResetMetrics''], [Post]),
        (''EnvironmentMetricsActionsEnvironmentMetricsResetToDefaults'', [Lit ''EnvironmentMetrics'', Lit ''Actions'', Lit ''EnvironmentMetrics.ResetToDefaults''], [Post]),
        (''Ports'', [Lit ''Ports''], [Get]),
        (''PortsPortId'', [Lit ''Ports'', Var ''PortId''], [Get, Put, Patch]),
        (''PortsPortIdActionsPortReset'', [Lit ''Ports'', Var ''PortId'', Lit ''Actions'', Lit ''Port.Reset''], [Post]),
        (''PortsPortIdActionsPortResetPPB'', [Lit ''Ports'', Var ''PortId'', Lit ''Actions'', Lit ''Port.ResetPPB''], [Post]),
        (''PortsPortIdEnvironmentMetrics'', [Lit ''Ports'', Var ''PortId'', Lit ''EnvironmentMetrics''], [Get, Put, Patch]),
        (''PortsPortIdEnvironmentMetricsActionsEnvironmentMetricsResetMetrics'', [Lit ''Ports'', Var ''PortId'', Lit ''EnvironmentMetrics'', Lit ''Actions'', Lit ''EnvironmentMetrics.ResetMetrics''], [Post]),
        (''PortsPortIdEnvironmentMetricsActionsEnvironmentMetricsResetToDefaults'', [Lit ''Ports'', Var ''PortId'', Lit ''EnvironmentMetrics'', Lit ''Actions'', Lit ''EnvironmentMetrics.ResetToDefaults''], [Post]),
        (''PortsPortIdMetrics'', [Lit ''Ports'', Var ''PortId'', Lit ''Metrics''], [Get])]"

definition Routes_Chassis_10 :: Routes where
  "Routes_Chassis_10 =
     under at_root ''ChassisChassisIdMemory''
       [Lit ''Chassis'', Var ''ChassisId'', Lit ''Memory'']
       [('''', [], [Get])]"

definition Routes_Chassis_11 :: Routes where
  "Routes_Chassis_11 =
     under at_root ''ChassisChassisIdMemoryMemoryId''
       [Lit ''Chassis'', Var ''ChassisId'', Lit ''Memory'', Var ''MemoryId'']
       [('''', [], [Get, Put, Patch]),
        (''ActionsMemoryDisableMasterPassphrase'', [Lit ''Actions'', Lit ''Memory.DisableMasterPassphrase''], [Post]),
        (''ActionsMemoryDisablePassphrase'', [Lit ''Actions'', Lit ''Memory.DisablePassphrase''], [Post]),
        (''ActionsMemoryFreezeSecurityState'', [Lit ''Actions'', Lit ''Memory.FreezeSecurityState''], [Post]),
        (''ActionsMemoryInjectPersistentPoison'', [Lit ''Actions'', Lit ''Memory.InjectPersistentPoison''], [Post]),
        (''ActionsMemoryOverwriteUnit'', [Lit ''Actions'', Lit ''Memory.OverwriteUnit''], [Post]),
        (''ActionsMemoryReset'', [Lit ''Actions'', Lit ''Memory.Reset''], [Post]),
        (''ActionsMemoryResetToDefaults'', [Lit ''Actions'', Lit ''Memory.ResetToDefaults''], [Post]),
        (''ActionsMemoryScanMedia'', [Lit ''Actions'', Lit ''Memory.ScanMedia''], [Post]),
        (''ActionsMemorySecureEraseUnit'', [Lit ''Actions'', Lit ''Memory.SecureEraseUnit''], [Post]),
        (''ActionsMemorySetMasterPassphrase'', [Lit ''Actions'', Lit ''Memory.SetMasterPassphrase''], [Post]),
        (''ActionsMemorySetPassphrase'', [Lit ''Actions'', Lit ''Memory.SetPassphrase''], [Post]),
        (''ActionsMemoryUnlockUnit'', [Lit ''Actions'', Lit ''Memory.UnlockUnit''], [Post]),
        (''Certificates'', [Lit ''Certificates''], [Get, Post]),
        (''CertificatesCertificateId'', [Lit ''Certificates'', Var ''CertificateId''], [Get, Put, Delete, Patch]),
        (''CertificatesCertificateIdActionsCertificateRekey'', [Lit ''Certificates'', Var ''CertificateId'', Lit ''Actions'', Lit ''Certificate.Rekey''], [Post]),
        (''CertificatesCertificateIdActionsCertificateRenew'', [Lit ''Certificates'', Var ''CertificateId'', Lit ''Actions'', Lit ''Certificate.Renew''], [Post]),
        (''EnvironmentMetrics'', [Lit ''EnvironmentMetrics''], [Get, Put, Patch]),
        (''EnvironmentMetricsActionsEnvironmentMetricsResetMetrics'', [Lit ''EnvironmentMetrics'', Lit ''Actions'', Lit ''EnvironmentMetrics.ResetMetrics''], [Post]),
        (''EnvironmentMetricsActionsEnvironmentMetricsResetToDefaults'', [Lit ''EnvironmentMetrics'', Lit ''Actions'', Lit ''EnvironmentMetrics.ResetToDefaults''], [Post]),
        (''MemoryMetrics'', [Lit ''MemoryMetrics''], [Get]),
        (''MemoryMetricsActionsMemoryMetricsClearCurrentPeriod'', [Lit ''MemoryMetrics'', Lit ''Actions'', Lit ''MemoryMetrics.ClearCurrentPeriod''], [Post])]"

definition Routes_Chassis_12 :: Routes where
  "Routes_Chassis_12 =
     under at_root ''ChassisChassisId''
       [Lit ''Chassis'', Var ''ChassisId'']
       [(''MemoryDomains'', [Lit ''MemoryDomains''], [Get]),
        (''MemoryDomainsMemoryDomainId'', [Lit ''MemoryDomains'', Var ''MemoryDomainId''], [Get]),
        (''MemoryDomainsMemoryDomainIdMemoryChunks'', [Lit ''MemoryDomains'', Var ''MemoryDomainId'', Lit ''MemoryChunks''], [Get, Post]),
        (''MemoryDomainsMemoryDomainIdMemoryChunksMemoryChunksId'', [Lit ''MemoryDomains'', Var ''MemoryDomainId'', Lit ''MemoryChunks'', Var ''MemoryChunksId''], [Get, Put, Delete, Patch]),
        (''NetworkAdapters'', [Lit ''NetworkAdapters''], [Get])]"

definition Routes_Chassis_13 :: Routes where
  "Routes_Chassis_13 =
     under at_root ''ChassisChassisIdNetworkAdaptersNetworkAdapterId''
       [Lit ''Chassis'', Var ''ChassisId'', Lit ''NetworkAdapters'', Var ''NetworkAdapterId'']
       [('''', [], [Get, Put, Patch]),
        (''ActionsNetworkAdapterResetSettingsToDefault'', [Lit ''Actions'', Lit ''NetworkAdapter.ResetSettingsToDefault''], [Post]),
        (''Assembly'', [Lit ''Assembly''], [Get, Put, Patch]),
        (''Certificates'', [Lit ''Certificates''], [Get, Post]),
        (''CertificatesCertificateId'', [Lit ''Certificates'', Var ''CertificateId''], [Get, Put, Delete, Patch]),
        (''CertificatesCertificateIdActionsCertificateRekey'', [Lit ''Certificates'', Var ''CertificateId'', Lit ''Actions'', Lit ''Certificate.Rekey''], [Post]),
        (''CertificatesCertificateIdActionsCertificateRenew'', [Lit ''Certificates'', Var ''CertificateId'', Lit ''Actions'', Lit ''Certificate.Renew''], [Post]),
        (''EnvironmentMetrics'', [Lit ''EnvironmentMetrics''], [Get, Put, Patch]),
        (''EnvironmentMetricsActionsEnvironmentMetricsResetMetrics'', [Lit ''EnvironmentMetrics'', Lit ''Actions'', Lit ''EnvironmentMetrics.ResetMetrics''], [Post]),
        (''EnvironmentMetricsActionsEnvironmentMetricsResetToDefaults'', [Lit ''EnvironmentMetrics'', Lit ''Actions'', Lit ''EnvironmentMetrics.ResetToDefaults''], [Post]),
        (''Metrics'', [Lit ''Metrics''], [Get]),
        (''NetworkDeviceFunctions'', [Lit ''NetworkDeviceFunctions''], [Get])]"

definition Routes_Chassis_14 :: Routes where
  "Routes_Chassis_14 =
     under at_root ''ChassisChassisIdNetworkAdaptersNetworkAdapterIdNetworkDeviceFunctionsNetworkDeviceFunctionId''
       [Lit ''Chassis'', Var ''ChassisId'', Lit ''NetworkAdapters'', Var ''NetworkAdapterId'', Lit ''NetworkDeviceFunctions'', Var ''NetworkDeviceFunctionId'']
       [('''', [], [Get, Put, Patch]),
        (''AllowDeny'', [Lit ''AllowDeny''], [Get, Post]),
        (''AllowDenyAllowDenyId'', [Lit ''AllowDeny'', Var ''AllowDenyId''], [Get, Put, Delete, Patch]),
        (''EthernetVLANs'', [Lit ''Ethernet'', Lit ''VLANs''], [Get, Post]),
        (''EthernetVLANsVLanNetworkInterfaceId'', [Lit ''Ethernet'', Lit ''VLANs'', Var ''VLanNetworkInterfaceId''], [Get, Put, Delete, Patch]),
        (''EthernetInterfaces'', [Lit ''EthernetInterfaces''], [Get, Post]),
        (''EthernetInterfacesEthernetInterfaceId'', [Lit ''EthernetInterfaces'', Var ''EthernetInterfaceId''], [Get, Put, Delete, Patch]),
        (''Metrics'', [Lit ''Metrics''], [Get])]"

definition Routes_Chassis_15 :: Routes where
  "Routes_Chassis_15 =
     under at_root ''ChassisChassisIdNetworkAdaptersNetworkAdapterId''
       [Lit ''Chassis'', Var ''ChassisId'', Lit ''NetworkAdapters'', Var ''NetworkAdapterId'']
       [(''NetworkPorts'', [Lit ''NetworkPorts''], [Get]),
        (''NetworkPortsNetworkPortId'', [Lit ''NetworkPorts'', Var ''NetworkPortId''], [Get, Put, Patch]),
        (''Ports'', [Lit ''Ports''], [Get]),
        (''PortsPortId'', [Lit ''Ports'', Var ''PortId''], [Get, Put, Patch]),
        (''PortsPortIdActionsPortReset'', [Lit ''Ports'', Var ''PortId'', Lit ''Actions'', Lit ''Port.Reset''], [Post]),
        (''PortsPortIdActionsPortResetPPB'', [Lit ''Ports'', Var ''PortId'', Lit ''Actions'', Lit ''Port.ResetPPB''], [Post]),
        (''PortsPortIdEnvironmentMetrics'', [Lit ''Ports'', Var ''PortId'', Lit ''EnvironmentMetrics''], [Get, Put, Patch]),
        (''PortsPortIdEnvironmentMetricsActionsEnvironmentMetricsResetMetrics'', [Lit ''Ports'', Var ''PortId'', Lit ''EnvironmentMetrics'', Lit ''Actions'', Lit ''EnvironmentMetrics.ResetMetrics''], [Post]),
        (''PortsPortIdEnvironmentMetricsActionsEnvironmentMetricsResetToDefaults'', [Lit ''Ports'', Var ''PortId'', Lit ''EnvironmentMetrics'', Lit ''Actions'', Lit ''EnvironmentMetrics.ResetToDefaults''], [Post]),
        (''PortsPortIdMetrics'', [Lit ''Ports'', Var ''PortId'', Lit ''Metrics''], [Get]),
        (''Processors'', [Lit ''Processors''], [Get]),
        (''ProcessorsProcessorId'', [Lit ''Processors'', Var ''ProcessorId''], [Get, Put, Patch]),
        (''ProcessorsProcessorIdActionsProcessorReset'', [Lit ''Processors'', Var ''ProcessorId'', Lit ''Actions'', Lit ''Processor.Reset''], [Post]),
        (''ProcessorsProcessorIdActionsProcessorResetToDefaults'', [Lit ''Processors'', Var ''ProcessorId'', Lit ''Actions'', Lit ''Processor.ResetToDefaults''], [Post]),
        (''ProcessorsProcessorIdAssembly'', [Lit ''Processors'', Var ''ProcessorId'', Lit ''Assembly''], [Get, Put, Patch]),
        (''ProcessorsProcessorIdProcessorMetrics'', [Lit ''Processors'', Var ''ProcessorId'', Lit ''ProcessorMetrics''], [Get]),
        (''ProcessorsProcessorIdProcessorMetricsActionsProcessorMetricsClearCurrentPeriod'', [Lit ''Processors'', Var ''ProcessorId'', Lit ''ProcessorMetrics'', Lit ''Actions'', Lit ''ProcessorMetrics.ClearCurrentPeriod''], [Post]),
        (''ProcessorsProcessorIdSubProcessors'', [Lit ''Processors'', Var ''ProcessorId'', Lit ''SubProcessors''], [Get])]"

definition Routes_Chassis_16 :: Routes where
  "Routes_Chassis_16 =
     under at_root ''ChassisChassisIdNetworkAdaptersNetworkAdapterIdProcessorsProcessorIdSubProcessorsProcessorId2''
       [Lit ''Chassis'', Var ''ChassisId'', Lit ''NetworkAdapters'', Var ''NetworkAdapterId'', Lit ''Processors'', Var ''ProcessorId'', Lit ''SubProcessors'', Var ''ProcessorId2'']
       [('''', [], [Get, Put, Patch]),
        (''ActionsProcessorReset'', [Lit ''Actions'', Lit ''Processor.Reset''], [Post]),
        (''ActionsProcessorResetToDefaults'', [Lit ''Actions'', Lit ''Processor.ResetToDefaults''], [Post]),
        (''Assembly'', [Lit ''Assembly''], [Get, Put, Patch]),
        (''ProcessorMetrics'', [Lit ''ProcessorMetrics''], [Get]),
        (''ProcessorMetricsActionsProcessorMetricsClearCurrentPeriod'', [Lit ''ProcessorMetrics'', Lit ''Actions'', Lit ''ProcessorMetrics.ClearCurrentPeriod''], [Post]),
        (''SubProcessors'', [Lit ''SubProcessors''], [Get]),
        (''SubProcessorsProcessorId3'', [Lit ''SubProcessors'', Var ''ProcessorId3''], [Get, Put, Patch]),
        (''SubProcessorsProcessorId3ActionsProcessorReset'', [Lit ''SubProcessors'', Var ''ProcessorId3'', Lit ''Actions'', Lit ''Processor.Reset''], [Post]),
        (''SubProcessorsProcessorId3ActionsProcessorResetToDefaults'', [Lit ''SubProcessors'', Var ''ProcessorId3'', Lit ''Actions'', Lit ''Processor.ResetToDefaults''], [Post]),
        (''SubProcessorsProcessorId3Assembly'', [Lit ''SubProcessors'', Var ''ProcessorId3'', Lit ''Assembly''], [Get, Put, Patch]),
        (''SubProcessorsProcessorId3ProcessorMetrics'', [Lit ''SubProcessors'', Var ''ProcessorId3'', Lit ''ProcessorMetrics''], [Get]),
        (''SubProcessorsProcessorId3ProcessorMetricsActionsProcessorMetricsClearCurrentPeriod'', [Lit ''SubProcessors'', Var ''ProcessorId3'', Lit ''ProcessorMetrics'', Lit ''Actions'', Lit ''ProcessorMetrics.ClearCurrentPeriod''], [Post])]"

definition Routes_Chassis_17 :: Routes where
  "Routes_Chassis_17 =
     under at_root ''ChassisChassisIdPCIeDevices''
       [Lit ''Chassis'', Var ''ChassisId'', Lit ''PCIeDevices'']
       [('''', [], [Get]),
        (''PCIeDeviceId'', [Var ''PCIeDeviceId''], [Get, Put, Patch]),
        (''PCIeDeviceIdAssembly'', [Var ''PCIeDeviceId'', Lit ''Assembly''], [Get, Put, Patch]),
        (''PCIeDeviceIdCXLLogicalDevices'', [Var ''PCIeDeviceId'', Lit ''CXLLogicalDevices''], [Get])]"

definition Routes_Chassis_18 :: Routes where
  "Routes_Chassis_18 =
     under at_root ''ChassisChassisIdPCIeDevicesPCIeDeviceIdCXLLogicalDevicesCXLLogicalDeviceId''
       [Lit ''Chassis'', Var ''ChassisId'', Lit ''PCIeDevices'', Var ''PCIeDeviceId'', Lit ''CXLLogicalDevices'', Var ''CXLLogicalDeviceId'']
       [('''', [], [Get, Put, Patch]),
        (''DeviceLog'', [Lit ''DeviceLog''], [Get, Put, Patch]),
        (''DeviceLogActionsLogServiceClearLog'', [Lit ''DeviceLog'', Lit ''Actions'', Lit ''LogService.ClearLog''], [Post]),
        (''DeviceLogActionsLogServiceCollectDiagnosticData'', [Lit ''DeviceLog'', Lit ''Actions'', Lit ''LogService.CollectDiagnosticData''], [Post]),
        (''DeviceLogActionsLogServicePushDiagnosticData'', [Lit ''DeviceLog'', Lit ''Actions'', Lit ''LogService.PushDiagnosticData''], [Post]),
        (''DeviceLogEntries'', [Lit ''DeviceLog'', Lit ''Entries''], [Get, Post]),
        (''DeviceLogEntriesLogEntryId'', [Lit ''DeviceLog'', Lit ''Entries'', Var ''LogEntryId''], [Get, Put, Delete, Patch]),
        (''MemoryRegions'', [Lit ''MemoryRegions''], [Get, Post]),
        (''MemoryRegionsMemoryRegionId'', [Lit ''MemoryRegions'', Var ''MemoryRegionId''], [Get, Put, Delete, Patch])]"

definition Routes_Chassis_19 :: Routes where
  "Routes_Chassis_19 =
     under at_root ''ChassisChassisId''
       [Lit ''Chassis'', Var ''ChassisId'']
       [(''PCIeDevicesPCIeDeviceIdEnvironmentMetrics'', [Lit ''PCIeDevices'', Var ''PCIeDeviceId'', Lit ''EnvironmentMetrics''], [Get, Put, Patch]),
        (''PCIeDevicesPCIeDeviceIdEnvironmentMetricsActionsEnvironmentMetricsResetMetrics'', [Lit ''PCIeDevices'', Var ''PCIeDeviceId'', Lit ''EnvironmentMetrics'', Lit ''Actions'', Lit ''EnvironmentMetrics.ResetMetrics''], [Post]),
        (''PCIeDevicesPCIeDeviceIdEnvironmentMetricsActionsEnvironmentMetricsResetToDefaults'', [Lit ''PCIeDevices'', Var ''PCIeDeviceId'', Lit ''EnvironmentMetrics'', Lit ''Actions'', Lit ''EnvironmentMetrics.ResetToDefaults''], [Post]),
        (''PCIeDevicesPCIeDeviceIdPCIeFunctions'', [Lit ''PCIeDevices'', Var ''PCIeDeviceId'', Lit ''PCIeFunctions''], [Get]),
        (''PCIeDevicesPCIeDeviceIdPCIeFunctionsPCIeFunctionId'', [Lit ''PCIeDevices'', Var ''PCIeDeviceId'', Lit ''PCIeFunctions'', Var ''PCIeFunctionId''], [Get, Put, Patch]),
        (''PCIeSlots'', [Lit ''PCIeSlots''], [Get, Put, Patch]),
        (''Power'', [Lit ''Power''], [Get, Put, Patch]),
        (''PowerActionsPowerPowerSupplyReset'', [Lit ''Power'', Lit ''Actions'', Lit ''Power.PowerSupplyReset''], [Post]),
        (''PowerPowerSuppliesPowerSupplyIdAssembly'', [Lit ''Power'', Lit ''PowerSupplies'', Var ''PowerSupplyId'', Lit ''Assembly''], [Get, Put, Patch])]"

definition Routes_Chassis_20 :: Routes where
  "Routes_Chassis_20 =
     under at_root ''ChassisChassisIdPowerSubsystem''
       [Lit ''Chassis'', Var ''ChassisId'', Lit ''PowerSubsystem'']
       [('''', [], [Get, Put, Patch]),
        (''Batteries'', [Lit ''Batteries''], [Get]),
        (''BatteriesBatteryId'', [Lit ''Batteries'', Var ''BatteryId''], [Get, Put, Patch]),
        (''BatteriesBatteryIdActionsBatteryCalibrate'', [Lit ''Batteries'', Var ''BatteryId'', Lit ''Actions'', Lit ''Battery.Calibrate''], [Post]),
        (''BatteriesBatteryIdActionsBatteryReset'', [Lit ''Batteries'', Var ''BatteryId'', Lit ''Actions'', Lit ''Battery.Reset''], [Post]),
        (''BatteriesBatteryIdActionsBatterySelfTest'', [Lit ''Batteries'', Var ''BatteryId'', Lit ''Actions'', Lit ''Battery.SelfTest''], [Post]),
        (''BatteriesBatteryIdAssembly'', [Lit ''Batteries'', Var ''BatteryId'', Lit ''Assembly''], [Get, Put, Patch]),
        (''BatteriesBatteryIdMetrics'', [Lit ''Batteries'', Var ''BatteryId'', Lit ''Metrics''], [Get]),
        (''PowerSupplies'', [Lit ''PowerSupplies''], [Get]),
        (''PowerSuppliesPowerSupplyId'', [Lit ''PowerSupplies'', Var ''PowerSupplyId''], [Get, Put, Patch]),
        (''PowerSuppliesPowerSupplyIdActionsPowerSupplyReset'', [Lit ''PowerSupplies'', Var ''PowerSupplyId'', Lit ''Actions'', Lit ''PowerSupply.Reset''], [Post]),
        (''PowerSuppliesPowerSupplyIdAssembly'', [Lit ''PowerSupplies'', Var ''PowerSupplyId'', Lit ''Assembly''], [Get, Put, Patch]),
        (''PowerSuppliesPowerSupplyIdMetrics'', [Lit ''PowerSupplies'', Var ''PowerSupplyId'', Lit ''Metrics''], [Get]),
        (''PowerSuppliesPowerSupplyIdMetricsActionsPowerSupplyMetricsResetMetrics'', [Lit ''PowerSupplies'', Var ''PowerSupplyId'', Lit ''Metrics'', Lit ''Actions'', Lit ''PowerSupplyMetrics.ResetMetrics''], [Post])]"

definition Routes_Chassis_21 :: Routes where
  "Routes_Chassis_21 =
     under at_root ''ChassisChassisIdProcessors''
       [Lit ''Chassis'', Var ''ChassisId'', Lit ''Processors'']
       [('''', [], [Get]),
        (''ProcessorId'', [Var ''ProcessorId''], [Get, Put, Patch]),
        (''ProcessorIdActionsProcessorReset'', [Var ''ProcessorId'', Lit ''Actions'', Lit ''Processor.Reset''], [Post]),
        (''ProcessorIdActionsProcessorResetToDefaults'', [Var ''ProcessorId'', Lit ''Actions'', Lit ''Processor.ResetToDefaults''], [Post]),
        (''ProcessorIdSubProcessors'', [Var ''ProcessorId'', Lit ''SubProcessors''], [Get])]"

definition Routes_Chassis_22 :: Routes where
  "Routes_Chassis_22 =
     under at_root ''ChassisChassisIdProcessorsProcessorIdSubProcessorsProcessorId2''
       [Lit ''Chassis'', Var ''ChassisId'', Lit ''Processors'', Var ''ProcessorId'', Lit ''SubProcessors'', Var ''ProcessorId2'']
       [('''', [], [Get, Put, Patch]),
        (''ActionsProcessorReset'', [Lit ''Actions'', Lit ''Processor.Reset''], [Post]),
        (''ActionsProcessorResetToDefaults'', [Lit ''Actions'', Lit ''Processor.ResetToDefaults''], [Post]),
        (''SubProcessors'', [Lit ''SubProcessors''], [Get]),
        (''SubProcessorsProcessorId3'', [Lit ''SubProcessors'', Var ''ProcessorId3''], [Get, Put, Patch]),
        (''SubProcessorsProcessorId3ActionsProcessorReset'', [Lit ''SubProcessors'', Var ''ProcessorId3'', Lit ''Actions'', Lit ''Processor.Reset''], [Post]),
        (''SubProcessorsProcessorId3ActionsProcessorResetToDefaults'', [Lit ''SubProcessors'', Var ''ProcessorId3'', Lit ''Actions'', Lit ''Processor.ResetToDefaults''], [Post])]"

definition Routes_Chassis_23 :: Routes where
  "Routes_Chassis_23 =
     under at_root ''ChassisChassisId''
       [Lit ''Chassis'', Var ''ChassisId'']
       [(''Sensors'', [Lit ''Sensors''], [Get]),
        (''SensorsSensorId'', [Lit ''Sensors'', Var ''SensorId''], [Get, Put, Patch]),
        (''SensorsSensorIdActionsSensorResetMetrics'', [Lit ''Sensors'', Var ''SensorId'', Lit ''Actions'', Lit ''Sensor.ResetMetrics''], [Post]),
        (''SensorsSensorIdActionsSensorResetToDefaults'', [Lit ''Sensors'', Var ''SensorId'', Lit ''Actions'', Lit ''Sensor.ResetToDefaults''], [Post]),
        (''Thermal'', [Lit ''Thermal''], [Get, Put, Patch]),
        (''ThermalFansFanIdAssembly'', [Lit ''Thermal'', Lit ''Fans'', Var ''FanId'', Lit ''Assembly''], [Get, Put, Patch]),
        (''ThermalSubsystem'', [Lit ''ThermalSubsystem''], [Get]),
        (''ThermalSubsystemCoolantConnectors'', [Lit ''ThermalSubsystem'', Lit ''CoolantConnectors''], [Get]),
        (''ThermalSubsystemCoolantConnectorsCoolantConnectorId'', [Lit ''ThermalSubsystem'', Lit ''CoolantConnectors'', Var ''CoolantConnectorId''], [Get, Put, Patch])]"

definition Routes_Chassis_24 :: Routes where
  "Routes_Chassis_24 =
     under at_root ''ChassisChassisIdThermalSubsystem''
       [Lit ''Chassis'', Var ''ChassisId'', Lit ''ThermalSubsystem'']
       [(''Fans'', [Lit ''Fans''], [Get]),
        (''FansFanId'', [Lit ''Fans'', Var ''FanId''], [Get, Put, Patch]),
        (''FansFanIdAssembly'', [Lit ''Fans'', Var ''FanId'', Lit ''Assembly''], [Get, Put, Patch]),
        (''Heaters'', [Lit ''Heaters''], [Get]),
        (''HeatersHeaderIdAssembly'', [Lit ''Heaters'', Var ''HeaderId'', Lit ''Assembly''], [Get, Put, Patch]),
        (''HeatersHeaderIdMetrics'', [Lit ''Heaters'', Var ''HeaderId'', Lit ''Metrics''], [Get]),
        (''HeatersHeaderIdMetricsActionsHeaterMetricsResetMetrics'', [Lit ''Heaters'', Var ''HeaderId'', Lit ''Metrics'', Lit ''Actions'', Lit ''HeaterMetrics.ResetMetrics''], [Post]),
        (''HeatersHeaterId'', [Lit ''Heaters'', Var ''HeaterId''], [Get, Put, Patch]),
        (''LeakDetection'', [Lit ''LeakDetection''], [Get]),
        (''LeakDetectionLeakDetectors'', [Lit ''LeakDetection'', Lit ''LeakDetectors''], [Get]),
        (''LeakDetectionLeakDetectorsLeakDetectorId'', [Lit ''LeakDetection'', Lit ''LeakDetectors'', Var ''LeakDetectorId''], [Get]),
        (''Pumps'', [Lit ''Pumps''], [Get]),
        (''PumpsPumpId'', [Lit ''Pumps'', Var ''PumpId''], [Get, Put, Patch]),
        (''PumpsPumpIdFilters'', [Lit ''Pumps'', Var ''PumpId'', Lit ''Filters''], [Get]),
        (''PumpsPumpIdFiltersFilterId'', [Lit ''Pumps'', Var ''PumpId'', Lit ''Filters'', Var ''FilterId''], [Get, Put, Patch]),
        (''ThermalMetrics'', [Lit ''ThermalMetrics''], [Get]),
        (''ThermalMetricsActionsThermalMetricsResetMetrics'', [Lit ''ThermalMetrics'', Lit ''Actions'', Lit ''ThermalMetrics.ResetMetrics''], [Post])]"

definition Routes_Chassis_25 :: Routes where
  "Routes_Chassis_25 =
     under at_root ''ChassisChassisIdTrustedComponents''
       [Lit ''Chassis'', Var ''ChassisId'', Lit ''TrustedComponents'']
       [('''', [], [Get]),
        (''TrustedComponentId'', [Var ''TrustedComponentId''], [Get, Put, Patch]),
        (''TrustedComponentIdActionsTrustedComponentTPMGetEventLog'', [Var ''TrustedComponentId'', Lit ''Actions'', Lit ''TrustedComponent.TPMGetEventLog''], [Post]),
        (''TrustedComponentIdCertificates'', [Var ''TrustedComponentId'', Lit ''Certificates''], [Get, Post]),
        (''TrustedComponentIdCertificatesCertificateId'', [Var ''TrustedComponentId'', Lit ''Certificates'', Var ''CertificateId''], [Get, Put, Delete, Patch]),
        (''TrustedComponentIdCertificatesCertificateIdActionsCertificateRekey'', [Var ''TrustedComponentId'', Lit ''Certificates'', Var ''CertificateId'', Lit ''Actions'', Lit ''Certificate.Rekey''], [Post]),
        (''TrustedComponentIdCertificatesCertificateIdActionsCertificateRenew'', [Var ''TrustedComponentId'', Lit ''Certificates'', Var ''CertificateId'', Lit ''Actions'', Lit ''Certificate.Renew''], [Post])]"

definition chassis_routes :: Routes where
  "chassis_routes = concat
     [Routes_Chassis_1, Routes_Chassis_2, Routes_Chassis_3, Routes_Chassis_4, Routes_Chassis_5,
      Routes_Chassis_6, Routes_Chassis_7, Routes_Chassis_8, Routes_Chassis_9, Routes_Chassis_10,
      Routes_Chassis_11, Routes_Chassis_12, Routes_Chassis_13, Routes_Chassis_14, Routes_Chassis_15,
      Routes_Chassis_16, Routes_Chassis_17, Routes_Chassis_18, Routes_Chassis_19, Routes_Chassis_20,
      Routes_Chassis_21, Routes_Chassis_22, Routes_Chassis_23, Routes_Chassis_24, Routes_Chassis_25]"

lemma Chassis_1_settled: "list_all settled Routes_Chassis_1"
  unfolding Routes_Chassis_1_def
  by (rule settled_foreign, (rule parting | (simp; fail))+)

lemma Chassis_2_settled: "list_all settled Routes_Chassis_2"
  unfolding Routes_Chassis_2_def
  by (rule settled_foreign, (rule parting | (simp; fail))+)

lemma Chassis_3_settled: "list_all settled Routes_Chassis_3"
  unfolding Routes_Chassis_3_def
  by (rule settled_foreign, (rule parting | (simp; fail))+)

lemma Chassis_4_settled: "list_all settled Routes_Chassis_4"
  unfolding Routes_Chassis_4_def
  by (rule settled_foreign, (rule parting | (simp; fail))+)

lemma Chassis_5_settled: "list_all settled Routes_Chassis_5"
  unfolding Routes_Chassis_5_def
  by (rule settled_foreign, (rule parting | (simp; fail))+)

lemma Chassis_6_settled: "list_all settled Routes_Chassis_6"
  unfolding Routes_Chassis_6_def
  by (rule settled_foreign, (rule parting | (simp; fail))+)

lemma Chassis_7_settled: "list_all settled Routes_Chassis_7"
  unfolding Routes_Chassis_7_def
  by (rule settled_foreign, (rule parting | (simp; fail))+)

lemma Chassis_8_settled: "list_all settled Routes_Chassis_8"
  unfolding Routes_Chassis_8_def
  by (rule settled_foreign, (rule parting | (simp; fail))+)

lemma Chassis_9_settled: "list_all settled Routes_Chassis_9"
  unfolding Routes_Chassis_9_def
  by (rule settled_foreign, (rule parting | (simp; fail))+)

lemma Chassis_10_settled: "list_all settled Routes_Chassis_10"
  unfolding Routes_Chassis_10_def
  by (rule settled_foreign, (rule parting | (simp; fail))+)

lemma Chassis_11_settled: "list_all settled Routes_Chassis_11"
  unfolding Routes_Chassis_11_def
  by (rule settled_foreign, (rule parting | (simp; fail))+)

lemma Chassis_12_settled: "list_all settled Routes_Chassis_12"
  unfolding Routes_Chassis_12_def
  by (rule settled_foreign, (rule parting | (simp; fail))+)

lemma Chassis_13_settled: "list_all settled Routes_Chassis_13"
  unfolding Routes_Chassis_13_def
  by (rule settled_foreign, (rule parting | (simp; fail))+)

lemma Chassis_14_settled: "list_all settled Routes_Chassis_14"
  unfolding Routes_Chassis_14_def
  by (rule settled_foreign, (rule parting | (simp; fail))+)

lemma Chassis_15_settled: "list_all settled Routes_Chassis_15"
  unfolding Routes_Chassis_15_def
  by (rule settled_foreign, (rule parting | (simp; fail))+)

lemma Chassis_16_settled: "list_all settled Routes_Chassis_16"
  unfolding Routes_Chassis_16_def
  by (rule settled_foreign, (rule parting | (simp; fail))+)

lemma Chassis_17_settled: "list_all settled Routes_Chassis_17"
  unfolding Routes_Chassis_17_def
  by (rule settled_foreign, (rule parting | (simp; fail))+)

lemma Chassis_18_settled: "list_all settled Routes_Chassis_18"
  unfolding Routes_Chassis_18_def
  by (rule settled_foreign, (rule parting | (simp; fail))+)

lemma Chassis_19_settled: "list_all settled Routes_Chassis_19"
  unfolding Routes_Chassis_19_def
  by (rule settled_foreign, (rule parting | (simp; fail))+)

lemma Chassis_20_settled: "list_all settled Routes_Chassis_20"
  unfolding Routes_Chassis_20_def
  by (rule settled_foreign, (rule parting | (simp; fail))+)

lemma Chassis_21_settled: "list_all settled Routes_Chassis_21"
  unfolding Routes_Chassis_21_def
  by (rule settled_foreign, (rule parting | (simp; fail))+)

lemma Chassis_22_settled: "list_all settled Routes_Chassis_22"
  unfolding Routes_Chassis_22_def
  by (rule settled_foreign, (rule parting | (simp; fail))+)

lemma Chassis_23_settled: "list_all settled Routes_Chassis_23"
  unfolding Routes_Chassis_23_def
  by (rule settled_foreign, (rule parting | (simp; fail))+)

lemma Chassis_24_settled: "list_all settled Routes_Chassis_24"
  unfolding Routes_Chassis_24_def
  by (rule settled_foreign, (rule parting | (simp; fail))+)

lemma Chassis_25_settled: "list_all settled Routes_Chassis_25"
  unfolding Routes_Chassis_25_def
  by (rule settled_foreign, (rule parting | (simp; fail))+)

lemma chassis_routes_settled: "list_all settled chassis_routes"
  unfolding chassis_routes_def
  by (intro settled_concat
    Chassis_1_settled Chassis_2_settled Chassis_3_settled Chassis_4_settled Chassis_5_settled
    Chassis_6_settled Chassis_7_settled Chassis_8_settled Chassis_9_settled Chassis_10_settled
    Chassis_11_settled Chassis_12_settled Chassis_13_settled Chassis_14_settled Chassis_15_settled
    Chassis_16_settled Chassis_17_settled Chassis_18_settled Chassis_19_settled Chassis_20_settled
    Chassis_21_settled Chassis_22_settled Chassis_23_settled Chassis_24_settled Chassis_25_settled)

end
