(* ===== verification/ControllersChassis.thy ===== *)
theory ControllersChassis
  imports RoutesChassis Operations
begin

text \<open>
  The controllers of the chassis (api_default.go), group by group of their routes: the
  path variables each requires and the body it decodes and checks.  The variables are those of the
  pattern of its route.
\<close>

definition Controllers_Chassis_1a :: operations where
  "Controllers_Chassis_1a = ops op_root ''Chassis'' []
     [('''', [], Checked ''ChassisV1250Chassis'', [Get, Post]),
      (''ChassisId'', [''ChassisId''], Checked ''ChassisV1250Chassis'', [Get, Put, Delete, Patch])]"

definition Controllers_Chassis_1b :: operations where
  "Controllers_Chassis_1b = ops op_root ''Chassis'' []
     [(''ChassisIdActionsChassisReset'', [''ChassisId''], Checked ''ChassisV1250ResetRequestBody'', [Post]),
      (''ChassisIdAssembly'', [''ChassisId''], Checked ''AssemblyV150Assembly'', [Get, Put, Patch]),
      (''ChassisIdCertificates'', [''ChassisId''], Bodiless, [Get])]"

definition Controllers_Chassis_1c :: operations where
  "Controllers_Chassis_1c = ops op_root ''Chassis'' []
     [(''ChassisIdCertificates'', [''ChassisId''], Checked ''CertificateV181Certificate'', [Post]),
      (''ChassisIdCertificatesCertificateId'', [''ChassisId'', ''CertificateId''], Checked ''CertificateV181Certificate'', [Get, Put, Delete])]"

definition Controllers_Chassis_1d :: operations where
  "Controllers_Chassis_1d = ops op_root ''Chassis'' []
     [(''ChassisIdCertificatesCertificateId'', [''ChassisId'', ''CertificateId''], Checked ''CertificateV181Certificate'', [Patch]),
      (''ChassisIdCertificatesCertificateIdActionsCertificateRekey'', [''ChassisId'', ''CertificateId''], Checked ''CertificateV181RekeyRequestBody'', [Post]),
      (''ChassisIdCertificatesCertificateIdActionsCertificateRenew'', [''ChassisId'', ''CertificateId''], Checked ''CertificateV181RenewRequestBody'', [Post]),
      (''ChassisIdControls'', [''ChassisId''], Bodiless, [Get])]"

definition Controllers_Chassis_1e :: operations where
  "Controllers_Chassis_1e = ops op_root ''Chassis'' []
     [(''ChassisIdControlsControlId'', [''ChassisId'', ''ControlId''], Checked ''ControlV150Control'', [Get, Put, Patch]),
      (''ChassisIdControlsControlIdActionsControlResetToDefaults'', [''ChassisId'', ''ControlId''], Untyped, [Post]),
      (''ChassisIdDrives'', [''ChassisId''], Bodiless, [Get])]"

definition Controllers_Chassis_2a :: operations where
  "Controllers_Chassis_2a = ops op_root ''ChassisChassisIdDrivesDriveId'' [''ChassisId'', ''DriveId'']
     [('''', [], Checked ''DriveV1180Drive'', [Get, Put, Patch]),
      (''ActionsDriveReset'', [], Checked ''DriveV1180ResetRequestBody'', [Post])]"

definition Controllers_Chassis_2b :: operations where
  "Controllers_Chassis_2b = ops op_root ''ChassisChassisIdDrivesDriveId'' [''ChassisId'', ''DriveId'']
     [(''ActionsDriveRevertToOriginalFactoryState'', [], Checked ''DriveV1180RevertToOriginalFactoryStateRequestBody'', [Post]),
      (''ActionsDriveSecureErase'', [], Checked ''DriveV1180SecureEraseRequestBody'', [Post]),
      (''Assembly'', [], Checked ''AssemblyV150Assembly'', [Get, Put])]"

definition Controllers_Chassis_2c :: operations where
  "Controllers_Chassis_2c = ops op_root ''ChassisChassisIdDrivesDriveId'' [''ChassisId'', ''DriveId'']
     [(''Assembly'', [], Checked ''AssemblyV150Assembly'', [Patch]),
      (''Certificates'', [], Checked ''CertificateV181Certificate'', [Get, Post]),
      (''CertificatesCertificateId'', [''CertificateId''], Bodiless, [Get])]"

definition Controllers_Chassis_2d :: operations where
  "Controllers_Chassis_2d = ops op_root ''ChassisChassisIdDrivesDriveId'' [''ChassisId'', ''DriveId'']
     [(''CertificatesCertificateId'', [''CertificateId''], Checked ''CertificateV181Certificate'', [Put, Delete, Patch])]"

definition Controllers_Chassis_2e :: operations where
  "Controllers_Chassis_2e = ops op_root ''ChassisChassisIdDrivesDriveId'' [''ChassisId'', ''DriveId'']
     [(''CertificatesCertificateIdActionsCertificateRekey'', [''CertificateId''], Checked ''CertificateV181RekeyRequestBody'', [Post]),
      (''CertificatesCertificateIdActionsCertificateRenew'', [''CertificateId''], Checked ''CertificateV181RenewRequestBody'', [Post]),
      (''EnvironmentMetrics'', [], Checked ''EnvironmentMetricsV131EnvironmentMetrics'', [Get, Put])]"

definition Controllers_Chassis_2f :: operations where
  "Controllers_Chassis_2f = ops op_root ''ChassisChassisIdDrivesDriveId'' [''ChassisId'', ''DriveId'']
     [(''EnvironmentMetrics'', [], Checked ''EnvironmentMetricsV131EnvironmentMetrics'', [Patch]),
      (''EnvironmentMetricsActionsEnvironmentMetricsResetMetrics'', [], Untyped, [Post]),
      (''EnvironmentMetricsActionsEnvironmentMetricsResetToDefaults'', [], Untyped, [Post]),
      (''Metrics'', [], Bodiless, [Get])]"

definition Controllers_Chassis_3a :: operations where
  "Controllers_Chassis_3a = ops op_root ''ChassisChassisId'' [''ChassisId'']
     [(''EnvironmentMetrics'', [], Checked ''EnvironmentMetricsV131EnvironmentMetrics'', [Get, Put, Patch]),
      (''EnvironmentMetricsActionsEnvironmentMetricsResetMetrics'', [], Untyped, [Post]),
      (''EnvironmentMetricsActionsEnvironmentMetricsResetToDefaults'', [], Untyped, [Post])]"

definition Controllers_Chassis_3b :: operations where
  "Controllers_Chassis_3b = ops op_root ''ChassisChassisId'' [''ChassisId'']
     [(''FabricAdapters'', [], Bodiless, [Get]),
      (''FabricAdaptersFabricAdapterId'', [''FabricAdapterId''], Checked ''FabricAdapterV152FabricAdapter'', [Get, Put, Patch]),
      (''FabricAdaptersFabricAdapterIdGenZMSDT'', [''FabricAdapterId''], Bodiless, [Get])]"

definition Controllers_Chassis_3c :: operations where
  "Controllers_Chassis_3c = ops op_root ''ChassisChassisId'' [''ChassisId'']
     [(''FabricAdaptersFabricAdapterIdGenZMSDT'', [''FabricAdapterId''], Checked ''RouteEntryV101RouteEntry'', [Post]),
      (''FabricAdaptersFabricAdapterIdGenZMSDTMSDTId'', [''FabricAdapterId'', ''MSDTId''], Checked ''RouteEntryV101RouteEntry'', [Get, Put, Delete])]"

definition Controllers_Chassis_3d :: operations where
  "Controllers_Chassis_3d = ops op_root ''ChassisChassisId'' [''ChassisId'']
     [(''FabricAdaptersFabricAdapterIdGenZMSDTMSDTId'', [''FabricAdapterId'', ''MSDTId''], Checked ''RouteEntryV101RouteEntry'', [Patch]),
      (''FabricAdaptersFabricAdapterIdGenZREQVCAT'', [''FabricAdapterId''], Checked ''VcatEntryV102VcatEntry'', [Get, Post])]"

definition Controllers_Chassis_4a :: operations where
  "Controllers_Chassis_4a = ops op_root ''ChassisChassisIdFabricAdaptersFabricAdapterId'' [''ChassisId'', ''FabricAdapterId'']
     [(''GenZREQVCATVCATEntryId'', [''VCATEntryId''], Checked ''VcatEntryV102VcatEntry'', [Get, Put, Delete, Patch])]"

definition Controllers_Chassis_4b :: operations where
  "Controllers_Chassis_4b = ops op_root ''ChassisChassisIdFabricAdaptersFabricAdapterId'' [''ChassisId'', ''FabricAdapterId'']
     [(''GenZRSPVCAT'', [], Checked ''VcatEntryV102VcatEntry'', [Get, Post]),
      (''GenZRSPVCATVCATEntryId'', [''VCATEntryId''], Checked ''VcatEntryV102VcatEntry'', [Get, Put])]"

definition Controllers_Chassis_4c :: operations where
  "Controllers_Chassis_4c = ops op_root ''ChassisChassisIdFabricAdaptersFabricAdapterId'' [''ChassisId'', ''FabricAdapterId'']
     [(''GenZRSPVCATVCATEntryId'', [''VCATEntryId''], Checked ''VcatEntryV102VcatEntry'', [Delete, Patch]),
      (''GenZSSDT'', [], Checked ''RouteEntryV101RouteEntry'', [Get, Post])]"

definition Controllers_Chassis_4d :: operations where
  "Controllers_Chassis_4d = ops op_root ''ChassisChassisIdFabricAdaptersFabricAdapterId'' [''ChassisId'', ''FabricAdapterId'']
     [(''GenZSSDTSSDTId'', [''SSDTId''], Checked ''RouteEntryV101RouteEntry'', [Get, Put, Delete, Patch])]"

definition Controllers_Chassis_4e :: operations where
  "Controllers_Chassis_4e = ops op_root ''ChassisChassisIdFabricAdaptersFabricAdapterId'' [''ChassisId'', ''FabricAdapterId'']
     [(''MSDT'', [], Checked ''RouteEntryV101RouteEntry'', [Get, Post]),
      (''MSDTMSDTId'', [''MSDTId''], Checked ''RouteEntryV101RouteEntry'', [Get, Put])]"

definition Controllers_Chassis_4f :: operations where
  "Controllers_Chassis_4f = ops op_root ''ChassisChassisIdFabricAdaptersFabricAdapterId'' [''ChassisId'', ''FabricAdapterId'']
     [(''MSDTMSDTId'', [''MSDTId''], Checked ''RouteEntryV101RouteEntry'', [Delete, Patch]),
      (''MSDTMSDTIdRouteSet'', [''MSDTId''], Checked ''RouteSetEntryV101RouteSetEntry'', [Get, Post])]"

definition Controllers_Chassis_4g :: operations where
  "Controllers_Chassis_4g = ops op_root ''ChassisChassisIdFabricAdaptersFabricAdapterId'' [''ChassisId'', ''FabricAdapterId'']
     [(''MSDTMSDTIdRouteSetRouteId'', [''MSDTId'', ''RouteId''], Checked ''RouteSetEntryV101RouteSetEntry'', [Get, Put, Delete])]"

definition Controllers_Chassis_4h :: operations where
  "Controllers_Chassis_4h = ops op_root ''ChassisChassisIdFabricAdaptersFabricAdapterId'' [''ChassisId'', ''FabricAdapterId'']
     [(''MSDTMSDTIdRouteSetRouteId'', [''MSDTId'', ''RouteId''], Checked ''RouteSetEntryV101RouteSetEntry'', [Patch]),
      (''Ports'', [], Bodiless, [Get])]"

definition Controllers_Chassis_5a :: operations where
  "Controllers_Chassis_5a = ops op_root ''ChassisChassisIdFabricAdaptersFabricAdapterIdPortsPortId'' [''ChassisId'', ''FabricAdapterId'', ''PortId'']
     [('''', [], Checked ''PortV1110Port'', [Get, Put, Patch])]"

definition Controllers_Chassis_5b :: operations where
  "Controllers_Chassis_5b = ops op_root ''ChassisChassisIdFabricAdaptersFabricAdapterIdPortsPortId'' [''ChassisId'', ''FabricAdapterId'', ''PortId'']
     [(''ActionsPortReset'', [], Checked ''PortV1110ResetRequestBody'', [Post]),
      (''ActionsPortResetPPB'', [], Untyped, [Post]),
      (''EnvironmentMetrics'', [], Checked ''EnvironmentMetricsV131EnvironmentMetrics'', [Get, Put])]"

definition Controllers_Chassis_5c :: operations where
  "Controllers_Chassis_5c = ops op_root ''ChassisChassisIdFabricAdaptersFabricAdapterIdPortsPortId'' [''ChassisId'', ''FabricAdapterId'', ''PortId'']
     [(''EnvironmentMetrics'', [], Checked ''EnvironmentMetricsV131EnvironmentMetrics'', [Patch]),
      (''EnvironmentMetricsActionsEnvironmentMetricsResetMetrics'', [], Untyped, [Post]),
      (''EnvironmentMetricsActionsEnvironmentMetricsResetToDefaults'', [], Untyped, [Post]),
      (''GenZLPRT'', [], Bodiless, [Get])]"

definition Controllers_Chassis_5d :: operations where
  "Controllers_Chassis_5d = ops op_root ''ChassisChassisIdFabricAdaptersFabricAdapterIdPortsPortId'' [''ChassisId'', ''FabricAdapterId'', ''PortId'']
     [(''GenZLPRT'', [], Checked ''RouteEntryV101RouteEntry'', [Post]),
      (''GenZLPRTLPRTId'', [''LPRTId''], Checked ''RouteEntryV101RouteEntry'', [Get, Put])]"

definition Controllers_Chassis_5e :: operations where
  "Controllers_Chassis_5e = ops op_root ''ChassisChassisIdFabricAdaptersFabricAdapterIdPortsPortId'' [''ChassisId'', ''FabricAdapterId'', ''PortId'']
     [(''GenZLPRTLPRTId'', [''LPRTId''], Checked ''RouteEntryV101RouteEntry'', [Delete, Patch]),
      (''GenZMPRT'', [], Bodiless, [Get])]"

definition Controllers_Chassis_5f :: operations where
  "Controllers_Chassis_5f = ops op_root ''ChassisChassisIdFabricAdaptersFabricAdapterIdPortsPortId'' [''ChassisId'', ''FabricAdapterId'', ''PortId'']
     [(''GenZMPRT'', [], Checked ''RouteEntryV101RouteEntry'', [Post]),
      (''GenZMPRTMPRTId'', [''MPRTId''], Checked ''RouteEntryV101RouteEntry'', [Get, Put])]"

definition Controllers_Chassis_5g :: operations where
  "Controllers_Chassis_5g = ops op_root ''ChassisChassisIdFabricAdaptersFabricAdapterIdPortsPortId'' [''ChassisId'', ''FabricAdapterId'', ''PortId'']
     [(''GenZMPRTMPRTId'', [''MPRTId''], Checked ''RouteEntryV101RouteEntry'', [Delete, Patch]),
      (''GenZVCAT'', [], Bodiless, [Get])]"

definition Controllers_Chassis_5h :: operations where
  "Controllers_Chassis_5h = ops op_root ''ChassisChassisIdFabricAdaptersFabricAdapterIdPortsPortId'' [''ChassisId'', ''FabricAdapterId'', ''PortId'']
     [(''GenZVCAT'', [], Checked ''VcatEntryV102VcatEntry'', [Post]),
      (''GenZVCATVCATEntryId'', [''VCATEntryId''], Checked ''VcatEntryV102VcatEntry'', [Get, Put])]"

definition Controllers_Chassis_5i :: operations where
  "Controllers_Chassis_5i = ops op_root ''ChassisChassisIdFabricAdaptersFabricAdapterIdPortsPortId'' [''ChassisId'', ''FabricAdapterId'', ''PortId'']
     [(''GenZVCATVCATEntryId'', [''VCATEntryId''], Checked ''VcatEntryV102VcatEntry'', [Delete, Patch]),
      (''LPRT'', [], Bodiless, [Get])]"

definition Controllers_Chassis_5j :: operations where
  "Controllers_Chassis_5j = ops op_root ''ChassisChassisIdFabricAdaptersFabricAdapterIdPortsPortId'' [''ChassisId'', ''FabricAdapterId'', ''PortId'']
     [(''LPRT'', [], Checked ''RouteEntryV101RouteEntry'', [Post])]"

definition Controllers_Chassis_6a :: operations where
  "Controllers_Chassis_6a = ops op_root ''ChassisChassisIdFabricAdaptersFabricAdapterIdPortsPortId'' [''ChassisId'', ''FabricAdapterId'', ''PortId'']
     [(''LPRTLPRTId'', [''LPRTId''], Checked ''RouteEntryV101RouteEntry'', [Get, Put, Delete])]"

definition Controllers_Chassis_6b :: operations where
  "Controllers_Chassis_6b = ops op_root ''ChassisChassisIdFabricAdaptersFabricAdapterIdPortsPortId'' [''ChassisId'', ''FabricAdapterId'', ''PortId'']
     [(''LPRTLPRTId'', [''LPRTId''], Checked ''RouteEntryV101RouteEntry'', [Patch]),
      (''LPRTLPRTIdRouteSet'', [''LPRTId''], Checked ''RouteSetEntryV101RouteSetEntry'', [Get, Post])]"

definition Controllers_Chassis_6c :: operations where
  "Controllers_Chassis_6c = ops op_root ''ChassisChassisIdFabricAdaptersFabricAdapterIdPortsPortId'' [''ChassisId'', ''FabricAdapterId'', ''PortId'']
     [(''LPRTLPRTIdRouteSetRouteId'', [''LPRTId'', ''RouteId''], Checked ''RouteSetEntryV101RouteSetEntry'', [Get, Put, Delete])]"

definition Controllers_Chassis_6d :: operations where
  "Controllers_Chassis_6d = ops op_root ''ChassisChassisIdFabricAdaptersFabricAdapterIdPortsPortId'' [''ChassisId'', ''FabricAdapterId'', ''PortId'']
     [(''LPRTLPRTIdRouteSetRouteId'', [''LPRTId'', ''RouteId''], Checked ''RouteSetEntryV101RouteSetEntry'', [Patch]),
      (''MPRT'', [], Checked ''RouteEntryV101RouteEntry'', [Get, Post])]"

definition Controllers_Chassis_6e :: operations where
  "Controllers_Chassis_6e = ops op_root ''ChassisChassisIdFabricAdaptersFabricAdapterIdPortsPortId'' [''ChassisId'', ''FabricAdapterId'', ''PortId'']
     [(''MPRTMPRTId'', [''MPRTId''], Checked ''RouteEntryV101RouteEntry'', [Get, Put, Delete])]"

definition Controllers_Chassis_6f :: operations where
  "Controllers_Chassis_6f = ops op_root ''ChassisChassisIdFabricAdaptersFabricAdapterIdPortsPortId'' [''ChassisId'', ''FabricAdapterId'', ''PortId'']
     [(''MPRTMPRTId'', [''MPRTId''], Checked ''RouteEntryV101RouteEntry'', [Patch]),
      (''MPRTMPRTIdRouteSet'', [''MPRTId''], Checked ''RouteSetEntryV101RouteSetEntry'', [Get, Post])]"

definition Controllers_Chassis_6g :: operations where
  "Controllers_Chassis_6g = ops op_root ''ChassisChassisIdFabricAdaptersFabricAdapterIdPortsPortId'' [''ChassisId'', ''FabricAdapterId'', ''PortId'']
     [(''MPRTMPRTIdRouteSetRouteId'', [''MPRTId'', ''RouteId''], Checked ''RouteSetEntryV101RouteSetEntry'', [Get, Put, Delete])]"

definition Controllers_Chassis_6h :: operations where
  "Controllers_Chassis_6h = ops op_root ''ChassisChassisIdFabricAdaptersFabricAdapterIdPortsPortId'' [''ChassisId'', ''FabricAdapterId'', ''PortId'']
     [(''MPRTMPRTIdRouteSetRouteId'', [''MPRTId'', ''RouteId''], Checked ''RouteSetEntryV101RouteSetEntry'', [Patch]),
      (''Metrics'', [], Bodiless, [Get]),
      (''VCAT'', [], Bodiless, [Get])]"

definition Controllers_Chassis_6i :: operations where
  "Controllers_Chassis_6i = ops op_root ''ChassisChassisIdFabricAdaptersFabricAdapterIdPortsPortId'' [''ChassisId'', ''FabricAdapterId'', ''PortId'']
     [(''VCAT'', [], Checked ''VcatEntryV102VcatEntry'', [Post]),
      (''VCATVCATEntryId'', [''VCATEntryId''], Checked ''VcatEntryV102VcatEntry'', [Get, Put])]"

definition Controllers_Chassis_6j :: operations where
  "Controllers_Chassis_6j = ops op_root ''ChassisChassisIdFabricAdaptersFabricAdapterIdPortsPortId'' [''ChassisId'', ''FabricAdapterId'', ''PortId'']
     [(''VCATVCATEntryId'', [''VCATEntryId''], Checked ''VcatEntryV102VcatEntry'', [Delete, Patch])]"

definition Controllers_Chassis_7a :: operations where
  "Controllers_Chassis_7a = ops op_root ''ChassisChassisIdFabricAdaptersFabricAdapterId'' [''ChassisId'', ''FabricAdapterId'']
     [(''REQVCAT'', [], Checked ''VcatEntryV102VcatEntry'', [Get, Post]),
      (''REQVCATVCATEntryId'', [''VCATEntryId''], Checked ''VcatEntryV102VcatEntry'', [Get, Put])]"

definition Controllers_Chassis_7b :: operations where
  "Controllers_Chassis_7b = ops op_root ''ChassisChassisIdFabricAdaptersFabricAdapterId'' [''ChassisId'', ''FabricAdapterId'']
     [(''REQVCATVCATEntryId'', [''VCATEntryId''], Checked ''VcatEntryV102VcatEntry'', [Delete, Patch]),
      (''RSPVCAT'', [], Checked ''VcatEntryV102VcatEntry'', [Get, Post])]"

definition Controllers_Chassis_7c :: operations where
  "Controllers_Chassis_7c = ops op_root ''ChassisChassisIdFabricAdaptersFabricAdapterId'' [''ChassisId'', ''FabricAdapterId'']
     [(''RSPVCATVCATEntryId'', [''VCATEntryId''], Checked ''VcatEntryV102VcatEntry'', [Get, Put, Delete, Patch])]"

definition Controllers_Chassis_7d :: operations where
  "Controllers_Chassis_7d = ops op_root ''ChassisChassisIdFabricAdaptersFabricAdapterId'' [''ChassisId'', ''FabricAdapterId'']
     [(''SSDT'', [], Checked ''RouteEntryV101RouteEntry'', [Get, Post]),
      (''SSDTSSDTId'', [''SSDTId''], Checked ''RouteEntryV101RouteEntry'', [Get, Put])]"

definition Controllers_Chassis_7e :: operations where
  "Controllers_Chassis_7e = ops op_root ''ChassisChassisIdFabricAdaptersFabricAdapterId'' [''ChassisId'', ''FabricAdapterId'']
     [(''SSDTSSDTId'', [''SSDTId''], Checked ''RouteEntryV101RouteEntry'', [Delete, Patch]),
      (''SSDTSSDTIdRouteSet'', [''SSDTId''], Checked ''RouteSetEntryV101RouteSetEntry'', [Get, Post])]"

definition Controllers_Chassis_7f :: operations where
  "Controllers_Chassis_7f = ops op_root ''ChassisChassisIdFabricAdaptersFabricAdapterId'' [''ChassisId'', ''FabricAdapterId'']
     [(''SSDTSSDTIdRouteSetRouteId'', [''SSDTId'', ''RouteId''], Checked ''RouteSetEntryV101RouteSetEntry'', [Get, Put, Delete])]"

definition Controllers_Chassis_7g :: operations where
  "Controllers_Chassis_7g = ops op_root ''ChassisChassisIdFabricAdaptersFabricAdapterId'' [''ChassisId'', ''FabricAdapterId'']
     [(''SSDTSSDTIdRouteSetRouteId'', [''SSDTId'', ''RouteId''], Checked ''RouteSetEntryV101RouteSetEntry'', [Patch])]"

definition Controllers_Chassis_8a :: operations where
  "Controllers_Chassis_8a = ops op_root ''ChassisChassisId'' [''ChassisId'']
     [(''LogServices'', [], Bodiless, [Get]),
      (''LogServicesLogServiceId'', [''LogServiceId''], Checked ''LogServiceV160LogService'', [Get, Put, Patch])]"

definition Controllers_Chassis_8b :: operations where
  "Controllers_Chassis_8b = ops op_root ''ChassisChassisId'' [''ChassisId'']
     [(''LogServicesLogServiceIdActionsLogServiceClearLog'', [''LogServiceId''], Checked ''LogServiceV160ClearLogRequestBody'', [Post]),
      (''LogServicesLogServiceIdActionsLogServiceCollectDiagnosticData'', [''LogServiceId''], Checked ''LogServiceV160CollectDiagnosticDataRequestBody'', [Post]),
      (''LogServicesLogServiceIdActionsLogServicePushDiagnosticData'', [''LogServiceId''], Checked ''LogServiceV160PushDiagnosticDataRequestBody'', [Post]),
      (''LogServicesLogServiceIdEntries'', [''LogServiceId''], Bodiless, [Get])]"

definition Controllers_Chassis_8c :: operations where
  "Controllers_Chassis_8c = ops op_root ''ChassisChassisId'' [''ChassisId'']
     [(''LogServicesLogServiceIdEntries'', [''LogServiceId''], Checked ''LogEntryV1160LogEntry'', [Post]),
      (''LogServicesLogServiceIdEntriesLogEntryId'', [''LogServiceId'', ''LogEntryId''], Checked ''LogEntryV1160LogEntry'', [Get, Put, Delete])]"

definition Controllers_Chassis_8d :: operations where
  "Controllers_Chassis_8d = ops op_root ''ChassisChassisId'' [''ChassisId'']
     [(''LogServicesLogServiceIdEntriesLogEntryId'', [''LogServiceId'', ''LogEntryId''], Checked ''LogEntryV1160LogEntry'', [Patch]),
      (''MediaControllers'', [], Bodiless, [Get])]"

definition Controllers_Chassis_9a :: operations where
  "Controllers_Chassis_9a = ops op_root ''ChassisChassisIdMediaControllersMediaControllerId'' [''ChassisId'', ''MediaControllerId'']
     [('''', [], Bodiless, [Get]),
      (''ActionsMediaControllerReset'', [], Checked ''MediaControllerV131ResetRequestBody'', [Post]),
      (''EnvironmentMetrics'', [], Checked ''EnvironmentMetricsV131EnvironmentMetrics'', [Get, Put])]"

definition Controllers_Chassis_9b :: operations where
  "Controllers_Chassis_9b = ops op_root ''ChassisChassisIdMediaControllersMediaControllerId'' [''ChassisId'', ''MediaControllerId'']
     [(''EnvironmentMetrics'', [], Checked ''EnvironmentMetricsV131EnvironmentMetrics'', [Patch]),
      (''EnvironmentMetricsActionsEnvironmentMetricsResetMetrics'', [], Untyped, [Post]),
      (''EnvironmentMetricsActionsEnvironmentMetricsResetToDefaults'', [], Untyped, [Post]),
      (''Ports'', [], Bodiless, [Get]),
      (''PortsPortId'', [''PortId''], Bodiless, [Get])]"

definition Controllers_Chassis_9c :: operations where
  "Controllers_Chassis_9c = ops op_root ''ChassisChassisIdMediaControllersMediaControllerId'' [''ChassisId'', ''MediaControllerId'']
     [(''PortsPortId'', [''PortId''], Checked ''PortV1110Port'', [Put, Patch]),
      (''PortsPortIdActionsPortReset'', [''PortId''], Checked ''PortV1110ResetRequestBody'', [Post])]"

definition Controllers_Chassis_9d :: operations where
  "Controllers_Chassis_9d = ops op_root ''ChassisChassisIdMediaControllersMediaControllerId'' [''ChassisId'', ''MediaControllerId'']
     [(''PortsPortIdActionsPortResetPPB'', [''PortId''], Untyped, [Post]),
      (''PortsPortIdEnvironmentMetrics'', [''PortId''], Checked ''EnvironmentMetricsV131EnvironmentMetrics'', [Get, Put, Patch])]"

definition Controllers_Chassis_9e :: operations where
  "Controllers_Chassis_9e = ops op_root ''ChassisChassisIdMediaControllersMediaControllerId'' [''ChassisId'', ''MediaControllerId'']
     [(''PortsPortIdEnvironmentMetricsActionsEnvironmentMetricsResetMetrics'', [''PortId''], Untyped, [Post]),
      (''PortsPortIdEnvironmentMetricsActionsEnvironmentMetricsResetToDefaults'', [''PortId''], Untyped, [Post]),
      (''PortsPortIdMetrics'', [''PortId''], Bodiless, [Get])]"

definition Controllers_Chassis_10a :: operations where
  "Controllers_Chassis_10a = ops op_root ''ChassisChassisIdMemory'' [''ChassisId'']
     [('''', [], Bodiless, [Get])]"

definition Controllers_Chassis_11a :: operations where
  "Controllers_Chassis_11a = ops op_root ''ChassisChassisIdMemoryMemoryId'' [''ChassisId'', ''MemoryId'']
     [('''', [], Checked ''MemoryV1190Memory'', [Get, Put, Patch]),
      (''ActionsMemoryDisableMasterPassphrase'', [], Checked ''MemoryV1190DisableMasterPassphraseRequestBody'', [Post])]"

definition Controllers_Chassis_11b :: operations where
  "Controllers_Chassis_11b = ops op_root ''ChassisChassisIdMemoryMemoryId'' [''ChassisId'', ''MemoryId'']
     [(''ActionsMemoryDisablePassphrase'', [], Checked ''MemoryV1190DisablePassphraseRequestBody'', [Post]),
      (''ActionsMemoryFreezeSecurityState'', [], Untyped, [Post]),
      (''ActionsMemoryInjectPersistentPoison'', [], Checked ''MemoryV1190InjectPersistentPoisonRequestBody'', [Post]),
      (''ActionsMemoryOverwriteUnit'', [], Checked ''MemoryV1190OverwriteUnitRequestBody'', [Post])]"

definition Controllers_Chassis_11c :: operations where
  "Controllers_Chassis_11c = ops op_root ''ChassisChassisIdMemoryMemoryId'' [''ChassisId'', ''MemoryId'']
     [(''ActionsMemoryReset'', [], Checked ''MemoryV1190ResetRequestBody'', [Post]),
      (''ActionsMemoryResetToDefaults'', [], Untyped, [Post]),
      (''ActionsMemoryScanMedia'', [], Checked ''MemoryV1190ScanMediaRequestBody'', [Post]),
      (''ActionsMemorySecureEraseUnit'', [], Checked ''MemoryV1190SecureEraseUnitRequestBody'', [Post])]"

definition Controllers_Chassis_11d :: operations where
  "Controllers_Chassis_11d = ops op_root ''ChassisChassisIdMemoryMemoryId'' [''ChassisId'', ''MemoryId'']
     [(''ActionsMemorySetMasterPassphrase'', [], Checked ''MemoryV1190SetMasterPassphraseRequestBody'', [Post]),
      (''ActionsMemorySetPassphrase'', [], Checked ''MemoryV1190SetPassphraseRequestBody'', [Post]),
      (''ActionsMemoryUnlockUnit'', [], Checked ''MemoryV1190UnlockUnitRequestBody'', [Post]),
      (''Certificates'', [], Bodiless, [Get])]"

definition Controllers_Chassis_11e :: operations where
  "Controllers_Chassis_11e = ops op_root ''ChassisChassisIdMemoryMemoryId'' [''ChassisId'', ''MemoryId'']
     [(''Certificates'', [], Checked ''CertificateV181Certificate'', [Post]),
      (''CertificatesCertificateId'', [''CertificateId''], Checked ''CertificateV181Certificate'', [Get, Put, Delete])]"

definition Controllers_Chassis_11f :: operations where
  "Controllers_Chassis_11f = ops op_root ''ChassisChassisIdMemoryMemoryId'' [''ChassisId'', ''MemoryId'']
     [(''CertificatesCertificateId'', [''CertificateId''], Checked ''CertificateV181Certificate'', [Patch]),
      (''CertificatesCertificateIdActionsCertificateRekey'', [''CertificateId''], Checked ''CertificateV181RekeyRequestBody'', [Post]),
      (''CertificatesCertificateIdActionsCertificateRenew'', [''CertificateId''], Checked ''CertificateV181RenewRequestBody'', [Post])]"

definition Controllers_Chassis_11g :: operations where
  "Controllers_Chassis_11g = ops op_root ''ChassisChassisIdMemoryMemoryId'' [''ChassisId'', ''MemoryId'']
     [(''EnvironmentMetrics'', [], Checked ''EnvironmentMetricsV131EnvironmentMetrics'', [Get, Put, Patch]),
      (''EnvironmentMetricsActionsEnvironmentMetricsResetMetrics'', [], Untyped, [Post])]"

definition Controllers_Chassis_11h :: operations where
  "Controllers_Chassis_11h = ops op_root ''ChassisChassisIdMemoryMemoryId'' [''ChassisId'', ''MemoryId'']
     [(''EnvironmentMetricsActionsEnvironmentMetricsResetToDefaults'', [], Untyped, [Post]),
      (''MemoryMetrics'', [], Bodiless, [Get]),
      (''MemoryMetricsActionsMemoryMetricsClearCurrentPeriod'', [], Untyped, [Post])]"

definition Controllers_Chassis_12a :: operations where
  "Controllers_Chassis_12a = ops op_root ''ChassisChassisId'' [''ChassisId'']
     [(''MemoryDomains'', [], Bodiless, [Get]),
      (''MemoryDomainsMemoryDomainId'', [''MemoryDomainId''], Bodiless, [Get]),
      (''MemoryDomainsMemoryDomainIdMemoryChunks'', [''MemoryDomainId''], Checked ''MemoryChunksV161MemoryChunks'', [Get, Post]),
      (''MemoryDomainsMemoryDomainIdMemoryChunksMemoryChunksId'', [''MemoryDomainId'', ''MemoryChunksId''], Bodiless, [Get])]"

definition Controllers_Chassis_12b :: operations where
  "Controllers_Chassis_12b = ops op_root ''ChassisChassisId'' [''ChassisId'']
     [(''MemoryDomainsMemoryDomainIdMemoryChunksMemoryChunksId'', [''MemoryDomainId'', ''MemoryChunksId''], Checked ''MemoryChunksV161MemoryChunks'', [Put, Delete, Patch]),
      (''NetworkAdapters'', [], Bodiless, [Get])]"

definition Controllers_Chassis_13a :: operations where
  "Controllers_Chassis_13a = ops op_root ''ChassisChassisIdNetworkAdaptersNetworkAdapterId'' [''ChassisId'', ''NetworkAdapterId'']
     [('''', [], Checked ''NetworkAdapterV1100NetworkAdapter'', [Get, Put, Patch]),
      (''ActionsNetworkAdapterResetSettingsToDefault'', [], Untyped, [Post])]"

definition Controllers_Chassis_13b :: operations where
  "Controllers_Chassis_13b = ops op_root ''ChassisChassisIdNetworkAdaptersNetworkAdapterId'' [''ChassisId'', ''NetworkAdapterId'']
     [(''Assembly'', [], Checked ''AssemblyV150Assembly'', [Get, Put, Patch]),
      (''Certificates'', [], Bodiless, [Get])]"

definition Controllers_Chassis_13c :: operations where
  "Controllers_Chassis_13c = ops op_root ''ChassisChassisIdNetworkAdaptersNetworkAdapterId'' [''ChassisId'', ''NetworkAdapterId'']
     [(''Certificates'', [], Checked ''CertificateV181Certificate'', [Post]),
      (''CertificatesCertificateId'', [''CertificateId''], Checked ''CertificateV181Certificate'', [Get, Put, Delete])]"

definition Controllers_Chassis_13d :: operations where
  "Controllers_Chassis_13d = ops op_root ''ChassisChassisIdNetworkAdaptersNetworkAdapterId'' [''ChassisId'', ''NetworkAdapterId'']
     [(''CertificatesCertificateId'', [''CertificateId''], Checked ''CertificateV181Certificate'', [Patch]),
      (''CertificatesCertificateIdActionsCertificateRekey'', [''CertificateId''], Checked ''CertificateV181RekeyRequestBody'', [Post]),
      (''CertificatesCertificateIdActionsCertificateRenew'', [''CertificateId''], Checked ''CertificateV181RenewRequestBody'', [Post])]"

definition Controllers_Chassis_13e :: operations where
  "Controllers_Chassis_13e = ops op_root ''ChassisChassisIdNetworkAdaptersNetworkAdapterId'' [''ChassisId'', ''NetworkAdapterId'']
     [(''EnvironmentMetrics'', [], Checked ''EnvironmentMetricsV131EnvironmentMetrics'', [Get, Put, Patch]),
      (''EnvironmentMetricsActionsEnvironmentMetricsResetMetrics'', [], Untyped, [Post])]"

definition Controllers_Chassis_13f :: operations where
  "Controllers_Chassis_13f = ops op_root ''ChassisChassisIdNetworkAdaptersNetworkAdapterId'' [''ChassisId'', ''NetworkAdapterId'']
     [(''EnvironmentMetricsActionsEnvironmentMetricsResetToDefaults'', [], Untyped, [Post]),
      (''Metrics'', [], Bodiless, [Get]),
      (''NetworkDeviceFunctions'', [], Bodiless, [Get])]"

definition Controllers_Chassis_14a :: operations where
  "Controllers_Chassis_14a = ops op_root ''ChassisChassisIdNetworkAdaptersNetworkAdapterIdNetworkDeviceFunctionsNetworkDeviceFunctionId'' [''ChassisId'', ''NetworkAdapterId'', ''NetworkDeviceFunctionId'']
     [('''', [], Checked ''NetworkDeviceFunctionV191NetworkDeviceFunction'', [Get, Put, Patch]),
      (''AllowDeny'', [], Bodiless, [Get])]"

definition Controllers_Chassis_14b :: operations where
  "Controllers_Chassis_14b = ops op_root ''ChassisChassisIdNetworkAdaptersNetworkAdapterIdNetworkDeviceFunctionsNetworkDeviceFunctionId'' [''ChassisId'', ''NetworkAdapterId'', ''NetworkDeviceFunctionId'']
     [(''AllowDeny'', [], Checked ''AllowDenyV102AllowDeny'', [Post]),
      (''AllowDenyAllowDenyId'', [''AllowDenyId''], Checked ''AllowDenyV102AllowDeny'', [Get, Put])]"

definition Controllers_Chassis_14c :: operations where
  "Controllers_Chassis_14c = ops op_root ''ChassisChassisIdNetworkAdaptersNetworkAdapterIdNetworkDeviceFunctionsNetworkDeviceFunctionId'' [''ChassisId'', ''NetworkAdapterId'', ''NetworkDeviceFunctionId'']
     [(''AllowDenyAllowDenyId'', [''AllowDenyId''], Checked ''AllowDenyV102AllowDeny'', [Delete, Patch]),
      (''EthernetVLANs'', [], Bodiless, [Get])]"

definition Controllers_Chassis_14d :: operations where
  "Controllers_Chassis_14d = ops op_root ''ChassisChassisIdNetworkAdaptersNetworkAdapterIdNetworkDeviceFunctionsNetworkDeviceFunctionId'' [''ChassisId'', ''NetworkAdapterId'', ''NetworkDeviceFunctionId'']
     [(''EthernetVLANs'', [], Checked ''VLanNetworkInterfaceV130VLanNetworkInterface'', [Post]),
      (''EthernetVLANsVLanNetworkInterfaceId'', [''VLanNetworkInterfaceId''], Checked ''VLanNetworkInterfaceV130VLanNetworkInterface'', [Get, Put])]"

definition Controllers_Chassis_14e :: operations where
  "Controllers_Chassis_14e = ops op_root ''ChassisChassisIdNetworkAdaptersNetworkAdapterIdNetworkDeviceFunctionsNetworkDeviceFunctionId'' [''ChassisId'', ''NetworkAdapterId'', ''NetworkDeviceFunctionId'']
     [(''EthernetVLANsVLanNetworkInterfaceId'', [''VLanNetworkInterfaceId''], Checked ''VLanNetworkInterfaceV130VLanNetworkInterface'', [Delete, Patch]),
      (''EthernetInterfaces'', [], Bodiless, [Get])]"

definition Controllers_Chassis_14f :: operations where
  "Controllers_Chassis_14f = ops op_root ''ChassisChassisIdNetworkAdaptersNetworkAdapterIdNetworkDeviceFunctionsNetworkDeviceFunctionId'' [''ChassisId'', ''NetworkAdapterId'', ''NetworkDeviceFunctionId'']
     [(''EthernetInterfaces'', [], Checked ''EthernetInterfaceV1120EthernetInterface'', [Post]),
      (''EthernetInterfacesEthernetInterfaceId'', [''EthernetInterfaceId''], Checked ''EthernetInterfaceV1120EthernetInterface'', [Get, Put])]"

definition Controllers_Chassis_14g :: operations where
  "Controllers_Chassis_14g = ops op_root ''ChassisChassisIdNetworkAdaptersNetworkAdapterIdNetworkDeviceFunctionsNetworkDeviceFunctionId'' [''ChassisId'', ''NetworkAdapterId'', ''NetworkDeviceFunctionId'']
     [(''EthernetInterfacesEthernetInterfaceId'', [''EthernetInterfaceId''], Checked ''EthernetInterfaceV1120EthernetInterface'', [Delete, Patch]),
      (''Metrics'', [], Bodiless, [Get])]"

definition Controllers_Chassis_15a :: operations where
  "Controllers_Chassis_15a = ops op_root ''ChassisChassisIdNetworkAdaptersNetworkAdapterId'' [''ChassisId'', ''NetworkAdapterId'']
     [(''NetworkPorts'', [], Bodiless, [Get]),
      (''NetworkPortsNetworkPortId'', [''NetworkPortId''], Checked ''NetworkPortV142NetworkPort'', [Get, Put, Patch])]"

definition Controllers_Chassis_15b :: operations where
  "Controllers_Chassis_15b = ops op_root ''ChassisChassisIdNetworkAdaptersNetworkAdapterId'' [''ChassisId'', ''NetworkAdapterId'']
     [(''Ports'', [], Bodiless, [Get]),
      (''PortsPortId'', [''PortId''], Checked ''PortV1110Port'', [Get, Put, Patch])]"

definition Controllers_Chassis_15c :: operations where
  "Controllers_Chassis_15c = ops op_root ''ChassisChassisIdNetworkAdaptersNetworkAdapterId'' [''ChassisId'', ''NetworkAdapterId'']
     [(''PortsPortIdActionsPortReset'', [''PortId''], Checked ''PortV1110ResetRequestBody'', [Post]),
      (''PortsPortIdActionsPortResetPPB'', [''PortId''], Untyped, [Post]),
      (''PortsPortIdEnvironmentMetrics'', [''PortId''], Checked ''EnvironmentMetricsV131EnvironmentMetrics'', [Get, Put])]"

definition Controllers_Chassis_15d :: operations where
  "Controllers_Chassis_15d = ops op_root ''ChassisChassisIdNetworkAdaptersNetworkAdapterId'' [''ChassisId'', ''NetworkAdapterId'']
     [(''PortsPortIdEnvironmentMetrics'', [''PortId''], Checked ''EnvironmentMetricsV131EnvironmentMetrics'', [Patch]),
      (''PortsPortIdEnvironmentMetricsActionsEnvironmentMetricsResetMetrics'', [''PortId''], Untyped, [Post]),
      (''PortsPortIdEnvironmentMetricsActionsEnvironmentMetricsResetToDefaults'', [''PortId''], Untyped, [Post]),
      (''PortsPortIdMetrics'', [''PortId''], Bodiless, [Get])]"

definition Controllers_Chassis_15e :: operations where
  "Controllers_Chassis_15e = ops op_root ''ChassisChassisIdNetworkAdaptersNetworkAdapterId'' [''ChassisId'', ''NetworkAdapterId'']
     [(''Processors'', [], Bodiless, [Get]),
      (''ProcessorsProcessorId'', [''ProcessorId''], Checked ''ProcessorV1190Processor'', [Get, Put, Patch])]"

definition Controllers_Chassis_15f :: operations where
  "Controllers_Chassis_15f = ops op_root ''ChassisChassisIdNetworkAdaptersNetworkAdapterId'' [''ChassisId'', ''NetworkAdapterId'']
     [(''ProcessorsProcessorIdActionsProcessorReset'', [''ProcessorId''], Checked ''ProcessorV1190ResetRequestBody'', [Post]),
      (''ProcessorsProcessorIdActionsProcessorResetToDefaults'', [''ProcessorId''], Untyped, [Post]),
      (''ProcessorsProcessorIdAssembly'', [''ProcessorId''], Checked ''AssemblyV150Assembly'', [Get, Put])]"

definition Controllers_Chassis_15g :: operations where
  "Controllers_Chassis_15g = ops op_root ''ChassisChassisIdNetworkAdaptersNetworkAdapterId'' [''ChassisId'', ''NetworkAdapterId'']
     [(''ProcessorsProcessorIdAssembly'', [''ProcessorId''], Checked ''AssemblyV150Assembly'', [Patch]),
      (''ProcessorsProcessorIdProcessorMetrics'', [''ProcessorId''], Bodiless, [Get]),
      (''ProcessorsProcessorIdProcessorMetricsActionsProcessorMetricsClearCurrentPeriod'', [''ProcessorId''], Untyped, [Post]),
      (''ProcessorsProcessorIdSubProcessors'', [''ProcessorId''], Bodiless, [Get])]"

definition Controllers_Chassis_16a :: operations where
  "Controllers_Chassis_16a = ops op_root ''ChassisChassisIdNetworkAdaptersNetworkAdapterIdProcessorsProcessorIdSubProcessorsProcessorId2'' [''ChassisId'', ''NetworkAdapterId'', ''ProcessorId'', ''ProcessorId2'']
     [('''', [], Checked ''ProcessorV1190Processor'', [Get, Put, Patch])]"

definition Controllers_Chassis_16b :: operations where
  "Controllers_Chassis_16b = ops op_root ''ChassisChassisIdNetworkAdaptersNetworkAdapterIdProcessorsProcessorIdSubProcessorsProcessorId2'' [''ChassisId'', ''NetworkAdapterId'', ''ProcessorId'', ''ProcessorId2'']
     [(''ActionsProcessorReset'', [], Checked ''ProcessorV1190ResetRequestBody'', [Post]),
      (''ActionsProcessorResetToDefaults'', [], Untyped, [Post]),
      (''Assembly'', [], Bodiless, [Get])]"

definition Controllers_Chassis_16c :: operations where
  "Controllers_Chassis_16c = ops op_root ''ChassisChassisIdNetworkAdaptersNetworkAdapterIdProcessorsProcessorIdSubProcessorsProcessorId2'' [''ChassisId'', ''NetworkAdapterId'', ''ProcessorId'', ''ProcessorId2'']
     [(''Assembly'', [], Checked ''AssemblyV150Assembly'', [Put, Patch]),
      (''ProcessorMetrics'', [], Bodiless, [Get])]"

definition Controllers_Chassis_16d :: operations where
  "Controllers_Chassis_16d = ops op_root ''ChassisChassisIdNetworkAdaptersNetworkAdapterIdProcessorsProcessorIdSubProcessorsProcessorId2'' [''ChassisId'', ''NetworkAdapterId'', ''ProcessorId'', ''ProcessorId2'']
     [(''ProcessorMetricsActionsProcessorMetricsClearCurrentPeriod'', [], Untyped, [Post]),
      (''SubProcessors'', [], Bodiless, [Get]),
      (''SubProcessorsProcessorId3'', [''ProcessorId3''], Bodiless, [Get])]"

definition Controllers_Chassis_16e :: operations where
  "Controllers_Chassis_16e = ops op_root ''ChassisChassisIdNetworkAdaptersNetworkAdapterIdProcessorsProcessorIdSubProcessorsProcessorId2'' [''ChassisId'', ''NetworkAdapterId'', ''ProcessorId'', ''ProcessorId2'']
     [(''SubProcessorsProcessorId3'', [''ProcessorId3''], Checked ''ProcessorV1190Processor'', [Put, Patch])]"

definition Controllers_Chassis_16f :: operations where
  "Controllers_Chassis_16f = ops op_root ''ChassisChassisIdNetworkAdaptersNetworkAdapterIdProcessorsProcessorIdSubProcessorsProcessorId2'' [''ChassisId'', ''NetworkAdapterId'', ''ProcessorId'', ''ProcessorId2'']
     [(''SubProcessorsProcessorId3ActionsProcessorReset'', [''ProcessorId3''], Checked ''ProcessorV1190ResetRequestBody'', [Post]),
      (''SubProcessorsProcessorId3ActionsProcessorResetToDefaults'', [''ProcessorId3''], Untyped, [Post]),
      (''SubProcessorsProcessorId3Assembly'', [''ProcessorId3''], Bodiless, [Get])]"

definition Controllers_Chassis_16g :: operations where
  "Controllers_Chassis_16g = ops op_root ''ChassisChassisIdNetworkAdaptersNetworkAdapterIdProcessorsProcessorIdSubProcessorsProcessorId2'' [''ChassisId'', ''NetworkAdapterId'', ''ProcessorId'', ''ProcessorId2'']
     [(''SubProcessorsProcessorId3Assembly'', [''ProcessorId3''], Checked ''AssemblyV150Assembly'', [Put, Patch]),
      (''SubProcessorsProcessorId3ProcessorMetrics'', [''ProcessorId3''], Bodiless, [Get])]"

definition Controllers_Chassis_16h :: operations where
  "Controllers_Chassis_16h = ops op_root ''ChassisChassisIdNetworkAdaptersNetworkAdapterIdProcessorsProcessorIdSubProcessorsProcessorId2'' [''ChassisId'', ''NetworkAdapterId'', ''ProcessorId'', ''ProcessorId2'']
     [(''SubProcessorsProcessorId3ProcessorMetricsActionsProcessorMetricsClearCurrentPeriod'', [''ProcessorId3''], Untyped, [Post])]"

definition Controllers_Chassis_17a :: operations where
  "Controllers_Chassis_17a = ops op_root ''ChassisChassisIdPCIeDevices'' [''ChassisId'']
     [('''', [], Bodiless, [Get]),
      (''PCIeDeviceId'', [''PCIeDeviceId''], Checked ''PcieDeviceV1130PcieDevice'', [Get, Put, Patch]),
      (''PCIeDeviceIdAssembly'', [''PCIeDeviceId''], Bodiless, [Get])]"

definition Controllers_Chassis_17b :: operations where
  "Controllers_Chassis_17b = ops op_root ''ChassisChassisIdPCIeDevices'' [''ChassisId'']
     [(''PCIeDeviceIdAssembly'', [''PCIeDeviceId''], Checked ''AssemblyV150Assembly'', [Put, Patch]),
      (''PCIeDeviceIdCXLLogicalDevices'', [''PCIeDeviceId''], Bodiless, [Get])]"

definition Controllers_Chassis_18a :: operations where
  "Controllers_Chassis_18a = ops op_root ''ChassisChassisIdPCIeDevicesPCIeDeviceIdCXLLogicalDevicesCXLLogicalDeviceId'' [''ChassisId'', ''PCIeDeviceId'', ''CXLLogicalDeviceId'']
     [('''', [], Checked ''CxlLogicalDeviceV111CxlLogicalDevice'', [Get, Put, Patch]),
      (''DeviceLog'', [], Bodiless, [Get])]"

definition Controllers_Chassis_18b :: operations where
  "Controllers_Chassis_18b = ops op_root ''ChassisChassisIdPCIeDevicesPCIeDeviceIdCXLLogicalDevicesCXLLogicalDeviceId'' [''ChassisId'', ''PCIeDeviceId'', ''CXLLogicalDeviceId'']
     [(''DeviceLog'', [], Checked ''LogServiceV160LogService'', [Put, Patch]),
      (''DeviceLogActionsLogServiceClearLog'', [], Checked ''LogServiceV160ClearLogRequestBody'', [Post])]"

definition Controllers_Chassis_18c :: operations where
  "Controllers_Chassis_18c = ops op_root ''ChassisChassisIdPCIeDevicesPCIeDeviceIdCXLLogicalDevicesCXLLogicalDeviceId'' [''ChassisId'', ''PCIeDeviceId'', ''CXLLogicalDeviceId'']
     [(''DeviceLogActionsLogServiceCollectDiagnosticData'', [], Checked ''LogServiceV160CollectDiagnosticDataRequestBody'', [Post]),
      (''DeviceLogActionsLogServicePushDiagnosticData'', [], Checked ''LogServiceV160PushDiagnosticDataRequestBody'', [Post]),
      (''DeviceLogEntries'', [], Bodiless, [Get])]"

definition Controllers_Chassis_18d :: operations where
  "Controllers_Chassis_18d = ops op_root ''ChassisChassisIdPCIeDevicesPCIeDeviceIdCXLLogicalDevicesCXLLogicalDeviceId'' [''ChassisId'', ''PCIeDeviceId'', ''CXLLogicalDeviceId'']
     [(''DeviceLogEntries'', [], Checked ''LogEntryV1160LogEntry'', [Post]),
      (''DeviceLogEntriesLogEntryId'', [''LogEntryId''], Checked ''LogEntryV1160LogEntry'', [Get, Put])]"

definition Controllers_Chassis_18e :: operations where
  "Controllers_Chassis_18e = ops op_root ''ChassisChassisIdPCIeDevicesPCIeDeviceIdCXLLogicalDevicesCXLLogicalDeviceId'' [''ChassisId'', ''PCIeDeviceId'', ''CXLLogicalDeviceId'']
     [(''DeviceLogEntriesLogEntryId'', [''LogEntryId''], Checked ''LogEntryV1160LogEntry'', [Delete, Patch]),
      (''MemoryRegions'', [], Bodiless, [Get])]"

definition Controllers_Chassis_18f :: operations where
  "Controllers_Chassis_18f = ops op_root ''ChassisChassisIdPCIeDevicesPCIeDeviceIdCXLLogicalDevicesCXLLogicalDeviceId'' [''ChassisId'', ''PCIeDeviceId'', ''CXLLogicalDeviceId'']
     [(''MemoryRegions'', [], Checked ''MemoryRegionV101MemoryRegion'', [Post]),
      (''MemoryRegionsMemoryRegionId'', [''MemoryRegionId''], Checked ''MemoryRegionV101MemoryRegion'', [Get, Put])]"

definition Controllers_Chassis_18g :: operations where
  "Controllers_Chassis_18g = ops op_root ''ChassisChassisIdPCIeDevicesPCIeDeviceIdCXLLogicalDevicesCXLLogicalDeviceId'' [''ChassisId'', ''PCIeDeviceId'', ''CXLLogicalDeviceId'']
     [(''MemoryRegionsMemoryRegionId'', [''MemoryRegionId''], Checked ''MemoryRegionV101MemoryRegion'', [Delete, Patch])]"

definition Controllers_Chassis_19a :: operations where
  "Controllers_Chassis_19a = ops op_root ''ChassisChassisId'' [''ChassisId'']
     [(''PCIeDevicesPCIeDeviceIdEnvironmentMetrics'', [''PCIeDeviceId''], Checked ''EnvironmentMetricsV131EnvironmentMetrics'', [Get, Put, Patch]),
      (''PCIeDevicesPCIeDeviceIdEnvironmentMetricsActionsEnvironmentMetricsResetMetrics'', [''PCIeDeviceId''], Untyped, [Post])]"

definition Controllers_Chassis_19b :: operations where
  "Controllers_Chassis_19b = ops op_root ''ChassisChassisId'' [''ChassisId'']
     [(''PCIeDevicesPCIeDeviceIdEnvironmentMetricsActionsEnvironmentMetricsResetToDefaults'', [''PCIeDeviceId''], Untyped, [Post]),
      (''PCIeDevicesPCIeDeviceIdPCIeFunctions'', [''PCIeDeviceId''], Bodiless, [Get]),
      (''PCIeDevicesPCIeDeviceIdPCIeFunctionsPCIeFunctionId'', [''PCIeDeviceId'', ''PCIeFunctionId''], Checked ''PcieFunctionV151PcieFunction'', [Get, Put])]"

definition Controllers_Chassis_19c :: operations where
  "Controllers_Chassis_19c = ops op_root ''ChassisChassisId'' [''ChassisId'']
     [(''PCIeDevicesPCIeDeviceIdPCIeFunctionsPCIeFunctionId'', [''PCIeDeviceId'', ''PCIeFunctionId''], Checked ''PcieFunctionV151PcieFunction'', [Patch]),
      (''PCIeSlots'', [], Checked ''PcieSlotsV160PcieSlots'', [Get, Put, Patch]),
      (''Power'', [], Bodiless, [Get])]"

definition Controllers_Chassis_19d :: operations where
  "Controllers_Chassis_19d = ops op_root ''ChassisChassisId'' [''ChassisId'']
     [(''Power'', [], Checked ''PowerV172Power'', [Put, Patch]),
      (''PowerActionsPowerPowerSupplyReset'', [], Checked ''PowerV172PowerSupplyResetRequestBody'', [Post]),
      (''PowerPowerSuppliesPowerSupplyIdAssembly'', [''PowerSupplyId''], Bodiless, [Get])]"

definition Controllers_Chassis_19e :: operations where
  "Controllers_Chassis_19e = ops op_root ''ChassisChassisId'' [''ChassisId'']
     [(''PowerPowerSuppliesPowerSupplyIdAssembly'', [''PowerSupplyId''], Checked ''AssemblyV150Assembly'', [Put, Patch])]"

definition Controllers_Chassis_20a :: operations where
  "Controllers_Chassis_20a = ops op_root ''ChassisChassisIdPowerSubsystem'' [''ChassisId'']
     [('''', [], Checked ''PowerSubsystemV111PowerSubsystem'', [Get, Put, Patch]),
      (''Batteries'', [], Bodiless, [Get]),
      (''BatteriesBatteryId'', [''BatteryId''], Bodiless, [Get])]"

definition Controllers_Chassis_20b :: operations where
  "Controllers_Chassis_20b = ops op_root ''ChassisChassisIdPowerSubsystem'' [''ChassisId'']
     [(''BatteriesBatteryId'', [''BatteryId''], Checked ''BatteryV122Battery'', [Put, Patch]),
      (''BatteriesBatteryIdActionsBatteryCalibrate'', [''BatteryId''], Untyped, [Post]),
      (''BatteriesBatteryIdActionsBatteryReset'', [''BatteryId''], Checked ''BatteryV122ResetRequestBody'', [Post])]"

definition Controllers_Chassis_20c :: operations where
  "Controllers_Chassis_20c = ops op_root ''ChassisChassisIdPowerSubsystem'' [''ChassisId'']
     [(''BatteriesBatteryIdActionsBatterySelfTest'', [''BatteryId''], Untyped, [Post]),
      (''BatteriesBatteryIdAssembly'', [''BatteryId''], Checked ''AssemblyV150Assembly'', [Get, Put, Patch])]"

definition Controllers_Chassis_20d :: operations where
  "Controllers_Chassis_20d = ops op_root ''ChassisChassisIdPowerSubsystem'' [''ChassisId'']
     [(''BatteriesBatteryIdMetrics'', [''BatteryId''], Bodiless, [Get]),
      (''PowerSupplies'', [], Bodiless, [Get]),
      (''PowerSuppliesPowerSupplyId'', [''PowerSupplyId''], Checked ''PowerSupplyV153PowerSupply'', [Get, Put, Patch])]"

definition Controllers_Chassis_20e :: operations where
  "Controllers_Chassis_20e = ops op_root ''ChassisChassisIdPowerSubsystem'' [''ChassisId'']
     [(''PowerSuppliesPowerSupplyIdActionsPowerSupplyReset'', [''PowerSupplyId''], Checked ''PowerSupplyV153ResetRequestBody'', [Post]),
      (''PowerSuppliesPowerSupplyIdAssembly'', [''PowerSupplyId''], Checked ''AssemblyV150Assembly'', [Get, Put, Patch])]"

definition Controllers_Chassis_20f :: operations where
  "Controllers_Chassis_20f = ops op_root ''ChassisChassisIdPowerSubsystem'' [''ChassisId'']
     [(''PowerSuppliesPowerSupplyIdMetrics'', [''PowerSupplyId''], Bodiless, [Get]),
      (''PowerSuppliesPowerSupplyIdMetricsActionsPowerSupplyMetricsResetMetrics'', [''PowerSupplyId''], Untyped, [Post])]"

definition Controllers_Chassis_21a :: operations where
  "Controllers_Chassis_21a = ops op_root ''ChassisChassisIdProcessors'' [''ChassisId'']
     [('''', [], Bodiless, [Get]),
      (''ProcessorId'', [''ProcessorId''], Checked ''ProcessorV1190Processor'', [Get, Put, Patch])]"

definition Controllers_Chassis_21b :: operations where
  "Controllers_Chassis_21b = ops op_root ''ChassisChassisIdProcessors'' [''ChassisId'']
     [(''ProcessorIdActionsProcessorReset'', [''ProcessorId''], Checked ''ProcessorV1190ResetRequestBody'', [Post]),
      (''ProcessorIdActionsProcessorResetToDefaults'', [''ProcessorId''], Untyped, [Post]),
      (''ProcessorIdSubProcessors'', [''ProcessorId''], Bodiless, [Get])]"

definition Controllers_Chassis_22a :: operations where
  "Controllers_Chassis_22a = ops op_root ''ChassisChassisIdProcessorsProcessorIdSubProcessorsProcessorId2'' [''ChassisId'', ''ProcessorId'', ''ProcessorId2'']
     [('''', [], Checked ''ProcessorV1190Processor'', [Get, Put, Patch])]"

definition Controllers_Chassis_22b :: operations where
  "Controllers_Chassis_22b = ops op_root ''ChassisChassisIdProcessorsProcessorIdSubProcessorsProcessorId2'' [''ChassisId'', ''ProcessorId'', ''ProcessorId2'']
     [(''ActionsProcessorReset'', [], Checked ''ProcessorV1190ResetRequestBody'', [Post]),
      (''ActionsProcessorResetToDefaults'', [], Untyped, [Post]),
      (''SubProcessors'', [], Bodiless, [Get]),
      (''SubProcessorsProcessorId3'', [''ProcessorId3''], Bodiless, [Get])]"

definition Controllers_Chassis_22c :: operations where
  "Controllers_Chassis_22c = ops op_root ''ChassisChassisIdProcessorsProcessorIdSubProcessorsProcessorId2'' [''ChassisId'', ''ProcessorId'', ''ProcessorId2'']
     [(''SubProcessorsProcessorId3'', [''ProcessorId3''], Checked ''ProcessorV1190Processor'', [Put, Patch]),
      (''SubProcessorsProcessorId3ActionsProcessorReset'', [''ProcessorId3''], Checked ''ProcessorV1190ResetRequestBody'', [Post])]"

definition Controllers_Chassis_22d :: operations where
  "Controllers_Chassis_22d = ops op_root ''ChassisChassisIdProcessorsProcessorIdSubProcessorsProcessorId2'' [''ChassisId'', ''ProcessorId'', ''ProcessorId2'']
     [(''SubProcessorsProcessorId3ActionsProcessorResetToDefaults'', [''ProcessorId3''], Untyped, [Post])]"

definition Controllers_Chassis_23a :: operations where
  "Controllers_Chassis_23a = ops op_root ''ChassisChassisId'' [''ChassisId'']
     [(''Sensors'', [], Bodiless, [Get]),
      (''SensorsSensorId'', [''SensorId''], Checked ''SensorV181Sensor'', [Get, Put, Patch]),
      (''SensorsSensorIdActionsSensorResetMetrics'', [''SensorId''], Untyped, [Post])]"

definition Controllers_Chassis_23b :: operations where
  "Controllers_Chassis_23b = ops op_root ''ChassisChassisId'' [''ChassisId'']
     [(''SensorsSensorIdActionsSensorResetToDefaults'', [''SensorId''], Untyped, [Post]),
      (''Thermal'', [], Checked ''ThermalV172Thermal'', [Get, Put, Patch]),
      (''ThermalFansFanIdAssembly'', [''FanId''], Bodiless, [Get])]"

definition Controllers_Chassis_23c :: operations where
  "Controllers_Chassis_23c = ops op_root ''ChassisChassisId'' [''ChassisId'']
     [(''ThermalFansFanIdAssembly'', [''FanId''], Checked ''AssemblyV150Assembly'', [Put, Patch]),
      (''ThermalSubsystem'', [], Bodiless, [Get]),
      (''ThermalSubsystemCoolantConnectors'', [], Bodiless, [Get]),
      (''ThermalSubsystemCoolantConnectorsCoolantConnectorId'', [''CoolantConnectorId''], Bodiless, [Get])]"

definition Controllers_Chassis_23d :: operations where
  "Controllers_Chassis_23d = ops op_root ''ChassisChassisId'' [''ChassisId'']
     [(''ThermalSubsystemCoolantConnectorsCoolantConnectorId'', [''CoolantConnectorId''], Checked ''CoolantConnectorV101CoolantConnector'', [Put, Patch])]"

definition Controllers_Chassis_24a :: operations where
  "Controllers_Chassis_24a = ops op_root ''ChassisChassisIdThermalSubsystem'' [''ChassisId'']
     [(''Fans'', [], Bodiless, [Get]),
      (''FansFanId'', [''FanId''], Checked ''FanV151Fan'', [Get, Put, Patch]),
      (''FansFanIdAssembly'', [''FanId''], Bodiless, [Get])]"

definition Controllers_Chassis_24b :: operations where
  "Controllers_Chassis_24b = ops op_root ''ChassisChassisIdThermalSubsystem'' [''ChassisId'']
     [(''FansFanIdAssembly'', [''FanId''], Checked ''AssemblyV150Assembly'', [Put, Patch]),
      (''Heaters'', [], Bodiless, [Get]),
      (''HeatersHeaderIdAssembly'', [''HeaderId''], Bodiless, [Get])]"

definition Controllers_Chassis_24c :: operations where
  "Controllers_Chassis_24c = ops op_root ''ChassisChassisIdThermalSubsystem'' [''ChassisId'']
     [(''HeatersHeaderIdAssembly'', [''HeaderId''], Checked ''AssemblyV150Assembly'', [Put, Patch]),
      (''HeatersHeaderIdMetrics'', [''HeaderId''], Bodiless, [Get]),
      (''HeatersHeaderIdMetricsActionsHeaterMetricsResetMetrics'', [''HeaderId''], Untyped, [Post])]"

definition Controllers_Chassis_24d :: operations where
  "Controllers_Chassis_24d = ops op_root ''ChassisChassisIdThermalSubsystem'' [''ChassisId'']
     [(''HeatersHeaterId'', [''HeaterId''], Checked ''HeaterV101Heater'', [Get, Put, Patch]),
      (''LeakDetection'', [], Bodiless, [Get]),
      (''LeakDetectionLeakDetectors'', [], Bodiless, [Get])]"

definition Controllers_Chassis_24e :: operations where
  "Controllers_Chassis_24e = ops op_root ''ChassisChassisIdThermalSubsystem'' [''ChassisId'']
     [(''LeakDetectionLeakDetectorsLeakDetectorId'', [''LeakDetectorId''], Bodiless, [Get]),
      (''Pumps'', [], Bodiless, [Get]),
      (''PumpsPumpId'', [''PumpId''], Checked ''PumpV101Pump'', [Get, Put, Patch])]"

definition Controllers_Chassis_24f :: operations where
  "Controllers_Chassis_24f = ops op_root ''ChassisChassisIdThermalSubsystem'' [''ChassisId'']
     [(''PumpsPumpIdFilters'', [''PumpId''], Bodiless, [Get]),
      (''PumpsPumpIdFiltersFilterId'', [''PumpId'', ''FilterId''], Checked ''FilterV101Filter'', [Get, Put, Patch])]"

definition Controllers_Chassis_24g :: operations where
  "Controllers_Chassis_24g = ops op_root ''ChassisChassisIdThermalSubsystem'' [''ChassisId'']
     [(''ThermalMetrics'', [], Bodiless, [Get]),
      (''ThermalMetricsActionsThermalMetricsResetMetrics'', [], Untyped, [Post])]"

definition Controllers_Chassis_25a :: operations where
  "Controllers_Chassis_25a = ops op_root ''ChassisChassisIdTrustedComponents'' [''ChassisId'']
     [('''', [], Bodiless, [Get]),
      (''TrustedComponentId'', [''TrustedComponentId''], Checked ''TrustedComponentV130TrustedComponent'', [Get, Put, Patch]),
      (''TrustedComponentIdActionsTrustedComponentTPMGetEventLog'', [''TrustedComponentId''], Untyped, [Post])]"

definition Controllers_Chassis_25b :: operations where
  "Controllers_Chassis_25b = ops op_root ''ChassisChassisIdTrustedComponents'' [''ChassisId'']
     [(''TrustedComponentIdCertificates'', [''TrustedComponentId''], Checked ''CertificateV181Certificate'', [Get, Post]),
      (''TrustedComponentIdCertificatesCertificateId'', [''TrustedComponentId'', ''CertificateId''], Checked ''CertificateV181Certificate'', [Get, Put])]"

definition Controllers_Chassis_25c :: operations where
  "Controllers_Chassis_25c = ops op_root ''ChassisChassisIdTrustedComponents'' [''ChassisId'']
     [(''TrustedComponentIdCertificatesCertificateId'', [''TrustedComponentId'', ''CertificateId''], Checked ''CertificateV181Certificate'', [Delete, Patch]),
      (''TrustedComponentIdCertificatesCertificateIdActionsCertificateRekey'', [''TrustedComponentId'', ''CertificateId''], Checked ''CertificateV181RekeyRequestBody'', [Post])]"

definition Controllers_Chassis_25d :: operations where
  "Controllers_Chassis_25d = ops op_root ''ChassisChassisIdTrustedComponents'' [''ChassisId'']
     [(''TrustedComponentIdCertificatesCertificateIdActionsCertificateRenew'', [''TrustedComponentId'', ''CertificateId''], Checked ''CertificateV181RenewRequestBody'', [Post])]"

definition chassis_operations :: operations where
  "chassis_operations = concat
     [concat [Controllers_Chassis_1a, Controllers_Chassis_1b, Controllers_Chassis_1c, Controllers_Chassis_1d,
        Controllers_Chassis_1e],
      concat [Controllers_Chassis_2a, Controllers_Chassis_2b, Controllers_Chassis_2c, Controllers_Chassis_2d,
        Controllers_Chassis_2e, Controllers_Chassis_2f],
      concat [Controllers_Chassis_3a, Controllers_Chassis_3b, Controllers_Chassis_3c, Controllers_Chassis_3d],
      concat [Controllers_Chassis_4a, Controllers_Chassis_4b, Controllers_Chassis_4c, Controllers_Chassis_4d,
        Controllers_Chassis_4e, Controllers_Chassis_4f, Controllers_Chassis_4g, Controllers_Chassis_4h],
      concat [Controllers_Chassis_5a, Controllers_Chassis_5b, Controllers_Chassis_5c, Controllers_Chassis_5d,
        Controllers_Chassis_5e, Controllers_Chassis_5f, Controllers_Chassis_5g, Controllers_Chassis_5h,
        Controllers_Chassis_5i, Controllers_Chassis_5j],
      concat [Controllers_Chassis_6a, Controllers_Chassis_6b, Controllers_Chassis_6c, Controllers_Chassis_6d,
        Controllers_Chassis_6e, Controllers_Chassis_6f, Controllers_Chassis_6g, Controllers_Chassis_6h,
        Controllers_Chassis_6i, Controllers_Chassis_6j],
      concat [Controllers_Chassis_7a, Controllers_Chassis_7b, Controllers_Chassis_7c, Controllers_Chassis_7d,
        Controllers_Chassis_7e, Controllers_Chassis_7f, Controllers_Chassis_7g],
      concat [Controllers_Chassis_8a, Controllers_Chassis_8b, Controllers_Chassis_8c, Controllers_Chassis_8d],
      concat [Controllers_Chassis_9a, Controllers_Chassis_9b, Controllers_Chassis_9c, Controllers_Chassis_9d,
        Controllers_Chassis_9e],
      concat [Controllers_Chassis_10a],
      concat [Controllers_Chassis_11a, Controllers_Chassis_11b, Controllers_Chassis_11c, Controllers_Chassis_11d,
        Controllers_Chassis_11e, Controllers_Chassis_11f, Controllers_Chassis_11g, Controllers_Chassis_11h],
      concat [Controllers_Chassis_12a, Controllers_Chassis_12b],
      concat [Controllers_Chassis_13a, Controllers_Chassis_13b, Controllers_Chassis_13c, Controllers_Chassis_13d,
        Controllers_Chassis_13e, Controllers_Chassis_13f],
      concat [Controllers_Chassis_14a, Controllers_Chassis_14b, Controllers_Chassis_14c, Controllers_Chassis_14d,
        Controllers_Chassis_14e, Controllers_Chassis_14f, Controllers_Chassis_14g],
      concat [Controllers_Chassis_15a, Controllers_Chassis_15b, Controllers_Chassis_15c, Controllers_Chassis_15d,
        Controllers_Chassis_15e, Controllers_Chassis_15f, Controllers_Chassis_15g],
      concat [Controllers_Chassis_16a, Controllers_Chassis_16b, Controllers_Chassis_16c, Controllers_Chassis_16d,
        Controllers_Chassis_16e, Controllers_Chassis_16f, Controllers_Chassis_16g, Controllers_Chassis_16h],
      concat [Controllers_Chassis_17a, Controllers_Chassis_17b],
      concat [Controllers_Chassis_18a, Controllers_Chassis_18b, Controllers_Chassis_18c, Controllers_Chassis_18d,
        Controllers_Chassis_18e, Controllers_Chassis_18f, Controllers_Chassis_18g],
      concat [Controllers_Chassis_19a, Controllers_Chassis_19b, Controllers_Chassis_19c, Controllers_Chassis_19d,
        Controllers_Chassis_19e],
      concat [Controllers_Chassis_20a, Controllers_Chassis_20b, Controllers_Chassis_20c, Controllers_Chassis_20d,
        Controllers_Chassis_20e, Controllers_Chassis_20f],
      concat [Controllers_Chassis_21a, Controllers_Chassis_21b],
      concat [Controllers_Chassis_22a, Controllers_Chassis_22b, Controllers_Chassis_22c, Controllers_Chassis_22d],
      concat [Controllers_Chassis_23a, Controllers_Chassis_23b, Controllers_Chassis_23c, Controllers_Chassis_23d],
      concat [Controllers_Chassis_24a, Controllers_Chassis_24b, Controllers_Chassis_24c, Controllers_Chassis_24d,
        Controllers_Chassis_24e, Controllers_Chassis_24f, Controllers_Chassis_24g],
      concat [Controllers_Chassis_25a, Controllers_Chassis_25b, Controllers_Chassis_25c, Controllers_Chassis_25d]]"

lemma Chassis_1_aligned:
  "aligned Routes_Chassis_1
     (concat [Controllers_Chassis_1a, Controllers_Chassis_1b, Controllers_Chassis_1c, Controllers_Chassis_1d,
        Controllers_Chassis_1e])"
  unfolding Routes_Chassis_1_def Controllers_Chassis_1a_def Controllers_Chassis_1b_def
    Controllers_Chassis_1c_def Controllers_Chassis_1d_def Controllers_Chassis_1e_def
  by (rule aligning)+

lemma Chassis_2_aligned:
  "aligned Routes_Chassis_2
     (concat [Controllers_Chassis_2a, Controllers_Chassis_2b, Controllers_Chassis_2c, Controllers_Chassis_2d,
        Controllers_Chassis_2e, Controllers_Chassis_2f])"
  unfolding Routes_Chassis_2_def Controllers_Chassis_2a_def Controllers_Chassis_2b_def
    Controllers_Chassis_2c_def Controllers_Chassis_2d_def Controllers_Chassis_2e_def
    Controllers_Chassis_2f_def
  by (rule aligning)+

lemma Chassis_3_aligned:
  "aligned Routes_Chassis_3
     (concat [Controllers_Chassis_3a, Controllers_Chassis_3b, Controllers_Chassis_3c, Controllers_Chassis_3d])"
  unfolding Routes_Chassis_3_def Controllers_Chassis_3a_def Controllers_Chassis_3b_def
    Controllers_Chassis_3c_def Controllers_Chassis_3d_def
  by (rule aligning)+

lemma Chassis_4_aligned:
  "aligned Routes_Chassis_4
     (concat [Controllers_Chassis_4a, Controllers_Chassis_4b, Controllers_Chassis_4c, Controllers_Chassis_4d,
        Controllers_Chassis_4e, Controllers_Chassis_4f, Controllers_Chassis_4g, Controllers_Chassis_4h])"
  unfolding Routes_Chassis_4_def Controllers_Chassis_4a_def Controllers_Chassis_4b_def
    Controllers_Chassis_4c_def Controllers_Chassis_4d_def Controllers_Chassis_4e_def
    Controllers_Chassis_4f_def Controllers_Chassis_4g_def Controllers_Chassis_4h_def
  by (rule aligning)+

lemma Chassis_5_aligned:
  "aligned Routes_Chassis_5
     (concat [Controllers_Chassis_5a, Controllers_Chassis_5b, Controllers_Chassis_5c, Controllers_Chassis_5d,
        Controllers_Chassis_5e, Controllers_Chassis_5f, Controllers_Chassis_5g, Controllers_Chassis_5h,
        Controllers_Chassis_5i, Controllers_Chassis_5j])"
  unfolding Routes_Chassis_5_def Controllers_Chassis_5a_def Controllers_Chassis_5b_def
    Controllers_Chassis_5c_def Controllers_Chassis_5d_def Controllers_Chassis_5e_def
    Controllers_Chassis_5f_def Controllers_Chassis_5g_def Controllers_Chassis_5h_def
    Controllers_Chassis_5i_def Controllers_Chassis_5j_def
  by (rule aligning)+

lemma Chassis_6_aligned:
  "aligned Routes_Chassis_6
     (concat [Controllers_Chassis_6a, Controllers_Chassis_6b, Controllers_Chassis_6c, Controllers_Chassis_6d,
        Controllers_Chassis_6e, Controllers_Chassis_6f, Controllers_Chassis_6g, Controllers_Chassis_6h,
        Controllers_Chassis_6i, Controllers_Chassis_6j])"
  unfolding Routes_Chassis_6_def Controllers_Chassis_6a_def Controllers_Chassis_6b_def
    Controllers_Chassis_6c_def Controllers_Chassis_6d_def Controllers_Chassis_6e_def
    Controllers_Chassis_6f_def Controllers_Chassis_6g_def Controllers_Chassis_6h_def
    Controllers_Chassis_6i_def Controllers_Chassis_6j_def
  by (rule aligning)+

lemma Chassis_7_aligned:
  "aligned Routes_Chassis_7
     (concat [Controllers_Chassis_7a, Controllers_Chassis_7b, Controllers_Chassis_7c, Controllers_Chassis_7d,
        Controllers_Chassis_7e, Controllers_Chassis_7f, Controllers_Chassis_7g])"
  unfolding Routes_Chassis_7_def Controllers_Chassis_7a_def Controllers_Chassis_7b_def
    Controllers_Chassis_7c_def Controllers_Chassis_7d_def Controllers_Chassis_7e_def
    Controllers_Chassis_7f_def Controllers_Chassis_7g_def
  by (rule aligning)+

lemma Chassis_8_aligned:
  "aligned Routes_Chassis_8
     (concat [Controllers_Chassis_8a, Controllers_Chassis_8b, Controllers_Chassis_8c, Controllers_Chassis_8d])"
  unfolding Routes_Chassis_8_def Controllers_Chassis_8a_def Controllers_Chassis_8b_def
    Controllers_Chassis_8c_def Controllers_Chassis_8d_def
  by (rule aligning)+

lemma Chassis_9_aligned:
  "aligned Routes_Chassis_9
     (concat [Controllers_Chassis_9a, Controllers_Chassis_9b, Controllers_Chassis_9c, Controllers_Chassis_9d,
        Controllers_Chassis_9e])"
  unfolding Routes_Chassis_9_def Controllers_Chassis_9a_def Controllers_Chassis_9b_def
    Controllers_Chassis_9c_def Controllers_Chassis_9d_def Controllers_Chassis_9e_def
  by (rule aligning)+

lemma Chassis_10_aligned:
  "aligned Routes_Chassis_10
     (concat [Controllers_Chassis_10a])"
  unfolding Routes_Chassis_10_def Controllers_Chassis_10a_def
  by (rule aligning)+

lemma Chassis_11_aligned:
  "aligned Routes_Chassis_11
     (concat [Controllers_Chassis_11a, Controllers_Chassis_11b, Controllers_Chassis_11c, Controllers_Chassis_11d,
        Controllers_Chassis_11e, Controllers_Chassis_11f, Controllers_Chassis_11g, Controllers_Chassis_11h])"
  unfolding Routes_Chassis_11_def Controllers_Chassis_11a_def Controllers_Chassis_11b_def
    Controllers_Chassis_11c_def Controllers_Chassis_11d_def Controllers_Chassis_11e_def
    Controllers_Chassis_11f_def Controllers_Chassis_11g_def Controllers_Chassis_11h_def
  by (rule aligning)+

lemma Chassis_12_aligned:
  "aligned Routes_Chassis_12
     (concat [Controllers_Chassis_12a, Controllers_Chassis_12b])"
  unfolding Routes_Chassis_12_def Controllers_Chassis_12a_def Controllers_Chassis_12b_def
  by (rule aligning)+

lemma Chassis_13_aligned:
  "aligned Routes_Chassis_13
     (concat [Controllers_Chassis_13a, Controllers_Chassis_13b, Controllers_Chassis_13c, Controllers_Chassis_13d,
        Controllers_Chassis_13e, Controllers_Chassis_13f])"
  unfolding Routes_Chassis_13_def Controllers_Chassis_13a_def Controllers_Chassis_13b_def
    Controllers_Chassis_13c_def Controllers_Chassis_13d_def Controllers_Chassis_13e_def
    Controllers_Chassis_13f_def
  by (rule aligning)+

lemma Chassis_14_aligned:
  "aligned Routes_Chassis_14
     (concat [Controllers_Chassis_14a, Controllers_Chassis_14b, Controllers_Chassis_14c, Controllers_Chassis_14d,
        Controllers_Chassis_14e, Controllers_Chassis_14f, Controllers_Chassis_14g])"
  unfolding Routes_Chassis_14_def Controllers_Chassis_14a_def Controllers_Chassis_14b_def
    Controllers_Chassis_14c_def Controllers_Chassis_14d_def Controllers_Chassis_14e_def
    Controllers_Chassis_14f_def Controllers_Chassis_14g_def
  by (rule aligning)+

lemma Chassis_15_aligned:
  "aligned Routes_Chassis_15
     (concat [Controllers_Chassis_15a, Controllers_Chassis_15b, Controllers_Chassis_15c, Controllers_Chassis_15d,
        Controllers_Chassis_15e, Controllers_Chassis_15f, Controllers_Chassis_15g])"
  unfolding Routes_Chassis_15_def Controllers_Chassis_15a_def Controllers_Chassis_15b_def
    Controllers_Chassis_15c_def Controllers_Chassis_15d_def Controllers_Chassis_15e_def
    Controllers_Chassis_15f_def Controllers_Chassis_15g_def
  by (rule aligning)+

lemma Chassis_16_aligned:
  "aligned Routes_Chassis_16
     (concat [Controllers_Chassis_16a, Controllers_Chassis_16b, Controllers_Chassis_16c, Controllers_Chassis_16d,
        Controllers_Chassis_16e, Controllers_Chassis_16f, Controllers_Chassis_16g, Controllers_Chassis_16h])"
  unfolding Routes_Chassis_16_def Controllers_Chassis_16a_def Controllers_Chassis_16b_def
    Controllers_Chassis_16c_def Controllers_Chassis_16d_def Controllers_Chassis_16e_def
    Controllers_Chassis_16f_def Controllers_Chassis_16g_def Controllers_Chassis_16h_def
  by (rule aligning)+

lemma Chassis_17_aligned:
  "aligned Routes_Chassis_17
     (concat [Controllers_Chassis_17a, Controllers_Chassis_17b])"
  unfolding Routes_Chassis_17_def Controllers_Chassis_17a_def Controllers_Chassis_17b_def
  by (rule aligning)+

lemma Chassis_18_aligned:
  "aligned Routes_Chassis_18
     (concat [Controllers_Chassis_18a, Controllers_Chassis_18b, Controllers_Chassis_18c, Controllers_Chassis_18d,
        Controllers_Chassis_18e, Controllers_Chassis_18f, Controllers_Chassis_18g])"
  unfolding Routes_Chassis_18_def Controllers_Chassis_18a_def Controllers_Chassis_18b_def
    Controllers_Chassis_18c_def Controllers_Chassis_18d_def Controllers_Chassis_18e_def
    Controllers_Chassis_18f_def Controllers_Chassis_18g_def
  by (rule aligning)+

lemma Chassis_19_aligned:
  "aligned Routes_Chassis_19
     (concat [Controllers_Chassis_19a, Controllers_Chassis_19b, Controllers_Chassis_19c, Controllers_Chassis_19d,
        Controllers_Chassis_19e])"
  unfolding Routes_Chassis_19_def Controllers_Chassis_19a_def Controllers_Chassis_19b_def
    Controllers_Chassis_19c_def Controllers_Chassis_19d_def Controllers_Chassis_19e_def
  by (rule aligning)+

lemma Chassis_20_aligned:
  "aligned Routes_Chassis_20
     (concat [Controllers_Chassis_20a, Controllers_Chassis_20b, Controllers_Chassis_20c, Controllers_Chassis_20d,
        Controllers_Chassis_20e, Controllers_Chassis_20f])"
  unfolding Routes_Chassis_20_def Controllers_Chassis_20a_def Controllers_Chassis_20b_def
    Controllers_Chassis_20c_def Controllers_Chassis_20d_def Controllers_Chassis_20e_def
    Controllers_Chassis_20f_def
  by (rule aligning)+

lemma Chassis_21_aligned:
  "aligned Routes_Chassis_21
     (concat [Controllers_Chassis_21a, Controllers_Chassis_21b])"
  unfolding Routes_Chassis_21_def Controllers_Chassis_21a_def Controllers_Chassis_21b_def
  by (rule aligning)+

lemma Chassis_22_aligned:
  "aligned Routes_Chassis_22
     (concat [Controllers_Chassis_22a, Controllers_Chassis_22b, Controllers_Chassis_22c, Controllers_Chassis_22d])"
  unfolding Routes_Chassis_22_def Controllers_Chassis_22a_def Controllers_Chassis_22b_def
    Controllers_Chassis_22c_def Controllers_Chassis_22d_def
  by (rule aligning)+

lemma Chassis_23_aligned:
  "aligned Routes_Chassis_23
     (concat [Controllers_Chassis_23a, Controllers_Chassis_23b, Controllers_Chassis_23c, Controllers_Chassis_23d])"
  unfolding Routes_Chassis_23_def Controllers_Chassis_23a_def Controllers_Chassis_23b_def
    Controllers_Chassis_23c_def Controllers_Chassis_23d_def
  by (rule aligning)+

lemma Chassis_24_aligned:
  "aligned Routes_Chassis_24
     (concat [Controllers_Chassis_24a, Controllers_Chassis_24b, Controllers_Chassis_24c, Controllers_Chassis_24d,
        Controllers_Chassis_24e, Controllers_Chassis_24f, Controllers_Chassis_24g])"
  unfolding Routes_Chassis_24_def Controllers_Chassis_24a_def Controllers_Chassis_24b_def
    Controllers_Chassis_24c_def Controllers_Chassis_24d_def Controllers_Chassis_24e_def
    Controllers_Chassis_24f_def Controllers_Chassis_24g_def
  by (rule aligning)+

lemma Chassis_25_aligned:
  "aligned Routes_Chassis_25
     (concat [Controllers_Chassis_25a, Controllers_Chassis_25b, Controllers_Chassis_25c, Controllers_Chassis_25d])"
  unfolding Routes_Chassis_25_def Controllers_Chassis_25a_def Controllers_Chassis_25b_def
    Controllers_Chassis_25c_def Controllers_Chassis_25d_def
  by (rule aligning)+

lemma chassis_aligned: "aligned chassis_routes chassis_operations"
  unfolding chassis_routes_def chassis_operations_def
  by (intro aligned_concat
    Chassis_1_aligned Chassis_2_aligned Chassis_3_aligned Chassis_4_aligned Chassis_5_aligned
    Chassis_6_aligned Chassis_7_aligned Chassis_8_aligned Chassis_9_aligned Chassis_10_aligned
    Chassis_11_aligned Chassis_12_aligned Chassis_13_aligned Chassis_14_aligned Chassis_15_aligned
    Chassis_16_aligned Chassis_17_aligned Chassis_18_aligned Chassis_19_aligned Chassis_20_aligned
    Chassis_21_aligned Chassis_22_aligned Chassis_23_aligned Chassis_24_aligned Chassis_25_aligned)

end
