(* ===== verification/RoutesPlant.thy ===== *)
theory RoutesPlant
  imports Routing
begin

text \<open>
  The entries of \<open>Routes\<close> (api_default.go) for power and thermal equipment, managers and storage.  None shares its name with a served entry or
  takes a request from one, unless it is a served entry itself.
\<close>

definition Routes_Managers_1 :: Routes where
  "Routes_Managers_1 =
     under at_root ''Managers''
       [Lit ''Managers'']
       [('''', [], [Get])]"

definition Routes_Managers_2 :: Routes where
  "Routes_Managers_2 =
     under at_manager ''''
       []
       [('''', [], [Get, Put, Patch])]"

definition Routes_Managers_3 :: Routes where
  "Routes_Managers_3 =
     under at_manager ''''
       []
       [(''ActionsManagerForceFailover'', [Lit ''Actions'', Lit ''Manager.ForceFailover''], [Post]),
        (''ActionsManagerModifyRedundancySet'', [Lit ''Actions'', Lit ''Manager.ModifyRedundancySet''], [Post]),
        (''ActionsManagerReset'', [Lit ''Actions'', Lit ''Manager.Reset''], [Post]),
        (''ActionsManagerResetToDefaults'', [Lit ''Actions'', Lit ''Manager.ResetToDefaults''], [Post]),
        (''Certificates'', [Lit ''Certificates''], [Get, Post]),
        (''CertificatesCertificateId'', [Lit ''Certificates'', Var ''CertificateId''], [Get, Put, Delete, Patch]),
        (''CertificatesCertificateIdActionsCertificateRekey'', [Lit ''Certificates'', Var ''CertificateId'', Lit ''Actions'', Lit ''Certificate.Rekey''], [Post]),
        (''CertificatesCertificateIdActionsCertificateRenew'', [Lit ''Certificates'', Var ''CertificateId'', Lit ''Actions'', Lit ''Certificate.Renew''], [Post]),
        (''DedicatedNetworkPorts'', [Lit ''DedicatedNetworkPorts''], [Get]),
        (''DedicatedNetworkPortsPortId'', [Lit ''DedicatedNetworkPorts'', Var ''PortId''], [Get, Put, Patch]),
        (''DedicatedNetworkPortsPortIdActionsPortReset'', [Lit ''DedicatedNetworkPorts'', Var ''PortId'', Lit ''Actions'', Lit ''Port.Reset''], [Post]),
        (''DedicatedNetworkPortsPortIdActionsPortResetPPB'', [Lit ''DedicatedNetworkPorts'', Var ''PortId'', Lit ''Actions'', Lit ''Port.ResetPPB''], [Post]),
        (''DedicatedNetworkPortsPortIdEnvironmentMetrics'', [Lit ''DedicatedNetworkPorts'', Var ''PortId'', Lit ''EnvironmentMetrics''], [Get, Put, Patch]),
        (''DedicatedNetworkPortsPortIdEnvironmentMetricsActionsEnvironmentMetricsResetMetrics'', [Lit ''DedicatedNetworkPorts'', Var ''PortId'', Lit ''EnvironmentMetrics'', Lit ''Actions'', Lit ''EnvironmentMetrics.ResetMetrics''], [Post]),
        (''DedicatedNetworkPortsPortIdEnvironmentMetricsActionsEnvironmentMetricsResetToDefaults'', [Lit ''DedicatedNetworkPorts'', Var ''PortId'', Lit ''EnvironmentMetrics'', Lit ''Actions'', Lit ''EnvironmentMetrics.ResetToDefaults''], [Post]),
        (''DedicatedNetworkPortsPortIdMetrics'', [Lit ''DedicatedNetworkPorts'', Var ''PortId'', Lit ''Metrics''], [Get]),
        (''EthernetInterfaces'', [Lit ''EthernetInterfaces''], [Get, Post]),
        (''EthernetInterfacesEthernetInterfaceId'', [Lit ''EthernetInterfaces'', Var ''EthernetInterfaceId''], [Get, Put, Delete, Patch])]"

definition Routes_Managers_4 :: Routes where
  "Routes_Managers_4 =
     under at_manager ''''
       []
       [(''EthernetInterfacesEthernetInterfaceIdVLANs'', [Lit ''EthernetInterfaces'', Var ''EthernetInterfaceId'', Lit ''VLANs''], [Get, Post]),
        (''EthernetInterfacesEthernetInterfaceIdVLANsVLanNetworkInterfaceId'', [Lit ''EthernetInterfaces'', Var ''EthernetInterfaceId'', Lit ''VLANs'', Var ''VLanNetworkInterfaceId''], [Get, Put, Delete, Patch]),
        (''HostInterfaces'', [Lit ''HostInterfaces''], [Get]),
        (''HostInterfacesHostInterfaceId'', [Lit ''HostInterfaces'', Var ''HostInterfaceId''], [Get, Put, Patch]),
        (''HostInterfacesHostInterfaceIdHostEthernetInterfaces'', [Lit ''HostInterfaces'', Var ''HostInterfaceId'', Lit ''HostEthernetInterfaces''], [Get, Post]),
        (''LogServices'', [Lit ''LogServices''], [Get]),
        (''LogServicesLogServiceId'', [Lit ''LogServices'', Var ''LogServiceId''], [Get, Put, Patch]),
        (''LogServicesLogServiceIdActionsLogServiceClearLog'', [Lit ''LogServices'', Var ''LogServiceId'', Lit ''Actions'', Lit ''LogService.ClearLog''], [Post]),
        (''LogServicesLogServiceIdActionsLogServiceCollectDiagnosticData'', [Lit ''LogServices'', Var ''LogServiceId'', Lit ''Actions'', Lit ''LogService.CollectDiagnosticData''], [Post]),
        (''LogServicesLogServiceIdActionsLogServicePushDiagnosticData'', [Lit ''LogServices'', Var ''LogServiceId'', Lit ''Actions'', Lit ''LogService.PushDiagnosticData''], [Post]),
        (''LogServicesLogServiceIdEntries'', [Lit ''LogServices'', Var ''LogServiceId'', Lit ''Entries''], [Get, Post]),
        (''LogServicesLogServiceIdEntriesLogEntryId'', [Lit ''LogServices'', Var ''LogServiceId'', Lit ''Entries'', Var ''LogEntryId''], [Get, Put, Delete, Patch]),
        (''ManagerDiagnosticData'', [Lit ''ManagerDiagnosticData''], [Get]),
        (''ManagerDiagnosticDataActionsManagerDiagnosticDataResetMetrics'', [Lit ''ManagerDiagnosticData'', Lit ''Actions'', Lit ''ManagerDiagnosticData.ResetMetrics''], [Post]),
        (''NetworkProtocol'', [Lit ''NetworkProtocol''], [Get, Put, Patch])]"

definition Routes_Managers_5 :: Routes where
  "Routes_Managers_5 =
     under at_manager ''''
       []
       [(''NetworkProtocolHTTPSCertificates'', [Lit ''NetworkProtocol'', Lit ''HTTPS'', Lit ''Certificates''], [Get, Post]),
        (''NetworkProtocolHTTPSCertificatesCertificateId'', [Lit ''NetworkProtocol'', Lit ''HTTPS'', Lit ''Certificates'', Var ''CertificateId''], [Get, Put, Delete, Patch]),
        (''NetworkProtocolHTTPSCertificatesCertificateIdActionsCertificateRekey'', [Lit ''NetworkProtocol'', Lit ''HTTPS'', Lit ''Certificates'', Var ''CertificateId'', Lit ''Actions'', Lit ''Certificate.Rekey''], [Post]),
        (''NetworkProtocolHTTPSCertificatesCertificateIdActionsCertificateRenew'', [Lit ''NetworkProtocol'', Lit ''HTTPS'', Lit ''Certificates'', Var ''CertificateId'', Lit ''Actions'', Lit ''Certificate.Renew''], [Post]),
        (''RemoteAccountService'', [Lit ''RemoteAccountService''], [Get, Put, Patch]),
        (''RemoteAccountServiceAccounts'', [Lit ''RemoteAccountService'', Lit ''Accounts''], [Get, Post])]"

definition Routes_Managers_6 :: Routes where
  "Routes_Managers_6 =
     under at_manager ''RemoteAccountServiceAccountsManagerAccountId''
       [Lit ''RemoteAccountService'', Lit ''Accounts'', Var ''ManagerAccountId'']
       [('''', [], [Get, Put, Delete, Patch]),
        (''ActionsManagerAccountChangePassword'', [Lit ''Actions'', Lit ''ManagerAccount.ChangePassword''], [Post]),
        (''Certificates'', [Lit ''Certificates''], [Get, Post]),
        (''CertificatesCertificateId'', [Lit ''Certificates'', Var ''CertificateId''], [Get, Put, Delete, Patch]),
        (''CertificatesCertificateIdActionsCertificateRekey'', [Lit ''Certificates'', Var ''CertificateId'', Lit ''Actions'', Lit ''Certificate.Rekey''], [Post]),
        (''CertificatesCertificateIdActionsCertificateRenew'', [Lit ''Certificates'', Var ''CertificateId'', Lit ''Actions'', Lit ''Certificate.Renew''], [Post]),
        (''Keys'', [Lit ''Keys''], [Get, Post]),
        (''KeysKeyId'', [Lit ''Keys'', Var ''KeyId''], [Get, Put, Delete, Patch])]"

definition Routes_Managers_7 :: Routes where
  "Routes_Managers_7 =
     under at_manager ''RemoteAccountService''
       [Lit ''RemoteAccountService'']
       [(''ActiveDirectoryCertificates'', [Lit ''ActiveDirectory'', Lit ''Certificates''], [Get, Post]),
        (''ActiveDirectoryCertificatesCertificateId'', [Lit ''ActiveDirectory'', Lit ''Certificates'', Var ''CertificateId''], [Get, Put, Delete, Patch]),
        (''ActiveDirectoryCertificatesCertificateIdActionsCertificateRekey'', [Lit ''ActiveDirectory'', Lit ''Certificates'', Var ''CertificateId'', Lit ''Actions'', Lit ''Certificate.Rekey''], [Post]),
        (''ActiveDirectoryCertificatesCertificateIdActionsCertificateRenew'', [Lit ''ActiveDirectory'', Lit ''Certificates'', Var ''CertificateId'', Lit ''Actions'', Lit ''Certificate.Renew''], [Post]),
        (''ExternalAccountProviders'', [Lit ''ExternalAccountProviders''], [Get, Post]),
        (''ExternalAccountProvidersExternalAccountProviderId'', [Lit ''ExternalAccountProviders'', Var ''ExternalAccountProviderId''], [Get, Put, Delete, Patch]),
        (''ExternalAccountProvidersExternalAccountProviderIdCertificates'', [Lit ''ExternalAccountProviders'', Var ''ExternalAccountProviderId'', Lit ''Certificates''], [Get, Post]),
        (''ExternalAccountProvidersExternalAccountProviderIdCertificatesCertificateId'', [Lit ''ExternalAccountProviders'', Var ''ExternalAccountProviderId'', Lit ''Certificates'', Var ''CertificateId''], [Get, Put, Delete, Patch]),
        (''ExternalAccountProvidersExternalAccountProviderIdCertificatesCertificateIdActionsCertificateRekey'', [Lit ''ExternalAccountProviders'', Var ''ExternalAccountProviderId'', Lit ''Certificates'', Var ''CertificateId'', Lit ''Actions'', Lit ''Certificate.Rekey''], [Post]),
        (''ExternalAccountProvidersExternalAccountProviderIdCertificatesCertificateIdActionsCertificateRenew'', [Lit ''ExternalAccountProviders'', Var ''ExternalAccountProviderId'', Lit ''Certificates'', Var ''CertificateId'', Lit ''Actions'', Lit ''Certificate.Renew''], [Post]),
        (''LDAPCertificates'', [Lit ''LDAP'', Lit ''Certificates''], [Get, Post]),
        (''LDAPCertificatesCertificateId'', [Lit ''LDAP'', Lit ''Certificates'', Var ''CertificateId''], [Get, Put, Delete, Patch]),
        (''LDAPCertificatesCertificateIdActionsCertificateRekey'', [Lit ''LDAP'', Lit ''Certificates'', Var ''CertificateId'', Lit ''Actions'', Lit ''Certificate.Rekey''], [Post]),
        (''LDAPCertificatesCertificateIdActionsCertificateRenew'', [Lit ''LDAP'', Lit ''Certificates'', Var ''CertificateId'', Lit ''Actions'', Lit ''Certificate.Renew''], [Post])]"

definition Routes_Managers_8 :: Routes where
  "Routes_Managers_8 =
     under at_manager ''RemoteAccountService''
       [Lit ''RemoteAccountService'']
       [(''MultiFactorAuthClientCertificateCertificates'', [Lit ''MultiFactorAuth'', Lit ''ClientCertificate'', Lit ''Certificates''], [Get, Post]),
        (''MultiFactorAuthClientCertificateCertificatesCertificateId'', [Lit ''MultiFactorAuth'', Lit ''ClientCertificate'', Lit ''Certificates'', Var ''CertificateId''], [Get, Put, Delete, Patch]),
        (''MultiFactorAuthClientCertificateCertificatesCertificateIdActionsCertificateRekey'', [Lit ''MultiFactorAuth'', Lit ''ClientCertificate'', Lit ''Certificates'', Var ''CertificateId'', Lit ''Actions'', Lit ''Certificate.Rekey''], [Post]),
        (''MultiFactorAuthClientCertificateCertificatesCertificateIdActionsCertificateRenew'', [Lit ''MultiFactorAuth'', Lit ''ClientCertificate'', Lit ''Certificates'', Var ''CertificateId'', Lit ''Actions'', Lit ''Certificate.Renew''], [Post]),
        (''MultiFactorAuthSecurIDCertificates'', [Lit ''MultiFactorAuth'', Lit ''SecurID'', Lit ''Certificates''], [Get, Post]),
        (''MultiFactorAuthSecurIDCertificatesCertificateId'', [Lit ''MultiFactorAuth'', Lit ''SecurID'', Lit ''Certificates'', Var ''CertificateId''], [Get, Put, Delete, Patch]),
        (''MultiFactorAuthSecurIDCertificatesCertificateIdActionsCertificateRekey'', [Lit ''MultiFactorAuth'', Lit ''SecurID'', Lit ''Certificates'', Var ''CertificateId'', Lit ''Actions'', Lit ''Certificate.Rekey''], [Post]),
        (''MultiFactorAuthSecurIDCertificatesCertificateIdActionsCertificateRenew'', [Lit ''MultiFactorAuth'', Lit ''SecurID'', Lit ''Certificates'', Var ''CertificateId'', Lit ''Actions'', Lit ''Certificate.Renew''], [Post]),
        (''Roles'', [Lit ''Roles''], [Get, Post]),
        (''RolesRoleId'', [Lit ''Roles'', Var ''RoleId''], [Get, Put, Delete, Patch])]"

definition Routes_Managers_9 :: Routes where
  "Routes_Managers_9 =
     under at_manager ''SecurityPolicy''
       [Lit ''SecurityPolicy'']
       [('''', [], [Get, Put, Patch]),
        (''SPDMRevokedCertificates'', [Lit ''SPDM'', Lit ''RevokedCertificates''], [Get, Post]),
        (''SPDMRevokedCertificatesCertificateId'', [Lit ''SPDM'', Lit ''RevokedCertificates'', Var ''CertificateId''], [Get, Put, Delete, Patch]),
        (''SPDMRevokedCertificatesCertificateIdActionsCertificateRekey'', [Lit ''SPDM'', Lit ''RevokedCertificates'', Var ''CertificateId'', Lit ''Actions'', Lit ''Certificate.Rekey''], [Post]),
        (''SPDMRevokedCertificatesCertificateIdActionsCertificateRenew'', [Lit ''SPDM'', Lit ''RevokedCertificates'', Var ''CertificateId'', Lit ''Actions'', Lit ''Certificate.Renew''], [Post]),
        (''SPDMTrustedCertificates'', [Lit ''SPDM'', Lit ''TrustedCertificates''], [Get, Post]),
        (''SPDMTrustedCertificatesCertificateId'', [Lit ''SPDM'', Lit ''TrustedCertificates'', Var ''CertificateId''], [Get, Put, Delete, Patch]),
        (''SPDMTrustedCertificatesCertificateIdActionsCertificateRekey'', [Lit ''SPDM'', Lit ''TrustedCertificates'', Var ''CertificateId'', Lit ''Actions'', Lit ''Certificate.Rekey''], [Post]),
        (''SPDMTrustedCertificatesCertificateIdActionsCertificateRenew'', [Lit ''SPDM'', Lit ''TrustedCertificates'', Var ''CertificateId'', Lit ''Actions'', Lit ''Certificate.Renew''], [Post]),
        (''TLSClientRevokedCertificates'', [Lit ''TLS'', Lit ''Client'', Lit ''RevokedCertificates''], [Get, Post])]"

definition Routes_Managers_10 :: Routes where
  "Routes_Managers_10 =
     under at_manager ''SecurityPolicyTLS''
       [Lit ''SecurityPolicy'', Lit ''TLS'']
       [(''ClientRevokedCertificatesCertificateId'', [Lit ''Client'', Lit ''RevokedCertificates'', Var ''CertificateId''], [Get, Put, Delete, Patch]),
        (''ClientRevokedCertificatesCertificateIdActionsCertificateRekey'', [Lit ''Client'', Lit ''RevokedCertificates'', Var ''CertificateId'', Lit ''Actions'', Lit ''Certificate.Rekey''], [Post]),
        (''ClientRevokedCertificatesCertificateIdActionsCertificateRenew'', [Lit ''Client'', Lit ''RevokedCertificates'', Var ''CertificateId'', Lit ''Actions'', Lit ''Certificate.Renew''], [Post]),
        (''ClientTrustedCertificates'', [Lit ''Client'', Lit ''TrustedCertificates''], [Get, Post]),
        (''ClientTrustedCertificatesCertificateId'', [Lit ''Client'', Lit ''TrustedCertificates'', Var ''CertificateId''], [Get, Put, Delete, Patch]),
        (''ClientTrustedCertificatesCertificateIdActionsCertificateRekey'', [Lit ''Client'', Lit ''TrustedCertificates'', Var ''CertificateId'', Lit ''Actions'', Lit ''Certificate.Rekey''], [Post]),
        (''ClientTrustedCertificatesCertificateIdActionsCertificateRenew'', [Lit ''Client'', Lit ''TrustedCertificates'', Var ''CertificateId'', Lit ''Actions'', Lit ''Certificate.Renew''], [Post]),
        (''ServerRevokedCertificates'', [Lit ''Server'', Lit ''RevokedCertificates''], [Get, Post]),
        (''ServerRevokedCertificatesCertificateId'', [Lit ''Server'', Lit ''RevokedCertificates'', Var ''CertificateId''], [Get, Put, Delete, Patch]),
        (''ServerRevokedCertificatesCertificateIdActionsCertificateRekey'', [Lit ''Server'', Lit ''RevokedCertificates'', Var ''CertificateId'', Lit ''Actions'', Lit ''Certificate.Rekey''], [Post]),
        (''ServerRevokedCertificatesCertificateIdActionsCertificateRenew'', [Lit ''Server'', Lit ''RevokedCertificates'', Var ''CertificateId'', Lit ''Actions'', Lit ''Certificate.Renew''], [Post]),
        (''ServerTrustedCertificates'', [Lit ''Server'', Lit ''TrustedCertificates''], [Get, Post]),
        (''ServerTrustedCertificatesCertificateId'', [Lit ''Server'', Lit ''TrustedCertificates'', Var ''CertificateId''], [Get, Put, Delete, Patch]),
        (''ServerTrustedCertificatesCertificateIdActionsCertificateRekey'', [Lit ''Server'', Lit ''TrustedCertificates'', Var ''CertificateId'', Lit ''Actions'', Lit ''Certificate.Rekey''], [Post]),
        (''ServerTrustedCertificatesCertificateIdActionsCertificateRenew'', [Lit ''Server'', Lit ''TrustedCertificates'', Var ''CertificateId'', Lit ''Actions'', Lit ''Certificate.Renew''], [Post])]"

definition Routes_Managers_11 :: Routes where
  "Routes_Managers_11 =
     under at_manager ''''
       []
       [(''SerialInterfaces'', [Lit ''SerialInterfaces''], [Get]),
        (''SerialInterfacesSerialInterfaceId'', [Lit ''SerialInterfaces'', Var ''SerialInterfaceId''], [Get, Put, Patch]),
        (''SharedNetworkPorts'', [Lit ''SharedNetworkPorts''], [Get]),
        (''USBPorts'', [Lit ''USBPorts''], [Get]),
        (''USBPortsPortId'', [Lit ''USBPorts'', Var ''PortId''], [Get, Put, Patch]),
        (''USBPortsPortIdActionsPortReset'', [Lit ''USBPorts'', Var ''PortId'', Lit ''Actions'', Lit ''Port.Reset''], [Post]),
        (''USBPortsPortIdActionsPortResetPPB'', [Lit ''USBPorts'', Var ''PortId'', Lit ''Actions'', Lit ''Port.ResetPPB''], [Post]),
        (''USBPortsPortIdEnvironmentMetrics'', [Lit ''USBPorts'', Var ''PortId'', Lit ''EnvironmentMetrics''], [Get, Put, Patch]),
        (''USBPortsPortIdEnvironmentMetricsActionsEnvironmentMetricsResetMetrics'', [Lit ''USBPorts'', Var ''PortId'', Lit ''EnvironmentMetrics'', Lit ''Actions'', Lit ''EnvironmentMetrics.ResetMetrics''], [Post]),
        (''USBPortsPortIdEnvironmentMetricsActionsEnvironmentMetricsResetToDefaults'', [Lit ''USBPorts'', Var ''PortId'', Lit ''EnvironmentMetrics'', Lit ''Actions'', Lit ''EnvironmentMetrics.ResetToDefaults''], [Post]),
        (''USBPortsPortIdMetrics'', [Lit ''USBPorts'', Var ''PortId'', Lit ''Metrics''], [Get])]"

definition Routes_Managers_12 :: Routes where
  "Routes_Managers_12 =
     under at_manager ''VirtualMedia''
       [Lit ''VirtualMedia'']
       [('''', [], [Get])]"

definition Routes_Managers_13 :: Routes where
  "Routes_Managers_13 =
     under at_manager ''VirtualMediaVirtualMediaId''
       [Lit ''VirtualMedia'', Var ''VirtualMediaId'']
       [('''', [], [Get, Put, Patch])]"

definition Routes_Managers_14 :: Routes where
  "Routes_Managers_14 =
     under at_manager ''VirtualMediaVirtualMediaIdActionsVirtualMediaEjectMedia''
       [Lit ''VirtualMedia'', Var ''VirtualMediaId'', Lit ''Actions'', Lit ''VirtualMedia.EjectMedia'']
       [('''', [], [Post])]"

definition Routes_Managers_15 :: Routes where
  "Routes_Managers_15 =
     under at_manager ''VirtualMediaVirtualMediaIdActionsVirtualMediaInsertMedia''
       [Lit ''VirtualMedia'', Var ''VirtualMediaId'', Lit ''Actions'', Lit ''VirtualMedia.InsertMedia'']
       [('''', [], [Post])]"

definition Routes_PowerEquipment_1 :: Routes where
  "Routes_PowerEquipment_1 =
     under at_root ''PowerEquipment''
       [Lit ''PowerEquipment'']
       [('''', [], [Get]),
        (''ElectricalBuses'', [Lit ''ElectricalBuses''], [Get]),
        (''ElectricalBusesPowerDistributionId'', [Lit ''ElectricalBuses'', Var ''PowerDistributionId''], [Get, Put, Patch]),
        (''ElectricalBusesPowerDistributionIdActionsPowerDistributionTransferControl'', [Lit ''ElectricalBuses'', Var ''PowerDistributionId'', Lit ''Actions'', Lit ''PowerDistribution.TransferControl''], [Post])]"

definition Routes_PowerEquipment_2 :: Routes where
  "Routes_PowerEquipment_2 =
     under at_root ''PowerEquipmentElectricalBusesPowerDistributionId''
       [Lit ''PowerEquipment'', Lit ''ElectricalBuses'', Var ''PowerDistributionId'']
       [(''Branches'', [Lit ''Branches''], [Get]),
        (''BranchesCircuitId'', [Lit ''Branches'', Var ''CircuitId''], [Get, Put, Patch]),
        (''BranchesCircuitIdActionsCircuitBreakerControl'', [Lit ''Branches'', Var ''CircuitId'', Lit ''Actions'', Lit ''Circuit.BreakerControl''], [Post]),
        (''BranchesCircuitIdActionsCircuitPowerControl'', [Lit ''Branches'', Var ''CircuitId'', Lit ''Actions'', Lit ''Circuit.PowerControl''], [Post]),
        (''BranchesCircuitIdActionsCircuitResetMetrics'', [Lit ''Branches'', Var ''CircuitId'', Lit ''Actions'', Lit ''Circuit.ResetMetrics''], [Post]),
        (''Mains'', [Lit ''Mains''], [Get]),
        (''MainsCircuitId'', [Lit ''Mains'', Var ''CircuitId''], [Get, Put, Patch]),
        (''MainsCircuitIdActionsCircuitBreakerControl'', [Lit ''Mains'', Var ''CircuitId'', Lit ''Actions'', Lit ''Circuit.BreakerControl''], [Post]),
        (''MainsCircuitIdActionsCircuitPowerControl'', [Lit ''Mains'', Var ''CircuitId'', Lit ''Actions'', Lit ''Circuit.PowerControl''], [Post]),
        (''MainsCircuitIdActionsCircuitResetMetrics'', [Lit ''Mains'', Var ''CircuitId'', Lit ''Actions'', Lit ''Circuit.ResetMetrics''], [Post]),
        (''Metrics'', [Lit ''Metrics''], [Get]),
        (''MetricsActionsPowerDistributionMetricsResetMetrics'', [Lit ''Metrics'', Lit ''Actions'', Lit ''PowerDistributionMetrics.ResetMetrics''], [Post]),
        (''OutletGroups'', [Lit ''OutletGroups''], [Get, Post]),
        (''OutletGroupsOutletGroupId'', [Lit ''OutletGroups'', Var ''OutletGroupId''], [Get, Put, Delete, Patch]),
        (''OutletGroupsOutletGroupIdActionsOutletGroupPowerControl'', [Lit ''OutletGroups'', Var ''OutletGroupId'', Lit ''Actions'', Lit ''OutletGroup.PowerControl''], [Post]),
        (''OutletGroupsOutletGroupIdActionsOutletGroupResetMetrics'', [Lit ''OutletGroups'', Var ''OutletGroupId'', Lit ''Actions'', Lit ''OutletGroup.ResetMetrics''], [Post]),
        (''Outlets'', [Lit ''Outlets''], [Get]),
        (''OutletsOutletId'', [Lit ''Outlets'', Var ''OutletId''], [Get, Put, Patch]),
        (''OutletsOutletIdActionsOutletPowerControl'', [Lit ''Outlets'', Var ''OutletId'', Lit ''Actions'', Lit ''Outlet.PowerControl''], [Post]),
        (''OutletsOutletIdActionsOutletResetMetrics'', [Lit ''Outlets'', Var ''OutletId'', Lit ''Actions'', Lit ''Outlet.ResetMetrics''], [Post])]"

definition Routes_PowerEquipment_3 :: Routes where
  "Routes_PowerEquipment_3 =
     under at_root ''PowerEquipmentFloorPDUs''
       [Lit ''PowerEquipment'', Lit ''FloorPDUs'']
       [('''', [], [Get]),
        (''PowerDistributionId'', [Var ''PowerDistributionId''], [Get, Put, Patch]),
        (''PowerDistributionIdActionsPowerDistributionTransferControl'', [Var ''PowerDistributionId'', Lit ''Actions'', Lit ''PowerDistribution.TransferControl''], [Post]),
        (''PowerDistributionIdBranches'', [Var ''PowerDistributionId'', Lit ''Branches''], [Get]),
        (''PowerDistributionIdBranchesCircuitId'', [Var ''PowerDistributionId'', Lit ''Branches'', Var ''CircuitId''], [Get, Put, Patch])]"

definition Routes_PowerEquipment_4 :: Routes where
  "Routes_PowerEquipment_4 =
     under at_root ''PowerEquipmentFloorPDUsPowerDistributionId''
       [Lit ''PowerEquipment'', Lit ''FloorPDUs'', Var ''PowerDistributionId'']
       [(''BranchesCircuitIdActionsCircuitBreakerControl'', [Lit ''Branches'', Var ''CircuitId'', Lit ''Actions'', Lit ''Circuit.BreakerControl''], [Post]),
        (''BranchesCircuitIdActionsCircuitPowerControl'', [Lit ''Branches'', Var ''CircuitId'', Lit ''Actions'', Lit ''Circuit.PowerControl''], [Post]),
        (''BranchesCircuitIdActionsCircuitResetMetrics'', [Lit ''Branches'', Var ''CircuitId'', Lit ''Actions'', Lit ''Circuit.ResetMetrics''], [Post]),
        (''Mains'', [Lit ''Mains''], [Get]),
        (''MainsCircuitId'', [Lit ''Mains'', Var ''CircuitId''], [Get, Put, Patch]),
        (''MainsCircuitIdActionsCircuitBreakerControl'', [Lit ''Mains'', Var ''CircuitId'', Lit ''Actions'', Lit ''Circuit.BreakerControl''], [Post]),
        (''MainsCircuitIdActionsCircuitPowerControl'', [Lit ''Mains'', Var ''CircuitId'', Lit ''Actions'', Lit ''Circuit.PowerControl''], [Post]),
        (''MainsCircuitIdActionsCircuitResetMetrics'', [Lit ''Mains'', Var ''CircuitId'', Lit ''Actions'', Lit ''Circuit.ResetMetrics''], [Post]),
        (''Metrics'', [Lit ''Metrics''], [Get]),
        (''MetricsActionsPowerDistributionMetricsResetMetrics'', [Lit ''Metrics'', Lit ''Actions'', Lit ''PowerDistributionMetrics.ResetMetrics''], [Post]),
        (''OutletsOutletId'', [Lit ''Outlets'', Var ''OutletId''], [Get, Put, Patch]),
        (''OutletsOutletIdActionsOutletPowerControl'', [Lit ''Outlets'', Var ''OutletId'', Lit ''Actions'', Lit ''Outlet.PowerControl''], [Post]),
        (''OutletsOutletIdActionsOutletResetMetrics'', [Lit ''Outlets'', Var ''OutletId'', Lit ''Actions'', Lit ''Outlet.ResetMetrics''], [Post]),
        (''Sensors'', [Lit ''Sensors''], [Get]),
        (''SensorsSensorId'', [Lit ''Sensors'', Var ''SensorId''], [Get, Put, Patch]),
        (''SensorsSensorIdActionsSensorResetMetrics'', [Lit ''Sensors'', Var ''SensorId'', Lit ''Actions'', Lit ''Sensor.ResetMetrics''], [Post]),
        (''SensorsSensorIdActionsSensorResetToDefaults'', [Lit ''Sensors'', Var ''SensorId'', Lit ''Actions'', Lit ''Sensor.ResetToDefaults''], [Post]),
        (''Subfeeds'', [Lit ''Subfeeds''], [Get]),
        (''SubfeedsCircuitId'', [Lit ''Subfeeds'', Var ''CircuitId''], [Get, Put, Patch]),
        (''SubfeedsCircuitIdActionsCircuitBreakerControl'', [Lit ''Subfeeds'', Var ''CircuitId'', Lit ''Actions'', Lit ''Circuit.BreakerControl''], [Post]),
        (''SubfeedsCircuitIdActionsCircuitPowerControl'', [Lit ''Subfeeds'', Var ''CircuitId'', Lit ''Actions'', Lit ''Circuit.PowerControl''], [Post]),
        (''SubfeedsCircuitIdActionsCircuitResetMetrics'', [Lit ''Subfeeds'', Var ''CircuitId'', Lit ''Actions'', Lit ''Circuit.ResetMetrics''], [Post])]"

definition Routes_PowerEquipment_5 :: Routes where
  "Routes_PowerEquipment_5 =
     under at_root ''PowerEquipmentPowerShelves''
       [Lit ''PowerEquipment'', Lit ''PowerShelves'']
       [('''', [], [Get])]"

definition Routes_PowerEquipment_6 :: Routes where
  "Routes_PowerEquipment_6 =
     under at_root ''PowerEquipmentPowerShelvesPowerDistributionId''
       [Lit ''PowerEquipment'', Lit ''PowerShelves'', Var ''PowerDistributionId'']
       [('''', [], [Get, Put, Patch]),
        (''ActionsPowerDistributionTransferControl'', [Lit ''Actions'', Lit ''PowerDistribution.TransferControl''], [Post]),
        (''Branches'', [Lit ''Branches''], [Get]),
        (''BranchesCircuitId'', [Lit ''Branches'', Var ''CircuitId''], [Get, Put, Patch]),
        (''BranchesCircuitIdActionsCircuitBreakerControl'', [Lit ''Branches'', Var ''CircuitId'', Lit ''Actions'', Lit ''Circuit.BreakerControl''], [Post]),
        (''BranchesCircuitIdActionsCircuitPowerControl'', [Lit ''Branches'', Var ''CircuitId'', Lit ''Actions'', Lit ''Circuit.PowerControl''], [Post]),
        (''BranchesCircuitIdActionsCircuitResetMetrics'', [Lit ''Branches'', Var ''CircuitId'', Lit ''Actions'', Lit ''Circuit.ResetMetrics''], [Post]),
        (''Mains'', [Lit ''Mains''], [Get]),
        (''MainsCircuitId'', [Lit ''Mains'', Var ''CircuitId''], [Get, Put, Patch]),
        (''MainsCircuitIdActionsCircuitBreakerControl'', [Lit ''Mains'', Var ''CircuitId'', Lit ''Actions'', Lit ''Circuit.BreakerControl''], [Post]),
        (''MainsCircuitIdActionsCircuitPowerControl'', [Lit ''Mains'', Var ''CircuitId'', Lit ''Actions'', Lit ''Circuit.PowerControl''], [Post]),
        (''MainsCircuitIdActionsCircuitResetMetrics'', [Lit ''Mains'', Var ''CircuitId'', Lit ''Actions'', Lit ''Circuit.ResetMetrics''], [Post]),
        (''Metrics'', [Lit ''Metrics''], [Get]),
        (''MetricsActionsPowerDistributionMetricsResetMetrics'', [Lit ''Metrics'', Lit ''Actions'', Lit ''PowerDistributionMetrics.ResetMetrics''], [Post]),
        (''OutletGroups'', [Lit ''OutletGroups''], [Get, Post]),
        (''OutletGroupsOutletGroupId'', [Lit ''OutletGroups'', Var ''OutletGroupId''], [Get, Put, Delete, Patch]),
        (''OutletGroupsOutletGroupIdActionsOutletGroupPowerControl'', [Lit ''OutletGroups'', Var ''OutletGroupId'', Lit ''Actions'', Lit ''OutletGroup.PowerControl''], [Post]),
        (''OutletGroupsOutletGroupIdActionsOutletGroupResetMetrics'', [Lit ''OutletGroups'', Var ''OutletGroupId'', Lit ''Actions'', Lit ''OutletGroup.ResetMetrics''], [Post]),
        (''Outlets'', [Lit ''Outlets''], [Get])]"

definition Routes_PowerEquipment_7 :: Routes where
  "Routes_PowerEquipment_7 =
     under at_root ''PowerEquipmentPowerShelvesPowerDistributionId''
       [Lit ''PowerEquipment'', Lit ''PowerShelves'', Var ''PowerDistributionId'']
       [(''OutletsOutletId'', [Lit ''Outlets'', Var ''OutletId''], [Get, Put, Patch]),
        (''OutletsOutletIdActionsOutletPowerControl'', [Lit ''Outlets'', Var ''OutletId'', Lit ''Actions'', Lit ''Outlet.PowerControl''], [Post]),
        (''OutletsOutletIdActionsOutletResetMetrics'', [Lit ''Outlets'', Var ''OutletId'', Lit ''Actions'', Lit ''Outlet.ResetMetrics''], [Post]),
        (''PowerSupplies'', [Lit ''PowerSupplies''], [Get]),
        (''PowerSuppliesPowerSupplyId'', [Lit ''PowerSupplies'', Var ''PowerSupplyId''], [Get, Put, Patch]),
        (''PowerSuppliesPowerSupplyIdActionsPowerSupplyReset'', [Lit ''PowerSupplies'', Var ''PowerSupplyId'', Lit ''Actions'', Lit ''PowerSupply.Reset''], [Post]),
        (''PowerSuppliesPowerSupplyIdAssembly'', [Lit ''PowerSupplies'', Var ''PowerSupplyId'', Lit ''Assembly''], [Get, Put, Patch]),
        (''PowerSuppliesPowerSupplyIdMetrics'', [Lit ''PowerSupplies'', Var ''PowerSupplyId'', Lit ''Metrics''], [Get]),
        (''PowerSuppliesPowerSupplyIdMetricsActionsPowerSupplyMetricsResetMetrics'', [Lit ''PowerSupplies'', Var ''PowerSupplyId'', Lit ''Metrics'', Lit ''Actions'', Lit ''PowerSupplyMetrics.ResetMetrics''], [Post]),
        (''Sensors'', [Lit ''Sensors''], [Get]),
        (''SensorsSensorId'', [Lit ''Sensors'', Var ''SensorId''], [Get, Put, Patch]),
        (''SensorsSensorIdActionsSensorResetMetrics'', [Lit ''Sensors'', Var ''SensorId'', Lit ''Actions'', Lit ''Sensor.ResetMetrics''], [Post]),
        (''SensorsSensorIdActionsSensorResetToDefaults'', [Lit ''Sensors'', Var ''SensorId'', Lit ''Actions'', Lit ''Sensor.ResetToDefaults''], [Post])]"

definition Routes_PowerEquipment_8 :: Routes where
  "Routes_PowerEquipment_8 =
     under at_root ''PowerEquipmentRackPDUs''
       [Lit ''PowerEquipment'', Lit ''RackPDUs'']
       [('''', [], [Get]),
        (''PowerDistributionId'', [Var ''PowerDistributionId''], [Get, Put, Patch]),
        (''PowerDistributionIdActionsPowerDistributionTransferControl'', [Var ''PowerDistributionId'', Lit ''Actions'', Lit ''PowerDistribution.TransferControl''], [Post]),
        (''PowerDistributionIdBranches'', [Var ''PowerDistributionId'', Lit ''Branches''], [Get]),
        (''PowerDistributionIdBranchesCircuitId'', [Var ''PowerDistributionId'', Lit ''Branches'', Var ''CircuitId''], [Get, Put, Patch]),
        (''PowerDistributionIdBranchesCircuitIdActionsCircuitBreakerControl'', [Var ''PowerDistributionId'', Lit ''Branches'', Var ''CircuitId'', Lit ''Actions'', Lit ''Circuit.BreakerControl''], [Post]),
        (''PowerDistributionIdBranchesCircuitIdActionsCircuitPowerControl'', [Var ''PowerDistributionId'', Lit ''Branches'', Var ''CircuitId'', Lit ''Actions'', Lit ''Circuit.PowerControl''], [Post])]"

definition Routes_PowerEquipment_9 :: Routes where
  "Routes_PowerEquipment_9 =
     under at_root ''PowerEquipmentRackPDUsPowerDistributionId''
       [Lit ''PowerEquipment'', Lit ''RackPDUs'', Var ''PowerDistributionId'']
       [(''BranchesCircuitIdActionsCircuitResetMetrics'', [Lit ''Branches'', Var ''CircuitId'', Lit ''Actions'', Lit ''Circuit.ResetMetrics''], [Post]),
        (''Mains'', [Lit ''Mains''], [Get]),
        (''MainsCircuitId'', [Lit ''Mains'', Var ''CircuitId''], [Get, Put, Patch]),
        (''MainsCircuitIdActionsCircuitBreakerControl'', [Lit ''Mains'', Var ''CircuitId'', Lit ''Actions'', Lit ''Circuit.BreakerControl''], [Post]),
        (''MainsCircuitIdActionsCircuitPowerControl'', [Lit ''Mains'', Var ''CircuitId'', Lit ''Actions'', Lit ''Circuit.PowerControl''], [Post]),
        (''MainsCircuitIdActionsCircuitResetMetrics'', [Lit ''Mains'', Var ''CircuitId'', Lit ''Actions'', Lit ''Circuit.ResetMetrics''], [Post]),
        (''Metrics'', [Lit ''Metrics''], [Get]),
        (''MetricsActionsPowerDistributionMetricsResetMetrics'', [Lit ''Metrics'', Lit ''Actions'', Lit ''PowerDistributionMetrics.ResetMetrics''], [Post]),
        (''OutletGroups'', [Lit ''OutletGroups''], [Get, Post]),
        (''OutletGroupsOutletGroupId'', [Lit ''OutletGroups'', Var ''OutletGroupId''], [Get, Put, Delete, Patch]),
        (''OutletGroupsOutletGroupIdActionsOutletGroupPowerControl'', [Lit ''OutletGroups'', Var ''OutletGroupId'', Lit ''Actions'', Lit ''OutletGroup.PowerControl''], [Post]),
        (''OutletGroupsOutletGroupIdActionsOutletGroupResetMetrics'', [Lit ''OutletGroups'', Var ''OutletGroupId'', Lit ''Actions'', Lit ''OutletGroup.ResetMetrics''], [Post]),
        (''Outlets'', [Lit ''Outlets''], [Get]),
        (''OutletsOutletId'', [Lit ''Outlets'', Var ''OutletId''], [Get, Put, Patch]),
        (''OutletsOutletIdActionsOutletPowerControl'', [Lit ''Outlets'', Var ''OutletId'', Lit ''Actions'', Lit ''Outlet.PowerControl''], [Post]),
        (''OutletsOutletIdActionsOutletResetMetrics'', [Lit ''Outlets'', Var ''OutletId'', Lit ''Actions'', Lit ''Outlet.ResetMetrics''], [Post]),
        (''Sensors'', [Lit ''Sensors''], [Get]),
        (''SensorsSensorId'', [Lit ''Sensors'', Var ''SensorId''], [Get, Put, Patch]),
        (''SensorsSensorIdActionsSensorResetMetrics'', [Lit ''Sensors'', Var ''SensorId'', Lit ''Actions'', Lit ''Sensor.ResetMetrics''], [Post]),
        (''SensorsSensorIdActionsSensorResetToDefaults'', [Lit ''Sensors'', Var ''SensorId'', Lit ''Actions'', Lit ''Sensor.ResetToDefaults''], [Post])]"

definition Routes_PowerEquipment_10 :: Routes where
  "Routes_PowerEquipment_10 =
     under at_root ''PowerEquipmentSwitchgear''
       [Lit ''PowerEquipment'', Lit ''Switchgear'']
       [('''', [], [Get]),
        (''PowerDistributionId'', [Var ''PowerDistributionId''], [Get, Put, Patch]),
        (''PowerDistributionIdActionsPowerDistributionTransferControl'', [Var ''PowerDistributionId'', Lit ''Actions'', Lit ''PowerDistribution.TransferControl''], [Post]),
        (''PowerDistributionIdBranches'', [Var ''PowerDistributionId'', Lit ''Branches''], [Get]),
        (''PowerDistributionIdBranchesCircuitId'', [Var ''PowerDistributionId'', Lit ''Branches'', Var ''CircuitId''], [Get, Put, Patch]),
        (''PowerDistributionIdBranchesCircuitIdActionsCircuitBreakerControl'', [Var ''PowerDistributionId'', Lit ''Branches'', Var ''CircuitId'', Lit ''Actions'', Lit ''Circuit.BreakerControl''], [Post]),
        (''PowerDistributionIdBranchesCircuitIdActionsCircuitPowerControl'', [Var ''PowerDistributionId'', Lit ''Branches'', Var ''CircuitId'', Lit ''Actions'', Lit ''Circuit.PowerControl''], [Post])]"

definition Routes_PowerEquipment_11 :: Routes where
  "Routes_PowerEquipment_11 =
     under at_root ''PowerEquipmentSwitchgearPowerDistributionId''
       [Lit ''PowerEquipment'', Lit ''Switchgear'', Var ''PowerDistributionId'']
       [(''BranchesCircuitIdActionsCircuitResetMetrics'', [Lit ''Branches'', Var ''CircuitId'', Lit ''Actions'', Lit ''Circuit.ResetMetrics''], [Post]),
        (''Feeders'', [Lit ''Feeders''], [Get]),
        (''FeedersCircuitId'', [Lit ''Feeders'', Var ''CircuitId''], [Get, Put, Patch]),
        (''FeedersCircuitIdActionsCircuitBreakerControl'', [Lit ''Feeders'', Var ''CircuitId'', Lit ''Actions'', Lit ''Circuit.BreakerControl''], [Post]),
        (''FeedersCircuitIdActionsCircuitPowerControl'', [Lit ''Feeders'', Var ''CircuitId'', Lit ''Actions'', Lit ''Circuit.PowerControl''], [Post]),
        (''FeedersCircuitIdActionsCircuitResetMetrics'', [Lit ''Feeders'', Var ''CircuitId'', Lit ''Actions'', Lit ''Circuit.ResetMetrics''], [Post]),
        (''Mains'', [Lit ''Mains''], [Get]),
        (''MainsCircuitId'', [Lit ''Mains'', Var ''CircuitId''], [Get, Put, Patch]),
        (''MainsCircuitIdActionsCircuitBreakerControl'', [Lit ''Mains'', Var ''CircuitId'', Lit ''Actions'', Lit ''Circuit.BreakerControl''], [Post]),
        (''MainsCircuitIdActionsCircuitPowerControl'', [Lit ''Mains'', Var ''CircuitId'', Lit ''Actions'', Lit ''Circuit.PowerControl''], [Post]),
        (''MainsCircuitIdActionsCircuitResetMetrics'', [Lit ''Mains'', Var ''CircuitId'', Lit ''Actions'', Lit ''Circuit.ResetMetrics''], [Post]),
        (''Metrics'', [Lit ''Metrics''], [Get]),
        (''MetricsActionsPowerDistributionMetricsResetMetrics'', [Lit ''Metrics'', Lit ''Actions'', Lit ''PowerDistributionMetrics.ResetMetrics''], [Post]),
        (''Sensors'', [Lit ''Sensors''], [Get]),
        (''SensorsSensorId'', [Lit ''Sensors'', Var ''SensorId''], [Get, Put, Patch]),
        (''SensorsSensorIdActionsSensorResetMetrics'', [Lit ''Sensors'', Var ''SensorId'', Lit ''Actions'', Lit ''Sensor.ResetMetrics''], [Post]),
        (''SensorsSensorIdActionsSensorResetToDefaults'', [Lit ''Sensors'', Var ''SensorId'', Lit ''Actions'', Lit ''Sensor.ResetToDefaults''], [Post]),
        (''Subfeeds'', [Lit ''Subfeeds''], [Get]),
        (''SubfeedsCircuitId'', [Lit ''Subfeeds'', Var ''CircuitId''], [Get, Put, Patch]),
        (''SubfeedsCircuitIdActionsCircuitBreakerControl'', [Lit ''Subfeeds'', Var ''CircuitId'', Lit ''Actions'', Lit ''Circuit.BreakerControl''], [Post]),
        (''SubfeedsCircuitIdActionsCircuitPowerControl'', [Lit ''Subfeeds'', Var ''CircuitId'', Lit ''Actions'', Lit ''Circuit.PowerControl''], [Post]),
        (''SubfeedsCircuitIdActionsCircuitResetMetrics'', [Lit ''Subfeeds'', Var ''CircuitId'', Lit ''Actions'', Lit ''Circuit.ResetMetrics''], [Post])]"

definition Routes_PowerEquipment_12 :: Routes where
  "Routes_PowerEquipment_12 =
     under at_root ''PowerEquipmentTransferSwitches''
       [Lit ''PowerEquipment'', Lit ''TransferSwitches'']
       [('''', [], [Get]),
        (''PowerDistributionId'', [Var ''PowerDistributionId''], [Get, Put, Patch]),
        (''PowerDistributionIdActionsPowerDistributionTransferControl'', [Var ''PowerDistributionId'', Lit ''Actions'', Lit ''PowerDistribution.TransferControl''], [Post]),
        (''PowerDistributionIdBranches'', [Var ''PowerDistributionId'', Lit ''Branches''], [Get]),
        (''PowerDistributionIdBranchesCircuitId'', [Var ''PowerDistributionId'', Lit ''Branches'', Var ''CircuitId''], [Get, Put, Patch]),
        (''PowerDistributionIdBranchesCircuitIdActionsCircuitBreakerControl'', [Var ''PowerDistributionId'', Lit ''Branches'', Var ''CircuitId'', Lit ''Actions'', Lit ''Circuit.BreakerControl''], [Post]),
        (''PowerDistributionIdBranchesCircuitIdActionsCircuitPowerControl'', [Var ''PowerDistributionId'', Lit ''Branches'', Var ''CircuitId'', Lit ''Actions'', Lit ''Circuit.PowerControl''], [Post]),
        (''PowerDistributionIdBranchesCircuitIdActionsCircuitResetMetrics'', [Var ''PowerDistributionId'', Lit ''Branches'', Var ''CircuitId'', Lit ''Actions'', Lit ''Circuit.ResetMetrics''], [Post]),
        (''PowerDistributionIdFeeders'', [Var ''PowerDistributionId'', Lit ''Feeders''], [Get]),
        (''PowerDistributionIdFeedersCircuitId'', [Var ''PowerDistributionId'', Lit ''Feeders'', Var ''CircuitId''], [Get, Put, Patch]),
        (''PowerDistributionIdFeedersCircuitIdActionsCircuitBreakerControl'', [Var ''PowerDistributionId'', Lit ''Feeders'', Var ''CircuitId'', Lit ''Actions'', Lit ''Circuit.BreakerControl''], [Post]),
        (''PowerDistributionIdFeedersCircuitIdActionsCircuitPowerControl'', [Var ''PowerDistributionId'', Lit ''Feeders'', Var ''CircuitId'', Lit ''Actions'', Lit ''Circuit.PowerControl''], [Post])]"

definition Routes_PowerEquipment_13 :: Routes where
  "Routes_PowerEquipment_13 =
     under at_root ''PowerEquipmentTransferSwitchesPowerDistributionId''
       [Lit ''PowerEquipment'', Lit ''TransferSwitches'', Var ''PowerDistributionId'']
       [(''FeedersCircuitIdActionsCircuitResetMetrics'', [Lit ''Feeders'', Var ''CircuitId'', Lit ''Actions'', Lit ''Circuit.ResetMetrics''], [Post]),
        (''Mains'', [Lit ''Mains''], [Get]),
        (''MainsCircuitId'', [Lit ''Mains'', Var ''CircuitId''], [Get, Put, Patch]),
        (''MainsCircuitIdActionsCircuitBreakerControl'', [Lit ''Mains'', Var ''CircuitId'', Lit ''Actions'', Lit ''Circuit.BreakerControl''], [Post]),
        (''MainsCircuitIdActionsCircuitPowerControl'', [Lit ''Mains'', Var ''CircuitId'', Lit ''Actions'', Lit ''Circuit.PowerControl''], [Post]),
        (''MainsCircuitIdActionsCircuitResetMetrics'', [Lit ''Mains'', Var ''CircuitId'', Lit ''Actions'', Lit ''Circuit.ResetMetrics''], [Post]),
        (''Metrics'', [Lit ''Metrics''], [Get]),
        (''MetricsActionsPowerDistributionMetricsResetMetrics'', [Lit ''Metrics'', Lit ''Actions'', Lit ''PowerDistributionMetrics.ResetMetrics''], [Post]),
        (''OutletGroups'', [Lit ''OutletGroups''], [Get, Post]),
        (''OutletGroupsOutletGroupId'', [Lit ''OutletGroups'', Var ''OutletGroupId''], [Get, Put, Delete, Patch]),
        (''OutletGroupsOutletGroupIdActionsOutletGroupPowerControl'', [Lit ''OutletGroups'', Var ''OutletGroupId'', Lit ''Actions'', Lit ''OutletGroup.PowerControl''], [Post]),
        (''OutletGroupsOutletGroupIdActionsOutletGroupResetMetrics'', [Lit ''OutletGroups'', Var ''OutletGroupId'', Lit ''Actions'', Lit ''OutletGroup.ResetMetrics''], [Post]),
        (''Outlets'', [Lit ''Outlets''], [Get]),
        (''OutletsOutletId'', [Lit ''Outlets'', Var ''OutletId''], [Get, Put, Patch]),
        (''OutletsOutletIdActionsOutletPowerControl'', [Lit ''Outlets'', Var ''OutletId'', Lit ''Actions'', Lit ''Outlet.PowerControl''], [Post]),
        (''OutletsOutletIdActionsOutletResetMetrics'', [Lit ''Outlets'', Var ''OutletId'', Lit ''Actions'', Lit ''Outlet.ResetMetrics''], [Post]),
        (''Sensors'', [Lit ''Sensors''], [Get]),
        (''SensorsSensorId'', [Lit ''Sensors'', Var ''SensorId''], [Get, Put, Patch]),
        (''SensorsSensorIdActionsSensorResetMetrics'', [Lit ''Sensors'', Var ''SensorId'', Lit ''Actions'', Lit ''Sensor.ResetMetrics''], [Post]),
        (''SensorsSensorIdActionsSensorResetToDefaults'', [Lit ''Sensors'', Var ''SensorId'', Lit ''Actions'', Lit ''Sensor.ResetToDefaults''], [Post])]"

definition Routes_Storage_1 :: Routes where
  "Routes_Storage_1 =
     under at_root ''Storage''
       [Lit ''Storage'']
       [('''', [], [Get]),
        (''StorageId'', [Var ''StorageId''], [Get, Put, Patch]),
        (''StorageIdActionsStorageResetToDefaults'', [Var ''StorageId'', Lit ''Actions'', Lit ''Storage.ResetToDefaults''], [Post]),
        (''StorageIdActionsStorageSetEncryptionKey'', [Var ''StorageId'', Lit ''Actions'', Lit ''Storage.SetEncryptionKey''], [Post]),
        (''StorageIdConnections'', [Var ''StorageId'', Lit ''Connections''], [Get, Post]),
        (''StorageIdConsistencyGroupsConsistencyGroupIdVolumes'', [Var ''StorageId'', Lit ''ConsistencyGroups'', Var ''ConsistencyGroupId'', Lit ''Volumes''], [Get, Post]),
        (''StorageIdConsistencyGroupsConsistencyGroupIdVolumesVolumeId'', [Var ''StorageId'', Lit ''ConsistencyGroups'', Var ''ConsistencyGroupId'', Lit ''Volumes'', Var ''VolumeId''], [Get, Put, Delete, Patch])]"

definition Routes_Storage_2 :: Routes where
  "Routes_Storage_2 =
     under at_root ''StorageStorageIdConsistencyGroupsConsistencyGroupIdVolumesVolumeIdActions''
       [Lit ''Storage'', Var ''StorageId'', Lit ''ConsistencyGroups'', Var ''ConsistencyGroupId'', Lit ''Volumes'', Var ''VolumeId'', Lit ''Actions'']
       [(''VolumeAssignReplicaTarget'', [Lit ''Volume.AssignReplicaTarget''], [Post]),
        (''VolumeChangeRAIDLayout'', [Lit ''Volume.ChangeRAIDLayout''], [Post]),
        (''VolumeCheckConsistency'', [Lit ''Volume.CheckConsistency''], [Post]),
        (''VolumeCreateReplicaTarget'', [Lit ''Volume.CreateReplicaTarget''], [Post]),
        (''VolumeForceEnable'', [Lit ''Volume.ForceEnable''], [Post]),
        (''VolumeInitialize'', [Lit ''Volume.Initialize''], [Post]),
        (''VolumeRemoveReplicaRelationship'', [Lit ''Volume.RemoveReplicaRelationship''], [Post]),
        (''VolumeResumeReplication'', [Lit ''Volume.ResumeReplication''], [Post]),
        (''VolumeReverseReplicationRelationship'', [Lit ''Volume.ReverseReplicationRelationship''], [Post]),
        (''VolumeSplitReplication'', [Lit ''Volume.SplitReplication''], [Post]),
        (''VolumeSuspendReplication'', [Lit ''Volume.SuspendReplication''], [Post])]"

definition Routes_Storage_3 :: Routes where
  "Routes_Storage_3 =
     under at_root ''StorageStorageIdControllers''
       [Lit ''Storage'', Var ''StorageId'', Lit ''Controllers'']
       [('''', [], [Get]),
        (''ControllerId'', [Var ''ControllerId''], [Get, Put, Patch]),
        (''ControllerIdActionsStorageControllerAttachNamespaces'', [Var ''ControllerId'', Lit ''Actions'', Lit ''StorageController.AttachNamespaces''], [Post]),
        (''ControllerIdActionsStorageControllerDetachNamespaces'', [Var ''ControllerId'', Lit ''Actions'', Lit ''StorageController.DetachNamespaces''], [Post]),
        (''ControllerIdActionsStorageControllerSecurityReceive'', [Var ''ControllerId'', Lit ''Actions'', Lit ''StorageController.SecurityReceive''], [Post]),
        (''ControllerIdActionsStorageControllerSecuritySend'', [Var ''ControllerId'', Lit ''Actions'', Lit ''StorageController.SecuritySend''], [Post]),
        (''ControllerIdEnvironmentMetrics'', [Var ''ControllerId'', Lit ''EnvironmentMetrics''], [Get, Put, Patch]),
        (''ControllerIdEnvironmentMetricsActionsEnvironmentMetricsResetMetrics'', [Var ''ControllerId'', Lit ''EnvironmentMetrics'', Lit ''Actions'', Lit ''EnvironmentMetrics.ResetMetrics''], [Post]),
        (''ControllerIdEnvironmentMetricsActionsEnvironmentMetricsResetToDefaults'', [Var ''ControllerId'', Lit ''EnvironmentMetrics'', Lit ''Actions'', Lit ''EnvironmentMetrics.ResetToDefaults''], [Post]),
        (''ControllerIdMetrics'', [Var ''ControllerId'', Lit ''Metrics''], [Get])]"

definition Routes_Storage_4 :: Routes where
  "Routes_Storage_4 =
     under at_root ''StorageStorageIdControllersStorageControllerId''
       [Lit ''Storage'', Var ''StorageId'', Lit ''Controllers'', Var ''StorageControllerId'']
       [(''Assembly'', [Lit ''Assembly''], [Get, Put, Patch]),
        (''Certificates'', [Lit ''Certificates''], [Get, Post]),
        (''CertificatesCertificateId'', [Lit ''Certificates'', Var ''CertificateId''], [Get, Put, Delete, Patch]),
        (''CertificatesCertificateIdActionsCertificateRekey'', [Lit ''Certificates'', Var ''CertificateId'', Lit ''Actions'', Lit ''Certificate.Rekey''], [Post]),
        (''CertificatesCertificateIdActionsCertificateRenew'', [Lit ''Certificates'', Var ''CertificateId'', Lit ''Actions'', Lit ''Certificate.Renew''], [Post]),
        (''Ports'', [Lit ''Ports''], [Get]),
        (''PortsPortId'', [Lit ''Ports'', Var ''PortId''], [Get, Put, Patch]),
        (''PortsPortIdActionsPortReset'', [Lit ''Ports'', Var ''PortId'', Lit ''Actions'', Lit ''Port.Reset''], [Post]),
        (''PortsPortIdActionsPortResetPPB'', [Lit ''Ports'', Var ''PortId'', Lit ''Actions'', Lit ''Port.ResetPPB''], [Post]),
        (''PortsPortIdEnvironmentMetrics'', [Lit ''Ports'', Var ''PortId'', Lit ''EnvironmentMetrics''], [Get, Put, Patch]),
        (''PortsPortIdEnvironmentMetricsActionsEnvironmentMetricsResetMetrics'', [Lit ''Ports'', Var ''PortId'', Lit ''EnvironmentMetrics'', Lit ''Actions'', Lit ''EnvironmentMetrics.ResetMetrics''], [Post]),
        (''PortsPortIdEnvironmentMetricsActionsEnvironmentMetricsResetToDefaults'', [Lit ''Ports'', Var ''PortId'', Lit ''EnvironmentMetrics'', Lit ''Actions'', Lit ''EnvironmentMetrics.ResetToDefaults''], [Post]),
        (''PortsPortIdMetrics'', [Lit ''Ports'', Var ''PortId'', Lit ''Metrics''], [Get])]"

definition Routes_Storage_5 :: Routes where
  "Routes_Storage_5 =
     under at_root ''StorageStorageId''
       [Lit ''Storage'', Var ''StorageId'']
       [(''EndpointGroups'', [Lit ''EndpointGroups''], [Get, Post]),
        (''EndpointGroupsEndpointGroupId'', [Lit ''EndpointGroups'', Var ''EndpointGroupId''], [Get, Put, Delete, Patch]),
        (''Endpoints'', [Lit ''Endpoints''], [Get, Post]),
        (''EndpointsEndpointId'', [Lit ''Endpoints'', Var ''EndpointId''], [Get, Put, Delete, Patch]),
        (''FileSystemsFileSystemIdCapacitySourcesCapacitySourceIdProvidingDrives'', [Lit ''FileSystems'', Var ''FileSystemId'', Lit ''CapacitySources'', Var ''CapacitySourceId'', Lit ''ProvidingDrives''], [Get]),
        (''FileSystemsFileSystemIdCapacitySourcesCapacitySourceIdProvidingVolumes'', [Lit ''FileSystems'', Var ''FileSystemId'', Lit ''CapacitySources'', Var ''CapacitySourceId'', Lit ''ProvidingVolumes''], [Get, Post]),
        (''FileSystemsFileSystemIdCapacitySourcesCapacitySourceIdProvidingVolumesVolumeId'', [Lit ''FileSystems'', Var ''FileSystemId'', Lit ''CapacitySources'', Var ''CapacitySourceId'', Lit ''ProvidingVolumes'', Var ''VolumeId''], [Get, Put, Delete, Patch])]"

definition Routes_Storage_6 :: Routes where
  "Routes_Storage_6 =
     under at_root ''StorageStorageIdFileSystemsFileSystemIdCapacitySourcesCapacitySourceIdProvidingVolumesVolumeIdActions''
       [Lit ''Storage'', Var ''StorageId'', Lit ''FileSystems'', Var ''FileSystemId'', Lit ''CapacitySources'', Var ''CapacitySourceId'', Lit ''ProvidingVolumes'', Var ''VolumeId'', Lit ''Actions'']
       [(''VolumeAssignReplicaTarget'', [Lit ''Volume.AssignReplicaTarget''], [Post]),
        (''VolumeChangeRAIDLayout'', [Lit ''Volume.ChangeRAIDLayout''], [Post]),
        (''VolumeCheckConsistency'', [Lit ''Volume.CheckConsistency''], [Post]),
        (''VolumeCreateReplicaTarget'', [Lit ''Volume.CreateReplicaTarget''], [Post]),
        (''VolumeForceEnable'', [Lit ''Volume.ForceEnable''], [Post]),
        (''VolumeInitialize'', [Lit ''Volume.Initialize''], [Post]),
        (''VolumeRemoveReplicaRelationship'', [Lit ''Volume.RemoveReplicaRelationship''], [Post]),
        (''VolumeResumeReplication'', [Lit ''Volume.ResumeReplication''], [Post]),
        (''VolumeReverseReplicationRelationship'', [Lit ''Volume.ReverseReplicationRelationship''], [Post]),
        (''VolumeSplitReplication'', [Lit ''Volume.SplitReplication''], [Post]),
        (''VolumeSuspendReplication'', [Lit ''Volume.SuspendReplication''], [Post])]"

definition Routes_Storage_7 :: Routes where
  "Routes_Storage_7 =
     under at_root ''StorageStorageIdStorageControllersStorageControllerId''
       [Lit ''Storage'', Var ''StorageId'', Lit ''StorageControllers'', Var ''StorageControllerId'']
       [(''Assembly'', [Lit ''Assembly''], [Get, Put, Patch]),
        (''Certificates'', [Lit ''Certificates''], [Get, Post]),
        (''CertificatesCertificateId'', [Lit ''Certificates'', Var ''CertificateId''], [Get, Put, Delete, Patch]),
        (''CertificatesCertificateIdActionsCertificateRekey'', [Lit ''Certificates'', Var ''CertificateId'', Lit ''Actions'', Lit ''Certificate.Rekey''], [Post]),
        (''CertificatesCertificateIdActionsCertificateRenew'', [Lit ''Certificates'', Var ''CertificateId'', Lit ''Actions'', Lit ''Certificate.Renew''], [Post]),
        (''Ports'', [Lit ''Ports''], [Get]),
        (''PortsPortId'', [Lit ''Ports'', Var ''PortId''], [Get, Put, Patch]),
        (''PortsPortIdActionsPortReset'', [Lit ''Ports'', Var ''PortId'', Lit ''Actions'', Lit ''Port.Reset''], [Post]),
        (''PortsPortIdActionsPortResetPPB'', [Lit ''Ports'', Var ''PortId'', Lit ''Actions'', Lit ''Port.ResetPPB''], [Post]),
        (''PortsPortIdEnvironmentMetrics'', [Lit ''Ports'', Var ''PortId'', Lit ''EnvironmentMetrics''], [Get, Put, Patch]),
        (''PortsPortIdEnvironmentMetricsActionsEnvironmentMetricsResetMetrics'', [Lit ''Ports'', Var ''PortId'', Lit ''EnvironmentMetrics'', Lit ''Actions'', Lit ''EnvironmentMetrics.ResetMetrics''], [Post]),
        (''PortsPortIdEnvironmentMetricsActionsEnvironmentMetricsResetToDefaults'', [Lit ''Ports'', Var ''PortId'', Lit ''EnvironmentMetrics'', Lit ''Actions'', Lit ''EnvironmentMetrics.ResetToDefaults''], [Post]),
        (''PortsPortIdMetrics'', [Lit ''Ports'', Var ''PortId'', Lit ''Metrics''], [Get])]"

definition Routes_Storage_8 :: Routes where
  "Routes_Storage_8 =
     under at_root ''StorageStorageIdStoragePoolsStoragePoolIdAllocatedVolumes''
       [Lit ''Storage'', Var ''StorageId'', Lit ''StoragePools'', Var ''StoragePoolId'', Lit ''AllocatedVolumes'']
       [('''', [], [Get, Post]),
        (''VolumeId'', [Var ''VolumeId''], [Get, Put, Delete, Patch]),
        (''VolumeIdActionsVolumeAssignReplicaTarget'', [Var ''VolumeId'', Lit ''Actions'', Lit ''Volume.AssignReplicaTarget''], [Post]),
        (''VolumeIdActionsVolumeChangeRAIDLayout'', [Var ''VolumeId'', Lit ''Actions'', Lit ''Volume.ChangeRAIDLayout''], [Post]),
        (''VolumeIdActionsVolumeCheckConsistency'', [Var ''VolumeId'', Lit ''Actions'', Lit ''Volume.CheckConsistency''], [Post]),
        (''VolumeIdActionsVolumeCreateReplicaTarget'', [Var ''VolumeId'', Lit ''Actions'', Lit ''Volume.CreateReplicaTarget''], [Post]),
        (''VolumeIdActionsVolumeForceEnable'', [Var ''VolumeId'', Lit ''Actions'', Lit ''Volume.ForceEnable''], [Post]),
        (''VolumeIdActionsVolumeInitialize'', [Var ''VolumeId'', Lit ''Actions'', Lit ''Volume.Initialize''], [Post]),
        (''VolumeIdActionsVolumeRemoveReplicaRelationship'', [Var ''VolumeId'', Lit ''Actions'', Lit ''Volume.RemoveReplicaRelationship''], [Post]),
        (''VolumeIdActionsVolumeResumeReplication'', [Var ''VolumeId'', Lit ''Actions'', Lit ''Volume.ResumeReplication''], [Post]),
        (''VolumeIdActionsVolumeReverseReplicationRelationship'', [Var ''VolumeId'', Lit ''Actions'', Lit ''Volume.ReverseReplicationRelationship''], [Post]),
        (''VolumeIdActionsVolumeSplitReplication'', [Var ''VolumeId'', Lit ''Actions'', Lit ''Volume.SplitReplication''], [Post]),
        (''VolumeIdActionsVolumeSuspendReplication'', [Var ''VolumeId'', Lit ''Actions'', Lit ''Volume.SuspendReplication''], [Post])]"

definition Routes_Storage_9 :: Routes where
  "Routes_Storage_9 =
     under at_root ''StorageStorageIdStoragePoolsStoragePoolIdCapacitySourcesCapacitySourceId''
       [Lit ''Storage'', Var ''StorageId'', Lit ''StoragePools'', Var ''StoragePoolId'', Lit ''CapacitySources'', Var ''CapacitySourceId'']
       [(''ProvidingDrives'', [Lit ''ProvidingDrives''], [Get]),
        (''ProvidingVolumes'', [Lit ''ProvidingVolumes''], [Get, Post]),
        (''ProvidingVolumesVolumeId'', [Lit ''ProvidingVolumes'', Var ''VolumeId''], [Get, Put, Delete, Patch])]"

definition Routes_Storage_10 :: Routes where
  "Routes_Storage_10 =
     under at_root ''StorageStorageIdStoragePoolsStoragePoolIdCapacitySourcesCapacitySourceIdProvidingVolumesVolumeIdActions''
       [Lit ''Storage'', Var ''StorageId'', Lit ''StoragePools'', Var ''StoragePoolId'', Lit ''CapacitySources'', Var ''CapacitySourceId'', Lit ''ProvidingVolumes'', Var ''VolumeId'', Lit ''Actions'']
       [(''VolumeAssignReplicaTarget'', [Lit ''Volume.AssignReplicaTarget''], [Post]),
        (''VolumeChangeRAIDLayout'', [Lit ''Volume.ChangeRAIDLayout''], [Post]),
        (''VolumeCheckConsistency'', [Lit ''Volume.CheckConsistency''], [Post]),
        (''VolumeCreateReplicaTarget'', [Lit ''Volume.CreateReplicaTarget''], [Post]),
        (''VolumeForceEnable'', [Lit ''Volume.ForceEnable''], [Post]),
        (''VolumeInitialize'', [Lit ''Volume.Initialize''], [Post]),
        (''VolumeRemoveReplicaRelationship'', [Lit ''Volume.RemoveReplicaRelationship''], [Post]),
        (''VolumeResumeReplication'', [Lit ''Volume.ResumeReplication''], [Post]),
        (''VolumeReverseReplicationRelationship'', [Lit ''Volume.ReverseReplicationRelationship''], [Post]),
        (''VolumeSplitReplication'', [Lit ''Volume.SplitReplication''], [Post]),
        (''VolumeSuspendReplication'', [Lit ''Volume.SuspendReplication''], [Post])]"

definition Routes_Storage_11 :: Routes where
  "Routes_Storage_11 =
     under at_root ''StorageStorageIdVolumes''
       [Lit ''Storage'', Var ''StorageId'', Lit ''Volumes'']
       [('''', [], [Get, Post]),
        (''VolumeId'', [Var ''VolumeId''], [Get, Put, Delete, Patch]),
        (''VolumeIdActionsVolumeAssignReplicaTarget'', [Var ''VolumeId'', Lit ''Actions'', Lit ''Volume.AssignReplicaTarget''], [Post]),
        (''VolumeIdActionsVolumeChangeRAIDLayout'', [Var ''VolumeId'', Lit ''Actions'', Lit ''Volume.ChangeRAIDLayout''], [Post]),
        (''VolumeIdActionsVolumeCheckConsistency'', [Var ''VolumeId'', Lit ''Actions'', Lit ''Volume.CheckConsistency''], [Post]),
        (''VolumeIdActionsVolumeCreateReplicaTarget'', [Var ''VolumeId'', Lit ''Actions'', Lit ''Volume.CreateReplicaTarget''], [Post]),
        (''VolumeIdActionsVolumeForceEnable'', [Var ''VolumeId'', Lit ''Actions'', Lit ''Volume.ForceEnable''], [Post]),
        (''VolumeIdActionsVolumeInitialize'', [Var ''VolumeId'', Lit ''Actions'', Lit ''Volume.Initialize''], [Post]),
        (''VolumeIdActionsVolumeRemoveReplicaRelationship'', [Var ''VolumeId'', Lit ''Actions'', Lit ''Volume.RemoveReplicaRelationship''], [Post]),
        (''VolumeIdActionsVolumeResumeReplication'', [Var ''VolumeId'', Lit ''Actions'', Lit ''Volume.ResumeReplication''], [Post]),
        (''VolumeIdActionsVolumeReverseReplicationRelationship'', [Var ''VolumeId'', Lit ''Actions'', Lit ''Volume.ReverseReplicationRelationship''], [Post]),
        (''VolumeIdActionsVolumeSplitReplication'', [Var ''VolumeId'', Lit ''Actions'', Lit ''Volume.SplitReplication''], [Post]),
        (''VolumeIdActionsVolumeSuspendReplication'', [Var ''VolumeId'', Lit ''Actions'', Lit ''Volume.SuspendReplication''], [Post]),
        (''VolumeIdCapacitySourcesCapacitySourceIdProvidingDrives'', [Var ''VolumeId'', Lit ''CapacitySources'', Var ''CapacitySourceId'', Lit ''ProvidingDrives''], [Get])]"

definition Routes_StorageServices_1 :: Routes where
  "Routes_StorageServices_1 =
     under at_root ''StorageServicesStorageServiceIdConsistencyGroupsConsistencyGroupIdVolumes''
       [Lit ''StorageServices'', Var ''StorageServiceId'', Lit ''ConsistencyGroups'', Var ''ConsistencyGroupId'', Lit ''Volumes'']
       [('''', [], [Get, Post]),
        (''VolumeId'', [Var ''VolumeId''], [Get, Put, Delete, Patch]),
        (''VolumeIdActionsVolumeAssignReplicaTarget'', [Var ''VolumeId'', Lit ''Actions'', Lit ''Volume.AssignReplicaTarget''], [Post]),
        (''VolumeIdActionsVolumeChangeRAIDLayout'', [Var ''VolumeId'', Lit ''Actions'', Lit ''Volume.ChangeRAIDLayout''], [Post]),
        (''VolumeIdActionsVolumeCheckConsistency'', [Var ''VolumeId'', Lit ''Actions'', Lit ''Volume.CheckConsistency''], [Post]),
        (''VolumeIdActionsVolumeCreateReplicaTarget'', [Var ''VolumeId'', Lit ''Actions'', Lit ''Volume.CreateReplicaTarget''], [Post]),
        (''VolumeIdActionsVolumeForceEnable'', [Var ''VolumeId'', Lit ''Actions'', Lit ''Volume.ForceEnable''], [Post]),
        (''VolumeIdActionsVolumeInitialize'', [Var ''VolumeId'', Lit ''Actions'', Lit ''Volume.Initialize''], [Post]),
        (''VolumeIdActionsVolumeRemoveReplicaRelationship'', [Var ''VolumeId'', Lit ''Actions'', Lit ''Volume.RemoveReplicaRelationship''], [Post]),
        (''VolumeIdActionsVolumeResumeReplication'', [Var ''VolumeId'', Lit ''Actions'', Lit ''Volume.ResumeReplication''], [Post]),
        (''VolumeIdActionsVolumeReverseReplicationRelationship'', [Var ''VolumeId'', Lit ''Actions'', Lit ''Volume.ReverseReplicationRelationship''], [Post]),
        (''VolumeIdActionsVolumeSplitReplication'', [Var ''VolumeId'', Lit ''Actions'', Lit ''Volume.SplitReplication''], [Post]),
        (''VolumeIdActionsVolumeSuspendReplication'', [Var ''VolumeId'', Lit ''Actions'', Lit ''Volume.SuspendReplication''], [Post])]"

definition Routes_StorageServices_2 :: Routes where
  "Routes_StorageServices_2 =
     under at_root ''StorageServicesStorageServiceId''
       [Lit ''StorageServices'', Var ''StorageServiceId'']
       [(''Drives'', [Lit ''Drives''], [Get]),
        (''EndpointGroups'', [Lit ''EndpointGroups''], [Get, Post]),
        (''EndpointGroupsEndpointGroupId'', [Lit ''EndpointGroups'', Var ''EndpointGroupId''], [Get, Put, Delete, Patch]),
        (''Endpoints'', [Lit ''Endpoints''], [Get, Post]),
        (''EndpointsEndpointId'', [Lit ''Endpoints'', Var ''EndpointId''], [Get, Put, Delete, Patch]),
        (''FileSystemsFileSystemIdCapacitySourcesCapacitySourceIdProvidingDrives'', [Lit ''FileSystems'', Var ''FileSystemId'', Lit ''CapacitySources'', Var ''CapacitySourceId'', Lit ''ProvidingDrives''], [Get]),
        (''FileSystemsFileSystemIdCapacitySourcesCapacitySourceIdProvidingVolumes'', [Lit ''FileSystems'', Var ''FileSystemId'', Lit ''CapacitySources'', Var ''CapacitySourceId'', Lit ''ProvidingVolumes''], [Get, Post]),
        (''FileSystemsFileSystemIdCapacitySourcesCapacitySourceIdProvidingVolumesVolumeId'', [Lit ''FileSystems'', Var ''FileSystemId'', Lit ''CapacitySources'', Var ''CapacitySourceId'', Lit ''ProvidingVolumes'', Var ''VolumeId''], [Get, Put, Delete, Patch])]"

definition Routes_StorageServices_3 :: Routes where
  "Routes_StorageServices_3 =
     under at_root ''StorageServicesStorageServiceIdFileSystemsFileSystemIdCapacitySourcesCapacitySourceIdProvidingVolumesVolumeIdActions''
       [Lit ''StorageServices'', Var ''StorageServiceId'', Lit ''FileSystems'', Var ''FileSystemId'', Lit ''CapacitySources'', Var ''CapacitySourceId'', Lit ''ProvidingVolumes'', Var ''VolumeId'', Lit ''Actions'']
       [(''VolumeAssignReplicaTarget'', [Lit ''Volume.AssignReplicaTarget''], [Post]),
        (''VolumeChangeRAIDLayout'', [Lit ''Volume.ChangeRAIDLayout''], [Post]),
        (''VolumeCheckConsistency'', [Lit ''Volume.CheckConsistency''], [Post]),
        (''VolumeCreateReplicaTarget'', [Lit ''Volume.CreateReplicaTarget''], [Post]),
        (''VolumeForceEnable'', [Lit ''Volume.ForceEnable''], [Post]),
        (''VolumeInitialize'', [Lit ''Volume.Initialize''], [Post]),
        (''VolumeRemoveReplicaRelationship'', [Lit ''Volume.RemoveReplicaRelationship''], [Post]),
        (''VolumeResumeReplication'', [Lit ''Volume.ResumeReplication''], [Post]),
        (''VolumeReverseReplicationRelationship'', [Lit ''Volume.ReverseReplicationRelationship''], [Post]),
        (''VolumeSplitReplication'', [Lit ''Volume.SplitReplication''], [Post]),
        (''VolumeSuspendReplication'', [Lit ''Volume.SuspendReplication''], [Post])]"

definition Routes_StorageServices_4 :: Routes where
  "Routes_StorageServices_4 =
     under at_root ''StorageServicesStorageServiceIdStoragePoolsStoragePoolIdAllocatedVolumes''
       [Lit ''StorageServices'', Var ''StorageServiceId'', Lit ''StoragePools'', Var ''StoragePoolId'', Lit ''AllocatedVolumes'']
       [('''', [], [Get, Post]),
        (''VolumeId'', [Var ''VolumeId''], [Get, Put, Delete, Patch]),
        (''VolumeIdActionsVolumeAssignReplicaTarget'', [Var ''VolumeId'', Lit ''Actions'', Lit ''Volume.AssignReplicaTarget''], [Post]),
        (''VolumeIdActionsVolumeChangeRAIDLayout'', [Var ''VolumeId'', Lit ''Actions'', Lit ''Volume.ChangeRAIDLayout''], [Post]),
        (''VolumeIdActionsVolumeCheckConsistency'', [Var ''VolumeId'', Lit ''Actions'', Lit ''Volume.CheckConsistency''], [Post]),
        (''VolumeIdActionsVolumeCreateReplicaTarget'', [Var ''VolumeId'', Lit ''Actions'', Lit ''Volume.CreateReplicaTarget''], [Post]),
        (''VolumeIdActionsVolumeForceEnable'', [Var ''VolumeId'', Lit ''Actions'', Lit ''Volume.ForceEnable''], [Post]),
        (''VolumeIdActionsVolumeInitialize'', [Var ''VolumeId'', Lit ''Actions'', Lit ''Volume.Initialize''], [Post]),
        (''VolumeIdActionsVolumeRemoveReplicaRelationship'', [Var ''VolumeId'', Lit ''Actions'', Lit ''Volume.RemoveReplicaRelationship''], [Post]),
        (''VolumeIdActionsVolumeResumeReplication'', [Var ''VolumeId'', Lit ''Actions'', Lit ''Volume.ResumeReplication''], [Post]),
        (''VolumeIdActionsVolumeReverseReplicationRelationship'', [Var ''VolumeId'', Lit ''Actions'', Lit ''Volume.ReverseReplicationRelationship''], [Post]),
        (''VolumeIdActionsVolumeSplitReplication'', [Var ''VolumeId'', Lit ''Actions'', Lit ''Volume.SplitReplication''], [Post]),
        (''VolumeIdActionsVolumeSuspendReplication'', [Var ''VolumeId'', Lit ''Actions'', Lit ''Volume.SuspendReplication''], [Post])]"

definition Routes_StorageServices_5 :: Routes where
  "Routes_StorageServices_5 =
     under at_root ''StorageServicesStorageServiceIdStoragePoolsStoragePoolIdCapacitySourcesCapacitySourceId''
       [Lit ''StorageServices'', Var ''StorageServiceId'', Lit ''StoragePools'', Var ''StoragePoolId'', Lit ''CapacitySources'', Var ''CapacitySourceId'']
       [(''ProvidingDrives'', [Lit ''ProvidingDrives''], [Get]),
        (''ProvidingVolumes'', [Lit ''ProvidingVolumes''], [Get, Post]),
        (''ProvidingVolumesVolumeId'', [Lit ''ProvidingVolumes'', Var ''VolumeId''], [Get, Put, Delete, Patch])]"

definition Routes_StorageServices_6 :: Routes where
  "Routes_StorageServices_6 =
     under at_root ''StorageServicesStorageServiceIdStoragePoolsStoragePoolIdCapacitySourcesCapacitySourceIdProvidingVolumesVolumeIdActions''
       [Lit ''StorageServices'', Var ''StorageServiceId'', Lit ''StoragePools'', Var ''StoragePoolId'', Lit ''CapacitySources'', Var ''CapacitySourceId'', Lit ''ProvidingVolumes'', Var ''VolumeId'', Lit ''Actions'']
       [(''VolumeAssignReplicaTarget'', [Lit ''Volume.AssignReplicaTarget''], [Post]),
        (''VolumeChangeRAIDLayout'', [Lit ''Volume.ChangeRAIDLayout''], [Post]),
        (''VolumeCheckConsistency'', [Lit ''Volume.CheckConsistency''], [Post]),
        (''VolumeCreateReplicaTarget'', [Lit ''Volume.CreateReplicaTarget''], [Post]),
        (''VolumeForceEnable'', [Lit ''Volume.ForceEnable''], [Post]),
        (''VolumeInitialize'', [Lit ''Volume.Initialize''], [Post]),
        (''VolumeRemoveReplicaRelationship'', [Lit ''Volume.RemoveReplicaRelationship''], [Post]),
        (''VolumeResumeReplication'', [Lit ''Volume.ResumeReplication''], [Post]),
        (''VolumeReverseReplicationRelationship'', [Lit ''Volume.ReverseReplicationRelationship''], [Post]),
        (''VolumeSplitReplication'', [Lit ''Volume.SplitReplication''], [Post]),
        (''VolumeSuspendReplication'', [Lit ''Volume.SuspendReplication''], [Post])]"

definition Routes_StorageServices_7 :: Routes where
  "Routes_StorageServices_7 =
     under at_root ''StorageServicesStorageServiceIdVolumes''
       [Lit ''StorageServices'', Var ''StorageServiceId'', Lit ''Volumes'']
       [('''', [], [Get, Post]),
        (''VolumeId'', [Var ''VolumeId''], [Get, Put, Delete, Patch]),
        (''VolumeIdActionsVolumeAssignReplicaTarget'', [Var ''VolumeId'', Lit ''Actions'', Lit ''Volume.AssignReplicaTarget''], [Post]),
        (''VolumeIdActionsVolumeChangeRAIDLayout'', [Var ''VolumeId'', Lit ''Actions'', Lit ''Volume.ChangeRAIDLayout''], [Post]),
        (''VolumeIdActionsVolumeCheckConsistency'', [Var ''VolumeId'', Lit ''Actions'', Lit ''Volume.CheckConsistency''], [Post]),
        (''VolumeIdActionsVolumeCreateReplicaTarget'', [Var ''VolumeId'', Lit ''Actions'', Lit ''Volume.CreateReplicaTarget''], [Post]),
        (''VolumeIdActionsVolumeForceEnable'', [Var ''VolumeId'', Lit ''Actions'', Lit ''Volume.ForceEnable''], [Post]),
        (''VolumeIdActionsVolumeInitialize'', [Var ''VolumeId'', Lit ''Actions'', Lit ''Volume.Initialize''], [Post]),
        (''VolumeIdActionsVolumeRemoveReplicaRelationship'', [Var ''VolumeId'', Lit ''Actions'', Lit ''Volume.RemoveReplicaRelationship''], [Post]),
        (''VolumeIdActionsVolumeResumeReplication'', [Var ''VolumeId'', Lit ''Actions'', Lit ''Volume.ResumeReplication''], [Post]),
        (''VolumeIdActionsVolumeReverseReplicationRelationship'', [Var ''VolumeId'', Lit ''Actions'', Lit ''Volume.ReverseReplicationRelationship''], [Post]),
        (''VolumeIdActionsVolumeSplitReplication'', [Var ''VolumeId'', Lit ''Actions'', Lit ''Volume.SplitReplication''], [Post]),
        (''VolumeIdActionsVolumeSuspendReplication'', [Var ''VolumeId'', Lit ''Actions'', Lit ''Volume.SuspendReplication''], [Post]),
        (''VolumeIdCapacitySourcesCapacitySourceIdProvidingDrives'', [Var ''VolumeId'', Lit ''CapacitySources'', Var ''CapacitySourceId'', Lit ''ProvidingDrives''], [Get]),
        (''VolumeIdCapacitySourcesCapacitySourceIdProvidingVolumes'', [Var ''VolumeId'', Lit ''CapacitySources'', Var ''CapacitySourceId'', Lit ''ProvidingVolumes''], [Get, Post]),
        (''VolumeIdCapacitySourcesCapacitySourceIdProvidingVolumesProvidingVolumeId'', [Var ''VolumeId'', Lit ''CapacitySources'', Var ''CapacitySourceId'', Lit ''ProvidingVolumes'', Var ''ProvidingVolumeId''], [Get, Put, Delete, Patch])]"

definition Routes_StorageServices_8 :: Routes where
  "Routes_StorageServices_8 =
     under at_root ''StorageServicesStorageServiceIdVolumesVolumeIdCapacitySourcesCapacitySourceIdProvidingVolumesProvidingVolumeIdActions''
       [Lit ''StorageServices'', Var ''StorageServiceId'', Lit ''Volumes'', Var ''VolumeId'', Lit ''CapacitySources'', Var ''CapacitySourceId'', Lit ''ProvidingVolumes'', Var ''ProvidingVolumeId'', Lit ''Actions'']
       [(''VolumeAssignReplicaTarget'', [Lit ''Volume.AssignReplicaTarget''], [Post]),
        (''VolumeChangeRAIDLayout'', [Lit ''Volume.ChangeRAIDLayout''], [Post]),
        (''VolumeCheckConsistency'', [Lit ''Volume.CheckConsistency''], [Post]),
        (''VolumeCreateReplicaTarget'', [Lit ''Volume.CreateReplicaTarget''], [Post]),
        (''VolumeForceEnable'', [Lit ''Volume.ForceEnable''], [Post]),
        (''VolumeInitialize'', [Lit ''Volume.Initialize''], [Post]),
        (''VolumeRemoveReplicaRelationship'', [Lit ''Volume.RemoveReplicaRelationship''], [Post]),
        (''VolumeResumeReplication'', [Lit ''Volume.ResumeReplication''], [Post]),
        (''VolumeReverseReplicationRelationship'', [Lit ''Volume.ReverseReplicationRelationship''], [Post]),
        (''VolumeSplitReplication'', [Lit ''Volume.SplitReplication''], [Post]),
        (''VolumeSuspendReplication'', [Lit ''Volume.SuspendReplication''], [Post])]"

definition Routes_ThermalEquipment_1 :: Routes where
  "Routes_ThermalEquipment_1 =
     under at_root ''ThermalEquipment''
       [Lit ''ThermalEquipment'']
       [('''', [], [Get]),
        (''CDUs'', [Lit ''CDUs''], [Get])]"

definition Routes_ThermalEquipment_2 :: Routes where
  "Routes_ThermalEquipment_2 =
     under at_root ''ThermalEquipmentCDUsCoolingUnitId''
       [Lit ''ThermalEquipment'', Lit ''CDUs'', Var ''CoolingUnitId'']
       [('''', [], [Get, Put, Patch]),
        (''Assembly'', [Lit ''Assembly''], [Get, Put, Patch]),
        (''EnvironmentMetrics'', [Lit ''EnvironmentMetrics''], [Get, Put, Patch]),
        (''EnvironmentMetricsActionsEnvironmentMetricsResetMetrics'', [Lit ''EnvironmentMetrics'', Lit ''Actions'', Lit ''EnvironmentMetrics.ResetMetrics''], [Post]),
        (''EnvironmentMetricsActionsEnvironmentMetricsResetToDefaults'', [Lit ''EnvironmentMetrics'', Lit ''Actions'', Lit ''EnvironmentMetrics.ResetToDefaults''], [Post]),
        (''Filters'', [Lit ''Filters''], [Get]),
        (''FiltersFilterId'', [Lit ''Filters'', Var ''FilterId''], [Get, Put, Patch]),
        (''FiltersFilterIdAssembly'', [Lit ''Filters'', Var ''FilterId'', Lit ''Assembly''], [Get, Put, Patch]),
        (''LeakDetection'', [Lit ''LeakDetection''], [Get]),
        (''LeakDetectionLeakDetectors'', [Lit ''LeakDetection'', Lit ''LeakDetectors''], [Get]),
        (''LeakDetectionLeakDetectorsLeakDetectorId'', [Lit ''LeakDetection'', Lit ''LeakDetectors'', Var ''LeakDetectorId''], [Get]),
        (''PrimaryCoolantConnectors'', [Lit ''PrimaryCoolantConnectors''], [Get]),
        (''PrimaryCoolantConnectorsCoolantConnectorId'', [Lit ''PrimaryCoolantConnectors'', Var ''CoolantConnectorId''], [Get, Put, Patch]),
        (''Pumps'', [Lit ''Pumps''], [Get]),
        (''PumpsPumpId'', [Lit ''Pumps'', Var ''PumpId''], [Get, Put, Patch])]"

definition Routes_ThermalEquipment_3 :: Routes where
  "Routes_ThermalEquipment_3 =
     under at_root ''ThermalEquipmentCDUsCoolingUnitId''
       [Lit ''ThermalEquipment'', Lit ''CDUs'', Var ''CoolingUnitId'']
       [(''PumpsPumpIdAssembly'', [Lit ''Pumps'', Var ''PumpId'', Lit ''Assembly''], [Get, Put, Patch]),
        (''PumpsPumpIdFilters'', [Lit ''Pumps'', Var ''PumpId'', Lit ''Filters''], [Get]),
        (''PumpsPumpIdFiltersFilterId'', [Lit ''Pumps'', Var ''PumpId'', Lit ''Filters'', Var ''FilterId''], [Get, Put, Patch]),
        (''PumpsPumpIdFiltersFilterIdAssembly'', [Lit ''Pumps'', Var ''PumpId'', Lit ''Filters'', Var ''FilterId'', Lit ''Assembly''], [Get, Put, Patch]),
        (''Reservoirs'', [Lit ''Reservoirs''], [Get]),
        (''ReservoirsReservoirId'', [Lit ''Reservoirs'', Var ''ReservoirId''], [Get, Put, Patch]),
        (''ReservoirsReservoirIdAssembly'', [Lit ''Reservoirs'', Var ''ReservoirId'', Lit ''Assembly''], [Get, Put, Patch]),
        (''ReservoirsReservoirIdFilters'', [Lit ''Reservoirs'', Var ''ReservoirId'', Lit ''Filters''], [Get]),
        (''ReservoirsReservoirIdFiltersFilterId'', [Lit ''Reservoirs'', Var ''ReservoirId'', Lit ''Filters'', Var ''FilterId''], [Get, Put, Patch]),
        (''ReservoirsReservoirIdFiltersFilterIdAssembly'', [Lit ''Reservoirs'', Var ''ReservoirId'', Lit ''Filters'', Var ''FilterId'', Lit ''Assembly''], [Get, Put, Patch]),
        (''SecondaryCoolantConnectors'', [Lit ''SecondaryCoolantConnectors''], [Get]),
        (''SecondaryCoolantConnectorsCoolantConnectorId'', [Lit ''SecondaryCoolantConnectors'', Var ''CoolantConnectorId''], [Get, Put, Patch])]"

definition Routes_ThermalEquipment_4 :: Routes where
  "Routes_ThermalEquipment_4 =
     under at_root ''ThermalEquipment''
       [Lit ''ThermalEquipment'']
       [(''CoolingLoops'', [Lit ''CoolingLoops''], [Get]),
        (''CoolingLoopsCoolingLoopId'', [Lit ''CoolingLoops'', Var ''CoolingLoopId''], [Get, Put, Patch]),
        (''CoolingLoopsCoolingUnitIdPrimaryCoolantConnectors'', [Lit ''CoolingLoops'', Var ''CoolingUnitId'', Lit ''PrimaryCoolantConnectors''], [Get]),
        (''CoolingLoopsCoolingUnitIdPrimaryCoolantConnectorsCoolantConnectorId'', [Lit ''CoolingLoops'', Var ''CoolingUnitId'', Lit ''PrimaryCoolantConnectors'', Var ''CoolantConnectorId''], [Get, Put, Patch]),
        (''CoolingLoopsCoolingUnitIdSecondaryCoolantConnectors'', [Lit ''CoolingLoops'', Var ''CoolingUnitId'', Lit ''SecondaryCoolantConnectors''], [Get]),
        (''CoolingLoopsCoolingUnitIdSecondaryCoolantConnectorsCoolantConnectorId'', [Lit ''CoolingLoops'', Var ''CoolingUnitId'', Lit ''SecondaryCoolantConnectors'', Var ''CoolantConnectorId''], [Get, Put, Patch]),
        (''HeatExchangers'', [Lit ''HeatExchangers''], [Get])]"

definition Routes_ThermalEquipment_5 :: Routes where
  "Routes_ThermalEquipment_5 =
     under at_root ''ThermalEquipmentHeatExchangersCoolingUnitId''
       [Lit ''ThermalEquipment'', Lit ''HeatExchangers'', Var ''CoolingUnitId'']
       [('''', [], [Get, Put, Patch]),
        (''Assembly'', [Lit ''Assembly''], [Get, Put, Patch]),
        (''EnvironmentMetrics'', [Lit ''EnvironmentMetrics''], [Get, Put, Patch]),
        (''EnvironmentMetricsActionsEnvironmentMetricsResetMetrics'', [Lit ''EnvironmentMetrics'', Lit ''Actions'', Lit ''EnvironmentMetrics.ResetMetrics''], [Post]),
        (''EnvironmentMetricsActionsEnvironmentMetricsResetToDefaults'', [Lit ''EnvironmentMetrics'', Lit ''Actions'', Lit ''EnvironmentMetrics.ResetToDefaults''], [Post]),
        (''Filters'', [Lit ''Filters''], [Get]),
        (''FiltersFilterId'', [Lit ''Filters'', Var ''FilterId''], [Get, Put, Patch]),
        (''FiltersFilterIdAssembly'', [Lit ''Filters'', Var ''FilterId'', Lit ''Assembly''], [Get, Put, Patch]),
        (''LeakDetection'', [Lit ''LeakDetection''], [Get])]"

definition leak_detectors_slash :: "string \<times> Route" where
  "leak_detectors_slash =
     (''RedfishV1ThermalEquipmentHeatExchangersCoolingUnitIdLeakDetectionLeakDetectorsGet'',
      \<lparr>rt_Method = ''GET'', rt_Pattern =
         [Lit ''redfish'', Lit ''v1'', Lit ''ThermalEquipment'', Lit ''HeatExchangers'', Var ''CoolingUnitId'', Lit ''LeakDetection'', Lit ''LeakDetectors''],
       rt_Slash = True, rt_HandlerFunc = ''RedfishV1ThermalEquipmentHeatExchangersCoolingUnitIdLeakDetectionLeakDetectorsGet''\<rparr>)"

definition Routes_ThermalEquipment_6 :: Routes where
  "Routes_ThermalEquipment_6 =
     under at_root ''ThermalEquipmentHeatExchangersCoolingUnitId''
       [Lit ''ThermalEquipment'', Lit ''HeatExchangers'', Var ''CoolingUnitId'']
       [(''LeakDetectionLeakDetectorsLeakDetectorId'', [Lit ''LeakDetection'', Lit ''LeakDetectors'', Var ''LeakDetectorId''], [Get]),
        (''PrimaryCoolantConnectors'', [Lit ''PrimaryCoolantConnectors''], [Get]),
        (''PrimaryCoolantConnectorsCoolantConnectorId'', [Lit ''PrimaryCoolantConnectors'', Var ''CoolantConnectorId''], [Get, Put, Patch]),
        (''Pumps'', [Lit ''Pumps''], [Get]),
        (''PumpsPumpId'', [Lit ''Pumps'', Var ''PumpId''], [Get, Put, Patch]),
        (''PumpsPumpIdAssembly'', [Lit ''Pumps'', Var ''PumpId'', Lit ''Assembly''], [Get, Put, Patch]),
        (''PumpsPumpIdFilters'', [Lit ''Pumps'', Var ''PumpId'', Lit ''Filters''], [Get]),
        (''PumpsPumpIdFiltersFilterId'', [Lit ''Pumps'', Var ''PumpId'', Lit ''Filters'', Var ''FilterId''], [Get, Put, Patch]),
        (''PumpsPumpIdFiltersFilterIdAssembly'', [Lit ''Pumps'', Var ''PumpId'', Lit ''Filters'', Var ''FilterId'', Lit ''Assembly''], [Get, Put, Patch]),
        (''Reservoirs'', [Lit ''Reservoirs''], [Get]),
        (''ReservoirsReservoirId'', [Lit ''Reservoirs'', Var ''ReservoirId''], [Get, Put, Patch]),
        (''ReservoirsReservoirIdAssembly'', [Lit ''Reservoirs'', Var ''ReservoirId'', Lit ''Assembly''], [Get, Put, Patch]),
        (''ReservoirsReservoirIdFilters'', [Lit ''Reservoirs'', Var ''ReservoirId'', Lit ''Filters''], [Get]),
        (''ReservoirsReservoirIdFiltersFilterId'', [Lit ''Reservoirs'', Var ''ReservoirId'', Lit ''Filters'', Var ''FilterId''], [Get, Put, Patch])]"

definition Routes_ThermalEquipment_7 :: Routes where
  "Routes_ThermalEquipment_7 =
     under at_root ''ThermalEquipment''
       [Lit ''ThermalEquipment'']
       [(''HeatExchangersCoolingUnitIdReservoirsReservoirIdFiltersFilterIdAssembly'', [Lit ''HeatExchangers'', Var ''CoolingUnitId'', Lit ''Reservoirs'', Var ''ReservoirId'', Lit ''Filters'', Var ''FilterId'', Lit ''Assembly''], [Get, Put, Patch]),
        (''HeatExchangersCoolingUnitIdSecondaryCoolantConnectors'', [Lit ''HeatExchangers'', Var ''CoolingUnitId'', Lit ''SecondaryCoolantConnectors''], [Get]),
        (''HeatExchangersCoolingUnitIdSecondaryCoolantConnectorsCoolantConnectorId'', [Lit ''HeatExchangers'', Var ''CoolingUnitId'', Lit ''SecondaryCoolantConnectors'', Var ''CoolantConnectorId''], [Get, Put, Patch]),
        (''ImmersionUnits'', [Lit ''ImmersionUnits''], [Get])]"

definition Routes_ThermalEquipment_8 :: Routes where
  "Routes_ThermalEquipment_8 =
     under at_root ''ThermalEquipmentImmersionUnitsCoolingUnitId''
       [Lit ''ThermalEquipment'', Lit ''ImmersionUnits'', Var ''CoolingUnitId'']
       [('''', [], [Get, Put, Patch]),
        (''Assembly'', [Lit ''Assembly''], [Get, Put, Patch]),
        (''EnvironmentMetrics'', [Lit ''EnvironmentMetrics''], [Get, Put, Patch]),
        (''EnvironmentMetricsActionsEnvironmentMetricsResetMetrics'', [Lit ''EnvironmentMetrics'', Lit ''Actions'', Lit ''EnvironmentMetrics.ResetMetrics''], [Post]),
        (''EnvironmentMetricsActionsEnvironmentMetricsResetToDefaults'', [Lit ''EnvironmentMetrics'', Lit ''Actions'', Lit ''EnvironmentMetrics.ResetToDefaults''], [Post]),
        (''Filters'', [Lit ''Filters''], [Get]),
        (''FiltersFilterId'', [Lit ''Filters'', Var ''FilterId''], [Get, Put, Patch]),
        (''FiltersFilterIdAssembly'', [Lit ''Filters'', Var ''FilterId'', Lit ''Assembly''], [Get, Put, Patch]),
        (''LeakDetection'', [Lit ''LeakDetection''], [Get]),
        (''LeakDetectionLeakDetectors'', [Lit ''LeakDetection'', Lit ''LeakDetectors''], [Get]),
        (''LeakDetectionLeakDetectorsLeakDetectorId'', [Lit ''LeakDetection'', Lit ''LeakDetectors'', Var ''LeakDetectorId''], [Get]),
        (''PrimaryCoolantConnectors'', [Lit ''PrimaryCoolantConnectors''], [Get]),
        (''PrimaryCoolantConnectorsCoolantConnectorId'', [Lit ''PrimaryCoolantConnectors'', Var ''CoolantConnectorId''], [Get, Put, Patch]),
        (''Pumps'', [Lit ''Pumps''], [Get]),
        (''PumpsPumpId'', [Lit ''Pumps'', Var ''PumpId''], [Get, Put, Patch])]"

definition Routes_ThermalEquipment_9 :: Routes where
  "Routes_ThermalEquipment_9 =
     under at_root ''ThermalEquipmentImmersionUnitsCoolingUnitId''
       [Lit ''ThermalEquipment'', Lit ''ImmersionUnits'', Var ''CoolingUnitId'']
       [(''PumpsPumpIdAssembly'', [Lit ''Pumps'', Var ''PumpId'', Lit ''Assembly''], [Get, Put, Patch]),
        (''PumpsPumpIdFilters'', [Lit ''Pumps'', Var ''PumpId'', Lit ''Filters''], [Get]),
        (''PumpsPumpIdFiltersFilterId'', [Lit ''Pumps'', Var ''PumpId'', Lit ''Filters'', Var ''FilterId''], [Get, Put, Patch]),
        (''PumpsPumpIdFiltersFilterIdAssembly'', [Lit ''Pumps'', Var ''PumpId'', Lit ''Filters'', Var ''FilterId'', Lit ''Assembly''], [Get, Put, Patch]),
        (''Reservoirs'', [Lit ''Reservoirs''], [Get]),
        (''ReservoirsReservoirId'', [Lit ''Reservoirs'', Var ''ReservoirId''], [Get, Put, Patch]),
        (''ReservoirsReservoirIdAssembly'', [Lit ''Reservoirs'', Var ''ReservoirId'', Lit ''Assembly''], [Get, Put, Patch]),
        (''ReservoirsReservoirIdFilters'', [Lit ''Reservoirs'', Var ''ReservoirId'', Lit ''Filters''], [Get]),
        (''ReservoirsReservoirIdFiltersFilterId'', [Lit ''Reservoirs'', Var ''ReservoirId'', Lit ''Filters'', Var ''FilterId''], [Get, Put, Patch]),
        (''ReservoirsReservoirIdFiltersFilterIdAssembly'', [Lit ''Reservoirs'', Var ''ReservoirId'', Lit ''Filters'', Var ''FilterId'', Lit ''Assembly''], [Get, Put, Patch]),
        (''SecondaryCoolantConnectors'', [Lit ''SecondaryCoolantConnectors''], [Get]),
        (''SecondaryCoolantConnectorsCoolantConnectorId'', [Lit ''SecondaryCoolantConnectors'', Var ''CoolantConnectorId''], [Get, Put, Patch])]"

definition plant_routes :: Routes where
  "plant_routes = concat
     [Routes_Managers_1, Routes_Managers_2, Routes_Managers_3, Routes_Managers_4, Routes_Managers_5,
      Routes_Managers_6, Routes_Managers_7, Routes_Managers_8, Routes_Managers_9, Routes_Managers_10,
      Routes_Managers_11, Routes_Managers_12, Routes_Managers_13, Routes_Managers_14, Routes_Managers_15,
      Routes_PowerEquipment_1, Routes_PowerEquipment_2, Routes_PowerEquipment_3, Routes_PowerEquipment_4,
      Routes_PowerEquipment_5, Routes_PowerEquipment_6, Routes_PowerEquipment_7, Routes_PowerEquipment_8,
      Routes_PowerEquipment_9, Routes_PowerEquipment_10, Routes_PowerEquipment_11,
      Routes_PowerEquipment_12, Routes_PowerEquipment_13, Routes_Storage_1, Routes_Storage_2,
      Routes_Storage_3, Routes_Storage_4, Routes_Storage_5, Routes_Storage_6, Routes_Storage_7,
      Routes_Storage_8, Routes_Storage_9, Routes_Storage_10, Routes_Storage_11, Routes_StorageServices_1,
      Routes_StorageServices_2, Routes_StorageServices_3, Routes_StorageServices_4,
      Routes_StorageServices_5, Routes_StorageServices_6, Routes_StorageServices_7,
      Routes_StorageServices_8, Routes_ThermalEquipment_1, Routes_ThermalEquipment_2,
      Routes_ThermalEquipment_3, Routes_ThermalEquipment_4, Routes_ThermalEquipment_5,
      [leak_detectors_slash], Routes_ThermalEquipment_6, Routes_ThermalEquipment_7,
      Routes_ThermalEquipment_8, Routes_ThermalEquipment_9]"

lemma Managers_1_settled: "list_all settled Routes_Managers_1"
  unfolding Routes_Managers_1_def
  by (rule settled_decided, simp add: settled_near)

lemma Managers_2_settled: "list_all settled Routes_Managers_2"
  unfolding Routes_Managers_2_def
  by (rule settled_decided, simp add: settled_near)

lemma Managers_3_settled: "list_all settled Routes_Managers_3"
  unfolding Routes_Managers_3_def
  by (rule settled_foreign_rows, (rule parting | (simp; fail))+)

lemma Managers_4_settled: "list_all settled Routes_Managers_4"
  unfolding Routes_Managers_4_def
  by (rule settled_foreign_rows, (rule parting | (simp; fail))+)

lemma Managers_5_settled: "list_all settled Routes_Managers_5"
  unfolding Routes_Managers_5_def
  by (rule settled_foreign_rows, (rule parting | (simp; fail))+)

lemma Managers_6_settled: "list_all settled Routes_Managers_6"
  unfolding Routes_Managers_6_def
  by (rule settled_foreign, (rule parting | (simp; fail))+)

lemma Managers_7_settled: "list_all settled Routes_Managers_7"
  unfolding Routes_Managers_7_def
  by (rule settled_foreign, (rule parting | (simp; fail))+)

lemma Managers_8_settled: "list_all settled Routes_Managers_8"
  unfolding Routes_Managers_8_def
  by (rule settled_foreign, (rule parting | (simp; fail))+)

lemma Managers_9_settled: "list_all settled Routes_Managers_9"
  unfolding Routes_Managers_9_def
  by (rule settled_foreign, (rule parting | (simp; fail))+)

lemma Managers_10_settled: "list_all settled Routes_Managers_10"
  unfolding Routes_Managers_10_def
  by (rule settled_foreign, (rule parting | (simp; fail))+)

lemma Managers_11_settled: "list_all settled Routes_Managers_11"
  unfolding Routes_Managers_11_def
  by (rule settled_foreign_rows, (rule parting | (simp; fail))+)

lemma Managers_12_settled: "list_all settled Routes_Managers_12"
  unfolding Routes_Managers_12_def
  by (rule settled_decided, simp add: settled_near)

lemma Managers_13_settled: "list_all settled Routes_Managers_13"
  unfolding Routes_Managers_13_def
  by (rule settled_decided, simp add: settled_near)

lemma Managers_14_settled: "list_all settled Routes_Managers_14"
  unfolding Routes_Managers_14_def
  by (rule settled_decided, simp add: settled_near)

lemma Managers_15_settled: "list_all settled Routes_Managers_15"
  unfolding Routes_Managers_15_def
  by (rule settled_decided, simp add: settled_near)

lemma PowerEquipment_1_settled: "list_all settled Routes_PowerEquipment_1"
  unfolding Routes_PowerEquipment_1_def
  by (rule settled_foreign, (rule parting | (simp; fail))+)

lemma PowerEquipment_2_settled: "list_all settled Routes_PowerEquipment_2"
  unfolding Routes_PowerEquipment_2_def
  by (rule settled_foreign, (rule parting | (simp; fail))+)

lemma PowerEquipment_3_settled: "list_all settled Routes_PowerEquipment_3"
  unfolding Routes_PowerEquipment_3_def
  by (rule settled_foreign, (rule parting | (simp; fail))+)

lemma PowerEquipment_4_settled: "list_all settled Routes_PowerEquipment_4"
  unfolding Routes_PowerEquipment_4_def
  by (rule settled_foreign, (rule parting | (simp; fail))+)

lemma PowerEquipment_5_settled: "list_all settled Routes_PowerEquipment_5"
  unfolding Routes_PowerEquipment_5_def
  by (rule settled_foreign, (rule parting | (simp; fail))+)

lemma PowerEquipment_6_settled: "list_all settled Routes_PowerEquipment_6"
  unfolding Routes_PowerEquipment_6_def
  by (rule settled_foreign, (rule parting | (simp; fail))+)

lemma PowerEquipment_7_settled: "list_all settled Routes_PowerEquipment_7"
  unfolding Routes_PowerEquipment_7_def
  by (rule settled_foreign, (rule parting | (simp; fail))+)

lemma PowerEquipment_8_settled: "list_all settled Routes_PowerEquipment_8"
  unfolding Routes_PowerEquipment_8_def
  by (rule settled_foreign, (rule parting | (simp; fail))+)

lemma PowerEquipment_9_settled: "list_all settled Routes_PowerEquipment_9"
  unfolding Routes_PowerEquipment_9_def
  by (rule settled_foreign, (rule parting | (simp; fail))+)

lemma PowerEquipment_10_settled: "list_all settled Routes_PowerEquipment_10"
  unfolding Routes_PowerEquipment_10_def
  by (rule settled_foreign, (rule parting | (simp; fail))+)

lemma PowerEquipment_11_settled: "list_all settled Routes_PowerEquipment_11"
  unfolding Routes_PowerEquipment_11_def
  by (rule settled_foreign, (rule parting | (simp; fail))+)

lemma PowerEquipment_12_settled: "list_all settled Routes_PowerEquipment_12"
  unfolding Routes_PowerEquipment_12_def
  by (rule settled_foreign, (rule parting | (simp; fail))+)

lemma PowerEquipment_13_settled: "list_all settled Routes_PowerEquipment_13"
  unfolding Routes_PowerEquipment_13_def
  by (rule settled_foreign, (rule parting | (simp; fail))+)

lemma Storage_1_settled: "list_all settled Routes_Storage_1"
  unfolding Routes_Storage_1_def
  by (rule settled_foreign, (rule parting | (simp; fail))+)

lemma Storage_2_settled: "list_all settled Routes_Storage_2"
  unfolding Routes_Storage_2_def
  by (rule settled_foreign, (rule parting | (simp; fail))+)

lemma Storage_3_settled: "list_all settled Routes_Storage_3"
  unfolding Routes_Storage_3_def
  by (rule settled_foreign, (rule parting | (simp; fail))+)

lemma Storage_4_settled: "list_all settled Routes_Storage_4"
  unfolding Routes_Storage_4_def
  by (rule settled_foreign, (rule parting | (simp; fail))+)

lemma Storage_5_settled: "list_all settled Routes_Storage_5"
  unfolding Routes_Storage_5_def
  by (rule settled_foreign, (rule parting | (simp; fail))+)

lemma Storage_6_settled: "list_all settled Routes_Storage_6"
  unfolding Routes_Storage_6_def
  by (rule settled_foreign, (rule parting | (simp; fail))+)

lemma Storage_7_settled: "list_all settled Routes_Storage_7"
  unfolding Routes_Storage_7_def
  by (rule settled_foreign, (rule parting | (simp; fail))+)

lemma Storage_8_settled: "list_all settled Routes_Storage_8"
  unfolding Routes_Storage_8_def
  by (rule settled_foreign, (rule parting | (simp; fail))+)

lemma Storage_9_settled: "list_all settled Routes_Storage_9"
  unfolding Routes_Storage_9_def
  by (rule settled_foreign, (rule parting | (simp; fail))+)

lemma Storage_10_settled: "list_all settled Routes_Storage_10"
  unfolding Routes_Storage_10_def
  by (rule settled_foreign, (rule parting | (simp; fail))+)

lemma Storage_11_settled: "list_all settled Routes_Storage_11"
  unfolding Routes_Storage_11_def
  by (rule settled_foreign, (rule parting | (simp; fail))+)

lemma StorageServices_1_settled: "list_all settled Routes_StorageServices_1"
  unfolding Routes_StorageServices_1_def
  by (rule settled_foreign, (rule parting | (simp; fail))+)

lemma StorageServices_2_settled: "list_all settled Routes_StorageServices_2"
  unfolding Routes_StorageServices_2_def
  by (rule settled_foreign, (rule parting | (simp; fail))+)

lemma StorageServices_3_settled: "list_all settled Routes_StorageServices_3"
  unfolding Routes_StorageServices_3_def
  by (rule settled_foreign, (rule parting | (simp; fail))+)

lemma StorageServices_4_settled: "list_all settled Routes_StorageServices_4"
  unfolding Routes_StorageServices_4_def
  by (rule settled_foreign, (rule parting | (simp; fail))+)

lemma StorageServices_5_settled: "list_all settled Routes_StorageServices_5"
  unfolding Routes_StorageServices_5_def
  by (rule settled_foreign, (rule parting | (simp; fail))+)

lemma StorageServices_6_settled: "list_all settled Routes_StorageServices_6"
  unfolding Routes_StorageServices_6_def
  by (rule settled_foreign, (rule parting | (simp; fail))+)

lemma StorageServices_7_settled: "list_all settled Routes_StorageServices_7"
  unfolding Routes_StorageServices_7_def
  by (rule settled_foreign, (rule parting | (simp; fail))+)

lemma StorageServices_8_settled: "list_all settled Routes_StorageServices_8"
  unfolding Routes_StorageServices_8_def
  by (rule settled_foreign, (rule parting | (simp; fail))+)

lemma ThermalEquipment_1_settled: "list_all settled Routes_ThermalEquipment_1"
  unfolding Routes_ThermalEquipment_1_def
  by (rule settled_foreign, (rule parting | (simp; fail))+)

lemma ThermalEquipment_2_settled: "list_all settled Routes_ThermalEquipment_2"
  unfolding Routes_ThermalEquipment_2_def
  by (rule settled_foreign, (rule parting | (simp; fail))+)

lemma ThermalEquipment_3_settled: "list_all settled Routes_ThermalEquipment_3"
  unfolding Routes_ThermalEquipment_3_def
  by (rule settled_foreign, (rule parting | (simp; fail))+)

lemma ThermalEquipment_4_settled: "list_all settled Routes_ThermalEquipment_4"
  unfolding Routes_ThermalEquipment_4_def
  by (rule settled_foreign, (rule parting | (simp; fail))+)

lemma ThermalEquipment_5_settled: "list_all settled Routes_ThermalEquipment_5"
  unfolding Routes_ThermalEquipment_5_def
  by (rule settled_foreign, (rule parting | (simp; fail))+)

lemma Leak_settled: "list_all settled [leak_detectors_slash]"
  by (simp add: settled_def clear_entry_def apart_def served_eval leak_detectors_slash_def)

lemma ThermalEquipment_6_settled: "list_all settled Routes_ThermalEquipment_6"
  unfolding Routes_ThermalEquipment_6_def
  by (rule settled_foreign, (rule parting | (simp; fail))+)

lemma ThermalEquipment_7_settled: "list_all settled Routes_ThermalEquipment_7"
  unfolding Routes_ThermalEquipment_7_def
  by (rule settled_foreign, (rule parting | (simp; fail))+)

lemma ThermalEquipment_8_settled: "list_all settled Routes_ThermalEquipment_8"
  unfolding Routes_ThermalEquipment_8_def
  by (rule settled_foreign, (rule parting | (simp; fail))+)

lemma ThermalEquipment_9_settled: "list_all settled Routes_ThermalEquipment_9"
  unfolding Routes_ThermalEquipment_9_def
  by (rule settled_foreign, (rule parting | (simp; fail))+)

lemma plant_routes_settled: "list_all settled plant_routes"
  unfolding plant_routes_def
  by (intro settled_concat
    Managers_1_settled Managers_2_settled Managers_3_settled Managers_4_settled Managers_5_settled
    Managers_6_settled Managers_7_settled Managers_8_settled Managers_9_settled Managers_10_settled
    Managers_11_settled Managers_12_settled Managers_13_settled Managers_14_settled Managers_15_settled
    PowerEquipment_1_settled PowerEquipment_2_settled PowerEquipment_3_settled PowerEquipment_4_settled
    PowerEquipment_5_settled PowerEquipment_6_settled PowerEquipment_7_settled PowerEquipment_8_settled
    PowerEquipment_9_settled PowerEquipment_10_settled PowerEquipment_11_settled
    PowerEquipment_12_settled PowerEquipment_13_settled Storage_1_settled Storage_2_settled
    Storage_3_settled Storage_4_settled Storage_5_settled Storage_6_settled Storage_7_settled
    Storage_8_settled Storage_9_settled Storage_10_settled Storage_11_settled StorageServices_1_settled
    StorageServices_2_settled StorageServices_3_settled StorageServices_4_settled
    StorageServices_5_settled StorageServices_6_settled StorageServices_7_settled
    StorageServices_8_settled ThermalEquipment_1_settled ThermalEquipment_2_settled
    ThermalEquipment_3_settled ThermalEquipment_4_settled ThermalEquipment_5_settled Leak_settled
    ThermalEquipment_6_settled ThermalEquipment_7_settled ThermalEquipment_8_settled
    ThermalEquipment_9_settled)

end
