(* ===== verification/ControllersPlant.thy ===== *)
theory ControllersPlant
  imports RoutesPlant Operations
begin

text \<open>
  The controllers of power and thermal equipment, managers and storage (api_default.go), group by group of their routes: the
  path variables each requires and the body it decodes and checks.  The variables are those of the
  pattern of its route.
\<close>

definition Controllers_Managers_1a :: operations where
  "Controllers_Managers_1a = ops op_root ''Managers'' []
     [('''', [], Bodiless, [Get])]"

definition Controllers_Managers_2a :: operations where
  "Controllers_Managers_2a = ops op_manager '''' []
     [('''', [], Checked ''ManagerV1190Manager'', [Get, Put, Patch])]"

definition Controllers_Managers_3a :: operations where
  "Controllers_Managers_3a = ops op_manager '''' []
     [(''ActionsManagerForceFailover'', [], Checked ''ManagerV1190ForceFailoverRequestBody'', [Post]),
      (''ActionsManagerModifyRedundancySet'', [], Checked ''ManagerV1190ModifyRedundancySetRequestBody'', [Post]),
      (''ActionsManagerReset'', [], Checked ''ManagerV1190ResetRequestBody'', [Post]),
      (''ActionsManagerResetToDefaults'', [], Checked ''ManagerV1190ResetToDefaultsRequestBody'', [Post]),
      (''Certificates'', [], Bodiless, [Get])]"

definition Controllers_Managers_3b :: operations where
  "Controllers_Managers_3b = ops op_manager '''' []
     [(''Certificates'', [], Checked ''CertificateV181Certificate'', [Post]),
      (''CertificatesCertificateId'', [''CertificateId''], Checked ''CertificateV181Certificate'', [Get, Put, Delete])]"

definition Controllers_Managers_3c :: operations where
  "Controllers_Managers_3c = ops op_manager '''' []
     [(''CertificatesCertificateId'', [''CertificateId''], Checked ''CertificateV181Certificate'', [Patch]),
      (''CertificatesCertificateIdActionsCertificateRekey'', [''CertificateId''], Checked ''CertificateV181RekeyRequestBody'', [Post]),
      (''CertificatesCertificateIdActionsCertificateRenew'', [''CertificateId''], Checked ''CertificateV181RenewRequestBody'', [Post]),
      (''DedicatedNetworkPorts'', [], Bodiless, [Get])]"

definition Controllers_Managers_3d :: operations where
  "Controllers_Managers_3d = ops op_manager '''' []
     [(''DedicatedNetworkPortsPortId'', [''PortId''], Checked ''PortV1110Port'', [Get, Put, Patch]),
      (''DedicatedNetworkPortsPortIdActionsPortReset'', [''PortId''], Checked ''PortV1110ResetRequestBody'', [Post])]"

definition Controllers_Managers_3e :: operations where
  "Controllers_Managers_3e = ops op_manager '''' []
     [(''DedicatedNetworkPortsPortIdActionsPortResetPPB'', [''PortId''], Untyped, [Post]),
      (''DedicatedNetworkPortsPortIdEnvironmentMetrics'', [''PortId''], Checked ''EnvironmentMetricsV131EnvironmentMetrics'', [Get, Put, Patch])]"

definition Controllers_Managers_3f :: operations where
  "Controllers_Managers_3f = ops op_manager '''' []
     [(''DedicatedNetworkPortsPortIdEnvironmentMetricsActionsEnvironmentMetricsResetMetrics'', [''PortId''], Untyped, [Post]),
      (''DedicatedNetworkPortsPortIdEnvironmentMetricsActionsEnvironmentMetricsResetToDefaults'', [''PortId''], Untyped, [Post]),
      (''DedicatedNetworkPortsPortIdMetrics'', [''PortId''], Bodiless, [Get]),
      (''EthernetInterfaces'', [], Checked ''EthernetInterfaceV1120EthernetInterface'', [Get, Post])]"

definition Controllers_Managers_3g :: operations where
  "Controllers_Managers_3g = ops op_manager '''' []
     [(''EthernetInterfacesEthernetInterfaceId'', [''EthernetInterfaceId''], Checked ''EthernetInterfaceV1120EthernetInterface'', [Get, Put, Delete, Patch])]"

definition Controllers_Managers_4a :: operations where
  "Controllers_Managers_4a = ops op_manager '''' []
     [(''EthernetInterfacesEthernetInterfaceIdVLANs'', [''EthernetInterfaceId''], Checked ''VLanNetworkInterfaceV130VLanNetworkInterface'', [Get, Post]),
      (''EthernetInterfacesEthernetInterfaceIdVLANsVLanNetworkInterfaceId'', [''EthernetInterfaceId'', ''VLanNetworkInterfaceId''], Checked ''VLanNetworkInterfaceV130VLanNetworkInterface'', [Get, Put])]"

definition Controllers_Managers_4b :: operations where
  "Controllers_Managers_4b = ops op_manager '''' []
     [(''EthernetInterfacesEthernetInterfaceIdVLANsVLanNetworkInterfaceId'', [''EthernetInterfaceId'', ''VLanNetworkInterfaceId''], Checked ''VLanNetworkInterfaceV130VLanNetworkInterface'', [Delete, Patch]),
      (''HostInterfaces'', [], Bodiless, [Get]),
      (''HostInterfacesHostInterfaceId'', [''HostInterfaceId''], Bodiless, [Get])]"

definition Controllers_Managers_4c :: operations where
  "Controllers_Managers_4c = ops op_manager '''' []
     [(''HostInterfacesHostInterfaceId'', [''HostInterfaceId''], Checked ''HostInterfaceV131HostInterface'', [Put, Patch]),
      (''HostInterfacesHostInterfaceIdHostEthernetInterfaces'', [''HostInterfaceId''], Checked ''EthernetInterfaceV1120EthernetInterface'', [Get, Post])]"

definition Controllers_Managers_4d :: operations where
  "Controllers_Managers_4d = ops op_manager '''' []
     [(''LogServices'', [], Bodiless, [Get]),
      (''LogServicesLogServiceId'', [''LogServiceId''], Checked ''LogServiceV160LogService'', [Get, Put, Patch])]"

definition Controllers_Managers_4e :: operations where
  "Controllers_Managers_4e = ops op_manager '''' []
     [(''LogServicesLogServiceIdActionsLogServiceClearLog'', [''LogServiceId''], Checked ''LogServiceV160ClearLogRequestBody'', [Post]),
      (''LogServicesLogServiceIdActionsLogServiceCollectDiagnosticData'', [''LogServiceId''], Checked ''LogServiceV160CollectDiagnosticDataRequestBody'', [Post]),
      (''LogServicesLogServiceIdActionsLogServicePushDiagnosticData'', [''LogServiceId''], Checked ''LogServiceV160PushDiagnosticDataRequestBody'', [Post]),
      (''LogServicesLogServiceIdEntries'', [''LogServiceId''], Bodiless, [Get])]"

definition Controllers_Managers_4f :: operations where
  "Controllers_Managers_4f = ops op_manager '''' []
     [(''LogServicesLogServiceIdEntries'', [''LogServiceId''], Checked ''LogEntryV1160LogEntry'', [Post]),
      (''LogServicesLogServiceIdEntriesLogEntryId'', [''LogServiceId'', ''LogEntryId''], Checked ''LogEntryV1160LogEntry'', [Get, Put, Delete])]"

definition Controllers_Managers_4g :: operations where
  "Controllers_Managers_4g = ops op_manager '''' []
     [(''LogServicesLogServiceIdEntriesLogEntryId'', [''LogServiceId'', ''LogEntryId''], Checked ''LogEntryV1160LogEntry'', [Patch]),
      (''ManagerDiagnosticData'', [], Bodiless, [Get]),
      (''ManagerDiagnosticDataActionsManagerDiagnosticDataResetMetrics'', [], Untyped, [Post]),
      (''NetworkProtocol'', [], Checked ''ManagerNetworkProtocolV1100ManagerNetworkProtocol'', [Get, Put])]"

definition Controllers_Managers_4h :: operations where
  "Controllers_Managers_4h = ops op_manager '''' []
     [(''NetworkProtocol'', [], Checked ''ManagerNetworkProtocolV1100ManagerNetworkProtocol'', [Patch])]"

definition Controllers_Managers_5a :: operations where
  "Controllers_Managers_5a = ops op_manager '''' []
     [(''NetworkProtocolHTTPSCertificates'', [], Checked ''CertificateV181Certificate'', [Get, Post]),
      (''NetworkProtocolHTTPSCertificatesCertificateId'', [''CertificateId''], Checked ''CertificateV181Certificate'', [Get, Put, Delete])]"

definition Controllers_Managers_5b :: operations where
  "Controllers_Managers_5b = ops op_manager '''' []
     [(''NetworkProtocolHTTPSCertificatesCertificateId'', [''CertificateId''], Checked ''CertificateV181Certificate'', [Patch]),
      (''NetworkProtocolHTTPSCertificatesCertificateIdActionsCertificateRekey'', [''CertificateId''], Checked ''CertificateV181RekeyRequestBody'', [Post]),
      (''NetworkProtocolHTTPSCertificatesCertificateIdActionsCertificateRenew'', [''CertificateId''], Checked ''CertificateV181RenewRequestBody'', [Post]),
      (''RemoteAccountService'', [], Bodiless, [Get])]"

definition Controllers_Managers_5c :: operations where
  "Controllers_Managers_5c = ops op_manager '''' []
     [(''RemoteAccountService'', [], Checked ''AccountServiceV1150AccountService'', [Put, Patch]),
      (''RemoteAccountServiceAccounts'', [], Checked ''ManagerAccountV1120ManagerAccount'', [Get, Post])]"

definition Controllers_Managers_6a :: operations where
  "Controllers_Managers_6a = ops op_manager ''RemoteAccountServiceAccountsManagerAccountId'' [''ManagerAccountId'']
     [('''', [], Checked ''ManagerAccountV1120ManagerAccount'', [Get, Put, Delete, Patch])]"

definition Controllers_Managers_6b :: operations where
  "Controllers_Managers_6b = ops op_manager ''RemoteAccountServiceAccountsManagerAccountId'' [''ManagerAccountId'']
     [(''ActionsManagerAccountChangePassword'', [], Checked ''ManagerAccountV1120ChangePasswordRequestBody'', [Post]),
      (''Certificates'', [], Checked ''CertificateV181Certificate'', [Get, Post]),
      (''CertificatesCertificateId'', [''CertificateId''], Bodiless, [Get])]"

definition Controllers_Managers_6c :: operations where
  "Controllers_Managers_6c = ops op_manager ''RemoteAccountServiceAccountsManagerAccountId'' [''ManagerAccountId'']
     [(''CertificatesCertificateId'', [''CertificateId''], Checked ''CertificateV181Certificate'', [Put, Delete, Patch])]"

definition Controllers_Managers_6d :: operations where
  "Controllers_Managers_6d = ops op_manager ''RemoteAccountServiceAccountsManagerAccountId'' [''ManagerAccountId'']
     [(''CertificatesCertificateIdActionsCertificateRekey'', [''CertificateId''], Checked ''CertificateV181RekeyRequestBody'', [Post]),
      (''CertificatesCertificateIdActionsCertificateRenew'', [''CertificateId''], Checked ''CertificateV181RenewRequestBody'', [Post]),
      (''Keys'', [], Checked ''KeyV140Key'', [Get, Post])]"

definition Controllers_Managers_6e :: operations where
  "Controllers_Managers_6e = ops op_manager ''RemoteAccountServiceAccountsManagerAccountId'' [''ManagerAccountId'']
     [(''KeysKeyId'', [''KeyId''], Checked ''KeyV140Key'', [Get, Put, Delete, Patch])]"

definition Controllers_Managers_7a :: operations where
  "Controllers_Managers_7a = ops op_manager ''RemoteAccountService'' []
     [(''ActiveDirectoryCertificates'', [], Checked ''CertificateV181Certificate'', [Get, Post]),
      (''ActiveDirectoryCertificatesCertificateId'', [''CertificateId''], Checked ''CertificateV181Certificate'', [Get, Put, Delete])]"

definition Controllers_Managers_7b :: operations where
  "Controllers_Managers_7b = ops op_manager ''RemoteAccountService'' []
     [(''ActiveDirectoryCertificatesCertificateId'', [''CertificateId''], Checked ''CertificateV181Certificate'', [Patch]),
      (''ActiveDirectoryCertificatesCertificateIdActionsCertificateRekey'', [''CertificateId''], Checked ''CertificateV181RekeyRequestBody'', [Post]),
      (''ActiveDirectoryCertificatesCertificateIdActionsCertificateRenew'', [''CertificateId''], Checked ''CertificateV181RenewRequestBody'', [Post]),
      (''ExternalAccountProviders'', [], Bodiless, [Get])]"

definition Controllers_Managers_7c :: operations where
  "Controllers_Managers_7c = ops op_manager ''RemoteAccountService'' []
     [(''ExternalAccountProviders'', [], Checked ''ExternalAccountProviderV171ExternalAccountProvider'', [Post]),
      (''ExternalAccountProvidersExternalAccountProviderId'', [''ExternalAccountProviderId''], Checked ''ExternalAccountProviderV171ExternalAccountProvider'', [Get, Put, Delete])]"

definition Controllers_Managers_7d :: operations where
  "Controllers_Managers_7d = ops op_manager ''RemoteAccountService'' []
     [(''ExternalAccountProvidersExternalAccountProviderId'', [''ExternalAccountProviderId''], Checked ''ExternalAccountProviderV171ExternalAccountProvider'', [Patch]),
      (''ExternalAccountProvidersExternalAccountProviderIdCertificates'', [''ExternalAccountProviderId''], Checked ''CertificateV181Certificate'', [Get, Post]),
      (''ExternalAccountProvidersExternalAccountProviderIdCertificatesCertificateId'', [''ExternalAccountProviderId'', ''CertificateId''], Bodiless, [Get])]"

definition Controllers_Managers_7e :: operations where
  "Controllers_Managers_7e = ops op_manager ''RemoteAccountService'' []
     [(''ExternalAccountProvidersExternalAccountProviderIdCertificatesCertificateId'', [''ExternalAccountProviderId'', ''CertificateId''], Checked ''CertificateV181Certificate'', [Put, Delete, Patch])]"

definition Controllers_Managers_7f :: operations where
  "Controllers_Managers_7f = ops op_manager ''RemoteAccountService'' []
     [(''ExternalAccountProvidersExternalAccountProviderIdCertificatesCertificateIdActionsCertificateRekey'', [''ExternalAccountProviderId'', ''CertificateId''], Checked ''CertificateV181RekeyRequestBody'', [Post]),
      (''ExternalAccountProvidersExternalAccountProviderIdCertificatesCertificateIdActionsCertificateRenew'', [''ExternalAccountProviderId'', ''CertificateId''], Checked ''CertificateV181RenewRequestBody'', [Post]),
      (''LDAPCertificates'', [], Checked ''CertificateV181Certificate'', [Get, Post])]"

definition Controllers_Managers_7g :: operations where
  "Controllers_Managers_7g = ops op_manager ''RemoteAccountService'' []
     [(''LDAPCertificatesCertificateId'', [''CertificateId''], Checked ''CertificateV181Certificate'', [Get, Put, Delete, Patch])]"

definition Controllers_Managers_7h :: operations where
  "Controllers_Managers_7h = ops op_manager ''RemoteAccountService'' []
     [(''LDAPCertificatesCertificateIdActionsCertificateRekey'', [''CertificateId''], Checked ''CertificateV181RekeyRequestBody'', [Post]),
      (''LDAPCertificatesCertificateIdActionsCertificateRenew'', [''CertificateId''], Checked ''CertificateV181RenewRequestBody'', [Post])]"

definition Controllers_Managers_8a :: operations where
  "Controllers_Managers_8a = ops op_manager ''RemoteAccountService'' []
     [(''MultiFactorAuthClientCertificateCertificates'', [], Checked ''CertificateV181Certificate'', [Get, Post]),
      (''MultiFactorAuthClientCertificateCertificatesCertificateId'', [''CertificateId''], Checked ''CertificateV181Certificate'', [Get, Put, Delete])]"

definition Controllers_Managers_8b :: operations where
  "Controllers_Managers_8b = ops op_manager ''RemoteAccountService'' []
     [(''MultiFactorAuthClientCertificateCertificatesCertificateId'', [''CertificateId''], Checked ''CertificateV181Certificate'', [Patch]),
      (''MultiFactorAuthClientCertificateCertificatesCertificateIdActionsCertificateRekey'', [''CertificateId''], Checked ''CertificateV181RekeyRequestBody'', [Post]),
      (''MultiFactorAuthClientCertificateCertificatesCertificateIdActionsCertificateRenew'', [''CertificateId''], Checked ''CertificateV181RenewRequestBody'', [Post]),
      (''MultiFactorAuthSecurIDCertificates'', [], Bodiless, [Get])]"

definition Controllers_Managers_8c :: operations where
  "Controllers_Managers_8c = ops op_manager ''RemoteAccountService'' []
     [(''MultiFactorAuthSecurIDCertificates'', [], Checked ''CertificateV181Certificate'', [Post]),
      (''MultiFactorAuthSecurIDCertificatesCertificateId'', [''CertificateId''], Checked ''CertificateV181Certificate'', [Get, Put, Delete])]"

definition Controllers_Managers_8d :: operations where
  "Controllers_Managers_8d = ops op_manager ''RemoteAccountService'' []
     [(''MultiFactorAuthSecurIDCertificatesCertificateId'', [''CertificateId''], Checked ''CertificateV181Certificate'', [Patch]),
      (''MultiFactorAuthSecurIDCertificatesCertificateIdActionsCertificateRekey'', [''CertificateId''], Checked ''CertificateV181RekeyRequestBody'', [Post]),
      (''MultiFactorAuthSecurIDCertificatesCertificateIdActionsCertificateRenew'', [''CertificateId''], Checked ''CertificateV181RenewRequestBody'', [Post]),
      (''Roles'', [], Bodiless, [Get])]"

definition Controllers_Managers_8e :: operations where
  "Controllers_Managers_8e = ops op_manager ''RemoteAccountService'' []
     [(''Roles'', [], Checked ''RoleV131Role'', [Post]),
      (''RolesRoleId'', [''RoleId''], Checked ''RoleV131Role'', [Get, Put, Delete])]"

definition Controllers_Managers_8f :: operations where
  "Controllers_Managers_8f = ops op_manager ''RemoteAccountService'' []
     [(''RolesRoleId'', [''RoleId''], Checked ''RoleV131Role'', [Patch])]"

definition Controllers_Managers_9a :: operations where
  "Controllers_Managers_9a = ops op_manager ''SecurityPolicy'' []
     [('''', [], Checked ''SecurityPolicyV101SecurityPolicy'', [Get, Put, Patch]),
      (''SPDMRevokedCertificates'', [], Checked ''CertificateV181Certificate'', [Get, Post])]"

definition Controllers_Managers_9b :: operations where
  "Controllers_Managers_9b = ops op_manager ''SecurityPolicy'' []
     [(''SPDMRevokedCertificatesCertificateId'', [''CertificateId''], Checked ''CertificateV181Certificate'', [Get, Put, Delete, Patch])]"

definition Controllers_Managers_9c :: operations where
  "Controllers_Managers_9c = ops op_manager ''SecurityPolicy'' []
     [(''SPDMRevokedCertificatesCertificateIdActionsCertificateRekey'', [''CertificateId''], Checked ''CertificateV181RekeyRequestBody'', [Post]),
      (''SPDMRevokedCertificatesCertificateIdActionsCertificateRenew'', [''CertificateId''], Checked ''CertificateV181RenewRequestBody'', [Post]),
      (''SPDMTrustedCertificates'', [], Checked ''CertificateV181Certificate'', [Get, Post]),
      (''SPDMTrustedCertificatesCertificateId'', [''CertificateId''], Bodiless, [Get])]"

definition Controllers_Managers_9d :: operations where
  "Controllers_Managers_9d = ops op_manager ''SecurityPolicy'' []
     [(''SPDMTrustedCertificatesCertificateId'', [''CertificateId''], Checked ''CertificateV181Certificate'', [Put, Delete, Patch]),
      (''SPDMTrustedCertificatesCertificateIdActionsCertificateRekey'', [''CertificateId''], Checked ''CertificateV181RekeyRequestBody'', [Post])]"

definition Controllers_Managers_9e :: operations where
  "Controllers_Managers_9e = ops op_manager ''SecurityPolicy'' []
     [(''SPDMTrustedCertificatesCertificateIdActionsCertificateRenew'', [''CertificateId''], Checked ''CertificateV181RenewRequestBody'', [Post]),
      (''TLSClientRevokedCertificates'', [], Checked ''CertificateV181Certificate'', [Get, Post])]"

definition Controllers_Managers_10a :: operations where
  "Controllers_Managers_10a = ops op_manager ''SecurityPolicyTLS'' []
     [(''ClientRevokedCertificatesCertificateId'', [''CertificateId''], Checked ''CertificateV181Certificate'', [Get, Put, Delete, Patch])]"

definition Controllers_Managers_10b :: operations where
  "Controllers_Managers_10b = ops op_manager ''SecurityPolicyTLS'' []
     [(''ClientRevokedCertificatesCertificateIdActionsCertificateRekey'', [''CertificateId''], Checked ''CertificateV181RekeyRequestBody'', [Post]),
      (''ClientRevokedCertificatesCertificateIdActionsCertificateRenew'', [''CertificateId''], Checked ''CertificateV181RenewRequestBody'', [Post]),
      (''ClientTrustedCertificates'', [], Checked ''CertificateV181Certificate'', [Get, Post]),
      (''ClientTrustedCertificatesCertificateId'', [''CertificateId''], Bodiless, [Get])]"

definition Controllers_Managers_10c :: operations where
  "Controllers_Managers_10c = ops op_manager ''SecurityPolicyTLS'' []
     [(''ClientTrustedCertificatesCertificateId'', [''CertificateId''], Checked ''CertificateV181Certificate'', [Put, Delete, Patch]),
      (''ClientTrustedCertificatesCertificateIdActionsCertificateRekey'', [''CertificateId''], Checked ''CertificateV181RekeyRequestBody'', [Post])]"

definition Controllers_Managers_10d :: operations where
  "Controllers_Managers_10d = ops op_manager ''SecurityPolicyTLS'' []
     [(''ClientTrustedCertificatesCertificateIdActionsCertificateRenew'', [''CertificateId''], Checked ''CertificateV181RenewRequestBody'', [Post]),
      (''ServerRevokedCertificates'', [], Checked ''CertificateV181Certificate'', [Get, Post]),
      (''ServerRevokedCertificatesCertificateId'', [''CertificateId''], Checked ''CertificateV181Certificate'', [Get, Put])]"

definition Controllers_Managers_10e :: operations where
  "Controllers_Managers_10e = ops op_manager ''SecurityPolicyTLS'' []
     [(''ServerRevokedCertificatesCertificateId'', [''CertificateId''], Checked ''CertificateV181Certificate'', [Delete, Patch]),
      (''ServerRevokedCertificatesCertificateIdActionsCertificateRekey'', [''CertificateId''], Checked ''CertificateV181RekeyRequestBody'', [Post]),
      (''ServerRevokedCertificatesCertificateIdActionsCertificateRenew'', [''CertificateId''], Checked ''CertificateV181RenewRequestBody'', [Post])]"

definition Controllers_Managers_10f :: operations where
  "Controllers_Managers_10f = ops op_manager ''SecurityPolicyTLS'' []
     [(''ServerTrustedCertificates'', [], Checked ''CertificateV181Certificate'', [Get, Post]),
      (''ServerTrustedCertificatesCertificateId'', [''CertificateId''], Checked ''CertificateV181Certificate'', [Get, Put, Delete])]"

definition Controllers_Managers_10g :: operations where
  "Controllers_Managers_10g = ops op_manager ''SecurityPolicyTLS'' []
     [(''ServerTrustedCertificatesCertificateId'', [''CertificateId''], Checked ''CertificateV181Certificate'', [Patch]),
      (''ServerTrustedCertificatesCertificateIdActionsCertificateRekey'', [''CertificateId''], Checked ''CertificateV181RekeyRequestBody'', [Post]),
      (''ServerTrustedCertificatesCertificateIdActionsCertificateRenew'', [''CertificateId''], Checked ''CertificateV181RenewRequestBody'', [Post])]"

definition Controllers_Managers_11a :: operations where
  "Controllers_Managers_11a = ops op_manager '''' []
     [(''SerialInterfaces'', [], Bodiless, [Get]),
      (''SerialInterfacesSerialInterfaceId'', [''SerialInterfaceId''], Checked ''SerialInterfaceV120SerialInterface'', [Get, Put, Patch]),
      (''SharedNetworkPorts'', [], Bodiless, [Get])]"

definition Controllers_Managers_11b :: operations where
  "Controllers_Managers_11b = ops op_manager '''' []
     [(''USBPorts'', [], Bodiless, [Get]),
      (''USBPortsPortId'', [''PortId''], Checked ''PortV1110Port'', [Get, Put, Patch])]"

definition Controllers_Managers_11c :: operations where
  "Controllers_Managers_11c = ops op_manager '''' []
     [(''USBPortsPortIdActionsPortReset'', [''PortId''], Checked ''PortV1110ResetRequestBody'', [Post]),
      (''USBPortsPortIdActionsPortResetPPB'', [''PortId''], Untyped, [Post]),
      (''USBPortsPortIdEnvironmentMetrics'', [''PortId''], Checked ''EnvironmentMetricsV131EnvironmentMetrics'', [Get, Put])]"

definition Controllers_Managers_11d :: operations where
  "Controllers_Managers_11d = ops op_manager '''' []
     [(''USBPortsPortIdEnvironmentMetrics'', [''PortId''], Checked ''EnvironmentMetricsV131EnvironmentMetrics'', [Patch]),
      (''USBPortsPortIdEnvironmentMetricsActionsEnvironmentMetricsResetMetrics'', [''PortId''], Untyped, [Post]),
      (''USBPortsPortIdEnvironmentMetricsActionsEnvironmentMetricsResetToDefaults'', [''PortId''], Untyped, [Post]),
      (''USBPortsPortIdMetrics'', [''PortId''], Bodiless, [Get])]"

definition Controllers_Managers_12a :: operations where
  "Controllers_Managers_12a = ops op_manager ''VirtualMedia'' []
     [('''', [], Bodiless, [Get])]"

definition Controllers_Managers_13a :: operations where
  "Controllers_Managers_13a = ops op_manager ''VirtualMediaVirtualMediaId'' [''VirtualMediaId'']
     [('''', [], Checked ''VirtualMediaV163VirtualMedia'', [Get, Put, Patch])]"

definition Controllers_Managers_14a :: operations where
  "Controllers_Managers_14a = ops op_manager ''VirtualMediaVirtualMediaIdActionsVirtualMediaEjectMedia'' [''VirtualMediaId'']
     [('''', [], Untyped, [Post])]"

definition Controllers_Managers_15a :: operations where
  "Controllers_Managers_15a = ops op_manager ''VirtualMediaVirtualMediaIdActionsVirtualMediaInsertMedia'' [''VirtualMediaId'']
     [('''', [], Checked ''VirtualMediaV163InsertMediaRequestBody'', [Post])]"

definition Controllers_PowerEquipment_1a :: operations where
  "Controllers_PowerEquipment_1a = ops op_root ''PowerEquipment'' []
     [('''', [], Bodiless, [Get]),
      (''ElectricalBuses'', [], Bodiless, [Get]),
      (''ElectricalBusesPowerDistributionId'', [''PowerDistributionId''], Checked ''PowerDistributionV133PowerDistribution'', [Get, Put, Patch]),
      (''ElectricalBusesPowerDistributionIdActionsPowerDistributionTransferControl'', [''PowerDistributionId''], Untyped, [Post])]"

definition Controllers_PowerEquipment_2a :: operations where
  "Controllers_PowerEquipment_2a = ops op_root ''PowerEquipmentElectricalBusesPowerDistributionId'' [''PowerDistributionId'']
     [(''Branches'', [], Bodiless, [Get]),
      (''BranchesCircuitId'', [''CircuitId''], Checked ''CircuitV171Circuit'', [Get, Put, Patch])]"

definition Controllers_PowerEquipment_2b :: operations where
  "Controllers_PowerEquipment_2b = ops op_root ''PowerEquipmentElectricalBusesPowerDistributionId'' [''PowerDistributionId'']
     [(''BranchesCircuitIdActionsCircuitBreakerControl'', [''CircuitId''], Checked ''CircuitV171BreakerControlRequestBody'', [Post]),
      (''BranchesCircuitIdActionsCircuitPowerControl'', [''CircuitId''], Checked ''CircuitV171PowerControlRequestBody'', [Post]),
      (''BranchesCircuitIdActionsCircuitResetMetrics'', [''CircuitId''], Untyped, [Post]),
      (''Mains'', [], Bodiless, [Get]),
      (''MainsCircuitId'', [''CircuitId''], Bodiless, [Get])]"

definition Controllers_PowerEquipment_2c :: operations where
  "Controllers_PowerEquipment_2c = ops op_root ''PowerEquipmentElectricalBusesPowerDistributionId'' [''PowerDistributionId'']
     [(''MainsCircuitId'', [''CircuitId''], Checked ''CircuitV171Circuit'', [Put, Patch]),
      (''MainsCircuitIdActionsCircuitBreakerControl'', [''CircuitId''], Checked ''CircuitV171BreakerControlRequestBody'', [Post])]"

definition Controllers_PowerEquipment_2d :: operations where
  "Controllers_PowerEquipment_2d = ops op_root ''PowerEquipmentElectricalBusesPowerDistributionId'' [''PowerDistributionId'']
     [(''MainsCircuitIdActionsCircuitPowerControl'', [''CircuitId''], Checked ''CircuitV171PowerControlRequestBody'', [Post]),
      (''MainsCircuitIdActionsCircuitResetMetrics'', [''CircuitId''], Untyped, [Post]),
      (''Metrics'', [], Bodiless, [Get]),
      (''MetricsActionsPowerDistributionMetricsResetMetrics'', [], Untyped, [Post]),
      (''OutletGroups'', [], Bodiless, [Get])]"

definition Controllers_PowerEquipment_2e :: operations where
  "Controllers_PowerEquipment_2e = ops op_root ''PowerEquipmentElectricalBusesPowerDistributionId'' [''PowerDistributionId'']
     [(''OutletGroups'', [], Checked ''OutletGroupV112OutletGroup'', [Post]),
      (''OutletGroupsOutletGroupId'', [''OutletGroupId''], Checked ''OutletGroupV112OutletGroup'', [Get, Put, Delete])]"

definition Controllers_PowerEquipment_2f :: operations where
  "Controllers_PowerEquipment_2f = ops op_root ''PowerEquipmentElectricalBusesPowerDistributionId'' [''PowerDistributionId'']
     [(''OutletGroupsOutletGroupId'', [''OutletGroupId''], Checked ''OutletGroupV112OutletGroup'', [Patch]),
      (''OutletGroupsOutletGroupIdActionsOutletGroupPowerControl'', [''OutletGroupId''], Checked ''OutletGroupV112PowerControlRequestBody'', [Post]),
      (''OutletGroupsOutletGroupIdActionsOutletGroupResetMetrics'', [''OutletGroupId''], Untyped, [Post]),
      (''Outlets'', [], Bodiless, [Get]),
      (''OutletsOutletId'', [''OutletId''], Bodiless, [Get])]"

definition Controllers_PowerEquipment_2g :: operations where
  "Controllers_PowerEquipment_2g = ops op_root ''PowerEquipmentElectricalBusesPowerDistributionId'' [''PowerDistributionId'']
     [(''OutletsOutletId'', [''OutletId''], Checked ''OutletV142Outlet'', [Put, Patch]),
      (''OutletsOutletIdActionsOutletPowerControl'', [''OutletId''], Checked ''OutletV142PowerControlRequestBody'', [Post]),
      (''OutletsOutletIdActionsOutletResetMetrics'', [''OutletId''], Untyped, [Post])]"

definition Controllers_PowerEquipment_3a :: operations where
  "Controllers_PowerEquipment_3a = ops op_root ''PowerEquipmentFloorPDUs'' []
     [('''', [], Bodiless, [Get]),
      (''PowerDistributionId'', [''PowerDistributionId''], Checked ''PowerDistributionV133PowerDistribution'', [Get, Put, Patch]),
      (''PowerDistributionIdActionsPowerDistributionTransferControl'', [''PowerDistributionId''], Untyped, [Post]),
      (''PowerDistributionIdBranches'', [''PowerDistributionId''], Bodiless, [Get])]"

definition Controllers_PowerEquipment_3b :: operations where
  "Controllers_PowerEquipment_3b = ops op_root ''PowerEquipmentFloorPDUs'' []
     [(''PowerDistributionIdBranchesCircuitId'', [''PowerDistributionId'', ''CircuitId''], Checked ''CircuitV171Circuit'', [Get, Put, Patch])]"

definition Controllers_PowerEquipment_4a :: operations where
  "Controllers_PowerEquipment_4a = ops op_root ''PowerEquipmentFloorPDUsPowerDistributionId'' [''PowerDistributionId'']
     [(''BranchesCircuitIdActionsCircuitBreakerControl'', [''CircuitId''], Checked ''CircuitV171BreakerControlRequestBody'', [Post]),
      (''BranchesCircuitIdActionsCircuitPowerControl'', [''CircuitId''], Checked ''CircuitV171PowerControlRequestBody'', [Post]),
      (''BranchesCircuitIdActionsCircuitResetMetrics'', [''CircuitId''], Untyped, [Post]),
      (''Mains'', [], Bodiless, [Get]),
      (''MainsCircuitId'', [''CircuitId''], Bodiless, [Get])]"

definition Controllers_PowerEquipment_4b :: operations where
  "Controllers_PowerEquipment_4b = ops op_root ''PowerEquipmentFloorPDUsPowerDistributionId'' [''PowerDistributionId'']
     [(''MainsCircuitId'', [''CircuitId''], Checked ''CircuitV171Circuit'', [Put, Patch]),
      (''MainsCircuitIdActionsCircuitBreakerControl'', [''CircuitId''], Checked ''CircuitV171BreakerControlRequestBody'', [Post])]"

definition Controllers_PowerEquipment_4c :: operations where
  "Controllers_PowerEquipment_4c = ops op_root ''PowerEquipmentFloorPDUsPowerDistributionId'' [''PowerDistributionId'']
     [(''MainsCircuitIdActionsCircuitPowerControl'', [''CircuitId''], Checked ''CircuitV171PowerControlRequestBody'', [Post]),
      (''MainsCircuitIdActionsCircuitResetMetrics'', [''CircuitId''], Untyped, [Post]),
      (''Metrics'', [], Bodiless, [Get]),
      (''MetricsActionsPowerDistributionMetricsResetMetrics'', [], Untyped, [Post]),
      (''OutletsOutletId'', [''OutletId''], Bodiless, [Get])]"

definition Controllers_PowerEquipment_4d :: operations where
  "Controllers_PowerEquipment_4d = ops op_root ''PowerEquipmentFloorPDUsPowerDistributionId'' [''PowerDistributionId'']
     [(''OutletsOutletId'', [''OutletId''], Checked ''OutletV142Outlet'', [Put, Patch]),
      (''OutletsOutletIdActionsOutletPowerControl'', [''OutletId''], Checked ''OutletV142PowerControlRequestBody'', [Post]),
      (''OutletsOutletIdActionsOutletResetMetrics'', [''OutletId''], Untyped, [Post])]"

definition Controllers_PowerEquipment_4e :: operations where
  "Controllers_PowerEquipment_4e = ops op_root ''PowerEquipmentFloorPDUsPowerDistributionId'' [''PowerDistributionId'']
     [(''Sensors'', [], Bodiless, [Get]),
      (''SensorsSensorId'', [''SensorId''], Checked ''SensorV181Sensor'', [Get, Put, Patch])]"

definition Controllers_PowerEquipment_4f :: operations where
  "Controllers_PowerEquipment_4f = ops op_root ''PowerEquipmentFloorPDUsPowerDistributionId'' [''PowerDistributionId'']
     [(''SensorsSensorIdActionsSensorResetMetrics'', [''SensorId''], Untyped, [Post]),
      (''SensorsSensorIdActionsSensorResetToDefaults'', [''SensorId''], Untyped, [Post]),
      (''Subfeeds'', [], Bodiless, [Get]),
      (''SubfeedsCircuitId'', [''CircuitId''], Checked ''CircuitV171Circuit'', [Get, Put])]"

definition Controllers_PowerEquipment_4g :: operations where
  "Controllers_PowerEquipment_4g = ops op_root ''PowerEquipmentFloorPDUsPowerDistributionId'' [''PowerDistributionId'']
     [(''SubfeedsCircuitId'', [''CircuitId''], Checked ''CircuitV171Circuit'', [Patch]),
      (''SubfeedsCircuitIdActionsCircuitBreakerControl'', [''CircuitId''], Checked ''CircuitV171BreakerControlRequestBody'', [Post]),
      (''SubfeedsCircuitIdActionsCircuitPowerControl'', [''CircuitId''], Checked ''CircuitV171PowerControlRequestBody'', [Post]),
      (''SubfeedsCircuitIdActionsCircuitResetMetrics'', [''CircuitId''], Untyped, [Post])]"

definition Controllers_PowerEquipment_5a :: operations where
  "Controllers_PowerEquipment_5a = ops op_root ''PowerEquipmentPowerShelves'' []
     [('''', [], Bodiless, [Get])]"

definition Controllers_PowerEquipment_6a :: operations where
  "Controllers_PowerEquipment_6a = ops op_root ''PowerEquipmentPowerShelvesPowerDistributionId'' [''PowerDistributionId'']
     [('''', [], Checked ''PowerDistributionV133PowerDistribution'', [Get, Put, Patch]),
      (''ActionsPowerDistributionTransferControl'', [], Untyped, [Post]),
      (''Branches'', [], Bodiless, [Get]),
      (''BranchesCircuitId'', [''CircuitId''], Bodiless, [Get])]"

definition Controllers_PowerEquipment_6b :: operations where
  "Controllers_PowerEquipment_6b = ops op_root ''PowerEquipmentPowerShelvesPowerDistributionId'' [''PowerDistributionId'']
     [(''BranchesCircuitId'', [''CircuitId''], Checked ''CircuitV171Circuit'', [Put, Patch]),
      (''BranchesCircuitIdActionsCircuitBreakerControl'', [''CircuitId''], Checked ''CircuitV171BreakerControlRequestBody'', [Post])]"

definition Controllers_PowerEquipment_6c :: operations where
  "Controllers_PowerEquipment_6c = ops op_root ''PowerEquipmentPowerShelvesPowerDistributionId'' [''PowerDistributionId'']
     [(''BranchesCircuitIdActionsCircuitPowerControl'', [''CircuitId''], Checked ''CircuitV171PowerControlRequestBody'', [Post]),
      (''BranchesCircuitIdActionsCircuitResetMetrics'', [''CircuitId''], Untyped, [Post]),
      (''Mains'', [], Bodiless, [Get]),
      (''MainsCircuitId'', [''CircuitId''], Checked ''CircuitV171Circuit'', [Get, Put])]"

definition Controllers_PowerEquipment_6d :: operations where
  "Controllers_PowerEquipment_6d = ops op_root ''PowerEquipmentPowerShelvesPowerDistributionId'' [''PowerDistributionId'']
     [(''MainsCircuitId'', [''CircuitId''], Checked ''CircuitV171Circuit'', [Patch]),
      (''MainsCircuitIdActionsCircuitBreakerControl'', [''CircuitId''], Checked ''CircuitV171BreakerControlRequestBody'', [Post]),
      (''MainsCircuitIdActionsCircuitPowerControl'', [''CircuitId''], Checked ''CircuitV171PowerControlRequestBody'', [Post]),
      (''MainsCircuitIdActionsCircuitResetMetrics'', [''CircuitId''], Untyped, [Post])]"

definition Controllers_PowerEquipment_6e :: operations where
  "Controllers_PowerEquipment_6e = ops op_root ''PowerEquipmentPowerShelvesPowerDistributionId'' [''PowerDistributionId'']
     [(''Metrics'', [], Bodiless, [Get]),
      (''MetricsActionsPowerDistributionMetricsResetMetrics'', [], Untyped, [Post]),
      (''OutletGroups'', [], Checked ''OutletGroupV112OutletGroup'', [Get, Post]),
      (''OutletGroupsOutletGroupId'', [''OutletGroupId''], Bodiless, [Get])]"

definition Controllers_PowerEquipment_6f :: operations where
  "Controllers_PowerEquipment_6f = ops op_root ''PowerEquipmentPowerShelvesPowerDistributionId'' [''PowerDistributionId'']
     [(''OutletGroupsOutletGroupId'', [''OutletGroupId''], Checked ''OutletGroupV112OutletGroup'', [Put, Delete, Patch]),
      (''OutletGroupsOutletGroupIdActionsOutletGroupPowerControl'', [''OutletGroupId''], Checked ''OutletGroupV112PowerControlRequestBody'', [Post])]"

definition Controllers_PowerEquipment_6g :: operations where
  "Controllers_PowerEquipment_6g = ops op_root ''PowerEquipmentPowerShelvesPowerDistributionId'' [''PowerDistributionId'']
     [(''OutletGroupsOutletGroupIdActionsOutletGroupResetMetrics'', [''OutletGroupId''], Untyped, [Post]),
      (''Outlets'', [], Bodiless, [Get])]"

definition Controllers_PowerEquipment_7a :: operations where
  "Controllers_PowerEquipment_7a = ops op_root ''PowerEquipmentPowerShelvesPowerDistributionId'' [''PowerDistributionId'']
     [(''OutletsOutletId'', [''OutletId''], Checked ''OutletV142Outlet'', [Get, Put, Patch]),
      (''OutletsOutletIdActionsOutletPowerControl'', [''OutletId''], Checked ''OutletV142PowerControlRequestBody'', [Post])]"

definition Controllers_PowerEquipment_7b :: operations where
  "Controllers_PowerEquipment_7b = ops op_root ''PowerEquipmentPowerShelvesPowerDistributionId'' [''PowerDistributionId'']
     [(''OutletsOutletIdActionsOutletResetMetrics'', [''OutletId''], Untyped, [Post]),
      (''PowerSupplies'', [], Bodiless, [Get]),
      (''PowerSuppliesPowerSupplyId'', [''PowerSupplyId''], Checked ''PowerSupplyV153PowerSupply'', [Get, Put, Patch])]"

definition Controllers_PowerEquipment_7c :: operations where
  "Controllers_PowerEquipment_7c = ops op_root ''PowerEquipmentPowerShelvesPowerDistributionId'' [''PowerDistributionId'']
     [(''PowerSuppliesPowerSupplyIdActionsPowerSupplyReset'', [''PowerSupplyId''], Checked ''PowerSupplyV153ResetRequestBody'', [Post]),
      (''PowerSuppliesPowerSupplyIdAssembly'', [''PowerSupplyId''], Checked ''AssemblyV150Assembly'', [Get, Put, Patch])]"

definition Controllers_PowerEquipment_7d :: operations where
  "Controllers_PowerEquipment_7d = ops op_root ''PowerEquipmentPowerShelvesPowerDistributionId'' [''PowerDistributionId'']
     [(''PowerSuppliesPowerSupplyIdMetrics'', [''PowerSupplyId''], Bodiless, [Get]),
      (''PowerSuppliesPowerSupplyIdMetricsActionsPowerSupplyMetricsResetMetrics'', [''PowerSupplyId''], Untyped, [Post]),
      (''Sensors'', [], Bodiless, [Get]),
      (''SensorsSensorId'', [''SensorId''], Checked ''SensorV181Sensor'', [Get, Put])]"

definition Controllers_PowerEquipment_7e :: operations where
  "Controllers_PowerEquipment_7e = ops op_root ''PowerEquipmentPowerShelvesPowerDistributionId'' [''PowerDistributionId'']
     [(''SensorsSensorId'', [''SensorId''], Checked ''SensorV181Sensor'', [Patch]),
      (''SensorsSensorIdActionsSensorResetMetrics'', [''SensorId''], Untyped, [Post]),
      (''SensorsSensorIdActionsSensorResetToDefaults'', [''SensorId''], Untyped, [Post])]"

definition Controllers_PowerEquipment_8a :: operations where
  "Controllers_PowerEquipment_8a = ops op_root ''PowerEquipmentRackPDUs'' []
     [('''', [], Bodiless, [Get]),
      (''PowerDistributionId'', [''PowerDistributionId''], Checked ''PowerDistributionV133PowerDistribution'', [Get, Put, Patch]),
      (''PowerDistributionIdActionsPowerDistributionTransferControl'', [''PowerDistributionId''], Untyped, [Post]),
      (''PowerDistributionIdBranches'', [''PowerDistributionId''], Bodiless, [Get])]"

definition Controllers_PowerEquipment_8b :: operations where
  "Controllers_PowerEquipment_8b = ops op_root ''PowerEquipmentRackPDUs'' []
     [(''PowerDistributionIdBranchesCircuitId'', [''PowerDistributionId'', ''CircuitId''], Checked ''CircuitV171Circuit'', [Get, Put, Patch]),
      (''PowerDistributionIdBranchesCircuitIdActionsCircuitBreakerControl'', [''PowerDistributionId'', ''CircuitId''], Checked ''CircuitV171BreakerControlRequestBody'', [Post])]"

definition Controllers_PowerEquipment_8c :: operations where
  "Controllers_PowerEquipment_8c = ops op_root ''PowerEquipmentRackPDUs'' []
     [(''PowerDistributionIdBranchesCircuitIdActionsCircuitPowerControl'', [''PowerDistributionId'', ''CircuitId''], Checked ''CircuitV171PowerControlRequestBody'', [Post])]"

definition Controllers_PowerEquipment_9a :: operations where
  "Controllers_PowerEquipment_9a = ops op_root ''PowerEquipmentRackPDUsPowerDistributionId'' [''PowerDistributionId'']
     [(''BranchesCircuitIdActionsCircuitResetMetrics'', [''CircuitId''], Untyped, [Post]),
      (''Mains'', [], Bodiless, [Get]),
      (''MainsCircuitId'', [''CircuitId''], Checked ''CircuitV171Circuit'', [Get, Put, Patch])]"

definition Controllers_PowerEquipment_9b :: operations where
  "Controllers_PowerEquipment_9b = ops op_root ''PowerEquipmentRackPDUsPowerDistributionId'' [''PowerDistributionId'']
     [(''MainsCircuitIdActionsCircuitBreakerControl'', [''CircuitId''], Checked ''CircuitV171BreakerControlRequestBody'', [Post]),
      (''MainsCircuitIdActionsCircuitPowerControl'', [''CircuitId''], Checked ''CircuitV171PowerControlRequestBody'', [Post]),
      (''MainsCircuitIdActionsCircuitResetMetrics'', [''CircuitId''], Untyped, [Post]),
      (''Metrics'', [], Bodiless, [Get]),
      (''MetricsActionsPowerDistributionMetricsResetMetrics'', [], Untyped, [Post])]"

definition Controllers_PowerEquipment_9c :: operations where
  "Controllers_PowerEquipment_9c = ops op_root ''PowerEquipmentRackPDUsPowerDistributionId'' [''PowerDistributionId'']
     [(''OutletGroups'', [], Checked ''OutletGroupV112OutletGroup'', [Get, Post]),
      (''OutletGroupsOutletGroupId'', [''OutletGroupId''], Checked ''OutletGroupV112OutletGroup'', [Get, Put, Delete])]"

definition Controllers_PowerEquipment_9d :: operations where
  "Controllers_PowerEquipment_9d = ops op_root ''PowerEquipmentRackPDUsPowerDistributionId'' [''PowerDistributionId'']
     [(''OutletGroupsOutletGroupId'', [''OutletGroupId''], Checked ''OutletGroupV112OutletGroup'', [Patch]),
      (''OutletGroupsOutletGroupIdActionsOutletGroupPowerControl'', [''OutletGroupId''], Checked ''OutletGroupV112PowerControlRequestBody'', [Post]),
      (''OutletGroupsOutletGroupIdActionsOutletGroupResetMetrics'', [''OutletGroupId''], Untyped, [Post]),
      (''Outlets'', [], Bodiless, [Get]),
      (''OutletsOutletId'', [''OutletId''], Bodiless, [Get])]"

definition Controllers_PowerEquipment_9e :: operations where
  "Controllers_PowerEquipment_9e = ops op_root ''PowerEquipmentRackPDUsPowerDistributionId'' [''PowerDistributionId'']
     [(''OutletsOutletId'', [''OutletId''], Checked ''OutletV142Outlet'', [Put, Patch]),
      (''OutletsOutletIdActionsOutletPowerControl'', [''OutletId''], Checked ''OutletV142PowerControlRequestBody'', [Post]),
      (''OutletsOutletIdActionsOutletResetMetrics'', [''OutletId''], Untyped, [Post])]"

definition Controllers_PowerEquipment_9f :: operations where
  "Controllers_PowerEquipment_9f = ops op_root ''PowerEquipmentRackPDUsPowerDistributionId'' [''PowerDistributionId'']
     [(''Sensors'', [], Bodiless, [Get]),
      (''SensorsSensorId'', [''SensorId''], Checked ''SensorV181Sensor'', [Get, Put, Patch])]"

definition Controllers_PowerEquipment_9g :: operations where
  "Controllers_PowerEquipment_9g = ops op_root ''PowerEquipmentRackPDUsPowerDistributionId'' [''PowerDistributionId'']
     [(''SensorsSensorIdActionsSensorResetMetrics'', [''SensorId''], Untyped, [Post]),
      (''SensorsSensorIdActionsSensorResetToDefaults'', [''SensorId''], Untyped, [Post])]"

definition Controllers_PowerEquipment_10a :: operations where
  "Controllers_PowerEquipment_10a = ops op_root ''PowerEquipmentSwitchgear'' []
     [('''', [], Bodiless, [Get]),
      (''PowerDistributionId'', [''PowerDistributionId''], Checked ''PowerDistributionV133PowerDistribution'', [Get, Put, Patch]),
      (''PowerDistributionIdActionsPowerDistributionTransferControl'', [''PowerDistributionId''], Untyped, [Post]),
      (''PowerDistributionIdBranches'', [''PowerDistributionId''], Bodiless, [Get])]"

definition Controllers_PowerEquipment_10b :: operations where
  "Controllers_PowerEquipment_10b = ops op_root ''PowerEquipmentSwitchgear'' []
     [(''PowerDistributionIdBranchesCircuitId'', [''PowerDistributionId'', ''CircuitId''], Checked ''CircuitV171Circuit'', [Get, Put, Patch]),
      (''PowerDistributionIdBranchesCircuitIdActionsCircuitBreakerControl'', [''PowerDistributionId'', ''CircuitId''], Checked ''CircuitV171BreakerControlRequestBody'', [Post])]"

definition Controllers_PowerEquipment_10c :: operations where
  "Controllers_PowerEquipment_10c = ops op_root ''PowerEquipmentSwitchgear'' []
     [(''PowerDistributionIdBranchesCircuitIdActionsCircuitPowerControl'', [''PowerDistributionId'', ''CircuitId''], Checked ''CircuitV171PowerControlRequestBody'', [Post])]"

definition Controllers_PowerEquipment_11a :: operations where
  "Controllers_PowerEquipment_11a = ops op_root ''PowerEquipmentSwitchgearPowerDistributionId'' [''PowerDistributionId'']
     [(''BranchesCircuitIdActionsCircuitResetMetrics'', [''CircuitId''], Untyped, [Post]),
      (''Feeders'', [], Bodiless, [Get]),
      (''FeedersCircuitId'', [''CircuitId''], Checked ''CircuitV171Circuit'', [Get, Put, Patch])]"

definition Controllers_PowerEquipment_11b :: operations where
  "Controllers_PowerEquipment_11b = ops op_root ''PowerEquipmentSwitchgearPowerDistributionId'' [''PowerDistributionId'']
     [(''FeedersCircuitIdActionsCircuitBreakerControl'', [''CircuitId''], Checked ''CircuitV171BreakerControlRequestBody'', [Post]),
      (''FeedersCircuitIdActionsCircuitPowerControl'', [''CircuitId''], Checked ''CircuitV171PowerControlRequestBody'', [Post]),
      (''FeedersCircuitIdActionsCircuitResetMetrics'', [''CircuitId''], Untyped, [Post]),
      (''Mains'', [], Bodiless, [Get]),
      (''MainsCircuitId'', [''CircuitId''], Bodiless, [Get])]"

definition Controllers_PowerEquipment_11c :: operations where
  "Controllers_PowerEquipment_11c = ops op_root ''PowerEquipmentSwitchgearPowerDistributionId'' [''PowerDistributionId'']
     [(''MainsCircuitId'', [''CircuitId''], Checked ''CircuitV171Circuit'', [Put, Patch]),
      (''MainsCircuitIdActionsCircuitBreakerControl'', [''CircuitId''], Checked ''CircuitV171BreakerControlRequestBody'', [Post])]"

definition Controllers_PowerEquipment_11d :: operations where
  "Controllers_PowerEquipment_11d = ops op_root ''PowerEquipmentSwitchgearPowerDistributionId'' [''PowerDistributionId'']
     [(''MainsCircuitIdActionsCircuitPowerControl'', [''CircuitId''], Checked ''CircuitV171PowerControlRequestBody'', [Post]),
      (''MainsCircuitIdActionsCircuitResetMetrics'', [''CircuitId''], Untyped, [Post]),
      (''Metrics'', [], Bodiless, [Get]),
      (''MetricsActionsPowerDistributionMetricsResetMetrics'', [], Untyped, [Post]),
      (''Sensors'', [], Bodiless, [Get])]"

definition Controllers_PowerEquipment_11e :: operations where
  "Controllers_PowerEquipment_11e = ops op_root ''PowerEquipmentSwitchgearPowerDistributionId'' [''PowerDistributionId'']
     [(''SensorsSensorId'', [''SensorId''], Checked ''SensorV181Sensor'', [Get, Put, Patch]),
      (''SensorsSensorIdActionsSensorResetMetrics'', [''SensorId''], Untyped, [Post])]"

definition Controllers_PowerEquipment_11f :: operations where
  "Controllers_PowerEquipment_11f = ops op_root ''PowerEquipmentSwitchgearPowerDistributionId'' [''PowerDistributionId'']
     [(''SensorsSensorIdActionsSensorResetToDefaults'', [''SensorId''], Untyped, [Post]),
      (''Subfeeds'', [], Bodiless, [Get]),
      (''SubfeedsCircuitId'', [''CircuitId''], Checked ''CircuitV171Circuit'', [Get, Put, Patch])]"

definition Controllers_PowerEquipment_11g :: operations where
  "Controllers_PowerEquipment_11g = ops op_root ''PowerEquipmentSwitchgearPowerDistributionId'' [''PowerDistributionId'']
     [(''SubfeedsCircuitIdActionsCircuitBreakerControl'', [''CircuitId''], Checked ''CircuitV171BreakerControlRequestBody'', [Post]),
      (''SubfeedsCircuitIdActionsCircuitPowerControl'', [''CircuitId''], Checked ''CircuitV171PowerControlRequestBody'', [Post]),
      (''SubfeedsCircuitIdActionsCircuitResetMetrics'', [''CircuitId''], Untyped, [Post])]"

definition Controllers_PowerEquipment_12a :: operations where
  "Controllers_PowerEquipment_12a = ops op_root ''PowerEquipmentTransferSwitches'' []
     [('''', [], Bodiless, [Get]),
      (''PowerDistributionId'', [''PowerDistributionId''], Checked ''PowerDistributionV133PowerDistribution'', [Get, Put, Patch]),
      (''PowerDistributionIdActionsPowerDistributionTransferControl'', [''PowerDistributionId''], Untyped, [Post]),
      (''PowerDistributionIdBranches'', [''PowerDistributionId''], Bodiless, [Get])]"

definition Controllers_PowerEquipment_12b :: operations where
  "Controllers_PowerEquipment_12b = ops op_root ''PowerEquipmentTransferSwitches'' []
     [(''PowerDistributionIdBranchesCircuitId'', [''PowerDistributionId'', ''CircuitId''], Checked ''CircuitV171Circuit'', [Get, Put, Patch]),
      (''PowerDistributionIdBranchesCircuitIdActionsCircuitBreakerControl'', [''PowerDistributionId'', ''CircuitId''], Checked ''CircuitV171BreakerControlRequestBody'', [Post])]"

definition Controllers_PowerEquipment_12c :: operations where
  "Controllers_PowerEquipment_12c = ops op_root ''PowerEquipmentTransferSwitches'' []
     [(''PowerDistributionIdBranchesCircuitIdActionsCircuitPowerControl'', [''PowerDistributionId'', ''CircuitId''], Checked ''CircuitV171PowerControlRequestBody'', [Post]),
      (''PowerDistributionIdBranchesCircuitIdActionsCircuitResetMetrics'', [''PowerDistributionId'', ''CircuitId''], Untyped, [Post]),
      (''PowerDistributionIdFeeders'', [''PowerDistributionId''], Bodiless, [Get]),
      (''PowerDistributionIdFeedersCircuitId'', [''PowerDistributionId'', ''CircuitId''], Checked ''CircuitV171Circuit'', [Get, Put])]"

definition Controllers_PowerEquipment_12d :: operations where
  "Controllers_PowerEquipment_12d = ops op_root ''PowerEquipmentTransferSwitches'' []
     [(''PowerDistributionIdFeedersCircuitId'', [''PowerDistributionId'', ''CircuitId''], Checked ''CircuitV171Circuit'', [Patch]),
      (''PowerDistributionIdFeedersCircuitIdActionsCircuitBreakerControl'', [''PowerDistributionId'', ''CircuitId''], Checked ''CircuitV171BreakerControlRequestBody'', [Post]),
      (''PowerDistributionIdFeedersCircuitIdActionsCircuitPowerControl'', [''PowerDistributionId'', ''CircuitId''], Checked ''CircuitV171PowerControlRequestBody'', [Post])]"

definition Controllers_PowerEquipment_13a :: operations where
  "Controllers_PowerEquipment_13a = ops op_root ''PowerEquipmentTransferSwitchesPowerDistributionId'' [''PowerDistributionId'']
     [(''FeedersCircuitIdActionsCircuitResetMetrics'', [''CircuitId''], Untyped, [Post]),
      (''Mains'', [], Bodiless, [Get]),
      (''MainsCircuitId'', [''CircuitId''], Checked ''CircuitV171Circuit'', [Get, Put, Patch])]"

definition Controllers_PowerEquipment_13b :: operations where
  "Controllers_PowerEquipment_13b = ops op_root ''PowerEquipmentTransferSwitchesPowerDistributionId'' [''PowerDistributionId'']
     [(''MainsCircuitIdActionsCircuitBreakerControl'', [''CircuitId''], Checked ''CircuitV171BreakerControlRequestBody'', [Post]),
      (''MainsCircuitIdActionsCircuitPowerControl'', [''CircuitId''], Checked ''CircuitV171PowerControlRequestBody'', [Post]),
      (''MainsCircuitIdActionsCircuitResetMetrics'', [''CircuitId''], Untyped, [Post]),
      (''Metrics'', [], Bodiless, [Get]),
      (''MetricsActionsPowerDistributionMetricsResetMetrics'', [], Untyped, [Post])]"

definition Controllers_PowerEquipment_13c :: operations where
  "Controllers_PowerEquipment_13c = ops op_root ''PowerEquipmentTransferSwitchesPowerDistributionId'' [''PowerDistributionId'']
     [(''OutletGroups'', [], Checked ''OutletGroupV112OutletGroup'', [Get, Post]),
      (''OutletGroupsOutletGroupId'', [''OutletGroupId''], Checked ''OutletGroupV112OutletGroup'', [Get, Put, Delete])]"

definition Controllers_PowerEquipment_13d :: operations where
  "Controllers_PowerEquipment_13d = ops op_root ''PowerEquipmentTransferSwitchesPowerDistributionId'' [''PowerDistributionId'']
     [(''OutletGroupsOutletGroupId'', [''OutletGroupId''], Checked ''OutletGroupV112OutletGroup'', [Patch]),
      (''OutletGroupsOutletGroupIdActionsOutletGroupPowerControl'', [''OutletGroupId''], Checked ''OutletGroupV112PowerControlRequestBody'', [Post]),
      (''OutletGroupsOutletGroupIdActionsOutletGroupResetMetrics'', [''OutletGroupId''], Untyped, [Post]),
      (''Outlets'', [], Bodiless, [Get]),
      (''OutletsOutletId'', [''OutletId''], Bodiless, [Get])]"

definition Controllers_PowerEquipment_13e :: operations where
  "Controllers_PowerEquipment_13e = ops op_root ''PowerEquipmentTransferSwitchesPowerDistributionId'' [''PowerDistributionId'']
     [(''OutletsOutletId'', [''OutletId''], Checked ''OutletV142Outlet'', [Put, Patch]),
      (''OutletsOutletIdActionsOutletPowerControl'', [''OutletId''], Checked ''OutletV142PowerControlRequestBody'', [Post]),
      (''OutletsOutletIdActionsOutletResetMetrics'', [''OutletId''], Untyped, [Post])]"

definition Controllers_PowerEquipment_13f :: operations where
  "Controllers_PowerEquipment_13f = ops op_root ''PowerEquipmentTransferSwitchesPowerDistributionId'' [''PowerDistributionId'']
     [(''Sensors'', [], Bodiless, [Get]),
      (''SensorsSensorId'', [''SensorId''], Checked ''SensorV181Sensor'', [Get, Put, Patch])]"

definition Controllers_PowerEquipment_13g :: operations where
  "Controllers_PowerEquipment_13g = ops op_root ''PowerEquipmentTransferSwitchesPowerDistributionId'' [''PowerDistributionId'']
     [(''SensorsSensorIdActionsSensorResetMetrics'', [''SensorId''], Untyped, [Post]),
      (''SensorsSensorIdActionsSensorResetToDefaults'', [''SensorId''], Untyped, [Post])]"

definition Controllers_Storage_1a :: operations where
  "Controllers_Storage_1a = ops op_root ''Storage'' []
     [('''', [], Bodiless, [Get]),
      (''StorageId'', [''StorageId''], Checked ''StorageV1151Storage'', [Get, Put, Patch]),
      (''StorageIdActionsStorageResetToDefaults'', [''StorageId''], Checked ''StorageV1151ResetToDefaultsRequestBody'', [Post])]"

definition Controllers_Storage_1b :: operations where
  "Controllers_Storage_1b = ops op_root ''Storage'' []
     [(''StorageIdActionsStorageSetEncryptionKey'', [''StorageId''], Checked ''StorageV1151SetEncryptionKeyRequestBody'', [Post]),
      (''StorageIdConnections'', [''StorageId''], Checked ''ConnectionV131Connection'', [Get, Post]),
      (''StorageIdConsistencyGroupsConsistencyGroupIdVolumes'', [''StorageId'', ''ConsistencyGroupId''], Checked ''VolumeV1100Volume'', [Get, Post])]"

definition Controllers_Storage_1c :: operations where
  "Controllers_Storage_1c = ops op_root ''Storage'' []
     [(''StorageIdConsistencyGroupsConsistencyGroupIdVolumesVolumeId'', [''StorageId'', ''ConsistencyGroupId'', ''VolumeId''], Checked ''VolumeV1100Volume'', [Get, Put, Delete, Patch])]"

definition Controllers_Storage_2a :: operations where
  "Controllers_Storage_2a = ops op_root ''StorageStorageIdConsistencyGroupsConsistencyGroupIdVolumesVolumeIdActions'' [''StorageId'', ''ConsistencyGroupId'', ''VolumeId'']
     [(''VolumeAssignReplicaTarget'', [], Checked ''VolumeV1100AssignReplicaTargetRequestBody'', [Post]),
      (''VolumeChangeRAIDLayout'', [], Checked ''VolumeV1100ChangeRaidLayoutRequestBody'', [Post]),
      (''VolumeCheckConsistency'', [], Untyped, [Post])]"

definition Controllers_Storage_2b :: operations where
  "Controllers_Storage_2b = ops op_root ''StorageStorageIdConsistencyGroupsConsistencyGroupIdVolumesVolumeIdActions'' [''StorageId'', ''ConsistencyGroupId'', ''VolumeId'']
     [(''VolumeCreateReplicaTarget'', [], Checked ''VolumeV1100CreateReplicaTargetRequestBody'', [Post]),
      (''VolumeForceEnable'', [], Untyped, [Post]),
      (''VolumeInitialize'', [], Checked ''VolumeV1100InitializeRequestBody'', [Post])]"

definition Controllers_Storage_2c :: operations where
  "Controllers_Storage_2c = ops op_root ''StorageStorageIdConsistencyGroupsConsistencyGroupIdVolumesVolumeIdActions'' [''StorageId'', ''ConsistencyGroupId'', ''VolumeId'']
     [(''VolumeRemoveReplicaRelationship'', [], Checked ''VolumeV1100RemoveReplicaRelationshipRequestBody'', [Post]),
      (''VolumeResumeReplication'', [], Checked ''VolumeV1100ResumeReplicationRequestBody'', [Post]),
      (''VolumeReverseReplicationRelationship'', [], Checked ''VolumeV1100ReverseReplicationRelationshipRequestBody'', [Post])]"

definition Controllers_Storage_2d :: operations where
  "Controllers_Storage_2d = ops op_root ''StorageStorageIdConsistencyGroupsConsistencyGroupIdVolumesVolumeIdActions'' [''StorageId'', ''ConsistencyGroupId'', ''VolumeId'']
     [(''VolumeSplitReplication'', [], Checked ''VolumeV1100SplitReplicationRequestBody'', [Post]),
      (''VolumeSuspendReplication'', [], Checked ''VolumeV1100SuspendReplicationRequestBody'', [Post])]"

definition Controllers_Storage_3a :: operations where
  "Controllers_Storage_3a = ops op_root ''StorageStorageIdControllers'' [''StorageId'']
     [('''', [], Bodiless, [Get]),
      (''ControllerId'', [''ControllerId''], Checked ''StorageControllerV172StorageController'', [Get, Put, Patch])]"

definition Controllers_Storage_3b :: operations where
  "Controllers_Storage_3b = ops op_root ''StorageStorageIdControllers'' [''StorageId'']
     [(''ControllerIdActionsStorageControllerAttachNamespaces'', [''ControllerId''], Checked ''StorageControllerV172AttachNamespacesRequestBody'', [Post]),
      (''ControllerIdActionsStorageControllerDetachNamespaces'', [''ControllerId''], Checked ''StorageControllerV172DetachNamespacesRequestBody'', [Post]),
      (''ControllerIdActionsStorageControllerSecurityReceive'', [''ControllerId''], Checked ''StorageControllerV172SecurityReceiveRequestBody'', [Post])]"

definition Controllers_Storage_3c :: operations where
  "Controllers_Storage_3c = ops op_root ''StorageStorageIdControllers'' [''StorageId'']
     [(''ControllerIdActionsStorageControllerSecuritySend'', [''ControllerId''], Checked ''StorageControllerV172SecuritySendRequestBody'', [Post]),
      (''ControllerIdEnvironmentMetrics'', [''ControllerId''], Checked ''EnvironmentMetricsV131EnvironmentMetrics'', [Get, Put, Patch])]"

definition Controllers_Storage_3d :: operations where
  "Controllers_Storage_3d = ops op_root ''StorageStorageIdControllers'' [''StorageId'']
     [(''ControllerIdEnvironmentMetricsActionsEnvironmentMetricsResetMetrics'', [''ControllerId''], Untyped, [Post]),
      (''ControllerIdEnvironmentMetricsActionsEnvironmentMetricsResetToDefaults'', [''ControllerId''], Untyped, [Post]),
      (''ControllerIdMetrics'', [''ControllerId''], Bodiless, [Get])]"

definition Controllers_Storage_4a :: operations where
  "Controllers_Storage_4a = ops op_root ''StorageStorageIdControllersStorageControllerId'' [''StorageId'', ''StorageControllerId'']
     [(''Assembly'', [], Checked ''AssemblyV150Assembly'', [Get, Put, Patch]),
      (''Certificates'', [], Bodiless, [Get])]"

definition Controllers_Storage_4b :: operations where
  "Controllers_Storage_4b = ops op_root ''StorageStorageIdControllersStorageControllerId'' [''StorageId'', ''StorageControllerId'']
     [(''Certificates'', [], Checked ''CertificateV181Certificate'', [Post]),
      (''CertificatesCertificateId'', [''CertificateId''], Checked ''CertificateV181Certificate'', [Get, Put, Delete])]"

definition Controllers_Storage_4c :: operations where
  "Controllers_Storage_4c = ops op_root ''StorageStorageIdControllersStorageControllerId'' [''StorageId'', ''StorageControllerId'']
     [(''CertificatesCertificateId'', [''CertificateId''], Checked ''CertificateV181Certificate'', [Patch]),
      (''CertificatesCertificateIdActionsCertificateRekey'', [''CertificateId''], Checked ''CertificateV181RekeyRequestBody'', [Post]),
      (''CertificatesCertificateIdActionsCertificateRenew'', [''CertificateId''], Checked ''CertificateV181RenewRequestBody'', [Post])]"

definition Controllers_Storage_4d :: operations where
  "Controllers_Storage_4d = ops op_root ''StorageStorageIdControllersStorageControllerId'' [''StorageId'', ''StorageControllerId'']
     [(''Ports'', [], Bodiless, [Get]),
      (''PortsPortId'', [''PortId''], Checked ''PortV1110Port'', [Get, Put, Patch])]"

definition Controllers_Storage_4e :: operations where
  "Controllers_Storage_4e = ops op_root ''StorageStorageIdControllersStorageControllerId'' [''StorageId'', ''StorageControllerId'']
     [(''PortsPortIdActionsPortReset'', [''PortId''], Checked ''PortV1110ResetRequestBody'', [Post]),
      (''PortsPortIdActionsPortResetPPB'', [''PortId''], Untyped, [Post]),
      (''PortsPortIdEnvironmentMetrics'', [''PortId''], Checked ''EnvironmentMetricsV131EnvironmentMetrics'', [Get, Put])]"

definition Controllers_Storage_4f :: operations where
  "Controllers_Storage_4f = ops op_root ''StorageStorageIdControllersStorageControllerId'' [''StorageId'', ''StorageControllerId'']
     [(''PortsPortIdEnvironmentMetrics'', [''PortId''], Checked ''EnvironmentMetricsV131EnvironmentMetrics'', [Patch]),
      (''PortsPortIdEnvironmentMetricsActionsEnvironmentMetricsResetMetrics'', [''PortId''], Untyped, [Post]),
      (''PortsPortIdEnvironmentMetricsActionsEnvironmentMetricsResetToDefaults'', [''PortId''], Untyped, [Post]),
      (''PortsPortIdMetrics'', [''PortId''], Bodiless, [Get])]"

definition Controllers_Storage_5a :: operations where
  "Controllers_Storage_5a = ops op_root ''StorageStorageId'' [''StorageId'']
     [(''EndpointGroups'', [], Checked ''EndpointGroupV133EndpointGroup'', [Get, Post]),
      (''EndpointGroupsEndpointGroupId'', [''EndpointGroupId''], Checked ''EndpointGroupV133EndpointGroup'', [Get, Put, Delete])]"

definition Controllers_Storage_5b :: operations where
  "Controllers_Storage_5b = ops op_root ''StorageStorageId'' [''StorageId'']
     [(''EndpointGroupsEndpointGroupId'', [''EndpointGroupId''], Checked ''EndpointGroupV133EndpointGroup'', [Patch]),
      (''Endpoints'', [], Checked ''EndpointV181Endpoint'', [Get, Post]),
      (''EndpointsEndpointId'', [''EndpointId''], Checked ''EndpointV181Endpoint'', [Get, Put])]"

definition Controllers_Storage_5c :: operations where
  "Controllers_Storage_5c = ops op_root ''StorageStorageId'' [''StorageId'']
     [(''EndpointsEndpointId'', [''EndpointId''], Checked ''EndpointV181Endpoint'', [Delete, Patch]),
      (''FileSystemsFileSystemIdCapacitySourcesCapacitySourceIdProvidingDrives'', [''FileSystemId'', ''CapacitySourceId''], Bodiless, [Get]),
      (''FileSystemsFileSystemIdCapacitySourcesCapacitySourceIdProvidingVolumes'', [''FileSystemId'', ''CapacitySourceId''], Bodiless, [Get])]"

definition Controllers_Storage_5d :: operations where
  "Controllers_Storage_5d = ops op_root ''StorageStorageId'' [''StorageId'']
     [(''FileSystemsFileSystemIdCapacitySourcesCapacitySourceIdProvidingVolumes'', [''FileSystemId'', ''CapacitySourceId''], Checked ''VolumeV1100Volume'', [Post]),
      (''FileSystemsFileSystemIdCapacitySourcesCapacitySourceIdProvidingVolumesVolumeId'', [''FileSystemId'', ''CapacitySourceId'', ''VolumeId''], Checked ''VolumeV1100Volume'', [Get, Put])]"

definition Controllers_Storage_5e :: operations where
  "Controllers_Storage_5e = ops op_root ''StorageStorageId'' [''StorageId'']
     [(''FileSystemsFileSystemIdCapacitySourcesCapacitySourceIdProvidingVolumesVolumeId'', [''FileSystemId'', ''CapacitySourceId'', ''VolumeId''], Checked ''VolumeV1100Volume'', [Delete, Patch])]"

definition Controllers_Storage_6a :: operations where
  "Controllers_Storage_6a = ops op_root ''StorageStorageIdFileSystemsFileSystemIdCapacitySourcesCapacitySourceIdProvidingVolumesVolumeIdActions'' [''StorageId'', ''FileSystemId'', ''CapacitySourceId'', ''VolumeId'']
     [(''VolumeAssignReplicaTarget'', [], Checked ''VolumeV1100AssignReplicaTargetRequestBody'', [Post]),
      (''VolumeChangeRAIDLayout'', [], Checked ''VolumeV1100ChangeRaidLayoutRequestBody'', [Post]),
      (''VolumeCheckConsistency'', [], Untyped, [Post])]"

definition Controllers_Storage_6b :: operations where
  "Controllers_Storage_6b = ops op_root ''StorageStorageIdFileSystemsFileSystemIdCapacitySourcesCapacitySourceIdProvidingVolumesVolumeIdActions'' [''StorageId'', ''FileSystemId'', ''CapacitySourceId'', ''VolumeId'']
     [(''VolumeCreateReplicaTarget'', [], Checked ''VolumeV1100CreateReplicaTargetRequestBody'', [Post]),
      (''VolumeForceEnable'', [], Untyped, [Post]),
      (''VolumeInitialize'', [], Checked ''VolumeV1100InitializeRequestBody'', [Post])]"

definition Controllers_Storage_6c :: operations where
  "Controllers_Storage_6c = ops op_root ''StorageStorageIdFileSystemsFileSystemIdCapacitySourcesCapacitySourceIdProvidingVolumesVolumeIdActions'' [''StorageId'', ''FileSystemId'', ''CapacitySourceId'', ''VolumeId'']
     [(''VolumeRemoveReplicaRelationship'', [], Checked ''VolumeV1100RemoveReplicaRelationshipRequestBody'', [Post]),
      (''VolumeResumeReplication'', [], Checked ''VolumeV1100ResumeReplicationRequestBody'', [Post]),
      (''VolumeReverseReplicationRelationship'', [], Checked ''VolumeV1100ReverseReplicationRelationshipRequestBody'', [Post])]"

definition Controllers_Storage_6d :: operations where
  "Controllers_Storage_6d = ops op_root ''StorageStorageIdFileSystemsFileSystemIdCapacitySourcesCapacitySourceIdProvidingVolumesVolumeIdActions'' [''StorageId'', ''FileSystemId'', ''CapacitySourceId'', ''VolumeId'']
     [(''VolumeSplitReplication'', [], Checked ''VolumeV1100SplitReplicationRequestBody'', [Post]),
      (''VolumeSuspendReplication'', [], Checked ''VolumeV1100SuspendReplicationRequestBody'', [Post])]"

definition Controllers_Storage_7a :: operations where
  "Controllers_Storage_7a = ops op_root ''StorageStorageIdStorageControllersStorageControllerId'' [''StorageId'', ''StorageControllerId'']
     [(''Assembly'', [], Checked ''AssemblyV150Assembly'', [Get, Put, Patch]),
      (''Certificates'', [], Bodiless, [Get])]"

definition Controllers_Storage_7b :: operations where
  "Controllers_Storage_7b = ops op_root ''StorageStorageIdStorageControllersStorageControllerId'' [''StorageId'', ''StorageControllerId'']
     [(''Certificates'', [], Checked ''CertificateV181Certificate'', [Post]),
      (''CertificatesCertificateId'', [''CertificateId''], Checked ''CertificateV181Certificate'', [Get, Put, Delete])]"

definition Controllers_Storage_7c :: operations where
  "Controllers_Storage_7c = ops op_root ''StorageStorageIdStorageControllersStorageControllerId'' [''StorageId'', ''StorageControllerId'']
     [(''CertificatesCertificateId'', [''CertificateId''], Checked ''CertificateV181Certificate'', [Patch]),
      (''CertificatesCertificateIdActionsCertificateRekey'', [''CertificateId''], Checked ''CertificateV181RekeyRequestBody'', [Post]),
      (''CertificatesCertificateIdActionsCertificateRenew'', [''CertificateId''], Checked ''CertificateV181RenewRequestBody'', [Post])]"

definition Controllers_Storage_7d :: operations where
  "Controllers_Storage_7d = ops op_root ''StorageStorageIdStorageControllersStorageControllerId'' [''StorageId'', ''StorageControllerId'']
     [(''Ports'', [], Bodiless, [Get]),
      (''PortsPortId'', [''PortId''], Checked ''PortV1110Port'', [Get, Put, Patch])]"

definition Controllers_Storage_7e :: operations where
  "Controllers_Storage_7e = ops op_root ''StorageStorageIdStorageControllersStorageControllerId'' [''StorageId'', ''StorageControllerId'']
     [(''PortsPortIdActionsPortReset'', [''PortId''], Checked ''PortV1110ResetRequestBody'', [Post]),
      (''PortsPortIdActionsPortResetPPB'', [''PortId''], Untyped, [Post]),
      (''PortsPortIdEnvironmentMetrics'', [''PortId''], Checked ''EnvironmentMetricsV131EnvironmentMetrics'', [Get, Put])]"

definition Controllers_Storage_7f :: operations where
  "Controllers_Storage_7f = ops op_root ''StorageStorageIdStorageControllersStorageControllerId'' [''StorageId'', ''StorageControllerId'']
     [(''PortsPortIdEnvironmentMetrics'', [''PortId''], Checked ''EnvironmentMetricsV131EnvironmentMetrics'', [Patch]),
      (''PortsPortIdEnvironmentMetricsActionsEnvironmentMetricsResetMetrics'', [''PortId''], Untyped, [Post]),
      (''PortsPortIdEnvironmentMetricsActionsEnvironmentMetricsResetToDefaults'', [''PortId''], Untyped, [Post]),
      (''PortsPortIdMetrics'', [''PortId''], Bodiless, [Get])]"

definition Controllers_Storage_8a :: operations where
  "Controllers_Storage_8a = ops op_root ''StorageStorageIdStoragePoolsStoragePoolIdAllocatedVolumes'' [''StorageId'', ''StoragePoolId'']
     [('''', [], Checked ''VolumeV1100Volume'', [Get, Post]),
      (''VolumeId'', [''VolumeId''], Checked ''VolumeV1100Volume'', [Get, Put])]"

definition Controllers_Storage_8b :: operations where
  "Controllers_Storage_8b = ops op_root ''StorageStorageIdStoragePoolsStoragePoolIdAllocatedVolumes'' [''StorageId'', ''StoragePoolId'']
     [(''VolumeId'', [''VolumeId''], Checked ''VolumeV1100Volume'', [Delete, Patch]),
      (''VolumeIdActionsVolumeAssignReplicaTarget'', [''VolumeId''], Checked ''VolumeV1100AssignReplicaTargetRequestBody'', [Post])]"

definition Controllers_Storage_8c :: operations where
  "Controllers_Storage_8c = ops op_root ''StorageStorageIdStoragePoolsStoragePoolIdAllocatedVolumes'' [''StorageId'', ''StoragePoolId'']
     [(''VolumeIdActionsVolumeChangeRAIDLayout'', [''VolumeId''], Checked ''VolumeV1100ChangeRaidLayoutRequestBody'', [Post]),
      (''VolumeIdActionsVolumeCheckConsistency'', [''VolumeId''], Untyped, [Post]),
      (''VolumeIdActionsVolumeCreateReplicaTarget'', [''VolumeId''], Checked ''VolumeV1100CreateReplicaTargetRequestBody'', [Post])]"

definition Controllers_Storage_8d :: operations where
  "Controllers_Storage_8d = ops op_root ''StorageStorageIdStoragePoolsStoragePoolIdAllocatedVolumes'' [''StorageId'', ''StoragePoolId'']
     [(''VolumeIdActionsVolumeForceEnable'', [''VolumeId''], Untyped, [Post]),
      (''VolumeIdActionsVolumeInitialize'', [''VolumeId''], Checked ''VolumeV1100InitializeRequestBody'', [Post]),
      (''VolumeIdActionsVolumeRemoveReplicaRelationship'', [''VolumeId''], Checked ''VolumeV1100RemoveReplicaRelationshipRequestBody'', [Post])]"

definition Controllers_Storage_8e :: operations where
  "Controllers_Storage_8e = ops op_root ''StorageStorageIdStoragePoolsStoragePoolIdAllocatedVolumes'' [''StorageId'', ''StoragePoolId'']
     [(''VolumeIdActionsVolumeResumeReplication'', [''VolumeId''], Checked ''VolumeV1100ResumeReplicationRequestBody'', [Post]),
      (''VolumeIdActionsVolumeReverseReplicationRelationship'', [''VolumeId''], Checked ''VolumeV1100ReverseReplicationRelationshipRequestBody'', [Post]),
      (''VolumeIdActionsVolumeSplitReplication'', [''VolumeId''], Checked ''VolumeV1100SplitReplicationRequestBody'', [Post])]"

definition Controllers_Storage_8f :: operations where
  "Controllers_Storage_8f = ops op_root ''StorageStorageIdStoragePoolsStoragePoolIdAllocatedVolumes'' [''StorageId'', ''StoragePoolId'']
     [(''VolumeIdActionsVolumeSuspendReplication'', [''VolumeId''], Checked ''VolumeV1100SuspendReplicationRequestBody'', [Post])]"

definition Controllers_Storage_9a :: operations where
  "Controllers_Storage_9a = ops op_root ''StorageStorageIdStoragePoolsStoragePoolIdCapacitySourcesCapacitySourceId'' [''StorageId'', ''StoragePoolId'', ''CapacitySourceId'']
     [(''ProvidingDrives'', [], Bodiless, [Get]),
      (''ProvidingVolumes'', [], Checked ''VolumeV1100Volume'', [Get, Post]),
      (''ProvidingVolumesVolumeId'', [''VolumeId''], Bodiless, [Get])]"

definition Controllers_Storage_9b :: operations where
  "Controllers_Storage_9b = ops op_root ''StorageStorageIdStoragePoolsStoragePoolIdCapacitySourcesCapacitySourceId'' [''StorageId'', ''StoragePoolId'', ''CapacitySourceId'']
     [(''ProvidingVolumesVolumeId'', [''VolumeId''], Checked ''VolumeV1100Volume'', [Put, Delete, Patch])]"

definition Controllers_Storage_10a :: operations where
  "Controllers_Storage_10a = ops op_root ''StorageStorageIdStoragePoolsStoragePoolIdCapacitySourcesCapacitySourceIdProvidingVolumesVolumeIdActions'' [''StorageId'', ''StoragePoolId'', ''CapacitySourceId'', ''VolumeId'']
     [(''VolumeAssignReplicaTarget'', [], Checked ''VolumeV1100AssignReplicaTargetRequestBody'', [Post]),
      (''VolumeChangeRAIDLayout'', [], Checked ''VolumeV1100ChangeRaidLayoutRequestBody'', [Post]),
      (''VolumeCheckConsistency'', [], Untyped, [Post])]"

definition Controllers_Storage_10b :: operations where
  "Controllers_Storage_10b = ops op_root ''StorageStorageIdStoragePoolsStoragePoolIdCapacitySourcesCapacitySourceIdProvidingVolumesVolumeIdActions'' [''StorageId'', ''StoragePoolId'', ''CapacitySourceId'', ''VolumeId'']
     [(''VolumeCreateReplicaTarget'', [], Checked ''VolumeV1100CreateReplicaTargetRequestBody'', [Post]),
      (''VolumeForceEnable'', [], Untyped, [Post]),
      (''VolumeInitialize'', [], Checked ''VolumeV1100InitializeRequestBody'', [Post])]"

definition Controllers_Storage_10c :: operations where
  "Controllers_Storage_10c = ops op_root ''StorageStorageIdStoragePoolsStoragePoolIdCapacitySourcesCapacitySourceIdProvidingVolumesVolumeIdActions'' [''StorageId'', ''StoragePoolId'', ''CapacitySourceId'', ''VolumeId'']
     [(''VolumeRemoveReplicaRelationship'', [], Checked ''VolumeV1100RemoveReplicaRelationshipRequestBody'', [Post]),
      (''VolumeResumeReplication'', [], Checked ''VolumeV1100ResumeReplicationRequestBody'', [Post]),
      (''VolumeReverseReplicationRelationship'', [], Checked ''VolumeV1100ReverseReplicationRelationshipRequestBody'', [Post])]"

definition Controllers_Storage_10d :: operations where
  "Controllers_Storage_10d = ops op_root ''StorageStorageIdStoragePoolsStoragePoolIdCapacitySourcesCapacitySourceIdProvidingVolumesVolumeIdActions'' [''StorageId'', ''StoragePoolId'', ''CapacitySourceId'', ''VolumeId'']
     [(''VolumeSplitReplication'', [], Checked ''VolumeV1100SplitReplicationRequestBody'', [Post]),
      (''VolumeSuspendReplication'', [], Checked ''VolumeV1100SuspendReplicationRequestBody'', [Post])]"

definition Controllers_Storage_11a :: operations where
  "Controllers_Storage_11a = ops op_root ''StorageStorageIdVolumes'' [''StorageId'']
     [('''', [], Checked ''VolumeV1100Volume'', [Get, Post]),
      (''VolumeId'', [''VolumeId''], Checked ''VolumeV1100Volume'', [Get, Put, Delete])]"

definition Controllers_Storage_11b :: operations where
  "Controllers_Storage_11b = ops op_root ''StorageStorageIdVolumes'' [''StorageId'']
     [(''VolumeId'', [''VolumeId''], Checked ''VolumeV1100Volume'', [Patch]),
      (''VolumeIdActionsVolumeAssignReplicaTarget'', [''VolumeId''], Checked ''VolumeV1100AssignReplicaTargetRequestBody'', [Post]),
      (''VolumeIdActionsVolumeChangeRAIDLayout'', [''VolumeId''], Checked ''VolumeV1100ChangeRaidLayoutRequestBody'', [Post]),
      (''VolumeIdActionsVolumeCheckConsistency'', [''VolumeId''], Untyped, [Post])]"

definition Controllers_Storage_11c :: operations where
  "Controllers_Storage_11c = ops op_root ''StorageStorageIdVolumes'' [''StorageId'']
     [(''VolumeIdActionsVolumeCreateReplicaTarget'', [''VolumeId''], Checked ''VolumeV1100CreateReplicaTargetRequestBody'', [Post]),
      (''VolumeIdActionsVolumeForceEnable'', [''VolumeId''], Untyped, [Post]),
      (''VolumeIdActionsVolumeInitialize'', [''VolumeId''], Checked ''VolumeV1100InitializeRequestBody'', [Post]),
      (''VolumeIdActionsVolumeRemoveReplicaRelationship'', [''VolumeId''], Checked ''VolumeV1100RemoveReplicaRelationshipRequestBody'', [Post])]"

definition Controllers_Storage_11d :: operations where
  "Controllers_Storage_11d = ops op_root ''StorageStorageIdVolumes'' [''StorageId'']
     [(''VolumeIdActionsVolumeResumeReplication'', [''VolumeId''], Checked ''VolumeV1100ResumeReplicationRequestBody'', [Post]),
      (''VolumeIdActionsVolumeReverseReplicationRelationship'', [''VolumeId''], Checked ''VolumeV1100ReverseReplicationRelationshipRequestBody'', [Post]),
      (''VolumeIdActionsVolumeSplitReplication'', [''VolumeId''], Checked ''VolumeV1100SplitReplicationRequestBody'', [Post])]"

definition Controllers_Storage_11e :: operations where
  "Controllers_Storage_11e = ops op_root ''StorageStorageIdVolumes'' [''StorageId'']
     [(''VolumeIdActionsVolumeSuspendReplication'', [''VolumeId''], Checked ''VolumeV1100SuspendReplicationRequestBody'', [Post]),
      (''VolumeIdCapacitySourcesCapacitySourceIdProvidingDrives'', [''VolumeId'', ''CapacitySourceId''], Bodiless, [Get])]"

definition Controllers_StorageServices_1a :: operations where
  "Controllers_StorageServices_1a = ops op_root ''StorageServicesStorageServiceIdConsistencyGroupsConsistencyGroupIdVolumes'' [''StorageServiceId'', ''ConsistencyGroupId'']
     [('''', [], Checked ''VolumeV1100Volume'', [Get, Post]),
      (''VolumeId'', [''VolumeId''], Checked ''VolumeV1100Volume'', [Get, Put])]"

definition Controllers_StorageServices_1b :: operations where
  "Controllers_StorageServices_1b = ops op_root ''StorageServicesStorageServiceIdConsistencyGroupsConsistencyGroupIdVolumes'' [''StorageServiceId'', ''ConsistencyGroupId'']
     [(''VolumeId'', [''VolumeId''], Checked ''VolumeV1100Volume'', [Delete, Patch]),
      (''VolumeIdActionsVolumeAssignReplicaTarget'', [''VolumeId''], Checked ''VolumeV1100AssignReplicaTargetRequestBody'', [Post])]"

definition Controllers_StorageServices_1c :: operations where
  "Controllers_StorageServices_1c = ops op_root ''StorageServicesStorageServiceIdConsistencyGroupsConsistencyGroupIdVolumes'' [''StorageServiceId'', ''ConsistencyGroupId'']
     [(''VolumeIdActionsVolumeChangeRAIDLayout'', [''VolumeId''], Checked ''VolumeV1100ChangeRaidLayoutRequestBody'', [Post]),
      (''VolumeIdActionsVolumeCheckConsistency'', [''VolumeId''], Untyped, [Post]),
      (''VolumeIdActionsVolumeCreateReplicaTarget'', [''VolumeId''], Checked ''VolumeV1100CreateReplicaTargetRequestBody'', [Post])]"

definition Controllers_StorageServices_1d :: operations where
  "Controllers_StorageServices_1d = ops op_root ''StorageServicesStorageServiceIdConsistencyGroupsConsistencyGroupIdVolumes'' [''StorageServiceId'', ''ConsistencyGroupId'']
     [(''VolumeIdActionsVolumeForceEnable'', [''VolumeId''], Untyped, [Post]),
      (''VolumeIdActionsVolumeInitialize'', [''VolumeId''], Checked ''VolumeV1100InitializeRequestBody'', [Post]),
      (''VolumeIdActionsVolumeRemoveReplicaRelationship'', [''VolumeId''], Checked ''VolumeV1100RemoveReplicaRelationshipRequestBody'', [Post])]"

definition Controllers_StorageServices_1e :: operations where
  "Controllers_StorageServices_1e = ops op_root ''StorageServicesStorageServiceIdConsistencyGroupsConsistencyGroupIdVolumes'' [''StorageServiceId'', ''ConsistencyGroupId'']
     [(''VolumeIdActionsVolumeResumeReplication'', [''VolumeId''], Checked ''VolumeV1100ResumeReplicationRequestBody'', [Post]),
      (''VolumeIdActionsVolumeReverseReplicationRelationship'', [''VolumeId''], Checked ''VolumeV1100ReverseReplicationRelationshipRequestBody'', [Post]),
      (''VolumeIdActionsVolumeSplitReplication'', [''VolumeId''], Checked ''VolumeV1100SplitReplicationRequestBody'', [Post])]"

definition Controllers_StorageServices_1f :: operations where
  "Controllers_StorageServices_1f = ops op_root ''StorageServicesStorageServiceIdConsistencyGroupsConsistencyGroupIdVolumes'' [''StorageServiceId'', ''ConsistencyGroupId'']
     [(''VolumeIdActionsVolumeSuspendReplication'', [''VolumeId''], Checked ''VolumeV1100SuspendReplicationRequestBody'', [Post])]"

definition Controllers_StorageServices_2a :: operations where
  "Controllers_StorageServices_2a = ops op_root ''StorageServicesStorageServiceId'' [''StorageServiceId'']
     [(''Drives'', [], Bodiless, [Get]),
      (''EndpointGroups'', [], Checked ''EndpointGroupV133EndpointGroup'', [Get, Post]),
      (''EndpointGroupsEndpointGroupId'', [''EndpointGroupId''], Checked ''EndpointGroupV133EndpointGroup'', [Get, Put])]"

definition Controllers_StorageServices_2b :: operations where
  "Controllers_StorageServices_2b = ops op_root ''StorageServicesStorageServiceId'' [''StorageServiceId'']
     [(''EndpointGroupsEndpointGroupId'', [''EndpointGroupId''], Checked ''EndpointGroupV133EndpointGroup'', [Delete, Patch]),
      (''Endpoints'', [], Checked ''EndpointV181Endpoint'', [Get, Post]),
      (''EndpointsEndpointId'', [''EndpointId''], Bodiless, [Get])]"

definition Controllers_StorageServices_2c :: operations where
  "Controllers_StorageServices_2c = ops op_root ''StorageServicesStorageServiceId'' [''StorageServiceId'']
     [(''EndpointsEndpointId'', [''EndpointId''], Checked ''EndpointV181Endpoint'', [Put, Delete, Patch]),
      (''FileSystemsFileSystemIdCapacitySourcesCapacitySourceIdProvidingDrives'', [''FileSystemId'', ''CapacitySourceId''], Bodiless, [Get])]"

definition Controllers_StorageServices_2d :: operations where
  "Controllers_StorageServices_2d = ops op_root ''StorageServicesStorageServiceId'' [''StorageServiceId'']
     [(''FileSystemsFileSystemIdCapacitySourcesCapacitySourceIdProvidingVolumes'', [''FileSystemId'', ''CapacitySourceId''], Checked ''VolumeV1100Volume'', [Get, Post]),
      (''FileSystemsFileSystemIdCapacitySourcesCapacitySourceIdProvidingVolumesVolumeId'', [''FileSystemId'', ''CapacitySourceId'', ''VolumeId''], Bodiless, [Get])]"

definition Controllers_StorageServices_2e :: operations where
  "Controllers_StorageServices_2e = ops op_root ''StorageServicesStorageServiceId'' [''StorageServiceId'']
     [(''FileSystemsFileSystemIdCapacitySourcesCapacitySourceIdProvidingVolumesVolumeId'', [''FileSystemId'', ''CapacitySourceId'', ''VolumeId''], Checked ''VolumeV1100Volume'', [Put, Delete, Patch])]"

definition Controllers_StorageServices_3a :: operations where
  "Controllers_StorageServices_3a = ops op_root ''StorageServicesStorageServiceIdFileSystemsFileSystemIdCapacitySourcesCapacitySourceIdProvidingVolumesVolumeIdActions'' [''StorageServiceId'', ''FileSystemId'', ''CapacitySourceId'', ''VolumeId'']
     [(''VolumeAssignReplicaTarget'', [], Checked ''VolumeV1100AssignReplicaTargetRequestBody'', [Post]),
      (''VolumeChangeRAIDLayout'', [], Checked ''VolumeV1100ChangeRaidLayoutRequestBody'', [Post]),
      (''VolumeCheckConsistency'', [], Untyped, [Post])]"

definition Controllers_StorageServices_3b :: operations where
  "Controllers_StorageServices_3b = ops op_root ''StorageServicesStorageServiceIdFileSystemsFileSystemIdCapacitySourcesCapacitySourceIdProvidingVolumesVolumeIdActions'' [''StorageServiceId'', ''FileSystemId'', ''CapacitySourceId'', ''VolumeId'']
     [(''VolumeCreateReplicaTarget'', [], Checked ''VolumeV1100CreateReplicaTargetRequestBody'', [Post]),
      (''VolumeForceEnable'', [], Untyped, [Post]),
      (''VolumeInitialize'', [], Checked ''VolumeV1100InitializeRequestBody'', [Post])]"

definition Controllers_StorageServices_3c :: operations where
  "Controllers_StorageServices_3c = ops op_root ''StorageServicesStorageServiceIdFileSystemsFileSystemIdCapacitySourcesCapacitySourceIdProvidingVolumesVolumeIdActions'' [''StorageServiceId'', ''FileSystemId'', ''CapacitySourceId'', ''VolumeId'']
     [(''VolumeRemoveReplicaRelationship'', [], Checked ''VolumeV1100RemoveReplicaRelationshipRequestBody'', [Post]),
      (''VolumeResumeReplication'', [], Checked ''VolumeV1100ResumeReplicationRequestBody'', [Post]),
      (''VolumeReverseReplicationRelationship'', [], Checked ''VolumeV1100ReverseReplicationRelationshipRequestBody'', [Post])]"

definition Controllers_StorageServices_3d :: operations where
  "Controllers_StorageServices_3d = ops op_root ''StorageServicesStorageServiceIdFileSystemsFileSystemIdCapacitySourcesCapacitySourceIdProvidingVolumesVolumeIdActions'' [''StorageServiceId'', ''FileSystemId'', ''CapacitySourceId'', ''VolumeId'']
     [(''VolumeSplitReplication'', [], Checked ''VolumeV1100SplitReplicationRequestBody'', [Post]),
      (''VolumeSuspendReplication'', [], Checked ''VolumeV1100SuspendReplicationRequestBody'', [Post])]"

definition Controllers_StorageServices_4a :: operations where
  "Controllers_StorageServices_4a = ops op_root ''StorageServicesStorageServiceIdStoragePoolsStoragePoolIdAllocatedVolumes'' [''StorageServiceId'', ''StoragePoolId'']
     [('''', [], Checked ''VolumeV1100Volume'', [Get, Post]),
      (''VolumeId'', [''VolumeId''], Checked ''VolumeV1100Volume'', [Get, Put])]"

definition Controllers_StorageServices_4b :: operations where
  "Controllers_StorageServices_4b = ops op_root ''StorageServicesStorageServiceIdStoragePoolsStoragePoolIdAllocatedVolumes'' [''StorageServiceId'', ''StoragePoolId'']
     [(''VolumeId'', [''VolumeId''], Checked ''VolumeV1100Volume'', [Delete, Patch]),
      (''VolumeIdActionsVolumeAssignReplicaTarget'', [''VolumeId''], Checked ''VolumeV1100AssignReplicaTargetRequestBody'', [Post])]"

definition Controllers_StorageServices_4c :: operations where
  "Controllers_StorageServices_4c = ops op_root ''StorageServicesStorageServiceIdStoragePoolsStoragePoolIdAllocatedVolumes'' [''StorageServiceId'', ''StoragePoolId'']
     [(''VolumeIdActionsVolumeChangeRAIDLayout'', [''VolumeId''], Checked ''VolumeV1100ChangeRaidLayoutRequestBody'', [Post]),
      (''VolumeIdActionsVolumeCheckConsistency'', [''VolumeId''], Untyped, [Post]),
      (''VolumeIdActionsVolumeCreateReplicaTarget'', [''VolumeId''], Checked ''VolumeV1100CreateReplicaTargetRequestBody'', [Post])]"

definition Controllers_StorageServices_4d :: operations where
  "Controllers_StorageServices_4d = ops op_root ''StorageServicesStorageServiceIdStoragePoolsStoragePoolIdAllocatedVolumes'' [''StorageServiceId'', ''StoragePoolId'']
     [(''VolumeIdActionsVolumeForceEnable'', [''VolumeId''], Untyped, [Post]),
      (''VolumeIdActionsVolumeInitialize'', [''VolumeId''], Checked ''VolumeV1100InitializeRequestBody'', [Post]),
      (''VolumeIdActionsVolumeRemoveReplicaRelationship'', [''VolumeId''], Checked ''VolumeV1100RemoveReplicaRelationshipRequestBody'', [Post])]"

definition Controllers_StorageServices_4e :: operations where
  "Controllers_StorageServices_4e = ops op_root ''StorageServicesStorageServiceIdStoragePoolsStoragePoolIdAllocatedVolumes'' [''StorageServiceId'', ''StoragePoolId'']
     [(''VolumeIdActionsVolumeResumeReplication'', [''VolumeId''], Checked ''VolumeV1100ResumeReplicationRequestBody'', [Post]),
      (''VolumeIdActionsVolumeReverseReplicationRelationship'', [''VolumeId''], Checked ''VolumeV1100ReverseReplicationRelationshipRequestBody'', [Post]),
      (''VolumeIdActionsVolumeSplitReplication'', [''VolumeId''], Checked ''VolumeV1100SplitReplicationRequestBody'', [Post])]"

definition Controllers_StorageServices_4f :: operations where
  "Controllers_StorageServices_4f = ops op_root ''StorageServicesStorageServiceIdStoragePoolsStoragePoolIdAllocatedVolumes'' [''StorageServiceId'', ''StoragePoolId'']
     [(''VolumeIdActionsVolumeSuspendReplication'', [''VolumeId''], Checked ''VolumeV1100SuspendReplicationRequestBody'', [Post])]"

definition Controllers_StorageServices_5a :: operations where
  "Controllers_StorageServices_5a = ops op_root ''StorageServicesStorageServiceIdStoragePoolsStoragePoolIdCapacitySourcesCapacitySourceId'' [''StorageServiceId'', ''StoragePoolId'', ''CapacitySourceId'']
     [(''ProvidingDrives'', [], Bodiless, [Get]),
      (''ProvidingVolumes'', [], Checked ''VolumeV1100Volume'', [Get, Post]),
      (''ProvidingVolumesVolumeId'', [''VolumeId''], Bodiless, [Get])]"

definition Controllers_StorageServices_5b :: operations where
  "Controllers_StorageServices_5b = ops op_root ''StorageServicesStorageServiceIdStoragePoolsStoragePoolIdCapacitySourcesCapacitySourceId'' [''StorageServiceId'', ''StoragePoolId'', ''CapacitySourceId'']
     [(''ProvidingVolumesVolumeId'', [''VolumeId''], Checked ''VolumeV1100Volume'', [Put, Delete, Patch])]"

definition Controllers_StorageServices_6a :: operations where
  "Controllers_StorageServices_6a = ops op_root ''StorageServicesStorageServiceIdStoragePoolsStoragePoolIdCapacitySourcesCapacitySourceIdProvidingVolumesVolumeIdActions'' [''StorageServiceId'', ''StoragePoolId'', ''CapacitySourceId'', ''VolumeId'']
     [(''VolumeAssignReplicaTarget'', [], Checked ''VolumeV1100AssignReplicaTargetRequestBody'', [Post]),
      (''VolumeChangeRAIDLayout'', [], Checked ''VolumeV1100ChangeRaidLayoutRequestBody'', [Post]),
      (''VolumeCheckConsistency'', [], Untyped, [Post])]"

definition Controllers_StorageServices_6b :: operations where
  "Controllers_StorageServices_6b = ops op_root ''StorageServicesStorageServiceIdStoragePoolsStoragePoolIdCapacitySourcesCapacitySourceIdProvidingVolumesVolumeIdActions'' [''StorageServiceId'', ''StoragePoolId'', ''CapacitySourceId'', ''VolumeId'']
     [(''VolumeCreateReplicaTarget'', [], Checked ''VolumeV1100CreateReplicaTargetRequestBody'', [Post]),
      (''VolumeForceEnable'', [], Untyped, [Post]),
      (''VolumeInitialize'', [], Checked ''VolumeV1100InitializeRequestBody'', [Post])]"

definition Controllers_StorageServices_6c :: operations where
  "Controllers_StorageServices_6c = ops op_root ''StorageServicesStorageServiceIdStoragePoolsStoragePoolIdCapacitySourcesCapacitySourceIdProvidingVolumesVolumeIdActions'' [''StorageServiceId'', ''StoragePoolId'', ''CapacitySourceId'', ''VolumeId'']
     [(''VolumeRemoveReplicaRelationship'', [], Checked ''VolumeV1100RemoveReplicaRelationshipRequestBody'', [Post]),
      (''VolumeResumeReplication'', [], Checked ''VolumeV1100ResumeReplicationRequestBody'', [Post]),
      (''VolumeReverseReplicationRelationship'', [], Checked ''VolumeV1100ReverseReplicationRelationshipRequestBody'', [Post])]"

definition Controllers_StorageServices_6d :: operations where
  "Controllers_StorageServices_6d = ops op_root ''StorageServicesStorageServiceIdStoragePoolsStoragePoolIdCapacitySourcesCapacitySourceIdProvidingVolumesVolumeIdActions'' [''StorageServiceId'', ''StoragePoolId'', ''CapacitySourceId'', ''VolumeId'']
     [(''VolumeSplitReplication'', [], Checked ''VolumeV1100SplitReplicationRequestBody'', [Post]),
      (''VolumeSuspendReplication'', [], Checked ''VolumeV1100SuspendReplicationRequestBody'', [Post])]"

definition Controllers_StorageServices_7a :: operations where
  "Controllers_StorageServices_7a = ops op_root ''StorageServicesStorageServiceIdVolumes'' [''StorageServiceId'']
     [('''', [], Checked ''VolumeV1100Volume'', [Get, Post]),
      (''VolumeId'', [''VolumeId''], Checked ''VolumeV1100Volume'', [Get, Put, Delete])]"

definition Controllers_StorageServices_7b :: operations where
  "Controllers_StorageServices_7b = ops op_root ''StorageServicesStorageServiceIdVolumes'' [''StorageServiceId'']
     [(''VolumeId'', [''VolumeId''], Checked ''VolumeV1100Volume'', [Patch]),
      (''VolumeIdActionsVolumeAssignReplicaTarget'', [''VolumeId''], Checked ''VolumeV1100AssignReplicaTargetRequestBody'', [Post]),
      (''VolumeIdActionsVolumeChangeRAIDLayout'', [''VolumeId''], Checked ''VolumeV1100ChangeRaidLayoutRequestBody'', [Post]),
      (''VolumeIdActionsVolumeCheckConsistency'', [''VolumeId''], Untyped, [Post])]"

definition Controllers_StorageServices_7c :: operations where
  "Controllers_StorageServices_7c = ops op_root ''StorageServicesStorageServiceIdVolumes'' [''StorageServiceId'']
     [(''VolumeIdActionsVolumeCreateReplicaTarget'', [''VolumeId''], Checked ''VolumeV1100CreateReplicaTargetRequestBody'', [Post]),
      (''VolumeIdActionsVolumeForceEnable'', [''VolumeId''], Untyped, [Post]),
      (''VolumeIdActionsVolumeInitialize'', [''VolumeId''], Checked ''VolumeV1100InitializeRequestBody'', [Post]),
      (''VolumeIdActionsVolumeRemoveReplicaRelationship'', [''VolumeId''], Checked ''VolumeV1100RemoveReplicaRelationshipRequestBody'', [Post])]"

definition Controllers_StorageServices_7d :: operations where
  "Controllers_StorageServices_7d = ops op_root ''StorageServicesStorageServiceIdVolumes'' [''StorageServiceId'']
     [(''VolumeIdActionsVolumeResumeReplication'', [''VolumeId''], Checked ''VolumeV1100ResumeReplicationRequestBody'', [Post]),
      (''VolumeIdActionsVolumeReverseReplicationRelationship'', [''VolumeId''], Checked ''VolumeV1100ReverseReplicationRelationshipRequestBody'', [Post]),
      (''VolumeIdActionsVolumeSplitReplication'', [''VolumeId''], Checked ''VolumeV1100SplitReplicationRequestBody'', [Post])]"

definition Controllers_StorageServices_7e :: operations where
  "Controllers_StorageServices_7e = ops op_root ''StorageServicesStorageServiceIdVolumes'' [''StorageServiceId'']
     [(''VolumeIdActionsVolumeSuspendReplication'', [''VolumeId''], Checked ''VolumeV1100SuspendReplicationRequestBody'', [Post]),
      (''VolumeIdCapacitySourcesCapacitySourceIdProvidingDrives'', [''VolumeId'', ''CapacitySourceId''], Bodiless, [Get]),
      (''VolumeIdCapacitySourcesCapacitySourceIdProvidingVolumes'', [''VolumeId'', ''CapacitySourceId''], Checked ''VolumeV1100Volume'', [Get, Post])]"

definition Controllers_StorageServices_7f :: operations where
  "Controllers_StorageServices_7f = ops op_root ''StorageServicesStorageServiceIdVolumes'' [''StorageServiceId'']
     [(''VolumeIdCapacitySourcesCapacitySourceIdProvidingVolumesProvidingVolumeId'', [''VolumeId'', ''CapacitySourceId'', ''ProvidingVolumeId''], Checked ''VolumeV1100Volume'', [Get, Put, Delete])]"

definition Controllers_StorageServices_7g :: operations where
  "Controllers_StorageServices_7g = ops op_root ''StorageServicesStorageServiceIdVolumes'' [''StorageServiceId'']
     [(''VolumeIdCapacitySourcesCapacitySourceIdProvidingVolumesProvidingVolumeId'', [''VolumeId'', ''CapacitySourceId'', ''ProvidingVolumeId''], Checked ''VolumeV1100Volume'', [Patch])]"

definition Controllers_StorageServices_8a :: operations where
  "Controllers_StorageServices_8a = ops op_root ''StorageServicesStorageServiceIdVolumesVolumeIdCapacitySourcesCapacitySourceIdProvidingVolumesProvidingVolumeIdActions'' [''StorageServiceId'', ''VolumeId'', ''CapacitySourceId'', ''ProvidingVolumeId'']
     [(''VolumeAssignReplicaTarget'', [], Checked ''VolumeV1100AssignReplicaTargetRequestBody'', [Post]),
      (''VolumeChangeRAIDLayout'', [], Checked ''VolumeV1100ChangeRaidLayoutRequestBody'', [Post]),
      (''VolumeCheckConsistency'', [], Untyped, [Post])]"

definition Controllers_StorageServices_8b :: operations where
  "Controllers_StorageServices_8b = ops op_root ''StorageServicesStorageServiceIdVolumesVolumeIdCapacitySourcesCapacitySourceIdProvidingVolumesProvidingVolumeIdActions'' [''StorageServiceId'', ''VolumeId'', ''CapacitySourceId'', ''ProvidingVolumeId'']
     [(''VolumeCreateReplicaTarget'', [], Checked ''VolumeV1100CreateReplicaTargetRequestBody'', [Post]),
      (''VolumeForceEnable'', [], Untyped, [Post]),
      (''VolumeInitialize'', [], Checked ''VolumeV1100InitializeRequestBody'', [Post])]"

definition Controllers_StorageServices_8c :: operations where
  "Controllers_StorageServices_8c = ops op_root ''StorageServicesStorageServiceIdVolumesVolumeIdCapacitySourcesCapacitySourceIdProvidingVolumesProvidingVolumeIdActions'' [''StorageServiceId'', ''VolumeId'', ''CapacitySourceId'', ''ProvidingVolumeId'']
     [(''VolumeRemoveReplicaRelationship'', [], Checked ''VolumeV1100RemoveReplicaRelationshipRequestBody'', [Post]),
      (''VolumeResumeReplication'', [], Checked ''VolumeV1100ResumeReplicationRequestBody'', [Post]),
      (''VolumeReverseReplicationRelationship'', [], Checked ''VolumeV1100ReverseReplicationRelationshipRequestBody'', [Post])]"

definition Controllers_StorageServices_8d :: operations where
  "Controllers_StorageServices_8d = ops op_root ''StorageServicesStorageServiceIdVolumesVolumeIdCapacitySourcesCapacitySourceIdProvidingVolumesProvidingVolumeIdActions'' [''StorageServiceId'', ''VolumeId'', ''CapacitySourceId'', ''ProvidingVolumeId'']
     [(''VolumeSplitReplication'', [], Checked ''VolumeV1100SplitReplicationRequestBody'', [Post]),
      (''VolumeSuspendReplication'', [], Checked ''VolumeV1100SuspendReplicationRequestBody'', [Post])]"

definition Controllers_ThermalEquipment_1a :: operations where
  "Controllers_ThermalEquipment_1a = ops op_root ''ThermalEquipment'' []
     [('''', [], Bodiless, [Get]),
      (''CDUs'', [], Bodiless, [Get])]"

definition Controllers_ThermalEquipment_2a :: operations where
  "Controllers_ThermalEquipment_2a = ops op_root ''ThermalEquipmentCDUsCoolingUnitId'' [''CoolingUnitId'']
     [('''', [], Checked ''CoolingUnitV111CoolingUnit'', [Get, Put, Patch]),
      (''Assembly'', [], Checked ''AssemblyV150Assembly'', [Get, Put])]"

definition Controllers_ThermalEquipment_2b :: operations where
  "Controllers_ThermalEquipment_2b = ops op_root ''ThermalEquipmentCDUsCoolingUnitId'' [''CoolingUnitId'']
     [(''Assembly'', [], Checked ''AssemblyV150Assembly'', [Patch]),
      (''EnvironmentMetrics'', [], Checked ''EnvironmentMetricsV131EnvironmentMetrics'', [Get, Put, Patch]),
      (''EnvironmentMetricsActionsEnvironmentMetricsResetMetrics'', [], Untyped, [Post])]"

definition Controllers_ThermalEquipment_2c :: operations where
  "Controllers_ThermalEquipment_2c = ops op_root ''ThermalEquipmentCDUsCoolingUnitId'' [''CoolingUnitId'']
     [(''EnvironmentMetricsActionsEnvironmentMetricsResetToDefaults'', [], Untyped, [Post]),
      (''Filters'', [], Bodiless, [Get]),
      (''FiltersFilterId'', [''FilterId''], Checked ''FilterV101Filter'', [Get, Put, Patch])]"

definition Controllers_ThermalEquipment_2d :: operations where
  "Controllers_ThermalEquipment_2d = ops op_root ''ThermalEquipmentCDUsCoolingUnitId'' [''CoolingUnitId'']
     [(''FiltersFilterIdAssembly'', [''FilterId''], Checked ''AssemblyV150Assembly'', [Get, Put, Patch]),
      (''LeakDetection'', [], Bodiless, [Get]),
      (''LeakDetectionLeakDetectors'', [], Bodiless, [Get])]"

definition Controllers_ThermalEquipment_2e :: operations where
  "Controllers_ThermalEquipment_2e = ops op_root ''ThermalEquipmentCDUsCoolingUnitId'' [''CoolingUnitId'']
     [(''LeakDetectionLeakDetectorsLeakDetectorId'', [''LeakDetectorId''], Bodiless, [Get]),
      (''PrimaryCoolantConnectors'', [], Bodiless, [Get]),
      (''PrimaryCoolantConnectorsCoolantConnectorId'', [''CoolantConnectorId''], Checked ''CoolantConnectorV101CoolantConnector'', [Get, Put, Patch])]"

definition Controllers_ThermalEquipment_2f :: operations where
  "Controllers_ThermalEquipment_2f = ops op_root ''ThermalEquipmentCDUsCoolingUnitId'' [''CoolingUnitId'']
     [(''Pumps'', [], Bodiless, [Get]),
      (''PumpsPumpId'', [''PumpId''], Checked ''PumpV101Pump'', [Get, Put, Patch])]"

definition Controllers_ThermalEquipment_3a :: operations where
  "Controllers_ThermalEquipment_3a = ops op_root ''ThermalEquipmentCDUsCoolingUnitId'' [''CoolingUnitId'']
     [(''PumpsPumpIdAssembly'', [''PumpId''], Checked ''AssemblyV150Assembly'', [Get, Put, Patch]),
      (''PumpsPumpIdFilters'', [''PumpId''], Bodiless, [Get]),
      (''PumpsPumpIdFiltersFilterId'', [''PumpId'', ''FilterId''], Bodiless, [Get])]"

definition Controllers_ThermalEquipment_3b :: operations where
  "Controllers_ThermalEquipment_3b = ops op_root ''ThermalEquipmentCDUsCoolingUnitId'' [''CoolingUnitId'']
     [(''PumpsPumpIdFiltersFilterId'', [''PumpId'', ''FilterId''], Checked ''FilterV101Filter'', [Put, Patch]),
      (''PumpsPumpIdFiltersFilterIdAssembly'', [''PumpId'', ''FilterId''], Bodiless, [Get])]"

definition Controllers_ThermalEquipment_3c :: operations where
  "Controllers_ThermalEquipment_3c = ops op_root ''ThermalEquipmentCDUsCoolingUnitId'' [''CoolingUnitId'']
     [(''PumpsPumpIdFiltersFilterIdAssembly'', [''PumpId'', ''FilterId''], Checked ''AssemblyV150Assembly'', [Put, Patch]),
      (''Reservoirs'', [], Bodiless, [Get]),
      (''ReservoirsReservoirId'', [''ReservoirId''], Bodiless, [Get])]"

definition Controllers_ThermalEquipment_3d :: operations where
  "Controllers_ThermalEquipment_3d = ops op_root ''ThermalEquipmentCDUsCoolingUnitId'' [''CoolingUnitId'']
     [(''ReservoirsReservoirId'', [''ReservoirId''], Checked ''ReservoirV101Reservoir'', [Put, Patch]),
      (''ReservoirsReservoirIdAssembly'', [''ReservoirId''], Checked ''AssemblyV150Assembly'', [Get, Put])]"

definition Controllers_ThermalEquipment_3e :: operations where
  "Controllers_ThermalEquipment_3e = ops op_root ''ThermalEquipmentCDUsCoolingUnitId'' [''CoolingUnitId'']
     [(''ReservoirsReservoirIdAssembly'', [''ReservoirId''], Checked ''AssemblyV150Assembly'', [Patch]),
      (''ReservoirsReservoirIdFilters'', [''ReservoirId''], Bodiless, [Get]),
      (''ReservoirsReservoirIdFiltersFilterId'', [''ReservoirId'', ''FilterId''], Checked ''FilterV101Filter'', [Get, Put])]"

definition Controllers_ThermalEquipment_3f :: operations where
  "Controllers_ThermalEquipment_3f = ops op_root ''ThermalEquipmentCDUsCoolingUnitId'' [''CoolingUnitId'']
     [(''ReservoirsReservoirIdFiltersFilterId'', [''ReservoirId'', ''FilterId''], Checked ''FilterV101Filter'', [Patch]),
      (''ReservoirsReservoirIdFiltersFilterIdAssembly'', [''ReservoirId'', ''FilterId''], Checked ''AssemblyV150Assembly'', [Get, Put])]"

definition Controllers_ThermalEquipment_3g :: operations where
  "Controllers_ThermalEquipment_3g = ops op_root ''ThermalEquipmentCDUsCoolingUnitId'' [''CoolingUnitId'']
     [(''ReservoirsReservoirIdFiltersFilterIdAssembly'', [''ReservoirId'', ''FilterId''], Checked ''AssemblyV150Assembly'', [Patch]),
      (''SecondaryCoolantConnectors'', [], Bodiless, [Get]),
      (''SecondaryCoolantConnectorsCoolantConnectorId'', [''CoolantConnectorId''], Checked ''CoolantConnectorV101CoolantConnector'', [Get, Put])]"

definition Controllers_ThermalEquipment_3h :: operations where
  "Controllers_ThermalEquipment_3h = ops op_root ''ThermalEquipmentCDUsCoolingUnitId'' [''CoolingUnitId'']
     [(''SecondaryCoolantConnectorsCoolantConnectorId'', [''CoolantConnectorId''], Checked ''CoolantConnectorV101CoolantConnector'', [Patch])]"

definition Controllers_ThermalEquipment_4a :: operations where
  "Controllers_ThermalEquipment_4a = ops op_root ''ThermalEquipment'' []
     [(''CoolingLoops'', [], Bodiless, [Get]),
      (''CoolingLoopsCoolingLoopId'', [''CoolingLoopId''], Checked ''CoolingLoopV102CoolingLoop'', [Get, Put, Patch]),
      (''CoolingLoopsCoolingUnitIdPrimaryCoolantConnectors'', [''CoolingUnitId''], Bodiless, [Get]),
      (''CoolingLoopsCoolingUnitIdPrimaryCoolantConnectorsCoolantConnectorId'', [''CoolingUnitId'', ''CoolantConnectorId''], Bodiless, [Get])]"

definition Controllers_ThermalEquipment_4b :: operations where
  "Controllers_ThermalEquipment_4b = ops op_root ''ThermalEquipment'' []
     [(''CoolingLoopsCoolingUnitIdPrimaryCoolantConnectorsCoolantConnectorId'', [''CoolingUnitId'', ''CoolantConnectorId''], Checked ''CoolantConnectorV101CoolantConnector'', [Put, Patch]),
      (''CoolingLoopsCoolingUnitIdSecondaryCoolantConnectors'', [''CoolingUnitId''], Bodiless, [Get]),
      (''CoolingLoopsCoolingUnitIdSecondaryCoolantConnectorsCoolantConnectorId'', [''CoolingUnitId'', ''CoolantConnectorId''], Bodiless, [Get])]"

definition Controllers_ThermalEquipment_4c :: operations where
  "Controllers_ThermalEquipment_4c = ops op_root ''ThermalEquipment'' []
     [(''CoolingLoopsCoolingUnitIdSecondaryCoolantConnectorsCoolantConnectorId'', [''CoolingUnitId'', ''CoolantConnectorId''], Checked ''CoolantConnectorV101CoolantConnector'', [Put, Patch]),
      (''HeatExchangers'', [], Bodiless, [Get])]"

definition Controllers_ThermalEquipment_5a :: operations where
  "Controllers_ThermalEquipment_5a = ops op_root ''ThermalEquipmentHeatExchangersCoolingUnitId'' [''CoolingUnitId'']
     [('''', [], Checked ''CoolingUnitV111CoolingUnit'', [Get, Put, Patch]),
      (''Assembly'', [], Checked ''AssemblyV150Assembly'', [Get, Put])]"

definition Controllers_ThermalEquipment_5b :: operations where
  "Controllers_ThermalEquipment_5b = ops op_root ''ThermalEquipmentHeatExchangersCoolingUnitId'' [''CoolingUnitId'']
     [(''Assembly'', [], Checked ''AssemblyV150Assembly'', [Patch]),
      (''EnvironmentMetrics'', [], Checked ''EnvironmentMetricsV131EnvironmentMetrics'', [Get, Put, Patch]),
      (''EnvironmentMetricsActionsEnvironmentMetricsResetMetrics'', [], Untyped, [Post])]"

definition Controllers_ThermalEquipment_5c :: operations where
  "Controllers_ThermalEquipment_5c = ops op_root ''ThermalEquipmentHeatExchangersCoolingUnitId'' [''CoolingUnitId'']
     [(''EnvironmentMetricsActionsEnvironmentMetricsResetToDefaults'', [], Untyped, [Post]),
      (''Filters'', [], Bodiless, [Get]),
      (''FiltersFilterId'', [''FilterId''], Checked ''FilterV101Filter'', [Get, Put, Patch])]"

definition Controllers_ThermalEquipment_5d :: operations where
  "Controllers_ThermalEquipment_5d = ops op_root ''ThermalEquipmentHeatExchangersCoolingUnitId'' [''CoolingUnitId'']
     [(''FiltersFilterIdAssembly'', [''FilterId''], Checked ''AssemblyV150Assembly'', [Get, Put, Patch]),
      (''LeakDetection'', [], Bodiless, [Get])]"

definition Controllers_Leaka :: operations where
  "Controllers_Leaka = ops op_root ''ThermalEquipmentHeatExchangersCoolingUnitIdLeakDetectionLeakDetectors'' [''CoolingUnitId'']
     [('''', [], Bodiless, [Get])]"

definition Controllers_ThermalEquipment_6a :: operations where
  "Controllers_ThermalEquipment_6a = ops op_root ''ThermalEquipmentHeatExchangersCoolingUnitId'' [''CoolingUnitId'']
     [(''LeakDetectionLeakDetectorsLeakDetectorId'', [''LeakDetectorId''], Bodiless, [Get]),
      (''PrimaryCoolantConnectors'', [], Bodiless, [Get]),
      (''PrimaryCoolantConnectorsCoolantConnectorId'', [''CoolantConnectorId''], Checked ''CoolantConnectorV101CoolantConnector'', [Get, Put, Patch])]"

definition Controllers_ThermalEquipment_6b :: operations where
  "Controllers_ThermalEquipment_6b = ops op_root ''ThermalEquipmentHeatExchangersCoolingUnitId'' [''CoolingUnitId'']
     [(''Pumps'', [], Bodiless, [Get]),
      (''PumpsPumpId'', [''PumpId''], Checked ''PumpV101Pump'', [Get, Put, Patch]),
      (''PumpsPumpIdAssembly'', [''PumpId''], Bodiless, [Get])]"

definition Controllers_ThermalEquipment_6c :: operations where
  "Controllers_ThermalEquipment_6c = ops op_root ''ThermalEquipmentHeatExchangersCoolingUnitId'' [''CoolingUnitId'']
     [(''PumpsPumpIdAssembly'', [''PumpId''], Checked ''AssemblyV150Assembly'', [Put, Patch]),
      (''PumpsPumpIdFilters'', [''PumpId''], Bodiless, [Get]),
      (''PumpsPumpIdFiltersFilterId'', [''PumpId'', ''FilterId''], Bodiless, [Get])]"

definition Controllers_ThermalEquipment_6d :: operations where
  "Controllers_ThermalEquipment_6d = ops op_root ''ThermalEquipmentHeatExchangersCoolingUnitId'' [''CoolingUnitId'']
     [(''PumpsPumpIdFiltersFilterId'', [''PumpId'', ''FilterId''], Checked ''FilterV101Filter'', [Put, Patch]),
      (''PumpsPumpIdFiltersFilterIdAssembly'', [''PumpId'', ''FilterId''], Bodiless, [Get])]"

definition Controllers_ThermalEquipment_6e :: operations where
  "Controllers_ThermalEquipment_6e = ops op_root ''ThermalEquipmentHeatExchangersCoolingUnitId'' [''CoolingUnitId'']
     [(''PumpsPumpIdFiltersFilterIdAssembly'', [''PumpId'', ''FilterId''], Checked ''AssemblyV150Assembly'', [Put, Patch]),
      (''Reservoirs'', [], Bodiless, [Get]),
      (''ReservoirsReservoirId'', [''ReservoirId''], Bodiless, [Get])]"

definition Controllers_ThermalEquipment_6f :: operations where
  "Controllers_ThermalEquipment_6f = ops op_root ''ThermalEquipmentHeatExchangersCoolingUnitId'' [''CoolingUnitId'']
     [(''ReservoirsReservoirId'', [''ReservoirId''], Checked ''ReservoirV101Reservoir'', [Put, Patch]),
      (''ReservoirsReservoirIdAssembly'', [''ReservoirId''], Checked ''AssemblyV150Assembly'', [Get, Put])]"

definition Controllers_ThermalEquipment_6g :: operations where
  "Controllers_ThermalEquipment_6g = ops op_root ''ThermalEquipmentHeatExchangersCoolingUnitId'' [''CoolingUnitId'']
     [(''ReservoirsReservoirIdAssembly'', [''ReservoirId''], Checked ''AssemblyV150Assembly'', [Patch]),
      (''ReservoirsReservoirIdFilters'', [''ReservoirId''], Bodiless, [Get]),
      (''ReservoirsReservoirIdFiltersFilterId'', [''ReservoirId'', ''FilterId''], Checked ''FilterV101Filter'', [Get, Put])]"

definition Controllers_ThermalEquipment_6h :: operations where
  "Controllers_ThermalEquipment_6h = ops op_root ''ThermalEquipmentHeatExchangersCoolingUnitId'' [''CoolingUnitId'']
     [(''ReservoirsReservoirIdFiltersFilterId'', [''ReservoirId'', ''FilterId''], Checked ''FilterV101Filter'', [Patch])]"

definition Controllers_ThermalEquipment_7a :: operations where
  "Controllers_ThermalEquipment_7a = ops op_root ''ThermalEquipment'' []
     [(''HeatExchangersCoolingUnitIdReservoirsReservoirIdFiltersFilterIdAssembly'', [''CoolingUnitId'', ''ReservoirId'', ''FilterId''], Checked ''AssemblyV150Assembly'', [Get, Put, Patch]),
      (''HeatExchangersCoolingUnitIdSecondaryCoolantConnectors'', [''CoolingUnitId''], Bodiless, [Get])]"

definition Controllers_ThermalEquipment_7b :: operations where
  "Controllers_ThermalEquipment_7b = ops op_root ''ThermalEquipment'' []
     [(''HeatExchangersCoolingUnitIdSecondaryCoolantConnectorsCoolantConnectorId'', [''CoolingUnitId'', ''CoolantConnectorId''], Checked ''CoolantConnectorV101CoolantConnector'', [Get, Put, Patch]),
      (''ImmersionUnits'', [], Bodiless, [Get])]"

definition Controllers_ThermalEquipment_8a :: operations where
  "Controllers_ThermalEquipment_8a = ops op_root ''ThermalEquipmentImmersionUnitsCoolingUnitId'' [''CoolingUnitId'']
     [('''', [], Checked ''CoolingUnitV111CoolingUnit'', [Get, Put, Patch]),
      (''Assembly'', [], Checked ''AssemblyV150Assembly'', [Get, Put])]"

definition Controllers_ThermalEquipment_8b :: operations where
  "Controllers_ThermalEquipment_8b = ops op_root ''ThermalEquipmentImmersionUnitsCoolingUnitId'' [''CoolingUnitId'']
     [(''Assembly'', [], Checked ''AssemblyV150Assembly'', [Patch]),
      (''EnvironmentMetrics'', [], Checked ''EnvironmentMetricsV131EnvironmentMetrics'', [Get, Put, Patch]),
      (''EnvironmentMetricsActionsEnvironmentMetricsResetMetrics'', [], Untyped, [Post])]"

definition Controllers_ThermalEquipment_8c :: operations where
  "Controllers_ThermalEquipment_8c = ops op_root ''ThermalEquipmentImmersionUnitsCoolingUnitId'' [''CoolingUnitId'']
     [(''EnvironmentMetricsActionsEnvironmentMetricsResetToDefaults'', [], Untyped, [Post]),
      (''Filters'', [], Bodiless, [Get]),
      (''FiltersFilterId'', [''FilterId''], Checked ''FilterV101Filter'', [Get, Put, Patch])]"

definition Controllers_ThermalEquipment_8d :: operations where
  "Controllers_ThermalEquipment_8d = ops op_root ''ThermalEquipmentImmersionUnitsCoolingUnitId'' [''CoolingUnitId'']
     [(''FiltersFilterIdAssembly'', [''FilterId''], Checked ''AssemblyV150Assembly'', [Get, Put, Patch]),
      (''LeakDetection'', [], Bodiless, [Get]),
      (''LeakDetectionLeakDetectors'', [], Bodiless, [Get])]"

definition Controllers_ThermalEquipment_8e :: operations where
  "Controllers_ThermalEquipment_8e = ops op_root ''ThermalEquipmentImmersionUnitsCoolingUnitId'' [''CoolingUnitId'']
     [(''LeakDetectionLeakDetectorsLeakDetectorId'', [''LeakDetectorId''], Bodiless, [Get]),
      (''PrimaryCoolantConnectors'', [], Bodiless, [Get]),
      (''PrimaryCoolantConnectorsCoolantConnectorId'', [''CoolantConnectorId''], Checked ''CoolantConnectorV101CoolantConnector'', [Get, Put, Patch])]"

definition Controllers_ThermalEquipment_8f :: operations where
  "Controllers_ThermalEquipment_8f = ops op_root ''ThermalEquipmentImmersionUnitsCoolingUnitId'' [''CoolingUnitId'']
     [(''Pumps'', [], Bodiless, [Get]),
      (''PumpsPumpId'', [''PumpId''], Checked ''PumpV101Pump'', [Get, Put, Patch])]"

definition Controllers_ThermalEquipment_9a :: operations where
  "Controllers_ThermalEquipment_9a = ops op_root ''ThermalEquipmentImmersionUnitsCoolingUnitId'' [''CoolingUnitId'']
     [(''PumpsPumpIdAssembly'', [''PumpId''], Checked ''AssemblyV150Assembly'', [Get, Put, Patch]),
      (''PumpsPumpIdFilters'', [''PumpId''], Bodiless, [Get]),
      (''PumpsPumpIdFiltersFilterId'', [''PumpId'', ''FilterId''], Bodiless, [Get])]"

definition Controllers_ThermalEquipment_9b :: operations where
  "Controllers_ThermalEquipment_9b = ops op_root ''ThermalEquipmentImmersionUnitsCoolingUnitId'' [''CoolingUnitId'']
     [(''PumpsPumpIdFiltersFilterId'', [''PumpId'', ''FilterId''], Checked ''FilterV101Filter'', [Put, Patch]),
      (''PumpsPumpIdFiltersFilterIdAssembly'', [''PumpId'', ''FilterId''], Bodiless, [Get])]"

definition Controllers_ThermalEquipment_9c :: operations where
  "Controllers_ThermalEquipment_9c = ops op_root ''ThermalEquipmentImmersionUnitsCoolingUnitId'' [''CoolingUnitId'']
     [(''PumpsPumpIdFiltersFilterIdAssembly'', [''PumpId'', ''FilterId''], Checked ''AssemblyV150Assembly'', [Put, Patch]),
      (''Reservoirs'', [], Bodiless, [Get]),
      (''ReservoirsReservoirId'', [''ReservoirId''], Bodiless, [Get])]"

definition Controllers_ThermalEquipment_9d :: operations where
  "Controllers_ThermalEquipment_9d = ops op_root ''ThermalEquipmentImmersionUnitsCoolingUnitId'' [''CoolingUnitId'']
     [(''ReservoirsReservoirId'', [''ReservoirId''], Checked ''ReservoirV101Reservoir'', [Put, Patch]),
      (''ReservoirsReservoirIdAssembly'', [''ReservoirId''], Checked ''AssemblyV150Assembly'', [Get, Put])]"

definition Controllers_ThermalEquipment_9e :: operations where
  "Controllers_ThermalEquipment_9e = ops op_root ''ThermalEquipmentImmersionUnitsCoolingUnitId'' [''CoolingUnitId'']
     [(''ReservoirsReservoirIdAssembly'', [''ReservoirId''], Checked ''AssemblyV150Assembly'', [Patch]),
      (''ReservoirsReservoirIdFilters'', [''ReservoirId''], Bodiless, [Get]),
      (''ReservoirsReservoirIdFiltersFilterId'', [''ReservoirId'', ''FilterId''], Checked ''FilterV101Filter'', [Get, Put])]"

definition Controllers_ThermalEquipment_9f :: operations where
  "Controllers_ThermalEquipment_9f = ops op_root ''ThermalEquipmentImmersionUnitsCoolingUnitId'' [''CoolingUnitId'']
     [(''ReservoirsReservoirIdFiltersFilterId'', [''ReservoirId'', ''FilterId''], Checked ''FilterV101Filter'', [Patch]),
      (''ReservoirsReservoirIdFiltersFilterIdAssembly'', [''ReservoirId'', ''FilterId''], Checked ''AssemblyV150Assembly'', [Get, Put])]"

definition Controllers_ThermalEquipment_9g :: operations where
  "Controllers_ThermalEquipment_9g = ops op_root ''ThermalEquipmentImmersionUnitsCoolingUnitId'' [''CoolingUnitId'']
     [(''ReservoirsReservoirIdFiltersFilterIdAssembly'', [''ReservoirId'', ''FilterId''], Checked ''AssemblyV150Assembly'', [Patch]),
      (''SecondaryCoolantConnectors'', [], Bodiless, [Get]),
      (''SecondaryCoolantConnectorsCoolantConnectorId'', [''CoolantConnectorId''], Checked ''CoolantConnectorV101CoolantConnector'', [Get, Put])]"

definition Controllers_ThermalEquipment_9h :: operations where
  "Controllers_ThermalEquipment_9h = ops op_root ''ThermalEquipmentImmersionUnitsCoolingUnitId'' [''CoolingUnitId'']
     [(''SecondaryCoolantConnectorsCoolantConnectorId'', [''CoolantConnectorId''], Checked ''CoolantConnectorV101CoolantConnector'', [Patch])]"

definition plant_operations :: operations where
  "plant_operations = concat
     [concat [Controllers_Managers_1a],
      concat [Controllers_Managers_2a],
      concat [Controllers_Managers_3a, Controllers_Managers_3b, Controllers_Managers_3c, Controllers_Managers_3d,
        Controllers_Managers_3e, Controllers_Managers_3f, Controllers_Managers_3g],
      concat [Controllers_Managers_4a, Controllers_Managers_4b, Controllers_Managers_4c, Controllers_Managers_4d,
        Controllers_Managers_4e, Controllers_Managers_4f, Controllers_Managers_4g, Controllers_Managers_4h],
      concat [Controllers_Managers_5a, Controllers_Managers_5b, Controllers_Managers_5c],
      concat [Controllers_Managers_6a, Controllers_Managers_6b, Controllers_Managers_6c, Controllers_Managers_6d,
        Controllers_Managers_6e],
      concat [Controllers_Managers_7a, Controllers_Managers_7b, Controllers_Managers_7c, Controllers_Managers_7d,
        Controllers_Managers_7e, Controllers_Managers_7f, Controllers_Managers_7g, Controllers_Managers_7h],
      concat [Controllers_Managers_8a, Controllers_Managers_8b, Controllers_Managers_8c, Controllers_Managers_8d,
        Controllers_Managers_8e, Controllers_Managers_8f],
      concat [Controllers_Managers_9a, Controllers_Managers_9b, Controllers_Managers_9c, Controllers_Managers_9d,
        Controllers_Managers_9e],
      concat [Controllers_Managers_10a, Controllers_Managers_10b, Controllers_Managers_10c,
        Controllers_Managers_10d, Controllers_Managers_10e, Controllers_Managers_10f,
        Controllers_Managers_10g],
      concat [Controllers_Managers_11a, Controllers_Managers_11b, Controllers_Managers_11c,
        Controllers_Managers_11d],
      concat [Controllers_Managers_12a],
      concat [Controllers_Managers_13a],
      concat [Controllers_Managers_14a],
      concat [Controllers_Managers_15a],
      concat [Controllers_PowerEquipment_1a],
      concat [Controllers_PowerEquipment_2a, Controllers_PowerEquipment_2b, Controllers_PowerEquipment_2c,
        Controllers_PowerEquipment_2d, Controllers_PowerEquipment_2e, Controllers_PowerEquipment_2f,
        Controllers_PowerEquipment_2g],
      concat [Controllers_PowerEquipment_3a, Controllers_PowerEquipment_3b],
      concat [Controllers_PowerEquipment_4a, Controllers_PowerEquipment_4b, Controllers_PowerEquipment_4c,
        Controllers_PowerEquipment_4d, Controllers_PowerEquipment_4e, Controllers_PowerEquipment_4f,
        Controllers_PowerEquipment_4g],
      concat [Controllers_PowerEquipment_5a],
      concat [Controllers_PowerEquipment_6a, Controllers_PowerEquipment_6b, Controllers_PowerEquipment_6c,
        Controllers_PowerEquipment_6d, Controllers_PowerEquipment_6e, Controllers_PowerEquipment_6f,
        Controllers_PowerEquipment_6g],
      concat [Controllers_PowerEquipment_7a, Controllers_PowerEquipment_7b, Controllers_PowerEquipment_7c,
        Controllers_PowerEquipment_7d, Controllers_PowerEquipment_7e],
      concat [Controllers_PowerEquipment_8a, Controllers_PowerEquipment_8b, Controllers_PowerEquipment_8c],
      concat [Controllers_PowerEquipment_9a, Controllers_PowerEquipment_9b, Controllers_PowerEquipment_9c,
        Controllers_PowerEquipment_9d, Controllers_PowerEquipment_9e, Controllers_PowerEquipment_9f,
        Controllers_PowerEquipment_9g],
      concat [Controllers_PowerEquipment_10a, Controllers_PowerEquipment_10b, Controllers_PowerEquipment_10c],
      concat [Controllers_PowerEquipment_11a, Controllers_PowerEquipment_11b, Controllers_PowerEquipment_11c,
        Controllers_PowerEquipment_11d, Controllers_PowerEquipment_11e, Controllers_PowerEquipment_11f,
        Controllers_PowerEquipment_11g],
      concat [Controllers_PowerEquipment_12a, Controllers_PowerEquipment_12b, Controllers_PowerEquipment_12c,
        Controllers_PowerEquipment_12d],
      concat [Controllers_PowerEquipment_13a, Controllers_PowerEquipment_13b, Controllers_PowerEquipment_13c,
        Controllers_PowerEquipment_13d, Controllers_PowerEquipment_13e, Controllers_PowerEquipment_13f,
        Controllers_PowerEquipment_13g],
      concat [Controllers_Storage_1a, Controllers_Storage_1b, Controllers_Storage_1c],
      concat [Controllers_Storage_2a, Controllers_Storage_2b, Controllers_Storage_2c, Controllers_Storage_2d],
      concat [Controllers_Storage_3a, Controllers_Storage_3b, Controllers_Storage_3c, Controllers_Storage_3d],
      concat [Controllers_Storage_4a, Controllers_Storage_4b, Controllers_Storage_4c, Controllers_Storage_4d,
        Controllers_Storage_4e, Controllers_Storage_4f],
      concat [Controllers_Storage_5a, Controllers_Storage_5b, Controllers_Storage_5c, Controllers_Storage_5d,
        Controllers_Storage_5e],
      concat [Controllers_Storage_6a, Controllers_Storage_6b, Controllers_Storage_6c, Controllers_Storage_6d],
      concat [Controllers_Storage_7a, Controllers_Storage_7b, Controllers_Storage_7c, Controllers_Storage_7d,
        Controllers_Storage_7e, Controllers_Storage_7f],
      concat [Controllers_Storage_8a, Controllers_Storage_8b, Controllers_Storage_8c, Controllers_Storage_8d,
        Controllers_Storage_8e, Controllers_Storage_8f],
      concat [Controllers_Storage_9a, Controllers_Storage_9b],
      concat [Controllers_Storage_10a, Controllers_Storage_10b, Controllers_Storage_10c, Controllers_Storage_10d],
      concat [Controllers_Storage_11a, Controllers_Storage_11b, Controllers_Storage_11c, Controllers_Storage_11d,
        Controllers_Storage_11e],
      concat [Controllers_StorageServices_1a, Controllers_StorageServices_1b, Controllers_StorageServices_1c,
        Controllers_StorageServices_1d, Controllers_StorageServices_1e, Controllers_StorageServices_1f],
      concat [Controllers_StorageServices_2a, Controllers_StorageServices_2b, Controllers_StorageServices_2c,
        Controllers_StorageServices_2d, Controllers_StorageServices_2e],
      concat [Controllers_StorageServices_3a, Controllers_StorageServices_3b, Controllers_StorageServices_3c,
        Controllers_StorageServices_3d],
      concat [Controllers_StorageServices_4a, Controllers_StorageServices_4b, Controllers_StorageServices_4c,
        Controllers_StorageServices_4d, Controllers_StorageServices_4e, Controllers_StorageServices_4f],
      concat [Controllers_StorageServices_5a, Controllers_StorageServices_5b],
      concat [Controllers_StorageServices_6a, Controllers_StorageServices_6b, Controllers_StorageServices_6c,
        Controllers_StorageServices_6d],
      concat [Controllers_StorageServices_7a, Controllers_StorageServices_7b, Controllers_StorageServices_7c,
        Controllers_StorageServices_7d, Controllers_StorageServices_7e, Controllers_StorageServices_7f,
        Controllers_StorageServices_7g],
      concat [Controllers_StorageServices_8a, Controllers_StorageServices_8b, Controllers_StorageServices_8c,
        Controllers_StorageServices_8d],
      concat [Controllers_ThermalEquipment_1a],
      concat [Controllers_ThermalEquipment_2a, Controllers_ThermalEquipment_2b, Controllers_ThermalEquipment_2c,
        Controllers_ThermalEquipment_2d, Controllers_ThermalEquipment_2e, Controllers_ThermalEquipment_2f],
      concat [Controllers_ThermalEquipment_3a, Controllers_ThermalEquipment_3b, Controllers_ThermalEquipment_3c,
        Controllers_ThermalEquipment_3d, Controllers_ThermalEquipment_3e, Controllers_ThermalEquipment_3f,
        Controllers_ThermalEquipment_3g, Controllers_ThermalEquipment_3h],
      concat [Controllers_ThermalEquipment_4a, Controllers_ThermalEquipment_4b, Controllers_ThermalEquipment_4c],
      concat [Controllers_ThermalEquipment_5a, Controllers_ThermalEquipment_5b, Controllers_ThermalEquipment_5c,
        Controllers_ThermalEquipment_5d],
      concat [Controllers_Leaka],
      concat [Controllers_ThermalEquipment_6a, Controllers_ThermalEquipment_6b, Controllers_ThermalEquipment_6c,
        Controllers_ThermalEquipment_6d, Controllers_ThermalEquipment_6e, Controllers_ThermalEquipment_6f,
        Controllers_ThermalEquipment_6g, Controllers_ThermalEquipment_6h],
      concat [Controllers_ThermalEquipment_7a, Controllers_ThermalEquipment_7b],
      concat [Controllers_ThermalEquipment_8a, Controllers_ThermalEquipment_8b, Controllers_ThermalEquipment_8c,
        Controllers_ThermalEquipment_8d, Controllers_ThermalEquipment_8e, Controllers_ThermalEquipment_8f],
      concat [Controllers_ThermalEquipment_9a, Controllers_ThermalEquipment_9b, Controllers_ThermalEquipment_9c,
        Controllers_ThermalEquipment_9d, Controllers_ThermalEquipment_9e, Controllers_ThermalEquipment_9f,
        Controllers_ThermalEquipment_9g, Controllers_ThermalEquipment_9h]]"

lemma Managers_1_aligned:
  "aligned Routes_Managers_1
     (concat [Controllers_Managers_1a])"
  unfolding Routes_Managers_1_def Controllers_Managers_1a_def
  by (rule aligning)+

lemma Managers_2_aligned:
  "aligned Routes_Managers_2
     (concat [Controllers_Managers_2a])"
  unfolding Routes_Managers_2_def Controllers_Managers_2a_def
  by (rule aligning)+

lemma Managers_3_aligned:
  "aligned Routes_Managers_3
     (concat [Controllers_Managers_3a, Controllers_Managers_3b, Controllers_Managers_3c, Controllers_Managers_3d,
        Controllers_Managers_3e, Controllers_Managers_3f, Controllers_Managers_3g])"
  unfolding Routes_Managers_3_def Controllers_Managers_3a_def Controllers_Managers_3b_def
    Controllers_Managers_3c_def Controllers_Managers_3d_def Controllers_Managers_3e_def
    Controllers_Managers_3f_def Controllers_Managers_3g_def
  by (rule aligning)+

lemma Managers_4_aligned:
  "aligned Routes_Managers_4
     (concat [Controllers_Managers_4a, Controllers_Managers_4b, Controllers_Managers_4c, Controllers_Managers_4d,
        Controllers_Managers_4e, Controllers_Managers_4f, Controllers_Managers_4g, Controllers_Managers_4h])"
  unfolding Routes_Managers_4_def Controllers_Managers_4a_def Controllers_Managers_4b_def
    Controllers_Managers_4c_def Controllers_Managers_4d_def Controllers_Managers_4e_def
    Controllers_Managers_4f_def Controllers_Managers_4g_def Controllers_Managers_4h_def
  by (rule aligning)+

lemma Managers_5_aligned:
  "aligned Routes_Managers_5
     (concat [Controllers_Managers_5a, Controllers_Managers_5b, Controllers_Managers_5c])"
  unfolding Routes_Managers_5_def Controllers_Managers_5a_def Controllers_Managers_5b_def
    Controllers_Managers_5c_def
  by (rule aligning)+

lemma Managers_6_aligned:
  "aligned Routes_Managers_6
     (concat [Controllers_Managers_6a, Controllers_Managers_6b, Controllers_Managers_6c, Controllers_Managers_6d,
        Controllers_Managers_6e])"
  unfolding Routes_Managers_6_def Controllers_Managers_6a_def Controllers_Managers_6b_def
    Controllers_Managers_6c_def Controllers_Managers_6d_def Controllers_Managers_6e_def
  by (rule aligning)+

lemma Managers_7_aligned:
  "aligned Routes_Managers_7
     (concat [Controllers_Managers_7a, Controllers_Managers_7b, Controllers_Managers_7c, Controllers_Managers_7d,
        Controllers_Managers_7e, Controllers_Managers_7f, Controllers_Managers_7g, Controllers_Managers_7h])"
  unfolding Routes_Managers_7_def Controllers_Managers_7a_def Controllers_Managers_7b_def
    Controllers_Managers_7c_def Controllers_Managers_7d_def Controllers_Managers_7e_def
    Controllers_Managers_7f_def Controllers_Managers_7g_def Controllers_Managers_7h_def
  by (rule aligning)+

lemma Managers_8_aligned:
  "aligned Routes_Managers_8
     (concat [Controllers_Managers_8a, Controllers_Managers_8b, Controllers_Managers_8c, Controllers_Managers_8d,
        Controllers_Managers_8e, Controllers_Managers_8f])"
  unfolding Routes_Managers_8_def Controllers_Managers_8a_def Controllers_Managers_8b_def
    Controllers_Managers_8c_def Controllers_Managers_8d_def Controllers_Managers_8e_def
    Controllers_Managers_8f_def
  by (rule aligning)+

lemma Managers_9_aligned:
  "aligned Routes_Managers_9
     (concat [Controllers_Managers_9a, Controllers_Managers_9b, Controllers_Managers_9c, Controllers_Managers_9d,
        Controllers_Managers_9e])"
  unfolding Routes_Managers_9_def Controllers_Managers_9a_def Controllers_Managers_9b_def
    Controllers_Managers_9c_def Controllers_Managers_9d_def Controllers_Managers_9e_def
  by (rule aligning)+

lemma Managers_10_aligned:
  "aligned Routes_Managers_10
     (concat [Controllers_Managers_10a, Controllers_Managers_10b, Controllers_Managers_10c,
        Controllers_Managers_10d, Controllers_Managers_10e, Controllers_Managers_10f,
        Controllers_Managers_10g])"
  unfolding Routes_Managers_10_def Controllers_Managers_10a_def Controllers_Managers_10b_def
    Controllers_Managers_10c_def Controllers_Managers_10d_def Controllers_Managers_10e_def
    Controllers_Managers_10f_def Controllers_Managers_10g_def
  by (rule aligning)+

lemma Managers_11_aligned:
  "aligned Routes_Managers_11
     (concat [Controllers_Managers_11a, Controllers_Managers_11b, Controllers_Managers_11c,
        Controllers_Managers_11d])"
  unfolding Routes_Managers_11_def Controllers_Managers_11a_def Controllers_Managers_11b_def
    Controllers_Managers_11c_def Controllers_Managers_11d_def
  by (rule aligning)+

lemma Managers_12_aligned:
  "aligned Routes_Managers_12
     (concat [Controllers_Managers_12a])"
  unfolding Routes_Managers_12_def Controllers_Managers_12a_def
  by (rule aligning)+

lemma Managers_13_aligned:
  "aligned Routes_Managers_13
     (concat [Controllers_Managers_13a])"
  unfolding Routes_Managers_13_def Controllers_Managers_13a_def
  by (rule aligning)+

lemma Managers_14_aligned:
  "aligned Routes_Managers_14
     (concat [Controllers_Managers_14a])"
  unfolding Routes_Managers_14_def Controllers_Managers_14a_def
  by (rule aligning)+

lemma Managers_15_aligned:
  "aligned Routes_Managers_15
     (concat [Controllers_Managers_15a])"
  unfolding Routes_Managers_15_def Controllers_Managers_15a_def
  by (rule aligning)+

lemma PowerEquipment_1_aligned:
  "aligned Routes_PowerEquipment_1
     (concat [Controllers_PowerEquipment_1a])"
  unfolding Routes_PowerEquipment_1_def Controllers_PowerEquipment_1a_def
  by (rule aligning)+

lemma PowerEquipment_2_aligned:
  "aligned Routes_PowerEquipment_2
     (concat [Controllers_PowerEquipment_2a, Controllers_PowerEquipment_2b, Controllers_PowerEquipment_2c,
        Controllers_PowerEquipment_2d, Controllers_PowerEquipment_2e, Controllers_PowerEquipment_2f,
        Controllers_PowerEquipment_2g])"
  unfolding Routes_PowerEquipment_2_def Controllers_PowerEquipment_2a_def Controllers_PowerEquipment_2b_def
    Controllers_PowerEquipment_2c_def Controllers_PowerEquipment_2d_def
    Controllers_PowerEquipment_2e_def Controllers_PowerEquipment_2f_def
    Controllers_PowerEquipment_2g_def
  by (rule aligning)+

lemma PowerEquipment_3_aligned:
  "aligned Routes_PowerEquipment_3
     (concat [Controllers_PowerEquipment_3a, Controllers_PowerEquipment_3b])"
  unfolding Routes_PowerEquipment_3_def Controllers_PowerEquipment_3a_def Controllers_PowerEquipment_3b_def
  by (rule aligning)+

lemma PowerEquipment_4_aligned:
  "aligned Routes_PowerEquipment_4
     (concat [Controllers_PowerEquipment_4a, Controllers_PowerEquipment_4b, Controllers_PowerEquipment_4c,
        Controllers_PowerEquipment_4d, Controllers_PowerEquipment_4e, Controllers_PowerEquipment_4f,
        Controllers_PowerEquipment_4g])"
  unfolding Routes_PowerEquipment_4_def Controllers_PowerEquipment_4a_def Controllers_PowerEquipment_4b_def
    Controllers_PowerEquipment_4c_def Controllers_PowerEquipment_4d_def
    Controllers_PowerEquipment_4e_def Controllers_PowerEquipment_4f_def
    Controllers_PowerEquipment_4g_def
  by (rule aligning)+

lemma PowerEquipment_5_aligned:
  "aligned Routes_PowerEquipment_5
     (concat [Controllers_PowerEquipment_5a])"
  unfolding Routes_PowerEquipment_5_def Controllers_PowerEquipment_5a_def
  by (rule aligning)+

lemma PowerEquipment_6_aligned:
  "aligned Routes_PowerEquipment_6
     (concat [Controllers_PowerEquipment_6a, Controllers_PowerEquipment_6b, Controllers_PowerEquipment_6c,
        Controllers_PowerEquipment_6d, Controllers_PowerEquipment_6e, Controllers_PowerEquipment_6f,
        Controllers_PowerEquipment_6g])"
  unfolding Routes_PowerEquipment_6_def Controllers_PowerEquipment_6a_def Controllers_PowerEquipment_6b_def
    Controllers_PowerEquipment_6c_def Controllers_PowerEquipment_6d_def
    Controllers_PowerEquipment_6e_def Controllers_PowerEquipment_6f_def
    Controllers_PowerEquipment_6g_def
  by (rule aligning)+

lemma PowerEquipment_7_aligned:
  "aligned Routes_PowerEquipment_7
     (concat [Controllers_PowerEquipment_7a, Controllers_PowerEquipment_7b, Controllers_PowerEquipment_7c,
        Controllers_PowerEquipment_7d, Controllers_PowerEquipment_7e])"
  unfolding Routes_PowerEquipment_7_def Controllers_PowerEquipment_7a_def Controllers_PowerEquipment_7b_def
    Controllers_PowerEquipment_7c_def Controllers_PowerEquipment_7d_def
    Controllers_PowerEquipment_7e_def
  by (rule aligning)+

lemma PowerEquipment_8_aligned:
  "aligned Routes_PowerEquipment_8
     (concat [Controllers_PowerEquipment_8a, Controllers_PowerEquipment_8b, Controllers_PowerEquipment_8c])"
  unfolding Routes_PowerEquipment_8_def Controllers_PowerEquipment_8a_def Controllers_PowerEquipment_8b_def
    Controllers_PowerEquipment_8c_def
  by (rule aligning)+

lemma PowerEquipment_9_aligned:
  "aligned Routes_PowerEquipment_9
     (concat [Controllers_PowerEquipment_9a, Controllers_PowerEquipment_9b, Controllers_PowerEquipment_9c,
        Controllers_PowerEquipment_9d, Controllers_PowerEquipment_9e, Controllers_PowerEquipment_9f,
        Controllers_PowerEquipment_9g])"
  unfolding Routes_PowerEquipment_9_def Controllers_PowerEquipment_9a_def Controllers_PowerEquipment_9b_def
    Controllers_PowerEquipment_9c_def Controllers_PowerEquipment_9d_def
    Controllers_PowerEquipment_9e_def Controllers_PowerEquipment_9f_def
    Controllers_PowerEquipment_9g_def
  by (rule aligning)+

lemma PowerEquipment_10_aligned:
  "aligned Routes_PowerEquipment_10
     (concat [Controllers_PowerEquipment_10a, Controllers_PowerEquipment_10b, Controllers_PowerEquipment_10c])"
  unfolding Routes_PowerEquipment_10_def Controllers_PowerEquipment_10a_def Controllers_PowerEquipment_10b_def
    Controllers_PowerEquipment_10c_def
  by (rule aligning)+

lemma PowerEquipment_11_aligned:
  "aligned Routes_PowerEquipment_11
     (concat [Controllers_PowerEquipment_11a, Controllers_PowerEquipment_11b, Controllers_PowerEquipment_11c,
        Controllers_PowerEquipment_11d, Controllers_PowerEquipment_11e, Controllers_PowerEquipment_11f,
        Controllers_PowerEquipment_11g])"
  unfolding Routes_PowerEquipment_11_def Controllers_PowerEquipment_11a_def Controllers_PowerEquipment_11b_def
    Controllers_PowerEquipment_11c_def Controllers_PowerEquipment_11d_def
    Controllers_PowerEquipment_11e_def Controllers_PowerEquipment_11f_def
    Controllers_PowerEquipment_11g_def
  by (rule aligning)+

lemma PowerEquipment_12_aligned:
  "aligned Routes_PowerEquipment_12
     (concat [Controllers_PowerEquipment_12a, Controllers_PowerEquipment_12b, Controllers_PowerEquipment_12c,
        Controllers_PowerEquipment_12d])"
  unfolding Routes_PowerEquipment_12_def Controllers_PowerEquipment_12a_def Controllers_PowerEquipment_12b_def
    Controllers_PowerEquipment_12c_def Controllers_PowerEquipment_12d_def
  by (rule aligning)+

lemma PowerEquipment_13_aligned:
  "aligned Routes_PowerEquipment_13
     (concat [Controllers_PowerEquipment_13a, Controllers_PowerEquipment_13b, Controllers_PowerEquipment_13c,
        Controllers_PowerEquipment_13d, Controllers_PowerEquipment_13e, Controllers_PowerEquipment_13f,
        Controllers_PowerEquipment_13g])"
  unfolding Routes_PowerEquipment_13_def Controllers_PowerEquipment_13a_def Controllers_PowerEquipment_13b_def
    Controllers_PowerEquipment_13c_def Controllers_PowerEquipment_13d_def
    Controllers_PowerEquipment_13e_def Controllers_PowerEquipment_13f_def
    Controllers_PowerEquipment_13g_def
  by (rule aligning)+

lemma Storage_1_aligned:
  "aligned Routes_Storage_1
     (concat [Controllers_Storage_1a, Controllers_Storage_1b, Controllers_Storage_1c])"
  unfolding Routes_Storage_1_def Controllers_Storage_1a_def Controllers_Storage_1b_def
    Controllers_Storage_1c_def
  by (rule aligning)+

lemma Storage_2_aligned:
  "aligned Routes_Storage_2
     (concat [Controllers_Storage_2a, Controllers_Storage_2b, Controllers_Storage_2c, Controllers_Storage_2d])"
  unfolding Routes_Storage_2_def Controllers_Storage_2a_def Controllers_Storage_2b_def
    Controllers_Storage_2c_def Controllers_Storage_2d_def
  by (rule aligning)+

lemma Storage_3_aligned:
  "aligned Routes_Storage_3
     (concat [Controllers_Storage_3a, Controllers_Storage_3b, Controllers_Storage_3c, Controllers_Storage_3d])"
  unfolding Routes_Storage_3_def Controllers_Storage_3a_def Controllers_Storage_3b_def
    Controllers_Storage_3c_def Controllers_Storage_3d_def
  by (rule aligning)+

lemma Storage_4_aligned:
  "aligned Routes_Storage_4
     (concat [Controllers_Storage_4a, Controllers_Storage_4b, Controllers_Storage_4c, Controllers_Storage_4d,
        Controllers_Storage_4e, Controllers_Storage_4f])"
  unfolding Routes_Storage_4_def Controllers_Storage_4a_def Controllers_Storage_4b_def
    Controllers_Storage_4c_def Controllers_Storage_4d_def Controllers_Storage_4e_def
    Controllers_Storage_4f_def
  by (rule aligning)+

lemma Storage_5_aligned:
  "aligned Routes_Storage_5
     (concat [Controllers_Storage_5a, Controllers_Storage_5b, Controllers_Storage_5c, Controllers_Storage_5d,
        Controllers_Storage_5e])"
  unfolding Routes_Storage_5_def Controllers_Storage_5a_def Controllers_Storage_5b_def
    Controllers_Storage_5c_def Controllers_Storage_5d_def Controllers_Storage_5e_def
  by (rule aligning)+

lemma Storage_6_aligned:
  "aligned Routes_Storage_6
     (concat [Controllers_Storage_6a, Controllers_Storage_6b, Controllers_Storage_6c, Controllers_Storage_6d])"
  unfolding Routes_Storage_6_def Controllers_Storage_6a_def Controllers_Storage_6b_def
    Controllers_Storage_6c_def Controllers_Storage_6d_def
  by (rule aligning)+

lemma Storage_7_aligned:
  "aligned Routes_Storage_7
     (concat [Controllers_Storage_7a, Controllers_Storage_7b, Controllers_Storage_7c, Controllers_Storage_7d,
        Controllers_Storage_7e, Controllers_Storage_7f])"
  unfolding Routes_Storage_7_def Controllers_Storage_7a_def Controllers_Storage_7b_def
    Controllers_Storage_7c_def Controllers_Storage_7d_def Controllers_Storage_7e_def
    Controllers_Storage_7f_def
  by (rule aligning)+

lemma Storage_8_aligned:
  "aligned Routes_Storage_8
     (concat [Controllers_Storage_8a, Controllers_Storage_8b, Controllers_Storage_8c, Controllers_Storage_8d,
        Controllers_Storage_8e, Controllers_Storage_8f])"
  unfolding Routes_Storage_8_def Controllers_Storage_8a_def Controllers_Storage_8b_def
    Controllers_Storage_8c_def Controllers_Storage_8d_def Controllers_Storage_8e_def
    Controllers_Storage_8f_def
  by (rule aligning)+

lemma Storage_9_aligned:
  "aligned Routes_Storage_9
     (concat [Controllers_Storage_9a, Controllers_Storage_9b])"
  unfolding Routes_Storage_9_def Controllers_Storage_9a_def Controllers_Storage_9b_def
  by (rule aligning)+

lemma Storage_10_aligned:
  "aligned Routes_Storage_10
     (concat [Controllers_Storage_10a, Controllers_Storage_10b, Controllers_Storage_10c, Controllers_Storage_10d])"
  unfolding Routes_Storage_10_def Controllers_Storage_10a_def Controllers_Storage_10b_def
    Controllers_Storage_10c_def Controllers_Storage_10d_def
  by (rule aligning)+

lemma Storage_11_aligned:
  "aligned Routes_Storage_11
     (concat [Controllers_Storage_11a, Controllers_Storage_11b, Controllers_Storage_11c, Controllers_Storage_11d,
        Controllers_Storage_11e])"
  unfolding Routes_Storage_11_def Controllers_Storage_11a_def Controllers_Storage_11b_def
    Controllers_Storage_11c_def Controllers_Storage_11d_def Controllers_Storage_11e_def
  by (rule aligning)+

lemma StorageServices_1_aligned:
  "aligned Routes_StorageServices_1
     (concat [Controllers_StorageServices_1a, Controllers_StorageServices_1b, Controllers_StorageServices_1c,
        Controllers_StorageServices_1d, Controllers_StorageServices_1e, Controllers_StorageServices_1f])"
  unfolding Routes_StorageServices_1_def Controllers_StorageServices_1a_def Controllers_StorageServices_1b_def
    Controllers_StorageServices_1c_def Controllers_StorageServices_1d_def
    Controllers_StorageServices_1e_def Controllers_StorageServices_1f_def
  by (rule aligning)+

lemma StorageServices_2_aligned:
  "aligned Routes_StorageServices_2
     (concat [Controllers_StorageServices_2a, Controllers_StorageServices_2b, Controllers_StorageServices_2c,
        Controllers_StorageServices_2d, Controllers_StorageServices_2e])"
  unfolding Routes_StorageServices_2_def Controllers_StorageServices_2a_def Controllers_StorageServices_2b_def
    Controllers_StorageServices_2c_def Controllers_StorageServices_2d_def
    Controllers_StorageServices_2e_def
  by (rule aligning)+

lemma StorageServices_3_aligned:
  "aligned Routes_StorageServices_3
     (concat [Controllers_StorageServices_3a, Controllers_StorageServices_3b, Controllers_StorageServices_3c,
        Controllers_StorageServices_3d])"
  unfolding Routes_StorageServices_3_def Controllers_StorageServices_3a_def Controllers_StorageServices_3b_def
    Controllers_StorageServices_3c_def Controllers_StorageServices_3d_def
  by (rule aligning)+

lemma StorageServices_4_aligned:
  "aligned Routes_StorageServices_4
     (concat [Controllers_StorageServices_4a, Controllers_StorageServices_4b, Controllers_StorageServices_4c,
        Controllers_StorageServices_4d, Controllers_StorageServices_4e, Controllers_StorageServices_4f])"
  unfolding Routes_StorageServices_4_def Controllers_StorageServices_4a_def Controllers_StorageServices_4b_def
    Controllers_StorageServices_4c_def Controllers_StorageServices_4d_def
    Controllers_StorageServices_4e_def Controllers_StorageServices_4f_def
  by (rule aligning)+

lemma StorageServices_5_aligned:
  "aligned Routes_StorageServices_5
     (concat [Controllers_StorageServices_5a, Controllers_StorageServices_5b])"
  unfolding Routes_StorageServices_5_def Controllers_StorageServices_5a_def Controllers_StorageServices_5b_def
  by (rule aligning)+

lemma StorageServices_6_aligned:
  "aligned Routes_StorageServices_6
     (concat [Controllers_StorageServices_6a, Controllers_StorageServices_6b, Controllers_StorageServices_6c,
        Controllers_StorageServices_6d])"
  unfolding Routes_StorageServices_6_def Controllers_StorageServices_6a_def Controllers_StorageServices_6b_def
    Controllers_StorageServices_6c_def Controllers_StorageServices_6d_def
  by (rule aligning)+

lemma StorageServices_7_aligned:
  "aligned Routes_StorageServices_7
     (concat [Controllers_StorageServices_7a, Controllers_StorageServices_7b, Controllers_StorageServices_7c,
        Controllers_StorageServices_7d, Controllers_StorageServices_7e, Controllers_StorageServices_7f,
        Controllers_StorageServices_7g])"
  unfolding Routes_StorageServices_7_def Controllers_StorageServices_7a_def Controllers_StorageServices_7b_def
    Controllers_StorageServices_7c_def Controllers_StorageServices_7d_def
    Controllers_StorageServices_7e_def Controllers_StorageServices_7f_def
    Controllers_StorageServices_7g_def
  by (rule aligning)+

lemma StorageServices_8_aligned:
  "aligned Routes_StorageServices_8
     (concat [Controllers_StorageServices_8a, Controllers_StorageServices_8b, Controllers_StorageServices_8c,
        Controllers_StorageServices_8d])"
  unfolding Routes_StorageServices_8_def Controllers_StorageServices_8a_def Controllers_StorageServices_8b_def
    Controllers_StorageServices_8c_def Controllers_StorageServices_8d_def
  by (rule aligning)+

lemma ThermalEquipment_1_aligned:
  "aligned Routes_ThermalEquipment_1
     (concat [Controllers_ThermalEquipment_1a])"
  unfolding Routes_ThermalEquipment_1_def Controllers_ThermalEquipment_1a_def
  by (rule aligning)+

lemma ThermalEquipment_2_aligned:
  "aligned Routes_ThermalEquipment_2
     (concat [Controllers_ThermalEquipment_2a, Controllers_ThermalEquipment_2b, Controllers_ThermalEquipment_2c,
        Controllers_ThermalEquipment_2d, Controllers_ThermalEquipment_2e, Controllers_ThermalEquipment_2f])"
  unfolding Routes_ThermalEquipment_2_def Controllers_ThermalEquipment_2a_def
    Controllers_ThermalEquipment_2b_def Controllers_ThermalEquipment_2c_def
    Controllers_ThermalEquipment_2d_def Controllers_ThermalEquipment_2e_def
    Controllers_ThermalEquipment_2f_def
  by (rule aligning)+

lemma ThermalEquipment_3_aligned:
  "aligned Routes_ThermalEquipment_3
     (concat [Controllers_ThermalEquipment_3a, Controllers_ThermalEquipment_3b, Controllers_ThermalEquipment_3c,
        Controllers_ThermalEquipment_3d, Controllers_ThermalEquipment_3e, Controllers_ThermalEquipment_3f,
        Controllers_ThermalEquipment_3g, Controllers_ThermalEquipment_3h])"
  unfolding Routes_ThermalEquipment_3_def Controllers_ThermalEquipment_3a_def
    Controllers_ThermalEquipment_3b_def Controllers_ThermalEquipment_3c_def
    Controllers_ThermalEquipment_3d_def Controllers_ThermalEquipment_3e_def
    Controllers_ThermalEquipment_3f_def Controllers_ThermalEquipment_3g_def
    Controllers_ThermalEquipment_3h_def
  by (rule aligning)+

lemma ThermalEquipment_4_aligned:
  "aligned Routes_ThermalEquipment_4
     (concat [Controllers_ThermalEquipment_4a, Controllers_ThermalEquipment_4b, Controllers_ThermalEquipment_4c])"
  unfolding Routes_ThermalEquipment_4_def Controllers_ThermalEquipment_4a_def
    Controllers_ThermalEquipment_4b_def Controllers_ThermalEquipment_4c_def
  by (rule aligning)+

lemma ThermalEquipment_5_aligned:
  "aligned Routes_ThermalEquipment_5
     (concat [Controllers_ThermalEquipment_5a, Controllers_ThermalEquipment_5b, Controllers_ThermalEquipment_5c,
        Controllers_ThermalEquipment_5d])"
  unfolding Routes_ThermalEquipment_5_def Controllers_ThermalEquipment_5a_def
    Controllers_ThermalEquipment_5b_def Controllers_ThermalEquipment_5c_def
    Controllers_ThermalEquipment_5d_def
  by (rule aligning)+

lemma Leak_aligned: "aligned [leak_detectors_slash] (concat [Controllers_Leaka])"
  by (simp add: aligned_def leak_detectors_slash_def ops_def op_root_def at_root_def service_root_def Controllers_Leaka_def)

lemma ThermalEquipment_6_aligned:
  "aligned Routes_ThermalEquipment_6
     (concat [Controllers_ThermalEquipment_6a, Controllers_ThermalEquipment_6b, Controllers_ThermalEquipment_6c,
        Controllers_ThermalEquipment_6d, Controllers_ThermalEquipment_6e, Controllers_ThermalEquipment_6f,
        Controllers_ThermalEquipment_6g, Controllers_ThermalEquipment_6h])"
  unfolding Routes_ThermalEquipment_6_def Controllers_ThermalEquipment_6a_def
    Controllers_ThermalEquipment_6b_def Controllers_ThermalEquipment_6c_def
    Controllers_ThermalEquipment_6d_def Controllers_ThermalEquipment_6e_def
    Controllers_ThermalEquipment_6f_def Controllers_ThermalEquipment_6g_def
    Controllers_ThermalEquipment_6h_def
  by (rule aligning)+

lemma ThermalEquipment_7_aligned:
  "aligned Routes_ThermalEquipment_7
     (concat [Controllers_ThermalEquipment_7a, Controllers_ThermalEquipment_7b])"
  unfolding Routes_ThermalEquipment_7_def Controllers_ThermalEquipment_7a_def
    Controllers_ThermalEquipment_7b_def
  by (rule aligning)+

lemma ThermalEquipment_8_aligned:
  "aligned Routes_ThermalEquipment_8
     (concat [Controllers_ThermalEquipment_8a, Controllers_ThermalEquipment_8b, Controllers_ThermalEquipment_8c,
        Controllers_ThermalEquipment_8d, Controllers_ThermalEquipment_8e, Controllers_ThermalEquipment_8f])"
  unfolding Routes_ThermalEquipment_8_def Controllers_ThermalEquipment_8a_def
    Controllers_ThermalEquipment_8b_def Controllers_ThermalEquipment_8c_def
    Controllers_ThermalEquipment_8d_def Controllers_ThermalEquipment_8e_def
    Controllers_ThermalEquipment_8f_def
  by (rule aligning)+

lemma ThermalEquipment_9_aligned:
  "aligned Routes_ThermalEquipment_9
     (concat [Controllers_ThermalEquipment_9a, Controllers_ThermalEquipment_9b, Controllers_ThermalEquipment_9c,
        Controllers_ThermalEquipment_9d, Controllers_ThermalEquipment_9e, Controllers_ThermalEquipment_9f,
        Controllers_ThermalEquipment_9g, Controllers_ThermalEquipment_9h])"
  unfolding Routes_ThermalEquipment_9_def Controllers_ThermalEquipment_9a_def
    Controllers_ThermalEquipment_9b_def Controllers_ThermalEquipment_9c_def
    Controllers_ThermalEquipment_9d_def Controllers_ThermalEquipment_9e_def
    Controllers_ThermalEquipment_9f_def Controllers_ThermalEquipment_9g_def
    Controllers_ThermalEquipment_9h_def
  by (rule aligning)+

lemma plant_aligned: "aligned plant_routes plant_operations"
  unfolding plant_routes_def plant_operations_def
  by (intro aligned_concat
    Managers_1_aligned Managers_2_aligned Managers_3_aligned Managers_4_aligned Managers_5_aligned
    Managers_6_aligned Managers_7_aligned Managers_8_aligned Managers_9_aligned Managers_10_aligned
    Managers_11_aligned Managers_12_aligned Managers_13_aligned Managers_14_aligned Managers_15_aligned
    PowerEquipment_1_aligned PowerEquipment_2_aligned PowerEquipment_3_aligned PowerEquipment_4_aligned
    PowerEquipment_5_aligned PowerEquipment_6_aligned PowerEquipment_7_aligned PowerEquipment_8_aligned
    PowerEquipment_9_aligned PowerEquipment_10_aligned PowerEquipment_11_aligned
    PowerEquipment_12_aligned PowerEquipment_13_aligned Storage_1_aligned Storage_2_aligned
    Storage_3_aligned Storage_4_aligned Storage_5_aligned Storage_6_aligned Storage_7_aligned
    Storage_8_aligned Storage_9_aligned Storage_10_aligned Storage_11_aligned StorageServices_1_aligned
    StorageServices_2_aligned StorageServices_3_aligned StorageServices_4_aligned
    StorageServices_5_aligned StorageServices_6_aligned StorageServices_7_aligned
    StorageServices_8_aligned ThermalEquipment_1_aligned ThermalEquipment_2_aligned
    ThermalEquipment_3_aligned ThermalEquipment_4_aligned ThermalEquipment_5_aligned Leak_aligned
    ThermalEquipment_6_aligned ThermalEquipment_7_aligned ThermalEquipment_8_aligned
    ThermalEquipment_9_aligned)

end
