(* ===== verification/RoutesServices.thy ===== *)
theory RoutesServices
  imports Routing
begin

text \<open>
  The entries of \<open>Routes\<close> (api_default.go) for the remaining services.  None shares its name with a served entry or
  takes a request from one, unless it is a served entry itself.
\<close>

definition Routes_Root_1 :: Routes where
  "Routes_Root_1 =
     under at_root ''''
       []
       [('''', [], [Get])]"

definition Routes_Metadata_1 :: Routes where
  "Routes_Metadata_1 =
     under at_root ''Metadata''
       [Lit ''$metadata'']
       [('''', [], [Get])]"

definition Routes_AccountService_1 :: Routes where
  "Routes_AccountService_1 =
     under at_root ''AccountService''
       [Lit ''AccountService'']
       [('''', [], [Get, Put, Patch]),
        (''Accounts'', [Lit ''Accounts''], [Get, Post]),
        (''AccountsManagerAccountId'', [Lit ''Accounts'', Var ''ManagerAccountId''], [Get, Put, Delete, Patch]),
        (''AccountsManagerAccountIdActionsManagerAccountChangePassword'', [Lit ''Accounts'', Var ''ManagerAccountId'', Lit ''Actions'', Lit ''ManagerAccount.ChangePassword''], [Post]),
        (''AccountsManagerAccountIdCertificates'', [Lit ''Accounts'', Var ''ManagerAccountId'', Lit ''Certificates''], [Get, Post]),
        (''AccountsManagerAccountIdCertificatesCertificateId'', [Lit ''Accounts'', Var ''ManagerAccountId'', Lit ''Certificates'', Var ''CertificateId''], [Get, Put, Delete, Patch]),
        (''AccountsManagerAccountIdCertificatesCertificateIdActionsCertificateRekey'', [Lit ''Accounts'', Var ''ManagerAccountId'', Lit ''Certificates'', Var ''CertificateId'', Lit ''Actions'', Lit ''Certificate.Rekey''], [Post]),
        (''AccountsManagerAccountIdCertificatesCertificateIdActionsCertificateRenew'', [Lit ''Accounts'', Var ''ManagerAccountId'', Lit ''Certificates'', Var ''CertificateId'', Lit ''Actions'', Lit ''Certificate.Renew''], [Post]),
        (''AccountsManagerAccountIdKeys'', [Lit ''Accounts'', Var ''ManagerAccountId'', Lit ''Keys''], [Get, Post]),
        (''AccountsManagerAccountIdKeysKeyId'', [Lit ''Accounts'', Var ''ManagerAccountId'', Lit ''Keys'', Var ''KeyId''], [Get, Put, Delete, Patch]),
        (''ActiveDirectoryCertificates'', [Lit ''ActiveDirectory'', Lit ''Certificates''], [Get, Post])]"

definition Routes_AccountService_2 :: Routes where
  "Routes_AccountService_2 =
     under at_root ''AccountServiceActiveDirectoryCertificatesCertificateId''
       [Lit ''AccountService'', Lit ''ActiveDirectory'', Lit ''Certificates'', Var ''CertificateId'']
       [('''', [], [Get, Put, Delete, Patch]),
        (''ActionsCertificateRekey'', [Lit ''Actions'', Lit ''Certificate.Rekey''], [Post]),
        (''ActionsCertificateRenew'', [Lit ''Actions'', Lit ''Certificate.Renew''], [Post])]"

definition Routes_AccountService_3 :: Routes where
  "Routes_AccountService_3 =
     under at_root ''AccountServiceExternalAccountProviders''
       [Lit ''AccountService'', Lit ''ExternalAccountProviders'']
       [('''', [], [Get, Post]),
        (''ExternalAccountProviderId'', [Var ''ExternalAccountProviderId''], [Get, Put, Delete, Patch]),
        (''ExternalAccountProviderIdCertificates'', [Var ''ExternalAccountProviderId'', Lit ''Certificates''], [Get, Post]),
        (''ExternalAccountProviderIdCertificatesCertificateId'', [Var ''ExternalAccountProviderId'', Lit ''Certificates'', Var ''CertificateId''], [Get, Put, Delete, Patch]),
        (''ExternalAccountProviderIdCertificatesCertificateIdActionsCertificateRekey'', [Var ''ExternalAccountProviderId'', Lit ''Certificates'', Var ''CertificateId'', Lit ''Actions'', Lit ''Certificate.Rekey''], [Post]),
        (''ExternalAccountProviderIdCertificatesCertificateIdActionsCertificateRenew'', [Var ''ExternalAccountProviderId'', Lit ''Certificates'', Var ''CertificateId'', Lit ''Actions'', Lit ''Certificate.Renew''], [Post])]"

definition Routes_AccountService_4 :: Routes where
  "Routes_AccountService_4 =
     under at_root ''AccountService''
       [Lit ''AccountService'']
       [(''LDAPCertificates'', [Lit ''LDAP'', Lit ''Certificates''], [Get, Post]),
        (''LDAPCertificatesCertificateId'', [Lit ''LDAP'', Lit ''Certificates'', Var ''CertificateId''], [Get, Put, Delete, Patch]),
        (''LDAPCertificatesCertificateIdActionsCertificateRekey'', [Lit ''LDAP'', Lit ''Certificates'', Var ''CertificateId'', Lit ''Actions'', Lit ''Certificate.Rekey''], [Post]),
        (''LDAPCertificatesCertificateIdActionsCertificateRenew'', [Lit ''LDAP'', Lit ''Certificates'', Var ''CertificateId'', Lit ''Actions'', Lit ''Certificate.Renew''], [Post]),
        (''MultiFactorAuthClientCertificateCertificates'', [Lit ''MultiFactorAuth'', Lit ''ClientCertificate'', Lit ''Certificates''], [Get, Post]),
        (''MultiFactorAuthClientCertificateCertificatesCertificateId'', [Lit ''MultiFactorAuth'', Lit ''ClientCertificate'', Lit ''Certificates'', Var ''CertificateId''], [Get, Put, Delete, Patch]),
        (''MultiFactorAuthClientCertificateCertificatesCertificateIdActionsCertificateRekey'', [Lit ''MultiFactorAuth'', Lit ''ClientCertificate'', Lit ''Certificates'', Var ''CertificateId'', Lit ''Actions'', Lit ''Certificate.Rekey''], [Post]),
        (''MultiFactorAuthClientCertificateCertificatesCertificateIdActionsCertificateRenew'', [Lit ''MultiFactorAuth'', Lit ''ClientCertificate'', Lit ''Certificates'', Var ''CertificateId'', Lit ''Actions'', Lit ''Certificate.Renew''], [Post]),
        (''MultiFactorAuthSecurIDCertificates'', [Lit ''MultiFactorAuth'', Lit ''SecurID'', Lit ''Certificates''], [Get, Post]),
        (''MultiFactorAuthSecurIDCertificatesCertificateId'', [Lit ''MultiFactorAuth'', Lit ''SecurID'', Lit ''Certificates'', Var ''CertificateId''], [Get, Put, Delete, Patch]),
        (''MultiFactorAuthSecurIDCertificatesCertificateIdActionsCertificateRekey'', [Lit ''MultiFactorAuth'', Lit ''SecurID'', Lit ''Certificates'', Var ''CertificateId'', Lit ''Actions'', Lit ''Certificate.Rekey''], [Post]),
        (''MultiFactorAuthSecurIDCertificatesCertificateIdActionsCertificateRenew'', [Lit ''MultiFactorAuth'', Lit ''SecurID'', Lit ''Certificates'', Var ''CertificateId'', Lit ''Actions'', Lit ''Certificate.Renew''], [Post]),
        (''OutboundConnections'', [Lit ''OutboundConnections''], [Get, Post])]"

definition Routes_AccountService_5 :: Routes where
  "Routes_AccountService_5 =
     under at_root ''AccountServiceOutboundConnectionsOutboundConnectionId''
       [Lit ''AccountService'', Lit ''OutboundConnections'', Var ''OutboundConnectionId'']
       [('''', [], [Get, Put, Delete, Patch]),
        (''Certificates'', [Lit ''Certificates''], [Get, Post]),
        (''CertificatesCertificateId'', [Lit ''Certificates'', Var ''CertificateId''], [Get, Put, Delete, Patch]),
        (''CertificatesCertificateIdActionsCertificateRekey'', [Lit ''Certificates'', Var ''CertificateId'', Lit ''Actions'', Lit ''Certificate.Rekey''], [Post]),
        (''CertificatesCertificateIdActionsCertificateRenew'', [Lit ''Certificates'', Var ''CertificateId'', Lit ''Actions'', Lit ''Certificate.Renew''], [Post]),
        (''ClientCertificates'', [Lit ''ClientCertificates''], [Get, Post]),
        (''ClientCertificatesCertificateId'', [Lit ''ClientCertificates'', Var ''CertificateId''], [Get, Put, Delete, Patch]),
        (''ClientCertificatesCertificateIdActionsCertificateRekey'', [Lit ''ClientCertificates'', Var ''CertificateId'', Lit ''Actions'', Lit ''Certificate.Rekey''], [Post]),
        (''ClientCertificatesCertificateIdActionsCertificateRenew'', [Lit ''ClientCertificates'', Var ''CertificateId'', Lit ''Actions'', Lit ''Certificate.Renew''], [Post])]"

definition Routes_AccountService_6 :: Routes where
  "Routes_AccountService_6 =
     under at_root ''AccountServiceRoles''
       [Lit ''AccountService'', Lit ''Roles'']
       [('''', [], [Get, Post]),
        (''RoleId'', [Var ''RoleId''], [Get, Put, Delete, Patch])]"

definition Routes_AggregationService_1 :: Routes where
  "Routes_AggregationService_1 =
     under at_root ''AggregationService''
       [Lit ''AggregationService'']
       [('''', [], [Get, Put, Patch]),
        (''ActionsAggregationServiceReset'', [Lit ''Actions'', Lit ''AggregationService.Reset''], [Post]),
        (''ActionsAggregationServiceSetDefaultBootOrder'', [Lit ''Actions'', Lit ''AggregationService.SetDefaultBootOrder''], [Post]),
        (''Aggregates'', [Lit ''Aggregates''], [Get, Post]),
        (''AggregatesAggregateId'', [Lit ''Aggregates'', Var ''AggregateId''], [Get, Delete]),
        (''AggregatesAggregateIdActionsAggregateAddElements'', [Lit ''Aggregates'', Var ''AggregateId'', Lit ''Actions'', Lit ''Aggregate.AddElements''], [Post]),
        (''AggregatesAggregateIdActionsAggregateRemoveElements'', [Lit ''Aggregates'', Var ''AggregateId'', Lit ''Actions'', Lit ''Aggregate.RemoveElements''], [Post]),
        (''AggregatesAggregateIdActionsAggregateReset'', [Lit ''Aggregates'', Var ''AggregateId'', Lit ''Actions'', Lit ''Aggregate.Reset''], [Post]),
        (''AggregatesAggregateIdActionsAggregateSetDefaultBootOrder'', [Lit ''Aggregates'', Var ''AggregateId'', Lit ''Actions'', Lit ''Aggregate.SetDefaultBootOrder''], [Post]),
        (''AggregationSources'', [Lit ''AggregationSources''], [Get, Post])]"

definition Routes_AggregationService_2 :: Routes where
  "Routes_AggregationService_2 =
     under at_root ''AggregationServiceAggregationSourcesAggregationSourceId''
       [Lit ''AggregationService'', Lit ''AggregationSources'', Var ''AggregationSourceId'']
       [('''', [], [Get, Put, Delete, Patch]),
        (''ActionsAggregationSourceGenerateSSHIdentityKeyPair'', [Lit ''Actions'', Lit ''AggregationSource.GenerateSSHIdentityKeyPair''], [Post]),
        (''ActionsAggregationSourceRemoveSSHIdentityKeyPair'', [Lit ''Actions'', Lit ''AggregationSource.RemoveSSHIdentityKeyPair''], [Post]),
        (''PresentedPublicHostKey'', [Lit ''PresentedPublicHostKey''], [Get, Put, Delete, Patch]),
        (''PublicIdentityKey'', [Lit ''PublicIdentityKey''], [Get, Put, Delete, Patch]),
        (''TrustedPublicHostKeys'', [Lit ''TrustedPublicHostKeys''], [Get, Post]),
        (''TrustedPublicHostKeysKeyId'', [Lit ''TrustedPublicHostKeys'', Var ''KeyId''], [Get, Put, Delete, Patch])]"

definition Routes_AggregationService_3 :: Routes where
  "Routes_AggregationService_3 =
     under at_root ''AggregationServiceConnectionMethods''
       [Lit ''AggregationService'', Lit ''ConnectionMethods'']
       [('''', [], [Get, Post]),
        (''ConnectionMethodId'', [Var ''ConnectionMethodId''], [Get])]"

definition Routes_Cables_1 :: Routes where
  "Routes_Cables_1 =
     under at_root ''Cables''
       [Lit ''Cables'']
       [('''', [], [Get, Post]),
        (''CableId'', [Var ''CableId''], [Get, Put, Delete, Patch])]"

definition Routes_CertificateService_1 :: Routes where
  "Routes_CertificateService_1 =
     under at_root ''CertificateService''
       [Lit ''CertificateService'']
       [('''', [], [Get]),
        (''ActionsCertificateServiceGenerateCSR'', [Lit ''Actions'', Lit ''CertificateService.GenerateCSR''], [Post]),
        (''ActionsCertificateServiceReplaceCertificate'', [Lit ''Actions'', Lit ''CertificateService.ReplaceCertificate''], [Post]),
        (''CertificateLocations'', [Lit ''CertificateLocations''], [Get])]"

definition Routes_ComponentIntegrity_1 :: Routes where
  "Routes_ComponentIntegrity_1 =
     under at_root ''ComponentIntegrity''
       [Lit ''ComponentIntegrity'']
       [('''', [], [Get]),
        (''ComponentIntegrityId'', [Var ''ComponentIntegrityId''], [Get, Put, Patch]),
        (''ComponentIntegrityIdActionsComponentIntegritySPDMGetSignedMeasurements'', [Var ''ComponentIntegrityId'', Lit ''Actions'', Lit ''ComponentIntegrity.SPDMGetSignedMeasurements''], [Post]),
        (''ComponentIntegrityIdActionsComponentIntegrityTPMGetSignedMeasurements'', [Var ''ComponentIntegrityId'', Lit ''Actions'', Lit ''ComponentIntegrity.TPMGetSignedMeasurements''], [Post])]"

definition Routes_EventService_1 :: Routes where
  "Routes_EventService_1 =
     under at_root ''EventService''
       [Lit ''EventService'']
       [('''', [], [Get, Put, Patch]),
        (''ActionsEventServiceSubmitTestEvent'', [Lit ''Actions'', Lit ''EventService.SubmitTestEvent''], [Post]),
        (''ActionsEventServiceTestEventSubscription'', [Lit ''Actions'', Lit ''EventService.TestEventSubscription''], [Post]),
        (''Subscriptions'', [Lit ''Subscriptions''], [Get, Post])]"

definition Routes_EventService_2 :: Routes where
  "Routes_EventService_2 =
     under at_root ''EventServiceSubscriptionsEventDestinationId''
       [Lit ''EventService'', Lit ''Subscriptions'', Var ''EventDestinationId'']
       [('''', [], [Get, Put, Delete, Patch]),
        (''ActionsEventDestinationResumeSubscription'', [Lit ''Actions'', Lit ''EventDestination.ResumeSubscription''], [Post]),
        (''ActionsEventDestinationSuspendSubscription'', [Lit ''Actions'', Lit ''EventDestination.SuspendSubscription''], [Post]),
        (''Certificates'', [Lit ''Certificates''], [Get, Post]),
        (''CertificatesCertificateId'', [Lit ''Certificates'', Var ''CertificateId''], [Get, Put, Delete, Patch]),
        (''CertificatesCertificateIdActionsCertificateRekey'', [Lit ''Certificates'', Var ''CertificateId'', Lit ''Actions'', Lit ''Certificate.Rekey''], [Post]),
        (''CertificatesCertificateIdActionsCertificateRenew'', [Lit ''Certificates'', Var ''CertificateId'', Lit ''Actions'', Lit ''Certificate.Renew''], [Post]),
        (''ClientCertificates'', [Lit ''ClientCertificates''], [Get, Post]),
        (''ClientCertificatesCertificateId'', [Lit ''ClientCertificates'', Var ''CertificateId''], [Get, Put, Delete, Patch]),
        (''ClientCertificatesCertificateIdActionsCertificateRekey'', [Lit ''ClientCertificates'', Var ''CertificateId'', Lit ''Actions'', Lit ''Certificate.Rekey''], [Post]),
        (''ClientCertificatesCertificateIdActionsCertificateRenew'', [Lit ''ClientCertificates'', Var ''CertificateId'', Lit ''Actions'', Lit ''Certificate.Renew''], [Post])]"

definition Routes_Fabrics_1 :: Routes where
  "Routes_Fabrics_1 =
     under at_root ''Fabrics''
       [Lit ''Fabrics'']
       [('''', [], [Get]),
        (''FabricId'', [Var ''FabricId''], [Get, Put, Patch]),
        (''FabricIdAddressPools'', [Var ''FabricId'', Lit ''AddressPools''], [Get, Post]),
        (''FabricIdAddressPoolsAddressPoolId'', [Var ''FabricId'', Lit ''AddressPools'', Var ''AddressPoolId''], [Get, Put, Delete, Patch]),
        (''FabricIdConnections'', [Var ''FabricId'', Lit ''Connections''], [Get, Post]),
        (''FabricIdConnectionsConnectionId'', [Var ''FabricId'', Lit ''Connections'', Var ''ConnectionId''], [Get, Put, Delete, Patch]),
        (''FabricIdEndpointGroups'', [Var ''FabricId'', Lit ''EndpointGroups''], [Get, Post]),
        (''FabricIdEndpointGroupsEndpointGroupId'', [Var ''FabricId'', Lit ''EndpointGroups'', Var ''EndpointGroupId''], [Get, Put, Delete, Patch]),
        (''FabricIdEndpoints'', [Var ''FabricId'', Lit ''Endpoints''], [Get, Post]),
        (''FabricIdEndpointsEndpointId'', [Var ''FabricId'', Lit ''Endpoints'', Var ''EndpointId''], [Get, Put, Delete, Patch]),
        (''FabricIdSwitches'', [Var ''FabricId'', Lit ''Switches''], [Get])]"

definition Routes_Fabrics_2 :: Routes where
  "Routes_Fabrics_2 =
     under at_root ''FabricsFabricIdSwitchesSwitchId''
       [Lit ''Fabrics'', Var ''FabricId'', Lit ''Switches'', Var ''SwitchId'']
       [('''', [], [Get, Put, Patch]),
        (''ActionsSwitchReset'', [Lit ''Actions'', Lit ''Switch.Reset''], [Post]),
        (''Certificates'', [Lit ''Certificates''], [Get, Post]),
        (''CertificatesCertificateId'', [Lit ''Certificates'', Var ''CertificateId''], [Get, Put, Delete, Patch]),
        (''CertificatesCertificateIdActionsCertificateRekey'', [Lit ''Certificates'', Var ''CertificateId'', Lit ''Actions'', Lit ''Certificate.Rekey''], [Post]),
        (''CertificatesCertificateIdActionsCertificateRenew'', [Lit ''Certificates'', Var ''CertificateId'', Lit ''Actions'', Lit ''Certificate.Renew''], [Post]),
        (''EnvironmentMetrics'', [Lit ''EnvironmentMetrics''], [Get, Put, Patch]),
        (''EnvironmentMetricsActionsEnvironmentMetricsResetMetrics'', [Lit ''EnvironmentMetrics'', Lit ''Actions'', Lit ''EnvironmentMetrics.ResetMetrics''], [Post]),
        (''EnvironmentMetricsActionsEnvironmentMetricsResetToDefaults'', [Lit ''EnvironmentMetrics'', Lit ''Actions'', Lit ''EnvironmentMetrics.ResetToDefaults''], [Post]),
        (''Ports'', [Lit ''Ports''], [Get])]"

definition Routes_Fabrics_3 :: Routes where
  "Routes_Fabrics_3 =
     under at_root ''FabricsFabricIdSwitchesSwitchIdPortsPortId''
       [Lit ''Fabrics'', Var ''FabricId'', Lit ''Switches'', Var ''SwitchId'', Lit ''Ports'', Var ''PortId'']
       [('''', [], [Get, Put, Patch]),
        (''ActionsPortReset'', [Lit ''Actions'', Lit ''Port.Reset''], [Post]),
        (''ActionsPortResetPPB'', [Lit ''Actions'', Lit ''Port.ResetPPB''], [Post]),
        (''EnvironmentMetrics'', [Lit ''EnvironmentMetrics''], [Get, Put, Patch]),
        (''EnvironmentMetricsActionsEnvironmentMetricsResetMetrics'', [Lit ''EnvironmentMetrics'', Lit ''Actions'', Lit ''EnvironmentMetrics.ResetMetrics''], [Post]),
        (''EnvironmentMetricsActionsEnvironmentMetricsResetToDefaults'', [Lit ''EnvironmentMetrics'', Lit ''Actions'', Lit ''EnvironmentMetrics.ResetToDefaults''], [Post]),
        (''GenZLPRT'', [Lit ''GenZ'', Lit ''LPRT''], [Get, Post]),
        (''GenZLPRTLPRTId'', [Lit ''GenZ'', Lit ''LPRT'', Var ''LPRTId''], [Get, Put, Delete, Patch]),
        (''GenZMPRT'', [Lit ''GenZ'', Lit ''MPRT''], [Get, Post]),
        (''GenZMPRTMPRTId'', [Lit ''GenZ'', Lit ''MPRT'', Var ''MPRTId''], [Get, Put, Delete, Patch]),
        (''GenZVCAT'', [Lit ''GenZ'', Lit ''VCAT''], [Get, Post]),
        (''GenZVCATVCATEntryId'', [Lit ''GenZ'', Lit ''VCAT'', Var ''VCATEntryId''], [Get, Put, Delete, Patch]),
        (''LPRT'', [Lit ''LPRT''], [Get, Post])]"

definition Routes_Fabrics_4 :: Routes where
  "Routes_Fabrics_4 =
     under at_root ''FabricsFabricIdSwitchesSwitchIdPortsPortId''
       [Lit ''Fabrics'', Var ''FabricId'', Lit ''Switches'', Var ''SwitchId'', Lit ''Ports'', Var ''PortId'']
       [(''LPRTLPRTId'', [Lit ''LPRT'', Var ''LPRTId''], [Get, Put, Delete, Patch]),
        (''LPRTLPRTIdRouteSet'', [Lit ''LPRT'', Var ''LPRTId'', Lit ''RouteSet''], [Get, Post]),
        (''LPRTLPRTIdRouteSetRouteId'', [Lit ''LPRT'', Var ''LPRTId'', Lit ''RouteSet'', Var ''RouteId''], [Get, Put, Delete, Patch]),
        (''MPRT'', [Lit ''MPRT''], [Get, Post]),
        (''MPRTMPRTId'', [Lit ''MPRT'', Var ''MPRTId''], [Get, Put, Delete, Patch]),
        (''MPRTMPRTIdRouteSet'', [Lit ''MPRT'', Var ''MPRTId'', Lit ''RouteSet''], [Get, Post]),
        (''MPRTMPRTIdRouteSetRouteId'', [Lit ''MPRT'', Var ''MPRTId'', Lit ''RouteSet'', Var ''RouteId''], [Get, Put, Delete, Patch]),
        (''Metrics'', [Lit ''Metrics''], [Get]),
        (''VCAT'', [Lit ''VCAT''], [Get, Post]),
        (''VCATVCATEntryId'', [Lit ''VCAT'', Var ''VCATEntryId''], [Get, Put, Delete, Patch])]"

definition Routes_Fabrics_5 :: Routes where
  "Routes_Fabrics_5 =
     under at_root ''FabricsFabricId''
       [Lit ''Fabrics'', Var ''FabricId'']
       [(''SwitchesSwitchIdSwitchMetrics'', [Lit ''Switches'', Var ''SwitchId'', Lit ''SwitchMetrics''], [Get]),
        (''SwitchesSwitchIdSwitchMetricsActionsSwitchMetricsClearCurrentPeriod'', [Lit ''Switches'', Var ''SwitchId'', Lit ''SwitchMetrics'', Lit ''Actions'', Lit ''SwitchMetrics.ClearCurrentPeriod''], [Post]),
        (''Zones'', [Lit ''Zones''], [Get, Post]),
        (''ZonesZoneId'', [Lit ''Zones'', Var ''ZoneId''], [Get, Put, Delete, Patch]),
        (''ZonesZoneIdActionsZoneAddEndpoint'', [Lit ''Zones'', Var ''ZoneId'', Lit ''Actions'', Lit ''Zone.AddEndpoint''], [Post]),
        (''ZonesZoneIdActionsZoneRemoveEndpoint'', [Lit ''Zones'', Var ''ZoneId'', Lit ''Actions'', Lit ''Zone.RemoveEndpoint''], [Post])]"

definition Routes_Facilities_1 :: Routes where
  "Routes_Facilities_1 =
     under at_root ''Facilities''
       [Lit ''Facilities'']
       [('''', [], [Get, Post]),
        (''FacilityId'', [Var ''FacilityId''], [Get, Put, Delete, Patch]),
        (''FacilityIdAmbientMetrics'', [Var ''FacilityId'', Lit ''AmbientMetrics''], [Get, Put, Patch]),
        (''FacilityIdAmbientMetricsActionsEnvironmentMetricsResetMetrics'', [Var ''FacilityId'', Lit ''AmbientMetrics'', Lit ''Actions'', Lit ''EnvironmentMetrics.ResetMetrics''], [Post]),
        (''FacilityIdAmbientMetricsActionsEnvironmentMetricsResetToDefaults'', [Var ''FacilityId'', Lit ''AmbientMetrics'', Lit ''Actions'', Lit ''EnvironmentMetrics.ResetToDefaults''], [Post]),
        (''FacilityIdEnvironmentMetrics'', [Var ''FacilityId'', Lit ''EnvironmentMetrics''], [Get, Put, Patch]),
        (''FacilityIdEnvironmentMetricsActionsEnvironmentMetricsResetMetrics'', [Var ''FacilityId'', Lit ''EnvironmentMetrics'', Lit ''Actions'', Lit ''EnvironmentMetrics.ResetMetrics''], [Post]),
        (''FacilityIdEnvironmentMetricsActionsEnvironmentMetricsResetToDefaults'', [Var ''FacilityId'', Lit ''EnvironmentMetrics'', Lit ''Actions'', Lit ''EnvironmentMetrics.ResetToDefaults''], [Post]),
        (''FacilityIdPowerDomains'', [Var ''FacilityId'', Lit ''PowerDomains''], [Get, Post]),
        (''FacilityIdPowerDomainsPowerDomainId'', [Var ''FacilityId'', Lit ''PowerDomains'', Var ''PowerDomainId''], [Get, Put, Delete, Patch])]"

definition Routes_JobService_1 :: Routes where
  "Routes_JobService_1 =
     under at_root ''JobService''
       [Lit ''JobService'']
       [('''', [], [Get, Put, Patch]),
        (''Jobs'', [Lit ''Jobs''], [Get, Post]),
        (''JobsJobId'', [Lit ''Jobs'', Var ''JobId''], [Get, Put, Delete, Patch]),
        (''JobsJobIdSteps'', [Lit ''Jobs'', Var ''JobId'', Lit ''Steps''], [Get, Post]),
        (''JobsJobIdStepsJobId2'', [Lit ''Jobs'', Var ''JobId'', Lit ''Steps'', Var ''JobId2''], [Get, Put, Delete, Patch]),
        (''Log'', [Lit ''Log''], [Get, Put, Patch]),
        (''LogActionsLogServiceClearLog'', [Lit ''Log'', Lit ''Actions'', Lit ''LogService.ClearLog''], [Post]),
        (''LogActionsLogServiceCollectDiagnosticData'', [Lit ''Log'', Lit ''Actions'', Lit ''LogService.CollectDiagnosticData''], [Post]),
        (''LogActionsLogServicePushDiagnosticData'', [Lit ''Log'', Lit ''Actions'', Lit ''LogService.PushDiagnosticData''], [Post]),
        (''LogEntries'', [Lit ''Log'', Lit ''Entries''], [Get, Post]),
        (''LogEntriesLogEntryId'', [Lit ''Log'', Lit ''Entries'', Var ''LogEntryId''], [Get, Put, Delete, Patch])]"

definition Routes_JsonSchemas_1 :: Routes where
  "Routes_JsonSchemas_1 =
     under at_root ''JsonSchemas''
       [Lit ''JsonSchemas'']
       [('''', [], [Get]),
        (''JsonSchemaFileId'', [Var ''JsonSchemaFileId''], [Get])]"

definition Routes_KeyService_1 :: Routes where
  "Routes_KeyService_1 =
     under at_root ''KeyService''
       [Lit ''KeyService'']
       [('''', [], [Get]),
        (''NVMeoFKeyPolicies'', [Lit ''NVMeoFKeyPolicies''], [Get, Post]),
        (''NVMeoFKeyPoliciesKeyPolicyId'', [Lit ''NVMeoFKeyPolicies'', Var ''KeyPolicyId''], [Get, Put, Delete, Patch]),
        (''NVMeoFSecrets'', [Lit ''NVMeoFSecrets''], [Get, Post]),
        (''NVMeoFSecretsKeyId'', [Lit ''NVMeoFSecrets'', Var ''KeyId''], [Get, Put, Delete, Patch])]"

definition Routes_LicenseService_1 :: Routes where
  "Routes_LicenseService_1 =
     under at_root ''LicenseService''
       [Lit ''LicenseService'']
       [('''', [], [Get, Put, Patch]),
        (''ActionsLicenseServiceInstall'', [Lit ''Actions'', Lit ''LicenseService.Install''], [Post]),
        (''Licenses'', [Lit ''Licenses''], [Get, Post]),
        (''LicensesLicenseId'', [Lit ''Licenses'', Var ''LicenseId''], [Get, Delete])]"

definition Routes_RegisteredClients_1 :: Routes where
  "Routes_RegisteredClients_1 =
     under at_root ''RegisteredClients''
       [Lit ''RegisteredClients'']
       [('''', [], [Get, Post]),
        (''RegisteredClientId'', [Var ''RegisteredClientId''], [Get, Put, Delete, Patch])]"

definition Routes_Registries_1 :: Routes where
  "Routes_Registries_1 =
     under at_root ''Registries''
       [Lit ''Registries'']
       [('''', [], [Get]),
        (''MessageRegistryFileId'', [Var ''MessageRegistryFileId''], [Get])]"

definition Routes_ServiceConditions_1 :: Routes where
  "Routes_ServiceConditions_1 =
     under at_root ''ServiceConditions''
       [Lit ''ServiceConditions'']
       [('''', [], [Get])]"

definition Routes_SessionService_1 :: Routes where
  "Routes_SessionService_1 =
     under at_root ''SessionService''
       [Lit ''SessionService'']
       [('''', [], [Get, Put, Patch])]"

definition Routes_SessionService_2 :: Routes where
  "Routes_SessionService_2 =
     under at_root ''SessionServiceSessions''
       [Lit ''SessionService'', Lit ''Sessions'']
       [('''', [], [Get, Post])]"

definition Routes_SessionService_3 :: Routes where
  "Routes_SessionService_3 =
     under at_root ''SessionServiceSessionsSessionId''
       [Lit ''SessionService'', Lit ''Sessions'', Var ''SessionId'']
       [('''', [], [Get, Delete])]"

definition Routes_TaskService_1 :: Routes where
  "Routes_TaskService_1 =
     under at_root ''TaskService''
       [Lit ''TaskService'']
       [('''', [], [Get, Put, Patch]),
        (''Tasks'', [Lit ''Tasks''], [Get]),
        (''TasksTaskId'', [Lit ''Tasks'', Var ''TaskId''], [Get, Delete]),
        (''TasksTaskIdSubTasks'', [Lit ''Tasks'', Var ''TaskId'', Lit ''SubTasks''], [Get]),
        (''TasksTaskIdSubTasksTaskId2'', [Lit ''Tasks'', Var ''TaskId'', Lit ''SubTasks'', Var ''TaskId2''], [Get, Delete])]"

definition Routes_TelemetryService_1 :: Routes where
  "Routes_TelemetryService_1 =
     under at_root ''TelemetryService''
       [Lit ''TelemetryService'']
       [('''', [], [Get, Put, Patch]),
        (''ActionsTelemetryServiceClearMetricReports'', [Lit ''Actions'', Lit ''TelemetryService.ClearMetricReports''], [Post]),
        (''ActionsTelemetryServiceResetMetricReportDefinitionsToDefaults'', [Lit ''Actions'', Lit ''TelemetryService.ResetMetricReportDefinitionsToDefaults''], [Post]),
        (''ActionsTelemetryServiceResetTriggersToDefaults'', [Lit ''Actions'', Lit ''TelemetryService.ResetTriggersToDefaults''], [Post]),
        (''ActionsTelemetryServiceSubmitTestMetricReport'', [Lit ''Actions'', Lit ''TelemetryService.SubmitTestMetricReport''], [Post]),
        (''LogService'', [Lit ''LogService''], [Get, Put, Patch]),
        (''LogServiceActionsLogServiceClearLog'', [Lit ''LogService'', Lit ''Actions'', Lit ''LogService.ClearLog''], [Post]),
        (''LogServiceActionsLogServiceCollectDiagnosticData'', [Lit ''LogService'', Lit ''Actions'', Lit ''LogService.CollectDiagnosticData''], [Post]),
        (''LogServiceActionsLogServicePushDiagnosticData'', [Lit ''LogService'', Lit ''Actions'', Lit ''LogService.PushDiagnosticData''], [Post]),
        (''LogServiceEntries'', [Lit ''LogService'', Lit ''Entries''], [Get, Post]),
        (''LogServiceEntriesLogEntryId'', [Lit ''LogService'', Lit ''Entries'', Var ''LogEntryId''], [Get, Put, Delete, Patch]),
        (''MetricDefinitions'', [Lit ''MetricDefinitions''], [Get, Post]),
        (''MetricDefinitionsMetricDefinitionId'', [Lit ''MetricDefinitions'', Var ''MetricDefinitionId''], [Get, Put, Delete, Patch]),
        (''MetricReportDefinitions'', [Lit ''MetricReportDefinitions''], [Get, Post])]"

definition Routes_TelemetryService_2 :: Routes where
  "Routes_TelemetryService_2 =
     under at_root ''TelemetryService''
       [Lit ''TelemetryService'']
       [(''MetricReportDefinitionsMetricReportDefinitionId'', [Lit ''MetricReportDefinitions'', Var ''MetricReportDefinitionId''], [Get, Put, Delete, Patch]),
        (''MetricReports'', [Lit ''MetricReports''], [Get]),
        (''MetricReportsMetricReportId'', [Lit ''MetricReports'', Var ''MetricReportId''], [Get, Delete]),
        (''Triggers'', [Lit ''Triggers''], [Get, Post]),
        (''TriggersTriggersId'', [Lit ''Triggers'', Var ''TriggersId''], [Get, Put, Delete, Patch])]"

definition Routes_UpdateService_1 :: Routes where
  "Routes_UpdateService_1 =
     under at_root ''UpdateService''
       [Lit ''UpdateService'']
       [('''', [], [Get, Put, Patch]),
        (''ActionsUpdateServiceGenerateSSHIdentityKeyPair'', [Lit ''Actions'', Lit ''UpdateService.GenerateSSHIdentityKeyPair''], [Post]),
        (''ActionsUpdateServiceRemoveSSHIdentityKeyPair'', [Lit ''Actions'', Lit ''UpdateService.RemoveSSHIdentityKeyPair''], [Post]),
        (''ActionsUpdateServiceSimpleUpdate'', [Lit ''Actions'', Lit ''UpdateService.SimpleUpdate''], [Post]),
        (''ActionsUpdateServiceStartUpdate'', [Lit ''Actions'', Lit ''UpdateService.StartUpdate''], [Post]),
        (''ClientCertificates'', [Lit ''ClientCertificates''], [Get, Post]),
        (''ClientCertificatesCertificateId'', [Lit ''ClientCertificates'', Var ''CertificateId''], [Get, Put, Delete, Patch]),
        (''ClientCertificatesCertificateIdActionsCertificateRekey'', [Lit ''ClientCertificates'', Var ''CertificateId'', Lit ''Actions'', Lit ''Certificate.Rekey''], [Post]),
        (''ClientCertificatesCertificateIdActionsCertificateRenew'', [Lit ''ClientCertificates'', Var ''CertificateId'', Lit ''Actions'', Lit ''Certificate.Renew''], [Post]),
        (''FirmwareInventory'', [Lit ''FirmwareInventory''], [Get]),
        (''FirmwareInventorySoftwareInventoryId'', [Lit ''FirmwareInventory'', Var ''SoftwareInventoryId''], [Get, Put, Patch]),
        (''PublicIdentitySSHKeyKeyId'', [Lit ''PublicIdentitySSHKey'', Var ''KeyId''], [Get, Put, Delete, Patch]),
        (''RemoteServerCertificates'', [Lit ''RemoteServerCertificates''], [Get, Post]),
        (''RemoteServerCertificatesCertificateId'', [Lit ''RemoteServerCertificates'', Var ''CertificateId''], [Get, Put, Delete, Patch]),
        (''RemoteServerCertificatesCertificateIdActionsCertificateRekey'', [Lit ''RemoteServerCertificates'', Var ''CertificateId'', Lit ''Actions'', Lit ''Certificate.Rekey''], [Post])]"

definition Routes_UpdateService_2 :: Routes where
  "Routes_UpdateService_2 =
     under at_root ''UpdateService''
       [Lit ''UpdateService'']
       [(''RemoteServerCertificatesCertificateIdActionsCertificateRenew'', [Lit ''RemoteServerCertificates'', Var ''CertificateId'', Lit ''Actions'', Lit ''Certificate.Renew''], [Post]),
        (''RemoteServerSSHKeys'', [Lit ''RemoteServerSSHKeys''], [Get, Post]),
        (''RemoteServerSSHKeysKeyId'', [Lit ''RemoteServerSSHKeys'', Var ''KeyId''], [Get, Put, Delete, Patch]),
        (''SoftwareInventory'', [Lit ''SoftwareInventory''], [Get]),
        (''SoftwareInventorySoftwareInventoryId'', [Lit ''SoftwareInventory'', Var ''SoftwareInventoryId''], [Get, Put, Patch])]"

definition Routes_Odata_1 :: Routes where
  "Routes_Odata_1 =
     under at_root ''Odata''
       [Lit ''odata'']
       [('''', [], [Get])]"

definition service_routes :: Routes where
  "service_routes = concat
     [Routes_Root_1, Routes_Metadata_1, Routes_AccountService_1, Routes_AccountService_2,
      Routes_AccountService_3, Routes_AccountService_4, Routes_AccountService_5, Routes_AccountService_6,
      Routes_AggregationService_1, Routes_AggregationService_2, Routes_AggregationService_3,
      Routes_Cables_1, Routes_CertificateService_1, Routes_ComponentIntegrity_1, Routes_EventService_1,
      Routes_EventService_2, Routes_Fabrics_1, Routes_Fabrics_2, Routes_Fabrics_3, Routes_Fabrics_4,
      Routes_Fabrics_5, Routes_Facilities_1, Routes_JobService_1, Routes_JsonSchemas_1,
      Routes_KeyService_1, Routes_LicenseService_1, Routes_RegisteredClients_1, Routes_Registries_1,
      Routes_ServiceConditions_1, Routes_SessionService_1, Routes_SessionService_2,
      Routes_SessionService_3, Routes_TaskService_1, Routes_TelemetryService_1, Routes_TelemetryService_2,
      Routes_UpdateService_1, Routes_UpdateService_2, Routes_Odata_1]"

lemma Root_1_settled: "list_all settled Routes_Root_1"
  unfolding Routes_Root_1_def
  by (rule settled_decided, simp add: settled_near)

lemma Metadata_1_settled: "list_all settled Routes_Metadata_1"
  unfolding Routes_Metadata_1_def
  by (rule settled_decided, simp add: settled_near)

lemma AccountService_1_settled: "list_all settled Routes_AccountService_1"
  unfolding Routes_AccountService_1_def
  by (rule settled_foreign, (rule parting | (simp; fail))+)

lemma AccountService_2_settled: "list_all settled Routes_AccountService_2"
  unfolding Routes_AccountService_2_def
  by (rule settled_foreign, (rule parting | (simp; fail))+)

lemma AccountService_3_settled: "list_all settled Routes_AccountService_3"
  unfolding Routes_AccountService_3_def
  by (rule settled_foreign, (rule parting | (simp; fail))+)

lemma AccountService_4_settled: "list_all settled Routes_AccountService_4"
  unfolding Routes_AccountService_4_def
  by (rule settled_foreign, (rule parting | (simp; fail))+)

lemma AccountService_5_settled: "list_all settled Routes_AccountService_5"
  unfolding Routes_AccountService_5_def
  by (rule settled_foreign, (rule parting | (simp; fail))+)

lemma AccountService_6_settled: "list_all settled Routes_AccountService_6"
  unfolding Routes_AccountService_6_def
  by (rule settled_foreign, (rule parting | (simp; fail))+)

lemma AggregationService_1_settled: "list_all settled Routes_AggregationService_1"
  unfolding Routes_AggregationService_1_def
  by (rule settled_foreign, (rule parting | (simp; fail))+)

lemma AggregationService_2_settled: "list_all settled Routes_AggregationService_2"
  unfolding Routes_AggregationService_2_def
  by (rule settled_foreign, (rule parting | (simp; fail))+)

lemma AggregationService_3_settled: "list_all settled Routes_AggregationService_3"
  unfolding Routes_AggregationService_3_def
  by (rule settled_foreign, (rule parting | (simp; fail))+)

lemma Cables_1_settled: "list_all settled Routes_Cables_1"
  unfolding Routes_Cables_1_def
  by (rule settled_foreign, (rule parting | (simp; fail))+)

lemma CertificateService_1_settled: "list_all settled Routes_CertificateService_1"
  unfolding Routes_CertificateService_1_def
  by (rule settled_foreign, (rule parting | (simp; fail))+)

lemma ComponentIntegrity_1_settled: "list_all settled Routes_ComponentIntegrity_1"
  unfolding Routes_ComponentIntegrity_1_def
  by (rule settled_foreign, (rule parting | (simp; fail))+)

lemma EventService_1_settled: "list_all settled Routes_EventService_1"
  unfolding Routes_EventService_1_def
  by (rule settled_foreign, (rule parting | (simp; fail))+)

lemma EventService_2_settled: "list_all settled Routes_EventService_2"
  unfolding Routes_EventService_2_def
  by (rule settled_foreign, (rule parting | (simp; fail))+)

lemma Fabrics_1_settled: "list_all settled Routes_Fabrics_1"
  unfolding Routes_Fabrics_1_def
  by (rule settled_foreign, (rule parting | (simp; fail))+)

lemma Fabrics_2_settled: "list_all settled Routes_Fabrics_2"
  unfolding Routes_Fabrics_2_def
  by (rule settled_foreign, (rule parting | (simp; fail))+)

lemma Fabrics_3_settled: "list_all settled Routes_Fabrics_3"
  unfolding Routes_Fabrics_3_def
  by (rule settled_foreign, (rule parting | (simp; fail))+)

lemma Fabrics_4_settled: "list_all settled Routes_Fabrics_4"
  unfolding Routes_Fabrics_4_def
  by (rule settled_foreign, (rule parting | (simp; fail))+)

lemma Fabrics_5_settled: "list_all settled Routes_Fabrics_5"
  unfolding Routes_Fabrics_5_def
  by (rule settled_foreign, (rule parting | (simp; fail))+)

lemma Facilities_1_settled: "list_all settled Routes_Facilities_1"
  unfolding Routes_Facilities_1_def
  by (rule settled_foreign, (rule parting | (simp; fail))+)

lemma JobService_1_settled: "list_all settled Routes_JobService_1"
  unfolding Routes_JobService_1_def
  by (rule settled_foreign, (rule parting | (simp; fail))+)

lemma JsonSchemas_1_settled: "list_all settled Routes_JsonSchemas_1"
  unfolding Routes_JsonSchemas_1_def
  by (rule settled_foreign, (rule parting | (simp; fail))+)

lemma KeyService_1_settled: "list_all settled Routes_KeyService_1"
  unfolding Routes_KeyService_1_def
  by (rule settled_foreign, (rule parting | (simp; fail))+)

lemma LicenseService_1_settled: "list_all settled Routes_LicenseService_1"
  unfolding Routes_LicenseService_1_def
  by (rule settled_foreign, (rule parting | (simp; fail))+)

lemma RegisteredClients_1_settled: "list_all settled Routes_RegisteredClients_1"
  unfolding Routes_RegisteredClients_1_def
  by (rule settled_foreign, (rule parting | (simp; fail))+)

lemma Registries_1_settled: "list_all settled Routes_Registries_1"
  unfolding Routes_Registries_1_def
  by (rule settled_foreign, (rule parting | (simp; fail))+)

lemma ServiceConditions_1_settled: "list_all settled Routes_ServiceConditions_1"
  unfolding Routes_ServiceConditions_1_def
  by (rule settled_foreign, (rule parting | (simp; fail))+)

lemma SessionService_1_settled: "list_all settled Routes_SessionService_1"
  unfolding Routes_SessionService_1_def
  by (rule settled_decided, simp add: settled_near)

lemma SessionService_2_settled: "list_all settled Routes_SessionService_2"
  unfolding Routes_SessionService_2_def
  by (rule settled_decided, simp add: settled_near)

lemma SessionService_3_settled: "list_all settled Routes_SessionService_3"
  unfolding Routes_SessionService_3_def
  by (rule settled_decided, simp add: settled_near)

lemma TaskService_1_settled: "list_all settled Routes_TaskService_1"
  unfolding Routes_TaskService_1_def
  by (rule settled_foreign, (rule parting | (simp; fail))+)

lemma TelemetryService_1_settled: "list_all settled Routes_TelemetryService_1"
  unfolding Routes_TelemetryService_1_def
  by (rule settled_foreign, (rule parting | (simp; fail))+)

lemma TelemetryService_2_settled: "list_all settled Routes_TelemetryService_2"
  unfolding Routes_TelemetryService_2_def
  by (rule settled_foreign, (rule parting | (simp; fail))+)

lemma UpdateService_1_settled: "list_all settled Routes_UpdateService_1"
  unfolding Routes_UpdateService_1_def
  by (rule settled_foreign, (rule parting | (simp; fail))+)

lemma UpdateService_2_settled: "list_all settled Routes_UpdateService_2"
  unfolding Routes_UpdateService_2_def
  by (rule settled_foreign, (rule parting | (simp; fail))+)

lemma Odata_1_settled: "list_all settled Routes_Odata_1"
  unfolding Routes_Odata_1_def
  by (rule settled_foreign, (rule parting | (simp; fail))+)

lemma service_routes_settled: "list_all settled service_routes"
  unfolding service_routes_def
  by (intro settled_concat
    Root_1_settled Metadata_1_settled AccountService_1_settled AccountService_2_settled
    AccountService_3_settled AccountService_4_settled AccountService_5_settled AccountService_6_settled
    AggregationService_1_settled AggregationService_2_settled AggregationService_3_settled
    Cables_1_settled CertificateService_1_settled ComponentIntegrity_1_settled EventService_1_settled
    EventService_2_settled Fabrics_1_settled Fabrics_2_settled Fabrics_3_settled Fabrics_4_settled
    Fabrics_5_settled Facilities_1_settled JobService_1_settled JsonSchemas_1_settled
    KeyService_1_settled LicenseService_1_settled RegisteredClients_1_settled Registries_1_settled
    ServiceConditions_1_settled SessionService_1_settled SessionService_2_settled
    SessionService_3_settled TaskService_1_settled TelemetryService_1_settled TelemetryService_2_settled
    UpdateService_1_settled UpdateService_2_settled Odata_1_settled)

end
