(* ===== verification/ControllersServices.thy ===== *)
theory ControllersServices
  imports RoutesServices Operations
begin

text \<open>
  The controllers of the remaining services (api_default.go), group by group of their routes: the
  path variables each requires and the body it decodes and checks.  The variables are those of the
  pattern of its route.
\<close>

definition Controllers_Root_1a :: operations where
  "Controllers_Root_1a = ops op_root '''' []
     [('''', [], Bodiless, [Get])]"

definition Controllers_Metadata_1a :: operations where
  "Controllers_Metadata_1a = ops op_root ''Metadata'' []
     [('''', [], Bodiless, [Get])]"

definition Controllers_AccountService_1a :: operations where
  "Controllers_AccountService_1a = ops op_root ''AccountService'' []
     [('''', [], Checked ''AccountServiceV1150AccountService'', [Get, Put, Patch]),
      (''Accounts'', [], Checked ''ManagerAccountV1120ManagerAccount'', [Get, Post]),
      (''AccountsManagerAccountId'', [''ManagerAccountId''], Bodiless, [Get])]"

definition Controllers_AccountService_1b :: operations where
  "Controllers_AccountService_1b = ops op_root ''AccountService'' []
     [(''AccountsManagerAccountId'', [''ManagerAccountId''], Checked ''ManagerAccountV1120ManagerAccount'', [Put, Delete, Patch]),
      (''AccountsManagerAccountIdActionsManagerAccountChangePassword'', [''ManagerAccountId''], Checked ''ManagerAccountV1120ChangePasswordRequestBody'', [Post]),
      (''AccountsManagerAccountIdCertificates'', [''ManagerAccountId''], Bodiless, [Get])]"

definition Controllers_AccountService_1c :: operations where
  "Controllers_AccountService_1c = ops op_root ''AccountService'' []
     [(''AccountsManagerAccountIdCertificates'', [''ManagerAccountId''], Checked ''CertificateV181Certificate'', [Post]),
      (''AccountsManagerAccountIdCertificatesCertificateId'', [''ManagerAccountId'', ''CertificateId''], Checked ''CertificateV181Certificate'', [Get, Put, Delete])]"

definition Controllers_AccountService_1d :: operations where
  "Controllers_AccountService_1d = ops op_root ''AccountService'' []
     [(''AccountsManagerAccountIdCertificatesCertificateId'', [''ManagerAccountId'', ''CertificateId''], Checked ''CertificateV181Certificate'', [Patch]),
      (''AccountsManagerAccountIdCertificatesCertificateIdActionsCertificateRekey'', [''ManagerAccountId'', ''CertificateId''], Checked ''CertificateV181RekeyRequestBody'', [Post]),
      (''AccountsManagerAccountIdCertificatesCertificateIdActionsCertificateRenew'', [''ManagerAccountId'', ''CertificateId''], Checked ''CertificateV181RenewRequestBody'', [Post]),
      (''AccountsManagerAccountIdKeys'', [''ManagerAccountId''], Bodiless, [Get])]"

definition Controllers_AccountService_1e :: operations where
  "Controllers_AccountService_1e = ops op_root ''AccountService'' []
     [(''AccountsManagerAccountIdKeys'', [''ManagerAccountId''], Checked ''KeyV140Key'', [Post]),
      (''AccountsManagerAccountIdKeysKeyId'', [''ManagerAccountId'', ''KeyId''], Checked ''KeyV140Key'', [Get, Put, Delete])]"

definition Controllers_AccountService_1f :: operations where
  "Controllers_AccountService_1f = ops op_root ''AccountService'' []
     [(''AccountsManagerAccountIdKeysKeyId'', [''ManagerAccountId'', ''KeyId''], Checked ''KeyV140Key'', [Patch]),
      (''ActiveDirectoryCertificates'', [], Checked ''CertificateV181Certificate'', [Get, Post])]"

definition Controllers_AccountService_2a :: operations where
  "Controllers_AccountService_2a = ops op_root ''AccountServiceActiveDirectoryCertificatesCertificateId'' [''CertificateId'']
     [('''', [], Checked ''CertificateV181Certificate'', [Get, Put, Delete, Patch]),
      (''ActionsCertificateRekey'', [], Checked ''CertificateV181RekeyRequestBody'', [Post])]"

definition Controllers_AccountService_2b :: operations where
  "Controllers_AccountService_2b = ops op_root ''AccountServiceActiveDirectoryCertificatesCertificateId'' [''CertificateId'']
     [(''ActionsCertificateRenew'', [], Checked ''CertificateV181RenewRequestBody'', [Post])]"

definition Controllers_AccountService_3a :: operations where
  "Controllers_AccountService_3a = ops op_root ''AccountServiceExternalAccountProviders'' []
     [('''', [], Checked ''ExternalAccountProviderV171ExternalAccountProvider'', [Get, Post]),
      (''ExternalAccountProviderId'', [''ExternalAccountProviderId''], Checked ''ExternalAccountProviderV171ExternalAccountProvider'', [Get, Put, Delete, Patch])]"

definition Controllers_AccountService_3b :: operations where
  "Controllers_AccountService_3b = ops op_root ''AccountServiceExternalAccountProviders'' []
     [(''ExternalAccountProviderIdCertificates'', [''ExternalAccountProviderId''], Checked ''CertificateV181Certificate'', [Get, Post]),
      (''ExternalAccountProviderIdCertificatesCertificateId'', [''ExternalAccountProviderId'', ''CertificateId''], Checked ''CertificateV181Certificate'', [Get, Put, Delete])]"

definition Controllers_AccountService_3c :: operations where
  "Controllers_AccountService_3c = ops op_root ''AccountServiceExternalAccountProviders'' []
     [(''ExternalAccountProviderIdCertificatesCertificateId'', [''ExternalAccountProviderId'', ''CertificateId''], Checked ''CertificateV181Certificate'', [Patch]),
      (''ExternalAccountProviderIdCertificatesCertificateIdActionsCertificateRekey'', [''ExternalAccountProviderId'', ''CertificateId''], Checked ''CertificateV181RekeyRequestBody'', [Post]),
      (''ExternalAccountProviderIdCertificatesCertificateIdActionsCertificateRenew'', [''ExternalAccountProviderId'', ''CertificateId''], Checked ''CertificateV181RenewRequestBody'', [Post])]"

definition Controllers_AccountService_4a :: operations where
  "Controllers_AccountService_4a = ops op_root ''AccountService'' []
     [(''LDAPCertificates'', [], Checked ''CertificateV181Certificate'', [Get, Post]),
      (''LDAPCertificatesCertificateId'', [''CertificateId''], Checked ''CertificateV181Certificate'', [Get, Put, Delete, Patch])]"

definition Controllers_AccountService_4b :: operations where
  "Controllers_AccountService_4b = ops op_root ''AccountService'' []
     [(''LDAPCertificatesCertificateIdActionsCertificateRekey'', [''CertificateId''], Checked ''CertificateV181RekeyRequestBody'', [Post]),
      (''LDAPCertificatesCertificateIdActionsCertificateRenew'', [''CertificateId''], Checked ''CertificateV181RenewRequestBody'', [Post]),
      (''MultiFactorAuthClientCertificateCertificates'', [], Checked ''CertificateV181Certificate'', [Get, Post]),
      (''MultiFactorAuthClientCertificateCertificatesCertificateId'', [''CertificateId''], Bodiless, [Get])]"

definition Controllers_AccountService_4c :: operations where
  "Controllers_AccountService_4c = ops op_root ''AccountService'' []
     [(''MultiFactorAuthClientCertificateCertificatesCertificateId'', [''CertificateId''], Checked ''CertificateV181Certificate'', [Put, Delete, Patch]),
      (''MultiFactorAuthClientCertificateCertificatesCertificateIdActionsCertificateRekey'', [''CertificateId''], Checked ''CertificateV181RekeyRequestBody'', [Post]),
      (''MultiFactorAuthClientCertificateCertificatesCertificateIdActionsCertificateRenew'', [''CertificateId''], Checked ''CertificateV181RenewRequestBody'', [Post])]"

definition Controllers_AccountService_4d :: operations where
  "Controllers_AccountService_4d = ops op_root ''AccountService'' []
     [(''MultiFactorAuthSecurIDCertificates'', [], Checked ''CertificateV181Certificate'', [Get, Post]),
      (''MultiFactorAuthSecurIDCertificatesCertificateId'', [''CertificateId''], Checked ''CertificateV181Certificate'', [Get, Put, Delete, Patch])]"

definition Controllers_AccountService_4e :: operations where
  "Controllers_AccountService_4e = ops op_root ''AccountService'' []
     [(''MultiFactorAuthSecurIDCertificatesCertificateIdActionsCertificateRekey'', [''CertificateId''], Checked ''CertificateV181RekeyRequestBody'', [Post]),
      (''MultiFactorAuthSecurIDCertificatesCertificateIdActionsCertificateRenew'', [''CertificateId''], Checked ''CertificateV181RenewRequestBody'', [Post]),
      (''OutboundConnections'', [], Checked ''OutboundConnectionV101OutboundConnection'', [Get, Post])]"

definition Controllers_AccountService_5a :: operations where
  "Controllers_AccountService_5a = ops op_root ''AccountServiceOutboundConnectionsOutboundConnectionId'' [''OutboundConnectionId'']
     [('''', [], Checked ''OutboundConnectionV101OutboundConnection'', [Get, Put, Delete, Patch]),
      (''Certificates'', [], Bodiless, [Get])]"

definition Controllers_AccountService_5b :: operations where
  "Controllers_AccountService_5b = ops op_root ''AccountServiceOutboundConnectionsOutboundConnectionId'' [''OutboundConnectionId'']
     [(''Certificates'', [], Checked ''CertificateV181Certificate'', [Post]),
      (''CertificatesCertificateId'', [''CertificateId''], Checked ''CertificateV181Certificate'', [Get, Put, Delete])]"

definition Controllers_AccountService_5c :: operations where
  "Controllers_AccountService_5c = ops op_root ''AccountServiceOutboundConnectionsOutboundConnectionId'' [''OutboundConnectionId'']
     [(''CertificatesCertificateId'', [''CertificateId''], Checked ''CertificateV181Certificate'', [Patch]),
      (''CertificatesCertificateIdActionsCertificateRekey'', [''CertificateId''], Checked ''CertificateV181RekeyRequestBody'', [Post]),
      (''CertificatesCertificateIdActionsCertificateRenew'', [''CertificateId''], Checked ''CertificateV181RenewRequestBody'', [Post]),
      (''ClientCertificates'', [], Bodiless, [Get])]"

definition Controllers_AccountService_5d :: operations where
  "Controllers_AccountService_5d = ops op_root ''AccountServiceOutboundConnectionsOutboundConnectionId'' [''OutboundConnectionId'']
     [(''ClientCertificates'', [], Checked ''CertificateV181Certificate'', [Post]),
      (''ClientCertificatesCertificateId'', [''CertificateId''], Checked ''CertificateV181Certificate'', [Get, Put, Delete])]"

definition Controllers_AccountService_5e :: operations where
  "Controllers_AccountService_5e = ops op_root ''AccountServiceOutboundConnectionsOutboundConnectionId'' [''OutboundConnectionId'']
     [(''ClientCertificatesCertificateId'', [''CertificateId''], Checked ''CertificateV181Certificate'', [Patch]),
      (''ClientCertificatesCertificateIdActionsCertificateRekey'', [''CertificateId''], Checked ''CertificateV181RekeyRequestBody'', [Post]),
      (''ClientCertificatesCertificateIdActionsCertificateRenew'', [''CertificateId''], Checked ''CertificateV181RenewRequestBody'', [Post])]"

definition Controllers_AccountService_6a :: operations where
  "Controllers_AccountService_6a = ops op_root ''AccountServiceRoles'' []
     [('''', [], Checked ''RoleV131Role'', [Get, Post]),
      (''RoleId'', [''RoleId''], Checked ''RoleV131Role'', [Get, Put, Delete, Patch])]"

definition Controllers_AggregationService_1a :: operations where
  "Controllers_AggregationService_1a = ops op_root ''AggregationService'' []
     [('''', [], Checked ''AggregationServiceV102AggregationService'', [Get, Put, Patch]),
      (''ActionsAggregationServiceReset'', [], Checked ''AggregationServiceV102ResetRequestBody'', [Post]),
      (''ActionsAggregationServiceSetDefaultBootOrder'', [], Checked ''AggregationServiceV102SetDefaultBootOrderRequestBody'', [Post]),
      (''Aggregates'', [], Bodiless, [Get])]"

definition Controllers_AggregationService_1b :: operations where
  "Controllers_AggregationService_1b = ops op_root ''AggregationService'' []
     [(''Aggregates'', [], Checked ''AggregateV102Aggregate'', [Post]),
      (''AggregatesAggregateId'', [''AggregateId''], Bodiless, [Get, Delete]),
      (''AggregatesAggregateIdActionsAggregateAddElements'', [''AggregateId''], Checked ''AggregateV102AddElementsRequestBody'', [Post]),
      (''AggregatesAggregateIdActionsAggregateRemoveElements'', [''AggregateId''], Checked ''AggregateV102RemoveElementsRequestBody'', [Post])]"

definition Controllers_AggregationService_1c :: operations where
  "Controllers_AggregationService_1c = ops op_root ''AggregationService'' []
     [(''AggregatesAggregateIdActionsAggregateReset'', [''AggregateId''], Checked ''AggregateV102ResetRequestBody'', [Post]),
      (''AggregatesAggregateIdActionsAggregateSetDefaultBootOrder'', [''AggregateId''], Untyped, [Post]),
      (''AggregationSources'', [], Checked ''AggregationSourceV140AggregationSource'', [Get, Post])]"

definition Controllers_AggregationService_2a :: operations where
  "Controllers_AggregationService_2a = ops op_root ''AggregationServiceAggregationSourcesAggregationSourceId'' [''AggregationSourceId'']
     [('''', [], Checked ''AggregationSourceV140AggregationSource'', [Get, Put, Delete, Patch]),
      (''ActionsAggregationSourceGenerateSSHIdentityKeyPair'', [], Checked ''AggregationSourceV140GenerateSshIdentityKeyPairRequestBody'', [Post])]"

definition Controllers_AggregationService_2b :: operations where
  "Controllers_AggregationService_2b = ops op_root ''AggregationServiceAggregationSourcesAggregationSourceId'' [''AggregationSourceId'']
     [(''ActionsAggregationSourceRemoveSSHIdentityKeyPair'', [], Untyped, [Post]),
      (''PresentedPublicHostKey'', [], Checked ''KeyV140Key'', [Get, Put, Delete, Patch]),
      (''PublicIdentityKey'', [], Bodiless, [Get])]"

definition Controllers_AggregationService_2c :: operations where
  "Controllers_AggregationService_2c = ops op_root ''AggregationServiceAggregationSourcesAggregationSourceId'' [''AggregationSourceId'']
     [(''PublicIdentityKey'', [], Checked ''KeyV140Key'', [Put, Delete, Patch]),
      (''TrustedPublicHostKeys'', [], Checked ''KeyV140Key'', [Get, Post])]"

definition Controllers_AggregationService_2d :: operations where
  "Controllers_AggregationService_2d = ops op_root ''AggregationServiceAggregationSourcesAggregationSourceId'' [''AggregationSourceId'']
     [(''TrustedPublicHostKeysKeyId'', [''KeyId''], Checked ''KeyV140Key'', [Get, Put, Delete, Patch])]"

definition Controllers_AggregationService_3a :: operations where
  "Controllers_AggregationService_3a = ops op_root ''AggregationServiceConnectionMethods'' []
     [('''', [], Checked ''ConnectionMethodV110ConnectionMethod'', [Get, Post]),
      (''ConnectionMethodId'', [''ConnectionMethodId''], Bodiless, [Get])]"

definition Controllers_Cables_1a :: operations where
  "Controllers_Cables_1a = ops op_root ''Cables'' []
     [('''', [], Checked ''CableV122Cable'', [Get, Post]),
      (''CableId'', [''CableId''], Checked ''CableV122Cable'', [Get, Put, Delete, Patch])]"

definition Controllers_CertificateService_1a :: operations where
  "Controllers_CertificateService_1a = ops op_root ''CertificateService'' []
     [('''', [], Bodiless, [Get]),
      (''ActionsCertificateServiceGenerateCSR'', [], Checked ''CertificateServiceV104GenerateCsrRequestBody'', [Post]),
      (''ActionsCertificateServiceReplaceCertificate'', [], Checked ''CertificateServiceV104ReplaceCertificateRequestBody'', [Post]),
      (''CertificateLocations'', [], Bodiless, [Get])]"

definition Controllers_ComponentIntegrity_1a :: operations where
  "Controllers_ComponentIntegrity_1a = ops op_root ''ComponentIntegrity'' []
     [('''', [], Bodiless, [Get]),
      (''ComponentIntegrityId'', [''ComponentIntegrityId''], Checked ''ComponentIntegrityV122ComponentIntegrity'', [Get, Put, Patch]),
      (''ComponentIntegrityIdActionsComponentIntegritySPDMGetSignedMeasurements'', [''ComponentIntegrityId''], Checked ''ComponentIntegrityV122SpdmGetSignedMeasurementsRequestBody'', [Post])]"

definition Controllers_ComponentIntegrity_1b :: operations where
  "Controllers_ComponentIntegrity_1b = ops op_root ''ComponentIntegrity'' []
     [(''ComponentIntegrityIdActionsComponentIntegrityTPMGetSignedMeasurements'', [''ComponentIntegrityId''], Checked ''ComponentIntegrityV122TpmGetSignedMeasurementsRequestBody'', [Post])]"

definition Controllers_EventService_1a :: operations where
  "Controllers_EventService_1a = ops op_root ''EventService'' []
     [('''', [], Checked ''EventServiceV1101EventService'', [Get, Put, Patch]),
      (''ActionsEventServiceSubmitTestEvent'', [], Checked ''EventServiceV1101SubmitTestEventRequestBody'', [Post]),
      (''ActionsEventServiceTestEventSubscription'', [], Untyped, [Post]),
      (''Subscriptions'', [], Checked ''EventDestinationV1140EventDestination'', [Get, Post])]"

definition Controllers_EventService_2a :: operations where
  "Controllers_EventService_2a = ops op_root ''EventServiceSubscriptionsEventDestinationId'' [''EventDestinationId'']
     [('''', [], Checked ''EventDestinationV1140EventDestination'', [Get, Put, Delete, Patch]),
      (''ActionsEventDestinationResumeSubscription'', [], Checked ''EventDestinationV1140ResumeSubscriptionRequestBody'', [Post])]"

definition Controllers_EventService_2b :: operations where
  "Controllers_EventService_2b = ops op_root ''EventServiceSubscriptionsEventDestinationId'' [''EventDestinationId'']
     [(''ActionsEventDestinationSuspendSubscription'', [], Untyped, [Post]),
      (''Certificates'', [], Checked ''CertificateV181Certificate'', [Get, Post]),
      (''CertificatesCertificateId'', [''CertificateId''], Checked ''CertificateV181Certificate'', [Get, Put])]"

definition Controllers_EventService_2c :: operations where
  "Controllers_EventService_2c = ops op_root ''EventServiceSubscriptionsEventDestinationId'' [''EventDestinationId'']
     [(''CertificatesCertificateId'', [''CertificateId''], Checked ''CertificateV181Certificate'', [Delete, Patch]),
      (''CertificatesCertificateIdActionsCertificateRekey'', [''CertificateId''], Checked ''CertificateV181RekeyRequestBody'', [Post]),
      (''CertificatesCertificateIdActionsCertificateRenew'', [''CertificateId''], Checked ''CertificateV181RenewRequestBody'', [Post])]"

definition Controllers_EventService_2d :: operations where
  "Controllers_EventService_2d = ops op_root ''EventServiceSubscriptionsEventDestinationId'' [''EventDestinationId'']
     [(''ClientCertificates'', [], Checked ''CertificateV181Certificate'', [Get, Post]),
      (''ClientCertificatesCertificateId'', [''CertificateId''], Checked ''CertificateV181Certificate'', [Get, Put, Delete])]"

definition Controllers_EventService_2e :: operations where
  "Controllers_EventService_2e = ops op_root ''EventServiceSubscriptionsEventDestinationId'' [''EventDestinationId'']
     [(''ClientCertificatesCertificateId'', [''CertificateId''], Checked ''CertificateV181Certificate'', [Patch]),
      (''ClientCertificatesCertificateIdActionsCertificateRekey'', [''CertificateId''], Checked ''CertificateV181RekeyRequestBody'', [Post]),
      (''ClientCertificatesCertificateIdActionsCertificateRenew'', [''CertificateId''], Checked ''CertificateV181RenewRequestBody'', [Post])]"

definition Controllers_Fabrics_1a :: operations where
  "Controllers_Fabrics_1a = ops op_root ''Fabrics'' []
     [('''', [], Bodiless, [Get]),
      (''FabricId'', [''FabricId''], Checked ''FabricV131Fabric'', [Get, Put, Patch]),
      (''FabricIdAddressPools'', [''FabricId''], Checked ''AddressPoolV124AddressPool'', [Get, Post])]"

definition Controllers_Fabrics_1b :: operations where
  "Controllers_Fabrics_1b = ops op_root ''Fabrics'' []
     [(''FabricIdAddressPoolsAddressPoolId'', [''FabricId'', ''AddressPoolId''], Checked ''AddressPoolV124AddressPool'', [Get, Put, Delete, Patch]),
      (''FabricIdConnections'', [''FabricId''], Bodiless, [Get])]"

definition Controllers_Fabrics_1c :: operations where
  "Controllers_Fabrics_1c = ops op_root ''Fabrics'' []
     [(''FabricIdConnections'', [''FabricId''], Checked ''ConnectionV131Connection'', [Post]),
      (''FabricIdConnectionsConnectionId'', [''FabricId'', ''ConnectionId''], Checked ''ConnectionV131Connection'', [Get, Put, Delete])]"

definition Controllers_Fabrics_1d :: operations where
  "Controllers_Fabrics_1d = ops op_root ''Fabrics'' []
     [(''FabricIdConnectionsConnectionId'', [''FabricId'', ''ConnectionId''], Checked ''ConnectionV131Connection'', [Patch]),
      (''FabricIdEndpointGroups'', [''FabricId''], Checked ''EndpointGroupV133EndpointGroup'', [Get, Post]),
      (''FabricIdEndpointGroupsEndpointGroupId'', [''FabricId'', ''EndpointGroupId''], Checked ''EndpointGroupV133EndpointGroup'', [Get, Put])]"

definition Controllers_Fabrics_1e :: operations where
  "Controllers_Fabrics_1e = ops op_root ''Fabrics'' []
     [(''FabricIdEndpointGroupsEndpointGroupId'', [''FabricId'', ''EndpointGroupId''], Checked ''EndpointGroupV133EndpointGroup'', [Delete, Patch]),
      (''FabricIdEndpoints'', [''FabricId''], Checked ''EndpointV181Endpoint'', [Get, Post]),
      (''FabricIdEndpointsEndpointId'', [''FabricId'', ''EndpointId''], Bodiless, [Get])]"

definition Controllers_Fabrics_1f :: operations where
  "Controllers_Fabrics_1f = ops op_root ''Fabrics'' []
     [(''FabricIdEndpointsEndpointId'', [''FabricId'', ''EndpointId''], Checked ''EndpointV181Endpoint'', [Put, Delete, Patch]),
      (''FabricIdSwitches'', [''FabricId''], Bodiless, [Get])]"

definition Controllers_Fabrics_2a :: operations where
  "Controllers_Fabrics_2a = ops op_root ''FabricsFabricIdSwitchesSwitchId'' [''FabricId'', ''SwitchId'']
     [('''', [], Checked ''SwitchV192Switch'', [Get, Put, Patch]),
      (''ActionsSwitchReset'', [], Checked ''SwitchV192ResetRequestBody'', [Post])]"

definition Controllers_Fabrics_2b :: operations where
  "Controllers_Fabrics_2b = ops op_root ''FabricsFabricIdSwitchesSwitchId'' [''FabricId'', ''SwitchId'']
     [(''Certificates'', [], Checked ''CertificateV181Certificate'', [Get, Post]),
      (''CertificatesCertificateId'', [''CertificateId''], Checked ''CertificateV181Certificate'', [Get, Put])]"

definition Controllers_Fabrics_2c :: operations where
  "Controllers_Fabrics_2c = ops op_root ''FabricsFabricIdSwitchesSwitchId'' [''FabricId'', ''SwitchId'']
     [(''CertificatesCertificateId'', [''CertificateId''], Checked ''CertificateV181Certificate'', [Delete, Patch]),
      (''CertificatesCertificateIdActionsCertificateRekey'', [''CertificateId''], Checked ''CertificateV181RekeyRequestBody'', [Post])]"

definition Controllers_Fabrics_2d :: operations where
  "Controllers_Fabrics_2d = ops op_root ''FabricsFabricIdSwitchesSwitchId'' [''FabricId'', ''SwitchId'']
     [(''CertificatesCertificateIdActionsCertificateRenew'', [''CertificateId''], Checked ''CertificateV181RenewRequestBody'', [Post]),
      (''EnvironmentMetrics'', [], Checked ''EnvironmentMetricsV131EnvironmentMetrics'', [Get, Put, Patch])]"

definition Controllers_Fabrics_2e :: operations where
  "Controllers_Fabrics_2e = ops op_root ''FabricsFabricIdSwitchesSwitchId'' [''FabricId'', ''SwitchId'']
     [(''EnvironmentMetricsActionsEnvironmentMetricsResetMetrics'', [], Untyped, [Post]),
      (''EnvironmentMetricsActionsEnvironmentMetricsResetToDefaults'', [], Untyped, [Post]),
      (''Ports'', [], Bodiless, [Get])]"

definition Controllers_Fabrics_3a :: operations where
  "Controllers_Fabrics_3a = ops op_root ''FabricsFabricIdSwitchesSwitchIdPortsPortId'' [''FabricId'', ''SwitchId'', ''PortId'']
     [('''', [], Checked ''PortV1110Port'', [Get, Put, Patch])]"

definition Controllers_Fabrics_3b :: operations where
  "Controllers_Fabrics_3b = ops op_root ''FabricsFabricIdSwitchesSwitchIdPortsPortId'' [''FabricId'', ''SwitchId'', ''PortId'']
     [(''ActionsPortReset'', [], Checked ''PortV1110ResetRequestBody'', [Post]),
      (''ActionsPortResetPPB'', [], Untyped, [Post]),
      (''EnvironmentMetrics'', [], Checked ''EnvironmentMetricsV131EnvironmentMetrics'', [Get, Put])]"

definition Controllers_Fabrics_3c :: operations where
  "Controllers_Fabrics_3c = ops op_root ''FabricsFabricIdSwitchesSwitchIdPortsPortId'' [''FabricId'', ''SwitchId'', ''PortId'']
     [(''EnvironmentMetrics'', [], Checked ''EnvironmentMetricsV131EnvironmentMetrics'', [Patch]),
      (''EnvironmentMetricsActionsEnvironmentMetricsResetMetrics'', [], Untyped, [Post]),
      (''EnvironmentMetricsActionsEnvironmentMetricsResetToDefaults'', [], Untyped, [Post]),
      (''GenZLPRT'', [], Bodiless, [Get])]"

definition Controllers_Fabrics_3d :: operations where
  "Controllers_Fabrics_3d = ops op_root ''FabricsFabricIdSwitchesSwitchIdPortsPortId'' [''FabricId'', ''SwitchId'', ''PortId'']
     [(''GenZLPRT'', [], Checked ''RouteEntryV101RouteEntry'', [Post]),
      (''GenZLPRTLPRTId'', [''LPRTId''], Checked ''RouteEntryV101RouteEntry'', [Get, Put])]"

definition Controllers_Fabrics_3e :: operations where
  "Controllers_Fabrics_3e = ops op_root ''FabricsFabricIdSwitchesSwitchIdPortsPortId'' [''FabricId'', ''SwitchId'', ''PortId'']
     [(''GenZLPRTLPRTId'', [''LPRTId''], Checked ''RouteEntryV101RouteEntry'', [Delete, Patch]),
      (''GenZMPRT'', [], Bodiless, [Get])]"

definition Controllers_Fabrics_3f :: operations where
  "Controllers_Fabrics_3f = ops op_root ''FabricsFabricIdSwitchesSwitchIdPortsPortId'' [''FabricId'', ''SwitchId'', ''PortId'']
     [(''GenZMPRT'', [], Checked ''RouteEntryV101RouteEntry'', [Post]),
      (''GenZMPRTMPRTId'', [''MPRTId''], Checked ''RouteEntryV101RouteEntry'', [Get, Put])]"

definition Controllers_Fabrics_3g :: operations where
  "Controllers_Fabrics_3g = ops op_root ''FabricsFabricIdSwitchesSwitchIdPortsPortId'' [''FabricId'', ''SwitchId'', ''PortId'']
     [(''GenZMPRTMPRTId'', [''MPRTId''], Checked ''RouteEntryV101RouteEntry'', [Delete, Patch]),
      (''GenZVCAT'', [], Bodiless, [Get])]"

definition Controllers_Fabrics_3h :: operations where
  "Controllers_Fabrics_3h = ops op_root ''FabricsFabricIdSwitchesSwitchIdPortsPortId'' [''FabricId'', ''SwitchId'', ''PortId'']
     [(''GenZVCAT'', [], Checked ''VcatEntryV102VcatEntry'', [Post]),
      (''GenZVCATVCATEntryId'', [''VCATEntryId''], Checked ''VcatEntryV102VcatEntry'', [Get, Put])]"

definition Controllers_Fabrics_3i :: operations where
  "Controllers_Fabrics_3i = ops op_root ''FabricsFabricIdSwitchesSwitchIdPortsPortId'' [''FabricId'', ''SwitchId'', ''PortId'']
     [(''GenZVCATVCATEntryId'', [''VCATEntryId''], Checked ''VcatEntryV102VcatEntry'', [Delete, Patch]),
      (''LPRT'', [], Bodiless, [Get])]"

definition Controllers_Fabrics_3j :: operations where
  "Controllers_Fabrics_3j = ops op_root ''FabricsFabricIdSwitchesSwitchIdPortsPortId'' [''FabricId'', ''SwitchId'', ''PortId'']
     [(''LPRT'', [], Checked ''RouteEntryV101RouteEntry'', [Post])]"

definition Controllers_Fabrics_4a :: operations where
  "Controllers_Fabrics_4a = ops op_root ''FabricsFabricIdSwitchesSwitchIdPortsPortId'' [''FabricId'', ''SwitchId'', ''PortId'']
     [(''LPRTLPRTId'', [''LPRTId''], Checked ''RouteEntryV101RouteEntry'', [Get, Put, Delete])]"

definition Controllers_Fabrics_4b :: operations where
  "Controllers_Fabrics_4b = ops op_root ''FabricsFabricIdSwitchesSwitchIdPortsPortId'' [''FabricId'', ''SwitchId'', ''PortId'']
     [(''LPRTLPRTId'', [''LPRTId''], Checked ''RouteEntryV101RouteEntry'', [Patch]),
      (''LPRTLPRTIdRouteSet'', [''LPRTId''], Checked ''RouteSetEntryV101RouteSetEntry'', [Get, Post])]"

definition Controllers_Fabrics_4c :: operations where
  "Controllers_Fabrics_4c = ops op_root ''FabricsFabricIdSwitchesSwitchIdPortsPortId'' [''FabricId'', ''SwitchId'', ''PortId'']
     [(''LPRTLPRTIdRouteSetRouteId'', [''LPRTId'', ''RouteId''], Checked ''RouteSetEntryV101RouteSetEntry'', [Get, Put, Delete])]"

definition Controllers_Fabrics_4d :: operations where
  "Controllers_Fabrics_4d = ops op_root ''FabricsFabricIdSwitchesSwitchIdPortsPortId'' [''FabricId'', ''SwitchId'', ''PortId'']
     [(''LPRTLPRTIdRouteSetRouteId'', [''LPRTId'', ''RouteId''], Checked ''RouteSetEntryV101RouteSetEntry'', [Patch]),
      (''MPRT'', [], Checked ''RouteEntryV101RouteEntry'', [Get, Post])]"

definition Controllers_Fabrics_4e :: operations where
  "Controllers_Fabrics_4e = ops op_root ''FabricsFabricIdSwitchesSwitchIdPortsPortId'' [''FabricId'', ''SwitchId'', ''PortId'']
     [(''MPRTMPRTId'', [''MPRTId''], Checked ''RouteEntryV101RouteEntry'', [Get, Put, Delete])]"

definition Controllers_Fabrics_4f :: operations where
  "Controllers_Fabrics_4f = ops op_root ''FabricsFabricIdSwitchesSwitchIdPortsPortId'' [''FabricId'', ''SwitchId'', ''PortId'']
     [(''MPRTMPRTId'', [''MPRTId''], Checked ''RouteEntryV101RouteEntry'', [Patch]),
      (''MPRTMPRTIdRouteSet'', [''MPRTId''], Checked ''RouteSetEntryV101RouteSetEntry'', [Get, Post])]"

definition Controllers_Fabrics_4g :: operations where
  "Controllers_Fabrics_4g = ops op_root ''FabricsFabricIdSwitchesSwitchIdPortsPortId'' [''FabricId'', ''SwitchId'', ''PortId'']
     [(''MPRTMPRTIdRouteSetRouteId'', [''MPRTId'', ''RouteId''], Checked ''RouteSetEntryV101RouteSetEntry'', [Get, Put, Delete])]"

definition Controllers_Fabrics_4h :: operations where
  "Controllers_Fabrics_4h = ops op_root ''FabricsFabricIdSwitchesSwitchIdPortsPortId'' [''FabricId'', ''SwitchId'', ''PortId'']
     [(''MPRTMPRTIdRouteSetRouteId'', [''MPRTId'', ''RouteId''], Checked ''RouteSetEntryV101RouteSetEntry'', [Patch]),
      (''Metrics'', [], Bodiless, [Get]),
      (''VCAT'', [], Bodiless, [Get])]"

definition Controllers_Fabrics_4i :: operations where
  "Controllers_Fabrics_4i = ops op_root ''FabricsFabricIdSwitchesSwitchIdPortsPortId'' [''FabricId'', ''SwitchId'', ''PortId'']
     [(''VCAT'', [], Checked ''VcatEntryV102VcatEntry'', [Post]),
      (''VCATVCATEntryId'', [''VCATEntryId''], Checked ''VcatEntryV102VcatEntry'', [Get, Put])]"

definition Controllers_Fabrics_4j :: operations where
  "Controllers_Fabrics_4j = ops op_root ''FabricsFabricIdSwitchesSwitchIdPortsPortId'' [''FabricId'', ''SwitchId'', ''PortId'']
     [(''VCATVCATEntryId'', [''VCATEntryId''], Checked ''VcatEntryV102VcatEntry'', [Delete, Patch])]"

definition Controllers_Fabrics_5a :: operations where
  "Controllers_Fabrics_5a = ops op_root ''FabricsFabricId'' [''FabricId'']
     [(''SwitchesSwitchIdSwitchMetrics'', [''SwitchId''], Bodiless, [Get]),
      (''SwitchesSwitchIdSwitchMetricsActionsSwitchMetricsClearCurrentPeriod'', [''SwitchId''], Untyped, [Post]),
      (''Zones'', [], Checked ''ZoneV162Zone'', [Get, Post]),
      (''ZonesZoneId'', [''ZoneId''], Bodiless, [Get])]"

definition Controllers_Fabrics_5b :: operations where
  "Controllers_Fabrics_5b = ops op_root ''FabricsFabricId'' [''FabricId'']
     [(''ZonesZoneId'', [''ZoneId''], Checked ''ZoneV162Zone'', [Put, Delete, Patch]),
      (''ZonesZoneIdActionsZoneAddEndpoint'', [''ZoneId''], Checked ''ZoneV162AddEndpointRequestBody'', [Post])]"

definition Controllers_Fabrics_5c :: operations where
  "Controllers_Fabrics_5c = ops op_root ''FabricsFabricId'' [''FabricId'']
     [(''ZonesZoneIdActionsZoneRemoveEndpoint'', [''ZoneId''], Checked ''ZoneV162RemoveEndpointRequestBody'', [Post])]"

definition Controllers_Facilities_1a :: operations where
  "Controllers_Facilities_1a = ops op_root ''Facilities'' []
     [('''', [], Checked ''FacilityV141Facility'', [Get, Post]),
      (''FacilityId'', [''FacilityId''], Checked ''FacilityV141Facility'', [Get, Put, Delete, Patch])]"

definition Controllers_Facilities_1b :: operations where
  "Controllers_Facilities_1b = ops op_root ''Facilities'' []
     [(''FacilityIdAmbientMetrics'', [''FacilityId''], Checked ''EnvironmentMetricsV131EnvironmentMetrics'', [Get, Put, Patch]),
      (''FacilityIdAmbientMetricsActionsEnvironmentMetricsResetMetrics'', [''FacilityId''], Untyped, [Post]),
      (''FacilityIdAmbientMetricsActionsEnvironmentMetricsResetToDefaults'', [''FacilityId''], Untyped, [Post])]"

definition Controllers_Facilities_1c :: operations where
  "Controllers_Facilities_1c = ops op_root ''Facilities'' []
     [(''FacilityIdEnvironmentMetrics'', [''FacilityId''], Checked ''EnvironmentMetricsV131EnvironmentMetrics'', [Get, Put, Patch]),
      (''FacilityIdEnvironmentMetricsActionsEnvironmentMetricsResetMetrics'', [''FacilityId''], Untyped, [Post]),
      (''FacilityIdEnvironmentMetricsActionsEnvironmentMetricsResetToDefaults'', [''FacilityId''], Untyped, [Post])]"

definition Controllers_Facilities_1d :: operations where
  "Controllers_Facilities_1d = ops op_root ''Facilities'' []
     [(''FacilityIdPowerDomains'', [''FacilityId''], Checked ''PowerDomainV121PowerDomain'', [Get, Post]),
      (''FacilityIdPowerDomainsPowerDomainId'', [''FacilityId'', ''PowerDomainId''], Checked ''PowerDomainV121PowerDomain'', [Get, Put, Delete])]"

definition Controllers_Facilities_1e :: operations where
  "Controllers_Facilities_1e = ops op_root ''Facilities'' []
     [(''FacilityIdPowerDomainsPowerDomainId'', [''FacilityId'', ''PowerDomainId''], Checked ''PowerDomainV121PowerDomain'', [Patch])]"

definition Controllers_JobService_1a :: operations where
  "Controllers_JobService_1a = ops op_root ''JobService'' []
     [('''', [], Checked ''JobServiceV105JobService'', [Get, Put, Patch]),
      (''Jobs'', [], Checked ''JobV123Job'', [Get, Post]),
      (''JobsJobId'', [''JobId''], Bodiless, [Get])]"

definition Controllers_JobService_1b :: operations where
  "Controllers_JobService_1b = ops op_root ''JobService'' []
     [(''JobsJobId'', [''JobId''], Checked ''JobV123Job'', [Put, Delete, Patch]),
      (''JobsJobIdSteps'', [''JobId''], Checked ''JobV123Job'', [Get, Post])]"

definition Controllers_JobService_1c :: operations where
  "Controllers_JobService_1c = ops op_root ''JobService'' []
     [(''JobsJobIdStepsJobId2'', [''JobId'', ''JobId2''], Checked ''JobV123Job'', [Get, Put, Delete, Patch]),
      (''Log'', [], Bodiless, [Get])]"

definition Controllers_JobService_1d :: operations where
  "Controllers_JobService_1d = ops op_root ''JobService'' []
     [(''Log'', [], Checked ''LogServiceV160LogService'', [Put, Patch]),
      (''LogActionsLogServiceClearLog'', [], Checked ''LogServiceV160ClearLogRequestBody'', [Post]),
      (''LogActionsLogServiceCollectDiagnosticData'', [], Checked ''LogServiceV160CollectDiagnosticDataRequestBody'', [Post]),
      (''LogActionsLogServicePushDiagnosticData'', [], Checked ''LogServiceV160PushDiagnosticDataRequestBody'', [Post]),
      (''LogEntries'', [], Bodiless, [Get])]"

definition Controllers_JobService_1e :: operations where
  "Controllers_JobService_1e = ops op_root ''JobService'' []
     [(''LogEntries'', [], Checked ''LogEntryV1160LogEntry'', [Post]),
      (''LogEntriesLogEntryId'', [''LogEntryId''], Checked ''LogEntryV1160LogEntry'', [Get, Put, Delete, Patch])]"

definition Controllers_JsonSchemas_1a :: operations where
  "Controllers_JsonSchemas_1a = ops op_root ''JsonSchemas'' []
     [('''', [], Bodiless, [Get]),
      (''JsonSchemaFileId'', [''JsonSchemaFileId''], Bodiless, [Get])]"

definition Controllers_KeyService_1a :: operations where
  "Controllers_KeyService_1a = ops op_root ''KeyService'' []
     [('''', [], Bodiless, [Get]),
      (''NVMeoFKeyPolicies'', [], Checked ''KeyPolicyV100KeyPolicy'', [Get, Post]),
      (''NVMeoFKeyPoliciesKeyPolicyId'', [''KeyPolicyId''], Checked ''KeyPolicyV100KeyPolicy'', [Get, Put, Delete])]"

definition Controllers_KeyService_1b :: operations where
  "Controllers_KeyService_1b = ops op_root ''KeyService'' []
     [(''NVMeoFKeyPoliciesKeyPolicyId'', [''KeyPolicyId''], Checked ''KeyPolicyV100KeyPolicy'', [Patch]),
      (''NVMeoFSecrets'', [], Checked ''KeyV140Key'', [Get, Post]),
      (''NVMeoFSecretsKeyId'', [''KeyId''], Checked ''KeyV140Key'', [Get, Put, Delete])]"

definition Controllers_KeyService_1c :: operations where
  "Controllers_KeyService_1c = ops op_root ''KeyService'' []
     [(''NVMeoFSecretsKeyId'', [''KeyId''], Checked ''KeyV140Key'', [Patch])]"

definition Controllers_LicenseService_1a :: operations where
  "Controllers_LicenseService_1a = ops op_root ''LicenseService'' []
     [('''', [], Checked ''LicenseServiceV111LicenseService'', [Get, Put, Patch]),
      (''ActionsLicenseServiceInstall'', [], Checked ''LicenseServiceV111InstallRequestBody'', [Post]),
      (''Licenses'', [], Checked ''LicenseV112License'', [Get, Post]),
      (''LicensesLicenseId'', [''LicenseId''], Bodiless, [Get])]"

definition Controllers_LicenseService_1b :: operations where
  "Controllers_LicenseService_1b = ops op_root ''LicenseService'' []
     [(''LicensesLicenseId'', [''LicenseId''], Bodiless, [Delete])]"

definition Controllers_RegisteredClients_1a :: operations where
  "Controllers_RegisteredClients_1a = ops op_root ''RegisteredClients'' []
     [('''', [], Checked ''RegisteredClientV111RegisteredClient'', [Get, Post]),
      (''RegisteredClientId'', [''RegisteredClientId''], Checked ''RegisteredClientV111RegisteredClient'', [Get, Put, Delete, Patch])]"

definition Controllers_Registries_1a :: operations where
  "Controllers_Registries_1a = ops op_root ''Registries'' []
     [('''', [], Bodiless, [Get]),
      (''MessageRegistryFileId'', [''MessageRegistryFileId''], Bodiless, [Get])]"

definition Controllers_ServiceConditions_1a :: operations where
  "Controllers_ServiceConditions_1a = ops op_root ''ServiceConditions'' []
     [('''', [], Bodiless, [Get])]"

definition Controllers_SessionService_1a :: operations where
  "Controllers_SessionService_1a = ops op_root ''SessionService'' []
     [('''', [], Checked ''SessionServiceV118SessionService'', [Get, Put, Patch])]"

definition Controllers_SessionService_2a :: operations where
  "Controllers_SessionService_2a = ops op_root ''SessionServiceSessions'' []
     [('''', [], Unrequired ''SessionV171Session'', [Get, Post])]"

definition Controllers_SessionService_3a :: operations where
  "Controllers_SessionService_3a = ops op_root ''SessionServiceSessionsSessionId'' [''SessionId'']
     [('''', [], Bodiless, [Get, Delete])]"

definition Controllers_TaskService_1a :: operations where
  "Controllers_TaskService_1a = ops op_root ''TaskService'' []
     [('''', [], Checked ''TaskServiceV120TaskService'', [Get, Put, Patch]),
      (''Tasks'', [], Bodiless, [Get]),
      (''TasksTaskId'', [''TaskId''], Bodiless, [Get, Delete]),
      (''TasksTaskIdSubTasks'', [''TaskId''], Bodiless, [Get])]"

definition Controllers_TaskService_1b :: operations where
  "Controllers_TaskService_1b = ops op_root ''TaskService'' []
     [(''TasksTaskIdSubTasksTaskId2'', [''TaskId'', ''TaskId2''], Bodiless, [Get, Delete])]"

definition Controllers_TelemetryService_1a :: operations where
  "Controllers_TelemetryService_1a = ops op_root ''TelemetryService'' []
     [('''', [], Checked ''TelemetryServiceV133TelemetryService'', [Get, Put, Patch]),
      (''ActionsTelemetryServiceClearMetricReports'', [], Untyped, [Post]),
      (''ActionsTelemetryServiceResetMetricReportDefinitionsToDefaults'', [], Untyped, [Post]),
      (''ActionsTelemetryServiceResetTriggersToDefaults'', [], Untyped, [Post]),
      (''ActionsTelemetryServiceSubmitTestMetricReport'', [], Checked ''TelemetryServiceV133SubmitTestMetricReportRequestBody'', [Post])]"

definition Controllers_TelemetryService_1b :: operations where
  "Controllers_TelemetryService_1b = ops op_root ''TelemetryService'' []
     [(''LogService'', [], Checked ''LogServiceV160LogService'', [Get, Put, Patch]),
      (''LogServiceActionsLogServiceClearLog'', [], Checked ''LogServiceV160ClearLogRequestBody'', [Post]),
      (''LogServiceActionsLogServiceCollectDiagnosticData'', [], Checked ''LogServiceV160CollectDiagnosticDataRequestBody'', [Post]),
      (''LogServiceActionsLogServicePushDiagnosticData'', [], Checked ''LogServiceV160PushDiagnosticDataRequestBody'', [Post])]"

definition Controllers_TelemetryService_1c :: operations where
  "Controllers_TelemetryService_1c = ops op_root ''TelemetryService'' []
     [(''LogServiceEntries'', [], Checked ''LogEntryV1160LogEntry'', [Get, Post]),
      (''LogServiceEntriesLogEntryId'', [''LogEntryId''], Checked ''LogEntryV1160LogEntry'', [Get, Put, Delete, Patch])]"

definition Controllers_TelemetryService_1d :: operations where
  "Controllers_TelemetryService_1d = ops op_root ''TelemetryService'' []
     [(''MetricDefinitions'', [], Checked ''MetricDefinitionV133MetricDefinition'', [Get, Post]),
      (''MetricDefinitionsMetricDefinitionId'', [''MetricDefinitionId''], Checked ''MetricDefinitionV133MetricDefinition'', [Get, Put, Delete, Patch])]"

definition Controllers_TelemetryService_1e :: operations where
  "Controllers_TelemetryService_1e = ops op_root ''TelemetryService'' []
     [(''MetricReportDefinitions'', [], Checked ''MetricReportDefinitionV145MetricReportDefinition'', [Get, Post])]"

definition Controllers_TelemetryService_2a :: operations where
  "Controllers_TelemetryService_2a = ops op_root ''TelemetryService'' []
     [(''MetricReportDefinitionsMetricReportDefinitionId'', [''MetricReportDefinitionId''], Checked ''MetricReportDefinitionV145MetricReportDefinition'', [Get, Put, Delete, Patch]),
      (''MetricReports'', [], Bodiless, [Get]),
      (''MetricReportsMetricReportId'', [''MetricReportId''], Bodiless, [Get, Delete])]"

definition Controllers_TelemetryService_2b :: operations where
  "Controllers_TelemetryService_2b = ops op_root ''TelemetryService'' []
     [(''Triggers'', [], Checked ''TriggersV132Triggers'', [Get, Post]),
      (''TriggersTriggersId'', [''TriggersId''], Checked ''TriggersV132Triggers'', [Get, Put, Delete, Patch])]"

definition Controllers_UpdateService_1a :: operations where
  "Controllers_UpdateService_1a = ops op_root ''UpdateService'' []
     [('''', [], Checked ''UpdateServiceV1130UpdateService'', [Get, Put, Patch]),
      (''ActionsUpdateServiceGenerateSSHIdentityKeyPair'', [], Checked ''UpdateServiceV1130GenerateSshIdentityKeyPairRequestBody'', [Post]),
      (''ActionsUpdateServiceRemoveSSHIdentityKeyPair'', [], Untyped, [Post]),
      (''ActionsUpdateServiceSimpleUpdate'', [], Checked ''UpdateServiceV1130SimpleUpdateRequestBody'', [Post])]"

definition Controllers_UpdateService_1b :: operations where
  "Controllers_UpdateService_1b = ops op_root ''UpdateService'' []
     [(''ActionsUpdateServiceStartUpdate'', [], Untyped, [Post]),
      (''ClientCertificates'', [], Checked ''CertificateV181Certificate'', [Get, Post]),
      (''ClientCertificatesCertificateId'', [''CertificateId''], Checked ''CertificateV181Certificate'', [Get, Put, Delete])]"

definition Controllers_UpdateService_1c :: operations where
  "Controllers_UpdateService_1c = ops op_root ''UpdateService'' []
     [(''ClientCertificatesCertificateId'', [''CertificateId''], Checked ''CertificateV181Certificate'', [Patch]),
      (''ClientCertificatesCertificateIdActionsCertificateRekey'', [''CertificateId''], Checked ''CertificateV181RekeyRequestBody'', [Post]),
      (''ClientCertificatesCertificateIdActionsCertificateRenew'', [''CertificateId''], Checked ''CertificateV181RenewRequestBody'', [Post]),
      (''FirmwareInventory'', [], Bodiless, [Get]),
      (''FirmwareInventorySoftwareInventoryId'', [''SoftwareInventoryId''], Bodiless, [Get])]"

definition Controllers_UpdateService_1d :: operations where
  "Controllers_UpdateService_1d = ops op_root ''UpdateService'' []
     [(''FirmwareInventorySoftwareInventoryId'', [''SoftwareInventoryId''], Checked ''SoftwareInventoryV1101SoftwareInventory'', [Put, Patch]),
      (''PublicIdentitySSHKeyKeyId'', [''KeyId''], Checked ''KeyV140Key'', [Get, Put, Delete])]"

definition Controllers_UpdateService_1e :: operations where
  "Controllers_UpdateService_1e = ops op_root ''UpdateService'' []
     [(''PublicIdentitySSHKeyKeyId'', [''KeyId''], Checked ''KeyV140Key'', [Patch]),
      (''RemoteServerCertificates'', [], Checked ''CertificateV181Certificate'', [Get, Post]),
      (''RemoteServerCertificatesCertificateId'', [''CertificateId''], Checked ''CertificateV181Certificate'', [Get, Put, Delete])]"

definition Controllers_UpdateService_1f :: operations where
  "Controllers_UpdateService_1f = ops op_root ''UpdateService'' []
     [(''RemoteServerCertificatesCertificateId'', [''CertificateId''], Checked ''CertificateV181Certificate'', [Patch]),
      (''RemoteServerCertificatesCertificateIdActionsCertificateRekey'', [''CertificateId''], Checked ''CertificateV181RekeyRequestBody'', [Post])]"

definition Controllers_UpdateService_2a :: operations where
  "Controllers_UpdateService_2a = ops op_root ''UpdateService'' []
     [(''RemoteServerCertificatesCertificateIdActionsCertificateRenew'', [''CertificateId''], Checked ''CertificateV181RenewRequestBody'', [Post]),
      (''RemoteServerSSHKeys'', [], Checked ''KeyV140Key'', [Get, Post]),
      (''RemoteServerSSHKeysKeyId'', [''KeyId''], Checked ''KeyV140Key'', [Get, Put, Delete])]"

definition Controllers_UpdateService_2b :: operations where
  "Controllers_UpdateService_2b = ops op_root ''UpdateService'' []
     [(''RemoteServerSSHKeysKeyId'', [''KeyId''], Checked ''KeyV140Key'', [Patch]),
      (''SoftwareInventory'', [], Bodiless, [Get]),
      (''SoftwareInventorySoftwareInventoryId'', [''SoftwareInventoryId''], Checked ''SoftwareInventoryV1101SoftwareInventory'', [Get, Put, Patch])]"

definition Controllers_Odata_1a :: operations where
  "Controllers_Odata_1a = ops op_root ''Odata'' []
     [('''', [], Bodiless, [Get])]"

definition service_operations :: operations where
  "service_operations = concat
     [concat [Controllers_Root_1a],
      concat [Controllers_Metadata_1a],
      concat [Controllers_AccountService_1a, Controllers_AccountService_1b, Controllers_AccountService_1c,
        Controllers_AccountService_1d, Controllers_AccountService_1e, Controllers_AccountService_1f],
      concat [Controllers_AccountService_2a, Controllers_AccountService_2b],
      concat [Controllers_AccountService_3a, Controllers_AccountService_3b, Controllers_AccountService_3c],
      concat [Controllers_AccountService_4a, Controllers_AccountService_4b, Controllers_AccountService_4c,
        Controllers_AccountService_4d, Controllers_AccountService_4e],
      concat [Controllers_AccountService_5a, Controllers_AccountService_5b, Controllers_AccountService_5c,
        Controllers_AccountService_5d, Controllers_AccountService_5e],
      concat [Controllers_AccountService_6a],
      concat [Controllers_AggregationService_1a, Controllers_AggregationService_1b,
        Controllers_AggregationService_1c],
      concat [Controllers_AggregationService_2a, Controllers_AggregationService_2b,
        Controllers_AggregationService_2c, Controllers_AggregationService_2d],
      concat [Controllers_AggregationService_3a],
      concat [Controllers_Cables_1a],
      concat [Controllers_CertificateService_1a],
      concat [Controllers_ComponentIntegrity_1a, Controllers_ComponentIntegrity_1b],
      concat [Controllers_EventService_1a],
      concat [Controllers_EventService_2a, Controllers_EventService_2b, Controllers_EventService_2c,
        Controllers_EventService_2d, Controllers_EventService_2e],
      concat [Controllers_Fabrics_1a, Controllers_Fabrics_1b, Controllers_Fabrics_1c, Controllers_Fabrics_1d,
        Controllers_Fabrics_1e, Controllers_Fabrics_1f],
      concat [Controllers_Fabrics_2a, Controllers_Fabrics_2b, Controllers_Fabrics_2c, Controllers_Fabrics_2d,
        Controllers_Fabrics_2e],
      concat [Controllers_Fabrics_3a, Controllers_Fabrics_3b, Controllers_Fabrics_3c, Controllers_Fabrics_3d,
        Controllers_Fabrics_3e, Controllers_Fabrics_3f, Controllers_Fabrics_3g, Controllers_Fabrics_3h,
        Controllers_Fabrics_3i, Controllers_Fabrics_3j],
      concat [Controllers_Fabrics_4a, Controllers_Fabrics_4b, Controllers_Fabrics_4c, Controllers_Fabrics_4d,
        Controllers_Fabrics_4e, Controllers_Fabrics_4f, Controllers_Fabrics_4g, Controllers_Fabrics_4h,
        Controllers_Fabrics_4i, Controllers_Fabrics_4j],
      concat [Controllers_Fabrics_5a, Controllers_Fabrics_5b, Controllers_Fabrics_5c],
      concat [Controllers_Facilities_1a, Controllers_Facilities_1b, Controllers_Facilities_1c,
        Controllers_Facilities_1d, Controllers_Facilities_1e],
      concat [Controllers_JobService_1a, Controllers_JobService_1b, Controllers_JobService_1c,
        Controllers_JobService_1d, Controllers_JobService_1e],
      concat [Controllers_JsonSchemas_1a],
      concat [Controllers_KeyService_1a, Controllers_KeyService_1b, Controllers_KeyService_1c],
      concat [Controllers_LicenseService_1a, Controllers_LicenseService_1b],
      concat [Controllers_RegisteredClients_1a],
      concat [Controllers_Registries_1a],
      concat [Controllers_ServiceConditions_1a],
      concat [Controllers_SessionService_1a],
      concat [Controllers_SessionService_2a],
      concat [Controllers_SessionService_3a],
      concat [Controllers_TaskService_1a, Controllers_TaskService_1b],
      concat [Controllers_TelemetryService_1a, Controllers_TelemetryService_1b, Controllers_TelemetryService_1c,
        Controllers_TelemetryService_1d, Controllers_TelemetryService_1e],
      concat [Controllers_TelemetryService_2a, Controllers_TelemetryService_2b],
      concat [Controllers_UpdateService_1a, Controllers_UpdateService_1b, Controllers_UpdateService_1c,
        Controllers_UpdateService_1d, Controllers_UpdateService_1e, Controllers_UpdateService_1f],
      concat [Controllers_UpdateService_2a, Controllers_UpdateService_2b],
      concat [Controllers_Odata_1a]]"

lemma Root_1_aligned:
  "aligned Routes_Root_1
     (concat [Controllers_Root_1a])"
  unfolding Routes_Root_1_def Controllers_Root_1a_def
  by (rule aligning)+

lemma Metadata_1_aligned:
  "aligned Routes_Metadata_1
     (concat [Controllers_Metadata_1a])"
  unfolding Routes_Metadata_1_def Controllers_Metadata_1a_def
  by (rule aligning)+

lemma AccountService_1_aligned:
  "aligned Routes_AccountService_1
     (concat [Controllers_AccountService_1a, Controllers_AccountService_1b, Controllers_AccountService_1c,
        Controllers_AccountService_1d, Controllers_AccountService_1e, Controllers_AccountService_1f])"
  unfolding Routes_AccountService_1_def Controllers_AccountService_1a_def Controllers_AccountService_1b_def
    Controllers_AccountService_1c_def Controllers_AccountService_1d_def
    Controllers_AccountService_1e_def Controllers_AccountService_1f_def
  by (rule aligning)+

lemma AccountService_2_aligned:
  "aligned Routes_AccountService_2
     (concat [Controllers_AccountService_2a, Controllers_AccountService_2b])"
  unfolding Routes_AccountService_2_def Controllers_AccountService_2a_def Controllers_AccountService_2b_def
  by (rule aligning)+

lemma AccountService_3_aligned:
  "aligned Routes_AccountService_3
     (concat [Controllers_AccountService_3a, Controllers_AccountService_3b, Controllers_AccountService_3c])"
  unfolding Routes_AccountService_3_def Controllers_AccountService_3a_def Controllers_AccountService_3b_def
    Controllers_AccountService_3c_def
  by (rule aligning)+

lemma AccountService_4_aligned:
  "aligned Routes_AccountService_4
     (concat [Controllers_AccountService_4a, Controllers_AccountService_4b, Controllers_AccountService_4c,
        Controllers_AccountService_4d, Controllers_AccountService_4e])"
  unfolding Routes_AccountService_4_def Controllers_AccountService_4a_def Controllers_AccountService_4b_def
    Controllers_AccountService_4c_def Controllers_AccountService_4d_def
    Controllers_AccountService_4e_def
  by (rule aligning)+

lemma AccountService_5_aligned:
  "aligned Routes_AccountService_5
     (concat [Controllers_AccountService_5a, Controllers_AccountService_5b, Controllers_AccountService_5c,
        Controllers_AccountService_5d, Controllers_AccountService_5e])"
  unfolding Routes_AccountService_5_def Controllers_AccountService_5a_def Controllers_AccountService_5b_def
    Controllers_AccountService_5c_def Controllers_AccountService_5d_def
    Controllers_AccountService_5e_def
  by (rule aligning)+

lemma AccountService_6_aligned:
  "aligned Routes_AccountService_6
     (concat [Controllers_AccountService_6a])"
  unfolding Routes_AccountService_6_def Controllers_AccountService_6a_def
  by (rule aligning)+

lemma AggregationService_1_aligned:
  "aligned Routes_AggregationService_1
     (concat [Controllers_AggregationService_1a, Controllers_AggregationService_1b,
        Controllers_AggregationService_1c])"
  unfolding Routes_AggregationService_1_def Controllers_AggregationService_1a_def
    Controllers_AggregationService_1b_def Controllers_AggregationService_1c_def
  by (rule aligning)+

lemma AggregationService_2_aligned:
  "aligned Routes_AggregationService_2
     (concat [Controllers_AggregationService_2a, Controllers_AggregationService_2b,
        Controllers_AggregationService_2c, Controllers_AggregationService_2d])"
  unfolding Routes_AggregationService_2_def Controllers_AggregationService_2a_def
    Controllers_AggregationService_2b_def Controllers_AggregationService_2c_def
    Controllers_AggregationService_2d_def
  by (rule aligning)+

lemma AggregationService_3_aligned:
  "aligned Routes_AggregationService_3
     (concat [Controllers_AggregationService_3a])"
  unfolding Routes_AggregationService_3_def Controllers_AggregationService_3a_def
  by (rule aligning)+

lemma Cables_1_aligned:
  "aligned Routes_Cables_1
     (concat [Controllers_Cables_1a])"
  unfolding Routes_Cables_1_def Controllers_Cables_1a_def
  by (rule aligning)+

lemma CertificateService_1_aligned:
  "aligned Routes_CertificateService_1
     (concat [Controllers_CertificateService_1a])"
  unfolding Routes_CertificateService_1_def Controllers_CertificateService_1a_def
  by (rule aligning)+

lemma ComponentIntegrity_1_aligned:
  "aligned Routes_ComponentIntegrity_1
     (concat [Controllers_ComponentIntegrity_1a, Controllers_ComponentIntegrity_1b])"
  unfolding Routes_ComponentIntegrity_1_def Controllers_ComponentIntegrity_1a_def
    Controllers_ComponentIntegrity_1b_def
  by (rule aligning)+

lemma EventService_1_aligned:
  "aligned Routes_EventService_1
     (concat [Controllers_EventService_1a])"
  unfolding Routes_EventService_1_def Controllers_EventService_1a_def
  by (rule aligning)+

lemma EventService_2_aligned:
  "aligned Routes_EventService_2
     (concat [Controllers_EventService_2a, Controllers_EventService_2b, Controllers_EventService_2c,
        Controllers_EventService_2d, Controllers_EventService_2e])"
  unfolding Routes_EventService_2_def Controllers_EventService_2a_def Controllers_EventService_2b_def
    Controllers_EventService_2c_def Controllers_EventService_2d_def Controllers_EventService_2e_def
  by (rule aligning)+

lemma Fabrics_1_aligned:
  "aligned Routes_Fabrics_1
     (concat [Controllers_Fabrics_1a, Controllers_Fabrics_1b, Controllers_Fabrics_1c, Controllers_Fabrics_1d,
        Controllers_Fabrics_1e, Controllers_Fabrics_1f])"
  unfolding Routes_Fabrics_1_def Controllers_Fabrics_1a_def Controllers_Fabrics_1b_def
    Controllers_Fabrics_1c_def Controllers_Fabrics_1d_def Controllers_Fabrics_1e_def
    Controllers_Fabrics_1f_def
  by (rule aligning)+

lemma Fabrics_2_aligned:
  "aligned Routes_Fabrics_2
     (concat [Controllers_Fabrics_2a, Controllers_Fabrics_2b, Controllers_Fabrics_2c, Controllers_Fabrics_2d,
        Controllers_Fabrics_2e])"
  unfolding Routes_Fabrics_2_def Controllers_Fabrics_2a_def Controllers_Fabrics_2b_def
    Controllers_Fabrics_2c_def Controllers_Fabrics_2d_def Controllers_Fabrics_2e_def
  by (rule aligning)+

lemma Fabrics_3_aligned:
  "aligned Routes_Fabrics_3
     (concat [Controllers_Fabrics_3a, Controllers_Fabrics_3b, Controllers_Fabrics_3c, Controllers_Fabrics_3d,
        Controllers_Fabrics_3e, Controllers_Fabrics_3f, Controllers_Fabrics_3g, Controllers_Fabrics_3h,
        Controllers_Fabrics_3i, Controllers_Fabrics_3j])"
  unfolding Routes_Fabrics_3_def Controllers_Fabrics_3a_def Controllers_Fabrics_3b_def
    Controllers_Fabrics_3c_def Controllers_Fabrics_3d_def Controllers_Fabrics_3e_def
    Controllers_Fabrics_3f_def Controllers_Fabrics_3g_def Controllers_Fabrics_3h_def
    Controllers_Fabrics_3i_def Controllers_Fabrics_3j_def
  by (rule aligning)+

lemma Fabrics_4_aligned:
  "aligned Routes_Fabrics_4
     (concat [Controllers_Fabrics_4a, Controllers_Fabrics_4b, Controllers_Fabrics_4c, Controllers_Fabrics_4d,
        Controllers_Fabrics_4e, Controllers_Fabrics_4f, Controllers_Fabrics_4g, Controllers_Fabrics_4h,
        Controllers_Fabrics_4i, Controllers_Fabrics_4j])"
  unfolding Routes_Fabrics_4_def Controllers_Fabrics_4a_def Controllers_Fabrics_4b_def
    Controllers_Fabrics_4c_def Controllers_Fabrics_4d_def Controllers_Fabrics_4e_def
    Controllers_Fabrics_4f_def Controllers_Fabrics_4g_def Controllers_Fabrics_4h_def
    Controllers_Fabrics_4i_def Controllers_Fabrics_4j_def
  by (rule aligning)+

lemma Fabrics_5_aligned:
  "aligned Routes_Fabrics_5
     (concat [Controllers_Fabrics_5a, Controllers_Fabrics_5b, Controllers_Fabrics_5c])"
  unfolding Routes_Fabrics_5_def Controllers_Fabrics_5a_def Controllers_Fabrics_5b_def
    Controllers_Fabrics_5c_def
  by (rule aligning)+

lemma Facilities_1_aligned:
  "aligned Routes_Facilities_1
     (concat [Controllers_Facilities_1a, Controllers_Facilities_1b, Controllers_Facilities_1c,
        Controllers_Facilities_1d, Controllers_Facilities_1e])"
  unfolding Routes_Facilities_1_def Controllers_Facilities_1a_def Controllers_Facilities_1b_def
    Controllers_Facilities_1c_def Controllers_Facilities_1d_def Controllers_Facilities_1e_def
  by (rule aligning)+

lemma JobService_1_aligned:
  "aligned Routes_JobService_1
     (concat [Controllers_JobService_1a, Controllers_JobService_1b, Controllers_JobService_1c,
        Controllers_JobService_1d, Controllers_JobService_1e])"
  unfolding Routes_JobService_1_def Controllers_JobService_1a_def Controllers_JobService_1b_def
    Controllers_JobService_1c_def Controllers_JobService_1d_def Controllers_JobService_1e_def
  by (rule aligning)+

lemma JsonSchemas_1_aligned:
  "aligned Routes_JsonSchemas_1
     (concat [Controllers_JsonSchemas_1a])"
  unfolding Routes_JsonSchemas_1_def Controllers_JsonSchemas_1a_def
  by (rule aligning)+

lemma KeyService_1_aligned:
  "aligned Routes_KeyService_1
     (concat [Controllers_KeyService_1a, Controllers_KeyService_1b, Controllers_KeyService_1c])"
  unfolding Routes_KeyService_1_def Controllers_KeyService_1a_def Controllers_KeyService_1b_def
    Controllers_KeyService_1c_def
  by (rule aligning)+

lemma LicenseService_1_aligned:
  "aligned Routes_LicenseService_1
     (concat [Controllers_LicenseService_1a, Controllers_LicenseService_1b])"
  unfolding Routes_LicenseService_1_def Controllers_LicenseService_1a_def Controllers_LicenseService_1b_def
  by (rule aligning)+

lemma RegisteredClients_1_aligned:
  "aligned Routes_RegisteredClients_1
     (concat [Controllers_RegisteredClients_1a])"
  unfolding Routes_RegisteredClients_1_def Controllers_RegisteredClients_1a_def
  by (rule aligning)+

lemma Registries_1_aligned:
  "aligned Routes_Registries_1
     (concat [Controllers_Registries_1a])"
  unfolding Routes_Registries_1_def Controllers_Registries_1a_def
  by (rule aligning)+

lemma ServiceConditions_1_aligned:
  "aligned Routes_ServiceConditions_1
     (concat [Controllers_ServiceConditions_1a])"
  unfolding Routes_ServiceConditions_1_def Controllers_ServiceConditions_1a_def
  by (rule aligning)+

lemma SessionService_1_aligned:
  "aligned Routes_SessionService_1
     (concat [Controllers_SessionService_1a])"
  unfolding Routes_SessionService_1_def Controllers_SessionService_1a_def
  by (rule aligning)+

lemma SessionService_2_aligned:
  "aligned Routes_SessionService_2
     (concat [Controllers_SessionService_2a])"
  unfolding Routes_SessionService_2_def Controllers_SessionService_2a_def
  by (rule aligning)+

lemma SessionService_3_aligned:
  "aligned Routes_SessionService_3
     (concat [Controllers_SessionService_3a])"
  unfolding Routes_SessionService_3_def Controllers_SessionService_3a_def
  by (rule aligning)+

lemma TaskService_1_aligned:
  "aligned Routes_TaskService_1
     (concat [Controllers_TaskService_1a, Controllers_TaskService_1b])"
  unfolding Routes_TaskService_1_def Controllers_TaskService_1a_def Controllers_TaskService_1b_def
  by (rule aligning)+

lemma TelemetryService_1_aligned:
  "aligned Routes_TelemetryService_1
     (concat [Controllers_TelemetryService_1a, Controllers_TelemetryService_1b, Controllers_TelemetryService_1c,
        Controllers_TelemetryService_1d, Controllers_TelemetryService_1e])"
  unfolding Routes_TelemetryService_1_def Controllers_TelemetryService_1a_def
    Controllers_TelemetryService_1b_def Controllers_TelemetryService_1c_def
    Controllers_TelemetryService_1d_def Controllers_TelemetryService_1e_def
  by (rule aligning)+

lemma TelemetryService_2_aligned:
  "aligned Routes_TelemetryService_2
     (concat [Controllers_TelemetryService_2a, Controllers_TelemetryService_2b])"
  unfolding Routes_TelemetryService_2_def Controllers_TelemetryService_2a_def
    Controllers_TelemetryService_2b_def
  by (rule aligning)+

lemma UpdateService_1_aligned:
  "aligned Routes_UpdateService_1
     (concat [Controllers_UpdateService_1a, Controllers_UpdateService_1b, Controllers_UpdateService_1c,
        Controllers_UpdateService_1d, Controllers_UpdateService_1e, Controllers_UpdateService_1f])"
  unfolding Routes_UpdateService_1_def Controllers_UpdateService_1a_def Controllers_UpdateService_1b_def
    Controllers_UpdateService_1c_def Controllers_UpdateService_1d_def Controllers_UpdateService_1e_def
    Controllers_UpdateService_1f_def
  by (rule aligning)+

lemma UpdateService_2_aligned:
  "aligned Routes_UpdateService_2
     (concat [Controllers_UpdateService_2a, Controllers_UpdateService_2b])"
  unfolding Routes_UpdateService_2_def Controllers_UpdateService_2a_def Controllers_UpdateService_2b_def
  by (rule aligning)+

lemma Odata_1_aligned:
  "aligned Routes_Odata_1
     (concat [Controllers_Odata_1a])"
  unfolding Routes_Odata_1_def Controllers_Odata_1a_def
  by (rule aligning)+

lemma service_aligned: "aligned service_routes service_operations"
  unfolding service_routes_def service_operations_def
  by (intro aligned_concat
    Root_1_aligned Metadata_1_aligned AccountService_1_aligned AccountService_2_aligned
    AccountService_3_aligned AccountService_4_aligned AccountService_5_aligned AccountService_6_aligned
    AggregationService_1_aligned AggregationService_2_aligned AggregationService_3_aligned
    Cables_1_aligned CertificateService_1_aligned ComponentIntegrity_1_aligned EventService_1_aligned
    EventService_2_aligned Fabrics_1_aligned Fabrics_2_aligned Fabrics_3_aligned Fabrics_4_aligned
    Fabrics_5_aligned Facilities_1_aligned JobService_1_aligned JsonSchemas_1_aligned
    KeyService_1_aligned LicenseService_1_aligned RegisteredClients_1_aligned Registries_1_aligned
    ServiceConditions_1_aligned SessionService_1_aligned SessionService_2_aligned
    SessionService_3_aligned TaskService_1_aligned TelemetryService_1_aligned TelemetryService_2_aligned
    UpdateService_1_aligned UpdateService_2_aligned Odata_1_aligned)

end
