(* ===== verification/ServiceMethods.thy ===== *)
theory ServiceMethods
  imports Operations
begin

text \<open>
  The methods of the service (pkg/redfish/api_service.go) by name: the sixteen with an implementation
  and, group by group of the routes, those that answer 501 Not Implemented with their name (\<open>stub\<close>).
\<close>

definition implemented_methods :: "string list" where
  "implemented_methods =
     [''RedfishV1Get'', ''RedfishV1ManagersGet'', ''RedfishV1ManagersManagerIdGet'',
      ''RedfishV1ManagersManagerIdVirtualMediaGet'', ''RedfishV1ManagersManagerIdVirtualMediaVirtualMediaIdGet'',
      ''RedfishV1ManagersManagerIdVirtualMediaVirtualMediaIdActionsVirtualMediaEjectMediaPost'',
      ''RedfishV1ManagersManagerIdVirtualMediaVirtualMediaIdActionsVirtualMediaInsertMediaPost'',
      ''RedfishV1SessionServiceSessionsPost'', ''RedfishV1SessionServiceSessionsSessionIdGet'',
      ''RedfishV1SessionServiceSessionsSessionIdDelete'', ''RedfishV1SystemsGet'', ''RedfishV1SystemsComputerSystemIdGet'',
      ''RedfishV1SystemsComputerSystemIdPatch'', ''RedfishV1SystemsComputerSystemIdActionsComputerSystemResetPost'',
      ''RedfishV1SystemsComputerSystemIdActionsComputerSystemSetDefaultBootOrderPost'',
      ''RedfishV1SystemsComputerSystemIdOperatingSystemGet'']"

definition methods :: "string \<times> segment list \<Rightarrow> string \<Rightarrow> (string \<times> verb list) list \<Rightarrow> string list" where
  "methods base stem rows = concat (map (\<lambda>(st, vs). map (\<lambda>v. (fst base @ stem @ st) @ verb_name v) vs) rows)"

text \<open>Every handler of the routes is implemented or among the stubs.\<close>

definition covered :: "Routes \<Rightarrow> string list \<Rightarrow> bool" where
  "covered routes stubs \<longleftrightarrow>
     list_all (\<lambda>(_, rt). rt_HandlerFunc rt \<in> set implemented_methods \<or> rt_HandlerFunc rt \<in> set stubs) routes"

lemma covered_concat:
  "covered (concat []) (concat [])"
  "covered rs ms \<Longrightarrow> covered (concat rss) (concat mss) \<Longrightarrow> covered (concat (rs # rss)) (concat (ms # mss))"
  by (auto simp: covered_def list_all_iff)

definition method_spread :: "(string \<times> verb list) list list \<Rightarrow> (string \<times> verb) list" where
  "method_spread rowss = concat (map (\<lambda>(st, vs). map (Pair st) vs) (concat rowss))"

definition route_spread :: "(string \<times> segment list \<times> verb list) list \<Rightarrow> (string \<times> verb) list" where
  "route_spread rows = concat (map (\<lambda>(st, sg, vs). map (Pair st) vs) rows)"

lemma methods_concat: "methods base stem (concat rowss) = concat (map (methods base stem) rowss)"
  by (induction rowss) (simp_all add: methods_def)

lemma covered_group:
  assumes "ms = map (methods base stem) rowss" and "route_spread rows = method_spread rowss"
  shows "covered (under base stem pre rows) (concat ms)"
proof -
  let ?f = "\<lambda>(st, v). (fst base @ stem @ st) @ verb_name v"
  have "map (\<lambda>(_, rt). rt_HandlerFunc rt) (under base stem pre rows) = map ?f (route_spread rows)"
    by (simp add: under_def route_spread_def path_entries_def entry_def map_concat split_def comp_def)
  also have "\<dots> = methods base stem (concat rowss)"
    using assms(2) by (simp add: methods_def method_spread_def map_concat split_def comp_def)
  also have "\<dots> = concat ms" using assms(1) methods_concat by simp
  finally have "set (map (\<lambda>(_, rt). rt_HandlerFunc rt) (under base stem pre rows)) = set (concat ms)" by simp
  then show ?thesis by (fastforce simp: covered_def list_all_iff)
qed

lemma methods_rules:
  "[] = map (methods base stem) []"
  "ms = map (methods base stem) rowss \<Longrightarrow> methods base stem rows # ms = map (methods base stem) (rows # rowss)"
  by simp_all

lemma method_spread_rules:
  "route_spread [] = method_spread []"
  "route_spread rows = method_spread rowss \<Longrightarrow> route_spread rows = method_spread ([] # rowss)"
  "route_spread rows = method_spread (rows' # rowss)
    \<Longrightarrow> route_spread ((st, sg, vs) # rows) = method_spread (((st, vs) # rows') # rowss)"
  "route_spread rows = method_spread rowss \<Longrightarrow> route_spread ((st, sg, []) # rows) = method_spread rowss"
  "route_spread rows = method_spread (rows' # rowss) \<Longrightarrow> route_spread rows = method_spread (((st, []) # rows') # rowss)"
  "route_spread ((st, sg, vs) # rows) = method_spread (((st, ws) # rows') # rowss)
    \<Longrightarrow> route_spread ((st, sg, v # vs) # rows) = method_spread (((st, v # ws) # rows') # rowss)"
  by (auto simp: route_spread_def method_spread_def)

lemmas covering = covered_group methods_rules method_spread_rules

end
