(* ===== verification/StubsComposition.thy ===== *)
theory StubsComposition
  imports RoutesComposition ServiceMethods
begin

text \<open>
  The methods of the service (pkg/redfish/api_service.go) for the composition service that do nothing but
  answer 501 Not Implemented with their name, group by group of their routes.
\<close>

definition Stubs_CompositionService_1a :: "string list" where
  "Stubs_CompositionService_1a = methods at_root ''CompositionService''
     [('''', [Get, Put, Patch]),
      (''ActionsCompositionServiceCompose'', [Post]),
      (''ActivePool'', [Get, Post]),
      (''CompositionReservations'', [Get]),
      (''CompositionReservationsCompositionReservationId'', [Get])]"

definition Stubs_CompositionService_1b :: "string list" where
  "Stubs_CompositionService_1b = methods at_root ''CompositionService''
     [(''CompositionReservationsCompositionReservationId'', [Delete]),
      (''FreePool'', [Get, Post]),
      (''ResourceBlocks'', [Get, Post]),
      (''ResourceBlocksResourceBlockId'', [Get, Put, Delete])]"

definition Stubs_CompositionService_1c :: "string list" where
  "Stubs_CompositionService_1c = methods at_root ''CompositionService''
     [(''ResourceBlocksResourceBlockId'', [Patch])]"

definition Stubs_CompositionService_2a :: "string list" where
  "Stubs_CompositionService_2a = methods at_root ''CompositionServiceResourceBlocksResourceBlockIdDrivesDriveId''
     [('''', [Get, Put, Patch]),
      (''ActionsDriveReset'', [Post]),
      (''ActionsDriveRevertToOriginalFactoryState'', [Post]),
      (''ActionsDriveSecureErase'', [Post]),
      (''Assembly'', [Get])]"

definition Stubs_CompositionService_2b :: "string list" where
  "Stubs_CompositionService_2b = methods at_root ''CompositionServiceResourceBlocksResourceBlockIdDrivesDriveId''
     [(''Assembly'', [Put, Patch]),
      (''Certificates'', [Get, Post]),
      (''CertificatesCertificateId'', [Get, Put, Delete, Patch])]"

definition Stubs_CompositionService_2c :: "string list" where
  "Stubs_CompositionService_2c = methods at_root ''CompositionServiceResourceBlocksResourceBlockIdDrivesDriveId''
     [(''CertificatesCertificateIdActionsCertificateRekey'', [Post]),
      (''CertificatesCertificateIdActionsCertificateRenew'', [Post]),
      (''EnvironmentMetrics'', [Get, Put, Patch]),
      (''EnvironmentMetricsActionsEnvironmentMetricsResetMetrics'', [Post]),
      (''EnvironmentMetricsActionsEnvironmentMetricsResetToDefaults'', [Post])]"

definition Stubs_CompositionService_2d :: "string list" where
  "Stubs_CompositionService_2d = methods at_root ''CompositionServiceResourceBlocksResourceBlockIdDrivesDriveId''
     [(''Metrics'', [Get])]"

definition Stubs_CompositionService_3a :: "string list" where
  "Stubs_CompositionService_3a = methods at_root ''CompositionServiceResourceBlocksResourceBlockId''
     [(''EthernetInterfacesEthernetInterfaceId'', [Get, Put, Delete, Patch]),
      (''EthernetInterfacesEthernetInterfaceIdVLANs'', [Get, Post]),
      (''EthernetInterfacesEthernetInterfaceIdVLANsVLanNetworkInterfaceId'', [Get, Put])]"

definition Stubs_CompositionService_3b :: "string list" where
  "Stubs_CompositionService_3b = methods at_root ''CompositionServiceResourceBlocksResourceBlockId''
     [(''EthernetInterfacesEthernetInterfaceIdVLANsVLanNetworkInterfaceId'', [Delete, Patch]),
      (''MemoryMemoryId'', [Get, Put, Patch])]"

definition Stubs_CompositionService_4a :: "string list" where
  "Stubs_CompositionService_4a = methods at_root ''CompositionServiceResourceBlocksResourceBlockIdMemoryMemoryId''
     [(''ActionsMemoryDisableMasterPassphrase'', [Post]),
      (''ActionsMemoryDisablePassphrase'', [Post]),
      (''ActionsMemoryFreezeSecurityState'', [Post]),
      (''ActionsMemoryInjectPersistentPoison'', [Post]),
      (''ActionsMemoryOverwriteUnit'', [Post]),
      (''ActionsMemoryReset'', [Post])]"

definition Stubs_CompositionService_4b :: "string list" where
  "Stubs_CompositionService_4b = methods at_root ''CompositionServiceResourceBlocksResourceBlockIdMemoryMemoryId''
     [(''ActionsMemoryResetToDefaults'', [Post]),
      (''ActionsMemoryScanMedia'', [Post]),
      (''ActionsMemorySecureEraseUnit'', [Post]),
      (''ActionsMemorySetMasterPassphrase'', [Post]),
      (''ActionsMemorySetPassphrase'', [Post]),
      (''ActionsMemoryUnlockUnit'', [Post])]"

definition Stubs_CompositionService_4c :: "string list" where
  "Stubs_CompositionService_4c = methods at_root ''CompositionServiceResourceBlocksResourceBlockIdMemoryMemoryId''
     [(''Assembly'', [Get, Put, Patch]),
      (''Certificates'', [Get, Post]),
      (''CertificatesCertificateId'', [Get, Put, Delete])]"

definition Stubs_CompositionService_4d :: "string list" where
  "Stubs_CompositionService_4d = methods at_root ''CompositionServiceResourceBlocksResourceBlockIdMemoryMemoryId''
     [(''CertificatesCertificateId'', [Patch]),
      (''CertificatesCertificateIdActionsCertificateRekey'', [Post]),
      (''CertificatesCertificateIdActionsCertificateRenew'', [Post]),
      (''EnvironmentMetrics'', [Get, Put, Patch]),
      (''EnvironmentMetricsActionsEnvironmentMetricsResetMetrics'', [Post])]"

definition Stubs_CompositionService_4e :: "string list" where
  "Stubs_CompositionService_4e = methods at_root ''CompositionServiceResourceBlocksResourceBlockIdMemoryMemoryId''
     [(''EnvironmentMetricsActionsEnvironmentMetricsResetToDefaults'', [Post]),
      (''MemoryMetrics'', [Get]),
      (''MemoryMetricsActionsMemoryMetricsClearCurrentPeriod'', [Post])]"

definition Stubs_CompositionService_5a :: "string list" where
  "Stubs_CompositionService_5a = methods at_root ''CompositionServiceResourceBlocksResourceBlockIdNetworkInterfacesNetworkInterfaceId''
     [('''', [Get]),
      (''NetworkDeviceFunctions'', [Get]),
      (''NetworkDeviceFunctionsNetworkDeviceFunctionIdAllowDeny'', [Get, Post]),
      (''NetworkDeviceFunctionsNetworkDeviceFunctionIdAllowDenyAllowDenyId'', [Get, Put, Delete, Patch]),
      (''NetworkPorts'', [Get])]"

definition Stubs_CompositionService_5b :: "string list" where
  "Stubs_CompositionService_5b = methods at_root ''CompositionServiceResourceBlocksResourceBlockIdNetworkInterfacesNetworkInterfaceId''
     [(''Ports'', [Get])]"

definition Stubs_CompositionService_6a :: "string list" where
  "Stubs_CompositionService_6a = methods at_root ''CompositionServiceResourceBlocksResourceBlockIdProcessorsProcessorId''
     [('''', [Get, Put, Patch]),
      (''AccelerationFunctions'', [Get]),
      (''AccelerationFunctionsAccelerationFunctionId'', [Get]),
      (''ActionsProcessorReset'', [Post]),
      (''ActionsProcessorResetToDefaults'', [Post]),
      (''Assembly'', [Get])]"

definition Stubs_CompositionService_6b :: "string list" where
  "Stubs_CompositionService_6b = methods at_root ''CompositionServiceResourceBlocksResourceBlockIdProcessorsProcessorId''
     [(''Assembly'', [Put, Patch]),
      (''Certificates'', [Get, Post]),
      (''CertificatesCertificateId'', [Get, Put, Delete, Patch])]"

definition Stubs_CompositionService_6c :: "string list" where
  "Stubs_CompositionService_6c = methods at_root ''CompositionServiceResourceBlocksResourceBlockIdProcessorsProcessorId''
     [(''CertificatesCertificateIdActionsCertificateRekey'', [Post]),
      (''CertificatesCertificateIdActionsCertificateRenew'', [Post]),
      (''EnvironmentMetrics'', [Get, Put, Patch]),
      (''EnvironmentMetricsActionsEnvironmentMetricsResetMetrics'', [Post]),
      (''EnvironmentMetricsActionsEnvironmentMetricsResetToDefaults'', [Post])]"

definition Stubs_CompositionService_6d :: "string list" where
  "Stubs_CompositionService_6d = methods at_root ''CompositionServiceResourceBlocksResourceBlockIdProcessorsProcessorId''
     [(''MemorySummaryMemoryMetrics'', [Get]),
      (''MemorySummaryMemoryMetricsActionsMemoryMetricsClearCurrentPeriod'', [Post]),
      (''Ports'', [Get]),
      (''PortsPortId'', [Get, Put, Patch]),
      (''PortsPortIdActionsPortReset'', [Post])]"

definition Stubs_CompositionService_7a :: "string list" where
  "Stubs_CompositionService_7a = methods at_root ''CompositionServiceResourceBlocksResourceBlockIdProcessorsProcessorId''
     [(''PortsPortIdActionsPortResetPPB'', [Post]),
      (''PortsPortIdEnvironmentMetrics'', [Get, Put, Patch]),
      (''PortsPortIdEnvironmentMetricsActionsEnvironmentMetricsResetMetrics'', [Post]),
      (''PortsPortIdEnvironmentMetricsActionsEnvironmentMetricsResetToDefaults'', [Post]),
      (''PortsPortIdMetrics'', [Get]),
      (''ProcessorMetrics'', [Get])]"

definition Stubs_CompositionService_7b :: "string list" where
  "Stubs_CompositionService_7b = methods at_root ''CompositionServiceResourceBlocksResourceBlockIdProcessorsProcessorId''
     [(''ProcessorMetricsActionsProcessorMetricsClearCurrentPeriod'', [Post]),
      (''SubProcessors'', [Get])]"

definition Stubs_CompositionService_8a :: "string list" where
  "Stubs_CompositionService_8a = methods at_root ''CompositionServiceResourceBlocksResourceBlockIdProcessorsProcessorIdSubProcessorsProcessorId2''
     [('''', [Get, Put, Patch]),
      (''ActionsProcessorReset'', [Post]),
      (''ActionsProcessorResetToDefaults'', [Post]),
      (''Assembly'', [Get, Put])]"

definition Stubs_CompositionService_8b :: "string list" where
  "Stubs_CompositionService_8b = methods at_root ''CompositionServiceResourceBlocksResourceBlockIdProcessorsProcessorIdSubProcessorsProcessorId2''
     [(''Assembly'', [Patch]),
      (''ProcessorMetrics'', [Get]),
      (''ProcessorMetricsActionsProcessorMetricsClearCurrentPeriod'', [Post]),
      (''SubProcessors'', [Get]),
      (''SubProcessorsProcessorId3'', [Get, Put, Patch]),
      (''SubProcessorsProcessorId3ActionsProcessorReset'', [Post])]"

definition Stubs_CompositionService_8c :: "string list" where
  "Stubs_CompositionService_8c = methods at_root ''CompositionServiceResourceBlocksResourceBlockIdProcessorsProcessorIdSubProcessorsProcessorId2''
     [(''SubProcessorsProcessorId3ActionsProcessorResetToDefaults'', [Post]),
      (''SubProcessorsProcessorId3Assembly'', [Get, Put, Patch]),
      (''SubProcessorsProcessorId3ProcessorMetrics'', [Get]),
      (''SubProcessorsProcessorId3ProcessorMetricsActionsProcessorMetricsClearCurrentPeriod'', [Post])]"

definition Stubs_CompositionService_9a :: "string list" where
  "Stubs_CompositionService_9a = methods at_root ''CompositionServiceResourceBlocksResourceBlockId''
     [(''SimpleStorageSimpleStorageId'', [Get]),
      (''Storage'', [Get]),
      (''StorageStorageId'', [Get, Put, Patch]),
      (''StorageStorageIdActionsStorageResetToDefaults'', [Post]),
      (''StorageStorageIdActionsStorageSetEncryptionKey'', [Post]),
      (''StorageStorageIdControllers'', [Get])]"

definition Stubs_CompositionService_10a :: "string list" where
  "Stubs_CompositionService_10a = methods at_root ''CompositionServiceResourceBlocksResourceBlockIdStorageStorageIdControllersControllerId''
     [('''', [Get, Put, Patch]),
      (''ActionsStorageControllerAttachNamespaces'', [Post]),
      (''ActionsStorageControllerDetachNamespaces'', [Post]),
      (''ActionsStorageControllerSecurityReceive'', [Post]),
      (''ActionsStorageControllerSecuritySend'', [Post])]"

definition Stubs_CompositionService_10b :: "string list" where
  "Stubs_CompositionService_10b = methods at_root ''CompositionServiceResourceBlocksResourceBlockIdStorageStorageIdControllersControllerId''
     [(''EnvironmentMetrics'', [Get, Put, Patch]),
      (''EnvironmentMetricsActionsEnvironmentMetricsResetMetrics'', [Post]),
      (''EnvironmentMetricsActionsEnvironmentMetricsResetToDefaults'', [Post]),
      (''Metrics'', [Get])]"

definition Stubs_CompositionService_11a :: "string list" where
  "Stubs_CompositionService_11a = methods at_root ''CompositionServiceResourceBlocksResourceBlockIdStorageStorageIdControllersStorageControllerId''
     [(''Assembly'', [Get, Put, Patch]),
      (''Certificates'', [Get, Post]),
      (''CertificatesCertificateId'', [Get, Put, Delete])]"

definition Stubs_CompositionService_11b :: "string list" where
  "Stubs_CompositionService_11b = methods at_root ''CompositionServiceResourceBlocksResourceBlockIdStorageStorageIdControllersStorageControllerId''
     [(''CertificatesCertificateId'', [Patch]),
      (''CertificatesCertificateIdActionsCertificateRekey'', [Post]),
      (''CertificatesCertificateIdActionsCertificateRenew'', [Post]),
      (''Ports'', [Get]),
      (''PortsPortId'', [Get, Put, Patch])]"

definition Stubs_CompositionService_11c :: "string list" where
  "Stubs_CompositionService_11c = methods at_root ''CompositionServiceResourceBlocksResourceBlockIdStorageStorageIdControllersStorageControllerId''
     [(''PortsPortIdActionsPortReset'', [Post]),
      (''PortsPortIdActionsPortResetPPB'', [Post]),
      (''PortsPortIdEnvironmentMetrics'', [Get, Put, Patch]),
      (''PortsPortIdEnvironmentMetricsActionsEnvironmentMetricsResetMetrics'', [Post]),
      (''PortsPortIdEnvironmentMetricsActionsEnvironmentMetricsResetToDefaults'', [Post])]"

definition Stubs_CompositionService_11d :: "string list" where
  "Stubs_CompositionService_11d = methods at_root ''CompositionServiceResourceBlocksResourceBlockIdStorageStorageIdControllersStorageControllerId''
     [(''PortsPortIdMetrics'', [Get])]"

definition Stubs_CompositionService_12a :: "string list" where
  "Stubs_CompositionService_12a = methods at_root ''CompositionServiceResourceBlocksResourceBlockIdStorageStorageIdDrivesDriveId''
     [('''', [Get, Put, Patch]),
      (''ActionsDriveReset'', [Post]),
      (''ActionsDriveRevertToOriginalFactoryState'', [Post]),
      (''ActionsDriveSecureErase'', [Post]),
      (''Assembly'', [Get])]"

definition Stubs_CompositionService_12b :: "string list" where
  "Stubs_CompositionService_12b = methods at_root ''CompositionServiceResourceBlocksResourceBlockIdStorageStorageIdDrivesDriveId''
     [(''Assembly'', [Put, Patch]),
      (''Certificates'', [Get, Post]),
      (''CertificatesCertificateId'', [Get, Put, Delete, Patch])]"

definition Stubs_CompositionService_12c :: "string list" where
  "Stubs_CompositionService_12c = methods at_root ''CompositionServiceResourceBlocksResourceBlockIdStorageStorageIdDrivesDriveId''
     [(''CertificatesCertificateIdActionsCertificateRekey'', [Post]),
      (''CertificatesCertificateIdActionsCertificateRenew'', [Post]),
      (''EnvironmentMetrics'', [Get, Put, Patch]),
      (''EnvironmentMetricsActionsEnvironmentMetricsResetMetrics'', [Post]),
      (''EnvironmentMetricsActionsEnvironmentMetricsResetToDefaults'', [Post])]"

definition Stubs_CompositionService_12d :: "string list" where
  "Stubs_CompositionService_12d = methods at_root ''CompositionServiceResourceBlocksResourceBlockIdStorageStorageIdDrivesDriveId''
     [(''Metrics'', [Get])]"

definition Stubs_CompositionService_13a :: "string list" where
  "Stubs_CompositionService_13a = methods at_root ''CompositionServiceResourceBlocksResourceBlockIdStorageStorageIdStorageControllersStorageControllerId''
     [(''Assembly'', [Get, Put, Patch]),
      (''Certificates'', [Get, Post]),
      (''CertificatesCertificateId'', [Get, Put, Delete])]"

definition Stubs_CompositionService_13b :: "string list" where
  "Stubs_CompositionService_13b = methods at_root ''CompositionServiceResourceBlocksResourceBlockIdStorageStorageIdStorageControllersStorageControllerId''
     [(''CertificatesCertificateId'', [Patch]),
      (''CertificatesCertificateIdActionsCertificateRekey'', [Post]),
      (''CertificatesCertificateIdActionsCertificateRenew'', [Post]),
      (''Ports'', [Get]),
      (''PortsPortId'', [Get, Put, Patch])]"

definition Stubs_CompositionService_13c :: "string list" where
  "Stubs_CompositionService_13c = methods at_root ''CompositionServiceResourceBlocksResourceBlockIdStorageStorageIdStorageControllersStorageControllerId''
     [(''PortsPortIdActionsPortReset'', [Post]),
      (''PortsPortIdActionsPortResetPPB'', [Post]),
      (''PortsPortIdEnvironmentMetrics'', [Get, Put, Patch]),
      (''PortsPortIdEnvironmentMetricsActionsEnvironmentMetricsResetMetrics'', [Post]),
      (''PortsPortIdEnvironmentMetricsActionsEnvironmentMetricsResetToDefaults'', [Post])]"

definition Stubs_CompositionService_13d :: "string list" where
  "Stubs_CompositionService_13d = methods at_root ''CompositionServiceResourceBlocksResourceBlockIdStorageStorageIdStorageControllersStorageControllerId''
     [(''PortsPortIdMetrics'', [Get])]"

definition Stubs_CompositionService_14a :: "string list" where
  "Stubs_CompositionService_14a = methods at_root ''CompositionServiceResourceBlocksResourceBlockIdStorageStorageIdVolumes''
     [('''', [Get, Post]),
      (''VolumeId'', [Get, Put, Delete, Patch]),
      (''VolumeIdActionsVolumeAssignReplicaTarget'', [Post])]"

definition Stubs_CompositionService_14b :: "string list" where
  "Stubs_CompositionService_14b = methods at_root ''CompositionServiceResourceBlocksResourceBlockIdStorageStorageIdVolumes''
     [(''VolumeIdActionsVolumeChangeRAIDLayout'', [Post]),
      (''VolumeIdActionsVolumeCheckConsistency'', [Post]),
      (''VolumeIdActionsVolumeCreateReplicaTarget'', [Post]),
      (''VolumeIdActionsVolumeForceEnable'', [Post]),
      (''VolumeIdActionsVolumeInitialize'', [Post]),
      (''VolumeIdActionsVolumeRemoveReplicaRelationship'', [Post])]"

definition Stubs_CompositionService_14c :: "string list" where
  "Stubs_CompositionService_14c = methods at_root ''CompositionServiceResourceBlocksResourceBlockIdStorageStorageIdVolumes''
     [(''VolumeIdActionsVolumeResumeReplication'', [Post]),
      (''VolumeIdActionsVolumeReverseReplicationRelationship'', [Post]),
      (''VolumeIdActionsVolumeSplitReplication'', [Post]),
      (''VolumeIdActionsVolumeSuspendReplication'', [Post])]"

definition Stubs_CompositionService_15a :: "string list" where
  "Stubs_CompositionService_15a = methods at_root ''CompositionServiceResourceBlocksResourceBlockIdSystemsComputerSystemId''
     [('''', [Get, Put, Delete, Patch]),
      (''ActionsComputerSystemAddResourceBlock'', [Post]),
      (''ActionsComputerSystemDecommission'', [Post]),
      (''ActionsComputerSystemRemoveResourceBlock'', [Post])]"

definition Stubs_CompositionService_15b :: "string list" where
  "Stubs_CompositionService_15b = methods at_root ''CompositionServiceResourceBlocksResourceBlockIdSystemsComputerSystemId''
     [(''ActionsComputerSystemReset'', [Post]),
      (''ActionsComputerSystemSetDefaultBootOrder'', [Post]),
      (''Bios'', [Get, Put, Patch]),
      (''BiosActionsBiosChangePassword'', [Post]),
      (''BiosActionsBiosResetBios'', [Post])]"

definition Stubs_CompositionService_15c :: "string list" where
  "Stubs_CompositionService_15c = methods at_root ''CompositionServiceResourceBlocksResourceBlockIdSystemsComputerSystemId''
     [(''BootCertificates'', [Get, Post]),
      (''BootCertificatesCertificateId'', [Get, Put, Delete, Patch]),
      (''BootCertificatesCertificateIdActionsCertificateRekey'', [Post])]"

definition Stubs_CompositionService_15d :: "string list" where
  "Stubs_CompositionService_15d = methods at_root ''CompositionServiceResourceBlocksResourceBlockIdSystemsComputerSystemId''
     [(''BootCertificatesCertificateIdActionsCertificateRenew'', [Post]),
      (''BootOptions'', [Get, Post]),
      (''BootOptionsBootOptionId'', [Get, Put, Delete, Patch]),
      (''Certificates'', [Get])]"

definition Stubs_CompositionService_15e :: "string list" where
  "Stubs_CompositionService_15e = methods at_root ''CompositionServiceResourceBlocksResourceBlockIdSystemsComputerSystemId''
     [(''Certificates'', [Post])]"

definition Stubs_CompositionService_16a :: "string list" where
  "Stubs_CompositionService_16a = methods at_root ''CompositionServiceResourceBlocksResourceBlockIdSystemsComputerSystemId''
     [(''CertificatesCertificateId'', [Get, Put, Delete, Patch]),
      (''CertificatesCertificateIdActionsCertificateRekey'', [Post]),
      (''CertificatesCertificateIdActionsCertificateRenew'', [Post]),
      (''EthernetInterfaces'', [Get])]"

definition Stubs_CompositionService_16b :: "string list" where
  "Stubs_CompositionService_16b = methods at_root ''CompositionServiceResourceBlocksResourceBlockIdSystemsComputerSystemId''
     [(''EthernetInterfaces'', [Post]),
      (''EthernetInterfacesEthernetInterfaceId'', [Get, Put, Delete, Patch]),
      (''EthernetInterfacesEthernetInterfaceIdVLANs'', [Get, Post]),
      (''EthernetInterfacesEthernetInterfaceIdVLANsVLanNetworkInterfaceId'', [Get])]"

definition Stubs_CompositionService_16c :: "string list" where
  "Stubs_CompositionService_16c = methods at_root ''CompositionServiceResourceBlocksResourceBlockIdSystemsComputerSystemId''
     [(''EthernetInterfacesEthernetInterfaceIdVLANsVLanNetworkInterfaceId'', [Put, Delete, Patch]),
      (''FabricAdapters'', [Get]),
      (''FabricAdaptersFabricAdapterId'', [Get, Put, Patch]),
      (''FabricAdaptersFabricAdapterIdGenZMSDT'', [Get])]"

definition Stubs_CompositionService_16d :: "string list" where
  "Stubs_CompositionService_16d = methods at_root ''CompositionServiceResourceBlocksResourceBlockIdSystemsComputerSystemId''
     [(''FabricAdaptersFabricAdapterIdGenZMSDT'', [Post])]"

definition Stubs_CompositionService_17a :: "string list" where
  "Stubs_CompositionService_17a = methods at_root ''CompositionServiceResourceBlocksResourceBlockIdSystemsComputerSystemIdFabricAdaptersFabricAdapterId''
     [(''GenZMSDTMSDTId'', [Get, Put, Delete, Patch]),
      (''GenZSSDT'', [Get, Post]),
      (''GenZSSDTSSDTId'', [Get, Put])]"

definition Stubs_CompositionService_17b :: "string list" where
  "Stubs_CompositionService_17b = methods at_root ''CompositionServiceResourceBlocksResourceBlockIdSystemsComputerSystemIdFabricAdaptersFabricAdapterId''
     [(''GenZSSDTSSDTId'', [Delete, Patch]),
      (''MSDT'', [Get, Post]),
      (''MSDTMSDTId'', [Get, Put, Delete])]"

definition Stubs_CompositionService_17c :: "string list" where
  "Stubs_CompositionService_17c = methods at_root ''CompositionServiceResourceBlocksResourceBlockIdSystemsComputerSystemIdFabricAdaptersFabricAdapterId''
     [(''MSDTMSDTId'', [Patch]),
      (''Ports'', [Get]),
      (''PortsPortId'', [Get, Put, Patch]),
      (''PortsPortIdActionsPortReset'', [Post]),
      (''PortsPortIdActionsPortResetPPB'', [Post]),
      (''PortsPortIdEnvironmentMetrics'', [Get])]"

definition Stubs_CompositionService_17d :: "string list" where
  "Stubs_CompositionService_17d = methods at_root ''CompositionServiceResourceBlocksResourceBlockIdSystemsComputerSystemIdFabricAdaptersFabricAdapterId''
     [(''PortsPortIdEnvironmentMetrics'', [Put, Patch]),
      (''PortsPortIdEnvironmentMetricsActionsEnvironmentMetricsResetMetrics'', [Post]),
      (''PortsPortIdEnvironmentMetricsActionsEnvironmentMetricsResetToDefaults'', [Post]),
      (''PortsPortIdGenZLPRT'', [Get, Post])]"

definition Stubs_CompositionService_18a :: "string list" where
  "Stubs_CompositionService_18a = methods at_root ''CompositionServiceResourceBlocksResourceBlockIdSystemsComputerSystemIdFabricAdaptersFabricAdapterId''
     [(''PortsPortIdGenZLPRTLPRTId'', [Get, Put, Delete, Patch]),
      (''PortsPortIdGenZMPRT'', [Get, Post]),
      (''PortsPortIdGenZMPRTMPRTId'', [Get, Put])]"

definition Stubs_CompositionService_18b :: "string list" where
  "Stubs_CompositionService_18b = methods at_root ''CompositionServiceResourceBlocksResourceBlockIdSystemsComputerSystemIdFabricAdaptersFabricAdapterId''
     [(''PortsPortIdGenZMPRTMPRTId'', [Delete, Patch]),
      (''PortsPortIdLPRT'', [Get, Post]),
      (''PortsPortIdLPRTLPRTId'', [Get, Put, Delete])]"

definition Stubs_CompositionService_18c :: "string list" where
  "Stubs_CompositionService_18c = methods at_root ''CompositionServiceResourceBlocksResourceBlockIdSystemsComputerSystemIdFabricAdaptersFabricAdapterId''
     [(''PortsPortIdLPRTLPRTId'', [Patch]),
      (''PortsPortIdMPRT'', [Get, Post]),
      (''PortsPortIdMPRTMPRTId'', [Get, Put, Delete, Patch]),
      (''PortsPortIdMetrics'', [Get])]"

definition Stubs_CompositionService_18d :: "string list" where
  "Stubs_CompositionService_18d = methods at_root ''CompositionServiceResourceBlocksResourceBlockIdSystemsComputerSystemIdFabricAdaptersFabricAdapterId''
     [(''SSDT'', [Get, Post]),
      (''SSDTSSDTId'', [Get, Put, Delete, Patch])]"

definition Stubs_CompositionService_19a :: "string list" where
  "Stubs_CompositionService_19a = methods at_root ''CompositionServiceResourceBlocksResourceBlockIdSystemsComputerSystemIdGraphicsControllersControllerIdPorts''
     [('''', [Get]),
      (''PortId'', [Get, Put, Patch]),
      (''PortIdActionsPortReset'', [Post]),
      (''PortIdActionsPortResetPPB'', [Post]),
      (''PortIdEnvironmentMetrics'', [Get, Put])]"

definition Stubs_CompositionService_19b :: "string list" where
  "Stubs_CompositionService_19b = methods at_root ''CompositionServiceResourceBlocksResourceBlockIdSystemsComputerSystemIdGraphicsControllersControllerIdPorts''
     [(''PortIdEnvironmentMetrics'', [Patch]),
      (''PortIdEnvironmentMetricsActionsEnvironmentMetricsResetMetrics'', [Post]),
      (''PortIdEnvironmentMetricsActionsEnvironmentMetricsResetToDefaults'', [Post]),
      (''PortIdMetrics'', [Get])]"

definition Stubs_CompositionService_20a :: "string list" where
  "Stubs_CompositionService_20a = methods at_root ''CompositionServiceResourceBlocksResourceBlockIdSystemsComputerSystemId''
     [(''KeyManagementKMIPCertificates'', [Get, Post]),
      (''KeyManagementKMIPCertificatesCertificateId'', [Get, Put, Delete, Patch]),
      (''KeyManagementKMIPCertificatesCertificateIdActionsCertificateRekey'', [Post])]"

definition Stubs_CompositionService_20b :: "string list" where
  "Stubs_CompositionService_20b = methods at_root ''CompositionServiceResourceBlocksResourceBlockIdSystemsComputerSystemId''
     [(''KeyManagementKMIPCertificatesCertificateIdActionsCertificateRenew'', [Post]),
      (''LogServices'', [Get]),
      (''LogServicesLogServiceId'', [Get, Put, Patch]),
      (''LogServicesLogServiceIdActionsLogServiceClearLog'', [Post]),
      (''LogServicesLogServiceIdActionsLogServiceCollectDiagnosticData'', [Post])]"

definition Stubs_CompositionService_20c :: "string list" where
  "Stubs_CompositionService_20c = methods at_root ''CompositionServiceResourceBlocksResourceBlockIdSystemsComputerSystemId''
     [(''LogServicesLogServiceIdActionsLogServicePushDiagnosticData'', [Post]),
      (''LogServicesLogServiceIdEntries'', [Get, Post]),
      (''LogServicesLogServiceIdEntriesLogEntryId'', [Get, Put, Delete, Patch]),
      (''Memory'', [Get])]"

definition Stubs_CompositionService_20d :: "string list" where
  "Stubs_CompositionService_20d = methods at_root ''CompositionServiceResourceBlocksResourceBlockIdSystemsComputerSystemId''
     [(''MemoryMemoryId'', [Get, Put, Patch])]"

definition Stubs_CompositionService_21a :: "string list" where
  "Stubs_CompositionService_21a = methods at_root ''CompositionServiceResourceBlocksResourceBlockIdSystemsComputerSystemIdMemoryMemoryId''
     [(''ActionsMemoryDisableMasterPassphrase'', [Post]),
      (''ActionsMemoryDisablePassphrase'', [Post]),
      (''ActionsMemoryFreezeSecurityState'', [Post]),
      (''ActionsMemoryInjectPersistentPoison'', [Post]),
      (''ActionsMemoryOverwriteUnit'', [Post]),
      (''ActionsMemoryReset'', [Post])]"

definition Stubs_CompositionService_21b :: "string list" where
  "Stubs_CompositionService_21b = methods at_root ''CompositionServiceResourceBlocksResourceBlockIdSystemsComputerSystemIdMemoryMemoryId''
     [(''ActionsMemoryResetToDefaults'', [Post]),
      (''ActionsMemoryScanMedia'', [Post]),
      (''ActionsMemorySecureEraseUnit'', [Post]),
      (''ActionsMemorySetMasterPassphrase'', [Post]),
      (''ActionsMemorySetPassphrase'', [Post]),
      (''ActionsMemoryUnlockUnit'', [Post])]"

definition Stubs_CompositionService_21c :: "string list" where
  "Stubs_CompositionService_21c = methods at_root ''CompositionServiceResourceBlocksResourceBlockIdSystemsComputerSystemIdMemoryMemoryId''
     [(''Assembly'', [Get, Put, Patch]),
      (''Certificates'', [Get, Post]),
      (''CertificatesCertificateId'', [Get, Put, Delete])]"

definition Stubs_CompositionService_21d :: "string list" where
  "Stubs_CompositionService_21d = methods at_root ''CompositionServiceResourceBlocksResourceBlockIdSystemsComputerSystemIdMemoryMemoryId''
     [(''CertificatesCertificateId'', [Patch]),
      (''CertificatesCertificateIdActionsCertificateRekey'', [Post]),
      (''CertificatesCertificateIdActionsCertificateRenew'', [Post]),
      (''EnvironmentMetrics'', [Get, Put, Patch]),
      (''EnvironmentMetricsActionsEnvironmentMetricsResetMetrics'', [Post])]"

definition Stubs_CompositionService_21e :: "string list" where
  "Stubs_CompositionService_21e = methods at_root ''CompositionServiceResourceBlocksResourceBlockIdSystemsComputerSystemIdMemoryMemoryId''
     [(''EnvironmentMetricsActionsEnvironmentMetricsResetToDefaults'', [Post]),
      (''MemoryMetrics'', [Get]),
      (''MemoryMetricsActionsMemoryMetricsClearCurrentPeriod'', [Post])]"

definition Stubs_CompositionService_22a :: "string list" where
  "Stubs_CompositionService_22a = methods at_root ''CompositionServiceResourceBlocksResourceBlockIdSystemsComputerSystemId''
     [(''MemoryDomains'', [Get]),
      (''MemoryDomainsMemoryDomainId'', [Get]),
      (''MemoryDomainsMemoryDomainIdMemoryChunks'', [Get, Post]),
      (''MemoryDomainsMemoryDomainIdMemoryChunksMemoryChunksId'', [Get, Put, Delete, Patch]),
      (''MemorySummaryMemoryMetrics'', [Get])]"

definition Stubs_CompositionService_22b :: "string list" where
  "Stubs_CompositionService_22b = methods at_root ''CompositionServiceResourceBlocksResourceBlockIdSystemsComputerSystemId''
     [(''MemorySummaryMemoryMetricsActionsMemoryMetricsClearCurrentPeriod'', [Post]),
      (''NetworkInterfaces'', [Get]),
      (''NetworkInterfacesNetworkInterfaceId'', [Get]),
      (''NetworkInterfacesNetworkInterfaceIdNetworkDeviceFunctions'', [Get]),
      (''NetworkInterfacesNetworkInterfaceIdNetworkDeviceFunctionsNetworkDeviceFunctionIdAllowDeny'', [Get, Post]),
      (''NetworkInterfacesNetworkInterfaceIdNetworkDeviceFunctionsNetworkDeviceFunctionIdAllowDenyAllowDenyId'', [Get, Put])]"

definition Stubs_CompositionService_22c :: "string list" where
  "Stubs_CompositionService_22c = methods at_root ''CompositionServiceResourceBlocksResourceBlockIdSystemsComputerSystemId''
     [(''NetworkInterfacesNetworkInterfaceIdNetworkDeviceFunctionsNetworkDeviceFunctionIdAllowDenyAllowDenyId'', [Delete, Patch]),
      (''NetworkInterfacesNetworkInterfaceIdNetworkPorts'', [Get]),
      (''NetworkInterfacesNetworkInterfaceIdPorts'', [Get])]"

definition Stubs_CompositionService_23a :: "string list" where
  "Stubs_CompositionService_23a = methods at_root ''CompositionServiceResourceBlocksResourceBlockIdSystemsComputerSystemIdOperatingSystem''
     [('''', [Get]),
      (''Applications'', [Get]),
      (''ApplicationsApplicationId'', [Get]),
      (''ApplicationsApplicationIdActionsApplicationReset'', [Post]),
      (''ContainerImages'', [Get]),
      (''ContainerImagesContainerImageId'', [Get]),
      (''Containers'', [Get]),
      (''ContainersEthernetInterfaces'', [Get, Post])]"

definition Stubs_CompositionService_23b :: "string list" where
  "Stubs_CompositionService_23b = methods at_root ''CompositionServiceResourceBlocksResourceBlockIdSystemsComputerSystemIdOperatingSystem''
     [(''ContainersEthernetInterfacesEthernetInterfaceId'', [Get, Put, Delete, Patch]),
      (''ContainersContainerId'', [Get]),
      (''ContainersContainerIdActionsContainerReset'', [Post])]"

definition Stubs_CompositionService_24a :: "string list" where
  "Stubs_CompositionService_24a = methods at_root ''CompositionServiceResourceBlocksResourceBlockIdSystemsComputerSystemId''
     [(''PCIeDevices'', [Get]),
      (''PCIeDevicesPCIeDeviceId'', [Get, Put, Patch]),
      (''PCIeDevicesPCIeDeviceIdEnvironmentMetrics'', [Get, Put, Patch]),
      (''PCIeDevicesPCIeDeviceIdEnvironmentMetricsActionsEnvironmentMetricsResetMetrics'', [Post])]"

definition Stubs_CompositionService_24b :: "string list" where
  "Stubs_CompositionService_24b = methods at_root ''CompositionServiceResourceBlocksResourceBlockIdSystemsComputerSystemId''
     [(''PCIeDevicesPCIeDeviceIdEnvironmentMetricsActionsEnvironmentMetricsResetToDefaults'', [Post]),
      (''PCIeDevicesPCIeDeviceIdPCIeFunctions'', [Get]),
      (''PCIeDevicesPCIeDeviceIdPCIeFunctionsPCIeFunctionId'', [Get, Put, Patch]),
      (''ProcessorSummaryProcessorMetrics'', [Get]),
      (''ProcessorSummaryProcessorMetricsActionsProcessorMetricsClearCurrentPeriod'', [Post]),
      (''Processors'', [Get])]"

definition Stubs_CompositionService_24c :: "string list" where
  "Stubs_CompositionService_24c = methods at_root ''CompositionServiceResourceBlocksResourceBlockIdSystemsComputerSystemId''
     [(''ProcessorsProcessorId'', [Get, Put, Patch]),
      (''ProcessorsProcessorIdAccelerationFunctions'', [Get]),
      (''ProcessorsProcessorIdAccelerationFunctionsAccelerationFunctionId'', [Get]),
      (''ProcessorsProcessorIdActionsProcessorReset'', [Post]),
      (''ProcessorsProcessorIdActionsProcessorResetToDefaults'', [Post]),
      (''ProcessorsProcessorIdAssembly'', [Get])]"

definition Stubs_CompositionService_24d :: "string list" where
  "Stubs_CompositionService_24d = methods at_root ''CompositionServiceResourceBlocksResourceBlockIdSystemsComputerSystemId''
     [(''ProcessorsProcessorIdAssembly'', [Put, Patch])]"

definition Stubs_CompositionService_25a :: "string list" where
  "Stubs_CompositionService_25a = methods at_root ''CompositionServiceResourceBlocksResourceBlockIdSystemsComputerSystemIdProcessorsProcessorId''
     [(''Certificates'', [Get, Post]),
      (''CertificatesCertificateId'', [Get, Put, Delete, Patch]),
      (''CertificatesCertificateIdActionsCertificateRekey'', [Post])]"

definition Stubs_CompositionService_25b :: "string list" where
  "Stubs_CompositionService_25b = methods at_root ''CompositionServiceResourceBlocksResourceBlockIdSystemsComputerSystemIdProcessorsProcessorId''
     [(''CertificatesCertificateIdActionsCertificateRenew'', [Post]),
      (''EnvironmentMetrics'', [Get, Put, Patch]),
      (''EnvironmentMetricsActionsEnvironmentMetricsResetMetrics'', [Post]),
      (''EnvironmentMetricsActionsEnvironmentMetricsResetToDefaults'', [Post]),
      (''MemorySummaryMemoryMetrics'', [Get])]"

definition Stubs_CompositionService_25c :: "string list" where
  "Stubs_CompositionService_25c = methods at_root ''CompositionServiceResourceBlocksResourceBlockIdSystemsComputerSystemIdProcessorsProcessorId''
     [(''MemorySummaryMemoryMetricsActionsMemoryMetricsClearCurrentPeriod'', [Post]),
      (''Ports'', [Get]),
      (''PortsPortId'', [Get, Put, Patch]),
      (''PortsPortIdActionsPortReset'', [Post]),
      (''PortsPortIdActionsPortResetPPB'', [Post]),
      (''PortsPortIdEnvironmentMetrics'', [Get])]"

definition Stubs_CompositionService_25d :: "string list" where
  "Stubs_CompositionService_25d = methods at_root ''CompositionServiceResourceBlocksResourceBlockIdSystemsComputerSystemIdProcessorsProcessorId''
     [(''PortsPortIdEnvironmentMetrics'', [Put, Patch]),
      (''PortsPortIdEnvironmentMetricsActionsEnvironmentMetricsResetMetrics'', [Post]),
      (''PortsPortIdEnvironmentMetricsActionsEnvironmentMetricsResetToDefaults'', [Post]),
      (''PortsPortIdMetrics'', [Get]),
      (''ProcessorMetrics'', [Get]),
      (''ProcessorMetricsActionsProcessorMetricsClearCurrentPeriod'', [Post]),
      (''SubProcessors'', [Get])]"

definition Stubs_CompositionService_26a :: "string list" where
  "Stubs_CompositionService_26a = methods at_root ''CompositionServiceResourceBlocksResourceBlockIdSystemsComputerSystemIdProcessorsProcessorIdSubProcessorsProcessorId2''
     [('''', [Get, Put, Patch]),
      (''ActionsProcessorReset'', [Post]),
      (''ActionsProcessorResetToDefaults'', [Post]),
      (''Assembly'', [Get, Put])]"

definition Stubs_CompositionService_26b :: "string list" where
  "Stubs_CompositionService_26b = methods at_root ''CompositionServiceResourceBlocksResourceBlockIdSystemsComputerSystemIdProcessorsProcessorIdSubProcessorsProcessorId2''
     [(''Assembly'', [Patch]),
      (''ProcessorMetrics'', [Get]),
      (''ProcessorMetricsActionsProcessorMetricsClearCurrentPeriod'', [Post]),
      (''SubProcessors'', [Get]),
      (''SubProcessorsProcessorId3'', [Get, Put, Patch]),
      (''SubProcessorsProcessorId3ActionsProcessorReset'', [Post])]"

definition Stubs_CompositionService_26c :: "string list" where
  "Stubs_CompositionService_26c = methods at_root ''CompositionServiceResourceBlocksResourceBlockIdSystemsComputerSystemIdProcessorsProcessorIdSubProcessorsProcessorId2''
     [(''SubProcessorsProcessorId3ActionsProcessorResetToDefaults'', [Post]),
      (''SubProcessorsProcessorId3Assembly'', [Get, Put, Patch]),
      (''SubProcessorsProcessorId3ProcessorMetrics'', [Get]),
      (''SubProcessorsProcessorId3ProcessorMetricsActionsProcessorMetricsClearCurrentPeriod'', [Post])]"

definition Stubs_CompositionService_27a :: "string list" where
  "Stubs_CompositionService_27a = methods at_root ''CompositionServiceResourceBlocksResourceBlockIdSystemsComputerSystemId''
     [(''SecureBoot'', [Get, Put, Patch]),
      (''SecureBootActionsSecureBootResetKeys'', [Post]),
      (''SecureBootSecureBootDatabases'', [Get]),
      (''SecureBootSecureBootDatabasesDatabaseId'', [Get]),
      (''SecureBootSecureBootDatabasesDatabaseIdActionsSecureBootDatabaseResetKeys'', [Post]),
      (''SecureBootSecureBootDatabasesDatabaseIdCertificates'', [Get])]"

definition Stubs_CompositionService_27b :: "string list" where
  "Stubs_CompositionService_27b = methods at_root ''CompositionServiceResourceBlocksResourceBlockIdSystemsComputerSystemId''
     [(''SecureBootSecureBootDatabasesDatabaseIdCertificates'', [Post]),
      (''SecureBootSecureBootDatabasesDatabaseIdCertificatesCertificateId'', [Get, Put, Delete, Patch]),
      (''SecureBootSecureBootDatabasesDatabaseIdCertificatesCertificateIdActionsCertificateRekey'', [Post]),
      (''SecureBootSecureBootDatabasesDatabaseIdCertificatesCertificateIdActionsCertificateRenew'', [Post])]"

definition Stubs_CompositionService_27c :: "string list" where
  "Stubs_CompositionService_27c = methods at_root ''CompositionServiceResourceBlocksResourceBlockIdSystemsComputerSystemId''
     [(''SecureBootSecureBootDatabasesDatabaseIdSignatures'', [Get, Post]),
      (''SecureBootSecureBootDatabasesDatabaseIdSignaturesSignatureId'', [Get, Delete]),
      (''SimpleStorage'', [Get]),
      (''SimpleStorageSimpleStorageId'', [Get]),
      (''Storage'', [Get]),
      (''StorageStorageId'', [Get, Put])]"

definition Stubs_CompositionService_27d :: "string list" where
  "Stubs_CompositionService_27d = methods at_root ''CompositionServiceResourceBlocksResourceBlockIdSystemsComputerSystemId''
     [(''StorageStorageId'', [Patch]),
      (''StorageStorageIdActionsStorageResetToDefaults'', [Post]),
      (''StorageStorageIdActionsStorageSetEncryptionKey'', [Post]),
      (''StorageStorageIdControllers'', [Get])]"

definition Stubs_CompositionService_28a :: "string list" where
  "Stubs_CompositionService_28a = methods at_root ''CompositionServiceResourceBlocksResourceBlockIdSystemsComputerSystemIdStorageStorageIdControllersControllerId''
     [('''', [Get, Put, Patch]),
      (''ActionsStorageControllerAttachNamespaces'', [Post]),
      (''ActionsStorageControllerDetachNamespaces'', [Post]),
      (''ActionsStorageControllerSecurityReceive'', [Post]),
      (''ActionsStorageControllerSecuritySend'', [Post])]"

definition Stubs_CompositionService_28b :: "string list" where
  "Stubs_CompositionService_28b = methods at_root ''CompositionServiceResourceBlocksResourceBlockIdSystemsComputerSystemIdStorageStorageIdControllersControllerId''
     [(''EnvironmentMetrics'', [Get, Put, Patch]),
      (''EnvironmentMetricsActionsEnvironmentMetricsResetMetrics'', [Post]),
      (''EnvironmentMetricsActionsEnvironmentMetricsResetToDefaults'', [Post]),
      (''Metrics'', [Get])]"

definition Stubs_CompositionService_29a :: "string list" where
  "Stubs_CompositionService_29a = methods at_root ''CompositionServiceResourceBlocksResourceBlockIdSystemsComputerSystemIdStorageStorageIdControllersStorageControllerId''
     [(''Assembly'', [Get, Put, Patch]),
      (''Certificates'', [Get, Post]),
      (''CertificatesCertificateId'', [Get, Put, Delete])]"

definition Stubs_CompositionService_29b :: "string list" where
  "Stubs_CompositionService_29b = methods at_root ''CompositionServiceResourceBlocksResourceBlockIdSystemsComputerSystemIdStorageStorageIdControllersStorageControllerId''
     [(''CertificatesCertificateId'', [Patch]),
      (''CertificatesCertificateIdActionsCertificateRekey'', [Post]),
      (''CertificatesCertificateIdActionsCertificateRenew'', [Post]),
      (''Ports'', [Get]),
      (''PortsPortId'', [Get, Put, Patch])]"

definition Stubs_CompositionService_29c :: "string list" where
  "Stubs_CompositionService_29c = methods at_root ''CompositionServiceResourceBlocksResourceBlockIdSystemsComputerSystemIdStorageStorageIdControllersStorageControllerId''
     [(''PortsPortIdActionsPortReset'', [Post]),
      (''PortsPortIdActionsPortResetPPB'', [Post]),
      (''PortsPortIdEnvironmentMetrics'', [Get, Put, Patch]),
      (''PortsPortIdEnvironmentMetricsActionsEnvironmentMetricsResetMetrics'', [Post]),
      (''PortsPortIdEnvironmentMetricsActionsEnvironmentMetricsResetToDefaults'', [Post])]"

definition Stubs_CompositionService_29d :: "string list" where
  "Stubs_CompositionService_29d = methods at_root ''CompositionServiceResourceBlocksResourceBlockIdSystemsComputerSystemIdStorageStorageIdControllersStorageControllerId''
     [(''PortsPortIdMetrics'', [Get])]"

definition Stubs_CompositionService_30a :: "string list" where
  "Stubs_CompositionService_30a = methods at_root ''CompositionServiceResourceBlocksResourceBlockIdSystemsComputerSystemIdStorageStorageIdDrivesDriveId''
     [('''', [Get, Put, Patch]),
      (''ActionsDriveReset'', [Post]),
      (''ActionsDriveRevertToOriginalFactoryState'', [Post]),
      (''ActionsDriveSecureErase'', [Post]),
      (''Assembly'', [Get])]"

definition Stubs_CompositionService_30b :: "string list" where
  "Stubs_CompositionService_30b = methods at_root ''CompositionServiceResourceBlocksResourceBlockIdSystemsComputerSystemIdStorageStorageIdDrivesDriveId''
     [(''Assembly'', [Put, Patch]),
      (''Certificates'', [Get, Post]),
      (''CertificatesCertificateId'', [Get, Put, Delete, Patch])]"

definition Stubs_CompositionService_30c :: "string list" where
  "Stubs_CompositionService_30c = methods at_root ''CompositionServiceResourceBlocksResourceBlockIdSystemsComputerSystemIdStorageStorageIdDrivesDriveId''
     [(''CertificatesCertificateIdActionsCertificateRekey'', [Post]),
      (''CertificatesCertificateIdActionsCertificateRenew'', [Post]),
      (''EnvironmentMetrics'', [Get, Put, Patch]),
      (''EnvironmentMetricsActionsEnvironmentMetricsResetMetrics'', [Post]),
      (''EnvironmentMetricsActionsEnvironmentMetricsResetToDefaults'', [Post])]"

definition Stubs_CompositionService_30d :: "string list" where
  "Stubs_CompositionService_30d = methods at_root ''CompositionServiceResourceBlocksResourceBlockIdSystemsComputerSystemIdStorageStorageIdDrivesDriveId''
     [(''Metrics'', [Get])]"

definition Stubs_CompositionService_31a :: "string list" where
  "Stubs_CompositionService_31a = methods at_root ''CompositionServiceResourceBlocksResourceBlockIdSystemsComputerSystemIdStorageStorageIdStorageControllersStorageControllerId''
     [(''Assembly'', [Get, Put, Patch]),
      (''Certificates'', [Get, Post]),
      (''CertificatesCertificateId'', [Get, Put, Delete])]"

definition Stubs_CompositionService_31b :: "string list" where
  "Stubs_CompositionService_31b = methods at_root ''CompositionServiceResourceBlocksResourceBlockIdSystemsComputerSystemIdStorageStorageIdStorageControllersStorageControllerId''
     [(''CertificatesCertificateId'', [Patch]),
      (''CertificatesCertificateIdActionsCertificateRekey'', [Post]),
      (''CertificatesCertificateIdActionsCertificateRenew'', [Post]),
      (''Ports'', [Get]),
      (''PortsPortId'', [Get, Put, Patch])]"

definition Stubs_CompositionService_31c :: "string list" where
  "Stubs_CompositionService_31c = methods at_root ''CompositionServiceResourceBlocksResourceBlockIdSystemsComputerSystemIdStorageStorageIdStorageControllersStorageControllerId''
     [(''PortsPortIdActionsPortReset'', [Post]),
      (''PortsPortIdActionsPortResetPPB'', [Post]),
      (''PortsPortIdEnvironmentMetrics'', [Get, Put, Patch]),
      (''PortsPortIdEnvironmentMetricsActionsEnvironmentMetricsResetMetrics'', [Post]),
      (''PortsPortIdEnvironmentMetricsActionsEnvironmentMetricsResetToDefaults'', [Post])]"

definition Stubs_CompositionService_31d :: "string list" where
  "Stubs_CompositionService_31d = methods at_root ''CompositionServiceResourceBlocksResourceBlockIdSystemsComputerSystemIdStorageStorageIdStorageControllersStorageControllerId''
     [(''PortsPortIdMetrics'', [Get])]"

definition Stubs_CompositionService_32a :: "string list" where
  "Stubs_CompositionService_32a = methods at_root ''CompositionServiceResourceBlocksResourceBlockIdSystemsComputerSystemIdStorageStorageIdVolumes''
     [('''', [Get, Post]),
      (''VolumeId'', [Get, Put, Delete, Patch]),
      (''VolumeIdActionsVolumeAssignReplicaTarget'', [Post])]"

definition Stubs_CompositionService_32b :: "string list" where
  "Stubs_CompositionService_32b = methods at_root ''CompositionServiceResourceBlocksResourceBlockIdSystemsComputerSystemIdStorageStorageIdVolumes''
     [(''VolumeIdActionsVolumeChangeRAIDLayout'', [Post]),
      (''VolumeIdActionsVolumeCheckConsistency'', [Post]),
      (''VolumeIdActionsVolumeCreateReplicaTarget'', [Post]),
      (''VolumeIdActionsVolumeForceEnable'', [Post]),
      (''VolumeIdActionsVolumeInitialize'', [Post]),
      (''VolumeIdActionsVolumeRemoveReplicaRelationship'', [Post])]"

definition Stubs_CompositionService_32c :: "string list" where
  "Stubs_CompositionService_32c = methods at_root ''CompositionServiceResourceBlocksResourceBlockIdSystemsComputerSystemIdStorageStorageIdVolumes''
     [(''VolumeIdActionsVolumeResumeReplication'', [Post]),
      (''VolumeIdActionsVolumeReverseReplicationRelationship'', [Post]),
      (''VolumeIdActionsVolumeSplitReplication'', [Post]),
      (''VolumeIdActionsVolumeSuspendReplication'', [Post])]"

definition Stubs_CompositionService_33a :: "string list" where
  "Stubs_CompositionService_33a = methods at_root ''CompositionServiceResourceBlocksResourceBlockIdSystemsComputerSystemIdUSBControllersControllerIdPorts''
     [('''', [Get]),
      (''PortId'', [Get, Put, Patch]),
      (''PortIdActionsPortReset'', [Post]),
      (''PortIdActionsPortResetPPB'', [Post]),
      (''PortIdEnvironmentMetrics'', [Get, Put])]"

definition Stubs_CompositionService_33b :: "string list" where
  "Stubs_CompositionService_33b = methods at_root ''CompositionServiceResourceBlocksResourceBlockIdSystemsComputerSystemIdUSBControllersControllerIdPorts''
     [(''PortIdEnvironmentMetrics'', [Patch]),
      (''PortIdEnvironmentMetricsActionsEnvironmentMetricsResetMetrics'', [Post]),
      (''PortIdEnvironmentMetricsActionsEnvironmentMetricsResetToDefaults'', [Post]),
      (''PortIdMetrics'', [Get])]"

definition Stubs_CompositionService_34a :: "string list" where
  "Stubs_CompositionService_34a = methods at_root ''CompositionServiceResourceBlocksResourceBlockIdSystemsComputerSystemIdVirtualMedia''
     [('''', [Get]),
      (''VirtualMediaId'', [Get, Put, Patch]),
      (''VirtualMediaIdActionsVirtualMediaEjectMedia'', [Post]),
      (''VirtualMediaIdActionsVirtualMediaInsertMedia'', [Post]),
      (''VirtualMediaIdCertificates'', [Get, Post])]"

definition Stubs_CompositionService_34b :: "string list" where
  "Stubs_CompositionService_34b = methods at_root ''CompositionServiceResourceBlocksResourceBlockIdSystemsComputerSystemIdVirtualMedia''
     [(''VirtualMediaIdCertificatesCertificateId'', [Get, Put, Delete, Patch]),
      (''VirtualMediaIdCertificatesCertificateIdActionsCertificateRekey'', [Post]),
      (''VirtualMediaIdCertificatesCertificateIdActionsCertificateRenew'', [Post]),
      (''VirtualMediaIdClientCertificates'', [Get])]"

definition Stubs_CompositionService_34c :: "string list" where
  "Stubs_CompositionService_34c = methods at_root ''CompositionServiceResourceBlocksResourceBlockIdSystemsComputerSystemIdVirtualMedia''
     [(''VirtualMediaIdClientCertificates'', [Post]),
      (''VirtualMediaIdClientCertificatesCertificateId'', [Get, Put, Delete, Patch]),
      (''VirtualMediaIdClientCertificatesCertificateIdActionsCertificateRekey'', [Post]),
      (''VirtualMediaIdClientCertificatesCertificateIdActionsCertificateRenew'', [Post])]"

definition Stubs_CompositionService_35a :: "string list" where
  "Stubs_CompositionService_35a = methods at_root ''CompositionServiceResourceBlocksResourceBlockIdSystemsSystemIdFabricAdaptersFabricAdapterId''
     [(''GenZREQVCAT'', [Get, Post]),
      (''GenZREQVCATVCATEntryId'', [Get, Put, Delete, Patch]),
      (''GenZRSPVCAT'', [Get, Post])]"

definition Stubs_CompositionService_35b :: "string list" where
  "Stubs_CompositionService_35b = methods at_root ''CompositionServiceResourceBlocksResourceBlockIdSystemsSystemIdFabricAdaptersFabricAdapterId''
     [(''GenZRSPVCATVCATEntryId'', [Get, Put, Delete, Patch]),
      (''PortsPortIdGenZVCAT'', [Get, Post]),
      (''PortsPortIdGenZVCATVCATEntryId'', [Get, Put])]"

definition Stubs_CompositionService_35c :: "string list" where
  "Stubs_CompositionService_35c = methods at_root ''CompositionServiceResourceBlocksResourceBlockIdSystemsSystemIdFabricAdaptersFabricAdapterId''
     [(''PortsPortIdGenZVCATVCATEntryId'', [Delete, Patch]),
      (''PortsPortIdVCAT'', [Get, Post]),
      (''PortsPortIdVCATVCATEntryId'', [Get, Put, Delete])]"

definition Stubs_CompositionService_35d :: "string list" where
  "Stubs_CompositionService_35d = methods at_root ''CompositionServiceResourceBlocksResourceBlockIdSystemsSystemIdFabricAdaptersFabricAdapterId''
     [(''PortsPortIdVCATVCATEntryId'', [Patch]),
      (''REQVCAT'', [Get, Post]),
      (''REQVCATVCATEntryId'', [Get, Put, Delete, Patch])]"

definition Stubs_CompositionService_36a :: "string list" where
  "Stubs_CompositionService_36a = methods at_root ''CompositionService''
     [(''ResourceBlocksResourceBlockIdSystemsSystemIdFabricAdaptersFabricAdapterIdRSPVCAT'', [Get, Post]),
      (''ResourceBlocksResourceBlockIdSystemsSystemIdFabricAdaptersFabricAdapterIdRSPVCATVCATEntryId'', [Get, Put, Delete, Patch]),
      (''ResourceZones'', [Get, Post])]"

definition Stubs_CompositionService_36b :: "string list" where
  "Stubs_CompositionService_36b = methods at_root ''CompositionService''
     [(''ResourceZonesZoneId'', [Get, Put, Delete, Patch]),
      (''ResourceZonesZoneIdActionsZoneAddEndpoint'', [Post]),
      (''ResourceZonesZoneIdActionsZoneRemoveEndpoint'', [Post])]"

definition composition_stubs :: "string list" where
  "composition_stubs = concat
     [concat [Stubs_CompositionService_1a, Stubs_CompositionService_1b, Stubs_CompositionService_1c],
      concat [Stubs_CompositionService_2a, Stubs_CompositionService_2b, Stubs_CompositionService_2c,
        Stubs_CompositionService_2d],
      concat [Stubs_CompositionService_3a, Stubs_CompositionService_3b],
      concat [Stubs_CompositionService_4a, Stubs_CompositionService_4b, Stubs_CompositionService_4c,
        Stubs_CompositionService_4d, Stubs_CompositionService_4e],
      concat [Stubs_CompositionService_5a, Stubs_CompositionService_5b],
      concat [Stubs_CompositionService_6a, Stubs_CompositionService_6b, Stubs_CompositionService_6c,
        Stubs_CompositionService_6d],
      concat [Stubs_CompositionService_7a, Stubs_CompositionService_7b],
      concat [Stubs_CompositionService_8a, Stubs_CompositionService_8b, Stubs_CompositionService_8c],
      concat [Stubs_CompositionService_9a],
      concat [Stubs_CompositionService_10a, Stubs_CompositionService_10b],
      concat [Stubs_CompositionService_11a, Stubs_CompositionService_11b, Stubs_CompositionService_11c,
        Stubs_CompositionService_11d],
      concat [Stubs_CompositionService_12a, Stubs_CompositionService_12b, Stubs_CompositionService_12c,
        Stubs_CompositionService_12d],
      concat [Stubs_CompositionService_13a, Stubs_CompositionService_13b, Stubs_CompositionService_13c,
        Stubs_CompositionService_13d],
      concat [Stubs_CompositionService_14a, Stubs_CompositionService_14b, Stubs_CompositionService_14c],
      concat [Stubs_CompositionService_15a, Stubs_CompositionService_15b, Stubs_CompositionService_15c,
        Stubs_CompositionService_15d, Stubs_CompositionService_15e],
      concat [Stubs_CompositionService_16a, Stubs_CompositionService_16b, Stubs_CompositionService_16c,
        Stubs_CompositionService_16d],
      concat [Stubs_CompositionService_17a, Stubs_CompositionService_17b, Stubs_CompositionService_17c,
        Stubs_CompositionService_17d],
      concat [Stubs_CompositionService_18a, Stubs_CompositionService_18b, Stubs_CompositionService_18c,
        Stubs_CompositionService_18d],
      concat [Stubs_CompositionService_19a, Stubs_CompositionService_19b],
      concat [Stubs_CompositionService_20a, Stubs_CompositionService_20b, Stubs_CompositionService_20c,
        Stubs_CompositionService_20d],
      concat [Stubs_CompositionService_21a, Stubs_CompositionService_21b, Stubs_CompositionService_21c,
        Stubs_CompositionService_21d, Stubs_CompositionService_21e],
      concat [Stubs_CompositionService_22a, Stubs_CompositionService_22b, Stubs_CompositionService_22c],
      concat [Stubs_CompositionService_23a, Stubs_CompositionService_23b],
      concat [Stubs_CompositionService_24a, Stubs_CompositionService_24b, Stubs_CompositionService_24c,
        Stubs_CompositionService_24d],
      concat [Stubs_CompositionService_25a, Stubs_CompositionService_25b, Stubs_CompositionService_25c,
        Stubs_CompositionService_25d],
      concat [Stubs_CompositionService_26a, Stubs_CompositionService_26b, Stubs_CompositionService_26c],
      concat [Stubs_CompositionService_27a, Stubs_CompositionService_27b, Stubs_CompositionService_27c,
        Stubs_CompositionService_27d],
      concat [Stubs_CompositionService_28a, Stubs_CompositionService_28b],
      concat [Stubs_CompositionService_29a, Stubs_CompositionService_29b, Stubs_CompositionService_29c,
        Stubs_CompositionService_29d],
      concat [Stubs_CompositionService_30a, Stubs_CompositionService_30b, Stubs_CompositionService_30c,
        Stubs_CompositionService_30d],
      concat [Stubs_CompositionService_31a, Stubs_CompositionService_31b, Stubs_CompositionService_31c,
        Stubs_CompositionService_31d],
      concat [Stubs_CompositionService_32a, Stubs_CompositionService_32b, Stubs_CompositionService_32c],
      concat [Stubs_CompositionService_33a, Stubs_CompositionService_33b],
      concat [Stubs_CompositionService_34a, Stubs_CompositionService_34b, Stubs_CompositionService_34c],
      concat [Stubs_CompositionService_35a, Stubs_CompositionService_35b, Stubs_CompositionService_35c,
        Stubs_CompositionService_35d],
      concat [Stubs_CompositionService_36a, Stubs_CompositionService_36b]]"

lemma CompositionService_1_covered:
  "covered Routes_CompositionService_1
     (concat [Stubs_CompositionService_1a, Stubs_CompositionService_1b, Stubs_CompositionService_1c])"
  unfolding Routes_CompositionService_1_def Stubs_CompositionService_1a_def Stubs_CompositionService_1b_def
    Stubs_CompositionService_1c_def
  by (rule covering)+

lemma CompositionService_2_covered:
  "covered Routes_CompositionService_2
     (concat [Stubs_CompositionService_2a, Stubs_CompositionService_2b, Stubs_CompositionService_2c,
        Stubs_CompositionService_2d])"
  unfolding Routes_CompositionService_2_def Stubs_CompositionService_2a_def Stubs_CompositionService_2b_def
    Stubs_CompositionService_2c_def Stubs_CompositionService_2d_def
  by (rule covering)+

lemma CompositionService_3_covered:
  "covered Routes_CompositionService_3
     (concat [Stubs_CompositionService_3a, Stubs_CompositionService_3b])"
  unfolding Routes_CompositionService_3_def Stubs_CompositionService_3a_def Stubs_CompositionService_3b_def
  by (rule covering)+

lemma CompositionService_4_covered:
  "covered Routes_CompositionService_4
     (concat [Stubs_CompositionService_4a, Stubs_CompositionService_4b, Stubs_CompositionService_4c,
        Stubs_CompositionService_4d, Stubs_CompositionService_4e])"
  unfolding Routes_CompositionService_4_def Stubs_CompositionService_4a_def Stubs_CompositionService_4b_def
    Stubs_CompositionService_4c_def Stubs_CompositionService_4d_def Stubs_CompositionService_4e_def
  by (rule covering)+

lemma CompositionService_5_covered:
  "covered Routes_CompositionService_5
     (concat [Stubs_CompositionService_5a, Stubs_CompositionService_5b])"
  unfolding Routes_CompositionService_5_def Stubs_CompositionService_5a_def Stubs_CompositionService_5b_def
  by (rule covering)+

lemma CompositionService_6_covered:
  "covered Routes_CompositionService_6
     (concat [Stubs_CompositionService_6a, Stubs_CompositionService_6b, Stubs_CompositionService_6c,
        Stubs_CompositionService_6d])"
  unfolding Routes_CompositionService_6_def Stubs_CompositionService_6a_def Stubs_CompositionService_6b_def
    Stubs_CompositionService_6c_def Stubs_CompositionService_6d_def
  by (rule covering)+

lemma CompositionService_7_covered:
  "covered Routes_CompositionService_7
     (concat [Stubs_CompositionService_7a, Stubs_CompositionService_7b])"
  unfolding Routes_CompositionService_7_def Stubs_CompositionService_7a_def Stubs_CompositionService_7b_def
  by (rule covering)+

lemma CompositionService_8_covered:
  "covered Routes_CompositionService_8
     (concat [Stubs_CompositionService_8a, Stubs_CompositionService_8b, Stubs_CompositionService_8c])"
  unfolding Routes_CompositionService_8_def Stubs_CompositionService_8a_def Stubs_CompositionService_8b_def
    Stubs_CompositionService_8c_def
  by (rule covering)+

lemma CompositionService_9_covered:
  "covered Routes_CompositionService_9
     (concat [Stubs_CompositionService_9a])"
  unfolding Routes_CompositionService_9_def Stubs_CompositionService_9a_def
  by (rule covering)+

lemma CompositionService_10_covered:
  "covered Routes_CompositionService_10
     (concat [Stubs_CompositionService_10a, Stubs_CompositionService_10b])"
  unfolding Routes_CompositionService_10_def Stubs_CompositionService_10a_def Stubs_CompositionService_10b_def
  by (rule covering)+

lemma CompositionService_11_covered:
  "covered Routes_CompositionService_11
     (concat [Stubs_CompositionService_11a, Stubs_CompositionService_11b, Stubs_CompositionService_11c,
        Stubs_CompositionService_11d])"
  unfolding Routes_CompositionService_11_def Stubs_CompositionService_11a_def Stubs_CompositionService_11b_def
    Stubs_CompositionService_11c_def Stubs_CompositionService_11d_def
  by (rule covering)+

lemma CompositionService_12_covered:
  "covered Routes_CompositionService_12
     (concat [Stubs_CompositionService_12a, Stubs_CompositionService_12b, Stubs_CompositionService_12c,
        Stubs_CompositionService_12d])"
  unfolding Routes_CompositionService_12_def Stubs_CompositionService_12a_def Stubs_CompositionService_12b_def
    Stubs_CompositionService_12c_def Stubs_CompositionService_12d_def
  by (rule covering)+

lemma CompositionService_13_covered:
  "covered Routes_CompositionService_13
     (concat [Stubs_CompositionService_13a, Stubs_CompositionService_13b, Stubs_CompositionService_13c,
        Stubs_CompositionService_13d])"
  unfolding Routes_CompositionService_13_def Stubs_CompositionService_13a_def Stubs_CompositionService_13b_def
    Stubs_CompositionService_13c_def Stubs_CompositionService_13d_def
  by (rule covering)+

lemma CompositionService_14_covered:
  "covered Routes_CompositionService_14
     (concat [Stubs_CompositionService_14a, Stubs_CompositionService_14b, Stubs_CompositionService_14c])"
  unfolding Routes_CompositionService_14_def Stubs_CompositionService_14a_def Stubs_CompositionService_14b_def
    Stubs_CompositionService_14c_def
  by (rule covering)+

lemma CompositionService_15_covered:
  "covered Routes_CompositionService_15
     (concat [Stubs_CompositionService_15a, Stubs_CompositionService_15b, Stubs_CompositionService_15c,
        Stubs_CompositionService_15d, Stubs_CompositionService_15e])"
  unfolding Routes_CompositionService_15_def Stubs_CompositionService_15a_def Stubs_CompositionService_15b_def
    Stubs_CompositionService_15c_def Stubs_CompositionService_15d_def Stubs_CompositionService_15e_def
  by (rule covering)+

lemma CompositionService_16_covered:
  "covered Routes_CompositionService_16
     (concat [Stubs_CompositionService_16a, Stubs_CompositionService_16b, Stubs_CompositionService_16c,
        Stubs_CompositionService_16d])"
  unfolding Routes_CompositionService_16_def Stubs_CompositionService_16a_def Stubs_CompositionService_16b_def
    Stubs_CompositionService_16c_def Stubs_CompositionService_16d_def
  by (rule covering)+

lemma CompositionService_17_covered:
  "covered Routes_CompositionService_17
     (concat [Stubs_CompositionService_17a, Stubs_CompositionService_17b, Stubs_CompositionService_17c,
        Stubs_CompositionService_17d])"
  unfolding Routes_CompositionService_17_def Stubs_CompositionService_17a_def Stubs_CompositionService_17b_def
    Stubs_CompositionService_17c_def Stubs_CompositionService_17d_def
  by (rule covering)+

lemma CompositionService_18_covered:
  "covered Routes_CompositionService_18
     (concat [Stubs_CompositionService_18a, Stubs_CompositionService_18b, Stubs_CompositionService_18c,
        Stubs_CompositionService_18d])"
  unfolding Routes_CompositionService_18_def Stubs_CompositionService_18a_def Stubs_CompositionService_18b_def
    Stubs_CompositionService_18c_def Stubs_CompositionService_18d_def
  by (rule covering)+

lemma CompositionService_19_covered:
  "covered Routes_CompositionService_19
     (concat [Stubs_CompositionService_19a, Stubs_CompositionService_19b])"
  unfolding Routes_CompositionService_19_def Stubs_CompositionService_19a_def Stubs_CompositionService_19b_def
  by (rule covering)+

lemma CompositionService_20_covered:
  "covered Routes_CompositionService_20
     (concat [Stubs_CompositionService_20a, Stubs_CompositionService_20b, Stubs_CompositionService_20c,
        Stubs_CompositionService_20d])"
  unfolding Routes_CompositionService_20_def Stubs_CompositionService_20a_def Stubs_CompositionService_20b_def
    Stubs_CompositionService_20c_def Stubs_CompositionService_20d_def
  by (rule covering)+

lemma CompositionService_21_covered:
  "covered Routes_CompositionService_21
     (concat [Stubs_CompositionService_21a, Stubs_CompositionService_21b, Stubs_CompositionService_21c,
        Stubs_CompositionService_21d, Stubs_CompositionService_21e])"
  unfolding Routes_CompositionService_21_def Stubs_CompositionService_21a_def Stubs_CompositionService_21b_def
    Stubs_CompositionService_21c_def Stubs_CompositionService_21d_def Stubs_CompositionService_21e_def
  by (rule covering)+

lemma CompositionService_22_covered:
  "covered Routes_CompositionService_22
     (concat [Stubs_CompositionService_22a, Stubs_CompositionService_22b, Stubs_CompositionService_22c])"
  unfolding Routes_CompositionService_22_def Stubs_CompositionService_22a_def Stubs_CompositionService_22b_def
    Stubs_CompositionService_22c_def
  by (rule covering)+

lemma CompositionService_23_covered:
  "covered Routes_CompositionService_23
     (concat [Stubs_CompositionService_23a, Stubs_CompositionService_23b])"
  unfolding Routes_CompositionService_23_def Stubs_CompositionService_23a_def Stubs_CompositionService_23b_def
  by (rule covering)+

lemma CompositionService_24_covered:
  "covered Routes_CompositionService_24
     (concat [Stubs_CompositionService_24a, Stubs_CompositionService_24b, Stubs_CompositionService_24c,
        Stubs_CompositionService_24d])"
  unfolding Routes_CompositionService_24_def Stubs_CompositionService_24a_def Stubs_CompositionService_24b_def
    Stubs_CompositionService_24c_def Stubs_CompositionService_24d_def
  by (rule covering)+

lemma CompositionService_25_covered:
  "covered Routes_CompositionService_25
     (concat [Stubs_CompositionService_25a, Stubs_CompositionService_25b, Stubs_CompositionService_25c,
        Stubs_CompositionService_25d])"
  unfolding Routes_CompositionService_25_def Stubs_CompositionService_25a_def Stubs_CompositionService_25b_def
    Stubs_CompositionService_25c_def Stubs_CompositionService_25d_def
  by (rule covering)+

lemma CompositionService_26_covered:
  "covered Routes_CompositionService_26
     (concat [Stubs_CompositionService_26a, Stubs_CompositionService_26b, Stubs_CompositionService_26c])"
  unfolding Routes_CompositionService_26_def Stubs_CompositionService_26a_def Stubs_CompositionService_26b_def
    Stubs_CompositionService_26c_def
  by (rule covering)+

lemma CompositionService_27_covered:
  "covered Routes_CompositionService_27
     (concat [Stubs_CompositionService_27a, Stubs_CompositionService_27b, Stubs_CompositionService_27c,
        Stubs_CompositionService_27d])"
  unfolding Routes_CompositionService_27_def Stubs_CompositionService_27a_def Stubs_CompositionService_27b_def
    Stubs_CompositionService_27c_def Stubs_CompositionService_27d_def
  by (rule covering)+

lemma CompositionService_28_covered:
  "covered Routes_CompositionService_28
     (concat [Stubs_CompositionService_28a, Stubs_CompositionService_28b])"
  unfolding Routes_CompositionService_28_def Stubs_CompositionService_28a_def Stubs_CompositionService_28b_def
  by (rule covering)+

lemma CompositionService_29_covered:
  "covered Routes_CompositionService_29
     (concat [Stubs_CompositionService_29a, Stubs_CompositionService_29b, Stubs_CompositionService_29c,
        Stubs_CompositionService_29d])"
  unfolding Routes_CompositionService_29_def Stubs_CompositionService_29a_def Stubs_CompositionService_29b_def
    Stubs_CompositionService_29c_def Stubs_CompositionService_29d_def
  by (rule covering)+

lemma CompositionService_30_covered:
  "covered Routes_CompositionService_30
     (concat [Stubs_CompositionService_30a, Stubs_CompositionService_30b, Stubs_CompositionService_30c,
        Stubs_CompositionService_30d])"
  unfolding Routes_CompositionService_30_def Stubs_CompositionService_30a_def Stubs_CompositionService_30b_def
    Stubs_CompositionService_30c_def Stubs_CompositionService_30d_def
  by (rule covering)+

lemma CompositionService_31_covered:
  "covered Routes_CompositionService_31
     (concat [Stubs_CompositionService_31a, Stubs_CompositionService_31b, Stubs_CompositionService_31c,
        Stubs_CompositionService_31d])"
  unfolding Routes_CompositionService_31_def Stubs_CompositionService_31a_def Stubs_CompositionService_31b_def
    Stubs_CompositionService_31c_def Stubs_CompositionService_31d_def
  by (rule covering)+

lemma CompositionService_32_covered:
  "covered Routes_CompositionService_32
     (concat [Stubs_CompositionService_32a, Stubs_CompositionService_32b, Stubs_CompositionService_32c])"
  unfolding Routes_CompositionService_32_def Stubs_CompositionService_32a_def Stubs_CompositionService_32b_def
    Stubs_CompositionService_32c_def
  by (rule covering)+

lemma CompositionService_33_covered:
  "covered Routes_CompositionService_33
     (concat [Stubs_CompositionService_33a, Stubs_CompositionService_33b])"
  unfolding Routes_CompositionService_33_def Stubs_CompositionService_33a_def Stubs_CompositionService_33b_def
  by (rule covering)+

lemma CompositionService_34_covered:
  "covered Routes_CompositionService_34
     (concat [Stubs_CompositionService_34a, Stubs_CompositionService_34b, Stubs_CompositionService_34c])"
  unfolding Routes_CompositionService_34_def Stubs_CompositionService_34a_def Stubs_CompositionService_34b_def
    Stubs_CompositionService_34c_def
  by (rule covering)+

lemma CompositionService_35_covered:
  "covered Routes_CompositionService_35
     (concat [Stubs_CompositionService_35a, Stubs_CompositionService_35b, Stubs_CompositionService_35c,
        Stubs_CompositionService_35d])"
  unfolding Routes_CompositionService_35_def Stubs_CompositionService_35a_def Stubs_CompositionService_35b_def
    Stubs_CompositionService_35c_def Stubs_CompositionService_35d_def
  by (rule covering)+

lemma CompositionService_36_covered:
  "covered Routes_CompositionService_36
     (concat [Stubs_CompositionService_36a, Stubs_CompositionService_36b])"
  unfolding Routes_CompositionService_36_def Stubs_CompositionService_36a_def Stubs_CompositionService_36b_def
  by (rule covering)+

lemma composition_covered: "covered composition_routes composition_stubs"
  unfolding composition_routes_def composition_stubs_def
  by (intro covered_concat
    CompositionService_1_covered CompositionService_2_covered CompositionService_3_covered
    CompositionService_4_covered CompositionService_5_covered CompositionService_6_covered
    CompositionService_7_covered CompositionService_8_covered CompositionService_9_covered
    CompositionService_10_covered CompositionService_11_covered CompositionService_12_covered
    CompositionService_13_covered CompositionService_14_covered CompositionService_15_covered
    CompositionService_16_covered CompositionService_17_covered CompositionService_18_covered
    CompositionService_19_covered CompositionService_20_covered CompositionService_21_covered
    CompositionService_22_covered CompositionService_23_covered CompositionService_24_covered
    CompositionService_25_covered CompositionService_26_covered CompositionService_27_covered
    CompositionService_28_covered CompositionService_29_covered CompositionService_30_covered
    CompositionService_31_covered CompositionService_32_covered CompositionService_33_covered
    CompositionService_34_covered CompositionService_35_covered CompositionService_36_covered)

end
