(* ===== verification/StubsBlocks.thy ===== *)
theory StubsBlocks
  imports RoutesBlocks ServiceMethods
begin

text \<open>
  The methods of the service (pkg/redfish/api_service.go) for the resource blocks that do nothing but
  answer 501 Not Implemented with their name, group by group of their routes.
\<close>

definition Stubs_ResourceBlocks_1a :: "string list" where
  "Stubs_ResourceBlocks_1a = methods at_root ''ResourceBlocks''
     [('''', [Get, Post]),
      (''ResourceBlockId'', [Get, Put, Delete, Patch])]"

definition Stubs_ResourceBlocks_2a :: "string list" where
  "Stubs_ResourceBlocks_2a = methods at_root ''ResourceBlocksResourceBlockIdDrivesDriveId''
     [('''', [Get, Put, Patch]),
      (''ActionsDriveReset'', [Post]),
      (''ActionsDriveRevertToOriginalFactoryState'', [Post]),
      (''ActionsDriveSecureErase'', [Post]),
      (''Assembly'', [Get])]"

definition Stubs_ResourceBlocks_2b :: "string list" where
  "Stubs_ResourceBlocks_2b = methods at_root ''ResourceBlocksResourceBlockIdDrivesDriveId''
     [(''Assembly'', [Put, Patch]),
      (''Certificates'', [Get, Post]),
      (''CertificatesCertificateId'', [Get, Put, Delete, Patch])]"

definition Stubs_ResourceBlocks_2c :: "string list" where
  "Stubs_ResourceBlocks_2c = methods at_root ''ResourceBlocksResourceBlockIdDrivesDriveId''
     [(''CertificatesCertificateIdActionsCertificateRekey'', [Post]),
      (''CertificatesCertificateIdActionsCertificateRenew'', [Post]),
      (''EnvironmentMetrics'', [Get, Put, Patch]),
      (''EnvironmentMetricsActionsEnvironmentMetricsResetMetrics'', [Post]),
      (''EnvironmentMetricsActionsEnvironmentMetricsResetToDefaults'', [Post])]"

definition Stubs_ResourceBlocks_2d :: "string list" where
  "Stubs_ResourceBlocks_2d = methods at_root ''ResourceBlocksResourceBlockIdDrivesDriveId''
     [(''Metrics'', [Get])]"

definition Stubs_ResourceBlocks_3a :: "string list" where
  "Stubs_ResourceBlocks_3a = methods at_root ''ResourceBlocksResourceBlockId''
     [(''EthernetInterfacesEthernetInterfaceId'', [Get, Put, Delete, Patch]),
      (''EthernetInterfacesEthernetInterfaceIdVLANs'', [Get, Post]),
      (''EthernetInterfacesEthernetInterfaceIdVLANsVLanNetworkInterfaceId'', [Get, Put])]"

definition Stubs_ResourceBlocks_3b :: "string list" where
  "Stubs_ResourceBlocks_3b = methods at_root ''ResourceBlocksResourceBlockId''
     [(''EthernetInterfacesEthernetInterfaceIdVLANsVLanNetworkInterfaceId'', [Delete, Patch]),
      (''MemoryMemoryId'', [Get, Put, Patch])]"

definition Stubs_ResourceBlocks_4a :: "string list" where
  "Stubs_ResourceBlocks_4a = methods at_root ''ResourceBlocksResourceBlockIdMemoryMemoryId''
     [(''ActionsMemoryDisableMasterPassphrase'', [Post]),
      (''ActionsMemoryDisablePassphrase'', [Post]),
      (''ActionsMemoryFreezeSecurityState'', [Post]),
      (''ActionsMemoryInjectPersistentPoison'', [Post]),
      (''ActionsMemoryOverwriteUnit'', [Post]),
      (''ActionsMemoryReset'', [Post])]"

definition Stubs_ResourceBlocks_4b :: "string list" where
  "Stubs_ResourceBlocks_4b = methods at_root ''ResourceBlocksResourceBlockIdMemoryMemoryId''
     [(''ActionsMemoryResetToDefaults'', [Post]),
      (''ActionsMemoryScanMedia'', [Post]),
      (''ActionsMemorySecureEraseUnit'', [Post]),
      (''ActionsMemorySetMasterPassphrase'', [Post]),
      (''ActionsMemorySetPassphrase'', [Post]),
      (''ActionsMemoryUnlockUnit'', [Post])]"

definition Stubs_ResourceBlocks_4c :: "string list" where
  "Stubs_ResourceBlocks_4c = methods at_root ''ResourceBlocksResourceBlockIdMemoryMemoryId''
     [(''Assembly'', [Get, Put, Patch]),
      (''Certificates'', [Get, Post]),
      (''CertificatesCertificateId'', [Get, Put, Delete])]"

definition Stubs_ResourceBlocks_4d :: "string list" where
  "Stubs_ResourceBlocks_4d = methods at_root ''ResourceBlocksResourceBlockIdMemoryMemoryId''
     [(''CertificatesCertificateId'', [Patch]),
      (''CertificatesCertificateIdActionsCertificateRekey'', [Post]),
      (''CertificatesCertificateIdActionsCertificateRenew'', [Post]),
      (''EnvironmentMetrics'', [Get, Put, Patch]),
      (''EnvironmentMetricsActionsEnvironmentMetricsResetMetrics'', [Post])]"

definition Stubs_ResourceBlocks_4e :: "string list" where
  "Stubs_ResourceBlocks_4e = methods at_root ''ResourceBlocksResourceBlockIdMemoryMemoryId''
     [(''EnvironmentMetricsActionsEnvironmentMetricsResetToDefaults'', [Post]),
      (''MemoryMetrics'', [Get]),
      (''MemoryMetricsActionsMemoryMetricsClearCurrentPeriod'', [Post])]"

definition Stubs_ResourceBlocks_5a :: "string list" where
  "Stubs_ResourceBlocks_5a = methods at_root ''ResourceBlocksResourceBlockIdNetworkInterfacesNetworkInterfaceId''
     [('''', [Get]),
      (''NetworkDeviceFunctions'', [Get]),
      (''NetworkDeviceFunctionsNetworkDeviceFunctionIdAllowDeny'', [Get, Post]),
      (''NetworkDeviceFunctionsNetworkDeviceFunctionIdAllowDenyAllowDenyId'', [Get, Put, Delete, Patch]),
      (''NetworkPorts'', [Get])]"

definition Stubs_ResourceBlocks_5b :: "string list" where
  "Stubs_ResourceBlocks_5b = methods at_root ''ResourceBlocksResourceBlockIdNetworkInterfacesNetworkInterfaceId''
     [(''Ports'', [Get])]"

definition Stubs_ResourceBlocks_6a :: "string list" where
  "Stubs_ResourceBlocks_6a = methods at_root ''ResourceBlocksResourceBlockIdProcessorsProcessorId''
     [('''', [Get, Put, Patch]),
      (''AccelerationFunctions'', [Get]),
      (''AccelerationFunctionsAccelerationFunctionId'', [Get]),
      (''ActionsProcessorReset'', [Post]),
      (''ActionsProcessorResetToDefaults'', [Post]),
      (''Assembly'', [Get])]"

definition Stubs_ResourceBlocks_6b :: "string list" where
  "Stubs_ResourceBlocks_6b = methods at_root ''ResourceBlocksResourceBlockIdProcessorsProcessorId''
     [(''Assembly'', [Put, Patch]),
      (''Certificates'', [Get, Post]),
      (''CertificatesCertificateId'', [Get, Put, Delete, Patch])]"

definition Stubs_ResourceBlocks_6c :: "string list" where
  "Stubs_ResourceBlocks_6c = methods at_root ''ResourceBlocksResourceBlockIdProcessorsProcessorId''
     [(''CertificatesCertificateIdActionsCertificateRekey'', [Post]),
      (''CertificatesCertificateIdActionsCertificateRenew'', [Post]),
      (''EnvironmentMetrics'', [Get, Put, Patch]),
      (''EnvironmentMetricsActionsEnvironmentMetricsResetMetrics'', [Post]),
      (''EnvironmentMetricsActionsEnvironmentMetricsResetToDefaults'', [Post])]"

definition Stubs_ResourceBlocks_6d :: "string list" where
  "Stubs_ResourceBlocks_6d = methods at_root ''ResourceBlocksResourceBlockIdProcessorsProcessorId''
     [(''MemorySummaryMemoryMetrics'', [Get]),
      (''MemorySummaryMemoryMetricsActionsMemoryMetricsClearCurrentPeriod'', [Post]),
      (''Ports'', [Get]),
      (''PortsPortId'', [Get, Put, Patch]),
      (''PortsPortIdActionsPortReset'', [Post])]"

definition Stubs_ResourceBlocks_7a :: "string list" where
  "Stubs_ResourceBlocks_7a = methods at_root ''ResourceBlocksResourceBlockIdProcessorsProcessorId''
     [(''PortsPortIdActionsPortResetPPB'', [Post]),
      (''PortsPortIdEnvironmentMetrics'', [Get, Put, Patch]),
      (''PortsPortIdEnvironmentMetricsActionsEnvironmentMetricsResetMetrics'', [Post]),
      (''PortsPortIdEnvironmentMetricsActionsEnvironmentMetricsResetToDefaults'', [Post]),
      (''PortsPortIdMetrics'', [Get]),
      (''ProcessorMetrics'', [Get])]"

definition Stubs_ResourceBlocks_7b :: "string list" where
  "Stubs_ResourceBlocks_7b = methods at_root ''ResourceBlocksResourceBlockIdProcessorsProcessorId''
     [(''ProcessorMetricsActionsProcessorMetricsClearCurrentPeriod'', [Post]),
      (''SubProcessors'', [Get])]"

definition Stubs_ResourceBlocks_8a :: "string list" where
  "Stubs_ResourceBlocks_8a = methods at_root ''ResourceBlocksResourceBlockIdProcessorsProcessorIdSubProcessorsProcessorId2''
     [('''', [Get, Put, Patch]),
      (''ActionsProcessorReset'', [Post]),
      (''ActionsProcessorResetToDefaults'', [Post]),
      (''Assembly'', [Get, Put])]"

definition Stubs_ResourceBlocks_8b :: "string list" where
  "Stubs_ResourceBlocks_8b = methods at_root ''ResourceBlocksResourceBlockIdProcessorsProcessorIdSubProcessorsProcessorId2''
     [(''Assembly'', [Patch]),
      (''ProcessorMetrics'', [Get]),
      (''ProcessorMetricsActionsProcessorMetricsClearCurrentPeriod'', [Post]),
      (''SubProcessors'', [Get]),
      (''SubProcessorsProcessorId3'', [Get, Put, Patch]),
      (''SubProcessorsProcessorId3ActionsProcessorReset'', [Post])]"

definition Stubs_ResourceBlocks_8c :: "string list" where
  "Stubs_ResourceBlocks_8c = methods at_root ''ResourceBlocksResourceBlockIdProcessorsProcessorIdSubProcessorsProcessorId2''
     [(''SubProcessorsProcessorId3ActionsProcessorResetToDefaults'', [Post]),
      (''SubProcessorsProcessorId3Assembly'', [Get, Put, Patch]),
      (''SubProcessorsProcessorId3ProcessorMetrics'', [Get]),
      (''SubProcessorsProcessorId3ProcessorMetricsActionsProcessorMetricsClearCurrentPeriod'', [Post])]"

definition Stubs_ResourceBlocks_9a :: "string list" where
  "Stubs_ResourceBlocks_9a = methods at_root ''ResourceBlocksResourceBlockId''
     [(''SimpleStorageSimpleStorageId'', [Get]),
      (''Storage'', [Get]),
      (''StorageStorageId'', [Get, Put, Patch]),
      (''StorageStorageIdActionsStorageResetToDefaults'', [Post]),
      (''StorageStorageIdActionsStorageSetEncryptionKey'', [Post]),
      (''StorageStorageIdControllers'', [Get])]"

definition Stubs_ResourceBlocks_10a :: "string list" where
  "Stubs_ResourceBlocks_10a = methods at_root ''ResourceBlocksResourceBlockIdStorageStorageIdControllersControllerId''
     [('''', [Get, Put, Patch]),
      (''ActionsStorageControllerAttachNamespaces'', [Post]),
      (''ActionsStorageControllerDetachNamespaces'', [Post]),
      (''ActionsStorageControllerSecurityReceive'', [Post]),
      (''ActionsStorageControllerSecuritySend'', [Post])]"

definition Stubs_ResourceBlocks_10b :: "string list" where
  "Stubs_ResourceBlocks_10b = methods at_root ''ResourceBlocksResourceBlockIdStorageStorageIdControllersControllerId''
     [(''EnvironmentMetrics'', [Get, Put, Patch]),
      (''EnvironmentMetricsActionsEnvironmentMetricsResetMetrics'', [Post]),
      (''EnvironmentMetricsActionsEnvironmentMetricsResetToDefaults'', [Post]),
      (''Metrics'', [Get])]"

definition Stubs_ResourceBlocks_11a :: "string list" where
  "Stubs_ResourceBlocks_11a = methods at_root ''ResourceBlocksResourceBlockIdStorageStorageIdControllersStorageControllerId''
     [(''Assembly'', [Get, Put, Patch]),
      (''Certificates'', [Get, Post]),
      (''CertificatesCertificateId'', [Get, Put, Delete])]"

definition Stubs_ResourceBlocks_11b :: "string list" where
  "Stubs_ResourceBlocks_11b = methods at_root ''ResourceBlocksResourceBlockIdStorageStorageIdControllersStorageControllerId''
     [(''CertificatesCertificateId'', [Patch]),
      (''CertificatesCertificateIdActionsCertificateRekey'', [Post]),
      (''CertificatesCertificateIdActionsCertificateRenew'', [Post]),
      (''Ports'', [Get]),
      (''PortsPortId'', [Get, Put, Patch])]"

definition Stubs_ResourceBlocks_11c :: "string list" where
  "Stubs_ResourceBlocks_11c = methods at_root ''ResourceBlocksResourceBlockIdStorageStorageIdControllersStorageControllerId''
     [(''PortsPortIdActionsPortReset'', [Post]),
      (''PortsPortIdActionsPortResetPPB'', [Post]),
      (''PortsPortIdEnvironmentMetrics'', [Get, Put, Patch]),
      (''PortsPortIdEnvironmentMetricsActionsEnvironmentMetricsResetMetrics'', [Post]),
      (''PortsPortIdEnvironmentMetricsActionsEnvironmentMetricsResetToDefaults'', [Post])]"

definition Stubs_ResourceBlocks_11d :: "string list" where
  "Stubs_ResourceBlocks_11d = methods at_root ''ResourceBlocksResourceBlockIdStorageStorageIdControllersStorageControllerId''
     [(''PortsPortIdMetrics'', [Get])]"

definition Stubs_ResourceBlocks_12a :: "string list" where
  "Stubs_ResourceBlocks_12a = methods at_root ''ResourceBlocksResourceBlockIdStorageStorageIdDrivesDriveId''
     [('''', [Get, Put, Patch]),
      (''ActionsDriveReset'', [Post]),
      (''ActionsDriveRevertToOriginalFactoryState'', [Post]),
      (''ActionsDriveSecureErase'', [Post]),
      (''Assembly'', [Get])]"

definition Stubs_ResourceBlocks_12b :: "string list" where
  "Stubs_ResourceBlocks_12b = methods at_root ''ResourceBlocksResourceBlockIdStorageStorageIdDrivesDriveId''
     [(''Assembly'', [Put, Patch]),
      (''Certificates'', [Get, Post]),
      (''CertificatesCertificateId'', [Get, Put, Delete, Patch])]"

definition Stubs_ResourceBlocks_12c :: "string list" where
  "Stubs_ResourceBlocks_12c = methods at_root ''ResourceBlocksResourceBlockIdStorageStorageIdDrivesDriveId''
     [(''CertificatesCertificateIdActionsCertificateRekey'', [Post]),
      (''CertificatesCertificateIdActionsCertificateRenew'', [Post]),
      (''EnvironmentMetrics'', [Get, Put, Patch]),
      (''EnvironmentMetricsActionsEnvironmentMetricsResetMetrics'', [Post]),
      (''EnvironmentMetricsActionsEnvironmentMetricsResetToDefaults'', [Post])]"

definition Stubs_ResourceBlocks_12d :: "string list" where
  "Stubs_ResourceBlocks_12d = methods at_root ''ResourceBlocksResourceBlockIdStorageStorageIdDrivesDriveId''
     [(''Metrics'', [Get])]"

definition Stubs_ResourceBlocks_13a :: "string list" where
  "Stubs_ResourceBlocks_13a = methods at_root ''ResourceBlocksResourceBlockIdStorageStorageIdStorageControllersStorageControllerId''
     [(''Assembly'', [Get, Put, Patch]),
      (''Certificates'', [Get, Post]),
      (''CertificatesCertificateId'', [Get, Put, Delete])]"

definition Stubs_ResourceBlocks_13b :: "string list" where
  "Stubs_ResourceBlocks_13b = methods at_root ''ResourceBlocksResourceBlockIdStorageStorageIdStorageControllersStorageControllerId''
     [(''CertificatesCertificateId'', [Patch]),
      (''CertificatesCertificateIdActionsCertificateRekey'', [Post]),
      (''CertificatesCertificateIdActionsCertificateRenew'', [Post]),
      (''Ports'', [Get]),
      (''PortsPortId'', [Get, Put, Patch])]"

definition Stubs_ResourceBlocks_13c :: "string list" where
  "Stubs_ResourceBlocks_13c = methods at_root ''ResourceBlocksResourceBlockIdStorageStorageIdStorageControllersStorageControllerId''
     [(''PortsPortIdActionsPortReset'', [Post]),
      (''PortsPortIdActionsPortResetPPB'', [Post]),
      (''PortsPortIdEnvironmentMetrics'', [Get, Put, Patch]),
      (''PortsPortIdEnvironmentMetricsActionsEnvironmentMetricsResetMetrics'', [Post]),
      (''PortsPortIdEnvironmentMetricsActionsEnvironmentMetricsResetToDefaults'', [Post])]"

definition Stubs_ResourceBlocks_13d :: "string list" where
  "Stubs_ResourceBlocks_13d = methods at_root ''ResourceBlocksResourceBlockIdStorageStorageIdStorageControllersStorageControllerId''
     [(''PortsPortIdMetrics'', [Get])]"

definition Stubs_ResourceBlocks_14a :: "string list" where
  "Stubs_ResourceBlocks_14a = methods at_root ''ResourceBlocksResourceBlockIdStorageStorageIdVolumes''
     [('''', [Get, Post]),
      (''VolumeId'', [Get, Put, Delete, Patch]),
      (''VolumeIdActionsVolumeAssignReplicaTarget'', [Post])]"

definition Stubs_ResourceBlocks_14b :: "string list" where
  "Stubs_ResourceBlocks_14b = methods at_root ''ResourceBlocksResourceBlockIdStorageStorageIdVolumes''
     [(''VolumeIdActionsVolumeChangeRAIDLayout'', [Post]),
      (''VolumeIdActionsVolumeCheckConsistency'', [Post]),
      (''VolumeIdActionsVolumeCreateReplicaTarget'', [Post]),
      (''VolumeIdActionsVolumeForceEnable'', [Post]),
      (''VolumeIdActionsVolumeInitialize'', [Post]),
      (''VolumeIdActionsVolumeRemoveReplicaRelationship'', [Post])]"

definition Stubs_ResourceBlocks_14c :: "string list" where
  "Stubs_ResourceBlocks_14c = methods at_root ''ResourceBlocksResourceBlockIdStorageStorageIdVolumes''
     [(''VolumeIdActionsVolumeResumeReplication'', [Post]),
      (''VolumeIdActionsVolumeReverseReplicationRelationship'', [Post]),
      (''VolumeIdActionsVolumeSplitReplication'', [Post]),
      (''VolumeIdActionsVolumeSuspendReplication'', [Post])]"

definition Stubs_ResourceBlocks_15a :: "string list" where
  "Stubs_ResourceBlocks_15a = methods at_root ''ResourceBlocksResourceBlockIdSystemsComputerSystemId''
     [('''', [Get, Put, Delete, Patch]),
      (''ActionsComputerSystemAddResourceBlock'', [Post]),
      (''ActionsComputerSystemDecommission'', [Post]),
      (''ActionsComputerSystemRemoveResourceBlock'', [Post])]"

definition Stubs_ResourceBlocks_15b :: "string list" where
  "Stubs_ResourceBlocks_15b = methods at_root ''ResourceBlocksResourceBlockIdSystemsComputerSystemId''
     [(''ActionsComputerSystemReset'', [Post]),
      (''ActionsComputerSystemSetDefaultBootOrder'', [Post]),
      (''Bios'', [Get, Put, Patch]),
      (''BiosActionsBiosChangePassword'', [Post]),
      (''BiosActionsBiosResetBios'', [Post])]"

definition Stubs_ResourceBlocks_15c :: "string list" where
  "Stubs_ResourceBlocks_15c = methods at_root ''ResourceBlocksResourceBlockIdSystemsComputerSystemId''
     [(''BootCertificates'', [Get, Post]),
      (''BootCertificatesCertificateId'', [Get, Put, Delete, Patch]),
      (''BootCertificatesCertificateIdActionsCertificateRekey'', [Post])]"

definition Stubs_ResourceBlocks_15d :: "string list" where
  "Stubs_ResourceBlocks_15d = methods at_root ''ResourceBlocksResourceBlockIdSystemsComputerSystemId''
     [(''BootCertificatesCertificateIdActionsCertificateRenew'', [Post]),
      (''BootOptions'', [Get, Post]),
      (''BootOptionsBootOptionId'', [Get, Put, Delete, Patch]),
      (''Certificates'', [Get])]"

definition Stubs_ResourceBlocks_15e :: "string list" where
  "Stubs_ResourceBlocks_15e = methods at_root ''ResourceBlocksResourceBlockIdSystemsComputerSystemId''
     [(''Certificates'', [Post])]"

definition Stubs_ResourceBlocks_16a :: "string list" where
  "Stubs_ResourceBlocks_16a = methods at_root ''ResourceBlocksResourceBlockIdSystemsComputerSystemId''
     [(''CertificatesCertificateId'', [Get, Put, Delete, Patch]),
      (''CertificatesCertificateIdActionsCertificateRekey'', [Post]),
      (''CertificatesCertificateIdActionsCertificateRenew'', [Post]),
      (''EthernetInterfaces'', [Get])]"

definition Stubs_ResourceBlocks_16b :: "string list" where
  "Stubs_ResourceBlocks_16b = methods at_root ''ResourceBlocksResourceBlockIdSystemsComputerSystemId''
     [(''EthernetInterfaces'', [Post]),
      (''EthernetInterfacesEthernetInterfaceId'', [Get, Put, Delete, Patch]),
      (''EthernetInterfacesEthernetInterfaceIdVLANs'', [Get, Post]),
      (''EthernetInterfacesEthernetInterfaceIdVLANsVLanNetworkInterfaceId'', [Get])]"

definition Stubs_ResourceBlocks_16c :: "string list" where
  "Stubs_ResourceBlocks_16c = methods at_root ''ResourceBlocksResourceBlockIdSystemsComputerSystemId''
     [(''EthernetInterfacesEthernetInterfaceIdVLANsVLanNetworkInterfaceId'', [Put, Delete, Patch]),
      (''FabricAdapters'', [Get])]"

definition Stubs_ResourceBlocks_17a :: "string list" where
  "Stubs_ResourceBlocks_17a = methods at_root ''ResourceBlocksResourceBlockIdSystemsComputerSystemIdFabricAdaptersFabricAdapterId''
     [('''', [Get, Put, Patch]),
      (''GenZMSDT'', [Get, Post]),
      (''GenZMSDTMSDTId'', [Get, Put, Delete])]"

definition Stubs_ResourceBlocks_17b :: "string list" where
  "Stubs_ResourceBlocks_17b = methods at_root ''ResourceBlocksResourceBlockIdSystemsComputerSystemIdFabricAdaptersFabricAdapterId''
     [(''GenZMSDTMSDTId'', [Patch]),
      (''GenZSSDT'', [Get, Post]),
      (''GenZSSDTSSDTId'', [Get, Put, Delete, Patch]),
      (''MSDT'', [Get])]"

definition Stubs_ResourceBlocks_17c :: "string list" where
  "Stubs_ResourceBlocks_17c = methods at_root ''ResourceBlocksResourceBlockIdSystemsComputerSystemIdFabricAdaptersFabricAdapterId''
     [(''MSDT'', [Post]),
      (''MSDTMSDTId'', [Get, Put, Delete, Patch]),
      (''Ports'', [Get])]"

definition Stubs_ResourceBlocks_18a :: "string list" where
  "Stubs_ResourceBlocks_18a = methods at_root ''ResourceBlocksResourceBlockIdSystemsComputerSystemIdFabricAdaptersFabricAdapterIdPortsPortId''
     [('''', [Get, Put, Patch]),
      (''ActionsPortReset'', [Post]),
      (''ActionsPortResetPPB'', [Post]),
      (''EnvironmentMetrics'', [Get, Put])]"

definition Stubs_ResourceBlocks_18b :: "string list" where
  "Stubs_ResourceBlocks_18b = methods at_root ''ResourceBlocksResourceBlockIdSystemsComputerSystemIdFabricAdaptersFabricAdapterIdPortsPortId''
     [(''EnvironmentMetrics'', [Patch]),
      (''EnvironmentMetricsActionsEnvironmentMetricsResetMetrics'', [Post]),
      (''EnvironmentMetricsActionsEnvironmentMetricsResetToDefaults'', [Post]),
      (''GenZLPRT'', [Get, Post]),
      (''GenZLPRTLPRTId'', [Get, Put])]"

definition Stubs_ResourceBlocks_18c :: "string list" where
  "Stubs_ResourceBlocks_18c = methods at_root ''ResourceBlocksResourceBlockIdSystemsComputerSystemIdFabricAdaptersFabricAdapterIdPortsPortId''
     [(''GenZLPRTLPRTId'', [Delete, Patch]),
      (''GenZMPRT'', [Get, Post]),
      (''GenZMPRTMPRTId'', [Get, Put, Delete, Patch])]"

definition Stubs_ResourceBlocks_18d :: "string list" where
  "Stubs_ResourceBlocks_18d = methods at_root ''ResourceBlocksResourceBlockIdSystemsComputerSystemIdFabricAdaptersFabricAdapterIdPortsPortId''
     [(''LPRT'', [Get, Post]),
      (''LPRTLPRTId'', [Get, Put, Delete, Patch]),
      (''MPRT'', [Get, Post])]"

definition Stubs_ResourceBlocks_19a :: "string list" where
  "Stubs_ResourceBlocks_19a = methods at_root ''ResourceBlocksResourceBlockIdSystemsComputerSystemIdFabricAdaptersFabricAdapterId''
     [(''PortsPortIdMPRTMPRTId'', [Get, Put, Delete, Patch]),
      (''PortsPortIdMetrics'', [Get]),
      (''SSDT'', [Get, Post]),
      (''SSDTSSDTId'', [Get])]"

definition Stubs_ResourceBlocks_19b :: "string list" where
  "Stubs_ResourceBlocks_19b = methods at_root ''ResourceBlocksResourceBlockIdSystemsComputerSystemIdFabricAdaptersFabricAdapterId''
     [(''SSDTSSDTId'', [Put, Delete, Patch])]"

definition Stubs_ResourceBlocks_20a :: "string list" where
  "Stubs_ResourceBlocks_20a = methods at_root ''ResourceBlocksResourceBlockIdSystemsComputerSystemIdGraphicsControllersControllerIdPorts''
     [('''', [Get]),
      (''PortId'', [Get, Put, Patch]),
      (''PortIdActionsPortReset'', [Post]),
      (''PortIdActionsPortResetPPB'', [Post]),
      (''PortIdEnvironmentMetrics'', [Get, Put])]"

definition Stubs_ResourceBlocks_20b :: "string list" where
  "Stubs_ResourceBlocks_20b = methods at_root ''ResourceBlocksResourceBlockIdSystemsComputerSystemIdGraphicsControllersControllerIdPorts''
     [(''PortIdEnvironmentMetrics'', [Patch]),
      (''PortIdEnvironmentMetricsActionsEnvironmentMetricsResetMetrics'', [Post]),
      (''PortIdEnvironmentMetricsActionsEnvironmentMetricsResetToDefaults'', [Post]),
      (''PortIdMetrics'', [Get])]"

definition Stubs_ResourceBlocks_21a :: "string list" where
  "Stubs_ResourceBlocks_21a = methods at_root ''ResourceBlocksResourceBlockIdSystemsComputerSystemId''
     [(''KeyManagementKMIPCertificates'', [Get, Post]),
      (''KeyManagementKMIPCertificatesCertificateId'', [Get, Put, Delete, Patch]),
      (''KeyManagementKMIPCertificatesCertificateIdActionsCertificateRekey'', [Post])]"

definition Stubs_ResourceBlocks_21b :: "string list" where
  "Stubs_ResourceBlocks_21b = methods at_root ''ResourceBlocksResourceBlockIdSystemsComputerSystemId''
     [(''KeyManagementKMIPCertificatesCertificateIdActionsCertificateRenew'', [Post]),
      (''LogServices'', [Get]),
      (''LogServicesLogServiceId'', [Get, Put, Patch]),
      (''LogServicesLogServiceIdActionsLogServiceClearLog'', [Post]),
      (''LogServicesLogServiceIdActionsLogServiceCollectDiagnosticData'', [Post])]"

definition Stubs_ResourceBlocks_21c :: "string list" where
  "Stubs_ResourceBlocks_21c = methods at_root ''ResourceBlocksResourceBlockIdSystemsComputerSystemId''
     [(''LogServicesLogServiceIdActionsLogServicePushDiagnosticData'', [Post]),
      (''LogServicesLogServiceIdEntries'', [Get, Post]),
      (''LogServicesLogServiceIdEntriesLogEntryId'', [Get, Put, Delete, Patch]),
      (''Memory'', [Get])]"

definition Stubs_ResourceBlocks_21d :: "string list" where
  "Stubs_ResourceBlocks_21d = methods at_root ''ResourceBlocksResourceBlockIdSystemsComputerSystemId''
     [(''MemoryMemoryId'', [Get, Put, Patch])]"

definition Stubs_ResourceBlocks_22a :: "string list" where
  "Stubs_ResourceBlocks_22a = methods at_root ''ResourceBlocksResourceBlockIdSystemsComputerSystemIdMemoryMemoryId''
     [(''ActionsMemoryDisableMasterPassphrase'', [Post]),
      (''ActionsMemoryDisablePassphrase'', [Post]),
      (''ActionsMemoryFreezeSecurityState'', [Post]),
      (''ActionsMemoryInjectPersistentPoison'', [Post]),
      (''ActionsMemoryOverwriteUnit'', [Post]),
      (''ActionsMemoryReset'', [Post])]"

definition Stubs_ResourceBlocks_22b :: "string list" where
  "Stubs_ResourceBlocks_22b = methods at_root ''ResourceBlocksResourceBlockIdSystemsComputerSystemIdMemoryMemoryId''
     [(''ActionsMemoryResetToDefaults'', [Post]),
      (''ActionsMemoryScanMedia'', [Post]),
      (''ActionsMemorySecureEraseUnit'', [Post]),
      (''ActionsMemorySetMasterPassphrase'', [Post]),
      (''ActionsMemorySetPassphrase'', [Post]),
      (''ActionsMemoryUnlockUnit'', [Post])]"

definition Stubs_ResourceBlocks_22c :: "string list" where
  "Stubs_ResourceBlocks_22c = methods at_root ''ResourceBlocksResourceBlockIdSystemsComputerSystemIdMemoryMemoryId''
     [(''Assembly'', [Get, Put, Patch]),
      (''Certificates'', [Get, Post]),
      (''CertificatesCertificateId'', [Get, Put, Delete])]"

definition Stubs_ResourceBlocks_22d :: "string list" where
  "Stubs_ResourceBlocks_22d = methods at_root ''ResourceBlocksResourceBlockIdSystemsComputerSystemIdMemoryMemoryId''
     [(''CertificatesCertificateId'', [Patch]),
      (''CertificatesCertificateIdActionsCertificateRekey'', [Post]),
      (''CertificatesCertificateIdActionsCertificateRenew'', [Post]),
      (''EnvironmentMetrics'', [Get, Put, Patch]),
      (''EnvironmentMetricsActionsEnvironmentMetricsResetMetrics'', [Post])]"

definition Stubs_ResourceBlocks_22e :: "string list" where
  "Stubs_ResourceBlocks_22e = methods at_root ''ResourceBlocksResourceBlockIdSystemsComputerSystemIdMemoryMemoryId''
     [(''EnvironmentMetricsActionsEnvironmentMetricsResetToDefaults'', [Post]),
      (''MemoryMetrics'', [Get]),
      (''MemoryMetricsActionsMemoryMetricsClearCurrentPeriod'', [Post])]"

definition Stubs_ResourceBlocks_23a :: "string list" where
  "Stubs_ResourceBlocks_23a = methods at_root ''ResourceBlocksResourceBlockIdSystemsComputerSystemId''
     [(''MemoryDomains'', [Get]),
      (''MemoryDomainsMemoryDomainId'', [Get]),
      (''MemoryDomainsMemoryDomainIdMemoryChunks'', [Get, Post]),
      (''MemoryDomainsMemoryDomainIdMemoryChunksMemoryChunksId'', [Get, Put, Delete, Patch]),
      (''MemorySummaryMemoryMetrics'', [Get])]"

definition Stubs_ResourceBlocks_23b :: "string list" where
  "Stubs_ResourceBlocks_23b = methods at_root ''ResourceBlocksResourceBlockIdSystemsComputerSystemId''
     [(''MemorySummaryMemoryMetricsActionsMemoryMetricsClearCurrentPeriod'', [Post]),
      (''NetworkInterfaces'', [Get]),
      (''NetworkInterfacesNetworkInterfaceId'', [Get]),
      (''NetworkInterfacesNetworkInterfaceIdNetworkDeviceFunctions'', [Get]),
      (''NetworkInterfacesNetworkInterfaceIdNetworkDeviceFunctionsNetworkDeviceFunctionIdAllowDeny'', [Get, Post]),
      (''NetworkInterfacesNetworkInterfaceIdNetworkDeviceFunctionsNetworkDeviceFunctionIdAllowDenyAllowDenyId'', [Get, Put])]"

definition Stubs_ResourceBlocks_23c :: "string list" where
  "Stubs_ResourceBlocks_23c = methods at_root ''ResourceBlocksResourceBlockIdSystemsComputerSystemId''
     [(''NetworkInterfacesNetworkInterfaceIdNetworkDeviceFunctionsNetworkDeviceFunctionIdAllowDenyAllowDenyId'', [Delete, Patch]),
      (''NetworkInterfacesNetworkInterfaceIdNetworkPorts'', [Get]),
      (''NetworkInterfacesNetworkInterfaceIdPorts'', [Get])]"

definition Stubs_ResourceBlocks_24a :: "string list" where
  "Stubs_ResourceBlocks_24a = methods at_root ''ResourceBlocksResourceBlockIdSystemsComputerSystemIdOperatingSystem''
     [('''', [Get]),
      (''Applications'', [Get]),
      (''ApplicationsApplicationId'', [Get]),
      (''ApplicationsApplicationIdActionsApplicationReset'', [Post]),
      (''ContainerImages'', [Get]),
      (''ContainerImagesContainerImageId'', [Get]),
      (''Containers'', [Get]),
      (''ContainersEthernetInterfaces'', [Get, Post])]"

definition Stubs_ResourceBlocks_24b :: "string list" where
  "Stubs_ResourceBlocks_24b = methods at_root ''ResourceBlocksResourceBlockIdSystemsComputerSystemIdOperatingSystem''
     [(''ContainersEthernetInterfacesEthernetInterfaceId'', [Get, Put, Delete, Patch]),
      (''ContainersContainerId'', [Get]),
      (''ContainersContainerIdActionsContainerReset'', [Post])]"

definition Stubs_ResourceBlocks_25a :: "string list" where
  "Stubs_ResourceBlocks_25a = methods at_root ''ResourceBlocksResourceBlockIdSystemsComputerSystemId''
     [(''PCIeDevices'', [Get]),
      (''PCIeDevicesPCIeDeviceId'', [Get, Put, Patch]),
      (''PCIeDevicesPCIeDeviceIdEnvironmentMetrics'', [Get, Put, Patch]),
      (''PCIeDevicesPCIeDeviceIdEnvironmentMetricsActionsEnvironmentMetricsResetMetrics'', [Post])]"

definition Stubs_ResourceBlocks_25b :: "string list" where
  "Stubs_ResourceBlocks_25b = methods at_root ''ResourceBlocksResourceBlockIdSystemsComputerSystemId''
     [(''PCIeDevicesPCIeDeviceIdEnvironmentMetricsActionsEnvironmentMetricsResetToDefaults'', [Post]),
      (''PCIeDevicesPCIeDeviceIdPCIeFunctions'', [Get]),
      (''PCIeDevicesPCIeDeviceIdPCIeFunctionsPCIeFunctionId'', [Get, Put, Patch]),
      (''ProcessorSummaryProcessorMetrics'', [Get]),
      (''ProcessorSummaryProcessorMetricsActionsProcessorMetricsClearCurrentPeriod'', [Post]),
      (''Processors'', [Get])]"

definition Stubs_ResourceBlocks_25c :: "string list" where
  "Stubs_ResourceBlocks_25c = methods at_root ''ResourceBlocksResourceBlockIdSystemsComputerSystemId''
     [(''ProcessorsProcessorId'', [Get, Put, Patch]),
      (''ProcessorsProcessorIdAccelerationFunctions'', [Get]),
      (''ProcessorsProcessorIdAccelerationFunctionsAccelerationFunctionId'', [Get]),
      (''ProcessorsProcessorIdActionsProcessorReset'', [Post]),
      (''ProcessorsProcessorIdActionsProcessorResetToDefaults'', [Post]),
      (''ProcessorsProcessorIdAssembly'', [Get])]"

definition Stubs_ResourceBlocks_25d :: "string list" where
  "Stubs_ResourceBlocks_25d = methods at_root ''ResourceBlocksResourceBlockIdSystemsComputerSystemId''
     [(''ProcessorsProcessorIdAssembly'', [Put, Patch])]"

definition Stubs_ResourceBlocks_26a :: "string list" where
  "Stubs_ResourceBlocks_26a = methods at_root ''ResourceBlocksResourceBlockIdSystemsComputerSystemIdProcessorsProcessorId''
     [(''Certificates'', [Get, Post]),
      (''CertificatesCertificateId'', [Get, Put, Delete, Patch]),
      (''CertificatesCertificateIdActionsCertificateRekey'', [Post])]"

definition Stubs_ResourceBlocks_26b :: "string list" where
  "Stubs_ResourceBlocks_26b = methods at_root ''ResourceBlocksResourceBlockIdSystemsComputerSystemIdProcessorsProcessorId''
     [(''CertificatesCertificateIdActionsCertificateRenew'', [Post]),
      (''EnvironmentMetrics'', [Get, Put, Patch]),
      (''EnvironmentMetricsActionsEnvironmentMetricsResetMetrics'', [Post]),
      (''EnvironmentMetricsActionsEnvironmentMetricsResetToDefaults'', [Post]),
      (''MemorySummaryMemoryMetrics'', [Get])]"

definition Stubs_ResourceBlocks_26c :: "string list" where
  "Stubs_ResourceBlocks_26c = methods at_root ''ResourceBlocksResourceBlockIdSystemsComputerSystemIdProcessorsProcessorId''
     [(''MemorySummaryMemoryMetricsActionsMemoryMetricsClearCurrentPeriod'', [Post]),
      (''Ports'', [Get]),
      (''PortsPortId'', [Get, Put, Patch]),
      (''PortsPortIdActionsPortReset'', [Post]),
      (''PortsPortIdActionsPortResetPPB'', [Post]),
      (''PortsPortIdEnvironmentMetrics'', [Get])]"

definition Stubs_ResourceBlocks_26d :: "string list" where
  "Stubs_ResourceBlocks_26d = methods at_root ''ResourceBlocksResourceBlockIdSystemsComputerSystemIdProcessorsProcessorId''
     [(''PortsPortIdEnvironmentMetrics'', [Put, Patch]),
      (''PortsPortIdEnvironmentMetricsActionsEnvironmentMetricsResetMetrics'', [Post]),
      (''PortsPortIdEnvironmentMetricsActionsEnvironmentMetricsResetToDefaults'', [Post]),
      (''PortsPortIdMetrics'', [Get]),
      (''ProcessorMetrics'', [Get]),
      (''ProcessorMetricsActionsProcessorMetricsClearCurrentPeriod'', [Post]),
      (''SubProcessors'', [Get])]"

definition Stubs_ResourceBlocks_27a :: "string list" where
  "Stubs_ResourceBlocks_27a = methods at_root ''ResourceBlocksResourceBlockIdSystemsComputerSystemIdProcessorsProcessorIdSubProcessorsProcessorId2''
     [('''', [Get, Put, Patch]),
      (''ActionsProcessorReset'', [Post]),
      (''ActionsProcessorResetToDefaults'', [Post]),
      (''Assembly'', [Get, Put])]"

definition Stubs_ResourceBlocks_27b :: "string list" where
  "Stubs_ResourceBlocks_27b = methods at_root ''ResourceBlocksResourceBlockIdSystemsComputerSystemIdProcessorsProcessorIdSubProcessorsProcessorId2''
     [(''Assembly'', [Patch]),
      (''ProcessorMetrics'', [Get]),
      (''ProcessorMetricsActionsProcessorMetricsClearCurrentPeriod'', [Post]),
      (''SubProcessors'', [Get]),
      (''SubProcessorsProcessorId3'', [Get, Put, Patch]),
      (''SubProcessorsProcessorId3ActionsProcessorReset'', [Post])]"

definition Stubs_ResourceBlocks_27c :: "string list" where
  "Stubs_ResourceBlocks_27c = methods at_root ''ResourceBlocksResourceBlockIdSystemsComputerSystemIdProcessorsProcessorIdSubProcessorsProcessorId2''
     [(''SubProcessorsProcessorId3ActionsProcessorResetToDefaults'', [Post]),
      (''SubProcessorsProcessorId3Assembly'', [Get, Put, Patch]),
      (''SubProcessorsProcessorId3ProcessorMetrics'', [Get]),
      (''SubProcessorsProcessorId3ProcessorMetricsActionsProcessorMetricsClearCurrentPeriod'', [Post])]"

definition Stubs_ResourceBlocks_28a :: "string list" where
  "Stubs_ResourceBlocks_28a = methods at_root ''ResourceBlocksResourceBlockIdSystemsComputerSystemId''
     [(''SecureBoot'', [Get, Put, Patch]),
      (''SecureBootActionsSecureBootResetKeys'', [Post]),
      (''SecureBootSecureBootDatabases'', [Get]),
      (''SecureBootSecureBootDatabasesDatabaseId'', [Get]),
      (''SecureBootSecureBootDatabasesDatabaseIdActionsSecureBootDatabaseResetKeys'', [Post]),
      (''SecureBootSecureBootDatabasesDatabaseIdCertificates'', [Get])]"

definition Stubs_ResourceBlocks_28b :: "string list" where
  "Stubs_ResourceBlocks_28b = methods at_root ''ResourceBlocksResourceBlockIdSystemsComputerSystemId''
     [(''SecureBootSecureBootDatabasesDatabaseIdCertificates'', [Post]),
      (''SecureBootSecureBootDatabasesDatabaseIdCertificatesCertificateId'', [Get, Put, Delete, Patch]),
      (''SecureBootSecureBootDatabasesDatabaseIdCertificatesCertificateIdActionsCertificateRekey'', [Post]),
      (''SecureBootSecureBootDatabasesDatabaseIdCertificatesCertificateIdActionsCertificateRenew'', [Post])]"

definition Stubs_ResourceBlocks_28c :: "string list" where
  "Stubs_ResourceBlocks_28c = methods at_root ''ResourceBlocksResourceBlockIdSystemsComputerSystemId''
     [(''SecureBootSecureBootDatabasesDatabaseIdSignatures'', [Get, Post]),
      (''SecureBootSecureBootDatabasesDatabaseIdSignaturesSignatureId'', [Get, Delete]),
      (''SimpleStorage'', [Get]),
      (''SimpleStorageSimpleStorageId'', [Get]),
      (''Storage'', [Get]),
      (''StorageStorageId'', [Get, Put])]"

definition Stubs_ResourceBlocks_28d :: "string list" where
  "Stubs_ResourceBlocks_28d = methods at_root ''ResourceBlocksResourceBlockIdSystemsComputerSystemId''
     [(''StorageStorageId'', [Patch]),
      (''StorageStorageIdActionsStorageResetToDefaults'', [Post]),
      (''StorageStorageIdActionsStorageSetEncryptionKey'', [Post]),
      (''StorageStorageIdControllers'', [Get])]"

definition Stubs_ResourceBlocks_29a :: "string list" where
  "Stubs_ResourceBlocks_29a = methods at_root ''ResourceBlocksResourceBlockIdSystemsComputerSystemIdStorageStorageIdControllersControllerId''
     [('''', [Get, Put, Patch]),
      (''ActionsStorageControllerAttachNamespaces'', [Post]),
      (''ActionsStorageControllerDetachNamespaces'', [Post]),
      (''ActionsStorageControllerSecurityReceive'', [Post]),
      (''ActionsStorageControllerSecuritySend'', [Post])]"

definition Stubs_ResourceBlocks_29b :: "string list" where
  "Stubs_ResourceBlocks_29b = methods at_root ''ResourceBlocksResourceBlockIdSystemsComputerSystemIdStorageStorageIdControllersControllerId''
     [(''EnvironmentMetrics'', [Get, Put, Patch]),
      (''EnvironmentMetricsActionsEnvironmentMetricsResetMetrics'', [Post]),
      (''EnvironmentMetricsActionsEnvironmentMetricsResetToDefaults'', [Post]),
      (''Metrics'', [Get])]"

definition Stubs_ResourceBlocks_30a :: "string list" where
  "Stubs_ResourceBlocks_30a = methods at_root ''ResourceBlocksResourceBlockIdSystemsComputerSystemIdStorageStorageIdControllersStorageControllerId''
     [(''Assembly'', [Get, Put, Patch]),
      (''Certificates'', [Get, Post]),
      (''CertificatesCertificateId'', [Get, Put, Delete])]"

definition Stubs_ResourceBlocks_30b :: "string list" where
  "Stubs_ResourceBlocks_30b = methods at_root ''ResourceBlocksResourceBlockIdSystemsComputerSystemIdStorageStorageIdControllersStorageControllerId''
     [(''CertificatesCertificateId'', [Patch]),
      (''CertificatesCertificateIdActionsCertificateRekey'', [Post]),
      (''CertificatesCertificateIdActionsCertificateRenew'', [Post]),
      (''Ports'', [Get]),
      (''PortsPortId'', [Get, Put, Patch])]"

definition Stubs_ResourceBlocks_30c :: "string list" where
  "Stubs_ResourceBlocks_30c = methods at_root ''ResourceBlocksResourceBlockIdSystemsComputerSystemIdStorageStorageIdControllersStorageControllerId''
     [(''PortsPortIdActionsPortReset'', [Post]),
      (''PortsPortIdActionsPortResetPPB'', [Post]),
      (''PortsPortIdEnvironmentMetrics'', [Get, Put, Patch]),
      (''PortsPortIdEnvironmentMetricsActionsEnvironmentMetricsResetMetrics'', [Post]),
      (''PortsPortIdEnvironmentMetricsActionsEnvironmentMetricsResetToDefaults'', [Post])]"

definition Stubs_ResourceBlocks_30d :: "string list" where
  "Stubs_ResourceBlocks_30d = methods at_root ''ResourceBlocksResourceBlockIdSystemsComputerSystemIdStorageStorageIdControllersStorageControllerId''
     [(''PortsPortIdMetrics'', [Get])]"

definition Stubs_ResourceBlocks_31a :: "string list" where
  "Stubs_ResourceBlocks_31a = methods at_root ''ResourceBlocksResourceBlockIdSystemsComputerSystemIdStorageStorageIdDrivesDriveId''
     [('''', [Get, Put, Patch]),
      (''ActionsDriveReset'', [Post]),
      (''ActionsDriveRevertToOriginalFactoryState'', [Post]),
      (''ActionsDriveSecureErase'', [Post]),
      (''Assembly'', [Get])]"

definition Stubs_ResourceBlocks_31b :: "string list" where
  "Stubs_ResourceBlocks_31b = methods at_root ''ResourceBlocksResourceBlockIdSystemsComputerSystemIdStorageStorageIdDrivesDriveId''
     [(''Assembly'', [Put, Patch]),
      (''Certificates'', [Get, Post]),
      (''CertificatesCertificateId'', [Get, Put, Delete, Patch])]"

definition Stubs_ResourceBlocks_31c :: "string list" where
  "Stubs_ResourceBlocks_31c = methods at_root ''ResourceBlocksResourceBlockIdSystemsComputerSystemIdStorageStorageIdDrivesDriveId''
     [(''CertificatesCertificateIdActionsCertificateRekey'', [Post]),
      (''CertificatesCertificateIdActionsCertificateRenew'', [Post]),
      (''EnvironmentMetrics'', [Get, Put, Patch]),
      (''EnvironmentMetricsActionsEnvironmentMetricsResetMetrics'', [Post]),
      (''EnvironmentMetricsActionsEnvironmentMetricsResetToDefaults'', [Post])]"

definition Stubs_ResourceBlocks_31d :: "string list" where
  "Stubs_ResourceBlocks_31d = methods at_root ''ResourceBlocksResourceBlockIdSystemsComputerSystemIdStorageStorageIdDrivesDriveId''
     [(''Metrics'', [Get])]"

definition Stubs_ResourceBlocks_32a :: "string list" where
  "Stubs_ResourceBlocks_32a = methods at_root ''ResourceBlocksResourceBlockIdSystemsComputerSystemIdStorageStorageIdStorageControllersStorageControllerId''
     [(''Assembly'', [Get, Put, Patch]),
      (''Certificates'', [Get, Post]),
      (''CertificatesCertificateId'', [Get, Put, Delete])]"

definition Stubs_ResourceBlocks_32b :: "string list" where
  "Stubs_ResourceBlocks_32b = methods at_root ''ResourceBlocksResourceBlockIdSystemsComputerSystemIdStorageStorageIdStorageControllersStorageControllerId''
     [(''CertificatesCertificateId'', [Patch]),
      (''CertificatesCertificateIdActionsCertificateRekey'', [Post]),
      (''CertificatesCertificateIdActionsCertificateRenew'', [Post]),
      (''Ports'', [Get]),
      (''PortsPortId'', [Get, Put, Patch])]"

definition Stubs_ResourceBlocks_32c :: "string list" where
  "Stubs_ResourceBlocks_32c = methods at_root ''ResourceBlocksResourceBlockIdSystemsComputerSystemIdStorageStorageIdStorageControllersStorageControllerId''
     [(''PortsPortIdActionsPortReset'', [Post]),
      (''PortsPortIdActionsPortResetPPB'', [Post]),
      (''PortsPortIdEnvironmentMetrics'', [Get, Put, Patch]),
      (''PortsPortIdEnvironmentMetricsActionsEnvironmentMetricsResetMetrics'', [Post]),
      (''PortsPortIdEnvironmentMetricsActionsEnvironmentMetricsResetToDefaults'', [Post])]"

definition Stubs_ResourceBlocks_32d :: "string list" where
  "Stubs_ResourceBlocks_32d = methods at_root ''ResourceBlocksResourceBlockIdSystemsComputerSystemIdStorageStorageIdStorageControllersStorageControllerId''
     [(''PortsPortIdMetrics'', [Get])]"

definition Stubs_ResourceBlocks_33a :: "string list" where
  "Stubs_ResourceBlocks_33a = methods at_root ''ResourceBlocksResourceBlockIdSystemsComputerSystemIdStorageStorageIdVolumes''
     [('''', [Get, Post]),
      (''VolumeId'', [Get, Put, Delete, Patch]),
      (''VolumeIdActionsVolumeAssignReplicaTarget'', [Post])]"

definition Stubs_ResourceBlocks_33b :: "string list" where
  "Stubs_ResourceBlocks_33b = methods at_root ''ResourceBlocksResourceBlockIdSystemsComputerSystemIdStorageStorageIdVolumes''
     [(''VolumeIdActionsVolumeChangeRAIDLayout'', [Post]),
      (''VolumeIdActionsVolumeCheckConsistency'', [Post]),
      (''VolumeIdActionsVolumeCreateReplicaTarget'', [Post]),
      (''VolumeIdActionsVolumeForceEnable'', [Post]),
      (''VolumeIdActionsVolumeInitialize'', [Post]),
      (''VolumeIdActionsVolumeRemoveReplicaRelationship'', [Post])]"

definition Stubs_ResourceBlocks_33c :: "string list" where
  "Stubs_ResourceBlocks_33c = methods at_root ''ResourceBlocksResourceBlockIdSystemsComputerSystemIdStorageStorageIdVolumes''
     [(''VolumeIdActionsVolumeResumeReplication'', [Post]),
      (''VolumeIdActionsVolumeReverseReplicationRelationship'', [Post]),
      (''VolumeIdActionsVolumeSplitReplication'', [Post]),
      (''VolumeIdActionsVolumeSuspendReplication'', [Post])]"

definition Stubs_ResourceBlocks_34a :: "string list" where
  "Stubs_ResourceBlocks_34a = methods at_root ''ResourceBlocksResourceBlockIdSystemsComputerSystemIdUSBControllersControllerIdPorts''
     [('''', [Get]),
      (''PortId'', [Get, Put, Patch]),
      (''PortIdActionsPortReset'', [Post]),
      (''PortIdActionsPortResetPPB'', [Post]),
      (''PortIdEnvironmentMetrics'', [Get, Put])]"

definition Stubs_ResourceBlocks_34b :: "string list" where
  "Stubs_ResourceBlocks_34b = methods at_root ''ResourceBlocksResourceBlockIdSystemsComputerSystemIdUSBControllersControllerIdPorts''
     [(''PortIdEnvironmentMetrics'', [Patch]),
      (''PortIdEnvironmentMetricsActionsEnvironmentMetricsResetMetrics'', [Post]),
      (''PortIdEnvironmentMetricsActionsEnvironmentMetricsResetToDefaults'', [Post]),
      (''PortIdMetrics'', [Get])]"

definition Stubs_ResourceBlocks_35a :: "string list" where
  "Stubs_ResourceBlocks_35a = methods at_root ''ResourceBlocksResourceBlockIdSystemsComputerSystemIdVirtualMedia''
     [('''', [Get]),
      (''VirtualMediaId'', [Get, Put, Patch]),
      (''VirtualMediaIdActionsVirtualMediaEjectMedia'', [Post]),
      (''VirtualMediaIdActionsVirtualMediaInsertMedia'', [Post]),
      (''VirtualMediaIdCertificates'', [Get, Post])]"

definition Stubs_ResourceBlocks_35b :: "string list" where
  "Stubs_ResourceBlocks_35b = methods at_root ''ResourceBlocksResourceBlockIdSystemsComputerSystemIdVirtualMedia''
     [(''VirtualMediaIdCertificatesCertificateId'', [Get, Put, Delete, Patch]),
      (''VirtualMediaIdCertificatesCertificateIdActionsCertificateRekey'', [Post]),
      (''VirtualMediaIdCertificatesCertificateIdActionsCertificateRenew'', [Post]),
      (''VirtualMediaIdClientCertificates'', [Get])]"

definition Stubs_ResourceBlocks_35c :: "string list" where
  "Stubs_ResourceBlocks_35c = methods at_root ''ResourceBlocksResourceBlockIdSystemsComputerSystemIdVirtualMedia''
     [(''VirtualMediaIdClientCertificates'', [Post]),
      (''VirtualMediaIdClientCertificatesCertificateId'', [Get, Put, Delete, Patch]),
      (''VirtualMediaIdClientCertificatesCertificateIdActionsCertificateRekey'', [Post]),
      (''VirtualMediaIdClientCertificatesCertificateIdActionsCertificateRenew'', [Post])]"

definition Stubs_ResourceBlocks_36a :: "string list" where
  "Stubs_ResourceBlocks_36a = methods at_root ''ResourceBlocksResourceBlockIdSystemsSystemIdFabricAdaptersFabricAdapterIdGenZ''
     [(''REQVCAT'', [Get, Post]),
      (''REQVCATVCATEntryId'', [Get, Put, Delete, Patch]),
      (''RSPVCAT'', [Get, Post])]"

definition Stubs_ResourceBlocks_36b :: "string list" where
  "Stubs_ResourceBlocks_36b = methods at_root ''ResourceBlocksResourceBlockIdSystemsSystemIdFabricAdaptersFabricAdapterIdGenZ''
     [(''RSPVCATVCATEntryId'', [Get, Put, Delete, Patch])]"

definition Stubs_ResourceBlocks_37a :: "string list" where
  "Stubs_ResourceBlocks_37a = methods at_root ''ResourceBlocksResourceBlockIdSystemsSystemIdFabricAdaptersFabricAdapterId''
     [(''PortsPortIdGenZVCAT'', [Get, Post]),
      (''PortsPortIdGenZVCATVCATEntryId'', [Get, Put, Delete, Patch]),
      (''PortsPortIdVCAT'', [Get, Post])]"

definition Stubs_ResourceBlocks_37b :: "string list" where
  "Stubs_ResourceBlocks_37b = methods at_root ''ResourceBlocksResourceBlockIdSystemsSystemIdFabricAdaptersFabricAdapterId''
     [(''PortsPortIdVCATVCATEntryId'', [Get, Put, Delete, Patch]),
      (''REQVCAT'', [Get, Post]),
      (''REQVCATVCATEntryId'', [Get, Put])]"

definition Stubs_ResourceBlocks_37c :: "string list" where
  "Stubs_ResourceBlocks_37c = methods at_root ''ResourceBlocksResourceBlockIdSystemsSystemIdFabricAdaptersFabricAdapterId''
     [(''REQVCATVCATEntryId'', [Delete, Patch]),
      (''RSPVCAT'', [Get, Post]),
      (''RSPVCATVCATEntryId'', [Get, Put, Delete])]"

definition Stubs_ResourceBlocks_37d :: "string list" where
  "Stubs_ResourceBlocks_37d = methods at_root ''ResourceBlocksResourceBlockIdSystemsSystemIdFabricAdaptersFabricAdapterId''
     [(''RSPVCATVCATEntryId'', [Patch])]"

definition block_stubs :: "string list" where
  "block_stubs = concat
     [concat [Stubs_ResourceBlocks_1a],
      concat [Stubs_ResourceBlocks_2a, Stubs_ResourceBlocks_2b, Stubs_ResourceBlocks_2c, Stubs_ResourceBlocks_2d],
      concat [Stubs_ResourceBlocks_3a, Stubs_ResourceBlocks_3b],
      concat [Stubs_ResourceBlocks_4a, Stubs_ResourceBlocks_4b, Stubs_ResourceBlocks_4c, Stubs_ResourceBlocks_4d,
        Stubs_ResourceBlocks_4e],
      concat [Stubs_ResourceBlocks_5a, Stubs_ResourceBlocks_5b],
      concat [Stubs_ResourceBlocks_6a, Stubs_ResourceBlocks_6b, Stubs_ResourceBlocks_6c, Stubs_ResourceBlocks_6d],
      concat [Stubs_ResourceBlocks_7a, Stubs_ResourceBlocks_7b],
      concat [Stubs_ResourceBlocks_8a, Stubs_ResourceBlocks_8b, Stubs_ResourceBlocks_8c],
      concat [Stubs_ResourceBlocks_9a],
      concat [Stubs_ResourceBlocks_10a, Stubs_ResourceBlocks_10b],
      concat [Stubs_ResourceBlocks_11a, Stubs_ResourceBlocks_11b, Stubs_ResourceBlocks_11c,
        Stubs_ResourceBlocks_11d],
      concat [Stubs_ResourceBlocks_12a, Stubs_ResourceBlocks_12b, Stubs_ResourceBlocks_12c,
        Stubs_ResourceBlocks_12d],
      concat [Stubs_ResourceBlocks_13a, Stubs_ResourceBlocks_13b, Stubs_ResourceBlocks_13c,
        Stubs_ResourceBlocks_13d],
      concat [Stubs_ResourceBlocks_14a, Stubs_ResourceBlocks_14b, Stubs_ResourceBlocks_14c],
      concat [Stubs_ResourceBlocks_15a, Stubs_ResourceBlocks_15b, Stubs_ResourceBlocks_15c,
        Stubs_ResourceBlocks_15d, Stubs_ResourceBlocks_15e],
      concat [Stubs_ResourceBlocks_16a, Stubs_ResourceBlocks_16b, Stubs_ResourceBlocks_16c],
      concat [Stubs_ResourceBlocks_17a, Stubs_ResourceBlocks_17b, Stubs_ResourceBlocks_17c],
      concat [Stubs_ResourceBlocks_18a, Stubs_ResourceBlocks_18b, Stubs_ResourceBlocks_18c,
        Stubs_ResourceBlocks_18d],
      concat [Stubs_ResourceBlocks_19a, Stubs_ResourceBlocks_19b],
      concat [Stubs_ResourceBlocks_20a, Stubs_ResourceBlocks_20b],
      concat [Stubs_ResourceBlocks_21a, Stubs_ResourceBlocks_21b, Stubs_ResourceBlocks_21c,
        Stubs_ResourceBlocks_21d],
      concat [Stubs_ResourceBlocks_22a, Stubs_ResourceBlocks_22b, Stubs_ResourceBlocks_22c,
        Stubs_ResourceBlocks_22d, Stubs_ResourceBlocks_22e],
      concat [Stubs_ResourceBlocks_23a, Stubs_ResourceBlocks_23b, Stubs_ResourceBlocks_23c],
      concat [Stubs_ResourceBlocks_24a, Stubs_ResourceBlocks_24b],
      concat [Stubs_ResourceBlocks_25a, Stubs_ResourceBlocks_25b, Stubs_ResourceBlocks_25c,
        Stubs_ResourceBlocks_25d],
      concat [Stubs_ResourceBlocks_26a, Stubs_ResourceBlocks_26b, Stubs_ResourceBlocks_26c,
        Stubs_ResourceBlocks_26d],
      concat [Stubs_ResourceBlocks_27a, Stubs_ResourceBlocks_27b, Stubs_ResourceBlocks_27c],
      concat [Stubs_ResourceBlocks_28a, Stubs_ResourceBlocks_28b, Stubs_ResourceBlocks_28c,
        Stubs_ResourceBlocks_28d],
      concat [Stubs_ResourceBlocks_29a, Stubs_ResourceBlocks_29b],
      concat [Stubs_ResourceBlocks_30a, Stubs_ResourceBlocks_30b, Stubs_ResourceBlocks_30c,
        Stubs_ResourceBlocks_30d],
      concat [Stubs_ResourceBlocks_31a, Stubs_ResourceBlocks_31b, Stubs_ResourceBlocks_31c,
        Stubs_ResourceBlocks_31d],
      concat [Stubs_ResourceBlocks_32a, Stubs_ResourceBlocks_32b, Stubs_ResourceBlocks_32c,
        Stubs_ResourceBlocks_32d],
      concat [Stubs_ResourceBlocks_33a, Stubs_ResourceBlocks_33b, Stubs_ResourceBlocks_33c],
      concat [Stubs_ResourceBlocks_34a, Stubs_ResourceBlocks_34b],
      concat [Stubs_ResourceBlocks_35a, Stubs_ResourceBlocks_35b, Stubs_ResourceBlocks_35c],
      concat [Stubs_ResourceBlocks_36a, Stubs_ResourceBlocks_36b],
      concat [Stubs_ResourceBlocks_37a, Stubs_ResourceBlocks_37b, Stubs_ResourceBlocks_37c,
        Stubs_ResourceBlocks_37d]]"

lemma ResourceBlocks_1_covered:
  "covered Routes_ResourceBlocks_1
     (concat [Stubs_ResourceBlocks_1a])"
  unfolding Routes_ResourceBlocks_1_def Stubs_ResourceBlocks_1a_def
  by (rule covering)+

lemma ResourceBlocks_2_covered:
  "covered Routes_ResourceBlocks_2
     (concat [Stubs_ResourceBlocks_2a, Stubs_ResourceBlocks_2b, Stubs_ResourceBlocks_2c, Stubs_ResourceBlocks_2d])"
  unfolding Routes_ResourceBlocks_2_def Stubs_ResourceBlocks_2a_def Stubs_ResourceBlocks_2b_def
    Stubs_ResourceBlocks_2c_def Stubs_ResourceBlocks_2d_def
  by (rule covering)+

lemma ResourceBlocks_3_covered:
  "covered Routes_ResourceBlocks_3
     (concat [Stubs_ResourceBlocks_3a, Stubs_ResourceBlocks_3b])"
  unfolding Routes_ResourceBlocks_3_def Stubs_ResourceBlocks_3a_def Stubs_ResourceBlocks_3b_def
  by (rule covering)+

lemma ResourceBlocks_4_covered:
  "covered Routes_ResourceBlocks_4
     (concat [Stubs_ResourceBlocks_4a, Stubs_ResourceBlocks_4b, Stubs_ResourceBlocks_4c, Stubs_ResourceBlocks_4d,
        Stubs_ResourceBlocks_4e])"
  unfolding Routes_ResourceBlocks_4_def Stubs_ResourceBlocks_4a_def Stubs_ResourceBlocks_4b_def
    Stubs_ResourceBlocks_4c_def Stubs_ResourceBlocks_4d_def Stubs_ResourceBlocks_4e_def
  by (rule covering)+

lemma ResourceBlocks_5_covered:
  "covered Routes_ResourceBlocks_5
     (concat [Stubs_ResourceBlocks_5a, Stubs_ResourceBlocks_5b])"
  unfolding Routes_ResourceBlocks_5_def Stubs_ResourceBlocks_5a_def Stubs_ResourceBlocks_5b_def
  by (rule covering)+

lemma ResourceBlocks_6_covered:
  "covered Routes_ResourceBlocks_6
     (concat [Stubs_ResourceBlocks_6a, Stubs_ResourceBlocks_6b, Stubs_ResourceBlocks_6c, Stubs_ResourceBlocks_6d])"
  unfolding Routes_ResourceBlocks_6_def Stubs_ResourceBlocks_6a_def Stubs_ResourceBlocks_6b_def
    Stubs_ResourceBlocks_6c_def Stubs_ResourceBlocks_6d_def
  by (rule covering)+

lemma ResourceBlocks_7_covered:
  "covered Routes_ResourceBlocks_7
     (concat [Stubs_ResourceBlocks_7a, Stubs_ResourceBlocks_7b])"
  unfolding Routes_ResourceBlocks_7_def Stubs_ResourceBlocks_7a_def Stubs_ResourceBlocks_7b_def
  by (rule covering)+

lemma ResourceBlocks_8_covered:
  "covered Routes_ResourceBlocks_8
     (concat [Stubs_ResourceBlocks_8a, Stubs_ResourceBlocks_8b, Stubs_ResourceBlocks_8c])"
  unfolding Routes_ResourceBlocks_8_def Stubs_ResourceBlocks_8a_def Stubs_ResourceBlocks_8b_def
    Stubs_ResourceBlocks_8c_def
  by (rule covering)+

lemma ResourceBlocks_9_covered:
  "covered Routes_ResourceBlocks_9
     (concat [Stubs_ResourceBlocks_9a])"
  unfolding Routes_ResourceBlocks_9_def Stubs_ResourceBlocks_9a_def
  by (rule covering)+

lemma ResourceBlocks_10_covered:
  "covered Routes_ResourceBlocks_10
     (concat [Stubs_ResourceBlocks_10a, Stubs_ResourceBlocks_10b])"
  unfolding Routes_ResourceBlocks_10_def Stubs_ResourceBlocks_10a_def Stubs_ResourceBlocks_10b_def
  by (rule covering)+

lemma ResourceBlocks_11_covered:
  "covered Routes_ResourceBlocks_11
     (concat [Stubs_ResourceBlocks_11a, Stubs_ResourceBlocks_11b, Stubs_ResourceBlocks_11c,
        Stubs_ResourceBlocks_11d])"
  unfolding Routes_ResourceBlocks_11_def Stubs_ResourceBlocks_11a_def Stubs_ResourceBlocks_11b_def
    Stubs_ResourceBlocks_11c_def Stubs_ResourceBlocks_11d_def
  by (rule covering)+

lemma ResourceBlocks_12_covered:
  "covered Routes_ResourceBlocks_12
     (concat [Stubs_ResourceBlocks_12a, Stubs_ResourceBlocks_12b, Stubs_ResourceBlocks_12c,
        Stubs_ResourceBlocks_12d])"
  unfolding Routes_ResourceBlocks_12_def Stubs_ResourceBlocks_12a_def Stubs_ResourceBlocks_12b_def
    Stubs_ResourceBlocks_12c_def Stubs_ResourceBlocks_12d_def
  by (rule covering)+

lemma ResourceBlocks_13_covered:
  "covered Routes_ResourceBlocks_13
     (concat [Stubs_ResourceBlocks_13a, Stubs_ResourceBlocks_13b, Stubs_ResourceBlocks_13c,
        Stubs_ResourceBlocks_13d])"
  unfolding Routes_ResourceBlocks_13_def Stubs_ResourceBlocks_13a_def Stubs_ResourceBlocks_13b_def
    Stubs_ResourceBlocks_13c_def Stubs_ResourceBlocks_13d_def
  by (rule covering)+

lemma ResourceBlocks_14_covered:
  "covered Routes_ResourceBlocks_14
     (concat [Stubs_ResourceBlocks_14a, Stubs_ResourceBlocks_14b, Stubs_ResourceBlocks_14c])"
  unfolding Routes_ResourceBlocks_14_def Stubs_ResourceBlocks_14a_def Stubs_ResourceBlocks_14b_def
    Stubs_ResourceBlocks_14c_def
  by (rule covering)+

lemma ResourceBlocks_15_covered:
  "covered Routes_ResourceBlocks_15
     (concat [Stubs_ResourceBlocks_15a, Stubs_ResourceBlocks_15b, Stubs_ResourceBlocks_15c,
        Stubs_ResourceBlocks_15d, Stubs_ResourceBlocks_15e])"
  unfolding Routes_ResourceBlocks_15_def Stubs_ResourceBlocks_15a_def Stubs_ResourceBlocks_15b_def
    Stubs_ResourceBlocks_15c_def Stubs_ResourceBlocks_15d_def Stubs_ResourceBlocks_15e_def
  by (rule covering)+

lemma ResourceBlocks_16_covered:
  "covered Routes_ResourceBlocks_16
     (concat [Stubs_ResourceBlocks_16a, Stubs_ResourceBlocks_16b, Stubs_ResourceBlocks_16c])"
  unfolding Routes_ResourceBlocks_16_def Stubs_ResourceBlocks_16a_def Stubs_ResourceBlocks_16b_def
    Stubs_ResourceBlocks_16c_def
  by (rule covering)+

lemma ResourceBlocks_17_covered:
  "covered Routes_ResourceBlocks_17
     (concat [Stubs_ResourceBlocks_17a, Stubs_ResourceBlocks_17b, Stubs_ResourceBlocks_17c])"
  unfolding Routes_ResourceBlocks_17_def Stubs_ResourceBlocks_17a_def Stubs_ResourceBlocks_17b_def
    Stubs_ResourceBlocks_17c_def
  by (rule covering)+

lemma ResourceBlocks_18_covered:
  "covered Routes_ResourceBlocks_18
     (concat [Stubs_ResourceBlocks_18a, Stubs_ResourceBlocks_18b, Stubs_ResourceBlocks_18c,
        Stubs_ResourceBlocks_18d])"
  unfolding Routes_ResourceBlocks_18_def Stubs_ResourceBlocks_18a_def Stubs_ResourceBlocks_18b_def
    Stubs_ResourceBlocks_18c_def Stubs_ResourceBlocks_18d_def
  by (rule covering)+

lemma ResourceBlocks_19_covered:
  "covered Routes_ResourceBlocks_19
     (concat [Stubs_ResourceBlocks_19a, Stubs_ResourceBlocks_19b])"
  unfolding Routes_ResourceBlocks_19_def Stubs_ResourceBlocks_19a_def Stubs_ResourceBlocks_19b_def
  by (rule covering)+

lemma ResourceBlocks_20_covered:
  "covered Routes_ResourceBlocks_20
     (concat [Stubs_ResourceBlocks_20a, Stubs_ResourceBlocks_20b])"
  unfolding Routes_ResourceBlocks_20_def Stubs_ResourceBlocks_20a_def Stubs_ResourceBlocks_20b_def
  by (rule covering)+

lemma ResourceBlocks_21_covered:
  "covered Routes_ResourceBlocks_21
     (concat [Stubs_ResourceBlocks_21a, Stubs_ResourceBlocks_21b, Stubs_ResourceBlocks_21c,
        Stubs_ResourceBlocks_21d])"
  unfolding Routes_ResourceBlocks_21_def Stubs_ResourceBlocks_21a_def Stubs_ResourceBlocks_21b_def
    Stubs_ResourceBlocks_21c_def Stubs_ResourceBlocks_21d_def
  by (rule covering)+

lemma ResourceBlocks_22_covered:
  "covered Routes_ResourceBlocks_22
     (concat [Stubs_ResourceBlocks_22a, Stubs_ResourceBlocks_22b, Stubs_ResourceBlocks_22c,
        Stubs_ResourceBlocks_22d, Stubs_ResourceBlocks_22e])"
  unfolding Routes_ResourceBlocks_22_def Stubs_ResourceBlocks_22a_def Stubs_ResourceBlocks_22b_def
    Stubs_ResourceBlocks_22c_def Stubs_ResourceBlocks_22d_def Stubs_ResourceBlocks_22e_def
  by (rule covering)+

lemma ResourceBlocks_23_covered:
  "covered Routes_ResourceBlocks_23
     (concat [Stubs_ResourceBlocks_23a, Stubs_ResourceBlocks_23b, Stubs_ResourceBlocks_23c])"
  unfolding Routes_ResourceBlocks_23_def Stubs_ResourceBlocks_23a_def Stubs_ResourceBlocks_23b_def
    Stubs_ResourceBlocks_23c_def
  by (rule covering)+

lemma ResourceBlocks_24_covered:
  "covered Routes_ResourceBlocks_24
     (concat [Stubs_ResourceBlocks_24a, Stubs_ResourceBlocks_24b])"
  unfolding Routes_ResourceBlocks_24_def Stubs_ResourceBlocks_24a_def Stubs_ResourceBlocks_24b_def
  by (rule covering)+

lemma ResourceBlocks_25_covered:
  "covered Routes_ResourceBlocks_25
     (concat [Stubs_ResourceBlocks_25a, Stubs_ResourceBlocks_25b, Stubs_ResourceBlocks_25c,
        Stubs_ResourceBlocks_25d])"
  unfolding Routes_ResourceBlocks_25_def Stubs_ResourceBlocks_25a_def Stubs_ResourceBlocks_25b_def
    Stubs_ResourceBlocks_25c_def Stubs_ResourceBlocks_25d_def
  by (rule covering)+

lemma ResourceBlocks_26_covered:
  "covered Routes_ResourceBlocks_26
     (concat [Stubs_ResourceBlocks_26a, Stubs_ResourceBlocks_26b, Stubs_ResourceBlocks_26c,
        Stubs_ResourceBlocks_26d])"
  unfolding Routes_ResourceBlocks_26_def Stubs_ResourceBlocks_26a_def Stubs_ResourceBlocks_26b_def
    Stubs_ResourceBlocks_26c_def Stubs_ResourceBlocks_26d_def
  by (rule covering)+

lemma ResourceBlocks_27_covered:
  "covered Routes_ResourceBlocks_27
     (concat [Stubs_ResourceBlocks_27a, Stubs_ResourceBlocks_27b, Stubs_ResourceBlocks_27c])"
  unfolding Routes_ResourceBlocks_27_def Stubs_ResourceBlocks_27a_def Stubs_ResourceBlocks_27b_def
    Stubs_ResourceBlocks_27c_def
  by (rule covering)+

lemma ResourceBlocks_28_covered:
  "covered Routes_ResourceBlocks_28
     (concat [Stubs_ResourceBlocks_28a, Stubs_ResourceBlocks_28b, Stubs_ResourceBlocks_28c,
        Stubs_ResourceBlocks_28d])"
  unfolding Routes_ResourceBlocks_28_def Stubs_ResourceBlocks_28a_def Stubs_ResourceBlocks_28b_def
    Stubs_ResourceBlocks_28c_def Stubs_ResourceBlocks_28d_def
  by (rule covering)+

lemma ResourceBlocks_29_covered:
  "covered Routes_ResourceBlocks_29
     (concat [Stubs_ResourceBlocks_29a, Stubs_ResourceBlocks_29b])"
  unfolding Routes_ResourceBlocks_29_def Stubs_ResourceBlocks_29a_def Stubs_ResourceBlocks_29b_def
  by (rule covering)+

lemma ResourceBlocks_30_covered:
  "covered Routes_ResourceBlocks_30
     (concat [Stubs_ResourceBlocks_30a, Stubs_ResourceBlocks_30b, Stubs_ResourceBlocks_30c,
        Stubs_ResourceBlocks_30d])"
  unfolding Routes_ResourceBlocks_30_def Stubs_ResourceBlocks_30a_def Stubs_ResourceBlocks_30b_def
    Stubs_ResourceBlocks_30c_def Stubs_ResourceBlocks_30d_def
  by (rule covering)+

lemma ResourceBlocks_31_covered:
  "covered Routes_ResourceBlocks_31
     (concat [Stubs_ResourceBlocks_31a, Stubs_ResourceBlocks_31b, Stubs_ResourceBlocks_31c,
        Stubs_ResourceBlocks_31d])"
  unfolding Routes_ResourceBlocks_31_def Stubs_ResourceBlocks_31a_def Stubs_ResourceBlocks_31b_def
    Stubs_ResourceBlocks_31c_def Stubs_ResourceBlocks_31d_def
  by (rule covering)+

lemma ResourceBlocks_32_covered:
  "covered Routes_ResourceBlocks_32
     (concat [Stubs_ResourceBlocks_32a, Stubs_ResourceBlocks_32b, Stubs_ResourceBlocks_32c,
        Stubs_ResourceBlocks_32d])"
  unfolding Routes_ResourceBlocks_32_def Stubs_ResourceBlocks_32a_def Stubs_ResourceBlocks_32b_def
    Stubs_ResourceBlocks_32c_def Stubs_ResourceBlocks_32d_def
  by (rule covering)+

lemma ResourceBlocks_33_covered:
  "covered Routes_ResourceBlocks_33
     (concat [Stubs_ResourceBlocks_33a, Stubs_ResourceBlocks_33b, Stubs_ResourceBlocks_33c])"
  unfolding Routes_ResourceBlocks_33_def Stubs_ResourceBlocks_33a_def Stubs_ResourceBlocks_33b_def
    Stubs_ResourceBlocks_33c_def
  by (rule covering)+

lemma ResourceBlocks_34_covered:
  "covered Routes_ResourceBlocks_34
     (concat [Stubs_ResourceBlocks_34a, Stubs_ResourceBlocks_34b])"
  unfolding Routes_ResourceBlocks_34_def Stubs_ResourceBlocks_34a_def Stubs_ResourceBlocks_34b_def
  by (rule covering)+

lemma ResourceBlocks_35_covered:
  "covered Routes_ResourceBlocks_35
     (concat [Stubs_ResourceBlocks_35a, Stubs_ResourceBlocks_35b, Stubs_ResourceBlocks_35c])"
  unfolding Routes_ResourceBlocks_35_def Stubs_ResourceBlocks_35a_def Stubs_ResourceBlocks_35b_def
    Stubs_ResourceBlocks_35c_def
  by (rule covering)+

lemma ResourceBlocks_36_covered:
  "covered Routes_ResourceBlocks_36
     (concat [Stubs_ResourceBlocks_36a, Stubs_ResourceBlocks_36b])"
  unfolding Routes_ResourceBlocks_36_def Stubs_ResourceBlocks_36a_def Stubs_ResourceBlocks_36b_def
  by (rule covering)+

lemma ResourceBlocks_37_covered:
  "covered Routes_ResourceBlocks_37
     (concat [Stubs_ResourceBlocks_37a, Stubs_ResourceBlocks_37b, Stubs_ResourceBlocks_37c,
        Stubs_ResourceBlocks_37d])"
  unfolding Routes_ResourceBlocks_37_def Stubs_ResourceBlocks_37a_def Stubs_ResourceBlocks_37b_def
    Stubs_ResourceBlocks_37c_def Stubs_ResourceBlocks_37d_def
  by (rule covering)+

lemma block_covered: "covered block_routes block_stubs"
  unfolding block_routes_def block_stubs_def
  by (intro covered_concat
    ResourceBlocks_1_covered ResourceBlocks_2_covered ResourceBlocks_3_covered ResourceBlocks_4_covered
    ResourceBlocks_5_covered ResourceBlocks_6_covered ResourceBlocks_7_covered ResourceBlocks_8_covered
    ResourceBlocks_9_covered ResourceBlocks_10_covered ResourceBlocks_11_covered
    ResourceBlocks_12_covered ResourceBlocks_13_covered ResourceBlocks_14_covered
    ResourceBlocks_15_covered ResourceBlocks_16_covered ResourceBlocks_17_covered
    ResourceBlocks_18_covered ResourceBlocks_19_covered ResourceBlocks_20_covered
    ResourceBlocks_21_covered ResourceBlocks_22_covered ResourceBlocks_23_covered
    ResourceBlocks_24_covered ResourceBlocks_25_covered ResourceBlocks_26_covered
    ResourceBlocks_27_covered ResourceBlocks_28_covered ResourceBlocks_29_covered
    ResourceBlocks_30_covered ResourceBlocks_31_covered ResourceBlocks_32_covered
    ResourceBlocks_33_covered ResourceBlocks_34_covered ResourceBlocks_35_covered
    ResourceBlocks_36_covered ResourceBlocks_37_covered)

end
