(* ===== verification/StubsSystems.thy ===== *)
theory StubsSystems
  imports RoutesSystems ServiceMethods
begin

text \<open>
  The methods of the service (pkg/redfish/api_service.go) for the systems that do nothing but
  answer 501 Not Implemented with their name, group by group of their routes.
\<close>

definition Stubs_Systems_1a :: "string list" where
  "Stubs_Systems_1a = methods at_root ''Systems''
     [('''', [Post])]"

definition Stubs_Systems_2a :: "string list" where
  "Stubs_Systems_2a = methods at_system ''''
     [('''', [Put, Delete])]"

definition Stubs_Systems_3a :: "string list" where
  "Stubs_Systems_3a = methods at_system ''Actions''
     [(''ComputerSystemAddResourceBlock'', [Post]),
      (''ComputerSystemDecommission'', [Post]),
      (''ComputerSystemRemoveResourceBlock'', [Post])]"

definition Stubs_Systems_6a :: "string list" where
  "Stubs_Systems_6a = methods at_system ''''
     [(''Bios'', [Get, Put, Patch]),
      (''BiosActionsBiosChangePassword'', [Post]),
      (''BiosActionsBiosResetBios'', [Post]),
      (''BootCertificates'', [Get, Post]),
      (''BootCertificatesCertificateId'', [Get])]"

definition Stubs_Systems_6b :: "string list" where
  "Stubs_Systems_6b = methods at_system ''''
     [(''BootCertificatesCertificateId'', [Put, Delete, Patch]),
      (''BootCertificatesCertificateIdActionsCertificateRekey'', [Post]),
      (''BootCertificatesCertificateIdActionsCertificateRenew'', [Post]),
      (''BootOptions'', [Get, Post])]"

definition Stubs_Systems_6c :: "string list" where
  "Stubs_Systems_6c = methods at_system ''''
     [(''BootOptionsBootOptionId'', [Get, Put, Delete, Patch])]"

definition Stubs_Systems_7a :: "string list" where
  "Stubs_Systems_7a = methods at_system ''''
     [(''Certificates'', [Get, Post]),
      (''CertificatesCertificateId'', [Get, Put, Delete, Patch]),
      (''CertificatesCertificateIdActionsCertificateRekey'', [Post])]"

definition Stubs_Systems_7b :: "string list" where
  "Stubs_Systems_7b = methods at_system ''''
     [(''CertificatesCertificateIdActionsCertificateRenew'', [Post]),
      (''EthernetInterfaces'', [Get, Post]),
      (''EthernetInterfacesEthernetInterfaceId'', [Get, Put, Delete, Patch]),
      (''EthernetInterfacesEthernetInterfaceIdVLANs'', [Get])]"

definition Stubs_Systems_7c :: "string list" where
  "Stubs_Systems_7c = methods at_system ''''
     [(''EthernetInterfacesEthernetInterfaceIdVLANs'', [Post]),
      (''EthernetInterfacesEthernetInterfaceIdVLANsVLanNetworkInterfaceId'', [Get, Put, Delete, Patch]),
      (''FabricAdapters'', [Get])]"

definition Stubs_Systems_8a :: "string list" where
  "Stubs_Systems_8a = methods at_system ''FabricAdaptersFabricAdapterId''
     [('''', [Get, Put, Patch]),
      (''GenZMSDT'', [Get, Post]),
      (''GenZMSDTMSDTId'', [Get, Put, Delete])]"

definition Stubs_Systems_8b :: "string list" where
  "Stubs_Systems_8b = methods at_system ''FabricAdaptersFabricAdapterId''
     [(''GenZMSDTMSDTId'', [Patch]),
      (''GenZSSDT'', [Get, Post]),
      (''GenZSSDTSSDTId'', [Get, Put, Delete, Patch]),
      (''MSDT'', [Get])]"

definition Stubs_Systems_8c :: "string list" where
  "Stubs_Systems_8c = methods at_system ''FabricAdaptersFabricAdapterId''
     [(''MSDT'', [Post]),
      (''MSDTMSDTId'', [Get, Put, Delete, Patch]),
      (''MSDTMSDTIdRouteSet'', [Get, Post]),
      (''MSDTMSDTIdRouteSetRouteId'', [Get])]"

definition Stubs_Systems_8d :: "string list" where
  "Stubs_Systems_8d = methods at_system ''FabricAdaptersFabricAdapterId''
     [(''MSDTMSDTIdRouteSetRouteId'', [Put, Delete, Patch]),
      (''Ports'', [Get])]"

definition Stubs_Systems_9a :: "string list" where
  "Stubs_Systems_9a = methods at_system ''FabricAdaptersFabricAdapterIdPortsPortId''
     [('''', [Get, Put, Patch]),
      (''ActionsPortReset'', [Post]),
      (''ActionsPortResetPPB'', [Post]),
      (''EnvironmentMetrics'', [Get, Put])]"

definition Stubs_Systems_9b :: "string list" where
  "Stubs_Systems_9b = methods at_system ''FabricAdaptersFabricAdapterIdPortsPortId''
     [(''EnvironmentMetrics'', [Patch]),
      (''EnvironmentMetricsActionsEnvironmentMetricsResetMetrics'', [Post]),
      (''EnvironmentMetricsActionsEnvironmentMetricsResetToDefaults'', [Post]),
      (''GenZLPRT'', [Get, Post]),
      (''GenZLPRTLPRTId'', [Get, Put])]"

definition Stubs_Systems_9c :: "string list" where
  "Stubs_Systems_9c = methods at_system ''FabricAdaptersFabricAdapterIdPortsPortId''
     [(''GenZLPRTLPRTId'', [Delete, Patch]),
      (''GenZMPRT'', [Get, Post]),
      (''GenZMPRTMPRTId'', [Get, Put, Delete, Patch])]"

definition Stubs_Systems_9d :: "string list" where
  "Stubs_Systems_9d = methods at_system ''FabricAdaptersFabricAdapterIdPortsPortId''
     [(''LPRT'', [Get, Post]),
      (''LPRTLPRTId'', [Get, Put, Delete, Patch]),
      (''LPRTLPRTIdRouteSet'', [Get, Post])]"

definition Stubs_Systems_10a :: "string list" where
  "Stubs_Systems_10a = methods at_system ''FabricAdaptersFabricAdapterId''
     [(''PortsPortIdLPRTLPRTIdRouteSetRouteId'', [Get, Put, Delete, Patch]),
      (''PortsPortIdMPRT'', [Get, Post]),
      (''PortsPortIdMPRTMPRTId'', [Get, Put])]"

definition Stubs_Systems_10b :: "string list" where
  "Stubs_Systems_10b = methods at_system ''FabricAdaptersFabricAdapterId''
     [(''PortsPortIdMPRTMPRTId'', [Delete, Patch]),
      (''PortsPortIdMPRTMPRTIdRouteSet'', [Get, Post]),
      (''PortsPortIdMPRTMPRTIdRouteSetRouteId'', [Get, Put, Delete, Patch])]"

definition Stubs_Systems_10c :: "string list" where
  "Stubs_Systems_10c = methods at_system ''FabricAdaptersFabricAdapterId''
     [(''PortsPortIdMetrics'', [Get]),
      (''SSDT'', [Get, Post]),
      (''SSDTSSDTId'', [Get, Put, Delete, Patch]),
      (''SSDTSSDTIdRouteSet'', [Get])]"

definition Stubs_Systems_10d :: "string list" where
  "Stubs_Systems_10d = methods at_system ''FabricAdaptersFabricAdapterId''
     [(''SSDTSSDTIdRouteSet'', [Post]),
      (''SSDTSSDTIdRouteSetRouteId'', [Get, Put, Delete, Patch])]"

definition Stubs_Systems_11a :: "string list" where
  "Stubs_Systems_11a = methods at_system ''GraphicsControllers''
     [('''', [Get]),
      (''ControllerId'', [Get, Put, Delete, Patch]),
      (''ControllerIdPorts'', [Get]),
      (''ControllerIdPortsPortId'', [Get, Put])]"

definition Stubs_Systems_11b :: "string list" where
  "Stubs_Systems_11b = methods at_system ''GraphicsControllers''
     [(''ControllerIdPortsPortId'', [Patch]),
      (''ControllerIdPortsPortIdActionsPortReset'', [Post]),
      (''ControllerIdPortsPortIdActionsPortResetPPB'', [Post]),
      (''ControllerIdPortsPortIdEnvironmentMetrics'', [Get, Put, Patch]),
      (''ControllerIdPortsPortIdEnvironmentMetricsActionsEnvironmentMetricsResetMetrics'', [Post])]"

definition Stubs_Systems_11c :: "string list" where
  "Stubs_Systems_11c = methods at_system ''GraphicsControllers''
     [(''ControllerIdPortsPortIdEnvironmentMetricsActionsEnvironmentMetricsResetToDefaults'', [Post]),
      (''ControllerIdPortsPortIdMetrics'', [Get])]"

definition Stubs_Systems_12a :: "string list" where
  "Stubs_Systems_12a = methods at_system ''''
     [(''KeyManagementKMIPCertificates'', [Get, Post]),
      (''KeyManagementKMIPCertificatesCertificateId'', [Get, Put, Delete, Patch]),
      (''KeyManagementKMIPCertificatesCertificateIdActionsCertificateRekey'', [Post])]"

definition Stubs_Systems_12b :: "string list" where
  "Stubs_Systems_12b = methods at_system ''''
     [(''KeyManagementKMIPCertificatesCertificateIdActionsCertificateRenew'', [Post]),
      (''LogServices'', [Get]),
      (''LogServicesLogServiceId'', [Get, Put, Patch]),
      (''LogServicesLogServiceIdActionsLogServiceClearLog'', [Post]),
      (''LogServicesLogServiceIdActionsLogServiceCollectDiagnosticData'', [Post])]"

definition Stubs_Systems_12c :: "string list" where
  "Stubs_Systems_12c = methods at_system ''''
     [(''LogServicesLogServiceIdActionsLogServicePushDiagnosticData'', [Post]),
      (''LogServicesLogServiceIdEntries'', [Get, Post]),
      (''LogServicesLogServiceIdEntriesLogEntryId'', [Get, Put, Delete, Patch]),
      (''Memory'', [Get])]"

definition Stubs_Systems_12d :: "string list" where
  "Stubs_Systems_12d = methods at_system ''''
     [(''MemoryMemoryId'', [Get, Put, Patch])]"

definition Stubs_Systems_13a :: "string list" where
  "Stubs_Systems_13a = methods at_system ''MemoryMemoryIdActions''
     [(''MemoryDisableMasterPassphrase'', [Post]),
      (''MemoryDisablePassphrase'', [Post]),
      (''MemoryFreezeSecurityState'', [Post]),
      (''MemoryInjectPersistentPoison'', [Post]),
      (''MemoryOverwriteUnit'', [Post]),
      (''MemoryReset'', [Post])]"

definition Stubs_Systems_13b :: "string list" where
  "Stubs_Systems_13b = methods at_system ''MemoryMemoryIdActions''
     [(''MemoryResetToDefaults'', [Post]),
      (''MemoryScanMedia'', [Post]),
      (''MemorySecureEraseUnit'', [Post]),
      (''MemorySetMasterPassphrase'', [Post]),
      (''MemorySetPassphrase'', [Post]),
      (''MemoryUnlockUnit'', [Post])]"

definition Stubs_Systems_14a :: "string list" where
  "Stubs_Systems_14a = methods at_system ''MemoryMemoryId''
     [(''Assembly'', [Get, Put, Patch]),
      (''Certificates'', [Get, Post]),
      (''CertificatesCertificateId'', [Get, Put, Delete])]"

definition Stubs_Systems_14b :: "string list" where
  "Stubs_Systems_14b = methods at_system ''MemoryMemoryId''
     [(''CertificatesCertificateId'', [Patch]),
      (''CertificatesCertificateIdActionsCertificateRekey'', [Post]),
      (''CertificatesCertificateIdActionsCertificateRenew'', [Post]),
      (''DeviceLog'', [Get, Put, Patch]),
      (''DeviceLogActionsLogServiceClearLog'', [Post])]"

definition Stubs_Systems_14c :: "string list" where
  "Stubs_Systems_14c = methods at_system ''MemoryMemoryId''
     [(''DeviceLogActionsLogServiceCollectDiagnosticData'', [Post]),
      (''DeviceLogActionsLogServicePushDiagnosticData'', [Post]),
      (''DeviceLogEntries'', [Get, Post]),
      (''DeviceLogEntriesLogEntryId'', [Get, Put, Delete])]"

definition Stubs_Systems_14d :: "string list" where
  "Stubs_Systems_14d = methods at_system ''MemoryMemoryId''
     [(''DeviceLogEntriesLogEntryId'', [Patch]),
      (''EnvironmentMetrics'', [Get, Put, Patch]),
      (''EnvironmentMetricsActionsEnvironmentMetricsResetMetrics'', [Post]),
      (''EnvironmentMetricsActionsEnvironmentMetricsResetToDefaults'', [Post]),
      (''MemoryMetrics'', [Get])]"

definition Stubs_Systems_14e :: "string list" where
  "Stubs_Systems_14e = methods at_system ''MemoryMemoryId''
     [(''MemoryMetricsActionsMemoryMetricsClearCurrentPeriod'', [Post])]"

definition Stubs_Systems_15a :: "string list" where
  "Stubs_Systems_15a = methods at_system ''''
     [(''MemoryDomains'', [Get]),
      (''MemoryDomainsMemoryDomainId'', [Get]),
      (''MemoryDomainsMemoryDomainIdMemoryChunks'', [Get, Post]),
      (''MemoryDomainsMemoryDomainIdMemoryChunksMemoryChunksId'', [Get, Put, Delete, Patch]),
      (''MemorySummaryMemoryMetrics'', [Get])]"

definition Stubs_Systems_15b :: "string list" where
  "Stubs_Systems_15b = methods at_system ''''
     [(''MemorySummaryMemoryMetricsActionsMemoryMetricsClearCurrentPeriod'', [Post]),
      (''NetworkInterfaces'', [Get]),
      (''NetworkInterfacesNetworkInterfaceId'', [Get]),
      (''NetworkInterfacesNetworkInterfaceIdNetworkDeviceFunctions'', [Get]),
      (''NetworkInterfacesNetworkInterfaceIdNetworkDeviceFunctionsNetworkDeviceFunctionIdAllowDeny'', [Get, Post]),
      (''NetworkInterfacesNetworkInterfaceIdNetworkDeviceFunctionsNetworkDeviceFunctionIdAllowDenyAllowDenyId'', [Get, Put])]"

definition Stubs_Systems_15c :: "string list" where
  "Stubs_Systems_15c = methods at_system ''''
     [(''NetworkInterfacesNetworkInterfaceIdNetworkDeviceFunctionsNetworkDeviceFunctionIdAllowDenyAllowDenyId'', [Delete, Patch]),
      (''NetworkInterfacesNetworkInterfaceIdNetworkPorts'', [Get]),
      (''NetworkInterfacesNetworkInterfaceIdPorts'', [Get])]"

definition Stubs_Systems_17a :: "string list" where
  "Stubs_Systems_17a = methods at_system ''OperatingSystem''
     [(''Applications'', [Get]),
      (''ApplicationsApplicationId'', [Get]),
      (''ApplicationsApplicationIdActionsApplicationReset'', [Post]),
      (''ContainerImages'', [Get]),
      (''ContainerImagesContainerImageId'', [Get]),
      (''Containers'', [Get]),
      (''ContainersEthernetInterfaces'', [Get, Post]),
      (''ContainersEthernetInterfacesEthernetInterfaceId'', [Get])]"

definition Stubs_Systems_17b :: "string list" where
  "Stubs_Systems_17b = methods at_system ''OperatingSystem''
     [(''ContainersEthernetInterfacesEthernetInterfaceId'', [Put, Delete, Patch]),
      (''ContainersContainerId'', [Get]),
      (''ContainersContainerIdActionsContainerReset'', [Post])]"

definition Stubs_Systems_18a :: "string list" where
  "Stubs_Systems_18a = methods at_system ''''
     [(''PCIeDevices'', [Get]),
      (''PCIeDevicesPCIeDeviceId'', [Get, Put, Patch]),
      (''PCIeDevicesPCIeDeviceIdAssembly'', [Get, Put, Patch]),
      (''PCIeDevicesPCIeDeviceIdEnvironmentMetrics'', [Get])]"

definition Stubs_Systems_18b :: "string list" where
  "Stubs_Systems_18b = methods at_system ''''
     [(''PCIeDevicesPCIeDeviceIdEnvironmentMetrics'', [Put, Patch]),
      (''PCIeDevicesPCIeDeviceIdEnvironmentMetricsActionsEnvironmentMetricsResetMetrics'', [Post]),
      (''PCIeDevicesPCIeDeviceIdEnvironmentMetricsActionsEnvironmentMetricsResetToDefaults'', [Post]),
      (''PCIeDevicesPCIeDeviceIdPCIeFunctions'', [Get]),
      (''PCIeDevicesPCIeDeviceIdPCIeFunctionsPCIeFunctionId'', [Get, Put])]"

definition Stubs_Systems_18c :: "string list" where
  "Stubs_Systems_18c = methods at_system ''''
     [(''PCIeDevicesPCIeDeviceIdPCIeFunctionsPCIeFunctionId'', [Patch]),
      (''ProcessorSummaryProcessorMetrics'', [Get]),
      (''ProcessorSummaryProcessorMetricsActionsProcessorMetricsClearCurrentPeriod'', [Post]),
      (''Processors'', [Get])]"

definition Stubs_Systems_19a :: "string list" where
  "Stubs_Systems_19a = methods at_system ''ProcessorsProcessorId''
     [('''', [Get, Put, Patch]),
      (''AccelerationFunctions'', [Get]),
      (''AccelerationFunctionsAccelerationFunctionId'', [Get]),
      (''ActionsProcessorReset'', [Post]),
      (''ActionsProcessorResetToDefaults'', [Post]),
      (''Assembly'', [Get])]"

definition Stubs_Systems_19b :: "string list" where
  "Stubs_Systems_19b = methods at_system ''ProcessorsProcessorId''
     [(''Assembly'', [Put, Patch]),
      (''Certificates'', [Get, Post]),
      (''CertificatesCertificateId'', [Get, Put, Delete, Patch])]"

definition Stubs_Systems_19c :: "string list" where
  "Stubs_Systems_19c = methods at_system ''ProcessorsProcessorId''
     [(''CertificatesCertificateIdActionsCertificateRekey'', [Post]),
      (''CertificatesCertificateIdActionsCertificateRenew'', [Post]),
      (''EnvironmentMetrics'', [Get, Put, Patch]),
      (''EnvironmentMetricsActionsEnvironmentMetricsResetMetrics'', [Post]),
      (''EnvironmentMetricsActionsEnvironmentMetricsResetToDefaults'', [Post])]"

definition Stubs_Systems_19d :: "string list" where
  "Stubs_Systems_19d = methods at_system ''ProcessorsProcessorId''
     [(''MemorySummaryMemoryMetrics'', [Get]),
      (''MemorySummaryMemoryMetricsActionsMemoryMetricsClearCurrentPeriod'', [Post]),
      (''OperatingConfigs'', [Get]),
      (''OperatingConfigsOperatingConfigId'', [Get]),
      (''Ports'', [Get])]"

definition Stubs_Systems_20a :: "string list" where
  "Stubs_Systems_20a = methods at_system ''ProcessorsProcessorId''
     [(''PortsPortId'', [Get, Put, Patch]),
      (''PortsPortIdActionsPortReset'', [Post]),
      (''PortsPortIdActionsPortResetPPB'', [Post]),
      (''PortsPortIdEnvironmentMetrics'', [Get, Put])]"

definition Stubs_Systems_20b :: "string list" where
  "Stubs_Systems_20b = methods at_system ''ProcessorsProcessorId''
     [(''PortsPortIdEnvironmentMetrics'', [Patch]),
      (''PortsPortIdEnvironmentMetricsActionsEnvironmentMetricsResetMetrics'', [Post]),
      (''PortsPortIdEnvironmentMetricsActionsEnvironmentMetricsResetToDefaults'', [Post]),
      (''PortsPortIdMetrics'', [Get]),
      (''ProcessorMetrics'', [Get]),
      (''ProcessorMetricsActionsProcessorMetricsClearCurrentPeriod'', [Post]),
      (''SubProcessors'', [Get])]"

definition Stubs_Systems_21a :: "string list" where
  "Stubs_Systems_21a = methods at_system ''ProcessorsProcessorIdSubProcessorsProcessorId2''
     [('''', [Get, Put, Patch]),
      (''ActionsProcessorReset'', [Post]),
      (''ActionsProcessorResetToDefaults'', [Post]),
      (''Assembly'', [Get, Put])]"

definition Stubs_Systems_21b :: "string list" where
  "Stubs_Systems_21b = methods at_system ''ProcessorsProcessorIdSubProcessorsProcessorId2''
     [(''Assembly'', [Patch]),
      (''ProcessorMetrics'', [Get]),
      (''ProcessorMetricsActionsProcessorMetricsClearCurrentPeriod'', [Post]),
      (''SubProcessors'', [Get]),
      (''SubProcessorsProcessorId3'', [Get, Put, Patch]),
      (''SubProcessorsProcessorId3ActionsProcessorReset'', [Post])]"

definition Stubs_Systems_21c :: "string list" where
  "Stubs_Systems_21c = methods at_system ''ProcessorsProcessorIdSubProcessorsProcessorId2''
     [(''SubProcessorsProcessorId3ActionsProcessorResetToDefaults'', [Post]),
      (''SubProcessorsProcessorId3Assembly'', [Get, Put, Patch]),
      (''SubProcessorsProcessorId3ProcessorMetrics'', [Get]),
      (''SubProcessorsProcessorId3ProcessorMetricsActionsProcessorMetricsClearCurrentPeriod'', [Post])]"

definition Stubs_Systems_22a :: "string list" where
  "Stubs_Systems_22a = methods at_system ''''
     [(''SecureBoot'', [Get, Put, Patch]),
      (''SecureBootActionsSecureBootResetKeys'', [Post]),
      (''SecureBootSecureBootDatabases'', [Get]),
      (''SecureBootSecureBootDatabasesDatabaseId'', [Get]),
      (''SecureBootSecureBootDatabasesDatabaseIdActionsSecureBootDatabaseResetKeys'', [Post]),
      (''SecureBootSecureBootDatabasesDatabaseIdCertificates'', [Get])]"

definition Stubs_Systems_22b :: "string list" where
  "Stubs_Systems_22b = methods at_system ''''
     [(''SecureBootSecureBootDatabasesDatabaseIdCertificates'', [Post]),
      (''SecureBootSecureBootDatabasesDatabaseIdCertificatesCertificateId'', [Get, Put, Delete, Patch]),
      (''SecureBootSecureBootDatabasesDatabaseIdCertificatesCertificateIdActionsCertificateRekey'', [Post]),
      (''SecureBootSecureBootDatabasesDatabaseIdCertificatesCertificateIdActionsCertificateRenew'', [Post])]"

definition Stubs_Systems_22c :: "string list" where
  "Stubs_Systems_22c = methods at_system ''''
     [(''SecureBootSecureBootDatabasesDatabaseIdSignatures'', [Get, Post]),
      (''SecureBootSecureBootDatabasesDatabaseIdSignaturesSignatureId'', [Get, Delete]),
      (''SimpleStorage'', [Get]),
      (''SimpleStorageSimpleStorageId'', [Get]),
      (''Storage'', [Get]),
      (''StorageStorageId'', [Get, Put])]"

definition Stubs_Systems_22d :: "string list" where
  "Stubs_Systems_22d = methods at_system ''''
     [(''StorageStorageId'', [Patch]),
      (''StorageStorageIdActionsStorageResetToDefaults'', [Post]),
      (''StorageStorageIdActionsStorageSetEncryptionKey'', [Post]),
      (''StorageStorageIdConsistencyGroupsConsistencyGroupIdVolumes'', [Get, Post])]"

definition Stubs_Systems_23a :: "string list" where
  "Stubs_Systems_23a = methods at_system ''StorageStorageIdConsistencyGroupsConsistencyGroupIdVolumesVolumeId''
     [('''', [Get, Put, Delete, Patch]),
      (''ActionsVolumeAssignReplicaTarget'', [Post]),
      (''ActionsVolumeChangeRAIDLayout'', [Post]),
      (''ActionsVolumeCheckConsistency'', [Post])]"

definition Stubs_Systems_23b :: "string list" where
  "Stubs_Systems_23b = methods at_system ''StorageStorageIdConsistencyGroupsConsistencyGroupIdVolumesVolumeId''
     [(''ActionsVolumeCreateReplicaTarget'', [Post]),
      (''ActionsVolumeForceEnable'', [Post]),
      (''ActionsVolumeInitialize'', [Post]),
      (''ActionsVolumeRemoveReplicaRelationship'', [Post]),
      (''ActionsVolumeResumeReplication'', [Post]),
      (''ActionsVolumeReverseReplicationRelationship'', [Post])]"

definition Stubs_Systems_23c :: "string list" where
  "Stubs_Systems_23c = methods at_system ''StorageStorageIdConsistencyGroupsConsistencyGroupIdVolumesVolumeId''
     [(''ActionsVolumeSplitReplication'', [Post]),
      (''ActionsVolumeSuspendReplication'', [Post])]"

definition Stubs_Systems_24a :: "string list" where
  "Stubs_Systems_24a = methods at_system ''StorageStorageIdControllers''
     [('''', [Get]),
      (''ControllerId'', [Get, Put, Patch]),
      (''ControllerIdActionsStorageControllerAttachNamespaces'', [Post]),
      (''ControllerIdActionsStorageControllerDetachNamespaces'', [Post]),
      (''ControllerIdActionsStorageControllerSecurityReceive'', [Post])]"

definition Stubs_Systems_24b :: "string list" where
  "Stubs_Systems_24b = methods at_system ''StorageStorageIdControllers''
     [(''ControllerIdActionsStorageControllerSecuritySend'', [Post]),
      (''ControllerIdEnvironmentMetrics'', [Get, Put, Patch]),
      (''ControllerIdEnvironmentMetricsActionsEnvironmentMetricsResetMetrics'', [Post]),
      (''ControllerIdEnvironmentMetricsActionsEnvironmentMetricsResetToDefaults'', [Post]),
      (''ControllerIdMetrics'', [Get])]"

definition Stubs_Systems_25a :: "string list" where
  "Stubs_Systems_25a = methods at_system ''StorageStorageIdControllersStorageControllerId''
     [(''Assembly'', [Get, Put, Patch]),
      (''Certificates'', [Get, Post]),
      (''CertificatesCertificateId'', [Get, Put, Delete])]"

definition Stubs_Systems_25b :: "string list" where
  "Stubs_Systems_25b = methods at_system ''StorageStorageIdControllersStorageControllerId''
     [(''CertificatesCertificateId'', [Patch]),
      (''CertificatesCertificateIdActionsCertificateRekey'', [Post]),
      (''CertificatesCertificateIdActionsCertificateRenew'', [Post]),
      (''Ports'', [Get]),
      (''PortsPortId'', [Get, Put, Patch])]"

definition Stubs_Systems_25c :: "string list" where
  "Stubs_Systems_25c = methods at_system ''StorageStorageIdControllersStorageControllerId''
     [(''PortsPortIdActionsPortReset'', [Post]),
      (''PortsPortIdActionsPortResetPPB'', [Post]),
      (''PortsPortIdEnvironmentMetrics'', [Get, Put, Patch]),
      (''PortsPortIdEnvironmentMetricsActionsEnvironmentMetricsResetMetrics'', [Post]),
      (''PortsPortIdEnvironmentMetricsActionsEnvironmentMetricsResetToDefaults'', [Post])]"

definition Stubs_Systems_25d :: "string list" where
  "Stubs_Systems_25d = methods at_system ''StorageStorageIdControllersStorageControllerId''
     [(''PortsPortIdMetrics'', [Get])]"

definition Stubs_Systems_26a :: "string list" where
  "Stubs_Systems_26a = methods at_system ''StorageStorageIdDrivesDriveId''
     [('''', [Get, Put, Patch]),
      (''ActionsDriveReset'', [Post]),
      (''ActionsDriveRevertToOriginalFactoryState'', [Post]),
      (''ActionsDriveSecureErase'', [Post]),
      (''Assembly'', [Get])]"

definition Stubs_Systems_26b :: "string list" where
  "Stubs_Systems_26b = methods at_system ''StorageStorageIdDrivesDriveId''
     [(''Assembly'', [Put, Patch]),
      (''Certificates'', [Get, Post]),
      (''CertificatesCertificateId'', [Get, Put, Delete, Patch])]"

definition Stubs_Systems_26c :: "string list" where
  "Stubs_Systems_26c = methods at_system ''StorageStorageIdDrivesDriveId''
     [(''CertificatesCertificateIdActionsCertificateRekey'', [Post]),
      (''CertificatesCertificateIdActionsCertificateRenew'', [Post]),
      (''EnvironmentMetrics'', [Get, Put, Patch]),
      (''EnvironmentMetricsActionsEnvironmentMetricsResetMetrics'', [Post]),
      (''EnvironmentMetricsActionsEnvironmentMetricsResetToDefaults'', [Post])]"

definition Stubs_Systems_26d :: "string list" where
  "Stubs_Systems_26d = methods at_system ''StorageStorageIdDrivesDriveId''
     [(''Metrics'', [Get])]"

definition Stubs_Systems_27a :: "string list" where
  "Stubs_Systems_27a = methods at_system ''StorageStorageId''
     [(''EndpointGroups'', [Get, Post]),
      (''EndpointGroupsEndpointGroupId'', [Get, Put, Delete, Patch]),
      (''FileSystemsFileSystemIdCapacitySourcesCapacitySourceIdProvidingDrives'', [Get]),
      (''FileSystemsFileSystemIdCapacitySourcesCapacitySourceIdProvidingVolumes'', [Get])]"

definition Stubs_Systems_27b :: "string list" where
  "Stubs_Systems_27b = methods at_system ''StorageStorageId''
     [(''FileSystemsFileSystemIdCapacitySourcesCapacitySourceIdProvidingVolumes'', [Post]),
      (''FileSystemsFileSystemIdCapacitySourcesCapacitySourceIdProvidingVolumesVolumeId'', [Get, Put, Delete, Patch])]"

definition Stubs_Systems_28a :: "string list" where
  "Stubs_Systems_28a = methods at_system ''StorageStorageIdFileSystemsFileSystemIdCapacitySourcesCapacitySourceIdProvidingVolumesVolumeIdActions''
     [(''VolumeAssignReplicaTarget'', [Post]),
      (''VolumeChangeRAIDLayout'', [Post]),
      (''VolumeCheckConsistency'', [Post]),
      (''VolumeCreateReplicaTarget'', [Post]),
      (''VolumeForceEnable'', [Post]),
      (''VolumeInitialize'', [Post])]"

definition Stubs_Systems_28b :: "string list" where
  "Stubs_Systems_28b = methods at_system ''StorageStorageIdFileSystemsFileSystemIdCapacitySourcesCapacitySourceIdProvidingVolumesVolumeIdActions''
     [(''VolumeRemoveReplicaRelationship'', [Post]),
      (''VolumeResumeReplication'', [Post]),
      (''VolumeReverseReplicationRelationship'', [Post]),
      (''VolumeSplitReplication'', [Post]),
      (''VolumeSuspendReplication'', [Post])]"

definition Stubs_Systems_29a :: "string list" where
  "Stubs_Systems_29a = methods at_system ''StorageStorageIdStorageControllersStorageControllerId''
     [(''Assembly'', [Get, Put, Patch]),
      (''Certificates'', [Get, Post]),
      (''CertificatesCertificateId'', [Get, Put, Delete])]"

definition Stubs_Systems_29b :: "string list" where
  "Stubs_Systems_29b = methods at_system ''StorageStorageIdStorageControllersStorageControllerId''
     [(''CertificatesCertificateId'', [Patch]),
      (''CertificatesCertificateIdActionsCertificateRekey'', [Post]),
      (''CertificatesCertificateIdActionsCertificateRenew'', [Post]),
      (''Ports'', [Get]),
      (''PortsPortId'', [Get, Put, Patch])]"

definition Stubs_Systems_29c :: "string list" where
  "Stubs_Systems_29c = methods at_system ''StorageStorageIdStorageControllersStorageControllerId''
     [(''PortsPortIdActionsPortReset'', [Post]),
      (''PortsPortIdActionsPortResetPPB'', [Post]),
      (''PortsPortIdEnvironmentMetrics'', [Get, Put, Patch]),
      (''PortsPortIdEnvironmentMetricsActionsEnvironmentMetricsResetMetrics'', [Post]),
      (''PortsPortIdEnvironmentMetricsActionsEnvironmentMetricsResetToDefaults'', [Post])]"

definition Stubs_Systems_29d :: "string list" where
  "Stubs_Systems_29d = methods at_system ''StorageStorageIdStorageControllersStorageControllerId''
     [(''PortsPortIdMetrics'', [Get])]"

definition Stubs_Systems_30a :: "string list" where
  "Stubs_Systems_30a = methods at_system ''StorageStorageIdStoragePoolsStoragePoolIdAllocatedVolumes''
     [('''', [Get, Post]),
      (''VolumeId'', [Get, Put, Delete, Patch]),
      (''VolumeIdActionsVolumeAssignReplicaTarget'', [Post])]"

definition Stubs_Systems_30b :: "string list" where
  "Stubs_Systems_30b = methods at_system ''StorageStorageIdStoragePoolsStoragePoolIdAllocatedVolumes''
     [(''VolumeIdActionsVolumeChangeRAIDLayout'', [Post]),
      (''VolumeIdActionsVolumeCheckConsistency'', [Post]),
      (''VolumeIdActionsVolumeCreateReplicaTarget'', [Post]),
      (''VolumeIdActionsVolumeForceEnable'', [Post]),
      (''VolumeIdActionsVolumeInitialize'', [Post]),
      (''VolumeIdActionsVolumeRemoveReplicaRelationship'', [Post])]"

definition Stubs_Systems_30c :: "string list" where
  "Stubs_Systems_30c = methods at_system ''StorageStorageIdStoragePoolsStoragePoolIdAllocatedVolumes''
     [(''VolumeIdActionsVolumeResumeReplication'', [Post]),
      (''VolumeIdActionsVolumeReverseReplicationRelationship'', [Post]),
      (''VolumeIdActionsVolumeSplitReplication'', [Post]),
      (''VolumeIdActionsVolumeSuspendReplication'', [Post])]"

definition Stubs_Systems_31a :: "string list" where
  "Stubs_Systems_31a = methods at_system ''StorageStorageIdStoragePoolsStoragePoolIdCapacitySourcesCapacitySourceId''
     [(''ProvidingDrives'', [Get]),
      (''ProvidingVolumes'', [Get, Post]),
      (''ProvidingVolumesVolumeId'', [Get, Put, Delete, Patch])]"

definition Stubs_Systems_32a :: "string list" where
  "Stubs_Systems_32a = methods at_system ''StorageStorageIdStoragePoolsStoragePoolIdCapacitySourcesCapacitySourceIdProvidingVolumesVolumeIdActions''
     [(''VolumeAssignReplicaTarget'', [Post]),
      (''VolumeChangeRAIDLayout'', [Post]),
      (''VolumeCheckConsistency'', [Post]),
      (''VolumeCreateReplicaTarget'', [Post]),
      (''VolumeForceEnable'', [Post]),
      (''VolumeInitialize'', [Post])]"

definition Stubs_Systems_32b :: "string list" where
  "Stubs_Systems_32b = methods at_system ''StorageStorageIdStoragePoolsStoragePoolIdCapacitySourcesCapacitySourceIdProvidingVolumesVolumeIdActions''
     [(''VolumeRemoveReplicaRelationship'', [Post]),
      (''VolumeResumeReplication'', [Post]),
      (''VolumeReverseReplicationRelationship'', [Post]),
      (''VolumeSplitReplication'', [Post]),
      (''VolumeSuspendReplication'', [Post])]"

definition Stubs_Systems_33a :: "string list" where
  "Stubs_Systems_33a = methods at_system ''StorageStorageIdVolumes''
     [('''', [Get, Post]),
      (''VolumeId'', [Get, Put, Delete, Patch]),
      (''VolumeIdActionsVolumeAssignReplicaTarget'', [Post])]"

definition Stubs_Systems_33b :: "string list" where
  "Stubs_Systems_33b = methods at_system ''StorageStorageIdVolumes''
     [(''VolumeIdActionsVolumeChangeRAIDLayout'', [Post]),
      (''VolumeIdActionsVolumeCheckConsistency'', [Post]),
      (''VolumeIdActionsVolumeCreateReplicaTarget'', [Post]),
      (''VolumeIdActionsVolumeForceEnable'', [Post]),
      (''VolumeIdActionsVolumeInitialize'', [Post]),
      (''VolumeIdActionsVolumeRemoveReplicaRelationship'', [Post])]"

definition Stubs_Systems_33c :: "string list" where
  "Stubs_Systems_33c = methods at_system ''StorageStorageIdVolumes''
     [(''VolumeIdActionsVolumeResumeReplication'', [Post]),
      (''VolumeIdActionsVolumeReverseReplicationRelationship'', [Post]),
      (''VolumeIdActionsVolumeSplitReplication'', [Post]),
      (''VolumeIdActionsVolumeSuspendReplication'', [Post]),
      (''VolumeIdCapacitySourcesCapacitySourceIdProvidingDrives'', [Get])]"

definition Stubs_Systems_34a :: "string list" where
  "Stubs_Systems_34a = methods at_system ''''
     [(''USBControllers'', [Get]),
      (''USBControllersControllerId'', [Get]),
      (''USBControllersControllerIdPorts'', [Get]),
      (''USBControllersControllerIdPortsPortId'', [Get, Put, Patch]),
      (''USBControllersControllerIdPortsPortIdActionsPortReset'', [Post]),
      (''USBControllersControllerIdPortsPortIdActionsPortResetPPB'', [Post])]"

definition Stubs_Systems_34b :: "string list" where
  "Stubs_Systems_34b = methods at_system ''''
     [(''USBControllersControllerIdPortsPortIdEnvironmentMetrics'', [Get, Put, Patch]),
      (''USBControllersControllerIdPortsPortIdEnvironmentMetricsActionsEnvironmentMetricsResetMetrics'', [Post]),
      (''USBControllersControllerIdPortsPortIdEnvironmentMetricsActionsEnvironmentMetricsResetToDefaults'', [Post]),
      (''USBControllersControllerIdPortsPortIdMetrics'', [Get]),
      (''VirtualMedia'', [Get])]"

definition Stubs_Systems_35a :: "string list" where
  "Stubs_Systems_35a = methods at_system ''VirtualMediaVirtualMediaId''
     [('''', [Get, Put, Patch]),
      (''ActionsVirtualMediaEjectMedia'', [Post]),
      (''ActionsVirtualMediaInsertMedia'', [Post]),
      (''Certificates'', [Get, Post]),
      (''CertificatesCertificateId'', [Get])]"

definition Stubs_Systems_35b :: "string list" where
  "Stubs_Systems_35b = methods at_system ''VirtualMediaVirtualMediaId''
     [(''CertificatesCertificateId'', [Put, Delete, Patch]),
      (''CertificatesCertificateIdActionsCertificateRekey'', [Post]),
      (''CertificatesCertificateIdActionsCertificateRenew'', [Post]),
      (''ClientCertificates'', [Get, Post])]"

definition Stubs_Systems_35c :: "string list" where
  "Stubs_Systems_35c = methods at_system ''VirtualMediaVirtualMediaId''
     [(''ClientCertificatesCertificateId'', [Get, Put, Delete, Patch]),
      (''ClientCertificatesCertificateIdActionsCertificateRekey'', [Post]),
      (''ClientCertificatesCertificateIdActionsCertificateRenew'', [Post])]"

definition Stubs_Systems_36a :: "string list" where
  "Stubs_Systems_36a = methods at_root ''SystemsSystemIdFabricAdaptersFabricAdapterIdGenZ''
     [(''REQVCAT'', [Get, Post]),
      (''REQVCATVCATEntryId'', [Get, Put, Delete, Patch]),
      (''RSPVCAT'', [Get, Post])]"

definition Stubs_Systems_36b :: "string list" where
  "Stubs_Systems_36b = methods at_root ''SystemsSystemIdFabricAdaptersFabricAdapterIdGenZ''
     [(''RSPVCATVCATEntryId'', [Get, Put, Delete, Patch])]"

definition Stubs_Systems_37a :: "string list" where
  "Stubs_Systems_37a = methods at_root ''SystemsSystemIdFabricAdaptersFabricAdapterId''
     [(''PortsPortIdGenZVCAT'', [Get, Post]),
      (''PortsPortIdGenZVCATVCATEntryId'', [Get, Put, Delete, Patch]),
      (''PortsPortIdVCAT'', [Get, Post])]"

definition Stubs_Systems_37b :: "string list" where
  "Stubs_Systems_37b = methods at_root ''SystemsSystemIdFabricAdaptersFabricAdapterId''
     [(''PortsPortIdVCATVCATEntryId'', [Get, Put, Delete, Patch]),
      (''REQVCAT'', [Get, Post]),
      (''REQVCATVCATEntryId'', [Get, Put])]"

definition Stubs_Systems_37c :: "string list" where
  "Stubs_Systems_37c = methods at_root ''SystemsSystemIdFabricAdaptersFabricAdapterId''
     [(''REQVCATVCATEntryId'', [Delete, Patch]),
      (''RSPVCAT'', [Get, Post]),
      (''RSPVCATVCATEntryId'', [Get, Put, Delete])]"

definition Stubs_Systems_37d :: "string list" where
  "Stubs_Systems_37d = methods at_root ''SystemsSystemIdFabricAdaptersFabricAdapterId''
     [(''RSPVCATVCATEntryId'', [Patch])]"

definition system_stubs :: "string list" where
  "system_stubs = concat
     [concat [Stubs_Systems_1a],
      concat [Stubs_Systems_2a],
      concat [Stubs_Systems_3a],
      concat [],
      concat [],
      concat [Stubs_Systems_6a, Stubs_Systems_6b, Stubs_Systems_6c],
      concat [Stubs_Systems_7a, Stubs_Systems_7b, Stubs_Systems_7c],
      concat [Stubs_Systems_8a, Stubs_Systems_8b, Stubs_Systems_8c, Stubs_Systems_8d],
      concat [Stubs_Systems_9a, Stubs_Systems_9b, Stubs_Systems_9c, Stubs_Systems_9d],
      concat [Stubs_Systems_10a, Stubs_Systems_10b, Stubs_Systems_10c, Stubs_Systems_10d],
      concat [Stubs_Systems_11a, Stubs_Systems_11b, Stubs_Systems_11c],
      concat [Stubs_Systems_12a, Stubs_Systems_12b, Stubs_Systems_12c, Stubs_Systems_12d],
      concat [Stubs_Systems_13a, Stubs_Systems_13b],
      concat [Stubs_Systems_14a, Stubs_Systems_14b, Stubs_Systems_14c, Stubs_Systems_14d, Stubs_Systems_14e],
      concat [Stubs_Systems_15a, Stubs_Systems_15b, Stubs_Systems_15c],
      concat [],
      concat [Stubs_Systems_17a, Stubs_Systems_17b],
      concat [Stubs_Systems_18a, Stubs_Systems_18b, Stubs_Systems_18c],
      concat [Stubs_Systems_19a, Stubs_Systems_19b, Stubs_Systems_19c, Stubs_Systems_19d],
      concat [Stubs_Systems_20a, Stubs_Systems_20b],
      concat [Stubs_Systems_21a, Stubs_Systems_21b, Stubs_Systems_21c],
      concat [Stubs_Systems_22a, Stubs_Systems_22b, Stubs_Systems_22c, Stubs_Systems_22d],
      concat [Stubs_Systems_23a, Stubs_Systems_23b, Stubs_Systems_23c],
      concat [Stubs_Systems_24a, Stubs_Systems_24b],
      concat [Stubs_Systems_25a, Stubs_Systems_25b, Stubs_Systems_25c, Stubs_Systems_25d],
      concat [Stubs_Systems_26a, Stubs_Systems_26b, Stubs_Systems_26c, Stubs_Systems_26d],
      concat [Stubs_Systems_27a, Stubs_Systems_27b],
      concat [Stubs_Systems_28a, Stubs_Systems_28b],
      concat [Stubs_Systems_29a, Stubs_Systems_29b, Stubs_Systems_29c, Stubs_Systems_29d],
      concat [Stubs_Systems_30a, Stubs_Systems_30b, Stubs_Systems_30c],
      concat [Stubs_Systems_31a],
      concat [Stubs_Systems_32a, Stubs_Systems_32b],
      concat [Stubs_Systems_33a, Stubs_Systems_33b, Stubs_Systems_33c],
      concat [Stubs_Systems_34a, Stubs_Systems_34b],
      concat [Stubs_Systems_35a, Stubs_Systems_35b, Stubs_Systems_35c],
      concat [Stubs_Systems_36a, Stubs_Systems_36b],
      concat [Stubs_Systems_37a, Stubs_Systems_37b, Stubs_Systems_37c, Stubs_Systems_37d]]"

lemma Systems_1_covered:
  "covered Routes_Systems_1
     (concat [Stubs_Systems_1a])"
  by (simp add: covered_def methods_def implemented_methods_def under_def path_entries_def entry_def at_root_def
    at_system_def at_manager_def service_root_def system_path_def manager_path_def Routes_Systems_1_def Stubs_Systems_1a_def)

lemma Systems_2_covered:
  "covered Routes_Systems_2
     (concat [Stubs_Systems_2a])"
  by (simp add: covered_def methods_def implemented_methods_def under_def path_entries_def entry_def at_root_def
    at_system_def at_manager_def service_root_def system_path_def manager_path_def Routes_Systems_2_def Stubs_Systems_2a_def)

lemma Systems_3_covered:
  "covered Routes_Systems_3
     (concat [Stubs_Systems_3a])"
  unfolding Routes_Systems_3_def Stubs_Systems_3a_def
  by (rule covering)+

lemma Systems_4_covered:
  "covered Routes_Systems_4
     (concat [])"
  by (simp add: covered_def methods_def implemented_methods_def under_def path_entries_def entry_def at_root_def
    at_system_def at_manager_def service_root_def system_path_def manager_path_def Routes_Systems_4_def)

lemma Systems_5_covered:
  "covered Routes_Systems_5
     (concat [])"
  by (simp add: covered_def methods_def implemented_methods_def under_def path_entries_def entry_def at_root_def
    at_system_def at_manager_def service_root_def system_path_def manager_path_def Routes_Systems_5_def)

lemma Systems_6_covered:
  "covered Routes_Systems_6
     (concat [Stubs_Systems_6a, Stubs_Systems_6b, Stubs_Systems_6c])"
  unfolding Routes_Systems_6_def Stubs_Systems_6a_def Stubs_Systems_6b_def Stubs_Systems_6c_def
  by (rule covering)+

lemma Systems_7_covered:
  "covered Routes_Systems_7
     (concat [Stubs_Systems_7a, Stubs_Systems_7b, Stubs_Systems_7c])"
  unfolding Routes_Systems_7_def Stubs_Systems_7a_def Stubs_Systems_7b_def Stubs_Systems_7c_def
  by (rule covering)+

lemma Systems_8_covered:
  "covered Routes_Systems_8
     (concat [Stubs_Systems_8a, Stubs_Systems_8b, Stubs_Systems_8c, Stubs_Systems_8d])"
  unfolding Routes_Systems_8_def Stubs_Systems_8a_def Stubs_Systems_8b_def Stubs_Systems_8c_def
    Stubs_Systems_8d_def
  by (rule covering)+

lemma Systems_9_covered:
  "covered Routes_Systems_9
     (concat [Stubs_Systems_9a, Stubs_Systems_9b, Stubs_Systems_9c, Stubs_Systems_9d])"
  unfolding Routes_Systems_9_def Stubs_Systems_9a_def Stubs_Systems_9b_def Stubs_Systems_9c_def
    Stubs_Systems_9d_def
  by (rule covering)+

lemma Systems_10_covered:
  "covered Routes_Systems_10
     (concat [Stubs_Systems_10a, Stubs_Systems_10b, Stubs_Systems_10c, Stubs_Systems_10d])"
  unfolding Routes_Systems_10_def Stubs_Systems_10a_def Stubs_Systems_10b_def Stubs_Systems_10c_def
    Stubs_Systems_10d_def
  by (rule covering)+

lemma Systems_11_covered:
  "covered Routes_Systems_11
     (concat [Stubs_Systems_11a, Stubs_Systems_11b, Stubs_Systems_11c])"
  unfolding Routes_Systems_11_def Stubs_Systems_11a_def Stubs_Systems_11b_def Stubs_Systems_11c_def
  by (rule covering)+

lemma Systems_12_covered:
  "covered Routes_Systems_12
     (concat [Stubs_Systems_12a, Stubs_Systems_12b, Stubs_Systems_12c, Stubs_Systems_12d])"
  unfolding Routes_Systems_12_def Stubs_Systems_12a_def Stubs_Systems_12b_def Stubs_Systems_12c_def
    Stubs_Systems_12d_def
  by (rule covering)+

lemma Systems_13_covered:
  "covered Routes_Systems_13
     (concat [Stubs_Systems_13a, Stubs_Systems_13b])"
  unfolding Routes_Systems_13_def Stubs_Systems_13a_def Stubs_Systems_13b_def
  by (rule covering)+

lemma Systems_14_covered:
  "covered Routes_Systems_14
     (concat [Stubs_Systems_14a, Stubs_Systems_14b, Stubs_Systems_14c, Stubs_Systems_14d, Stubs_Systems_14e])"
  unfolding Routes_Systems_14_def Stubs_Systems_14a_def Stubs_Systems_14b_def Stubs_Systems_14c_def
    Stubs_Systems_14d_def Stubs_Systems_14e_def
  by (rule covering)+

lemma Systems_15_covered:
  "covered Routes_Systems_15
     (concat [Stubs_Systems_15a, Stubs_Systems_15b, Stubs_Systems_15c])"
  unfolding Routes_Systems_15_def Stubs_Systems_15a_def Stubs_Systems_15b_def Stubs_Systems_15c_def
  by (rule covering)+

lemma Systems_16_covered:
  "covered Routes_Systems_16
     (concat [])"
  by (simp add: covered_def methods_def implemented_methods_def under_def path_entries_def entry_def at_root_def
    at_system_def at_manager_def service_root_def system_path_def manager_path_def Routes_Systems_16_def)

lemma Systems_17_covered:
  "covered Routes_Systems_17
     (concat [Stubs_Systems_17a, Stubs_Systems_17b])"
  unfolding Routes_Systems_17_def Stubs_Systems_17a_def Stubs_Systems_17b_def
  by (rule covering)+

lemma Systems_18_covered:
  "covered Routes_Systems_18
     (concat [Stubs_Systems_18a, Stubs_Systems_18b, Stubs_Systems_18c])"
  unfolding Routes_Systems_18_def Stubs_Systems_18a_def Stubs_Systems_18b_def Stubs_Systems_18c_def
  by (rule covering)+

lemma Systems_19_covered:
  "covered Routes_Systems_19
     (concat [Stubs_Systems_19a, Stubs_Systems_19b, Stubs_Systems_19c, Stubs_Systems_19d])"
  unfolding Routes_Systems_19_def Stubs_Systems_19a_def Stubs_Systems_19b_def Stubs_Systems_19c_def
    Stubs_Systems_19d_def
  by (rule covering)+

lemma Systems_20_covered:
  "covered Routes_Systems_20
     (concat [Stubs_Systems_20a, Stubs_Systems_20b])"
  unfolding Routes_Systems_20_def Stubs_Systems_20a_def Stubs_Systems_20b_def
  by (rule covering)+

lemma Systems_21_covered:
  "covered Routes_Systems_21
     (concat [Stubs_Systems_21a, Stubs_Systems_21b, Stubs_Systems_21c])"
  unfolding Routes_Systems_21_def Stubs_Systems_21a_def Stubs_Systems_21b_def Stubs_Systems_21c_def
  by (rule covering)+

lemma Systems_22_covered:
  "covered Routes_Systems_22
     (concat [Stubs_Systems_22a, Stubs_Systems_22b, Stubs_Systems_22c, Stubs_Systems_22d])"
  unfolding Routes_Systems_22_def Stubs_Systems_22a_def Stubs_Systems_22b_def Stubs_Systems_22c_def
    Stubs_Systems_22d_def
  by (rule covering)+

lemma Systems_23_covered:
  "covered Routes_Systems_23
     (concat [Stubs_Systems_23a, Stubs_Systems_23b, Stubs_Systems_23c])"
  unfolding Routes_Systems_23_def Stubs_Systems_23a_def Stubs_Systems_23b_def Stubs_Systems_23c_def
  by (rule covering)+

lemma Systems_24_covered:
  "covered Routes_Systems_24
     (concat [Stubs_Systems_24a, Stubs_Systems_24b])"
  unfolding Routes_Systems_24_def Stubs_Systems_24a_def Stubs_Systems_24b_def
  by (rule covering)+

lemma Systems_25_covered:
  "covered Routes_Systems_25
     (concat [Stubs_Systems_25a, Stubs_Systems_25b, Stubs_Systems_25c, Stubs_Systems_25d])"
  unfolding Routes_Systems_25_def Stubs_Systems_25a_def Stubs_Systems_25b_def Stubs_Systems_25c_def
    Stubs_Systems_25d_def
  by (rule covering)+

lemma Systems_26_covered:
  "covered Routes_Systems_26
     (concat [Stubs_Systems_26a, Stubs_Systems_26b, Stubs_Systems_26c, Stubs_Systems_26d])"
  unfolding Routes_Systems_26_def Stubs_Systems_26a_def Stubs_Systems_26b_def Stubs_Systems_26c_def
    Stubs_Systems_26d_def
  by (rule covering)+

lemma Systems_27_covered:
  "covered Routes_Systems_27
     (concat [Stubs_Systems_27a, Stubs_Systems_27b])"
  unfolding Routes_Systems_27_def Stubs_Systems_27a_def Stubs_Systems_27b_def
  by (rule covering)+

lemma Systems_28_covered:
  "covered Routes_Systems_28
     (concat [Stubs_Systems_28a, Stubs_Systems_28b])"
  unfolding Routes_Systems_28_def Stubs_Systems_28a_def Stubs_Systems_28b_def
  by (rule covering)+

lemma Systems_29_covered:
  "covered Routes_Systems_29
     (concat [Stubs_Systems_29a, Stubs_Systems_29b, Stubs_Systems_29c, Stubs_Systems_29d])"
  unfolding Routes_Systems_29_def Stubs_Systems_29a_def Stubs_Systems_29b_def Stubs_Systems_29c_def
    Stubs_Systems_29d_def
  by (rule covering)+

lemma Systems_30_covered:
  "covered Routes_Systems_30
     (concat [Stubs_Systems_30a, Stubs_Systems_30b, Stubs_Systems_30c])"
  unfolding Routes_Systems_30_def Stubs_Systems_30a_def Stubs_Systems_30b_def Stubs_Systems_30c_def
  by (rule covering)+

lemma Systems_31_covered:
  "covered Routes_Systems_31
     (concat [Stubs_Systems_31a])"
  unfolding Routes_Systems_31_def Stubs_Systems_31a_def
  by (rule covering)+

lemma Systems_32_covered:
  "covered Routes_Systems_32
     (concat [Stubs_Systems_32a, Stubs_Systems_32b])"
  unfolding Routes_Systems_32_def Stubs_Systems_32a_def Stubs_Systems_32b_def
  by (rule covering)+

lemma Systems_33_covered:
  "covered Routes_Systems_33
     (concat [Stubs_Systems_33a, Stubs_Systems_33b, Stubs_Systems_33c])"
  unfolding Routes_Systems_33_def Stubs_Systems_33a_def Stubs_Systems_33b_def Stubs_Systems_33c_def
  by (rule covering)+

lemma Systems_34_covered:
  "covered Routes_Systems_34
     (concat [Stubs_Systems_34a, Stubs_Systems_34b])"
  unfolding Routes_Systems_34_def Stubs_Systems_34a_def Stubs_Systems_34b_def
  by (rule covering)+

lemma Systems_35_covered:
  "covered Routes_Systems_35
     (concat [Stubs_Systems_35a, Stubs_Systems_35b, Stubs_Systems_35c])"
  unfolding Routes_Systems_35_def Stubs_Systems_35a_def Stubs_Systems_35b_def Stubs_Systems_35c_def
  by (rule covering)+

lemma Systems_36_covered:
  "covered Routes_Systems_36
     (concat [Stubs_Systems_36a, Stubs_Systems_36b])"
  unfolding Routes_Systems_36_def Stubs_Systems_36a_def Stubs_Systems_36b_def
  by (rule covering)+

lemma Systems_37_covered:
  "covered Routes_Systems_37
     (concat [Stubs_Systems_37a, Stubs_Systems_37b, Stubs_Systems_37c, Stubs_Systems_37d])"
  unfolding Routes_Systems_37_def Stubs_Systems_37a_def Stubs_Systems_37b_def Stubs_Systems_37c_def
    Stubs_Systems_37d_def
  by (rule covering)+

lemma system_covered: "covered system_routes system_stubs"
  unfolding system_routes_def system_stubs_def
  by (intro covered_concat
    Systems_1_covered Systems_2_covered Systems_3_covered Systems_4_covered Systems_5_covered
    Systems_6_covered Systems_7_covered Systems_8_covered Systems_9_covered Systems_10_covered
    Systems_11_covered Systems_12_covered Systems_13_covered Systems_14_covered Systems_15_covered
    Systems_16_covered Systems_17_covered Systems_18_covered Systems_19_covered Systems_20_covered
    Systems_21_covered Systems_22_covered Systems_23_covered Systems_24_covered Systems_25_covered
    Systems_26_covered Systems_27_covered Systems_28_covered Systems_29_covered Systems_30_covered
    Systems_31_covered Systems_32_covered Systems_33_covered Systems_34_covered Systems_35_covered
    Systems_36_covered Systems_37_covered)

end
