(* ===== verification/StubsChassis.thy ===== *)
theory StubsChassis
  imports RoutesChassis ServiceMethods
begin

text \<open>
  The methods of the service (pkg/redfish/api_service.go) for the chassis that do nothing but
  answer 501 Not Implemented with their name, group by group of their routes.
\<close>

definition Stubs_Chassis_1a :: "string list" where
  "Stubs_Chassis_1a = methods at_root ''Chassis''
     [('''', [Get, Post]),
      (''ChassisId'', [Get, Put, Delete, Patch]),
      (''ChassisIdActionsChassisReset'', [Post]),
      (''ChassisIdAssembly'', [Get])]"

definition Stubs_Chassis_1b :: "string list" where
  "Stubs_Chassis_1b = methods at_root ''Chassis''
     [(''ChassisIdAssembly'', [Put, Patch]),
      (''ChassisIdCertificates'', [Get, Post]),
      (''ChassisIdCertificatesCertificateId'', [Get, Put, Delete, Patch])]"

definition Stubs_Chassis_1c :: "string list" where
  "Stubs_Chassis_1c = methods at_root ''Chassis''
     [(''ChassisIdCertificatesCertificateIdActionsCertificateRekey'', [Post]),
      (''ChassisIdCertificatesCertificateIdActionsCertificateRenew'', [Post]),
      (''ChassisIdControls'', [Get]),
      (''ChassisIdControlsControlId'', [Get, Put, Patch]),
      (''ChassisIdControlsControlIdActionsControlResetToDefaults'', [Post]),
      (''ChassisIdDrives'', [Get])]"

definition Stubs_Chassis_2a :: "string list" where
  "Stubs_Chassis_2a = methods at_root ''ChassisChassisIdDrivesDriveId''
     [('''', [Get, Put, Patch]),
      (''ActionsDriveReset'', [Post]),
      (''ActionsDriveRevertToOriginalFactoryState'', [Post]),
      (''ActionsDriveSecureErase'', [Post]),
      (''Assembly'', [Get])]"

definition Stubs_Chassis_2b :: "string list" where
  "Stubs_Chassis_2b = methods at_root ''ChassisChassisIdDrivesDriveId''
     [(''Assembly'', [Put, Patch]),
      (''Certificates'', [Get, Post]),
      (''CertificatesCertificateId'', [Get, Put, Delete, Patch])]"

definition Stubs_Chassis_2c :: "string list" where
  "Stubs_Chassis_2c = methods at_root ''ChassisChassisIdDrivesDriveId''
     [(''CertificatesCertificateIdActionsCertificateRekey'', [Post]),
      (''CertificatesCertificateIdActionsCertificateRenew'', [Post]),
      (''EnvironmentMetrics'', [Get, Put, Patch]),
      (''EnvironmentMetricsActionsEnvironmentMetricsResetMetrics'', [Post]),
      (''EnvironmentMetricsActionsEnvironmentMetricsResetToDefaults'', [Post])]"

definition Stubs_Chassis_2d :: "string list" where
  "Stubs_Chassis_2d = methods at_root ''ChassisChassisIdDrivesDriveId''
     [(''Metrics'', [Get])]"

definition Stubs_Chassis_3a :: "string list" where
  "Stubs_Chassis_3a = methods at_root ''ChassisChassisId''
     [(''EnvironmentMetrics'', [Get, Put, Patch]),
      (''EnvironmentMetricsActionsEnvironmentMetricsResetMetrics'', [Post]),
      (''EnvironmentMetricsActionsEnvironmentMetricsResetToDefaults'', [Post]),
      (''FabricAdapters'', [Get]),
      (''FabricAdaptersFabricAdapterId'', [Get, Put])]"

definition Stubs_Chassis_3b :: "string list" where
  "Stubs_Chassis_3b = methods at_root ''ChassisChassisId''
     [(''FabricAdaptersFabricAdapterId'', [Patch]),
      (''FabricAdaptersFabricAdapterIdGenZMSDT'', [Get, Post]),
      (''FabricAdaptersFabricAdapterIdGenZMSDTMSDTId'', [Get, Put, Delete, Patch]),
      (''FabricAdaptersFabricAdapterIdGenZREQVCAT'', [Get])]"

definition Stubs_Chassis_3c :: "string list" where
  "Stubs_Chassis_3c = methods at_root ''ChassisChassisId''
     [(''FabricAdaptersFabricAdapterIdGenZREQVCAT'', [Post])]"

definition Stubs_Chassis_4a :: "string list" where
  "Stubs_Chassis_4a = methods at_root ''ChassisChassisIdFabricAdaptersFabricAdapterId''
     [(''GenZREQVCATVCATEntryId'', [Get, Put, Delete, Patch]),
      (''GenZRSPVCAT'', [Get, Post]),
      (''GenZRSPVCATVCATEntryId'', [Get, Put])]"

definition Stubs_Chassis_4b :: "string list" where
  "Stubs_Chassis_4b = methods at_root ''ChassisChassisIdFabricAdaptersFabricAdapterId''
     [(''GenZRSPVCATVCATEntryId'', [Delete, Patch]),
      (''GenZSSDT'', [Get, Post]),
      (''GenZSSDTSSDTId'', [Get, Put, Delete, Patch])]"

definition Stubs_Chassis_4c :: "string list" where
  "Stubs_Chassis_4c = methods at_root ''ChassisChassisIdFabricAdaptersFabricAdapterId''
     [(''MSDT'', [Get, Post]),
      (''MSDTMSDTId'', [Get, Put, Delete, Patch]),
      (''MSDTMSDTIdRouteSet'', [Get, Post])]"

definition Stubs_Chassis_4d :: "string list" where
  "Stubs_Chassis_4d = methods at_root ''ChassisChassisIdFabricAdaptersFabricAdapterId''
     [(''MSDTMSDTIdRouteSetRouteId'', [Get, Put, Delete, Patch]),
      (''Ports'', [Get])]"

definition Stubs_Chassis_5a :: "string list" where
  "Stubs_Chassis_5a = methods at_root ''ChassisChassisIdFabricAdaptersFabricAdapterIdPortsPortId''
     [('''', [Get, Put, Patch]),
      (''ActionsPortReset'', [Post]),
      (''ActionsPortResetPPB'', [Post]),
      (''EnvironmentMetrics'', [Get, Put])]"

definition Stubs_Chassis_5b :: "string list" where
  "Stubs_Chassis_5b = methods at_root ''ChassisChassisIdFabricAdaptersFabricAdapterIdPortsPortId''
     [(''EnvironmentMetrics'', [Patch]),
      (''EnvironmentMetricsActionsEnvironmentMetricsResetMetrics'', [Post]),
      (''EnvironmentMetricsActionsEnvironmentMetricsResetToDefaults'', [Post]),
      (''GenZLPRT'', [Get, Post]),
      (''GenZLPRTLPRTId'', [Get, Put])]"

definition Stubs_Chassis_5c :: "string list" where
  "Stubs_Chassis_5c = methods at_root ''ChassisChassisIdFabricAdaptersFabricAdapterIdPortsPortId''
     [(''GenZLPRTLPRTId'', [Delete, Patch]),
      (''GenZMPRT'', [Get, Post]),
      (''GenZMPRTMPRTId'', [Get, Put, Delete, Patch])]"

definition Stubs_Chassis_5d :: "string list" where
  "Stubs_Chassis_5d = methods at_root ''ChassisChassisIdFabricAdaptersFabricAdapterIdPortsPortId''
     [(''GenZVCAT'', [Get, Post]),
      (''GenZVCATVCATEntryId'', [Get, Put, Delete, Patch]),
      (''LPRT'', [Get, Post])]"

definition Stubs_Chassis_6a :: "string list" where
  "Stubs_Chassis_6a = methods at_root ''ChassisChassisIdFabricAdaptersFabricAdapterIdPortsPortId''
     [(''LPRTLPRTId'', [Get, Put, Delete, Patch]),
      (''LPRTLPRTIdRouteSet'', [Get, Post]),
      (''LPRTLPRTIdRouteSetRouteId'', [Get, Put])]"

definition Stubs_Chassis_6b :: "string list" where
  "Stubs_Chassis_6b = methods at_root ''ChassisChassisIdFabricAdaptersFabricAdapterIdPortsPortId''
     [(''LPRTLPRTIdRouteSetRouteId'', [Delete, Patch]),
      (''MPRT'', [Get, Post]),
      (''MPRTMPRTId'', [Get, Put, Delete])]"

definition Stubs_Chassis_6c :: "string list" where
  "Stubs_Chassis_6c = methods at_root ''ChassisChassisIdFabricAdaptersFabricAdapterIdPortsPortId''
     [(''MPRTMPRTId'', [Patch]),
      (''MPRTMPRTIdRouteSet'', [Get, Post]),
      (''MPRTMPRTIdRouteSetRouteId'', [Get, Put, Delete, Patch]),
      (''Metrics'', [Get])]"

definition Stubs_Chassis_6d :: "string list" where
  "Stubs_Chassis_6d = methods at_root ''ChassisChassisIdFabricAdaptersFabricAdapterIdPortsPortId''
     [(''VCAT'', [Get, Post]),
      (''VCATVCATEntryId'', [Get, Put, Delete, Patch])]"

definition Stubs_Chassis_7a :: "string list" where
  "Stubs_Chassis_7a = methods at_root ''ChassisChassisIdFabricAdaptersFabricAdapterId''
     [(''REQVCAT'', [Get, Post]),
      (''REQVCATVCATEntryId'', [Get, Put, Delete, Patch]),
      (''RSPVCAT'', [Get, Post])]"

definition Stubs_Chassis_7b :: "string list" where
  "Stubs_Chassis_7b = methods at_root ''ChassisChassisIdFabricAdaptersFabricAdapterId''
     [(''RSPVCATVCATEntryId'', [Get, Put, Delete, Patch]),
      (''SSDT'', [Get, Post]),
      (''SSDTSSDTId'', [Get, Put])]"

definition Stubs_Chassis_7c :: "string list" where
  "Stubs_Chassis_7c = methods at_root ''ChassisChassisIdFabricAdaptersFabricAdapterId''
     [(''SSDTSSDTId'', [Delete, Patch]),
      (''SSDTSSDTIdRouteSet'', [Get, Post]),
      (''SSDTSSDTIdRouteSetRouteId'', [Get, Put, Delete, Patch])]"

definition Stubs_Chassis_8a :: "string list" where
  "Stubs_Chassis_8a = methods at_root ''ChassisChassisId''
     [(''LogServices'', [Get]),
      (''LogServicesLogServiceId'', [Get, Put, Patch]),
      (''LogServicesLogServiceIdActionsLogServiceClearLog'', [Post]),
      (''LogServicesLogServiceIdActionsLogServiceCollectDiagnosticData'', [Post]),
      (''LogServicesLogServiceIdActionsLogServicePushDiagnosticData'', [Post]),
      (''LogServicesLogServiceIdEntries'', [Get])]"

definition Stubs_Chassis_8b :: "string list" where
  "Stubs_Chassis_8b = methods at_root ''ChassisChassisId''
     [(''LogServicesLogServiceIdEntries'', [Post]),
      (''LogServicesLogServiceIdEntriesLogEntryId'', [Get, Put, Delete, Patch]),
      (''MediaControllers'', [Get])]"

definition Stubs_Chassis_9a :: "string list" where
  "Stubs_Chassis_9a = methods at_root ''ChassisChassisIdMediaControllersMediaControllerId''
     [('''', [Get]),
      (''ActionsMediaControllerReset'', [Post]),
      (''EnvironmentMetrics'', [Get, Put, Patch]),
      (''EnvironmentMetricsActionsEnvironmentMetricsResetMetrics'', [Post]),
      (''EnvironmentMetricsActionsEnvironmentMetricsResetToDefaults'', [Post])]"

definition Stubs_Chassis_9b :: "string list" where
  "Stubs_Chassis_9b = methods at_root ''ChassisChassisIdMediaControllersMediaControllerId''
     [(''Ports'', [Get]),
      (''PortsPortId'', [Get, Put, Patch]),
      (''PortsPortIdActionsPortReset'', [Post]),
      (''PortsPortIdActionsPortResetPPB'', [Post]),
      (''PortsPortIdEnvironmentMetrics'', [Get, Put])]"

definition Stubs_Chassis_9c :: "string list" where
  "Stubs_Chassis_9c = methods at_root ''ChassisChassisIdMediaControllersMediaControllerId''
     [(''PortsPortIdEnvironmentMetrics'', [Patch]),
      (''PortsPortIdEnvironmentMetricsActionsEnvironmentMetricsResetMetrics'', [Post]),
      (''PortsPortIdEnvironmentMetricsActionsEnvironmentMetricsResetToDefaults'', [Post]),
      (''PortsPortIdMetrics'', [Get])]"

definition Stubs_Chassis_10a :: "string list" where
  "Stubs_Chassis_10a = methods at_root ''ChassisChassisIdMemory''
     [('''', [Get])]"

definition Stubs_Chassis_11a :: "string list" where
  "Stubs_Chassis_11a = methods at_root ''ChassisChassisIdMemoryMemoryId''
     [('''', [Get, Put, Patch]),
      (''ActionsMemoryDisableMasterPassphrase'', [Post]),
      (''ActionsMemoryDisablePassphrase'', [Post]),
      (''ActionsMemoryFreezeSecurityState'', [Post]),
      (''ActionsMemoryInjectPersistentPoison'', [Post])]"

definition Stubs_Chassis_11b :: "string list" where
  "Stubs_Chassis_11b = methods at_root ''ChassisChassisIdMemoryMemoryId''
     [(''ActionsMemoryOverwriteUnit'', [Post]),
      (''ActionsMemoryReset'', [Post]),
      (''ActionsMemoryResetToDefaults'', [Post]),
      (''ActionsMemoryScanMedia'', [Post]),
      (''ActionsMemorySecureEraseUnit'', [Post]),
      (''ActionsMemorySetMasterPassphrase'', [Post])]"

definition Stubs_Chassis_11c :: "string list" where
  "Stubs_Chassis_11c = methods at_root ''ChassisChassisIdMemoryMemoryId''
     [(''ActionsMemorySetPassphrase'', [Post]),
      (''ActionsMemoryUnlockUnit'', [Post]),
      (''Certificates'', [Get, Post]),
      (''CertificatesCertificateId'', [Get, Put, Delete])]"

definition Stubs_Chassis_11d :: "string list" where
  "Stubs_Chassis_11d = methods at_root ''ChassisChassisIdMemoryMemoryId''
     [(''CertificatesCertificateId'', [Patch]),
      (''CertificatesCertificateIdActionsCertificateRekey'', [Post]),
      (''CertificatesCertificateIdActionsCertificateRenew'', [Post]),
      (''EnvironmentMetrics'', [Get, Put, Patch]),
      (''EnvironmentMetricsActionsEnvironmentMetricsResetMetrics'', [Post])]"

definition Stubs_Chassis_11e :: "string list" where
  "Stubs_Chassis_11e = methods at_root ''ChassisChassisIdMemoryMemoryId''
     [(''EnvironmentMetricsActionsEnvironmentMetricsResetToDefaults'', [Post]),
      (''MemoryMetrics'', [Get]),
      (''MemoryMetricsActionsMemoryMetricsClearCurrentPeriod'', [Post])]"

definition Stubs_Chassis_12a :: "string list" where
  "Stubs_Chassis_12a = methods at_root ''ChassisChassisId''
     [(''MemoryDomains'', [Get]),
      (''MemoryDomainsMemoryDomainId'', [Get]),
      (''MemoryDomainsMemoryDomainIdMemoryChunks'', [Get, Post]),
      (''MemoryDomainsMemoryDomainIdMemoryChunksMemoryChunksId'', [Get, Put, Delete, Patch]),
      (''NetworkAdapters'', [Get])]"

definition Stubs_Chassis_13a :: "string list" where
  "Stubs_Chassis_13a = methods at_root ''ChassisChassisIdNetworkAdaptersNetworkAdapterId''
     [('''', [Get, Put, Patch]),
      (''ActionsNetworkAdapterResetSettingsToDefault'', [Post]),
      (''Assembly'', [Get, Put, Patch]),
      (''Certificates'', [Get])]"

definition Stubs_Chassis_13b :: "string list" where
  "Stubs_Chassis_13b = methods at_root ''ChassisChassisIdNetworkAdaptersNetworkAdapterId''
     [(''Certificates'', [Post]),
      (''CertificatesCertificateId'', [Get, Put, Delete, Patch]),
      (''CertificatesCertificateIdActionsCertificateRekey'', [Post]),
      (''CertificatesCertificateIdActionsCertificateRenew'', [Post])]"

definition Stubs_Chassis_13c :: "string list" where
  "Stubs_Chassis_13c = methods at_root ''ChassisChassisIdNetworkAdaptersNetworkAdapterId''
     [(''EnvironmentMetrics'', [Get, Put, Patch]),
      (''EnvironmentMetricsActionsEnvironmentMetricsResetMetrics'', [Post]),
      (''EnvironmentMetricsActionsEnvironmentMetricsResetToDefaults'', [Post]),
      (''Metrics'', [Get]),
      (''NetworkDeviceFunctions'', [Get])]"

definition Stubs_Chassis_14a :: "string list" where
  "Stubs_Chassis_14a = methods at_root ''ChassisChassisIdNetworkAdaptersNetworkAdapterIdNetworkDeviceFunctionsNetworkDeviceFunctionId''
     [('''', [Get, Put, Patch]),
      (''AllowDeny'', [Get, Post]),
      (''AllowDenyAllowDenyId'', [Get, Put, Delete])]"

definition Stubs_Chassis_14b :: "string list" where
  "Stubs_Chassis_14b = methods at_root ''ChassisChassisIdNetworkAdaptersNetworkAdapterIdNetworkDeviceFunctionsNetworkDeviceFunctionId''
     [(''AllowDenyAllowDenyId'', [Patch]),
      (''EthernetVLANs'', [Get, Post]),
      (''EthernetVLANsVLanNetworkInterfaceId'', [Get, Put, Delete, Patch]),
      (''EthernetInterfaces'', [Get])]"

definition Stubs_Chassis_14c :: "string list" where
  "Stubs_Chassis_14c = methods at_root ''ChassisChassisIdNetworkAdaptersNetworkAdapterIdNetworkDeviceFunctionsNetworkDeviceFunctionId''
     [(''EthernetInterfaces'', [Post]),
      (''EthernetInterfacesEthernetInterfaceId'', [Get, Put, Delete, Patch]),
      (''Metrics'', [Get])]"

definition Stubs_Chassis_15a :: "string list" where
  "Stubs_Chassis_15a = methods at_root ''ChassisChassisIdNetworkAdaptersNetworkAdapterId''
     [(''NetworkPorts'', [Get]),
      (''NetworkPortsNetworkPortId'', [Get, Put, Patch]),
      (''Ports'', [Get]),
      (''PortsPortId'', [Get, Put, Patch])]"

definition Stubs_Chassis_15b :: "string list" where
  "Stubs_Chassis_15b = methods at_root ''ChassisChassisIdNetworkAdaptersNetworkAdapterId''
     [(''PortsPortIdActionsPortReset'', [Post]),
      (''PortsPortIdActionsPortResetPPB'', [Post]),
      (''PortsPortIdEnvironmentMetrics'', [Get, Put, Patch]),
      (''PortsPortIdEnvironmentMetricsActionsEnvironmentMetricsResetMetrics'', [Post]),
      (''PortsPortIdEnvironmentMetricsActionsEnvironmentMetricsResetToDefaults'', [Post])]"

definition Stubs_Chassis_15c :: "string list" where
  "Stubs_Chassis_15c = methods at_root ''ChassisChassisIdNetworkAdaptersNetworkAdapterId''
     [(''PortsPortIdMetrics'', [Get]),
      (''Processors'', [Get]),
      (''ProcessorsProcessorId'', [Get, Put, Patch]),
      (''ProcessorsProcessorIdActionsProcessorReset'', [Post]),
      (''ProcessorsProcessorIdActionsProcessorResetToDefaults'', [Post]),
      (''ProcessorsProcessorIdAssembly'', [Get])]"

definition Stubs_Chassis_15d :: "string list" where
  "Stubs_Chassis_15d = methods at_root ''ChassisChassisIdNetworkAdaptersNetworkAdapterId''
     [(''ProcessorsProcessorIdAssembly'', [Put, Patch]),
      (''ProcessorsProcessorIdProcessorMetrics'', [Get]),
      (''ProcessorsProcessorIdProcessorMetricsActionsProcessorMetricsClearCurrentPeriod'', [Post]),
      (''ProcessorsProcessorIdSubProcessors'', [Get])]"

definition Stubs_Chassis_16a :: "string list" where
  "Stubs_Chassis_16a = methods at_root ''ChassisChassisIdNetworkAdaptersNetworkAdapterIdProcessorsProcessorIdSubProcessorsProcessorId2''
     [('''', [Get, Put, Patch]),
      (''ActionsProcessorReset'', [Post]),
      (''ActionsProcessorResetToDefaults'', [Post]),
      (''Assembly'', [Get, Put])]"

definition Stubs_Chassis_16b :: "string list" where
  "Stubs_Chassis_16b = methods at_root ''ChassisChassisIdNetworkAdaptersNetworkAdapterIdProcessorsProcessorIdSubProcessorsProcessorId2''
     [(''Assembly'', [Patch]),
      (''ProcessorMetrics'', [Get]),
      (''ProcessorMetricsActionsProcessorMetricsClearCurrentPeriod'', [Post]),
      (''SubProcessors'', [Get]),
      (''SubProcessorsProcessorId3'', [Get, Put, Patch]),
      (''SubProcessorsProcessorId3ActionsProcessorReset'', [Post])]"

definition Stubs_Chassis_16c :: "string list" where
  "Stubs_Chassis_16c = methods at_root ''ChassisChassisIdNetworkAdaptersNetworkAdapterIdProcessorsProcessorIdSubProcessorsProcessorId2''
     [(''SubProcessorsProcessorId3ActionsProcessorResetToDefaults'', [Post]),
      (''SubProcessorsProcessorId3Assembly'', [Get, Put, Patch]),
      (''SubProcessorsProcessorId3ProcessorMetrics'', [Get]),
      (''SubProcessorsProcessorId3ProcessorMetricsActionsProcessorMetricsClearCurrentPeriod'', [Post])]"

definition Stubs_Chassis_17a :: "string list" where
  "Stubs_Chassis_17a = methods at_root ''ChassisChassisIdPCIeDevices''
     [('''', [Get]),
      (''PCIeDeviceId'', [Get, Put, Patch]),
      (''PCIeDeviceIdAssembly'', [Get, Put, Patch]),
      (''PCIeDeviceIdCXLLogicalDevices'', [Get])]"

definition Stubs_Chassis_18a :: "string list" where
  "Stubs_Chassis_18a = methods at_root ''ChassisChassisIdPCIeDevicesPCIeDeviceIdCXLLogicalDevicesCXLLogicalDeviceId''
     [('''', [Get, Put, Patch]),
      (''DeviceLog'', [Get, Put, Patch]),
      (''DeviceLogActionsLogServiceClearLog'', [Post])]"

definition Stubs_Chassis_18b :: "string list" where
  "Stubs_Chassis_18b = methods at_root ''ChassisChassisIdPCIeDevicesPCIeDeviceIdCXLLogicalDevicesCXLLogicalDeviceId''
     [(''DeviceLogActionsLogServiceCollectDiagnosticData'', [Post]),
      (''DeviceLogActionsLogServicePushDiagnosticData'', [Post]),
      (''DeviceLogEntries'', [Get, Post]),
      (''DeviceLogEntriesLogEntryId'', [Get, Put, Delete])]"

definition Stubs_Chassis_18c :: "string list" where
  "Stubs_Chassis_18c = methods at_root ''ChassisChassisIdPCIeDevicesPCIeDeviceIdCXLLogicalDevicesCXLLogicalDeviceId''
     [(''DeviceLogEntriesLogEntryId'', [Patch]),
      (''MemoryRegions'', [Get, Post]),
      (''MemoryRegionsMemoryRegionId'', [Get, Put, Delete, Patch])]"

definition Stubs_Chassis_19a :: "string list" where
  "Stubs_Chassis_19a = methods at_root ''ChassisChassisId''
     [(''PCIeDevicesPCIeDeviceIdEnvironmentMetrics'', [Get, Put, Patch]),
      (''PCIeDevicesPCIeDeviceIdEnvironmentMetricsActionsEnvironmentMetricsResetMetrics'', [Post]),
      (''PCIeDevicesPCIeDeviceIdEnvironmentMetricsActionsEnvironmentMetricsResetToDefaults'', [Post]),
      (''PCIeDevicesPCIeDeviceIdPCIeFunctions'', [Get]),
      (''PCIeDevicesPCIeDeviceIdPCIeFunctionsPCIeFunctionId'', [Get, Put])]"

definition Stubs_Chassis_19b :: "string list" where
  "Stubs_Chassis_19b = methods at_root ''ChassisChassisId''
     [(''PCIeDevicesPCIeDeviceIdPCIeFunctionsPCIeFunctionId'', [Patch]),
      (''PCIeSlots'', [Get, Put, Patch]),
      (''Power'', [Get, Put, Patch])]"

definition Stubs_Chassis_19c :: "string list" where
  "Stubs_Chassis_19c = methods at_root ''ChassisChassisId''
     [(''PowerActionsPowerPowerSupplyReset'', [Post]),
      (''PowerPowerSuppliesPowerSupplyIdAssembly'', [Get, Put, Patch])]"

definition Stubs_Chassis_20a :: "string list" where
  "Stubs_Chassis_20a = methods at_root ''ChassisChassisIdPowerSubsystem''
     [('''', [Get, Put, Patch]),
      (''Batteries'', [Get]),
      (''BatteriesBatteryId'', [Get, Put, Patch]),
      (''BatteriesBatteryIdActionsBatteryCalibrate'', [Post])]"

definition Stubs_Chassis_20b :: "string list" where
  "Stubs_Chassis_20b = methods at_root ''ChassisChassisIdPowerSubsystem''
     [(''BatteriesBatteryIdActionsBatteryReset'', [Post]),
      (''BatteriesBatteryIdActionsBatterySelfTest'', [Post]),
      (''BatteriesBatteryIdAssembly'', [Get, Put, Patch]),
      (''BatteriesBatteryIdMetrics'', [Get]),
      (''PowerSupplies'', [Get]),
      (''PowerSuppliesPowerSupplyId'', [Get])]"

definition Stubs_Chassis_20c :: "string list" where
  "Stubs_Chassis_20c = methods at_root ''ChassisChassisIdPowerSubsystem''
     [(''PowerSuppliesPowerSupplyId'', [Put, Patch]),
      (''PowerSuppliesPowerSupplyIdActionsPowerSupplyReset'', [Post]),
      (''PowerSuppliesPowerSupplyIdAssembly'', [Get, Put, Patch]),
      (''PowerSuppliesPowerSupplyIdMetrics'', [Get])]"

definition Stubs_Chassis_20d :: "string list" where
  "Stubs_Chassis_20d = methods at_root ''ChassisChassisIdPowerSubsystem''
     [(''PowerSuppliesPowerSupplyIdMetricsActionsPowerSupplyMetricsResetMetrics'', [Post])]"

definition Stubs_Chassis_21a :: "string list" where
  "Stubs_Chassis_21a = methods at_root ''ChassisChassisIdProcessors''
     [('''', [Get]),
      (''ProcessorId'', [Get, Put, Patch]),
      (''ProcessorIdActionsProcessorReset'', [Post]),
      (''ProcessorIdActionsProcessorResetToDefaults'', [Post]),
      (''ProcessorIdSubProcessors'', [Get])]"

definition Stubs_Chassis_22a :: "string list" where
  "Stubs_Chassis_22a = methods at_root ''ChassisChassisIdProcessorsProcessorIdSubProcessorsProcessorId2''
     [('''', [Get, Put, Patch]),
      (''ActionsProcessorReset'', [Post]),
      (''ActionsProcessorResetToDefaults'', [Post]),
      (''SubProcessors'', [Get]),
      (''SubProcessorsProcessorId3'', [Get, Put])]"

definition Stubs_Chassis_22b :: "string list" where
  "Stubs_Chassis_22b = methods at_root ''ChassisChassisIdProcessorsProcessorIdSubProcessorsProcessorId2''
     [(''SubProcessorsProcessorId3'', [Patch]),
      (''SubProcessorsProcessorId3ActionsProcessorReset'', [Post]),
      (''SubProcessorsProcessorId3ActionsProcessorResetToDefaults'', [Post])]"

definition Stubs_Chassis_23a :: "string list" where
  "Stubs_Chassis_23a = methods at_root ''ChassisChassisId''
     [(''Sensors'', [Get]),
      (''SensorsSensorId'', [Get, Put, Patch]),
      (''SensorsSensorIdActionsSensorResetMetrics'', [Post]),
      (''SensorsSensorIdActionsSensorResetToDefaults'', [Post]),
      (''Thermal'', [Get, Put])]"

definition Stubs_Chassis_23b :: "string list" where
  "Stubs_Chassis_23b = methods at_root ''ChassisChassisId''
     [(''Thermal'', [Patch]),
      (''ThermalFansFanIdAssembly'', [Get, Put, Patch]),
      (''ThermalSubsystem'', [Get]),
      (''ThermalSubsystemCoolantConnectors'', [Get]),
      (''ThermalSubsystemCoolantConnectorsCoolantConnectorId'', [Get, Put])]"

definition Stubs_Chassis_23c :: "string list" where
  "Stubs_Chassis_23c = methods at_root ''ChassisChassisId''
     [(''ThermalSubsystemCoolantConnectorsCoolantConnectorId'', [Patch])]"

definition Stubs_Chassis_24a :: "string list" where
  "Stubs_Chassis_24a = methods at_root ''ChassisChassisIdThermalSubsystem''
     [(''Fans'', [Get]),
      (''FansFanId'', [Get, Put, Patch]),
      (''FansFanIdAssembly'', [Get, Put, Patch]),
      (''Heaters'', [Get]),
      (''HeatersHeaderIdAssembly'', [Get])]"

definition Stubs_Chassis_24b :: "string list" where
  "Stubs_Chassis_24b = methods at_root ''ChassisChassisIdThermalSubsystem''
     [(''HeatersHeaderIdAssembly'', [Put, Patch]),
      (''HeatersHeaderIdMetrics'', [Get]),
      (''HeatersHeaderIdMetricsActionsHeaterMetricsResetMetrics'', [Post]),
      (''HeatersHeaterId'', [Get, Put, Patch]),
      (''LeakDetection'', [Get])]"

definition Stubs_Chassis_24c :: "string list" where
  "Stubs_Chassis_24c = methods at_root ''ChassisChassisIdThermalSubsystem''
     [(''LeakDetectionLeakDetectors'', [Get]),
      (''LeakDetectionLeakDetectorsLeakDetectorId'', [Get]),
      (''Pumps'', [Get]),
      (''PumpsPumpId'', [Get, Put, Patch]),
      (''PumpsPumpIdFilters'', [Get]),
      (''PumpsPumpIdFiltersFilterId'', [Get, Put])]"

definition Stubs_Chassis_24d :: "string list" where
  "Stubs_Chassis_24d = methods at_root ''ChassisChassisIdThermalSubsystem''
     [(''PumpsPumpIdFiltersFilterId'', [Patch]),
      (''ThermalMetrics'', [Get]),
      (''ThermalMetricsActionsThermalMetricsResetMetrics'', [Post])]"

definition Stubs_Chassis_25a :: "string list" where
  "Stubs_Chassis_25a = methods at_root ''ChassisChassisIdTrustedComponents''
     [('''', [Get]),
      (''TrustedComponentId'', [Get, Put, Patch]),
      (''TrustedComponentIdActionsTrustedComponentTPMGetEventLog'', [Post]),
      (''TrustedComponentIdCertificates'', [Get, Post]),
      (''TrustedComponentIdCertificatesCertificateId'', [Get])]"

definition Stubs_Chassis_25b :: "string list" where
  "Stubs_Chassis_25b = methods at_root ''ChassisChassisIdTrustedComponents''
     [(''TrustedComponentIdCertificatesCertificateId'', [Put, Delete, Patch]),
      (''TrustedComponentIdCertificatesCertificateIdActionsCertificateRekey'', [Post]),
      (''TrustedComponentIdCertificatesCertificateIdActionsCertificateRenew'', [Post])]"

definition chassis_stubs :: "string list" where
  "chassis_stubs = concat
     [concat [Stubs_Chassis_1a, Stubs_Chassis_1b, Stubs_Chassis_1c],
      concat [Stubs_Chassis_2a, Stubs_Chassis_2b, Stubs_Chassis_2c, Stubs_Chassis_2d],
      concat [Stubs_Chassis_3a, Stubs_Chassis_3b, Stubs_Chassis_3c],
      concat [Stubs_Chassis_4a, Stubs_Chassis_4b, Stubs_Chassis_4c, Stubs_Chassis_4d],
      concat [Stubs_Chassis_5a, Stubs_Chassis_5b, Stubs_Chassis_5c, Stubs_Chassis_5d],
      concat [Stubs_Chassis_6a, Stubs_Chassis_6b, Stubs_Chassis_6c, Stubs_Chassis_6d],
      concat [Stubs_Chassis_7a, Stubs_Chassis_7b, Stubs_Chassis_7c],
      concat [Stubs_Chassis_8a, Stubs_Chassis_8b],
      concat [Stubs_Chassis_9a, Stubs_Chassis_9b, Stubs_Chassis_9c],
      concat [Stubs_Chassis_10a],
      concat [Stubs_Chassis_11a, Stubs_Chassis_11b, Stubs_Chassis_11c, Stubs_Chassis_11d, Stubs_Chassis_11e],
      concat [Stubs_Chassis_12a],
      concat [Stubs_Chassis_13a, Stubs_Chassis_13b, Stubs_Chassis_13c],
      concat [Stubs_Chassis_14a, Stubs_Chassis_14b, Stubs_Chassis_14c],
      concat [Stubs_Chassis_15a, Stubs_Chassis_15b, Stubs_Chassis_15c, Stubs_Chassis_15d],
      concat [Stubs_Chassis_16a, Stubs_Chassis_16b, Stubs_Chassis_16c],
      concat [Stubs_Chassis_17a],
      concat [Stubs_Chassis_18a, Stubs_Chassis_18b, Stubs_Chassis_18c],
      concat [Stubs_Chassis_19a, Stubs_Chassis_19b, Stubs_Chassis_19c],
      concat [Stubs_Chassis_20a, Stubs_Chassis_20b, Stubs_Chassis_20c, Stubs_Chassis_20d],
      concat [Stubs_Chassis_21a],
      concat [Stubs_Chassis_22a, Stubs_Chassis_22b],
      concat [Stubs_Chassis_23a, Stubs_Chassis_23b, Stubs_Chassis_23c],
      concat [Stubs_Chassis_24a, Stubs_Chassis_24b, Stubs_Chassis_24c, Stubs_Chassis_24d],
      concat [Stubs_Chassis_25a, Stubs_Chassis_25b]]"

lemma Chassis_1_covered:
  "covered Routes_Chassis_1
     (concat [Stubs_Chassis_1a, Stubs_Chassis_1b, Stubs_Chassis_1c])"
  unfolding Routes_Chassis_1_def Stubs_Chassis_1a_def Stubs_Chassis_1b_def Stubs_Chassis_1c_def
  by (rule covering)+

lemma Chassis_2_covered:
  "covered Routes_Chassis_2
     (concat [Stubs_Chassis_2a, Stubs_Chassis_2b, Stubs_Chassis_2c, Stubs_Chassis_2d])"
  unfolding Routes_Chassis_2_def Stubs_Chassis_2a_def Stubs_Chassis_2b_def Stubs_Chassis_2c_def
    Stubs_Chassis_2d_def
  by (rule covering)+

lemma Chassis_3_covered:
  "covered Routes_Chassis_3
     (concat [Stubs_Chassis_3a, Stubs_Chassis_3b, Stubs_Chassis_3c])"
  unfolding Routes_Chassis_3_def Stubs_Chassis_3a_def Stubs_Chassis_3b_def Stubs_Chassis_3c_def
  by (rule covering)+

lemma Chassis_4_covered:
  "covered Routes_Chassis_4
     (concat [Stubs_Chassis_4a, Stubs_Chassis_4b, Stubs_Chassis_4c, Stubs_Chassis_4d])"
  unfolding Routes_Chassis_4_def Stubs_Chassis_4a_def Stubs_Chassis_4b_def Stubs_Chassis_4c_def
    Stubs_Chassis_4d_def
  by (rule covering)+

lemma Chassis_5_covered:
  "covered Routes_Chassis_5
     (concat [Stubs_Chassis_5a, Stubs_Chassis_5b, Stubs_Chassis_5c, Stubs_Chassis_5d])"
  unfolding Routes_Chassis_5_def Stubs_Chassis_5a_def Stubs_Chassis_5b_def Stubs_Chassis_5c_def
    Stubs_Chassis_5d_def
  by (rule covering)+

lemma Chassis_6_covered:
  "covered Routes_Chassis_6
     (concat [Stubs_Chassis_6a, Stubs_Chassis_6b, Stubs_Chassis_6c, Stubs_Chassis_6d])"
  unfolding Routes_Chassis_6_def Stubs_Chassis_6a_def Stubs_Chassis_6b_def Stubs_Chassis_6c_def
    Stubs_Chassis_6d_def
  by (rule covering)+

lemma Chassis_7_covered:
  "covered Routes_Chassis_7
     (concat [Stubs_Chassis_7a, Stubs_Chassis_7b, Stubs_Chassis_7c])"
  unfolding Routes_Chassis_7_def Stubs_Chassis_7a_def Stubs_Chassis_7b_def Stubs_Chassis_7c_def
  by (rule covering)+

lemma Chassis_8_covered:
  "covered Routes_Chassis_8
     (concat [Stubs_Chassis_8a, Stubs_Chassis_8b])"
  unfolding Routes_Chassis_8_def Stubs_Chassis_8a_def Stubs_Chassis_8b_def
  by (rule covering)+

lemma Chassis_9_covered:
  "covered Routes_Chassis_9
     (concat [Stubs_Chassis_9a, Stubs_Chassis_9b, Stubs_Chassis_9c])"
  unfolding Routes_Chassis_9_def Stubs_Chassis_9a_def Stubs_Chassis_9b_def Stubs_Chassis_9c_def
  by (rule covering)+

lemma Chassis_10_covered:
  "covered Routes_Chassis_10
     (concat [Stubs_Chassis_10a])"
  unfolding Routes_Chassis_10_def Stubs_Chassis_10a_def
  by (rule covering)+

lemma Chassis_11_covered:
  "covered Routes_Chassis_11
     (concat [Stubs_Chassis_11a, Stubs_Chassis_11b, Stubs_Chassis_11c, Stubs_Chassis_11d, Stubs_Chassis_11e])"
  unfolding Routes_Chassis_11_def Stubs_Chassis_11a_def Stubs_Chassis_11b_def Stubs_Chassis_11c_def
    Stubs_Chassis_11d_def Stubs_Chassis_11e_def
  by (rule covering)+

lemma Chassis_12_covered:
  "covered Routes_Chassis_12
     (concat [Stubs_Chassis_12a])"
  unfolding Routes_Chassis_12_def Stubs_Chassis_12a_def
  by (rule covering)+

lemma Chassis_13_covered:
  "covered Routes_Chassis_13
     (concat [Stubs_Chassis_13a, Stubs_Chassis_13b, Stubs_Chassis_13c])"
  unfolding Routes_Chassis_13_def Stubs_Chassis_13a_def Stubs_Chassis_13b_def Stubs_Chassis_13c_def
  by (rule covering)+

lemma Chassis_14_covered:
  "covered Routes_Chassis_14
     (concat [Stubs_Chassis_14a, Stubs_Chassis_14b, Stubs_Chassis_14c])"
  unfolding Routes_Chassis_14_def Stubs_Chassis_14a_def Stubs_Chassis_14b_def Stubs_Chassis_14c_def
  by (rule covering)+

lemma Chassis_15_covered:
  "covered Routes_Chassis_15
     (concat [Stubs_Chassis_15a, Stubs_Chassis_15b, Stubs_Chassis_15c, Stubs_Chassis_15d])"
  unfolding Routes_Chassis_15_def Stubs_Chassis_15a_def Stubs_Chassis_15b_def Stubs_Chassis_15c_def
    Stubs_Chassis_15d_def
  by (rule covering)+

lemma Chassis_16_covered:
  "covered Routes_Chassis_16
     (concat [Stubs_Chassis_16a, Stubs_Chassis_16b, Stubs_Chassis_16c])"
  unfolding Routes_Chassis_16_def Stubs_Chassis_16a_def Stubs_Chassis_16b_def Stubs_Chassis_16c_def
  by (rule covering)+

lemma Chassis_17_covered:
  "covered Routes_Chassis_17
     (concat [Stubs_Chassis_17a])"
  unfolding Routes_Chassis_17_def Stubs_Chassis_17a_def
  by (rule covering)+

lemma Chassis_18_covered:
  "covered Routes_Chassis_18
     (concat [Stubs_Chassis_18a, Stubs_Chassis_18b, Stubs_Chassis_18c])"
  unfolding Routes_Chassis_18_def Stubs_Chassis_18a_def Stubs_Chassis_18b_def Stubs_Chassis_18c_def
  by (rule covering)+

lemma Chassis_19_covered:
  "covered Routes_Chassis_19
     (concat [Stubs_Chassis_19a, Stubs_Chassis_19b, Stubs_Chassis_19c])"
  unfolding Routes_Chassis_19_def Stubs_Chassis_19a_def Stubs_Chassis_19b_def Stubs_Chassis_19c_def
  by (rule covering)+

lemma Chassis_20_covered:
  "covered Routes_Chassis_20
     (concat [Stubs_Chassis_20a, Stubs_Chassis_20b, Stubs_Chassis_20c, Stubs_Chassis_20d])"
  unfolding Routes_Chassis_20_def Stubs_Chassis_20a_def Stubs_Chassis_20b_def Stubs_Chassis_20c_def
    Stubs_Chassis_20d_def
  by (rule covering)+

lemma Chassis_21_covered:
  "covered Routes_Chassis_21
     (concat [Stubs_Chassis_21a])"
  unfolding Routes_Chassis_21_def Stubs_Chassis_21a_def
  by (rule covering)+

lemma Chassis_22_covered:
  "covered Routes_Chassis_22
     (concat [Stubs_Chassis_22a, Stubs_Chassis_22b])"
  unfolding Routes_Chassis_22_def Stubs_Chassis_22a_def Stubs_Chassis_22b_def
  by (rule covering)+

lemma Chassis_23_covered:
  "covered Routes_Chassis_23
     (concat [Stubs_Chassis_23a, Stubs_Chassis_23b, Stubs_Chassis_23c])"
  unfolding Routes_Chassis_23_def Stubs_Chassis_23a_def Stubs_Chassis_23b_def Stubs_Chassis_23c_def
  by (rule covering)+

lemma Chassis_24_covered:
  "covered Routes_Chassis_24
     (concat [Stubs_Chassis_24a, Stubs_Chassis_24b, Stubs_Chassis_24c, Stubs_Chassis_24d])"
  unfolding Routes_Chassis_24_def Stubs_Chassis_24a_def Stubs_Chassis_24b_def Stubs_Chassis_24c_def
    Stubs_Chassis_24d_def
  by (rule covering)+

lemma Chassis_25_covered:
  "covered Routes_Chassis_25
     (concat [Stubs_Chassis_25a, Stubs_Chassis_25b])"
  unfolding Routes_Chassis_25_def Stubs_Chassis_25a_def Stubs_Chassis_25b_def
  by (rule covering)+

lemma chassis_covered: "covered chassis_routes chassis_stubs"
  unfolding chassis_routes_def chassis_stubs_def
  by (intro covered_concat
    Chassis_1_covered Chassis_2_covered Chassis_3_covered Chassis_4_covered Chassis_5_covered
    Chassis_6_covered Chassis_7_covered Chassis_8_covered Chassis_9_covered Chassis_10_covered
    Chassis_11_covered Chassis_12_covered Chassis_13_covered Chassis_14_covered Chassis_15_covered
    Chassis_16_covered Chassis_17_covered Chassis_18_covered Chassis_19_covered Chassis_20_covered
    Chassis_21_covered Chassis_22_covered Chassis_23_covered Chassis_24_covered Chassis_25_covered)

end
