(* ===== verification/StubsPlant.thy ===== *)
theory StubsPlant
  imports RoutesPlant ServiceMethods
begin

text \<open>
  The methods of the service (pkg/redfish/api_service.go) for power and thermal equipment, managers and storage that do nothing but
  answer 501 Not Implemented with their name, group by group of their routes.
\<close>

definition Stubs_Managers_2a :: "string list" where
  "Stubs_Managers_2a = methods at_manager ''''
     [('''', [Put, Patch])]"

definition Stubs_Managers_3a :: "string list" where
  "Stubs_Managers_3a = methods at_manager ''''
     [(''ActionsManagerForceFailover'', [Post]),
      (''ActionsManagerModifyRedundancySet'', [Post]),
      (''ActionsManagerReset'', [Post]),
      (''ActionsManagerResetToDefaults'', [Post]),
      (''Certificates'', [Get, Post]),
      (''CertificatesCertificateId'', [Get])]"

definition Stubs_Managers_3b :: "string list" where
  "Stubs_Managers_3b = methods at_manager ''''
     [(''CertificatesCertificateId'', [Put, Delete, Patch]),
      (''CertificatesCertificateIdActionsCertificateRekey'', [Post]),
      (''CertificatesCertificateIdActionsCertificateRenew'', [Post]),
      (''DedicatedNetworkPorts'', [Get]),
      (''DedicatedNetworkPortsPortId'', [Get])]"

definition Stubs_Managers_3c :: "string list" where
  "Stubs_Managers_3c = methods at_manager ''''
     [(''DedicatedNetworkPortsPortId'', [Put, Patch]),
      (''DedicatedNetworkPortsPortIdActionsPortReset'', [Post]),
      (''DedicatedNetworkPortsPortIdActionsPortResetPPB'', [Post]),
      (''DedicatedNetworkPortsPortIdEnvironmentMetrics'', [Get, Put, Patch])]"

definition Stubs_Managers_3d :: "string list" where
  "Stubs_Managers_3d = methods at_manager ''''
     [(''DedicatedNetworkPortsPortIdEnvironmentMetricsActionsEnvironmentMetricsResetMetrics'', [Post]),
      (''DedicatedNetworkPortsPortIdEnvironmentMetricsActionsEnvironmentMetricsResetToDefaults'', [Post]),
      (''DedicatedNetworkPortsPortIdMetrics'', [Get]),
      (''EthernetInterfaces'', [Get, Post]),
      (''EthernetInterfacesEthernetInterfaceId'', [Get, Put, Delete])]"

definition Stubs_Managers_3e :: "string list" where
  "Stubs_Managers_3e = methods at_manager ''''
     [(''EthernetInterfacesEthernetInterfaceId'', [Patch])]"

definition Stubs_Managers_4a :: "string list" where
  "Stubs_Managers_4a = methods at_manager ''''
     [(''EthernetInterfacesEthernetInterfaceIdVLANs'', [Get, Post]),
      (''EthernetInterfacesEthernetInterfaceIdVLANsVLanNetworkInterfaceId'', [Get, Put, Delete, Patch]),
      (''HostInterfaces'', [Get]),
      (''HostInterfacesHostInterfaceId'', [Get])]"

definition Stubs_Managers_4b :: "string list" where
  "Stubs_Managers_4b = methods at_manager ''''
     [(''HostInterfacesHostInterfaceId'', [Put, Patch]),
      (''HostInterfacesHostInterfaceIdHostEthernetInterfaces'', [Get, Post]),
      (''LogServices'', [Get]),
      (''LogServicesLogServiceId'', [Get, Put, Patch])]"

definition Stubs_Managers_4c :: "string list" where
  "Stubs_Managers_4c = methods at_manager ''''
     [(''LogServicesLogServiceIdActionsLogServiceClearLog'', [Post]),
      (''LogServicesLogServiceIdActionsLogServiceCollectDiagnosticData'', [Post]),
      (''LogServicesLogServiceIdActionsLogServicePushDiagnosticData'', [Post]),
      (''LogServicesLogServiceIdEntries'', [Get, Post]),
      (''LogServicesLogServiceIdEntriesLogEntryId'', [Get, Put])]"

definition Stubs_Managers_4d :: "string list" where
  "Stubs_Managers_4d = methods at_manager ''''
     [(''LogServicesLogServiceIdEntriesLogEntryId'', [Delete, Patch]),
      (''ManagerDiagnosticData'', [Get]),
      (''ManagerDiagnosticDataActionsManagerDiagnosticDataResetMetrics'', [Post]),
      (''NetworkProtocol'', [Get, Put, Patch])]"

definition Stubs_Managers_5a :: "string list" where
  "Stubs_Managers_5a = methods at_manager ''''
     [(''NetworkProtocolHTTPSCertificates'', [Get, Post]),
      (''NetworkProtocolHTTPSCertificatesCertificateId'', [Get, Put, Delete, Patch]),
      (''NetworkProtocolHTTPSCertificatesCertificateIdActionsCertificateRekey'', [Post])]"

definition Stubs_Managers_5b :: "string list" where
  "Stubs_Managers_5b = methods at_manager ''''
     [(''NetworkProtocolHTTPSCertificatesCertificateIdActionsCertificateRenew'', [Post]),
      (''RemoteAccountService'', [Get, Put, Patch]),
      (''RemoteAccountServiceAccounts'', [Get, Post])]"

definition Stubs_Managers_6a :: "string list" where
  "Stubs_Managers_6a = methods at_manager ''RemoteAccountServiceAccountsManagerAccountId''
     [('''', [Get, Put, Delete, Patch]),
      (''ActionsManagerAccountChangePassword'', [Post]),
      (''Certificates'', [Get, Post]),
      (''CertificatesCertificateId'', [Get])]"

definition Stubs_Managers_6b :: "string list" where
  "Stubs_Managers_6b = methods at_manager ''RemoteAccountServiceAccountsManagerAccountId''
     [(''CertificatesCertificateId'', [Put, Delete, Patch]),
      (''CertificatesCertificateIdActionsCertificateRekey'', [Post]),
      (''CertificatesCertificateIdActionsCertificateRenew'', [Post]),
      (''Keys'', [Get, Post])]"

definition Stubs_Managers_6c :: "string list" where
  "Stubs_Managers_6c = methods at_manager ''RemoteAccountServiceAccountsManagerAccountId''
     [(''KeysKeyId'', [Get, Put, Delete, Patch])]"

definition Stubs_Managers_7a :: "string list" where
  "Stubs_Managers_7a = methods at_manager ''RemoteAccountService''
     [(''ActiveDirectoryCertificates'', [Get, Post]),
      (''ActiveDirectoryCertificatesCertificateId'', [Get, Put, Delete, Patch]),
      (''ActiveDirectoryCertificatesCertificateIdActionsCertificateRekey'', [Post])]"

definition Stubs_Managers_7b :: "string list" where
  "Stubs_Managers_7b = methods at_manager ''RemoteAccountService''
     [(''ActiveDirectoryCertificatesCertificateIdActionsCertificateRenew'', [Post]),
      (''ExternalAccountProviders'', [Get, Post]),
      (''ExternalAccountProvidersExternalAccountProviderId'', [Get, Put, Delete, Patch]),
      (''ExternalAccountProvidersExternalAccountProviderIdCertificates'', [Get])]"

definition Stubs_Managers_7c :: "string list" where
  "Stubs_Managers_7c = methods at_manager ''RemoteAccountService''
     [(''ExternalAccountProvidersExternalAccountProviderIdCertificates'', [Post]),
      (''ExternalAccountProvidersExternalAccountProviderIdCertificatesCertificateId'', [Get, Put, Delete, Patch]),
      (''ExternalAccountProvidersExternalAccountProviderIdCertificatesCertificateIdActionsCertificateRekey'', [Post]),
      (''ExternalAccountProvidersExternalAccountProviderIdCertificatesCertificateIdActionsCertificateRenew'', [Post])]"

definition Stubs_Managers_7d :: "string list" where
  "Stubs_Managers_7d = methods at_manager ''RemoteAccountService''
     [(''LDAPCertificates'', [Get, Post]),
      (''LDAPCertificatesCertificateId'', [Get, Put, Delete, Patch]),
      (''LDAPCertificatesCertificateIdActionsCertificateRekey'', [Post])]"

definition Stubs_Managers_7e :: "string list" where
  "Stubs_Managers_7e = methods at_manager ''RemoteAccountService''
     [(''LDAPCertificatesCertificateIdActionsCertificateRenew'', [Post])]"

definition Stubs_Managers_8a :: "string list" where
  "Stubs_Managers_8a = methods at_manager ''RemoteAccountService''
     [(''MultiFactorAuthClientCertificateCertificates'', [Get, Post]),
      (''MultiFactorAuthClientCertificateCertificatesCertificateId'', [Get, Put, Delete, Patch]),
      (''MultiFactorAuthClientCertificateCertificatesCertificateIdActionsCertificateRekey'', [Post])]"

definition Stubs_Managers_8b :: "string list" where
  "Stubs_Managers_8b = methods at_manager ''RemoteAccountService''
     [(''MultiFactorAuthClientCertificateCertificatesCertificateIdActionsCertificateRenew'', [Post]),
      (''MultiFactorAuthSecurIDCertificates'', [Get, Post]),
      (''MultiFactorAuthSecurIDCertificatesCertificateId'', [Get, Put, Delete, Patch])]"

definition Stubs_Managers_8c :: "string list" where
  "Stubs_Managers_8c = methods at_manager ''RemoteAccountService''
     [(''MultiFactorAuthSecurIDCertificatesCertificateIdActionsCertificateRekey'', [Post]),
      (''MultiFactorAuthSecurIDCertificatesCertificateIdActionsCertificateRenew'', [Post]),
      (''Roles'', [Get, Post]),
      (''RolesRoleId'', [Get, Put, Delete])]"

definition Stubs_Managers_8d :: "string list" where
  "Stubs_Managers_8d = methods at_manager ''RemoteAccountService''
     [(''RolesRoleId'', [Patch])]"

definition Stubs_Managers_9a :: "string list" where
  "Stubs_Managers_9a = methods at_manager ''SecurityPolicy''
     [('''', [Get, Put, Patch]),
      (''SPDMRevokedCertificates'', [Get, Post]),
      (''SPDMRevokedCertificatesCertificateId'', [Get, Put, Delete])]"

definition Stubs_Managers_9b :: "string list" where
  "Stubs_Managers_9b = methods at_manager ''SecurityPolicy''
     [(''SPDMRevokedCertificatesCertificateId'', [Patch]),
      (''SPDMRevokedCertificatesCertificateIdActionsCertificateRekey'', [Post]),
      (''SPDMRevokedCertificatesCertificateIdActionsCertificateRenew'', [Post]),
      (''SPDMTrustedCertificates'', [Get, Post]),
      (''SPDMTrustedCertificatesCertificateId'', [Get, Put])]"

definition Stubs_Managers_9c :: "string list" where
  "Stubs_Managers_9c = methods at_manager ''SecurityPolicy''
     [(''SPDMTrustedCertificatesCertificateId'', [Delete, Patch]),
      (''SPDMTrustedCertificatesCertificateIdActionsCertificateRekey'', [Post]),
      (''SPDMTrustedCertificatesCertificateIdActionsCertificateRenew'', [Post]),
      (''TLSClientRevokedCertificates'', [Get, Post])]"

definition Stubs_Managers_10a :: "string list" where
  "Stubs_Managers_10a = methods at_manager ''SecurityPolicyTLS''
     [(''ClientRevokedCertificatesCertificateId'', [Get, Put, Delete, Patch]),
      (''ClientRevokedCertificatesCertificateIdActionsCertificateRekey'', [Post]),
      (''ClientRevokedCertificatesCertificateIdActionsCertificateRenew'', [Post]),
      (''ClientTrustedCertificates'', [Get])]"

definition Stubs_Managers_10b :: "string list" where
  "Stubs_Managers_10b = methods at_manager ''SecurityPolicyTLS''
     [(''ClientTrustedCertificates'', [Post]),
      (''ClientTrustedCertificatesCertificateId'', [Get, Put, Delete, Patch]),
      (''ClientTrustedCertificatesCertificateIdActionsCertificateRekey'', [Post]),
      (''ClientTrustedCertificatesCertificateIdActionsCertificateRenew'', [Post])]"

definition Stubs_Managers_10c :: "string list" where
  "Stubs_Managers_10c = methods at_manager ''SecurityPolicyTLS''
     [(''ServerRevokedCertificates'', [Get, Post]),
      (''ServerRevokedCertificatesCertificateId'', [Get, Put, Delete, Patch]),
      (''ServerRevokedCertificatesCertificateIdActionsCertificateRekey'', [Post])]"

definition Stubs_Managers_10d :: "string list" where
  "Stubs_Managers_10d = methods at_manager ''SecurityPolicyTLS''
     [(''ServerRevokedCertificatesCertificateIdActionsCertificateRenew'', [Post]),
      (''ServerTrustedCertificates'', [Get, Post]),
      (''ServerTrustedCertificatesCertificateId'', [Get, Put, Delete, Patch])]"

definition Stubs_Managers_10e :: "string list" where
  "Stubs_Managers_10e = methods at_manager ''SecurityPolicyTLS''
     [(''ServerTrustedCertificatesCertificateIdActionsCertificateRekey'', [Post]),
      (''ServerTrustedCertificatesCertificateIdActionsCertificateRenew'', [Post])]"

definition Stubs_Managers_11a :: "string list" where
  "Stubs_Managers_11a = methods at_manager ''''
     [(''SerialInterfaces'', [Get]),
      (''SerialInterfacesSerialInterfaceId'', [Get, Put, Patch]),
      (''SharedNetworkPorts'', [Get]),
      (''USBPorts'', [Get]),
      (''USBPortsPortId'', [Get, Put, Patch])]"

definition Stubs_Managers_11b :: "string list" where
  "Stubs_Managers_11b = methods at_manager ''''
     [(''USBPortsPortIdActionsPortReset'', [Post]),
      (''USBPortsPortIdActionsPortResetPPB'', [Post]),
      (''USBPortsPortIdEnvironmentMetrics'', [Get, Put, Patch]),
      (''USBPortsPortIdEnvironmentMetricsActionsEnvironmentMetricsResetMetrics'', [Post]),
      (''USBPortsPortIdEnvironmentMetricsActionsEnvironmentMetricsResetToDefaults'', [Post])]"

definition Stubs_Managers_11c :: "string list" where
  "Stubs_Managers_11c = methods at_manager ''''
     [(''USBPortsPortIdMetrics'', [Get])]"

definition Stubs_Managers_13a :: "string list" where
  "Stubs_Managers_13a = methods at_manager ''VirtualMediaVirtualMediaId''
     [('''', [Put, Patch])]"

definition Stubs_PowerEquipment_1a :: "string list" where
  "Stubs_PowerEquipment_1a = methods at_root ''PowerEquipment''
     [('''', [Get]),
      (''ElectricalBuses'', [Get]),
      (''ElectricalBusesPowerDistributionId'', [Get, Put, Patch]),
      (''ElectricalBusesPowerDistributionIdActionsPowerDistributionTransferControl'', [Post])]"

definition Stubs_PowerEquipment_2a :: "string list" where
  "Stubs_PowerEquipment_2a = methods at_root ''PowerEquipmentElectricalBusesPowerDistributionId''
     [(''Branches'', [Get]),
      (''BranchesCircuitId'', [Get, Put, Patch]),
      (''BranchesCircuitIdActionsCircuitBreakerControl'', [Post]),
      (''BranchesCircuitIdActionsCircuitPowerControl'', [Post]),
      (''BranchesCircuitIdActionsCircuitResetMetrics'', [Post]),
      (''Mains'', [Get])]"

definition Stubs_PowerEquipment_2b :: "string list" where
  "Stubs_PowerEquipment_2b = methods at_root ''PowerEquipmentElectricalBusesPowerDistributionId''
     [(''MainsCircuitId'', [Get, Put, Patch]),
      (''MainsCircuitIdActionsCircuitBreakerControl'', [Post]),
      (''MainsCircuitIdActionsCircuitPowerControl'', [Post]),
      (''MainsCircuitIdActionsCircuitResetMetrics'', [Post]),
      (''Metrics'', [Get])]"

definition Stubs_PowerEquipment_2c :: "string list" where
  "Stubs_PowerEquipment_2c = methods at_root ''PowerEquipmentElectricalBusesPowerDistributionId''
     [(''MetricsActionsPowerDistributionMetricsResetMetrics'', [Post]),
      (''OutletGroups'', [Get, Post]),
      (''OutletGroupsOutletGroupId'', [Get, Put, Delete, Patch])]"

definition Stubs_PowerEquipment_2d :: "string list" where
  "Stubs_PowerEquipment_2d = methods at_root ''PowerEquipmentElectricalBusesPowerDistributionId''
     [(''OutletGroupsOutletGroupIdActionsOutletGroupPowerControl'', [Post]),
      (''OutletGroupsOutletGroupIdActionsOutletGroupResetMetrics'', [Post]),
      (''Outlets'', [Get]),
      (''OutletsOutletId'', [Get, Put, Patch]),
      (''OutletsOutletIdActionsOutletPowerControl'', [Post])]"

definition Stubs_PowerEquipment_2e :: "string list" where
  "Stubs_PowerEquipment_2e = methods at_root ''PowerEquipmentElectricalBusesPowerDistributionId''
     [(''OutletsOutletIdActionsOutletResetMetrics'', [Post])]"

definition Stubs_PowerEquipment_3a :: "string list" where
  "Stubs_PowerEquipment_3a = methods at_root ''PowerEquipmentFloorPDUs''
     [('''', [Get]),
      (''PowerDistributionId'', [Get, Put, Patch]),
      (''PowerDistributionIdActionsPowerDistributionTransferControl'', [Post]),
      (''PowerDistributionIdBranches'', [Get]),
      (''PowerDistributionIdBranchesCircuitId'', [Get, Put])]"

definition Stubs_PowerEquipment_3b :: "string list" where
  "Stubs_PowerEquipment_3b = methods at_root ''PowerEquipmentFloorPDUs''
     [(''PowerDistributionIdBranchesCircuitId'', [Patch])]"

definition Stubs_PowerEquipment_4a :: "string list" where
  "Stubs_PowerEquipment_4a = methods at_root ''PowerEquipmentFloorPDUsPowerDistributionId''
     [(''BranchesCircuitIdActionsCircuitBreakerControl'', [Post]),
      (''BranchesCircuitIdActionsCircuitPowerControl'', [Post]),
      (''BranchesCircuitIdActionsCircuitResetMetrics'', [Post]),
      (''Mains'', [Get]),
      (''MainsCircuitId'', [Get, Put, Patch])]"

definition Stubs_PowerEquipment_4b :: "string list" where
  "Stubs_PowerEquipment_4b = methods at_root ''PowerEquipmentFloorPDUsPowerDistributionId''
     [(''MainsCircuitIdActionsCircuitBreakerControl'', [Post]),
      (''MainsCircuitIdActionsCircuitPowerControl'', [Post]),
      (''MainsCircuitIdActionsCircuitResetMetrics'', [Post]),
      (''Metrics'', [Get]),
      (''MetricsActionsPowerDistributionMetricsResetMetrics'', [Post]),
      (''OutletsOutletId'', [Get, Put])]"

definition Stubs_PowerEquipment_4c :: "string list" where
  "Stubs_PowerEquipment_4c = methods at_root ''PowerEquipmentFloorPDUsPowerDistributionId''
     [(''OutletsOutletId'', [Patch]),
      (''OutletsOutletIdActionsOutletPowerControl'', [Post]),
      (''OutletsOutletIdActionsOutletResetMetrics'', [Post]),
      (''Sensors'', [Get]),
      (''SensorsSensorId'', [Get, Put, Patch])]"

definition Stubs_PowerEquipment_4d :: "string list" where
  "Stubs_PowerEquipment_4d = methods at_root ''PowerEquipmentFloorPDUsPowerDistributionId''
     [(''SensorsSensorIdActionsSensorResetMetrics'', [Post]),
      (''SensorsSensorIdActionsSensorResetToDefaults'', [Post]),
      (''Subfeeds'', [Get]),
      (''SubfeedsCircuitId'', [Get, Put, Patch]),
      (''SubfeedsCircuitIdActionsCircuitBreakerControl'', [Post])]"

definition Stubs_PowerEquipment_4e :: "string list" where
  "Stubs_PowerEquipment_4e = methods at_root ''PowerEquipmentFloorPDUsPowerDistributionId''
     [(''SubfeedsCircuitIdActionsCircuitPowerControl'', [Post]),
      (''SubfeedsCircuitIdActionsCircuitResetMetrics'', [Post])]"

definition Stubs_PowerEquipment_5a :: "string list" where
  "Stubs_PowerEquipment_5a = methods at_root ''PowerEquipmentPowerShelves''
     [('''', [Get])]"

definition Stubs_PowerEquipment_6a :: "string list" where
  "Stubs_PowerEquipment_6a = methods at_root ''PowerEquipmentPowerShelvesPowerDistributionId''
     [('''', [Get, Put, Patch]),
      (''ActionsPowerDistributionTransferControl'', [Post]),
      (''Branches'', [Get]),
      (''BranchesCircuitId'', [Get, Put, Patch])]"

definition Stubs_PowerEquipment_6b :: "string list" where
  "Stubs_PowerEquipment_6b = methods at_root ''PowerEquipmentPowerShelvesPowerDistributionId''
     [(''BranchesCircuitIdActionsCircuitBreakerControl'', [Post]),
      (''BranchesCircuitIdActionsCircuitPowerControl'', [Post]),
      (''BranchesCircuitIdActionsCircuitResetMetrics'', [Post]),
      (''Mains'', [Get]),
      (''MainsCircuitId'', [Get, Put, Patch])]"

definition Stubs_PowerEquipment_6c :: "string list" where
  "Stubs_PowerEquipment_6c = methods at_root ''PowerEquipmentPowerShelvesPowerDistributionId''
     [(''MainsCircuitIdActionsCircuitBreakerControl'', [Post]),
      (''MainsCircuitIdActionsCircuitPowerControl'', [Post]),
      (''MainsCircuitIdActionsCircuitResetMetrics'', [Post]),
      (''Metrics'', [Get]),
      (''MetricsActionsPowerDistributionMetricsResetMetrics'', [Post]),
      (''OutletGroups'', [Get, Post])]"

definition Stubs_PowerEquipment_6d :: "string list" where
  "Stubs_PowerEquipment_6d = methods at_root ''PowerEquipmentPowerShelvesPowerDistributionId''
     [(''OutletGroupsOutletGroupId'', [Get, Put, Delete, Patch]),
      (''OutletGroupsOutletGroupIdActionsOutletGroupPowerControl'', [Post]),
      (''OutletGroupsOutletGroupIdActionsOutletGroupResetMetrics'', [Post]),
      (''Outlets'', [Get])]"

definition Stubs_PowerEquipment_7a :: "string list" where
  "Stubs_PowerEquipment_7a = methods at_root ''PowerEquipmentPowerShelvesPowerDistributionId''
     [(''OutletsOutletId'', [Get, Put, Patch]),
      (''OutletsOutletIdActionsOutletPowerControl'', [Post]),
      (''OutletsOutletIdActionsOutletResetMetrics'', [Post]),
      (''PowerSupplies'', [Get]),
      (''PowerSuppliesPowerSupplyId'', [Get, Put])]"

definition Stubs_PowerEquipment_7b :: "string list" where
  "Stubs_PowerEquipment_7b = methods at_root ''PowerEquipmentPowerShelvesPowerDistributionId''
     [(''PowerSuppliesPowerSupplyId'', [Patch]),
      (''PowerSuppliesPowerSupplyIdActionsPowerSupplyReset'', [Post]),
      (''PowerSuppliesPowerSupplyIdAssembly'', [Get, Put, Patch]),
      (''PowerSuppliesPowerSupplyIdMetrics'', [Get]),
      (''PowerSuppliesPowerSupplyIdMetricsActionsPowerSupplyMetricsResetMetrics'', [Post]),
      (''Sensors'', [Get])]"

definition Stubs_PowerEquipment_7c :: "string list" where
  "Stubs_PowerEquipment_7c = methods at_root ''PowerEquipmentPowerShelvesPowerDistributionId''
     [(''SensorsSensorId'', [Get, Put, Patch]),
      (''SensorsSensorIdActionsSensorResetMetrics'', [Post]),
      (''SensorsSensorIdActionsSensorResetToDefaults'', [Post])]"

definition Stubs_PowerEquipment_8a :: "string list" where
  "Stubs_PowerEquipment_8a = methods at_root ''PowerEquipmentRackPDUs''
     [('''', [Get]),
      (''PowerDistributionId'', [Get, Put, Patch]),
      (''PowerDistributionIdActionsPowerDistributionTransferControl'', [Post]),
      (''PowerDistributionIdBranches'', [Get]),
      (''PowerDistributionIdBranchesCircuitId'', [Get, Put])]"

definition Stubs_PowerEquipment_8b :: "string list" where
  "Stubs_PowerEquipment_8b = methods at_root ''PowerEquipmentRackPDUs''
     [(''PowerDistributionIdBranchesCircuitId'', [Patch]),
      (''PowerDistributionIdBranchesCircuitIdActionsCircuitBreakerControl'', [Post]),
      (''PowerDistributionIdBranchesCircuitIdActionsCircuitPowerControl'', [Post])]"

definition Stubs_PowerEquipment_9a :: "string list" where
  "Stubs_PowerEquipment_9a = methods at_root ''PowerEquipmentRackPDUsPowerDistributionId''
     [(''BranchesCircuitIdActionsCircuitResetMetrics'', [Post]),
      (''Mains'', [Get]),
      (''MainsCircuitId'', [Get, Put, Patch]),
      (''MainsCircuitIdActionsCircuitBreakerControl'', [Post]),
      (''MainsCircuitIdActionsCircuitPowerControl'', [Post])]"

definition Stubs_PowerEquipment_9b :: "string list" where
  "Stubs_PowerEquipment_9b = methods at_root ''PowerEquipmentRackPDUsPowerDistributionId''
     [(''MainsCircuitIdActionsCircuitResetMetrics'', [Post]),
      (''Metrics'', [Get]),
      (''MetricsActionsPowerDistributionMetricsResetMetrics'', [Post]),
      (''OutletGroups'', [Get, Post]),
      (''OutletGroupsOutletGroupId'', [Get, Put, Delete])]"

definition Stubs_PowerEquipment_9c :: "string list" where
  "Stubs_PowerEquipment_9c = methods at_root ''PowerEquipmentRackPDUsPowerDistributionId''
     [(''OutletGroupsOutletGroupId'', [Patch]),
      (''OutletGroupsOutletGroupIdActionsOutletGroupPowerControl'', [Post]),
      (''OutletGroupsOutletGroupIdActionsOutletGroupResetMetrics'', [Post]),
      (''Outlets'', [Get]),
      (''OutletsOutletId'', [Get, Put, Patch])]"

definition Stubs_PowerEquipment_9d :: "string list" where
  "Stubs_PowerEquipment_9d = methods at_root ''PowerEquipmentRackPDUsPowerDistributionId''
     [(''OutletsOutletIdActionsOutletPowerControl'', [Post]),
      (''OutletsOutletIdActionsOutletResetMetrics'', [Post]),
      (''Sensors'', [Get]),
      (''SensorsSensorId'', [Get, Put, Patch]),
      (''SensorsSensorIdActionsSensorResetMetrics'', [Post])]"

definition Stubs_PowerEquipment_9e :: "string list" where
  "Stubs_PowerEquipment_9e = methods at_root ''PowerEquipmentRackPDUsPowerDistributionId''
     [(''SensorsSensorIdActionsSensorResetToDefaults'', [Post])]"

definition Stubs_PowerEquipment_10a :: "string list" where
  "Stubs_PowerEquipment_10a = methods at_root ''PowerEquipmentSwitchgear''
     [('''', [Get]),
      (''PowerDistributionId'', [Get, Put, Patch]),
      (''PowerDistributionIdActionsPowerDistributionTransferControl'', [Post]),
      (''PowerDistributionIdBranches'', [Get]),
      (''PowerDistributionIdBranchesCircuitId'', [Get, Put])]"

definition Stubs_PowerEquipment_10b :: "string list" where
  "Stubs_PowerEquipment_10b = methods at_root ''PowerEquipmentSwitchgear''
     [(''PowerDistributionIdBranchesCircuitId'', [Patch]),
      (''PowerDistributionIdBranchesCircuitIdActionsCircuitBreakerControl'', [Post]),
      (''PowerDistributionIdBranchesCircuitIdActionsCircuitPowerControl'', [Post])]"

definition Stubs_PowerEquipment_11a :: "string list" where
  "Stubs_PowerEquipment_11a = methods at_root ''PowerEquipmentSwitchgearPowerDistributionId''
     [(''BranchesCircuitIdActionsCircuitResetMetrics'', [Post]),
      (''Feeders'', [Get]),
      (''FeedersCircuitId'', [Get, Put, Patch]),
      (''FeedersCircuitIdActionsCircuitBreakerControl'', [Post]),
      (''FeedersCircuitIdActionsCircuitPowerControl'', [Post])]"

definition Stubs_PowerEquipment_11b :: "string list" where
  "Stubs_PowerEquipment_11b = methods at_root ''PowerEquipmentSwitchgearPowerDistributionId''
     [(''FeedersCircuitIdActionsCircuitResetMetrics'', [Post]),
      (''Mains'', [Get]),
      (''MainsCircuitId'', [Get, Put, Patch]),
      (''MainsCircuitIdActionsCircuitBreakerControl'', [Post]),
      (''MainsCircuitIdActionsCircuitPowerControl'', [Post])]"

definition Stubs_PowerEquipment_11c :: "string list" where
  "Stubs_PowerEquipment_11c = methods at_root ''PowerEquipmentSwitchgearPowerDistributionId''
     [(''MainsCircuitIdActionsCircuitResetMetrics'', [Post]),
      (''Metrics'', [Get]),
      (''MetricsActionsPowerDistributionMetricsResetMetrics'', [Post]),
      (''Sensors'', [Get]),
      (''SensorsSensorId'', [Get, Put, Patch])]"

definition Stubs_PowerEquipment_11d :: "string list" where
  "Stubs_PowerEquipment_11d = methods at_root ''PowerEquipmentSwitchgearPowerDistributionId''
     [(''SensorsSensorIdActionsSensorResetMetrics'', [Post]),
      (''SensorsSensorIdActionsSensorResetToDefaults'', [Post]),
      (''Subfeeds'', [Get]),
      (''SubfeedsCircuitId'', [Get, Put, Patch]),
      (''SubfeedsCircuitIdActionsCircuitBreakerControl'', [Post])]"

definition Stubs_PowerEquipment_11e :: "string list" where
  "Stubs_PowerEquipment_11e = methods at_root ''PowerEquipmentSwitchgearPowerDistributionId''
     [(''SubfeedsCircuitIdActionsCircuitPowerControl'', [Post]),
      (''SubfeedsCircuitIdActionsCircuitResetMetrics'', [Post])]"

definition Stubs_PowerEquipment_12a :: "string list" where
  "Stubs_PowerEquipment_12a = methods at_root ''PowerEquipmentTransferSwitches''
     [('''', [Get]),
      (''PowerDistributionId'', [Get, Put, Patch]),
      (''PowerDistributionIdActionsPowerDistributionTransferControl'', [Post]),
      (''PowerDistributionIdBranches'', [Get]),
      (''PowerDistributionIdBranchesCircuitId'', [Get, Put])]"

definition Stubs_PowerEquipment_12b :: "string list" where
  "Stubs_PowerEquipment_12b = methods at_root ''PowerEquipmentTransferSwitches''
     [(''PowerDistributionIdBranchesCircuitId'', [Patch]),
      (''PowerDistributionIdBranchesCircuitIdActionsCircuitBreakerControl'', [Post]),
      (''PowerDistributionIdBranchesCircuitIdActionsCircuitPowerControl'', [Post]),
      (''PowerDistributionIdBranchesCircuitIdActionsCircuitResetMetrics'', [Post]),
      (''PowerDistributionIdFeeders'', [Get]),
      (''PowerDistributionIdFeedersCircuitId'', [Get, Put])]"

definition Stubs_PowerEquipment_12c :: "string list" where
  "Stubs_PowerEquipment_12c = methods at_root ''PowerEquipmentTransferSwitches''
     [(''PowerDistributionIdFeedersCircuitId'', [Patch]),
      (''PowerDistributionIdFeedersCircuitIdActionsCircuitBreakerControl'', [Post]),
      (''PowerDistributionIdFeedersCircuitIdActionsCircuitPowerControl'', [Post])]"

definition Stubs_PowerEquipment_13a :: "string list" where
  "Stubs_PowerEquipment_13a = methods at_root ''PowerEquipmentTransferSwitchesPowerDistributionId''
     [(''FeedersCircuitIdActionsCircuitResetMetrics'', [Post]),
      (''Mains'', [Get]),
      (''MainsCircuitId'', [Get, Put, Patch]),
      (''MainsCircuitIdActionsCircuitBreakerControl'', [Post]),
      (''MainsCircuitIdActionsCircuitPowerControl'', [Post])]"

definition Stubs_PowerEquipment_13b :: "string list" where
  "Stubs_PowerEquipment_13b = methods at_root ''PowerEquipmentTransferSwitchesPowerDistributionId''
     [(''MainsCircuitIdActionsCircuitResetMetrics'', [Post]),
      (''Metrics'', [Get]),
      (''MetricsActionsPowerDistributionMetricsResetMetrics'', [Post]),
      (''OutletGroups'', [Get, Post]),
      (''OutletGroupsOutletGroupId'', [Get, Put, Delete])]"

definition Stubs_PowerEquipment_13c :: "string list" where
  "Stubs_PowerEquipment_13c = methods at_root ''PowerEquipmentTransferSwitchesPowerDistributionId''
     [(''OutletGroupsOutletGroupId'', [Patch]),
      (''OutletGroupsOutletGroupIdActionsOutletGroupPowerControl'', [Post]),
      (''OutletGroupsOutletGroupIdActionsOutletGroupResetMetrics'', [Post]),
      (''Outlets'', [Get]),
      (''OutletsOutletId'', [Get, Put, Patch])]"

definition Stubs_PowerEquipment_13d :: "string list" where
  "Stubs_PowerEquipment_13d = methods at_root ''PowerEquipmentTransferSwitchesPowerDistributionId''
     [(''OutletsOutletIdActionsOutletPowerControl'', [Post]),
      (''OutletsOutletIdActionsOutletResetMetrics'', [Post]),
      (''Sensors'', [Get]),
      (''SensorsSensorId'', [Get, Put, Patch]),
      (''SensorsSensorIdActionsSensorResetMetrics'', [Post])]"

definition Stubs_PowerEquipment_13e :: "string list" where
  "Stubs_PowerEquipment_13e = methods at_root ''PowerEquipmentTransferSwitchesPowerDistributionId''
     [(''SensorsSensorIdActionsSensorResetToDefaults'', [Post])]"

definition Stubs_Storage_1a :: "string list" where
  "Stubs_Storage_1a = methods at_root ''Storage''
     [('''', [Get]),
      (''StorageId'', [Get, Put, Patch]),
      (''StorageIdActionsStorageResetToDefaults'', [Post]),
      (''StorageIdActionsStorageSetEncryptionKey'', [Post]),
      (''StorageIdConnections'', [Get, Post])]"

definition Stubs_Storage_1b :: "string list" where
  "Stubs_Storage_1b = methods at_root ''Storage''
     [(''StorageIdConsistencyGroupsConsistencyGroupIdVolumes'', [Get, Post]),
      (''StorageIdConsistencyGroupsConsistencyGroupIdVolumesVolumeId'', [Get, Put, Delete, Patch])]"

definition Stubs_Storage_2a :: "string list" where
  "Stubs_Storage_2a = methods at_root ''StorageStorageIdConsistencyGroupsConsistencyGroupIdVolumesVolumeIdActions''
     [(''VolumeAssignReplicaTarget'', [Post]),
      (''VolumeChangeRAIDLayout'', [Post]),
      (''VolumeCheckConsistency'', [Post]),
      (''VolumeCreateReplicaTarget'', [Post]),
      (''VolumeForceEnable'', [Post]),
      (''VolumeInitialize'', [Post])]"

definition Stubs_Storage_2b :: "string list" where
  "Stubs_Storage_2b = methods at_root ''StorageStorageIdConsistencyGroupsConsistencyGroupIdVolumesVolumeIdActions''
     [(''VolumeRemoveReplicaRelationship'', [Post]),
      (''VolumeResumeReplication'', [Post]),
      (''VolumeReverseReplicationRelationship'', [Post]),
      (''VolumeSplitReplication'', [Post]),
      (''VolumeSuspendReplication'', [Post])]"

definition Stubs_Storage_3a :: "string list" where
  "Stubs_Storage_3a = methods at_root ''StorageStorageIdControllers''
     [('''', [Get]),
      (''ControllerId'', [Get, Put, Patch]),
      (''ControllerIdActionsStorageControllerAttachNamespaces'', [Post]),
      (''ControllerIdActionsStorageControllerDetachNamespaces'', [Post]),
      (''ControllerIdActionsStorageControllerSecurityReceive'', [Post])]"

definition Stubs_Storage_3b :: "string list" where
  "Stubs_Storage_3b = methods at_root ''StorageStorageIdControllers''
     [(''ControllerIdActionsStorageControllerSecuritySend'', [Post]),
      (''ControllerIdEnvironmentMetrics'', [Get, Put, Patch]),
      (''ControllerIdEnvironmentMetricsActionsEnvironmentMetricsResetMetrics'', [Post]),
      (''ControllerIdEnvironmentMetricsActionsEnvironmentMetricsResetToDefaults'', [Post]),
      (''ControllerIdMetrics'', [Get])]"

definition Stubs_Storage_4a :: "string list" where
  "Stubs_Storage_4a = methods at_root ''StorageStorageIdControllersStorageControllerId''
     [(''Assembly'', [Get, Put, Patch]),
      (''Certificates'', [Get, Post]),
      (''CertificatesCertificateId'', [Get, Put, Delete])]"

definition Stubs_Storage_4b :: "string list" where
  "Stubs_Storage_4b = methods at_root ''StorageStorageIdControllersStorageControllerId''
     [(''CertificatesCertificateId'', [Patch]),
      (''CertificatesCertificateIdActionsCertificateRekey'', [Post]),
      (''CertificatesCertificateIdActionsCertificateRenew'', [Post]),
      (''Ports'', [Get]),
      (''PortsPortId'', [Get, Put, Patch])]"

definition Stubs_Storage_4c :: "string list" where
  "Stubs_Storage_4c = methods at_root ''StorageStorageIdControllersStorageControllerId''
     [(''PortsPortIdActionsPortReset'', [Post]),
      (''PortsPortIdActionsPortResetPPB'', [Post]),
      (''PortsPortIdEnvironmentMetrics'', [Get, Put, Patch]),
      (''PortsPortIdEnvironmentMetricsActionsEnvironmentMetricsResetMetrics'', [Post]),
      (''PortsPortIdEnvironmentMetricsActionsEnvironmentMetricsResetToDefaults'', [Post])]"

definition Stubs_Storage_4d :: "string list" where
  "Stubs_Storage_4d = methods at_root ''StorageStorageIdControllersStorageControllerId''
     [(''PortsPortIdMetrics'', [Get])]"

definition Stubs_Storage_5a :: "string list" where
  "Stubs_Storage_5a = methods at_root ''StorageStorageId''
     [(''EndpointGroups'', [Get, Post]),
      (''EndpointGroupsEndpointGroupId'', [Get, Put, Delete, Patch]),
      (''Endpoints'', [Get, Post])]"

definition Stubs_Storage_5b :: "string list" where
  "Stubs_Storage_5b = methods at_root ''StorageStorageId''
     [(''EndpointsEndpointId'', [Get, Put, Delete, Patch]),
      (''FileSystemsFileSystemIdCapacitySourcesCapacitySourceIdProvidingDrives'', [Get]),
      (''FileSystemsFileSystemIdCapacitySourcesCapacitySourceIdProvidingVolumes'', [Get, Post]),
      (''FileSystemsFileSystemIdCapacitySourcesCapacitySourceIdProvidingVolumesVolumeId'', [Get])]"

definition Stubs_Storage_5c :: "string list" where
  "Stubs_Storage_5c = methods at_root ''StorageStorageId''
     [(''FileSystemsFileSystemIdCapacitySourcesCapacitySourceIdProvidingVolumesVolumeId'', [Put, Delete, Patch])]"

definition Stubs_Storage_6a :: "string list" where
  "Stubs_Storage_6a = methods at_root ''StorageStorageIdFileSystemsFileSystemIdCapacitySourcesCapacitySourceIdProvidingVolumesVolumeIdActions''
     [(''VolumeAssignReplicaTarget'', [Post]),
      (''VolumeChangeRAIDLayout'', [Post]),
      (''VolumeCheckConsistency'', [Post]),
      (''VolumeCreateReplicaTarget'', [Post]),
      (''VolumeForceEnable'', [Post]),
      (''VolumeInitialize'', [Post])]"

definition Stubs_Storage_6b :: "string list" where
  "Stubs_Storage_6b = methods at_root ''StorageStorageIdFileSystemsFileSystemIdCapacitySourcesCapacitySourceIdProvidingVolumesVolumeIdActions''
     [(''VolumeRemoveReplicaRelationship'', [Post]),
      (''VolumeResumeReplication'', [Post]),
      (''VolumeReverseReplicationRelationship'', [Post]),
      (''VolumeSplitReplication'', [Post]),
      (''VolumeSuspendReplication'', [Post])]"

definition Stubs_Storage_7a :: "string list" where
  "Stubs_Storage_7a = methods at_root ''StorageStorageIdStorageControllersStorageControllerId''
     [(''Assembly'', [Get, Put, Patch]),
      (''Certificates'', [Get, Post]),
      (''CertificatesCertificateId'', [Get, Put, Delete])]"

definition Stubs_Storage_7b :: "string list" where
  "Stubs_Storage_7b = methods at_root ''StorageStorageIdStorageControllersStorageControllerId''
     [(''CertificatesCertificateId'', [Patch]),
      (''CertificatesCertificateIdActionsCertificateRekey'', [Post]),
      (''CertificatesCertificateIdActionsCertificateRenew'', [Post]),
      (''Ports'', [Get]),
      (''PortsPortId'', [Get, Put, Patch])]"

definition Stubs_Storage_7c :: "string list" where
  "Stubs_Storage_7c = methods at_root ''StorageStorageIdStorageControllersStorageControllerId''
     [(''PortsPortIdActionsPortReset'', [Post]),
      (''PortsPortIdActionsPortResetPPB'', [Post]),
      (''PortsPortIdEnvironmentMetrics'', [Get, Put, Patch]),
      (''PortsPortIdEnvironmentMetricsActionsEnvironmentMetricsResetMetrics'', [Post]),
      (''PortsPortIdEnvironmentMetricsActionsEnvironmentMetricsResetToDefaults'', [Post])]"

definition Stubs_Storage_7d :: "string list" where
  "Stubs_Storage_7d = methods at_root ''StorageStorageIdStorageControllersStorageControllerId''
     [(''PortsPortIdMetrics'', [Get])]"

definition Stubs_Storage_8a :: "string list" where
  "Stubs_Storage_8a = methods at_root ''StorageStorageIdStoragePoolsStoragePoolIdAllocatedVolumes''
     [('''', [Get, Post]),
      (''VolumeId'', [Get, Put, Delete, Patch]),
      (''VolumeIdActionsVolumeAssignReplicaTarget'', [Post])]"

definition Stubs_Storage_8b :: "string list" where
  "Stubs_Storage_8b = methods at_root ''StorageStorageIdStoragePoolsStoragePoolIdAllocatedVolumes''
     [(''VolumeIdActionsVolumeChangeRAIDLayout'', [Post]),
      (''VolumeIdActionsVolumeCheckConsistency'', [Post]),
      (''VolumeIdActionsVolumeCreateReplicaTarget'', [Post]),
      (''VolumeIdActionsVolumeForceEnable'', [Post]),
      (''VolumeIdActionsVolumeInitialize'', [Post]),
      (''VolumeIdActionsVolumeRemoveReplicaRelationship'', [Post])]"

definition Stubs_Storage_8c :: "string list" where
  "Stubs_Storage_8c = methods at_root ''StorageStorageIdStoragePoolsStoragePoolIdAllocatedVolumes''
     [(''VolumeIdActionsVolumeResumeReplication'', [Post]),
      (''VolumeIdActionsVolumeReverseReplicationRelationship'', [Post]),
      (''VolumeIdActionsVolumeSplitReplication'', [Post]),
      (''VolumeIdActionsVolumeSuspendReplication'', [Post])]"

definition Stubs_Storage_9a :: "string list" where
  "Stubs_Storage_9a = methods at_root ''StorageStorageIdStoragePoolsStoragePoolIdCapacitySourcesCapacitySourceId''
     [(''ProvidingDrives'', [Get]),
      (''ProvidingVolumes'', [Get, Post]),
      (''ProvidingVolumesVolumeId'', [Get, Put, Delete, Patch])]"

definition Stubs_Storage_10a :: "string list" where
  "Stubs_Storage_10a = methods at_root ''StorageStorageIdStoragePoolsStoragePoolIdCapacitySourcesCapacitySourceIdProvidingVolumesVolumeIdActions''
     [(''VolumeAssignReplicaTarget'', [Post]),
      (''VolumeChangeRAIDLayout'', [Post]),
      (''VolumeCheckConsistency'', [Post]),
      (''VolumeCreateReplicaTarget'', [Post]),
      (''VolumeForceEnable'', [Post]),
      (''VolumeInitialize'', [Post])]"

definition Stubs_Storage_10b :: "string list" where
  "Stubs_Storage_10b = methods at_root ''StorageStorageIdStoragePoolsStoragePoolIdCapacitySourcesCapacitySourceIdProvidingVolumesVolumeIdActions''
     [(''VolumeRemoveReplicaRelationship'', [Post]),
      (''VolumeResumeReplication'', [Post]),
      (''VolumeReverseReplicationRelationship'', [Post]),
      (''VolumeSplitReplication'', [Post]),
      (''VolumeSuspendReplication'', [Post])]"

definition Stubs_Storage_11a :: "string list" where
  "Stubs_Storage_11a = methods at_root ''StorageStorageIdVolumes''
     [('''', [Get, Post]),
      (''VolumeId'', [Get, Put, Delete, Patch]),
      (''VolumeIdActionsVolumeAssignReplicaTarget'', [Post])]"

definition Stubs_Storage_11b :: "string list" where
  "Stubs_Storage_11b = methods at_root ''StorageStorageIdVolumes''
     [(''VolumeIdActionsVolumeChangeRAIDLayout'', [Post]),
      (''VolumeIdActionsVolumeCheckConsistency'', [Post]),
      (''VolumeIdActionsVolumeCreateReplicaTarget'', [Post]),
      (''VolumeIdActionsVolumeForceEnable'', [Post]),
      (''VolumeIdActionsVolumeInitialize'', [Post]),
      (''VolumeIdActionsVolumeRemoveReplicaRelationship'', [Post])]"

definition Stubs_Storage_11c :: "string list" where
  "Stubs_Storage_11c = methods at_root ''StorageStorageIdVolumes''
     [(''VolumeIdActionsVolumeResumeReplication'', [Post]),
      (''VolumeIdActionsVolumeReverseReplicationRelationship'', [Post]),
      (''VolumeIdActionsVolumeSplitReplication'', [Post]),
      (''VolumeIdActionsVolumeSuspendReplication'', [Post]),
      (''VolumeIdCapacitySourcesCapacitySourceIdProvidingDrives'', [Get])]"

definition Stubs_StorageServices_1a :: "string list" where
  "Stubs_StorageServices_1a = methods at_root ''StorageServicesStorageServiceIdConsistencyGroupsConsistencyGroupIdVolumes''
     [('''', [Get, Post]),
      (''VolumeId'', [Get, Put, Delete, Patch]),
      (''VolumeIdActionsVolumeAssignReplicaTarget'', [Post])]"

definition Stubs_StorageServices_1b :: "string list" where
  "Stubs_StorageServices_1b = methods at_root ''StorageServicesStorageServiceIdConsistencyGroupsConsistencyGroupIdVolumes''
     [(''VolumeIdActionsVolumeChangeRAIDLayout'', [Post]),
      (''VolumeIdActionsVolumeCheckConsistency'', [Post]),
      (''VolumeIdActionsVolumeCreateReplicaTarget'', [Post]),
      (''VolumeIdActionsVolumeForceEnable'', [Post]),
      (''VolumeIdActionsVolumeInitialize'', [Post]),
      (''VolumeIdActionsVolumeRemoveReplicaRelationship'', [Post])]"

definition Stubs_StorageServices_1c :: "string list" where
  "Stubs_StorageServices_1c = methods at_root ''StorageServicesStorageServiceIdConsistencyGroupsConsistencyGroupIdVolumes''
     [(''VolumeIdActionsVolumeResumeReplication'', [Post]),
      (''VolumeIdActionsVolumeReverseReplicationRelationship'', [Post]),
      (''VolumeIdActionsVolumeSplitReplication'', [Post]),
      (''VolumeIdActionsVolumeSuspendReplication'', [Post])]"

definition Stubs_StorageServices_2a :: "string list" where
  "Stubs_StorageServices_2a = methods at_root ''StorageServicesStorageServiceId''
     [(''Drives'', [Get]),
      (''EndpointGroups'', [Get, Post]),
      (''EndpointGroupsEndpointGroupId'', [Get, Put, Delete, Patch]),
      (''Endpoints'', [Get])]"

definition Stubs_StorageServices_2b :: "string list" where
  "Stubs_StorageServices_2b = methods at_root ''StorageServicesStorageServiceId''
     [(''Endpoints'', [Post]),
      (''EndpointsEndpointId'', [Get, Put, Delete, Patch]),
      (''FileSystemsFileSystemIdCapacitySourcesCapacitySourceIdProvidingDrives'', [Get]),
      (''FileSystemsFileSystemIdCapacitySourcesCapacitySourceIdProvidingVolumes'', [Get, Post])]"

definition Stubs_StorageServices_2c :: "string list" where
  "Stubs_StorageServices_2c = methods at_root ''StorageServicesStorageServiceId''
     [(''FileSystemsFileSystemIdCapacitySourcesCapacitySourceIdProvidingVolumesVolumeId'', [Get, Put, Delete, Patch])]"

definition Stubs_StorageServices_3a :: "string list" where
  "Stubs_StorageServices_3a = methods at_root ''StorageServicesStorageServiceIdFileSystemsFileSystemIdCapacitySourcesCapacitySourceIdProvidingVolumesVolumeIdActions''
     [(''VolumeAssignReplicaTarget'', [Post]),
      (''VolumeChangeRAIDLayout'', [Post]),
      (''VolumeCheckConsistency'', [Post]),
      (''VolumeCreateReplicaTarget'', [Post]),
      (''VolumeForceEnable'', [Post]),
      (''VolumeInitialize'', [Post])]"

definition Stubs_StorageServices_3b :: "string list" where
  "Stubs_StorageServices_3b = methods at_root ''StorageServicesStorageServiceIdFileSystemsFileSystemIdCapacitySourcesCapacitySourceIdProvidingVolumesVolumeIdActions''
     [(''VolumeRemoveReplicaRelationship'', [Post]),
      (''VolumeResumeReplication'', [Post]),
      (''VolumeReverseReplicationRelationship'', [Post]),
      (''VolumeSplitReplication'', [Post]),
      (''VolumeSuspendReplication'', [Post])]"

definition Stubs_StorageServices_4a :: "string list" where
  "Stubs_StorageServices_4a = methods at_root ''StorageServicesStorageServiceIdStoragePoolsStoragePoolIdAllocatedVolumes''
     [('''', [Get, Post]),
      (''VolumeId'', [Get, Put, Delete, Patch]),
      (''VolumeIdActionsVolumeAssignReplicaTarget'', [Post])]"

definition Stubs_StorageServices_4b :: "string list" where
  "Stubs_StorageServices_4b = methods at_root ''StorageServicesStorageServiceIdStoragePoolsStoragePoolIdAllocatedVolumes''
     [(''VolumeIdActionsVolumeChangeRAIDLayout'', [Post]),
      (''VolumeIdActionsVolumeCheckConsistency'', [Post]),
      (''VolumeIdActionsVolumeCreateReplicaTarget'', [Post]),
      (''VolumeIdActionsVolumeForceEnable'', [Post]),
      (''VolumeIdActionsVolumeInitialize'', [Post]),
      (''VolumeIdActionsVolumeRemoveReplicaRelationship'', [Post])]"

definition Stubs_StorageServices_4c :: "string list" where
  "Stubs_StorageServices_4c = methods at_root ''StorageServicesStorageServiceIdStoragePoolsStoragePoolIdAllocatedVolumes''
     [(''VolumeIdActionsVolumeResumeReplication'', [Post]),
      (''VolumeIdActionsVolumeReverseReplicationRelationship'', [Post]),
      (''VolumeIdActionsVolumeSplitReplication'', [Post]),
      (''VolumeIdActionsVolumeSuspendReplication'', [Post])]"

definition Stubs_StorageServices_5a :: "string list" where
  "Stubs_StorageServices_5a = methods at_root ''StorageServicesStorageServiceIdStoragePoolsStoragePoolIdCapacitySourcesCapacitySourceId''
     [(''ProvidingDrives'', [Get]),
      (''ProvidingVolumes'', [Get, Post]),
      (''ProvidingVolumesVolumeId'', [Get, Put, Delete, Patch])]"

definition Stubs_StorageServices_6a :: "string list" where
  "Stubs_StorageServices_6a = methods at_root ''StorageServicesStorageServiceIdStoragePoolsStoragePoolIdCapacitySourcesCapacitySourceIdProvidingVolumesVolumeIdActions''
     [(''VolumeAssignReplicaTarget'', [Post]),
      (''VolumeChangeRAIDLayout'', [Post]),
      (''VolumeCheckConsistency'', [Post]),
      (''VolumeCreateReplicaTarget'', [Post]),
      (''VolumeForceEnable'', [Post]),
      (''VolumeInitialize'', [Post])]"

definition Stubs_StorageServices_6b :: "string list" where
  "Stubs_StorageServices_6b = methods at_root ''StorageServicesStorageServiceIdStoragePoolsStoragePoolIdCapacitySourcesCapacitySourceIdProvidingVolumesVolumeIdActions''
     [(''VolumeRemoveReplicaRelationship'', [Post]),
      (''VolumeResumeReplication'', [Post]),
      (''VolumeReverseReplicationRelationship'', [Post]),
      (''VolumeSplitReplication'', [Post]),
      (''VolumeSuspendReplication'', [Post])]"

definition Stubs_StorageServices_7a :: "string list" where
  "Stubs_StorageServices_7a = methods at_root ''StorageServicesStorageServiceIdVolumes''
     [('''', [Get, Post]),
      (''VolumeId'', [Get, Put, Delete, Patch]),
      (''VolumeIdActionsVolumeAssignReplicaTarget'', [Post])]"

definition Stubs_StorageServices_7b :: "string list" where
  "Stubs_StorageServices_7b = methods at_root ''StorageServicesStorageServiceIdVolumes''
     [(''VolumeIdActionsVolumeChangeRAIDLayout'', [Post]),
      (''VolumeIdActionsVolumeCheckConsistency'', [Post]),
      (''VolumeIdActionsVolumeCreateReplicaTarget'', [Post]),
      (''VolumeIdActionsVolumeForceEnable'', [Post]),
      (''VolumeIdActionsVolumeInitialize'', [Post]),
      (''VolumeIdActionsVolumeRemoveReplicaRelationship'', [Post])]"

definition Stubs_StorageServices_7c :: "string list" where
  "Stubs_StorageServices_7c = methods at_root ''StorageServicesStorageServiceIdVolumes''
     [(''VolumeIdActionsVolumeResumeReplication'', [Post]),
      (''VolumeIdActionsVolumeReverseReplicationRelationship'', [Post]),
      (''VolumeIdActionsVolumeSplitReplication'', [Post]),
      (''VolumeIdActionsVolumeSuspendReplication'', [Post]),
      (''VolumeIdCapacitySourcesCapacitySourceIdProvidingDrives'', [Get]),
      (''VolumeIdCapacitySourcesCapacitySourceIdProvidingVolumes'', [Get, Post])]"

definition Stubs_StorageServices_7d :: "string list" where
  "Stubs_StorageServices_7d = methods at_root ''StorageServicesStorageServiceIdVolumes''
     [(''VolumeIdCapacitySourcesCapacitySourceIdProvidingVolumesProvidingVolumeId'', [Get, Put, Delete, Patch])]"

definition Stubs_StorageServices_8a :: "string list" where
  "Stubs_StorageServices_8a = methods at_root ''StorageServicesStorageServiceIdVolumesVolumeIdCapacitySourcesCapacitySourceIdProvidingVolumesProvidingVolumeIdActions''
     [(''VolumeAssignReplicaTarget'', [Post]),
      (''VolumeChangeRAIDLayout'', [Post]),
      (''VolumeCheckConsistency'', [Post]),
      (''VolumeCreateReplicaTarget'', [Post]),
      (''VolumeForceEnable'', [Post]),
      (''VolumeInitialize'', [Post])]"

definition Stubs_StorageServices_8b :: "string list" where
  "Stubs_StorageServices_8b = methods at_root ''StorageServicesStorageServiceIdVolumesVolumeIdCapacitySourcesCapacitySourceIdProvidingVolumesProvidingVolumeIdActions''
     [(''VolumeRemoveReplicaRelationship'', [Post]),
      (''VolumeResumeReplication'', [Post]),
      (''VolumeReverseReplicationRelationship'', [Post]),
      (''VolumeSplitReplication'', [Post]),
      (''VolumeSuspendReplication'', [Post])]"

definition Stubs_ThermalEquipment_1a :: "string list" where
  "Stubs_ThermalEquipment_1a = methods at_root ''ThermalEquipment''
     [('''', [Get]),
      (''CDUs'', [Get])]"

definition Stubs_ThermalEquipment_2a :: "string list" where
  "Stubs_ThermalEquipment_2a = methods at_root ''ThermalEquipmentCDUsCoolingUnitId''
     [('''', [Get, Put, Patch]),
      (''Assembly'', [Get, Put, Patch]),
      (''EnvironmentMetrics'', [Get, Put])]"

definition Stubs_ThermalEquipment_2b :: "string list" where
  "Stubs_ThermalEquipment_2b = methods at_root ''ThermalEquipmentCDUsCoolingUnitId''
     [(''EnvironmentMetrics'', [Patch]),
      (''EnvironmentMetricsActionsEnvironmentMetricsResetMetrics'', [Post]),
      (''EnvironmentMetricsActionsEnvironmentMetricsResetToDefaults'', [Post]),
      (''Filters'', [Get]),
      (''FiltersFilterId'', [Get, Put, Patch]),
      (''FiltersFilterIdAssembly'', [Get])]"

definition Stubs_ThermalEquipment_2c :: "string list" where
  "Stubs_ThermalEquipment_2c = methods at_root ''ThermalEquipmentCDUsCoolingUnitId''
     [(''FiltersFilterIdAssembly'', [Put, Patch]),
      (''LeakDetection'', [Get]),
      (''LeakDetectionLeakDetectors'', [Get]),
      (''LeakDetectionLeakDetectorsLeakDetectorId'', [Get]),
      (''PrimaryCoolantConnectors'', [Get]),
      (''PrimaryCoolantConnectorsCoolantConnectorId'', [Get, Put, Patch])]"

definition Stubs_ThermalEquipment_2d :: "string list" where
  "Stubs_ThermalEquipment_2d = methods at_root ''ThermalEquipmentCDUsCoolingUnitId''
     [(''Pumps'', [Get]),
      (''PumpsPumpId'', [Get, Put, Patch])]"

definition Stubs_ThermalEquipment_3a :: "string list" where
  "Stubs_ThermalEquipment_3a = methods at_root ''ThermalEquipmentCDUsCoolingUnitId''
     [(''PumpsPumpIdAssembly'', [Get, Put, Patch]),
      (''PumpsPumpIdFilters'', [Get]),
      (''PumpsPumpIdFiltersFilterId'', [Get, Put, Patch]),
      (''PumpsPumpIdFiltersFilterIdAssembly'', [Get])]"

definition Stubs_ThermalEquipment_3b :: "string list" where
  "Stubs_ThermalEquipment_3b = methods at_root ''ThermalEquipmentCDUsCoolingUnitId''
     [(''PumpsPumpIdFiltersFilterIdAssembly'', [Put, Patch]),
      (''Reservoirs'', [Get]),
      (''ReservoirsReservoirId'', [Get, Put, Patch]),
      (''ReservoirsReservoirIdAssembly'', [Get, Put])]"

definition Stubs_ThermalEquipment_3c :: "string list" where
  "Stubs_ThermalEquipment_3c = methods at_root ''ThermalEquipmentCDUsCoolingUnitId''
     [(''ReservoirsReservoirIdAssembly'', [Patch]),
      (''ReservoirsReservoirIdFilters'', [Get]),
      (''ReservoirsReservoirIdFiltersFilterId'', [Get, Put, Patch]),
      (''ReservoirsReservoirIdFiltersFilterIdAssembly'', [Get, Put, Patch])]"

definition Stubs_ThermalEquipment_3d :: "string list" where
  "Stubs_ThermalEquipment_3d = methods at_root ''ThermalEquipmentCDUsCoolingUnitId''
     [(''SecondaryCoolantConnectors'', [Get]),
      (''SecondaryCoolantConnectorsCoolantConnectorId'', [Get, Put, Patch])]"

definition Stubs_ThermalEquipment_4a :: "string list" where
  "Stubs_ThermalEquipment_4a = methods at_root ''ThermalEquipment''
     [(''CoolingLoops'', [Get]),
      (''CoolingLoopsCoolingLoopId'', [Get, Put, Patch]),
      (''CoolingLoopsCoolingUnitIdPrimaryCoolantConnectors'', [Get]),
      (''CoolingLoopsCoolingUnitIdPrimaryCoolantConnectorsCoolantConnectorId'', [Get, Put, Patch]),
      (''CoolingLoopsCoolingUnitIdSecondaryCoolantConnectors'', [Get])]"

definition Stubs_ThermalEquipment_4b :: "string list" where
  "Stubs_ThermalEquipment_4b = methods at_root ''ThermalEquipment''
     [(''CoolingLoopsCoolingUnitIdSecondaryCoolantConnectorsCoolantConnectorId'', [Get, Put, Patch]),
      (''HeatExchangers'', [Get])]"

definition Stubs_ThermalEquipment_5a :: "string list" where
  "Stubs_ThermalEquipment_5a = methods at_root ''ThermalEquipmentHeatExchangersCoolingUnitId''
     [('''', [Get, Put, Patch]),
      (''Assembly'', [Get, Put, Patch]),
      (''EnvironmentMetrics'', [Get, Put])]"

definition Stubs_ThermalEquipment_5b :: "string list" where
  "Stubs_ThermalEquipment_5b = methods at_root ''ThermalEquipmentHeatExchangersCoolingUnitId''
     [(''EnvironmentMetrics'', [Patch]),
      (''EnvironmentMetricsActionsEnvironmentMetricsResetMetrics'', [Post]),
      (''EnvironmentMetricsActionsEnvironmentMetricsResetToDefaults'', [Post]),
      (''Filters'', [Get]),
      (''FiltersFilterId'', [Get, Put, Patch]),
      (''FiltersFilterIdAssembly'', [Get])]"

definition Stubs_ThermalEquipment_5c :: "string list" where
  "Stubs_ThermalEquipment_5c = methods at_root ''ThermalEquipmentHeatExchangersCoolingUnitId''
     [(''FiltersFilterIdAssembly'', [Put, Patch]),
      (''LeakDetection'', [Get])]"

definition Stubs_Leaka :: "string list" where
  "Stubs_Leaka = methods at_root ''ThermalEquipmentHeatExchangersCoolingUnitIdLeakDetectionLeakDetectors''
     [('''', [Get])]"

definition Stubs_ThermalEquipment_6a :: "string list" where
  "Stubs_ThermalEquipment_6a = methods at_root ''ThermalEquipmentHeatExchangersCoolingUnitId''
     [(''LeakDetectionLeakDetectorsLeakDetectorId'', [Get]),
      (''PrimaryCoolantConnectors'', [Get]),
      (''PrimaryCoolantConnectorsCoolantConnectorId'', [Get, Put, Patch]),
      (''Pumps'', [Get]),
      (''PumpsPumpId'', [Get, Put, Patch])]"

definition Stubs_ThermalEquipment_6b :: "string list" where
  "Stubs_ThermalEquipment_6b = methods at_root ''ThermalEquipmentHeatExchangersCoolingUnitId''
     [(''PumpsPumpIdAssembly'', [Get, Put, Patch]),
      (''PumpsPumpIdFilters'', [Get]),
      (''PumpsPumpIdFiltersFilterId'', [Get, Put, Patch]),
      (''PumpsPumpIdFiltersFilterIdAssembly'', [Get])]"

definition Stubs_ThermalEquipment_6c :: "string list" where
  "Stubs_ThermalEquipment_6c = methods at_root ''ThermalEquipmentHeatExchangersCoolingUnitId''
     [(''PumpsPumpIdFiltersFilterIdAssembly'', [Put, Patch]),
      (''Reservoirs'', [Get]),
      (''ReservoirsReservoirId'', [Get, Put, Patch]),
      (''ReservoirsReservoirIdAssembly'', [Get, Put])]"

definition Stubs_ThermalEquipment_6d :: "string list" where
  "Stubs_ThermalEquipment_6d = methods at_root ''ThermalEquipmentHeatExchangersCoolingUnitId''
     [(''ReservoirsReservoirIdAssembly'', [Patch]),
      (''ReservoirsReservoirIdFilters'', [Get]),
      (''ReservoirsReservoirIdFiltersFilterId'', [Get, Put, Patch])]"

definition Stubs_ThermalEquipment_7a :: "string list" where
  "Stubs_ThermalEquipment_7a = methods at_root ''ThermalEquipment''
     [(''HeatExchangersCoolingUnitIdReservoirsReservoirIdFiltersFilterIdAssembly'', [Get, Put, Patch]),
      (''HeatExchangersCoolingUnitIdSecondaryCoolantConnectors'', [Get]),
      (''HeatExchangersCoolingUnitIdSecondaryCoolantConnectorsCoolantConnectorId'', [Get, Put, Patch]),
      (''ImmersionUnits'', [Get])]"

definition Stubs_ThermalEquipment_8a :: "string list" where
  "Stubs_ThermalEquipment_8a = methods at_root ''ThermalEquipmentImmersionUnitsCoolingUnitId''
     [('''', [Get, Put, Patch]),
      (''Assembly'', [Get, Put, Patch]),
      (''EnvironmentMetrics'', [Get, Put])]"

definition Stubs_ThermalEquipment_8b :: "string list" where
  "Stubs_ThermalEquipment_8b = methods at_root ''ThermalEquipmentImmersionUnitsCoolingUnitId''
     [(''EnvironmentMetrics'', [Patch]),
      (''EnvironmentMetricsActionsEnvironmentMetricsResetMetrics'', [Post]),
      (''EnvironmentMetricsActionsEnvironmentMetricsResetToDefaults'', [Post]),
      (''Filters'', [Get]),
      (''FiltersFilterId'', [Get, Put, Patch]),
      (''FiltersFilterIdAssembly'', [Get])]"

definition Stubs_ThermalEquipment_8c :: "string list" where
  "Stubs_ThermalEquipment_8c = methods at_root ''ThermalEquipmentImmersionUnitsCoolingUnitId''
     [(''FiltersFilterIdAssembly'', [Put, Patch]),
      (''LeakDetection'', [Get]),
      (''LeakDetectionLeakDetectors'', [Get]),
      (''LeakDetectionLeakDetectorsLeakDetectorId'', [Get]),
      (''PrimaryCoolantConnectors'', [Get]),
      (''PrimaryCoolantConnectorsCoolantConnectorId'', [Get, Put, Patch])]"

definition Stubs_ThermalEquipment_8d :: "string list" where
  "Stubs_ThermalEquipment_8d = methods at_root ''ThermalEquipmentImmersionUnitsCoolingUnitId''
     [(''Pumps'', [Get]),
      (''PumpsPumpId'', [Get, Put, Patch])]"

definition Stubs_ThermalEquipment_9a :: "string list" where
  "Stubs_ThermalEquipment_9a = methods at_root ''ThermalEquipmentImmersionUnitsCoolingUnitId''
     [(''PumpsPumpIdAssembly'', [Get, Put, Patch]),
      (''PumpsPumpIdFilters'', [Get]),
      (''PumpsPumpIdFiltersFilterId'', [Get, Put, Patch]),
      (''PumpsPumpIdFiltersFilterIdAssembly'', [Get])]"

definition Stubs_ThermalEquipment_9b :: "string list" where
  "Stubs_ThermalEquipment_9b = methods at_root ''ThermalEquipmentImmersionUnitsCoolingUnitId''
     [(''PumpsPumpIdFiltersFilterIdAssembly'', [Put, Patch]),
      (''Reservoirs'', [Get]),
      (''ReservoirsReservoirId'', [Get, Put, Patch]),
      (''ReservoirsReservoirIdAssembly'', [Get, Put])]"

definition Stubs_ThermalEquipment_9c :: "string list" where
  "Stubs_ThermalEquipment_9c = methods at_root ''ThermalEquipmentImmersionUnitsCoolingUnitId''
     [(''ReservoirsReservoirIdAssembly'', [Patch]),
      (''ReservoirsReservoirIdFilters'', [Get]),
      (''ReservoirsReservoirIdFiltersFilterId'', [Get, Put, Patch]),
      (''ReservoirsReservoirIdFiltersFilterIdAssembly'', [Get, Put, Patch])]"

definition Stubs_ThermalEquipment_9d :: "string list" where
  "Stubs_ThermalEquipment_9d = methods at_root ''ThermalEquipmentImmersionUnitsCoolingUnitId''
     [(''SecondaryCoolantConnectors'', [Get]),
      (''SecondaryCoolantConnectorsCoolantConnectorId'', [Get, Put, Patch])]"

definition plant_stubs :: "string list" where
  "plant_stubs = concat
     [concat [],
      concat [Stubs_Managers_2a],
      concat [Stubs_Managers_3a, Stubs_Managers_3b, Stubs_Managers_3c, Stubs_Managers_3d, Stubs_Managers_3e],
      concat [Stubs_Managers_4a, Stubs_Managers_4b, Stubs_Managers_4c, Stubs_Managers_4d],
      concat [Stubs_Managers_5a, Stubs_Managers_5b],
      concat [Stubs_Managers_6a, Stubs_Managers_6b, Stubs_Managers_6c],
      concat [Stubs_Managers_7a, Stubs_Managers_7b, Stubs_Managers_7c, Stubs_Managers_7d, Stubs_Managers_7e],
      concat [Stubs_Managers_8a, Stubs_Managers_8b, Stubs_Managers_8c, Stubs_Managers_8d],
      concat [Stubs_Managers_9a, Stubs_Managers_9b, Stubs_Managers_9c],
      concat [Stubs_Managers_10a, Stubs_Managers_10b, Stubs_Managers_10c, Stubs_Managers_10d, Stubs_Managers_10e],
      concat [Stubs_Managers_11a, Stubs_Managers_11b, Stubs_Managers_11c],
      concat [],
      concat [Stubs_Managers_13a],
      concat [],
      concat [],
      concat [Stubs_PowerEquipment_1a],
      concat [Stubs_PowerEquipment_2a, Stubs_PowerEquipment_2b, Stubs_PowerEquipment_2c, Stubs_PowerEquipment_2d,
        Stubs_PowerEquipment_2e],
      concat [Stubs_PowerEquipment_3a, Stubs_PowerEquipment_3b],
      concat [Stubs_PowerEquipment_4a, Stubs_PowerEquipment_4b, Stubs_PowerEquipment_4c, Stubs_PowerEquipment_4d,
        Stubs_PowerEquipment_4e],
      concat [Stubs_PowerEquipment_5a],
      concat [Stubs_PowerEquipment_6a, Stubs_PowerEquipment_6b, Stubs_PowerEquipment_6c, Stubs_PowerEquipment_6d],
      concat [Stubs_PowerEquipment_7a, Stubs_PowerEquipment_7b, Stubs_PowerEquipment_7c],
      concat [Stubs_PowerEquipment_8a, Stubs_PowerEquipment_8b],
      concat [Stubs_PowerEquipment_9a, Stubs_PowerEquipment_9b, Stubs_PowerEquipment_9c, Stubs_PowerEquipment_9d,
        Stubs_PowerEquipment_9e],
      concat [Stubs_PowerEquipment_10a, Stubs_PowerEquipment_10b],
      concat [Stubs_PowerEquipment_11a, Stubs_PowerEquipment_11b, Stubs_PowerEquipment_11c,
        Stubs_PowerEquipment_11d, Stubs_PowerEquipment_11e],
      concat [Stubs_PowerEquipment_12a, Stubs_PowerEquipment_12b, Stubs_PowerEquipment_12c],
      concat [Stubs_PowerEquipment_13a, Stubs_PowerEquipment_13b, Stubs_PowerEquipment_13c,
        Stubs_PowerEquipment_13d, Stubs_PowerEquipment_13e],
      concat [Stubs_Storage_1a, Stubs_Storage_1b],
      concat [Stubs_Storage_2a, Stubs_Storage_2b],
      concat [Stubs_Storage_3a, Stubs_Storage_3b],
      concat [Stubs_Storage_4a, Stubs_Storage_4b, Stubs_Storage_4c, Stubs_Storage_4d],
      concat [Stubs_Storage_5a, Stubs_Storage_5b, Stubs_Storage_5c],
      concat [Stubs_Storage_6a, Stubs_Storage_6b],
      concat [Stubs_Storage_7a, Stubs_Storage_7b, Stubs_Storage_7c, Stubs_Storage_7d],
      concat [Stubs_Storage_8a, Stubs_Storage_8b, Stubs_Storage_8c],
      concat [Stubs_Storage_9a],
      concat [Stubs_Storage_10a, Stubs_Storage_10b],
      concat [Stubs_Storage_11a, Stubs_Storage_11b, Stubs_Storage_11c],
      concat [Stubs_StorageServices_1a, Stubs_StorageServices_1b, Stubs_StorageServices_1c],
      concat [Stubs_StorageServices_2a, Stubs_StorageServices_2b, Stubs_StorageServices_2c],
      concat [Stubs_StorageServices_3a, Stubs_StorageServices_3b],
      concat [Stubs_StorageServices_4a, Stubs_StorageServices_4b, Stubs_StorageServices_4c],
      concat [Stubs_StorageServices_5a],
      concat [Stubs_StorageServices_6a, Stubs_StorageServices_6b],
      concat [Stubs_StorageServices_7a, Stubs_StorageServices_7b, Stubs_StorageServices_7c,
        Stubs_StorageServices_7d],
      concat [Stubs_StorageServices_8a, Stubs_StorageServices_8b],
      concat [Stubs_ThermalEquipment_1a],
      concat [Stubs_ThermalEquipment_2a, Stubs_ThermalEquipment_2b, Stubs_ThermalEquipment_2c,
        Stubs_ThermalEquipment_2d],
      concat [Stubs_ThermalEquipment_3a, Stubs_ThermalEquipment_3b, Stubs_ThermalEquipment_3c,
        Stubs_ThermalEquipment_3d],
      concat [Stubs_ThermalEquipment_4a, Stubs_ThermalEquipment_4b],
      concat [Stubs_ThermalEquipment_5a, Stubs_ThermalEquipment_5b, Stubs_ThermalEquipment_5c],
      concat [Stubs_Leaka],
      concat [Stubs_ThermalEquipment_6a, Stubs_ThermalEquipment_6b, Stubs_ThermalEquipment_6c,
        Stubs_ThermalEquipment_6d],
      concat [Stubs_ThermalEquipment_7a],
      concat [Stubs_ThermalEquipment_8a, Stubs_ThermalEquipment_8b, Stubs_ThermalEquipment_8c,
        Stubs_ThermalEquipment_8d],
      concat [Stubs_ThermalEquipment_9a, Stubs_ThermalEquipment_9b, Stubs_ThermalEquipment_9c,
        Stubs_ThermalEquipment_9d]]"

lemma Managers_1_covered:
  "covered Routes_Managers_1
     (concat [])"
  by (simp add: covered_def methods_def implemented_methods_def under_def path_entries_def entry_def at_root_def
    at_system_def at_manager_def service_root_def system_path_def manager_path_def Routes_Managers_1_def)

lemma Managers_2_covered:
  "covered Routes_Managers_2
     (concat [Stubs_Managers_2a])"
  by (simp add: covered_def methods_def implemented_methods_def under_def path_entries_def entry_def at_root_def
    at_system_def at_manager_def service_root_def system_path_def manager_path_def Routes_Managers_2_def Stubs_Managers_2a_def)

lemma Managers_3_covered:
  "covered Routes_Managers_3
     (concat [Stubs_Managers_3a, Stubs_Managers_3b, Stubs_Managers_3c, Stubs_Managers_3d, Stubs_Managers_3e])"
  unfolding Routes_Managers_3_def Stubs_Managers_3a_def Stubs_Managers_3b_def Stubs_Managers_3c_def
    Stubs_Managers_3d_def Stubs_Managers_3e_def
  by (rule covering)+

lemma Managers_4_covered:
  "covered Routes_Managers_4
     (concat [Stubs_Managers_4a, Stubs_Managers_4b, Stubs_Managers_4c, Stubs_Managers_4d])"
  unfolding Routes_Managers_4_def Stubs_Managers_4a_def Stubs_Managers_4b_def Stubs_Managers_4c_def
    Stubs_Managers_4d_def
  by (rule covering)+

lemma Managers_5_covered:
  "covered Routes_Managers_5
     (concat [Stubs_Managers_5a, Stubs_Managers_5b])"
  unfolding Routes_Managers_5_def Stubs_Managers_5a_def Stubs_Managers_5b_def
  by (rule covering)+

lemma Managers_6_covered:
  "covered Routes_Managers_6
     (concat [Stubs_Managers_6a, Stubs_Managers_6b, Stubs_Managers_6c])"
  unfolding Routes_Managers_6_def Stubs_Managers_6a_def Stubs_Managers_6b_def Stubs_Managers_6c_def
  by (rule covering)+

lemma Managers_7_covered:
  "covered Routes_Managers_7
     (concat [Stubs_Managers_7a, Stubs_Managers_7b, Stubs_Managers_7c, Stubs_Managers_7d, Stubs_Managers_7e])"
  unfolding Routes_Managers_7_def Stubs_Managers_7a_def Stubs_Managers_7b_def Stubs_Managers_7c_def
    Stubs_Managers_7d_def Stubs_Managers_7e_def
  by (rule covering)+

lemma Managers_8_covered:
  "covered Routes_Managers_8
     (concat [Stubs_Managers_8a, Stubs_Managers_8b, Stubs_Managers_8c, Stubs_Managers_8d])"
  unfolding Routes_Managers_8_def Stubs_Managers_8a_def Stubs_Managers_8b_def Stubs_Managers_8c_def
    Stubs_Managers_8d_def
  by (rule covering)+

lemma Managers_9_covered:
  "covered Routes_Managers_9
     (concat [Stubs_Managers_9a, Stubs_Managers_9b, Stubs_Managers_9c])"
  unfolding Routes_Managers_9_def Stubs_Managers_9a_def Stubs_Managers_9b_def Stubs_Managers_9c_def
  by (rule covering)+

lemma Managers_10_covered:
  "covered Routes_Managers_10
     (concat [Stubs_Managers_10a, Stubs_Managers_10b, Stubs_Managers_10c, Stubs_Managers_10d, Stubs_Managers_10e])"
  unfolding Routes_Managers_10_def Stubs_Managers_10a_def Stubs_Managers_10b_def Stubs_Managers_10c_def
    Stubs_Managers_10d_def Stubs_Managers_10e_def
  by (rule covering)+

lemma Managers_11_covered:
  "covered Routes_Managers_11
     (concat [Stubs_Managers_11a, Stubs_Managers_11b, Stubs_Managers_11c])"
  unfolding Routes_Managers_11_def Stubs_Managers_11a_def Stubs_Managers_11b_def Stubs_Managers_11c_def
  by (rule covering)+

lemma Managers_12_covered:
  "covered Routes_Managers_12
     (concat [])"
  by (simp add: covered_def methods_def implemented_methods_def under_def path_entries_def entry_def at_root_def
    at_system_def at_manager_def service_root_def system_path_def manager_path_def Routes_Managers_12_def)

lemma Managers_13_covered:
  "covered Routes_Managers_13
     (concat [Stubs_Managers_13a])"
  by (simp add: covered_def methods_def implemented_methods_def under_def path_entries_def entry_def at_root_def
    at_system_def at_manager_def service_root_def system_path_def manager_path_def Routes_Managers_13_def Stubs_Managers_13a_def)

lemma Managers_14_covered:
  "covered Routes_Managers_14
     (concat [])"
  by (simp add: covered_def methods_def implemented_methods_def under_def path_entries_def entry_def at_root_def
    at_system_def at_manager_def service_root_def system_path_def manager_path_def Routes_Managers_14_def)

lemma Managers_15_covered:
  "covered Routes_Managers_15
     (concat [])"
  by (simp add: covered_def methods_def implemented_methods_def under_def path_entries_def entry_def at_root_def
    at_system_def at_manager_def service_root_def system_path_def manager_path_def Routes_Managers_15_def)

lemma PowerEquipment_1_covered:
  "covered Routes_PowerEquipment_1
     (concat [Stubs_PowerEquipment_1a])"
  unfolding Routes_PowerEquipment_1_def Stubs_PowerEquipment_1a_def
  by (rule covering)+

lemma PowerEquipment_2_covered:
  "covered Routes_PowerEquipment_2
     (concat [Stubs_PowerEquipment_2a, Stubs_PowerEquipment_2b, Stubs_PowerEquipment_2c, Stubs_PowerEquipment_2d,
        Stubs_PowerEquipment_2e])"
  unfolding Routes_PowerEquipment_2_def Stubs_PowerEquipment_2a_def Stubs_PowerEquipment_2b_def
    Stubs_PowerEquipment_2c_def Stubs_PowerEquipment_2d_def Stubs_PowerEquipment_2e_def
  by (rule covering)+

lemma PowerEquipment_3_covered:
  "covered Routes_PowerEquipment_3
     (concat [Stubs_PowerEquipment_3a, Stubs_PowerEquipment_3b])"
  unfolding Routes_PowerEquipment_3_def Stubs_PowerEquipment_3a_def Stubs_PowerEquipment_3b_def
  by (rule covering)+

lemma PowerEquipment_4_covered:
  "covered Routes_PowerEquipment_4
     (concat [Stubs_PowerEquipment_4a, Stubs_PowerEquipment_4b, Stubs_PowerEquipment_4c, Stubs_PowerEquipment_4d,
        Stubs_PowerEquipment_4e])"
  unfolding Routes_PowerEquipment_4_def Stubs_PowerEquipment_4a_def Stubs_PowerEquipment_4b_def
    Stubs_PowerEquipment_4c_def Stubs_PowerEquipment_4d_def Stubs_PowerEquipment_4e_def
  by (rule covering)+

lemma PowerEquipment_5_covered:
  "covered Routes_PowerEquipment_5
     (concat [Stubs_PowerEquipment_5a])"
  unfolding Routes_PowerEquipment_5_def Stubs_PowerEquipment_5a_def
  by (rule covering)+

lemma PowerEquipment_6_covered:
  "covered Routes_PowerEquipment_6
     (concat [Stubs_PowerEquipment_6a, Stubs_PowerEquipment_6b, Stubs_PowerEquipment_6c, Stubs_PowerEquipment_6d])"
  unfolding Routes_PowerEquipment_6_def Stubs_PowerEquipment_6a_def Stubs_PowerEquipment_6b_def
    Stubs_PowerEquipment_6c_def Stubs_PowerEquipment_6d_def
  by (rule covering)+

lemma PowerEquipment_7_covered:
  "covered Routes_PowerEquipment_7
     (concat [Stubs_PowerEquipment_7a, Stubs_PowerEquipment_7b, Stubs_PowerEquipment_7c])"
  unfolding Routes_PowerEquipment_7_def Stubs_PowerEquipment_7a_def Stubs_PowerEquipment_7b_def
    Stubs_PowerEquipment_7c_def
  by (rule covering)+

lemma PowerEquipment_8_covered:
  "covered Routes_PowerEquipment_8
     (concat [Stubs_PowerEquipment_8a, Stubs_PowerEquipment_8b])"
  unfolding Routes_PowerEquipment_8_def Stubs_PowerEquipment_8a_def Stubs_PowerEquipment_8b_def
  by (rule covering)+

lemma PowerEquipment_9_covered:
  "covered Routes_PowerEquipment_9
     (concat [Stubs_PowerEquipment_9a, Stubs_PowerEquipment_9b, Stubs_PowerEquipment_9c, Stubs_PowerEquipment_9d,
        Stubs_PowerEquipment_9e])"
  unfolding Routes_PowerEquipment_9_def Stubs_PowerEquipment_9a_def Stubs_PowerEquipment_9b_def
    Stubs_PowerEquipment_9c_def Stubs_PowerEquipment_9d_def Stubs_PowerEquipment_9e_def
  by (rule covering)+

lemma PowerEquipment_10_covered:
  "covered Routes_PowerEquipment_10
     (concat [Stubs_PowerEquipment_10a, Stubs_PowerEquipment_10b])"
  unfolding Routes_PowerEquipment_10_def Stubs_PowerEquipment_10a_def Stubs_PowerEquipment_10b_def
  by (rule covering)+

lemma PowerEquipment_11_covered:
  "covered Routes_PowerEquipment_11
     (concat [Stubs_PowerEquipment_11a, Stubs_PowerEquipment_11b, Stubs_PowerEquipment_11c,
        Stubs_PowerEquipment_11d, Stubs_PowerEquipment_11e])"
  unfolding Routes_PowerEquipment_11_def Stubs_PowerEquipment_11a_def Stubs_PowerEquipment_11b_def
    Stubs_PowerEquipment_11c_def Stubs_PowerEquipment_11d_def Stubs_PowerEquipment_11e_def
  by (rule covering)+

lemma PowerEquipment_12_covered:
  "covered Routes_PowerEquipment_12
     (concat [Stubs_PowerEquipment_12a, Stubs_PowerEquipment_12b, Stubs_PowerEquipment_12c])"
  unfolding Routes_PowerEquipment_12_def Stubs_PowerEquipment_12a_def Stubs_PowerEquipment_12b_def
    Stubs_PowerEquipment_12c_def
  by (rule covering)+

lemma PowerEquipment_13_covered:
  "covered Routes_PowerEquipment_13
     (concat [Stubs_PowerEquipment_13a, Stubs_PowerEquipment_13b, Stubs_PowerEquipment_13c,
        Stubs_PowerEquipment_13d, Stubs_PowerEquipment_13e])"
  unfolding Routes_PowerEquipment_13_def Stubs_PowerEquipment_13a_def Stubs_PowerEquipment_13b_def
    Stubs_PowerEquipment_13c_def Stubs_PowerEquipment_13d_def Stubs_PowerEquipment_13e_def
  by (rule covering)+

lemma Storage_1_covered:
  "covered Routes_Storage_1
     (concat [Stubs_Storage_1a, Stubs_Storage_1b])"
  unfolding Routes_Storage_1_def Stubs_Storage_1a_def Stubs_Storage_1b_def
  by (rule covering)+

lemma Storage_2_covered:
  "covered Routes_Storage_2
     (concat [Stubs_Storage_2a, Stubs_Storage_2b])"
  unfolding Routes_Storage_2_def Stubs_Storage_2a_def Stubs_Storage_2b_def
  by (rule covering)+

lemma Storage_3_covered:
  "covered Routes_Storage_3
     (concat [Stubs_Storage_3a, Stubs_Storage_3b])"
  unfolding Routes_Storage_3_def Stubs_Storage_3a_def Stubs_Storage_3b_def
  by (rule covering)+

lemma Storage_4_covered:
  "covered Routes_Storage_4
     (concat [Stubs_Storage_4a, Stubs_Storage_4b, Stubs_Storage_4c, Stubs_Storage_4d])"
  unfolding Routes_Storage_4_def Stubs_Storage_4a_def Stubs_Storage_4b_def Stubs_Storage_4c_def
    Stubs_Storage_4d_def
  by (rule covering)+

lemma Storage_5_covered:
  "covered Routes_Storage_5
     (concat [Stubs_Storage_5a, Stubs_Storage_5b, Stubs_Storage_5c])"
  unfolding Routes_Storage_5_def Stubs_Storage_5a_def Stubs_Storage_5b_def Stubs_Storage_5c_def
  by (rule covering)+

lemma Storage_6_covered:
  "covered Routes_Storage_6
     (concat [Stubs_Storage_6a, Stubs_Storage_6b])"
  unfolding Routes_Storage_6_def Stubs_Storage_6a_def Stubs_Storage_6b_def
  by (rule covering)+

lemma Storage_7_covered:
  "covered Routes_Storage_7
     (concat [Stubs_Storage_7a, Stubs_Storage_7b, Stubs_Storage_7c, Stubs_Storage_7d])"
  unfolding Routes_Storage_7_def Stubs_Storage_7a_def Stubs_Storage_7b_def Stubs_Storage_7c_def
    Stubs_Storage_7d_def
  by (rule covering)+

lemma Storage_8_covered:
  "covered Routes_Storage_8
     (concat [Stubs_Storage_8a, Stubs_Storage_8b, Stubs_Storage_8c])"
  unfolding Routes_Storage_8_def Stubs_Storage_8a_def Stubs_Storage_8b_def Stubs_Storage_8c_def
  by (rule covering)+

lemma Storage_9_covered:
  "covered Routes_Storage_9
     (concat [Stubs_Storage_9a])"
  unfolding Routes_Storage_9_def Stubs_Storage_9a_def
  by (rule covering)+

lemma Storage_10_covered:
  "covered Routes_Storage_10
     (concat [Stubs_Storage_10a, Stubs_Storage_10b])"
  unfolding Routes_Storage_10_def Stubs_Storage_10a_def Stubs_Storage_10b_def
  by (rule covering)+

lemma Storage_11_covered:
  "covered Routes_Storage_11
     (concat [Stubs_Storage_11a, Stubs_Storage_11b, Stubs_Storage_11c])"
  unfolding Routes_Storage_11_def Stubs_Storage_11a_def Stubs_Storage_11b_def Stubs_Storage_11c_def
  by (rule covering)+

lemma StorageServices_1_covered:
  "covered Routes_StorageServices_1
     (concat [Stubs_StorageServices_1a, Stubs_StorageServices_1b, Stubs_StorageServices_1c])"
  unfolding Routes_StorageServices_1_def Stubs_StorageServices_1a_def Stubs_StorageServices_1b_def
    Stubs_StorageServices_1c_def
  by (rule covering)+

lemma StorageServices_2_covered:
  "covered Routes_StorageServices_2
     (concat [Stubs_StorageServices_2a, Stubs_StorageServices_2b, Stubs_StorageServices_2c])"
  unfolding Routes_StorageServices_2_def Stubs_StorageServices_2a_def Stubs_StorageServices_2b_def
    Stubs_StorageServices_2c_def
  by (rule covering)+

lemma StorageServices_3_covered:
  "covered Routes_StorageServices_3
     (concat [Stubs_StorageServices_3a, Stubs_StorageServices_3b])"
  unfolding Routes_StorageServices_3_def Stubs_StorageServices_3a_def Stubs_StorageServices_3b_def
  by (rule covering)+

lemma StorageServices_4_covered:
  "covered Routes_StorageServices_4
     (concat [Stubs_StorageServices_4a, Stubs_StorageServices_4b, Stubs_StorageServices_4c])"
  unfolding Routes_StorageServices_4_def Stubs_StorageServices_4a_def Stubs_StorageServices_4b_def
    Stubs_StorageServices_4c_def
  by (rule covering)+

lemma StorageServices_5_covered:
  "covered Routes_StorageServices_5
     (concat [Stubs_StorageServices_5a])"
  unfolding Routes_StorageServices_5_def Stubs_StorageServices_5a_def
  by (rule covering)+

lemma StorageServices_6_covered:
  "covered Routes_StorageServices_6
     (concat [Stubs_StorageServices_6a, Stubs_StorageServices_6b])"
  unfolding Routes_StorageServices_6_def Stubs_StorageServices_6a_def Stubs_StorageServices_6b_def
  by (rule covering)+

lemma StorageServices_7_covered:
  "covered Routes_StorageServices_7
     (concat [Stubs_StorageServices_7a, Stubs_StorageServices_7b, Stubs_StorageServices_7c,
        Stubs_StorageServices_7d])"
  unfolding Routes_StorageServices_7_def Stubs_StorageServices_7a_def Stubs_StorageServices_7b_def
    Stubs_StorageServices_7c_def Stubs_StorageServices_7d_def
  by (rule covering)+

lemma StorageServices_8_covered:
  "covered Routes_StorageServices_8
     (concat [Stubs_StorageServices_8a, Stubs_StorageServices_8b])"
  unfolding Routes_StorageServices_8_def Stubs_StorageServices_8a_def Stubs_StorageServices_8b_def
  by (rule covering)+

lemma ThermalEquipment_1_covered:
  "covered Routes_ThermalEquipment_1
     (concat [Stubs_ThermalEquipment_1a])"
  unfolding Routes_ThermalEquipment_1_def Stubs_ThermalEquipment_1a_def
  by (rule covering)+

lemma ThermalEquipment_2_covered:
  "covered Routes_ThermalEquipment_2
     (concat [Stubs_ThermalEquipment_2a, Stubs_ThermalEquipment_2b, Stubs_ThermalEquipment_2c,
        Stubs_ThermalEquipment_2d])"
  unfolding Routes_ThermalEquipment_2_def Stubs_ThermalEquipment_2a_def Stubs_ThermalEquipment_2b_def
    Stubs_ThermalEquipment_2c_def Stubs_ThermalEquipment_2d_def
  by (rule covering)+

lemma ThermalEquipment_3_covered:
  "covered Routes_ThermalEquipment_3
     (concat [Stubs_ThermalEquipment_3a, Stubs_ThermalEquipment_3b, Stubs_ThermalEquipment_3c,
        Stubs_ThermalEquipment_3d])"
  unfolding Routes_ThermalEquipment_3_def Stubs_ThermalEquipment_3a_def Stubs_ThermalEquipment_3b_def
    Stubs_ThermalEquipment_3c_def Stubs_ThermalEquipment_3d_def
  by (rule covering)+

lemma ThermalEquipment_4_covered:
  "covered Routes_ThermalEquipment_4
     (concat [Stubs_ThermalEquipment_4a, Stubs_ThermalEquipment_4b])"
  unfolding Routes_ThermalEquipment_4_def Stubs_ThermalEquipment_4a_def Stubs_ThermalEquipment_4b_def
  by (rule covering)+

lemma ThermalEquipment_5_covered:
  "covered Routes_ThermalEquipment_5
     (concat [Stubs_ThermalEquipment_5a, Stubs_ThermalEquipment_5b, Stubs_ThermalEquipment_5c])"
  unfolding Routes_ThermalEquipment_5_def Stubs_ThermalEquipment_5a_def Stubs_ThermalEquipment_5b_def
    Stubs_ThermalEquipment_5c_def
  by (rule covering)+

lemma Leak_covered:
  "covered [leak_detectors_slash]
     (concat [Stubs_Leaka])"
  by (simp add: covered_def methods_def at_root_def leak_detectors_slash_def Stubs_Leaka_def)

lemma ThermalEquipment_6_covered:
  "covered Routes_ThermalEquipment_6
     (concat [Stubs_ThermalEquipment_6a, Stubs_ThermalEquipment_6b, Stubs_ThermalEquipment_6c,
        Stubs_ThermalEquipment_6d])"
  unfolding Routes_ThermalEquipment_6_def Stubs_ThermalEquipment_6a_def Stubs_ThermalEquipment_6b_def
    Stubs_ThermalEquipment_6c_def Stubs_ThermalEquipment_6d_def
  by (rule covering)+

lemma ThermalEquipment_7_covered:
  "covered Routes_ThermalEquipment_7
     (concat [Stubs_ThermalEquipment_7a])"
  unfolding Routes_ThermalEquipment_7_def Stubs_ThermalEquipment_7a_def
  by (rule covering)+

lemma ThermalEquipment_8_covered:
  "covered Routes_ThermalEquipment_8
     (concat [Stubs_ThermalEquipment_8a, Stubs_ThermalEquipment_8b, Stubs_ThermalEquipment_8c,
        Stubs_ThermalEquipment_8d])"
  unfolding Routes_ThermalEquipment_8_def Stubs_ThermalEquipment_8a_def Stubs_ThermalEquipment_8b_def
    Stubs_ThermalEquipment_8c_def Stubs_ThermalEquipment_8d_def
  by (rule covering)+

lemma ThermalEquipment_9_covered:
  "covered Routes_ThermalEquipment_9
     (concat [Stubs_ThermalEquipment_9a, Stubs_ThermalEquipment_9b, Stubs_ThermalEquipment_9c,
        Stubs_ThermalEquipment_9d])"
  unfolding Routes_ThermalEquipment_9_def Stubs_ThermalEquipment_9a_def Stubs_ThermalEquipment_9b_def
    Stubs_ThermalEquipment_9c_def Stubs_ThermalEquipment_9d_def
  by (rule covering)+

lemma plant_covered: "covered plant_routes plant_stubs"
  unfolding plant_routes_def plant_stubs_def
  by (intro covered_concat
    Managers_1_covered Managers_2_covered Managers_3_covered Managers_4_covered Managers_5_covered
    Managers_6_covered Managers_7_covered Managers_8_covered Managers_9_covered Managers_10_covered
    Managers_11_covered Managers_12_covered Managers_13_covered Managers_14_covered Managers_15_covered
    PowerEquipment_1_covered PowerEquipment_2_covered PowerEquipment_3_covered PowerEquipment_4_covered
    PowerEquipment_5_covered PowerEquipment_6_covered PowerEquipment_7_covered PowerEquipment_8_covered
    PowerEquipment_9_covered PowerEquipment_10_covered PowerEquipment_11_covered
    PowerEquipment_12_covered PowerEquipment_13_covered Storage_1_covered Storage_2_covered
    Storage_3_covered Storage_4_covered Storage_5_covered Storage_6_covered Storage_7_covered
    Storage_8_covered Storage_9_covered Storage_10_covered Storage_11_covered StorageServices_1_covered
    StorageServices_2_covered StorageServices_3_covered StorageServices_4_covered
    StorageServices_5_covered StorageServices_6_covered StorageServices_7_covered
    StorageServices_8_covered ThermalEquipment_1_covered ThermalEquipment_2_covered
    ThermalEquipment_3_covered ThermalEquipment_4_covered ThermalEquipment_5_covered Leak_covered
    ThermalEquipment_6_covered ThermalEquipment_7_covered ThermalEquipment_8_covered
    ThermalEquipment_9_covered)

end
