(* ===== verification/StubsServices.thy ===== *)
theory StubsServices
  imports RoutesServices ServiceMethods
begin

text \<open>
  The methods of the service (pkg/redfish/api_service.go) for the remaining services that do nothing but
  answer 501 Not Implemented with their name, group by group of their routes.
\<close>

definition Stubs_Metadata_1a :: "string list" where
  "Stubs_Metadata_1a = methods at_root ''Metadata''
     [('''', [Get])]"

definition Stubs_AccountService_1a :: "string list" where
  "Stubs_AccountService_1a = methods at_root ''AccountService''
     [('''', [Get, Put, Patch]),
      (''Accounts'', [Get, Post]),
      (''AccountsManagerAccountId'', [Get, Put, Delete])]"

definition Stubs_AccountService_1b :: "string list" where
  "Stubs_AccountService_1b = methods at_root ''AccountService''
     [(''AccountsManagerAccountId'', [Patch]),
      (''AccountsManagerAccountIdActionsManagerAccountChangePassword'', [Post]),
      (''AccountsManagerAccountIdCertificates'', [Get, Post]),
      (''AccountsManagerAccountIdCertificatesCertificateId'', [Get, Put, Delete, Patch])]"

definition Stubs_AccountService_1c :: "string list" where
  "Stubs_AccountService_1c = methods at_root ''AccountService''
     [(''AccountsManagerAccountIdCertificatesCertificateIdActionsCertificateRekey'', [Post]),
      (''AccountsManagerAccountIdCertificatesCertificateIdActionsCertificateRenew'', [Post]),
      (''AccountsManagerAccountIdKeys'', [Get, Post]),
      (''AccountsManagerAccountIdKeysKeyId'', [Get, Put, Delete])]"

definition Stubs_AccountService_1d :: "string list" where
  "Stubs_AccountService_1d = methods at_root ''AccountService''
     [(''AccountsManagerAccountIdKeysKeyId'', [Patch]),
      (''ActiveDirectoryCertificates'', [Get, Post])]"

definition Stubs_AccountService_2a :: "string list" where
  "Stubs_AccountService_2a = methods at_root ''AccountServiceActiveDirectoryCertificatesCertificateId''
     [('''', [Get, Put, Delete, Patch]),
      (''ActionsCertificateRekey'', [Post]),
      (''ActionsCertificateRenew'', [Post])]"

definition Stubs_AccountService_3a :: "string list" where
  "Stubs_AccountService_3a = methods at_root ''AccountServiceExternalAccountProviders''
     [('''', [Get, Post]),
      (''ExternalAccountProviderId'', [Get, Put, Delete, Patch]),
      (''ExternalAccountProviderIdCertificates'', [Get, Post])]"

definition Stubs_AccountService_3b :: "string list" where
  "Stubs_AccountService_3b = methods at_root ''AccountServiceExternalAccountProviders''
     [(''ExternalAccountProviderIdCertificatesCertificateId'', [Get, Put, Delete, Patch]),
      (''ExternalAccountProviderIdCertificatesCertificateIdActionsCertificateRekey'', [Post]),
      (''ExternalAccountProviderIdCertificatesCertificateIdActionsCertificateRenew'', [Post])]"

definition Stubs_AccountService_4a :: "string list" where
  "Stubs_AccountService_4a = methods at_root ''AccountService''
     [(''LDAPCertificates'', [Get, Post]),
      (''LDAPCertificatesCertificateId'', [Get, Put, Delete, Patch]),
      (''LDAPCertificatesCertificateIdActionsCertificateRekey'', [Post])]"

definition Stubs_AccountService_4b :: "string list" where
  "Stubs_AccountService_4b = methods at_root ''AccountService''
     [(''LDAPCertificatesCertificateIdActionsCertificateRenew'', [Post]),
      (''MultiFactorAuthClientCertificateCertificates'', [Get, Post]),
      (''MultiFactorAuthClientCertificateCertificatesCertificateId'', [Get, Put, Delete, Patch])]"

definition Stubs_AccountService_4c :: "string list" where
  "Stubs_AccountService_4c = methods at_root ''AccountService''
     [(''MultiFactorAuthClientCertificateCertificatesCertificateIdActionsCertificateRekey'', [Post]),
      (''MultiFactorAuthClientCertificateCertificatesCertificateIdActionsCertificateRenew'', [Post]),
      (''MultiFactorAuthSecurIDCertificates'', [Get, Post]),
      (''MultiFactorAuthSecurIDCertificatesCertificateId'', [Get, Put, Delete])]"

definition Stubs_AccountService_4d :: "string list" where
  "Stubs_AccountService_4d = methods at_root ''AccountService''
     [(''MultiFactorAuthSecurIDCertificatesCertificateId'', [Patch]),
      (''MultiFactorAuthSecurIDCertificatesCertificateIdActionsCertificateRekey'', [Post]),
      (''MultiFactorAuthSecurIDCertificatesCertificateIdActionsCertificateRenew'', [Post]),
      (''OutboundConnections'', [Get, Post])]"

definition Stubs_AccountService_5a :: "string list" where
  "Stubs_AccountService_5a = methods at_root ''AccountServiceOutboundConnectionsOutboundConnectionId''
     [('''', [Get, Put, Delete, Patch]),
      (''Certificates'', [Get, Post]),
      (''CertificatesCertificateId'', [Get, Put])]"

definition Stubs_AccountService_5b :: "string list" where
  "Stubs_AccountService_5b = methods at_root ''AccountServiceOutboundConnectionsOutboundConnectionId''
     [(''CertificatesCertificateId'', [Delete, Patch]),
      (''CertificatesCertificateIdActionsCertificateRekey'', [Post]),
      (''CertificatesCertificateIdActionsCertificateRenew'', [Post]),
      (''ClientCertificates'', [Get, Post]),
      (''ClientCertificatesCertificateId'', [Get])]"

definition Stubs_AccountService_5c :: "string list" where
  "Stubs_AccountService_5c = methods at_root ''AccountServiceOutboundConnectionsOutboundConnectionId''
     [(''ClientCertificatesCertificateId'', [Put, Delete, Patch]),
      (''ClientCertificatesCertificateIdActionsCertificateRekey'', [Post]),
      (''ClientCertificatesCertificateIdActionsCertificateRenew'', [Post])]"

definition Stubs_AccountService_6a :: "string list" where
  "Stubs_AccountService_6a = methods at_root ''AccountServiceRoles''
     [('''', [Get, Post]),
      (''RoleId'', [Get, Put, Delete, Patch])]"

definition Stubs_AggregationService_1a :: "string list" where
  "Stubs_AggregationService_1a = methods at_root ''AggregationService''
     [('''', [Get, Put, Patch]),
      (''ActionsAggregationServiceReset'', [Post]),
      (''ActionsAggregationServiceSetDefaultBootOrder'', [Post]),
      (''Aggregates'', [Get, Post]),
      (''AggregatesAggregateId'', [Get])]"

definition Stubs_AggregationService_1b :: "string list" where
  "Stubs_AggregationService_1b = methods at_root ''AggregationService''
     [(''AggregatesAggregateId'', [Delete]),
      (''AggregatesAggregateIdActionsAggregateAddElements'', [Post]),
      (''AggregatesAggregateIdActionsAggregateRemoveElements'', [Post]),
      (''AggregatesAggregateIdActionsAggregateReset'', [Post]),
      (''AggregatesAggregateIdActionsAggregateSetDefaultBootOrder'', [Post]),
      (''AggregationSources'', [Get, Post])]"

definition Stubs_AggregationService_2a :: "string list" where
  "Stubs_AggregationService_2a = methods at_root ''AggregationServiceAggregationSourcesAggregationSourceId''
     [('''', [Get, Put, Delete, Patch]),
      (''ActionsAggregationSourceGenerateSSHIdentityKeyPair'', [Post]),
      (''ActionsAggregationSourceRemoveSSHIdentityKeyPair'', [Post]),
      (''PresentedPublicHostKey'', [Get])]"

definition Stubs_AggregationService_2b :: "string list" where
  "Stubs_AggregationService_2b = methods at_root ''AggregationServiceAggregationSourcesAggregationSourceId''
     [(''PresentedPublicHostKey'', [Put, Delete, Patch]),
      (''PublicIdentityKey'', [Get, Put, Delete, Patch]),
      (''TrustedPublicHostKeys'', [Get])]"

definition Stubs_AggregationService_2c :: "string list" where
  "Stubs_AggregationService_2c = methods at_root ''AggregationServiceAggregationSourcesAggregationSourceId''
     [(''TrustedPublicHostKeys'', [Post]),
      (''TrustedPublicHostKeysKeyId'', [Get, Put, Delete, Patch])]"

definition Stubs_AggregationService_3a :: "string list" where
  "Stubs_AggregationService_3a = methods at_root ''AggregationServiceConnectionMethods''
     [('''', [Get, Post]),
      (''ConnectionMethodId'', [Get])]"

definition Stubs_Cables_1a :: "string list" where
  "Stubs_Cables_1a = methods at_root ''Cables''
     [('''', [Get, Post]),
      (''CableId'', [Get, Put, Delete, Patch])]"

definition Stubs_CertificateService_1a :: "string list" where
  "Stubs_CertificateService_1a = methods at_root ''CertificateService''
     [('''', [Get]),
      (''ActionsCertificateServiceGenerateCSR'', [Post]),
      (''ActionsCertificateServiceReplaceCertificate'', [Post]),
      (''CertificateLocations'', [Get])]"

definition Stubs_ComponentIntegrity_1a :: "string list" where
  "Stubs_ComponentIntegrity_1a = methods at_root ''ComponentIntegrity''
     [('''', [Get]),
      (''ComponentIntegrityId'', [Get, Put, Patch]),
      (''ComponentIntegrityIdActionsComponentIntegritySPDMGetSignedMeasurements'', [Post]),
      (''ComponentIntegrityIdActionsComponentIntegrityTPMGetSignedMeasurements'', [Post])]"

definition Stubs_EventService_1a :: "string list" where
  "Stubs_EventService_1a = methods at_root ''EventService''
     [('''', [Get, Put, Patch]),
      (''ActionsEventServiceSubmitTestEvent'', [Post]),
      (''ActionsEventServiceTestEventSubscription'', [Post]),
      (''Subscriptions'', [Get, Post])]"

definition Stubs_EventService_2a :: "string list" where
  "Stubs_EventService_2a = methods at_root ''EventServiceSubscriptionsEventDestinationId''
     [('''', [Get, Put, Delete, Patch]),
      (''ActionsEventDestinationResumeSubscription'', [Post]),
      (''ActionsEventDestinationSuspendSubscription'', [Post]),
      (''Certificates'', [Get])]"

definition Stubs_EventService_2b :: "string list" where
  "Stubs_EventService_2b = methods at_root ''EventServiceSubscriptionsEventDestinationId''
     [(''Certificates'', [Post]),
      (''CertificatesCertificateId'', [Get, Put, Delete, Patch]),
      (''CertificatesCertificateIdActionsCertificateRekey'', [Post]),
      (''CertificatesCertificateIdActionsCertificateRenew'', [Post])]"

definition Stubs_EventService_2c :: "string list" where
  "Stubs_EventService_2c = methods at_root ''EventServiceSubscriptionsEventDestinationId''
     [(''ClientCertificates'', [Get, Post]),
      (''ClientCertificatesCertificateId'', [Get, Put, Delete, Patch]),
      (''ClientCertificatesCertificateIdActionsCertificateRekey'', [Post])]"

definition Stubs_EventService_2d :: "string list" where
  "Stubs_EventService_2d = methods at_root ''EventServiceSubscriptionsEventDestinationId''
     [(''ClientCertificatesCertificateIdActionsCertificateRenew'', [Post])]"

definition Stubs_Fabrics_1a :: "string list" where
  "Stubs_Fabrics_1a = methods at_root ''Fabrics''
     [('''', [Get]),
      (''FabricId'', [Get, Put, Patch]),
      (''FabricIdAddressPools'', [Get, Post]),
      (''FabricIdAddressPoolsAddressPoolId'', [Get, Put])]"

definition Stubs_Fabrics_1b :: "string list" where
  "Stubs_Fabrics_1b = methods at_root ''Fabrics''
     [(''FabricIdAddressPoolsAddressPoolId'', [Delete, Patch]),
      (''FabricIdConnections'', [Get, Post]),
      (''FabricIdConnectionsConnectionId'', [Get, Put, Delete, Patch])]"

definition Stubs_Fabrics_1c :: "string list" where
  "Stubs_Fabrics_1c = methods at_root ''Fabrics''
     [(''FabricIdEndpointGroups'', [Get, Post]),
      (''FabricIdEndpointGroupsEndpointGroupId'', [Get, Put, Delete, Patch]),
      (''FabricIdEndpoints'', [Get, Post])]"

definition Stubs_Fabrics_1d :: "string list" where
  "Stubs_Fabrics_1d = methods at_root ''Fabrics''
     [(''FabricIdEndpointsEndpointId'', [Get, Put, Delete, Patch]),
      (''FabricIdSwitches'', [Get])]"

definition Stubs_Fabrics_2a :: "string list" where
  "Stubs_Fabrics_2a = methods at_root ''FabricsFabricIdSwitchesSwitchId''
     [('''', [Get, Put, Patch]),
      (''ActionsSwitchReset'', [Post]),
      (''Certificates'', [Get, Post]),
      (''CertificatesCertificateId'', [Get, Put])]"

definition Stubs_Fabrics_2b :: "string list" where
  "Stubs_Fabrics_2b = methods at_root ''FabricsFabricIdSwitchesSwitchId''
     [(''CertificatesCertificateId'', [Delete, Patch]),
      (''CertificatesCertificateIdActionsCertificateRekey'', [Post]),
      (''CertificatesCertificateIdActionsCertificateRenew'', [Post]),
      (''EnvironmentMetrics'', [Get, Put, Patch])]"

definition Stubs_Fabrics_2c :: "string list" where
  "Stubs_Fabrics_2c = methods at_root ''FabricsFabricIdSwitchesSwitchId''
     [(''EnvironmentMetricsActionsEnvironmentMetricsResetMetrics'', [Post]),
      (''EnvironmentMetricsActionsEnvironmentMetricsResetToDefaults'', [Post]),
      (''Ports'', [Get])]"

definition Stubs_Fabrics_3a :: "string list" where
  "Stubs_Fabrics_3a = methods at_root ''FabricsFabricIdSwitchesSwitchIdPortsPortId''
     [('''', [Get, Put, Patch]),
      (''ActionsPortReset'', [Post]),
      (''ActionsPortResetPPB'', [Post]),
      (''EnvironmentMetrics'', [Get, Put])]"

definition Stubs_Fabrics_3b :: "string list" where
  "Stubs_Fabrics_3b = methods at_root ''FabricsFabricIdSwitchesSwitchIdPortsPortId''
     [(''EnvironmentMetrics'', [Patch]),
      (''EnvironmentMetricsActionsEnvironmentMetricsResetMetrics'', [Post]),
      (''EnvironmentMetricsActionsEnvironmentMetricsResetToDefaults'', [Post]),
      (''GenZLPRT'', [Get, Post]),
      (''GenZLPRTLPRTId'', [Get, Put])]"

definition Stubs_Fabrics_3c :: "string list" where
  "Stubs_Fabrics_3c = methods at_root ''FabricsFabricIdSwitchesSwitchIdPortsPortId''
     [(''GenZLPRTLPRTId'', [Delete, Patch]),
      (''GenZMPRT'', [Get, Post]),
      (''GenZMPRTMPRTId'', [Get, Put, Delete, Patch])]"

definition Stubs_Fabrics_3d :: "string list" where
  "Stubs_Fabrics_3d = methods at_root ''FabricsFabricIdSwitchesSwitchIdPortsPortId''
     [(''GenZVCAT'', [Get, Post]),
      (''GenZVCATVCATEntryId'', [Get, Put, Delete, Patch]),
      (''LPRT'', [Get, Post])]"

definition Stubs_Fabrics_4a :: "string list" where
  "Stubs_Fabrics_4a = methods at_root ''FabricsFabricIdSwitchesSwitchIdPortsPortId''
     [(''LPRTLPRTId'', [Get, Put, Delete, Patch]),
      (''LPRTLPRTIdRouteSet'', [Get, Post]),
      (''LPRTLPRTIdRouteSetRouteId'', [Get, Put])]"

definition Stubs_Fabrics_4b :: "string list" where
  "Stubs_Fabrics_4b = methods at_root ''FabricsFabricIdSwitchesSwitchIdPortsPortId''
     [(''LPRTLPRTIdRouteSetRouteId'', [Delete, Patch]),
      (''MPRT'', [Get, Post]),
      (''MPRTMPRTId'', [Get, Put, Delete])]"

definition Stubs_Fabrics_4c :: "string list" where
  "Stubs_Fabrics_4c = methods at_root ''FabricsFabricIdSwitchesSwitchIdPortsPortId''
     [(''MPRTMPRTId'', [Patch]),
      (''MPRTMPRTIdRouteSet'', [Get, Post]),
      (''MPRTMPRTIdRouteSetRouteId'', [Get, Put, Delete, Patch]),
      (''Metrics'', [Get])]"

definition Stubs_Fabrics_4d :: "string list" where
  "Stubs_Fabrics_4d = methods at_root ''FabricsFabricIdSwitchesSwitchIdPortsPortId''
     [(''VCAT'', [Get, Post]),
      (''VCATVCATEntryId'', [Get, Put, Delete, Patch])]"

definition Stubs_Fabrics_5a :: "string list" where
  "Stubs_Fabrics_5a = methods at_root ''FabricsFabricId''
     [(''SwitchesSwitchIdSwitchMetrics'', [Get]),
      (''SwitchesSwitchIdSwitchMetricsActionsSwitchMetricsClearCurrentPeriod'', [Post]),
      (''Zones'', [Get, Post]),
      (''ZonesZoneId'', [Get, Put, Delete, Patch])]"

definition Stubs_Fabrics_5b :: "string list" where
  "Stubs_Fabrics_5b = methods at_root ''FabricsFabricId''
     [(''ZonesZoneIdActionsZoneAddEndpoint'', [Post]),
      (''ZonesZoneIdActionsZoneRemoveEndpoint'', [Post])]"

definition Stubs_Facilities_1a :: "string list" where
  "Stubs_Facilities_1a = methods at_root ''Facilities''
     [('''', [Get, Post]),
      (''FacilityId'', [Get, Put, Delete, Patch]),
      (''FacilityIdAmbientMetrics'', [Get, Put])]"

definition Stubs_Facilities_1b :: "string list" where
  "Stubs_Facilities_1b = methods at_root ''Facilities''
     [(''FacilityIdAmbientMetrics'', [Patch]),
      (''FacilityIdAmbientMetricsActionsEnvironmentMetricsResetMetrics'', [Post]),
      (''FacilityIdAmbientMetricsActionsEnvironmentMetricsResetToDefaults'', [Post]),
      (''FacilityIdEnvironmentMetrics'', [Get, Put, Patch]),
      (''FacilityIdEnvironmentMetricsActionsEnvironmentMetricsResetMetrics'', [Post])]"

definition Stubs_Facilities_1c :: "string list" where
  "Stubs_Facilities_1c = methods at_root ''Facilities''
     [(''FacilityIdEnvironmentMetricsActionsEnvironmentMetricsResetToDefaults'', [Post]),
      (''FacilityIdPowerDomains'', [Get, Post]),
      (''FacilityIdPowerDomainsPowerDomainId'', [Get, Put, Delete, Patch])]"

definition Stubs_JobService_1a :: "string list" where
  "Stubs_JobService_1a = methods at_root ''JobService''
     [('''', [Get, Put, Patch]),
      (''Jobs'', [Get, Post]),
      (''JobsJobId'', [Get, Put, Delete])]"

definition Stubs_JobService_1b :: "string list" where
  "Stubs_JobService_1b = methods at_root ''JobService''
     [(''JobsJobId'', [Patch]),
      (''JobsJobIdSteps'', [Get, Post]),
      (''JobsJobIdStepsJobId2'', [Get, Put, Delete, Patch]),
      (''Log'', [Get])]"

definition Stubs_JobService_1c :: "string list" where
  "Stubs_JobService_1c = methods at_root ''JobService''
     [(''Log'', [Put, Patch]),
      (''LogActionsLogServiceClearLog'', [Post]),
      (''LogActionsLogServiceCollectDiagnosticData'', [Post]),
      (''LogActionsLogServicePushDiagnosticData'', [Post]),
      (''LogEntries'', [Get, Post])]"

definition Stubs_JobService_1d :: "string list" where
  "Stubs_JobService_1d = methods at_root ''JobService''
     [(''LogEntriesLogEntryId'', [Get, Put, Delete, Patch])]"

definition Stubs_JsonSchemas_1a :: "string list" where
  "Stubs_JsonSchemas_1a = methods at_root ''JsonSchemas''
     [('''', [Get]),
      (''JsonSchemaFileId'', [Get])]"

definition Stubs_KeyService_1a :: "string list" where
  "Stubs_KeyService_1a = methods at_root ''KeyService''
     [('''', [Get]),
      (''NVMeoFKeyPolicies'', [Get, Post]),
      (''NVMeoFKeyPoliciesKeyPolicyId'', [Get, Put, Delete, Patch]),
      (''NVMeoFSecrets'', [Get])]"

definition Stubs_KeyService_1b :: "string list" where
  "Stubs_KeyService_1b = methods at_root ''KeyService''
     [(''NVMeoFSecrets'', [Post]),
      (''NVMeoFSecretsKeyId'', [Get, Put, Delete, Patch])]"

definition Stubs_LicenseService_1a :: "string list" where
  "Stubs_LicenseService_1a = methods at_root ''LicenseService''
     [('''', [Get, Put, Patch]),
      (''ActionsLicenseServiceInstall'', [Post]),
      (''Licenses'', [Get, Post]),
      (''LicensesLicenseId'', [Get, Delete])]"

definition Stubs_RegisteredClients_1a :: "string list" where
  "Stubs_RegisteredClients_1a = methods at_root ''RegisteredClients''
     [('''', [Get, Post]),
      (''RegisteredClientId'', [Get, Put, Delete, Patch])]"

definition Stubs_Registries_1a :: "string list" where
  "Stubs_Registries_1a = methods at_root ''Registries''
     [('''', [Get]),
      (''MessageRegistryFileId'', [Get])]"

definition Stubs_ServiceConditions_1a :: "string list" where
  "Stubs_ServiceConditions_1a = methods at_root ''ServiceConditions''
     [('''', [Get])]"

definition Stubs_SessionService_1a :: "string list" where
  "Stubs_SessionService_1a = methods at_root ''SessionService''
     [('''', [Get, Put, Patch])]"

definition Stubs_SessionService_2a :: "string list" where
  "Stubs_SessionService_2a = methods at_root ''SessionServiceSessions''
     [('''', [Get])]"

definition Stubs_TaskService_1a :: "string list" where
  "Stubs_TaskService_1a = methods at_root ''TaskService''
     [('''', [Get, Put, Patch]),
      (''Tasks'', [Get]),
      (''TasksTaskId'', [Get, Delete]),
      (''TasksTaskIdSubTasks'', [Get]),
      (''TasksTaskIdSubTasksTaskId2'', [Get, Delete])]"

definition Stubs_TelemetryService_1a :: "string list" where
  "Stubs_TelemetryService_1a = methods at_root ''TelemetryService''
     [('''', [Get, Put, Patch]),
      (''ActionsTelemetryServiceClearMetricReports'', [Post]),
      (''ActionsTelemetryServiceResetMetricReportDefinitionsToDefaults'', [Post]),
      (''ActionsTelemetryServiceResetTriggersToDefaults'', [Post]),
      (''ActionsTelemetryServiceSubmitTestMetricReport'', [Post])]"

definition Stubs_TelemetryService_1b :: "string list" where
  "Stubs_TelemetryService_1b = methods at_root ''TelemetryService''
     [(''LogService'', [Get, Put, Patch]),
      (''LogServiceActionsLogServiceClearLog'', [Post]),
      (''LogServiceActionsLogServiceCollectDiagnosticData'', [Post]),
      (''LogServiceActionsLogServicePushDiagnosticData'', [Post]),
      (''LogServiceEntries'', [Get])]"

definition Stubs_TelemetryService_1c :: "string list" where
  "Stubs_TelemetryService_1c = methods at_root ''TelemetryService''
     [(''LogServiceEntries'', [Post]),
      (''LogServiceEntriesLogEntryId'', [Get, Put, Delete, Patch]),
      (''MetricDefinitions'', [Get, Post]),
      (''MetricDefinitionsMetricDefinitionId'', [Get])]"

definition Stubs_TelemetryService_1d :: "string list" where
  "Stubs_TelemetryService_1d = methods at_root ''TelemetryService''
     [(''MetricDefinitionsMetricDefinitionId'', [Put, Delete, Patch]),
      (''MetricReportDefinitions'', [Get, Post])]"

definition Stubs_TelemetryService_2a :: "string list" where
  "Stubs_TelemetryService_2a = methods at_root ''TelemetryService''
     [(''MetricReportDefinitionsMetricReportDefinitionId'', [Get, Put, Delete, Patch]),
      (''MetricReports'', [Get]),
      (''MetricReportsMetricReportId'', [Get, Delete]),
      (''Triggers'', [Get])]"

definition Stubs_TelemetryService_2b :: "string list" where
  "Stubs_TelemetryService_2b = methods at_root ''TelemetryService''
     [(''Triggers'', [Post]),
      (''TriggersTriggersId'', [Get, Put, Delete, Patch])]"

definition Stubs_UpdateService_1a :: "string list" where
  "Stubs_UpdateService_1a = methods at_root ''UpdateService''
     [('''', [Get, Put, Patch]),
      (''ActionsUpdateServiceGenerateSSHIdentityKeyPair'', [Post]),
      (''ActionsUpdateServiceRemoveSSHIdentityKeyPair'', [Post]),
      (''ActionsUpdateServiceSimpleUpdate'', [Post]),
      (''ActionsUpdateServiceStartUpdate'', [Post])]"

definition Stubs_UpdateService_1b :: "string list" where
  "Stubs_UpdateService_1b = methods at_root ''UpdateService''
     [(''ClientCertificates'', [Get, Post]),
      (''ClientCertificatesCertificateId'', [Get, Put, Delete, Patch]),
      (''ClientCertificatesCertificateIdActionsCertificateRekey'', [Post])]"

definition Stubs_UpdateService_1c :: "string list" where
  "Stubs_UpdateService_1c = methods at_root ''UpdateService''
     [(''ClientCertificatesCertificateIdActionsCertificateRenew'', [Post]),
      (''FirmwareInventory'', [Get]),
      (''FirmwareInventorySoftwareInventoryId'', [Get, Put, Patch]),
      (''PublicIdentitySSHKeyKeyId'', [Get, Put, Delete])]"

definition Stubs_UpdateService_1d :: "string list" where
  "Stubs_UpdateService_1d = methods at_root ''UpdateService''
     [(''PublicIdentitySSHKeyKeyId'', [Patch]),
      (''RemoteServerCertificates'', [Get, Post]),
      (''RemoteServerCertificatesCertificateId'', [Get, Put, Delete, Patch]),
      (''RemoteServerCertificatesCertificateIdActionsCertificateRekey'', [Post])]"

definition Stubs_UpdateService_2a :: "string list" where
  "Stubs_UpdateService_2a = methods at_root ''UpdateService''
     [(''RemoteServerCertificatesCertificateIdActionsCertificateRenew'', [Post]),
      (''RemoteServerSSHKeys'', [Get, Post]),
      (''RemoteServerSSHKeysKeyId'', [Get, Put, Delete, Patch]),
      (''SoftwareInventory'', [Get])]"

definition Stubs_UpdateService_2b :: "string list" where
  "Stubs_UpdateService_2b = methods at_root ''UpdateService''
     [(''SoftwareInventorySoftwareInventoryId'', [Get, Put, Patch])]"

definition Stubs_Odata_1a :: "string list" where
  "Stubs_Odata_1a = methods at_root ''Odata''
     [('''', [Get])]"

definition remaining_stubs :: "string list" where
  "remaining_stubs = concat
     [concat [],
      concat [Stubs_Metadata_1a],
      concat [Stubs_AccountService_1a, Stubs_AccountService_1b, Stubs_AccountService_1c, Stubs_AccountService_1d],
      concat [Stubs_AccountService_2a],
      concat [Stubs_AccountService_3a, Stubs_AccountService_3b],
      concat [Stubs_AccountService_4a, Stubs_AccountService_4b, Stubs_AccountService_4c, Stubs_AccountService_4d],
      concat [Stubs_AccountService_5a, Stubs_AccountService_5b, Stubs_AccountService_5c],
      concat [Stubs_AccountService_6a],
      concat [Stubs_AggregationService_1a, Stubs_AggregationService_1b],
      concat [Stubs_AggregationService_2a, Stubs_AggregationService_2b, Stubs_AggregationService_2c],
      concat [Stubs_AggregationService_3a],
      concat [Stubs_Cables_1a],
      concat [Stubs_CertificateService_1a],
      concat [Stubs_ComponentIntegrity_1a],
      concat [Stubs_EventService_1a],
      concat [Stubs_EventService_2a, Stubs_EventService_2b, Stubs_EventService_2c, Stubs_EventService_2d],
      concat [Stubs_Fabrics_1a, Stubs_Fabrics_1b, Stubs_Fabrics_1c, Stubs_Fabrics_1d],
      concat [Stubs_Fabrics_2a, Stubs_Fabrics_2b, Stubs_Fabrics_2c],
      concat [Stubs_Fabrics_3a, Stubs_Fabrics_3b, Stubs_Fabrics_3c, Stubs_Fabrics_3d],
      concat [Stubs_Fabrics_4a, Stubs_Fabrics_4b, Stubs_Fabrics_4c, Stubs_Fabrics_4d],
      concat [Stubs_Fabrics_5a, Stubs_Fabrics_5b],
      concat [Stubs_Facilities_1a, Stubs_Facilities_1b, Stubs_Facilities_1c],
      concat [Stubs_JobService_1a, Stubs_JobService_1b, Stubs_JobService_1c, Stubs_JobService_1d],
      concat [Stubs_JsonSchemas_1a],
      concat [Stubs_KeyService_1a, Stubs_KeyService_1b],
      concat [Stubs_LicenseService_1a],
      concat [Stubs_RegisteredClients_1a],
      concat [Stubs_Registries_1a],
      concat [Stubs_ServiceConditions_1a],
      concat [Stubs_SessionService_1a],
      concat [Stubs_SessionService_2a],
      concat [],
      concat [Stubs_TaskService_1a],
      concat [Stubs_TelemetryService_1a, Stubs_TelemetryService_1b, Stubs_TelemetryService_1c,
        Stubs_TelemetryService_1d],
      concat [Stubs_TelemetryService_2a, Stubs_TelemetryService_2b],
      concat [Stubs_UpdateService_1a, Stubs_UpdateService_1b, Stubs_UpdateService_1c, Stubs_UpdateService_1d],
      concat [Stubs_UpdateService_2a, Stubs_UpdateService_2b],
      concat [Stubs_Odata_1a]]"

lemma Root_1_covered:
  "covered Routes_Root_1
     (concat [])"
  by (simp add: covered_def methods_def implemented_methods_def under_def path_entries_def entry_def at_root_def
    at_system_def at_manager_def service_root_def system_path_def manager_path_def Routes_Root_1_def)

lemma Metadata_1_covered:
  "covered Routes_Metadata_1
     (concat [Stubs_Metadata_1a])"
  unfolding Routes_Metadata_1_def Stubs_Metadata_1a_def
  by (rule covering)+

lemma AccountService_1_covered:
  "covered Routes_AccountService_1
     (concat [Stubs_AccountService_1a, Stubs_AccountService_1b, Stubs_AccountService_1c, Stubs_AccountService_1d])"
  unfolding Routes_AccountService_1_def Stubs_AccountService_1a_def Stubs_AccountService_1b_def
    Stubs_AccountService_1c_def Stubs_AccountService_1d_def
  by (rule covering)+

lemma AccountService_2_covered:
  "covered Routes_AccountService_2
     (concat [Stubs_AccountService_2a])"
  unfolding Routes_AccountService_2_def Stubs_AccountService_2a_def
  by (rule covering)+

lemma AccountService_3_covered:
  "covered Routes_AccountService_3
     (concat [Stubs_AccountService_3a, Stubs_AccountService_3b])"
  unfolding Routes_AccountService_3_def Stubs_AccountService_3a_def Stubs_AccountService_3b_def
  by (rule covering)+

lemma AccountService_4_covered:
  "covered Routes_AccountService_4
     (concat [Stubs_AccountService_4a, Stubs_AccountService_4b, Stubs_AccountService_4c, Stubs_AccountService_4d])"
  unfolding Routes_AccountService_4_def Stubs_AccountService_4a_def Stubs_AccountService_4b_def
    Stubs_AccountService_4c_def Stubs_AccountService_4d_def
  by (rule covering)+

lemma AccountService_5_covered:
  "covered Routes_AccountService_5
     (concat [Stubs_AccountService_5a, Stubs_AccountService_5b, Stubs_AccountService_5c])"
  unfolding Routes_AccountService_5_def Stubs_AccountService_5a_def Stubs_AccountService_5b_def
    Stubs_AccountService_5c_def
  by (rule covering)+

lemma AccountService_6_covered:
  "covered Routes_AccountService_6
     (concat [Stubs_AccountService_6a])"
  unfolding Routes_AccountService_6_def Stubs_AccountService_6a_def
  by (rule covering)+

lemma AggregationService_1_covered:
  "covered Routes_AggregationService_1
     (concat [Stubs_AggregationService_1a, Stubs_AggregationService_1b])"
  unfolding Routes_AggregationService_1_def Stubs_AggregationService_1a_def Stubs_AggregationService_1b_def
  by (rule covering)+

lemma AggregationService_2_covered:
  "covered Routes_AggregationService_2
     (concat [Stubs_AggregationService_2a, Stubs_AggregationService_2b, Stubs_AggregationService_2c])"
  unfolding Routes_AggregationService_2_def Stubs_AggregationService_2a_def Stubs_AggregationService_2b_def
    Stubs_AggregationService_2c_def
  by (rule covering)+

lemma AggregationService_3_covered:
  "covered Routes_AggregationService_3
     (concat [Stubs_AggregationService_3a])"
  unfolding Routes_AggregationService_3_def Stubs_AggregationService_3a_def
  by (rule covering)+

lemma Cables_1_covered:
  "covered Routes_Cables_1
     (concat [Stubs_Cables_1a])"
  unfolding Routes_Cables_1_def Stubs_Cables_1a_def
  by (rule covering)+

lemma CertificateService_1_covered:
  "covered Routes_CertificateService_1
     (concat [Stubs_CertificateService_1a])"
  unfolding Routes_CertificateService_1_def Stubs_CertificateService_1a_def
  by (rule covering)+

lemma ComponentIntegrity_1_covered:
  "covered Routes_ComponentIntegrity_1
     (concat [Stubs_ComponentIntegrity_1a])"
  unfolding Routes_ComponentIntegrity_1_def Stubs_ComponentIntegrity_1a_def
  by (rule covering)+

lemma EventService_1_covered:
  "covered Routes_EventService_1
     (concat [Stubs_EventService_1a])"
  unfolding Routes_EventService_1_def Stubs_EventService_1a_def
  by (rule covering)+

lemma EventService_2_covered:
  "covered Routes_EventService_2
     (concat [Stubs_EventService_2a, Stubs_EventService_2b, Stubs_EventService_2c, Stubs_EventService_2d])"
  unfolding Routes_EventService_2_def Stubs_EventService_2a_def Stubs_EventService_2b_def
    Stubs_EventService_2c_def Stubs_EventService_2d_def
  by (rule covering)+

lemma Fabrics_1_covered:
  "covered Routes_Fabrics_1
     (concat [Stubs_Fabrics_1a, Stubs_Fabrics_1b, Stubs_Fabrics_1c, Stubs_Fabrics_1d])"
  unfolding Routes_Fabrics_1_def Stubs_Fabrics_1a_def Stubs_Fabrics_1b_def Stubs_Fabrics_1c_def
    Stubs_Fabrics_1d_def
  by (rule covering)+

lemma Fabrics_2_covered:
  "covered Routes_Fabrics_2
     (concat [Stubs_Fabrics_2a, Stubs_Fabrics_2b, Stubs_Fabrics_2c])"
  unfolding Routes_Fabrics_2_def Stubs_Fabrics_2a_def Stubs_Fabrics_2b_def Stubs_Fabrics_2c_def
  by (rule covering)+

lemma Fabrics_3_covered:
  "covered Routes_Fabrics_3
     (concat [Stubs_Fabrics_3a, Stubs_Fabrics_3b, Stubs_Fabrics_3c, Stubs_Fabrics_3d])"
  unfolding Routes_Fabrics_3_def Stubs_Fabrics_3a_def Stubs_Fabrics_3b_def Stubs_Fabrics_3c_def
    Stubs_Fabrics_3d_def
  by (rule covering)+

lemma Fabrics_4_covered:
  "covered Routes_Fabrics_4
     (concat [Stubs_Fabrics_4a, Stubs_Fabrics_4b, Stubs_Fabrics_4c, Stubs_Fabrics_4d])"
  unfolding Routes_Fabrics_4_def Stubs_Fabrics_4a_def Stubs_Fabrics_4b_def Stubs_Fabrics_4c_def
    Stubs_Fabrics_4d_def
  by (rule covering)+

lemma Fabrics_5_covered:
  "covered Routes_Fabrics_5
     (concat [Stubs_Fabrics_5a, Stubs_Fabrics_5b])"
  unfolding Routes_Fabrics_5_def Stubs_Fabrics_5a_def Stubs_Fabrics_5b_def
  by (rule covering)+

lemma Facilities_1_covered:
  "covered Routes_Facilities_1
     (concat [Stubs_Facilities_1a, Stubs_Facilities_1b, Stubs_Facilities_1c])"
  unfolding Routes_Facilities_1_def Stubs_Facilities_1a_def Stubs_Facilities_1b_def Stubs_Facilities_1c_def
  by (rule covering)+

lemma JobService_1_covered:
  "covered Routes_JobService_1
     (concat [Stubs_JobService_1a, Stubs_JobService_1b, Stubs_JobService_1c, Stubs_JobService_1d])"
  unfolding Routes_JobService_1_def Stubs_JobService_1a_def Stubs_JobService_1b_def Stubs_JobService_1c_def
    Stubs_JobService_1d_def
  by (rule covering)+

lemma JsonSchemas_1_covered:
  "covered Routes_JsonSchemas_1
     (concat [Stubs_JsonSchemas_1a])"
  unfolding Routes_JsonSchemas_1_def Stubs_JsonSchemas_1a_def
  by (rule covering)+

lemma KeyService_1_covered:
  "covered Routes_KeyService_1
     (concat [Stubs_KeyService_1a, Stubs_KeyService_1b])"
  unfolding Routes_KeyService_1_def Stubs_KeyService_1a_def Stubs_KeyService_1b_def
  by (rule covering)+

lemma LicenseService_1_covered:
  "covered Routes_LicenseService_1
     (concat [Stubs_LicenseService_1a])"
  unfolding Routes_LicenseService_1_def Stubs_LicenseService_1a_def
  by (rule covering)+

lemma RegisteredClients_1_covered:
  "covered Routes_RegisteredClients_1
     (concat [Stubs_RegisteredClients_1a])"
  unfolding Routes_RegisteredClients_1_def Stubs_RegisteredClients_1a_def
  by (rule covering)+

lemma Registries_1_covered:
  "covered Routes_Registries_1
     (concat [Stubs_Registries_1a])"
  unfolding Routes_Registries_1_def Stubs_Registries_1a_def
  by (rule covering)+

lemma ServiceConditions_1_covered:
  "covered Routes_ServiceConditions_1
     (concat [Stubs_ServiceConditions_1a])"
  unfolding Routes_ServiceConditions_1_def Stubs_ServiceConditions_1a_def
  by (rule covering)+

lemma SessionService_1_covered:
  "covered Routes_SessionService_1
     (concat [Stubs_SessionService_1a])"
  unfolding Routes_SessionService_1_def Stubs_SessionService_1a_def
  by (rule covering)+

lemma SessionService_2_covered:
  "covered Routes_SessionService_2
     (concat [Stubs_SessionService_2a])"
  by (simp add: covered_def methods_def implemented_methods_def under_def path_entries_def entry_def at_root_def
    at_system_def at_manager_def service_root_def system_path_def manager_path_def Routes_SessionService_2_def Stubs_SessionService_2a_def)

lemma SessionService_3_covered:
  "covered Routes_SessionService_3
     (concat [])"
  by (simp add: covered_def methods_def implemented_methods_def under_def path_entries_def entry_def at_root_def
    at_system_def at_manager_def service_root_def system_path_def manager_path_def Routes_SessionService_3_def)

lemma TaskService_1_covered:
  "covered Routes_TaskService_1
     (concat [Stubs_TaskService_1a])"
  unfolding Routes_TaskService_1_def Stubs_TaskService_1a_def
  by (rule covering)+

lemma TelemetryService_1_covered:
  "covered Routes_TelemetryService_1
     (concat [Stubs_TelemetryService_1a, Stubs_TelemetryService_1b, Stubs_TelemetryService_1c,
        Stubs_TelemetryService_1d])"
  unfolding Routes_TelemetryService_1_def Stubs_TelemetryService_1a_def Stubs_TelemetryService_1b_def
    Stubs_TelemetryService_1c_def Stubs_TelemetryService_1d_def
  by (rule covering)+

lemma TelemetryService_2_covered:
  "covered Routes_TelemetryService_2
     (concat [Stubs_TelemetryService_2a, Stubs_TelemetryService_2b])"
  unfolding Routes_TelemetryService_2_def Stubs_TelemetryService_2a_def Stubs_TelemetryService_2b_def
  by (rule covering)+

lemma UpdateService_1_covered:
  "covered Routes_UpdateService_1
     (concat [Stubs_UpdateService_1a, Stubs_UpdateService_1b, Stubs_UpdateService_1c, Stubs_UpdateService_1d])"
  unfolding Routes_UpdateService_1_def Stubs_UpdateService_1a_def Stubs_UpdateService_1b_def
    Stubs_UpdateService_1c_def Stubs_UpdateService_1d_def
  by (rule covering)+

lemma UpdateService_2_covered:
  "covered Routes_UpdateService_2
     (concat [Stubs_UpdateService_2a, Stubs_UpdateService_2b])"
  unfolding Routes_UpdateService_2_def Stubs_UpdateService_2a_def Stubs_UpdateService_2b_def
  by (rule covering)+

lemma Odata_1_covered:
  "covered Routes_Odata_1
     (concat [Stubs_Odata_1a])"
  unfolding Routes_Odata_1_def Stubs_Odata_1a_def
  by (rule covering)+

lemma service_covered: "covered service_routes remaining_stubs"
  unfolding service_routes_def remaining_stubs_def
  by (intro covered_concat
    Root_1_covered Metadata_1_covered AccountService_1_covered AccountService_2_covered
    AccountService_3_covered AccountService_4_covered AccountService_5_covered AccountService_6_covered
    AggregationService_1_covered AggregationService_2_covered AggregationService_3_covered
    Cables_1_covered CertificateService_1_covered ComponentIntegrity_1_covered EventService_1_covered
    EventService_2_covered Fabrics_1_covered Fabrics_2_covered Fabrics_3_covered Fabrics_4_covered
    Fabrics_5_covered Facilities_1_covered JobService_1_covered JsonSchemas_1_covered
    KeyService_1_covered LicenseService_1_covered RegisteredClients_1_covered Registries_1_covered
    ServiceConditions_1_covered SessionService_1_covered SessionService_2_covered
    SessionService_3_covered TaskService_1_covered TelemetryService_1_covered TelemetryService_2_covered
    UpdateService_1_covered UpdateService_2_covered Odata_1_covered)

end
