(* ===== verification/SchemaRoutes.thy ===== *)
theory SchemaRoutes
  imports Agent
begin

text \<open>
  The documents on their way through the server: those the agent publishes keep to the data model, the
  routes no service method implements refuse every request without effect, and the patch of a
  system acts on its boot override and on nothing else.
\<close>

section \<open>Published documents\<close>

lemma keeps_conj: "keeps P m \<Longrightarrow> keeps Q m \<Longrightarrow> keeps (\<lambda>s. P s \<and> Q s) m"
  by (simp add: keeps_def)

context resource_manager
begin

lemma keeps_system_present:
  "keeps (\<lambda>s. system s \<noteq> None) (GetManager rm)" "keeps (\<lambda>s. system s \<noteq> None) (GetVirtualMedia rm)"
  "keeps (\<lambda>s. system s \<noteq> None) (EjectMedia rm)" "keeps (\<lambda>s. system s \<noteq> None) (InsertMedia rm url)"
  "keeps (\<lambda>s. system s \<noteq> None) (GetPowerStatus rm)" "keeps (\<lambda>s. system s \<noteq> None) (PowerOn rm)"
  "keeps (\<lambda>s. system s \<noteq> None) (PowerOff rm)" "keeps (\<lambda>s. system s \<noteq> None) (PowerCycle rm)"
  by (rule frame_keeps [where Q = "\<lambda>c. c \<noteq> None"], rule frame_system)+

lemma keeps_system_set: "keeps (\<lambda>s. system s \<noteq> None) (SetBootDevice rm d)"
proof (rule keepsI)
  fix s assume "system s \<noteq> None"
  obtain r s' where run: "SetBootDevice rm d s = (r, s')" by force
  with boot_result [OF run] \<open>system s \<noteq> None\<close> show "system (snd (SetBootDevice rm d s)) \<noteq> None"
    by (simp split: if_splits)
qed

lemma keeps_system_read: "keeps (\<lambda>s. system s \<noteq> None) (GetComputerSystem rm)"
proof (rule keepsI)
  fix s assume present: "system s \<noteq> None"
  obtain r s' where run: "GetComputerSystem rm s = (r, s')" by force
  have "system s' \<noteq> None"
  proof (cases r)
    case (Ok c)
    from system_result [OF run [unfolded Ok]] present show ?thesis by auto
  qed (use system_error [OF run] present in simp_all)
  with run show "system (snd (GetComputerSystem rm s)) \<noteq> None" by simp
qed

lemmas keeps_served = keeps_conj [OF keeps_ops(1) keeps_system_read] keeps_conj [OF keeps_ops(2) keeps_system_present(1)]
  keeps_conj [OF keeps_ops(3) keeps_system_present(2)] keeps_conj [OF keeps_ops(4) keeps_system_present(3)]
  keeps_conj [OF keeps_ops(5) keeps_system_present(4)] keeps_conj [OF keeps_ops(6) keeps_system_present(5)]
  keeps_conj [OF keeps_ops(7) keeps_system_present(6)] keeps_conj [OF keeps_ops(8) keeps_system_present(7)]
  keeps_conj [OF keeps_ops(9) keeps_system_present(8)] keeps_conj [OF keeps_ops(10) keeps_system_set]

end

text \<open>The contract once more, with the presence of the documents in the invariant.\<close>

definition served :: "'w vmrm \<Rightarrow> bool" where
  "served s \<longleftrightarrow> rm_inv s \<and> m_computerSystem s \<noteq> None"

interpretation served_manager: resource_manager "vm_resource_manager vc" served machine_id m_computerSystem m_virtualMedia
  for vc :: "'w vm_client"
  unfolding served_def
  by unfold_locales
    (rule vm_manager.keeps_served vm_manager.op_frames | erule vm_manager.eject_result vm_manager.insert_result
       vm_manager.boot_result vm_manager.system_result vm_manager.system_error)+

text \<open>The documents of a running agent are all there.\<close>

lemma served_documents:
  assumes "served s"
  obtains c g m where "m_computerSystem s = Some c" and "m_manager s = Some g" and "m_virtualMedia s = Some m"
    and "system_conforms c" and "manager_conforms g" and "media_conforms m"
proof -
  obtain c where c: "m_computerSystem s = Some c" using assms by (auto simp: served_def)
  with assms have "docs_inv (Some c) (m_manager s) (m_virtualMedia s)" by (simp add: served_def rm_inv_def)
  then show thesis
    by (cases "m_manager s"; cases "m_virtualMedia s") (auto intro: that [OF c])
qed

lemma Initialize_served:
  assumes "Initialize vc now ns n s = (Ok (), s')"
  shows "served s'"
proof -
  have "m_computerSystem s' \<noteq> None"
    using assms by (auto simp: Initialize_def andThen_def attempt_def Let_def split: prod.splits outcome.splits)
  with Initialize_inv [OF assms] show ?thesis by (simp add: served_def)
qed

lemma agent_run_served:
  assumes "agent_run vc wi gi u p a0 a" and "served (rf_rm a0)"
  shows "served (rf_rm a)"
  using assms
proof induction
  case (redfish a uuid ord port r x a')
  then have "served (rf_rm a)" by simp
  with keepsD [OF served_manager.serve_inv _ redfish.hyps(2)] show ?case by blast
next
  case (ipmi a ip port netfn cmd h m y s')
  then have "served (rf_rm a)" by simp
  moreover from sim_serve_cases [OF ipmi.hyps(2)] have "keeps served (h m)"
    by (auto intro: served_manager.ipmi_keeps)
  ultimately show ?case using keepsD ipmi.hyps(3) by fastforce
qed (simp_all add: served_def)

text \<open>C10. What the agent publishes keeps to the data model but for one field.  In every history of Redfish
  requests, IPMI commands and foreign changes of the cluster the three documents exist, no number in
  them is below its minimum, every enumerated value in them is one of its enumeration or left out, and
  all required fields are there, with one exception: the watchdog timer of the system document, whose
  required timeout action is missing and is written as an empty string, which no timeout action is.
  With any timeout action in its place the system document would keep to the data model as well.\<close>

theorem published_documents:
  assumes "agent_run vc wi gi u p a0 a"
    and "Initialize vc now ns n (NewVirtualMachineResourceManager w) = (Ok (), rf_rm a0)" and "any_field_order ord"
  shows "\<exists>c g m. m_computerSystem (rf_rm a) = Some c \<and> m_manager (rf_rm a) = Some g \<and> m_virtualMedia (rf_rm a) = Some m
    \<and> AssertComputerSystemV1220ComputerSystemConstraints c = None
    \<and> AssertManagerV1190ManagerConstraints g = None \<and> AssertVirtualMediaV163VirtualMediaConstraints m = None
    \<and> list_all allowed (manager_values g @ media_values m)
    \<and> AssertManagerV1190ManagerRequired ord g = None \<and> AssertVirtualMediaV163VirtualMediaRequired ord m = None
    \<and> filter (\<lambda>x. \<not> allowed x) (system_values c) = [(ComputerSystemV1220WatchdogTimeoutActions_enum, Some '''')]
    \<and> AssertComputerSystemV1220ComputerSystemRequired ord c = Some (RequiredError ''TimeoutAction'')
    \<and> (\<forall>v. IsValid ComputerSystemV1220WatchdogTimeoutActions_enum v \<longrightarrow>
        list_all allowed (system_values (with_timeout_action v c))
        \<and> AssertComputerSystemV1220ComputerSystemRequired ord (with_timeout_action v c) = None)"
proof -
  have "served (rf_rm a)" using agent_run_served [OF assms(1)] Initialize_served [OF assms(2)] .
  then obtain c g m where "m_computerSystem (rf_rm a) = Some c" "m_manager (rf_rm a) = Some g" "m_virtualMedia (rf_rm a) = Some m"
    and c: "system_conforms c" and gm: "manager_conforms g" "media_conforms m"
    by (rule served_documents)
  moreover note system_one_value [OF c] system_lacks_action [OF c assms(3)] system_completed [OF c _ assms(3)]
  moreover have "AssertComputerSystemV1220ComputerSystemConstraints c = None" using c by (simp add: system_conforms_def)
  ultimately show ?thesis
    using assms(3) gm by (simp add: manager_conforms_def media_conforms_def)
qed

theorem published_documents_witness:
  "\<exists>c. m_computerSystem (rf_rm after_login) = Some c
     \<and> AssertComputerSystemV1220ComputerSystemRequired (\<lambda>xs. xs) c = Some (RequiredError ''TimeoutAction'')
     \<and> AssertComputerSystemV1220ComputerSystemRequired (\<lambda>xs. xs) (with_timeout_action ''ResetSystem'' c) = None"
proof -
  have "Initialize mem_client ''now'' ''ns'' ''vm'' (NewVirtualMachineResourceManager demo_cluster) = (Ok (), rf_rm demo_agent)"
    by (simp add: demo_agent_def demo_init)
  moreover have "IsValid ComputerSystemV1220WatchdogTimeoutActions_enum ''ResetSystem''"
    by (simp add: IsValid_def ComputerSystemV1220WatchdogTimeoutActions_enum_def)
  ultimately show ?thesis
    using published_documents [OF demo_agent_runs _, of "''now''" "''ns''" "''vm''" demo_cluster "\<lambda>xs. xs"]
    by (auto simp: any_field_order_def)
qed

section \<open>Routes without an implementation\<close>

text \<open>What the assertion functions report: a field that is missing or a number out of its bounds.\<close>

definition schema_check :: "go_error option \<Rightarrow> bool" where
  "schema_check result \<longleftrightarrow> (case result of None \<Rightarrow> True | Some err \<Rightarrow> as_parsing_error err \<or> as_required_error err)"

named_theorems schema_checks

lemma schema_check_basic [schema_checks]:
  "schema_check None" "schema_check (required ord g)" "schema_check (minimum name v)" "schema_check (bounded f)"
  "schema_check (at_least k name i)" "schema_check (at_most k name i)"
  by (auto simp: schema_check_def required_def bounded_def minimum_def too_small_def at_least_def at_most_def
      split: option.splits prod.splits if_splits)

lemma schema_check_first: "list_all schema_check es \<Longrightarrow> schema_check (first_error es)"
  by (induction es rule: first_error.induct) (simp_all add: schema_check_basic(1))

lemma schema_check_sequence [schema_checks]:
  "list_all schema_check es \<Longrightarrow> schema_check (first_error es)" "list_all schema_check []"
  "schema_check e \<Longrightarrow> list_all schema_check es \<Longrightarrow> list_all schema_check (e # es)"
  by (simp_all add: schema_check_first)

lemma schema_check_scan [schema_checks]:
  "(\<And>x. schema_check (c x)) \<Longrightarrow> schema_check (scan c xs)"
  "(\<And>x. schema_check (c x)) \<Longrightarrow> schema_check (each c ys)"
  by (auto simp: scan_def each_def list_all_iff intro: schema_check_first)

text \<open>The checks of the documents and bodies the routes accept.\<close>

lemma schema_check_documents [schema_checks]:
  "schema_check (AssertComputerSystemV1220ComputerSystemRequired ord cs)"
  "schema_check (AssertComputerSystemV1220ComputerSystemConstraints cs)"
  "schema_check (AssertManagerV1190ManagerRequired ord g)" "schema_check (AssertManagerV1190ManagerConstraints g)"
  "schema_check (AssertVirtualMediaV163VirtualMediaRequired ord m)"
  "schema_check (AssertVirtualMediaV163VirtualMediaConstraints m)"
  unfolding required_fields_scan constraints_scan manager_scan media_scan by (intro schema_checks)+

lemma schema_check_bodies [schema_checks]:
  "schema_check (AssertSessionServiceV118SessionServiceRequired ord ss)"
  "schema_check (AssertSessionServiceV118SessionServiceConstraints ss)"
  "schema_check (AssertBiosV122BiosRequired ord b)" "schema_check (AssertBiosV122BiosConstraints b)"
  "schema_check (AssertBootOptionV105BootOptionRequired ord o')" "schema_check (AssertBootOptionV105BootOptionConstraints o')"
  unfolding AssertSessionServiceV118SessionServiceRequired_def AssertSessionServiceV118SessionServiceConstraints_def
    AssertSessionServiceV118ActionsRequired_def AssertSessionServiceV118ActionsConstraints_def
    AssertBiosV122BiosRequired_def AssertBiosV122BiosConstraints_def AssertBiosV122ActionsRequired_def
    AssertBiosV122ActionsConstraints_def AssertBiosV122ChangePasswordRequired_def AssertBiosV122ChangePasswordConstraints_def
    AssertBiosV122ResetBiosRequired_def AssertBiosV122ResetBiosConstraints_def AssertBiosV122LinksRequired_def
    AssertBiosV122LinksConstraints_def AssertBootOptionV105BootOptionRequired_def AssertBootOptionV105BootOptionConstraints_def
    AssertBootOptionV105ActionsRequired_def AssertBootOptionV105ActionsConstraints_def
    status_required status_scan unrequired unbounded
  by (intro schema_checks)+

lemma schema_check_actions [schema_checks]:
  "schema_check (AssertComputerSystemV1220AddResourceBlockRequestBodyRequired ord ab)"
  "schema_check (AssertComputerSystemV1220AddResourceBlockRequestBodyConstraints ab)"
  "schema_check (AssertComputerSystemV1220DecommissionRequestBodyRequired ord db)"
  "schema_check (AssertComputerSystemV1220DecommissionRequestBodyConstraints db)"
  "schema_check (AssertComputerSystemV1220RemoveResourceBlockRequestBodyRequired ord rb)"
  "schema_check (AssertComputerSystemV1220RemoveResourceBlockRequestBodyConstraints rb)"
  "schema_check (AssertBiosV122ChangePasswordRequestBodyRequired ord cp)"
  "schema_check (AssertBiosV122ChangePasswordRequestBodyConstraints cp)"
  "schema_check (AssertManagerV1190ForceFailoverRequestBodyRequired ord fb)"
  "schema_check (AssertManagerV1190ForceFailoverRequestBodyConstraints fb)"
  "schema_check (AssertManagerV1190ModifyRedundancySetRequestBodyRequired mb)"
  "schema_check (AssertManagerV1190ModifyRedundancySetRequestBodyConstraints mb)"
  "schema_check (AssertManagerV1190ResetRequestBodyRequired xb)" "schema_check (AssertManagerV1190ResetRequestBodyConstraints xb)"
  "schema_check (AssertManagerV1190ResetToDefaultsRequestBodyRequired ord tb)"
  "schema_check (AssertManagerV1190ResetToDefaultsRequestBodyConstraints tb)"
  unfolding AssertComputerSystemV1220AddResourceBlockRequestBodyRequired_def
    AssertComputerSystemV1220AddResourceBlockRequestBodyConstraints_def
    AssertComputerSystemV1220DecommissionRequestBodyRequired_def AssertComputerSystemV1220DecommissionRequestBodyConstraints_def
    AssertComputerSystemV1220RemoveResourceBlockRequestBodyRequired_def
    AssertComputerSystemV1220RemoveResourceBlockRequestBodyConstraints_def
    AssertBiosV122ChangePasswordRequestBodyRequired_def AssertBiosV122ChangePasswordRequestBodyConstraints_def
    AssertManagerV1190ForceFailoverRequestBodyRequired_def AssertManagerV1190ForceFailoverRequestBodyConstraints_def
    AssertManagerV1190ModifyRedundancySetRequestBodyRequired_def AssertManagerV1190ModifyRedundancySetRequestBodyConstraints_def
    AssertManagerV1190ResetRequestBodyRequired_def AssertManagerV1190ResetRequestBodyConstraints_def
    AssertManagerV1190ResetToDefaultsRequestBodyRequired_def AssertManagerV1190ResetToDefaultsRequestBodyConstraints_def
    unrequired unbounded
  by (intro schema_checks)+

text \<open>A handler that refuses: it answers 400, 422 or 501 and leaves the state as it was.\<close>

definition refuses :: "('m redfish, payload response) op \<Rightarrow> bool" where
  "refuses h \<longleftrightarrow> (\<forall>s. \<exists>resp. h s = (Ok resp, s) \<and> resp_code resp \<in> {400, 422, 501})"

lemma refuses_error:
  "as_parsing_error e \<or> as_required_error e \<Longrightarrow> refuses (DefaultErrorHandler e r)"
  by (auto simp: refuses_def DefaultErrorHandler_def EncodeJSONResponse_def)

named_theorems refusals

lemma refuses_stub [refusals]: "refuses (answer (stub name))"
  by (simp add: refuses_def answer_def stub_def andThen_def attempt_def DefaultErrorHandler_def EncodeJSONResponse_def Response_def)

lemma refuses_steps [refusals]:
  "(\<And>v. refuses (k v)) \<Longrightarrow> refuses (with_param vars name k)"
  "(\<And>x. refuses (k' x)) \<Longrightarrow> refuses (with_body d k')"
  "schema_check e \<Longrightarrow> refuses h \<Longrightarrow> refuses (checked e h)"
  by (auto simp: with_param_def with_body_def checked_def schema_check_def intro: refuses_error split: option.split sum.split)

lemma refuses_if: "(c \<Longrightarrow> refuses h) \<Longrightarrow> (\<not> c \<Longrightarrow> refuses h') \<Longrightarrow> refuses (if c then h else h')"
  by simp

lemma stub_controller_refuses:
  assumes "name \<in> set service_stubs"
  shows "refuses (stub_controller wi ord name vars r)"
  unfolding stub_controller_def stub_controller_defs
  by (intro refuses_if refusals schema_checks) (use assms in \<open>simp add: stub_lists\<close>)

lemma implemented_routes:
  "list_all (\<lambda>name. name \<notin> set service_stubs)
     [''RedfishV1Get'', ''RedfishV1Get_0'', ''RedfishV1MetadataGet'', ''RedfishV1ManagersGet'', ''RedfishV1ManagersManagerIdGet'',
      ''RedfishV1ManagersManagerIdVirtualMediaGet'', ''RedfishV1ManagersManagerIdVirtualMediaVirtualMediaIdGet'',
      ''RedfishV1ManagersManagerIdVirtualMediaVirtualMediaIdActionsVirtualMediaEjectMediaPost'',
      ''RedfishV1ManagersManagerIdVirtualMediaVirtualMediaIdActionsVirtualMediaInsertMediaPost'',
      ''RedfishV1SessionServiceSessionsPost'', ''RedfishV1SessionServiceSessionsSessionIdGet'',
      ''RedfishV1SessionServiceSessionsSessionIdDelete'', ''RedfishV1SystemsGet'', ''RedfishV1SystemsComputerSystemIdGet'',
      ''RedfishV1SystemsComputerSystemIdPatch'', ''RedfishV1SystemsComputerSystemIdActionsComputerSystemResetPost'',
      ''RedfishV1SystemsComputerSystemIdActionsComputerSystemSetDefaultBootOrderPost'',
      ''RedfishV1SystemsComputerSystemIdOperatingSystemGet'']"
  by code_simp

lemma controller_of_stub:
  assumes "name \<in> set service_stubs"
  shows "controller wi uuid ord svc name vars r = stub_controller wi ord name vars r"
proof -
  have "(name = c) = False" if "c \<notin> set service_stubs" for c using that assms by auto
  then show ?thesis
    using implemented_routes unfolding controller_def list.pred_inject by (simp only: HOL.simp_thms if_False)
qed

lemma unimplemented_not_public: "name \<in> set service_stubs \<Longrightarrow> name \<notin> set public_routes"
  using implemented_routes by (auto simp: public_routes_def list.pred_inject)

text \<open>The routes of the systems, their BIOS and boot options, the managers, the virtual media and the
  session service that no service method implements do nothing at all, whatever the request: an
  authorised one is answered 400 or 422 when its path or body fails a check and 501 otherwise, any other
  401; none of them changes the machine or a session, and none of them panics.\<close>

lemma unimplemented_routes:
  assumes "wi_mux wi r = Some (name, vars)" and "name \<in> set service_stubs"
    and "redfish_serve wi uuid ord em r s = (x, s')"
  shows "s' = s \<and> (\<exists>resp. x = Ok resp \<and> resp_code resp \<in> (if authorised em r s then {400, 422, 501} else {401}))"
proof -
  let ?r = "case req_basic_auth r of None \<Rightarrow> r | Some (u, p) \<Rightarrow> r\<lparr>req_user := Some u\<rparr>"
  have run: "redfish_serve wi uuid ord em r s =
      (if authorised em r s then stub_controller wi ord name vars ?r s else (Ok unauthorized, s))"
    using assms(1,2)
    by (simp add: redfish_serve_def unimplemented_not_public AuthMiddleware_cases controller_of_stub)
  obtain resp where "stub_controller wi ord name vars ?r s = (Ok resp, s)" "resp_code resp \<in> {400, 422, 501}"
    using stub_controller_refuses [OF assms(2)] unfolding refuses_def by blast
  with run assms(3) show ?thesis by (auto simp: unauthorized_def http_error_def)
qed

section \<open>The patch of a system\<close>

text \<open>The boot device a patch asks for, if it asks for one the agent knows.\<close>

definition patched_device :: "ComputerSystem \<Rightarrow> BootDevice option" where
  "patched_device doc =
     (let boot = cs_Boot doc in
      if boot_BootSourceOverrideEnabled boot = ''Disabled'' then None
      else if boot_BootSourceOverrideTarget boot = ''Pxe'' then Some BootDevicePxe
      else if boot_BootSourceOverrideTarget boot = ''Hdd'' then Some BootDeviceHdd
      else None)"

lemma patch_device:
  "PatchComputerSystem (NewHandler u p rm) doc =
     (case patched_device doc of None \<Rightarrow> ret () | Some d \<Rightarrow> andThen (onRM (SetBootDevice rm d)) (\<lambda>_. ret ()))"
  by (simp add: PatchComputerSystem_def patched_device_def Let_def)

lemma constraints_error:
  assumes "AssertComputerSystemV1220ComputerSystemConstraints doc = Some e"
  obtains name where "e = too_small name"
  using assms unfolding constraints_scan scan_find
  by (auto simp: bounded_def minimum_def split: option.splits prod.splits if_splits dest!: find_SomeD)

lemma parsing_answer:
  "DefaultErrorHandler (ParsingError name e) r = ret (EncodeJSONResponse [] (MessageBody (error_string (ParsingError name e))) 400)"
  by (simp add: DefaultErrorHandler_def)

lemma answer_action:
  assumes "act s = (res, s')"
  shows "answer (act_or_report msg act) s =
     (case res of
        Ok _ \<Rightarrow> Ok (EncodeJSONResponse [] NilBody 204)
      | Err e \<Rightarrow> Ok (EncodeJSONResponse [] (one_message msg (error_string e)) 500)
      | Panic q \<Rightarrow> Panic q, s')"
  using assms by (cases res) (simp_all add: answer_def act_or_report_def attempt_def andThen_def Response_def)

lemma patch_answer:
  "answer (act_or_report msg (PatchComputerSystem (NewHandler u p rm) doc)) s =
     (case patched_device doc of
        None \<Rightarrow> (Ok (EncodeJSONResponse [] NilBody 204), s)
      | Some d \<Rightarrow>
         (case fst (SetBootDevice rm d (rf_rm s)) of
            Ok _ \<Rightarrow> Ok (EncodeJSONResponse [] NilBody 204)
          | Err e \<Rightarrow> Ok (EncodeJSONResponse [] (one_message msg (error_string e)) 500)
          | Panic q \<Rightarrow> Panic q,
          s\<lparr>rf_rm := snd (SetBootDevice rm d (rf_rm s))\<rparr>))"
proof (cases "patched_device doc")
  case None
  then show ?thesis unfolding patch_device by (simp add: answer_action [where res = "Ok ()" and s' = s])
next
  case (Some d)
  obtain r w where set: "SetBootDevice rm d (rf_rm s) = (r, w)" by force
  then have "onRM (SetBootDevice rm d) s = (r, s\<lparr>rf_rm := w\<rparr>)" by (simp add: onRM_run)
  then have "andThen (onRM (SetBootDevice rm d)) (\<lambda>_. ret ()) s = (r, s\<lparr>rf_rm := w\<rparr>)"
    by (cases r) (simp_all add: andThen_def attempt_def)
  from answer_action [where act = "andThen (onRM (SetBootDevice rm d)) (\<lambda>_. ret ())", OF this] Some set
  show ?thesis by (simp add: patch_device)
qed

text \<open>C18. The patch of a system acts on the boot override and on nothing else.  A body that does not decode
  is answered 400, and so is one with a negative bounded number, which the answer names; neither
  changes anything.  Any other body is answered 204 without effect unless its override is not
  disabled and its target is Pxe or Hdd; then the boot device is set, and the answer is 204 or 500 as
  that succeeds or fails.\<close>

theorem system_patch_outcomes:
  assumes "wi_mux wi r = Some (''RedfishV1SystemsComputerSystemIdPatch'', vars)"
    and "map_of vars ''ComputerSystemId'' = Some sid" and "sid \<noteq> ''''"
    and "authorised (NewEmulator port u p rm) r s"
    and "redfish_serve wi uuid ord (NewEmulator port u p rm) r s = (x, s')"
  shows "case wi_system wi (req_body r) of
      Inl err \<Rightarrow> s' = s \<and> x = Ok (EncodeJSONResponse [] (MessageBody (error_string err)) 400)
    | Inr doc \<Rightarrow>
        (case AssertComputerSystemV1220ComputerSystemConstraints doc of
           Some err \<Rightarrow> s' = s \<and> x = Ok (EncodeJSONResponse [] (MessageBody (error_string err)) 400)
         | None \<Rightarrow>
            (case patched_device doc of
               None \<Rightarrow> s' = s \<and> x = Ok (EncodeJSONResponse [] NilBody 204)
             | Some d \<Rightarrow> s' = s\<lparr>rf_rm := snd (SetBootDevice rm d (rf_rm s))\<rparr>
                 \<and> x = (case fst (SetBootDevice rm d (rf_rm s)) of
                     Ok _ \<Rightarrow> Ok (EncodeJSONResponse [] NilBody 204)
                   | Err e \<Rightarrow> Ok (EncodeJSONResponse [] (one_message ''Base.1.0.GeneralError'' (error_string e)) 500)
                   | Panic q \<Rightarrow> Panic q)))"
proof -
  let ?svc = "em_service (NewEmulator port u p rm)"
  have run: "C_SystemPatch wi ?svc vars (case req_basic_auth r of None \<Rightarrow> r | Some (u, p) \<Rightarrow> r\<lparr>req_user := Some u\<rparr>) s = (x, s')"
    using assms(1,4,5)
    by (simp add: redfish_serve_def public_routes_def AuthMiddleware_cases controller_def del: emulator_credentials)
  have body: "req_body (case req_basic_auth r of None \<Rightarrow> r | Some (u, p) \<Rightarrow> r\<lparr>req_user := Some u\<rparr>) = req_body r"
    by (simp split: option.split prod.split)
  show ?thesis
  proof (cases "wi_system wi (req_body r)")
    case (Inl err)
    with run assms(2,3) body show ?thesis
      by (simp add: C_SystemPatch_def with_param_def with_body_def parsing_answer)
  next
    case (Inr doc)
    show ?thesis
    proof (cases "AssertComputerSystemV1220ComputerSystemConstraints doc")
      case (Some err)
      from constraints_error [OF Some] obtain name where "err = too_small name" .
      with run assms(2,3) body Inr Some show ?thesis
        by (simp add: C_SystemPatch_def with_param_def with_body_def checked_def too_small_def parsing_answer)
    next
      case None
      with run assms(2,3) body Inr
      have "answer (act_or_report ''Base.1.0.GeneralError'' (PatchComputerSystem (NewHandler u p rm) doc)) s = (x, s')"
        by (simp add: C_SystemPatch_def with_param_def with_body_def checked_def RedfishV1SystemsComputerSystemIdPatch_def)
      with None Inr show ?thesis by (auto simp: patch_answer split: option.splits)
    qed
  qed
qed

text \<open>A patch that names a target and does not say whether the override is enabled sets the boot device.\<close>

definition silent_patch :: ComputerSystem where
  "silent_patch = zero_ComputerSystemV1220ComputerSystem
     \<lparr>cs_Boot := zero_ComputerSystemV1220Boot\<lparr>boot_BootSourceOverrideTarget := ''Pxe''\<rparr>\<rparr>"

definition patch_wire :: "demo_body wire" where
  "patch_wire = demo_wire\<lparr>wi_mux := (\<lambda>_. Some (''RedfishV1SystemsComputerSystemIdPatch'', [(''ComputerSystemId'', ''1'')]))\<rparr>"

definition patch_request :: "demo_body request" where
  "patch_request = demo_request ''PATCH'' ''/redfish/v1/Systems/1'' (Some (''admin'', ''secret'')) '''' (SystemB silent_patch)"

lemma silent_patch_facts:
  "wi_system patch_wire (req_body patch_request) = Inr silent_patch"
  "AssertComputerSystemV1220ComputerSystemConstraints silent_patch = None"
  "patched_device silent_patch = Some BootDevicePxe"
  by (simp add: patch_wire_def demo_wire_def patch_request_def demo_request_def) code_simp+

theorem system_patch_outcomes_witness:
  "rf_rm (snd (redfish_serve patch_wire ''id'' demo_orders demo_emulator patch_request demo_agent))
   = snd (VM_SetBootDevice mem_client BootDevicePxe demo)"
proof -
  obtain x s' where run: "redfish_serve patch_wire ''id'' demo_orders demo_emulator patch_request demo_agent = (x, s')" by force
  have mux: "wi_mux patch_wire patch_request = Some (''RedfishV1SystemsComputerSystemIdPatch'', [(''ComputerSystemId'', ''1'')])"
    by (simp add: patch_wire_def)
  have auth: "authorised demo_emulator patch_request demo_agent"
    by (simp add: authorised_def patch_request_def demo_request_def demo_emulator_def)
  from system_patch_outcomes [OF mux _ _ auth [unfolded demo_emulator_def] run [unfolded demo_emulator_def]] run
  show ?thesis by (simp add: silent_patch_facts vm_resource_manager_def demo_agent_def)
qed

section \<open>Unimplemented writes\<close>

text \<open>
  What a document that is posted or put is answered, given its required fields, struct by struct, and its
  bounded numbers: the first thing wrong, or that the method is not implemented.
\<close>

definition refused_document ::
  "string \<Rightarrow> go_error + 'x \<Rightarrow> ('x \<Rightarrow> (string \<times> bool) list list) \<Rightarrow> ('x \<Rightarrow> (string \<times> float32 option) list)
    \<Rightarrow> payload response \<Rightarrow> bool" where
  "refused_document name decoded groups bounds resp \<longleftrightarrow>
     (case decoded of
        Inl err \<Rightarrow> resp = EncodeJSONResponse [] (MessageBody (error_string err)) 400
      | Inr doc \<Rightarrow>
         (case find incomplete (groups doc) of
            Some g \<Rightarrow> \<exists>field. (field, True) \<in> set g
              \<and> resp = EncodeJSONResponse [] (MessageBody (error_string (RequiredError field))) 422
          | None \<Rightarrow>
             (case find (\<lambda>(_, v). \<exists>n \<in> set_option v. n < 0) (bounds doc) of
                Some (number, _) \<Rightarrow> resp = EncodeJSONResponse [] (MessageBody (error_string (too_small number))) 400
              | None \<Rightarrow> resp = EncodeJSONResponse [] (MessageBody (name @ '' method not implemented'')) 501)))"

lemma refusal_steps:
  assumes "any_field_order ord" and "\<And>doc. req doc = scan (required ord) (groups doc)"
    and "\<And>doc. con doc = scan bounded (bounds doc)"
  shows "\<exists>resp. with_body decoded (\<lambda>doc. checked (req doc) (checked (con doc) (answer (stub name)))) s = (Ok resp, s)
    \<and> refused_document name decoded groups bounds resp"
proof (cases decoded)
  case (Inl err)
  then show ?thesis by (simp add: with_body_def parsing_answer refused_document_def)
next
  case (Inr doc)
  have req: "req doc = (case find incomplete (groups doc) of None \<Rightarrow> None | Some g \<Rightarrow> required ord g)"
    unfolding assms(2) scan_find required_cases(1) [OF assms(1)] by simp
  have con: "con doc = (case find (\<lambda>(_, v). \<exists>n \<in> set_option v. n < 0) (bounds doc) of
      None \<Rightarrow> None | Some (number, _) \<Rightarrow> Some (too_small number))"
    unfolding assms(3) by (rule bounded_scan)
  show ?thesis
  proof (cases "find incomplete (groups doc)")
    case (Some g)
    then have "incomplete g" by (auto simp: find_Some_iff)
    then obtain e where e: "required ord g = Some e" using required_cases(1) [OF assms(1), of g] by blast
    from required_cases(2) [OF assms(1) e] Inr Some e req show ?thesis
      by (auto simp: with_body_def checked_def DefaultErrorHandler_def refused_document_def)
  next
    case None
    with Inr req con show ?thesis
      by (auto simp: with_body_def checked_def too_small_def parsing_answer refused_document_def answer_def stub_def
          andThen_def attempt_def DefaultErrorHandler_def Response_def split: option.splits)
  qed
qed

definition bound :: "(string \<times> string) list \<Rightarrow> string list \<Rightarrow> bool" where
  "bound vars ps \<longleftrightarrow> list_all (\<lambda>p. \<exists>v. map_of vars p = Some v \<and> v \<noteq> '''') ps"

lemma with_param_bound: "\<exists>v. map_of vars p = Some v \<and> v \<noteq> '''' \<Longrightarrow> with_param vars p (\<lambda>_. k) = k"
  by (auto simp: with_param_def)

lemma write_controllers:
  "stub_controller wi ord ''RedfishV1SystemsPost'' vars r = C_SystemsPost wi ord r"
  "stub_controller wi ord ''RedfishV1SystemsComputerSystemIdPut'' vars r = C_SystemPut wi ord vars r"
  "stub_controller wi ord ''RedfishV1ManagersManagerIdPut'' vars r = C_ManagerPut wi ord vars r"
  "stub_controller wi ord ''RedfishV1ManagersManagerIdPatch'' vars r = C_ManagerPatch wi ord vars r"
  "stub_controller wi ord ''RedfishV1ManagersManagerIdVirtualMediaVirtualMediaIdPut'' vars r = C_VirtualMediaPut wi ord vars r"
  "stub_controller wi ord ''RedfishV1ManagersManagerIdVirtualMediaVirtualMediaIdPatch'' vars r = C_VirtualMediaPatch wi ord vars r"
  by (simp_all add: stub_controller_def)

lemma system_write:
  assumes "any_field_order (or_fields ord)"
    and "name = ''RedfishV1SystemsPost'' \<or> name = ''RedfishV1SystemsComputerSystemIdPut'' \<and> bound vars [''ComputerSystemId'']"
  shows "\<exists>resp. stub_controller wi ord name vars r s = (Ok resp, s)
    \<and> refused_document name (wi_system wi (req_body r)) system_groups system_bounds resp"
  using assms(2) refusal_steps [where req = "AssertComputerSystemV1220ComputerSystemRequired (or_fields ord)" and con = AssertComputerSystemV1220ComputerSystemConstraints
      and groups = system_groups and bounds = system_bounds, OF assms(1) required_fields_scan constraints_scan,
      where decoded = "wi_system wi (req_body r)" and name = name and s = s]
  by (elim disjE conjE)
    (simp_all only: write_controllers C_SystemsPost_def C_SystemPut_def bound_def list.pred_inject with_param_bound simp_thms)

lemma manager_write:
  assumes "any_field_order (or_fields ord)"
    and "name \<in> {''RedfishV1ManagersManagerIdPut'', ''RedfishV1ManagersManagerIdPatch''}" and "bound vars [''ManagerId'']"
  shows "\<exists>resp. stub_controller wi ord name vars r s = (Ok resp, s)
    \<and> refused_document name (wi_manager wi (req_body r)) manager_groups manager_bounds resp"
  using assms(2,3) refusal_steps [where req = "AssertManagerV1190ManagerRequired (or_fields ord)" and con = AssertManagerV1190ManagerConstraints
      and groups = manager_groups and bounds = manager_bounds, OF assms(1) manager_scan(2,1),
      where decoded = "wi_manager wi (req_body r)" and name = name and s = s]
  by (elim insertE emptyE)
    (simp_all only: write_controllers C_ManagerPut_def C_ManagerPatch_def bound_def list.pred_inject with_param_bound simp_thms)

lemma media_write:
  assumes "any_field_order (or_fields ord)"
    and "name \<in> {''RedfishV1ManagersManagerIdVirtualMediaVirtualMediaIdPut'',
                ''RedfishV1ManagersManagerIdVirtualMediaVirtualMediaIdPatch''}" and "bound vars [''ManagerId'', ''VirtualMediaId'']"
  shows "\<exists>resp. stub_controller wi ord name vars r s = (Ok resp, s)
    \<and> refused_document name (wi_media wi (req_body r)) media_groups (\<lambda>m. status_bounds (vmedia_Status m)) resp"
  using assms(2,3) refusal_steps [where req = "AssertVirtualMediaV163VirtualMediaRequired (or_fields ord)" and con = AssertVirtualMediaV163VirtualMediaConstraints
      and groups = media_groups and bounds = "\<lambda>m. status_bounds (vmedia_Status m)", OF assms(1) media_scan(2,1),
      where decoded = "wi_media wi (req_body r)" and name = name and s = s]
  by (elim insertE emptyE)
    (simp_all only: write_controllers C_VirtualMediaPut_def C_VirtualMediaPatch_def bound_def list.pred_inject with_param_bound simp_thms)

text \<open>C38. A document for a route the agent does not implement is checked before it is refused: a POST or PUT
  of a system, a PUT or PATCH of a manager or a media slot.  A body that does not decode is answered
  400; otherwise a missing required field of the first struct that lacks one is named in a 422, whatever
  the order the fields are looked at; otherwise the first negative bounded number is named in a 400; and
  only a document with nothing wrong is answered 501.  None of these requests has an effect.\<close>

theorem unimplemented_writes_checked:
  assumes "any_field_order (or_fields ord)" and "wi_mux wi r = Some (name, vars)" and "authorised em r s"
    and "redfish_serve wi uuid ord em r s = (x, s')"
  shows "(name = ''RedfishV1SystemsPost'' \<or> name = ''RedfishV1SystemsComputerSystemIdPut'' \<and> bound vars [''ComputerSystemId''] \<longrightarrow>
      s' = s \<and> (\<exists>resp. x = Ok resp \<and> refused_document name (wi_system wi (req_body r)) system_groups system_bounds resp))
    \<and> (name \<in> {''RedfishV1ManagersManagerIdPut'', ''RedfishV1ManagersManagerIdPatch''} \<and> bound vars [''ManagerId''] \<longrightarrow>
      s' = s \<and> (\<exists>resp. x = Ok resp \<and> refused_document name (wi_manager wi (req_body r)) manager_groups manager_bounds resp))
    \<and> (name \<in> {''RedfishV1ManagersManagerIdVirtualMediaVirtualMediaIdPut'',
                ''RedfishV1ManagersManagerIdVirtualMediaVirtualMediaIdPatch''} \<and> bound vars [''ManagerId'', ''VirtualMediaId''] \<longrightarrow>
      s' = s \<and> (\<exists>resp. x = Ok resp
        \<and> refused_document name (wi_media wi (req_body r)) media_groups (\<lambda>m. status_bounds (vmedia_Status m)) resp))"
proof -
  let ?r = "case req_basic_auth r of None \<Rightarrow> r | Some (u, p) \<Rightarrow> r\<lparr>req_user := Some u\<rparr>"
  have body: "req_body ?r = req_body r" by (simp split: option.split prod.split)
  have run: "stub_controller wi ord name vars ?r s = (x, s')" if "name \<in> set service_stubs"
    using assms(2-4) that
    by (simp add: redfish_serve_def unimplemented_not_public AuthMiddleware_cases controller_of_stub)
  have stubs: "''RedfishV1SystemsPost'' \<in> set service_stubs" "''RedfishV1SystemsComputerSystemIdPut'' \<in> set service_stubs"
    "{''RedfishV1ManagersManagerIdPut'', ''RedfishV1ManagersManagerIdPatch''} \<subseteq> set service_stubs"
    "{''RedfishV1ManagersManagerIdVirtualMediaVirtualMediaIdPut'',
      ''RedfishV1ManagersManagerIdVirtualMediaVirtualMediaIdPatch''} \<subseteq> set service_stubs"
    by (simp_all add: stub_lists)
  show ?thesis
  proof (intro conjI impI)
    assume n: "name = ''RedfishV1SystemsPost'' \<or> name = ''RedfishV1SystemsComputerSystemIdPut'' \<and> bound vars [''ComputerSystemId'']"
    then have "name \<in> set service_stubs" using stubs(1,2) by blast
    from run [OF this] system_write [OF assms(1) n, of wi ?r s]
    show "s' = s" "\<exists>resp. x = Ok resp \<and> refused_document name (wi_system wi (req_body r)) system_groups system_bounds resp"
      unfolding body by auto
  next
    assume n: "name \<in> {''RedfishV1ManagersManagerIdPut'', ''RedfishV1ManagersManagerIdPatch''} \<and> bound vars [''ManagerId'']"
    then have "name \<in> set service_stubs" using stubs(3) by blast
    from run [OF this] manager_write [OF assms(1) conjunct1 [OF n] conjunct2 [OF n], of wi ?r s]
    show "s' = s" "\<exists>resp. x = Ok resp \<and> refused_document name (wi_manager wi (req_body r)) manager_groups manager_bounds resp"
      unfolding body by auto
  next
    assume n: "name \<in> {''RedfishV1ManagersManagerIdVirtualMediaVirtualMediaIdPut'',
        ''RedfishV1ManagersManagerIdVirtualMediaVirtualMediaIdPatch''} \<and> bound vars [''ManagerId'', ''VirtualMediaId'']"
    then have "name \<in> set service_stubs" using stubs(4) by blast
    from run [OF this] media_write [OF assms(1) conjunct1 [OF n] conjunct2 [OF n], of wi ?r s]
    show "s' = s" "\<exists>resp. x = Ok resp
        \<and> refused_document name (wi_media wi (req_body r)) media_groups (\<lambda>m. status_bounds (vmedia_Status m)) resp"
      unfolding body by auto
  qed
qed

text \<open>The agent refuses its own system document for the timeout action it lacks.\<close>

definition own_document :: ComputerSystem where
  "own_document = the (m_computerSystem demo)"

definition put_request :: "demo_body request" where
  "put_request = demo_request ''PUT'' ''/redfish/v1/Systems/1'' (Some (''admin'', ''secret'')) '''' (SystemB own_document)"

lemma own_document_groups:
  "find incomplete (system_groups own_document) = Some [(''FunctionEnabled'', False), (''TimeoutAction'', True)]"
  by code_simp

theorem unimplemented_writes_checked_witness:
  "redfish_serve demo_wire ''id'' demo_orders demo_emulator put_request demo_agent
   = (Ok (EncodeJSONResponse [] (MessageBody (error_string (RequiredError ''TimeoutAction''))) 422), demo_agent)"
proof -
  obtain x s' where run: "redfish_serve demo_wire ''id'' demo_orders demo_emulator put_request demo_agent = (x, s')" by force
  have mux: "wi_mux demo_wire put_request = Some (''RedfishV1SystemsComputerSystemIdPut'', [(''ComputerSystemId'', ''1'')])"
    by (simp add: demo_wire_def demo_routes_def put_request_def demo_request_def)
  have auth: "authorised demo_emulator put_request demo_agent"
    by (simp add: authorised_def put_request_def demo_request_def demo_emulator_def)
  have ord: "any_field_order (or_fields demo_orders)" by (simp add: any_field_order_def demo_orders_def)
  have doc: "wi_system demo_wire (req_body put_request) = Inr own_document"
    by (simp add: demo_wire_def put_request_def demo_request_def)
  from unimplemented_writes_checked [OF ord mux auth run] run
  show ?thesis by (auto simp: doc refused_document_def own_document_groups bound_def)
qed

section \<open>The static documents\<close>

text \<open>
  Of the documents that never change only the collection of the virtual media satisfies its schema: the
  collections of the managers and the systems each hold a member and count none, and the service
  root has no identifier and claims a depth below the smallest one.
\<close>

lemma static_documents:
  assumes "any_field_order ord"
  shows "AssertVirtualMediaCollectionVirtualMediaCollectionRequired ord GetVirtualMediaCollection = None"
    and "AssertManagerCollectionManagerCollectionRequired ord GetManagerCollection = Some (RequiredError ''Members@odata.count'')"
    and "AssertComputerSystemCollectionComputerSystemCollectionRequired ord GetComputerSystemCollection
      = Some (RequiredError ''Members@odata.count'')"
    and "AssertServiceRootV1161ServiceRootRequired ord GetServiceRoot = Some (RequiredError ''Id'')"
    and "AssertServiceRootV1161ServiceRootConstraints GetServiceRoot
      = Some (ParsingError ''MaxLevels'' (PlainError errMsgMinValueConstraint))"
proof -
  have one: "required ord g = Some (RequiredError name)" if "map fst (filter snd g) = [name]" for g name
  proof -
    have only: "(n, True) \<in> set g \<longleftrightarrow> n = name" for n
      using arg_cong [OF that, of set] by force
    then have "incomplete g" by (auto simp: incomplete_def)
    then obtain e where "required ord g = Some e" using required_cases(1) [OF assms, of g] by blast
    with required_cases(2) [OF assms this] only show ?thesis by auto
  qed
  have none: "required ord g = None" if "\<not> incomplete g" for g
    using that required_cases(1) [OF assms] by simp
  note documents = GetVirtualMediaCollection_def GetManagerCollection_def GetComputerSystemCollection_def GetServiceRoot_def
    zero_VirtualMediaCollectionVirtualMediaCollection_def zero_ManagerCollectionManagerCollection_def
    zero_ComputerSystemCollectionComputerSystemCollection_def zero_ServiceRootV1161ServiceRoot_def zero_ServiceRootV1161Links_def ref_def
  show "AssertVirtualMediaCollectionVirtualMediaCollectionRequired ord GetVirtualMediaCollection = None"
    by (simp add: AssertVirtualMediaCollectionVirtualMediaCollectionRequired_def documents none incomplete_def checks)
  show "AssertManagerCollectionManagerCollectionRequired ord GetManagerCollection = Some (RequiredError ''Members@odata.count'')"
    by (simp add: AssertManagerCollectionManagerCollectionRequired_def documents one [where name = "''Members@odata.count''"] first_error_Cons)
  show "AssertComputerSystemCollectionComputerSystemCollectionRequired ord GetComputerSystemCollection
      = Some (RequiredError ''Members@odata.count'')"
    by (simp add: AssertComputerSystemCollectionComputerSystemCollectionRequired_def documents
        one [where name = "''Members@odata.count''"] first_error_Cons)
  show "AssertServiceRootV1161ServiceRootRequired ord GetServiceRoot = Some (RequiredError ''Id'')"
    by (simp add: AssertServiceRootV1161ServiceRootRequired_def documents one [where name = "''Id''"] first_error_Cons)
  show "AssertServiceRootV1161ServiceRootConstraints GetServiceRoot
      = Some (ParsingError ''MaxLevels'' (PlainError errMsgMinValueConstraint))"
    by code_simp
qed

end
