(* ===== verification/RouteTable.thy ===== *)
theory RouteTable
  imports ControllersComposition ControllersBlocks ControllersSystems ControllersChassis ControllersPlant
    ControllersServices StubsComposition StubsBlocks StubsSystems StubsChassis StubsPlant StubsServices SchemaRoutes
begin

text \<open>
  The whole table of routes behind \<open>NewRouter\<close>, and what it makes of the mux: whatever order the
  entries are registered in, a request for a served endpoint reaches its handler, any other has no
  effect, and only four endpoints are open to the public.
\<close>

section \<open>The table\<close>

definition api_routes :: Routes where
  "api_routes = root_slash # composition_routes @ block_routes @ system_routes @ chassis_routes @ plant_routes @ service_routes"

lemma api_routes_settled: "list_all settled api_routes"
  by (simp add: settled_def served_routes_def api_routes_def composition_routes_settled block_routes_settled system_routes_settled
      chassis_routes_settled plant_routes_settled service_routes_settled)

text \<open>The controllers of the routes, and the methods of the service that are stubs.\<close>

definition api_operations :: operations where
  "api_operations = composition_operations @ block_operations @ system_operations @ chassis_operations
     @ plant_operations @ service_operations"

definition api_stubs :: "string list" where
  "api_stubs = composition_stubs @ block_stubs @ system_stubs @ chassis_stubs @ plant_stubs @ remaining_stubs"

lemma aligned_append: "aligned rs os \<Longrightarrow> aligned rs' os' \<Longrightarrow> aligned (rs @ rs') (os @ os')"
  by (simp add: aligned_def)

lemma api_aligned: "aligned (tl api_routes) api_operations"
  by (simp add: api_routes_def api_operations_def aligned_append composition_aligned block_aligned system_aligned
      chassis_aligned plant_aligned service_aligned)

lemma api_covered: "covered (tl api_routes) api_stubs"
  using composition_covered block_covered system_covered chassis_covered plant_covered service_covered
  by (auto simp: api_routes_def api_stubs_def covered_def list_all_iff)

lemma aligned_mem:
  "aligned rs os \<Longrightarrow> (k, rt) \<in> set rs \<Longrightarrow> \<exists>body. (rt_HandlerFunc rt, pattern_vars (rt_Pattern rt), body) \<in> set os"
proof -
  assume "aligned rs os" "(k, rt) \<in> set rs"
  then have "(rt_HandlerFunc rt, pattern_vars (rt_Pattern rt)) \<in> set (map (\<lambda>(name, ps, _). (name, ps)) os)"
    unfolding aligned_def by (metis (mono_tags, lifting) case_prod_conv image_eqI set_map)
  then show ?thesis by auto
qed

lemma served_groups:
  "set (root_slash # Routes_Root_1 @ Routes_Metadata_1 @ Routes_SessionService_2 @ Routes_SessionService_3) \<subseteq> set api_routes"
  "set (Routes_Managers_1 @ Routes_Managers_2 @ Routes_Managers_12 @ Routes_Managers_13 @ Routes_Managers_14
      @ Routes_Managers_15) \<subseteq> set api_routes"
  "set (Routes_Systems_1 @ Routes_Systems_2 @ Routes_Systems_4 @ Routes_Systems_5 @ Routes_Systems_16) \<subseteq> set api_routes"
  by (simp_all add: api_routes_def service_routes_def plant_routes_def system_routes_def) blast+

lemma served_in_table: "set served_routes \<subseteq> set api_routes"
proof -
  have "set served_routes \<subseteq>
      set (root_slash # Routes_Root_1 @ Routes_Metadata_1 @ Routes_SessionService_2 @ Routes_SessionService_3) \<union>
      set (Routes_Managers_1 @ Routes_Managers_2 @ Routes_Managers_12 @ Routes_Managers_13 @ Routes_Managers_14
        @ Routes_Managers_15) \<union>
      set (Routes_Systems_1 @ Routes_Systems_2 @ Routes_Systems_4 @ Routes_Systems_5 @ Routes_Systems_16)"
    by (simp add: served_routes_def settled_near under_def path_entries_def Routes_Root_1_def Routes_Metadata_1_def
        Routes_SessionService_2_def Routes_SessionService_3_def Routes_Managers_1_def Routes_Managers_2_def
        Routes_Managers_12_def Routes_Managers_13_def Routes_Managers_14_def Routes_Managers_15_def Routes_Systems_1_def
        Routes_Systems_2_def Routes_Systems_4_def Routes_Systems_5_def Routes_Systems_16_def)
  with served_groups show ?thesis by blast
qed

text \<open>The served entries are apart from each other, but for the two of the service root.\<close>

definition root_entries :: Routes where
  "root_entries = [entry ''RedfishV1'' service_root Get, root_slash]"

lemma served_pairs:
  "list_all (\<lambda>(stem, pat, v). list_all (\<lambda>(stem', pat', v').
     if v = v' then (if pat = pat' then stem = stem' else \<not> overlap pat pat') else True) served_list) served_list"
  by (simp add: settled_near)

lemma root_alone:
  "list_all (\<lambda>(stem, pat, v). if v = Get then pat = service_root \<and> stem = ''RedfishV1'' \<or>
     \<not> overlap pat service_root \<and> \<not> overlap service_root pat else True) served_list"
  by (simp add: settled_near)

lemma list_all_triple: "list_all (\<lambda>(a, b, c). P a b c) xs \<Longrightarrow> (a, b, c) \<in> set xs \<Longrightarrow> P a b c"
  by (auto simp: list_all_iff)

lemma listed_apart:
  assumes "(s, p, v) \<in> set served_list" and "(s', p', v') \<in> set served_list"
  shows "entry s p v = entry s' p' v' \<or> apart (snd (entry s p v)) (snd (entry s' p' v'))"
proof (cases "v = v'")
  case True
  then have "if p = p' then s = s' else \<not> overlap p p'"
    using list_all_triple [OF list_all_triple [OF served_pairs assms(1)] assms(2)] by simp
  with True show ?thesis by (simp add: apart_def entry_def split: if_splits)
next
  case False
  then have "verb_upper v \<noteq> verb_upper v'" using verb_upper_inj by blast
  then show ?thesis by (simp add: apart_def entry_def)
qed

lemma listed_root:
  assumes "(s, p, v) \<in> set served_list"
  shows "entry s p v \<in> set root_entries \<or>
    apart (snd (entry s p v)) (snd root_slash) \<and> apart (snd root_slash) (snd (entry s p v))"
proof (cases "v = Get")
  case True
  then have "p = service_root \<and> s = ''RedfishV1'' \<or> \<not> overlap p service_root \<and> \<not> overlap service_root p"
    using list_all_triple [OF root_alone assms] by simp
  with True show ?thesis by (auto simp: apart_def entry_def root_slash_def root_entries_def)
next
  case False
  then have "verb_upper v \<noteq> ''GET''" by (cases v) simp_all
  then show ?thesis by (simp add: apart_def entry_def root_slash_def)
qed

lemma served_cases:
  assumes "e \<in> set served_routes"
  obtains (slash) "e = root_slash" | (listed) s p v where "(s, p, v) \<in> set served_list" "e = entry s p v"
  using assms by (auto simp: served_routes_def)

lemma served_entry: "(s, p, v) \<in> set served_list \<Longrightarrow> entry s p v \<in> set served_routes"
  by (force simp: served_routes_def)

lemma served_apart:
  assumes "(k, rt) \<in> set served_routes" and "(k', rt') \<in> set served_routes"
  shows "(k, rt) = (k', rt') \<or> apart rt rt' \<or> (k, rt) \<in> set root_entries \<and> (k', rt') \<in> set root_entries"
  using assms(1)
proof (cases rule: served_cases)
  case slash
  show ?thesis
    using assms(2)
  proof (cases rule: served_cases)
    case slash
    then show ?thesis using \<open>(k, rt) = root_slash\<close> by simp
  next
    case (listed s p v)
    show ?thesis using listed_root [OF listed(1)] by (auto simp flip: listed(2) slash simp: root_entries_def)
  qed
next
  case (listed s p v)
  show ?thesis
    using assms(2)
  proof (cases rule: served_cases)
    case slash
    show ?thesis using listed_root [OF listed(1)] by (auto simp flip: listed(2) slash simp: root_entries_def)
  next
    case (listed s' p' v')
    then show ?thesis
      using listed_apart [OF \<open>(s, p, v) \<in> set served_list\<close> listed(1)] \<open>(k, rt) = entry s p v\<close> by (metis snd_conv)
  qed
qed

lemma served_slash: "(k, rt) \<in> set served_routes \<Longrightarrow> rt_Slash rt \<Longrightarrow> (k, rt) = root_slash"
  by (auto simp: served_routes_def entry_def)

lemma served_keys: "(k, rt) \<in> set served_routes \<Longrightarrow> k \<in> set served_names"
  by (force simp: served_names_def)

lemma public_served: "set public_routes \<subseteq> set served_names"
  by (simp add: public_routes_def served_names_def served_eval)

section \<open>What the mux finds\<close>

lemma apart_matches: "matches a r \<Longrightarrow> matches b r \<Longrightarrow> \<not> apart a b"
  by (auto simp: matches_def apart_def dest: fits_overlap)

lemma clear_entry_apart: "clear_entry (k, a) \<Longrightarrow> (k', b) \<in> set served_routes \<Longrightarrow> apart a b"
  by (auto simp: clear_entry_def list_all_iff)

lemma clear_entry_name: "clear_entry (k, a) \<Longrightarrow> k \<notin> set served_names"
  by (auto simp: clear_entry_def list_all_iff served_names_def)

lemma registered: "any_registration reg \<Longrightarrow> set (NewRouter reg routes) = set routes"
proof -
  assume "any_registration reg"
  then have "set (reg routes) = set routes"
    unfolding any_registration_def by (metis set_mset_mset)
  then show ?thesis by (auto simp: NewRouter_def)
qed

lemma found_entry:
  assumes "any_registration reg" and "find (\<lambda>(k, rt). matches rt r) (NewRouter reg api_routes) = Some (k, rt)"
  shows "settled (k, rt)" and "matches rt r"
proof -
  have "(k, rt) \<in> set (NewRouter reg api_routes) \<and> matches rt r"
    using assms(2) by (metis (mono_tags, lifting) case_prod_conv find_Some_iff nth_mem)
  then show "settled (k, rt)" "matches rt r"
    using api_routes_settled by (auto simp: registered [OF assms(1)] list_all_iff)
qed

lemma found_served:
  assumes "any_registration reg" and "(k, rt) \<in> set served_routes" and "matches rt r"
  obtains k' rt' where "find (\<lambda>(k, rt). matches rt r) (NewRouter reg api_routes) = Some (k', rt')"
    and "(k', rt') = (k, rt) \<or> (k, rt) \<in> set root_entries \<and> (k', rt') \<in> set root_entries"
proof -
  have "(k, rt) \<in> set (NewRouter reg api_routes)"
    using assms(2) served_in_table registered [OF assms(1)] by auto
  then have "find (\<lambda>(k, rt). matches rt r) (NewRouter reg api_routes) \<noteq> None"
    using assms(3) unfolding find_None_iff by blast
  then obtain k' rt' where found: "find (\<lambda>(k, rt). matches rt r) (NewRouter reg api_routes) = Some (k', rt')"
    by auto
  note f = found_entry [OF assms(1) found]
  have "\<not> apart rt' rt" using apart_matches [OF f(2) assms(3)] .
  moreover have "\<not> clear_entry (k', rt')" using calculation clear_entry_apart assms(2) by blast
  ultimately have "(k', rt') \<in> set served_routes" using f(1) by (simp add: settled_def)
  from served_apart [OF this assms(2)] \<open>\<not> apart rt' rt\<close> have "(k', rt') = (k, rt) \<or> (k, rt) \<in> set root_entries \<and> (k', rt') \<in> set root_entries"
    by blast
  with found that show ?thesis by blast
qed


section \<open>Requests for a served endpoint\<close>

text \<open>C19. A request for a served endpoint reaches the handler of that endpoint with the variables of its path,
  in whatever order the entries of the table are registered: no other of its 4034 entries can take it.
  The service root alone is excepted, which has two entries.\<close>

theorem served_requests_reach_handlers:
  assumes "documented_mux mx" and "any_registration reg" and "(k, rt) \<in> set served_routes"
    and "(k, rt) \<notin> set root_entries" and "matches rt r" and "clean_path (req_path r)" and "\<not> path_slash (req_path r)"
  shows "router_serve mx (NewRouter reg api_routes) wi uuid ord em r =
    redfish_serve (wi\<lparr>wi_mux := (\<lambda>_. Some (k, bindings (rt_Pattern rt) (path_segments (req_path r))))\<rparr>) uuid ord em r"
proof -
  have found: "find (\<lambda>(k, rt). matches rt r) (NewRouter reg api_routes) = Some (k, rt)"
    using found_served [OF assms(2,3,5)] assms(4) by metis
  have "\<not> rt_Slash rt"
    using served_slash [OF assms(3)] assms(4) by (auto simp: root_entries_def)
  with mux_find [OF assms(1,6) found] assms(7)
  have "mx (NewRouter reg api_routes) r = MuxFound k (bindings (rt_Pattern rt) (path_segments (req_path r)))"
    by simp
  then show ?thesis by (simp add: router_serve_def)
qed

section \<open>All other requests\<close>

lemma stub_controller_checked:
  assumes "\<And>name r vars. schema_check (wi_stub_checks wi name r vars)"
  shows "refuses (stub_controller wi ord name vars r)"
  unfolding stub_controller_def stub_controller_defs
  by (intro refuses_if refusals schema_checks assms)

lemma operation_error_check:
  assumes "\<And>t b. schema_check (bc_required bc t b)" and "\<And>t b. schema_check (bc_constraints bc t b)"
  shows "schema_check (operation_error bc os name r vars)"
proof -
  have parse: "schema_check (map_option (ParsingError '''') e)" for e
    by (simp add: schema_check_def split: option.split)
  have "schema_check (demand_error bc body b)" for body b
    by (cases body) (simp_all, (intro schema_checks parse assms)+)
  moreover have "schema_check (Some (RequiredError p))" for p by (simp add: schema_check_def)
  ultimately show ?thesis
    by (auto simp: operation_error_def schema_check_basic split: option.split)
qed

lemma controller_unserved:
  assumes "name \<notin> set served_names"
  shows "controller wi uuid ord svc name vars r = stub_controller wi ord name vars r"
proof -
  have "(name = c) = False" if "c \<in> set served_names" for c using that assms by auto
  then show ?thesis
    unfolding controller_def by (simp add: served_names_def served_eval)
qed

text \<open>The outcome of the router for an entry that is not served, by authorisation.\<close>

definition harmless :: "bool \<Rightarrow> ('m redfish, payload response) op \<Rightarrow> 'm redfish \<Rightarrow> bool" where
  "harmless auth h s \<longleftrightarrow> (\<exists>resp. h s = (Ok resp, s) \<and>
     resp_code resp \<in> {301, 404, 405} \<union> (if auth then {400, 422, 501} else {401}))"

definition served_request :: "'b request \<Rightarrow> bool" where
  "served_request r \<longleftrightarrow> list_ex (\<lambda>(k, rt). matches rt r) served_routes"

text \<open>C20. A request for any other endpoint of the API has no effect, and neither has one for no endpoint at all:
  whatever the order of registration, it is redirected (301), not found (404), refused for its method
  (405), refused by the checks of its controller (400, 422), or not implemented (501); without
  authorisation it is never told more than 401; and none of the 4016 stubs panics.\<close>

theorem other_requests_harmless:
  assumes "documented_mux mx" and "any_registration reg" and "\<not> served_request r"
    and "\<And>t b. schema_check (bc_required bc t b)" and "\<And>t b. schema_check (bc_constraints bc t b)"
  shows "harmless (authorised em r s)
    (router_serve mx (NewRouter reg api_routes) (api_wire bc api_operations wi) uuid ord em r) s"
proof -
  have other: "settled (k, rt) \<Longrightarrow> matches rt r \<Longrightarrow> k \<notin> set served_names" for k rt
    using assms(3) by (auto simp: settled_def served_request_def list_ex_iff dest: clear_entry_name)
  from assms(1) show ?thesis
  proof (cases rule: mux_outcomes [where r = r and routes = "NewRouter reg api_routes"])
    case (moved k rt resp)
    then have "k \<notin> set public_routes"
      using other found_entry [OF assms(2)] public_served by blast
    with moved show ?thesis
      by (simp add: harmless_def router_serve_def AuthMiddleware_cases ret_def unauthorized_def http_error_def)
  next
    case (found k rt)
    then have k: "k \<notin> set served_names"
      using other found_entry [OF assms(2)] by blast
    then have "k \<notin> set public_routes" using public_served by blast
    moreover let ?wi = "api_wire bc api_operations wi\<lparr>wi_mux := (\<lambda>_. Some (k, bindings (rt_Pattern rt) (path_segments (req_path r))))\<rparr>"
    let ?r = "case req_basic_auth r of None \<Rightarrow> r | Some (u, p) \<Rightarrow> r\<lparr>req_user := Some u\<rparr>"
    have "schema_check (wi_stub_checks ?wi name r vars)" for name r vars
      using operation_error_check [OF assms(4,5)] by (simp add: api_wire_def)
    then have "refuses (stub_controller ?wi ord k (bindings (rt_Pattern rt) (path_segments (req_path r))) ?r)"
      by (rule stub_controller_checked)
    then obtain resp where
      "stub_controller ?wi ord k (bindings (rt_Pattern rt) (path_segments (req_path r))) ?r s = (Ok resp, s)"
      "resp_code resp \<in> {400, 422, 501}"
      unfolding refuses_def by blast
    ultimately show ?thesis using found k
      by (auto simp: harmless_def router_serve_def redfish_serve_def AuthMiddleware_cases controller_unserved
          unauthorized_def http_error_def)
  qed (auto simp: harmless_def router_serve_def mux_not_found_def http_error_def method_not_allowed_def)
qed

section \<open>Authorisation by endpoint\<close>

text \<open>The endpoints that are open to the public.\<close>

definition public_request :: "'b request \<Rightarrow> bool" where
  "public_request r \<longleftrightarrow>
     req_method r = ''GET'' \<and> path_segments (req_path r) \<in> {[''redfish'', ''v1''], [''redfish'', ''v1'', ''$metadata'']} \<or>
     req_method r = ''POST'' \<and> path_segments (req_path r) = [''redfish'', ''v1'', ''SessionService'', ''Sessions'']"

lemma fits_literals: "fits (map Lit ws) vs \<longleftrightarrow> vs = ws"
  by (induction "map Lit ws" vs arbitrary: ws rule: fits.induct) auto

lemma public_entry:
  assumes "(k, rt) \<in> set served_routes" and "k \<in> set public_routes" and "matches rt r"
  shows "public_request r"
proof -
  have "list_all (\<lambda>(k, rt). k \<in> set public_routes \<longrightarrow>
      (rt_Method rt, rt_Pattern rt) \<in> {(''GET'', map Lit [''redfish'', ''v1'']), (''GET'', map Lit [''redfish'', ''v1'', ''$metadata'']),
        (''POST'', map Lit [''redfish'', ''v1'', ''SessionService'', ''Sessions''])}) served_routes"
    by (simp add: served_eval public_routes_def)
  then show ?thesis
    using assms by (auto simp: list_all_iff matches_def public_request_def fits_literals simp del: list.map)
qed

text \<open>C2. Only the service root, the metadata document and the creation of a session are open: a request for any
  other endpoint that is not authorised is answered 401 or not routed at all (301 for an unclean path,
  404, 405), and changes nothing, in whatever order the entries are registered.\<close>

theorem endpoints_protected:
  assumes "documented_mux mx" and "any_registration reg" and "\<not> public_request r" and "\<not> authorised em r s"
  shows "\<exists>resp. router_serve mx (NewRouter reg api_routes) wi uuid ord em r s = (Ok resp, s) \<and>
    resp_code resp \<in> {401, 404, 405} \<union> (if clean_path (req_path r) then {} else {301})"
proof -
  have other: "k \<notin> set public_routes" if "settled (k, rt)" "matches rt r" for k rt
    using that public_entry [OF _ _ that(2)] public_served assms(3) clear_entry_name
    by (auto simp: settled_def)
  from assms(1) show ?thesis
  proof (cases rule: mux_outcomes [where r = r and routes = "NewRouter reg api_routes"])
    case (moved k rt resp)
    then have "k \<notin> set public_routes" using other found_entry [OF assms(2)] by blast
    with moved assms(4) show ?thesis
      by (simp add: router_serve_def AuthMiddleware_cases unauthorized_def http_error_def)
  next
    case (found k rt)
    then have "k \<notin> set public_routes" using other found_entry [OF assms(2)] by blast
    with found assms(4) show ?thesis
      by (simp add: router_serve_def redfish_serve_def AuthMiddleware_cases unauthorized_def http_error_def)
  qed (auto simp: router_serve_def ret_def mux_not_found_def http_error_def method_not_allowed_def)
qed

section \<open>The service root\<close>

text \<open>The order that registers one entry before all others.\<close>

definition registered_first :: "string \<times> Route \<Rightarrow> registration_order" where
  "registered_first e routes = filter (\<lambda>x. x = e) routes @ filter (\<lambda>x. x \<noteq> e) routes"

lemma registered_first_any: "any_registration (registered_first e)"
  by (simp add: any_registration_def registered_first_def mset_filter flip: multiset_partition)

lemma root_entries_served: "set root_entries \<subseteq> set served_routes"
  using served_entry [of _ service_root Get] by (simp add: root_entries_def served_list_def served_routes_def)

lemma root_handler_listed: "entry ''RedfishV1'' service_root Get \<in> set (tl api_routes)"
proof -
  have "entry ''RedfishV1'' service_root Get \<in> set root_entries" by (simp add: root_entries_def)
  then have "entry ''RedfishV1'' service_root Get \<in> set api_routes"
    using root_entries_served served_in_table by blast
  moreover have "entry ''RedfishV1'' service_root Get \<noteq> root_slash" by (simp add: entry_def root_slash_def)
  ultimately show ?thesis unfolding api_routes_def list.sel list.set(2) by blast
qed

lemma root_entries_public: "(k, rt) \<in> set root_entries \<Longrightarrow> k \<in> set public_routes"
  by (auto simp: root_entries_def root_slash_def entry_def public_routes_def)

lemma root_entries_match:
  "(k, rt) \<in> set root_entries \<Longrightarrow> matches rt r \<longleftrightarrow> req_method r = ''GET'' \<and> path_segments (req_path r) = [''redfish'', ''v1'']"
  using fits_literals [of "[''redfish'', ''v1'']" "path_segments (req_path r)"]
  by (auto simp: root_entries_def root_slash_def entry_def matches_def service_root_def)

lemma find_skip: "\<forall>x\<in>set xs. \<not> P x \<Longrightarrow> find P (xs @ ys) = find P ys"
  by (induction xs) auto

lemma find_registered_first:
  assumes "\<forall>x\<in>set xs. \<not> P x" and "e \<in> set ys" and "Q e" and "P e"
  shows "find P (xs @ filter Q (filter (\<lambda>x. x = e) ys @ zs)) = Some e"
proof -
  have "filter (\<lambda>x. x = e) ys = e # tl (filter (\<lambda>x. x = e) ys)"
    using assms(2) by (cases "filter (\<lambda>x. x = e) ys") (auto simp: filter_empty_conv dest: filter_eq_ConsD)
  then have "filter Q (filter (\<lambda>x. x = e) ys @ zs) = e # filter Q (tl (filter (\<lambda>x. x = e) ys) @ zs)"
    using assms(3) by (metis append_Cons filter.simps(2))
  then show ?thesis using find_skip [OF assms(1)] assms(4) by simp
qed

text \<open>Whichever of the two entries of the service root is registered first takes the requests for both paths.\<close>

lemma found_root:
  assumes "e \<in> set root_entries" and "req_method r = ''GET''" and "path_segments (req_path r) = [''redfish'', ''v1'']"
  shows "find (\<lambda>(k, rt). matches rt r) (NewRouter (registered_first e) api_routes) = Some e"
proof -
  obtain k rt where e: "e = (k, rt)" by force
  have match: "matches rt r" and served: "(k, rt) \<in> set served_routes"
    using assms e root_entries_match root_entries_served by auto
  have only: "(k', rt') \<in> set root_entries" if "(k', rt') \<in> set api_routes" "matches rt' r" for k' rt'
  proof -
    have "\<not> apart rt' rt" using apart_matches [OF that(2) match] .
    moreover have "settled (k', rt')" using that(1) api_routes_settled by (auto simp: list_all_iff)
    ultimately have "(k', rt') \<in> set served_routes"
      using clear_entry_apart served by (auto simp: settled_def)
    from served_apart [OF this served] \<open>\<not> apart rt' rt\<close> assms(1) e show ?thesis by auto
  qed
  show ?thesis
    unfolding NewRouter_def registered_first_def [of e api_routes]
    by (rule find_registered_first)
      (use assms(1) e match served only root_entries_public served_in_table in \<open>auto simp: registered_first_def\<close>)
qed

text \<open>C39. The service root has two entries, one for each spelling of its path, and either can answer the requests
  for both: depending on the order in which \<open>NewRouter\<close> happens to range over the map, a request for it
  is answered by the handler or redirected to the other spelling.\<close>

theorem service_root_depends_on_order:
  assumes "documented_mux mx" and "req_method r = ''GET''" and "path_segments (req_path r) = [''redfish'', ''v1'']"
    and "clean_path (req_path r)"
  shows "\<exists>reg reg' resp. any_registration reg \<and> any_registration reg' \<and>
    router_serve mx (NewRouter reg api_routes) wi uuid ord em r = C_Get (em_service em) \<and>
    router_serve mx (NewRouter reg' api_routes) wi uuid ord em r = ret resp \<and> resp_code resp = 301"
proof -
  let ?plain = "entry ''RedfishV1'' service_root Get"
  define here where "here = (if path_slash (req_path r) then root_slash else ?plain)"
  define there where "there = (if path_slash (req_path r) then ?plain else root_slash)"
  have es: "here \<in> set root_entries" "there \<in> set root_entries"
    by (auto simp: here_def there_def root_entries_def)
  obtain k rt where h: "here = (k, rt)" by force
  obtain k' rt' where t: "there = (k', rt')" by force
  have sl: "rt_Slash rt = path_slash (req_path r)" "rt_Slash rt' \<noteq> path_slash (req_path r)"
    using h t by (auto simp: here_def there_def root_slash_def entry_def split: if_splits)
  have "mx (NewRouter (registered_first here) api_routes) r = MuxFound k (bindings (rt_Pattern rt) (path_segments (req_path r)))"
    using mux_find [OF assms(1,4) found_root [OF es(1) assms(2,3), unfolded h]] sl(1) h by simp
  then have found: "router_serve mx (NewRouter (registered_first here) api_routes) wi uuid ord em r = C_Get (em_service em)"
    using h by (auto simp: router_serve_def redfish_serve_def public_routes_def controller_def here_def root_slash_def
        entry_def split: if_splits)
  obtain resp where "mx (NewRouter (registered_first there) api_routes) r = MuxMoved (Some k') resp" "resp_code resp = 301"
    using mux_find [OF assms(1,4) found_root [OF es(2) assms(2,3), unfolded t]] sl(2) t by auto
  moreover have "k' \<in> set public_routes" using es(2) t root_entries_public by auto
  ultimately have "router_serve mx (NewRouter (registered_first there) api_routes) wi uuid ord em r = ret resp"
    by (simp add: router_serve_def)
  with found \<open>resp_code resp = 301\<close> show ?thesis using registered_first_any by blast
qed


section \<open>Routes, controllers and service methods\<close>

lemma bindings_of_fit:
  "fits ps ws \<Longrightarrow> map fst (bindings ps ws) = pattern_vars ps \<and> list_all (\<lambda>(_, v). v \<noteq> '''') (bindings ps ws)"
  by (induction ps ws rule: fits.induct) auto

text \<open>C37. The three tables fit together: a request the mux routes has a controller, whose path variables are those
  the mux has bound, none of them empty, so that no controller ever misses one; and the service method
  the controller calls is one of the sixteen implemented ones or a stub.\<close>

theorem routed_requests_have_controllers:
  assumes "documented_mux mx" and "any_registration reg" and "mx (NewRouter reg api_routes) r = MuxFound name vars"
  shows "\<exists>rt params body. (name, rt) \<in> set api_routes \<and> (rt_HandlerFunc rt, params, body) \<in> set api_operations \<and>
    map fst vars = params \<and> list_all (\<lambda>(_, v). v \<noteq> '''') vars \<and>
    (rt_HandlerFunc rt \<in> set implemented_methods \<or> rt_HandlerFunc rt \<in> set api_stubs)"
  using assms(1)
proof (cases rule: mux_outcomes [where r = r and routes = "NewRouter reg api_routes"])
  case (found k rt)
  then have v: "k = name" "vars = bindings (rt_Pattern rt) (path_segments (req_path r))" using assms(3) by auto
  have "(k, rt) \<in> set (NewRouter reg api_routes)" and match: "matches rt r"
    using found(2) found_entry(2) [OF assms(2)] by (metis (mono_tags, lifting) case_prod_conv find_Some_iff nth_mem)+
  then have mem: "(name, rt) \<in> set api_routes" using registered [OF assms(2)] v(1) by blast
  have "(\<exists>body. (rt_HandlerFunc rt, pattern_vars (rt_Pattern rt), body) \<in> set api_operations) \<and>
      (rt_HandlerFunc rt \<in> set implemented_methods \<or> rt_HandlerFunc rt \<in> set api_stubs)"
  proof (cases "(name, rt) = root_slash")
    case True
    have "entry ''RedfishV1'' service_root Get \<in> set (tl api_routes)"
      by (rule root_handler_listed)
    from aligned_mem [OF api_aligned this [unfolded entry_def]] True show ?thesis
      by (simp add: root_slash_def implemented_methods_def)
  next
    case False
    then have "(name, rt) \<in> set (tl api_routes)" using mem by (auto simp: api_routes_def)
    with aligned_mem [OF api_aligned this] api_covered show ?thesis by (auto simp: covered_def list_all_iff)
  qed
  with mem bindings_of_fit [of "rt_Pattern rt" "path_segments (req_path r)"] match v show ?thesis
    unfolding matches_def by metis
qed (use assms(3) in auto)

section \<open>Examples\<close>

text \<open>A mux that behaves as documented, for the witnesses.\<close>

definition moved :: "'b request \<Rightarrow> payload response" where
  "moved r = \<lparr>resp_code = 301, resp_headers = [(''Location'', req_path r)], resp_body = NoBody\<rparr>"

definition first_mux :: "'b mux" where
  "first_mux routes r =
     (if \<not> clean_path (req_path r) then MuxMoved None (moved r)
      else case find (\<lambda>(k, rt). matches rt r) routes of
        None \<Rightarrow> MuxNotFound
      | Some (k, rt) \<Rightarrow>
          if rt_Slash rt = path_slash (req_path r)
          then MuxFound k (bindings (rt_Pattern rt) (path_segments (req_path r)))
          else MuxMoved (Some k) (moved r))"

lemma first_mux_documented [simp]: "documented_mux first_mux"
  by (auto simp: documented_mux_def first_mux_def moved_def split: option.split)

lemma map_order [simp]: "any_registration (\<lambda>routes. routes)"
  by (simp add: any_registration_def)

definition reset_route :: "string \<times> Route" where
  "reset_route = entry ''RedfishV1SystemsComputerSystemIdActionsComputerSystemReset''
     (system_path @ [Lit ''Actions'', Lit ''ComputerSystem.Reset'']) Post"

theorem served_requests_reach_handlers_witness:
  "router_serve first_mux (NewRouter (\<lambda>routes. routes) api_routes) demo_wire ''id'' demo_orders demo_emulator bad_request =
    redfish_serve (demo_wire\<lparr>wi_mux :=
      (\<lambda>_. Some (''RedfishV1SystemsComputerSystemIdActionsComputerSystemResetPost'', [(''ComputerSystemId'', ''1'')]))\<rparr>)
      ''id'' demo_orders demo_emulator bad_request"
proof -
  have "reset_route \<in> set served_routes" by (simp add: reset_route_def served_entry served_list_def)
  moreover have "reset_route \<notin> set root_entries" by code_simp
  moreover have "matches (snd reset_route) bad_request" by code_simp
  moreover have "clean_path (req_path bad_request)" by code_simp
  moreover have "\<not> path_slash (req_path bad_request)" by code_simp
  moreover have "bindings (rt_Pattern (snd reset_route)) (path_segments (req_path bad_request)) = [(''ComputerSystemId'', ''1'')]"
    by code_simp
  moreover have "fst reset_route = ''RedfishV1SystemsComputerSystemIdActionsComputerSystemResetPost''" by code_simp
  ultimately show ?thesis
    using served_requests_reach_handlers [OF first_mux_documented map_order, of "fst reset_route" "snd reset_route" bad_request,
        unfolded prod.collapse]
    by simp
qed

definition demo_checks :: "demo_body body_checks" where
  "demo_checks =
     \<lparr>bc_decode = (\<lambda>_ _. None), bc_required = (\<lambda>_ _. Some (RequiredError ''Id'')), bc_constraints = (\<lambda>_ _. None)\<rparr>"

definition chassis_request :: "demo_body request" where
  "chassis_request = demo_request ''GET'' ''/redfish/v1/Chassis'' (Some (''admin'', ''secret'')) '''' (MapB [])"

theorem other_requests_harmless_witness:
  "harmless (authorised demo_emulator chassis_request demo_agent)
     (router_serve first_mux (NewRouter (\<lambda>routes. routes) api_routes) (api_wire demo_checks api_operations demo_wire)
       ''id'' demo_orders demo_emulator chassis_request)
     demo_agent"
proof -
  have "\<not> served_request chassis_request" by code_simp
  moreover have "schema_check (bc_required demo_checks t b)" "schema_check (bc_constraints demo_checks t b)" for t b
    by (simp_all add: demo_checks_def schema_check_def)
  ultimately show ?thesis by (rule other_requests_harmless [OF first_mux_documented map_order])
qed

theorem endpoints_protected_witness:
  "\<exists>resp. router_serve first_mux (NewRouter (\<lambda>routes. routes) api_routes) demo_wire ''id'' demo_orders demo_emulator
      bad_request demo_agent = (Ok resp, demo_agent) \<and> resp_code resp \<in> {401, 404, 405}"
proof -
  have "\<not> public_request bad_request" "clean_path (req_path bad_request)" by code_simp+
  then show ?thesis
    using endpoints_protected [OF first_mux_documented map_order _ bad_not_authorised] by simp
qed

definition root_request :: "demo_body request" where
  "root_request = demo_request ''GET'' ''/redfish/v1/'' None '''' (MapB [])"

theorem service_root_depends_on_order_witness:
  "\<exists>reg reg' resp. any_registration reg \<and> any_registration reg' \<and>
    router_serve first_mux (NewRouter reg api_routes) demo_wire ''id'' demo_orders demo_emulator root_request
      = C_Get (em_service demo_emulator) \<and>
    router_serve first_mux (NewRouter reg' api_routes) demo_wire ''id'' demo_orders demo_emulator root_request = ret resp \<and>
    resp_code resp = 301"
proof -
  have "req_method root_request = ''GET''" "path_segments (req_path root_request) = [''redfish'', ''v1'']"
    "clean_path (req_path root_request)" by code_simp+
  then show ?thesis by (rule service_root_depends_on_order [OF first_mux_documented])
qed


theorem routed_requests_have_controllers_witness:
  "\<exists>rt params body. (''RedfishV1SystemsComputerSystemIdActionsComputerSystemResetPost'', rt) \<in> set api_routes \<and>
    (rt_HandlerFunc rt, params, body) \<in> set api_operations \<and> map fst [(''ComputerSystemId'', ''1'')] = params \<and>
    list_all (\<lambda>(_, v). v \<noteq> '''') [(''ComputerSystemId'', ''1''::string)] \<and>
    (rt_HandlerFunc rt \<in> set implemented_methods \<or> rt_HandlerFunc rt \<in> set api_stubs)"
proof -
  have "reset_route \<in> set served_routes" by (simp add: reset_route_def served_entry served_list_def)
  then have served: "(fst reset_route, snd reset_route) \<in> set served_routes" by simp
  have match: "matches (snd reset_route) bad_request" and clean: "clean_path (req_path bad_request)"
    and slash: "rt_Slash (snd reset_route) = path_slash (req_path bad_request)"
    and other: "(fst reset_route, snd reset_route) \<notin> set root_entries"
    and name: "fst reset_route = ''RedfishV1SystemsComputerSystemIdActionsComputerSystemResetPost''"
    and vars: "bindings (rt_Pattern (snd reset_route)) (path_segments (req_path bad_request)) = [(''ComputerSystemId'', ''1'')]"
    by code_simp+
  have "find (\<lambda>(k, rt). matches rt bad_request) (NewRouter (\<lambda>routes. routes) api_routes) = Some (fst reset_route, snd reset_route)"
    using found_served [OF map_order served match] other by metis
  from mux_find [OF first_mux_documented clean this] slash
  have "first_mux (NewRouter (\<lambda>routes. routes) api_routes) bad_request =
      MuxFound ''RedfishV1SystemsComputerSystemIdActionsComputerSystemResetPost'' [(''ComputerSystemId'', ''1'')]"
    unfolding name vars by simp
  from routed_requests_have_controllers [OF first_mux_documented map_order this] show ?thesis .
qed

end
