(* ===== verification/AgentLifecycle.thy ===== *)
theory AgentLifecycle
  imports Agent
begin

text \<open>
  The running process of the agent: \<open>run\<close> of cmd/virtbmc with its signals, the end of \<open>VirtBMC.Run\<close> and
  \<open>Run\<close> and \<open>Stop\<close> of the Redfish emulator (pkg/redfish/emulator.go), whose server listens in a goroutine of its
  own.  Main, goroutine and environment interleave as a step relation.  The simulator is goipmi's:
  \<open>ipmi_stops n\<close>, a parameter, says whether its \<open>Stop\<close> may return while \<open>n\<close> commands are being served,
  so that it may or may not wait for them; of it is only asked that it returns when there are none.
  \<open>net/http\<close> behaves as documented:
  \<open>ListenAndServe\<close> returns an error when it cannot listen and \<open>ErrServerClosed\<close> once \<open>Shutdown\<close> has begun;
  \<open>Shutdown\<close> closes the listener and waits for it, then waits for the open requests until its
  context is done.
\<close>

section \<open>State\<close>

datatype main_phase = AwaitDone | StopIpmi | ShutdownServer | AwaitServer | Returned | Killed

datatype goroutine_phase = Starting | Accepting | Finished

record process =
  pr_ctx_done :: bool
  pr_main :: main_phase
  pr_goroutine :: goroutine_phase
  pr_in_shutdown :: bool
  pr_in_flight :: nat
  pr_commands :: nat
  pr_printed :: "string list"

definition started :: process where
  "started =
     \<lparr>pr_ctx_done = False, pr_main = AwaitDone, pr_goroutine = Starting, pr_in_shutdown = False, pr_in_flight = 0, pr_commands = 0,
      pr_printed = []\<rparr>"

definition alive :: "process \<Rightarrow> bool" where
  "alive s \<longleftrightarrow> pr_main s \<noteq> Returned \<and> pr_main s \<noteq> Killed"

section \<open>Steps\<close>

text \<open>The goroutine of \<open>Emulator.Run\<close>: every error but \<open>ErrServerClosed\<close> is printed and nothing else.\<close>

inductive serve_step :: "process \<Rightarrow> process \<Rightarrow> bool" where
  listens: "pr_goroutine s = Starting \<Longrightarrow> \<not> pr_in_shutdown s \<Longrightarrow> serve_step s (s\<lparr>pr_goroutine := Accepting\<rparr>)"
| fails: "pr_goroutine s \<noteq> Finished \<Longrightarrow> serve_step s (s\<lparr>pr_goroutine := Finished, pr_printed := pr_printed s @ [err]\<rparr>)"
| closed: "pr_goroutine s \<noteq> Finished \<Longrightarrow> pr_in_shutdown s \<Longrightarrow> serve_step s (s\<lparr>pr_goroutine := Finished\<rparr>)"

text \<open>The end of \<open>VirtBMC.Run\<close>, with \<open>Emulator.Stop\<close>: \<open>Shutdown\<close> is given the context whose end began it all.\<close>

inductive stop_step :: "(nat \<Rightarrow> bool) \<Rightarrow> process \<Rightarrow> process \<Rightarrow> bool" for ipmi_stops :: "nat \<Rightarrow> bool" where
  cancelled: "pr_main s = AwaitDone \<Longrightarrow> pr_ctx_done s \<Longrightarrow> stop_step ipmi_stops s (s\<lparr>pr_main := StopIpmi\<rparr>)"
| ipmi_stopped: "pr_main s = StopIpmi \<Longrightarrow> ipmi_stops (pr_commands s) \<Longrightarrow>
    stop_step ipmi_stops s (s\<lparr>pr_main := ShutdownServer, pr_in_shutdown := True\<rparr>)"
| idle: "pr_main s = ShutdownServer \<Longrightarrow> pr_goroutine s \<noteq> Accepting \<Longrightarrow> pr_in_flight s = 0 \<Longrightarrow>
    stop_step ipmi_stops s (s\<lparr>pr_main := AwaitServer\<rparr>)"
| expired: "pr_main s = ShutdownServer \<Longrightarrow> pr_goroutine s \<noteq> Accepting \<Longrightarrow> 0 < pr_in_flight s \<Longrightarrow> pr_ctx_done s \<Longrightarrow>
    stop_step ipmi_stops s (s\<lparr>pr_main := AwaitServer, pr_printed := pr_printed s @ [''context canceled'']\<rparr>)"
| returns: "pr_main s = AwaitServer \<Longrightarrow> pr_goroutine s = Finished \<Longrightarrow> stop_step ipmi_stops s (s\<lparr>pr_main := Returned\<rparr>)"

text \<open>
  The signals of \<open>run\<close>: the first interrupt cancels the context, a second one exits, and so does a
  signal that is not asked for, such as a termination.
\<close>

inductive signal_step :: "process \<Rightarrow> process \<Rightarrow> bool" where
  interrupt: "\<not> pr_ctx_done s \<Longrightarrow> signal_step s (s\<lparr>pr_ctx_done := True\<rparr>)"
| interrupt_again: "pr_ctx_done s \<Longrightarrow> signal_step s (s\<lparr>pr_main := Killed\<rparr>)"
| terminate: "signal_step s (s\<lparr>pr_main := Killed\<rparr>)"

inductive client_step :: "process \<Rightarrow> process \<Rightarrow> bool" where
  request: "pr_goroutine s = Accepting \<Longrightarrow> \<not> pr_in_shutdown s \<Longrightarrow> client_step s (s\<lparr>pr_in_flight := Suc (pr_in_flight s)\<rparr>)"
| answered: "pr_in_flight s = Suc n \<Longrightarrow> client_step s (s\<lparr>pr_in_flight := n\<rparr>)"
| command: "pr_main s \<in> {AwaitDone, StopIpmi} \<Longrightarrow> client_step s (s\<lparr>pr_commands := Suc (pr_commands s)\<rparr>)"
| served_command: "pr_commands s = Suc n \<Longrightarrow> client_step s (s\<lparr>pr_commands := n\<rparr>)"

text \<open>The process: its own steps and those of its environment, until it is gone.\<close>

definition own_step :: "(nat \<Rightarrow> bool) \<Rightarrow> process \<Rightarrow> process \<Rightarrow> bool" where
  "own_step ipmi_stops s t \<longleftrightarrow> alive s \<and> (serve_step s t \<or> stop_step ipmi_stops s t)"

definition other_step :: "process \<Rightarrow> process \<Rightarrow> bool" where
  "other_step s t \<longleftrightarrow> alive s \<and> (signal_step s t \<or> client_step s t)"

text \<open>A run, with the number of the process's own steps in it.\<close>

inductive process_run :: "(nat \<Rightarrow> bool) \<Rightarrow> process \<Rightarrow> nat \<Rightarrow> process \<Rightarrow> bool"
  for ipmi_stops :: "nat \<Rightarrow> bool" and s0 :: process where
  start: "process_run ipmi_stops s0 0 s0"
| own: "process_run ipmi_stops s0 k s \<Longrightarrow> own_step ipmi_stops s t \<Longrightarrow> process_run ipmi_stops s0 (Suc k) t"
| other: "process_run ipmi_stops s0 k s \<Longrightarrow> other_step s t \<Longrightarrow> process_run ipmi_stops s0 k t"

inductive_cases serve_cases: "serve_step s t"
inductive_cases stop_cases: "stop_step ipmi_stops s t"
inductive_cases signal_cases: "signal_step s t"
inductive_cases client_cases: "client_step s t"

section \<open>Stopping\<close>

text \<open>Once the server is to be stopped it is closed to new requests.\<close>

definition process_inv :: "process \<Rightarrow> bool" where
  "process_inv s \<longleftrightarrow> (pr_main s \<in> {ShutdownServer, AwaitServer} \<longrightarrow> pr_in_shutdown s)"

lemma own_inv: "own_step ipmi_stops s t \<Longrightarrow> process_inv s \<Longrightarrow> process_inv t"
  by (auto simp: own_step_def process_inv_def elim!: serve_cases stop_cases)

lemma other_inv: "other_step s t \<Longrightarrow> process_inv s \<Longrightarrow> process_inv t"
  by (auto simp: other_step_def process_inv_def elim!: signal_cases client_cases)

lemma process_run_inv: "process_run ipmi_stops s k t \<Longrightarrow> process_inv s \<Longrightarrow> process_inv t"
  by (induction rule: process_run.induct) (auto dest: own_inv other_inv)

text \<open>What is left to do, in steps of main and of the goroutine.\<close>

fun main_work :: "main_phase \<Rightarrow> nat" where
  "main_work AwaitDone = 4"
| "main_work StopIpmi = 3"
| "main_work ShutdownServer = 2"
| "main_work AwaitServer = 1"
| "main_work _ = 0"

fun goroutine_work :: "goroutine_phase \<Rightarrow> nat" where
  "goroutine_work Starting = 2"
| "goroutine_work Accepting = 1"
| "goroutine_work Finished = 0"

definition work :: "process \<Rightarrow> nat" where
  "work s = main_work (pr_main s) + goroutine_work (pr_goroutine s)"

lemma own_work: "own_step ipmi_stops s t \<Longrightarrow> work t < work s"
  by (cases "pr_goroutine s") (auto simp: own_step_def work_def elim!: serve_cases stop_cases)

lemma other_work: "other_step s t \<Longrightarrow> work t \<le> work s"
  by (auto simp: other_step_def work_def elim!: signal_cases client_cases)

lemma run_work: "process_run ipmi_stops s k t \<Longrightarrow> k + work t \<le> work s"
  by (induction rule: process_run.induct) (auto dest: own_work other_work)

lemma work_bound: "work s \<le> 6"
  by (cases "pr_main s"; cases "pr_goroutine s") (simp_all add: work_def)

lemma run_ctx_done: "process_run ipmi_stops s k t \<Longrightarrow> pr_ctx_done s \<Longrightarrow> pr_ctx_done t"
  by (induction rule: process_run.induct)
    (auto simp: own_step_def other_step_def elim!: serve_cases stop_cases signal_cases client_cases)

lemma progress:
  assumes "process_inv s" and "pr_ctx_done s" and "alive s" and "pr_main s = StopIpmi \<Longrightarrow> ipmi_stops (pr_commands s)"
  shows "\<exists>t. own_step ipmi_stops s t"
proof (cases "pr_main s")
  case ShutdownServer
  with assms(1) have "pr_in_shutdown s" by (simp add: process_inv_def)
  then show ?thesis
    using ShutdownServer assms stop_step.idle [of s] stop_step.expired [of s] serve_step.closed [of s]
    unfolding own_step_def by (cases "pr_goroutine s = Accepting"; cases "pr_in_flight s = 0") auto
next
  case AwaitServer
  with assms(1) have "pr_in_shutdown s" by (simp add: process_inv_def)
  then show ?thesis
    using AwaitServer assms(3) stop_step.returns [of s] serve_step.closed [of s] unfolding own_step_def by blast
qed (use assms stop_step.cancelled [of s] stop_step.ipmi_stopped [of s] in \<open>auto simp: own_step_def alive_def\<close>)

lemma command_ends:
  assumes "alive s" and "0 < pr_commands s"
  shows "\<exists>t. other_step s t \<and> pr_commands t < pr_commands s"
proof -
  obtain n where n: "pr_commands s = Suc n" using assms(2) by (cases "pr_commands s") auto
  then have "other_step s (s\<lparr>pr_commands := n\<rparr>)"
    using assms(1) client_step.served_command by (simp add: other_step_def)
  with n show ?thesis by (intro exI [of _ "s\<lparr>pr_commands := n\<rparr>"]) simp
qed

text \<open>C36. Stopping the agent terminates: once an interrupt has cancelled the context, however requests, IPMI
  commands, answers and further signals interleave with it and however long a request takes, the process
  takes at most six steps of its own, and before it has returned or been killed it is never stuck but where
  goipmi's \<open>Stop\<close> waits for the IPMI commands still being served, each of which can end.  Where that
  \<open>Stop\<close> does not wait, the process is never stuck.\<close>

theorem shutdown_terminates:
  assumes "process_run ipmi_stops started k s" and "pr_ctx_done s" and "process_run ipmi_stops s n t" and "ipmi_stops 0"
  shows "n \<le> 6
    \<and> (alive t \<longrightarrow> (\<exists>t'. own_step ipmi_stops t t')
        \<or> pr_main t = StopIpmi \<and> \<not> ipmi_stops (pr_commands t) \<and> (\<exists>t'. other_step t t' \<and> pr_commands t' < pr_commands t))
    \<and> (alive t \<longrightarrow> (\<forall>i. ipmi_stops i) \<longrightarrow> (\<exists>t'. own_step ipmi_stops t t'))"
proof -
  have "process_inv started" by (simp add: process_inv_def started_def)
  then have inv: "process_inv t" using process_run_inv assms(1,3) by blast
  have ctx: "pr_ctx_done t" using run_ctx_done assms(2,3) by blast
  have "n \<le> 6" using run_work [OF assms(3)] work_bound [of s] by simp
  moreover have "0 < pr_commands t" if "\<not> ipmi_stops (pr_commands t)"
    using that assms(4) by (cases "pr_commands t") auto
  ultimately show ?thesis using progress [OF inv ctx] command_ends [of t] by blast
qed

lemma interrupted: "alive s \<Longrightarrow> \<not> pr_ctx_done s \<Longrightarrow> other_step s (s\<lparr>pr_ctx_done := True\<rparr>)"
  by (simp add: other_step_def signal_step.interrupt)

lemma interrupted_run: "process_run ipmi_stops started 0 (started\<lparr>pr_ctx_done := True\<rparr>)"
  by (rule process_run.other [OF process_run.start interrupted]) (simp_all add: alive_def started_def)

text \<open>With a \<open>Stop\<close> that waits for all commands.\<close>

theorem shutdown_terminates_witness: "\<exists>t. own_step (\<lambda>n. n = 0) (started\<lparr>pr_ctx_done := True\<rparr>) t"
proof -
  have "alive (started\<lparr>pr_ctx_done := True\<rparr>)" "pr_main (started\<lparr>pr_ctx_done := True\<rparr>) \<noteq> StopIpmi"
    by (simp_all add: alive_def started_def)
  with shutdown_terminates [OF interrupted_run _ process_run.start, of "\<lambda>n. n = 0"] show ?thesis by simp
qed

section \<open>What stopping does not wait for\<close>

lemma serving_run:
  "process_run ipmi_stops started 1 (started\<lparr>pr_goroutine := Accepting, pr_in_flight := n\<rparr>)"
proof (induction n)
  case 0
  have "own_step ipmi_stops started (started\<lparr>pr_goroutine := Accepting\<rparr>)"
    using serve_step.listens [of started] by (simp add: own_step_def alive_def started_def)
  from process_run.own [OF process_run.start this] show ?case by (simp add: started_def)
next
  case (Suc n)
  have "other_step (started\<lparr>pr_goroutine := Accepting, pr_in_flight := n\<rparr>)
      (started\<lparr>pr_goroutine := Accepting, pr_in_flight := Suc n\<rparr>)"
    using client_step.request [of "started\<lparr>pr_goroutine := Accepting, pr_in_flight := n\<rparr>"]
    by (simp add: other_step_def alive_def started_def)
  with Suc show ?case by (rule process_run.other)
qed

text \<open>The way down from any state in which the agent serves \<open>n\<close> requests when the interrupt comes.\<close>

fun stopping :: "nat \<Rightarrow> process list" where
  "stopping n =
     (let s = started\<lparr>pr_ctx_done := True, pr_goroutine := Accepting, pr_in_flight := n\<rparr>;
          s1 = s\<lparr>pr_main := StopIpmi\<rparr>;
          s2 = s1\<lparr>pr_main := ShutdownServer, pr_in_shutdown := True\<rparr>;
          s3 = s2\<lparr>pr_goroutine := Finished\<rparr>;
          s4 = s3\<lparr>pr_main := AwaitServer, pr_printed := if n = 0 then [] else [''context canceled'']\<rparr>
      in [s, s1, s2, s3, s4, s4\<lparr>pr_main := Returned\<rparr>])"

lemma stopping_steps: "ipmi_stops 0 \<Longrightarrow> successively (own_step ipmi_stops) (stopping n)"
  using stop_step.cancelled [of "stopping n ! 0"] stop_step.ipmi_stopped [of "stopping n ! 1"]
    serve_step.closed [of "stopping n ! 2"] stop_step.idle [of "stopping n ! 3"] stop_step.expired [of "stopping n ! 3"]
    stop_step.returns [of "stopping n ! 4"]
  by (cases "n = 0") (simp_all add: Let_def own_step_def alive_def started_def)

lemma run_along:
  "successively (own_step ipmi_stops) (s # ss) \<Longrightarrow> process_run ipmi_stops s0 k s \<Longrightarrow> process_run ipmi_stops s0 (k + length ss) (last (s # ss))"
proof (induction ss arbitrary: s k)
  case (Cons t ss)
  then have "process_run ipmi_stops s0 (Suc k) t" by (auto intro: process_run.own)
  with Cons.IH [of t "Suc k"] Cons.prems show ?case by simp
qed simp

text \<open>Stopping is not graceful: the context given to the shutdown of the server is the one whose end
  caused it, so the shutdown never waits.  However many requests are being served when the interrupt
  comes, the agent can return with all of them unanswered.  And a server that cannot listen is
  only reported: the agent keeps running without its Redfish service until it is stopped.\<close>

lemma shutdown_drops_requests:
  assumes "ipmi_stops 0"
  shows "(\<exists>k s. process_run ipmi_stops started k s \<and> pr_main s = Returned \<and> pr_in_flight s = n)
   \<and> (\<exists>k s. process_run ipmi_stops started k s \<and> pr_main s = AwaitDone \<and> \<not> pr_ctx_done s \<and> pr_goroutine s = Finished
        \<and> \<not> (\<exists>t. own_step ipmi_stops s t))"
proof
  let ?serving = "started\<lparr>pr_goroutine := Accepting, pr_in_flight := n\<rparr>"
  have "other_step ?serving (?serving\<lparr>pr_ctx_done := True\<rparr>)"
    by (rule interrupted) (simp_all add: alive_def started_def)
  with serving_run have "process_run ipmi_stops started 1 (hd (stopping n))"
    by (auto simp: Let_def started_def intro: process_run.other)
  moreover have "stopping n = hd (stopping n) # tl (stopping n)" by (simp add: Let_def)
  ultimately have "process_run ipmi_stops started (1 + length (tl (stopping n))) (last (stopping n))"
    using run_along [where s = "hd (stopping n)" and ss = "tl (stopping n)" and s0 = started and k = 1] stopping_steps [where ipmi_stops = ipmi_stops and n = n] assms by simp
  moreover have "pr_main (last (stopping n)) = Returned" "pr_in_flight (last (stopping n)) = n"
    by (simp_all add: Let_def)
  ultimately show "\<exists>k s. process_run ipmi_stops started k s \<and> pr_main s = Returned \<and> pr_in_flight s = n" by blast
next
  let ?s = "started\<lparr>pr_goroutine := Finished, pr_printed := [''address already in use'']\<rparr>"
  have "own_step ipmi_stops started ?s"
    using serve_step.fails [of started "''address already in use''"] by (simp add: own_step_def alive_def started_def)
  then have "process_run ipmi_stops started 1 ?s"
    using process_run.own [OF process_run.start] by simp
  moreover have "\<not> own_step ipmi_stops ?s t" for t
    by (auto simp: own_step_def started_def elim!: serve_cases stop_cases)
  ultimately show "\<exists>k s. process_run ipmi_stops started k s \<and> pr_main s = AwaitDone \<and> \<not> pr_ctx_done s \<and> pr_goroutine s = Finished
      \<and> \<not> (\<exists>t. own_step ipmi_stops s t)"
    by (intro exI [of _ 1] exI [of _ ?s]) (simp add: started_def)
qed

end
