(* ===== verification/ManagerCommand.thy ===== *)
theory ManagerCommand
  imports ControlPlane
begin

text \<open>
  cmd/controller/main.go and the \<open>SetupWithManager\<close> methods: the controller manager from its flags to its
  start.  Every call of controller-runtime that can fail is a value of \<open>runtime_call\<close>; what a
  call does is a parameter (\<open>rt_call\<close>), as are the client and the library functions the manager hands
  to the reconcilers.  Logging and the parsing of the flags are outside.
\<close>

section \<open>Flags\<close>

record flags =
  fl_metricsAddr :: string
  fl_probeAddr :: string
  fl_secureMetrics :: bool
  fl_enableHTTP2 :: bool
  fl_enableLeaderElection :: bool
  fl_agentImageName :: string
  fl_agentImageTag :: string
  fl_showVersion :: bool

definition default_flags :: "string \<Rightarrow> flags" where
  "default_flags AppVersion =
     \<lparr>fl_metricsAddr = '':8443'', fl_probeAddr = '':8081'', fl_secureMetrics = True, fl_enableHTTP2 = False,
      fl_enableLeaderElection = False, fl_agentImageName = VirtBMCImageName, fl_agentImageTag = AppVersion,
      fl_showVersion = False\<rparr>"

section \<open>Calls of the runtime\<close>

text \<open>The part of a TLS configuration that the command changes.\<close>

record tls_config =
  NextProtos :: "string list"

type_synonym tls_option = "tls_config \<Rightarrow> tls_config"

record manager_options =
  mo_BindAddress :: string
  mo_SecureServing :: bool
  mo_MetricsTLSOpts :: "tls_option list"
  mo_AuthFilter :: bool
  mo_WebhookTLSOpts :: "tls_option list"
  mo_HealthProbeBindAddress :: string
  mo_LeaderElection :: bool
  mo_LeaderElectionID :: string

datatype 'w target = BmcTarget "'w reconciler" | ServiceTarget "'w service_reconciler"

record 'w controller_setup =
  co_For :: string
  co_Owns :: "string list"
  co_Watches :: "string list"
  co_Target :: "'w target"

datatype 'w runtime_call =
    GetConfigOrDie
  | NewManager manager_options
  | IndexField string string "ObjectMeta \<Rightarrow> string list"
  | CompleteController "'w controller_setup"
  | CompleteWebhook string "'w validator"
  | AddHealthzCheck string
  | AddReadyzCheck string
  | StartManager

record ('g, 'w) runtime =
  rt_call :: "'w runtime_call \<Rightarrow> ('g, unit) op"
  rt_reconciler :: "'w reconciler"

section \<open>Setting up\<close>

definition ownerKey :: string where
  "ownerKey = ''.metadata.controller''"

definition bmc_SetupWithManager :: "('g, 'w) runtime \<Rightarrow> 'w reconciler \<Rightarrow> ('g, unit) op" where
  "bmc_SetupWithManager rt r =
     andThen (rt_call rt (IndexField ''Pod'' ownerKey controllerIndex)) (\<lambda>_.
     andThen (rt_call rt (IndexField ''Service'' ownerKey controllerIndex)) (\<lambda>_.
     rt_call rt (CompleteController
       \<lparr>co_For = ''VirtualMachineBMC'', co_Owns = [''Pod'', ''Service'', ''ServiceAccount'', ''RoleBinding''],
        co_Watches = [''VirtualMachine'', ''Secret''], co_Target = BmcTarget r\<rparr>)))"

definition service_SetupWithManager :: "('g, 'w) runtime \<Rightarrow> 'w service_reconciler \<Rightarrow> ('g, unit) op" where
  "service_SetupWithManager rt s =
     rt_call rt (CompleteController \<lparr>co_For = ''Service'', co_Owns = [], co_Watches = [], co_Target = ServiceTarget s\<rparr>)"

definition SetupVirtualMachineBMCWebhookWithManager :: "('g, 'w) runtime \<Rightarrow> ('g, unit) op" where
  "SetupVirtualMachineBMCWebhookWithManager rt =
     rt_call rt (CompleteWebhook ''VirtualMachineBMC'' \<lparr>val_Client = rec_Client (rt_reconciler rt)\<rparr>)"

definition disableHTTP2 :: tls_option where
  "disableHTTP2 c = c\<lparr>NextProtos := [''http/1.1'']\<rparr>"

definition manager_config :: "flags \<Rightarrow> manager_options" where
  "manager_config fl =
     (let tlsOpts = (if fl_enableHTTP2 fl then [] else [disableHTTP2]) in
      \<lparr>mo_BindAddress = fl_metricsAddr fl, mo_SecureServing = fl_secureMetrics fl, mo_MetricsTLSOpts = tlsOpts,
       mo_AuthFilter = fl_secureMetrics fl, mo_WebhookTLSOpts = tlsOpts, mo_HealthProbeBindAddress = fl_probeAddr fl,
       mo_LeaderElection = fl_enableLeaderElection fl, mo_LeaderElectionID = ''5e66b2cf.kubevirt.io''\<rparr>)"

text \<open>\<open>if err != nil { os.Exit(1) }\<close>; the result of the command is its exit code.\<close>

definition or_exit :: "('g, unit) op \<Rightarrow> ('g, nat) op \<Rightarrow> ('g, nat) op" where
  "or_exit call rest = attempt call (\<lambda>_. ret 1) (\<lambda>_. rest)"

definition controller_main :: "('g, 'w) runtime \<Rightarrow> flags \<Rightarrow> ('g, nat) op" where
  "controller_main rt fl =
     (if fl_showVersion fl then ret 0
      else
        or_exit (rt_call rt GetConfigOrDie)
       (or_exit (rt_call rt (NewManager (manager_config fl)))
       (or_exit (bmc_SetupWithManager rt
          ((rt_reconciler rt)\<lparr>AgentImageName := fl_agentImageName fl, AgentImageTag := fl_agentImageTag fl\<rparr>))
       (or_exit (service_SetupWithManager rt
          \<lparr>sr_Client = rec_Client (rt_reconciler rt), sr_SetStatusCondition = rec_SetStatusCondition (rt_reconciler rt)\<rparr>)
       (or_exit (SetupVirtualMachineBMCWebhookWithManager rt)
       (or_exit (rt_call rt (AddHealthzCheck ''healthz''))
       (or_exit (rt_call rt (AddReadyzCheck ''readyz''))
       (or_exit (rt_call rt StartManager) (ret 0)))))))))"

section \<open>The plan\<close>

text \<open>The calls of a start in which nothing fails.\<close>

definition startup_plan :: "('g, 'w) runtime \<Rightarrow> flags \<Rightarrow> 'w runtime_call list" where
  "startup_plan rt fl =
     [GetConfigOrDie, NewManager (manager_config fl),
      IndexField ''Pod'' ownerKey controllerIndex, IndexField ''Service'' ownerKey controllerIndex,
      CompleteController
        \<lparr>co_For = ''VirtualMachineBMC'', co_Owns = [''Pod'', ''Service'', ''ServiceAccount'', ''RoleBinding''],
         co_Watches = [''VirtualMachine'', ''Secret''],
         co_Target = BmcTarget
           ((rt_reconciler rt)\<lparr>AgentImageName := fl_agentImageName fl, AgentImageTag := fl_agentImageTag fl\<rparr>)\<rparr>,
      CompleteController
        \<lparr>co_For = ''Service'', co_Owns = [], co_Watches = [],
         co_Target = ServiceTarget
           \<lparr>sr_Client = rec_Client (rt_reconciler rt), sr_SetStatusCondition = rec_SetStatusCondition (rt_reconciler rt)\<rparr>\<rparr>,
      CompleteWebhook ''VirtualMachineBMC'' \<lparr>val_Client = rec_Client (rt_reconciler rt)\<rparr>,
      AddHealthzCheck ''healthz'', AddReadyzCheck ''readyz'', StartManager]"

fun run_calls :: "('c \<Rightarrow> ('g, unit) op) \<Rightarrow> 'c list \<Rightarrow> ('g, nat) op" where
  "run_calls call [] = ret 0"
| "run_calls call (c # cs) = or_exit (call c) (run_calls call cs)"

lemma or_exit_andThen: "or_exit (andThen m (\<lambda>_. n)) rest = or_exit m (or_exit n rest)"
  by (rule ext) (simp add: or_exit_def andThen_def attempt_def split: prod.split outcome.split)

lemma controller_main_plan:
  "controller_main rt fl = (if fl_showVersion fl then ret 0 else run_calls (rt_call rt) (startup_plan rt fl))"
  by (simp add: controller_main_def startup_plan_def bmc_SetupWithManager_def service_SetupWithManager_def
      SetupVirtualMachineBMCWebhookWithManager_def or_exit_andThen)

text \<open>A runtime remembers the calls it has accepted; a call it refuses has no effect on them.\<close>

definition remembers :: "('g \<Rightarrow> 'c list) \<Rightarrow> ('c \<Rightarrow> ('g, unit) op) \<Rightarrow> bool" where
  "remembers accepted call \<longleftrightarrow>
     (\<forall>c g r g'. call c g = (r, g') \<longrightarrow>
        r = Ok () \<and> accepted g' = accepted g @ [c] \<or> (\<exists>e. r = Err e) \<and> accepted g' = accepted g)"

lemma run_calls_prefix:
  assumes "remembers accepted call" and "run_calls call cs g = (x, g')"
  shows "\<exists>k \<le> length cs. accepted g' = accepted g @ take k cs \<and> x = Ok (if k = length cs then 0 else 1)"
  using assms(2)
proof (induction cs arbitrary: g)
  case (Cons c cs)
  obtain r t where c: "call c g = (r, t)" by force
  with assms(1) consider "r = Ok ()" "accepted t = accepted g @ [c]" | e where "r = Err e" "accepted t = accepted g"
    unfolding remembers_def by blast
  then show ?case
  proof cases
    case 1
    with Cons.prems c have "run_calls call cs t = (x, g')" by (simp add: or_exit_def attempt_def)
    from Cons.IH [OF this] obtain k where "k \<le> length cs" "accepted g' = accepted t @ take k cs"
      "x = Ok (if k = length cs then 0 else 1)" by blast
    with 1 show ?thesis by (intro exI [of _ "Suc k"]) simp
  next
    case 2
    with Cons.prems c show ?thesis by (intro exI [of _ 0]) (simp add: or_exit_def attempt_def)
  qed
qed simp

text \<open>C16. The controller manager starts with everything in place or not at all: asked for its version the command
  exits with 0 and touches nothing; otherwise it makes the calls of the plan in order (manager,
  indexes, the BMC controller with the agent image of the flags, the service controller, the webhook, both
  probes, start), stops with exit code 1 at the first that is refused, and exits with 0 only when all of
  them, the start last, have succeeded.  It never panics.\<close>

theorem manager_starts_complete:
  assumes "remembers accepted (rt_call rt)" and "controller_main rt fl g = (x, g')"
  shows "if fl_showVersion fl then x = Ok 0 \<and> g' = g
    else \<exists>k \<le> length (startup_plan rt fl). accepted g' = accepted g @ take k (startup_plan rt fl)
      \<and> x = Ok (if k = length (startup_plan rt fl) then 0 else 1)"
proof (cases "fl_showVersion fl")
  case False
  with assms(2) have "run_calls (rt_call rt) (startup_plan rt fl) g = (x, g')" by (simp add: controller_main_plan)
  with run_calls_prefix [OF assms(1)] False show ?thesis by simp
qed (use assms(2) in \<open>simp add: controller_main_plan\<close>)

text \<open>A runtime that keeps the accepted calls as its state and refuses webhooks.\<close>

definition no_webhooks :: "'w reconciler \<Rightarrow> ('w runtime_call list, 'w) runtime" where
  "no_webhooks r =
     \<lparr>rt_call = (\<lambda>c g. case c of CompleteWebhook _ _ \<Rightarrow> (Err (PlainError ''no webhook server''), g) | _ \<Rightarrow> (Ok (), g @ [c])),
      rt_reconciler = r\<rparr>"

lemma no_webhooks_remembers: "remembers (\<lambda>g. g) (rt_call (no_webhooks r))"
  by (auto simp: remembers_def no_webhooks_def split: runtime_call.splits)

theorem manager_starts_complete_witness:
  "\<exists>k. snd (controller_main (no_webhooks demo_rec) (default_flags ''dev'') [])
       = take k (startup_plan (no_webhooks demo_rec) (default_flags ''dev''))
     \<and> StartManager \<notin> set (take k (startup_plan (no_webhooks demo_rec) (default_flags ''dev'')))"
proof -
  let ?rt = "no_webhooks demo_rec" and ?fl = "default_flags ''dev''"
  obtain x g' where run: "controller_main ?rt ?fl [] = (x, g')" by force
  have g': "StartManager \<notin> set g'"
    using run by (auto simp: controller_main_plan startup_plan_def no_webhooks_def default_flags_def or_exit_def attempt_def)
  have "\<not> fl_showVersion ?fl" by (simp add: default_flags_def)
  with manager_starts_complete [OF no_webhooks_remembers run] run g' show ?thesis by auto
qed

end
