(* ===== verification/Spec2Isabelle.thy ===== *)
theory Spec2Isabelle
  imports Deployment RouteTable AgentLifecycle ManagerCommand
begin

text \<open>
  KubeVirtBMC gives KubeVirt virtual machines a baseboard management controller (BMC): an agent
  that answers IPMI and Redfish requests by acting on the machine through the Kubernetes API, and a
  control plane that runs one agent for every VirtualMachineBMC object.  This development models
  both in Isabelle/HOL and proves what makes them correct.

  \<^bold>\<open>The program.\<close>  A user creates a VirtualMachineBMC that names a virtual machine and a secret.  The
  admission webhook (internal/webhook) checks both references.  The VirtualMachineBMC controller
  (internal/controller/virtualmachinebmc) creates a pod, a service, a service account and a role
  binding for it, and the service controller (internal/controller/service) publishes the address
  of the service in its status.  In the pod runs the agent (cmd/virtbmc, pkg/virtbmc): one resource
  manager (pkg/resourcemanager) behind two front ends, the IPMI simulator (pkg/ipmi) and the
  Redfish server (pkg/redfish, pkg/generated/redfish/server), the latter behind an authentication
  middleware with a token store (pkg/session).

  \<^bold>\<open>Conventions.\<close>  A function that may fail or panic is a state-passing operation whose outcome is
  \<open>Ok\<close>, \<open>Err\<close> or \<open>Panic\<close> (Prelude); \<open>attempt\<close> and \<open>andThen\<close> are Go's two ways to treat an error.
  Nil dereferences and out-of-range indices are panics.  A slice whose nilness matters is an
  optional list, a pointer an option, an enumeration of the generated Redfish model a string (so that
  values outside it exist).  Everything outside the repository is a parameter: the Kubernetes,
  KubeVirt and CDI clients are records of operations on an arbitrary world, whose documented
  behaviour is a hypothesis on an observable \<open>view\<close> of it (\<open>vm_api\<close>, \<open>k8s_api\<close>: an answered call
  has the effect of its verb, a refused one has none; \<open>vm_api_live\<close>, \<open>k8s_live\<close>: no refusal
  without a reason).  Both hypotheses are met by the in-memory servers (\<open>mem_client\<close> in VmCluster,
  \<open>mem_k8s\<close> in K8sMemory) on which the concrete instances of the theorems run.

  \<^bold>\<open>Theories, bottom up.\<close>
  \<^item> Prelude: outcomes, sequencing, preservation, calls of an API server, rendering of numbers and
    quoted strings.  Runs: a Hoare logic for operations on an API server, in which one triple gives the
    effect, the state after an error and, on an answering server, success.  Controller: the contract
    \<open>level_controller\<close> of a level-triggered controller.
  \<^item> Sha256, Session (pkg/session/token.go): SHA-256 and hexadecimal encoding in full, the token
    store, a map, with its contract \<open>token_store\<close>: an issued token stays valid until it is revoked;
    the shape of the tokens; the middleware.
  \<^item> Schema, SystemSchema, DocumentSchema, ServiceSchema (generated server, model_*.go): the Redfish
    data model, a record with its zero value and its two assertion functions for every struct the
    served services reach, a table for every enumeration.  SystemRules: the assertion functions of a
    system document as scans of two flat lists, exactly what they report (\<open>constraints_exactly\<close>,
    \<open>required_exactly\<close>), and the agreement of the enumeration tables.
  \<^item> Http, KubeVirt, Util, Builder, Resources: requests and responses, the objects of KubeVirt and
    CDI, pkg/util/helper.go, pkg/builder, the Redfish resources of pkg/resourcemanager with the
    contract \<open>odata_resource\<close>.  Documents: the enumerated values of an encoded document, struct by
    struct; when a document conforms to the data model, and that new documents and setters do, but for
    the timeout action the system document lacks.
  \<^item> ResourceManager, VmResourceManager (pkg/resourcemanager): the interface as the locale
    \<open>resource_manager\<close>, whose lemmas the front ends use, and its implementation, which interprets it.
    VmCluster and VmMedia: what the operations do to the cluster (power, boot order, virtual media),
    with their failures; inserting and ejecting an image restores the cluster.
  \<^item> Ipmi (pkg/ipmi): the three handlers and the dispatch.  RedfishHandler, RedfishApi (pkg/redfish):
    the handler and the service methods.  ControllerSteps, StubControllers, Controllers (generated
    server, api_default.go, error.go): decoding, checks and answers of a request, the controllers of
    the twenty-nine routes beside the implemented ones, and those of the implemented ones.
    RedfishServer (routers.go, pkg/redfish/emulator.go): router, authentication, and histories of
    requests with the safety theorems.
  \<^item> Agent (cmd/virtbmc, pkg/virtbmc): clients, start-up, the running agent as a step relation \<open>agent_run\<close>,
    its invariant, the Redfish actions with their effect on the cluster, and the agreement of the two
    front ends.  SchemaRoutes: the published documents in every history of the agent, the routes without an
    implementation and what they answer to a document, the patch of a system.
    AgentLifecycle: signals, serving and shutdown as interleaved steps, with goipmi's \<open>Stop\<close> as a parameter.
  \<^item> Routing (routers.go): routes, patterns and paths, what the program relies on of gorilla/mux
    (\<open>documented_mux\<close>), registration in the random order of a Go map (\<open>NewRouter\<close>), and the executable
    test that an entry is apart from the served ones (\<open>settled\<close>).  RoutesComposition, RoutesBlocks,
    RoutesSystems, RoutesChassis, RoutesPlant, RoutesServices (api_default.go): the 4034 entries of the
    table, grouped below their common paths, each group settled.
  \<^item> Operations, and ControllersComposition to ControllersServices (api_default.go): what each of the
    4033 controllers asks of a request before it calls the service, in the groups of the routes, and
    that its path variables are those of the pattern (\<open>aligned\<close>).  ServiceMethods, and StubsComposition
    to StubsServices (pkg/redfish/api_service.go): the 4017 methods that answer 501, and that every
    handler is implemented or one of them (\<open>covered\<close>).  RouteTable: the three tables as a whole, and
    requests by method and path.
  \<^item> BmcTypes, K8sMemory (api/bmc/v1beta1, constant.go): the resource, the Kubernetes objects, the
    client and its behaviour, a server in memory.  BmcController: the functions of the
    VirtualMachineBMC controller.  BmcReconcile: the specification \<open>reconcile_spec\<close> with its stages and
    the refinement.  BmcLifecycle: its properties.  ServiceController, Webhook: the other two parts,
    functions first, then specification and properties.  ControlPlane: the three together, from
    admission to readiness, and the long run of both controllers.
  \<^item> ManagerCommand (cmd/controller, the \<open>SetupWithManager\<close> methods): the controller manager from its
    flags to its start.  Deployment: the pod the control plane builds runs the agent of its machine.

  \<^bold>\<open>What the theorems show.\<close>  Each property carries an identifier C1 to C40 in the text before it.
  Control plane: reconciliation refines its specification under any errors of the server, creates
  only for existing machines and secrets, converges in two rounds, withdraws the agent when a
  reference disappears, and in every history of both controllers loses nothing; an admitted BMC comes
  up with address and conditions.  Agent: in whatever order
  the routes are registered, a request for a served endpoint reaches its handler, any other has no
  effect, and no endpoint but the public ones acts without authorisation; live tokens
  were issued by log-ins, the documents stay consistent in every history of requests, commands and
  foreign changes and keep to the data model but for one missing field; every operation is described
  on each branch with its effect on the cluster, and the two front ends agree.  Some properties pin down defects: a session deleted by its identifier keeps
  its token, failed media operations leave debris, a BMC without a machine reference crashes the
  reconciler, two BMCs of one machine share (and lose) their pod, and a patch of anything but the boot
  override is accepted and ignored.

  \<^bold>\<open>Termination.\<close>  The agent serves until it is interrupted; stopping takes at most six steps of its own, and can
  wait for nothing but goipmi's \<open>Stop\<close> (\<open>shutdown_terminates\<close>).  The program has no other unbounded loop; loops over slices are structural
  recursions and need no fuel.  The SHA-256 rounds are bounded by the block
  count.  The event loops of the libraries are histories: lists of requests, events or keys of any length.

  \<^bold>\<open>Not modelled.\<close>  Sockets, logging and flag parsing are I/O; the client
  libraries and controller-runtime are parameters.  Goipmi, the mux and JSON decoding are
  parameters, the mux with its documented behaviour as a hypothesis.  Locking and concurrent handlers on the shared documents are modelled as atomic
  operations in any order.  The generated Redfish server is modelled with all its routes, controllers
  and service methods; the body types that only stubs accept are known by name, their decoding and
  their two checks are parameters (\<open>body_checks\<close>) that report parsing or required-field errors, as every
  check of the generator does, and their structs are left out.  So are the
  time stamps of conditions and fields of Kubernetes objects no code reads, and the helpers of
  routers.go for query parameters and uploaded files, which nothing calls.
\<close>

end
